(* ===== verification/Rzi_Prelude.thy ===== *)
theory Rzi_Prelude
  imports Main "HOL-Library.Word"
begin

unbundle bit_operations_syntax

text \<open>
  Shared vocabulary of the development.

  \<^item> Machine integers: the C types \<^verbatim>\<open>uint8_t\<close>, \<^verbatim>\<open>uint16_t\<close> and \<^verbatim>\<open>uint32_t\<close> are words
    of that width; \<^verbatim>\<open>int\<close> return codes are \<open>int\<close>; \<^verbatim>\<open>size_t\<close> is \<open>nat\<close>.
  \<^item> Pointers: an argument that may be \<^verbatim>\<open>NULL\<close> is an \<open>option\<close>; an output pointer is the
    cell it points to, so a call maps the old cell to the new one and an untouched output
    is literally the same cell.
  \<^item> Operations: a C function that changes global state and returns a code is an \<open>op\<close>, a
    function from the state to the code and the next state. A mutex-protected body is one
    such step.
  \<^item> Little-endian byte images, as the records and the settings store them.
\<close>

section \<open>Types and collections\<close>

type_synonym u8 = "8 word"
type_synonym u16 = "16 word"
type_synonym u32 = "32 word"
type_synonym bytes = "8 word list"

type_synonym 's op = "'s \<Rightarrow> int \<times> 's"
type_synonym ('s, 'a) getter = "'a option \<Rightarrow> 's \<Rightarrow> int \<times> 'a option \<times> 's"

named_theorems keep_intros \<open>preservation rules of operations\<close>
named_theorems op_defs \<open>the sequencing combinators\<close>

section \<open>Sequencing of fallible operations\<close>

text \<open>
  \<^verbatim>\<open>rc = f(); if (rc != 0) return rc; ...\<close> is \<open>seq_ok\<close>; a call into another component
  that owns part of the caller's state is \<open>on_part\<close>.
\<close>

definition seq_ok :: "'s op \<Rightarrow> 's op \<Rightarrow> 's op" where
  [op_defs]: "seq_ok m k s = (case m s of (rc, t) \<Rightarrow> if rc \<noteq> 0 then (rc, t) else k t)"

definition on_part :: "('s \<Rightarrow> 't) \<Rightarrow> ('t \<Rightarrow> 's \<Rightarrow> 's) \<Rightarrow> 't op \<Rightarrow> 's op" where
  [op_defs]: "on_part get put m s = (case m (get s) of (rc, t) \<Rightarrow> (rc, put t s))"

lemma seq_ok_zero: "fst (m s) = 0 \<Longrightarrow> seq_ok m k s = k (snd (m s))"
  by (auto simp: seq_ok_def split: prod.splits)

lemma seq_ok_fail: "fst (m s) \<noteq> 0 \<Longrightarrow> seq_ok m k s = m s"
  by (auto simp: seq_ok_def split: prod.splits)

lemma fst_seq_ok_zeroD:
  "fst (seq_ok m k s) = 0 \<Longrightarrow> fst (m s) = 0 \<and> fst (k (snd (m s))) = 0"
  by (auto simp: seq_ok_def split: prod.splits if_splits)

lemma snd_on_part: "snd (on_part get put m s) = put (snd (m (get s))) s"
  by (simp add: on_part_def split: prod.splits)

lemma fst_on_part: "fst (on_part get put m s) = fst (m (get s))"
  by (simp add: on_part_def split: prod.splits)

section \<open>Preservation\<close>

text \<open>An operation keeps a predicate of the state, whatever code it returns.\<close>

definition keeps :: "('s \<Rightarrow> bool) \<Rightarrow> 's op \<Rightarrow> bool" where
  "keeps I m \<longleftrightarrow> (\<forall>s. I s \<longrightarrow> I (snd (m s)))"

lemma keepsI: "(\<And>s. I s \<Longrightarrow> I (snd (m s))) \<Longrightarrow> keeps I m"
  by (simp add: keeps_def)

lemma keepsD: "keeps I m \<Longrightarrow> I s \<Longrightarrow> I (snd (m s))"
  by (simp add: keeps_def)

lemma keeps_pair: "keeps I m \<Longrightarrow> I s \<Longrightarrow> m s = (rc, t) \<Longrightarrow> I t"
  by (auto simp: keeps_def dest: spec [of _ s])

lemma keeps_seq_ok [keep_intros]:
  assumes "keeps I m" and "keeps I k"
  shows "keeps I (seq_ok m k)"
proof (rule keepsI)
  fix s assume "I s"
  with assms(1) have "I (snd (m s))" by (rule keepsD)
  with assms(2) have "I (snd (k (snd (m s))))" by (rule keepsD)
  with \<open>I (snd (m s))\<close> show "I (snd (seq_ok m k s))"
    by (auto simp: seq_ok_def split: prod.splits)
qed

lemma keeps_if [keep_intros]:
  "keeps I m \<Longrightarrow> keeps I k \<Longrightarrow> keeps I (\<lambda>s. if b s then m s else k s)"
  by (simp add: keeps_def)

lemma keeps_return [keep_intros]: "keeps I (\<lambda>s. (rc s, s))"
  by (simp add: keeps_def)

section \<open>Little-endian images\<close>

definition put_le16 :: "u16 \<Rightarrow> bytes" where
  "put_le16 w = [ucast w, ucast (drop_bit 8 w)]"

definition put_le32 :: "u32 \<Rightarrow> bytes" where
  "put_le32 w =
     [ucast w, ucast (drop_bit 8 w), ucast (drop_bit 16 w), ucast (drop_bit 24 w)]"

fun get_le16 :: "bytes \<Rightarrow> u16" where
  "get_le16 (a # b # _) = ucast a OR push_bit 8 (ucast b)"
| "get_le16 _ = 0"

fun get_le32 :: "bytes \<Rightarrow> u32" where
  "get_le32 (a # b # c # d # _) =
     ucast a OR push_bit 8 (ucast b) OR push_bit 16 (ucast c) OR push_bit 24 (ucast d)"
| "get_le32 _ = 0"

lemma length_put_le [simp]: "length (put_le16 v) = 2" "length (put_le32 w) = 4"
  by (simp_all add: put_le16_def put_le32_def)

lemma get_put_le16 [simp]: "get_le16 (put_le16 w @ xs) = w"
  by (auto intro!: bit_word_eqI simp: put_le16_def bit_simps)

lemma get_put_le32 [simp]: "get_le32 (put_le32 w @ xs) = w"
proof (rule bit_word_eqI)
  fix n assume n: "n < LENGTH(32)"
  consider "n < 8" | "8 \<le> n" "n < 16" | "16 \<le> n" "n < 24" | "24 \<le> n" "n < 32"
    using n by (cases "n < 8"; cases "n < 16"; cases "n < 24") (auto simp: not_less)
  then show "bit (get_le32 (put_le32 w @ xs)) n \<longleftrightarrow> bit w n"
    by cases (auto simp: put_le32_def bit_simps)
qed

lemma bit_u8_high: "8 \<le> n \<Longrightarrow> \<not> bit (x :: u8) n"
  by (auto dest: bit_imp_le_length)

lemma put_get_le16:
  assumes "length bs = 2"
  shows "put_le16 (get_le16 bs) = bs"
proof -
  from assms obtain a b where "bs = [a, b]"
    by (auto simp: length_Suc_conv numeral_2_eq_2)
  then show ?thesis
    by (auto simp: put_le16_def bit_simps bit_u8_high intro!: bit_word_eqI)
qed

lemma put_get_le32:
  assumes "length bs = 4"
  shows "put_le32 (get_le32 bs) = bs"
proof -
  from assms obtain a b c d where "bs = [a, b, c, d]"
    by (auto simp: length_Suc_conv eval_nat_numeral)
  then show ?thesis
    by (auto simp: put_le32_def bit_simps bit_u8_high intro!: bit_word_eqI)
qed

section \<open>Lists\<close>

text \<open>Writing \<open>new\<close> at the start of a buffer that holds \<open>old\<close>, as \<^verbatim>\<open>memcpy\<close> does.\<close>

definition overlay :: "'a list \<Rightarrow> 'a list \<Rightarrow> 'a list" where
  "overlay new old = new @ drop (length new) old"

lemma overlay_full [simp]: "length old \<le> length new \<Longrightarrow> overlay new old = new"
  by (simp add: overlay_def)

lemma length_overlay [simp]: "length new \<le> length old \<Longrightarrow> length (overlay new old) = length old"
  by (simp add: overlay_def)

lemma take_overlay: "take (length new) (overlay new old) = new"
  by (simp add: overlay_def)

end
