(* ===== verification/Rzi_Err.thy ===== *)
theory Rzi_Err
  imports Rzi_Prelude
begin

text \<open>
  The closed error catalogue: \<^verbatim>\<open>include/rzi/err.h\<close> and \<^verbatim>\<open>src/common/common_err.c\<close>.
  Codes are the C integers. The \<^verbatim>\<open>errno\<close> numbers are those of the C library Zephyr builds
  against, in which \<^verbatim>\<open>EAGAIN\<close> and \<^verbatim>\<open>EWOULDBLOCK\<close> coincide and \<^verbatim>\<open>ENOTSUP\<close>, \<^verbatim>\<open>ENOSYS\<close>
  and \<^verbatim>\<open>EOPNOTSUPP\<close> differ, so every conditional case of the translation is present.
\<close>

section \<open>Codes\<close>

abbreviation (input) RZI_SUCCESS :: int where "RZI_SUCCESS \<equiv> 0"
abbreviation (input) RZI_ERR_INVALID :: int where "RZI_ERR_INVALID \<equiv> 1000"
abbreviation (input) RZI_ERR_ISR :: int where "RZI_ERR_ISR \<equiv> 1001"
abbreviation (input) RZI_ERR_NOT_READY :: int where "RZI_ERR_NOT_READY \<equiv> 1002"
abbreviation (input) RZI_ERR_ALREADY :: int where "RZI_ERR_ALREADY \<equiv> 1003"
abbreviation (input) RZI_ERR_BUSY :: int where "RZI_ERR_BUSY \<equiv> 1004"
abbreviation (input) RZI_ERR_NOT_SUPPORTED :: int where "RZI_ERR_NOT_SUPPORTED \<equiv> 1005"
abbreviation (input) RZI_ERR_NO_RESOURCE :: int where "RZI_ERR_NO_RESOURCE \<equiv> 1006"
abbreviation (input) RZI_ERR_NOT_FOUND :: int where "RZI_ERR_NOT_FOUND \<equiv> 1007"
abbreviation (input) RZI_ERR_NO_DATA :: int where "RZI_ERR_NO_DATA \<equiv> 1008"
abbreviation (input) RZI_ERR_TOO_LARGE :: int where "RZI_ERR_TOO_LARGE \<equiv> 1009"
abbreviation (input) RZI_ERR_TIMEOUT :: int where "RZI_ERR_TIMEOUT \<equiv> 1010"
abbreviation (input) RZI_ERR_OVERFLOW :: int where "RZI_ERR_OVERFLOW \<equiv> 1011"
abbreviation (input) RZI_ERR_IO :: int where "RZI_ERR_IO \<equiv> 1012"
abbreviation (input) RZI_ERR_BAD_MESSAGE :: int where "RZI_ERR_BAD_MESSAGE \<equiv> 1013"
abbreviation (input) RZI_ERR_NO_DEVICE :: int where "RZI_ERR_NO_DEVICE \<equiv> 1014"
abbreviation (input) RZI_ERR_NOT_JOINED :: int where "RZI_ERR_NOT_JOINED \<equiv> 1015"
abbreviation (input) RZI_ERR_DENIED :: int where "RZI_ERR_DENIED \<equiv> 1016"
abbreviation (input) RZI_ERR_INVALID_STATE :: int where "RZI_ERR_INVALID_STATE \<equiv> 1017"

abbreviation (input) EPERM :: int where "EPERM \<equiv> 1"
abbreviation (input) ENOENT :: int where "ENOENT \<equiv> 2"
abbreviation (input) EIO :: int where "EIO \<equiv> 5"
abbreviation (input) EAGAIN :: int where "EAGAIN \<equiv> 11"
abbreviation (input) ENOMEM :: int where "ENOMEM \<equiv> 12"
abbreviation (input) EACCES :: int where "EACCES \<equiv> 13"
abbreviation (input) EBUSY :: int where "EBUSY \<equiv> 16"
abbreviation (input) EEXIST :: int where "EEXIST \<equiv> 17"
abbreviation (input) ENODEV :: int where "ENODEV \<equiv> 19"
abbreviation (input) EINVAL :: int where "EINVAL \<equiv> 22"
abbreviation (input) ENOSPC :: int where "ENOSPC \<equiv> 28"
abbreviation (input) ENODATA :: int where "ENODATA \<equiv> 61"
abbreviation (input) EBADMSG :: int where "EBADMSG \<equiv> 77"
abbreviation (input) ENOSYS :: int where "ENOSYS \<equiv> 88"
abbreviation (input) ENAMETOOLONG :: int where "ENAMETOOLONG \<equiv> 91"
abbreviation (input) EOPNOTSUPP :: int where "EOPNOTSUPP \<equiv> 95"
abbreviation (input) ENETDOWN :: int where "ENETDOWN \<equiv> 115"
abbreviation (input) ETIMEDOUT :: int where "ETIMEDOUT \<equiv> 116"
abbreviation (input) EALREADY :: int where "EALREADY \<equiv> 120"
abbreviation (input) EMSGSIZE :: int where "EMSGSIZE \<equiv> 122"
abbreviation (input) ENOTSUP :: int where "ENOTSUP \<equiv> 134"
abbreviation (input) EOVERFLOW :: int where "EOVERFLOW \<equiv> 139"

section \<open>Operations\<close>

definition catalog_name :: "int \<Rightarrow> string option" where
  "catalog_name err =
     (if err = RZI_SUCCESS then Some ''RZI_SUCCESS''
      else if err = RZI_ERR_INVALID then Some ''RZI_ERR_INVALID''
      else if err = RZI_ERR_ISR then Some ''RZI_ERR_ISR''
      else if err = RZI_ERR_NOT_READY then Some ''RZI_ERR_NOT_READY''
      else if err = RZI_ERR_ALREADY then Some ''RZI_ERR_ALREADY''
      else if err = RZI_ERR_BUSY then Some ''RZI_ERR_BUSY''
      else if err = RZI_ERR_NOT_SUPPORTED then Some ''RZI_ERR_NOT_SUPPORTED''
      else if err = RZI_ERR_NO_RESOURCE then Some ''RZI_ERR_NO_RESOURCE''
      else if err = RZI_ERR_NOT_FOUND then Some ''RZI_ERR_NOT_FOUND''
      else if err = RZI_ERR_NO_DATA then Some ''RZI_ERR_NO_DATA''
      else if err = RZI_ERR_TOO_LARGE then Some ''RZI_ERR_TOO_LARGE''
      else if err = RZI_ERR_TIMEOUT then Some ''RZI_ERR_TIMEOUT''
      else if err = RZI_ERR_OVERFLOW then Some ''RZI_ERR_OVERFLOW''
      else if err = RZI_ERR_IO then Some ''RZI_ERR_IO''
      else if err = RZI_ERR_BAD_MESSAGE then Some ''RZI_ERR_BAD_MESSAGE''
      else if err = RZI_ERR_NO_DEVICE then Some ''RZI_ERR_NO_DEVICE''
      else if err = RZI_ERR_NOT_JOINED then Some ''RZI_ERR_NOT_JOINED''
      else if err = RZI_ERR_DENIED then Some ''RZI_ERR_DENIED''
      else if err = RZI_ERR_INVALID_STATE then Some ''RZI_ERR_INVALID_STATE''
      else None)"

definition rzi_err_str :: "int \<Rightarrow> string" where
  "rzi_err_str err =
     (let e = (if err < 0 then - err else err) in
      case catalog_name e of Some name \<Rightarrow> name | None \<Rightarrow> ''RZI_ERR_UNKNOWN'')"

definition rzi_err_from_errno :: "int \<Rightarrow> int" where
  "rzi_err_from_errno rc =
     (if rc \<ge> 0 then 0
      else if catalog_name (- rc) \<noteq> None then rc
      else if rc = - EINVAL then - RZI_ERR_INVALID
      else if rc = - EAGAIN then - RZI_ERR_NOT_READY
      else if rc = - EALREADY then - RZI_ERR_ALREADY
      else if rc = - EBUSY then - RZI_ERR_BUSY
      else if rc = - ENOTSUP \<or> rc = - ENOSYS \<or> rc = - EOPNOTSUPP then - RZI_ERR_NOT_SUPPORTED
      else if rc = - ENOMEM then - RZI_ERR_NO_RESOURCE
      else if rc = - ENOENT then - RZI_ERR_NOT_FOUND
      else if rc = - ENODATA then - RZI_ERR_NO_DATA
      else if rc = - EMSGSIZE \<or> rc = - ENAMETOOLONG then - RZI_ERR_TOO_LARGE
      else if rc = - ETIMEDOUT then - RZI_ERR_TIMEOUT
      else if rc = - EOVERFLOW then - RZI_ERR_OVERFLOW
      else if rc = - ENOSPC then - RZI_ERR_NO_RESOURCE
      else if rc = - EBADMSG then - RZI_ERR_BAD_MESSAGE
      else if rc = - ENODEV then - RZI_ERR_NO_DEVICE
      else if rc = - ENETDOWN then - RZI_ERR_NOT_READY
      else if rc = - EACCES \<or> rc = - EPERM then - RZI_ERR_DENIED
      else if rc = - EEXIST then - RZI_ERR_ALREADY
      else - RZI_ERR_IO)"

section \<open>Facts\<close>

lemma catalog_range: "catalog_name e \<noteq> None \<longleftrightarrow> e = 0 \<or> (1000 \<le> e \<and> e \<le> 1017)"
  unfolding catalog_name_def by (simp split: if_split) presburger

lemma from_errno_nonneg [simp]: "0 \<le> rc \<Longrightarrow> rzi_err_from_errno rc = 0"
  by (simp add: rzi_err_from_errno_def)

lemma from_errno_neg: "rc < 0 \<Longrightarrow> - 1017 \<le> rzi_err_from_errno rc \<and> rzi_err_from_errno rc \<le> - 1000"
  unfolding rzi_err_from_errno_def catalog_range by auto

lemma from_errno_zero_iff [simp]: "rzi_err_from_errno rc = 0 \<longleftrightarrow> 0 \<le> rc"
  using from_errno_neg [of rc] by (cases "0 \<le> rc") auto

lemma from_errno_catalog: "- 1017 \<le> rc \<Longrightarrow> rc \<le> - 1000 \<Longrightarrow> rzi_err_from_errno rc = rc"
  by (simp add: rzi_err_from_errno_def catalog_range del: not_None_eq)

text \<open>
  The translation of platform codes is closed and stable: it returns 0 exactly for a
  non-negative code, a negated member of the catalogue for every negative one, and applying
  it to its own result changes nothing, so a code may cross any number of layers.
\<close>

theorem errno_translation_closed:
  "(rzi_err_from_errno rc = 0 \<longleftrightarrow> 0 \<le> rc)
   \<and> catalog_name (- rzi_err_from_errno rc) \<noteq> None
   \<and> rzi_err_from_errno (rzi_err_from_errno rc) = rzi_err_from_errno rc"
proof (cases "0 \<le> rc")
  case True
  then show ?thesis by (simp add: catalog_range del: not_None_eq)
next
  case False
  with from_errno_neg [of rc] show ?thesis
    by (simp add: catalog_range from_errno_catalog del: not_None_eq)
qed

end
