(* ===== verification/Rzi_Power.thy ===== *)
theory Rzi_Power
  imports Rzi_Err
begin

text \<open>
  The power service, \<^verbatim>\<open>src/power/power.c\<close>: one runtime switch and one reference count per
  lock identity, both mapped onto Zephyr's all-state PM policy lock. The policy itself is
  Zephyr's; the calls made to it are recorded in \<open>pm_calls\<close>, newest last.
\<close>

section \<open>State\<close>

datatype pm_call = Pm_lock_get | Pm_lock_put

text \<open>\<open>in_isr\<close> is what \<^verbatim>\<open>k_is_in_isr()\<close> answers to the caller that is running.\<close>

record power_state =
  in_isr :: bool
  is_pm_locked :: bool
  lock_counts :: "u8 list"
  pm_calls :: "pm_call list"

abbreviation (input) RZI_POWER_LOCK_APP :: nat where "RZI_POWER_LOCK_APP \<equiv> 0"
abbreviation (input) RZI_POWER_LOCK_LORAWAN :: nat where "RZI_POWER_LOCK_LORAWAN \<equiv> 1"
abbreviation (input) RZI_POWER_LOCK_FLASH :: nat where "RZI_POWER_LOCK_FLASH \<equiv> 2"
abbreviation (input) RZI_POWER_LOCK_TRANSPORT :: nat where "RZI_POWER_LOCK_TRANSPORT \<equiv> 3"
abbreviation (input) RZI_POWER_LOCK_UPDATE :: nat where "RZI_POWER_LOCK_UPDATE \<equiv> 4"
abbreviation (input) RZI_POWER_LOCK_COUNT :: nat where "RZI_POWER_LOCK_COUNT \<equiv> 5"

definition power_init :: power_state where
  "power_init = \<lparr>in_isr = False, is_pm_locked = False,
     lock_counts = [0, 0, 0, 0, 0], pm_calls = []\<rparr>"

definition pm_call :: "pm_call \<Rightarrow> power_state \<Rightarrow> power_state" where
  "pm_call c s = s\<lparr>pm_calls := pm_calls s @ [c]\<rparr>"

section \<open>Operations\<close>

fun lock_mask_from :: "u8 list \<Rightarrow> nat \<Rightarrow> u32 \<Rightarrow> u32" where
  "lock_mask_from [] i acc = acc"
| "lock_mask_from (c # cs) i acc =
     lock_mask_from cs (Suc i) (if c \<noteq> 0 then acc OR push_bit i 1 else acc)"

definition get_lock_mask_locked :: "power_state \<Rightarrow> u32" where
  "get_lock_mask_locked s = lock_mask_from (lock_counts s) 0 0"

text \<open>\<open>cfg_pm\<close> is \<^verbatim>\<open>IS_ENABLED(CONFIG_PM)\<close>.\<close>

definition rzi_power_set_pm_enabled :: "bool \<Rightarrow> bool \<Rightarrow> power_state op" where
  "rzi_power_set_pm_enabled cfg_pm enabled s =
     (if in_isr s then (- RZI_ERR_ISR, s)
      else if \<not> cfg_pm then (- RZI_ERR_NOT_SUPPORTED, s)
      else if \<not> enabled \<and> \<not> is_pm_locked s
        then (0, (pm_call Pm_lock_get s)\<lparr>is_pm_locked := True\<rparr>)
      else if enabled \<and> is_pm_locked s
        then (0, (pm_call Pm_lock_put s)\<lparr>is_pm_locked := False\<rparr>)
      else (0, s))"

definition rzi_power_get_pm_enabled :: "bool \<Rightarrow> (power_state, bool) getter" where
  "rzi_power_get_pm_enabled cfg_pm enabled s =
     (if in_isr s then (- RZI_ERR_ISR, enabled, s)
      else if enabled = None then (- RZI_ERR_INVALID, enabled, s)
      else (0, Some (cfg_pm \<and> \<not> is_pm_locked s), s))"

definition rzi_power_lock_get :: "nat \<Rightarrow> power_state op" where
  "rzi_power_lock_get lock s =
     (if in_isr s then (- RZI_ERR_ISR, s)
      else if lock \<ge> RZI_POWER_LOCK_COUNT then (- RZI_ERR_INVALID, s)
      else if lock_counts s ! lock = 255 then (- RZI_ERR_NO_RESOURCE, s)
      else (0, (pm_call Pm_lock_get s)
             \<lparr>lock_counts := (lock_counts s)[lock := lock_counts s ! lock + 1]\<rparr>))"

definition rzi_power_lock_put :: "nat \<Rightarrow> power_state op" where
  "rzi_power_lock_put lock s =
     (if in_isr s then (- RZI_ERR_ISR, s)
      else if lock \<ge> RZI_POWER_LOCK_COUNT then (- RZI_ERR_INVALID, s)
      else if lock_counts s ! lock = 0 then (- RZI_ERR_INVALID, s)
      else (0, pm_call Pm_lock_put
             (s\<lparr>lock_counts := (lock_counts s)[lock := lock_counts s ! lock - 1]\<rparr>)))"

definition rzi_power_get_lock_mask :: "(power_state, u32) getter" where
  "rzi_power_get_lock_mask lock_mask s =
     (if in_isr s then (- RZI_ERR_ISR, lock_mask, s)
      else if lock_mask = None then (- RZI_ERR_INVALID, lock_mask, s)
      else (0, Some (get_lock_mask_locked s), s))"

text \<open>The argument of \<^verbatim>\<open>k_sleep\<close>: \<open>None\<close> is \<^verbatim>\<open>K_FOREVER\<close>, \<open>Some t\<close> is \<^verbatim>\<open>K_MSEC(t)\<close>.\<close>

definition rzi_power_sleep :: "int \<Rightarrow> power_state \<Rightarrow> int \<times> int option option" where
  "rzi_power_sleep timeout_ms s =
     (if in_isr s then (- RZI_ERR_ISR, None)
      else (0, Some (if timeout_ms < 0 then None else Some timeout_ms)))"

section \<open>The policy balance\<close>

text \<open>References the service holds on Zephyr's policy after a sequence of calls.\<close>

fun pm_balance :: "pm_call list \<Rightarrow> int" where
  "pm_balance [] = 0"
| "pm_balance (Pm_lock_get # cs) = 1 + pm_balance cs"
| "pm_balance (Pm_lock_put # cs) = pm_balance cs - 1"

lemma pm_balance_append [simp]: "pm_balance (xs @ ys) = pm_balance xs + pm_balance ys"
  by (induction xs rule: pm_balance.induct) auto

definition pm_refs :: "power_state \<Rightarrow> int" where
  "pm_refs s = (\<Sum>c\<leftarrow>lock_counts s. uint c) + (if is_pm_locked s then 1 else 0)"

text \<open>
  The invariant: five counters, the policy holds exactly one reference per counted lock
  plus the runtime switch, and no prefix of the calls ever released more than it took.
\<close>

definition power_ok :: "power_state \<Rightarrow> bool" where
  "power_ok s \<longleftrightarrow> length (lock_counts s) = RZI_POWER_LOCK_COUNT
     \<and> pm_balance (pm_calls s) = pm_refs s
     \<and> (\<forall>n \<le> length (pm_calls s). 0 \<le> pm_balance (take n (pm_calls s)))"

lemma uint_sum_nonneg: "0 \<le> (\<Sum>c\<leftarrow>(cs :: u8 list). uint c)"
  by (induction cs) auto

lemma sum_uint_update:
  "i < length cs \<Longrightarrow> (\<Sum>c\<leftarrow>cs[i := x]. uint c) = (\<Sum>c\<leftarrow>cs. uint c) - uint (cs ! i) + uint x"
  for cs :: "u8 list"
  by (induction cs arbitrary: i) (auto simp: nth_Cons split: nat.split)

lemma uint_succ_u8: "(x :: u8) \<noteq> 255 \<Longrightarrow> uint (x + 1) = uint x + 1"
proof -
  assume "x \<noteq> 255"
  then have "uint x \<noteq> uint (255 :: u8)" using word_uint_eqI by blast
  moreover have "uint x < 256" using uint_lt2p [of x] by simp
  ultimately have "uint x + 1 < 256" by simp
  then show ?thesis by (simp add: uint_word_ariths)
qed

lemma uint_pred_u8: "(x :: u8) \<noteq> 0 \<Longrightarrow> uint (x - 1) = uint x - 1"
proof -
  assume "x \<noteq> 0"
  then have "uint x \<noteq> 0" by (simp add: uint_0_iff)
  then have "1 \<le> uint x" using uint_ge_0 [of x] by linarith
  moreover have "uint x < 256" using uint_lt2p [of x] by simp
  ultimately show ?thesis by (simp add: uint_word_ariths)
qed

text \<open>Recording a call keeps the prefix condition when the new total is not negative.\<close>

lemma prefix_balance_snoc:
  assumes "\<forall>n \<le> length cs. 0 \<le> pm_balance (take n cs)" and "0 \<le> pm_balance (cs @ [c])"
  shows "\<forall>n \<le> length (cs @ [c]). 0 \<le> pm_balance (take n (cs @ [c]))"
proof (intro allI impI)
  fix n assume "n \<le> length (cs @ [c])"
  then consider "n \<le> length cs" | "n = length (cs @ [c])" by fastforce
  then show "0 \<le> pm_balance (take n (cs @ [c]))"
    using assms by cases auto
qed

lemma power_ok_step:
  assumes ok: "power_ok s" and calls: "pm_calls t = pm_calls s @ [c]"
    and len: "length (lock_counts t) = length (lock_counts s)"
    and bal: "pm_refs t = pm_refs s + pm_balance [c]"
  shows "power_ok t"
proof -
  have "0 \<le> pm_refs t" using uint_sum_nonneg by (simp add: pm_refs_def)
  with assms show ?thesis
    unfolding power_ok_def calls using prefix_balance_snoc [of "pm_calls s" c] by auto
qed

lemma power_ok_init: "power_ok power_init"
  by (simp add: power_ok_def power_init_def pm_refs_def)

lemma power_ok_set_pm_enabled: "keeps power_ok (rzi_power_set_pm_enabled cfg e)"
proof (rule keepsI)
  fix s assume ok: "power_ok s"
  then show "power_ok (snd (rzi_power_set_pm_enabled cfg e s))"
    by (auto simp: rzi_power_set_pm_enabled_def pm_call_def pm_refs_def
        intro!: power_ok_step [OF ok])
qed

lemma power_ok_lock_get: "keeps power_ok (rzi_power_lock_get l)"
proof (rule keepsI)
  fix s assume ok: "power_ok s"
  then have "length (lock_counts s) = 5" by (simp add: power_ok_def)
  with ok show "power_ok (snd (rzi_power_lock_get l s))"
    by (auto simp: rzi_power_lock_get_def pm_call_def pm_refs_def sum_uint_update uint_succ_u8
        intro!: power_ok_step [OF ok])
qed

lemma power_ok_lock_put: "keeps power_ok (rzi_power_lock_put l)"
proof (rule keepsI)
  fix s assume ok: "power_ok s"
  then have "length (lock_counts s) = 5" by (simp add: power_ok_def)
  with ok show "power_ok (snd (rzi_power_lock_put l s))"
    by (auto simp: rzi_power_lock_put_def pm_call_def pm_refs_def sum_uint_update uint_pred_u8
        intro!: power_ok_step [OF ok])
qed

lemmas power_keeps [keep_intros] =
  power_ok_set_pm_enabled power_ok_lock_get power_ok_lock_put

section \<open>Every use of the service\<close>

text \<open>
  One call of the service by some thread or interrupt handler; between calls the running
  context changes, so \<open>in_isr\<close> may take any value.
\<close>

inductive power_step :: "bool \<Rightarrow> power_state \<Rightarrow> power_state \<Rightarrow> bool" for cfg_pm :: bool where
  set_pm: "power_step cfg_pm s (snd (rzi_power_set_pm_enabled cfg_pm e s))"
| lock_get: "power_step cfg_pm s (snd (rzi_power_lock_get l s))"
| lock_put: "power_step cfg_pm s (snd (rzi_power_lock_put l s))"
| context_switch: "power_step cfg_pm s (s\<lparr>in_isr := b\<rparr>)"

inductive power_reachable :: "bool \<Rightarrow> power_state \<Rightarrow> bool" for cfg_pm :: bool where
  boot: "power_reachable cfg_pm power_init"
| step: "power_reachable cfg_pm s \<Longrightarrow> power_step cfg_pm s t \<Longrightarrow> power_reachable cfg_pm t"

lemma power_step_ok: "power_step cfg s t \<Longrightarrow> power_ok s \<Longrightarrow> power_ok t"
proof (induction rule: power_step.induct)
  case (context_switch s b)
  then show ?case by (simp add: power_ok_def pm_refs_def)
qed (auto intro: keepsD [OF power_ok_set_pm_enabled] keepsD [OF power_ok_lock_get]
    keepsD [OF power_ok_lock_put])

lemma power_reachable_ok: "power_reachable cfg s \<Longrightarrow> power_ok s"
  by (induction rule: power_reachable.induct) (auto intro: power_ok_init power_step_ok)

section \<open>Lock pools\<close>

text \<open>
  What a client of reference-counted locks relies on: a granted \<open>get\<close> counts one more, a
  refused call changes nothing, a held lock can be released, and locks are independent.
\<close>

locale lock_pool =
  fixes get :: "nat \<Rightarrow> 's op" and put :: "nat \<Rightarrow> 's op"
    and cnt :: "nat \<Rightarrow> 's \<Rightarrow> nat" and inv :: "'s \<Rightarrow> bool" and thread :: "'s \<Rightarrow> bool"
  assumes get_inv: "inv s \<Longrightarrow> inv (snd (get l s))"
    and put_inv: "inv s \<Longrightarrow> inv (snd (put l s))"
    and get_refused: "fst (get l s) \<noteq> 0 \<Longrightarrow> snd (get l s) = s"
    and put_refused: "fst (put l s) \<noteq> 0 \<Longrightarrow> snd (put l s) = s"
    and get_counts: "inv s \<Longrightarrow> fst (get l s) = 0 \<Longrightarrow>
      cnt k (snd (get l s)) = (if k = l then cnt k s + 1 else cnt k s)"
    and put_counts: "inv s \<Longrightarrow> fst (put l s) = 0 \<Longrightarrow>
      cnt k (snd (put l s)) = (if k = l then cnt k s - 1 else cnt k s)"
    and get_thread: "thread (snd (get l s)) = thread s"
    and get_needs_thread: "fst (get l s) = 0 \<Longrightarrow> thread s \<and> l < RZI_POWER_LOCK_COUNT"
    and put_granted: "inv s \<Longrightarrow> thread s \<Longrightarrow> l < RZI_POWER_LOCK_COUNT \<Longrightarrow> 0 < cnt l s \<Longrightarrow>
      fst (put l s) = 0"
begin

text \<open>A taken lock can be given back, and then every count is what it was.\<close>

lemma bracket_restores:
  assumes "inv s" and "fst (get l s) = 0"
  shows "fst (put l (snd (get l s))) = 0 \<and> cnt k (snd (put l (snd (get l s)))) = cnt k s"
proof -
  let ?t = "snd (get l s)"
  have inv: "inv ?t" using assms(1) by (rule get_inv)
  have held: "cnt l ?t = cnt l s + 1" using get_counts [OF assms] by simp
  have "fst (put l ?t) = 0"
    using put_granted [OF inv] get_needs_thread [OF assms(2)] get_thread held by simp
  with inv have "cnt k (snd (put l ?t)) = (if k = l then cnt k ?t - 1 else cnt k ?t)"
    by (rule put_counts)
  with \<open>fst (put l ?t) = 0\<close> show ?thesis using get_counts [OF assms] by simp
qed

text \<open>The same when the bracketed work changes neither the counts nor the context.\<close>

lemma bracket_keeps_inv: "inv s \<Longrightarrow> inv (snd (put l (snd (get l s))))"
  by (intro put_inv get_inv)

lemma get_mono: "inv s \<Longrightarrow> cnt k s \<le> cnt k (snd (get l s))"
  using get_counts [of s l k] get_refused [of l s] by (cases "fst (get l s) = 0") auto

end

definition lock_count :: "nat \<Rightarrow> power_state \<Rightarrow> nat" where
  "lock_count l s = (if l < RZI_POWER_LOCK_COUNT then unat (lock_counts s ! l) else 0)"

lemma unat_succ_u8: "(x :: u8) \<noteq> 255 \<Longrightarrow> unat (x + 1) = unat x + 1"
  using uint_succ_u8 [of x] uint_ge_0 [of x] unfolding unat_eq_nat_uint by linarith

lemma unat_pred_u8: "(x :: u8) \<noteq> 0 \<Longrightarrow> unat (x - 1) = unat x - 1"
  using uint_pred_u8 [of x] uint_ge_0 [of x] unfolding unat_eq_nat_uint by linarith

lemma power_ok_length: "power_ok s \<Longrightarrow> length (lock_counts s) = 5"
  by (simp add: power_ok_def)

interpretation power_locks: lock_pool rzi_power_lock_get rzi_power_lock_put lock_count power_ok
  "\<lambda>s. \<not> in_isr s"
proof
  show "power_ok s \<Longrightarrow> power_ok (snd (rzi_power_lock_get l s))" for s l
    by (rule keepsD [OF power_ok_lock_get])
  show "power_ok s \<Longrightarrow> power_ok (snd (rzi_power_lock_put l s))" for s l
    by (rule keepsD [OF power_ok_lock_put])
qed (auto simp: rzi_power_lock_get_def rzi_power_lock_put_def pm_call_def lock_count_def
    power_ok_length unat_succ_u8 unat_pred_u8 unat_eq_zero nth_list_update split: if_splits)

section \<open>Properties\<close>

text \<open>
  C5. Whatever sequence of calls the service has served, the references it holds on Zephyr's
  PM policy are exactly the sum of its lock counters plus one for the runtime switch, and at
  no moment had it released more references than it had taken.
\<close>

theorem power_policy_balanced:
  assumes "power_reachable cfg_pm s"
  shows "pm_balance (pm_calls s) = (\<Sum>c\<leftarrow>lock_counts s. uint c) + (if is_pm_locked s then 1 else 0)
    \<and> (\<forall>n \<le> length (pm_calls s). 0 \<le> pm_balance (take n (pm_calls s)))"
  using power_reachable_ok [OF assms] by (simp add: power_ok_def pm_refs_def)

lemma power_reachable_example:
  "power_reachable True (snd (rzi_power_lock_get RZI_POWER_LOCK_FLASH power_init))"
  by (rule power_reachable.step [OF power_reachable.boot power_step.lock_get])

theorem power_policy_balanced_witness:
  "pm_balance (pm_calls (snd (rzi_power_lock_get RZI_POWER_LOCK_FLASH power_init))) = 1"
  using power_policy_balanced [OF power_reachable_example]
  by (simp add: rzi_power_lock_get_def power_init_def pm_call_def)

lemma bit_lock_mask_from:
  assumes "i + length cs \<le> 32"
  shows "bit (lock_mask_from cs i acc) n \<longleftrightarrow>
     bit acc n \<or> (i \<le> n \<and> n < i + length cs \<and> cs ! (n - i) \<noteq> 0)"
  using assms
proof (induction cs arbitrary: i acc)
  case Nil
  then show ?case by auto
next
  case (Cons c cs)
  then have "Suc i + length cs \<le> 32" by simp
  from Cons.IH [OF this] Cons.prems show ?case
    by (cases "n = i") (auto simp: bit_simps nth_Cons' Suc_le_eq)
qed

text \<open>
  The published lock mask is exact: bit \<open>n\<close> is set if and only if \<open>n\<close> is a lock identity
  whose counter is not zero.
\<close>

theorem power_lock_mask_exact:
  assumes "length (lock_counts s) = RZI_POWER_LOCK_COUNT"
  shows "bit (get_lock_mask_locked s) n \<longleftrightarrow> n < RZI_POWER_LOCK_COUNT \<and> lock_counts s ! n \<noteq> 0"
  using bit_lock_mask_from [of 0 "lock_counts s" 0 n] assms
  by (auto simp: get_lock_mask_locked_def)

theorem power_lock_mask_exact_witness:
  "bit (get_lock_mask_locked (power_init\<lparr>lock_counts := [0, 3, 0, 0, 1]\<rparr>)) 4"
  by (subst power_lock_mask_exact) (simp_all add: power_init_def)

text \<open>
  A granted lock can always be released again, and releasing it restores every counter:
  \<open>lock_get\<close> followed by \<open>lock_put\<close> is neutral for all lock identities.
\<close>

theorem power_lock_bracket:
  assumes "power_ok s" and "fst (rzi_power_lock_get l s) = 0"
  shows "fst (rzi_power_lock_put l (snd (rzi_power_lock_get l s))) = 0
    \<and> (\<forall>k < RZI_POWER_LOCK_COUNT.
         lock_counts (snd (rzi_power_lock_put l (snd (rzi_power_lock_get l s)))) ! k
           = lock_counts s ! k)"
proof -
  let ?t = "snd (rzi_power_lock_put l (snd (rzi_power_lock_get l s)))"
  have "lock_count k ?t = lock_count k s" for k
    using power_locks.bracket_restores [OF assms] by simp
  then have "k < RZI_POWER_LOCK_COUNT \<Longrightarrow> lock_counts ?t ! k = lock_counts s ! k" for k
    unfolding lock_count_def by (metis word_unat_eq_iff)
  then show ?thesis using power_locks.bracket_restores [OF assms] by simp
qed

theorem power_lock_bracket_witness:
  "lock_counts (snd (rzi_power_lock_put 1 (snd (rzi_power_lock_get 1 power_init)))) ! 1 = 0"
proof -
  have "fst (rzi_power_lock_get 1 power_init) = 0"
    by (simp add: rzi_power_lock_get_def power_init_def)
  from power_lock_bracket [OF power_ok_init this]
  have "lock_counts (snd (rzi_power_lock_put 1 (snd (rzi_power_lock_get 1 power_init)))) ! 1
     = lock_counts power_init ! 1" by auto
  then show ?thesis by (simp add: power_init_def)
qed

end
