(* ===== verification/Rzi_Storage.thy ===== *)
theory Rzi_Storage
  imports Rzi_Power
begin

text \<open>
  The storage service, \<^verbatim>\<open>src/storage/storage_settings.c\<close>: namespaced values and versioned,
  checksummed records on top of Zephyr's settings subsystem. Zephyr's functions (and its
  CRC) are parameters, the fields of \<open>storage_env\<close>; what the theorems need of them is the
  named hypothesis \<open>settings_lawful\<close>. The mutex-protected bodies are single steps.
\<close>

section \<open>Environment and state\<close>

record nvs_fs =
  sector_size :: nat
  sector_count :: nat

text \<open>
  \<open>'d\<close> is the state of the settings backend. \<open>settings_load_one name n d\<close> gives the returned
  size and the bytes placed in the caller's buffer of \<open>n\<close> bytes;
  \<open>settings_load_subtree_direct\<close> gives its code and the (key, length) pairs it hands to the
  callback; \<open>crc32_ieee_continue\<close> is \<^verbatim>\<open>crc32_ieee_update\<close>. \<open>cfg_auto_lock\<close> is \<^verbatim>\<open>CONFIG_RZI_POWER && CONFIG_RZI_POWER_AUTO_SERVICE_LOCK\<close>.
\<close>

record 'd storage_env =
  cfg_auto_lock :: bool
  cfg_record_max :: nat
  cfg_settings_nvs :: bool
  settings_subsys_init :: "'d \<Rightarrow> int \<times> 'd"
  settings_load_one :: "string \<Rightarrow> nat \<Rightarrow> 'd \<Rightarrow> int \<times> bytes"
  settings_save_one :: "string \<Rightarrow> bytes \<Rightarrow> 'd \<Rightarrow> int \<times> 'd"
  settings_delete :: "string \<Rightarrow> 'd \<Rightarrow> int \<times> 'd"
  settings_get_val_len :: "string \<Rightarrow> 'd \<Rightarrow> int"
  settings_load_subtree_direct :: "string \<Rightarrow> 'd \<Rightarrow> int \<times> (string option \<times> nat) list"
  settings_storage_get :: "'d \<Rightarrow> int \<times> nvs_fs option"
  nvs_calc_free_space :: "nvs_fs \<Rightarrow> 'd \<Rightarrow> int"
  nvs_sector_max_data_size :: "nvs_fs \<Rightarrow> 'd \<Rightarrow> nat"
  crc32_ieee :: "bytes \<Rightarrow> u32"
  crc32_ieee_continue :: "u32 \<Rightarrow> bytes \<Rightarrow> u32"

record 'd storage_state =
  pwr :: power_state
  initialized :: bool
  dev :: 'd

record rzi_storage_info =
  total_bytes :: nat
  free_bytes :: nat
  contiguous_bytes :: nat
  sector_bytes :: nat

record rzi_storage_usage =
  keys :: nat
  value_bytes :: nat
  name_bytes :: nat

abbreviation (input) RZI_STORAGE_NAME_MAX :: nat where "RZI_STORAGE_NAME_MAX \<equiv> 64"
abbreviation (input) RECORD_HEADER_SIZE :: nat where "RECORD_HEADER_SIZE \<equiv> 12"
abbreviation (input) RECORD_MAGIC :: u32 where "RECORD_MAGIC \<equiv> 0x31525a52"

section \<open>Names\<close>

fun has_double_slash :: "string \<Rightarrow> bool" where
  "has_double_slash (a # b # cs) =
     ((a = CHR ''/'' \<and> b = CHR ''/'') \<or> has_double_slash (b # cs))"
| "has_double_slash _ = False"

definition valid_component :: "string option \<Rightarrow> bool" where
  "valid_component component =
     (case component of
        None \<Rightarrow> False
      | Some c \<Rightarrow>
          if c = [] \<or> hd c = CHR ''/'' then False
          else last c \<noteq> CHR ''/'' \<and> \<not> has_double_slash c)"

text \<open>\<open>Inr\<close> is the composed name, \<open>Inl\<close> the error code.\<close>

definition build_name :: "string option \<Rightarrow> string option \<Rightarrow> int + string" where
  "build_name namespace_name key =
     (if \<not> valid_component namespace_name \<or> \<not> valid_component key then Inl (- RZI_ERR_INVALID)
      else let name = the namespace_name @ ''/'' @ the key in
        if length name \<ge> RZI_STORAGE_NAME_MAX then Inl (- RZI_ERR_TOO_LARGE) else Inr name)"

section \<open>Raw values\<close>

definition rzi_storage_init :: "('d, 'z) storage_env_scheme \<Rightarrow> 'd storage_state op" where
  "rzi_storage_init E s =
     (if in_isr (pwr s) then (- RZI_ERR_ISR, s)
      else if initialized s then (0, s)
      else case settings_subsys_init E (dev s) of (rc, d) \<Rightarrow>
        if rc = 0 then (0, s\<lparr>dev := d, initialized := True\<rparr>)
        else (rzi_err_from_errno rc, s\<lparr>dev := d\<rparr>))"

definition rzi_storage_read ::
  "('d, 'z) storage_env_scheme \<Rightarrow> string option \<Rightarrow> string option \<Rightarrow> bytes option \<Rightarrow> nat
   \<Rightarrow> 'd storage_state \<Rightarrow> int \<times> bytes option \<times> 'd storage_state" where
  "rzi_storage_read E namespace_name key val sz s =
     (if val = None \<or> sz = 0 then (- RZI_ERR_INVALID, val, s)
      else case build_name namespace_name key of
        Inl rc \<Rightarrow> (rc, val, s)
      | Inr name \<Rightarrow>
          (case rzi_storage_init E s of (rc, t) \<Rightarrow>
             if rc \<noteq> 0 then (rc, val, t)
             else case settings_load_one E name sz (dev t) of (n, buf) \<Rightarrow>
               let out = map_option (overlay buf) val in
               if n < 0 then (rzi_err_from_errno n, out, t)
               else if n = 0 then (- RZI_ERR_NOT_FOUND, out, t)
               else if n = int sz then (0, out, t) else (- RZI_ERR_TOO_LARGE, out, t)))"

text \<open>
  The flash power lock around a settings call: refused, the call is not made; otherwise the
  lock is released whatever the call returns, and the call's code is translated.
\<close>

definition with_flash_lock ::
  "('d, 'z) storage_env_scheme \<Rightarrow> 'd storage_state op \<Rightarrow> 'd storage_state op" where
  "with_flash_lock E call s =
     (if cfg_auto_lock E then
        (case rzi_power_lock_get RZI_POWER_LOCK_FLASH (pwr s) of (rc, p) \<Rightarrow>
           if rc \<noteq> 0 then (rc, s\<lparr>pwr := p\<rparr>)
           else case call (s\<lparr>pwr := p\<rparr>) of (rc, t) \<Rightarrow>
             (rzi_err_from_errno rc,
              t\<lparr>pwr := snd (rzi_power_lock_put RZI_POWER_LOCK_FLASH (pwr t))\<rparr>))
      else case call s of (rc, t) \<Rightarrow> (rzi_err_from_errno rc, t))"

definition rzi_storage_write ::
  "('d, 'z) storage_env_scheme \<Rightarrow> string option \<Rightarrow> string option \<Rightarrow> bytes option \<Rightarrow> nat
   \<Rightarrow> 'd storage_state op" where
  "rzi_storage_write E namespace_name key val sz s =
     (if val = None \<or> sz = 0 then (- RZI_ERR_INVALID, s)
      else case build_name namespace_name key of
        Inl rc \<Rightarrow> (rc, s)
      | Inr name \<Rightarrow>
          seq_ok (rzi_storage_init E)
            (with_flash_lock E (\<lambda>t.
               case settings_save_one E name (take sz (the val)) (dev t) of
                 (rc, d) \<Rightarrow> (rc, t\<lparr>dev := d\<rparr>))) s)"

definition rzi_storage_delete ::
  "('d, 'z) storage_env_scheme \<Rightarrow> string option \<Rightarrow> string option \<Rightarrow> 'd storage_state op" where
  "rzi_storage_delete E namespace_name key s =
     (case build_name namespace_name key of
        Inl rc \<Rightarrow> (rc, s)
      | Inr name \<Rightarrow>
          seq_ok (rzi_storage_init E)
            (with_flash_lock E (\<lambda>t.
               let stored_size = settings_get_val_len E name (dev t) in
               if stored_size < 0 then (stored_size, t)
               else if stored_size = 0 then (- ENOENT, t)
               else case settings_delete E name (dev t) of (rc, d) \<Rightarrow> (rc, t\<lparr>dev := d\<rparr>))) s)"

section \<open>Records\<close>

definition record_crc :: "('d, 'z) storage_env_scheme \<Rightarrow> bytes \<Rightarrow> nat \<Rightarrow> u32" where
  "record_crc E rec sz =
     crc32_ieee_continue E (crc32_ieee E (take 8 rec)) (take sz (drop RECORD_HEADER_SIZE rec))"

text \<open>The bytes \<^verbatim>\<open>rzi_storage_write_record\<close> assembles: header without checksum, then all of it.\<close>

definition record_image :: "('d, 'z) storage_env_scheme \<Rightarrow> u16 \<Rightarrow> bytes \<Rightarrow> bytes" where
  "record_image E version payload =
     (let head = put_le32 RECORD_MAGIC @ put_le16 version @ put_le16 (of_nat (length payload));
          crc = record_crc E (head @ replicate 4 0 @ payload) (length payload)
      in head @ put_le32 crc @ payload)"

definition rzi_storage_write_record ::
  "('d, 'z) storage_env_scheme \<Rightarrow> string option \<Rightarrow> string option \<Rightarrow> u16 \<Rightarrow> bytes option \<Rightarrow> nat
   \<Rightarrow> 'd storage_state op" where
  "rzi_storage_write_record E namespace_name key version val sz s =
     (if in_isr (pwr s) then (- RZI_ERR_ISR, s)
      else if version = 0 \<or> val = None \<or> sz = 0 then (- RZI_ERR_INVALID, s)
      else if sz > cfg_record_max E then (- RZI_ERR_TOO_LARGE, s)
      else rzi_storage_write E namespace_name key
             (Some (record_image E version (take sz (the val)))) (RECORD_HEADER_SIZE + sz) s)"

text \<open>Size discovery and read, under one lock: the code and the bytes read.\<close>

definition load_record ::
  "('d, 'z) storage_env_scheme \<Rightarrow> string \<Rightarrow> 'd \<Rightarrow> int \<times> bytes" where
  "load_record E name d =
     (let len = settings_get_val_len E name d in
      if len > int (RECORD_HEADER_SIZE + cfg_record_max E) then (- RZI_ERR_TOO_LARGE, [])
      else if len < 0 then (rzi_err_from_errno len, [])
      else if len = 0 then (- RZI_ERR_NOT_FOUND, [])
      else case settings_load_one E name (nat len) d of (actual, buf) \<Rightarrow>
        (if actual < 0 then rzi_err_from_errno actual
         else if actual \<noteq> len then - RZI_ERR_IO else 0, buf))"

text \<open>Validation of the bytes read: version and payload, or the error code.\<close>

definition check_record ::
  "('d, 'z) storage_env_scheme \<Rightarrow> nat \<Rightarrow> bytes \<Rightarrow> int + u16 \<times> bytes" where
  "check_record E capacity rec =
     (if length rec \<le> RECORD_HEADER_SIZE \<or> get_le32 rec \<noteq> RECORD_MAGIC
         \<or> get_le16 (drop 4 rec) = 0
      then Inl (- RZI_ERR_BAD_MESSAGE)
      else let payload_size = unat (get_le16 (drop 6 rec)) in
        if payload_size \<noteq> length rec - RECORD_HEADER_SIZE
           \<or> get_le32 (drop 8 rec) \<noteq> record_crc E rec payload_size
        then Inl (- RZI_ERR_BAD_MESSAGE)
        else if payload_size > capacity then Inl (- RZI_ERR_TOO_LARGE)
        else Inr (get_le16 (drop 4 rec), take payload_size (drop RECORD_HEADER_SIZE rec)))"

definition rzi_storage_read_record ::
  "('d, 'z) storage_env_scheme \<Rightarrow> string option \<Rightarrow> string option
   \<Rightarrow> u16 option \<Rightarrow> bytes option \<Rightarrow> nat \<Rightarrow> nat option
   \<Rightarrow> 'd storage_state \<Rightarrow> int \<times> (u16 option \<times> bytes option \<times> nat option) \<times> 'd storage_state" where
  "rzi_storage_read_record E namespace_name key version val capacity sz s =
     (if in_isr (pwr s) then (- RZI_ERR_ISR, (version, val, sz), s)
      else if version = None \<or> val = None \<or> sz = None \<or> capacity = 0
        then (- RZI_ERR_INVALID, (version, val, sz), s)
      else case build_name namespace_name key of
        Inl rc \<Rightarrow> (rc, (version, val, sz), s)
      | Inr name \<Rightarrow>
          (case rzi_storage_init E s of (rc, t) \<Rightarrow>
             if rc \<noteq> 0 then (rc, (version, val, sz), t)
             else case load_record E name (dev t) of (rc, rec) \<Rightarrow>
               if rc \<noteq> 0 then (rc, (version, val, sz), t)
               else case check_record E capacity rec of
                 Inl rc \<Rightarrow> (rc, (version, val, sz), t)
               | Inr (v, payload) \<Rightarrow>
                   (0, (Some v, map_option (overlay payload) val, Some (length payload)), t)))"

section \<open>Accounting\<close>

definition rzi_storage_get_info ::
  "('d, 'z) storage_env_scheme \<Rightarrow> ('d storage_state, rzi_storage_info) getter" where
  "rzi_storage_get_info E info s =
     (if in_isr (pwr s) then (- RZI_ERR_ISR, info, s)
      else if info = None then (- RZI_ERR_INVALID, info, s)
      else if \<not> cfg_settings_nvs E then (- RZI_ERR_NOT_SUPPORTED, info, s)
      else case rzi_storage_init E s of (rc, t) \<Rightarrow>
        if rc \<noteq> 0 then (rc, info, t)
        else case settings_storage_get E (dev t) of (rc, storage) \<Rightarrow>
          if rc \<noteq> 0 then (rzi_err_from_errno rc, info, t)
          else case storage of
            None \<Rightarrow> (rzi_err_from_errno (- ENOTSUP), info, t)
          | Some fs \<Rightarrow>
              let available = nvs_calc_free_space E fs (dev t) in
              if available < 0 then (rzi_err_from_errno available, info, t)
              else (0, Some \<lparr>total_bytes = sector_size fs * sector_count fs,
                     free_bytes = nat available,
                     contiguous_bytes = nvs_sector_max_data_size E fs (dev t),
                     sector_bytes = sector_size fs\<rparr>, t))"

definition count_usage :: "string option \<Rightarrow> nat \<Rightarrow> rzi_storage_usage \<Rightarrow> rzi_storage_usage" where
  "count_usage key len usage =
     (if len \<noteq> 0 then
        usage\<lparr>keys := keys usage + 1,
          value_bytes := value_bytes usage + len,
          name_bytes := name_bytes usage + (case key of None \<Rightarrow> 0 | Some k \<Rightarrow> length k)\<rparr>
      else usage)"

definition rzi_storage_get_usage ::
  "('d, 'z) storage_env_scheme \<Rightarrow> string option \<Rightarrow> ('d storage_state, rzi_storage_usage) getter" where
  "rzi_storage_get_usage E namespace_name usage s =
     (if in_isr (pwr s) then (- RZI_ERR_ISR, usage, s)
      else if usage = None \<or> \<not> valid_component namespace_name then (- RZI_ERR_INVALID, usage, s)
      else case rzi_storage_init E s of (rc, t) \<Rightarrow>
        if rc \<noteq> 0 then (rc, usage, t)
        else case settings_load_subtree_direct E (the namespace_name) (dev t) of (rc, entries) \<Rightarrow>
          (rzi_err_from_errno rc,
           if rc = 0
           then Some (fold (\<lambda>(key, len). count_usage key len) entries
                  \<lparr>keys = 0, value_bytes = 0, name_bytes = 0\<rparr>)
           else usage, t))"

section \<open>What the settings subsystem promises\<close>

text \<open>
  \<open>view\<close> reads the persisted contents out of the backend state. The hypothesis collects the
  documented behaviour of \<^verbatim>\<open>zephyr/settings/settings.h\<close>: initialisation returns 0 or a
  negative code and keeps the contents;
  a load returns the stored size and fills the caller's buffer; a missing name has length 0
  and loads as 0 or \<^verbatim>\<open>-ENOENT\<close>; saves and deletes return 0 or a negative code, take effect
  exactly on 0 and touch only their name; a delete reports a missing name only if it is missing.
\<close>

definition load_spec :: "bytes option \<Rightarrow> nat \<Rightarrow> int \<times> bytes \<Rightarrow> bool" where
  "load_spec stored n r =
     (case stored of
        None \<Rightarrow> r = (0, []) \<or> r = (- ENOENT, [])
      | Some v \<Rightarrow> r = (int (length v), take n v))"

definition settings_lawful ::
  "('d, 'z) storage_env_scheme \<Rightarrow> ('d \<Rightarrow> string \<rightharpoonup> bytes) \<Rightarrow> bool" where
  "settings_lawful E view \<longleftrightarrow>
     (\<forall>d. fst (settings_subsys_init E d) \<le> 0 \<and> view (snd (settings_subsys_init E d)) = view d)
   \<and> (\<forall>name n d. load_spec (view d name) n (settings_load_one E name n d))
   \<and> (\<forall>name d. settings_get_val_len E name d
        = (case view d name of None \<Rightarrow> 0 | Some v \<Rightarrow> int (length v)))
   \<and> (\<forall>name v d. fst (settings_save_one E name v d) \<le> 0
        \<and> view (snd (settings_save_one E name v d))
          = (if fst (settings_save_one E name v d) = 0 then (view d)(name \<mapsto> v) else view d))
   \<and> (\<forall>name d. (view d name \<noteq> None \<longrightarrow> fst (settings_delete E name d) \<notin> {- ENOENT, - RZI_ERR_NOT_FOUND})
        \<and> fst (settings_delete E name d) \<le> 0
        \<and> view (snd (settings_delete E name d))
          = (if fst (settings_delete E name d) = 0 then (view d)(name := None) else view d))"

lemma lawful_init:
  "settings_lawful E view \<Longrightarrow> settings_subsys_init E d = (rc, d') \<Longrightarrow> rc \<le> 0 \<and> view d' = view d"
  unfolding settings_lawful_def by (metis fst_conv snd_conv)

lemma lawful_load:
  "settings_lawful E view \<Longrightarrow> load_spec (view d name) n (settings_load_one E name n d)"
  by (simp add: settings_lawful_def)

lemma lawful_len:
  "settings_lawful E view \<Longrightarrow> settings_get_val_len E name d
     = (case view d name of None \<Rightarrow> 0 | Some v \<Rightarrow> int (length v))"
  by (simp add: settings_lawful_def)

lemma lawful_save:
  "settings_lawful E view \<Longrightarrow> settings_save_one E name v d = (rc, d') \<Longrightarrow>
     rc \<le> 0 \<and> view d' = (if rc = 0 then (view d)(name \<mapsto> v) else view d)"
  unfolding settings_lawful_def by (metis fst_conv snd_conv)

lemma lawful_delete:
  "settings_lawful E view \<Longrightarrow> settings_delete E name d = (rc, d') \<Longrightarrow>
     rc \<le> 0 \<and> view d' = (if rc = 0 then (view d)(name := None) else view d)
     \<and> (view d name \<noteq> None \<longrightarrow> rc \<noteq> - ENOENT \<and> rc \<noteq> - RZI_ERR_NOT_FOUND)"
  unfolding settings_lawful_def
  by (metis (mono_tags) fst_conv snd_conv insertI1 insert_iff)

section \<open>Names: isolation\<close>

text \<open>The names a service may use: valid components, a namespace without \<^verbatim>\<open>/\<close>, and room.\<close>

definition name_ok :: "string \<Rightarrow> string \<Rightarrow> bool" where
  "name_ok ns k \<longleftrightarrow> valid_component (Some ns) \<and> valid_component (Some k)
     \<and> CHR ''/'' \<notin> set ns \<and> length ns + length k + 1 < RZI_STORAGE_NAME_MAX"

definition full_name :: "string \<Rightarrow> string \<Rightarrow> string" where
  "full_name ns k = ns @ ''/'' @ k"

lemma build_name_ok: "name_ok ns k \<Longrightarrow> build_name (Some ns) (Some k) = Inr (full_name ns k)"
  by (simp add: name_ok_def build_name_def full_name_def Let_def)

text \<open>
  The names the code accepts are more: it takes a \<^verbatim>\<open>/\<close> inside a namespace as well, so that two
  accepted pairs can compose to one backend name. \<open>accepted\<close> is exactly the code's own test.
\<close>

definition accepted :: "string \<Rightarrow> string \<Rightarrow> bool" where
  "accepted ns k \<longleftrightarrow> build_name (Some ns) (Some k) = Inr (full_name ns k)"

lemma name_ok_accepted: "name_ok ns k \<Longrightarrow> accepted ns k"
  by (simp add: accepted_def build_name_ok)

lemma build_name_accepted: "accepted ns k \<Longrightarrow> build_name (Some ns) (Some k) = Inr (full_name ns k)"
  by (simp add: accepted_def)

lemma build_name_Inr:
  "build_name ns k = Inr name \<Longrightarrow> \<exists>n' k'. ns = Some n' \<and> k = Some k' \<and> name = full_name n' k'"
  by (auto simp: build_name_def valid_component_def full_name_def Let_def
      split: if_splits option.splits)

lemma full_name_inject:
  assumes "CHR ''/'' \<notin> set ns" and "CHR ''/'' \<notin> set ns'"
  shows "full_name ns k = full_name ns' k' \<longleftrightarrow> ns = ns' \<and> k = k'"
proof
  assume eq: "full_name ns k = full_name ns' k'"
  have tw: "takeWhile (\<lambda>c. c \<noteq> CHR ''/'') (full_name a b) = a" if "CHR ''/'' \<notin> set a" for a b
    using that unfolding full_name_def by (induction a) auto
  from eq tw [OF assms(1)] tw [OF assms(2)] have "ns = ns'" by metis
  with eq show "ns = ns' \<and> k = k'" by (simp add: full_name_def)
qed simp

text \<open>
  Namespaces isolate: two accepted (namespace, key) pairs whose namespaces contain no
  slash are stored under the same backend name only if both components are equal.
\<close>

theorem storage_names_isolated:
  assumes "build_name (Some ns) (Some k) = Inr name" and "build_name (Some ns') (Some k') = Inr name"
    and "CHR ''/'' \<notin> set ns" and "CHR ''/'' \<notin> set ns'"
  shows "ns = ns' \<and> k = k'"
  using assms full_name_inject [of ns ns' k k'] by (auto dest!: build_name_Inr)

theorem storage_names_isolated_witness:
  "\<not> (build_name (Some ''rzi'') (Some ''nwm'') = Inr ''rzi/nwm''
      \<and> build_name (Some ''rzi'') (Some ''band'') = Inr ''rzi/nwm'')"
  using storage_names_isolated [of "''rzi''" "''nwm''" "''rzi/nwm''" "''rzi''" "''band''"] by auto

section \<open>Effects of the operations on the contents\<close>

text \<open>What is persisted under a namespace and key.\<close>

definition look :: "('d \<Rightarrow> string \<rightharpoonup> bytes) \<Rightarrow> 'd storage_state \<Rightarrow> string \<Rightarrow> string \<rightharpoonup> bytes" where
  "look view s ns k = view (dev s) (full_name ns k)"

text \<open>
  The storage invariant; \<open>storage_ready\<close> adds that the caller is a thread and the backend is up,
  which is what makes reads succeed.
\<close>

definition storage_inv ::
  "('d, 'z) storage_env_scheme \<Rightarrow> ('d \<Rightarrow> string \<rightharpoonup> bytes) \<Rightarrow> 'd storage_state \<Rightarrow> bool" where
  "storage_inv E view s \<longleftrightarrow> settings_lawful E view \<and> power_ok (pwr s)"

definition storage_ready :: "'d storage_state \<Rightarrow> bool" where
  "storage_ready s \<longleftrightarrow> initialized s \<and> \<not> in_isr (pwr s)"

lemma init_effect:
  assumes "storage_inv E view s"
  shows "storage_inv E view (snd (rzi_storage_init E s))
    \<and> view (dev (snd (rzi_storage_init E s))) = view (dev s)
    \<and> pwr (snd (rzi_storage_init E s)) = pwr s
    \<and> (fst (rzi_storage_init E s) = 0 \<longrightarrow> storage_ready (snd (rzi_storage_init E s)))"
proof -
  obtain rc d where i: "settings_subsys_init E (dev s) = (rc, d)" by fastforce
  with assms have "rc \<le> 0 \<and> view d = view (dev s)"
    by (auto simp: storage_inv_def dest: lawful_init)
  with assms i show ?thesis
    by (auto simp: rzi_storage_init_def storage_inv_def storage_ready_def)
qed

lemma init_ready: "storage_ready s \<Longrightarrow> rzi_storage_init E s = (0, s)"
  by (simp add: storage_ready_def rzi_storage_init_def)

text \<open>The flash lock is neutral: the counters after a bracketed call are those before it.\<close>

lemma with_flash_lock_effect:
  assumes inv: "storage_inv E view s"
    and keep: "\<And>t. pwr (snd (call t)) = pwr t"
  shows "storage_inv E view (snd (with_flash_lock E call s))
    \<and> lock_count l (pwr (snd (with_flash_lock E call s))) = lock_count l (pwr s)
    \<and> in_isr (pwr (snd (with_flash_lock E call s))) = in_isr (pwr s)"
proof -
  have ok: "power_ok (pwr s)" using inv by (simp add: storage_inv_def)
  let ?g = "rzi_power_lock_get RZI_POWER_LOCK_FLASH (pwr s)"
  have isr: "in_isr (snd (rzi_power_lock_get k p)) = in_isr p"
    "in_isr (snd (rzi_power_lock_put k p)) = in_isr p" for k p
    by (auto simp: rzi_power_lock_get_def rzi_power_lock_put_def pm_call_def)
  show ?thesis
  proof (cases "cfg_auto_lock E \<and> fst ?g = 0")
    case True
    then have "pwr (snd (with_flash_lock E call s))
        = snd (rzi_power_lock_put RZI_POWER_LOCK_FLASH (snd ?g))"
      using keep [of "s\<lparr>pwr := snd ?g\<rparr>"]
      by (auto simp: with_flash_lock_def split: prod.splits)
    with True inv power_locks.bracket_restores [OF ok, of RZI_POWER_LOCK_FLASH l]
      power_locks.bracket_keeps_inv [OF ok] isr
    show ?thesis by (simp add: storage_inv_def)
  next
    case False
    then have "pwr (snd (with_flash_lock E call s)) = pwr s"
      using keep [of s] power_locks.get_refused [of RZI_POWER_LOCK_FLASH "pwr s"]
      by (auto simp: with_flash_lock_def split: prod.splits)
    with inv show ?thesis by (simp add: storage_inv_def)
  qed
qed

text \<open>
  A bracketed settings call that changes the contents to \<open>new\<close> exactly on a non-negative code:
  the operation built from it keeps the invariant, is neutral for the locks, and its own code
  says whether the contents changed.
\<close>

lemma with_flash_lock_split:
  assumes "\<And>t rc u. call t = (rc, u) \<Longrightarrow> view (dev t) = view (dev s) \<Longrightarrow>
      view (dev u) = (if 0 \<le> rc then new else view (dev s)) \<and> initialized u = initialized t"
  shows "view (dev (snd (with_flash_lock E call s)))
      = (if fst (with_flash_lock E call s) = 0 then new else view (dev s))
    \<and> initialized (snd (with_flash_lock E call s)) = initialized s"
proof -
  obtain g p where g: "rzi_power_lock_get RZI_POWER_LOCK_FLASH (pwr s) = (g, p)" by fastforce
  obtain r t where c: "call s = (r, t)" by fastforce
  obtain r' t' where c': "call (s\<lparr>pwr := p\<rparr>) = (r', t')" by fastforce
  show ?thesis using assms [OF c] assms [OF c'] g c c' by (simp add: with_flash_lock_def)
qed

lemma flash_op_effect:
  assumes inv: "storage_inv E view s"
    and keep: "\<And>t. pwr (snd (call t)) = pwr t"
    and eff: "\<And>t rc u. call t = (rc, u) \<Longrightarrow> view (dev t) = view (dev s) \<Longrightarrow>
      view (dev u) = (if 0 \<le> rc then new else view (dev s)) \<and> initialized u = initialized t"
    and m: "seq_ok (rzi_storage_init E) (with_flash_lock E call) s = (rc, t)"
  shows "storage_inv E view t \<and> view (dev t) = (if rc = 0 then new else view (dev s))
    \<and> (storage_ready s \<longrightarrow> storage_ready t) \<and> lock_count l (pwr t) = lock_count l (pwr s)"
proof -
  obtain rc1 s1 where i: "rzi_storage_init E s = (rc1, s1)" by fastforce
  from init_effect [OF inv] i have s1: "storage_inv E view s1" "view (dev s1) = view (dev s)"
    "pwr s1 = pwr s" "storage_ready s \<longrightarrow> storage_ready s1"
    by (auto simp: init_ready)
  show ?thesis
  proof (cases "rc1 = 0")
    case True
    then have "with_flash_lock E call s1 = (rc, t)" using m i by (simp add: seq_ok_def)
    with with_flash_lock_effect [OF s1(1) keep, of l]
      with_flash_lock_split [where call = call and s = s1 and view = view and new = new and E = E] eff s1
    show ?thesis by (auto simp: storage_ready_def)
  next
    case False
    with m i s1 show ?thesis by (auto simp: seq_ok_def)
  qed
qed

lemma write_effect_accepted:
  assumes inv: "storage_inv E view s" and name: "accepted ns k" and v: "v \<noteq> []"
    and w: "rzi_storage_write E (Some ns) (Some k) (Some v) (length v) s = (rc, t)"
  shows "storage_inv E view t
    \<and> view (dev t) = (if rc = 0 then (view (dev s))(full_name ns k \<mapsto> v) else view (dev s))
    \<and> (storage_ready s \<longrightarrow> storage_ready t) \<and> lock_count l (pwr t) = lock_count l (pwr s)"
proof (rule flash_op_effect [OF inv])
  let ?call = "\<lambda>t. case settings_save_one E (full_name ns k) v (dev t) of (rc, d) \<Rightarrow> (rc, t\<lparr>dev := d\<rparr>)"
  show "seq_ok (rzi_storage_init E) (with_flash_lock E ?call) s = (rc, t)"
    using w v by (simp add: rzi_storage_write_def build_name_accepted [OF name])
  have law: "settings_lawful E view" using inv by (simp add: storage_inv_def)
  show "view (dev u) = (if 0 \<le> r then (view (dev s))(full_name ns k \<mapsto> v) else view (dev s))
      \<and> initialized u = initialized x"
    if "?call x = (r, u)" and "view (dev x) = view (dev s)" for x r u
    using that by (auto split: prod.splits dest!: lawful_save [OF law])
qed (auto split: prod.splits)

lemmas write_effect = write_effect_accepted [OF _ name_ok_accepted]

lemma delete_effect:
  assumes inv: "storage_inv E view s" and name: "name_ok ns k"
    and w: "rzi_storage_delete E (Some ns) (Some k) s = (rc, t)"
  shows "storage_inv E view t
    \<and> view (dev t) = (if rc = 0 then (view (dev s))(full_name ns k := None) else view (dev s))
    \<and> (storage_ready s \<longrightarrow> storage_ready t) \<and> lock_count l (pwr t) = lock_count l (pwr s)"
proof (rule flash_op_effect [OF inv])
  let ?call = "\<lambda>t. let stored_size = settings_get_val_len E (full_name ns k) (dev t) in
     if stored_size < 0 then (stored_size, t)
     else if stored_size = 0 then (- ENOENT, t)
     else case settings_delete E (full_name ns k) (dev t) of (rc, d) \<Rightarrow> (rc, t\<lparr>dev := d\<rparr>)"
  show "seq_ok (rzi_storage_init E) (with_flash_lock E ?call) s = (rc, t)"
    using w by (simp add: rzi_storage_delete_def build_name_ok [OF name])
  have law: "settings_lawful E view" using inv by (simp add: storage_inv_def)
  show "view (dev u) = (if 0 \<le> r then (view (dev s))(full_name ns k := None) else view (dev s))
      \<and> initialized u = initialized x"
    if "?call x = (r, u)" and "view (dev x) = view (dev s)" for x r u
    using that lawful_len [OF law, of "full_name ns k" "dev x"]
    by (auto simp: Let_def split: prod.splits if_splits option.splits dest!: lawful_delete [OF law])
qed (auto simp: Let_def split: prod.splits)

lemma from_errno_not_found:
  "rzi_err_from_errno rc = - RZI_ERR_NOT_FOUND \<Longrightarrow> rc = - ENOENT \<or> rc = - RZI_ERR_NOT_FOUND"
  by (simp add: rzi_err_from_errno_def split: if_splits)

text \<open>On a ready store, a delete that returns 0 or \<^verbatim>\<open>NOT_FOUND\<close> leaves nothing to read.\<close>

lemma delete_gone:
  assumes inv: "storage_inv E view s" and ready: "storage_ready s" and name: "name_ok ns k"
    and w: "rzi_storage_delete E (Some ns) (Some k) s = (rc, t)"
    and rc: "rc = 0 \<or> rc = - RZI_ERR_NOT_FOUND"
  shows "look view t ns k \<in> {None, Some []}"
proof (cases "rc = 0")
  case True
  with delete_effect [OF inv name w] show ?thesis by (simp add: look_def)
next
  case False
  have law: "settings_lawful E view" using inv by (simp add: storage_inv_def)
  have same: "view (dev t) = view (dev s)" using False delete_effect [OF inv name w] by simp
  have "view (dev s) (full_name ns k) \<in> {None, Some []}"
  proof (rule ccontr)
    assume "view (dev s) (full_name ns k) \<notin> {None, Some []}"
    then obtain v where v: "view (dev s) (full_name ns k) = Some v" "v \<noteq> []" by auto
    obtain r d where d: "settings_delete E (full_name ns k) (dev s) = (r, d)" by fastforce
    have len: "settings_get_val_len E (full_name ns k) (dev s) = int (length v)"
      using lawful_len [OF law] v by simp
    show False
      using w d len lawful_delete [OF law d] v ready False rc from_errno_not_found [of r]
      by (auto simp: rzi_storage_delete_def build_name_ok [OF name] seq_ok_def init_ready Let_def
          with_flash_lock_def rzi_power_lock_get_def storage_ready_def split: prod.splits if_splits)
  qed
  with same show ?thesis by (simp add: look_def)
qed

text \<open>A missing value cannot be deleted: the code is \<^verbatim>\<open>NOT_FOUND\<close> once the lock is granted.\<close>

lemma delete_missing:
  assumes inv: "storage_inv E view s" and "storage_ready s" and name: "name_ok ns k"
    and "look view s ns k = None"
    and w: "rzi_storage_delete E (Some ns) (Some k) s = (rc, t)"
  shows "rc = - RZI_ERR_NOT_FOUND \<or> rc = - RZI_ERR_NO_RESOURCE"
proof -
  have law: "settings_lawful E view" using inv by (simp add: storage_inv_def)
  have len: "settings_get_val_len E (full_name ns k) (dev s) = 0"
    using lawful_len [OF law] assms(4) by (simp add: look_def)
  have enoent: "rzi_err_from_errno (- ENOENT) = - RZI_ERR_NOT_FOUND"
    by (simp add: rzi_err_from_errno_def catalog_name_def)
  show ?thesis
    using w len enoent assms(2)
    by (auto simp: rzi_storage_delete_def build_name_ok [OF name] seq_ok_def init_ready
        with_flash_lock_def rzi_power_lock_get_def storage_ready_def split: prod.splits if_splits)
qed

lemma read_effect:
  assumes inv: "storage_inv E view s" and name: "name_ok ns k" and "buf \<noteq> []"
    and r: "rzi_storage_read E (Some ns) (Some k) (Some buf) (length buf) s = (rc, out, t)"
  shows "storage_inv E view t \<and> view (dev t) = view (dev s) \<and> pwr t = pwr s
    \<and> (storage_ready s \<longrightarrow> storage_ready t) \<and> length (the out) = length buf \<and> out \<noteq> None
    \<and> (rc = 0 \<longrightarrow> (\<exists>v. look view s ns k = Some v \<and> length v = length buf \<and> out = Some v))"
proof -
  obtain rc1 s1 where i: "rzi_storage_init E s = (rc1, s1)" by fastforce
  obtain n b where l: "settings_load_one E (full_name ns k) (length buf) (dev s1) = (n, b)" by fastforce
  from init_effect [OF inv] i have s1: "storage_inv E view s1" "view (dev s1) = view (dev s)"
    "pwr s1 = pwr s" "storage_ready s \<longrightarrow> storage_ready s1"
    by (auto simp: init_ready)
  have law: "settings_lawful E view" using inv by (simp add: storage_inv_def)
  have spec: "load_spec (look view s ns k) (length buf) (n, b)"
    using lawful_load [OF law, of "dev s1" "full_name ns k" "length buf"] l s1(2)
    by (simp add: look_def)
  show ?thesis
    using r assms(3) s1 i l spec
    by (auto simp: rzi_storage_read_def build_name_ok [OF name] load_spec_def Let_def
        split: if_splits option.splits)
qed

lemma read_ready_accepted:
  assumes inv: "storage_inv E view s" and "storage_ready s" and name: "accepted ns k" and "buf \<noteq> []"
  shows "rzi_storage_read E (Some ns) (Some k) (Some buf) (length buf) s =
    (case look view s ns k of
       None \<Rightarrow> (- RZI_ERR_NOT_FOUND, Some buf, s)
     | Some v \<Rightarrow> if v = [] then (- RZI_ERR_NOT_FOUND, Some buf, s)
        else if length v = length buf then (0, Some v, s)
        else (- RZI_ERR_TOO_LARGE, Some (overlay (take (length buf) v) buf), s))"
proof -
  have law: "settings_lawful E view" using inv by (simp add: storage_inv_def)
  have enoent: "rzi_err_from_errno (- ENOENT) = - RZI_ERR_NOT_FOUND"
    by (simp add: rzi_err_from_errno_def catalog_name_def)
  have "load_spec (look view s ns k) (length buf)
      (settings_load_one E (full_name ns k) (length buf) (dev s))"
    using lawful_load [OF law] by (simp add: look_def)
  then show ?thesis
    using assms(2,4) enoent
    by (auto simp: rzi_storage_read_def build_name_accepted [OF name] load_spec_def Let_def init_ready
        overlay_def split: option.splits)
qed

lemmas read_ready = read_ready_accepted [OF _ _ name_ok_accepted]

section \<open>Interrupt context\<close>

text \<open>No storage operation changes the context it runs in.\<close>

lemma isr_lock [simp]:
  "in_isr (snd (rzi_power_lock_get k p)) = in_isr p" "in_isr (snd (rzi_power_lock_put k p)) = in_isr p"
  by (auto simp: rzi_power_lock_get_def rzi_power_lock_put_def pm_call_def)

lemma isr_init: "rzi_storage_init E s = (rc, t) \<Longrightarrow> in_isr (pwr t) = in_isr (pwr s)"
  by (auto simp: rzi_storage_init_def split: if_splits prod.splits)

lemma isr_flash_lock:
  assumes c: "\<And>x. in_isr (pwr (snd (call x))) = in_isr (pwr x)" and w: "with_flash_lock E call s = (rc, t)"
  shows "in_isr (pwr t) = in_isr (pwr s)"
proof -
  obtain g p where g: "rzi_power_lock_get RZI_POWER_LOCK_FLASH (pwr s) = (g, p)" by fastforce
  then have p: "in_isr p = in_isr (pwr s)" using isr_lock(1) [of RZI_POWER_LOCK_FLASH "pwr s"] by simp
  from w g c [of s] c [of "s\<lparr>pwr := p\<rparr>"] p show ?thesis
    by (auto simp: with_flash_lock_def split: if_splits prod.splits)
qed

lemma isr_flash_op:
  assumes "\<And>x. in_isr (pwr (snd (call x))) = in_isr (pwr x)"
    and "seq_ok (rzi_storage_init E) (with_flash_lock E call) s = (rc, t)"
  shows "in_isr (pwr t) = in_isr (pwr s)"
  using assms(2) isr_flash_lock [OF assms(1)]
  by (auto simp: seq_ok_def dest!: isr_init split: prod.splits if_splits)

lemma isr_write: "rzi_storage_write E ns k v n s = (rc, t) \<Longrightarrow> in_isr (pwr t) = in_isr (pwr s)"
  by (auto simp: rzi_storage_write_def split: if_splits sum.splits
      elim!: isr_flash_op [rotated] split: prod.splits)

lemma isr_delete: "rzi_storage_delete E ns k s = (rc, t) \<Longrightarrow> in_isr (pwr t) = in_isr (pwr s)"
  by (auto simp: rzi_storage_delete_def Let_def split: if_splits sum.splits
      elim!: isr_flash_op [rotated] split: prod.splits)

lemma isr_write_record: "rzi_storage_write_record E ns k v p n s = (rc, t) \<Longrightarrow> in_isr (pwr t) = in_isr (pwr s)"
  by (auto simp: rzi_storage_write_record_def split: if_splits dest: isr_write)

lemma isr_read: "rzi_storage_read E ns k v n s = (rc, out, t) \<Longrightarrow> in_isr (pwr t) = in_isr (pwr s)"
  by (auto simp: rzi_storage_read_def Let_def split: if_splits sum.splits prod.splits dest: isr_init)

lemma isr_read_record: "rzi_storage_read_record E ns k v p c n s = (rc, out, t) \<Longrightarrow> in_isr (pwr t) = in_isr (pwr s)"
  by (auto simp: rzi_storage_read_record_def split: if_splits sum.splits prod.splits dest: isr_init)

section \<open>The key-value interface\<close>

text \<open>
  What the settings schema and the AT packages rely on: a successful write is what a later
  read returns, a successful delete removes, other names are untouched, failures leave the
  contents as they were, and on a ready store the answer to a read is determined.
\<close>

locale kv_store =
  fixes rd :: "string option \<Rightarrow> string option \<Rightarrow> bytes option \<Rightarrow> nat \<Rightarrow> 's \<Rightarrow> int \<times> bytes option \<times> 's"
    and wr :: "string option \<Rightarrow> string option \<Rightarrow> bytes option \<Rightarrow> nat \<Rightarrow> 's op"
    and del :: "string option \<Rightarrow> string option \<Rightarrow> 's op"
    and lk :: "'s \<Rightarrow> string \<Rightarrow> string \<rightharpoonup> bytes"
    and inv :: "'s \<Rightarrow> bool" and ready :: "'s \<Rightarrow> bool" and ok :: "string \<Rightarrow> string \<Rightarrow> bool"
  assumes write_law: "inv s \<Longrightarrow> ok ns k \<Longrightarrow> v \<noteq> [] \<Longrightarrow>
      wr (Some ns) (Some k) (Some v) (length v) s = (rc, t) \<Longrightarrow>
      inv t \<and> (ready s \<longrightarrow> ready t)
      \<and> (\<forall>ns' k'. ok ns' k' \<longrightarrow>
           lk t ns' k' = (if rc = 0 \<and> ns' = ns \<and> k' = k then Some v else lk s ns' k'))"
    and delete_law: "inv s \<Longrightarrow> ok ns k \<Longrightarrow> del (Some ns) (Some k) s = (rc, t) \<Longrightarrow>
      inv t \<and> (ready s \<longrightarrow> ready t)
      \<and> (\<forall>ns' k'. ok ns' k' \<longrightarrow>
           lk t ns' k' = (if rc = 0 \<and> ns' = ns \<and> k' = k then None else lk s ns' k'))"
    and read_law: "inv s \<Longrightarrow> ok ns k \<Longrightarrow> buf \<noteq> [] \<Longrightarrow>
      rd (Some ns) (Some k) (Some buf) (length buf) s = (rc, out, t) \<Longrightarrow>
      inv t \<and> (ready s \<longrightarrow> ready t) \<and> lk t = lk s \<and> length (the out) = length buf \<and> out \<noteq> None
      \<and> (rc = 0 \<longrightarrow> (\<exists>v. lk s ns k = Some v \<and> length v = length buf \<and> out = Some v))"
    and read_hit: "inv s \<Longrightarrow> ready s \<Longrightarrow> ok ns k \<Longrightarrow> lk s ns k = Some v \<Longrightarrow> v \<noteq> [] \<Longrightarrow>
      length buf = length v \<Longrightarrow> rd (Some ns) (Some k) (Some buf) (length buf) s = (0, Some v, s)"
    and read_miss: "inv s \<Longrightarrow> ready s \<Longrightarrow> ok ns k \<Longrightarrow> buf \<noteq> [] \<Longrightarrow> lk s ns k \<in> {None, Some []} \<Longrightarrow>
      rd (Some ns) (Some k) (Some buf) (length buf) s = (- RZI_ERR_NOT_FOUND, Some buf, s)"
begin

lemma write_read:
  assumes "inv s" and "ready s" and "ok ns k" and "v \<noteq> []" and "length buf = length v"
    and "wr (Some ns) (Some k) (Some v) (length v) s = (0, t)"
  shows "rd (Some ns) (Some k) (Some buf) (length buf) t = (0, Some v, t)"
  using write_law [OF assms(1,3,4,6)] assms by (intro read_hit) auto

lemma write_read_other:
  assumes "inv s" and "ready s" and "ok ns k" and "ok ns' k'" and "(ns', k') \<noteq> (ns, k)"
    and "v \<noteq> []" and "wr (Some ns) (Some k) (Some v) (length v) s = (rc, t)"
    and "lk s ns' k' = Some w" and "w \<noteq> []" and "length buf = length w"
  shows "rd (Some ns') (Some k') (Some buf) (length buf) t = (0, Some w, t)"
  using write_law [OF assms(1,3,6,7)] assms by (intro read_hit) auto

lemma delete_read:
  assumes "inv s" and "ready s" and "ok ns k" and "buf \<noteq> []"
    and "del (Some ns) (Some k) s = (0, t)"
  shows "rd (Some ns) (Some k) (Some buf) (length buf) t = (- RZI_ERR_NOT_FOUND, Some buf, t)"
  using delete_law [OF assms(1,3,5)] assms by (intro read_miss) auto

end

lemma name_ok_inject: "name_ok ns k \<Longrightarrow> name_ok ns' k' \<Longrightarrow>
    full_name ns k = full_name ns' k' \<longleftrightarrow> ns = ns' \<and> k = k'"
  by (simp add: name_ok_def full_name_inject)

interpretation storage: kv_store "rzi_storage_read E" "rzi_storage_write E" "rzi_storage_delete E"
  "look view" "storage_inv E view" storage_ready name_ok for E and view
proof
  fix s ns k v rc t
  assume a: "storage_inv E view s" "name_ok ns k" "v \<noteq> []"
    "rzi_storage_write E (Some ns) (Some k) (Some v) (length v) s = (rc, t)"
  show "storage_inv E view t \<and> (storage_ready s \<longrightarrow> storage_ready t)
    \<and> (\<forall>ns' k'. name_ok ns' k' \<longrightarrow>
        look view t ns' k' = (if rc = 0 \<and> ns' = ns \<and> k' = k then Some v else look view s ns' k'))"
    using write_effect [OF a] a(2) name_ok_inject [of _ _ ns k] by (auto simp: look_def)
next
  fix s ns k rc t
  assume a: "storage_inv E view s" "name_ok ns k" "rzi_storage_delete E (Some ns) (Some k) s = (rc, t)"
  show "storage_inv E view t \<and> (storage_ready s \<longrightarrow> storage_ready t)
    \<and> (\<forall>ns' k'. name_ok ns' k' \<longrightarrow>
        look view t ns' k' = (if rc = 0 \<and> ns' = ns \<and> k' = k then None else look view s ns' k'))"
    using delete_effect [OF a] a(2) name_ok_inject [of _ _ ns k] by (auto simp: look_def)
next
  fix s ns k buf rc out t
  assume "storage_inv E view s" "name_ok ns k" "buf \<noteq> []"
    "rzi_storage_read E (Some ns) (Some k) (Some buf) (length buf) s = (rc, out, t)"
  from read_effect [OF this] show "storage_inv E view t \<and> (storage_ready s \<longrightarrow> storage_ready t)
    \<and> look view t = look view s \<and> length (the out) = length buf \<and> out \<noteq> None
    \<and> (rc = 0 \<longrightarrow> (\<exists>v. look view s ns k = Some v \<and> length v = length buf \<and> out = Some v))"
    by (auto simp: look_def fun_eq_iff)
next
  show "storage_inv E view s \<Longrightarrow> storage_ready s \<Longrightarrow> name_ok ns k \<Longrightarrow> look view s ns k = Some v \<Longrightarrow>
    v \<noteq> [] \<Longrightarrow> length buf = length v \<Longrightarrow>
    rzi_storage_read E (Some ns) (Some k) (Some buf) (length buf) s = (0, Some v, s)" for s ns k v buf
    using read_ready [of E view s ns k buf] by (cases buf) auto
qed (auto simp: read_ready)

section \<open>Records: exact acceptance\<close>

lemma record_image_parts:
  assumes "length payload < 65536"
  shows "length (record_image E v payload) = 12 + length payload"
    and "get_le32 (record_image E v payload) = RECORD_MAGIC"
    and "get_le16 (drop 4 (record_image E v payload)) = v"
    and "unat (get_le16 (drop 6 (record_image E v payload))) = length payload"
    and "get_le32 (drop 8 (record_image E v payload))
      = record_crc E (record_image E v payload) (length payload)"
    and "drop 12 (record_image E v payload) = payload"
  using assms
  by (simp_all add: record_image_def record_crc_def Let_def unat_of_nat take_bit_nat_eq_self)

lemma check_record_image:
  assumes "v \<noteq> 0" and "payload \<noteq> []" and "length payload \<le> capacity" and "length payload < 65536"
  shows "check_record E capacity (record_image E v payload) = Inr (v, payload)"
  using assms(1-3) by (simp add: check_record_def record_image_parts [OF assms(4)])

lemma drop_split: "drop a xs = take n (drop a xs) @ drop (n + a) xs"
  by (simp flip: drop_drop)

lemma split_record:
  "rec = take 4 rec @ take 2 (drop 4 rec) @ take 2 (drop 6 rec) @ take 4 (drop 8 rec) @ drop 12 rec"
  using drop_split [of 0 rec 4] drop_split [of 4 rec 2] drop_split [of 6 rec 2] drop_split [of 8 rec 4]
  by simp

lemma get_le_take: "4 \<le> length xs \<Longrightarrow> get_le32 (take 4 xs) = get_le32 xs"
  "2 \<le> length xs \<Longrightarrow> get_le16 (take 2 xs) = get_le16 xs"
  by (auto simp: eval_nat_numeral Suc_le_length_iff)

lemma check_record_Inl: "check_record E capacity rec = Inl rc \<Longrightarrow> rc \<noteq> 0"
  by (auto simp: check_record_def Let_def split: if_splits)

lemma check_record_sound:
  assumes "check_record E capacity rec = Inr (v, payload)"
  shows "rec = record_image E v payload \<and> v \<noteq> 0 \<and> payload \<noteq> [] \<and> length payload \<le> capacity"
proof -
  from assms have len: "12 < length rec" and magic: "get_le32 rec = RECORD_MAGIC"
    and ver: "get_le16 (drop 4 rec) = v" "v \<noteq> 0"
    and sz: "unat (get_le16 (drop 6 rec)) = length rec - 12"
    and crc: "get_le32 (drop 8 rec) = record_crc E rec (length rec - 12)"
    and pl: "payload = drop 12 rec" and cap: "length rec - 12 \<le> capacity"
    by (auto simp: check_record_def Let_def split: if_splits)
  let ?n = "of_nat (length payload) :: u16"
  have A: "take 4 rec = put_le32 RECORD_MAGIC"
    using put_get_le32 [of "take 4 rec"] get_le_take(1) [of rec] len magic by simp
  have V: "take 2 (drop 4 rec) = put_le16 v"
    using put_get_le16 [of "take 2 (drop 4 rec)"] get_le_take(2) [of "drop 4 rec"] len ver by simp
  have "?n = of_nat (unat (get_le16 (drop 6 rec)))" using sz pl by simp
  then have "get_le16 (drop 6 rec) = ?n" by simp
  then have L: "take 2 (drop 6 rec) = put_le16 ?n"
    using put_get_le16 [of "take 2 (drop 6 rec)"] get_le_take(2) [of "drop 6 rec"] len by simp
  have C: "take 4 (drop 8 rec) = put_le32 (record_crc E rec (length payload))"
    using put_get_le32 [of "take 4 (drop 8 rec)"] get_le_take(1) [of "drop 8 rec"] len crc pl by simp
  obtain c where c: "c = record_crc E rec (length payload)" by simp
  have r: "rec = put_le32 RECORD_MAGIC @ put_le16 v @ put_le16 ?n @ put_le32 c @ payload"
    using split_record [of rec] unfolding A V L C pl c .
  have t8: "take 8 rec = put_le32 RECORD_MAGIC @ put_le16 v @ put_le16 ?n"
    using arg_cong [OF r, of "take 8"] by simp
  have d12: "drop 12 rec = payload" using pl by simp
  have "c = record_crc E ((put_le32 RECORD_MAGIC @ put_le16 v @ put_le16 ?n) @ replicate 4 0 @ payload)
      (length payload)"
    unfolding c record_crc_def t8 d12 by simp
  with r have "rec = record_image E v payload" unfolding record_image_def Let_def by simp
  moreover have "payload \<noteq> []" and "length payload \<le> capacity" using len pl cap by simp_all
  ultimately show ?thesis using ver(2) by blast
qed

text \<open>Loading a record on a ready store: its bytes if it fits the scratch buffer.\<close>

lemma load_record_lawful:
  assumes "settings_lawful E view" and "view d name = Some v" and "v \<noteq> []"
    and "length v \<le> 12 + cfg_record_max E"
  shows "load_record E name d = (0, v)"
  using lawful_len [OF assms(1), of name d] lawful_load [OF assms(1), of d name "length v"] assms(2-4)
  by (simp add: load_record_def Let_def load_spec_def)

lemma load_record_sound:
  assumes "settings_lawful E view" and "load_record E name d = (0, v)"
  shows "view d name = Some v"
proof (cases "view d name")
  case None
  with assms(2) lawful_len [OF assms(1), of name d] show ?thesis
    by (simp add: load_record_def Let_def)
next
  case (Some w)
  with assms(2) lawful_len [OF assms(1), of name d] lawful_load [OF assms(1), of d name "length w"]
  show ?thesis by (auto simp: load_record_def Let_def load_spec_def split: if_splits)
qed

text \<open>The record operations in terms of the persisted contents.\<close>

lemma read_record_effect:
  assumes inv: "storage_inv E view s" and name: "name_ok ns k"
    and r: "rzi_storage_read_record E (Some ns) (Some k) (Some ver_old) (Some buf) (length buf) (Some n_old) s
      = (rc, (ver, val, n), t)"
  shows "storage_inv E view t \<and> look view t = look view s \<and> (storage_ready s \<longrightarrow> storage_ready t)
    \<and> (rc = 0 \<longrightarrow> (\<exists>v payload. ver = Some v \<and> v \<noteq> 0 \<and> val = Some (overlay payload buf)
          \<and> n = Some (length payload) \<and> payload \<noteq> [] \<and> length payload \<le> length buf
          \<and> look view s ns k = Some (record_image E v payload)))
    \<and> (rc \<noteq> 0 \<longrightarrow> ver = Some ver_old \<and> val = Some buf \<and> n = Some n_old)"
proof -
  have law: "settings_lawful E view" using inv by (simp add: storage_inv_def)
  obtain rc1 s1 where i: "rzi_storage_init E s = (rc1, s1)" by fastforce
  obtain rc2 rec where l: "load_record E (full_name ns k) (dev s1) = (rc2, rec)" by fastforce
  from init_effect [OF inv] i have v: "view (dev s1) = view (dev s)" "storage_inv E view s1"
    "storage_ready s \<longrightarrow> storage_ready s1"
    by (auto simp: init_ready)
  show ?thesis
    using r i l load_record_sound [OF law, of "full_name ns k" "dev s1" rec] v inv
    by (auto simp: rzi_storage_read_record_def build_name_ok [OF name] look_def fun_eq_iff
        dest: check_record_Inl dest!: check_record_sound split: if_splits sum.splits)
qed

lemma read_record_hit:
  assumes inv: "storage_inv E view s" and ready: "storage_ready s" and name: "name_ok ns k"
    and "look view s ns k = Some (record_image E version v)" and "version \<noteq> 0" and "v \<noteq> []"
    and "length v \<le> cfg_record_max E" and "cfg_record_max E < 65536" and "length v \<le> length buf"
  shows "rzi_storage_read_record E (Some ns) (Some k) (Some ver_old) (Some buf) (length buf) (Some n_old) s
    = (0, (Some version, Some (overlay v buf), Some (length v)), s)"
proof -
  have law: "settings_lawful E view" using inv by (simp add: storage_inv_def)
  let ?img = "record_image E version v"
  have len: "length ?img = 12 + length v" using assms(7,8) by (intro record_image_parts) simp
  then have ne: "?img \<noteq> []" by auto
  have "load_record E (full_name ns k) (dev s) = (0, ?img)"
    using load_record_lawful [OF law _ ne] len assms(4,7) by (auto simp: look_def)
  moreover have "check_record E (length buf) ?img = Inr (version, v)"
    using assms(5-9) by (intro check_record_image) auto
  ultimately show ?thesis
    using ready assms(6,9)
    by (auto simp: rzi_storage_read_record_def build_name_ok [OF name] init_ready storage_ready_def)
qed

lemma read_record_miss:
  assumes inv: "storage_inv E view s" and ready: "storage_ready s" and name: "name_ok ns k"
    and "look view s ns k \<in> {None, Some []}" and "buf \<noteq> []"
  shows "rzi_storage_read_record E (Some ns) (Some k) (Some ver_old) (Some buf) (length buf) (Some n_old) s
    = (- RZI_ERR_NOT_FOUND, (Some ver_old, Some buf, Some n_old), s)"
proof -
  have law: "settings_lawful E view" using inv by (simp add: storage_inv_def)
  have "load_record E (full_name ns k) (dev s) = (- RZI_ERR_NOT_FOUND, [])"
    using lawful_len [OF law, of "full_name ns k" "dev s"] assms(4)
    by (auto simp: load_record_def look_def)
  with ready assms(5) show ?thesis
    by (auto simp: rzi_storage_read_record_def build_name_ok [OF name] init_ready storage_ready_def)
qed

lemma write_record_effect:
  assumes inv: "storage_inv E view s" and name: "name_ok ns k" and len: "cfg_record_max E < 65536"
    and w: "rzi_storage_write_record E (Some ns) (Some k) version (Some v) (length v) s = (rc, t)"
  shows "storage_inv E view t \<and> (storage_ready s \<longrightarrow> storage_ready t)
    \<and> (rc = 0 \<longrightarrow> version \<noteq> 0 \<and> v \<noteq> [] \<and> length v \<le> cfg_record_max E)
    \<and> (\<forall>ns' k'. name_ok ns' k' \<longrightarrow> look view t ns' k'
        = (if rc = 0 \<and> ns' = ns \<and> k' = k then Some (record_image E version v) else look view s ns' k'))"
proof (cases "in_isr (pwr s) \<or> version = 0 \<or> v = [] \<or> length v > cfg_record_max E")
  case True
  with w inv show ?thesis by (auto simp: rzi_storage_write_record_def split: if_splits)
next
  case False
  let ?img = "record_image E version v"
  have len: "length ?img = 12 + length v" using False len by (intro record_image_parts) simp
  then have ne: "?img \<noteq> []" by auto
  have "rzi_storage_write E (Some ns) (Some k) (Some ?img) (length ?img) s = (rc, t)"
    using w False by (auto simp: rzi_storage_write_record_def len split: if_splits)
  from storage.write_law [OF inv name ne this] False show ?thesis by auto
qed

section \<open>A reference backend\<close>

text \<open>
  An in-memory settings backend whose state is the contents themselves. It shows that the
  hypothesis can hold; the theorems are about every lawful backend.
\<close>

definition mem_env :: "bool \<Rightarrow> 'z \<Rightarrow> (string \<rightharpoonup> bytes, 'z) storage_env_scheme" where
  "mem_env auto_lock z = \<lparr>cfg_auto_lock = auto_lock, cfg_record_max = 256, cfg_settings_nvs = False,
     settings_subsys_init = (\<lambda>d. (0, d)),
     settings_load_one = (\<lambda>name n d. case d name of None \<Rightarrow> (0, [])
        | Some v \<Rightarrow> (int (length v), take n v)),
     settings_save_one = (\<lambda>name v d. (0, d(name \<mapsto> v))),
     settings_delete = (\<lambda>name d. (0, d(name := None))),
     settings_get_val_len = (\<lambda>name d. case d name of None \<Rightarrow> 0 | Some v \<Rightarrow> int (length v)),
     settings_load_subtree_direct = (\<lambda>name d. (0, [])),
     settings_storage_get = (\<lambda>d. (- ENOTSUP, None)),
     nvs_calc_free_space = (\<lambda>fs d. 0),
     nvs_sector_max_data_size = (\<lambda>fs d. 0),
     crc32_ieee = (\<lambda>bs. of_nat (length bs)),
     crc32_ieee_continue = (\<lambda>c bs. c + sum_list (map ucast bs)),
     \<dots> = z\<rparr>"

lemma mem_env_lawful: "settings_lawful (mem_env b z) (\<lambda>d. d)"
  by (auto simp: settings_lawful_def mem_env_def load_spec_def split: option.splits)

definition mem_state :: "(string \<rightharpoonup> bytes) \<Rightarrow> (string \<rightharpoonup> bytes) storage_state" where
  "mem_state d = \<lparr>pwr = power_init, initialized = True, dev = d\<rparr>"

lemma mem_state_inv: "storage_inv (mem_env b z) (\<lambda>d. d) (mem_state d)"
  by (simp add: storage_inv_def mem_env_lawful mem_state_def power_ok_init)

lemma mem_state_ready: "storage_ready (mem_state d)"
  by (simp add: storage_ready_def mem_state_def power_init_def)

lemmas mem_eval = rzi_storage_init_def seq_ok_def with_flash_lock_def rzi_power_lock_get_def
  rzi_power_lock_put_def pm_call_def mem_state_def power_init_def mem_env_def

lemma name_ok_example: "name_ok ''lorawan'' ''cfm''"
  by (simp add: name_ok_def valid_component_def)

section \<open>Properties\<close>

text \<open>
  C6. Stored values come back: on a ready, lawful store, after a write that returned 0 a read of
  the same namespace, key and size returns 0 with exactly the written bytes and changes nothing;
  and every read of an accepted namespace and key whose composed backend name differs answers
  with the code and the buffer it answered with before the write. The claim covers every pair
  the code accepts, a namespace with a \<^verbatim>\<open>/\<close> included: two pairs that compose to the same
  backend name, such as (\<open>''a/b''\<close>, \<open>''c''\<close>) and (\<open>''a''\<close>, \<open>''b/c''\<close>), are one stored value, and reading
  either gives what was written through the other.
\<close>

theorem storage_write_read:
  assumes "settings_lawful E view" and "power_ok (pwr s)" and "storage_ready s"
    and "build_name (Some ns) (Some k) = Inr name" and "v \<noteq> []"
    and "rzi_storage_write E (Some ns) (Some k) (Some v) (length v) s = (0, t)"
    and "build_name (Some ns') (Some k') = Inr name'" and "buf \<noteq> []"
  shows "(name' = name \<longrightarrow> length buf = length v \<longrightarrow>
        rzi_storage_read E (Some ns') (Some k') (Some buf) (length buf) t = (0, Some v, t))
    \<and> (name' \<noteq> name \<longrightarrow>
        (\<exists>rc out. rzi_storage_read E (Some ns') (Some k') (Some buf) (length buf) s = (rc, out, s)
          \<and> rzi_storage_read E (Some ns') (Some k') (Some buf) (length buf) t = (rc, out, t)))"
proof -
  have inv: "storage_inv E view s" using assms(1,2) by (simp add: storage_inv_def)
  have n: "name = full_name ns k" "name' = full_name ns' k'"
    using build_name_Inr [OF assms(4)] build_name_Inr [OF assms(7)] by auto
  then have acc: "accepted ns k" "accepted ns' k'" using assms(4,7) by (simp_all add: accepted_def)
  from write_effect_accepted [OF inv acc(1) assms(5,6)] assms(3)
  have t: "storage_inv E view t" "storage_ready t"
    "look view t ns' k' = (if name' = name then Some v else look view s ns' k')"
    by (auto simp: look_def n)
  show ?thesis
    using read_ready_accepted [OF inv assms(3) acc(2) assms(8)]
      read_ready_accepted [OF t(1,2) acc(2) assms(8)] t(3) assms(5)
    by (auto split: option.splits)
qed

theorem storage_write_read_witness:
  "\<exists>t. rzi_storage_write (mem_env True ()) (Some ''a/b'') (Some ''c'') (Some [1])
        (length [1 :: u8]) (mem_state Map.empty) = (0, t)
    \<and> rzi_storage_read (mem_env True ()) (Some ''a'') (Some ''b/c'') (Some [0]) (length [0 :: u8]) t
        = (0, Some [1], t)"
proof -
  let ?w = "rzi_storage_write (mem_env True ()) (Some ''a/b'') (Some ''c'') (Some [1])
        (length [1 :: u8]) (mem_state Map.empty)"
  have n: "build_name (Some ''a/b'') (Some ''c'') = Inr ''a/b/c''"
    "build_name (Some ''a'') (Some ''b/c'') = Inr ''a/b/c''"
    by (simp_all add: build_name_def valid_component_def)
  have "fst ?w = 0" by (simp add: rzi_storage_write_def n(1) mem_eval)
  then have w: "?w = (0, snd ?w)" by (simp add: prod_eq_iff)
  have "power_ok (pwr (mem_state Map.empty))" by (simp add: mem_state_def power_ok_init)
  from storage_write_read [OF mem_env_lawful this mem_state_ready n(1) _ w n(2), of "[0]"] w
  show ?thesis by (intro exI [of _ "snd ?w"]) simp
qed

text \<open>
  Versioned records survive a round trip: after a record write that returned 0, reading the
  record into a large enough buffer returns 0 with the same version, payload and size.
\<close>

theorem storage_record_roundtrip:
  assumes "settings_lawful E view" and "power_ok (pwr s)" and "storage_ready s"
    and "name_ok ns k" and "cfg_record_max E < 65536"
    and w: "rzi_storage_write_record E (Some ns) (Some k) version (Some v) (length v) s = (0, t)"
    and "length v \<le> length buf"
  shows "rzi_storage_read_record E (Some ns) (Some k) (Some ver_old) (Some buf) (length buf) (Some n_old) t
    = (0, (Some version, Some (overlay v buf), Some (length v)), t)"
proof -
  have inv: "storage_inv E view s" using assms(1,2) by (simp add: storage_inv_def)
  from write_record_effect [OF inv assms(4,5) w] assms(3,4)
  have "storage_inv E view t" "storage_ready t" "look view t ns k = Some (record_image E version v)"
    "version \<noteq> 0" "v \<noteq> []" "length v \<le> cfg_record_max E" by auto
  with assms(4,5,7) show ?thesis by (intro read_record_hit)
qed

theorem storage_record_roundtrip_witness:
  "\<exists>t. rzi_storage_write_record (mem_env False ()) (Some ''lorawan'') (Some ''cfm'') 1 (Some [1, 8, 0])
      (length [1, 8, 0 :: u8]) (mem_state Map.empty) = (0, t)
    \<and> rzi_storage_read_record (mem_env False ()) (Some ''lorawan'') (Some ''cfm'') (Some 0)
        (Some [0, 0, 0]) (length [0, 0, 0 :: u8]) (Some 0) t
      = (0, (Some 1, Some (overlay [1, 8, 0] [0, 0, 0]), Some 3), t)"
proof -
  let ?w = "rzi_storage_write_record (mem_env False ()) (Some ''lorawan'') (Some ''cfm'') 1
    (Some [1, 8, 0]) (length [1, 8, 0 :: u8]) (mem_state Map.empty)"
  have "fst ?w = 0"
    by (simp add: rzi_storage_write_record_def rzi_storage_write_def build_name_ok [OF name_ok_example]
        mem_eval)
  then have w: "?w = (0, snd ?w)" by (simp add: prod_eq_iff)
  have "power_ok (pwr (mem_state Map.empty))" "cfg_record_max (mem_env False ()) < 65536"
    by (simp_all add: mem_state_def power_ok_init mem_env_def)
  from storage_record_roundtrip [OF mem_env_lawful this(1) mem_state_ready name_ok_example this(2) w,
      of "[0, 0, 0]" 0 0] w
  show ?thesis by auto
qed

text \<open>
  Record validation is exact and atomic: a record read that returns 0 has found exactly the
  image that a record write of the returned version and payload produces (no other bytes are
  accepted), and one that fails leaves version, payload buffer and size untouched.
\<close>

theorem storage_record_sound:
  assumes law: "settings_lawful E view" and "power_ok (pwr s)" and name: "name_ok ns k"
    and r: "rzi_storage_read_record E (Some ns) (Some k) (Some ver_old) (Some buf) (length buf) (Some n_old) s
      = (rc, (ver, val, n), t)"
  shows "(rc = 0 \<longrightarrow> (\<exists>v payload. ver = Some v \<and> v \<noteq> 0 \<and> val = Some (overlay payload buf)
            \<and> n = Some (length payload) \<and> payload \<noteq> []
            \<and> look view s ns k = Some (record_image E v payload)))
    \<and> (rc \<noteq> 0 \<longrightarrow> ver = Some ver_old \<and> val = Some buf \<and> n = Some n_old)"
proof -
  have "storage_inv E view s" using assms(1,2) by (simp add: storage_inv_def)
  from read_record_effect [OF this name r] show ?thesis by blast
qed

theorem storage_record_sound_witness:
  "rzi_storage_read_record (mem_env False ()) (Some ''lorawan'') (Some ''cfm'') (Some 7) (Some [5])
     (length [5 :: u8]) (Some 9) (mem_state [''lorawan/cfm'' \<mapsto> [1, 2, 3]])
   = (- RZI_ERR_BAD_MESSAGE, (Some 7, Some [5], Some 9), mem_state [''lorawan/cfm'' \<mapsto> [1, 2, 3]])"
proof -
  let ?s = "mem_state [''lorawan/cfm'' \<mapsto> [1, 2, 3]]"
  let ?r = "rzi_storage_read_record (mem_env False ()) (Some ''lorawan'') (Some ''cfm'') (Some 7) (Some [5])
     (length [5 :: u8]) (Some 9) ?s"
  have nm: "full_name ''lorawan'' ''cfm'' = ''lorawan/cfm''" by (simp add: full_name_def)
  have ok: "power_ok (pwr ?s)" by (simp add: mem_state_def power_ok_init)
  have "fst ?r = - RZI_ERR_BAD_MESSAGE \<and> snd (snd ?r) = ?s"
    by (simp add: rzi_storage_read_record_def build_name_ok [OF name_ok_example] nm
        load_record_def Let_def check_record_def mem_eval)
  moreover from storage_record_sound [OF mem_env_lawful ok name_ok_example, where ver_old = 7 and buf = "[5]" and n_old = 9]
  have "fst ?r \<noteq> 0 \<longrightarrow> fst (snd ?r) = (Some 7, Some [5], Some 9)"
    by (metis prod.collapse)
  ultimately show ?thesis by (simp add: prod_eq_iff)
qed

text \<open>
  The flash power lock never leaks: a write or a delete, successful or not, leaves every
  power-lock counter as it found it.
\<close>

theorem storage_flash_lock_neutral:
  assumes "settings_lawful E view" and "power_ok (pwr s)" and "name_ok ns k" and "v \<noteq> []"
  shows "lock_count l (pwr (snd (rzi_storage_write E (Some ns) (Some k) (Some v) (length v) s)))
      = lock_count l (pwr s)
    \<and> lock_count l (pwr (snd (rzi_storage_delete E (Some ns) (Some k) s))) = lock_count l (pwr s)"
proof -
  have inv: "storage_inv E view s" using assms(1,2) by (simp add: storage_inv_def)
  show ?thesis
    using write_effect [OF inv assms(3,4)] delete_effect [OF inv assms(3)]
    by (metis prod.collapse)
qed

theorem storage_flash_lock_neutral_witness:
  "lock_count RZI_POWER_LOCK_FLASH (pwr (snd (rzi_storage_delete (mem_env True ())
     (Some ''lorawan'') (Some ''cfm'') (mem_state Map.empty)))) = 0"
proof -
  have "power_ok (pwr (mem_state Map.empty))" by (simp add: mem_state_def power_ok_init)
  from storage_flash_lock_neutral [OF mem_env_lawful [of True "()"] this name_ok_example, where v = "[1]" and l = RZI_POWER_LOCK_FLASH]
  show ?thesis by (simp add: mem_state_def power_init_def lock_count_def)
qed

end
