(* ===== verification/Rzi_Settings.thy ===== *)
theory Rzi_Settings
  imports Rzi_Storage
begin

text \<open>
  The LoRaWAN settings schema, \<^verbatim>\<open>src/lorawan/lorawan_settings.c\<close>: a fixed table of typed keys
  with defaults, a cache per key, migration from older layouts, and the factory reset. The
  value buffers of the C code hold exactly the bytes of their setting here; \<^verbatim>\<open>memcpy\<close> between
  such a buffer and an integer uses the little-endian order of the target.
\<close>

section \<open>Schema and state\<close>

datatype value_kind = BYTES | BOOLEAN | RETRIES | REGION | ACTIVATION | NET_ID | CHANNEL_MASK
  | INTERVAL | JOIN_POLICY

record setting =
  skey :: string
  ssize :: nat
  skind :: value_kind
  sdefault_first :: u8
  sloaded :: bool
  spresent :: bool
  svalue :: bytes

text \<open>\<open>cfg_storage\<close> is \<^verbatim>\<open>defined(CONFIG_RZI_STORAGE)\<close>.\<close>

record 'd settings_env = "'d storage_env" +
  cfg_storage :: bool

record 'd settings_state =
  store :: "'d storage_state"
  table :: "setting list"

abbreviation (input) RZI_LORAWAN_REGION_EU_868 :: nat where "RZI_LORAWAN_REGION_EU_868 \<equiv> 0"
abbreviation (input) RZI_LORAWAN_REGION_US_915 :: nat where "RZI_LORAWAN_REGION_US_915 \<equiv> 1"
abbreviation (input) RZI_LORAWAN_REGION_AU_915 :: nat where "RZI_LORAWAN_REGION_AU_915 \<equiv> 2"
abbreviation (input) RZI_LORAWAN_REGION_CN_470 :: nat where "RZI_LORAWAN_REGION_CN_470 \<equiv> 3"
abbreviation (input) RZI_LORAWAN_REGION_AS_923_GRP1 :: nat where "RZI_LORAWAN_REGION_AS_923_GRP1 \<equiv> 4"
abbreviation (input) RZI_LORAWAN_REGION_AS_923_GRP2 :: nat where "RZI_LORAWAN_REGION_AS_923_GRP2 \<equiv> 5"
abbreviation (input) RZI_LORAWAN_REGION_AS_923_GRP3 :: nat where "RZI_LORAWAN_REGION_AS_923_GRP3 \<equiv> 6"
abbreviation (input) RZI_LORAWAN_REGION_AS_923_GRP4 :: nat where "RZI_LORAWAN_REGION_AS_923_GRP4 \<equiv> 7"
abbreviation (input) RZI_LORAWAN_REGION_IN_865 :: nat where "RZI_LORAWAN_REGION_IN_865 \<equiv> 8"
abbreviation (input) RZI_LORAWAN_REGION_KR_920 :: nat where "RZI_LORAWAN_REGION_KR_920 \<equiv> 9"
abbreviation (input) RZI_LORAWAN_REGION_RU_864 :: nat where "RZI_LORAWAN_REGION_RU_864 \<equiv> 10"

abbreviation (input) RZI_LORAWAN_CHANNEL_MASK_WORDS :: nat where "RZI_LORAWAN_CHANNEL_MASK_WORDS \<equiv> 6"
abbreviation (input) JOIN_INTERVAL_MIN :: u8 where "JOIN_INTERVAL_MIN \<equiv> 7"
abbreviation (input) JOIN_INTERVAL_DEFAULT :: u8 where "JOIN_INTERVAL_DEFAULT \<equiv> 8"
abbreviation (input) SETTING_MAX_SIZE :: nat where "SETTING_MAX_SIZE \<equiv> 16"
abbreviation (input) RZI_JOIN_POLICY_SIZE :: nat where "RZI_JOIN_POLICY_SIZE \<equiv> 3"
abbreviation (input) RZI_JOIN_POLICY_VERSION :: u16 where "RZI_JOIN_POLICY_VERSION \<equiv> 1"
abbreviation (input) RZI_JOIN_POLICY_AUTO :: nat where "RZI_JOIN_POLICY_AUTO \<equiv> 0"
abbreviation (input) RZI_JOIN_POLICY_INTERVAL :: nat where "RZI_JOIN_POLICY_INTERVAL \<equiv> 1"
abbreviation (input) RZI_JOIN_POLICY_ATTEMPTS :: nat where "RZI_JOIN_POLICY_ATTEMPTS \<equiv> 2"

definition entry :: "string \<Rightarrow> nat \<Rightarrow> value_kind \<Rightarrow> u8 \<Rightarrow> setting" where
  "entry name sz kind first = \<lparr>skey = name, ssize = sz, skind = kind, sdefault_first = first,
     sloaded = False, spresent = False, svalue = replicate SETTING_MAX_SIZE 0\<rparr>"

definition settings :: "setting list" where
  "settings =
     [entry ''deveui'' 8 BYTES 0,
      entry ''joineui'' 8 BYTES 0,
      entry ''appkey'' 16 BYTES 0,
      entry ''genappkey'' 16 BYTES 0,
      entry ''devaddr'' 4 BYTES 0,
      entry ''nwkskey'' 16 BYTES 0,
      entry ''appskey'' 16 BYTES 0,
      entry ''njm'' 1 ACTIVATION 1,
      entry ''chmask'' (RZI_LORAWAN_CHANNEL_MASK_WORDS * 2) CHANNEL_MASK 0,
      entry ''region'' 1 REGION (of_nat RZI_LORAWAN_REGION_EU_868),
      entry ''cfm'' 1 BOOLEAN 0,
      entry ''rety'' 1 RETRIES 0,
      entry ''netid'' 4 NET_ID 0,
      entry ''join_policy'' RZI_JOIN_POLICY_SIZE JOIN_POLICY 0,
      entry ''autojoin'' 1 BOOLEAN 0,
      entry ''join_interval'' 1 INTERVAL JOIN_INTERVAL_DEFAULT,
      entry ''join_attempts'' 1 BYTES 0,
      entry ''band'' 1 BYTES 0]"

section \<open>Lookup, validation and defaults\<close>

fun find_setting :: "string \<Rightarrow> setting list \<Rightarrow> nat option" where
  "find_setting k [] = None"
| "find_setting k (st # sts) = (if skey st = k then Some 0 else map_option Suc (find_setting k sts))"

definition mask_words :: "bytes \<Rightarrow> u16 list" where
  "mask_words val = map (\<lambda>i. get_le16 (drop (2 * i) val)) [0..<RZI_LORAWAN_CHANNEL_MASK_WORDS]"

definition valid_value :: "setting \<Rightarrow> bytes \<Rightarrow> bool" where
  "valid_value st val =
     (case skind st of
        BOOLEAN \<Rightarrow> val ! 0 \<le> 1
      | ACTIVATION \<Rightarrow> val ! 0 \<le> 1
      | RETRIES \<Rightarrow> val ! 0 \<le> 7
      | REGION \<Rightarrow> unat (val ! 0) \<le> RZI_LORAWAN_REGION_RU_864
      | INTERVAL \<Rightarrow> val ! 0 \<ge> JOIN_INTERVAL_MIN
      | NET_ID \<Rightarrow> get_le32 val \<le> 0xffffff
      | CHANNEL_MASK \<Rightarrow>
          list_all (\<lambda>channel. (mask_words val ! (channel div 16)) AND push_bit (channel mod 16) 1 = 0)
            [72..<RZI_LORAWAN_CHANNEL_MASK_WORDS * 16]
      | JOIN_POLICY \<Rightarrow> val ! RZI_JOIN_POLICY_AUTO \<le> 1
          \<and> val ! RZI_JOIN_POLICY_INTERVAL \<ge> JOIN_INTERVAL_MIN
      | BYTES \<Rightarrow> True)"

definition default_value :: "setting \<Rightarrow> bytes" where
  "default_value st =
     (let val = (replicate (ssize st) 0)[0 := sdefault_first st] in
      if skind st = JOIN_POLICY then val[RZI_JOIN_POLICY_INTERVAL := JOIN_INTERVAL_DEFAULT] else val)"

section \<open>Persistence and migration\<close>

definition save_value ::
  "('d, 'z) settings_env_scheme \<Rightarrow> setting \<Rightarrow> bytes \<Rightarrow> 'd storage_state op" where
  "save_value E st val s =
     (if cfg_storage E then
        if skind st = JOIN_POLICY
        then rzi_storage_write_record E (Some ''lorawan'') (Some (skey st)) RZI_JOIN_POLICY_VERSION
               (Some val) (ssize st) s
        else rzi_storage_write E (Some ''lorawan'') (Some (skey st)) (Some val) (ssize st) s
      else (0, s))"

text \<open>The loaders return the code, the value buffer, \<^verbatim>\<open>*found\<close> and the next state.\<close>

type_synonym 'd loader = "bytes \<Rightarrow> 'd storage_state \<Rightarrow> int \<times> bytes \<times> bool \<times> 'd storage_state"

definition read_legacy :: "('d, 'z) settings_env_scheme \<Rightarrow> setting \<Rightarrow> 'd loader" where
  "read_legacy E st val s =
     (case rzi_storage_read E (Some ''lorawan'') (Some (skey st)) (Some val) (ssize st) s of
        (rc1, out1, s1) \<Rightarrow>
        case (if rc1 = - RZI_ERR_NOT_FOUND
              then rzi_storage_read E (Some ''rzi'') (Some (skey st)) out1 (ssize st) s1
              else (rc1, out1, s1)) of
          (rc, out, t) \<Rightarrow>
          let found = (rc = 0) in
          if rc = - RZI_ERR_NOT_FOUND then (0, default_value st, found, t)
          else if rc \<noteq> 0 then (rc, the out, found, t)
          else (if valid_value st (the out) then 0 else - RZI_ERR_BAD_MESSAGE, the out, found, t))"

definition bands :: "u8 list" where
  "bands = map of_nat
     [RZI_LORAWAN_REGION_EU_868, RZI_LORAWAN_REGION_CN_470,
      RZI_LORAWAN_REGION_RU_864, RZI_LORAWAN_REGION_IN_865,
      RZI_LORAWAN_REGION_EU_868, RZI_LORAWAN_REGION_US_915,
      RZI_LORAWAN_REGION_AU_915, RZI_LORAWAN_REGION_KR_920,
      RZI_LORAWAN_REGION_AS_923_GRP1, RZI_LORAWAN_REGION_AS_923_GRP2,
      RZI_LORAWAN_REGION_AS_923_GRP3, RZI_LORAWAN_REGION_AS_923_GRP4]"

definition migrate_region :: "('d, 'z) settings_env_scheme \<Rightarrow> 'd loader" where
  "migrate_region E val s =
     (case rzi_storage_read E (Some ''rzi'') (Some ''band'') (Some [0]) 1 s of (rc, out, t) \<Rightarrow>
        let found = (rc = 0) in
        if rc = - RZI_ERR_NOT_FOUND then (0, val, found, t)
        else if rc \<noteq> 0 then (rc, val, found, t)
        else let band = unat (hd (the out)) in
          if band = 0 \<or> band \<ge> length bands then (- RZI_ERR_BAD_MESSAGE, val, found, t)
          else (0, val[0 := bands ! band], found, t))"

text \<open>The loop over the legacy join keys; \<open>i\<close> is the index of the next key.\<close>

fun load_legacy_policy ::
  "('d, 'z) settings_env_scheme \<Rightarrow> setting list \<Rightarrow> string list \<Rightarrow> nat \<Rightarrow> bool \<Rightarrow> 'd loader" where
  "load_legacy_policy E tab [] i found val s = (0, val, found, s)"
| "load_legacy_policy E tab (k # ks) i found val s =
     (case read_legacy E (tab ! the (find_setting k tab)) [val ! i] s of (rc, v, present, t) \<Rightarrow>
        if rc \<noteq> 0 then (rc, val[i := hd v], found, t)
        else load_legacy_policy E tab ks (Suc i) (found \<or> present) (val[i := hd v]) t)"

definition save_found ::
  "('d, 'z) settings_env_scheme \<Rightarrow> setting \<Rightarrow> int \<times> bytes \<times> bool \<times> 'd storage_state
   \<Rightarrow> int \<times> bytes \<times> bool \<times> 'd storage_state" where
  "save_found E st r =
     (case r of (rc, val, found, s) \<Rightarrow>
        if rc \<noteq> 0 then r
        else if found then (case save_value E st val s of (rc, t) \<Rightarrow> (rc, val, found, t))
        else (0, val, found, s))"

definition load_value ::
  "('d, 'z) settings_env_scheme \<Rightarrow> setting list \<Rightarrow> setting \<Rightarrow> 'd loader" where
  "load_value E tab st val s =
     (if skind st = JOIN_POLICY then
        (case rzi_storage_read_record E (Some ''lorawan'') (Some (skey st)) (Some 0) (Some val)
                (ssize st) (Some 0) s of
           (rc, (version, out, sz), t) \<Rightarrow>
           if rc = 0 then
             if the version \<noteq> RZI_JOIN_POLICY_VERSION then (- RZI_ERR_NOT_SUPPORTED, the out, False, t)
             else if the sz \<noteq> ssize st \<or> \<not> valid_value st (the out)
               then (- RZI_ERR_BAD_MESSAGE, the out, False, t)
             else (0, the out, True, t)
           else if rc \<noteq> - RZI_ERR_NOT_FOUND then (rc, the out, False, t)
           else save_found E st
             (load_legacy_policy E tab [''autojoin'', ''join_interval'', ''join_attempts''] 0 False
               (the out) t))
      else
        (case rzi_storage_read E (Some ''lorawan'') (Some (skey st)) (Some val) (ssize st) s of
           (rc, out, t) \<Rightarrow>
           if rc = 0 then
             (if valid_value st (the out) then 0 else - RZI_ERR_BAD_MESSAGE, the out, True, t)
           else if rc \<noteq> - RZI_ERR_NOT_FOUND then (rc, the out, False, t)
           else (case read_legacy E st (the out) t of (rc, v, found, t') \<Rightarrow>
             if rc \<noteq> 0 then (rc, v, found, t')
             else save_found E st
               (if \<not> found \<and> skind st = REGION then migrate_region E v t' else (rc, v, found, t')))))"

section \<open>The cached operations\<close>

text \<open>On code 0 the read has stored the value and whether it was found.\<close>

definition rzi_lorawan_setting_read ::
  "('d, 'z) settings_env_scheme \<Rightarrow> string \<Rightarrow> nat \<Rightarrow> 'd settings_state
   \<Rightarrow> int \<times> (bytes \<times> bool) option \<times> 'd settings_state" where
  "rzi_lorawan_setting_read E k sz s =
     (case find_setting k (table s) of
        None \<Rightarrow> (- RZI_ERR_INVALID, None, s)
      | Some i \<Rightarrow>
        let st = table s ! i in
        if sz \<noteq> ssize st then (- RZI_ERR_INVALID, None, s)
        else if sloaded st then (0, Some (take sz (svalue st), spresent st), s)
        else case (if cfg_storage E then load_value E (table s) st (default_value st) (store s)
                   else (0, default_value st, False, store s)) of
          (rc, candidate, present, t) \<Rightarrow>
          if rc = 0 then
            (0, Some (candidate, present),
             s\<lparr>store := t, table := (table s)[i :=
                st\<lparr>svalue := overlay candidate (svalue st), spresent := present, sloaded := True\<rparr>]\<rparr>)
          else (rc, None, s\<lparr>store := t\<rparr>))"

definition rzi_lorawan_setting_write ::
  "('d, 'z) settings_env_scheme \<Rightarrow> string \<Rightarrow> bytes \<Rightarrow> nat \<Rightarrow> 'd settings_state op" where
  "rzi_lorawan_setting_write E k val sz s =
     (case find_setting k (table s) of
        None \<Rightarrow> (- RZI_ERR_INVALID, s)
      | Some i \<Rightarrow>
        let st = table s ! i in
        if sz \<noteq> ssize st \<or> \<not> valid_value st val then (- RZI_ERR_INVALID, s)
        else case (if \<not> sloaded st \<or> \<not> spresent st \<or> take sz (svalue st) \<noteq> val
                   then save_value E st val (store s) else (0, store s)) of
          (rc, t) \<Rightarrow>
          (rc, if rc = 0 then
             s\<lparr>store := t, table := (table s)[i :=
                st\<lparr>svalue := overlay val (svalue st), spresent := True, sloaded := True\<rparr>]\<rparr>
           else s\<lparr>store := t\<rparr>))"

text \<open>Deleting every key of one namespace; the first real error is kept and the loop goes on.\<close>

fun delete_keys ::
  "('d, 'z) storage_env_scheme \<Rightarrow> string \<Rightarrow> setting list \<Rightarrow> int \<Rightarrow> 'd storage_state op" where
  "delete_keys E ns [] rc s = (rc, s)"
| "delete_keys E ns (st # sts) rc s =
     (case rzi_storage_delete E (Some ns) (Some (skey st)) s of (one, t) \<Rightarrow>
        delete_keys E ns sts
          (if one \<noteq> 0 \<and> one \<noteq> - RZI_ERR_NOT_FOUND \<and> rc = 0 then one else rc) t)"

definition rzi_lorawan_settings_clear ::
  "('d, 'z) settings_env_scheme \<Rightarrow> 'd settings_state op" where
  "rzi_lorawan_settings_clear E s =
     (case (if cfg_storage E then
              (case delete_keys E ''lorawan'' (table s) 0 (store s) of (rc, t) \<Rightarrow>
                 delete_keys E ''rzi'' (table s) rc t)
            else (0, store s)) of
        (rc, t) \<Rightarrow>
        (rc, if rc = 0 then
           s\<lparr>store := t, table := map (\<lambda>st. st\<lparr>svalue := replicate SETTING_MAX_SIZE 0,
              sloaded := False, spresent := False\<rparr>) (table s)\<rparr>
         else s\<lparr>store := t\<rparr>))"

section \<open>The schema\<close>

text \<open>What the table never changes, and what every entry of it satisfies.\<close>

definition shape :: "setting \<Rightarrow> string \<times> nat \<times> value_kind \<times> u8" where
  "shape st = (skey st, ssize st, skind st, sdefault_first st)"

definition entry_ok :: "setting \<Rightarrow> bool" where
  "entry_ok st \<longleftrightarrow> name_ok ''lorawan'' (skey st) \<and> name_ok ''rzi'' (skey st)
     \<and> 0 < ssize st \<and> ssize st \<le> SETTING_MAX_SIZE
     \<and> length (default_value st) = ssize st \<and> valid_value st (default_value st)
     \<and> (skind st = JOIN_POLICY \<longrightarrow> ssize st = RZI_JOIN_POLICY_SIZE)"

lemma shape_fields:
  assumes "shape a = shape b"
  shows "skey a = skey b" "ssize a = ssize b" "skind a = skind b" "sdefault_first a = sdefault_first b"
  using assms by (simp_all add: shape_def)

lemma valid_value_shape: "shape a = shape b \<Longrightarrow> valid_value a = valid_value b"
  by (simp add: valid_value_def shape_def fun_eq_iff)

lemma default_value_shape: "shape a = shape b \<Longrightarrow> default_value a = default_value b"
  by (simp add: default_value_def shape_def)

lemma entry_ok_shape: "shape a = shape b \<Longrightarrow> entry_ok a = entry_ok b"
  using valid_value_shape [of a b] default_value_shape [of a b] shape_fields [of a b]
  by (simp add: entry_ok_def)

lemma settings_names: "\<forall>st\<in>set settings. name_ok ''lorawan'' (skey st) \<and> name_ok ''rzi'' (skey st)"
  by code_simp

lemma settings_sizes: "\<forall>st\<in>set settings. 0 < ssize st \<and> ssize st \<le> SETTING_MAX_SIZE
    \<and> (skind st = JOIN_POLICY \<longrightarrow> ssize st = RZI_JOIN_POLICY_SIZE)"
  by code_simp

lemma settings_defaults_valid: "\<forall>st\<in>set settings. valid_value st (default_value st)"
  by code_simp

lemma default_value_length: "length (default_value st) = ssize st"
  by (simp add: default_value_def Let_def)

lemma settings_entry_ok: "\<forall>st\<in>set settings. entry_ok st"
  using settings_names settings_sizes settings_defaults_valid
  by (simp add: entry_ok_def default_value_length)

lemma settings_distinct: "distinct (map skey settings)"
  by code_simp

definition schema_ok :: "setting list \<Rightarrow> bool" where
  "schema_ok tab \<longleftrightarrow> map shape tab = map shape settings"

lemma schema_nth: "schema_ok tab \<Longrightarrow> i < length tab \<Longrightarrow> i < length settings \<and> shape (tab ! i) = shape (settings ! i)"
  unfolding schema_ok_def by (metis length_map nth_map)

lemma schema_entry_ok: "schema_ok tab \<Longrightarrow> st \<in> set tab \<Longrightarrow> entry_ok st"
  using schema_nth settings_entry_ok entry_ok_shape by (metis in_set_conv_nth)

lemma schema_keys: "schema_ok tab \<Longrightarrow> map skey tab = map skey settings"
proof -
  assume "schema_ok tab"
  then have "map fst (map shape tab) = map fst (map shape settings)" by (simp add: schema_ok_def)
  then show ?thesis by (simp add: shape_def comp_def)
qed

lemma schema_update: "schema_ok tab \<Longrightarrow> shape st = shape (tab ! i) \<Longrightarrow> schema_ok (tab[i := st])"
  by (simp add: schema_ok_def map_update) (metis list_update_id map_update)

lemma schema_distinct: "schema_ok tab \<Longrightarrow> distinct (map skey tab)"
  using schema_keys settings_distinct by simp

lemma find_setting_Some: "find_setting k tab = Some i \<Longrightarrow> i < length tab \<and> skey (tab ! i) = k"
  by (induction tab arbitrary: i) (auto split: if_splits)

lemma find_setting_keys: "map skey tab = map skey tab' \<Longrightarrow> find_setting k tab = find_setting k tab'"
  by (induction tab tab' rule: list_induct2') auto

lemma find_setting_update: "skey st = skey (tab ! i) \<Longrightarrow> find_setting k (tab[i := st]) = find_setting k tab"
  by (rule find_setting_keys) (simp add: map_update, metis list_update_id map_update)

lemma find_setting_schema: "schema_ok tab \<Longrightarrow> find_setting k tab = find_setting k settings"
  by (rule find_setting_keys) (rule schema_keys)

section \<open>The loaders on a lawful store\<close>

text \<open>The bytes a value is persisted as.\<close>

definition stored_as :: "('d, 'z) settings_env_scheme \<Rightarrow> setting \<Rightarrow> bytes \<Rightarrow> bytes" where
  "stored_as E st v = (if skind st = JOIN_POLICY then record_image E RZI_JOIN_POLICY_VERSION v else v)"

text \<open>What every loader guarantees about its result.\<close>

definition load_ok ::
  "('d, 'z) settings_env_scheme \<Rightarrow> ('d \<Rightarrow> string \<rightharpoonup> bytes) \<Rightarrow> setting \<Rightarrow> 'd storage_state
   \<Rightarrow> int \<times> bytes \<times> bool \<times> 'd storage_state \<Rightarrow> bool" where
  "load_ok E view st s r \<longleftrightarrow>
     (case r of (rc, v, found, t) \<Rightarrow> storage_inv E view t \<and> (storage_ready s \<longrightarrow> storage_ready t)
        \<and> (rc = 0 \<longrightarrow> length v = ssize st \<and> valid_value st v))"

lemma save_value_effect:
  assumes inv: "storage_inv E view s" and max: "cfg_record_max E < 65536" and ok: "entry_ok st"
    and len: "length v = ssize st" and sto: "cfg_storage E" and w: "save_value E st v s = (rc, t)"
  shows "storage_inv E view t \<and> (storage_ready s \<longrightarrow> storage_ready t)
    \<and> (\<forall>ns' k'. name_ok ns' k' \<longrightarrow> look view t ns' k'
        = (if rc = 0 \<and> ns' = ''lorawan'' \<and> k' = skey st then Some (stored_as E st v)
           else look view s ns' k'))"
proof -
  have name: "name_ok ''lorawan'' (skey st)" and ne: "v \<noteq> []"
    using ok len by (auto simp: entry_ok_def)
  show ?thesis
  proof (cases "skind st = JOIN_POLICY")
    case True
    then have "rzi_storage_write_record E (Some ''lorawan'') (Some (skey st)) 1 (Some v) (length v) s = (rc, t)"
      using w sto len by (simp add: save_value_def)
    from write_record_effect [OF inv name max this] True show ?thesis by (simp add: stored_as_def)
  next
    case False
    then have "rzi_storage_write E (Some ''lorawan'') (Some (skey st)) (Some v) (length v) s = (rc, t)"
      using w sto len by (simp add: save_value_def)
    from storage.write_law [OF inv name ne this] False show ?thesis by (simp add: stored_as_def)
  qed
qed

lemma read_legacy_effect:
  assumes inv: "storage_inv E view s" and ok: "entry_ok st" and len: "length val = ssize st"
    and r: "read_legacy E st val s = (rc, v, found, t)"
  shows "load_ok E view st s (rc, v, found, t) \<and> look view t = look view s"
proof -
  have name: "name_ok ''lorawan'' (skey st)" "name_ok ''rzi'' (skey st)" and ne: "val \<noteq> []"
    and d: "length (default_value st) = ssize st" "valid_value st (default_value st)"
    using ok len by (auto simp: entry_ok_def)
  obtain rc1 o1 s1 where r1: "rzi_storage_read E (Some ''lorawan'') (Some (skey st)) (Some val) (ssize st) s
      = (rc1, o1, s1)" by (metis prod_cases3)
  note e1 = storage.read_law [OF inv name(1) ne r1 [folded len]]
  show ?thesis
  proof (cases "rc1 = - RZI_ERR_NOT_FOUND")
    case True
    obtain o1' where o1: "o1 = Some o1'" and l1: "length o1' = ssize st" using e1 len by auto
    obtain rc2 o2 s2 where r2: "rzi_storage_read E (Some ''rzi'') (Some (skey st)) (Some o1') (ssize st) s1
        = (rc2, o2, s2)" by (metis prod_cases3)
    have ne': "o1' \<noteq> []" using l1 ne len by auto
    have i1: "storage_inv E view s1" using e1 by simp
    note e2 = storage.read_law [OF i1 name(2) ne' r2 [folded l1]]
    from r r1 r2 o1 True e1 e2 l1 d show ?thesis
      by (auto simp: read_legacy_def Let_def load_ok_def split: if_splits)
  next
    case False
    with r r1 e1 len show ?thesis
      by (auto simp: read_legacy_def Let_def load_ok_def split: if_splits)
  qed
qed

lemma bands_are_regions: "i < length bands \<Longrightarrow> unat (bands ! i) \<le> RZI_LORAWAN_REGION_RU_864"
proof -
  have "list_all (\<lambda>b. unat b \<le> 10) bands" by code_simp
  then show "i < length bands \<Longrightarrow> unat (bands ! i) \<le> 10" by (simp add: list_all_length)
qed

lemma band_name: "name_ok ''rzi'' ''band''"
  by code_simp

lemma migrate_region_effect:
  assumes inv: "storage_inv E view s" and "skind st = REGION" and "length val = ssize st"
    and "valid_value st val" and "0 < ssize st"
    and r: "migrate_region E val s = (rc, v, found, t)"
  shows "load_ok E view st s (rc, v, found, t) \<and> look view t = look view s"
proof -
  obtain rc1 o1 s1 where r1: "rzi_storage_read E (Some ''rzi'') (Some ''band'') (Some [0]) (length [0 :: u8]) s
      = (rc1, o1, s1)" by (metis prod_cases3)
  from storage.read_law [OF inv band_name _ r1] r r1 assms(2-5) bands_are_regions show ?thesis
    by (auto simp: migrate_region_def Let_def load_ok_def valid_value_def nth_list_update
        split: if_splits)
qed

text \<open>The three legacy join keys make up one valid policy record.\<close>

lemma policy_keys:
  "find_setting ''autojoin'' settings = Some 14" "find_setting ''join_interval'' settings = Some 15"
  "find_setting ''join_attempts'' settings = Some 16"
  "map (\<lambda>i. (ssize (settings ! i), skind (settings ! i))) [14, 15, 16]
     = [(1, BOOLEAN), (1, INTERVAL), (1, BYTES)]"
  "length settings = 18"
  by code_simp+

lemma policy_entry:
  assumes "schema_ok tab" and "i \<in> {14, 15, 16}"
  shows "entry_ok (tab ! i)" "ssize (tab ! i) = 1" "skind (tab ! i) = skind (settings ! i)"
proof -
  have len: "length tab = 18" using assms(1) policy_keys(5)
    unfolding schema_ok_def by (metis length_map)
  then have i: "i < length tab" using assms(2) by auto
  then show "entry_ok (tab ! i)" using schema_entry_ok assms(1) by simp
  have "shape (tab ! i) = shape (settings ! i)" using schema_nth [OF assms(1) i] by simp
  then show "ssize (tab ! i) = 1" "skind (tab ! i) = skind (settings ! i)"
    using policy_keys(4) assms(2) by (auto simp: shape_def)
qed

lemma legacy_policy_step:
  assumes inv: "storage_inv E view s" and sch: "schema_ok tab" and i: "i \<in> {14, 15, 16}"
    and r: "read_legacy E (tab ! i) [x] s = (rc, v, found, t)"
  shows "storage_inv E view t \<and> (storage_ready s \<longrightarrow> storage_ready t) \<and> look view t = look view s
    \<and> (rc = 0 \<longrightarrow> (i = 14 \<longrightarrow> hd v \<le> 1) \<and> (i = 15 \<longrightarrow> JOIN_INTERVAL_MIN \<le> hd v))"
proof -
  have "length [x] = ssize (tab ! i)" using policy_entry(2) [OF sch i] by simp
  from read_legacy_effect [OF inv policy_entry(1) [OF sch i] this r]
    policy_entry(2,3) [OF sch i] policy_keys(4)
  show ?thesis
    by (cases v) (auto simp: load_ok_def valid_value_def)
qed

lemma load_legacy_policy_effect:
  assumes inv: "storage_inv E view s" and sch: "schema_ok tab" and pol: "skind st = JOIN_POLICY" "ssize st = 3"
    and len: "length val = 3"
    and r: "load_legacy_policy E tab [''autojoin'', ''join_interval'', ''join_attempts''] 0 False val s
      = (rc, v, found, t)"
  shows "load_ok E view st s (rc, v, found, t) \<and> look view t = look view s"
proof -
  obtain a b c where val: "val = [a, b, c]" using len by (auto simp: numeral_3_eq_3 length_Suc_conv)
  obtain rc1 v1 f1 s1 where r1: "read_legacy E (tab ! 14) [a] s = (rc1, v1, f1, s1)" by (metis prod_cases4)
  obtain rc2 v2 f2 s2 where r2: "read_legacy E (tab ! 15) [b] s1 = (rc2, v2, f2, s2)" by (metis prod_cases4)
  obtain rc3 v3 f3 s3 where r3: "read_legacy E (tab ! 16) [c] s2 = (rc3, v3, f3, s3)" by (metis prod_cases4)
  have e1: "storage_inv E view s1 \<and> (storage_ready s \<longrightarrow> storage_ready s1) \<and> look view s1 = look view s
    \<and> (rc1 = 0 \<longrightarrow> hd v1 \<le> 1)" using legacy_policy_step [OF inv sch _ r1] by simp
  have e2: "storage_inv E view s2 \<and> (storage_ready s \<longrightarrow> storage_ready s2) \<and> look view s2 = look view s
    \<and> (rc2 = 0 \<longrightarrow> JOIN_INTERVAL_MIN \<le> hd v2)" using legacy_policy_step [where view = view, OF _ sch _ r2] e1 by auto
  have e3: "storage_inv E view s3 \<and> (storage_ready s \<longrightarrow> storage_ready s3) \<and> look view s3 = look view s"
    using legacy_policy_step [where view = view, OF _ sch _ r3] e2 by auto
  show ?thesis using r r1 r2 r3 e1 e2 e3 pol
    by (auto simp: val find_setting_schema [OF sch] policy_keys load_ok_def valid_value_def
        split: if_splits)
qed

text \<open>What the full loader guarantees: a found value is persisted under its own name.\<close>

definition load_keeps ::
  "('d, 'z) settings_env_scheme \<Rightarrow> ('d \<Rightarrow> string \<rightharpoonup> bytes) \<Rightarrow> setting \<Rightarrow> 'd storage_state
   \<Rightarrow> int \<times> bytes \<times> bool \<times> 'd storage_state \<Rightarrow> bool" where
  "load_keeps E view st s r \<longleftrightarrow> load_ok E view st s r \<and>
     (case r of (rc, v, found, t) \<Rightarrow>
        (rc = 0 \<and> found \<longrightarrow> look view t ''lorawan'' (skey st) = Some (stored_as E st v))
        \<and> (\<forall>ns k. name_ok ns k \<and> (ns, k) \<noteq> (''lorawan'', skey st) \<longrightarrow> look view t ns k = look view s ns k)
        \<and> (\<not> (rc = 0 \<and> found) \<longrightarrow> look view t ''lorawan'' (skey st) = look view s ''lorawan'' (skey st)))"

lemma save_found_effect:
  assumes ld: "load_ok E view st s r" and same: "look view (snd (snd (snd r))) = look view s"
    and max: "cfg_record_max E < 65536" and ok: "entry_ok st" and sto: "cfg_storage E"
  shows "load_keeps E view st s (save_found E st r)"
proof -
  obtain rc v found t where r: "r = (rc, v, found, t)" by (metis prod_cases4)
  obtain rc' u where w: "save_value E st v t = (rc', u)" by fastforce
  have name: "name_ok ''lorawan'' (skey st)" using ok by (simp add: entry_ok_def)
  show ?thesis
  proof (cases "rc = 0 \<and> found")
    case True
    then have "storage_inv E view t" and len: "length v = ssize st"
      using ld r by (simp_all add: load_ok_def)
    from save_value_effect [OF this(1) max ok len sto w] True ld same r w name show ?thesis
      by (auto simp: save_found_def load_keeps_def load_ok_def)
  next
    case False
    with ld same r show ?thesis by (auto simp: save_found_def load_keeps_def load_ok_def)
  qed
qed

lemma load_policy_effect:
  assumes inv: "storage_inv E view s" and sch: "schema_ok tab" and ok: "entry_ok st"
    and max: "cfg_record_max E < 65536" and sto: "cfg_storage E" and pol: "skind st = JOIN_POLICY"
    and len: "length val = ssize st"
  shows "load_keeps E view st s (load_value E tab st val s)"
proof -
  have name: "name_ok ''lorawan'' (skey st)" and sz: "ssize st = 3"
    using ok pol by (auto simp: entry_ok_def)
  obtain rc x t where r0: "rzi_storage_read_record E (Some ''lorawan'') (Some (skey st)) (Some 0)
      (Some val) (ssize st) (Some 0) s = (rc, x, t)" by (metis prod_cases3)
  obtain ver out n where x: "x = (ver, out, n)" by (metis prod_cases3)
  note r = r0 [unfolded x]
  note e = read_record_effect [OF inv name r [folded len]]
  have it: "storage_inv E view t" and lt: "look view t = look view s"
    and rt: "storage_ready s \<longrightarrow> storage_ready t" using e by auto
  show ?thesis
  proof (cases "rc = - RZI_ERR_NOT_FOUND")
    case True
    then have out: "out = Some val" using e by simp
    obtain rc' v f u where l: "load_legacy_policy E tab [''autojoin'', ''join_interval'', ''join_attempts'']
        0 False val t = (rc', v, f, u)" by (metis prod_cases4)
    from load_legacy_policy_effect [OF it sch pol sz _ l] len sz lt
    have a: "load_ok E view st t (rc', v, f, u)" and b: "look view u = look view s" by auto
    have "load_ok E view st s (rc', v, f, u)" using a rt by (auto simp: load_ok_def)
    from save_found_effect [OF this _ max ok sto] b
    show ?thesis using True out by (simp add: load_value_def pol r l del: load_legacy_policy.simps)
  next
    case False
    show ?thesis
    proof (cases "rc = 0")
      case True
      with e obtain v payload where p: "ver = Some v" "out = Some (overlay payload val)"
        "n = Some (length payload)" "look view s ''lorawan'' (skey st) = Some (record_image E v payload)"
        by auto
      with True it lt rt show ?thesis
        by (auto simp: load_value_def pol r load_keeps_def load_ok_def stored_as_def len)
    next
      case F: False
      with False it lt rt e show ?thesis
        by (auto simp: load_value_def pol r load_keeps_def load_ok_def)
    qed
  qed
qed

lemma load_plain_effect:
  assumes inv: "storage_inv E view s" and ok: "entry_ok st"
    and max: "cfg_record_max E < 65536" and sto: "cfg_storage E" and pol: "skind st \<noteq> JOIN_POLICY"
    and len: "length val = ssize st"
  shows "load_keeps E view st s (load_value E tab st val s)"
proof -
  have name: "name_ok ''lorawan'' (skey st)" and ne: "val \<noteq> []" and sz: "0 < ssize st"
    using ok len by (auto simp: entry_ok_def)
  obtain rc out t where r: "rzi_storage_read E (Some ''lorawan'') (Some (skey st)) (Some val) (ssize st) s
      = (rc, out, t)" by (metis prod_cases3)
  note e = storage.read_law [OF inv name ne r [folded len]]
  then obtain o1 where out: "out = Some o1" and lo: "length o1 = ssize st" using len by auto
  show ?thesis
  proof (cases "rc = - RZI_ERR_NOT_FOUND")
    case True
    obtain rc' v f u where l: "read_legacy E st o1 t = (rc', v, f, u)" by (metis prod_cases4)
    have "storage_inv E view t" using e by simp
    from read_legacy_effect [OF this ok lo l]
    have a: "load_ok E view st s (rc', v, f, u)" and b: "look view u = look view s"
      using e by (auto simp: load_ok_def)
    obtain rm vm fm um where m: "migrate_region E v u = (rm, vm, fm, um)" by (metis prod_cases4)
    have c: "load_ok E view st s (rm, vm, fm, um) \<and> look view um = look view s"
      if "rc' = 0" "skind st = REGION"
      using that a b migrate_region_effect [OF _ that(2) _ _ sz m] by (auto simp: load_ok_def)
    show ?thesis
    proof (cases "rc' = 0")
      case T: True
      show ?thesis
        using save_found_effect [OF a _ max ok sto] b c save_found_effect [OF _ _ max ok sto, of view s "(rm, vm, fm, um)"]
        by (auto simp: load_value_def pol r True out l m T)
    next
      case False
      then show ?thesis using a b by (auto simp: load_value_def pol r True out l load_keeps_def load_ok_def)
    qed
  next
    case False
    then show ?thesis using e out lo pol len
      by (auto simp: load_value_def r load_keeps_def load_ok_def stored_as_def)
  qed
qed

lemma load_value_effect:
  assumes "storage_inv E view s" and "schema_ok tab" and "entry_ok st" and "cfg_record_max E < 65536"
    and "cfg_storage E" and "length val = ssize st"
  shows "load_keeps E view st s (load_value E tab st val s)"
  using load_policy_effect [OF assms(1-5) _ assms(6)] load_plain_effect [OF assms(1,3-5) _ assms(6)]
  by blast

section \<open>The invariant of the cache\<close>

text \<open>
  The table keeps the schema; a loaded value is valid; and with persistent storage a value
  cached as present is the value on flash (\<open>entry_synced\<close>). The last part is claimed of every key
  outside \<open>D\<close>: a factory reset that fails part way deletes values on flash and keeps the cache, so
  the keys it deleted are stale from then on (\<open>settings_clear_any\<close>). Without such a reset \<open>D\<close> is
  empty, and a reset that returns 0 empties it again.
\<close>

definition entry_synced ::
  "('d, 'z) settings_env_scheme \<Rightarrow> ('d \<Rightarrow> string \<rightharpoonup> bytes) \<Rightarrow> string set \<Rightarrow> 'd storage_state \<Rightarrow> setting \<Rightarrow> bool" where
  "entry_synced E view D s st \<longleftrightarrow> length (svalue st) = SETTING_MAX_SIZE
     \<and> (sloaded st \<longrightarrow> valid_value st (take (ssize st) (svalue st)))
     \<and> (cfg_storage E \<and> sloaded st \<and> spresent st \<and> skey st \<notin> D \<longrightarrow>
          look view s ''lorawan'' (skey st) = Some (stored_as E st (take (ssize st) (svalue st))))"

definition settings_inv ::
  "('d, 'z) settings_env_scheme \<Rightarrow> ('d \<Rightarrow> string \<rightharpoonup> bytes) \<Rightarrow> string set \<Rightarrow> 'd settings_state \<Rightarrow> bool" where
  "settings_inv E view D s \<longleftrightarrow> storage_inv E view (store s) \<and> cfg_record_max E < 65536
     \<and> schema_ok (table s) \<and> (\<forall>st\<in>set (table s). entry_synced E view D (store s) st)"

text \<open>One entry is replaced and at most its own name changes on flash.\<close>

lemma settings_inv_update:
  assumes inv: "settings_inv E view D s" and i: "i < length (table s)"
    and sh: "shape st = shape (table s ! i)" and t: "storage_inv E view t"
    and frame: "\<forall>ns k. name_ok ns k \<and> (ns, k) \<noteq> (''lorawan'', skey st) \<longrightarrow> look view t ns k = look view (store s) ns k"
    and own: "entry_synced E view D t st"
  shows "settings_inv E view D (s\<lparr>store := t, table := (table s)[i := st]\<rparr>)"
proof -
  have sch: "schema_ok (table s)" using inv by (simp add: settings_inv_def)
  have "entry_synced E view D t x" if x: "x \<in> set ((table s)[i := st])" for x
  proof -
    from x obtain j where j: "j < length (table s)" "x = (table s)[i := st] ! j"
      by (auto simp: in_set_conv_nth)
    show ?thesis
    proof (cases "j = i")
      case True
      with j own i show ?thesis by simp
    next
      case False
      have "skey (table s ! j) \<noteq> skey (table s ! i)"
        using schema_distinct [OF sch] False i j(1) by (auto simp: distinct_conv_nth)
      moreover have "x = table s ! j" "x \<in> set (table s)" using j False by auto
      moreover have "skey st = skey (table s ! i)" using sh by (simp add: shape_def)
      ultimately have "skey x \<noteq> skey st" "entry_synced E view D (store s) x" "name_ok ''lorawan'' (skey x)"
        using inv schema_entry_ok [OF sch] by (auto simp: settings_inv_def entry_ok_def)
      with frame show ?thesis by (simp add: entry_synced_def)
    qed
  qed
  moreover have "schema_ok ((table s)[i := st])" using schema_update [OF sch sh] .
  ultimately show ?thesis using inv t by (simp add: settings_inv_def)
qed

section \<open>The settings interface\<close>

text \<open>The values the schema accepts for a key.\<close>

definition setting_good :: "string \<Rightarrow> bytes \<Rightarrow> bool" where
  "setting_good k v =
     (case find_setting k settings of
        None \<Rightarrow> False
      | Some i \<Rightarrow> length v = ssize (settings ! i) \<and> valid_value (settings ! i) v)"

lemma setting_good_at:
  assumes "schema_ok tab" and "find_setting k tab = Some i"
  shows "setting_good k v \<longleftrightarrow> length v = ssize (tab ! i) \<and> valid_value (tab ! i) v"
proof -
  have i: "i < length tab" using find_setting_Some [OF assms(2)] by simp
  have "shape (tab ! i) = shape (settings ! i)" using schema_nth [OF assms(1) i] by simp
  then show ?thesis using assms(2) find_setting_schema [OF assms(1), of k]
    valid_value_shape [of "tab ! i" "settings ! i"] shape_fields(2) [of "tab ! i" "settings ! i"]
    by (simp add: setting_good_def)
qed

text \<open>
  What credentials and configuration rely on: reads return accepted values and are stable,
  writes are read back, and neither disturbs another key or the invariant.
\<close>

locale setting_store =
  fixes rd :: "string \<Rightarrow> nat \<Rightarrow> 's \<Rightarrow> int \<times> (bytes \<times> bool) option \<times> 's"
    and wr :: "string \<Rightarrow> bytes \<Rightarrow> nat \<Rightarrow> 's op"
    and good :: "string \<Rightarrow> bytes \<Rightarrow> bool" and inv :: "'s \<Rightarrow> bool"
  assumes rd_law: "inv s \<Longrightarrow> rd k n s = (rc, out, t) \<Longrightarrow>
      inv t \<and> (rc \<noteq> 0 \<longrightarrow> out = None)
      \<and> (rc = 0 \<longrightarrow> (\<exists>v f. out = Some (v, f) \<and> good k v \<and> length v = n) \<and> rd k n t = (0, out, t))"
    and rd_frame: "inv s \<Longrightarrow> rd k n s = (rc, out, t) \<Longrightarrow> rd k' n' s = (0, o', s) \<Longrightarrow> rd k' n' t = (0, o', t)"
    and wr_law: "inv s \<Longrightarrow> length v = n \<Longrightarrow> wr k v n s = (rc, t) \<Longrightarrow>
      inv t \<and> (rc = 0 \<longrightarrow> good k v \<and> rd k n t = (0, Some (v, True), t))"
    and wr_frame: "inv s \<Longrightarrow> length v = n \<Longrightarrow> wr k v n s = (rc, t) \<Longrightarrow> k' \<noteq> k \<or> rc \<noteq> 0 \<Longrightarrow>
      rd k' n' s = (0, o', s) \<Longrightarrow> rd k' n' t = (0, o', t)"
begin

lemma rd_keeps: "inv s \<Longrightarrow> inv (snd (snd (rd k n s)))"
  using rd_law [of s k n] by (metis prod.collapse)

lemma wr_keeps: "length v = n \<Longrightarrow> keeps inv (wr k v n)"
  using wr_law by (metis keepsI prod.collapse)

text \<open>A value that was read is still read after any number of writes to other keys.\<close>

lemma rd_stable:
  assumes "inv s" and "rd k n s = (0, out, t)" and "length v = m" and "wr k' v m t = (rc, u)" and "k' \<noteq> k"
  shows "rd k n u = (0, out, u)"
  using rd_law [OF assms(1,2)] wr_frame [OF _ assms(3,4)] assms(5) by metis

end

text \<open>All that is known about the entry of a key.\<close>

lemma setting_entry:
  assumes inv: "settings_inv E view D s" and f: "find_setting k (table s) = Some i"
  shows "i < length (table s)" "skey (table s ! i) = k" "entry_ok (table s ! i)"
    and "entry_synced E view D (store s) (table s ! i)" "find_setting k settings = Some i"
    and "setting_good k v \<longleftrightarrow> length v = ssize (table s ! i) \<and> valid_value (table s ! i) v"
    and "stored_as E (settings ! i) v = stored_as E (table s ! i) v"
    and "ssize (table s ! i) \<le> 16" and "name_ok ''lorawan'' k"
proof -
  have sch: "schema_ok (table s)" using inv by (simp add: settings_inv_def)
  show i: "i < length (table s)" "skey (table s ! i) = k" using find_setting_Some [OF f] by auto
  show ok: "entry_ok (table s ! i)" and "entry_synced E view D (store s) (table s ! i)"
    using schema_entry_ok [OF sch] inv i by (auto simp: settings_inv_def)
  show "find_setting k settings = Some i" using f find_setting_schema [OF sch] by simp
  show "setting_good k v \<longleftrightarrow> length v = ssize (table s ! i) \<and> valid_value (table s ! i) v"
    using setting_good_at [OF sch f] .
  show "stored_as E (settings ! i) v = stored_as E (table s ! i) v"
    using schema_nth [OF sch i(1)] shape_fields(3) [of "table s ! i" "settings ! i"]
    by (simp add: stored_as_def)
  show "ssize (table s ! i) \<le> 16" "name_ok ''lorawan'' k" using ok i by (auto simp: entry_ok_def)
qed

text \<open>A read of a cached entry answers from the cache; the answer is what the schema accepts.\<close>

definition read_answer ::
  "('d, 'z) settings_env_scheme \<Rightarrow> ('d \<Rightarrow> string \<rightharpoonup> bytes) \<Rightarrow> string set \<Rightarrow> string \<Rightarrow> nat
   \<Rightarrow> 'd settings_state \<Rightarrow> bytes \<Rightarrow> bool \<Rightarrow> bool" where
  "read_answer E view D k n t v f \<longleftrightarrow> settings_inv E view D t \<and> setting_good k v \<and> length v = n
     \<and> (cfg_storage E \<and> f \<and> k \<notin> D \<longrightarrow> (\<exists>i. find_setting k settings = Some i
          \<and> look view (store t) ''lorawan'' k = Some (stored_as E (settings ! i) v)))
     \<and> rzi_lorawan_setting_read E k n t = (0, Some (v, f), t)"

lemma cached_answer:
  assumes inv: "settings_inv E view D s" and f: "find_setting k (table s) = Some i"
    and "sloaded (table s ! i)" and "n = ssize (table s ! i)"
  shows "read_answer E view D k n s (take n (svalue (table s ! i))) (spresent (table s ! i))"
  using assms setting_entry [OF inv f]
  by (auto simp: read_answer_def rzi_lorawan_setting_read_def Let_def entry_synced_def)

text \<open>Storing a value in the cache, with its bytes on flash when it is present.\<close>

lemma cache_update:
  assumes inv: "settings_inv E view D s" and f: "find_setting k (table s) = Some i"
    and v: "length v = ssize (table s ! i)" "valid_value (table s ! i) v"
    and u: "storage_inv E view u"
    and frame: "\<forall>ns k'. name_ok ns k' \<and> (ns, k') \<noteq> (''lorawan'', k) \<longrightarrow> look view u ns k' = look view (store s) ns k'"
    and own: "cfg_storage E \<and> p \<and> k \<notin> D \<longrightarrow> look view u ''lorawan'' k = Some (stored_as E (table s ! i) v)"
    and t: "t = s\<lparr>store := u, table := (table s)[i := (table s ! i)
        \<lparr>svalue := overlay v (svalue (table s ! i)), spresent := p, sloaded := True\<rparr>]\<rparr>"
  shows "read_answer E view D k (length v) t v p"
proof -
  note e = setting_entry [OF inv f]
  let ?new = "(table s ! i)\<lparr>svalue := overlay v (svalue (table s ! i)), spresent := p, sloaded := True\<rparr>"
  have tk: "take (length v) (svalue ?new) = v" using take_overlay [of v] by simp
  have "entry_synced E view D u ?new"
    using e v own tk by (auto simp: entry_synced_def stored_as_def valid_value_def)
  then have "settings_inv E view D t"
    using settings_inv_update [OF inv e(1) _ u, of ?new] frame e(2) by (simp add: t shape_def)
  moreover have "find_setting k (table t) = Some i" "table t ! i = ?new"
    using f e(1,2) by (simp_all add: t find_setting_update)
  ultimately show ?thesis using cached_answer [of E view D t k i "length v"] tk v by simp
qed

lemma setting_read_effect:
  assumes inv: "settings_inv E view D s" and r: "rzi_lorawan_setting_read E k n s = (rc, out, t)"
  shows "settings_inv E view D t \<and> (storage_ready (store s) \<longrightarrow> storage_ready (store t))
    \<and> (rc \<noteq> 0 \<longrightarrow> out = None \<and> table t = table s)
    \<and> (rc = 0 \<longrightarrow> (\<exists>v f. out = Some (v, f) \<and> read_answer E view D k n t v f))
    \<and> (\<forall>ns k'. name_ok ns k' \<and> (ns, k') \<noteq> (''lorawan'', k) \<longrightarrow> look view (store t) ns k' = look view (store s) ns k')"
proof (cases "\<exists>i. find_setting k (table s) = Some i \<and> n = ssize (table s ! i) \<and> \<not> sloaded (table s ! i)")
  case False
  with r inv cached_answer [OF inv, of k _ n] show ?thesis
    by (cases "find_setting k (table s)") (auto simp: rzi_lorawan_setting_read_def Let_def split: if_splits)
next
  case True
  then obtain i where f: "find_setting k (table s) = Some i"
    and i: "n = ssize (table s ! i)" "\<not> sloaded (table s ! i)" by blast
  let ?st = "table s ! i"
  note e = setting_entry [OF inv f]
  have sch: "schema_ok (table s)" and sto: "storage_inv E view (store s)" and max: "cfg_record_max E < 65536"
    using inv by (auto simp: settings_inv_def)
  obtain rc1 v p u where l: "(if cfg_storage E then load_value E (table s) ?st (default_value ?st) (store s)
      else (0, default_value ?st, False, store s)) = (rc1, v, p, u)" by (metis prod_cases4)
  have k: "load_keeps E view ?st (store s) (rc1, v, p, u)" if "cfg_storage E"
    using load_value_effect [OF sto sch e(3) max that default_value_length] l that by simp
  have u: "storage_inv E view u" "storage_ready (store s) \<longrightarrow> storage_ready u"
    "rc1 = 0 \<longrightarrow> length v = ssize ?st \<and> valid_value ?st v"
    "\<forall>ns k'. name_ok ns k' \<and> (ns, k') \<noteq> (''lorawan'', k) \<longrightarrow> look view u ns k' = look view (store s) ns k'"
    "cfg_storage E \<and> rc1 = 0 \<and> p \<longrightarrow> look view u ''lorawan'' k = Some (stored_as E ?st v)"
    using k l sto e(2,3) by (cases "cfg_storage E"; auto simp: load_keeps_def load_ok_def entry_ok_def)+
  show ?thesis
  proof (cases "rc1 = 0")
    case True
    then have t: "t = s\<lparr>store := u, table := (table s)[i := ?st
        \<lparr>svalue := overlay v (svalue ?st), spresent := p, sloaded := True\<rparr>]\<rparr>" "rc = 0" "out = Some (v, p)"
      using r f i l by (auto simp: rzi_lorawan_setting_read_def Let_def)
    have "read_answer E view D k n t v p"
      using cache_update [OF inv f _ _ u(1,4) _ t(1)] u(3,5) True i by simp
    moreover from this have "settings_inv E view D t" by (simp add: read_answer_def)
    ultimately show ?thesis using t u(2,4) by simp
  next
    case False
    then have t: "t = s\<lparr>store := u\<rparr>" "rc = rc1" "out = None"
      using r f i l by (auto simp: rzi_lorawan_setting_read_def Let_def)
    have "entry_synced E view D u ?st" using e(4) i by (simp add: entry_synced_def)
    from settings_inv_update [OF inv e(1) refl u(1) _ this] u(4) e(2)
    have "settings_inv E view D (s\<lparr>store := u, table := table s\<rparr>)" by simp
    then show ?thesis using t u(2,4) False by simp
  qed
qed

lemma setting_write_effect:
  assumes inv: "settings_inv E view D s" and len: "length v = n"
    and w: "rzi_lorawan_setting_write E k v n s = (rc, t)"
  shows "settings_inv E view D t \<and> (storage_ready (store s) \<longrightarrow> storage_ready (store t))
    \<and> (rc \<noteq> 0 \<longrightarrow> table t = table s) \<and> (rc = 0 \<longrightarrow> read_answer E view D k n t v True)"
proof (cases "\<exists>i. find_setting k (table s) = Some i \<and> n = ssize (table s ! i) \<and> valid_value (table s ! i) v")
  case False
  with w inv show ?thesis
    by (cases "find_setting k (table s)") (auto simp: rzi_lorawan_setting_write_def Let_def)
next
  case True
  then obtain i where f: "find_setting k (table s) = Some i"
    and i: "n = ssize (table s ! i)" "valid_value (table s ! i) v" by blast
  let ?st = "table s ! i"
  note e = setting_entry [OF inv f]
  have sto: "storage_inv E view (store s)" and max: "cfg_record_max E < 65536"
    using inv by (auto simp: settings_inv_def)
  let ?save = "\<not> sloaded ?st \<or> \<not> spresent ?st \<or> take n (svalue ?st) \<noteq> v"
  obtain rc1 u where l: "(if ?save then save_value E ?st v (store s) else (0, store s)) = (rc1, u)" by fastforce
  have "save_value E ?st v (store s) = (0, store s)" if "\<not> cfg_storage E"
    using that by (simp add: save_value_def)
  then have u: "storage_inv E view u \<and> (storage_ready (store s) \<longrightarrow> storage_ready u)
    \<and> (\<forall>ns k'. name_ok ns k' \<and> (ns, k') \<noteq> (''lorawan'', k) \<longrightarrow> look view u ns k' = look view (store s) ns k')
    \<and> (rc1 \<noteq> 0 \<longrightarrow> look view u ''lorawan'' k = look view (store s) ''lorawan'' k)
    \<and> (cfg_storage E \<and> rc1 = 0 \<and> k \<notin> D \<longrightarrow> look view u ''lorawan'' k = Some (stored_as E ?st v))"
    using save_value_effect [OF sto max e(3), of v rc1 u] l sto e(2,4,9) len i
    by (cases ?save; cases "cfg_storage E") (auto simp: entry_synced_def)
  then have u': "storage_inv E view u"
    "\<forall>ns k'. name_ok ns k' \<and> (ns, k') \<noteq> (''lorawan'', k) \<longrightarrow> look view u ns k' = look view (store s) ns k'"
    by simp_all
  show ?thesis
  proof (cases "rc1 = 0")
    case True
    then have t: "t = s\<lparr>store := u, table := (table s)[i := ?st
        \<lparr>svalue := overlay v (svalue ?st), spresent := True, sloaded := True\<rparr>]\<rparr>" "rc = 0"
      using w f i l by (auto simp: rzi_lorawan_setting_write_def Let_def)
    have "read_answer E view D k n t v True"
      using cache_update [OF inv f _ _ u' _ t(1)] u True i len by simp
    moreover from this have "settings_inv E view D t" by (simp add: read_answer_def)
    ultimately show ?thesis using t u by simp
  next
    case False
    then have t: "t = s\<lparr>store := u\<rparr>" "rc = rc1"
      using w f i l by (auto simp: rzi_lorawan_setting_write_def Let_def)
    have "entry_synced E view D u ?st" using e(2,4) u False by (simp add: entry_synced_def)
    from settings_inv_update [OF inv e(1) refl u'(1) _ this] u'(2) e(2)
    have "settings_inv E view D (s\<lparr>store := u, table := table s\<rparr>)" by simp
    then show ?thesis using t u False by simp
  qed
qed

text \<open>
  A write that returned 0 is on flash, unless the cache of a stale key already answered that value.
\<close>

lemma setting_write_stored:
  assumes inv: "settings_inv E view D s" and len: "length v = n" and sto: "cfg_storage E"
    and w: "rzi_lorawan_setting_write E k v n s = (0, t)"
    and fresh: "k \<notin> D \<or> rzi_lorawan_setting_read E k n s \<noteq> (0, Some (v, True), s)"
  shows "\<exists>i. find_setting k settings = Some i
    \<and> look view (store t) ''lorawan'' k = Some (stored_as E (settings ! i) v)"
proof -
  obtain i where f: "find_setting k (table s) = Some i"
    and i: "n = ssize (table s ! i)" "valid_value (table s ! i) v"
    using w by (auto simp: rzi_lorawan_setting_write_def Let_def split: option.splits if_splits)
  let ?st = "table s ! i"
  note e = setting_entry [OF inv f]
  have st: "storage_inv E view (store s)" and max: "cfg_record_max E < 65536"
    using inv by (auto simp: settings_inv_def)
  let ?save = "\<not> sloaded ?st \<or> \<not> spresent ?st \<or> take n (svalue ?st) \<noteq> v"
  obtain rc1 u where l: "(if ?save then save_value E ?st v (store s) else (0, store s)) = (rc1, u)" by fastforce
  then have t: "rc1 = 0" "store t = u"
    using w f i by (auto simp: rzi_lorawan_setting_write_def Let_def split: if_splits)
  have "look view u ''lorawan'' k = Some (stored_as E ?st v)"
  proof (cases ?save)
    case True
    then show ?thesis using save_value_effect [OF st max e(3), of v rc1 u] l sto e(2,9) len i t by simp
  next
    case False
    then have "rzi_lorawan_setting_read E k n s = (0, Some (v, True), s)"
      using f i by (auto simp: rzi_lorawan_setting_read_def Let_def)
    with fresh have "k \<notin> D" by simp
    with False l t e(2,4) sto i show ?thesis by (auto simp: entry_synced_def)
  qed
  with e(5,7) t show ?thesis by simp
qed

text \<open>A read that changes nothing is exactly a read of a cached entry; it depends on that entry only.\<close>

lemma read_loads:
  assumes "rzi_lorawan_setting_read E k n s = (0, out, t)"
  shows "\<exists>i. find_setting k (table s) = Some i \<and> n = ssize (table s ! i) \<and> sloaded (table t ! i)"
  using assms find_setting_Some [of k "table s"]
  by (auto simp: rzi_lorawan_setting_read_def Let_def split: prod.splits if_splits option.splits)

lemma read_unchanged_iff:
  "rzi_lorawan_setting_read E k n s = (0, out, s) \<longleftrightarrow>
     (\<exists>i. find_setting k (table s) = Some i \<and> n = ssize (table s ! i) \<and> sloaded (table s ! i)
        \<and> out = Some (take n (svalue (table s ! i)), spresent (table s ! i)))" (is "?l \<longleftrightarrow> ?r")
proof
  assume ?l
  from read_loads [OF this] \<open>?l\<close> show ?r by (auto simp: rzi_lorawan_setting_read_def Let_def)
qed (auto simp: rzi_lorawan_setting_read_def Let_def)

text \<open>Both operations replace at most the entry of their own key.\<close>

definition touches_only :: "string \<Rightarrow> setting list \<Rightarrow> setting list \<Rightarrow> bool" where
  "touches_only k tab tab' \<longleftrightarrow> map shape tab' = map shape tab
     \<and> (\<forall>j < length tab. skey (tab ! j) \<noteq> k \<longrightarrow> tab' ! j = tab ! j)"

lemma touches_only_refl [simp]: "touches_only k tab tab"
  by (simp add: touches_only_def)

lemma touches_only_update:
  "find_setting k tab = Some i \<Longrightarrow> shape st = shape (tab ! i) \<Longrightarrow> touches_only k tab (tab[i := st])"
  using find_setting_Some [of k tab i]
  by (auto simp: touches_only_def map_update nth_list_update) (metis list_update_id map_update)

lemma read_touches: "rzi_lorawan_setting_read E k n s = (rc, out, t) \<Longrightarrow> touches_only k (table s) (table t)"
  by (auto simp: rzi_lorawan_setting_read_def Let_def shape_def intro!: touches_only_update
      split: prod.splits if_splits option.splits)

lemma write_touches: "rzi_lorawan_setting_write E k v n s = (rc, t) \<Longrightarrow> touches_only k (table s) (table t)"
  by (auto simp: rzi_lorawan_setting_write_def Let_def shape_def intro!: touches_only_update
      split: prod.splits if_splits option.splits)

lemma touched_read:
  assumes t: "touches_only k (table s) (table t)" and "k' \<noteq> k"
    and r: "rzi_lorawan_setting_read E k' n s = (0, out, s)"
  shows "rzi_lorawan_setting_read E k' n t = (0, out, t)"
proof -
  from r obtain i where i: "find_setting k' (table s) = Some i" "n = ssize (table s ! i)" "sloaded (table s ! i)"
    "out = Some (take n (svalue (table s ! i)), spresent (table s ! i))" by (auto simp: read_unchanged_iff)
  have "map fst (map shape (table t)) = map fst (map shape (table s))"
    using t by (simp add: touches_only_def)
  then have "find_setting k' (table t) = find_setting k' (table s)"
    by (intro find_setting_keys) (simp add: shape_def comp_def)
  moreover have "table t ! i = table s ! i"
    using t find_setting_Some [OF i(1)] assms(2) by (simp add: touches_only_def)
  ultimately show ?thesis using i by (simp add: read_unchanged_iff)
qed

interpretation lorawan_settings: setting_store "rzi_lorawan_setting_read E" "rzi_lorawan_setting_write E"
  setting_good "settings_inv E view D" for E and view and D
proof
  fix s k n rc out t assume a: "settings_inv E view D s" "rzi_lorawan_setting_read E k n s = (rc, out, t)"
  show "settings_inv E view D t \<and> (rc \<noteq> 0 \<longrightarrow> out = None) \<and>
    (rc = 0 \<longrightarrow> (\<exists>v f. out = Some (v, f) \<and> setting_good k v \<and> length v = n)
      \<and> rzi_lorawan_setting_read E k n t = (0, out, t))"
    using setting_read_effect [OF a] by (auto simp: read_answer_def)
next
  fix s k n rc out t k' n' o'
  assume a: "settings_inv E view D s" "rzi_lorawan_setting_read E k n s = (rc, out, t)"
    "rzi_lorawan_setting_read E k' n' s = (0, o', s)"
  show "rzi_lorawan_setting_read E k' n' t = (0, o', t)"
  proof (cases "k' = k")
    case True
    have "t = s"
    proof (cases "n = n'")
      case T: True
      with True a show ?thesis by simp
    next
      case False
      with a True show ?thesis
        by (auto simp: read_unchanged_iff) (auto simp: rzi_lorawan_setting_read_def Let_def)
    qed
    with a show ?thesis by simp
  next
    case False
    with touched_read [OF read_touches [OF a(2)] _ a(3)] show ?thesis .
  qed
next
  fix s v n k rc t assume a: "settings_inv E view D s" "length v = n" "rzi_lorawan_setting_write E k v n s = (rc, t)"
  from setting_write_effect [OF a]
  show "settings_inv E view D t \<and> (rc = 0 \<longrightarrow> setting_good k v \<and>
      rzi_lorawan_setting_read E k n t = (0, Some (v, True), t))"
    by (auto simp: read_answer_def)
next
  fix s v n k rc t k' n' o'
  assume a: "settings_inv E view D s" "length v = n" "rzi_lorawan_setting_write E k v n s = (rc, t)"
    "k' \<noteq> k \<or> rc \<noteq> 0" "rzi_lorawan_setting_read E k' n' s = (0, o', s)"
  show "rzi_lorawan_setting_read E k' n' t = (0, o', t)"
  proof (cases "rc = 0")
    case True
    then show ?thesis using touched_read [OF write_touches [OF a(3)] _ a(5)] a(4) by simp
  next
    case False
    then have "table t = table s" using setting_write_effect [OF a(1-3)] by simp
    with a(5) show ?thesis by (simp add: read_unchanged_iff)
  qed
qed

text \<open>Writing the value that is cached as present writes nothing, whatever the flash holds.\<close>

lemma write_cached:
  assumes inv: "settings_inv E view D s" and r: "rzi_lorawan_setting_read E k n s = (0, Some (v, True), s)"
    and tab: "table t = table s"
  shows "rzi_lorawan_setting_write E k v n t = (0, t)"
proof -
  from r obtain i where i: "find_setting k (table s) = Some i" "n = ssize (table s ! i)" "sloaded (table s ! i)"
    "spresent (table s ! i)" "take n (svalue (table s ! i)) = v" by (auto simp: read_unchanged_iff)
  note e = setting_entry [OF inv i(1)]
  have l: "length v = n" and v: "valid_value (table s ! i) v" using e(4,8) i by (auto simp: entry_synced_def)
  then have "overlay v (svalue (table s ! i)) = svalue (table s ! i)"
    using i(5) append_take_drop_id [of n "svalue (table s ! i)"] by (simp add: overlay_def)
  then have "(table s)[i := (table s ! i)\<lparr>svalue := overlay v (svalue (table s ! i)), spresent := True, sloaded := True\<rparr>]
      = table s" using i by (simp add: list_update_same_conv e(1))
  then show ?thesis using i v tab by (simp add: rzi_lorawan_setting_write_def Let_def)
qed

section \<open>Loading known contents\<close>

text \<open>A persisted value loads as it is; with nothing persisted the default loads.\<close>

lemma load_value_hit:
  assumes inv: "storage_inv E view s" and rdy: "storage_ready s" and ok: "entry_ok st"
    and max: "cfg_record_max E < 65536" "3 \<le> cfg_record_max E"
    and v: "length v = ssize st" "valid_value st v"
    and l: "look view s ''lorawan'' (skey st) = Some (stored_as E st v)" and len: "length val = ssize st"
  shows "load_value E tab st val s = (0, v, True, s)"
proof -
  have name: "name_ok ''lorawan'' (skey st)" and sz: "0 < ssize st" and pz: "skind st = JOIN_POLICY \<Longrightarrow> ssize st = 3"
    using ok by (auto simp: entry_ok_def)
  have ne: "v \<noteq> []" "length val = length v" using v sz len by auto
  show ?thesis
  proof (cases "skind st = JOIN_POLICY")
    case True
    have "rzi_storage_read_record E (Some ''lorawan'') (Some (skey st)) (Some 0) (Some val) (length val) (Some 0) s
        = (0, (Some 1, Some (overlay v val), Some (length v)), s)"
      using l True pz v max len ne by (intro read_record_hit [OF inv rdy name]) (auto simp: stored_as_def)
    with True v len show ?thesis by (simp add: load_value_def)
  next
    case False
    then have "rzi_storage_read E (Some ''lorawan'') (Some (skey st)) (Some val) (length val) s = (0, Some v, s)"
      using storage.read_hit [OF inv rdy name _ ne] l by (simp add: stored_as_def)
    with False v len show ?thesis by (simp add: load_value_def)
  qed
qed

text \<open>
  \<open>stored_unread\<close>: the entry of \<open>k\<close> is not in the cache and its value \<open>v\<close> is on flash. The next read
  of \<open>k\<close> gives \<open>v\<close>, and reads of other keys, with the migrations they may do, keep it so.
\<close>

definition stored_unread ::
  "('d, 'z) settings_env_scheme \<Rightarrow> ('d \<Rightarrow> string \<rightharpoonup> bytes) \<Rightarrow> string \<Rightarrow> nat \<Rightarrow> bytes \<Rightarrow> 'd settings_state \<Rightarrow> bool" where
  "stored_unread E view k i v s \<longleftrightarrow> storage_ready (store s) \<and> find_setting k (table s) = Some i
     \<and> \<not> sloaded (table s ! i) \<and> setting_good k v
     \<and> look view (store s) ''lorawan'' k = Some (stored_as E (settings ! i) v)"

lemma read_stored:
  assumes inv: "settings_inv E view D s" and st: "stored_unread E view k i v s"
    and sto: "cfg_storage E" and max: "3 \<le> cfg_record_max E"
  shows "\<exists>t. rzi_lorawan_setting_read E k (length v) s = (0, Some (v, True), t)"
proof -
  have f: "find_setting k (table s) = Some i" and nl: "\<not> sloaded (table s ! i)"
    using st by (simp_all add: stored_unread_def)
  note e = setting_entry [OF inv f]
  have v: "length v = ssize (table s ! i)" "valid_value (table s ! i) v"
    using st e(6) by (simp_all add: stored_unread_def)
  have "load_value E (table s) (table s ! i) (default_value (table s ! i)) (store s) = (0, v, True, store s)"
    using inv st max v e(2,3,7) default_value_length
    by (intro load_value_hit) (auto simp: settings_inv_def stored_unread_def)
  then show ?thesis using f v nl sto by (simp add: rzi_lorawan_setting_read_def Let_def)
qed

lemma stored_unread_keep:
  assumes inv: "settings_inv E view D s" and st: "stored_unread E view k i v s"
    and r: "rzi_lorawan_setting_read E k' n s = (rc, out, t)" and ne: "k' \<noteq> k"
  shows "stored_unread E view k i v t"
proof -
  have f: "find_setting k (table s) = Some i" using st by (simp add: stored_unread_def)
  note e = setting_entry [OF inv f]
  have t: "touches_only k' (table s) (table t)" using r by (rule read_touches)
  have "map fst (map shape (table t)) = map fst (map shape (table s))" using t by (simp add: touches_only_def)
  then have "find_setting k (table t) = find_setting k (table s)"
    by (intro find_setting_keys) (simp add: shape_def comp_def)
  moreover have "table t ! i = table s ! i" using t e(1,2) ne by (simp add: touches_only_def)
  ultimately show ?thesis
    using st setting_read_effect [OF inv r] e(9) ne by (simp add: stored_unread_def)
qed

definition nothing_stored :: "('d \<Rightarrow> string \<rightharpoonup> bytes) \<Rightarrow> 'd storage_state \<Rightarrow> bool" where
  "nothing_stored view s \<longleftrightarrow> (\<forall>st\<in>set settings. look view s ''lorawan'' (skey st) \<in> {None, Some []}
     \<and> look view s ''rzi'' (skey st) \<in> {None, Some []})"

lemma nothing_stored_at:
  assumes "nothing_stored view s" and "schema_ok tab" and "st \<in> set tab"
  shows "look view s ''lorawan'' (skey st) \<in> {None, Some []}" "look view s ''rzi'' (skey st) \<in> {None, Some []}"
proof -
  have "skey st \<in> set (map skey settings)" using assms(2,3) schema_keys by (metis image_eqI set_map)
  then show "look view s ''lorawan'' (skey st) \<in> {None, Some []}" "look view s ''rzi'' (skey st) \<in> {None, Some []}"
    using assms(1) unfolding nothing_stored_def by (metis (no_types, lifting) image_iff set_map)+
qed

lemma read_legacy_nothing:
  assumes inv: "storage_inv E view s" and rdy: "storage_ready s" and ok: "entry_ok st"
    and no: "nothing_stored view s" "schema_ok tab" "st \<in> set tab" and len: "length val = ssize st"
  shows "read_legacy E st val s = (0, default_value st, False, s)"
proof -
  have "name_ok ''lorawan'' (skey st)" "name_ok ''rzi'' (skey st)" "val \<noteq> []"
    using ok len by (auto simp: entry_ok_def)
  from storage.read_miss [OF inv rdy this(1,3) nothing_stored_at(1) [OF no]]
    storage.read_miss [OF inv rdy this(2,3) nothing_stored_at(2) [OF no]] len show ?thesis
    by (simp add: read_legacy_def)
qed

lemma load_legacy_policy_nothing:
  assumes inv: "storage_inv E view s" and rdy: "storage_ready s" and no: "nothing_stored view s" and sch: "schema_ok tab"
  shows "load_legacy_policy E tab [''autojoin'', ''join_interval'', ''join_attempts''] 0 False [a, b, c] s
    = (0, [0, 8, 0], False, s)"
proof -
  have len: "length tab = 18" using sch policy_keys(5) unfolding schema_ok_def by (metis length_map)
  have d: "default_value (tab ! i) = default_value (settings ! i)" if "i < 18" for i
    using that schema_nth [OF sch, of i] len by (intro default_value_shape) simp
  have "map (\<lambda>i. default_value (settings ! i)) [14, 15, 16] = [[0], [8], [0]]" by code_simp
  then have "read_legacy E (tab ! 14) [x] s = (0, [0], False, s)" "read_legacy E (tab ! 15) [x] s = (0, [8], False, s)"
    "read_legacy E (tab ! 16) [x] s = (0, [0], False, s)" for x
    using read_legacy_nothing [OF inv rdy policy_entry(1) [OF sch] no sch, where val = "[x]"]
      policy_entry(2) [OF sch] len d by auto
  then show ?thesis by (simp add: find_setting_schema [OF sch] policy_keys)
qed

lemma load_value_nothing:
  assumes inv: "storage_inv E view s" and rdy: "storage_ready s" and no: "nothing_stored view s"
    and sch: "schema_ok tab" and st: "st \<in> set tab"
  shows "load_value E tab st (default_value st) s = (0, default_value st, False, s)"
proof -
  have ok: "entry_ok st" using schema_entry_ok [OF sch st] .
  have name: "name_ok ''lorawan'' (skey st)" and ne: "default_value st \<noteq> []"
    using ok by (auto simp: entry_ok_def)
  note len = default_value_length [of st]
  have leg: "read_legacy E st (default_value st) s = (0, default_value st, False, s)"
    using read_legacy_nothing [OF inv rdy ok no sch st len] .
  have "''band'' \<in> set (map skey settings)" by code_simp
  then have "look view s ''rzi'' ''band'' \<in> {None, Some []}" using no unfolding nothing_stored_def by auto
  then have band: "migrate_region E v s = (0, v, False, s)" for v
    using storage.read_miss [OF inv rdy band_name, of "[0]"] by (simp add: migrate_region_def)
  show ?thesis
  proof (cases "skind st = JOIN_POLICY")
    case True
    have rec: "rzi_storage_read_record E (Some ''lorawan'') (Some (skey st)) (Some 0) (Some (default_value st))
        (ssize st) (Some 0) s = (- RZI_ERR_NOT_FOUND, (Some 0, Some (default_value st), Some 0), s)"
      using read_record_miss [OF inv rdy name nothing_stored_at(1) [OF no sch st] ne, of 0 0] len by simp
    have "\<forall>x\<in>set settings. skind x = JOIN_POLICY \<longrightarrow> default_value x = [0, 8, 0]" by code_simp
    then have "default_value st = [0, 8, 0]"
      using True st schema_nth [OF sch] default_value_shape shape_fields(3) by (metis in_set_conv_nth)
    then show ?thesis
      using True rec load_legacy_policy_nothing [OF inv rdy no sch]
      by (simp add: load_value_def save_found_def del: load_legacy_policy.simps)
  next
    case False
    have "rzi_storage_read E (Some ''lorawan'') (Some (skey st)) (Some (default_value st)) (ssize st) s
        = (- RZI_ERR_NOT_FOUND, Some (default_value st), s)"
      using storage.read_miss [OF inv rdy name ne nothing_stored_at(1) [OF no sch st]] len by simp
    then show ?thesis using False leg band by (simp add: load_value_def save_found_def)
  qed
qed

section \<open>Clearing\<close>

lemma schema_reset:
  assumes "schema_ok tab"
  shows "schema_ok (map (\<lambda>st. st\<lparr>svalue := replicate SETTING_MAX_SIZE 0, sloaded := False, spresent := False\<rparr>) tab)"
proof -
  have "shape (st\<lparr>svalue := replicate SETTING_MAX_SIZE 0, sloaded := False, spresent := False\<rparr>) = shape st" for st
    by (simp add: shape_def)
  then show ?thesis using assms by (simp add: schema_ok_def comp_def)
qed

lemma delete_keys_sticky: "rc \<noteq> 0 \<Longrightarrow> fst (delete_keys E ns sts rc s) = rc"
  by (induction sts arbitrary: s) (auto split: prod.splits)

text \<open>Deletes only remove; when the loop reports success, all its keys are gone.\<close>

lemma delete_keys_effect:
  assumes "storage_inv E view s" and "storage_ready s" and "\<forall>st\<in>set sts. name_ok ns (skey st)"
    and "delete_keys E ns sts rc0 s = (rc, t)"
  shows "storage_inv E view t \<and> storage_ready t
    \<and> (\<forall>ns' k'. name_ok ns' k' \<longrightarrow> look view t ns' k' \<in> {None, look view s ns' k'})
    \<and> (rc = 0 \<longrightarrow> rc0 = 0 \<and> (\<forall>st\<in>set sts. look view t ns (skey st) \<in> {None, Some []}))"
  using assms
proof (induction sts arbitrary: s rc0)
  case (Cons st sts)
  obtain one u where d: "rzi_storage_delete E (Some ns) (Some (skey st)) s = (one, u)" by fastforce
  let ?rc = "if one \<noteq> 0 \<and> one \<noteq> - RZI_ERR_NOT_FOUND \<and> rc0 = 0 then one else rc0"
  have name: "name_ok ns (skey st)" using Cons.prems(3) by simp
  note e = storage.delete_law [OF Cons.prems(1) name d]
  have gone: "look view u ns (skey st) \<in> {None, Some []}" if "one = 0 \<or> one = - RZI_ERR_NOT_FOUND"
    using delete_gone [OF Cons.prems(1,2) name d that] .
  have rest: "delete_keys E ns sts ?rc u = (rc, t)" using Cons.prems(4) d by simp
  have IH: "storage_inv E view t \<and> storage_ready t
    \<and> (\<forall>ns' k'. name_ok ns' k' \<longrightarrow> look view t ns' k' \<in> {None, look view u ns' k'})
    \<and> (rc = 0 \<longrightarrow> ?rc = 0 \<and> (\<forall>st\<in>set sts. look view t ns (skey st) \<in> {None, Some []}))"
    using Cons.IH [OF _ _ _ rest] e Cons.prems(2,3) by simp
  have "look view t ns' k' \<in> {None, look view s ns' k'}" if "name_ok ns' k'" for ns' k'
    using IH e that by (metis insertCI insertE singletonD)
  moreover have "rc0 = 0 \<and> look view t ns (skey st) \<in> {None, Some []}" if "rc = 0"
  proof -
    have rc: "?rc = 0" using IH that by simp
    then have "one = 0 \<or> one = - RZI_ERR_NOT_FOUND" "rc0 = 0" by (auto split: if_splits)
    moreover have "look view t ns (skey st) \<in> {None, look view u ns (skey st)}" using IH name by simp
    ultimately show ?thesis using gone by auto
  qed
  ultimately show ?case using IH by auto
qed auto

lemma settings_clear_effect:
  assumes inv: "settings_inv E view D s" and rdy: "storage_ready (store s)" and sto: "cfg_storage E"
    and c: "rzi_lorawan_settings_clear E s = (0, t)"
  shows "settings_inv E view D t \<and> storage_ready (store t) \<and> nothing_stored view (store t)
    \<and> (\<forall>st\<in>set (table t). \<not> sloaded st)"
proof -
  have sch: "schema_ok (table s)" and i0: "storage_inv E view (store s)" and max: "cfg_record_max E < 65536"
    using inv by (auto simp: settings_inv_def)
  have names: "\<forall>st\<in>set (table s). name_ok ''lorawan'' (skey st)" "\<forall>st\<in>set (table s). name_ok ''rzi'' (skey st)"
    using schema_entry_ok [OF sch] by (auto simp: entry_ok_def)
  obtain rc1 u where d1: "delete_keys E ''lorawan'' (table s) 0 (store s) = (rc1, u)" by fastforce
  obtain rc2 w where d2: "delete_keys E ''rzi'' (table s) rc1 u = (rc2, w)" by fastforce
  note e1 = delete_keys_effect [OF i0 rdy names(1) d1]
  have e2: "storage_inv E view w \<and> storage_ready w
    \<and> (\<forall>ns' k'. name_ok ns' k' \<longrightarrow> look view w ns' k' \<in> {None, look view u ns' k'})
    \<and> (rc2 = 0 \<longrightarrow> rc1 = 0 \<and> (\<forall>st\<in>set (table s). look view w ''rzi'' (skey st) \<in> {None, Some []}))"
    using delete_keys_effect [OF _ _ names(2) d2] e1 by blast
  let ?reset = "\<lambda>st. st\<lparr>svalue := replicate SETTING_MAX_SIZE 0, sloaded := False, spresent := False\<rparr>"
  have t: "rc2 = 0" "t = s\<lparr>store := w, table := map ?reset (table s)\<rparr>"
    using c sto d1 d2 by (cases "rc2 = 0"; simp add: rzi_lorawan_settings_clear_def)+
  have gone: "look view w ''lorawan'' (skey st) \<in> {None, Some []} \<and> look view w ''rzi'' (skey st) \<in> {None, Some []}"
    if "st \<in> set (table s)" for st
  proof -
    have "look view u ''lorawan'' (skey st) \<in> {None, Some []}" using e1 e2 t(1) that by simp
    moreover have "look view w ''lorawan'' (skey st) \<in> {None, look view u ''lorawan'' (skey st)}"
      using e2 names(1) that by simp
    ultimately show ?thesis using e2 t(1) that by auto
  qed
  have none: "nothing_stored view w" unfolding nothing_stored_def
  proof
    fix st assume "st \<in> set settings"
    then have "skey st \<in> skey ` set (table s)" using schema_keys [OF sch] by (metis image_eqI set_map)
    then obtain x where "x \<in> set (table s)" "skey st = skey x" by (rule imageE)
    with gone [of x] show "look view w ''lorawan'' (skey st) \<in> {None, Some []}
        \<and> look view w ''rzi'' (skey st) \<in> {None, Some []}" by simp
  qed
  have "schema_ok (map ?reset (table s))" using schema_reset [OF sch] .
  moreover have "entry_synced E view D w (?reset st)" for st by (simp add: entry_synced_def)
  ultimately show ?thesis using t e2 none max by (auto simp: settings_inv_def)
qed

text \<open>A clear that returns 0 keeps the invariant even on a store that is not ready.\<close>

lemma delete_keys_inv:
  assumes "storage_inv E view s" and "\<forall>st\<in>set sts. name_ok ns (skey st)"
  shows "storage_inv E view (snd (delete_keys E ns sts rc s))"
  using assms
proof (induction sts arbitrary: s rc)
  case (Cons st sts)
  obtain one u where d: "rzi_storage_delete E (Some ns) (Some (skey st)) s = (one, u)" by fastforce
  have "storage_inv E view u" using storage.delete_law [OF Cons.prems(1) _ d] Cons.prems(2) by simp
  with Cons.IH Cons.prems(2) d show ?case by simp
qed simp

lemma settings_clear_inv:
  assumes inv: "settings_inv E view D s" and c: "rzi_lorawan_settings_clear E s = (0, t)"
  shows "settings_inv E view {} t"
proof -
  have sch: "schema_ok (table s)" and i0: "storage_inv E view (store s)" using inv by (auto simp: settings_inv_def)
  have names: "\<forall>st\<in>set (table s). name_ok ''lorawan'' (skey st)" "\<forall>st\<in>set (table s). name_ok ''rzi'' (skey st)"
    using schema_entry_ok [OF sch] by (auto simp: entry_ok_def)
  obtain rc1 u where d1: "delete_keys E ''lorawan'' (table s) 0 (store s) = (rc1, u)" by fastforce
  obtain rc2 w where d2: "delete_keys E ''rzi'' (table s) rc1 u = (rc2, w)" by fastforce
  have "storage_inv E view u" using delete_keys_inv [OF i0 names(1), of 0] d1 by simp
  from delete_keys_inv [OF this names(2), of rc1] d2 have w: "storage_inv E view w" by simp
  have "table t = map (\<lambda>st. st\<lparr>svalue := replicate 16 0, sloaded := False, spresent := False\<rparr>) (table s)
      \<and> storage_inv E view (store t)"
    using c d1 d2 w i0 by (cases "cfg_storage E"; cases "rc2 = 0") (auto simp: rzi_lorawan_settings_clear_def)
  then show ?thesis using inv schema_reset [OF sch] by (auto simp: settings_inv_def entry_synced_def)
qed

text \<open>Whatever a clear returns: the keys it deleted and did not forget are stale.\<close>

lemma settings_inv_stale:
  "settings_inv E view D s \<Longrightarrow> D \<subseteq> D' \<Longrightarrow> settings_inv E view D' s"
  by (auto simp: settings_inv_def entry_synced_def)

lemma settings_clear_any:
  assumes inv: "settings_inv E view D s" and c: "rzi_lorawan_settings_clear E s = (rc, t)"
  shows "settings_inv E view (if rc = 0 then {}
    else D \<union> {k. look view (store t) ''lorawan'' k \<noteq> look view (store s) ''lorawan'' k}) t"
proof (cases "rc = 0")
  case True
  then show ?thesis using settings_clear_inv [OF inv] c by simp
next
  case False
  have sch: "schema_ok (table s)" and i0: "storage_inv E view (store s)" using inv by (auto simp: settings_inv_def)
  have names: "\<forall>st\<in>set (table s). name_ok ''lorawan'' (skey st)" "\<forall>st\<in>set (table s). name_ok ''rzi'' (skey st)"
    using schema_entry_ok [OF sch] by (auto simp: entry_ok_def)
  obtain rc1 u where d1: "delete_keys E ''lorawan'' (table s) 0 (store s) = (rc1, u)" by fastforce
  obtain rc2 w where d2: "delete_keys E ''rzi'' (table s) rc1 u = (rc2, w)" by fastforce
  have "storage_inv E view u" using delete_keys_inv [OF i0 names(1), of 0] d1 by simp
  from delete_keys_inv [OF this names(2), of rc1] d2 have w: "storage_inv E view w" by simp
  have t: "table t = table s" "storage_inv E view (store t)"
    using c d1 d2 w i0 False by (auto simp: rzi_lorawan_settings_clear_def split: if_splits)
  then show ?thesis using inv False by (auto simp: settings_inv_def entry_synced_def)
qed

text \<open>With nothing stored, every read answers the default and nothing gets stored.\<close>

definition all_default :: "setting list \<Rightarrow> bool" where
  "all_default tab \<longleftrightarrow> (\<forall>st\<in>set tab. sloaded st \<longrightarrow> take (ssize st) (svalue st) = default_value st \<and> \<not> spresent st)"

lemma read_nothing:
  assumes inv: "settings_inv E view D s" and rdy: "storage_ready (store s)" and no: "nothing_stored view (store s)"
    and ad: "all_default (table s)" and i: "find_setting k settings = Some i"
  shows "\<exists>t. rzi_lorawan_setting_read E k (ssize (settings ! i)) s = (0, Some (default_value (settings ! i), False), t)
    \<and> settings_inv E view D t \<and> store t = store s \<and> all_default (table t)"
proof -
  have sch: "schema_ok (table s)" and st: "storage_inv E view (store s)" using inv by (auto simp: settings_inv_def)
  have f: "find_setting k (table s) = Some i" using i find_setting_schema [OF sch] by simp
  note e = setting_entry [OF inv f]
  let ?st = "table s ! i"
  have sh: "shape ?st = shape (settings ! i)" using schema_nth [OF sch e(1)] by simp
  note eqs = default_value_shape [OF sh] shape_fields(2) [OF sh]
  have mem: "?st \<in> set (table s)" using e(1) by simp
  obtain rc out t where r: "rzi_lorawan_setting_read E k (ssize (settings ! i)) s = (rc, out, t)" by (metis prod_cases3)
  have "rc = 0 \<and> out = Some (default_value (settings ! i), False) \<and> store t = store s \<and> all_default (table t)"
  proof (cases "sloaded ?st")
    case True
    with r f eqs ad mem show ?thesis by (auto simp: rzi_lorawan_setting_read_def Let_def all_default_def)
  next
    case False
    have "(if cfg_storage E then load_value E (table s) ?st (default_value ?st) (store s)
        else (0, default_value ?st, False, store s)) = (0, default_value ?st, False, store s)"
      using load_value_nothing [OF st rdy no sch mem] by simp
    with r f eqs False have t: "rc = 0" "out = Some (default_value (settings ! i), False)"
      "t = s\<lparr>table := (table s)[i := ?st\<lparr>svalue := overlay (default_value ?st) (svalue ?st), spresent := False, sloaded := True\<rparr>]\<rparr>"
      by (auto simp: rzi_lorawan_setting_read_def Let_def)
    have "take (ssize ?st) (overlay (default_value ?st) (svalue ?st)) = default_value ?st"
      using take_overlay [of "default_value ?st"] by (simp add: default_value_length)
    then have "all_default (table t)"
      using ad t(3) by (auto simp: all_default_def default_value_def dest!: set_update_subset_insert [THEN subsetD])
    with t show ?thesis by simp
  qed
  with r setting_read_effect [OF inv r] show ?thesis by auto
qed

text \<open>After a restart on the same flash, a value that was written with code 0 is stored and not cached.\<close>

lemma settings_fresh: "\<forall>st\<in>set settings. length (svalue st) = 16 \<and> \<not> sloaded st"
  by code_simp

lemma booted_inv:
  assumes "table b = settings" and "storage_inv E view (store b)" and "cfg_record_max E < 65536"
  shows "settings_inv E view D b"
  using assms settings_fresh by (simp add: settings_inv_def schema_ok_def entry_synced_def)

lemma reboot_stored:
  assumes inv: "settings_inv E view D s" and sto: "cfg_storage E"
    and len: "length v = n" and w: "rzi_lorawan_setting_write E k v n s = (0, t)"
    and fresh: "k \<notin> D \<or> rzi_lorawan_setting_read E k n s \<noteq> (0, Some (v, True), s)"
    and boot: "table b = settings" "storage_inv E view (store b)" "storage_ready (store b)"
      "look view (store b) = look view (store t)"
  shows "settings_inv E view {} b \<and> (\<exists>i. stored_unread E view k i v b)"
proof -
  obtain i where i: "find_setting k settings = Some i"
    and l: "look view (store b) ''lorawan'' k = Some (stored_as E (settings ! i) v)"
    using setting_write_stored [OF inv len sto w fresh] boot(4) by auto
  have "setting_good k v" using lorawan_settings.wr_law [OF inv len w] by simp
  moreover have "\<not> sloaded (settings ! i)" using settings_fresh find_setting_Some [OF i] by auto
  ultimately have "stored_unread E view k i v b" using boot(1,3) i l by (simp add: stored_unread_def)
  moreover have "settings_inv E view {} b"
    using booted_inv [OF boot(1,2)] inv by (simp add: settings_inv_def)
  ultimately show ?thesis by blast
qed

section \<open>Interrupt context\<close>

lemma isr_save_value: "save_value E st v s = (rc, t) \<Longrightarrow> in_isr (pwr t) = in_isr (pwr s)"
  by (auto simp: save_value_def split: if_splits dest: isr_write isr_write_record)

lemma isr_read_legacy: "read_legacy E st v s = (rc, w, f, t) \<Longrightarrow> in_isr (pwr t) = in_isr (pwr s)"
  by (auto simp: read_legacy_def Let_def split: if_splits prod.splits dest!: isr_read)

lemma isr_load_legacy_policy:
  "load_legacy_policy E tab ks i f v s = (rc, w, f', t) \<Longrightarrow> in_isr (pwr t) = in_isr (pwr s)"
  by (induction ks arbitrary: i f v s) (fastforce split: prod.splits if_splits dest!: isr_read_legacy)+

lemma isr_save_found:
  "save_found E st r = (rc', v', f', t) \<Longrightarrow> in_isr (pwr t) = in_isr (pwr (snd (snd (snd r))))"
  by (auto simp: save_found_def split: if_splits prod.splits dest: isr_save_value)

lemma isr_migrate_region: "migrate_region E v s = (rc, w, f, t) \<Longrightarrow> in_isr (pwr t) = in_isr (pwr s)"
  by (auto simp: migrate_region_def Let_def split: if_splits prod.splits dest!: isr_read)

lemma isr_loaders [simp]:
  "in_isr (pwr (snd (snd (snd (load_legacy_policy E tab ks i f v s))))) = in_isr (pwr s)"
  "in_isr (pwr (snd (snd (snd (migrate_region E v s))))) = in_isr (pwr s)"
  by (metis isr_load_legacy_policy prod.collapse) (metis isr_migrate_region prod.collapse)

lemma isr_load_value: "load_value E tab st v s = (rc, w, f, t) \<Longrightarrow> in_isr (pwr t) = in_isr (pwr s)"
  by (auto simp: load_value_def split: if_splits prod.splits simp del: load_legacy_policy.simps
      dest!: isr_read isr_read_record isr_save_found isr_read_legacy)

lemma isr_setting_read: "rzi_lorawan_setting_read E k n s = (rc, out, t) \<Longrightarrow> in_isr (pwr (store t)) = in_isr (pwr (store s))"
  by (auto simp: rzi_lorawan_setting_read_def Let_def split: if_splits prod.splits option.splits dest!: isr_load_value)

lemma isr_setting_write: "rzi_lorawan_setting_write E k v n s = (rc, t) \<Longrightarrow> in_isr (pwr (store t)) = in_isr (pwr (store s))"
  by (auto simp: rzi_lorawan_setting_write_def Let_def split: if_splits prod.splits option.splits dest!: isr_save_value)

lemma isr_delete_keys: "delete_keys E ns sts rc s = (rc', t) \<Longrightarrow> in_isr (pwr t) = in_isr (pwr s)"
  by (induction sts arbitrary: rc s) (fastforce split: prod.splits dest!: isr_delete)+

lemma isr_settings_clear: "rzi_lorawan_settings_clear E s = (rc, t) \<Longrightarrow> in_isr (pwr (store t)) = in_isr (pwr (store s))"
  by (auto simp: rzi_lorawan_settings_clear_def split: if_splits prod.splits dest!: isr_delete_keys)

section \<open>Reference environment\<close>

text \<open>The in-memory backend with persistent storage enabled, and a freshly booted schema on it.\<close>

definition mem_senv :: "'z \<Rightarrow> (string \<rightharpoonup> bytes, 'z) settings_env_scheme" where
  "mem_senv z = mem_env False \<lparr>cfg_storage = True, \<dots> = z\<rparr>"

definition fresh_settings :: "(string \<rightharpoonup> bytes) \<Rightarrow> (string \<rightharpoonup> bytes) settings_state" where
  "fresh_settings d = \<lparr>store = mem_state d, table = settings\<rparr>"

lemma mem_senv_cfg [simp]: "cfg_storage (mem_senv z)" "cfg_record_max (mem_senv z) = 256"
  by (simp_all add: mem_senv_def mem_env_def)

lemma fresh_settings_inv: "settings_inv (mem_senv z) (\<lambda>d. d) D (fresh_settings d)"
proof -
  have "storage_inv (mem_senv z) (\<lambda>d. d) (mem_state d)" unfolding mem_senv_def by (rule mem_state_inv)
  with settings_fresh show ?thesis
    by (simp add: settings_inv_def fresh_settings_def schema_ok_def entry_synced_def)
qed

lemma fresh_settings_ready: "storage_ready (store (fresh_settings d))"
  by (simp add: fresh_settings_def mem_state_ready)

section \<open>Properties\<close>

text \<open>
  Only valid values leave the settings: whatever bytes the flash holds, a read that returns
  0 yields a value of the declared size that the schema accepts for that key, the invariant
  still holds, a value reported as found is the one on flash, and repeating the read gives the
  same answer without touching any state.
\<close>

theorem settings_read_valid:
  assumes "settings_inv E view D s" and "rzi_lorawan_setting_read E k n s = (0, out, t)"
  shows "\<exists>v found i. out = Some (v, found) \<and> find_setting k settings = Some i
    \<and> n = ssize (settings ! i) \<and> length v = n \<and> valid_value (settings ! i) v
    \<and> (cfg_storage E \<and> found \<and> k \<notin> D \<longrightarrow> look view (store t) ''lorawan'' k = Some (stored_as E (settings ! i) v))
    \<and> settings_inv E view D t \<and> rzi_lorawan_setting_read E k n t = (0, out, t)"
proof -
  from setting_read_effect [OF assms] obtain v found where o: "out = Some (v, found)"
    and a: "read_answer E view D k n t v found" by auto
  then obtain i where i: "find_setting k settings = Some i"
    by (auto simp: read_answer_def setting_good_def split: option.splits)
  with a o show ?thesis
    by (intro exI [of _ v] exI [of _ found] exI [of _ i]) (auto simp: read_answer_def setting_good_def)
qed

theorem settings_read_valid_witness:
  "\<exists>v found. fst (snd (rzi_lorawan_setting_read (mem_senv ()) ''cfm'' 1 (fresh_settings [''lorawan/cfm'' \<mapsto> [1]])))
    = Some (v, found) \<and> length v = 1 \<and> v ! 0 \<le> 1"
proof -
  let ?r = "rzi_lorawan_setting_read (mem_senv ()) ''cfm'' 1 (fresh_settings [''lorawan/cfm'' \<mapsto> [1]])"
  have f: "find_setting ''cfm'' settings = Some 10" "ssize (settings ! 10) = 1" "skind (settings ! 10) = BOOLEAN"
    "sloaded (settings ! 10) = False" "skey (settings ! 10) = ''cfm''" "default_value (settings ! 10) = [0]"
    by code_simp+
  have "fst ?r = 0"
    by (simp add: rzi_lorawan_setting_read_def fresh_settings_def f load_value_def mem_senv_def
        rzi_storage_read_def build_name_ok [OF name_ok_example] full_name_def valid_value_def mem_eval Let_def)
  then have "?r = (0, fst (snd ?r), snd (snd ?r))" by (simp add: prod_eq_iff)
  from settings_read_valid [OF fresh_settings_inv [where D = "{}"] this] f show ?thesis
    by (auto simp: valid_value_def)
qed

text \<open>
  C30. Settings survive a restart: after a write that returned 0, a freshly booted schema (nothing
  cached) over the same flash contents reads back the written value and reports it as found. The
  side condition names the one exception, which the code has: \<open>D\<close> holds the keys that a factory
  reset deleted from flash before it failed; for such a key the write must not repeat the value
  that the cache still answers, since that write stores nothing.
\<close>

theorem settings_survive_reboot:
  assumes inv: "settings_inv E view D s" and sto: "cfg_storage E" and max: "3 \<le> cfg_record_max E"
    and len: "length v = n" and w: "rzi_lorawan_setting_write E k v n s = (0, t)"
    and fresh: "k \<notin> D \<or> rzi_lorawan_setting_read E k n s \<noteq> (0, Some (v, True), s)"
    and boot: "table b = settings" "storage_inv E view (store b)" "storage_ready (store b)"
      "look view (store b) = look view (store t)"
  shows "\<exists>b'. rzi_lorawan_setting_read E k n b = (0, Some (v, True), b')"
proof -
  from reboot_stored [OF inv sto len w fresh boot] obtain i where
    "settings_inv E view {} b" "stored_unread E view k i v b" by blast
  from read_stored [OF this sto max] len show ?thesis by simp
qed

lemma write_cfm:
  "fst (rzi_lorawan_setting_write (mem_senv z) ''cfm'' [1] 1 (fresh_settings Map.empty)) = 0"
proof -
  have f: "find_setting ''cfm'' settings = Some 10" "ssize (settings ! 10) = 1" "skind (settings ! 10) = BOOLEAN"
    "sloaded (settings ! 10) = False" "skey (settings ! 10) = ''cfm''"
    by code_simp+
  show ?thesis
    by (simp add: rzi_lorawan_setting_write_def fresh_settings_def f save_value_def mem_senv_def
        rzi_storage_write_def build_name_ok [OF name_ok_example] full_name_def valid_value_def mem_eval Let_def)
qed

theorem settings_survive_reboot_witness:
  "\<exists>t. rzi_lorawan_setting_write (mem_senv ()) ''cfm'' [1] 1 (fresh_settings Map.empty) = (0, t)
    \<and> (\<exists>b'. rzi_lorawan_setting_read (mem_senv ()) ''cfm'' 1 \<lparr>store = store t, table = settings\<rparr>
        = (0, Some ([1], True), b'))"
proof -
  let ?w = "rzi_lorawan_setting_write (mem_senv ()) ''cfm'' [1] 1 (fresh_settings Map.empty)"
  have w: "?w = (0, snd ?w)" using write_cfm [of "()"] by (simp add: prod_eq_iff)
  from setting_write_effect [OF fresh_settings_inv [where D = "{}"] _ w] fresh_settings_ready
  have "storage_inv (mem_senv ()) (\<lambda>d. d) (store (snd ?w))" "storage_ready (store (snd ?w))"
    by (auto simp: settings_inv_def)
  with settings_survive_reboot [OF fresh_settings_inv [where D = "{}"] _ _ _ w, where b = "\<lparr>store = store (snd ?w), table = settings\<rparr>"]
  show ?thesis using w by (intro exI [of _ "snd ?w"]) auto
qed

text \<open>
  A factory reset really resets: when the clear returns 0, nothing is left on flash under any
  key of the schema in either namespace, and every setting reads as its default, not found.
\<close>

theorem settings_clear_defaults:
  assumes inv: "settings_inv E view D s" and rdy: "storage_ready (store s)" and sto: "cfg_storage E"
    and c: "rzi_lorawan_settings_clear E s = (0, t)" and i: "find_setting k settings = Some i"
  shows "nothing_stored view (store t) \<and>
    (\<exists>u. rzi_lorawan_setting_read E k (ssize (settings ! i)) t = (0, Some (default_value (settings ! i), False), u))"
proof -
  note e = settings_clear_effect [OF inv rdy sto c]
  then have "all_default (table t)" by (simp add: all_default_def)
  with e read_nothing [of E view D t k i] i show ?thesis by blast
qed

lemma clear_empty: "rzi_lorawan_settings_clear (mem_senv z) (fresh_settings Map.empty) = (0, fresh_settings Map.empty)"
proof -
  have del: "rzi_storage_delete (mem_senv z) (Some ns) (Some k) (mem_state Map.empty)
      = (- RZI_ERR_NOT_FOUND, mem_state Map.empty)" if "name_ok ns k" for ns k
    by (simp add: rzi_storage_delete_def build_name_ok [OF that] mem_senv_def mem_eval
        rzi_err_from_errno_def catalog_name_def)
  have keys: "delete_keys (mem_senv z) ns sts 0 (mem_state Map.empty) = (0, mem_state Map.empty)"
    if "\<forall>st\<in>set sts. name_ok ns (skey st)" for ns sts
    using that by (induction sts) (auto simp: del)
  have "map (\<lambda>st. st\<lparr>svalue := replicate 16 0, sloaded := False, spresent := False\<rparr>) settings = settings"
    by (simp add: settings_def entry_def)
  then show ?thesis
    using keys [of settings] settings_names by (simp add: rzi_lorawan_settings_clear_def fresh_settings_def)
qed

theorem settings_clear_defaults_witness:
  "nothing_stored (\<lambda>d. d) (store (fresh_settings Map.empty)) \<and>
   (\<exists>u. rzi_lorawan_setting_read (mem_senv ()) ''region'' 1 (fresh_settings Map.empty)
      = (0, Some ([of_nat RZI_LORAWAN_REGION_EU_868], False), u))"
proof -
  have "find_setting ''region'' settings = Some 9" "ssize (settings ! 9) = 1"
    "default_value (settings ! 9) = [of_nat RZI_LORAWAN_REGION_EU_868]"
    by code_simp+
  with settings_clear_defaults [OF fresh_settings_inv fresh_settings_ready _ clear_empty, of "()"] show ?thesis
    by force
qed

text \<open>
  Writing is idempotent on flash: once a value has been written (code 0), writing the same
  value again returns 0 and leaves the whole state, flash and power-lock counters included,
  exactly as it was; so repeated identical writes cost no flash wear.
\<close>

theorem settings_write_idempotent:
  assumes "settings_inv E view D s" and "length v = n" and "rzi_lorawan_setting_write E k v n s = (0, t)"
  shows "rzi_lorawan_setting_write E k v n t = (0, t)"
  using setting_write_effect [OF assms] write_cached [of E view D t k n v t] by (simp add: read_answer_def)

theorem settings_write_idempotent_witness:
  "\<exists>t. rzi_lorawan_setting_write (mem_senv ()) ''cfm'' [1] 1 (fresh_settings Map.empty) = (0, t)
     \<and> rzi_lorawan_setting_write (mem_senv ()) ''cfm'' [1] 1 t = (0, t)"
proof -
  let ?w = "rzi_lorawan_setting_write (mem_senv ()) ''cfm'' [1] 1 (fresh_settings Map.empty)"
  have w: "?w = (0, snd ?w)" using write_cfm [of "()"] by (simp add: prod_eq_iff)
  from settings_write_idempotent [OF fresh_settings_inv _ w] w show ?thesis by auto
qed

text \<open>
  Devices upgraded from the old layout keep their region: with no region under either
  namespace and a legacy \<^verbatim>\<open>rzi/band\<close> number from 1 to 11, a first read of the region that returns 0
  yields the region of that band, reports it as found, and has stored it under its new name.
\<close>

theorem settings_band_migrated:
  assumes inv: "settings_inv E view D s" and rdy: "storage_ready (store s)" and sto: "cfg_storage E"
    and tab: "table s = settings"
    and none: "look view (store s) ''lorawan'' ''region'' = None" "look view (store s) ''rzi'' ''region'' = None"
    and band: "look view (store s) ''rzi'' ''band'' = Some [b]" "0 < unat b" "unat b < length bands"
    and r: "rzi_lorawan_setting_read E ''region'' 1 s = (0, out, t)"
  shows "out = Some ([bands ! unat b], True) \<and> look view (store t) ''lorawan'' ''region'' = Some [bands ! unat b]"
proof -
  have st: "find_setting ''region'' settings = Some 9" "ssize (settings ! 9) = 1" "skind (settings ! 9) = REGION"
    "skey (settings ! 9) = ''region''" "default_value (settings ! 9) = [0]" "sloaded (settings ! 9) = False"
    by code_simp+
  have i: "storage_inv E view (store s)" using inv by (simp add: settings_inv_def)
  have nm: "name_ok ''lorawan'' ''region''" "name_ok ''rzi'' ''region''" by code_simp+
  have reads: "rzi_storage_read E (Some ''lorawan'') (Some ''region'') (Some [0]) 1 (store s) = (- RZI_ERR_NOT_FOUND, Some [0], store s)"
    "rzi_storage_read E (Some ''rzi'') (Some ''region'') (Some [0]) 1 (store s) = (- RZI_ERR_NOT_FOUND, Some [0], store s)"
    "rzi_storage_read E (Some ''rzi'') (Some ''band'') (Some [0]) 1 (store s) = (0, Some [b], store s)"
    using storage.read_miss [OF i rdy nm(1), of "[0]"] storage.read_miss [OF i rdy nm(2), of "[0]"]
      storage.read_hit [OF i rdy band_name band(1), of "[0]"] none by simp_all
  obtain rc u where sv: "save_value E (settings ! 9) [bands ! unat b] (store s) = (rc, u)" by fastforce
  have ld: "load_value E settings (settings ! 9) [0] (store s) = (rc, [bands ! unat b], True, u)"
    using reads band sv st by (simp add: load_value_def read_legacy_def migrate_region_def save_found_def)
  have "rc = 0" and "out = Some ([bands ! unat b], True)" and "store t = u"
    using r ld st sto tab by (auto simp: rzi_lorawan_setting_read_def Let_def split: if_splits)
  moreover have "settings ! 9 \<in> set settings" using find_setting_Some [OF st(1)] by simp
  then have "entry_ok (settings ! 9)" using settings_entry_ok by simp
  ultimately show ?thesis
    using save_value_effect [OF i _ _ _ sto sv] inv nm st by (simp add: settings_inv_def stored_as_def)
qed

theorem settings_band_migrated_witness:
  "fst (snd (rzi_lorawan_setting_read (mem_senv ()) ''region'' 1 (fresh_settings [''rzi/band'' \<mapsto> [5]])))
   = Some ([of_nat RZI_LORAWAN_REGION_US_915], True)"
proof -
  let ?s = "fresh_settings [''rzi/band'' \<mapsto> [5]]"
  let ?r = "rzi_lorawan_setting_read (mem_senv ()) ''region'' 1 ?s"
  have "fst ?r = 0" by code_simp
  then have r: "?r = (0, fst (snd ?r), snd (snd ?r))" by (simp add: prod_eq_iff)
  have l: "look (\<lambda>d. d) (store ?s) ''lorawan'' ''region'' = None" "look (\<lambda>d. d) (store ?s) ''rzi'' ''region'' = None"
    "look (\<lambda>d. d) (store ?s) ''rzi'' ''band'' = Some [5]" "unat (5 :: u8) < length bands" "0 < unat (5 :: u8)"
    "bands ! unat (5 :: u8) = of_nat RZI_LORAWAN_REGION_US_915"
    by code_simp+
  show ?thesis
    using settings_band_migrated [OF fresh_settings_inv fresh_settings_ready mem_senv_cfg(1) _ l(1-3,5,4) r] l(6)
    by (simp add: fresh_settings_def)
qed

text \<open>
  A failed factory reset desynchronises the cache: if the clear returns an error after the
  flash copy of a cached, present setting was already deleted, the cache still says present, so
  writing that same value again returns 0 and changes nothing, and it is not on flash.
\<close>

theorem settings_failed_clear_loses_write:
  assumes inv: "settings_inv E view D s" and c: "rzi_lorawan_settings_clear E s = (rc, t)" and "rc \<noteq> 0"
    and r: "rzi_lorawan_setting_read E k n s = (0, Some (v, True), s)"
    and gone: "look view (store t) ''lorawan'' k = None"
  shows "rzi_lorawan_setting_write E k v n t = (0, t) \<and> look view (store (snd (rzi_lorawan_setting_write E k v n t))) ''lorawan'' k = None"
proof -
  have "table t = table s" using c \<open>rc \<noteq> 0\<close>
    by (auto simp: rzi_lorawan_settings_clear_def split: prod.splits if_splits)
  with write_cached [OF inv r] gone show ?thesis by simp
qed

text \<open>A backend that fails to delete one of the names.\<close>

definition stuck_senv :: "(string \<rightharpoonup> bytes) settings_env" where
  "stuck_senv = (mem_senv ())\<lparr>settings_delete :=
     (\<lambda>name d. if name = ''lorawan/joineui'' then (- EIO, d) else (0, d(name := None)))\<rparr>"

lemma stuck_senv_lawful: "settings_lawful stuck_senv (\<lambda>d. d)"
  by (auto simp: settings_lawful_def stuck_senv_def mem_senv_def mem_env_def load_spec_def split: option.splits)

theorem settings_failed_clear_loses_write_witness:
  "\<exists>s t rc. rzi_lorawan_settings_clear stuck_senv s = (rc, t) \<and> rc = - RZI_ERR_IO
    \<and> rzi_lorawan_setting_write stuck_senv ''cfm'' [1] 1 t = (0, t)
    \<and> look (\<lambda>d. d) (store t) ''lorawan'' ''cfm'' = None"
proof -
  let ?f = "fresh_settings [''lorawan/cfm'' \<mapsto> [1], ''lorawan/joineui'' \<mapsto> [1, 2, 3, 4, 5, 6, 7, 8]]"
  let ?s = "snd (snd (rzi_lorawan_setting_read stuck_senv ''cfm'' 1 ?f))"
  let ?c = "rzi_lorawan_settings_clear stuck_senv ?s"
  have inv0: "settings_inv stuck_senv (\<lambda>d. d) {} ?f"
    using fresh_settings_inv [of "()" "{}"] stuck_senv_lawful
    by (simp add: settings_inv_def storage_inv_def fresh_settings_def entry_synced_def settings_fresh
        stuck_senv_def)
  have "fst (rzi_lorawan_setting_read stuck_senv ''cfm'' 1 ?f) = 0"
    and "fst (snd (rzi_lorawan_setting_read stuck_senv ''cfm'' 1 ?f)) = Some ([1], True)" by code_simp+
  then have r: "rzi_lorawan_setting_read stuck_senv ''cfm'' 1 ?f = (0, Some ([1], True), ?s)" by (simp add: prod_eq_iff)
  note a = lorawan_settings.rd_law [OF inv0 r]
  have "fst ?c = - RZI_ERR_IO" and "look (\<lambda>d. d) (store (snd ?c)) ''lorawan'' ''cfm'' = None" by code_simp+
  with settings_failed_clear_loses_write [where D = "{}" and s = ?s and t = "snd ?c" and rc = "fst ?c" and v = "[1]"] a show ?thesis
    by (intro exI [of _ ?s] exI [of _ "snd ?c"] exI [of _ "fst ?c"]) (auto simp: prod_eq_iff)
qed

end
