(* ===== verification/Rzi_Lw_State.thy ===== *)
theory Rzi_Lw_State
  imports Rzi_Settings
begin

text \<open>
  The data model of the LoRaWAN service: the events and configuration structures, the table of
  backend operations (\<^verbatim>\<open>src/lorawan/backend/\<close>), the static variables of the service and of
  \<^verbatim>\<open>src/lorawan/api/\<close> as one record, and the guards every entry point starts with.

  The backend is reached only through \<^verbatim>\<open>rzi_lorawan_backend\<close>, a table of function pointers; it
  is a field of the environment. \<open>'x\<close> is the state behind it. An operation returns its code, the
  events it published through the sink before returning, and the next backend state. The
  message queue is Zephyr's \<^verbatim>\<open>k_msgq\<close>: its put and get are fields too, over the list of queued
  events. Applications' callbacks and the services' hooks are functions on the whole state \<open>'s\<close>.
  Enumerations checked at run time are natural numbers, the source's codes.
\<close>

section \<open>Codes\<close>

abbreviation (input) RZI_LORAWAN_MAX_PAYLOAD :: nat where "RZI_LORAWAN_MAX_PAYLOAD \<equiv> 242"
abbreviation (input) RZI_LORAWAN_JOIN_KEEP :: int where "RZI_LORAWAN_JOIN_KEEP \<equiv> - 1"
abbreviation (input) RZI_LORAWAN_JOIN_INTERVAL_MIN :: int where "RZI_LORAWAN_JOIN_INTERVAL_MIN \<equiv> 7"
abbreviation (input) RZI_LORAWAN_JOIN_INTERVAL_MAX :: int where "RZI_LORAWAN_JOIN_INTERVAL_MAX \<equiv> 255"
abbreviation (input) RZI_LORAWAN_ACTIVATION_OTAA :: nat where "RZI_LORAWAN_ACTIVATION_OTAA \<equiv> 0"
abbreviation (input) RZI_LORAWAN_ACTIVATION_ABP :: nat where "RZI_LORAWAN_ACTIVATION_ABP \<equiv> 1"
abbreviation (input) RZI_LORAWAN_MSG_UNCONFIRMED :: nat where "RZI_LORAWAN_MSG_UNCONFIRMED \<equiv> 0"
abbreviation (input) RZI_LORAWAN_MSG_CONFIRMED :: nat where "RZI_LORAWAN_MSG_CONFIRMED \<equiv> 1"
abbreviation (input) RZI_LORAWAN_CLASS_A :: nat where "RZI_LORAWAN_CLASS_A \<equiv> 0"
abbreviation (input) RZI_LORAWAN_CLASS_B :: nat where "RZI_LORAWAN_CLASS_B \<equiv> 1"
abbreviation (input) RZI_LORAWAN_CLASS_C :: nat where "RZI_LORAWAN_CLASS_C \<equiv> 2"
abbreviation (input) RZI_LORAWAN_DR_15 :: nat where "RZI_LORAWAN_DR_15 \<equiv> 15"
abbreviation (input) RZI_LORAWAN_LINK_CHECK_DISABLED :: nat where "RZI_LORAWAN_LINK_CHECK_DISABLED \<equiv> 0"
abbreviation (input) RZI_LORAWAN_LINK_CHECK_ONCE :: nat where "RZI_LORAWAN_LINK_CHECK_ONCE \<equiv> 1"
abbreviation (input) RZI_LORAWAN_LINK_CHECK_EVERY_UPLINK :: nat where "RZI_LORAWAN_LINK_CHECK_EVERY_UPLINK \<equiv> 2"
abbreviation (input) RZI_LORAWAN_ADR_CUSTOM :: nat where "RZI_LORAWAN_ADR_CUSTOM \<equiv> 3"
abbreviation (input) RZI_LORAWAN_DR_DISTRIBUTION_LENGTH :: nat where "RZI_LORAWAN_DR_DISTRIBUTION_LENGTH \<equiv> 16"

abbreviation (input) RZI_LORAWAN_CAP_OTAA :: u32 where "RZI_LORAWAN_CAP_OTAA \<equiv> push_bit 0 1"
abbreviation (input) RZI_LORAWAN_CAP_ABP :: u32 where "RZI_LORAWAN_CAP_ABP \<equiv> push_bit 1 1"
abbreviation (input) RZI_LORAWAN_CAP_CLASS_A :: u32 where "RZI_LORAWAN_CAP_CLASS_A \<equiv> push_bit 2 1"
abbreviation (input) RZI_LORAWAN_CAP_CLASS_B :: u32 where "RZI_LORAWAN_CAP_CLASS_B \<equiv> push_bit 3 1"
abbreviation (input) RZI_LORAWAN_CAP_CLASS_C :: u32 where "RZI_LORAWAN_CAP_CLASS_C \<equiv> push_bit 4 1"
abbreviation (input) RZI_LORAWAN_CAP_CHANNEL :: u32 where "RZI_LORAWAN_CAP_CHANNEL \<equiv> push_bit 6 1"

section \<open>Events\<close>

datatype rzi_lorawan_state = STATE_STOPPED | STATE_STARTING | STATE_READY | STATE_JOINING | STATE_JOINED

record rzi_lorawan_tx_result =
  tx_status :: nat
  tx_error :: int

record rzi_lorawan_downlink =
  dl_port :: u8
  dl_size :: nat
  dl_rssi_dbm :: int
  dl_snr_quarter_db :: int
  dl_flags :: u32
  dl_window :: nat
  dl_multicast_group :: u8
  dl_data_rate :: nat
  dl_frequency_hz :: u32
  dl_data :: bytes

record rzi_lorawan_link_check_result =
  demod_margin :: u8
  gateway_count :: u8
  lc_rssi_dbm :: int
  lc_snr_quarter_db :: int

datatype fuota_kind = FUOTA_CLOCK_SYNCED | FUOTA_SESSION_STARTED | FUOTA_SESSION_ENDED
  | FUOTA_TRANSFER_DONE | FUOTA_REBOOT_REQUESTED

datatype backend_event =
    BACKEND_READY
  | BACKEND_JOINED
  | BACKEND_JOIN_FAILED int
  | BACKEND_TX_DONE nat int
  | BACKEND_DOWNLINK rzi_lorawan_downlink
  | BACKEND_ERROR int
  | BACKEND_STATE_CHANGED rzi_lorawan_state
  | BACKEND_FUOTA fuota_kind bool u32
  | BACKEND_LINK_CHECK rzi_lorawan_link_check_result
  | BACKEND_DEVICE_TIME int
  | BACKEND_CLASS_B nat
  | BACKEND_DUTY_CYCLE bool
  | BACKEND_NO_DOWNLINK u8

datatype rzi_lorawan_event =
    EVENT_READY
  | EVENT_JOINED
  | EVENT_JOIN_FAILED int
  | EVENT_TXDONE rzi_lorawan_tx_result
  | EVENT_DOWNDATA rzi_lorawan_downlink
  | EVENT_ERROR int
  | EVENT_STATE_CHANGED rzi_lorawan_state
  | EVENT_LINK_CHECK rzi_lorawan_link_check_result
  | EVENT_LORAWAN_MAC_TIME int
  | EVENT_CLASS_B nat
  | EVENT_REGIONAL_DUTY_CYCLE bool
  | EVENT_NO_DOWNLINK_THRESHOLD u8

section \<open>Configuration structures\<close>

record rzi_lorawan_join_otaa =
  otaa_dev_eui :: bytes
  otaa_join_eui :: bytes
  otaa_network_key :: bytes
  otaa_application_key :: bytes
  otaa_dev_nonce :: u16

record rzi_lorawan_join_abp =
  abp_dev_addr :: u32
  abp_network_session_key :: bytes
  abp_application_session_key :: bytes

text \<open>The activation selects the union member.\<close>

datatype join_keys = Join_otaa rzi_lorawan_join_otaa | Join_abp rzi_lorawan_join_abp

record rzi_lorawan_join_config =
  jc_activation :: nat
  jc_retry_interval_s :: u8
  jc_channel_mask_set :: bool
  jc_channel_mask :: "u16 list"
  jc_keys :: join_keys

record rzi_lorawan_beacon_gateway =
  has_coordinates :: bool
  latitude :: u32
  longitude :: u32
  bg_net_id :: u32
  gateway_id :: u32

record rzi_lorawan_network_time =
  gps_seconds :: u32
  gps_subseconds :: u32

record rzi_lorawan_csma_params =
  max_channel_changes :: u8
  backoff_enabled :: bool
  max_backoffs :: u8

record rzi_lorawan_multicast_session =
  mc_device_class :: nat
  mc_dev_addr :: u32
  mc_application_session_key :: bytes
  mc_network_session_key :: bytes
  mc_frequency_hz :: u32
  mc_data_rate :: nat
  mc_periodicity :: u16
  mc_group_id :: int

section \<open>The backend table\<close>

text \<open>An operation, and a query that may overwrite the cell it is given.\<close>

type_synonym 'x bop = "'x \<Rightarrow> int \<times> backend_event list \<times> 'x"
type_synonym ('a, 'x) bget = "'a \<Rightarrow> 'x \<Rightarrow> int \<times> 'a \<times> backend_event list \<times> 'x"

record 'x rzi_lorawan_base_ops =
  bk_start :: "nat \<Rightarrow> bool \<Rightarrow> 'x bop"
  bk_join :: "rzi_lorawan_join_config \<Rightarrow> 'x bop"
  bk_leave :: "'x bop"
  bk_send :: "u8 \<Rightarrow> bytes option \<Rightarrow> nat \<Rightarrow> nat \<Rightarrow> 'x bop"
  bk_set_class :: "nat \<Rightarrow> 'x bop"
  bk_get_class :: "(nat, 'x) bget option"
  bk_is_joined :: "(bool, 'x) bget"
  bk_is_busy :: "(bool, 'x) bget"

record 'x rzi_lorawan_network_ops =
  bk_get_adr :: "(bool, 'x) bget option"
  bk_set_adr :: "(bool \<Rightarrow> 'x bop) option"
  bk_get_data_rate :: "(nat, 'x) bget option"
  bk_set_data_rate :: "(nat \<Rightarrow> 'x bop) option"
  bk_get_enabled_data_rates :: "(u16, 'x) bget option"
  bk_get_adr_profile :: "(nat, 'x) bget option"
  bk_set_adr_profile :: "(nat \<Rightarrow> bytes option \<Rightarrow> 'x bop) option"
  bk_get_nb_trans :: "(u8, 'x) bget option"
  bk_set_nb_trans :: "(u8 \<Rightarrow> 'x bop) option"
  bk_get_adr_ack :: "(u8 \<times> u8, 'x) bget option"
  bk_set_adr_ack :: "(u8 \<Rightarrow> u8 \<Rightarrow> 'x bop) option"
  bk_set_join_data_rates :: "(bytes \<Rightarrow> 'x bop) option"
  bk_get_duty_cycle_status :: "(int, 'x) bget option"
  bk_get_join_backoff :: "(u32, 'x) bget option"
  bk_get_public_network :: "(bool, 'x) bget option"
  bk_set_public_network :: "(bool \<Rightarrow> 'x bop) option"
  bk_get_lbt :: "(bool, 'x) bget option"
  bk_set_lbt :: "(bool \<Rightarrow> 'x bop) option"
  bk_get_lbt_rssi :: "(int, 'x) bget option"
  bk_set_lbt_rssi :: "(int \<Rightarrow> 'x bop) option"
  bk_get_lbt_scan_time :: "(u32, 'x) bget option"
  bk_set_lbt_scan_time :: "(u32 \<Rightarrow> 'x bop) option"
  bk_get_csma :: "(bool, 'x) bget option"
  bk_set_csma :: "(bool \<Rightarrow> 'x bop) option"
  bk_get_csma_params :: "(rzi_lorawan_csma_params, 'x) bget option"
  bk_set_csma_params :: "(rzi_lorawan_csma_params \<Rightarrow> 'x bop) option"
  bk_get_lost_connection_count :: "(u16, 'x) bget option"
  bk_get_no_downlink_threshold :: "(u16, 'x) bget option"
  bk_set_no_downlink_threshold :: "(u16 \<Rightarrow> 'x bop) option"
  bk_get_crystal_error :: "(u32, 'x) bget option"
  bk_set_crystal_error :: "(u32 \<Rightarrow> 'x bop) option"
  bk_send_empty :: "(bool \<Rightarrow> u8 \<Rightarrow> nat \<Rightarrow> 'x bop) option"
  bk_query_tx_possible :: "(nat \<Rightarrow> 'x bop) option"

record 'x rzi_lorawan_class_b_ops =
  bk_get_ping_slot_periodicity :: "(u8, 'x) bget option"
  bk_set_ping_slot_periodicity :: "(u8 \<Rightarrow> 'x bop) option"
  bk_get_beacon_frequency :: "(u32, 'x) bget option"
  bk_get_beacon_time :: "(u32, 'x) bget option"
  bk_get_beacon_data_rate :: "(nat, 'x) bget option"
  bk_get_beacon_gateway :: "(rzi_lorawan_beacon_gateway, 'x) bget option"
  bk_get_state :: "(nat, 'x) bget option"
  bk_stop :: "'x bop option"

record 'x rzi_lorawan_session_ops =
  bk_get_net_id :: "(u32, 'x) bget option"
  bk_get_dev_nonce :: "(u16, 'x) bget option"
  bk_set_dev_nonce :: "(u16 \<Rightarrow> 'x bop) option"
  bk_get_dev_addr :: "(u32, 'x) bget option"
  bk_get_nwk_skey :: "(bytes, 'x) bget option"
  bk_get_app_skey :: "(bytes, 'x) bget option"

record 'x rzi_lorawan_mac_ops =
  bk_request_link_check :: "'x bop option"
  bk_request_device_time :: "'x bop option"
  bk_get_network_time :: "(rzi_lorawan_network_time, 'x) bget option"

record 'x rzi_lorawan_multicast_ops =
  bk_mc_add :: "(rzi_lorawan_multicast_session \<Rightarrow> 'x bop) option"
  bk_mc_remove :: "(u32 \<Rightarrow> 'x bop) option"
  bk_mc_get_count :: "(nat, 'x) bget option"
  bk_mc_get :: "(nat \<Rightarrow> (rzi_lorawan_multicast_session, 'x) bget) option"
  bk_mc_clear :: "'x bop option"

record 'x rzi_lorawan_certification_ops =
  bk_get_mode :: "(bool, 'x) bget option"
  bk_set_mode :: "(bool \<Rightarrow> 'x bop) option"
  bk_get_port_enabled :: "(bool, 'x) bget option"
  bk_set_port_enabled :: "(bool \<Rightarrow> 'x bop) option"

record 'x rzi_lorawan_fuota_ops =
  bk_start_clock_sync :: "'x bop option"
  bk_get_image_size :: "(nat, 'x) bget option"
  bk_read_image :: "(u32 \<Rightarrow> nat \<Rightarrow> (bytes, 'x) bget) option"
  bk_reboot :: "'x bop option"

record 'x rzi_lorawan_backend_api =
  bk_capabilities :: u32
  bk_base :: "'x rzi_lorawan_base_ops"
  bk_network :: "'x rzi_lorawan_network_ops option"
  bk_class_b :: "'x rzi_lorawan_class_b_ops option"
  bk_session :: "'x rzi_lorawan_session_ops option"
  bk_mac :: "'x rzi_lorawan_mac_ops option"
  bk_multicast :: "'x rzi_lorawan_multicast_ops option"
  bk_certification :: "'x rzi_lorawan_certification_ops option"
  bk_fuota :: "'x rzi_lorawan_fuota_ops option"

section \<open>State and environment\<close>

record credential_store =
  dev_eui :: bytes
  dev_eui_set :: bool
  app_eui :: bytes
  app_eui_set :: bool
  app_key :: bytes
  app_key_set :: bool
  gen_app_key :: bytes
  gen_app_key_set :: bool
  dev_addr :: u32
  dev_addr_set :: bool
  nwk_skey :: bytes
  nwk_skey_set :: bool
  app_skey :: bytes
  app_skey_set :: bool
  njm :: nat
  auto_join :: bool
  join_interval :: u8
  join_attempts :: u8
  channel_mask :: "u16 list"
  channel_mask_set :: bool
  join_active :: bool
  loaded :: bool

text \<open>\<open>cb_on_event\<close> is the function pointer (\<^verbatim>\<open>NULL\<close> is \<open>None\<close>), \<open>cb_user_data\<close> the opaque pointer.\<close>

record rzi_lorawan_callbacks =
  cb_on_event :: "nat option"
  cb_user_data :: nat

text \<open>
  An inactive callback slot is all zero in the code and \<open>None\<close> here. \<open>delivered\<close> is a history
  variable: the callback invocations made by the dispatcher, in order.
\<close>

record ('d, 'x) lorawan_state =
  sets :: "'d settings_state"
  credentials :: credential_store
  link_check_mode :: nat
  device_time_enabled :: bool
  events :: "backend_event list"
  callback_slots :: "rzi_lorawan_callbacks option list"
  services :: "nat list"
  configured_region :: nat
  configured_class :: nat
  configured_join_backoff_bypass :: bool
  started :: bool
  overflow :: bool
  join_sequence_active :: bool
  join_retries_remaining :: nat
  last_downlink_valid :: bool
  last_rssi_dbm :: int
  last_snr_quarter_db :: int
  power_class_c_held :: bool
  radio :: 'x
  delivered :: "(rzi_lorawan_callbacks \<times> rzi_lorawan_event) list"

record ('d, 'x, 's) lorawan_env = "'d settings_env" +
  backend :: "'x rzi_lorawan_backend_api"
  k_msgq_put :: "backend_event \<Rightarrow> backend_event list \<Rightarrow> int \<times> backend_event list"
  k_msgq_get :: "backend_event list \<Rightarrow> (backend_event \<times> backend_event list) option"
  on_event :: "nat \<Rightarrow> rzi_lorawan_event \<Rightarrow> nat \<Rightarrow> 's \<Rightarrow> 's"
  svc_on_started :: "nat \<Rightarrow> ('s \<Rightarrow> 's) option"
  svc_on_event :: "nat \<Rightarrow> (backend_event \<Rightarrow> 's \<Rightarrow> 's) option"

text \<open>The interrupt context and the power service as seen from the whole state.\<close>

definition k_is_in_isr :: "('d, 'x, 'm) lorawan_state_scheme \<Rightarrow> bool" where
  "k_is_in_isr s = in_isr (pwr (store (sets s)))"

definition upd_pwr :: "power_state \<Rightarrow> ('d, 'x, 'm) lorawan_state_scheme \<Rightarrow> ('d, 'x, 'm) lorawan_state_scheme" where
  "upd_pwr p s = s\<lparr>sets := (sets s)\<lparr>store := (store (sets s))\<lparr>pwr := p\<rparr>\<rparr>\<rparr>"

section \<open>Publishing and calling the backend\<close>

definition publish ::
  "('d, 'x, 's, 'e) lorawan_env_scheme \<Rightarrow> backend_event
   \<Rightarrow> ('d, 'x, 'm) lorawan_state_scheme \<Rightarrow> ('d, 'x, 'm) lorawan_state_scheme" where
  "publish E event s =
     (case k_msgq_put E event (events s) of (rc, q) \<Rightarrow>
        if rc \<noteq> 0 then s\<lparr>events := q, overflow := True\<rparr> else s\<lparr>events := q\<rparr>)"

definition publish_state ::
  "('d, 'x, 's, 'e) lorawan_env_scheme \<Rightarrow> rzi_lorawan_state
   \<Rightarrow> ('d, 'x, 'm) lorawan_state_scheme \<Rightarrow> ('d, 'x, 'm) lorawan_state_scheme" where
  "publish_state E st = publish E (BACKEND_STATE_CHANGED st)"

text \<open>A call through the table: the sink is \<^verbatim>\<open>publish\<close>.\<close>

definition run_bop ::
  "('d, 'x, 's, 'e) lorawan_env_scheme \<Rightarrow> 'x bop \<Rightarrow> ('d, 'x, 'm) lorawan_state_scheme op" where
  "run_bop E f s = (case f (radio s) of (rc, evs, x) \<Rightarrow> (rc, fold (publish E) evs (s\<lparr>radio := x\<rparr>)))"

definition run_bget ::
  "('d, 'x, 's, 'e) lorawan_env_scheme \<Rightarrow> ('a, 'x) bget \<Rightarrow> 'a
   \<Rightarrow> ('d, 'x, 'm) lorawan_state_scheme \<Rightarrow> int \<times> 'a \<times> ('d, 'x, 'm) lorawan_state_scheme" where
  "run_bget E f cell s =
     (case f cell (radio s) of (rc, v, evs, x) \<Rightarrow> (rc, v, fold (publish E) evs (s\<lparr>radio := x\<rparr>)))"

section \<open>Guards\<close>

definition rzi_lorawan_check_thread :: "('d, 'x, 'm) lorawan_state_scheme \<Rightarrow> int" where
  "rzi_lorawan_check_thread s = (if k_is_in_isr s then - RZI_ERR_ISR else 0)"

definition rzi_lorawan_check_started :: "('d, 'x, 'm) lorawan_state_scheme \<Rightarrow> int" where
  "rzi_lorawan_check_started s =
     (let rc = rzi_lorawan_check_thread s in
      if rc \<noteq> 0 then rc else if \<not> started s then - RZI_ERR_NOT_READY else 0)"

text \<open>Started-check, then the operation or \<^verbatim>\<open>NOT_SUPPORTED\<close>: \<^verbatim>\<open>CALL_NETWORK_OP\<close> and its like.\<close>

definition call_op ::
  "('d, 'x, 's, 'e) lorawan_env_scheme \<Rightarrow> 'x bop option \<Rightarrow> ('d, 'x, 'm) lorawan_state_scheme op" where
  "call_op E member s =
     (let rc = rzi_lorawan_check_started s in
      if rc \<noteq> 0 then (rc, s)
      else case member of None \<Rightarrow> (- RZI_ERR_NOT_SUPPORTED, s) | Some f \<Rightarrow> run_bop E f s)"

definition call_get ::
  "('d, 'x, 's, 'e) lorawan_env_scheme \<Rightarrow> ('a, 'x) bget option
   \<Rightarrow> (('d, 'x, 'm) lorawan_state_scheme, 'a) getter" where
  "call_get E member cell s =
     (let rc = rzi_lorawan_check_started s in
      if rc \<noteq> 0 then (rc, cell, s)
      else case member of
        None \<Rightarrow> (- RZI_ERR_NOT_SUPPORTED, cell, s)
      | Some f \<Rightarrow> (case run_bget E f (the cell) s of (rc, v, t) \<Rightarrow> (rc, Some v, t)))"

section \<open>The message queue\<close>

text \<open>
  The documented behaviour of a \<^verbatim>\<open>k_msgq\<close> of \<open>n\<close> messages: a put that must not wait appends and
  returns 0 while there is room, and otherwise returns an error and leaves the queue alone; a
  get takes the oldest message, and waits (here: \<open>None\<close>) only on the empty queue.
\<close>

definition msgq_fifo :: "nat \<Rightarrow> ('d, 'x, 's, 'e) lorawan_env_scheme \<Rightarrow> bool" where
  "msgq_fifo n E \<longleftrightarrow> 0 < n
     \<and> (\<forall>e q. if length q < n then k_msgq_put E e q = (0, q @ [e])
               else fst (k_msgq_put E e q) \<noteq> 0 \<and> snd (k_msgq_put E e q) = q)
     \<and> (\<forall>q. k_msgq_get E q = (case q of [] \<Rightarrow> None | e # q' \<Rightarrow> Some (e, q')))"

lemma publish_fifo:
  assumes "msgq_fifo n E"
  shows "publish E ev s = (if length (events s) < n then s\<lparr>events := events s @ [ev]\<rparr> else s\<lparr>overflow := True\<rparr>)"
proof (cases "length (events s) < n")
  case True
  with assms show ?thesis by (simp add: msgq_fifo_def publish_def)
next
  case False
  then have "fst (k_msgq_put E ev (events s)) \<noteq> 0" "snd (k_msgq_put E ev (events s)) = events s"
    using assms unfolding msgq_fifo_def by (metis (full_types))+
  with False show ?thesis by (cases "k_msgq_put E ev (events s)") (simp add: publish_def)
qed

lemma queue_bounded:
  "msgq_fifo n E \<Longrightarrow> length (events s) \<le> n \<Longrightarrow> length (events (publish E ev s)) \<le> n"
  by (simp add: publish_fifo)

text \<open>Publishing touches only the queue and the overflow flag.\<close>

definition queue_only :: "('d, 'x, 'm) lorawan_state_scheme \<Rightarrow> ('d, 'x, 'm) lorawan_state_scheme \<Rightarrow> bool" where
  "queue_only s t \<longleftrightarrow> (\<exists>q b x. t = s\<lparr>events := q, overflow := b, radio := x\<rparr>)"

lemma queue_only_refl [simp]: "queue_only s s"
proof -
  have "s = s\<lparr>events := events s, overflow := overflow s, radio := radio s\<rparr>" by simp
  then show ?thesis unfolding queue_only_def by blast
qed

lemma queue_only_trans: "queue_only s t \<Longrightarrow> queue_only t u \<Longrightarrow> queue_only s u"
  unfolding queue_only_def by (elim exE) (simp, (rule exI)+, rule refl)

lemma queue_only_publish: "queue_only s (publish E ev s)"
proof -
  have "publish E ev s = s\<lparr>events := events (publish E ev s), overflow := overflow (publish E ev s), radio := radio s\<rparr>"
    by (simp add: publish_def split: prod.splits)
  then show ?thesis unfolding queue_only_def by blast
qed

lemma queue_only_publish_all: "queue_only s (fold (publish E) evs s)"
  by (induction evs arbitrary: s) (auto intro: queue_only_trans queue_only_publish)

lemma queue_only_radio: "queue_only s (s\<lparr>radio := x\<rparr>)"
proof -
  have "s\<lparr>radio := x\<rparr> = s\<lparr>events := events s, overflow := overflow s, radio := x\<rparr>" by simp
  then show ?thesis unfolding queue_only_def by blast
qed

lemma queue_only_run_bop: "queue_only s (snd (run_bop E f s))"
  by (auto simp: run_bop_def split: prod.splits intro: queue_only_trans queue_only_radio queue_only_publish_all)

lemma queue_only_run_bget: "queue_only s (snd (snd (run_bget E f v s)))"
  by (auto simp: run_bget_def split: prod.splits intro: queue_only_trans queue_only_radio queue_only_publish_all)

lemma queue_only_call: "queue_only s (snd (call_op E f s))" "queue_only s (snd (snd (call_get E g c s)))"
proof -
  show "queue_only s (snd (call_op E f s))" by (simp add: call_op_def Let_def queue_only_run_bop split: option.splits)
  show "queue_only s (snd (snd (call_get E g c s)))"
  proof (cases g)
    case (Some f)
    obtain rc v t where "run_bget E f (the c) s = (rc, v, t)" by (metis prod_cases3)
    with Some queue_only_run_bget [of s E f "the c"] show ?thesis by (simp add: call_get_def Let_def)
  qed (simp add: call_get_def Let_def)
qed

section \<open>A reference instance\<close>

text \<open>A backend whose state is whether it is joined, with the mandatory operations only.\<close>

definition ref_backend :: "bool rzi_lorawan_backend_api" where
  "ref_backend = \<lparr>bk_capabilities = 0x5F,
     bk_base = \<lparr>bk_start = (\<lambda>region bypass x. (0, [BACKEND_READY], x)),
       bk_join = (\<lambda>config x. (0, [], x)),
       bk_leave = (\<lambda>x. (0, [], False)),
       bk_send = (\<lambda>port data n type x. (0, [], x)),
       bk_set_class = (\<lambda>c x. (0, [], x)),
       bk_get_class = None,
       bk_is_joined = (\<lambda>v x. (0, x, [], x)),
       bk_is_busy = (\<lambda>v x. (0, False, [], x))\<rparr>,
     bk_network = None, bk_class_b = None, bk_session = None, bk_mac = None, bk_multicast = None,
     bk_certification = None, bk_fuota = None\<rparr>"

definition ref_env :: "(string \<rightharpoonup> bytes, bool, (string \<rightharpoonup> bytes, bool) lorawan_state) lorawan_env" where
  "ref_env = mem_senv \<lparr>backend = ref_backend,
     k_msgq_put = (\<lambda>e q. if length q < 8 then (0, q @ [e]) else (- 35, q)),
     k_msgq_get = (\<lambda>q. case q of [] \<Rightarrow> None | e # q' \<Rightarrow> Some (e, q')),
     on_event = (\<lambda>f ev data s. s), svc_on_started = (\<lambda>i. None), svc_on_event = (\<lambda>i. None)\<rparr>"

lemma ref_env_fields [simp]:
  "backend ref_env = ref_backend" "cfg_storage ref_env" "cfg_record_max ref_env = 256" "cfg_auto_lock ref_env = False"
  "on_event ref_env f ev data s = s" "svc_on_started ref_env i = None" "svc_on_event ref_env i = None"
  by (simp_all add: ref_env_def mem_senv_def mem_env_def)

lemma ref_env_msgq: "msgq_fifo 8 ref_env"
  by (simp add: msgq_fifo_def ref_env_def mem_senv_def mem_env_def)

lemma ref_env_settings: "settings_inv ref_env (\<lambda>d. d) D (fresh_settings d)"
  unfolding ref_env_def by (rule fresh_settings_inv)

end
