(* ===== verification/Rzi_Credentials.thy ===== *)
theory Rzi_Credentials
  imports Rzi_Lw_State
begin

text \<open>
  Stored credentials, join policy and configuration: \<^verbatim>\<open>src/lorawan/api/lorawan_credentials.c\<close> and
  \<^verbatim>\<open>lorawan_config.c\<close>, with \<^verbatim>\<open>rzi_lorawan_get_region\<close> of \<^verbatim>\<open>lorawan.c\<close>, which they use. The credentials
  are a cache over the settings that is filled as a whole on first use; a join sequence locks them.
\<close>

section \<open>Access to the settings\<close>

definition load_bytes ::
  "('d, 'x, 's, 'e) lorawan_env_scheme \<Rightarrow> string \<Rightarrow> nat \<Rightarrow> ('d, 'x, 'm) lorawan_state_scheme
   \<Rightarrow> int \<times> (bytes \<times> bool) option \<times> ('d, 'x, 'm) lorawan_state_scheme" where
  "load_bytes E key len s =
     (case rzi_lorawan_setting_read E key len (sets s) of (rc, out, t) \<Rightarrow> (rc, out, s\<lparr>sets := t\<rparr>))"

definition persist ::
  "('d, 'x, 's, 'e) lorawan_env_scheme \<Rightarrow> string \<Rightarrow> bytes \<Rightarrow> nat \<Rightarrow> ('d, 'x, 'm) lorawan_state_scheme op" where
  "persist E key val len s =
     (case rzi_lorawan_setting_write E key val len (sets s) of (rc, t) \<Rightarrow> (rc, s\<lparr>sets := t\<rparr>))"

section \<open>Configuration\<close>

definition rzi_lorawan_config_get_region ::
  "('d, 'x, 's, 'e) lorawan_env_scheme \<Rightarrow> nat \<Rightarrow> ('d, 'x, 'm) lorawan_state_scheme
   \<Rightarrow> int \<times> nat \<times> ('d, 'x, 'm) lorawan_state_scheme" where
  "rzi_lorawan_config_get_region E region s =
     (case load_bytes E ''region'' 1 s of (rc, out, t) \<Rightarrow>
        (rc, if rc = 0 then unat (hd (fst (the out))) else region, t))"

definition rzi_lorawan_config_set_region ::
  "('d, 'x, 's, 'e) lorawan_env_scheme \<Rightarrow> nat \<Rightarrow> ('d, 'x, 'm) lorawan_state_scheme op" where
  "rzi_lorawan_config_set_region E region = persist E ''region'' [of_nat region] 1"

definition read_config ::
  "('d, 'x, 's, 'e) lorawan_env_scheme \<Rightarrow> string \<Rightarrow> bytes option \<Rightarrow> nat \<Rightarrow> ('d, 'x, 'm) lorawan_state_scheme
   \<Rightarrow> int \<times> bytes option \<times> ('d, 'x, 'm) lorawan_state_scheme" where
  "read_config E key val len s =
     (let rc = rzi_lorawan_check_thread s in
      if rc \<noteq> 0 \<or> val = None then (if rc \<noteq> 0 then rc else - RZI_ERR_INVALID, val, s)
      else case load_bytes E key len s of (rc, out, t) \<Rightarrow>
        (rc, if rc = 0 then map_option fst out else val, t))"

definition write_config ::
  "('d, 'x, 's, 'e) lorawan_env_scheme \<Rightarrow> string \<Rightarrow> bytes \<Rightarrow> nat \<Rightarrow> ('d, 'x, 'm) lorawan_state_scheme op" where
  "write_config E key val len s =
     (let rc = rzi_lorawan_check_thread s in if rc \<noteq> 0 then (rc, s) else persist E key val len s)"

definition rzi_lorawan_get_confirmed ::
  "('d, 'x, 's, 'e) lorawan_env_scheme \<Rightarrow> (('d, 'x, 'm) lorawan_state_scheme, bool) getter" where
  "rzi_lorawan_get_confirmed E enabled s =
     (let rc = rzi_lorawan_check_thread s in
      if rc \<noteq> 0 \<or> enabled = None then (if rc \<noteq> 0 then rc else - RZI_ERR_INVALID, enabled, s)
      else case read_config E ''cfm'' (Some [0]) 1 s of (rc, out, t) \<Rightarrow>
        (rc, if rc = 0 then Some (hd (the out) \<noteq> 0) else enabled, t))"

definition rzi_lorawan_set_confirmed ::
  "('d, 'x, 's, 'e) lorawan_env_scheme \<Rightarrow> bool \<Rightarrow> ('d, 'x, 'm) lorawan_state_scheme op" where
  "rzi_lorawan_set_confirmed E enabled = write_config E ''cfm'' [if enabled then 1 else 0] 1"

definition rzi_lorawan_get_retries ::
  "('d, 'x, 's, 'e) lorawan_env_scheme \<Rightarrow> (('d, 'x, 'm) lorawan_state_scheme, u8) getter" where
  "rzi_lorawan_get_retries E count s =
     (case read_config E ''rety'' (map_option (\<lambda>c. [c]) count) 1 s of (rc, out, t) \<Rightarrow>
        (rc, map_option hd out, t))"

definition rzi_lorawan_set_retries ::
  "('d, 'x, 's, 'e) lorawan_env_scheme \<Rightarrow> u8 \<Rightarrow> ('d, 'x, 'm) lorawan_state_scheme op" where
  "rzi_lorawan_set_retries E count = write_config E ''rety'' [count] 1"

definition rzi_lorawan_config_get_net_id ::
  "('d, 'x, 's, 'e) lorawan_env_scheme \<Rightarrow> u32 \<Rightarrow> ('d, 'x, 'm) lorawan_state_scheme
   \<Rightarrow> int \<times> u32 \<times> ('d, 'x, 'm) lorawan_state_scheme" where
  "rzi_lorawan_config_get_net_id E net_id s =
     (case load_bytes E ''netid'' 4 s of (rc, out, t) \<Rightarrow>
        if rc = 0 \<and> \<not> snd (the out) then (- RZI_ERR_NO_DATA, net_id, t)
        else (rc, if rc = 0 then get_le32 (fst (the out)) else net_id, t))"

definition rzi_lorawan_set_net_id ::
  "('d, 'x, 's, 'e) lorawan_env_scheme \<Rightarrow> u32 \<Rightarrow> ('d, 'x, 'm) lorawan_state_scheme op" where
  "rzi_lorawan_set_net_id E net_id = write_config E ''netid'' (put_le32 net_id) 4"

definition rzi_lorawan_get_region ::
  "('d, 'x, 's, 'e) lorawan_env_scheme \<Rightarrow> (('d, 'x, 'm) lorawan_state_scheme, nat) getter" where
  "rzi_lorawan_get_region E region s =
     (let rc = rzi_lorawan_check_thread s in
      if rc \<noteq> 0 then (rc, region, s)
      else if region = None then (- RZI_ERR_INVALID, region, s)
      else case (if \<not> started s
                 then (case rzi_lorawan_config_get_region E (configured_region s) s of
                         (rc, r, t) \<Rightarrow> (rc, t\<lparr>configured_region := r\<rparr>))
                 else (0, s)) of
        (rc, t) \<Rightarrow> (rc, if rc = 0 then Some (configured_region t) else region, t))"

section \<open>The credential cache\<close>

definition fixed_plan_channels :: nat where "fixed_plan_channels = 72"

definition mask_bit :: "u16 list \<Rightarrow> nat \<Rightarrow> bool" where
  "mask_bit words channel \<longleftrightarrow> (words ! (channel div 16)) AND push_bit (channel mod 16) 1 \<noteq> 0"

definition channel_mask_valid :: "u16 list \<Rightarrow> bool" where
  "channel_mask_valid words \<longleftrightarrow>
     \<not> list_ex (\<lambda>channel. mask_bit words channel \<and> channel \<ge> fixed_plan_channels)
         [0..<RZI_LORAWAN_CHANNEL_MASK_WORDS * 16]
     \<and> list_ex (mask_bit words) [0..<RZI_LORAWAN_CHANNEL_MASK_WORDS * 16]"

text \<open>The chain of reads: each is made only if the previous ones returned 0.\<close>

fun load_all ::
  "('d, 'x, 's, 'e) lorawan_env_scheme \<Rightarrow> (string \<times> nat) list \<Rightarrow> ('d, 'x, 'm) lorawan_state_scheme
   \<Rightarrow> int \<times> (bytes \<times> bool) list \<times> ('d, 'x, 'm) lorawan_state_scheme" where
  "load_all E [] s = (0, [], s)"
| "load_all E ((key, len) # rest) s =
     (case load_bytes E key len s of (rc, out, t) \<Rightarrow>
        if rc \<noteq> 0 then (rc, [], t)
        else case load_all E rest t of (rc, outs, u) \<Rightarrow> (rc, the out # outs, u))"

definition credential_keys :: "(string \<times> nat) list" where
  "credential_keys = [(''deveui'', 8), (''joineui'', 8), (''appkey'', 16), (''genappkey'', 16),
     (''devaddr'', 4), (''nwkskey'', 16), (''appskey'', 16), (''njm'', 1),
     (''join_policy'', RZI_JOIN_POLICY_SIZE), (''chmask'', RZI_LORAWAN_CHANNEL_MASK_WORDS * 2)]"

definition credentials_from :: "(bytes \<times> bool) list \<Rightarrow> bool \<Rightarrow> credential_store" where
  "credentials_from vs active =
     \<lparr>dev_eui = fst (vs ! 0), dev_eui_set = snd (vs ! 0),
      app_eui = fst (vs ! 1), app_eui_set = snd (vs ! 1),
      app_key = fst (vs ! 2), app_key_set = snd (vs ! 2),
      gen_app_key = fst (vs ! 3), gen_app_key_set = snd (vs ! 3),
      dev_addr = get_le32 (fst (vs ! 4)), dev_addr_set = snd (vs ! 4),
      nwk_skey = fst (vs ! 5), nwk_skey_set = snd (vs ! 5),
      app_skey = fst (vs ! 6), app_skey_set = snd (vs ! 6),
      njm = (if hd (fst (vs ! 7)) = 0 then RZI_LORAWAN_ACTIVATION_ABP else RZI_LORAWAN_ACTIVATION_OTAA),
      auto_join = (fst (vs ! 8) ! RZI_JOIN_POLICY_AUTO \<noteq> 0),
      join_interval = fst (vs ! 8) ! RZI_JOIN_POLICY_INTERVAL,
      join_attempts = fst (vs ! 8) ! RZI_JOIN_POLICY_ATTEMPTS,
      channel_mask = mask_words (fst (vs ! 9)),
      channel_mask_set = (snd (vs ! 9) \<and> channel_mask_valid (mask_words (fst (vs ! 9)))),
      join_active = active, loaded = True\<rparr>"

definition ensure_loaded_locked ::
  "('d, 'x, 's, 'e) lorawan_env_scheme \<Rightarrow> ('d, 'x, 'm) lorawan_state_scheme op" where
  "ensure_loaded_locked E s =
     (if loaded (credentials s) then (0, s)
      else case load_all E credential_keys s of (rc, vs, t) \<Rightarrow>
        if rc = 0 then (0, t\<lparr>credentials := credentials_from vs (join_active (credentials t))\<rparr>)
        else (rc, t))"

text \<open>Load, refuse while a join is active, persist, and only then change the cache.\<close>

definition store_credential ::
  "('d, 'x, 's, 'e) lorawan_env_scheme \<Rightarrow> string \<Rightarrow> bytes \<Rightarrow> (credential_store \<Rightarrow> credential_store)
   \<Rightarrow> ('d, 'x, 'm) lorawan_state_scheme op" where
  "store_credential E key val upd s =
     (case ensure_loaded_locked E s of (rc, t) \<Rightarrow>
        if rc \<noteq> 0 then (rc, t)
        else if join_active (credentials t) then (- RZI_ERR_BUSY, t)
        else case persist E key val (length val) t of (rc, u) \<Rightarrow>
          (rc, if rc = 0 then u\<lparr>credentials := upd (credentials u)\<rparr> else u))"

definition set_bytes ::
  "('d, 'x, 's, 'e) lorawan_env_scheme \<Rightarrow> (bytes \<Rightarrow> credential_store \<Rightarrow> credential_store) \<Rightarrow> string
   \<Rightarrow> bytes option \<Rightarrow> nat \<Rightarrow> ('d, 'x, 'm) lorawan_state_scheme op" where
  "set_bytes E upd key src expected s =
     (let rc = rzi_lorawan_check_thread s in
      if rc \<noteq> 0 then (rc, s)
      else case src of
        None \<Rightarrow> (- RZI_ERR_INVALID, s)
      | Some v \<Rightarrow> if length v \<noteq> expected then (- RZI_ERR_INVALID, s)
                  else store_credential E key v (upd v) s)"

definition get_bytes ::
  "('d, 'x, 's, 'e) lorawan_env_scheme \<Rightarrow> (credential_store \<Rightarrow> bytes) \<Rightarrow> (credential_store \<Rightarrow> bool) \<Rightarrow> nat
   \<Rightarrow> (('d, 'x, 'm) lorawan_state_scheme, bytes) getter" where
  "get_bytes E src valid expected dst s =
     (let rc = rzi_lorawan_check_thread s in
      if rc \<noteq> 0 then (rc, dst, s)
      else case dst of
        None \<Rightarrow> (- RZI_ERR_INVALID, dst, s)
      | Some old \<Rightarrow> if length old \<noteq> expected then (- RZI_ERR_INVALID, dst, s)
          else case ensure_loaded_locked E s of (rc, t) \<Rightarrow>
            if rc \<noteq> 0 then (rc, dst, t)
            else if \<not> valid (credentials t) then (- RZI_ERR_NO_DATA, dst, t)
            else (0, Some (src (credentials t)), t))"

section \<open>Identity and keys\<close>

definition rzi_lorawan_get_dev_eui where "rzi_lorawan_get_dev_eui E = get_bytes E dev_eui dev_eui_set 8"

definition rzi_lorawan_set_dev_eui where
  "rzi_lorawan_set_dev_eui E eui =
     set_bytes E (\<lambda>v c. c\<lparr>dev_eui := v, dev_eui_set := True\<rparr>) ''deveui'' eui 8"

definition rzi_lorawan_get_app_eui where "rzi_lorawan_get_app_eui E = get_bytes E app_eui app_eui_set 8"

definition rzi_lorawan_set_app_eui where
  "rzi_lorawan_set_app_eui E eui =
     set_bytes E (\<lambda>v c. c\<lparr>app_eui := v, app_eui_set := True\<rparr>) ''joineui'' eui 8"

definition rzi_lorawan_get_app_key where "rzi_lorawan_get_app_key E = get_bytes E app_key app_key_set 16"

definition rzi_lorawan_set_app_key where
  "rzi_lorawan_set_app_key E key =
     set_bytes E (\<lambda>v c. c\<lparr>app_key := v, app_key_set := True\<rparr>) ''appkey'' key 16"

definition rzi_lorawan_get_gen_app_key where
  "rzi_lorawan_get_gen_app_key E = get_bytes E gen_app_key gen_app_key_set 16"

definition rzi_lorawan_set_gen_app_key where
  "rzi_lorawan_set_gen_app_key E key =
     set_bytes E (\<lambda>v c. c\<lparr>gen_app_key := v, gen_app_key_set := True\<rparr>) ''genappkey'' key 16"

definition rzi_lorawan_set_nwk_skey where
  "rzi_lorawan_set_nwk_skey E key =
     set_bytes E (\<lambda>v c. c\<lparr>nwk_skey := v, nwk_skey_set := True\<rparr>) ''nwkskey'' key 16"

definition rzi_lorawan_set_app_skey where
  "rzi_lorawan_set_app_skey E key =
     set_bytes E (\<lambda>v c. c\<lparr>app_skey := v, app_skey_set := True\<rparr>) ''appskey'' key 16"

text \<open>Session identity: stored for ABP, asked of the backend for OTAA.\<close>

definition session_joined ::
  "('d, 'x, 's, 'e) lorawan_env_scheme \<Rightarrow> ('d, 'x, 'm) lorawan_state_scheme
   \<Rightarrow> int \<times> bool \<times> ('d, 'x, 'm) lorawan_state_scheme" where
  "session_joined E s =
     (if rzi_lorawan_check_started s \<noteq> 0 then (0, False, s)
      else run_bget E (bk_is_joined (bk_base (backend E))) False s)"

definition read_otaa_dev_addr ::
  "('d, 'x, 's, 'e) lorawan_env_scheme \<Rightarrow> u32 \<Rightarrow> ('d, 'x, 'm) lorawan_state_scheme
   \<Rightarrow> int \<times> u32 \<times> ('d, 'x, 'm) lorawan_state_scheme" where
  "read_otaa_dev_addr E addr s =
     (case session_joined E s of (rc, joined, t) \<Rightarrow>
        if rc \<noteq> 0 then (rc, addr, t)
        else if \<not> joined then (0, 0, t)
        else case Option.bind (bk_session (backend E)) bk_get_dev_addr of
          None \<Rightarrow> (- RZI_ERR_NOT_SUPPORTED, addr, t)
        | Some f \<Rightarrow> run_bget E f addr t)"

definition read_otaa_key ::
  "('d, 'x, 's, 'e) lorawan_env_scheme \<Rightarrow> (bytes, 'x) bget option \<Rightarrow> bytes \<Rightarrow> ('d, 'x, 'm) lorawan_state_scheme
   \<Rightarrow> int \<times> bytes \<times> ('d, 'x, 'm) lorawan_state_scheme" where
  "read_otaa_key E read key s =
     (case session_joined E s of (rc, joined, t) \<Rightarrow>
        if rc \<noteq> 0 then (rc, key, t)
        else if \<not> joined then (0, replicate (length key) 0, t)
        else case read of
          None \<Rightarrow> (- RZI_ERR_NOT_SUPPORTED, key, t)
        | Some f \<Rightarrow> run_bget E f key t)"

definition rzi_lorawan_get_dev_addr ::
  "('d, 'x, 's, 'e) lorawan_env_scheme \<Rightarrow> (('d, 'x, 'm) lorawan_state_scheme, u32) getter" where
  "rzi_lorawan_get_dev_addr E addr s =
     (let rc = rzi_lorawan_check_thread s in
      if rc \<noteq> 0 then (rc, addr, s)
      else case addr of
        None \<Rightarrow> (- RZI_ERR_INVALID, addr, s)
      | Some old \<Rightarrow>
          (case ensure_loaded_locked E s of (rc, t) \<Rightarrow>
             if rc \<noteq> 0 then (rc, addr, t)
             else if njm (credentials t) = RZI_LORAWAN_ACTIVATION_ABP then
               if \<not> dev_addr_set (credentials t) then (- RZI_ERR_NO_DATA, addr, t)
               else (0, Some (dev_addr (credentials t)), t)
             else case read_otaa_dev_addr E old t of (rc, v, u) \<Rightarrow> (rc, Some v, u)))"

definition rzi_lorawan_set_dev_addr ::
  "('d, 'x, 's, 'e) lorawan_env_scheme \<Rightarrow> u32 \<Rightarrow> ('d, 'x, 'm) lorawan_state_scheme op" where
  "rzi_lorawan_set_dev_addr E addr s =
     (let rc = rzi_lorawan_check_thread s in
      if rc \<noteq> 0 then (rc, s)
      else store_credential E ''devaddr'' (put_le32 addr) (\<lambda>c. c\<lparr>dev_addr := addr, dev_addr_set := True\<rparr>) s)"

text \<open>The two session-key getters differ in the field and the backend query only.\<close>

definition get_session_key ::
  "('d, 'x, 's, 'e) lorawan_env_scheme \<Rightarrow> (credential_store \<Rightarrow> bytes) \<Rightarrow> (credential_store \<Rightarrow> bool)
   \<Rightarrow> ('x rzi_lorawan_session_ops \<Rightarrow> (bytes, 'x) bget option)
   \<Rightarrow> (('d, 'x, 'm) lorawan_state_scheme, bytes) getter" where
  "get_session_key E src valid member key s =
     (let rc = rzi_lorawan_check_thread s in
      if rc \<noteq> 0 then (rc, key, s)
      else case key of
        None \<Rightarrow> (- RZI_ERR_INVALID, key, s)
      | Some old \<Rightarrow> if length old \<noteq> 16 then (- RZI_ERR_INVALID, key, s)
          else (case ensure_loaded_locked E s of (rc, t) \<Rightarrow>
             if rc \<noteq> 0 then (rc, key, t)
             else if njm (credentials t) = RZI_LORAWAN_ACTIVATION_ABP then
               if \<not> valid (credentials t) then (- RZI_ERR_NO_DATA, key, t)
               else (0, Some (src (credentials t)), t)
             else case read_otaa_key E (Option.bind (bk_session (backend E)) member) old t of
               (rc, v, u) \<Rightarrow> (rc, Some v, u)))"

definition rzi_lorawan_get_nwk_skey where
  "rzi_lorawan_get_nwk_skey E = get_session_key E nwk_skey nwk_skey_set bk_get_nwk_skey"

definition rzi_lorawan_get_app_skey where
  "rzi_lorawan_get_app_skey E = get_session_key E app_skey app_skey_set bk_get_app_skey"

section \<open>Activation and join policy\<close>

definition njm_wire :: "nat \<Rightarrow> u8" where
  "njm_wire mode = (if mode = RZI_LORAWAN_ACTIVATION_ABP then 0 else 1)"

definition activation_supported :: "('d, 'x, 's, 'e) lorawan_env_scheme \<Rightarrow> nat \<Rightarrow> bool" where
  "activation_supported E mode =
     (let capabilities = bk_capabilities (backend E) in
      if mode = RZI_LORAWAN_ACTIVATION_OTAA then capabilities AND RZI_LORAWAN_CAP_OTAA \<noteq> 0
      else if mode = RZI_LORAWAN_ACTIVATION_ABP then capabilities AND RZI_LORAWAN_CAP_ABP \<noteq> 0
      else False)"

definition get_field ::
  "('d, 'x, 's, 'e) lorawan_env_scheme \<Rightarrow> (credential_store \<Rightarrow> 'a)
   \<Rightarrow> (('d, 'x, 'm) lorawan_state_scheme, 'a) getter" where
  "get_field E fld cell s =
     (let rc = rzi_lorawan_check_thread s in
      if rc \<noteq> 0 then (rc, cell, s)
      else if cell = None then (- RZI_ERR_INVALID, cell, s)
      else case ensure_loaded_locked E s of (rc, t) \<Rightarrow>
        (rc, if rc = 0 then Some (fld (credentials t)) else cell, t))"

definition rzi_lorawan_get_activation where "rzi_lorawan_get_activation E = get_field E njm"
definition rzi_lorawan_get_auto_join where "rzi_lorawan_get_auto_join E = get_field E auto_join"
definition rzi_lorawan_get_join_interval where "rzi_lorawan_get_join_interval E = get_field E join_interval"
definition rzi_lorawan_get_join_attempts where "rzi_lorawan_get_join_attempts E = get_field E join_attempts"

definition rzi_lorawan_set_activation ::
  "('d, 'x, 's, 'e) lorawan_env_scheme \<Rightarrow> nat \<Rightarrow> ('d, 'x, 'm) lorawan_state_scheme op" where
  "rzi_lorawan_set_activation E mode s =
     (let rc = rzi_lorawan_check_thread s in
      if rc \<noteq> 0 then (rc, s)
      else if \<not> activation_supported E mode then
        (if mode = RZI_LORAWAN_ACTIVATION_OTAA \<or> mode = RZI_LORAWAN_ACTIVATION_ABP
         then - RZI_ERR_NOT_SUPPORTED else - RZI_ERR_INVALID, s)
      else store_credential E ''njm'' [njm_wire mode] (\<lambda>c. c\<lparr>njm := mode\<rparr>) s)"

definition rzi_lorawan_credentials_update_policy ::
  "('d, 'x, 's, 'e) lorawan_env_scheme \<Rightarrow> int \<Rightarrow> int \<Rightarrow> int \<Rightarrow> ('d, 'x, 'm) lorawan_state_scheme op" where
  "rzi_lorawan_credentials_update_policy E auto interval attempts s =
     (let rc = rzi_lorawan_check_thread s in
      if rc \<noteq> 0 then (rc, s)
      else if (auto \<noteq> RZI_LORAWAN_JOIN_KEEP \<and> auto \<noteq> 0 \<and> auto \<noteq> 1)
        \<or> (interval \<noteq> RZI_LORAWAN_JOIN_KEEP
            \<and> (interval < RZI_LORAWAN_JOIN_INTERVAL_MIN \<or> interval > RZI_LORAWAN_JOIN_INTERVAL_MAX))
        \<or> (attempts \<noteq> RZI_LORAWAN_JOIN_KEEP \<and> (attempts < 0 \<or> attempts > 255))
        then (- RZI_ERR_INVALID, s)
      else case ensure_loaded_locked E s of (rc, t) \<Rightarrow>
        if rc \<noteq> 0 then (rc, t)
        else let c = credentials t;
                 policy = [if auto = RZI_LORAWAN_JOIN_KEEP then of_bool (auto_join c) else of_int auto,
                           if interval = RZI_LORAWAN_JOIN_KEEP then join_interval c else of_int interval,
                           if attempts = RZI_LORAWAN_JOIN_KEEP then join_attempts c else of_int attempts]
          in case persist E ''join_policy'' policy RZI_JOIN_POLICY_SIZE t of (rc, u) \<Rightarrow>
            (rc, if rc = 0 then u\<lparr>credentials := (credentials u)\<lparr>
                   auto_join := (policy ! RZI_JOIN_POLICY_AUTO \<noteq> 0),
                   join_interval := policy ! RZI_JOIN_POLICY_INTERVAL,
                   join_attempts := policy ! RZI_JOIN_POLICY_ATTEMPTS\<rparr>\<rparr> else u))"

section \<open>Channel mask, join configuration, reset\<close>

definition rzi_lorawan_credentials_get_channel_mask ::
  "('d, 'x, 's, 'e) lorawan_env_scheme \<Rightarrow> u16 list \<Rightarrow> bool \<Rightarrow> ('d, 'x, 'm) lorawan_state_scheme
   \<Rightarrow> int \<times> (u16 list \<times> bool) \<times> ('d, 'x, 'm) lorawan_state_scheme" where
  "rzi_lorawan_credentials_get_channel_mask E cm is_set s =
     (case ensure_loaded_locked E s of (rc, t) \<Rightarrow>
        (rc, if rc = 0 then (channel_mask (credentials t), channel_mask_set (credentials t)) else (cm, is_set), t))"

definition mask_bytes :: "u16 list \<Rightarrow> bytes" where
  "mask_bytes ws = concat (map put_le16 ws)"

definition rzi_lorawan_credentials_set_channel_mask ::
  "('d, 'x, 's, 'e) lorawan_env_scheme \<Rightarrow> u16 list option \<Rightarrow> ('d, 'x, 'm) lorawan_state_scheme op" where
  "rzi_lorawan_credentials_set_channel_mask E cm s =
     (if cm \<noteq> None \<and> \<not> channel_mask_valid (the cm) then (- RZI_ERR_INVALID, s)
      else let candidate = (case cm of None \<Rightarrow> replicate RZI_LORAWAN_CHANNEL_MASK_WORDS 0 | Some w \<Rightarrow> w)
        in store_credential E ''chmask'' (mask_bytes candidate)
             (\<lambda>c. c\<lparr>channel_mask := candidate, channel_mask_set := (cm \<noteq> None)\<rparr>) s)"

definition rzi_lorawan_region_has_fixed_plan :: "nat \<Rightarrow> bool" where
  "rzi_lorawan_region_has_fixed_plan region \<longleftrightarrow>
     region = RZI_LORAWAN_REGION_US_915 \<or> region = RZI_LORAWAN_REGION_AU_915"

definition config_of :: "('d, 'x, 's, 'e) lorawan_env_scheme \<Rightarrow> nat \<Rightarrow> credential_store \<Rightarrow> rzi_lorawan_join_config" where
  "config_of E region c =
     (let masked = channel_mask_set c \<and> rzi_lorawan_region_has_fixed_plan region
            \<and> bk_capabilities (backend E) AND RZI_LORAWAN_CAP_CHANNEL \<noteq> 0
      in \<lparr>jc_activation = njm c, jc_retry_interval_s = join_interval c, jc_channel_mask_set = masked,
          jc_channel_mask = (if masked then channel_mask c else replicate RZI_LORAWAN_CHANNEL_MASK_WORDS 0),
          jc_keys = (if njm c = RZI_LORAWAN_ACTIVATION_ABP
            then Join_abp \<lparr>abp_dev_addr = dev_addr c, abp_network_session_key = nwk_skey c,
                   abp_application_session_key = app_skey c\<rparr>
            else Join_otaa \<lparr>otaa_dev_eui = dev_eui c, otaa_join_eui = app_eui c,
                   otaa_network_key = app_key c,
                   otaa_application_key = (if gen_app_key_set c then gen_app_key c else app_key c),
                   otaa_dev_nonce = 0\<rparr>)\<rparr>)"

definition rzi_lorawan_credentials_build_config ::
  "('d, 'x, 's, 'e) lorawan_env_scheme \<Rightarrow> (('d, 'x, 'm) lorawan_state_scheme, rzi_lorawan_join_config) getter" where
  "rzi_lorawan_credentials_build_config E config s =
     (let rc = rzi_lorawan_check_thread s in
      if rc \<noteq> 0 then (rc, config, s)
      else if config = None then (- RZI_ERR_INVALID, config, s)
      else case rzi_lorawan_get_region E (Some 0) s of (rc, region, t) \<Rightarrow>
        if rc \<noteq> 0 then (rc, config, t)
        else case ensure_loaded_locked E t of (rc, u) \<Rightarrow>
          (rc, if rc = 0 then Some (config_of E (the region) (credentials u)) else config, u))"

definition rzi_lorawan_credentials_set_join_active ::
  "bool \<Rightarrow> ('d, 'x, 'm) lorawan_state_scheme \<Rightarrow> ('d, 'x, 'm) lorawan_state_scheme" where
  "rzi_lorawan_credentials_set_join_active active s = s\<lparr>credentials := (credentials s)\<lparr>join_active := active\<rparr>\<rparr>"

definition credentials_zero :: credential_store where
  "credentials_zero = \<lparr>dev_eui = replicate 8 0, dev_eui_set = False, app_eui = replicate 8 0, app_eui_set = False,
     app_key = replicate 16 0, app_key_set = False, gen_app_key = replicate 16 0, gen_app_key_set = False,
     dev_addr = 0, dev_addr_set = False, nwk_skey = replicate 16 0, nwk_skey_set = False,
     app_skey = replicate 16 0, app_skey_set = False, njm = 0, auto_join = False, join_interval = 0,
     join_attempts = 0, channel_mask = replicate RZI_LORAWAN_CHANNEL_MASK_WORDS 0, channel_mask_set = False,
     join_active = False, loaded = False\<rparr>"

definition rzi_lorawan_credentials_clear_settings ::
  "('d, 'x, 's, 'e) lorawan_env_scheme \<Rightarrow> ('d, 'x, 'm) lorawan_state_scheme op" where
  "rzi_lorawan_credentials_clear_settings E s =
     (if join_active (credentials s) then (- RZI_ERR_BUSY, s)
      else case rzi_lorawan_settings_clear E (sets s) of (rc, t) \<Rightarrow>
        (rc, if rc = 0 then s\<lparr>sets := t, credentials := credentials_zero\<rparr> else s\<lparr>sets := t\<rparr>))"

definition rzi_lorawan_clear_settings ::
  "('d, 'x, 's, 'e) lorawan_env_scheme \<Rightarrow> ('d, 'x, 'm) lorawan_state_scheme op" where
  "rzi_lorawan_clear_settings E s =
     (let rc = rzi_lorawan_check_thread s in
      if rc \<noteq> 0 then (rc, s) else rzi_lorawan_credentials_clear_settings E s)"

section \<open>The cache mirrors the settings\<close>

text \<open>
  \<open>cached E s k n v\<close>: the settings answer a read of \<open>k\<close> with \<open>v\<close> from their cache. Loaded
  credentials are the image of ten such answers, so they never disagree with the settings.
\<close>

definition cached ::
  "('d, 'x, 's, 'e) lorawan_env_scheme \<Rightarrow> ('d, 'x, 'm) lorawan_state_scheme \<Rightarrow> string \<times> nat \<Rightarrow> bytes \<times> bool \<Rightarrow> bool" where
  "cached E s kn v \<longleftrightarrow> rzi_lorawan_setting_read E (fst kn) (snd kn) (sets s) = (0, Some v, sets s)"

definition mirrors :: "('d, 'x, 's, 'e) lorawan_env_scheme \<Rightarrow> ('d, 'x, 'm) lorawan_state_scheme \<Rightarrow> bool" where
  "mirrors E s \<longleftrightarrow> (loaded (credentials s) \<longrightarrow>
     (\<exists>vs. list_all2 (cached E s) credential_keys vs
        \<and> credentials s = credentials_from vs (join_active (credentials s))))"

definition cred_inv ::
  "('d, 'x, 's, 'e) lorawan_env_scheme \<Rightarrow> ('d \<Rightarrow> string \<rightharpoonup> bytes) \<Rightarrow> string set \<Rightarrow> ('d, 'x, 'm) lorawan_state_scheme \<Rightarrow> bool" where
  "cred_inv E view D s \<longleftrightarrow> settings_inv E view D (sets s) \<and> mirrors E s"

lemma cached_cong: "sets t = sets s \<Longrightarrow> cached E t = cached E s"
  by (simp add: cached_def fun_eq_iff)

lemma cred_inv_cong:
  "sets t = sets s \<Longrightarrow> credentials t = credentials s \<Longrightarrow> cred_inv E view D t = cred_inv E view D s"
  by (simp add: cred_inv_def mirrors_def cached_def [abs_def])

text \<open>The frames of the settings operations and of the credential cache.\<close>

definition sets_only :: "('d, 'x, 'm) lorawan_state_scheme \<Rightarrow> ('d, 'x, 'm) lorawan_state_scheme \<Rightarrow> bool" where
  "sets_only s t \<longleftrightarrow> (\<exists>u. t = s\<lparr>sets := u\<rparr>) \<and> k_is_in_isr t = k_is_in_isr s"

definition creds_only :: "('d, 'x, 'm) lorawan_state_scheme \<Rightarrow> ('d, 'x, 'm) lorawan_state_scheme \<Rightarrow> bool" where
  "creds_only s t \<longleftrightarrow> (\<exists>u c. t = s\<lparr>sets := u, credentials := c\<rparr>) \<and> k_is_in_isr t = k_is_in_isr s"

lemma sets_only_refl [simp]: "sets_only s s"
proof -
  have "s = s\<lparr>sets := sets s\<rparr>" by simp
  then show ?thesis unfolding sets_only_def by blast
qed

lemma sets_only_trans: "sets_only s t \<Longrightarrow> sets_only t u \<Longrightarrow> sets_only s u"
  by (auto simp: sets_only_def)

lemma sets_only_credentials: "sets_only s t \<Longrightarrow> credentials t = credentials s"
  by (auto simp: sets_only_def)

lemma sets_creds_only: "sets_only s t \<Longrightarrow> creds_only s (t\<lparr>credentials := c\<rparr>)"
  by (auto simp: sets_only_def creds_only_def k_is_in_isr_def)

lemma sets_only_creds: "sets_only s t \<Longrightarrow> creds_only s t"
  using sets_creds_only [of s t "credentials t"] by simp

lemma creds_only_refl [simp]: "creds_only s s"
  by (rule sets_only_creds) simp

lemma creds_only_trans: "creds_only s t \<Longrightarrow> creds_only t u \<Longrightarrow> creds_only s u"
  by (auto simp: creds_only_def) (rule exI, rule exI, rule refl)+

lemma creds_only_isr: "creds_only s t \<Longrightarrow> k_is_in_isr t = k_is_in_isr s"
  by (simp add: creds_only_def)

lemma load_bytes_effect:
  assumes inv: "settings_inv E view D (sets s)" and l: "load_bytes E k n s = (rc, out, t)"
  shows "settings_inv E view D (sets t) \<and> sets_only s t
    \<and> (\<forall>kn v. cached E s kn v \<longrightarrow> cached E t kn v)
    \<and> (rc = 0 \<longrightarrow> (\<exists>v. out = Some v \<and> cached E t (k, n) v \<and> setting_good k (fst v) \<and> length (fst v) = n))"
proof -
  obtain u where r: "rzi_lorawan_setting_read E k n (sets s) = (rc, out, u)" and t: "t = s\<lparr>sets := u\<rparr>"
    using l by (auto simp: load_bytes_def split: prod.splits)
  from lorawan_settings.rd_law [OF inv r] lorawan_settings.rd_frame [OF inv r] isr_setting_read [OF r] t show ?thesis
    by (auto simp: cached_def sets_only_def k_is_in_isr_def)
qed

lemma persist_effect:
  assumes inv: "settings_inv E view D (sets s)" and p: "persist E k v (length v) s = (rc, t)"
  shows "settings_inv E view D (sets t) \<and> sets_only s t
    \<and> (\<forall>kn w. cached E s kn w \<and> (fst kn \<noteq> k \<or> rc \<noteq> 0) \<longrightarrow> cached E t kn w)
    \<and> (rc = 0 \<longrightarrow> cached E t (k, length v) (v, True) \<and> setting_good k v)"
proof -
  obtain u where r: "rzi_lorawan_setting_write E k v (length v) (sets s) = (rc, u)" and t: "t = s\<lparr>sets := u\<rparr>"
    using p by (auto simp: persist_def split: prod.splits)
  from lorawan_settings.wr_law [OF inv refl r] lorawan_settings.wr_frame [OF inv refl r] isr_setting_write [OF r] t show ?thesis
    by (auto simp: cached_def sets_only_def k_is_in_isr_def)
qed

lemma load_all_effect:
  assumes "settings_inv E view D (sets s)" and "load_all E kns s = (rc, vs, t)"
  shows "settings_inv E view D (sets t) \<and> sets_only s t
    \<and> (\<forall>kn v. cached E s kn v \<longrightarrow> cached E t kn v)
    \<and> (rc = 0 \<longrightarrow> list_all2 (cached E t) kns vs
        \<and> list_all2 (\<lambda>kn v. setting_good (fst kn) (fst v) \<and> length (fst v) = snd kn) kns vs)"
  using assms
proof (induction kns arbitrary: s rc vs t)
  case (Cons kn rest)
  obtain k n where kn: "kn = (k, n)" by fastforce
  obtain rc1 out s1 where l: "load_bytes E k n s = (rc1, out, s1)" by (metis prod_cases3)
  note e = load_bytes_effect [OF Cons.prems(1) l]
  show ?case
  proof (cases "rc1 = 0")
    case True
    obtain rc2 vs2 s2 where r: "load_all E rest s1 = (rc2, vs2, s2)" by (metis prod_cases3)
    with Cons.prems(2) kn l True have "rc = rc2" "vs = the out # vs2" "t = s2" by auto
    with Cons.IH [OF _ r] e True kn show ?thesis by (auto simp: list_all2_Cons1 intro: sets_only_trans)
  next
    case False
    with Cons.prems(2) kn l e show ?thesis by auto
  qed
qed auto

lemma ensure_loaded_effect:
  assumes inv: "cred_inv E view D s" and l: "ensure_loaded_locked E s = (rc, t)"
  shows "cred_inv E view D t \<and> creds_only s t
    \<and> (\<forall>kn v. cached E s kn v \<longrightarrow> cached E t kn v)
    \<and> join_active (credentials t) = join_active (credentials s)
    \<and> (rc = 0 \<longrightarrow> loaded (credentials t)) \<and> (rc \<noteq> 0 \<longrightarrow> credentials t = credentials s)
    \<and> (loaded (credentials s) \<longrightarrow> rc = 0 \<and> t = s)"
proof (cases "loaded (credentials s)")
  case True
  with l inv show ?thesis by (auto simp: ensure_loaded_locked_def)
next
  case False
  have si: "settings_inv E view D (sets s)" using inv by (simp add: cred_inv_def)
  obtain rc1 vs u where r: "load_all E credential_keys s = (rc1, vs, u)" by (metis prod_cases3)
  note e = load_all_effect [OF si r]
  have u: "credentials u = credentials s" "sets_only s u" using e sets_only_credentials by auto
  show ?thesis
  proof (cases "rc1 = 0")
    case True
    then have t: "t = u\<lparr>credentials := credentials_from vs (join_active (credentials u))\<rparr>" "rc = 0"
      using l False r by (auto simp: ensure_loaded_locked_def)
    have c: "cached E t = cached E u" using t by (intro cached_cong) simp
    have "mirrors E t" using e True t c by (auto simp: mirrors_def credentials_from_def)
    then show ?thesis using e t u c False sets_creds_only [OF u(2)] by (auto simp: cred_inv_def credentials_from_def)
  next
    case F: False
    then have "t = u" "rc = rc1" using l False r by (auto simp: ensure_loaded_locked_def)
    with e u False F sets_only_creds [OF u(2)] show ?thesis by (auto simp: cred_inv_def mirrors_def)
  qed
qed

text \<open>\<open>upd\<close> is what replacing the answer of the \<open>i\<close>-th key by a present \<open>v\<close> does to the cache.\<close>

definition upd_ok :: "nat \<Rightarrow> bytes \<Rightarrow> (credential_store \<Rightarrow> credential_store) \<Rightarrow> bool" where
  "upd_ok i v upd \<longleftrightarrow> i < length credential_keys \<and> snd (credential_keys ! i) = length v
     \<and> (\<forall>vs active. length vs = length credential_keys \<longrightarrow>
          credentials_from (vs[i := (v, True)]) active = upd (credentials_from vs active))"

lemma credential_keys_distinct: "distinct (map fst credential_keys)" "length credential_keys = 10"
  by (simp_all add: credential_keys_def)

lemma credentials_from_flags [simp]:
  "join_active (credentials_from vs active) = active" "loaded (credentials_from vs active)"
  by (simp_all add: credentials_from_def)

lemma persist_mirror:
  assumes inv: "cred_inv E view D s" and l: "loaded (credentials s)" and u: "upd_ok i v upd"
    and p: "persist E (fst (credential_keys ! i)) v (length v) s = (rc, t)"
    and t': "t' = (if rc = 0 then t\<lparr>credentials := upd (credentials t)\<rparr> else t)"
  shows "cred_inv E view D t' \<and> creds_only s t' \<and> join_active (credentials t') = join_active (credentials s)
    \<and> loaded (credentials t') \<and> (rc \<noteq> 0 \<longrightarrow> credentials t' = credentials s)
    \<and> (rc = 0 \<longrightarrow> credentials t' = upd (credentials s) \<and> cached E t' (credential_keys ! i) (v, True))"
proof -
  have si: "settings_inv E view D (sets s)" using inv by (simp add: cred_inv_def)
  note e = persist_effect [OF si p]
  have so: "sets_only s t" and c: "credentials t = credentials s" using e sets_only_credentials by auto
  have old: "cached E t kn w" if "cached E s kn w" "fst kn \<noteq> fst (credential_keys ! i) \<or> rc \<noteq> 0" for kn w
    using e that by blast
  obtain vs where vs: "list_all2 (cached E s) credential_keys vs"
    and cs: "credentials s = credentials_from vs (join_active (credentials s))"
    using inv l by (auto simp: cred_inv_def mirrors_def)
  have i: "i < 10" and n: "credential_keys ! i = (fst (credential_keys ! i), length v)"
    using u by (simp_all add: upd_ok_def credential_keys_distinct prod_eq_iff)
  have len: "length vs = 10" using vs credential_keys_distinct by (simp add: list_all2_lengthD [symmetric])
  show ?thesis
  proof (cases "rc = 0")
    case True
    let ?vs = "vs[i := (v, True)]"
    have t: "t' = t\<lparr>credentials := upd (credentials t)\<rparr>" using t' True by simp
    have cc: "cached E t' = cached E t" using t by (intro cached_cong) simp
    have "cached E t' (credential_keys ! j) (?vs ! j)" if j: "j < 10" for j
    proof (cases "j = i")
      case True
      then show ?thesis using e \<open>rc = 0\<close> n len i cc by simp
    next
      case False
      then have "fst (credential_keys ! j) \<noteq> fst (credential_keys ! i)"
        using credential_keys_distinct i j by (auto simp: distinct_conv_nth)
      with old False vs j len cc show ?thesis by (auto simp: list_all2_conv_all_nth credential_keys_distinct)
    qed
    then have "list_all2 (cached E t') credential_keys ?vs"
      using len by (simp add: list_all2_conv_all_nth credential_keys_distinct)
    moreover have up: "upd (credentials s) = credentials_from ?vs (join_active (credentials s))"
      using u len cs by (metis credential_keys_distinct(2) upd_ok_def)
    ultimately have "mirrors E t'" using t c by (auto simp: mirrors_def)
    then show ?thesis
      using t c up True e n cc sets_creds_only [OF so] by (auto simp: cred_inv_def)
  next
    case False
    then have t: "t' = t" using t' by simp
    have "list_all2 (cached E t) credential_keys vs"
      using vs old False by (auto simp: list_all2_conv_all_nth)
    then have "mirrors E t" using cs c by (auto simp: mirrors_def)
    then show ?thesis using t c l False e sets_only_creds [OF so] by (auto simp: cred_inv_def)
  qed
qed

lemma store_credential_effect:
  assumes inv: "cred_inv E view D s" and u: "upd_ok i v upd"
    and w: "store_credential E (fst (credential_keys ! i)) v upd s = (rc, t)"
  shows "cred_inv E view D t \<and> creds_only s t \<and> join_active (credentials t) = join_active (credentials s)
    \<and> (rc = 0 \<longrightarrow> \<not> join_active (credentials s) \<and> loaded (credentials t)
        \<and> cached E t (credential_keys ! i) (v, True)
        \<and> (\<exists>c. loaded c \<and> (loaded (credentials s) \<longrightarrow> c = credentials s) \<and> credentials t = upd c))
    \<and> (loaded (credentials s) \<and> join_active (credentials s) \<longrightarrow> rc = - RZI_ERR_BUSY \<and> t = s)"
proof -
  obtain rc1 s1 where l: "ensure_loaded_locked E s = (rc1, s1)" by fastforce
  note e = ensure_loaded_effect [OF inv l]
  obtain rc2 s2 where p: "persist E (fst (credential_keys ! i)) v (length v) s1 = (rc2, s2)" by fastforce
  show ?thesis
  proof (cases "rc1 = 0 \<and> \<not> join_active (credentials s1)")
    case True
    then have t: "rc = rc2" "t = (if rc2 = 0 then s2\<lparr>credentials := upd (credentials s2)\<rparr> else s2)"
      using w l p by (auto simp: store_credential_def)
    have "cred_inv E view D s1" "loaded (credentials s1)" using e True by auto
    from persist_mirror [OF this u p t(2)] e True t(1) show ?thesis
      by (auto intro: creds_only_trans)
  next
    case False
    with w l e show ?thesis by (auto simp: store_credential_def split: if_splits)
  qed
qed

text \<open>The updates of the setters.\<close>

lemma upd_ok_bytes:
  "length v = 8 \<Longrightarrow> upd_ok 0 v (\<lambda>c. c\<lparr>dev_eui := v, dev_eui_set := True\<rparr>)"
  "length v = 8 \<Longrightarrow> upd_ok 1 v (\<lambda>c. c\<lparr>app_eui := v, app_eui_set := True\<rparr>)"
  "length v = 16 \<Longrightarrow> upd_ok 2 v (\<lambda>c. c\<lparr>app_key := v, app_key_set := True\<rparr>)"
  "length v = 16 \<Longrightarrow> upd_ok 3 v (\<lambda>c. c\<lparr>gen_app_key := v, gen_app_key_set := True\<rparr>)"
  "length v = 16 \<Longrightarrow> upd_ok 5 v (\<lambda>c. c\<lparr>nwk_skey := v, nwk_skey_set := True\<rparr>)"
  "length v = 16 \<Longrightarrow> upd_ok 6 v (\<lambda>c. c\<lparr>app_skey := v, app_skey_set := True\<rparr>)"
  by (simp_all add: upd_ok_def credential_keys_def credentials_from_def)

lemma upd_ok_addr: "upd_ok 4 (put_le32 a) (\<lambda>c. c\<lparr>dev_addr := a, dev_addr_set := True\<rparr>)"
  using get_put_le32 [of a "[]"] by (simp add: upd_ok_def credential_keys_def credentials_from_def)

lemma upd_ok_njm: "mode \<le> 1 \<Longrightarrow> upd_ok 7 [njm_wire mode] (\<lambda>c. c\<lparr>njm := mode\<rparr>)"
  by (auto simp: upd_ok_def credential_keys_def credentials_from_def njm_wire_def)

lemma upd_ok_policy:
  "upd_ok 8 [a, b, c] (\<lambda>x. x\<lparr>auto_join := (a \<noteq> 0), join_interval := b, join_attempts := c\<rparr>)"
  by (simp add: upd_ok_def credential_keys_def credentials_from_def)

lemma mask_words_bytes: "length ws = 6 \<Longrightarrow> mask_words (mask_bytes ws) = ws"
proof -
  assume "length ws = 6"
  then obtain a b c d e f where ws: "ws = [a, b, c, d, e, f]" by (auto simp: eval_nat_numeral length_Suc_conv)
  have "[0..<6] = [0, 1, 2, 3, 4, 5 :: nat]" by (simp add: upt_rec)
  then show ?thesis using get_put_le16 [of f "[]"] by (simp add: ws mask_words_def mask_bytes_def)
qed

lemma length_mask_bytes: "length (mask_bytes ws) = 2 * length ws"
  by (induction ws) (simp_all add: mask_bytes_def)

lemma upd_ok_mask:
  assumes "length ws = 6" and "b = channel_mask_valid ws"
  shows "upd_ok 9 (mask_bytes ws) (\<lambda>c. c\<lparr>channel_mask := ws, channel_mask_set := b\<rparr>)"
  using assms by (simp add: upd_ok_def credential_keys_def credentials_from_def mask_words_bytes length_mask_bytes)

section \<open>Every operation keeps the mirror\<close>

definition cred_op ::
  "('d, 'x, 's, 'e) lorawan_env_scheme \<Rightarrow> ('d \<Rightarrow> string \<rightharpoonup> bytes) \<Rightarrow> string set \<Rightarrow> ('d, 'x, 'm) lorawan_state_scheme op \<Rightarrow> bool" where
  "cred_op E view D m \<longleftrightarrow> (\<forall>s. cred_inv E view D s \<longrightarrow>
     cred_inv E view D (snd (m s)) \<and> creds_only s (snd (m s))
     \<and> join_active (credentials (snd (m s))) = join_active (credentials s))"

lemma cred_opI:
  assumes "\<And>s rc t. cred_inv E view D s \<Longrightarrow> m s = (rc, t) \<Longrightarrow>
      cred_inv E view D t \<and> creds_only s t \<and> join_active (credentials t) = join_active (credentials s)"
  shows "cred_op E view D m"
  unfolding cred_op_def by (metis assms prod.collapse)

lemma cred_opD:
  assumes "cred_op E view D m" and "cred_inv E view D s" and "m s = (rc, t)"
  shows "cred_inv E view D t" "creds_only s t" "join_active (credentials t) = join_active (credentials s)"
  using assms unfolding cred_op_def by (metis snd_conv)+

lemma cred_op_guard:
  assumes "cred_op E view D m"
  shows "cred_op E view D (\<lambda>s. let rc = rzi_lorawan_check_thread s in if rc \<noteq> 0 then (rc, s) else m s)"
  using assms by (simp add: cred_op_def Let_def)

lemma cred_op_ensure_loaded: "cred_op E view D (ensure_loaded_locked E)"
  using ensure_loaded_effect by (intro cred_opI) blast

lemma cred_op_store: "upd_ok i v upd \<Longrightarrow> cred_op E view D (store_credential E (fst (credential_keys ! i)) v upd)"
  using store_credential_effect by (intro cred_opI) blast

lemma credential_key_names:
  "fst (credential_keys ! 0) = ''deveui''" "fst (credential_keys ! 1) = ''joineui''"
  "fst (credential_keys ! 2) = ''appkey''" "fst (credential_keys ! 3) = ''genappkey''"
  "fst (credential_keys ! 4) = ''devaddr''" "fst (credential_keys ! 5) = ''nwkskey''"
  "fst (credential_keys ! 6) = ''appskey''" "fst (credential_keys ! 7) = ''njm''"
  "fst (credential_keys ! 8) = ''join_policy''" "fst (credential_keys ! 9) = ''chmask''"
  by (simp_all add: credential_keys_def)

lemma cred_op_set_bytes:
  assumes "\<And>v. length v = n \<Longrightarrow> upd_ok i v (upd v)" and "key = fst (credential_keys ! i)"
  shows "cred_op E view D (set_bytes E upd key src n)"
proof -
  have "cred_op E view D (\<lambda>s. case src of None \<Rightarrow> (- RZI_ERR_INVALID, s)
      | Some v \<Rightarrow> if length v \<noteq> n then (- RZI_ERR_INVALID, s) else store_credential E key v (upd v) s)"
    using cred_op_store [OF assms(1), where E = E and view = view and D = D]
    by (cases src) (auto simp: cred_op_def assms(2))
  then show ?thesis unfolding set_bytes_def by (rule cred_op_guard)
qed

lemma cred_op_setters:
  "cred_op E view D (rzi_lorawan_set_dev_eui E eui)" "cred_op E view D (rzi_lorawan_set_app_eui E eui)"
  "cred_op E view D (rzi_lorawan_set_app_key E key)" "cred_op E view D (rzi_lorawan_set_gen_app_key E key)"
  "cred_op E view D (rzi_lorawan_set_nwk_skey E key)" "cred_op E view D (rzi_lorawan_set_app_skey E key)"
  unfolding rzi_lorawan_set_dev_eui_def rzi_lorawan_set_app_eui_def rzi_lorawan_set_app_key_def
    rzi_lorawan_set_gen_app_key_def rzi_lorawan_set_nwk_skey_def rzi_lorawan_set_app_skey_def
  by (rule cred_op_set_bytes [OF _ credential_key_names(1) [symmetric]] cred_op_set_bytes [OF _ credential_key_names(2) [symmetric]]
      cred_op_set_bytes [OF _ credential_key_names(3) [symmetric]] cred_op_set_bytes [OF _ credential_key_names(4) [symmetric]]
      cred_op_set_bytes [OF _ credential_key_names(6) [symmetric]] cred_op_set_bytes [OF _ credential_key_names(7) [symmetric]],
      erule upd_ok_bytes)+

lemma cred_op_set_dev_addr: "cred_op E view D (rzi_lorawan_set_dev_addr E addr)"
  unfolding rzi_lorawan_set_dev_addr_def
  using cred_op_store [OF upd_ok_addr [of addr]] by (intro cred_op_guard) (simp add: credential_key_names)

lemma cred_op_set_activation: "cred_op E view D (rzi_lorawan_set_activation E mode)"
proof -
  have "cred_op E view D (store_credential E ''njm'' [njm_wire mode] (\<lambda>c. c\<lparr>njm := mode\<rparr>))" if "activation_supported E mode"
    using that cred_op_store [OF upd_ok_njm [of mode]]
    by (auto simp: activation_supported_def credential_key_names Let_def split: if_splits)
  then show ?thesis unfolding rzi_lorawan_set_activation_def
    by (intro cred_op_guard) (auto simp: cred_op_def)
qed

lemma zero_mask_invalid: "\<not> channel_mask_valid (replicate 6 0)"
proof -
  have "\<not> mask_bit (replicate 6 0) c" if "c < 96" for c
  proof -
    have "c div 16 < 6" using that by simp
    then show ?thesis by (simp add: mask_bit_def)
  qed
  then show ?thesis by (auto simp: channel_mask_valid_def list_ex_iff)
qed

lemma cred_op_set_channel_mask:
  assumes "\<And>w. cm = Some w \<Longrightarrow> length w = 6"
  shows "cred_op E view D (rzi_lorawan_credentials_set_channel_mask E cm)"
proof -
  let ?c = "case cm of None \<Rightarrow> replicate 6 0 | Some w \<Rightarrow> w"
  have "upd_ok 9 (mask_bytes ?c) (\<lambda>c. c\<lparr>channel_mask := ?c, channel_mask_set := (cm \<noteq> None)\<rparr>)"
    if "cm = None \<or> channel_mask_valid (the cm)"
    using that assms zero_mask_invalid by (intro upd_ok_mask) (auto split: option.splits)
  from cred_op_store [OF this] show ?thesis
    by (auto simp: rzi_lorawan_credentials_set_channel_mask_def credential_key_names cred_op_def Let_def)
qed

lemma update_policy_effect:
  assumes inv: "cred_inv E view D s" and u: "rzi_lorawan_credentials_update_policy E auto interval attempts s = (rc, t)"
  shows "cred_inv E view D t \<and> creds_only s t \<and> join_active (credentials t) = join_active (credentials s)
    \<and> (rc = 0 \<longrightarrow> auto \<in> {- 1, 0, 1} \<and> (interval = - 1 \<or> 7 \<le> interval \<and> interval \<le> 255)
        \<and> (attempts = - 1 \<or> 0 \<le> attempts \<and> attempts \<le> 255) \<and> loaded (credentials t)
        \<and> (\<exists>c. loaded c \<and> (loaded (credentials s) \<longrightarrow> c = credentials s)
            \<and> credentials t = c\<lparr>auto_join := (if auto = - 1 then auto_join c else auto = 1),
                 join_interval := (if interval = - 1 then join_interval c else of_int interval),
                 join_attempts := (if attempts = - 1 then join_attempts c else of_int attempts)\<rparr>))"
proof (cases "rzi_lorawan_check_thread s \<noteq> 0 \<or> (auto \<noteq> - 1 \<and> auto \<noteq> 0 \<and> auto \<noteq> 1)
    \<or> (interval \<noteq> - 1 \<and> (interval < 7 \<or> interval > 255)) \<or> (attempts \<noteq> - 1 \<and> (attempts < 0 \<or> attempts > 255))")
  case True
  with u inv show ?thesis by (auto simp: rzi_lorawan_credentials_update_policy_def Let_def split: if_splits)
next
  case False
  obtain rc1 s1 where l: "ensure_loaded_locked E s = (rc1, s1)" by fastforce
  note e = ensure_loaded_effect [OF inv l]
  let ?c = "credentials s1"
  have g: "rzi_lorawan_check_thread s = 0" "((auto \<noteq> - 1 \<and> auto \<noteq> 0 \<and> auto \<noteq> 1)
      \<or> (interval \<noteq> - 1 \<and> (interval < 7 \<or> interval > 255))
      \<or> (attempts \<noteq> - 1 \<and> (attempts < 0 \<or> attempts > 255))) = False"
    using False by blast+
  define a :: u8 where "a = (if auto = - 1 then of_bool (auto_join ?c) else of_int auto)"
  define b :: u8 where "b = (if interval = - 1 then join_interval ?c else of_int interval)"
  define n :: u8 where "n = (if attempts = - 1 then join_attempts ?c else of_int attempts)"
  obtain rc2 s2 where p: "persist E ''join_policy'' [a, b, n] 3 s1 = (rc2, s2)" by fastforce
  show ?thesis
  proof (cases "rc1 = 0")
    case True
    then have "rzi_lorawan_credentials_update_policy E auto interval attempts s =
        (case persist E ''join_policy'' [a, b, n] 3 s1 of (rc, u) \<Rightarrow> (rc, if rc = 0 then u\<lparr>credentials := (credentials u)
          \<lparr>auto_join := ([a, b, n] ! 0 \<noteq> 0), join_interval := [a, b, n] ! 1, join_attempts := [a, b, n] ! 2\<rparr>\<rparr> else u))"
      unfolding rzi_lorawan_credentials_update_policy_def Let_def a_def b_def n_def g l by (simp only: simp_thms if_False prod.case)
    then have t: "rc = rc2" "t = (if rc2 = 0 then s2\<lparr>credentials := (credentials s2)
        \<lparr>auto_join := (a \<noteq> 0), join_interval := b, join_attempts := n\<rparr>\<rparr> else s2)"
      using u p by auto
    have s1: "cred_inv E view D s1" "loaded ?c" using e True by auto
    have "persist E (fst (credential_keys ! 8)) [a, b, n] (length [a, b, n]) s1 = (rc2, s2)"
      using p by (simp add: credential_key_names numeral_3_eq_3)
    note m = persist_mirror [OF s1 upd_ok_policy this t(2)]
    have "(a \<noteq> 0) = (if auto = - 1 then auto_join ?c else auto = 1)" using False by (auto simp: a_def)
    then have "rc = 0 \<longrightarrow> credentials t = ?c\<lparr>auto_join := (if auto = - 1 then auto_join ?c else auto = 1),
        join_interval := b, join_attempts := n\<rparr>" using m t(1) by simp
    moreover have "loaded (credentials s) \<longrightarrow> ?c = credentials s" using e by blast
    moreover have "creds_only s t" using m e creds_only_trans by blast
    moreover have "cred_inv E view D t" "join_active (credentials t) = join_active (credentials s)" "loaded (credentials t)"
      using m e by auto
    moreover have "auto \<in> {- 1, 0, 1} \<and> (interval = - 1 \<or> 7 \<le> interval \<and> interval \<le> 255)
        \<and> (attempts = - 1 \<or> 0 \<le> attempts \<and> attempts \<le> 255)" using False by auto
    ultimately show ?thesis using s1(2) unfolding b_def n_def by blast
  next
    case F: False
    with u l False e show ?thesis by (auto simp: rzi_lorawan_credentials_update_policy_def Let_def)
  qed
qed

lemma clear_settings_effect:
  assumes inv: "cred_inv E view D s" and c: "rzi_lorawan_clear_settings E s = (0, t)"
  shows "cred_inv E view {} t \<and> creds_only s t \<and> \<not> join_active (credentials s) \<and> credentials t = credentials_zero"
proof -
  obtain rc u where r: "rzi_lorawan_settings_clear E (sets s) = (rc, u)" by fastforce
  with c have t: "rc = 0" "t = s\<lparr>sets := u, credentials := credentials_zero\<rparr>" "\<not> join_active (credentials s)"
    by (auto simp: rzi_lorawan_clear_settings_def rzi_lorawan_credentials_clear_settings_def Let_def split: if_splits)
  have "settings_inv E view {} u" using settings_clear_inv inv r t(1) by (auto simp: cred_inv_def)
  then show ?thesis using t isr_settings_clear [OF r]
    by (auto simp: cred_inv_def mirrors_def credentials_zero_def creds_only_def k_is_in_isr_def)
qed

text \<open>Whatever the reset returns: what it removed from flash and kept in the cache is stale.\<close>

lemma clear_settings_any:
  assumes inv: "cred_inv E view D s" and c: "rzi_lorawan_clear_settings E s = (rc, t)"
  shows "cred_inv E view (if rc = 0 then {} else D \<union> {k. look view (store (sets t)) ''lorawan'' k
        \<noteq> look view (store (sets s)) ''lorawan'' k}) t
    \<and> creds_only s t \<and> join_active (credentials t) = join_active (credentials s)"
proof (cases "rc = 0 \<or> t = s")
  case True
  with c clear_settings_effect [OF inv] inv show ?thesis by (auto simp: credentials_zero_def)
next
  case False
  obtain u where r: "rzi_lorawan_settings_clear E (sets s) = (rc, u)" and t: "t = s\<lparr>sets := u\<rparr>"
    using c False by (auto simp: rzi_lorawan_clear_settings_def rzi_lorawan_credentials_clear_settings_def Let_def
        split: if_splits prod.splits)
  have "table u = table (sets s)"
    using r False by (auto simp: rzi_lorawan_settings_clear_def split: prod.splits if_splits)
  then have "cached E t = cached E s" by (simp add: t cached_def read_unchanged_iff fun_eq_iff)
  then have "mirrors E t" using inv by (simp add: t cred_inv_def mirrors_def)
  moreover have "settings_inv E view (D \<union> {k. look view (store u) ''lorawan'' k \<noteq> look view (store (sets s)) ''lorawan'' k}) u"
    using settings_clear_any [OF _ r] inv False by (auto simp: cred_inv_def)
  moreover have "creds_only s t"
    using sets_only_creds [of s t] isr_settings_clear [OF r] by (auto simp: t sets_only_def k_is_in_isr_def)
  ultimately show ?thesis using False by (simp add: t cred_inv_def)
qed

lemma cred_inv_stale: "cred_inv E view D s \<Longrightarrow> D \<subseteq> D' \<Longrightarrow> cred_inv E view D' s"
  by (auto simp: cred_inv_def intro: settings_inv_stale)

lemma cred_inv_set_active:
  assumes "cred_inv E view D s"
  shows "cred_inv E view D (rzi_lorawan_credentials_set_join_active b s)"
proof -
  let ?t = "rzi_lorawan_credentials_set_join_active b s"
  have c: "cached E ?t = cached E s"
    by (intro cached_cong) (simp add: rzi_lorawan_credentials_set_join_active_def)
  have f: "(credentials_from vs a)\<lparr>join_active := b\<rparr> = credentials_from vs b" for vs a
    by (simp add: credentials_from_def)
  have "mirrors E ?t" unfolding mirrors_def
  proof
    assume "loaded (credentials ?t)"
    with assms obtain vs where vs: "list_all2 (cached E s) credential_keys vs"
      "credentials s = credentials_from vs (join_active (credentials s))"
      by (auto simp: cred_inv_def mirrors_def rzi_lorawan_credentials_set_join_active_def)
    have "credentials ?t = (credentials s)\<lparr>join_active := b\<rparr>" by (simp add: rzi_lorawan_credentials_set_join_active_def)
    also have "\<dots> = credentials_from vs b" by (subst vs(2)) (rule f)
    finally show "\<exists>vs. list_all2 (cached E ?t) credential_keys vs \<and> credentials ?t = credentials_from vs (join_active (credentials ?t))"
      using vs(1) c by (intro exI [of _ vs]) simp
  qed
  with assms show ?thesis by (simp add: cred_inv_def rzi_lorawan_credentials_set_join_active_def)
qed

text \<open>What a read through the cache satisfies.\<close>

lemma cached_good:
  assumes "settings_inv E view D (sets s)" and "cached E s kn v"
  shows "setting_good (fst kn) (fst v) \<and> length (fst v) = snd kn"
  using lorawan_settings.rd_law [OF assms(1) assms(2) [unfolded cached_def]] by auto

lemma loaded_credentials:
  assumes inv: "cred_inv E view D s" and l: "loaded (credentials s)"
  obtains vs where "list_all2 (cached E s) credential_keys vs" "length vs = 10"
    "credentials s = credentials_from vs (join_active (credentials s))"
    "\<And>i. i < 10 \<Longrightarrow> setting_good (fst (credential_keys ! i)) (fst (vs ! i))"
    "\<And>i. i < 10 \<Longrightarrow> length (fst (vs ! i)) = snd (credential_keys ! i)"
proof -
  from inv l obtain vs where vs: "list_all2 (cached E s) credential_keys vs"
    "credentials s = credentials_from vs (join_active (credentials s))" by (auto simp: cred_inv_def mirrors_def)
  moreover from vs(1) have len: "length vs = 10" using credential_keys_distinct by (simp add: list_all2_lengthD [symmetric])
  moreover have "cached E s (credential_keys ! i) (vs ! i)" if "i < 10" for i
    using vs(1) that by (simp add: list_all2_conv_all_nth credential_keys_distinct)
  ultimately show ?thesis using that cached_good inv unfolding cred_inv_def by blast
qed

text \<open>A field of the cache, read back: its getter answers it and touches nothing.\<close>

lemma get_bytes_loaded:
  assumes "cred_inv E view D s" and "\<not> k_is_in_isr s" and "loaded (credentials s)" and "length buf = n"
  shows "get_bytes E src valid n (Some buf) s
    = (if valid (credentials s) then (0, Some (src (credentials s)), s) else (- RZI_ERR_NO_DATA, Some buf, s))"
  using assms by (simp add: get_bytes_def rzi_lorawan_check_thread_def ensure_loaded_locked_def)

section \<open>Properties\<close>

text \<open>The credentials with the same shape of setter and getter.\<close>

datatype cred_field = Dev_eui | App_eui | App_key | Gen_app_key

fun field_size :: "cred_field \<Rightarrow> nat" where
  "field_size Dev_eui = 8" | "field_size App_eui = 8" | "field_size App_key = 16" | "field_size Gen_app_key = 16"

fun set_cred where
  "set_cred E Dev_eui = rzi_lorawan_set_dev_eui E"
| "set_cred E App_eui = rzi_lorawan_set_app_eui E"
| "set_cred E App_key = rzi_lorawan_set_app_key E"
| "set_cred E Gen_app_key = rzi_lorawan_set_gen_app_key E"

fun get_cred where
  "get_cred E Dev_eui = rzi_lorawan_get_dev_eui E"
| "get_cred E App_eui = rzi_lorawan_get_app_eui E"
| "get_cred E App_key = rzi_lorawan_get_app_key E"
| "get_cred E Gen_app_key = rzi_lorawan_get_gen_app_key E"

lemmas cred_field_defs = rzi_lorawan_set_dev_eui_def rzi_lorawan_set_app_eui_def rzi_lorawan_set_app_key_def
  rzi_lorawan_set_gen_app_key_def rzi_lorawan_get_dev_eui_def rzi_lorawan_get_app_eui_def
  rzi_lorawan_get_app_key_def rzi_lorawan_get_gen_app_key_def

lemma set_bytes_ok:
  assumes inv: "cred_inv E view D s" and u: "\<And>v. length v = n \<Longrightarrow> upd_ok i v (upd v)" and k: "key = fst (credential_keys ! i)"
    and w: "set_bytes E upd key (Some v) n s = (0, t)"
  shows "length v = n \<and> \<not> k_is_in_isr s \<and> \<not> join_active (credentials s) \<and> cred_inv E view D t \<and> \<not> k_is_in_isr t
    \<and> loaded (credentials t) \<and> cached E t (credential_keys ! i) (v, True)
    \<and> (\<exists>c. loaded c \<and> (loaded (credentials s) \<longrightarrow> c = credentials s) \<and> credentials t = upd v c)"
proof -
  have g: "length v = n" "\<not> k_is_in_isr s" and w': "store_credential E (fst (credential_keys ! i)) v (upd v) s = (0, t)"
    using w k by (auto simp: set_bytes_def rzi_lorawan_check_thread_def Let_def split: if_splits)
  from store_credential_effect [OF inv u [OF g(1)] w'] g show ?thesis
    by (auto dest: creds_only_isr)
qed

text \<open>The four fields uniformly.\<close>

fun field_val :: "cred_field \<Rightarrow> credential_store \<Rightarrow> bytes" where
  "field_val Dev_eui = dev_eui" | "field_val App_eui = app_eui"
| "field_val App_key = app_key" | "field_val Gen_app_key = gen_app_key"

fun field_set :: "cred_field \<Rightarrow> credential_store \<Rightarrow> bool" where
  "field_set Dev_eui = dev_eui_set" | "field_set App_eui = app_eui_set"
| "field_set App_key = app_key_set" | "field_set Gen_app_key = gen_app_key_set"

fun field_upd :: "cred_field \<Rightarrow> bytes \<Rightarrow> credential_store \<Rightarrow> credential_store" where
  "field_upd Dev_eui = (\<lambda>v c. c\<lparr>dev_eui := v, dev_eui_set := True\<rparr>)"
| "field_upd App_eui = (\<lambda>v c. c\<lparr>app_eui := v, app_eui_set := True\<rparr>)"
| "field_upd App_key = (\<lambda>v c. c\<lparr>app_key := v, app_key_set := True\<rparr>)"
| "field_upd Gen_app_key = (\<lambda>v c. c\<lparr>gen_app_key := v, gen_app_key_set := True\<rparr>)"

fun field_index :: "cred_field \<Rightarrow> nat" where
  "field_index Dev_eui = 0" | "field_index App_eui = 1" | "field_index App_key = 2" | "field_index Gen_app_key = 3"

lemma get_cred_eq: "get_cred E f = get_bytes E (field_val f) (field_set f) (field_size f)"
  by (cases f) (simp_all add: cred_field_defs)

lemma set_cred_eq:
  "set_cred E f src = set_bytes E (field_upd f) (fst (credential_keys ! field_index f)) src (field_size f)"
  by (cases f) (simp_all only: cred_field_defs credential_key_names set_cred.simps field_upd.simps field_index.simps field_size.simps)

lemma field_upd_ok: "length v = field_size f \<Longrightarrow> upd_ok (field_index f) v (field_upd f v)"
  using upd_ok_bytes by (cases f) simp_all

lemma field_laws:
  "field_val f (field_upd f v c) = v" "field_set f (field_upd f v c)"
  "g \<noteq> f \<Longrightarrow> field_val g (field_upd f v c) = field_val g c"
  "g \<noteq> f \<Longrightarrow> field_set g (field_upd f v c) = field_set g c"
  by (cases f; simp) (cases f; simp; cases g; simp)+

lemma set_cred_ok:
  assumes inv: "cred_inv E view D s" and w: "set_cred E f (Some v) s = (0, t)"
  shows "length v = field_size f \<and> \<not> k_is_in_isr s \<and> \<not> join_active (credentials s) \<and> cred_inv E view D t \<and> \<not> k_is_in_isr t
    \<and> loaded (credentials t)
    \<and> (\<exists>c. loaded c \<and> (loaded (credentials s) \<longrightarrow> c = credentials s) \<and> credentials t = field_upd f v c)"
  using set_bytes_ok [OF inv field_upd_ok refl w [unfolded set_cred_eq]] by blast

lemma get_cred_loaded:
  assumes "cred_inv E view D s" and "\<not> k_is_in_isr s" and "loaded (credentials s)" and "length buf = field_size f"
  shows "get_cred E f (Some buf) s
    = (if field_set f (credentials s) then (0, Some (field_val f (credentials s)), s) else (- RZI_ERR_NO_DATA, Some buf, s))"
  unfolding get_cred_eq using get_bytes_loaded [OF assms] .

text \<open>After a restart: a load that succeeds answers the stored value at the position of its key.\<close>

lemma load_all_stored:
  assumes "settings_inv E view D (sets s)" and "stored_unread E view k i v (sets s)"
    and sto: "cfg_storage E" and max: "3 \<le> cfg_record_max E"
    and "(k, length v) \<in> set kns" and "distinct (map fst kns)" and "load_all E kns s = (0, vs, t)"
  shows "\<exists>j < length kns. kns ! j = (k, length v) \<and> vs ! j = (v, True)"
  using assms(1,2,5-7)
proof (induction kns arbitrary: s vs t)
  case (Cons kn rest)
  obtain k' n where kn: "kn = (k', n)" by fastforce
  obtain rc1 out s1 where l: "load_bytes E k' n s = (rc1, out, s1)" by (metis prod_cases3)
  obtain rc2 vs2 u where r: "load_all E rest s1 = (rc2, vs2, u)" by (metis prod_cases3)
  have ok: "rc1 = 0" "rc2 = 0" "vs = the out # vs2" using Cons.prems(5) kn l r by (auto split: if_splits)
  obtain w where rd: "rzi_lorawan_setting_read E k' n (sets s) = (rc1, out, w)" and s1: "s1 = s\<lparr>sets := w\<rparr>"
    using l by (auto simp: load_bytes_def split: prod.splits)
  show ?case
  proof (cases "k' = k")
    case True
    have "k \<notin> fst ` set rest" using Cons.prems(4) kn True by simp
    then have "(k, length v) \<notin> set rest" by (force simp: image_iff)
    then have "n = length v" using Cons.prems(3) kn True by simp
    with read_stored [OF Cons.prems(1,2) sto max] rd True have "out = Some (v, True)" by auto
    then show ?thesis using kn True \<open>n = length v\<close> ok by auto
  next
    case False
    have "settings_inv E view D (sets s1)" using lorawan_settings.rd_law [OF Cons.prems(1) rd] s1 by simp
    moreover have "stored_unread E view k i v (sets s1)"
      using stored_unread_keep [OF Cons.prems(1,2) rd False] s1 by simp
    moreover have "(k, length v) \<in> set rest" using Cons.prems(3) kn False by auto
    moreover have "distinct (map fst rest)" using Cons.prems(4) by simp
    moreover have "load_all E rest s1 = (0, vs2, u)" using r ok(2) by simp
    ultimately have "\<exists>j < length rest. rest ! j = (k, length v) \<and> vs2 ! j = (v, True)" by (rule Cons.IH)
    then obtain j where "j < length rest" "rest ! j = (k, length v)" "vs2 ! j = (v, True)" by blast
    then show ?thesis using ok(3) by (intro exI [of _ "Suc j"]) simp
  qed
qed simp

lemma ensure_loaded_stored:
  assumes "settings_inv E view D (sets b)" and "stored_unread E view (fst (credential_keys ! j)) i v (sets b)"
    and "cfg_storage E" and "3 \<le> cfg_record_max E" and "\<not> loaded (credentials b)"
    and j: "j < 10" "length v = snd (credential_keys ! j)" and l: "ensure_loaded_locked E b = (0, u)"
  shows "\<exists>vs active. credentials u = credentials_from vs active \<and> vs ! j = (v, True)"
proof -
  obtain vs w where a: "load_all E credential_keys b = (0, vs, w)"
    and u: "u = w\<lparr>credentials := credentials_from vs (join_active (credentials w))\<rparr>"
    using l assms(5) by (auto simp: ensure_loaded_locked_def split: prod.splits if_splits)
  let ?k = "fst (credential_keys ! j)"
  have "(?k, length v) = credential_keys ! j" using j(2) by (simp add: prod_eq_iff)
  then have m: "(?k, length v) \<in> set credential_keys" using j(1) credential_keys_distinct(2) by (metis nth_mem)
  from load_all_stored [OF assms(1-4) m credential_keys_distinct(1) a] obtain q
    where q: "q < length credential_keys" "credential_keys ! q = (?k, length v)" "vs ! q = (v, True)" by blast
  have "map fst credential_keys ! q = map fst credential_keys ! j"
    using q(1,2) j(1) credential_keys_distinct(2) by simp
  then have "q = j"
    using nth_eq_iff_index_eq [OF credential_keys_distinct(1), of q j] q(1) j(1) credential_keys_distinct(2) by simp
  with q(3) u show ?thesis by auto
qed

text \<open>A setter that returned 0 wrote the value through the settings.\<close>

lemma set_cred_written:
  assumes inv: "cred_inv E view D s" and w: "set_cred E f (Some v) s = (0, t)"
  shows "\<exists>u. settings_inv E view D u
    \<and> rzi_lorawan_setting_write E (fst (credential_keys ! field_index f)) v (length v) u = (0, sets t)"
proof -
  let ?k = "fst (credential_keys ! field_index f)"
  have w': "store_credential E ?k v (field_upd f v) s = (0, t)"
    using w by (auto simp: set_cred_eq set_bytes_def Let_def split: if_splits)
  obtain rc1 s1 where l: "ensure_loaded_locked E s = (rc1, s1)" by fastforce
  obtain rc2 s2 where p: "persist E ?k v (length v) s1 = (rc2, s2)" by fastforce
  have "rc1 = 0" "rc2 = 0" "sets t = sets s2" using w' l p by (auto simp: store_credential_def split: if_splits)
  moreover have "settings_inv E view D (sets s1)" using ensure_loaded_effect [OF inv l] by (simp add: cred_inv_def)
  ultimately show ?thesis using p by (auto simp: persist_def split: prod.splits)
qed


text \<open>A booted service on the reference instance: nothing loaded, nothing stored.\<close>

definition ref_state :: "(string \<rightharpoonup> bytes, bool) lorawan_state" where
  "ref_state = \<lparr>sets = fresh_settings Map.empty, credentials = credentials_zero, link_check_mode = 0,
     device_time_enabled = False, events = [], callback_slots = replicate 4 None, services = [],
     configured_region = 0, configured_class = 0, configured_join_backoff_bypass = False, started = False,
     overflow = False, join_sequence_active = False, join_retries_remaining = 0, last_downlink_valid = False,
     last_rssi_dbm = 0, last_snr_quarter_db = 0, power_class_c_held = False, radio = False, delivered = []\<rparr>"

lemma ref_state_inv: "cred_inv ref_env (\<lambda>d. d) D ref_state"
  using ref_env_settings [where d = Map.empty] by (simp add: cred_inv_def ref_state_def mirrors_def credentials_zero_def)


text \<open>
  C7. A join sequence owns the credentials: while it is active every setter that would change
  them (keys, identifiers, device address, activation mode, channel mask) and the factory reset
  answers \<^verbatim>\<open>BUSY\<close> and leaves the whole state as it is.
\<close>

theorem credentials_locked_while_joining:
  assumes inv: "cred_inv E view D s" and isr: "\<not> k_is_in_isr s"
    and l: "loaded (credentials s)" and j: "join_active (credentials s)"
  shows "(length v = field_size f \<longrightarrow> set_cred E f (Some v) s = (- RZI_ERR_BUSY, s))
    \<and> (length key = 16 \<longrightarrow> rzi_lorawan_set_nwk_skey E (Some key) s = (- RZI_ERR_BUSY, s)
        \<and> rzi_lorawan_set_app_skey E (Some key) s = (- RZI_ERR_BUSY, s))
    \<and> rzi_lorawan_set_dev_addr E addr s = (- RZI_ERR_BUSY, s)
    \<and> (activation_supported E mode \<longrightarrow> rzi_lorawan_set_activation E mode s = (- RZI_ERR_BUSY, s))
    \<and> (cm = None \<or> channel_mask_valid (the cm) \<longrightarrow>
        rzi_lorawan_credentials_set_channel_mask E cm s = (- RZI_ERR_BUSY, s))
    \<and> rzi_lorawan_clear_settings E s = (- RZI_ERR_BUSY, s)"
proof -
  have st: "store_credential E k w upd s = (- RZI_ERR_BUSY, s)" for k w upd
    using l j by (simp add: store_credential_def ensure_loaded_locked_def)
  have th: "rzi_lorawan_check_thread s = 0" using isr by (simp add: rzi_lorawan_check_thread_def)
  have "length v = field_size f \<longrightarrow> set_cred E f (Some v) s = (- RZI_ERR_BUSY, s)"
    by (simp add: set_cred_eq set_bytes_def th st)
  moreover have "length key = 16 \<longrightarrow> rzi_lorawan_set_nwk_skey E (Some key) s = (- RZI_ERR_BUSY, s)
      \<and> rzi_lorawan_set_app_skey E (Some key) s = (- RZI_ERR_BUSY, s)"
    by (simp add: rzi_lorawan_set_nwk_skey_def rzi_lorawan_set_app_skey_def set_bytes_def th st)
  moreover have "rzi_lorawan_set_dev_addr E addr s = (- RZI_ERR_BUSY, s)"
    "activation_supported E mode \<longrightarrow> rzi_lorawan_set_activation E mode s = (- RZI_ERR_BUSY, s)"
    by (simp_all add: rzi_lorawan_set_dev_addr_def rzi_lorawan_set_activation_def th st)
  moreover have "cm = None \<or> channel_mask_valid (the cm) \<longrightarrow>
      rzi_lorawan_credentials_set_channel_mask E cm s = (- RZI_ERR_BUSY, s)"
    by (auto simp: rzi_lorawan_credentials_set_channel_mask_def Let_def st)
  moreover have "rzi_lorawan_clear_settings E s = (- RZI_ERR_BUSY, s)"
    using j by (simp add: rzi_lorawan_clear_settings_def rzi_lorawan_credentials_clear_settings_def th)
  ultimately show ?thesis by blast
qed

text \<open>The booted state after its first credential access, with a join under way.\<close>

definition joining_state :: "(string \<rightharpoonup> bytes, bool) lorawan_state" where
  "joining_state = rzi_lorawan_credentials_set_join_active True (snd (ensure_loaded_locked ref_env ref_state))"

lemma joining_state_facts:
  "loaded (credentials joining_state)" "join_active (credentials joining_state)" "\<not> k_is_in_isr joining_state"
  by code_simp+

lemma joining_state_inv: "cred_inv ref_env (\<lambda>d. d) D joining_state"
proof -
  have "cred_inv ref_env (\<lambda>d. d) D (snd (ensure_loaded_locked ref_env ref_state))"
    using ensure_loaded_effect [OF ref_state_inv] by (metis prod.collapse)
  then show ?thesis unfolding joining_state_def by (rule cred_inv_set_active)
qed

theorem credentials_locked_while_joining_witness:
  "set_cred ref_env App_key (Some (replicate 16 7)) joining_state = (- RZI_ERR_BUSY, joining_state)
   \<and> rzi_lorawan_clear_settings ref_env joining_state = (- RZI_ERR_BUSY, joining_state)"
  using credentials_locked_while_joining [OF joining_state_inv joining_state_facts(3,1,2), where v = "replicate 16 7" and f = App_key]
  by simp

text \<open>
  The join policy update is exact: an update that returned 0 had every field in range or
  \<^verbatim>\<open>KEEP\<close>, and afterwards each getter answers the requested value, or the previous one for \<^verbatim>\<open>KEEP\<close>.
\<close>

theorem join_policy_update:
  assumes inv: "cred_inv E view D s" and l: "loaded (credentials s)"
    and u: "rzi_lorawan_credentials_update_policy E auto interval attempts s = (0, t)"
  shows "auto \<in> {RZI_LORAWAN_JOIN_KEEP, 0, 1}
    \<and> (interval = RZI_LORAWAN_JOIN_KEEP \<or> 7 \<le> interval \<and> interval \<le> 255)
    \<and> (attempts = RZI_LORAWAN_JOIN_KEEP \<or> 0 \<le> attempts \<and> attempts \<le> 255)
    \<and> rzi_lorawan_get_auto_join E (Some a) t
        = (0, Some (if auto = RZI_LORAWAN_JOIN_KEEP then auto_join (credentials s) else auto = 1), t)
    \<and> rzi_lorawan_get_join_interval E (Some b) t
        = (0, Some (if interval = RZI_LORAWAN_JOIN_KEEP then join_interval (credentials s) else of_int interval), t)
    \<and> rzi_lorawan_get_join_attempts E (Some c) t
        = (0, Some (if attempts = RZI_LORAWAN_JOIN_KEEP then join_attempts (credentials s) else of_int attempts), t)"
proof -
  note e = update_policy_effect [OF inv u]
  have "\<not> k_is_in_isr s"
    using u by (auto simp: rzi_lorawan_credentials_update_policy_def rzi_lorawan_check_thread_def Let_def split: if_splits)
  then have th: "rzi_lorawan_check_thread t = 0" using e creds_only_isr [of s t] by (simp add: rzi_lorawan_check_thread_def)
  have "get_field E fld (Some x) t = (0, Some (fld (credentials t)), t)" for fld :: "credential_store \<Rightarrow> 'f" and x
    using e th by (simp add: get_field_def ensure_loaded_locked_def)
  then show ?thesis using e l
    by (auto simp: get_field_def rzi_lorawan_get_auto_join_def rzi_lorawan_get_join_interval_def
        rzi_lorawan_get_join_attempts_def ensure_loaded_locked_def th)
qed

theorem join_policy_update_witness:
  "\<exists>t. rzi_lorawan_credentials_update_policy ref_env 1 RZI_LORAWAN_JOIN_KEEP 3 joining_state = (0, t)
    \<and> rzi_lorawan_get_join_attempts ref_env (Some 0) t = (0, Some 3, t)
    \<and> rzi_lorawan_get_join_interval ref_env (Some 0) t = (0, Some 8, t)"
proof -
  let ?u = "rzi_lorawan_credentials_update_policy ref_env 1 RZI_LORAWAN_JOIN_KEEP 3 joining_state"
  have "fst ?u = 0" by code_simp
  then have u: "?u = (0, snd ?u)" by (simp add: prod_eq_iff)
  have "join_interval (credentials joining_state) = 8" by code_simp
  then show ?thesis
    using join_policy_update [OF joining_state_inv joining_state_facts(1) u] u
    by (intro exI [of _ "snd ?u"]) simp
qed

text \<open>The region never changes once the service has started, and is always one of the eleven.\<close>

lemma get_region_effect:
  assumes inv: "cred_inv E view D s" and g: "rzi_lorawan_get_region E (Some r) s = (rc, out, t)"
  shows "cred_inv E view D t \<and> k_is_in_isr t = k_is_in_isr s \<and> credentials t = credentials s
    \<and> (started s \<longrightarrow> sets_only s t \<and> (rc = 0 \<longrightarrow> out = Some (configured_region s)))
    \<and> (\<not> started s \<and> rc = 0 \<longrightarrow> (\<exists>n. out = Some n \<and> n \<le> RZI_LORAWAN_REGION_RU_864 \<and> configured_region t = n))"
proof -
  obtain rc1 o1 s1 where l: "load_bytes E ''region'' 1 s = (rc1, o1, s1)" by (metis prod_cases3)
  have si: "settings_inv E view D (sets s)" using inv by (simp add: cred_inv_def)
  note e = load_bytes_effect [OF si l]
  then have c: "credentials s1 = credentials s" "k_is_in_isr s1 = k_is_in_isr s"
    using sets_only_credentials by (auto simp: sets_only_def)
  have "mirrors E s1"
    using inv e c unfolding cred_inv_def mirrors_def by (metis (no_types, lifting) list_all2_mono)
  then have i1: "cred_inv E view D s1" using e by (simp add: cred_inv_def)
  have i2: "cred_inv E view D (s1\<lparr>configured_region := x\<rparr>)" "k_is_in_isr (s1\<lparr>configured_region := x\<rparr>) = k_is_in_isr s" for x
    using cred_inv_cong [of "s1\<lparr>configured_region := x\<rparr>" s1] i1 c by (auto simp: k_is_in_isr_def)
  have reg: "unat (hd (fst (the o1))) \<le> 10" if "rc1 = 0"
  proof -
    have "find_setting ''region'' settings = Some 9" "skind (settings ! 9) = REGION" "ssize (settings ! 9) = 1" by code_simp+
    then show ?thesis using e that by (cases "fst (the o1)") (auto simp: setting_good_def valid_value_def)
  qed
  show ?thesis using g inv l i2 c reg
    by (auto simp: rzi_lorawan_get_region_def rzi_lorawan_config_get_region_def rzi_lorawan_check_thread_def Let_def
        split: if_splits)
qed

text \<open>
  The shape of a join configuration the backend can rely on: the activation selects the keys,
  all identifiers and keys have their full length, the retry interval is in range, and a mask is
  passed only where the region has a fixed plan, with some channel enabled and none out of range.
\<close>

definition config_ok :: "nat \<Rightarrow> rzi_lorawan_join_config \<Rightarrow> bool" where
  "config_ok region c \<longleftrightarrow>
     (case jc_keys c of
        Join_otaa k \<Rightarrow> jc_activation c = RZI_LORAWAN_ACTIVATION_OTAA \<and> length (otaa_dev_eui k) = 8
          \<and> length (otaa_join_eui k) = 8 \<and> length (otaa_network_key k) = 16
          \<and> length (otaa_application_key k) = 16 \<and> otaa_dev_nonce k = 0
      | Join_abp k \<Rightarrow> jc_activation c = RZI_LORAWAN_ACTIVATION_ABP
          \<and> length (abp_network_session_key k) = 16 \<and> length (abp_application_session_key k) = 16)
     \<and> JOIN_INTERVAL_MIN \<le> jc_retry_interval_s c
     \<and> length (jc_channel_mask c) = RZI_LORAWAN_CHANNEL_MASK_WORDS
     \<and> (jc_channel_mask_set c \<longrightarrow> rzi_lorawan_region_has_fixed_plan region \<and> channel_mask_valid (jc_channel_mask c))"

lemma config_of_ok:
  assumes inv: "cred_inv E view D s" and l: "loaded (credentials s)"
  shows "config_ok region (config_of E region (credentials s))"
proof -
  from loaded_credentials [OF inv l] obtain vs where c: "credentials s = credentials_from vs (join_active (credentials s))"
    and good: "\<And>i. i < 10 \<Longrightarrow> setting_good (fst (credential_keys ! i)) (fst (vs ! i))"
    and len: "\<And>i. i < 10 \<Longrightarrow> length (fst (vs ! i)) = snd (credential_keys ! i)" by metis
  have "find_setting ''join_policy'' settings = Some 13" "skind (settings ! 13) = JOIN_POLICY" by code_simp+
  then have iv: "JOIN_INTERVAL_MIN \<le> fst (vs ! 8) ! 1"
    using good [of 8] by (simp add: credential_key_names setting_good_def valid_value_def)
  have ln: "length (fst (vs ! 0)) = 8" "length (fst (vs ! 1)) = 8" "length (fst (vs ! 2)) = 16"
    "length (fst (vs ! 3)) = 16" "length (fst (vs ! 5)) = 16" "length (fst (vs ! 6)) = 16"
    using len [of 0] len [of 1] len [of 2] len [of 3] len [of 5] len [of 6] by (simp_all add: credential_keys_def)
  have mw: "length (mask_words b) = 6" for b by (simp add: mask_words_def)
  show ?thesis
    by (subst c) (simp add: config_ok_def config_of_def credentials_from_def Let_def ln [simplified] mw iv [simplified])
qed

text \<open>What a read of a setting answers: its value, and whether it was stored.\<close>

definition setting_answer ::
  "('d, 'x, 's, 'e) lorawan_env_scheme \<Rightarrow> ('d, 'x, 'm) lorawan_state_scheme \<Rightarrow> string \<Rightarrow> nat \<Rightarrow> bytes" where
  "setting_answer E s k n = fst (the (fst (snd (rzi_lorawan_setting_read E k n (sets s)))))"

definition setting_stored ::
  "('d, 'x, 's, 'e) lorawan_env_scheme \<Rightarrow> ('d, 'x, 'm) lorawan_state_scheme \<Rightarrow> string \<Rightarrow> nat \<Rightarrow> bool" where
  "setting_stored E s k n = snd (the (fst (snd (rzi_lorawan_setting_read E k n (sets s)))))"

text \<open>Each field of a configuration built from loaded credentials, by the setting it comes from.\<close>

definition config_says ::
  "('d, 'x, 's, 'e) lorawan_env_scheme \<Rightarrow> ('d, 'x, 'm) lorawan_state_scheme \<Rightarrow> nat \<Rightarrow> rzi_lorawan_join_config \<Rightarrow> bool" where
  "config_says E s region c \<longleftrightarrow>
     jc_activation c = (if hd (setting_answer E s ''njm'' 1) = 0 then RZI_LORAWAN_ACTIVATION_ABP else RZI_LORAWAN_ACTIVATION_OTAA)
     \<and> jc_retry_interval_s c = setting_answer E s ''join_policy'' 3 ! 1
     \<and> jc_channel_mask_set c = (setting_stored E s ''chmask'' 12
          \<and> channel_mask_valid (mask_words (setting_answer E s ''chmask'' 12))
          \<and> rzi_lorawan_region_has_fixed_plan region \<and> bk_capabilities (backend E) AND RZI_LORAWAN_CAP_CHANNEL \<noteq> 0)
     \<and> jc_channel_mask c = (if jc_channel_mask_set c then mask_words (setting_answer E s ''chmask'' 12) else replicate 6 0)
     \<and> (case jc_keys c of
          Join_abp k \<Rightarrow> abp_dev_addr k = get_le32 (setting_answer E s ''devaddr'' 4)
            \<and> abp_network_session_key k = setting_answer E s ''nwkskey'' 16
            \<and> abp_application_session_key k = setting_answer E s ''appskey'' 16
        | Join_otaa k \<Rightarrow> otaa_dev_eui k = setting_answer E s ''deveui'' 8
            \<and> otaa_join_eui k = setting_answer E s ''joineui'' 8
            \<and> otaa_network_key k = setting_answer E s ''appkey'' 16
            \<and> otaa_application_key k = setting_answer E s (if setting_stored E s ''genappkey'' 16 then ''genappkey'' else ''appkey'') 16
            \<and> otaa_dev_nonce k = 0)"

lemma config_of_says:
  assumes inv: "cred_inv E view D s" and l: "loaded (credentials s)"
  shows "config_says E s region (config_of E region (credentials s))"
proof -
  from loaded_credentials [OF inv l] obtain vs where a: "list_all2 (cached E s) credential_keys vs"
    and c: "credentials s = credentials_from vs (join_active (credentials s))" by metis
  have "rzi_lorawan_setting_read E (fst (credential_keys ! i)) (snd (credential_keys ! i)) (sets s) = (0, Some (vs ! i), sets s)"
    if "i < 10" for i
    using a that by (simp add: list_all2_conv_all_nth credential_keys_distinct cached_def)
  note r = this [of 0] this [of 1] this [of 2] this [of 3] this [of 4] this [of 5] this [of 6] this [of 7] this [of 8] this [of 9]
  have ans: "setting_answer E s ''deveui'' 8 = fst (vs ! 0)" "setting_answer E s ''joineui'' 8 = fst (vs ! 1)"
    "setting_answer E s ''appkey'' 16 = fst (vs ! 2)" "setting_answer E s ''genappkey'' 16 = fst (vs ! 3)"
    "setting_stored E s ''genappkey'' 16 = snd (vs ! 3)" "setting_answer E s ''devaddr'' 4 = fst (vs ! 4)"
    "setting_answer E s ''nwkskey'' 16 = fst (vs ! 5)" "setting_answer E s ''appskey'' 16 = fst (vs ! 6)"
    "setting_answer E s ''njm'' 1 = fst (vs ! 7)" "setting_answer E s ''join_policy'' 3 = fst (vs ! 8)"
    "setting_answer E s ''chmask'' 12 = fst (vs ! 9)" "setting_stored E s ''chmask'' 12 = snd (vs ! 9)"
    using r by (simp_all add: setting_answer_def setting_stored_def credential_keys_def)
  obtain a where c': "credentials s = credentials_from vs a" using c by blast
  show ?thesis unfolding config_says_def ans c'
    by (simp add: ans config_of_def credentials_from_def Let_def)
qed

text \<open>
  C36. The backend gets a complete configuration: when the join configuration is built with code
  0 it is well-formed in the sense above, every field is the answer of the setting it is named
  after (the activation of \<^verbatim>\<open>njm\<close>, the retry interval of \<^verbatim>\<open>join_policy\<close>, the mask of \<^verbatim>\<open>chmask\<close>; for OTAA
  \<^verbatim>\<open>deveui\<close>, \<^verbatim>\<open>joineui\<close>, \<^verbatim>\<open>appkey\<close> and \<^verbatim>\<open>genappkey\<close> or else \<^verbatim>\<open>appkey\<close> again; for ABP \<^verbatim>\<open>devaddr\<close>, \<^verbatim>\<open>nwkskey\<close>
  and \<^verbatim>\<open>appskey\<close>), and on every error the caller's structure is untouched.
\<close>

theorem build_config_well_formed:
  assumes inv: "cred_inv E view D s"
    and b: "rzi_lorawan_credentials_build_config E (Some old) s = (rc, out, t)"
  shows "cred_inv E view D t \<and> (rc \<noteq> 0 \<longrightarrow> out = Some old)
    \<and> (rc = 0 \<longrightarrow> (\<exists>region c. out = Some c \<and> loaded (credentials t) \<and> config_ok region c \<and> config_says E t region c
          \<and> (started s \<longrightarrow> region = configured_region s)))"
proof -
  obtain rc1 r s1 where g: "rzi_lorawan_get_region E (Some 0) s = (rc1, r, s1)" by (metis prod_cases3)
  note e1 = get_region_effect [OF inv g]
  then have i1: "cred_inv E view D s1" by simp
  obtain rc2 s2 where l: "ensure_loaded_locked E s1 = (rc2, s2)" by fastforce
  note e2 = ensure_loaded_effect [OF i1 l]
  have r: "r = Some (the r)" if "rc1 = 0" using e1 that by (cases "started s") auto
  show ?thesis
    using b g l e1 e2 inv config_of_ok [of E view D s2] config_of_says [of E view D s2] r
    by (auto simp: rzi_lorawan_credentials_build_config_def Let_def split: if_splits intro!: exI [of _ "the r"])
qed

theorem build_config_well_formed_witness:
  "\<exists>region c t. rzi_lorawan_credentials_build_config ref_env (Some (config_of ref_env 0 credentials_zero)) ref_state
      = (0, Some c, t) \<and> config_ok region c \<and> config_says ref_env t region c"
proof -
  let ?b = "rzi_lorawan_credentials_build_config ref_env (Some (config_of ref_env 0 credentials_zero)) ref_state"
  have "fst ?b = 0" by code_simp
  then have "?b = (0, fst (snd ?b), snd (snd ?b))" by (simp add: prod_eq_iff)
  from build_config_well_formed [OF ref_state_inv this] this show ?thesis by metis
qed

lemma load_all_nothing:
  assumes "settings_inv E view D (sets s)" and "storage_ready (store (sets s))" and "nothing_stored view (store (sets s))"
    and "all_default (table (sets s))"
    and "\<forall>kn\<in>set kns. \<exists>i. find_setting (fst kn) settings = Some i \<and> snd kn = ssize (settings ! i)"
  shows "\<exists>t. load_all E kns s = (0, map (\<lambda>kn. (default_value (settings ! the (find_setting (fst kn) settings)), False)) kns, t)"
  using assms
proof (induction kns arbitrary: s)
  case (Cons kn kns)
  obtain k n where kn: "kn = (k, n)" by fastforce
  with Cons.prems(5) obtain i where i: "find_setting k settings = Some i" "n = ssize (settings ! i)" by auto
  from read_nothing [OF Cons.prems(1-4) i(1)] obtain u where
    r: "rzi_lorawan_setting_read E k n (sets s) = (0, Some (default_value (settings ! i), False), u)"
    and u: "settings_inv E view D u" "store u = store (sets s)" "all_default (table u)" using i(2) by auto
  let ?s = "s\<lparr>sets := u\<rparr>"
  have "\<exists>t. load_all E kns ?s = (0, map (\<lambda>kn. (default_value (settings ! the (find_setting (fst kn) settings)), False)) kns, t)"
    using Cons.IH [of ?s] Cons.prems u by simp
  then show ?case using kn i r by (auto simp: load_bytes_def)
qed simp

lemma credential_keys_in_schema:
  "\<forall>kn\<in>set credential_keys. \<exists>i. find_setting (fst kn) settings = Some i \<and> snd kn = ssize (settings ! i)"
proof -
  have "list_all (\<lambda>kn. case find_setting (fst kn) settings of None \<Rightarrow> False | Some i \<Rightarrow> snd kn = ssize (settings ! i)) credential_keys"
    by code_simp
  then show ?thesis by (auto simp: list_all_iff split: option.splits)
qed

lemma default_credentials:
  "(let c = credentials_from (map (\<lambda>kn. (default_value (settings ! the (find_setting (fst kn) settings)), False)) credential_keys) False
    in \<not> dev_eui_set c \<and> \<not> app_eui_set c \<and> \<not> app_key_set c \<and> \<not> gen_app_key_set c \<and> njm c = RZI_LORAWAN_ACTIVATION_OTAA
       \<and> \<not> auto_join c \<and> join_interval c = 8 \<and> join_attempts c = 0)"
  by code_simp

text \<open>
  A factory reset forgets the credentials: after the reset returned 0 on a ready store, the
  EUI and key getters answer \<^verbatim>\<open>NO_DATA\<close>, and mode, auto-join, interval and attempts are back to OTAA,
  off, 8 and 0.
\<close>

theorem clear_settings_forgets:
  assumes inv: "cred_inv E view D s" and rdy: "storage_ready (store (sets s))" and sto: "cfg_storage E"
    and c: "rzi_lorawan_clear_settings E s = (0, t)" and len: "length buf = field_size f"
  shows "(\<exists>u. get_cred E f (Some buf) t = (- RZI_ERR_NO_DATA, Some buf, u))
    \<and> (\<exists>u. rzi_lorawan_get_activation E (Some m) t = (0, Some RZI_LORAWAN_ACTIVATION_OTAA, u))
    \<and> (\<exists>u. rzi_lorawan_get_auto_join E (Some a) t = (0, Some False, u))
    \<and> (\<exists>u. rzi_lorawan_get_join_interval E (Some i) t = (0, Some 8, u))
    \<and> (\<exists>u. rzi_lorawan_get_join_attempts E (Some n) t = (0, Some 0, u))"
proof -
  obtain rc u where r: "rzi_lorawan_settings_clear E (sets s) = (rc, u)" by fastforce
  with c have t: "rc = 0" "t = s\<lparr>sets := u, credentials := credentials_zero\<rparr>"
    by (auto simp: rzi_lorawan_clear_settings_def rzi_lorawan_credentials_clear_settings_def Let_def split: if_splits)
  have si: "settings_inv E view D (sets s)" using inv by (simp add: cred_inv_def)
  note e = settings_clear_effect [OF si rdy sto r [unfolded t(1)]]
  then have "all_default (table u)" by (simp add: all_default_def)
  with e load_all_nothing [of E view D t, OF _ _ _ _ credential_keys_in_schema] t
  obtain w where w: "load_all E credential_keys t
      = (0, map (\<lambda>kn. (default_value (settings ! the (find_setting (fst kn) settings)), False)) credential_keys, w)" by auto
  let ?vs = "map (\<lambda>kn. (default_value (settings ! the (find_setting (fst kn) settings)), False)) credential_keys"
  have "sets_only t w" using load_all_effect [of E view D t] w e t by auto
  then have "credentials w = credentials_zero" using t sets_only_credentials by fastforce
  then have l: "ensure_loaded_locked E t = (0, w\<lparr>credentials := credentials_from ?vs False\<rparr>)"
    using w t by (simp add: ensure_loaded_locked_def credentials_zero_def)
  have "k_is_in_isr t = k_is_in_isr s" using clear_settings_effect [OF inv c] creds_only_isr by blast
  moreover have "\<not> k_is_in_isr s" using rdy by (simp add: k_is_in_isr_def storage_ready_def)
  ultimately have th: "rzi_lorawan_check_thread t = 0" by (simp add: rzi_lorawan_check_thread_def)
  have fl: "\<not> field_set f (credentials_from ?vs False)" using default_credentials by (cases f) (simp_all add: Let_def)
  show ?thesis
    using default_credentials fl len
    by (simp add: get_cred_eq get_bytes_def get_field_def th l Let_def rzi_lorawan_get_activation_def
        rzi_lorawan_get_auto_join_def rzi_lorawan_get_join_interval_def rzi_lorawan_get_join_attempts_def)
qed

theorem clear_settings_forgets_witness:
  "\<exists>t u. rzi_lorawan_clear_settings ref_env ref_state = (0, t)
     \<and> get_cred ref_env Dev_eui (Some (replicate 8 1)) t = (- RZI_ERR_NO_DATA, Some (replicate 8 1), u)"
proof -
  let ?c = "rzi_lorawan_clear_settings ref_env ref_state"
  have "fst ?c = 0" by code_simp
  then have c: "?c = (0, snd ?c)" by (simp add: prod_eq_iff)
  have "storage_ready (store (sets ref_state))" using fresh_settings_ready by (simp add: ref_state_def)
  from clear_settings_forgets [OF ref_state_inv this ref_env_fields(2) c, of "replicate 8 1" Dev_eui] c
  show ?thesis by (metis field_size.simps(1) length_replicate)
qed

end
