(* ===== verification/Rzi_Channel.thy ===== *)
theory Rzi_Channel
  imports Rzi_Credentials
begin

text \<open>
  The channel plan of US915 and AU915, \<^verbatim>\<open>src/lorawan/api/lorawan_channel.c\<close>: channel masks of six
  16-bit words, sub-bands, and the single fixed channel given by its frequency. The mask itself
  is one of the stored credentials.
\<close>

section \<open>Masks\<close>

abbreviation (input) NARROW_STEP_HZ :: u32 where "NARROW_STEP_HZ \<equiv> 200000"
abbreviation (input) WIDE_STEP_HZ :: u32 where "WIDE_STEP_HZ \<equiv> 1600000"
abbreviation (input) SUB_BANDS :: nat where "SUB_BANDS \<equiv> 8"
abbreviation (input) RZI_LORAWAN_FIXED_PLAN_CHANNELS :: nat where "RZI_LORAWAN_FIXED_PLAN_CHANNELS \<equiv> 72"
abbreviation (input) RZI_LORAWAN_FIXED_PLAN_WIDE :: nat where "RZI_LORAWAN_FIXED_PLAN_WIDE \<equiv> 64"
abbreviation (input) RZI_LORAWAN_FIXED_PLAN_WORDS :: nat where "RZI_LORAWAN_FIXED_PLAN_WORDS \<equiv> 5"

record channel_plan =
  narrow_base_hz :: u32
  wide_base_hz :: u32

definition channel_plan_of ::
  "('d, 'x, 's, 'e) lorawan_env_scheme \<Rightarrow> ('d, 'x, 'm) lorawan_state_scheme
   \<Rightarrow> int \<times> channel_plan option \<times> ('d, 'x, 'm) lorawan_state_scheme" where
  "channel_plan_of E s =
     (case rzi_lorawan_get_region E (Some 0) s of (rc, region, t) \<Rightarrow>
        if rc \<noteq> 0 then (rc, None, t)
        else if bk_capabilities (backend E) AND RZI_LORAWAN_CAP_CHANNEL = 0 then (- RZI_ERR_NOT_SUPPORTED, None, t)
        else if the region = RZI_LORAWAN_REGION_US_915
          then (0, Some \<lparr>narrow_base_hz = 902300000, wide_base_hz = 903000000\<rparr>, t)
        else if the region = RZI_LORAWAN_REGION_AU_915
          then (0, Some \<lparr>narrow_base_hz = 915200000, wide_base_hz = 915900000\<rparr>, t)
        else (- RZI_ERR_NOT_SUPPORTED, None, t))"

definition zero_mask :: "u16 list" where
  "zero_mask = replicate RZI_LORAWAN_CHANNEL_MASK_WORDS 0"

definition put_channel :: "nat \<Rightarrow> u16 list \<Rightarrow> u16 list" where
  "put_channel channel words =
     words[channel div 16 := (words ! (channel div 16)) OR push_bit (channel mod 16) 1]"

definition has_channel :: "u16 list \<Rightarrow> nat \<Rightarrow> bool" where
  "has_channel words channel \<longleftrightarrow> (words ! (channel div 16)) AND push_bit (channel mod 16) 1 \<noteq> 0"

definition all_channels :: "u16 list" where
  "all_channels = fold put_channel [0..<RZI_LORAWAN_FIXED_PLAN_CHANNELS] zero_mask"

text \<open>The argument is at least 1, as in the calls.\<close>

definition sub_band_channels :: "nat \<Rightarrow> u16 list" where
  "sub_band_channels sub_band =
     (let first = (sub_band - 1) * 8 in
      put_channel (RZI_LORAWAN_FIXED_PLAN_WIDE + sub_band - 1)
        (fold put_channel [first..<first + 8] zero_mask))"

definition read_mask ::
  "('d, 'x, 's, 'e) lorawan_env_scheme \<Rightarrow> u16 list \<Rightarrow> ('d, 'x, 'm) lorawan_state_scheme
   \<Rightarrow> int \<times> u16 list \<times> ('d, 'x, 'm) lorawan_state_scheme" where
  "read_mask E words s =
     (case rzi_lorawan_credentials_get_channel_mask E words False s of (rc, (m, is_set), t) \<Rightarrow>
        (rc, if rc = 0 \<and> \<not> is_set then all_channels else m, t))"

definition store_mask ::
  "('d, 'x, 's, 'e) lorawan_env_scheme \<Rightarrow> u16 list \<Rightarrow> ('d, 'x, 'm) lorawan_state_scheme op" where
  "store_mask E words =
     rzi_lorawan_credentials_set_channel_mask E (if words = all_channels then None else Some words)"

definition channel_frequency :: "channel_plan \<Rightarrow> nat \<Rightarrow> u32" where
  "channel_frequency plan channel =
     (if channel < RZI_LORAWAN_FIXED_PLAN_WIDE then narrow_base_hz plan + of_nat channel * NARROW_STEP_HZ
      else wide_base_hz plan + of_nat (channel - RZI_LORAWAN_FIXED_PLAN_WIDE) * WIDE_STEP_HZ)"

definition frequency_channel :: "channel_plan \<Rightarrow> u32 \<Rightarrow> int" where
  "frequency_channel plan frequency_hz =
     (case find (\<lambda>channel. channel_frequency plan channel = frequency_hz) [0..<RZI_LORAWAN_FIXED_PLAN_CHANNELS] of
        Some channel \<Rightarrow> int channel
      | None \<Rightarrow> - RZI_ERR_INVALID)"

section \<open>Operations\<close>

text \<open>The caller's array has \<open>words\<close> entries.\<close>

definition rzi_lorawan_get_channel_mask ::
  "('d, 'x, 's, 'e) lorawan_env_scheme \<Rightarrow> nat \<Rightarrow> (('d, 'x, 'm) lorawan_state_scheme, u16 list) getter" where
  "rzi_lorawan_get_channel_mask E words cm s =
     (let rc = rzi_lorawan_check_thread s in
      if rc \<noteq> 0 then (rc, cm, s)
      else if cm = None \<or> words = 0 then (- RZI_ERR_INVALID, cm, s)
      else case channel_plan_of E s of (rc, plan, t) \<Rightarrow>
        if rc \<noteq> 0 then (rc, cm, t)
        else if words < RZI_LORAWAN_FIXED_PLAN_WORDS then (- RZI_ERR_INVALID, cm, t)
        else case read_mask E zero_mask t of (rc, current, u) \<Rightarrow>
          if rc \<noteq> 0 then (rc, cm, u)
          else (0, Some (map (\<lambda>word. if word < length current then current ! word else 0) [0..<words]), u))"

definition rzi_lorawan_set_channel_mask ::
  "('d, 'x, 's, 'e) lorawan_env_scheme \<Rightarrow> u16 list option \<Rightarrow> nat \<Rightarrow> ('d, 'x, 'm) lorawan_state_scheme op" where
  "rzi_lorawan_set_channel_mask E cm words s =
     (let rc = rzi_lorawan_check_thread s in
      if rc \<noteq> 0 then (rc, s)
      else if cm = None \<or> words = 0 \<or> words > RZI_LORAWAN_CHANNEL_MASK_WORDS then (- RZI_ERR_INVALID, s)
      else case channel_plan_of E s of (rc, plan, t) \<Rightarrow>
        if rc \<noteq> 0 then (rc, t)
        else if words < RZI_LORAWAN_FIXED_PLAN_WORDS then (- RZI_ERR_INVALID, t)
        else store_mask E (overlay (take words (the cm)) zero_mask) t)"

definition rzi_lorawan_get_sub_band ::
  "('d, 'x, 's, 'e) lorawan_env_scheme \<Rightarrow> (('d, 'x, 'm) lorawan_state_scheme, nat) getter" where
  "rzi_lorawan_get_sub_band E sub_band s =
     (let rc = rzi_lorawan_check_thread s in
      if rc \<noteq> 0 then (rc, sub_band, s)
      else if sub_band = None then (- RZI_ERR_INVALID, sub_band, s)
      else case channel_plan_of E s of (rc, plan, t) \<Rightarrow>
        if rc \<noteq> 0 then (rc, sub_band, t)
        else case read_mask E zero_mask t of (rc, current, u) \<Rightarrow>
          if rc \<noteq> 0 then (rc, sub_band, u)
          else if current = all_channels then (0, Some 0, u)
          else case find (\<lambda>band. current = sub_band_channels band) [1..<SUB_BANDS + 1] of
            Some band \<Rightarrow> (0, Some band, u)
          | None \<Rightarrow> (- RZI_ERR_NO_DATA, sub_band, u))"

definition rzi_lorawan_set_sub_band ::
  "('d, 'x, 's, 'e) lorawan_env_scheme \<Rightarrow> nat \<Rightarrow> ('d, 'x, 'm) lorawan_state_scheme op" where
  "rzi_lorawan_set_sub_band E sub_band s =
     (let rc = rzi_lorawan_check_thread s in
      if rc \<noteq> 0 then (rc, s)
      else case channel_plan_of E s of (rc, plan, t) \<Rightarrow>
        if rc \<noteq> 0 then (rc, t)
        else if sub_band > SUB_BANDS then (- RZI_ERR_INVALID, t)
        else if sub_band = 0 then rzi_lorawan_credentials_set_channel_mask E None t
        else store_mask E (sub_band_channels sub_band) t)"

definition rzi_lorawan_get_fixed_channel ::
  "('d, 'x, 's, 'e) lorawan_env_scheme \<Rightarrow> (('d, 'x, 'm) lorawan_state_scheme, u32) getter" where
  "rzi_lorawan_get_fixed_channel E frequency_hz s =
     (let rc = rzi_lorawan_check_thread s in
      if rc \<noteq> 0 then (rc, frequency_hz, s)
      else if frequency_hz = None then (- RZI_ERR_INVALID, frequency_hz, s)
      else case channel_plan_of E s of (rc, plan, t) \<Rightarrow>
        if rc \<noteq> 0 then (rc, frequency_hz, t)
        else case read_mask E zero_mask t of (rc, current, u) \<Rightarrow>
          if rc \<noteq> 0 then (rc, frequency_hz, u)
          else let enabled = filter (has_channel current) [0..<RZI_LORAWAN_FIXED_PLAN_CHANNELS] in
            (0, Some (if length enabled = 1 then channel_frequency (the plan) (last enabled) else 0), u))"

definition rzi_lorawan_set_fixed_channel ::
  "('d, 'x, 's, 'e) lorawan_env_scheme \<Rightarrow> u32 \<Rightarrow> ('d, 'x, 'm) lorawan_state_scheme op" where
  "rzi_lorawan_set_fixed_channel E frequency_hz s =
     (let rc = rzi_lorawan_check_thread s in
      if rc \<noteq> 0 then (rc, s)
      else case channel_plan_of E s of (rc, plan, t) \<Rightarrow>
        if rc \<noteq> 0 then (rc, t)
        else if frequency_hz = 0 then rzi_lorawan_credentials_set_channel_mask E None t
        else let channel = frequency_channel (the plan) frequency_hz in
          if channel < 0 then (channel, t)
          else rzi_lorawan_credentials_set_channel_mask E (Some (put_channel (nat channel) zero_mask)) t)"

section \<open>Masks as channel sets\<close>

lemma length_put_channel [simp]: "length (put_channel c w) = length w"
  by (simp add: put_channel_def)

lemma has_channel_bit: "has_channel w c \<longleftrightarrow> bit (w ! (c div 16)) (c mod 16)"
  by (simp only: has_channel_def bit_iff_and_push_bit_not_eq_0)

lemma mask_bit_has: "mask_bit = has_channel"
  by (simp add: fun_eq_iff mask_bit_def has_channel_def)

lemma has_put_channel:
  assumes "length w = 6" and "c < 96" and "d < 96"
  shows "has_channel (put_channel c w) d \<longleftrightarrow> d = c \<or> has_channel w d"
proof -
  have "d = c \<longleftrightarrow> d div 16 = c div 16 \<and> d mod 16 = c mod 16"
    by (metis div_mult_mod_eq)
  moreover have "c div 16 < 6" "d div 16 < 6" using assms by auto
  ultimately show ?thesis using assms(1)
    by (auto simp: has_channel_bit put_channel_def nth_list_update bit_simps)
qed

lemma has_zero_mask: "c < 96 \<Longrightarrow> \<not> has_channel zero_mask c"
proof -
  assume "c < 96"
  then have "c div 16 < 6" by simp
  then show ?thesis by (simp add: has_channel_def zero_mask_def)
qed

lemma has_fold_put:
  assumes "length w = 6" and "\<forall>c\<in>set cs. c < 96" and "d < 96"
  shows "length (fold put_channel cs w) = 6 \<and> (has_channel (fold put_channel cs w) d \<longleftrightarrow> d \<in> set cs \<or> has_channel w d)"
  using assms by (induction cs arbitrary: w) (auto simp: has_put_channel)

lemma length_zero_mask [simp]: "length zero_mask = 6"
  by (simp add: zero_mask_def)

lemma all_channels_set: "length all_channels = 6" "d < 96 \<Longrightarrow> has_channel all_channels d \<longleftrightarrow> d < 72"
  using has_fold_put [of zero_mask "[0..<72]" d] has_fold_put [of zero_mask "[0..<72]" 0] has_zero_mask [of d]
  by (auto simp: all_channels_def)

lemma sub_band_channels_set:
  assumes "1 \<le> b" and "b \<le> 8"
  shows "length (sub_band_channels b) = 6"
    and "d < 96 \<Longrightarrow> has_channel (sub_band_channels b) d \<longleftrightarrow> (b - 1) * 8 \<le> d \<and> d < b * 8 \<or> d = 63 + b"
proof -
  let ?f = "(b - 1) * 8"
  have fin: "\<forall>c\<in>set [?f..<?f + 8]. c < 96" using assms by auto
  have bw: "?f + 8 = b * 8" "64 + b - 1 < 96" using assms by auto
  have l: "length (fold put_channel [?f..<?f + 8] zero_mask) = 6" using has_fold_put [OF _ fin, of zero_mask 0] by simp
  then show "length (sub_band_channels b) = 6" by (simp add: sub_band_channels_def Let_def)
  assume d: "d < 96"
  have "has_channel (sub_band_channels b) d \<longleftrightarrow> d = 64 + b - 1 \<or> has_channel (fold put_channel [?f..<?f + 8] zero_mask) d"
    unfolding sub_band_channels_def Let_def using has_put_channel [OF l bw(2) d] .
  also have "\<dots> \<longleftrightarrow> d = 64 + b - 1 \<or> d \<in> set [?f..<?f + 8]"
    using has_fold_put [OF _ fin d, of zero_mask] has_zero_mask [OF d] by simp
  finally show "has_channel (sub_band_channels b) d \<longleftrightarrow> ?f \<le> d \<and> d < b * 8 \<or> d = 63 + b"
    using bw assms by auto
qed

text \<open>Words are determined by the channels; a valid mask enables some of the 72 and nothing else.\<close>

lemma mask_eqI:
  assumes "length v = 6" and "length w = 6" and "\<And>c. c < 96 \<Longrightarrow> has_channel v c = has_channel w c"
  shows "v = w"
proof (rule nth_equalityI)
  fix i assume "i < length v"
  then have i: "i < 6" using assms(1) by simp
  show "v ! i = w ! i"
  proof (rule bit_word_eqI)
    fix n assume "n < LENGTH(16)"
    then have "i * 16 + n < 96" "(i * 16 + n) div 16 = i" "(i * 16 + n) mod 16 = n" using i by auto
    with assms(3) [of "i * 16 + n"] show "bit (v ! i) n = bit (w ! i) n" by (simp add: has_channel_bit)
  qed
qed (use assms in simp)

lemma channel_mask_valid_iff:
  "channel_mask_valid w \<longleftrightarrow> (\<forall>c < 96. has_channel w c \<longrightarrow> c < 72) \<and> (\<exists>c < 72. has_channel w c)"
  by (auto simp: channel_mask_valid_def mask_bit_has list_ex_iff fixed_plan_channels_def not_le)

section \<open>Storing and reading the mask\<close>

lemma set_mask_ok:
  assumes inv: "cred_inv E view D s" and len: "\<And>w. cm = Some w \<Longrightarrow> length w = 6"
    and w: "rzi_lorawan_credentials_set_channel_mask E cm s = (0, t)"
  shows "cred_inv E view D t \<and> creds_only s t \<and> loaded (credentials t)
    \<and> (\<forall>m. cm = Some m \<longrightarrow> channel_mask_valid m)
    \<and> read_mask E x t = (0, case cm of None \<Rightarrow> all_channels | Some m \<Rightarrow> m, t)"
proof -
  let ?c = "case cm of None \<Rightarrow> replicate 6 0 | Some w \<Rightarrow> w"
  let ?upd = "\<lambda>c. c\<lparr>channel_mask := ?c, channel_mask_set := (cm \<noteq> None)\<rparr>"
  have v: "cm = None \<or> channel_mask_valid (the cm)"
    and st: "store_credential E (fst (credential_keys ! 9)) (mask_bytes ?c) ?upd s = (0, t)"
    using w by (auto simp: rzi_lorawan_credentials_set_channel_mask_def credential_key_names Let_def split: if_splits)
  have "upd_ok 9 (mask_bytes ?c) ?upd"
    using v len zero_mask_invalid by (intro upd_ok_mask) (auto split: option.splits)
  from store_credential_effect [OF inv this st] v show ?thesis
    by (auto simp: read_mask_def rzi_lorawan_credentials_get_channel_mask_def ensure_loaded_locked_def split: option.splits)
qed

text \<open>While the service runs, the plan is that of the configured region.\<close>

definition plan_at :: "('d, 'x, 's, 'e) lorawan_env_scheme \<Rightarrow> nat \<Rightarrow> channel_plan option" where
  "plan_at E region =
     (if bk_capabilities (backend E) AND RZI_LORAWAN_CAP_CHANNEL = 0 then None
      else if region = RZI_LORAWAN_REGION_US_915 then Some \<lparr>narrow_base_hz = 902300000, wide_base_hz = 903000000\<rparr>
      else if region = RZI_LORAWAN_REGION_AU_915 then Some \<lparr>narrow_base_hz = 915200000, wide_base_hz = 915900000\<rparr>
      else None)"

lemma channel_plan_started:
  assumes "started s" and "\<not> k_is_in_isr s"
  shows "channel_plan_of E s = (if plan_at E (configured_region s) = None then (- RZI_ERR_NOT_SUPPORTED, None, s)
    else (0, plan_at E (configured_region s), s))"
  using assms by (simp add: channel_plan_of_def plan_at_def rzi_lorawan_get_region_def rzi_lorawan_check_thread_def)

lemma creds_only_fields: "creds_only s t \<Longrightarrow> started t = started s" "creds_only s t \<Longrightarrow> configured_region t = configured_region s"
  by (auto simp: creds_only_def)

text \<open>After a successful store on a running service, the getters see the plan and the stored mask.\<close>

lemma stored_mask_seen:
  assumes "cred_inv E view D s" and "started s" and "\<not> k_is_in_isr s" and "plan_at E (configured_region s) \<noteq> None"
    and "\<And>w. cm = Some w \<Longrightarrow> length w = 6" and w: "rzi_lorawan_credentials_set_channel_mask E cm s = (0, t)"
  shows "rzi_lorawan_check_thread t = 0 \<and> channel_plan_of E t = (0, plan_at E (configured_region s), t)
    \<and> read_mask E x t = (0, case cm of None \<Rightarrow> all_channels | Some m \<Rightarrow> m, t)"
proof -
  note e = set_mask_ok [OF assms(1,5) w]
  then have c: "creds_only s t" by simp
  from creds_only_fields [OF c] creds_only_isr [OF c] assms(2-4) channel_plan_started [of t E] e show ?thesis
    by (simp add: rzi_lorawan_check_thread_def)
qed

lemma sub_band_distinct:
  assumes "1 \<le> a" "a \<le> 8" "1 \<le> b" "b \<le> 8" "sub_band_channels a = sub_band_channels b"
  shows "a = b"
  using sub_band_channels_set(2) [OF assms(1,2), of "63 + a"] sub_band_channels_set(2) [OF assms(3,4), of "63 + a"] assms by auto

lemma sub_band_not_all: "1 \<le> b \<Longrightarrow> b \<le> 8 \<Longrightarrow> sub_band_channels b \<noteq> all_channels"
  using sub_band_channels_set(2) [of b "if b = 1 then 65 else 64"] all_channels_set(2) [of "if b = 1 then 65 else 64"]
  by (cases "b = 1") auto

section \<open>Properties\<close>

text \<open>
  Sub-bands round-trip: on a running service, after selecting a sub-band with code 0 (0 means
  all channels) the sub-band query returns exactly that number and changes nothing.
\<close>

theorem sub_band_roundtrip:
  assumes inv: "cred_inv E view D s" and st: "started s"
    and w: "rzi_lorawan_set_sub_band E b s = (0, t)"
  shows "b \<le> SUB_BANDS \<and> rzi_lorawan_get_sub_band E (Some old) t = (0, Some b, t)"
proof -
  have isr: "\<not> k_is_in_isr s" using w by (auto simp: rzi_lorawan_set_sub_band_def rzi_lorawan_check_thread_def Let_def split: if_splits)
  have p: "plan_at E (configured_region s) \<noteq> None" and b: "b \<le> 8"
    and m: "rzi_lorawan_credentials_set_channel_mask E (if b = 0 then None else Some (sub_band_channels b)) s = (0, t)"
    using w isr channel_plan_started [OF st isr, of E] sub_band_not_all [of b]
    by (auto simp: rzi_lorawan_set_sub_band_def rzi_lorawan_check_thread_def store_mask_def Let_def split: if_splits)
  have seen: "rzi_lorawan_check_thread t = 0 \<and> channel_plan_of E t = (0, plan_at E (configured_region s), t)
      \<and> read_mask E zero_mask t = (0, if b = 0 then all_channels else sub_band_channels b, t)"
    using stored_mask_seen [OF inv st isr p _ m, of zero_mask] sub_band_channels_set(1) [of b] b by (auto split: if_splits)
  have nth: "[1..<8 + 1] ! k = Suc k" if "k < 8" for k :: nat using that nth_upt [of 1 k "8 + 1"] by simp
  have f: "find (\<lambda>band. sub_band_channels b = sub_band_channels band) [1..<8 + 1] = Some b" if "1 \<le> b"
    unfolding find_Some_iff
  proof (intro exI [of _ "b - 1"] conjI allI impI)
    show "b - 1 < length [1..<8 + 1]" "b = [1..<8 + 1] ! (b - 1)"
      "sub_band_channels b = sub_band_channels ([1..<8 + 1] ! (b - 1))"
      using b that nth [of "b - 1"] by (simp_all del: upt_rec_numeral)
    fix k assume k: "k < b - 1"
    then have "1 \<le> b" "k < 8" "Suc k \<le> 8" "Suc k \<noteq> b" using b by linarith+
    then show "sub_band_channels b \<noteq> sub_band_channels ([1..<8 + 1] ! k)"
      using nth [of k] sub_band_distinct [of b "Suc k"] b by (auto simp del: upt_rec_numeral)
  qed
  note d = rzi_lorawan_get_sub_band_def [of E "Some old" t, unfolded seen [THEN conjunct1] seen [THEN conjunct2, THEN conjunct1]]
  show ?thesis
  proof (cases "b = 0")
    case True
    with seen d show ?thesis by (simp del: upt_rec_numeral)
  next
    case False
    with seen d f sub_band_not_all [of b] b show ?thesis by (simp del: upt_rec_numeral)
  qed
qed

text \<open>The reference instance, started in US915.\<close>

definition us_state :: "(string \<rightharpoonup> bytes, bool) lorawan_state" where
  "us_state = ref_state\<lparr>started := True, configured_region := RZI_LORAWAN_REGION_US_915\<rparr>"

lemma us_state_inv: "cred_inv ref_env (\<lambda>d. d) D us_state"
  using ref_state_inv cred_inv_cong [of us_state ref_state ref_env "\<lambda>d. d"] by (simp add: us_state_def)

theorem sub_band_roundtrip_witness:
  "\<exists>t. rzi_lorawan_set_sub_band ref_env 2 us_state = (0, t)
     \<and> rzi_lorawan_get_sub_band ref_env (Some 0) t = (0, Some 2, t)"
proof -
  let ?w = "rzi_lorawan_set_sub_band ref_env 2 us_state"
  have "fst ?w = 0" by code_simp
  then have w: "?w = (0, snd ?w)" by (simp add: prod_eq_iff)
  have "started us_state" by (simp add: us_state_def)
  from sub_band_roundtrip [OF us_state_inv this w] w show ?thesis by auto
qed

lemma frequency_channel_sound:
  assumes "0 \<le> frequency_channel plan f"
  shows "nat (frequency_channel plan f) < 72 \<and> channel_frequency plan (nat (frequency_channel plan f)) = f"
proof (cases "find (\<lambda>channel. channel_frequency plan channel = f) [0..<72]")
  case None
  with assms show ?thesis by (simp add: frequency_channel_def del: upt_rec_numeral)
next
  case (Some c)
  then have "frequency_channel plan f = int c" by (simp add: frequency_channel_def del: upt_rec_numeral)
  moreover have "c < 72 \<and> channel_frequency plan c = f"
    using Some by (auto simp: find_Some_iff simp del: upt_rec_numeral)
  ultimately show ?thesis by simp
qed

lemma single_channel:
  assumes "c < 72"
  shows "filter (has_channel (put_channel c zero_mask)) [0..<72] = [c]" and "channel_mask_valid (put_channel c zero_mask)"
proof -
  have h: "has_channel (put_channel c zero_mask) d \<longleftrightarrow> d = c" if "d < 96" for d
    using has_put_channel [of zero_mask c d] has_zero_mask [of d] assms that by simp
  have "filter (has_channel (put_channel c zero_mask)) [0..<72] = filter (\<lambda>d. d = c) [0..<72]"
    using h by (intro filter_cong) auto
  also have "\<dots> = [c]"
  proof -
    have "[0..<72] = [0..<c] @ c # [Suc c..<72]"
      using assms upt_add_eq_append [of 0 c "72 - c"] upt_conv_Cons [of c 72] by simp
    then show ?thesis by (simp del: upt_rec_numeral)
  qed
  finally show "filter (has_channel (put_channel c zero_mask)) [0..<72] = [c]" .
  show "channel_mask_valid (put_channel c zero_mask)" using h assms by (auto simp: channel_mask_valid_iff)
qed

lemma all_channels_enabled: "filter (has_channel all_channels) [0..<72] = [0..<72]"
  by (rule filter_True) (auto simp: all_channels_set(2) simp del: upt_rec_numeral)

text \<open>
  The fixed channel is found and kept: on a running service, after selecting a frequency with
  code 0 the query returns exactly that frequency (0 for \<^verbatim>\<open>all channels\<close>); a non-zero frequency is
  accepted only if it is the centre of one of the 72 channels of the plan.
\<close>

theorem fixed_channel_roundtrip:
  assumes inv: "cred_inv E view D s" and st: "started s"
    and w: "rzi_lorawan_set_fixed_channel E f s = (0, t)"
  shows "rzi_lorawan_get_fixed_channel E (Some old) t = (0, Some f, t)
    \<and> (f \<noteq> 0 \<longrightarrow> (\<exists>plan c. plan_at E (configured_region s) = Some plan \<and> c < RZI_LORAWAN_FIXED_PLAN_CHANNELS \<and> channel_frequency plan c = f))"
proof -
  have isr: "\<not> k_is_in_isr s" using w by (auto simp: rzi_lorawan_set_fixed_channel_def rzi_lorawan_check_thread_def Let_def split: if_splits)
  let ?p = "the (plan_at E (configured_region s))"
  let ?c = "nat (frequency_channel ?p f)"
  have p: "plan_at E (configured_region s) \<noteq> None" and ch: "f \<noteq> 0 \<longrightarrow> 0 \<le> frequency_channel ?p f"
    and m: "rzi_lorawan_credentials_set_channel_mask E (if f = 0 then None else Some (put_channel ?c zero_mask)) s = (0, t)"
    using w isr channel_plan_started [OF st isr, of E]
    by (auto simp: rzi_lorawan_set_fixed_channel_def rzi_lorawan_check_thread_def Let_def split: if_splits)
  have seen: "rzi_lorawan_check_thread t = 0" "channel_plan_of E t = (0, plan_at E (configured_region s), t)"
      "read_mask E zero_mask t = (0, if f = 0 then all_channels else put_channel ?c zero_mask, t)"
  proof -
    have "\<And>w. (if f = 0 then None else Some (put_channel ?c zero_mask)) = Some w \<Longrightarrow> length w = 6"
      by (auto split: if_splits)
    from stored_mask_seen [OF inv st isr p this m, of zero_mask] show "rzi_lorawan_check_thread t = 0"
      "channel_plan_of E t = (0, plan_at E (configured_region s), t)"
      "read_mask E zero_mask t = (0, if f = 0 then all_channels else put_channel ?c zero_mask, t)"
      by simp_all
  qed
  show ?thesis
  proof (cases "f = 0")
    case True
    then show ?thesis using seen
      by (simp add: rzi_lorawan_get_fixed_channel_def all_channels_enabled Let_def del: upt_rec_numeral)
  next
    case False
    then have c: "?c < 72" "channel_frequency ?p ?c = f" using frequency_channel_sound ch by blast+
    then have "rzi_lorawan_get_fixed_channel E (Some old) t = (0, Some f, t)" using seen False
      by (simp add: rzi_lorawan_get_fixed_channel_def single_channel(1) [OF c(1)] Let_def del: upt_rec_numeral)
    then show ?thesis using c p by auto
  qed
qed

theorem fixed_channel_roundtrip_witness:
  "\<exists>t. rzi_lorawan_set_fixed_channel ref_env 903900000 us_state = (0, t)
     \<and> rzi_lorawan_get_fixed_channel ref_env (Some 0) t = (0, Some 903900000, t)"
proof -
  let ?w = "rzi_lorawan_set_fixed_channel ref_env 903900000 us_state"
  have "fst ?w = 0" by code_simp
  then have w: "?w = (0, snd ?w)" by (simp add: prod_eq_iff)
  have "started us_state" by (simp add: us_state_def)
  from fixed_channel_roundtrip [OF us_state_inv this w, of 0] w show ?thesis by auto
qed

text \<open>
  Channel masks round-trip: on a running service, a mask of five or six words stored with
  code 0 enables at least one of the 72 channels and none beyond them, and the query with six
  words returns it padded with zeros.
\<close>

theorem channel_mask_roundtrip:
  assumes inv: "cred_inv E view D s" and st: "started s" and len: "length m = n"
    and w: "rzi_lorawan_set_channel_mask E (Some m) n s = (0, t)"
  shows "channel_mask_valid (overlay m zero_mask)
    \<and> rzi_lorawan_get_channel_mask E 6 (Some old) t = (0, Some (overlay m zero_mask), t)"
proof -
  have isr: "\<not> k_is_in_isr s" using w by (auto simp: rzi_lorawan_set_channel_mask_def rzi_lorawan_check_thread_def Let_def split: if_splits)
  let ?m = "overlay m zero_mask"
  have p: "plan_at E (configured_region s) \<noteq> None" and n: "5 \<le> n" "n \<le> 6"
    and k: "rzi_lorawan_credentials_set_channel_mask E (if ?m = all_channels then None else Some ?m) s = (0, t)"
    using w isr channel_plan_started [OF st isr, of E] len
    by (auto simp: rzi_lorawan_set_channel_mask_def rzi_lorawan_check_thread_def store_mask_def Let_def split: if_splits)
  have l: "length ?m = 6" using n len by simp
  have seen: "rzi_lorawan_check_thread t = 0" "channel_plan_of E t = (0, plan_at E (configured_region s), t)"
      "read_mask E zero_mask t = (0, ?m, t)"
  proof -
    have "\<And>w. (if ?m = all_channels then None else Some ?m) = Some w \<Longrightarrow> length w = 6"
      using l by (simp split: if_splits)
    from stored_mask_seen [OF inv st isr p this k, of zero_mask] show "rzi_lorawan_check_thread t = 0"
      "channel_plan_of E t = (0, plan_at E (configured_region s), t)" "read_mask E zero_mask t = (0, ?m, t)"
      by (simp_all split: if_splits)
  qed
  have "channel_mask_valid ?m"
  proof (cases "?m = all_channels")
    case True
    then show ?thesis using all_channels_set(2) by (auto simp: channel_mask_valid_iff intro!: exI [of _ 0])
  next
    case False
    then show ?thesis using set_mask_ok [OF inv _ k] l by auto
  qed
  moreover have "map (\<lambda>word. if word < length ?m then ?m ! word else 0) [0..<6] = ?m"
    using l by (intro nth_equalityI) (auto simp del: upt_rec_numeral)
  ultimately show ?thesis using seen by (simp add: rzi_lorawan_get_channel_mask_def del: upt_rec_numeral)
qed

theorem channel_mask_roundtrip_witness:
  "\<exists>t. rzi_lorawan_set_channel_mask ref_env (Some [0xFF, 0, 0, 0, 1]) 5 us_state = (0, t)
     \<and> rzi_lorawan_get_channel_mask ref_env 6 (Some []) t = (0, Some (overlay [0xFF, 0, 0, 0, 1] zero_mask), t)"
proof -
  let ?w = "rzi_lorawan_set_channel_mask ref_env (Some [0xFF, 0, 0, 0, 1]) 5 us_state"
  have "fst ?w = 0" by code_simp
  then have w: "?w = (0, snd ?w)" by (simp add: prod_eq_iff)
  have "started us_state" by (simp add: us_state_def)
  from channel_mask_roundtrip [OF us_state_inv this _ w, of "[]"] w show ?thesis by auto
qed

end
