(* ===== verification/Rzi_Mac.thy ===== *)
theory Rzi_Mac
  imports Rzi_Credentials
begin

text \<open>
  LinkCheckReq and DeviceTimeReq scheduling, \<^verbatim>\<open>src/lorawan/api/lorawan_mac_commands.c\<close>: two static
  policies and the hook that every uplink runs.
\<close>

section \<open>Operations\<close>

definition mac_link_check :: "('d, 'x, 's, 'e) lorawan_env_scheme \<Rightarrow> 'x bop option" where
  "mac_link_check E = Option.bind (bk_mac (backend E)) bk_request_link_check"

definition mac_device_time :: "('d, 'x, 's, 'e) lorawan_env_scheme \<Rightarrow> 'x bop option" where
  "mac_device_time E = Option.bind (bk_mac (backend E)) bk_request_device_time"

definition trig_link_check ::
  "('d, 'x, 's, 'e) lorawan_env_scheme \<Rightarrow> ('d, 'x, 'm) lorawan_state_scheme op" where
  "trig_link_check E s =
     (case mac_link_check E of None \<Rightarrow> (- RZI_ERR_NOT_SUPPORTED, s) | Some f \<Rightarrow> run_bop E f s)"

definition trig_device_time ::
  "('d, 'x, 's, 'e) lorawan_env_scheme \<Rightarrow> ('d, 'x, 'm) lorawan_state_scheme op" where
  "trig_device_time E s =
     (case mac_device_time E of None \<Rightarrow> (- RZI_ERR_NOT_SUPPORTED, s) | Some f \<Rightarrow> run_bop E f s)"

definition rzi_lorawan_get_link_check_mode ::
  "('d, 'x, 's, 'e) lorawan_env_scheme \<Rightarrow> (('d, 'x, 'm) lorawan_state_scheme, nat) getter" where
  "rzi_lorawan_get_link_check_mode E mode s =
     (let rc = rzi_lorawan_check_started s in
      if rc \<noteq> 0 then (rc, mode, s)
      else if mode = None then (- RZI_ERR_INVALID, mode, s)
      else if mac_link_check E = None then (- RZI_ERR_NOT_SUPPORTED, mode, s)
      else (0, Some (link_check_mode s), s))"

definition rzi_lorawan_request_link_check ::
  "('d, 'x, 's, 'e) lorawan_env_scheme \<Rightarrow> nat \<Rightarrow> ('d, 'x, 'm) lorawan_state_scheme op" where
  "rzi_lorawan_request_link_check E mode s =
     (let rc = rzi_lorawan_check_started s in
      if rc \<noteq> 0 then (rc, s)
      else if mode > RZI_LORAWAN_LINK_CHECK_EVERY_UPLINK then (- RZI_ERR_INVALID, s)
      else if mac_link_check E = None then (- RZI_ERR_NOT_SUPPORTED, s)
      else let t = s\<lparr>link_check_mode := mode\<rparr> in
        if mode = RZI_LORAWAN_LINK_CHECK_DISABLED then (0, t)
        else case trig_link_check E t of (rc, u) \<Rightarrow>
          (rc, if rc = 0 \<and> mode = RZI_LORAWAN_LINK_CHECK_ONCE
               then u\<lparr>link_check_mode := RZI_LORAWAN_LINK_CHECK_DISABLED\<rparr> else u))"

definition rzi_lorawan_get_device_time_enabled ::
  "('d, 'x, 's, 'e) lorawan_env_scheme \<Rightarrow> (('d, 'x, 'm) lorawan_state_scheme, bool) getter" where
  "rzi_lorawan_get_device_time_enabled E enabled s =
     (let rc = rzi_lorawan_check_started s in
      if rc \<noteq> 0 then (rc, enabled, s)
      else if enabled = None then (- RZI_ERR_INVALID, enabled, s)
      else if mac_device_time E = None then (- RZI_ERR_NOT_SUPPORTED, enabled, s)
      else (0, Some (device_time_enabled s), s))"

definition rzi_lorawan_request_device_time ::
  "('d, 'x, 's, 'e) lorawan_env_scheme \<Rightarrow> bool \<Rightarrow> ('d, 'x, 'm) lorawan_state_scheme op" where
  "rzi_lorawan_request_device_time E enabled s =
     (let rc = rzi_lorawan_check_started s in
      if rc \<noteq> 0 then (rc, s)
      else if mac_device_time E = None then (- RZI_ERR_NOT_SUPPORTED, s)
      else let t = s\<lparr>device_time_enabled := enabled\<rparr> in
        if \<not> enabled then (0, t) else trig_device_time E t)"

definition rzi_lorawan_get_network_time ::
  "('d, 'x, 's, 'e) lorawan_env_scheme \<Rightarrow> (('d, 'x, 'm) lorawan_state_scheme, rzi_lorawan_network_time) getter" where
  "rzi_lorawan_get_network_time E time s =
     (let rc = rzi_lorawan_check_started s in
      if rc \<noteq> 0 then (rc, time, s)
      else if time = None then (- RZI_ERR_INVALID, time, s)
      else case Option.bind (bk_mac (backend E)) bk_get_network_time of
        None \<Rightarrow> (- RZI_ERR_NOT_SUPPORTED, time, s)
      | Some f \<Rightarrow> (case run_bget E f (the time) s of (rc, v, t) \<Rightarrow> (rc, Some v, t)))"

definition rzi_lorawan_mac_commands_on_uplink ::
  "('d, 'x, 's, 'e) lorawan_env_scheme \<Rightarrow> ('d, 'x, 'm) lorawan_state_scheme \<Rightarrow> ('d, 'x, 'm) lorawan_state_scheme" where
  "rzi_lorawan_mac_commands_on_uplink E s =
     (let t = (if link_check_mode s = RZI_LORAWAN_LINK_CHECK_EVERY_UPLINK then snd (trig_link_check E s) else s)
      in if device_time_enabled t then snd (trig_device_time E t) else t)"

section \<open>Frames\<close>

lemma trig_queue_only: "queue_only s (snd (trig_link_check E s))" "queue_only s (snd (trig_device_time E s))"
  by (auto simp: trig_link_check_def trig_device_time_def queue_only_run_bop split: option.splits)

lemma on_uplink_queue_only: "queue_only s (rzi_lorawan_mac_commands_on_uplink E s)"
  using trig_queue_only [of s E] queue_only_trans [OF trig_queue_only(1) [of s E] trig_queue_only(2) [of _ E]]
  by (simp add: rzi_lorawan_mac_commands_on_uplink_def Let_def)

lemma queue_only_fields:
  assumes "queue_only s t"
  shows "sets t = sets s" "credentials t = credentials s" "link_check_mode t = link_check_mode s"
    "device_time_enabled t = device_time_enabled s" "callback_slots t = callback_slots s" "services t = services s"
    "configured_region t = configured_region s" "configured_class t = configured_class s" "started t = started s"
    "join_sequence_active t = join_sequence_active s" "join_retries_remaining t = join_retries_remaining s"
    "power_class_c_held t = power_class_c_held s" "delivered t = delivered s" "k_is_in_isr t = k_is_in_isr s"
  using assms by (auto simp: queue_only_def k_is_in_isr_def)

section \<open>Property\<close>

text \<open>
  Link-check scheduling: a request that returns 0 leaves the policy at the requested mode,
  except that a one-shot request has already been handed to the stack and leaves it disabled; so
  only the every-uplink policy makes later uplinks carry a LinkCheckReq.
\<close>

theorem link_check_policy:
  assumes "rzi_lorawan_request_link_check E mode s = (0, t)"
  shows "mode \<le> RZI_LORAWAN_LINK_CHECK_EVERY_UPLINK
    \<and> link_check_mode t = (if mode = RZI_LORAWAN_LINK_CHECK_ONCE then RZI_LORAWAN_LINK_CHECK_DISABLED else mode)
    \<and> (mode \<noteq> RZI_LORAWAN_LINK_CHECK_EVERY_UPLINK \<and> \<not> device_time_enabled s \<longrightarrow>
        rzi_lorawan_mac_commands_on_uplink E t = t)"
proof -
  let ?s = "s\<lparr>link_check_mode := mode\<rparr>"
  obtain rc u where u: "trig_link_check E ?s = (rc, u)" by fastforce
  have q: "link_check_mode u = mode" "device_time_enabled u = device_time_enabled s"
    using queue_only_fields(3,4) [OF trig_queue_only(1) [of ?s E]] u by simp_all
  show ?thesis using assms u q
    by (auto simp: rzi_lorawan_request_link_check_def Let_def rzi_lorawan_mac_commands_on_uplink_def split: if_splits)
qed

text \<open>The reference backend with a LinkCheckReq operation.\<close>

definition mac_env where
  "mac_env = ref_env\<lparr>backend := ref_backend\<lparr>bk_mac := Some \<lparr>bk_request_link_check = Some (\<lambda>x. (0, [], x)),
     bk_request_device_time = None, bk_get_network_time = None\<rparr>\<rparr>\<rparr>"

theorem link_check_policy_witness:
  "\<exists>t. rzi_lorawan_request_link_check mac_env RZI_LORAWAN_LINK_CHECK_ONCE (ref_state\<lparr>started := True\<rparr>) = (0, t)
    \<and> link_check_mode t = RZI_LORAWAN_LINK_CHECK_DISABLED \<and> rzi_lorawan_mac_commands_on_uplink mac_env t = t"
proof -
  let ?w = "rzi_lorawan_request_link_check mac_env 1 (ref_state\<lparr>started := True\<rparr>)"
  have "fst ?w = 0" by code_simp
  then have w: "?w = (0, snd ?w)" by (simp add: prod_eq_iff)
  from link_check_policy [OF w] w show ?thesis by (auto simp: ref_state_def)
qed

end
