(* ===== verification/Rzi_Lorawan.thy ===== *)
theory Rzi_Lorawan
  imports Rzi_Channel Rzi_Mac
begin

text \<open>
  The LoRaWAN service core, \<^verbatim>\<open>src/lorawan/lorawan.c\<close>: lifecycle, callbacks and services, the event
  queue and its dispatcher, the join sequence with its retry counter, uplinks, and the device
  class with its power lock. Each API call and each dispatcher iteration is one step.
\<close>

section \<open>Device class and power\<close>

definition update_class_c_power_locked ::
  "('d, 'x, 's, 'e) lorawan_env_scheme \<Rightarrow> bool \<Rightarrow> ('d, 'x, 'm) lorawan_state_scheme \<Rightarrow> ('d, 'x, 'm) lorawan_state_scheme" where
  "update_class_c_power_locked E class_c s =
     (if cfg_auto_lock E then
        let p = pwr (store (sets s)) in
        if class_c \<and> \<not> power_class_c_held s then
          (case rzi_power_lock_get RZI_POWER_LOCK_LORAWAN p of (rc, q) \<Rightarrow>
             let t = upd_pwr q s in if rc = 0 then t\<lparr>power_class_c_held := True\<rparr> else t)
        else if \<not> class_c \<and> power_class_c_held s then
          (case rzi_power_lock_put RZI_POWER_LOCK_LORAWAN p of (rc, q) \<Rightarrow>
             let t = upd_pwr q s in if rc = 0 then t\<lparr>power_class_c_held := False\<rparr> else t)
        else s
      else s)"

definition rzi_lorawan_note_class ::
  "('d, 'x, 's, 'e) lorawan_env_scheme \<Rightarrow> nat \<Rightarrow> ('d, 'x, 'm) lorawan_state_scheme \<Rightarrow> ('d, 'x, 'm) lorawan_state_scheme" where
  "rzi_lorawan_note_class E device_class s =
     update_class_c_power_locked E (device_class = RZI_LORAWAN_CLASS_C) (s\<lparr>configured_class := device_class\<rparr>)"

section \<open>Events\<close>

text \<open>The public event, if any, and the signal quality kept from a downlink.\<close>

definition event_from_backend ::
  "backend_event \<Rightarrow> ('d, 'x, 'm) lorawan_state_scheme \<Rightarrow> rzi_lorawan_event option \<times> ('d, 'x, 'm) lorawan_state_scheme" where
  "event_from_backend event s =
     (case event of
        BACKEND_READY \<Rightarrow> (Some EVENT_READY, s)
      | BACKEND_JOINED \<Rightarrow> (Some EVENT_JOINED, s)
      | BACKEND_JOIN_FAILED error \<Rightarrow> (Some (EVENT_JOIN_FAILED (if error \<noteq> 0 then error else - RZI_ERR_TIMEOUT)), s)
      | BACKEND_TX_DONE status error \<Rightarrow> (Some (EVENT_TXDONE \<lparr>tx_status = status, tx_error = error\<rparr>), s)
      | BACKEND_DOWNLINK d \<Rightarrow>
          (Some (EVENT_DOWNDATA d),
           s\<lparr>last_rssi_dbm := dl_rssi_dbm d, last_snr_quarter_db := dl_snr_quarter_db d, last_downlink_valid := True\<rparr>)
      | BACKEND_ERROR error \<Rightarrow> (Some (EVENT_ERROR error), s)
      | BACKEND_STATE_CHANGED st \<Rightarrow> (Some (EVENT_STATE_CHANGED st), s)
      | BACKEND_LINK_CHECK r \<Rightarrow> (Some (EVENT_LINK_CHECK r), s)
      | BACKEND_DEVICE_TIME error \<Rightarrow> (Some (EVENT_LORAWAN_MAC_TIME error), s)
      | BACKEND_CLASS_B st \<Rightarrow> (Some (EVENT_CLASS_B st), s)
      | BACKEND_DUTY_CYCLE limited \<Rightarrow> (Some (EVENT_REGIONAL_DUTY_CYCLE limited), s)
      | BACKEND_NO_DOWNLINK reasons \<Rightarrow> (Some (EVENT_NO_DOWNLINK_THRESHOLD reasons), s)
      | BACKEND_FUOTA _ _ _ \<Rightarrow> (None, s))"

definition clear_join_sequence :: "('d, 'x, 'm) lorawan_state_scheme \<Rightarrow> ('d, 'x, 'm) lorawan_state_scheme" where
  "clear_join_sequence s =
     rzi_lorawan_credentials_set_join_active False (s\<lparr>join_sequence_active := False, join_retries_remaining := 0\<rparr>)"

definition swallow_join_event ::
  "('d, 'x, 's, 'e) lorawan_env_scheme \<Rightarrow> backend_event \<Rightarrow> ('d, 'x, 'm) lorawan_state_scheme
   \<Rightarrow> bool \<times> ('d, 'x, 'm) lorawan_state_scheme" where
  "swallow_join_event E event s =
     (case event of
        BACKEND_JOINED \<Rightarrow> (False, clear_join_sequence s)
      | BACKEND_JOIN_FAILED _ \<Rightarrow>
          if \<not> join_sequence_active s then (False, s)
          else if join_retries_remaining s > 0
            then (True, s\<lparr>join_retries_remaining := join_retries_remaining s - 1\<rparr>)
          else (False, publish_state E STATE_READY
                  (snd (run_bop E (bk_leave (bk_base (backend E))) (clear_join_sequence s))))
      | _ \<Rightarrow> (False, s))"

text \<open>One callback invocation, recorded in the history.\<close>

definition deliver_to ::
  "('d, 'x, ('d, 'x, 'm) lorawan_state_scheme, 'e) lorawan_env_scheme \<Rightarrow> rzi_lorawan_event option
   \<Rightarrow> rzi_lorawan_callbacks \<Rightarrow> ('d, 'x, 'm) lorawan_state_scheme \<Rightarrow> ('d, 'x, 'm) lorawan_state_scheme" where
  "deliver_to E public_event cb s =
     (case (public_event, cb_on_event cb) of
        (Some ev, Some f) \<Rightarrow> on_event E f ev (cb_user_data cb) (s\<lparr>delivered := delivered s @ [(cb, ev)]\<rparr>)
      | _ \<Rightarrow> s)"

definition dispatch ::
  "('d, 'x, ('d, 'x, 'm) lorawan_state_scheme, 'e) lorawan_env_scheme \<Rightarrow> backend_event
   \<Rightarrow> ('d, 'x, 'm) lorawan_state_scheme \<Rightarrow> ('d, 'x, 'm) lorawan_state_scheme" where
  "dispatch E event s =
     (let subscribers = List.map_filter id (callback_slots s) in
      case swallow_join_event E event s of (swallowed, t) \<Rightarrow>
        if swallowed then t
        else case event_from_backend event t of (public_event, u) \<Rightarrow>
          let v = fold (deliver_to E public_event) subscribers u in
          fold (\<lambda>i w. case svc_on_event E i of None \<Rightarrow> w | Some h \<Rightarrow> h event w) (services v) v)"

text \<open>One iteration of the dispatcher thread; \<open>None\<close>: it waits for an event.\<close>

definition dispatcher_step ::
  "('d, 'x, ('d, 'x, 'm) lorawan_state_scheme, 'e) lorawan_env_scheme
   \<Rightarrow> ('d, 'x, 'm) lorawan_state_scheme \<Rightarrow> ('d, 'x, 'm) lorawan_state_scheme option" where
  "dispatcher_step E s =
     (case k_msgq_get E (events s) of
        None \<Rightarrow> None
      | Some (event, q) \<Rightarrow>
          let t = dispatch E event (s\<lparr>events := q\<rparr>) in
          Some (if overflow t then dispatch E (BACKEND_ERROR (- RZI_ERR_OVERFLOW)) (t\<lparr>overflow := False\<rparr>) else t))"

section \<open>Callbacks and services\<close>

definition callbacks_empty :: "rzi_lorawan_callbacks \<Rightarrow> bool" where
  "callbacks_empty callbacks \<longleftrightarrow> cb_on_event callbacks = None"

definition same_subscriber :: "rzi_lorawan_callbacks \<Rightarrow> rzi_lorawan_callbacks \<Rightarrow> bool" where
  "same_subscriber registered callbacks \<longleftrightarrow>
     cb_on_event registered = cb_on_event callbacks \<and> cb_user_data registered = cb_user_data callbacks"

text \<open>The scan over the slots: an error, or the first free slot if there is one.\<close>

fun scan_slots ::
  "rzi_lorawan_callbacks \<Rightarrow> rzi_lorawan_callbacks option list \<Rightarrow> nat \<Rightarrow> nat option \<Rightarrow> int + nat option" where
  "scan_slots cb [] i available = Inr available"
| "scan_slots cb (None # slots) i available =
     scan_slots cb slots (Suc i) (if available = None then Some i else available)"
| "scan_slots cb (Some registered # slots) i available =
     (if same_subscriber registered cb then Inl (- RZI_ERR_ALREADY) else scan_slots cb slots (Suc i) available)"

definition rzi_lorawan_register_callbacks ::
  "rzi_lorawan_callbacks option \<Rightarrow> ('d, 'x, 'm) lorawan_state_scheme op" where
  "rzi_lorawan_register_callbacks callbacks s =
     (if k_is_in_isr s then (- RZI_ERR_ISR, s)
      else case callbacks of
        None \<Rightarrow> (- RZI_ERR_INVALID, s)
      | Some cb \<Rightarrow> if callbacks_empty cb then (- RZI_ERR_INVALID, s)
          else case scan_slots cb (callback_slots s) 0 None of
            Inl rc \<Rightarrow> (rc, s)
          | Inr None \<Rightarrow> (- RZI_ERR_NO_RESOURCE, s)
          | Inr (Some i) \<Rightarrow> (0, s\<lparr>callback_slots := (callback_slots s)[i := Some cb]\<rparr>))"

fun find_slot :: "rzi_lorawan_callbacks \<Rightarrow> rzi_lorawan_callbacks option list \<Rightarrow> nat option" where
  "find_slot cb [] = None"
| "find_slot cb (slot # slots) =
     (case slot of
        None \<Rightarrow> map_option Suc (find_slot cb slots)
      | Some registered \<Rightarrow> if same_subscriber registered cb then Some 0 else map_option Suc (find_slot cb slots))"

definition rzi_lorawan_unregister_callbacks ::
  "rzi_lorawan_callbacks option \<Rightarrow> ('d, 'x, 'm) lorawan_state_scheme op" where
  "rzi_lorawan_unregister_callbacks callbacks s =
     (if k_is_in_isr s then (- RZI_ERR_ISR, s)
      else case callbacks of
        None \<Rightarrow> (- RZI_ERR_INVALID, s)
      | Some cb \<Rightarrow> if callbacks_empty cb then (- RZI_ERR_INVALID, s)
          else case find_slot cb (callback_slots s) of
            None \<Rightarrow> (- RZI_ERR_NOT_FOUND, s)
          | Some i \<Rightarrow> (0, s\<lparr>callback_slots := (callback_slots s)[i := None]\<rparr>))"

definition rzi_lorawan_register_service :: "nat option \<Rightarrow> ('d, 'x, 'm) lorawan_state_scheme op" where
  "rzi_lorawan_register_service service s =
     (let rc = rzi_lorawan_check_thread s in
      if rc \<noteq> 0 then (rc, s)
      else case service of
        None \<Rightarrow> (- RZI_ERR_INVALID, s)
      | Some i \<Rightarrow> if length (services s) \<ge> 2 then (- RZI_ERR_NO_RESOURCE, s)
                  else (0, s\<lparr>services := services s @ [i]\<rparr>))"

section \<open>Lifecycle\<close>

definition rzi_lorawan_set_region ::
  "('d, 'x, 's, 'e) lorawan_env_scheme \<Rightarrow> nat \<Rightarrow> ('d, 'x, 'm) lorawan_state_scheme op" where
  "rzi_lorawan_set_region E region s =
     (if k_is_in_isr s then (- RZI_ERR_ISR, s)
      else if region > RZI_LORAWAN_REGION_RU_864 then (- RZI_ERR_INVALID, s)
      else if started s then (- RZI_ERR_INVALID_STATE, s)
      else case rzi_lorawan_config_set_region E region s of (rc, t) \<Rightarrow>
        (rc, if rc = 0 then t\<lparr>configured_region := region\<rparr> else t))"

definition rzi_lorawan_set_join_backoff_bypass :: "bool \<Rightarrow> ('d, 'x, 'm) lorawan_state_scheme op" where
  "rzi_lorawan_set_join_backoff_bypass enabled s =
     (if k_is_in_isr s then (- RZI_ERR_ISR, s)
      else if started s then (- RZI_ERR_INVALID_STATE, s)
      else (0, s\<lparr>configured_join_backoff_bypass := enabled\<rparr>))"

definition rzi_lorawan_init ::
  "('d, 'x, ('d, 'x, 'm) lorawan_state_scheme, 'e) lorawan_env_scheme \<Rightarrow> nat \<Rightarrow> ('d, 'x, 'm) lorawan_state_scheme op" where
  "rzi_lorawan_init E region s =
     (if k_is_in_isr s then (- RZI_ERR_ISR, s)
      else if region > RZI_LORAWAN_REGION_RU_864 then (- RZI_ERR_INVALID, s)
      else if started s then (- RZI_ERR_ALREADY, s)
      else case rzi_lorawan_config_set_region E region (s\<lparr>started := True\<rparr>) of (rc, t) \<Rightarrow>
        if rc \<noteq> 0 then (rc, t\<lparr>started := False\<rparr>)
        else let u = publish_state E STATE_STARTING (t\<lparr>configured_region := region\<rparr>) in
          case run_bop E (bk_start (bk_base (backend E)) region (configured_join_backoff_bypass u)) u of (rc, v) \<Rightarrow>
            if rc \<noteq> 0 then (rc, publish_state E STATE_STOPPED (v\<lparr>started := False\<rparr>))
            else (0, fold (\<lambda>i w. case svc_on_started E i of None \<Rightarrow> w | Some h \<Rightarrow> h w) (services v) v))"

section \<open>Joining\<close>

definition begin_join ::
  "('d, 'x, 's, 'e) lorawan_env_scheme \<Rightarrow> ('d, 'x, 'm) lorawan_state_scheme op" where
  "begin_join E s =
     (case rzi_lorawan_get_activation E (Some 0) s of (rc, mode, t) \<Rightarrow>
        if rc \<noteq> 0 then (rc, t)
        else if the mode = RZI_LORAWAN_ACTIVATION_OTAA \<and> bk_capabilities (backend E) AND RZI_LORAWAN_CAP_OTAA = 0
          then (- RZI_ERR_NOT_SUPPORTED, t)
        else if the mode = RZI_LORAWAN_ACTIVATION_ABP \<and> bk_capabilities (backend E) AND RZI_LORAWAN_CAP_ABP = 0
          then (- RZI_ERR_NOT_SUPPORTED, t)
        else case rzi_lorawan_get_join_attempts E (Some 0) t of (rc, attempts, u) \<Rightarrow>
          if rc \<noteq> 0 then (rc, u)
          else case rzi_lorawan_credentials_build_config E (Some (config_of E 0 credentials_zero)) u of (rc, config, v) \<Rightarrow>
            if rc \<noteq> 0 then (rc, v)
            else if join_sequence_active v then (- RZI_ERR_BUSY, v)
            else let w = publish_state E STATE_JOINING (rzi_lorawan_credentials_set_join_active True
                       (v\<lparr>join_sequence_active := True, join_retries_remaining := unat (the attempts)\<rparr>))
              in case run_bop E (bk_join (bk_base (backend E)) (the config)) w of (rc, x) \<Rightarrow>
                (rc, if rc \<noteq> 0 then publish_state E STATE_READY (clear_join_sequence x) else x))"

definition stop_join ::
  "('d, 'x, 's, 'e) lorawan_env_scheme \<Rightarrow> ('d, 'x, 'm) lorawan_state_scheme op" where
  "stop_join E s =
     (let was_active = join_sequence_active s; t = clear_join_sequence s in
      if \<not> was_active \<or> rzi_lorawan_check_started t \<noteq> 0 then (0, t)
      else case run_bget E (bk_is_joined (bk_base (backend E))) False t of (rc, joined, u) \<Rightarrow>
        case (if rc = 0 \<and> \<not> joined
              then (case run_bop E (bk_leave (bk_base (backend E))) u of (rc, v) \<Rightarrow>
                      (if rc = - RZI_ERR_NOT_SUPPORTED then 0 else rc, v))
              else (rc, u)) of
          (rc, v) \<Rightarrow> (rc, if rc = 0 \<and> \<not> joined then publish_state E STATE_READY v else v))"

definition rzi_lorawan_join ::
  "('d, 'x, 's, 'e) lorawan_env_scheme \<Rightarrow> int \<Rightarrow> int \<Rightarrow> int \<Rightarrow> int \<Rightarrow> ('d, 'x, 'm) lorawan_state_scheme op" where
  "rzi_lorawan_join E start_req auto interval attempts s =
     (let rc = rzi_lorawan_check_thread s in
      if rc \<noteq> 0 then (rc, s)
      else if start_req \<noteq> RZI_LORAWAN_JOIN_KEEP \<and> start_req \<noteq> 0 \<and> start_req \<noteq> 1 then (- RZI_ERR_INVALID, s)
      else if start_req = 1 \<and> join_sequence_active s then (- RZI_ERR_BUSY, s)
      else case rzi_lorawan_credentials_update_policy E auto interval attempts s of (rc, t) \<Rightarrow>
        if rc \<noteq> 0 then (rc, t)
        else if start_req = 0 then stop_join E t
        else if start_req \<noteq> 1 then (0, t)
        else let rc = rzi_lorawan_check_started t in if rc \<noteq> 0 then (rc, t) else begin_join E t)"

definition rzi_lorawan_leave ::
  "('d, 'x, 's, 'e) lorawan_env_scheme \<Rightarrow> ('d, 'x, 'm) lorawan_state_scheme op" where
  "rzi_lorawan_leave E s =
     (let rc = rzi_lorawan_check_started s in
      if rc \<noteq> 0 then (rc, s)
      else case run_bop E (bk_leave (bk_base (backend E))) s of (rc, t) \<Rightarrow>
        (rc, if rc = 0 then publish_state E STATE_READY (update_class_c_power_locked E False t) else t))"

section \<open>The backend contract\<close>

text \<open>
  What the assertions of \<^verbatim>\<open>check_backend_contract\<close> check: a group of operations is present exactly
  when its capability bit is set. The mandatory operations are present by their type.
\<close>

abbreviation (input) RZI_LORAWAN_CAP_NETWORK :: u32 where "RZI_LORAWAN_CAP_NETWORK \<equiv> push_bit 5 1"
abbreviation (input) RZI_LORAWAN_CAP_SESSION :: u32 where "RZI_LORAWAN_CAP_SESSION \<equiv> push_bit 7 1"
abbreviation (input) RZI_LORAWAN_CAP_MAC :: u32 where "RZI_LORAWAN_CAP_MAC \<equiv> push_bit 8 1"
abbreviation (input) RZI_LORAWAN_CAP_MULTICAST :: u32 where "RZI_LORAWAN_CAP_MULTICAST \<equiv> push_bit 9 1"
abbreviation (input) RZI_LORAWAN_CAP_CERTIFICATION :: u32 where "RZI_LORAWAN_CAP_CERTIFICATION \<equiv> push_bit 10 1"
abbreviation (input) RZI_LORAWAN_CAP_FUOTA :: u32 where "RZI_LORAWAN_CAP_FUOTA \<equiv> push_bit 11 1"

definition capability_matches :: "('d, 'x, 's, 'e) lorawan_env_scheme \<Rightarrow> u32 \<Rightarrow> 'o option \<Rightarrow> bool" where
  "capability_matches E capability ops \<longleftrightarrow> (bk_capabilities (backend E) AND capability \<noteq> 0) = (ops \<noteq> None)"

definition check_backend_contract :: "bool \<Rightarrow> ('d, 'x, 's, 'e) lorawan_env_scheme \<Rightarrow> bool" where
  "check_backend_contract cfg_fuota E \<longleftrightarrow>
     capability_matches E RZI_LORAWAN_CAP_NETWORK (bk_network (backend E))
     \<and> capability_matches E RZI_LORAWAN_CAP_CLASS_B (bk_class_b (backend E))
     \<and> capability_matches E RZI_LORAWAN_CAP_SESSION (bk_session (backend E))
     \<and> capability_matches E RZI_LORAWAN_CAP_MAC (bk_mac (backend E))
     \<and> capability_matches E RZI_LORAWAN_CAP_MULTICAST (bk_multicast (backend E))
     \<and> capability_matches E RZI_LORAWAN_CAP_CERTIFICATION (bk_certification (backend E))
     \<and> (cfg_fuota \<longrightarrow> capability_matches E RZI_LORAWAN_CAP_FUOTA (bk_fuota (backend E)))"

section \<open>Uplinks, class and queries\<close>

definition message_type_valid :: "nat \<Rightarrow> bool" where
  "message_type_valid type \<longleftrightarrow> type = RZI_LORAWAN_MSG_UNCONFIRMED \<or> type = RZI_LORAWAN_MSG_CONFIRMED"

definition check_joined ::
  "('d, 'x, 's, 'e) lorawan_env_scheme \<Rightarrow> ('d, 'x, 'm) lorawan_state_scheme op" where
  "check_joined E s =
     (let rc = rzi_lorawan_check_started s in
      if rc \<noteq> 0 then (rc, s)
      else case run_bget E (bk_is_joined (bk_base (backend E))) False s of (rc, joined, t) \<Rightarrow>
        if rc \<noteq> 0 then (rc, t) else (if joined then 0 else - RZI_ERR_NOT_JOINED, t))"

text \<open>\<open>None\<close> is the null data pointer.\<close>

definition rzi_lorawan_send ::
  "('d, 'x, 's, 'e) lorawan_env_scheme \<Rightarrow> u8 \<Rightarrow> bytes option \<Rightarrow> nat \<Rightarrow> nat \<Rightarrow> ('d, 'x, 'm) lorawan_state_scheme op" where
  "rzi_lorawan_send E port data n type s =
     (if (data = None \<and> n \<noteq> 0) \<or> port = 0 \<or> port > 223 \<or> \<not> message_type_valid type then (- RZI_ERR_INVALID, s)
      else if n > RZI_LORAWAN_MAX_PAYLOAD then (- RZI_ERR_TOO_LARGE, s)
      else case check_joined E s of (rc, t) \<Rightarrow>
        if rc \<noteq> 0 then (rc, t)
        else run_bop E (bk_send (bk_base (backend E)) port data n type) (rzi_lorawan_mac_commands_on_uplink E t))"

definition rzi_lorawan_send_empty ::
  "('d, 'x, 's, 'e) lorawan_env_scheme \<Rightarrow> bool \<Rightarrow> u8 \<Rightarrow> nat \<Rightarrow> ('d, 'x, 'm) lorawan_state_scheme op" where
  "rzi_lorawan_send_empty E with_port port type s =
     (if (with_port \<and> (port = 0 \<or> port > 223)) \<or> \<not> message_type_valid type then (- RZI_ERR_INVALID, s)
      else let rc = rzi_lorawan_check_started s in
        if rc \<noteq> 0 then (rc, s)
        else case Option.bind (bk_network (backend E)) bk_send_empty of
          None \<Rightarrow> (- RZI_ERR_NOT_SUPPORTED, s)
        | Some f \<Rightarrow> (case check_joined E s of (rc, t) \<Rightarrow>
            if rc \<noteq> 0 then (rc, t)
            else run_bop E (f with_port port type) (rzi_lorawan_mac_commands_on_uplink E t)))"

definition class_caps :: "u32 list" where
  "class_caps = [RZI_LORAWAN_CAP_CLASS_A, RZI_LORAWAN_CAP_CLASS_B, RZI_LORAWAN_CAP_CLASS_C]"

definition rzi_lorawan_set_class ::
  "('d, 'x, 's, 'e) lorawan_env_scheme \<Rightarrow> nat \<Rightarrow> ('d, 'x, 'm) lorawan_state_scheme op" where
  "rzi_lorawan_set_class E device_class s =
     (if device_class > RZI_LORAWAN_CLASS_C then (- RZI_ERR_INVALID, s)
      else let rc = rzi_lorawan_check_started s in
        if rc \<noteq> 0 then (rc, s)
        else if bk_capabilities (backend E) AND class_caps ! device_class = 0 then (- RZI_ERR_NOT_SUPPORTED, s)
        else case run_bop E (bk_set_class (bk_base (backend E)) device_class) s of (rc, t) \<Rightarrow>
          (rc, if rc = 0 then rzi_lorawan_note_class E device_class t else t))"

definition rzi_lorawan_is_joined ::
  "('d, 'x, 's, 'e) lorawan_env_scheme \<Rightarrow> (('d, 'x, 'm) lorawan_state_scheme, bool) getter" where
  "rzi_lorawan_is_joined E joined s =
     (if joined = None then (- RZI_ERR_INVALID, joined, s)
      else let rc = rzi_lorawan_check_started s in
        if rc \<noteq> 0 then (rc, joined, s)
        else case run_bget E (bk_is_joined (bk_base (backend E))) (the joined) s of (rc, v, t) \<Rightarrow> (rc, Some v, t))"

definition rzi_lorawan_get_capabilities :: "('d, 'x, 's, 'e) lorawan_env_scheme \<Rightarrow> u32" where
  "rzi_lorawan_get_capabilities E = bk_capabilities (backend E)"

definition rzi_lorawan_get_class ::
  "('d, 'x, 's, 'e) lorawan_env_scheme \<Rightarrow> (('d, 'x, 'm) lorawan_state_scheme, nat) getter" where
  "rzi_lorawan_get_class E device_class s =
     (let rc = rzi_lorawan_check_started s in
      if rc \<noteq> 0 then (rc, device_class, s)
      else if device_class = None then (- RZI_ERR_INVALID, device_class, s)
      else case bk_get_class (bk_base (backend E)) of
        None \<Rightarrow> (0, Some (configured_class s), s)
      | Some f \<Rightarrow> (case run_bget E f (the device_class) s of (rc, v, t) \<Rightarrow>
          if rc = 0 then (0, Some v, rzi_lorawan_note_class E v t)
          else if rc \<noteq> - RZI_ERR_NOT_SUPPORTED then (rc, Some v, t)
          else (0, Some (configured_class t), t)))"

definition rzi_lorawan_get_last_rssi :: "(('d, 'x, 'm) lorawan_state_scheme, int) getter" where
  "rzi_lorawan_get_last_rssi rssi_dbm s =
     (let rc = rzi_lorawan_check_thread s in
      if rc \<noteq> 0 then (rc, rssi_dbm, s)
      else if rssi_dbm = None then (- RZI_ERR_INVALID, rssi_dbm, s)
      else if \<not> last_downlink_valid s then (- RZI_ERR_NO_DATA, rssi_dbm, s)
      else (0, Some (last_rssi_dbm s), s))"

definition rzi_lorawan_get_last_snr :: "(('d, 'x, 'm) lorawan_state_scheme, int) getter" where
  "rzi_lorawan_get_last_snr snr_quarter_db s =
     (let rc = rzi_lorawan_check_thread s in
      if rc \<noteq> 0 then (rc, snr_quarter_db, s)
      else if snr_quarter_db = None then (- RZI_ERR_INVALID, snr_quarter_db, s)
      else if \<not> last_downlink_valid s then (- RZI_ERR_NO_DATA, snr_quarter_db, s)
      else (0, Some (last_snr_quarter_db s), s))"

definition protocol_version :: string where "protocol_version = ''LoRaWAN 1.0.4''"

definition rzi_lorawan_get_protocol_version :: "(('d, 'x, 'm) lorawan_state_scheme, string) getter" where
  "rzi_lorawan_get_protocol_version version s =
     (let rc = rzi_lorawan_check_thread s in
      if rc \<noteq> 0 then (rc, version, s)
      else if version = None then (- RZI_ERR_INVALID, version, s)
      else (0, Some protocol_version, s))"

definition rzi_lorawan_is_busy ::
  "('d, 'x, 's, 'e) lorawan_env_scheme \<Rightarrow> (('d, 'x, 'm) lorawan_state_scheme, bool) getter" where
  "rzi_lorawan_is_busy E busy s =
     (let rc = rzi_lorawan_check_thread s in
      if rc \<noteq> 0 then (rc, busy, s)
      else if busy = None then (- RZI_ERR_INVALID, busy, s)
      else if \<not> started s then (0, Some False, s)
      else case run_bget E (bk_is_busy (bk_base (backend E))) (the busy) s of (rc, v, t) \<Rightarrow> (rc, Some v, t))"

end
