(* ===== verification/Rzi_Delegates.thy ===== *)
theory Rzi_Delegates
  imports Rzi_Lorawan
begin

text \<open>
  The thin public entry points that guard and forward to the backend table:
  \<^verbatim>\<open>src/lorawan/api/lorawan_network.c\<close>, \<^verbatim>\<open>lorawan_class_b.c\<close>, \<^verbatim>\<open>lorawan_multicast.c\<close>,
  \<^verbatim>\<open>lorawan_certification.c\<close> and \<^verbatim>\<open>lorawan_session.c\<close>. The network file checks the output pointer
  before it checks that the service has started, the other files after.
\<close>

section \<open>Network parameters\<close>

definition NETWORK_OP :: "('d, 'x, 's, 'e) lorawan_env_scheme \<Rightarrow> ('x rzi_lorawan_network_ops \<Rightarrow> 'o option) \<Rightarrow> 'o option" where
  "NETWORK_OP E member = Option.bind (bk_network (backend E)) member"

definition CALL_NETWORK_OP ::
  "('d, 'x, 's, 'e) lorawan_env_scheme \<Rightarrow> ('x rzi_lorawan_network_ops \<Rightarrow> 'o option) \<Rightarrow> ('o \<Rightarrow> 'x bop)
   \<Rightarrow> ('d, 'x, 'm) lorawan_state_scheme op" where
  "CALL_NETWORK_OP E member args = call_op E (map_option args (NETWORK_OP E member))"

definition network_get ::
  "('d, 'x, 's, 'e) lorawan_env_scheme \<Rightarrow> ('x rzi_lorawan_network_ops \<Rightarrow> ('a, 'x) bget option)
   \<Rightarrow> (('d, 'x, 'm) lorawan_state_scheme, 'a) getter" where
  "network_get E member cell s =
     (if cell = None then (- RZI_ERR_INVALID, cell, s) else call_get E (NETWORK_OP E member) cell s)"

text \<open>\<^verbatim>\<open>unsupported\<close>: parameters no backend implements; the output pointer is never used.\<close>

definition unsupported :: "('d, 'x, 'm) lorawan_state_scheme op" where
  "unsupported s = (let rc = rzi_lorawan_check_started s in (if rc \<noteq> 0 then rc else - RZI_ERR_NOT_SUPPORTED, s))"

definition unsupported_get :: "(('d, 'x, 'm) lorawan_state_scheme, 'a) getter" where
  "unsupported_get cell s = (case unsupported s of (rc, t) \<Rightarrow> (rc, cell, t))"

definition check_uplink_data_rate ::
  "('d, 'x, 's, 'e) lorawan_env_scheme \<Rightarrow> nat \<Rightarrow> ('d, 'x, 'm) lorawan_state_scheme op" where
  "check_uplink_data_rate E data_rate s =
     (if data_rate > RZI_LORAWAN_DR_15 then (- RZI_ERR_INVALID, s)
      else case NETWORK_OP E bk_get_enabled_data_rates of
        None \<Rightarrow> (0, s)
      | Some f \<Rightarrow> (case run_bget E f 0 s of (rc, enabled_rates, t) \<Rightarrow>
          if rc \<noteq> 0 then (rc, t)
          else (if enabled_rates AND push_bit data_rate 1 \<noteq> 0 then 0 else - RZI_ERR_INVALID, t)))"

text \<open>The pointer, when not null, designates sixteen bytes.\<close>

definition distribution_valid :: "bytes option \<Rightarrow> bool" where
  "distribution_valid distribution \<longleftrightarrow>
     (case distribution of
        None \<Rightarrow> False
      | Some d \<Rightarrow> list_all (\<lambda>b. b \<le> 15) (take RZI_LORAWAN_DR_DISTRIBUTION_LENGTH d))"

definition rzi_lorawan_get_adr ::
  "('d, 'x, 's, 'e) lorawan_env_scheme \<Rightarrow> (('d, 'x, 'm) lorawan_state_scheme, bool) getter" where
  "rzi_lorawan_get_adr E enabled = network_get E bk_get_adr enabled"

definition rzi_lorawan_set_adr ::
  "('d, 'x, 's, 'e) lorawan_env_scheme \<Rightarrow> bool \<Rightarrow> ('d, 'x, 'm) lorawan_state_scheme op" where
  "rzi_lorawan_set_adr E enabled s = CALL_NETWORK_OP E bk_set_adr (\<lambda>f. f enabled) s"

definition rzi_lorawan_get_data_rate ::
  "('d, 'x, 's, 'e) lorawan_env_scheme \<Rightarrow> (('d, 'x, 'm) lorawan_state_scheme, nat) getter" where
  "rzi_lorawan_get_data_rate E data_rate = network_get E bk_get_data_rate data_rate"

definition rzi_lorawan_set_data_rate ::
  "('d, 'x, 's, 'e) lorawan_env_scheme \<Rightarrow> nat \<Rightarrow> ('d, 'x, 'm) lorawan_state_scheme op" where
  "rzi_lorawan_set_data_rate E data_rate s =
     (let rc = rzi_lorawan_check_started s in
      if rc \<noteq> 0 then (rc, s)
      else case NETWORK_OP E bk_set_data_rate of
        None \<Rightarrow> (- RZI_ERR_NOT_SUPPORTED, s)
      | Some f \<Rightarrow> (case check_uplink_data_rate E data_rate s of (rc, t) \<Rightarrow>
          if rc \<noteq> 0 then (rc, t) else run_bop E (f data_rate) t))"

definition rzi_lorawan_get_tx_power :: "(('d, 'x, 'm) lorawan_state_scheme, u8) getter" where
  "rzi_lorawan_get_tx_power tx_power = unsupported_get tx_power"

definition rzi_lorawan_set_tx_power :: "u8 \<Rightarrow> ('d, 'x, 'm) lorawan_state_scheme op" where
  "rzi_lorawan_set_tx_power tx_power = unsupported"

definition rzi_lorawan_get_duty_cycle :: "(('d, 'x, 'm) lorawan_state_scheme, bool) getter" where
  "rzi_lorawan_get_duty_cycle enabled = unsupported_get enabled"

definition rzi_lorawan_set_duty_cycle :: "bool \<Rightarrow> ('d, 'x, 'm) lorawan_state_scheme op" where
  "rzi_lorawan_set_duty_cycle enabled = unsupported"

definition rzi_lorawan_get_rx1_delay :: "(('d, 'x, 'm) lorawan_state_scheme, u32) getter" where
  "rzi_lorawan_get_rx1_delay delay_ms = unsupported_get delay_ms"

definition rzi_lorawan_set_rx1_delay :: "u32 \<Rightarrow> ('d, 'x, 'm) lorawan_state_scheme op" where
  "rzi_lorawan_set_rx1_delay delay_ms = unsupported"

definition rzi_lorawan_get_rx2_delay :: "(('d, 'x, 'm) lorawan_state_scheme, u32) getter" where
  "rzi_lorawan_get_rx2_delay delay_ms = unsupported_get delay_ms"

definition rzi_lorawan_set_rx2_delay :: "u32 \<Rightarrow> ('d, 'x, 'm) lorawan_state_scheme op" where
  "rzi_lorawan_set_rx2_delay delay_ms = unsupported"

definition rzi_lorawan_get_rx2_data_rate :: "(('d, 'x, 'm) lorawan_state_scheme, nat) getter" where
  "rzi_lorawan_get_rx2_data_rate data_rate = unsupported_get data_rate"

definition rzi_lorawan_set_rx2_data_rate :: "nat \<Rightarrow> ('d, 'x, 'm) lorawan_state_scheme op" where
  "rzi_lorawan_set_rx2_data_rate data_rate = unsupported"

definition rzi_lorawan_get_rx2_frequency :: "(('d, 'x, 'm) lorawan_state_scheme, u32) getter" where
  "rzi_lorawan_get_rx2_frequency frequency_hz = unsupported_get frequency_hz"

definition rzi_lorawan_set_rx2_frequency :: "u32 \<Rightarrow> ('d, 'x, 'm) lorawan_state_scheme op" where
  "rzi_lorawan_set_rx2_frequency frequency_hz = unsupported"

definition rzi_lorawan_get_join_accept_delay1 :: "(('d, 'x, 'm) lorawan_state_scheme, u32) getter" where
  "rzi_lorawan_get_join_accept_delay1 delay_ms = unsupported_get delay_ms"

definition rzi_lorawan_set_join_accept_delay1 :: "u32 \<Rightarrow> ('d, 'x, 'm) lorawan_state_scheme op" where
  "rzi_lorawan_set_join_accept_delay1 delay_ms = unsupported"

definition rzi_lorawan_get_join_accept_delay2 :: "(('d, 'x, 'm) lorawan_state_scheme, u32) getter" where
  "rzi_lorawan_get_join_accept_delay2 delay_ms = unsupported_get delay_ms"

definition rzi_lorawan_set_join_accept_delay2 :: "u32 \<Rightarrow> ('d, 'x, 'm) lorawan_state_scheme op" where
  "rzi_lorawan_set_join_accept_delay2 delay_ms = unsupported"

definition rzi_lorawan_get_public_network ::
  "('d, 'x, 's, 'e) lorawan_env_scheme \<Rightarrow> (('d, 'x, 'm) lorawan_state_scheme, bool) getter" where
  "rzi_lorawan_get_public_network E enabled = network_get E bk_get_public_network enabled"

definition rzi_lorawan_set_public_network ::
  "('d, 'x, 's, 'e) lorawan_env_scheme \<Rightarrow> bool \<Rightarrow> ('d, 'x, 'm) lorawan_state_scheme op" where
  "rzi_lorawan_set_public_network E enabled s = CALL_NETWORK_OP E bk_set_public_network (\<lambda>f. f enabled) s"

definition rzi_lorawan_get_lbt ::
  "('d, 'x, 's, 'e) lorawan_env_scheme \<Rightarrow> (('d, 'x, 'm) lorawan_state_scheme, bool) getter" where
  "rzi_lorawan_get_lbt E enabled = network_get E bk_get_lbt enabled"

definition rzi_lorawan_set_lbt ::
  "('d, 'x, 's, 'e) lorawan_env_scheme \<Rightarrow> bool \<Rightarrow> ('d, 'x, 'm) lorawan_state_scheme op" where
  "rzi_lorawan_set_lbt E enabled s = CALL_NETWORK_OP E bk_set_lbt (\<lambda>f. f enabled) s"

definition rzi_lorawan_get_lbt_rssi ::
  "('d, 'x, 's, 'e) lorawan_env_scheme \<Rightarrow> (('d, 'x, 'm) lorawan_state_scheme, int) getter" where
  "rzi_lorawan_get_lbt_rssi E rssi_dbm = network_get E bk_get_lbt_rssi rssi_dbm"

definition rzi_lorawan_set_lbt_rssi ::
  "('d, 'x, 's, 'e) lorawan_env_scheme \<Rightarrow> int \<Rightarrow> ('d, 'x, 'm) lorawan_state_scheme op" where
  "rzi_lorawan_set_lbt_rssi E rssi_dbm s = CALL_NETWORK_OP E bk_set_lbt_rssi (\<lambda>f. f rssi_dbm) s"

definition rzi_lorawan_get_lbt_scan_time ::
  "('d, 'x, 's, 'e) lorawan_env_scheme \<Rightarrow> (('d, 'x, 'm) lorawan_state_scheme, u32) getter" where
  "rzi_lorawan_get_lbt_scan_time E time_ms = network_get E bk_get_lbt_scan_time time_ms"

definition rzi_lorawan_set_lbt_scan_time ::
  "('d, 'x, 's, 'e) lorawan_env_scheme \<Rightarrow> u32 \<Rightarrow> ('d, 'x, 'm) lorawan_state_scheme op" where
  "rzi_lorawan_set_lbt_scan_time E time_ms s =
     (if time_ms = 0 then (- RZI_ERR_INVALID, s)
      else CALL_NETWORK_OP E bk_set_lbt_scan_time (\<lambda>f. f time_ms) s)"

definition rzi_lorawan_get_adr_profile ::
  "('d, 'x, 's, 'e) lorawan_env_scheme \<Rightarrow> (('d, 'x, 'm) lorawan_state_scheme, nat) getter" where
  "rzi_lorawan_get_adr_profile E profile = network_get E bk_get_adr_profile profile"

definition rzi_lorawan_set_adr_profile ::
  "('d, 'x, 's, 'e) lorawan_env_scheme \<Rightarrow> nat \<Rightarrow> bytes option \<Rightarrow> ('d, 'x, 'm) lorawan_state_scheme op" where
  "rzi_lorawan_set_adr_profile E profile distribution s =
     (if profile > RZI_LORAWAN_ADR_CUSTOM \<or> (profile = RZI_LORAWAN_ADR_CUSTOM \<and> \<not> distribution_valid distribution) then (- RZI_ERR_INVALID, s)
      else CALL_NETWORK_OP E bk_set_adr_profile (\<lambda>f. f profile distribution) s)"

definition rzi_lorawan_get_nb_trans ::
  "('d, 'x, 's, 'e) lorawan_env_scheme \<Rightarrow> (('d, 'x, 'm) lorawan_state_scheme, u8) getter" where
  "rzi_lorawan_get_nb_trans E nb_trans = network_get E bk_get_nb_trans nb_trans"

definition rzi_lorawan_set_nb_trans ::
  "('d, 'x, 's, 'e) lorawan_env_scheme \<Rightarrow> u8 \<Rightarrow> ('d, 'x, 'm) lorawan_state_scheme op" where
  "rzi_lorawan_set_nb_trans E nb_trans s =
     (if nb_trans = 0 \<or> nb_trans > 15 then (- RZI_ERR_INVALID, s)
      else CALL_NETWORK_OP E bk_set_nb_trans (\<lambda>f. f nb_trans) s)"

definition rzi_lorawan_get_adr_ack ::
  "('d, 'x, 's, 'e) lorawan_env_scheme \<Rightarrow> u8 option \<Rightarrow> u8 option \<Rightarrow> ('d, 'x, 'm) lorawan_state_scheme \<Rightarrow> int \<times> u8 option \<times> u8 option \<times> ('d, 'x, 'm) lorawan_state_scheme" where
  "rzi_lorawan_get_adr_ack E limit delay s =
     (case (limit, delay) of
        (Some l, Some d) \<Rightarrow> (case call_get E (NETWORK_OP E bk_get_adr_ack) (Some (l, d)) s of (rc, out, t) \<Rightarrow>
          (rc, map_option fst out, map_option snd out, t))
      | _ \<Rightarrow> (- RZI_ERR_INVALID, limit, delay, s))"

definition rzi_lorawan_set_adr_ack ::
  "('d, 'x, 's, 'e) lorawan_env_scheme \<Rightarrow> u8 \<Rightarrow> u8 \<Rightarrow> ('d, 'x, 'm) lorawan_state_scheme op" where
  "rzi_lorawan_set_adr_ack E limit delay s =
     (if limit < 2 \<or> limit > 127 \<or> delay < 2 \<or> delay > 127 then (- RZI_ERR_INVALID, s)
      else CALL_NETWORK_OP E bk_set_adr_ack (\<lambda>f. f limit delay) s)"

definition rzi_lorawan_set_join_data_rates ::
  "('d, 'x, 's, 'e) lorawan_env_scheme \<Rightarrow> bytes option \<Rightarrow> ('d, 'x, 'm) lorawan_state_scheme op" where
  "rzi_lorawan_set_join_data_rates E distribution s =
     (if \<not> distribution_valid distribution then (- RZI_ERR_INVALID, s)
      else CALL_NETWORK_OP E bk_set_join_data_rates (\<lambda>f. f (the distribution)) s)"

definition rzi_lorawan_get_join_backoff ::
  "('d, 'x, 's, 'e) lorawan_env_scheme \<Rightarrow> (('d, 'x, 'm) lorawan_state_scheme, u32) getter" where
  "rzi_lorawan_get_join_backoff E remaining_s = network_get E bk_get_join_backoff remaining_s"

definition rzi_lorawan_get_duty_cycle_status ::
  "('d, 'x, 's, 'e) lorawan_env_scheme \<Rightarrow> (('d, 'x, 'm) lorawan_state_scheme, int) getter" where
  "rzi_lorawan_get_duty_cycle_status E time_ms = network_get E bk_get_duty_cycle_status time_ms"

definition rzi_lorawan_get_csma ::
  "('d, 'x, 's, 'e) lorawan_env_scheme \<Rightarrow> (('d, 'x, 'm) lorawan_state_scheme, bool) getter" where
  "rzi_lorawan_get_csma E enabled = network_get E bk_get_csma enabled"

definition rzi_lorawan_set_csma ::
  "('d, 'x, 's, 'e) lorawan_env_scheme \<Rightarrow> bool \<Rightarrow> ('d, 'x, 'm) lorawan_state_scheme op" where
  "rzi_lorawan_set_csma E enabled s = CALL_NETWORK_OP E bk_set_csma (\<lambda>f. f enabled) s"

definition rzi_lorawan_get_csma_params ::
  "('d, 'x, 's, 'e) lorawan_env_scheme \<Rightarrow> (('d, 'x, 'm) lorawan_state_scheme, rzi_lorawan_csma_params) getter" where
  "rzi_lorawan_get_csma_params E params = network_get E bk_get_csma_params params"

definition rzi_lorawan_set_csma_params ::
  "('d, 'x, 's, 'e) lorawan_env_scheme \<Rightarrow> rzi_lorawan_csma_params option \<Rightarrow> ('d, 'x, 'm) lorawan_state_scheme op" where
  "rzi_lorawan_set_csma_params E params s =
     (case params of
        None \<Rightarrow> (- RZI_ERR_INVALID, s)
      | Some p \<Rightarrow> CALL_NETWORK_OP E bk_set_csma_params (\<lambda>f. f p) s)"

definition rzi_lorawan_get_lost_connection_count ::
  "('d, 'x, 's, 'e) lorawan_env_scheme \<Rightarrow> (('d, 'x, 'm) lorawan_state_scheme, u16) getter" where
  "rzi_lorawan_get_lost_connection_count E count = network_get E bk_get_lost_connection_count count"

definition rzi_lorawan_get_no_downlink_threshold ::
  "('d, 'x, 's, 'e) lorawan_env_scheme \<Rightarrow> (('d, 'x, 'm) lorawan_state_scheme, u16) getter" where
  "rzi_lorawan_get_no_downlink_threshold E uplinks = network_get E bk_get_no_downlink_threshold uplinks"

definition rzi_lorawan_set_no_downlink_threshold ::
  "('d, 'x, 's, 'e) lorawan_env_scheme \<Rightarrow> u16 \<Rightarrow> ('d, 'x, 'm) lorawan_state_scheme op" where
  "rzi_lorawan_set_no_downlink_threshold E uplinks s = CALL_NETWORK_OP E bk_set_no_downlink_threshold (\<lambda>f. f uplinks) s"

definition rzi_lorawan_get_crystal_error ::
  "('d, 'x, 's, 'e) lorawan_env_scheme \<Rightarrow> (('d, 'x, 'm) lorawan_state_scheme, u32) getter" where
  "rzi_lorawan_get_crystal_error E ppm = network_get E bk_get_crystal_error ppm"

definition rzi_lorawan_set_crystal_error ::
  "('d, 'x, 's, 'e) lorawan_env_scheme \<Rightarrow> u32 \<Rightarrow> ('d, 'x, 'm) lorawan_state_scheme op" where
  "rzi_lorawan_set_crystal_error E ppm s = CALL_NETWORK_OP E bk_set_crystal_error (\<lambda>f. f ppm) s"

definition rzi_lorawan_query_tx_possible ::
  "('d, 'x, 's, 'e) lorawan_env_scheme \<Rightarrow> nat \<Rightarrow> ('d, 'x, 'm) lorawan_state_scheme op" where
  "rzi_lorawan_query_tx_possible E n s = CALL_NETWORK_OP E bk_query_tx_possible (\<lambda>f. f n) s"

section \<open>Class B, multicast, certification and session\<close>

definition guarded_get ::
  "('d, 'x, 's, 'e) lorawan_env_scheme \<Rightarrow> ('a, 'x) bget option \<Rightarrow> (('d, 'x, 'm) lorawan_state_scheme, 'a) getter" where
  "guarded_get E member cell s =
     (let rc = rzi_lorawan_check_started s in
      if rc \<noteq> 0 then (rc, cell, s)
      else if cell = None then (- RZI_ERR_INVALID, cell, s)
      else call_get E member cell s)"

definition guarded_op ::
  "('d, 'x, 's, 'e) lorawan_env_scheme \<Rightarrow> bool \<Rightarrow> 'x bop option \<Rightarrow> ('d, 'x, 'm) lorawan_state_scheme op" where
  "guarded_op E valid member s =
     (let rc = rzi_lorawan_check_started s in
      if rc \<noteq> 0 then (rc, s)
      else if \<not> valid then (- RZI_ERR_INVALID, s)
      else call_op E member s)"

definition class_b_ops :: "('d, 'x, 's, 'e) lorawan_env_scheme \<Rightarrow> 'x rzi_lorawan_class_b_ops option" where
  "class_b_ops E = bk_class_b (backend E)"

definition rzi_lorawan_get_ping_slot_periodicity ::
  "('d, 'x, 's, 'e) lorawan_env_scheme \<Rightarrow> (('d, 'x, 'm) lorawan_state_scheme, u8) getter" where
  "rzi_lorawan_get_ping_slot_periodicity E periodicity = guarded_get E (Option.bind (class_b_ops E) bk_get_ping_slot_periodicity) periodicity"

definition rzi_lorawan_set_ping_slot_periodicity ::
  "('d, 'x, 's, 'e) lorawan_env_scheme \<Rightarrow> u8 \<Rightarrow> ('d, 'x, 'm) lorawan_state_scheme op" where
  "rzi_lorawan_set_ping_slot_periodicity E periodicity s = guarded_op E (periodicity \<le> 7) (map_option (\<lambda>f. f periodicity) (Option.bind (class_b_ops E) bk_set_ping_slot_periodicity)) s"

definition rzi_lorawan_get_beacon_frequency ::
  "('d, 'x, 's, 'e) lorawan_env_scheme \<Rightarrow> (('d, 'x, 'm) lorawan_state_scheme, u32) getter" where
  "rzi_lorawan_get_beacon_frequency E frequency_hz = guarded_get E (Option.bind (class_b_ops E) bk_get_beacon_frequency) frequency_hz"

definition rzi_lorawan_get_beacon_time ::
  "('d, 'x, 's, 'e) lorawan_env_scheme \<Rightarrow> (('d, 'x, 'm) lorawan_state_scheme, u32) getter" where
  "rzi_lorawan_get_beacon_time E gps_time = guarded_get E (Option.bind (class_b_ops E) bk_get_beacon_time) gps_time"

definition rzi_lorawan_get_beacon_data_rate ::
  "('d, 'x, 's, 'e) lorawan_env_scheme \<Rightarrow> (('d, 'x, 'm) lorawan_state_scheme, nat) getter" where
  "rzi_lorawan_get_beacon_data_rate E data_rate = guarded_get E (Option.bind (class_b_ops E) bk_get_beacon_data_rate) data_rate"

definition rzi_lorawan_get_beacon_gateway ::
  "('d, 'x, 's, 'e) lorawan_env_scheme \<Rightarrow> (('d, 'x, 'm) lorawan_state_scheme, rzi_lorawan_beacon_gateway) getter" where
  "rzi_lorawan_get_beacon_gateway E gateway = guarded_get E (Option.bind (class_b_ops E) bk_get_beacon_gateway) gateway"

definition rzi_lorawan_get_class_b_state ::
  "('d, 'x, 's, 'e) lorawan_env_scheme \<Rightarrow> (('d, 'x, 'm) lorawan_state_scheme, nat) getter" where
  "rzi_lorawan_get_class_b_state E state = guarded_get E (Option.bind (class_b_ops E) bk_get_state) state"

definition rzi_lorawan_stop_class_b :: "('d, 'x, 's, 'e) lorawan_env_scheme \<Rightarrow> ('d, 'x, 'm) lorawan_state_scheme op" where
  "rzi_lorawan_stop_class_b E s =
     (case guarded_op E True (Option.bind (class_b_ops E) bk_stop) s of (rc, t) \<Rightarrow>
        (rc, if rc = 0 then rzi_lorawan_note_class E RZI_LORAWAN_CLASS_A t else t))"

definition multicast_ops :: "('d, 'x, 's, 'e) lorawan_env_scheme \<Rightarrow> 'x rzi_lorawan_multicast_ops option" where
  "multicast_ops E = bk_multicast (backend E)"

text \<open>The argument check of \<^verbatim>\<open>rzi_lorawan_add_multicast_session\<close>.\<close>

definition multicast_session_valid :: "rzi_lorawan_multicast_session \<Rightarrow> bool" where
  "multicast_session_valid session \<longleftrightarrow>
     \<not> ((mc_device_class session \<noteq> RZI_LORAWAN_CLASS_B \<and> mc_device_class session \<noteq> RZI_LORAWAN_CLASS_C)
        \<or> mc_data_rate session > RZI_LORAWAN_DR_15 \<or> mc_frequency_hz session = 0
        \<or> mc_group_id session < - 1 \<or> mc_group_id session > 3)"

definition rzi_lorawan_add_multicast_session ::
  "('d, 'x, 's, 'e) lorawan_env_scheme \<Rightarrow> rzi_lorawan_multicast_session option \<Rightarrow> ('d, 'x, 'm) lorawan_state_scheme op" where
  "rzi_lorawan_add_multicast_session E session =
     guarded_op E (session \<noteq> None \<and> multicast_session_valid (the session))
       (map_option (\<lambda>f. f (the session)) (Option.bind (multicast_ops E) bk_mc_add))"

definition rzi_lorawan_remove_multicast_session ::
  "('d, 'x, 's, 'e) lorawan_env_scheme \<Rightarrow> u32 \<Rightarrow> ('d, 'x, 'm) lorawan_state_scheme op" where
  "rzi_lorawan_remove_multicast_session E addr s = guarded_op E True (map_option (\<lambda>f. f addr) (Option.bind (multicast_ops E) bk_mc_remove)) s"

definition rzi_lorawan_get_multicast_count ::
  "('d, 'x, 's, 'e) lorawan_env_scheme \<Rightarrow> (('d, 'x, 'm) lorawan_state_scheme, nat) getter" where
  "rzi_lorawan_get_multicast_count E count = guarded_get E (Option.bind (multicast_ops E) bk_mc_get_count) count"

definition rzi_lorawan_get_multicast_session ::
  "('d, 'x, 's, 'e) lorawan_env_scheme \<Rightarrow> nat \<Rightarrow> (('d, 'x, 'm) lorawan_state_scheme, rzi_lorawan_multicast_session) getter" where
  "rzi_lorawan_get_multicast_session E index session =
     guarded_get E (map_option (\<lambda>f. f index) (Option.bind (multicast_ops E) bk_mc_get)) session"

definition rzi_lorawan_clear_multicast_sessions ::
  "('d, 'x, 's, 'e) lorawan_env_scheme \<Rightarrow> ('d, 'x, 'm) lorawan_state_scheme op" where
  "rzi_lorawan_clear_multicast_sessions E s = guarded_op E True (Option.bind (multicast_ops E) bk_mc_clear) s"

definition cert_ops :: "('d, 'x, 's, 'e) lorawan_env_scheme \<Rightarrow> 'x rzi_lorawan_certification_ops option" where
  "cert_ops E = bk_certification (backend E)"

definition rzi_lorawan_get_certification_mode ::
  "('d, 'x, 's, 'e) lorawan_env_scheme \<Rightarrow> (('d, 'x, 'm) lorawan_state_scheme, bool) getter" where
  "rzi_lorawan_get_certification_mode E enabled = guarded_get E (Option.bind (cert_ops E) bk_get_mode) enabled"

definition rzi_lorawan_set_certification_mode ::
  "('d, 'x, 's, 'e) lorawan_env_scheme \<Rightarrow> bool \<Rightarrow> ('d, 'x, 'm) lorawan_state_scheme op" where
  "rzi_lorawan_set_certification_mode E enabled s = guarded_op E True (map_option (\<lambda>f. f enabled) (Option.bind (cert_ops E) bk_set_mode)) s"

definition rzi_lorawan_get_certification_port_enabled ::
  "('d, 'x, 's, 'e) lorawan_env_scheme \<Rightarrow> (('d, 'x, 'm) lorawan_state_scheme, bool) getter" where
  "rzi_lorawan_get_certification_port_enabled E enabled = guarded_get E (Option.bind (cert_ops E) bk_get_port_enabled) enabled"

definition rzi_lorawan_set_certification_port_enabled ::
  "('d, 'x, 's, 'e) lorawan_env_scheme \<Rightarrow> bool \<Rightarrow> ('d, 'x, 'm) lorawan_state_scheme op" where
  "rzi_lorawan_set_certification_port_enabled E enabled s = guarded_op E True (map_option (\<lambda>f. f enabled) (Option.bind (cert_ops E) bk_set_port_enabled)) s"

definition session_ops :: "('d, 'x, 's, 'e) lorawan_env_scheme \<Rightarrow> 'x rzi_lorawan_session_ops option" where
  "session_ops E = bk_session (backend E)"

text \<open>The identifier of a joined network when the backend knows it, else the configured one.\<close>

definition config_net_id :: "('d, 'x, 's, 'e) lorawan_env_scheme \<Rightarrow> u32 \<Rightarrow> ('d, 'x, 'm) lorawan_state_scheme \<Rightarrow> int \<times> u32 option \<times> ('d, 'x, 'm) lorawan_state_scheme" where
  "config_net_id E net_id s = (case rzi_lorawan_config_get_net_id E net_id s of (rc, v, t) \<Rightarrow> (rc, Some v, t))"

definition rzi_lorawan_get_net_id :: "('d, 'x, 's, 'e) lorawan_env_scheme \<Rightarrow> (('d, 'x, 'm) lorawan_state_scheme, u32) getter" where
  "rzi_lorawan_get_net_id E net_id s =
     (let rc = rzi_lorawan_check_thread s in
      if rc \<noteq> 0 \<or> net_id = None then (if rc \<noteq> 0 then rc else - RZI_ERR_INVALID, net_id, s)
      else case rzi_lorawan_is_joined E (Some False) s of (rc, joined, t) \<Rightarrow>
        case Option.bind (session_ops E) bk_get_net_id of
          None \<Rightarrow> config_net_id E (the net_id) t
        | Some f \<Rightarrow>
            if rc = 0 \<and> joined = Some True
            then (case run_bget E f (the net_id) t of (rc, v, u) \<Rightarrow>
                    if rc = 0 then (0, Some v, u) else config_net_id E v u)
            else config_net_id E (the net_id) t)"

definition rzi_lorawan_get_dev_nonce ::
  "('d, 'x, 's, 'e) lorawan_env_scheme \<Rightarrow> (('d, 'x, 'm) lorawan_state_scheme, u16) getter" where
  "rzi_lorawan_get_dev_nonce E dev_nonce = guarded_get E (Option.bind (session_ops E) bk_get_dev_nonce) dev_nonce"

definition rzi_lorawan_set_dev_nonce ::
  "('d, 'x, 's, 'e) lorawan_env_scheme \<Rightarrow> u16 \<Rightarrow> ('d, 'x, 'm) lorawan_state_scheme op" where
  "rzi_lorawan_set_dev_nonce E dev_nonce s = guarded_op E True (map_option (\<lambda>f. f dev_nonce) (Option.bind (session_ops E) bk_set_dev_nonce)) s"

section \<open>What forwarding may do\<close>

text \<open>The backend moved to some state and published some events; nothing else of the service changed.\<close>

definition published ::
  "('d, 'x, 's, 'e) lorawan_env_scheme \<Rightarrow> ('d, 'x, 'm) lorawan_state_scheme \<Rightarrow> ('d, 'x, 'm) lorawan_state_scheme \<Rightarrow> bool" where
  "published E s t \<longleftrightarrow> (\<exists>evs x. t = fold (publish E) evs (s\<lparr>radio := x\<rparr>))"

lemma publish_radio: "publish E ev (s\<lparr>radio := x\<rparr>) = (publish E ev s)\<lparr>radio := x\<rparr>"
  by (simp add: publish_def split: prod.splits)

lemma publish_all_radio: "fold (publish E) evs (s\<lparr>radio := x\<rparr>) = (fold (publish E) evs s)\<lparr>radio := x\<rparr>"
  by (induction evs arbitrary: s) (simp_all add: publish_radio)

lemma published_refl [simp]: "published E s s"
  unfolding published_def by (rule exI [of _ "[]"], rule exI [of _ "radio s"]) simp

lemma published_trans:
  assumes "published E s t" and "published E t u"
  shows "published E s u"
proof -
  obtain es x fs y where "t = fold (publish E) es (s\<lparr>radio := x\<rparr>)" "u = fold (publish E) fs (t\<lparr>radio := y\<rparr>)"
    using assms by (auto simp: published_def)
  then have "u = fold (publish E) (es @ fs) (s\<lparr>radio := y\<rparr>)" by (simp add: publish_all_radio)
  then show ?thesis unfolding published_def by blast
qed

lemma published_queue_only: "published E s t \<Longrightarrow> queue_only s t"
  by (auto simp: published_def intro: queue_only_trans queue_only_radio queue_only_publish_all)

lemma published_run_bop: "published E s (snd (run_bop E f s))"
  by (auto simp: run_bop_def published_def split: prod.splits)

lemma published_run_bget: "published E s (snd (snd (run_bget E f v s)))"
  by (auto simp: run_bget_def published_def split: prod.splits)

text \<open>
  A guarded call has only such an effect, and none at all before the service has started or in an
  interrupt, where it answers the guard's code or, if it checks its arguments first, \<^verbatim>\<open>INVALID\<close>.
\<close>

definition guarded_call ::
  "('d, 'x, 's, 'e) lorawan_env_scheme \<Rightarrow> ('d, 'x, 'm) lorawan_state_scheme op \<Rightarrow> bool" where
  "guarded_call E m \<longleftrightarrow> (\<forall>s. published E s (snd (m s))
     \<and> (rzi_lorawan_check_started s \<noteq> 0 \<longrightarrow>
          snd (m s) = s \<and> fst (m s) \<in> {rzi_lorawan_check_started s, - RZI_ERR_INVALID}))"

definition ignore_out :: "('s, 'a) getter \<Rightarrow> 'a option \<Rightarrow> 's op" where
  "ignore_out g cell s = (case g cell s of (rc, out, t) \<Rightarrow> (rc, t))"

named_theorems guarded_intros \<open>combinators that build guarded calls\<close>

lemma guarded_call_op [guarded_intros]: "guarded_call E (call_op E f)"
  using published_run_bop [of E] by (auto simp: guarded_call_def call_op_def Let_def split: option.splits)

lemma guarded_call_get [guarded_intros]: "guarded_call E (ignore_out (call_get E f) c)"
proof -
  have "published E s (snd (ignore_out (call_get E f) c s))
    \<and> (rzi_lorawan_check_started s \<noteq> 0 \<longrightarrow> ignore_out (call_get E f) c s = (rzi_lorawan_check_started s, s))" for s
  proof (cases f)
    case (Some g)
    obtain rc v t where r: "run_bget E g (the c) s = (rc, v, t)" by (metis prod_cases3)
    with published_run_bget [of E s g "the c"] Some show ?thesis by (simp add: ignore_out_def call_get_def Let_def)
  qed (simp add: ignore_out_def call_get_def Let_def)
  then show ?thesis by (auto simp: guarded_call_def)
qed

lemma guarded_reject: "guarded_call E m \<Longrightarrow> guarded_call E (\<lambda>s. if b then (- RZI_ERR_INVALID, s) else m s)"
  by (auto simp: guarded_call_def)

lemma guarded_not_null:
  "(\<And>q. guarded_call E (m q)) \<Longrightarrow> guarded_call E (\<lambda>s. case p of None \<Rightarrow> (- RZI_ERR_INVALID, s) | Some q \<Rightarrow> m q s)"
  by (cases p) (auto simp: guarded_call_def)

lemma guarded_after_check:
  "guarded_call E m \<Longrightarrow> guarded_call E (\<lambda>s. let rc = rzi_lorawan_check_started s in if rc \<noteq> 0 then (rc, s) else m s)"
  by (auto simp: guarded_call_def Let_def)

lemma guarded_network_op [guarded_intros]: "guarded_call E (CALL_NETWORK_OP E member args)"
  unfolding CALL_NETWORK_OP_def by (rule guarded_call_op)

lemma ignore_network_get:
  "ignore_out (network_get E member) c
     = (\<lambda>s. if c = None then (- RZI_ERR_INVALID, s) else ignore_out (call_get E (NETWORK_OP E member)) c s)"
  by (rule ext) (simp add: ignore_out_def network_get_def)

lemma guarded_network_get [guarded_intros]: "guarded_call E (ignore_out (network_get E member) c)"
  by (subst ignore_network_get) (rule guarded_reject [OF guarded_call_get])

lemma guarded_op_call [guarded_intros]: "guarded_call E (guarded_op E valid f)"
  unfolding guarded_op_def
  using guarded_after_check [OF guarded_reject [OF guarded_call_op [of E f], of "\<not> valid"]] by simp

lemma ignore_guarded_get:
  "ignore_out (guarded_get E f) c = (\<lambda>s. let rc = rzi_lorawan_check_started s in
     if rc \<noteq> 0 then (rc, s) else if c = None then (- RZI_ERR_INVALID, s) else ignore_out (call_get E f) c s)"
  by (rule ext) (simp add: ignore_out_def guarded_get_def Let_def)

lemma guarded_get_call [guarded_intros]: "guarded_call E (ignore_out (guarded_get E f) c)"
  by (subst ignore_guarded_get) (rule guarded_after_check [OF guarded_reject [OF guarded_call_get]])

lemma guarded_unsupported [guarded_intros]:
  "guarded_call E unsupported" "guarded_call E (ignore_out unsupported_get c)"
  by (simp_all add: guarded_call_def unsupported_def unsupported_get_def ignore_out_def Let_def)

lemma published_check_rate: "published E s (snd (check_uplink_data_rate E dr s))"
proof (cases "NETWORK_OP E bk_get_enabled_data_rates")
  case (Some f)
  obtain rc v t where "run_bget E f 0 s = (rc, v, t)" by (metis prod_cases3)
  with Some published_run_bget [of E s f 0] show ?thesis by (simp add: check_uplink_data_rate_def)
qed (simp add: check_uplink_data_rate_def)

lemma published_set_data_rate: "published E s (snd (rzi_lorawan_set_data_rate E dr s))"
proof -
  obtain rc t where c: "check_uplink_data_rate E dr s = (rc, t)" by fastforce
  then have "published E s t" using published_check_rate [of E s dr] by simp
  then have "published E s (snd (run_bop E f t))" for f using published_trans published_run_bop by blast
  with \<open>published E s t\<close> c show ?thesis by (simp add: rzi_lorawan_set_data_rate_def Let_def split: option.splits)
qed

lemma guarded_set_data_rate [guarded_intros]: "guarded_call E (rzi_lorawan_set_data_rate E dr)"
  unfolding guarded_call_def
  by (intro allI conjI published_set_data_rate) (simp add: rzi_lorawan_set_data_rate_def Let_def)

lemma ignore_get_adr_ack:
  "(\<lambda>s. case rzi_lorawan_get_adr_ack E limit delay s of (rc, _, _, t) \<Rightarrow> (rc, t))
     = (\<lambda>s. if limit = None \<or> delay = None then (- RZI_ERR_INVALID, s)
            else ignore_out (call_get E (NETWORK_OP E bk_get_adr_ack)) (Some (the limit, the delay)) s)"
  by (rule ext) (auto simp: rzi_lorawan_get_adr_ack_def ignore_out_def split: option.splits prod.splits)

lemma guarded_get_adr_ack [guarded_intros]:
  "guarded_call E (\<lambda>s. case rzi_lorawan_get_adr_ack E limit delay s of (rc, _, _, t) \<Rightarrow> (rc, t))"
  by (subst ignore_get_adr_ack) (rule guarded_reject [OF guarded_call_get])

section \<open>Property\<close>

text \<open>The forwarding entry points of the five files.\<close>

inductive forwarding ::
  "('d, 'x, 's, 'e) lorawan_env_scheme \<Rightarrow> ('d, 'x, 'm) lorawan_state_scheme op \<Rightarrow> bool"
  for E where
  fwd_get_adr: "forwarding E (ignore_out (rzi_lorawan_get_adr E) enabled)"
| fwd_set_adr: "forwarding E (rzi_lorawan_set_adr E enabled)"
| fwd_get_data_rate: "forwarding E (ignore_out (rzi_lorawan_get_data_rate E) data_rate)"
| fwd_set_data_rate: "forwarding E (rzi_lorawan_set_data_rate E data_rate)"
| fwd_get_tx_power: "forwarding E (ignore_out (rzi_lorawan_get_tx_power) tx_power)"
| fwd_set_tx_power: "forwarding E (rzi_lorawan_set_tx_power tx_power)"
| fwd_get_duty_cycle: "forwarding E (ignore_out (rzi_lorawan_get_duty_cycle) enabled)"
| fwd_set_duty_cycle: "forwarding E (rzi_lorawan_set_duty_cycle enabled)"
| fwd_get_rx1_delay: "forwarding E (ignore_out (rzi_lorawan_get_rx1_delay) delay_ms)"
| fwd_set_rx1_delay: "forwarding E (rzi_lorawan_set_rx1_delay delay_ms)"
| fwd_get_rx2_delay: "forwarding E (ignore_out (rzi_lorawan_get_rx2_delay) delay_ms)"
| fwd_set_rx2_delay: "forwarding E (rzi_lorawan_set_rx2_delay delay_ms)"
| fwd_get_rx2_data_rate: "forwarding E (ignore_out (rzi_lorawan_get_rx2_data_rate) data_rate)"
| fwd_set_rx2_data_rate: "forwarding E (rzi_lorawan_set_rx2_data_rate data_rate)"
| fwd_get_rx2_frequency: "forwarding E (ignore_out (rzi_lorawan_get_rx2_frequency) frequency_hz)"
| fwd_set_rx2_frequency: "forwarding E (rzi_lorawan_set_rx2_frequency frequency_hz)"
| fwd_get_join_accept_delay1: "forwarding E (ignore_out (rzi_lorawan_get_join_accept_delay1) delay_ms)"
| fwd_set_join_accept_delay1: "forwarding E (rzi_lorawan_set_join_accept_delay1 delay_ms)"
| fwd_get_join_accept_delay2: "forwarding E (ignore_out (rzi_lorawan_get_join_accept_delay2) delay_ms)"
| fwd_set_join_accept_delay2: "forwarding E (rzi_lorawan_set_join_accept_delay2 delay_ms)"
| fwd_get_public_network: "forwarding E (ignore_out (rzi_lorawan_get_public_network E) enabled)"
| fwd_set_public_network: "forwarding E (rzi_lorawan_set_public_network E enabled)"
| fwd_get_lbt: "forwarding E (ignore_out (rzi_lorawan_get_lbt E) enabled)"
| fwd_set_lbt: "forwarding E (rzi_lorawan_set_lbt E enabled)"
| fwd_get_lbt_rssi: "forwarding E (ignore_out (rzi_lorawan_get_lbt_rssi E) rssi_dbm)"
| fwd_set_lbt_rssi: "forwarding E (rzi_lorawan_set_lbt_rssi E rssi_dbm)"
| fwd_get_lbt_scan_time: "forwarding E (ignore_out (rzi_lorawan_get_lbt_scan_time E) time_ms)"
| fwd_set_lbt_scan_time: "forwarding E (rzi_lorawan_set_lbt_scan_time E time_ms)"
| fwd_get_adr_profile: "forwarding E (ignore_out (rzi_lorawan_get_adr_profile E) profile)"
| fwd_set_adr_profile: "forwarding E (rzi_lorawan_set_adr_profile E profile distribution)"
| fwd_get_nb_trans: "forwarding E (ignore_out (rzi_lorawan_get_nb_trans E) nb_trans)"
| fwd_set_nb_trans: "forwarding E (rzi_lorawan_set_nb_trans E nb_trans)"
| fwd_set_adr_ack: "forwarding E (rzi_lorawan_set_adr_ack E limit delay)"
| fwd_set_join_data_rates: "forwarding E (rzi_lorawan_set_join_data_rates E distribution)"
| fwd_get_join_backoff: "forwarding E (ignore_out (rzi_lorawan_get_join_backoff E) remaining_s)"
| fwd_get_duty_cycle_status: "forwarding E (ignore_out (rzi_lorawan_get_duty_cycle_status E) time_ms)"
| fwd_get_csma: "forwarding E (ignore_out (rzi_lorawan_get_csma E) enabled)"
| fwd_set_csma: "forwarding E (rzi_lorawan_set_csma E enabled)"
| fwd_get_csma_params: "forwarding E (ignore_out (rzi_lorawan_get_csma_params E) params)"
| fwd_set_csma_params: "forwarding E (rzi_lorawan_set_csma_params E params)"
| fwd_get_lost_connection_count: "forwarding E (ignore_out (rzi_lorawan_get_lost_connection_count E) count)"
| fwd_get_no_downlink_threshold: "forwarding E (ignore_out (rzi_lorawan_get_no_downlink_threshold E) uplinks)"
| fwd_set_no_downlink_threshold: "forwarding E (rzi_lorawan_set_no_downlink_threshold E uplinks)"
| fwd_get_crystal_error: "forwarding E (ignore_out (rzi_lorawan_get_crystal_error E) ppm)"
| fwd_set_crystal_error: "forwarding E (rzi_lorawan_set_crystal_error E ppm)"
| fwd_query_tx_possible: "forwarding E (rzi_lorawan_query_tx_possible E n)"
| fwd_get_ping_slot_periodicity: "forwarding E (ignore_out (rzi_lorawan_get_ping_slot_periodicity E) periodicity)"
| fwd_set_ping_slot_periodicity: "forwarding E (rzi_lorawan_set_ping_slot_periodicity E periodicity)"
| fwd_get_beacon_frequency: "forwarding E (ignore_out (rzi_lorawan_get_beacon_frequency E) frequency_hz)"
| fwd_get_beacon_time: "forwarding E (ignore_out (rzi_lorawan_get_beacon_time E) gps_time)"
| fwd_get_beacon_data_rate: "forwarding E (ignore_out (rzi_lorawan_get_beacon_data_rate E) data_rate)"
| fwd_get_beacon_gateway: "forwarding E (ignore_out (rzi_lorawan_get_beacon_gateway E) gateway)"
| fwd_get_class_b_state: "forwarding E (ignore_out (rzi_lorawan_get_class_b_state E) state)"
| fwd_add_multicast_session: "forwarding E (rzi_lorawan_add_multicast_session E session)"
| fwd_remove_multicast_session: "forwarding E (rzi_lorawan_remove_multicast_session E addr)"
| fwd_get_multicast_count: "forwarding E (ignore_out (rzi_lorawan_get_multicast_count E) count)"
| fwd_get_multicast_session: "forwarding E (ignore_out (rzi_lorawan_get_multicast_session E index) session)"
| fwd_clear_multicast_sessions: "forwarding E (rzi_lorawan_clear_multicast_sessions E)"
| fwd_get_certification_mode: "forwarding E (ignore_out (rzi_lorawan_get_certification_mode E) enabled)"
| fwd_set_certification_mode: "forwarding E (rzi_lorawan_set_certification_mode E enabled)"
| fwd_get_certification_port_enabled: "forwarding E (ignore_out (rzi_lorawan_get_certification_port_enabled E) enabled)"
| fwd_set_certification_port_enabled: "forwarding E (rzi_lorawan_set_certification_port_enabled E enabled)"
| fwd_get_dev_nonce: "forwarding E (ignore_out (rzi_lorawan_get_dev_nonce E) dev_nonce)"
| fwd_set_dev_nonce: "forwarding E (rzi_lorawan_set_dev_nonce E dev_nonce)"
| fwd_get_adr_ack: "forwarding E (\<lambda>s. case rzi_lorawan_get_adr_ack E limit delay s of (rc, _, _, t) \<Rightarrow> (rc, t))"

lemmas forwarding_defs =
  rzi_lorawan_get_adr_def rzi_lorawan_set_adr_def rzi_lorawan_get_data_rate_def rzi_lorawan_get_tx_power_def
  rzi_lorawan_set_tx_power_def rzi_lorawan_get_duty_cycle_def rzi_lorawan_set_duty_cycle_def
  rzi_lorawan_get_rx1_delay_def rzi_lorawan_set_rx1_delay_def rzi_lorawan_get_rx2_delay_def
  rzi_lorawan_set_rx2_delay_def rzi_lorawan_get_rx2_data_rate_def rzi_lorawan_set_rx2_data_rate_def
  rzi_lorawan_get_rx2_frequency_def rzi_lorawan_set_rx2_frequency_def rzi_lorawan_get_join_accept_delay1_def
  rzi_lorawan_set_join_accept_delay1_def rzi_lorawan_get_join_accept_delay2_def rzi_lorawan_set_join_accept_delay2_def
  rzi_lorawan_get_public_network_def rzi_lorawan_set_public_network_def rzi_lorawan_get_lbt_def
  rzi_lorawan_set_lbt_def rzi_lorawan_get_lbt_rssi_def rzi_lorawan_set_lbt_rssi_def rzi_lorawan_get_lbt_scan_time_def
  rzi_lorawan_set_lbt_scan_time_def rzi_lorawan_get_adr_profile_def rzi_lorawan_set_adr_profile_def
  rzi_lorawan_get_nb_trans_def rzi_lorawan_set_nb_trans_def rzi_lorawan_set_adr_ack_def
  rzi_lorawan_set_join_data_rates_def rzi_lorawan_get_join_backoff_def rzi_lorawan_get_duty_cycle_status_def
  rzi_lorawan_get_csma_def rzi_lorawan_set_csma_def rzi_lorawan_get_csma_params_def rzi_lorawan_set_csma_params_def
  rzi_lorawan_get_lost_connection_count_def rzi_lorawan_get_no_downlink_threshold_def
  rzi_lorawan_set_no_downlink_threshold_def rzi_lorawan_get_crystal_error_def rzi_lorawan_set_crystal_error_def
  rzi_lorawan_query_tx_possible_def rzi_lorawan_get_ping_slot_periodicity_def
  rzi_lorawan_set_ping_slot_periodicity_def rzi_lorawan_get_beacon_frequency_def rzi_lorawan_get_beacon_time_def
  rzi_lorawan_get_beacon_data_rate_def rzi_lorawan_get_beacon_gateway_def rzi_lorawan_get_class_b_state_def
  rzi_lorawan_add_multicast_session_def rzi_lorawan_remove_multicast_session_def rzi_lorawan_get_multicast_count_def
  rzi_lorawan_get_multicast_session_def rzi_lorawan_clear_multicast_sessions_def
  rzi_lorawan_get_certification_mode_def rzi_lorawan_set_certification_mode_def
  rzi_lorawan_get_certification_port_enabled_def rzi_lorawan_set_certification_port_enabled_def
  rzi_lorawan_get_dev_nonce_def rzi_lorawan_set_dev_nonce_def

lemma forwarding_is_guarded: "forwarding E m \<Longrightarrow> guarded_call E m"
  by (induction rule: forwarding.induct)
    (auto simp: forwarding_defs [abs_def] intro!: guarded_intros guarded_reject guarded_not_null)

text \<open>
  The forwarding entry points are guarded: whatever the arguments, before the service has
  started and in an interrupt each of them leaves the state alone and answers the guard's code or
  \<^verbatim>\<open>INVALID\<close>, and at any time all it changes is the backend's own state and the queue of the events
  the backend published.
\<close>

theorem forwarding_guarded:
  assumes "forwarding E m"
  shows "published E s (snd (m s))
    \<and> (rzi_lorawan_check_started s \<noteq> 0 \<longrightarrow>
         snd (m s) = s \<and> fst (m s) \<in> {rzi_lorawan_check_started s, - RZI_ERR_INVALID})"
  using forwarding_is_guarded [OF assms] by (simp add: guarded_call_def)

theorem forwarding_guarded_witness:
  "rzi_lorawan_set_adr ref_env True ref_state = (- RZI_ERR_NOT_READY, ref_state)"
proof -
  have "rzi_lorawan_check_started ref_state = - RZI_ERR_NOT_READY" "fst (rzi_lorawan_set_adr ref_env True ref_state) = - RZI_ERR_NOT_READY"
    by code_simp+
  with forwarding_guarded [OF fwd_set_adr, of ref_env ref_state True] show ?thesis by (simp add: prod_eq_iff)
qed

end
