(* ===== verification/Rzi_Registry.thy ===== *)
theory Rzi_Registry
  imports Rzi_Delegates
begin

text \<open>
  The callback registry of \<^verbatim>\<open>src/lorawan/lorawan.c\<close> against its abstract specification, a set of
  subscribers of bounded size.
\<close>

section \<open>The interface\<close>

text \<open>
  A registry of at most \<open>cap\<close> members: what adding and removing a member answers and does. The
  codes of the three refusals are parameters of the contract.
\<close>

locale bounded_registry =
  fixes add :: "'c \<Rightarrow> 's op" and remove :: "'c \<Rightarrow> 's op" and members :: "'s \<Rightarrow> 'c set" and cap :: "'s \<Rightarrow> nat"
    and inv :: "'s \<Rightarrow> bool" and valid :: "'c \<Rightarrow> bool" and dup :: int and full :: int and missing :: int
  assumes members_bound: "inv s \<Longrightarrow> finite (members s) \<and> card (members s) \<le> cap s"
    and add_new: "inv s \<Longrightarrow> valid c \<Longrightarrow> c \<notin> members s \<Longrightarrow> card (members s) < cap s \<Longrightarrow>
      add c s = (0, snd (add c s)) \<and> inv (snd (add c s)) \<and> cap (snd (add c s)) = cap s
      \<and> members (snd (add c s)) = insert c (members s)"
    and add_dup: "inv s \<Longrightarrow> valid c \<Longrightarrow> c \<in> members s \<Longrightarrow> add c s = (dup, s)"
    and add_full: "inv s \<Longrightarrow> valid c \<Longrightarrow> c \<notin> members s \<Longrightarrow> card (members s) = cap s \<Longrightarrow> add c s = (full, s)"
    and remove_member: "inv s \<Longrightarrow> valid c \<Longrightarrow> c \<in> members s \<Longrightarrow>
      remove c s = (0, snd (remove c s)) \<and> inv (snd (remove c s)) \<and> cap (snd (remove c s)) = cap s
      \<and> members (snd (remove c s)) = members s - {c}"
    and remove_missing: "inv s \<Longrightarrow> valid c \<Longrightarrow> c \<notin> members s \<Longrightarrow> remove c s = (missing, s)"
    and codes: "dup \<noteq> 0" "full \<noteq> 0" "missing \<noteq> 0"
begin

text \<open>Adding answers 0 exactly for a new member that fits.\<close>

lemma add_iff:
  assumes "inv s" and "valid c"
  shows "fst (add c s) = 0 \<longleftrightarrow> c \<notin> members s \<and> card (members s) < cap s"
proof -
  have "card (members s) < cap s \<or> card (members s) = cap s" using members_bound [OF assms(1)] by auto
  then show ?thesis
    using add_new [OF assms] add_dup [OF assms] add_full [OF assms] codes by (metis fst_conv nat_less_le)
qed

text \<open>A registration can be undone, and then the set of members is what it was.\<close>

lemma add_remove:
  assumes "inv s" and "valid c" and "add c s = (0, t)"
  shows "\<exists>u. remove c t = (0, u) \<and> inv u \<and> members u = members s \<and> cap u = cap s"
proof -
  have new: "c \<notin> members s" "card (members s) < cap s" using add_iff [OF assms(1,2)] assms(3) by auto
  with add_new [OF assms(1,2)] assms(3) have t: "inv t" "cap t = cap s" "members t = insert c (members s)" by auto
  from remove_member [OF t(1) assms(2)] t(3) have r: "remove c t = (0, snd (remove c t))" "inv (snd (remove c t))"
    "cap (snd (remove c t)) = cap t" "members (snd (remove c t)) = members t - {c}" by auto
  moreover have "members t - {c} = members s" using new(1) t(3) by simp
  ultimately show ?thesis using t(2) by (intro exI [of _ "snd (remove c t)"]) simp
qed

text \<open>Registering the same member twice is refused and changes nothing.\<close>

lemma add_twice:
  assumes "inv s" and "valid c" and "add c s = (0, t)"
  shows "add c t = (dup, t)"
proof -
  have "c \<notin> members s" "card (members s) < cap s" using add_iff [OF assms(1,2)] assms(3) by auto
  with add_new [OF assms(1,2)] assms(3) have "inv t" "c \<in> members t" by auto
  then show ?thesis using add_dup assms(2) by blast
qed

text \<open>After a removal there is room for one more.\<close>

lemma room_after_remove:
  assumes "inv s" and "valid c" and "remove c s = (0, t)" and "valid d" and "d \<notin> members s"
  shows "fst (add d t) = 0"
proof -
  have c: "c \<in> members s" using remove_missing [OF assms(1,2)] assms(3) codes by auto
  with remove_member [OF assms(1,2)] assms(3) have t: "inv t" "cap t = cap s" "members t = members s - {c}" by auto
  have "card (members s - {c}) < card (members s)" using c members_bound [OF assms(1)] by (intro psubset_card_mono) auto
  with t members_bound [OF assms(1)] assms(5) show ?thesis by (simp add: add_iff [OF t(1) assms(4)])
qed

end

section \<open>Slots\<close>

lemma same_subscriber_eq [simp]: "same_subscriber a b \<longleftrightarrow> a = b"
  by (cases a; cases b) (auto simp: same_subscriber_def)

definition subscribers :: "('d, 'x, 'm) lorawan_state_scheme \<Rightarrow> rzi_lorawan_callbacks set" where
  "subscribers s = {cb. Some cb \<in> set (callback_slots s)}"

text \<open>Every active slot has a function, and no subscriber is registered twice.\<close>

definition slots_ok :: "rzi_lorawan_callbacks option list \<Rightarrow> bool" where
  "slots_ok slots \<longleftrightarrow> distinct (List.map_filter id slots) \<and> (\<forall>cb. Some cb \<in> set slots \<longrightarrow> \<not> callbacks_empty cb)"

lemma set_active: "set (List.map_filter id slots) = {cb. Some cb \<in> set slots}"
  by (force simp: List.map_filter_def image_iff)

lemma active_append: "List.map_filter id (xs @ ys) = List.map_filter id xs @ List.map_filter id ys"
  by (simp add: List.map_filter_def)

lemma active_length:
  "length (List.map_filter id slots) \<le> length slots"
  "length (List.map_filter id slots) < length slots \<longleftrightarrow> None \<in> set slots"
proof -
  have "length (List.map_filter id slots) + length (filter (\<lambda>x. x = None) slots) = length slots"
    using sum_length_filter_compl [of "\<lambda>x. x \<noteq> None" slots] by (simp add: List.map_filter_def comp_def)
  moreover have "filter (\<lambda>x. x = None) slots = [] \<longleftrightarrow> None \<notin> set slots" by (metis (full_types) filter_empty_conv)
  ultimately show "length (List.map_filter id slots) \<le> length slots"
    "length (List.map_filter id slots) < length slots \<longleftrightarrow> None \<in> set slots"
    by (metis le_add1, metis add_cancel_left_right le_add1 length_0_conv nat_less_le)
qed

lemma scan_slots_spec:
  "scan_slots cb slots i available =
     (if Some cb \<in> set slots then Inl (- RZI_ERR_ALREADY)
      else Inr (if available \<noteq> None then available
                else if None \<in> set slots then Some (i + length (takeWhile (\<lambda>x. x \<noteq> None) slots)) else None))"
  by (induction cb slots i available rule: scan_slots.induct) auto

lemma find_slot_spec:
  "find_slot cb slots = (if Some cb \<in> set slots then Some (length (takeWhile (\<lambda>x. x \<noteq> Some cb) slots)) else None)"
  by (induction slots) (auto split: option.splits)

text \<open>Replacing the first occurrence of an entry.\<close>

lemma update_first:
  assumes "x \<in> set xs"
  shows "\<exists>as bs. xs = as @ x # bs \<and> x \<notin> set as \<and> xs[length (takeWhile (\<lambda>z. z \<noteq> x) xs) := y] = as @ y # bs"
proof -
  obtain as bs where xs: "xs = as @ x # bs" "x \<notin> set as" using assms by (meson split_list_first)
  then have "takeWhile (\<lambda>z. z \<noteq> x) xs = as" by (auto simp: takeWhile_append)
  then show ?thesis using xs by (intro exI [of _ as] exI [of _ bs]) simp
qed

lemma fill_slot:
  assumes "slots_ok slots" and "None \<in> set slots" and "Some cb \<notin> set slots" and "\<not> callbacks_empty cb"
    and "new = slots[length (takeWhile (\<lambda>x. x \<noteq> None) slots) := Some cb]"
  shows "slots_ok new \<and> {c. Some c \<in> set new} = insert cb {c. Some c \<in> set slots} \<and> length new = length slots"
proof -
  obtain as bs where s: "slots = as @ None # bs" "new = as @ Some cb # bs"
    using update_first [OF assms(2), of "Some cb"] assms(5) by auto
  with assms(1,3,4) show ?thesis by (auto simp: slots_ok_def active_append set_active List.map_filter_simps)
qed

lemma free_slot:
  assumes "slots_ok slots" and "Some cb \<in> set slots"
    and "new = slots[length (takeWhile (\<lambda>x. x \<noteq> Some cb) slots) := None]"
  shows "slots_ok new \<and> {c. Some c \<in> set new} = {c. Some c \<in> set slots} - {cb} \<and> length new = length slots"
proof -
  obtain as bs where s: "slots = as @ Some cb # bs" "new = as @ None # bs"
    using update_first [OF assms(2), of None] assms(3) by auto
  with assms(1) show ?thesis by (auto simp: slots_ok_def active_append set_active List.map_filter_simps)
qed

section \<open>The service implements the registry\<close>

definition registry_inv :: "('d, 'x, 'm) lorawan_state_scheme \<Rightarrow> bool" where
  "registry_inv s \<longleftrightarrow> slots_ok (callback_slots s) \<and> \<not> k_is_in_isr s"

lemma subscribers_card:
  assumes "slots_ok (callback_slots s)"
  shows "card (subscribers s) = length (List.map_filter id (callback_slots s))" "finite (subscribers s)"
  using assms distinct_card [of "List.map_filter id (callback_slots s)"]
  by (simp_all add: slots_ok_def subscribers_def set_active flip: set_active)

lemma room_iff:
  assumes "slots_ok (callback_slots s)"
  shows "card (subscribers s) < length (callback_slots s) \<longleftrightarrow> None \<in> set (callback_slots s)"
  by (simp add: subscribers_card(1) [OF assms] active_length(2))

interpretation callback_registry: bounded_registry
  "\<lambda>cb. rzi_lorawan_register_callbacks (Some cb)" "\<lambda>cb. rzi_lorawan_unregister_callbacks (Some cb)"
  subscribers "\<lambda>s. length (callback_slots s)" registry_inv "\<lambda>cb. \<not> callbacks_empty cb"
  "- RZI_ERR_ALREADY" "- RZI_ERR_NO_RESOURCE" "- RZI_ERR_NOT_FOUND"
proof unfold_locales
  fix s :: "('d, 'x, 'm) lorawan_state_scheme" and c
  assume inv: "registry_inv s"
  then have ok: "slots_ok (callback_slots s)" and th: "\<not> k_is_in_isr s" by (simp_all add: registry_inv_def)
  show "finite (subscribers s) \<and> card (subscribers s) \<le> length (callback_slots s)"
    using subscribers_card [OF ok] active_length(1) by simp
  assume v: "\<not> callbacks_empty c"
  note reg = rzi_lorawan_register_callbacks_def scan_slots_spec th v
  note unreg = rzi_lorawan_unregister_callbacks_def find_slot_spec th v
  { assume "c \<notin> subscribers s" "card (subscribers s) < length (callback_slots s)"
    then have n: "Some c \<notin> set (callback_slots s)" "None \<in> set (callback_slots s)"
      using room_iff [OF ok] by (simp_all add: subscribers_def)
    then show "rzi_lorawan_register_callbacks (Some c) s = (0, snd (rzi_lorawan_register_callbacks (Some c) s))
      \<and> registry_inv (snd (rzi_lorawan_register_callbacks (Some c) s))
      \<and> length (callback_slots (snd (rzi_lorawan_register_callbacks (Some c) s))) = length (callback_slots s)
      \<and> subscribers (snd (rzi_lorawan_register_callbacks (Some c) s)) = insert c (subscribers s)"
      using fill_slot [OF ok n(2,1) v refl] th
      by (simp add: reg registry_inv_def subscribers_def k_is_in_isr_def) }
  { assume "c \<in> subscribers s"
    then show "rzi_lorawan_register_callbacks (Some c) s = (- RZI_ERR_ALREADY, s)"
      by (simp add: reg subscribers_def) }
  { assume "c \<notin> subscribers s" "card (subscribers s) = length (callback_slots s)"
    then have "Some c \<notin> set (callback_slots s)" "None \<notin> set (callback_slots s)"
      using room_iff [OF ok] by (simp_all add: subscribers_def)
    then show "rzi_lorawan_register_callbacks (Some c) s = (- RZI_ERR_NO_RESOURCE, s)" by (simp add: reg) }
  { assume "c \<in> subscribers s"
    then have m: "Some c \<in> set (callback_slots s)" by (simp add: subscribers_def)
    then show "rzi_lorawan_unregister_callbacks (Some c) s = (0, snd (rzi_lorawan_unregister_callbacks (Some c) s))
      \<and> registry_inv (snd (rzi_lorawan_unregister_callbacks (Some c) s))
      \<and> length (callback_slots (snd (rzi_lorawan_unregister_callbacks (Some c) s))) = length (callback_slots s)
      \<and> subscribers (snd (rzi_lorawan_unregister_callbacks (Some c) s)) = subscribers s - {c}"
      using free_slot [OF ok m refl] th
      by (simp add: unreg registry_inv_def subscribers_def k_is_in_isr_def) }
  { assume "c \<notin> subscribers s"
    then show "rzi_lorawan_unregister_callbacks (Some c) s = (- RZI_ERR_NOT_FOUND, s)"
      by (simp add: unreg subscribers_def) }
qed simp_all

text \<open>The abstract operations, on a plain set of subscribers.\<close>

definition set_register :: "nat \<Rightarrow> rzi_lorawan_callbacks \<Rightarrow> rzi_lorawan_callbacks set op" where
  "set_register cap cb S =
     (if callbacks_empty cb then (- RZI_ERR_INVALID, S)
      else if cb \<in> S then (- RZI_ERR_ALREADY, S)
      else if card S = cap then (- RZI_ERR_NO_RESOURCE, S)
      else (0, insert cb S))"

definition set_unregister :: "rzi_lorawan_callbacks \<Rightarrow> rzi_lorawan_callbacks set op" where
  "set_unregister cb S =
     (if callbacks_empty cb then (- RZI_ERR_INVALID, S)
      else if cb \<in> S then (0, S - {cb})
      else (- RZI_ERR_NOT_FOUND, S))"

section \<open>Properties\<close>

text \<open>
  The slot array implements a bounded set of subscribers: from any state of the registry,
  registration and removal answer the code and have the effect of the abstract set operations, and
  the array keeps its well-formedness.
\<close>

theorem callback_slots_refine_set:
  assumes ok: "slots_ok (callback_slots s)" and th: "\<not> k_is_in_isr s"
  shows "map_prod id subscribers (rzi_lorawan_register_callbacks (Some cb) s)
      = set_register (length (callback_slots s)) cb (subscribers s)
    \<and> map_prod id subscribers (rzi_lorawan_unregister_callbacks (Some cb) s) = set_unregister cb (subscribers s)
    \<and> slots_ok (callback_slots (snd (rzi_lorawan_register_callbacks (Some cb) s)))
    \<and> slots_ok (callback_slots (snd (rzi_lorawan_unregister_callbacks (Some cb) s)))"
proof -
  have inv: "registry_inv s" using ok th by (simp add: registry_inv_def)
  show ?thesis
  proof (cases "callbacks_empty cb")
    case True
    with ok th show ?thesis
      by (simp add: rzi_lorawan_register_callbacks_def rzi_lorawan_unregister_callbacks_def set_register_def set_unregister_def)
  next
    case v: False
    have reg: "map_prod id subscribers (rzi_lorawan_register_callbacks (Some cb) s)
        = set_register (length (callback_slots s)) cb (subscribers s)
      \<and> slots_ok (callback_slots (snd (rzi_lorawan_register_callbacks (Some cb) s)))"
    proof (cases "cb \<in> subscribers s \<or> card (subscribers s) = length (callback_slots s)")
      case True
      with callback_registry.add_dup [OF inv v] callback_registry.add_full [OF inv v] v ok show ?thesis
        by (auto simp: set_register_def)
    next
      case False
      then have "cb \<notin> subscribers s" "card (subscribers s) < length (callback_slots s)"
        using callback_registry.members_bound [OF inv] by auto
      from callback_registry.add_new [OF inv v this] this v show ?thesis
        by (auto simp: set_register_def registry_inv_def prod_eq_iff)
    qed
    have "map_prod id subscribers (rzi_lorawan_unregister_callbacks (Some cb) s) = set_unregister cb (subscribers s)
      \<and> slots_ok (callback_slots (snd (rzi_lorawan_unregister_callbacks (Some cb) s)))"
      using callback_registry.remove_member [OF inv v] callback_registry.remove_missing [OF inv v] v ok
      by (cases "cb \<in> subscribers s") (auto simp: set_unregister_def registry_inv_def prod_eq_iff)
    with reg show ?thesis by blast
  qed
qed

text \<open>Two free slots in a running service.\<close>

definition two_slots :: "(string \<rightharpoonup> bytes, bool) lorawan_state" where
  "two_slots = ref_state\<lparr>callback_slots := [None, None]\<rparr>"

definition cb_demo :: rzi_lorawan_callbacks where
  "cb_demo = \<lparr>cb_on_event = Some 1, cb_user_data = 0\<rparr>"

lemma two_slots_inv: "registry_inv two_slots" "slots_ok (callback_slots two_slots)" "\<not> k_is_in_isr two_slots"
  "subscribers two_slots = {}" "length (callback_slots two_slots) = 2"
proof -
  show sl: "slots_ok (callback_slots two_slots)" by (simp add: two_slots_def slots_ok_def List.map_filter_simps)
  show ni: "\<not> k_is_in_isr two_slots" by code_simp
  show "registry_inv two_slots" using sl ni by (simp add: registry_inv_def)
  show "subscribers two_slots = {}" "length (callback_slots two_slots) = 2" by (simp_all add: two_slots_def subscribers_def)
qed

theorem callback_slots_refine_set_witness:
  "map_prod id subscribers (rzi_lorawan_register_callbacks (Some cb_demo) two_slots) = (0, {cb_demo})"
proof -
  have "set_register 2 cb_demo {} = (0, {cb_demo})" by (simp add: set_register_def cb_demo_def callbacks_empty_def)
  with callback_slots_refine_set [OF two_slots_inv(2,3), of cb_demo] two_slots_inv(4,5) show ?thesis by simp
qed

text \<open>
  Registration round trip: after a registration that returned 0, the same registration is
  refused with \<^verbatim>\<open>ALREADY\<close> and changes nothing, and removing the subscriber returns 0 and restores the
  set of subscribers and the number of slots.
\<close>

theorem callback_registration_roundtrip:
  assumes ok: "slots_ok (callback_slots s)" and r: "rzi_lorawan_register_callbacks (Some cb) s = (0, t)"
  shows "cb \<notin> subscribers s \<and> rzi_lorawan_register_callbacks (Some cb) t = (- RZI_ERR_ALREADY, t)
    \<and> (\<exists>u. rzi_lorawan_unregister_callbacks (Some cb) t = (0, u) \<and> subscribers u = subscribers s
          \<and> length (callback_slots u) = length (callback_slots s))"
proof -
  have inv: "registry_inv s" and v: "\<not> callbacks_empty cb"
    using ok r by (auto simp: registry_inv_def rzi_lorawan_register_callbacks_def split: if_splits)
  from callback_registry.add_iff [OF inv v] r have "cb \<notin> subscribers s" by simp
  with callback_registry.add_twice [OF inv v r] callback_registry.add_remove [OF inv v r] show ?thesis by blast
qed

theorem callback_registration_roundtrip_witness:
  "\<exists>t u. rzi_lorawan_register_callbacks (Some cb_demo) two_slots = (0, t)
     \<and> rzi_lorawan_unregister_callbacks (Some cb_demo) t = (0, u) \<and> subscribers u = {}"
proof -
  let ?r = "rzi_lorawan_register_callbacks (Some cb_demo) two_slots"
  have "fst ?r = 0" by code_simp
  then have r: "?r = (0, snd ?r)" by (simp add: prod_eq_iff)
  from callback_registration_roundtrip [OF two_slots_inv(2) r] r two_slots_inv(4) show ?thesis by metis
qed

end
