(* ===== verification/Rzi_Dispatch.thy ===== *)
theory Rzi_Dispatch
  imports Rzi_Registry
begin

text \<open>
  Behaviour of the event path of \<^verbatim>\<open>src/lorawan/lorawan.c\<close>: the bounded queue between the backend
  and the dispatcher thread, what the dispatcher delivers and in which order, and the join
  sequence as a counter. Application callbacks and service hooks are parameters; what is asked of
  them is stated per result.
\<close>

section \<open>The queue\<close>

lemma publish_all_fifo:
  assumes "msgq_fifo n E" and "length (events s) \<le> n"
  shows "fold (publish E) evs s =
    s\<lparr>events := take n (events s @ evs), overflow := (overflow s \<or> n < length (events s) + length evs)\<rparr>"
  using assms(2)
proof (induction evs arbitrary: s)
  case (Cons ev evs)
  show ?case
  proof (cases "length (events s) < n")
    case True
    with Cons.IH [of "s\<lparr>events := events s @ [ev]\<rparr>"] show ?thesis by (simp add: publish_fifo [OF assms(1)])
  next
    case False
    with Cons.prems have "length (events s) = n" by simp
    with Cons.IH [of "s\<lparr>overflow := True\<rparr>"] show ?thesis by (simp add: publish_fifo [OF assms(1)])
  qed
qed simp

section \<open>What a dispatched event delivers\<close>

text \<open>The public form of a backend event, and whether the join sequence consumes it.\<close>

definition public_of :: "backend_event \<Rightarrow> rzi_lorawan_event option" where
  "public_of event =
     (case event of
        BACKEND_READY \<Rightarrow> Some EVENT_READY
      | BACKEND_JOINED \<Rightarrow> Some EVENT_JOINED
      | BACKEND_JOIN_FAILED error \<Rightarrow> Some (EVENT_JOIN_FAILED (if error \<noteq> 0 then error else - RZI_ERR_TIMEOUT))
      | BACKEND_TX_DONE status error \<Rightarrow> Some (EVENT_TXDONE \<lparr>tx_status = status, tx_error = error\<rparr>)
      | BACKEND_DOWNLINK d \<Rightarrow> Some (EVENT_DOWNDATA d)
      | BACKEND_ERROR error \<Rightarrow> Some (EVENT_ERROR error)
      | BACKEND_STATE_CHANGED st \<Rightarrow> Some (EVENT_STATE_CHANGED st)
      | BACKEND_LINK_CHECK r \<Rightarrow> Some (EVENT_LINK_CHECK r)
      | BACKEND_DEVICE_TIME error \<Rightarrow> Some (EVENT_LORAWAN_MAC_TIME error)
      | BACKEND_CLASS_B st \<Rightarrow> Some (EVENT_CLASS_B st)
      | BACKEND_DUTY_CYCLE limited \<Rightarrow> Some (EVENT_REGIONAL_DUTY_CYCLE limited)
      | BACKEND_NO_DOWNLINK reasons \<Rightarrow> Some (EVENT_NO_DOWNLINK_THRESHOLD reasons)
      | BACKEND_FUOTA _ _ _ \<Rightarrow> None)"

fun is_join_failed :: "backend_event \<Rightarrow> bool" where
  "is_join_failed (BACKEND_JOIN_FAILED _) = True"
| "is_join_failed _ = False"

definition swallows :: "backend_event \<Rightarrow> ('d, 'x, 'm) lorawan_state_scheme \<Rightarrow> bool" where
  "swallows event s \<longleftrightarrow> is_join_failed event \<and> join_sequence_active s \<and> join_retries_remaining s > 0"

text \<open>The invocations one event causes, in slot order.\<close>

definition notices ::
  "backend_event \<Rightarrow> rzi_lorawan_callbacks option list \<Rightarrow> (rzi_lorawan_callbacks \<times> rzi_lorawan_event) list" where
  "notices event slots =
     (case public_of event of
        None \<Rightarrow> []
      | Some pe \<Rightarrow> map (\<lambda>cb. (cb, pe)) [cb \<leftarrow> List.map_filter id slots. cb_on_event cb \<noteq> None])"

text \<open>
  \<open>unchanged fld E\<close>: application callbacks and service hooks leave the part \<open>fld\<close> of the state
  alone. Only the dispatcher appends to the history, so \<open>unchanged delivered\<close> holds of every
  real callback.
\<close>

definition unchanged ::
  "(('d, 'x, 'm) lorawan_state_scheme \<Rightarrow> 'v) \<Rightarrow> ('d, 'x, ('d, 'x, 'm) lorawan_state_scheme, 'e) lorawan_env_scheme \<Rightarrow> bool" where
  "unchanged fld E \<longleftrightarrow> (\<forall>f ev d s. fld (on_event E f ev d s) = fld s)
     \<and> (\<forall>i h ev s. svc_on_event E i = Some h \<longrightarrow> fld (h ev s) = fld s)"

lemma event_from_backend_public: "fst (event_from_backend event s) = public_of event"
  by (cases event) (simp_all add: event_from_backend_def public_of_def)

lemma event_from_backend_frame:
  "\<exists>r n v. snd (event_from_backend event s) = s\<lparr>last_rssi_dbm := r, last_snr_quarter_db := n, last_downlink_valid := v\<rparr>"
proof (cases "\<exists>d. event = BACKEND_DOWNLINK d")
  case True
  then show ?thesis unfolding event_from_backend_def by (elim exE) (simp, blast)
next
  case False
  then have "snd (event_from_backend event s) = s" by (cases event) (simp_all add: event_from_backend_def)
  then show ?thesis
    by (intro exI [of _ "last_rssi_dbm s"] exI [of _ "last_snr_quarter_db s"] exI [of _ "last_downlink_valid s"]) simp
qed

lemma swallow_swallows: "fst (swallow_join_event E event s) = swallows event s"
  by (cases event) (simp_all add: swallow_join_event_def swallows_def)

text \<open>A part that publishing and the join bookkeeping leave alone is left alone by the sequence.\<close>

lemma fold_services_unchanged:
  assumes "unchanged fld E"
  shows "fld (fold (\<lambda>i w. case svc_on_event E i of None \<Rightarrow> w | Some h \<Rightarrow> h event w) is s) = fld s"
  using assms by (induction "is" arbitrary: s) (auto simp: unchanged_def split: option.splits)

lemma deliver_all_unchanged:
  assumes "unchanged fld E" and "\<And>s d. fld (s\<lparr>delivered := d\<rparr>) = fld s"
  shows "fld (fold (deliver_to E pe) cbs s) = fld s"
proof (induction cbs arbitrary: s)
  case (Cons cb cbs)
  have "fld (deliver_to E pe cb s) = fld s"
    using assms by (auto simp: deliver_to_def unchanged_def split: option.splits)
  with Cons.IH show ?case by simp
qed simp

lemma deliver_all_history:
  assumes "unchanged delivered E"
  shows "delivered (fold (deliver_to E pe) cbs s) =
    delivered s @ (case pe of None \<Rightarrow> [] | Some e \<Rightarrow> map (\<lambda>cb. (cb, e)) [cb \<leftarrow> cbs. cb_on_event cb \<noteq> None])"
proof (induction cbs arbitrary: s)
  case (Cons cb cbs)
  have "delivered (deliver_to E pe cb s) = delivered s @
      (case pe of None \<Rightarrow> [] | Some e \<Rightarrow> if cb_on_event cb \<noteq> None then [(cb, e)] else [])"
    using assms by (auto simp: deliver_to_def unchanged_def split: option.splits)
  with Cons.IH [of "deliver_to E pe cb s"] show ?case by (auto split: option.splits)
qed (auto split: option.splits)

text \<open>What the join bookkeeping does to the state.\<close>

definition give_up ::
  "('d, 'x, 's, 'e) lorawan_env_scheme \<Rightarrow> ('d, 'x, 'm) lorawan_state_scheme \<Rightarrow> ('d, 'x, 'm) lorawan_state_scheme" where
  "give_up E s = publish_state E STATE_READY (snd (run_bop E (bk_leave (bk_base (backend E))) (clear_join_sequence s)))"

lemma swallow_cases:
  "snd (swallow_join_event E event s) =
     (if event = BACKEND_JOINED then clear_join_sequence s
      else if swallows event s then s\<lparr>join_retries_remaining := join_retries_remaining s - 1\<rparr>
      else if is_join_failed event \<and> join_sequence_active s then give_up E s
      else s)"
  by (cases event) (auto simp: swallow_join_event_def swallows_def give_up_def)

lemma give_up_queue_only: "queue_only (clear_join_sequence s) (give_up E s)"
  unfolding give_up_def publish_state_def by (rule queue_only_trans [OF queue_only_run_bop queue_only_publish])

lemma clear_join_sequence_fields [simp]:
  "callback_slots (clear_join_sequence s) = callback_slots s" "services (clear_join_sequence s) = services s"
  "delivered (clear_join_sequence s) = delivered s" "sets (clear_join_sequence s) = sets s"
  "events (clear_join_sequence s) = events s" "overflow (clear_join_sequence s) = overflow s"
  "\<not> join_sequence_active (clear_join_sequence s)" "join_retries_remaining (clear_join_sequence s) = 0"
  "\<not> join_active (credentials (clear_join_sequence s))"
  by (simp_all add: clear_join_sequence_def rzi_lorawan_credentials_set_join_active_def)

lemma give_up_fields [simp]:
  "callback_slots (give_up E s) = callback_slots s" "services (give_up E s) = services s"
  "delivered (give_up E s) = delivered s" "sets (give_up E s) = sets s"
  "\<not> join_sequence_active (give_up E s)" "join_retries_remaining (give_up E s) = 0"
  "\<not> join_active (credentials (give_up E s))"
  using queue_only_fields [OF give_up_queue_only [of s E]] by simp_all

lemma swallow_fields [simp]:
  "callback_slots (snd (swallow_join_event E event s)) = callback_slots s"
  "services (snd (swallow_join_event E event s)) = services s"
  "delivered (snd (swallow_join_event E event s)) = delivered s"
  by (simp_all add: swallow_cases)

text \<open>One dispatched event: the sequence the code runs when it is not swallowed.\<close>

definition deliver_event ::
  "('d, 'x, ('d, 'x, 'm) lorawan_state_scheme, 'e) lorawan_env_scheme \<Rightarrow> backend_event
   \<Rightarrow> rzi_lorawan_callbacks option list \<Rightarrow> ('d, 'x, 'm) lorawan_state_scheme \<Rightarrow> ('d, 'x, 'm) lorawan_state_scheme" where
  "deliver_event E event slots t =
     (let v = fold (deliver_to E (public_of event)) (List.map_filter id slots) (snd (event_from_backend event t)) in
      fold (\<lambda>i w. case svc_on_event E i of None \<Rightarrow> w | Some h \<Rightarrow> h event w) (services v) v)"

lemma dispatch_eq:
  "dispatch E event s =
     (if swallows event s then snd (swallow_join_event E event s)
      else deliver_event E event (callback_slots s) (snd (swallow_join_event E event s)))"
proof -
  obtain b t where w: "swallow_join_event E event s = (b, t)" by fastforce
  obtain p u where e: "event_from_backend event t = (p, u)" by fastforce
  have "b = swallows event s" using swallow_swallows [of E event s] w by simp
  moreover have "p = public_of event" using event_from_backend_public [of event t] e by simp
  ultimately show ?thesis using w e by (simp add: dispatch_def deliver_event_def Let_def)
qed

lemma deliver_event_unchanged:
  assumes "unchanged fld E" and "\<And>s d. fld (s\<lparr>delivered := d\<rparr>) = fld s"
    and "\<And>s r n v. fld (s\<lparr>last_rssi_dbm := r, last_snr_quarter_db := n, last_downlink_valid := v\<rparr>) = fld s"
  shows "fld (deliver_event E event slots t) = fld t"
proof -
  have "fld (snd (event_from_backend event t)) = fld t" using event_from_backend_frame [of event t] assms(3) by force
  with deliver_all_unchanged [OF assms(1,2)] show ?thesis
    by (simp add: deliver_event_def Let_def fold_services_unchanged [OF assms(1)])
qed

lemma dispatch_unchanged:
  assumes "unchanged fld E" and "\<And>s d. fld (s\<lparr>delivered := d\<rparr>) = fld s"
    and "\<And>s r n v. fld (s\<lparr>last_rssi_dbm := r, last_snr_quarter_db := n, last_downlink_valid := v\<rparr>) = fld s"
  shows "fld (dispatch E event s) = fld (snd (swallow_join_event E event s))"
  by (simp add: dispatch_eq deliver_event_unchanged [OF assms])

lemma deliver_event_history:
  assumes "unchanged delivered E"
  shows "delivered (deliver_event E event slots t) = delivered t @ notices event slots"
proof -
  have "delivered (snd (event_from_backend event t)) = delivered t" using event_from_backend_frame [of event t] by force
  then show ?thesis
    by (simp add: deliver_event_def Let_def fold_services_unchanged [OF assms] deliver_all_history [OF assms] notices_def
        split: option.splits)
qed

section \<open>The join sequence as a counter\<close>

text \<open>The retries left while a join runs, \<open>None\<close> when none does; and how an event moves it.\<close>

definition join_abs :: "('d, 'x, 'm) lorawan_state_scheme \<Rightarrow> nat option" where
  "join_abs s = (if join_sequence_active s then Some (join_retries_remaining s) else None)"

definition join_next :: "backend_event \<Rightarrow> nat option \<Rightarrow> nat option" where
  "join_next event a =
     (if event = BACKEND_JOINED then None
      else if is_join_failed event then (case a of Some (Suc k) \<Rightarrow> Some k | _ \<Rightarrow> None)
      else a)"

lemma join_abs_swallow: "join_abs (snd (swallow_join_event E event s)) = join_next event (join_abs s)"
  by (auto simp: swallow_cases join_abs_def join_next_def swallows_def split: nat.splits)

lemma join_abs_dispatch:
  assumes "unchanged join_abs E"
  shows "join_abs (dispatch E event s) = join_next event (join_abs s)"
proof -
  have "join_abs (dispatch E event s) = join_abs (snd (swallow_join_event E event s))"
    by (rule dispatch_unchanged [OF assms]) (simp_all add: join_abs_def)
  then show ?thesis by (simp add: join_abs_swallow)
qed

lemma join_next_ends:
  "BACKEND_JOINED \<in> set evs \<or> k < length (filter is_join_failed evs) \<Longrightarrow> fold join_next evs (Some k) = None"
proof (induction evs arbitrary: k)
  case (Cons ev evs)
  have none: "fold join_next es None = None" for es
    by (induction es) (simp_all add: join_next_def)
  show ?case
  proof (cases "ev = BACKEND_JOINED \<or> is_join_failed ev \<and> k = 0")
    case True
    then have "join_next ev (Some k) = None" by (auto simp: join_next_def)
    then show ?thesis by (simp add: none)
  next
    case False
    then have "join_next ev (Some k) = Some (if is_join_failed ev then k - 1 else k)"
      by (auto simp: join_next_def gr0_conv_Suc split: nat.splits)
    moreover have "BACKEND_JOINED \<in> set evs
        \<or> (if is_join_failed ev then k - 1 else k) < length (filter is_join_failed evs)"
      using Cons.prems False by (auto split: if_splits)
    ultimately show ?thesis using Cons.IH by simp
  qed
qed simp

section \<open>Draining the queue\<close>

text \<open>The loop of the dispatcher thread, for at most \<open>n\<close> iterations or until it waits.\<close>

fun dispatcher_run ::
  "nat \<Rightarrow> ('d, 'x, ('d, 'x, 'm) lorawan_state_scheme, 'e) lorawan_env_scheme
   \<Rightarrow> ('d, 'x, 'm) lorawan_state_scheme \<Rightarrow> ('d, 'x, 'm) lorawan_state_scheme" where
  "dispatcher_run 0 E s = s"
| "dispatcher_run (Suc n) E s = (case dispatcher_step E s of None \<Rightarrow> s | Some t \<Rightarrow> dispatcher_run n E t)"

text \<open>The part of the state that decides what is delivered.\<close>

definition event_path ::
  "('d, 'x, 'm) lorawan_state_scheme \<Rightarrow> backend_event list \<times> bool \<times> rzi_lorawan_callbacks option list \<times> nat option" where
  "event_path s = (events s, overflow s, callback_slots s, join_abs s)"

text \<open>The events handled from here on: an overflow is reported after the oldest one.\<close>

definition to_handle :: "('d, 'x, 'm) lorawan_state_scheme \<Rightarrow> backend_event list" where
  "to_handle s =
     (case events s of
        [] \<Rightarrow> []
      | e # es \<Rightarrow> e # (if overflow s then BACKEND_ERROR (- RZI_ERR_OVERFLOW) # es else es))"

text \<open>
  The events that subscribers hear of a list, with \<open>a\<close> the retries left of a running join: a join
  failure within the retries is swallowed. The list exhausts the join when a failure finds no retry
  left; the dispatcher then stops the backend and publishes a state of its own.
\<close>

definition retried :: "backend_event \<Rightarrow> nat option \<Rightarrow> bool" where
  "retried e a \<longleftrightarrow> is_join_failed e \<and> (case a of None \<Rightarrow> False | Some k \<Rightarrow> 0 < k)"

fun heard :: "nat option \<Rightarrow> backend_event list \<Rightarrow> backend_event list" where
  "heard a [] = []"
| "heard a (e # es) = (if retried e a then heard (join_next e a) es else e # heard (join_next e a) es)"

fun exhausts :: "nat option \<Rightarrow> backend_event list \<Rightarrow> bool" where
  "exhausts a [] = False"
| "exhausts a (e # es) = (is_join_failed e \<and> a = Some 0 \<or> exhausts (join_next e a) es)"

lemma heard_idle: "heard None es = es" "\<not> exhausts None es"
  by (induction es) (simp_all add: retried_def join_next_def)

lemma dispatch_quiet:
  assumes "unchanged event_path E" and "unchanged delivered E" and q: "\<not> (is_join_failed event \<and> join_abs s = Some 0)"
  shows "events (dispatch E event s) = events s" "overflow (dispatch E event s) = overflow s"
    "callback_slots (dispatch E event s) = callback_slots s" "join_abs (dispatch E event s) = join_next event (join_abs s)"
    "delivered (dispatch E event s)
       = delivered s @ (if retried event (join_abs s) then [] else notices event (callback_slots s))"
proof -
  let ?t = "snd (swallow_join_event E event s)"
  have r: "swallows event s = retried event (join_abs s)"
    by (simp add: swallows_def retried_def join_abs_def)
  have t: "events ?t = events s" "overflow ?t = overflow s" "callback_slots ?t = callback_slots s"
    using q by (auto simp: swallow_cases swallows_def join_abs_def)
  have "event_path (dispatch E event s) = event_path ?t"
    by (rule dispatch_unchanged [OF assms(1)]) (simp_all add: event_path_def join_abs_def)
  with t show "events (dispatch E event s) = events s" "overflow (dispatch E event s) = overflow s"
    "callback_slots (dispatch E event s) = callback_slots s" "join_abs (dispatch E event s) = join_next event (join_abs s)"
    by (simp_all add: event_path_def join_abs_swallow)
  show "delivered (dispatch E event s)
      = delivered s @ (if retried event (join_abs s) then [] else notices event (callback_slots s))"
    by (simp add: dispatch_eq r deliver_event_history [OF assms(2)])
qed

text \<open>One iteration: the oldest event, and after it the report of an overflow.\<close>

lemma dispatcher_step_quiet:
  assumes "msgq_fifo n E" and "unchanged event_path E" and "unchanged delivered E"
    and ev: "events s = e # es" and q: "\<not> (is_join_failed e \<and> join_abs s = Some 0)"
  shows "\<exists>t. dispatcher_step E s = Some t \<and> events t = es \<and> \<not> overflow t \<and> callback_slots t = callback_slots s
    \<and> join_abs t = join_next e (join_abs s)
    \<and> delivered t = delivered s @ (if retried e (join_abs s) then [] else notices e (callback_slots s))
        @ (if overflow s then notices (BACKEND_ERROR (- RZI_ERR_OVERFLOW)) (callback_slots s) else [])"
proof -
  have g: "k_msgq_get E (events s) = Some (e, es)" using assms(1) ev by (simp add: msgq_fifo_def)
  have j: "join_abs (s\<lparr>events := x\<rparr>) = join_abs s" "join_abs (w\<lparr>overflow := b\<rparr>) = join_abs w" for x b w
    by (simp_all add: join_abs_def)
  let ?u = "dispatch E e (s\<lparr>events := es\<rparr>)"
  have u: "events ?u = es" "overflow ?u = overflow s" "callback_slots ?u = callback_slots s"
      "join_abs ?u = join_next e (join_abs s)"
      "delivered ?u = delivered s @ (if retried e (join_abs s) then [] else notices e (callback_slots s))"
    using dispatch_quiet [OF assms(2,3), of e "s\<lparr>events := es\<rparr>"] q by (simp_all add: j)
  let ?err = "BACKEND_ERROR (- RZI_ERR_OVERFLOW)"
  let ?v = "dispatch E ?err (?u\<lparr>overflow := False\<rparr>)"
  have v: "events ?v = es" "\<not> overflow ?v" "callback_slots ?v = callback_slots s" "join_abs ?v = join_abs ?u"
      "delivered ?v = delivered ?u @ notices ?err (callback_slots s)"
    using dispatch_quiet [OF assms(2,3), of ?err "?u\<lparr>overflow := False\<rparr>"] u
    by (simp_all add: j retried_def join_next_def)
  show ?thesis
  proof (cases "overflow s")
    case True
    then have "dispatcher_step E s = Some ?v" using g u(2) by (simp add: dispatcher_step_def Let_def)
    with v u True show ?thesis by simp
  next
    case False
    then have "dispatcher_step E s = Some ?u" using g u(2) by (simp add: dispatcher_step_def Let_def)
    with u False show ?thesis by simp
  qed
qed

lemma drain_without_overflow:
  assumes "msgq_fifo n E" and "unchanged event_path E" and "unchanged delivered E"
    and "\<not> exhausts (join_abs s) (events s)" and "\<not> overflow s" and "length (events s) \<le> m"
  shows "events (dispatcher_run m E s) = []
    \<and> delivered (dispatcher_run m E s)
        = delivered s @ concat (map (\<lambda>e. notices e (callback_slots s)) (heard (join_abs s) (events s)))"
  using assms(4-)
proof (induction m arbitrary: s)
  case (Suc m)
  show ?case
  proof (cases "events s")
    case Nil
    then show ?thesis using assms(1) by (simp add: dispatcher_step_def msgq_fifo_def)
  next
    case (Cons e es)
    have q: "\<not> (is_join_failed e \<and> join_abs s = Some 0)" "\<not> exhausts (join_next e (join_abs s)) es"
      using Suc.prems(1) Cons by auto
    from dispatcher_step_quiet [OF assms(1-3) Cons q(1)] Suc.prems(2) obtain t where
      "dispatcher_step E s = Some t" "events t = es" "\<not> overflow t" "callback_slots t = callback_slots s"
      "join_abs t = join_next e (join_abs s)"
      "delivered t = delivered s @ (if retried e (join_abs s) then [] else notices e (callback_slots s))" by auto
    with Suc.IH [of t] Suc.prems(3) Cons q show ?thesis by simp
  qed
qed simp

section \<open>Properties\<close>

text \<open>
  The queue is bounded and loses nothing silently: publishing any sequence of events on a queue
  of capacity \<open>n\<close> keeps the first that fit, in order, behind those already queued, and the
  overflow flag is raised exactly when something was dropped.
\<close>

theorem publish_bounded:
  assumes "msgq_fifo n E" and "length (events s) \<le> n" and "\<not> overflow s"
  shows "events (fold (publish E) evs s) = take n (events s @ evs)
    \<and> length (events (fold (publish E) evs s)) \<le> n
    \<and> (overflow (fold (publish E) evs s) \<longleftrightarrow> events (fold (publish E) evs s) \<noteq> events s @ evs)"
  using assms by (auto simp: publish_all_fifo)

theorem publish_bounded_witness:
  "events (fold (publish ref_env) (replicate 10 BACKEND_READY) ref_state) = replicate 8 BACKEND_READY
   \<and> overflow (fold (publish ref_env) (replicate 10 BACKEND_READY) ref_state)"
proof -
  have s: "events ref_state = []" "\<not> overflow ref_state" by code_simp+
  have "length (events ref_state) \<le> 8" using s(1) by simp
  from publish_bounded [OF ref_env_msgq this s(2), of "replicate 10 BACKEND_READY"]
  have e: "events (fold (publish ref_env) (replicate 10 BACKEND_READY) ref_state) = replicate 8 BACKEND_READY"
    and f: "overflow (fold (publish ref_env) (replicate 10 BACKEND_READY) ref_state)
      = (replicate 8 BACKEND_READY \<noteq> replicate 10 BACKEND_READY)"
    by (simp_all add: s(1))
  from e f show ?thesis by (metis length_replicate numeral_eq_iff semiring_norm(83,87,88))
qed

text \<open>
  Delivery: a dispatched event that the join sequence does not consume is delivered in its
  public form to every active subscriber, once each and in slot order, and a consumed one to none;
  only the internal firmware-update events have no public form.
\<close>

theorem dispatch_delivers_in_order:
  assumes "unchanged delivered E"
  shows "delivered (dispatch E event s) =
      delivered s @ (if swallows event s then [] else notices event (callback_slots s))
    \<and> (public_of event = None \<longleftrightarrow> (\<exists>kind ok value. event = BACKEND_FUOTA kind ok value))"
proof -
  have "public_of event = None \<longleftrightarrow> (\<exists>kind ok value. event = BACKEND_FUOTA kind ok value)"
    by (cases event) (simp_all add: public_of_def)
  then show ?thesis by (simp add: dispatch_eq deliver_event_history [OF assms])
qed

lemma ref_env_unchanged: "unchanged fld ref_env"
  by (simp add: unchanged_def)

definition busy_state :: "(string \<rightharpoonup> bytes, bool) lorawan_state" where
  "busy_state = ref_state\<lparr>callback_slots := [Some cb_demo, None],
     events := [BACKEND_READY, BACKEND_FUOTA FUOTA_CLOCK_SYNCED True 0, BACKEND_JOINED], overflow := True\<rparr>"

theorem dispatch_delivers_in_order_witness:
  "delivered (dispatch ref_env BACKEND_JOINED busy_state) = [(cb_demo, EVENT_JOINED)]"
proof -
  have "\<not> swallows BACKEND_JOINED busy_state" "delivered busy_state = []"
    "notices BACKEND_JOINED (callback_slots busy_state) = [(cb_demo, EVENT_JOINED)]" by code_simp+
  with dispatch_delivers_in_order [OF ref_env_unchanged [of delivered], of BACKEND_JOINED busy_state] show ?thesis by simp
qed

text \<open>
  C32. The dispatcher drains its queue: with callbacks and service hooks that neither publish events
  nor change the subscriptions or the join, as many iterations as there are queued events empty the
  queue, and the subscribers hear the queued events in order, with one overflow error right after
  the first when events had been lost. While a join runs, the failures within its retries are
  swallowed and everything else is heard; the claim stops at the failure that finds no retry left,
  where the dispatcher leaves the network and publishes new events. With no join running it covers
  every queue.
\<close>

theorem dispatcher_drains:
  assumes "msgq_fifo n E" and "unchanged event_path E" and "unchanged delivered E"
    and "\<not> exhausts (join_abs s) (to_handle s)"
  shows "events (dispatcher_run (length (events s)) E s) = []
    \<and> dispatcher_step E (dispatcher_run (length (events s)) E s) = None
    \<and> delivered (dispatcher_run (length (events s)) E s)
        = delivered s @ concat (map (\<lambda>e. notices e (callback_slots s)) (heard (join_abs s) (to_handle s)))"
proof -
  have "events (dispatcher_run (length (events s)) E s) = []
    \<and> delivered (dispatcher_run (length (events s)) E s)
        = delivered s @ concat (map (\<lambda>e. notices e (callback_slots s)) (heard (join_abs s) (to_handle s)))"
  proof (cases "events s")
    case (Cons e es)
    have err: "join_next (BACKEND_ERROR c) a = a" "\<not> retried (BACKEND_ERROR c) a" for c a
      by (simp_all add: join_next_def retried_def)
    have q: "\<not> (is_join_failed e \<and> join_abs s = Some 0)" "\<not> exhausts (join_next e (join_abs s)) es"
      using assms(4) Cons by (auto simp: to_handle_def err split: if_splits)
    from dispatcher_step_quiet [OF assms(1-3) Cons q(1)] obtain t where t: "dispatcher_step E s = Some t" "events t = es"
      "\<not> overflow t" "callback_slots t = callback_slots s" "join_abs t = join_next e (join_abs s)"
      "delivered t = delivered s @ (if retried e (join_abs s) then [] else notices e (callback_slots s))
        @ (if overflow s then notices (BACKEND_ERROR (- RZI_ERR_OVERFLOW)) (callback_slots s) else [])" by blast
    from drain_without_overflow [OF assms(1-3) _ t(3), of "length es"] q(2) t Cons show ?thesis
      by (simp add: to_handle_def err)
  qed (simp add: to_handle_def)
  then show ?thesis using assms(1) by (simp add: dispatcher_step_def msgq_fifo_def)
qed

text \<open>A join with one retry left, and a failure, an overflow and a success to handle.\<close>

definition busy_join_state :: "(string \<rightharpoonup> bytes, bool) lorawan_state" where
  "busy_join_state = busy_state\<lparr>events := [BACKEND_JOIN_FAILED 0, BACKEND_READY, BACKEND_JOINED], join_sequence_active := True,
     join_retries_remaining := 1\<rparr>"

theorem dispatcher_drains_witness:
  "delivered (dispatcher_run 3 ref_env busy_join_state)
     = [(cb_demo, EVENT_ERROR (- RZI_ERR_OVERFLOW)), (cb_demo, EVENT_READY), (cb_demo, EVENT_JOINED)]"
proof -
  have "\<not> exhausts (join_abs busy_join_state) (to_handle busy_join_state)" "length (events busy_join_state) = 3"
    "delivered busy_join_state = []"
    "concat (map (\<lambda>e. notices e (callback_slots busy_join_state)) (heard (join_abs busy_join_state) (to_handle busy_join_state)))
       = [(cb_demo, EVENT_ERROR (- RZI_ERR_OVERFLOW)), (cb_demo, EVENT_READY), (cb_demo, EVENT_JOINED)]" by code_simp+
  with dispatcher_drains [OF ref_env_msgq ref_env_unchanged [of event_path] ref_env_unchanged [of delivered], of busy_join_state]
  show ?thesis by simp
qed

text \<open>
  C2. The join sequence is a counter: when callbacks do not start or stop joins, dispatching an
  event moves the retries left as the abstract counter does, ends the sequence at the failure that
  finds no retry left or at the first join, and ending it unlocks the credentials; only failures
  within the retries are hidden from subscribers.
\<close>

theorem join_sequence_refines_counter:
  assumes "unchanged join_abs E" and "unchanged (\<lambda>s. join_active (credentials s)) E"
    and "join_active (credentials s) = join_sequence_active s"
  shows "join_abs (dispatch E event s) = join_next event (join_abs s)
    \<and> join_active (credentials (dispatch E event s)) = join_sequence_active (dispatch E event s)
    \<and> (swallows event s \<longleftrightarrow> is_join_failed event \<and> (\<exists>k. join_abs s = Some (Suc k)))"
proof -
  let ?t = "snd (swallow_join_event E event s)"
  have a: "join_abs (dispatch E event s) = join_next event (join_abs s)" by (rule join_abs_dispatch [OF assms(1)])
  then have "join_abs (dispatch E event s) = join_abs ?t" by (simp add: join_abs_swallow)
  then have "join_sequence_active (dispatch E event s) = join_sequence_active ?t" by (simp add: join_abs_def split: if_splits)
  moreover have "join_active (credentials (dispatch E event s)) = join_active (credentials ?t)"
    by (rule dispatch_unchanged [OF assms(2)]) simp_all
  moreover have "join_active (credentials ?t) = join_sequence_active ?t" using assms(3) by (simp add: swallow_cases)
  moreover have "swallows event s \<longleftrightarrow> is_join_failed event \<and> (\<exists>k. join_abs s = Some (Suc k))"
    by (auto simp: join_abs_def swallows_def gr0_conv_Suc)
  ultimately show ?thesis using a by simp
qed

definition retry_state :: "(string \<rightharpoonup> bytes, bool) lorawan_state" where
  "retry_state = joining_state\<lparr>started := True, join_sequence_active := True, join_retries_remaining := 1\<rparr>"

theorem join_sequence_refines_counter_witness:
  "join_abs (dispatch ref_env (BACKEND_JOIN_FAILED 0) retry_state) = Some 0"
proof -
  have "join_active (credentials retry_state) = join_sequence_active retry_state"
    "join_next (BACKEND_JOIN_FAILED 0) (join_abs retry_state) = Some 0" by code_simp+
  with join_sequence_refines_counter [OF ref_env_unchanged [of join_abs] ref_env_unchanged, of retry_state "BACKEND_JOIN_FAILED 0"]
  show ?thesis by simp
qed

text \<open>
  C31. Every join ends: a sequence started with \<open>k\<close> retries is over once the dispatcher has seen a
  join or more than \<open>k\<close> failures, whatever other events are interleaved.
\<close>

theorem join_sequence_ends:
  assumes "unchanged join_abs E" and "join_abs s = Some k"
    and "BACKEND_JOINED \<in> set evs \<or> k < length (filter is_join_failed evs)"
  shows "\<not> join_sequence_active (fold (dispatch E) evs s)"
proof -
  have "join_abs (fold (dispatch E) evs u) = fold join_next evs (join_abs u)" for u
    by (induction evs arbitrary: u) (simp_all add: join_abs_dispatch [OF assms(1)])
  then have "join_abs (fold (dispatch E) evs s) = None" using join_next_ends [OF assms(3)] assms(2) by simp
  then show ?thesis by (simp add: join_abs_def split: if_splits)
qed

theorem join_sequence_ends_witness:
  "\<not> join_sequence_active (fold (dispatch ref_env)
     [BACKEND_JOIN_FAILED 0, BACKEND_READY, BACKEND_JOIN_FAILED 0] retry_state)"
proof -
  have "join_abs retry_state = Some 1" by code_simp
  from join_sequence_ends [OF ref_env_unchanged [of join_abs] this,
      of "[BACKEND_JOIN_FAILED 0, BACKEND_READY, BACKEND_JOIN_FAILED 0]"] show ?thesis by simp
qed

end
