(* ===== verification/Rzi_Service.thy ===== *)
theory Rzi_Service
  imports Rzi_Dispatch
begin

text \<open>
  The LoRaWAN service as a transition system. A step is one call of the public API, one iteration
  of the dispatcher thread, an event or a state change of the backend, or a step of the power
  service (which includes entering and leaving an interrupt). The invariant ties together the
  settings on flash, the credential cache, the join sequence, the event queue and the registry.
\<close>

section \<open>The invariant\<close>

definition service_inv ::
  "('d, 'x, 's, 'e) lorawan_env_scheme \<Rightarrow> ('d \<Rightarrow> string \<rightharpoonup> bytes) \<Rightarrow> string set \<Rightarrow> nat \<Rightarrow> ('d, 'x, 'm) lorawan_state_scheme \<Rightarrow> bool" where
  "service_inv E view D n s \<longleftrightarrow> msgq_fifo n E \<and> cred_inv E view D s
     \<and> join_active (credentials s) = join_sequence_active s
     \<and> (\<not> join_sequence_active s \<longrightarrow> join_retries_remaining s = 0) \<and> join_retries_remaining s \<le> 255
     \<and> length (events s) \<le> n \<and> length (services s) \<le> 2 \<and> slots_ok (callback_slots s)
     \<and> link_check_mode s \<le> RZI_LORAWAN_LINK_CHECK_EVERY_UPLINK"

text \<open>The parts of the state the invariant reads.\<close>

lemma service_inv_cong:
  assumes "sets t = sets s" "credentials t = credentials s" "join_sequence_active t = join_sequence_active s"
    "join_retries_remaining t = join_retries_remaining s" "events t = events s" "services t = services s"
    "callback_slots t = callback_slots s" "link_check_mode t = link_check_mode s"
  shows "service_inv E view D n t = service_inv E view D n s"
  using assms cred_inv_cong [OF assms(1,2), of E view] by (simp add: service_inv_def)

lemma service_inv_other [simp]:
  "service_inv E view D n (s\<lparr>configured_region := r\<rparr>) = service_inv E view D n s"
  "service_inv E view D n (s\<lparr>configured_class := c\<rparr>) = service_inv E view D n s"
  "service_inv E view D n (s\<lparr>configured_join_backoff_bypass := b\<rparr>) = service_inv E view D n s"
  "service_inv E view D n (s\<lparr>started := b\<rparr>) = service_inv E view D n s"
  "service_inv E view D n (s\<lparr>overflow := b\<rparr>) = service_inv E view D n s"
  "service_inv E view D n (s\<lparr>radio := x\<rparr>) = service_inv E view D n s"
  "service_inv E view D n (s\<lparr>delivered := d\<rparr>) = service_inv E view D n s"
  "service_inv E view D n (s\<lparr>device_time_enabled := b\<rparr>) = service_inv E view D n s"
  "service_inv E view D n (s\<lparr>power_class_c_held := b\<rparr>) = service_inv E view D n s"
  "service_inv E view D n (s\<lparr>last_rssi_dbm := i, last_snr_quarter_db := j, last_downlink_valid := b\<rparr>) = service_inv E view D n s"
  by (rule service_inv_cong; simp)+

lemma inv_link_check: "service_inv E view D n s \<Longrightarrow> mode \<le> 2 \<Longrightarrow> service_inv E view D n (s\<lparr>link_check_mode := mode\<rparr>)"
  using cred_inv_cong [of "s\<lparr>link_check_mode := mode\<rparr>" s E view] by (simp add: service_inv_def)

lemma inv_publish: "service_inv E view D n s \<Longrightarrow> service_inv E view D n (publish E ev s)"
proof -
  assume inv: "service_inv E view D n s"
  then have f: "msgq_fifo n E" by (simp add: service_inv_def)
  from inv cred_inv_cong [of "s\<lparr>events := events s @ [ev]\<rparr>" s E view]
    cred_inv_cong [of "s\<lparr>overflow := True\<rparr>" s E view] show ?thesis
    by (simp add: publish_fifo [OF f] service_inv_def)
qed

lemma inv_publish_state: "service_inv E view D n s \<Longrightarrow> service_inv E view D n (publish_state E st s)"
  unfolding publish_state_def by (rule inv_publish)

lemma inv_publish_all: "service_inv E view D n s \<Longrightarrow> service_inv E view D n (fold (publish E) evs s)"
  by (induction evs arbitrary: s) (simp_all add: inv_publish)

lemma inv_run_bop: "service_inv E view D n s \<Longrightarrow> service_inv E view D n (snd (run_bop E f s))"
  by (simp add: run_bop_def inv_publish_all split: prod.splits)

lemma inv_run_bget: "service_inv E view D n s \<Longrightarrow> service_inv E view D n (snd (snd (run_bget E f v s)))"
  by (simp add: run_bget_def inv_publish_all split: prod.splits)

text \<open>In the form in which the operations name their intermediate states.\<close>

lemma inv_bop_pair: "run_bop E f s = (rc, t) \<Longrightarrow> service_inv E view D n s \<Longrightarrow> service_inv E view D n t"
  using inv_run_bop by (metis snd_conv)

lemma inv_bget_pair: "run_bget E f v s = (rc, w, t) \<Longrightarrow> service_inv E view D n s \<Longrightarrow> service_inv E view D n t"
  using inv_run_bget by (metis snd_conv)

lemma inv_creds:
  assumes "service_inv E view D n s" and "cred_inv E view D t" and "creds_only s t"
    and "join_active (credentials t) = join_active (credentials s)"
  shows "service_inv E view D n t"
  using assms by (auto simp: service_inv_def creds_only_def)

lemma inv_cred_op:
  assumes "cred_op E view D m" and "m s = (rc, t)" and "service_inv E view D n s"
  shows "service_inv E view D n t"
proof -
  have "cred_inv E view D s" using assms(3) by (simp add: service_inv_def)
  from cred_opD [OF assms(1) this assms(2)] inv_creds [OF assms(3)] show ?thesis by blast
qed

lemma cred_inv_of: "service_inv E view D n s \<Longrightarrow> cred_inv E view D s"
  by (simp add: service_inv_def)

section \<open>Power\<close>

lemma cached_loaded:
  assumes "cached E s kn v"
  shows "\<exists>i. find_setting (fst kn) (table (sets s)) = Some i \<and> snd kn = ssize (table (sets s) ! i)
    \<and> sloaded (table (sets s) ! i) \<and> v = (take (snd kn) (svalue (table (sets s) ! i)), spresent (table (sets s) ! i))"
proof -
  let ?s = "sets s"
  from assms obtain i where f: "find_setting (fst kn) (table ?s) = Some i" and sz: "snd kn = ssize (table ?s ! i)"
    by (auto simp: cached_def rzi_lorawan_setting_read_def Let_def split: option.splits if_splits)
  have i: "i < length (table ?s)" using find_setting_Some [OF f] by simp
  show ?thesis
  proof (cases "sloaded (table ?s ! i)")
    case True
    with assms f sz show ?thesis by (auto simp: cached_def rzi_lorawan_setting_read_def Let_def)
  next
    case False
    obtain rc c p t where l: "(if cfg_storage E then load_value E (table ?s) (table ?s ! i) (default_value (table ?s ! i)) (store ?s)
        else (0, default_value (table ?s ! i), False, store ?s)) = (rc, c, p, t)" by (metis prod_cases4)
    let ?st = "(table ?s ! i)\<lparr>svalue := overlay c (svalue (table ?s ! i)), spresent := p, sloaded := True\<rparr>"
    have "rzi_lorawan_setting_read E (fst kn) (snd kn) ?s
        = (if rc = 0 then (0, Some (c, p), ?s\<lparr>store := t, table := (table ?s)[i := ?st]\<rparr>) else (rc, None, ?s\<lparr>store := t\<rparr>))"
      using f sz False l by (simp add: rzi_lorawan_setting_read_def Let_def)
    with assms have "?s = ?s\<lparr>store := t, table := (table ?s)[i := ?st]\<rparr>" by (metis Pair_inject cached_def option.distinct(1))
    then have "table ?s = (table ?s)[i := ?st]" by (metis settings_state.select_convs(2) settings_state.surjective settings_state.update_convs(2))
    then have "table ?s ! i = ?st" by (metis i nth_list_update_eq)
    then have "sloaded (table ?s ! i) = sloaded ?st" by (rule arg_cong)
    then have "sloaded (table ?s ! i)" by simp
    with False show ?thesis by simp
  qed
qed

lemma cached_upd_pwr: "cached E s kn v \<Longrightarrow> cached E (upd_pwr q s) kn v"
  using cached_loaded [of E s kn v]
  by (auto simp: cached_def rzi_lorawan_setting_read_def upd_pwr_def Let_def split: option.splits)

lemma inv_upd_pwr:
  assumes inv: "service_inv E view D n s" and ok: "power_ok q"
  shows "service_inv E view D n (upd_pwr q s)"
proof -
  have "settings_inv E view D (sets (upd_pwr q s))"
    using inv ok by (auto simp: service_inv_def cred_inv_def settings_inv_def storage_inv_def upd_pwr_def entry_synced_def look_def)
  moreover have "mirrors E (upd_pwr q s)"
    using inv cached_upd_pwr [of E s] unfolding service_inv_def cred_inv_def mirrors_def
    by (metis (no_types, lifting) list_all2_mono lorawan_state.select_convs(2) lorawan_state.surjective lorawan_state.update_convs(1) upd_pwr_def)
  ultimately show ?thesis using inv by (simp add: service_inv_def cred_inv_def upd_pwr_def)
qed

section \<open>Operations keep the invariant\<close>

named_theorems inv_dest \<open>an operation from an invariant state ends in one\<close>

lemma inv_power_step:
  assumes "service_inv E view D n s" and "power_ok (pwr (store (sets s))) \<Longrightarrow> power_ok q"
  shows "service_inv E view D n (upd_pwr q s)"
proof (rule inv_upd_pwr [OF assms(1)])
  have "power_ok (pwr (store (sets s)))"
    using assms(1) by (simp add: service_inv_def cred_inv_def settings_inv_def storage_inv_def)
  then show "power_ok q" by (rule assms(2))
qed

lemma inv_class_power: "service_inv E view D n s \<Longrightarrow> service_inv E view D n (update_class_c_power_locked E b s)"
proof -
  assume inv: "service_inv E view D n s"
  let ?p = "pwr (store (sets s))"
  obtain rc q where g: "rzi_power_lock_get 1 ?p = (rc, q)" by fastforce
  obtain rd r where h: "rzi_power_lock_put 1 ?p = (rd, r)" by fastforce
  have "service_inv E view D n (upd_pwr q s)" "service_inv E view D n (upd_pwr r s)"
    using inv_power_step [OF inv] keeps_pair [OF power_ok_lock_get _ g] keeps_pair [OF power_ok_lock_put _ h] by blast+
  with inv g h show ?thesis by (simp add: update_class_c_power_locked_def Let_def)
qed

lemma inv_note_class: "service_inv E view D n s \<Longrightarrow> service_inv E view D n (rzi_lorawan_note_class E c s)"
  by (simp add: rzi_lorawan_note_class_def inv_class_power)

lemma inv_clear_join: "service_inv E view D n s \<Longrightarrow> service_inv E view D n (clear_join_sequence s)"
proof -
  assume inv: "service_inv E view D n s"
  let ?t = "s\<lparr>join_sequence_active := False, join_retries_remaining := 0\<rparr>"
  have "cred_inv E view D ?t" using cred_inv_cong [of ?t s E view] inv by (simp add: service_inv_def)
  from cred_inv_set_active [OF this, of False] inv show ?thesis
    by (simp add: service_inv_def clear_join_sequence_def rzi_lorawan_credentials_set_join_active_def)
qed

lemma inv_start_join:
  assumes "service_inv E view D n s" and "k \<le> 255"
  shows "service_inv E view D n (rzi_lorawan_credentials_set_join_active True
    (s\<lparr>join_sequence_active := True, join_retries_remaining := k\<rparr>))"
proof -
  let ?t = "s\<lparr>join_sequence_active := True, join_retries_remaining := k\<rparr>"
  have "cred_inv E view D ?t" using cred_inv_cong [of ?t s E view] assms by (simp add: service_inv_def)
  from cred_inv_set_active [OF this, of True] assms show ?thesis
    by (simp add: service_inv_def rzi_lorawan_credentials_set_join_active_def)
qed

lemma inv_ensure_loaded: "ensure_loaded_locked E s = (rc, t) \<Longrightarrow> service_inv E view D n s \<Longrightarrow> service_inv E view D n t"
  by (rule inv_cred_op [OF cred_op_ensure_loaded])

lemma inv_update_policy:
  "rzi_lorawan_credentials_update_policy E a i k s = (rc, t) \<Longrightarrow> service_inv E view D n s \<Longrightarrow> service_inv E view D n t"
  using update_policy_effect [OF cred_inv_of] inv_creds by blast

lemma inv_sets_only:
  assumes "service_inv E view D n s" and "settings_inv E view D (sets t)" and "sets_only s t"
    and "\<And>kn v. kn \<in> set credential_keys \<Longrightarrow> cached E s kn v \<Longrightarrow> cached E t kn v"
  shows "service_inv E view D n t"
proof -
  have c: "credentials t = credentials s" using assms(3) by (rule sets_only_credentials)
  have "mirrors E t" unfolding mirrors_def c
  proof
    assume "loaded (credentials s)"
    with assms(1) obtain vs where vs: "list_all2 (cached E s) credential_keys vs"
      "credentials s = credentials_from vs (join_active (credentials s))" unfolding service_inv_def cred_inv_def mirrors_def by blast
    have "list_all2 (cached E t) credential_keys vs" using list.rel_mono_strong [OF vs(1)] assms(4) by blast
    with vs(2) show "\<exists>vs. list_all2 (cached E t) credential_keys vs
        \<and> credentials s = credentials_from vs (join_active (credentials s))" by blast
  qed
  then have "cred_inv E view D t" using assms(2) by (simp add: cred_inv_def)
  with c show ?thesis using inv_creds [OF assms(1) _ sets_only_creds [OF assms(3)]] by simp
qed

lemma inv_load_bytes:
  assumes l: "load_bytes E k m s = (rc, out, t)" and inv: "service_inv E view D n s"
  shows "service_inv E view D n t"
proof -
  have "settings_inv E view D (sets s)" using inv by (simp add: service_inv_def cred_inv_def)
  from load_bytes_effect [OF this l] show ?thesis by (intro inv_sets_only [OF inv]) auto
qed

text \<open>Writing a setting that is not a credential keeps the cache a mirror.\<close>

lemma inv_persist:
  assumes p: "persist E k v (length v) s = (rc, t)" and inv: "service_inv E view D n s"
    and k: "k \<notin> fst ` set credential_keys"
  shows "service_inv E view D n t"
proof -
  have "settings_inv E view D (sets s)" using inv by (simp add: service_inv_def cred_inv_def)
  from persist_effect [OF this p] k show ?thesis by (intro inv_sets_only [OF inv]) (auto simp: image_iff)
qed

lemma inv_get_region:
  assumes "rzi_lorawan_get_region E (Some r) s = (rc, out, t)" and "service_inv E view D n s"
  shows "service_inv E view D n t"
  using assms inv_load_bytes [of E "''region''" 1 s]
  by (auto simp: rzi_lorawan_get_region_def rzi_lorawan_config_get_region_def Let_def split: if_splits prod.splits)

lemmas inv_pair = inv_bop_pair inv_bget_pair inv_ensure_loaded inv_load_bytes inv_get_region inv_update_policy
lemmas op_splits = if_splits prod.splits option.splits

text \<open>Getters of credentials and configuration.\<close>

lemma inv_session_joined: "session_joined E s = (rc, b, t) \<Longrightarrow> service_inv E view D n s \<Longrightarrow> service_inv E view D n t"
  by (auto simp: session_joined_def split: if_splits intro: inv_pair)

lemma inv_read_otaa:
  "read_otaa_dev_addr E a s = (rc, v, t) \<Longrightarrow> service_inv E view D n s \<Longrightarrow> service_inv E view D n t"
  "read_otaa_key E f k s = (rd, w, u) \<Longrightarrow> service_inv E view D n s \<Longrightarrow> service_inv E view D n u"
  by (auto simp: read_otaa_dev_addr_def read_otaa_key_def split: op_splits intro: inv_pair inv_session_joined)

lemma inv_get_bytes: "get_bytes E src valid m dst s = (rc, out, t) \<Longrightarrow> service_inv E view D n s \<Longrightarrow> service_inv E view D n t"
  by (auto simp: get_bytes_def Let_def split: op_splits intro: inv_pair)

lemma inv_get_field: "get_field E fld c s = (rc, out, t) \<Longrightarrow> service_inv E view D n s \<Longrightarrow> service_inv E view D n t"
  by (auto simp: get_field_def Let_def split: op_splits intro: inv_pair)

lemma inv_get_session_key:
  "get_session_key E src valid f k s = (rc, out, t) \<Longrightarrow> service_inv E view D n s \<Longrightarrow> service_inv E view D n t"
  by (auto simp: get_session_key_def Let_def split: op_splits intro: inv_pair inv_read_otaa)

lemma inv_get_dev_addr:
  "rzi_lorawan_get_dev_addr E a s = (rc, out, t) \<Longrightarrow> service_inv E view D n s \<Longrightarrow> service_inv E view D n t"
  by (auto simp: rzi_lorawan_get_dev_addr_def Let_def split: op_splits intro: inv_pair inv_read_otaa)

lemma inv_read_config: "read_config E k v m s = (rc, out, t) \<Longrightarrow> service_inv E view D n s \<Longrightarrow> service_inv E view D n t"
  by (auto simp: read_config_def Let_def split: op_splits intro: inv_pair)

lemma inv_get_config:
  "rzi_lorawan_get_confirmed E b s = (rc, out, t) \<Longrightarrow> service_inv E view D n s \<Longrightarrow> service_inv E view D n t"
  "rzi_lorawan_get_retries E c s = (rd, out2, u) \<Longrightarrow> service_inv E view D n s \<Longrightarrow> service_inv E view D n u"
  "rzi_lorawan_config_get_net_id E i s = (re, out3, v) \<Longrightarrow> service_inv E view D n s \<Longrightarrow> service_inv E view D n v"
  by (auto simp: rzi_lorawan_get_confirmed_def rzi_lorawan_get_retries_def rzi_lorawan_config_get_net_id_def Let_def
      split: op_splits intro: inv_pair inv_read_config)

lemma inv_write_config:
  assumes "write_config E k v m s = (rc, t)" and "service_inv E view D n s" and "m = length v"
    and "k \<notin> fst ` set credential_keys"
  shows "service_inv E view D n t"
  using assms inv_persist [OF _ assms(2,4), of v rc t] by (auto simp: write_config_def Let_def split: if_splits)

lemma config_keys: "''region'' \<notin> fst ` set credential_keys" "''cfm'' \<notin> fst ` set credential_keys"
  "''rety'' \<notin> fst ` set credential_keys" "''netid'' \<notin> fst ` set credential_keys"
  by (simp_all add: credential_keys_def)

lemma inv_config_set_region:
  "rzi_lorawan_config_set_region E r s = (rc, t) \<Longrightarrow> service_inv E view D n s \<Longrightarrow> service_inv E view D n t"
  using inv_persist [of E "''region''" "[of_nat r]" s rc t view D n] config_keys by (simp add: rzi_lorawan_config_set_region_def)

lemma inv_set_config:
  "rzi_lorawan_set_confirmed E b s = (rc, t) \<Longrightarrow> service_inv E view D n s \<Longrightarrow> service_inv E view D n t"
  "rzi_lorawan_set_retries E c s = (rd, u) \<Longrightarrow> service_inv E view D n s \<Longrightarrow> service_inv E view D n u"
  "rzi_lorawan_set_net_id E i s = (re, v) \<Longrightarrow> service_inv E view D n s \<Longrightarrow> service_inv E view D n v"
  using config_keys
  by (auto simp: rzi_lorawan_set_confirmed_def rzi_lorawan_set_retries_def rzi_lorawan_set_net_id_def put_le32_def
      intro: inv_write_config)

text \<open>Channels.\<close>

lemma inv_channel_plan: "channel_plan_of E s = (rc, p, t) \<Longrightarrow> service_inv E view D n s \<Longrightarrow> service_inv E view D n t"
  by (auto simp: channel_plan_of_def split: op_splits intro: inv_pair)

lemma inv_read_mask: "read_mask E w s = (rc, m, t) \<Longrightarrow> service_inv E view D n s \<Longrightarrow> service_inv E view D n t"
  by (auto simp: read_mask_def rzi_lorawan_credentials_get_channel_mask_def split: op_splits intro: inv_pair)

lemma inv_set_mask:
  assumes "rzi_lorawan_credentials_set_channel_mask E cm s = (rc, t)" and "service_inv E view D n s"
    and "\<And>w. cm = Some w \<Longrightarrow> length w = 6"
  shows "service_inv E view D n t"
  using inv_cred_op [OF cred_op_set_channel_mask assms(1,2)] assms(3) by blast

lemma inv_store_mask:
  assumes "store_mask E w s = (rc, t)" and "service_inv E view D n s" and "length w = 6"
  shows "service_inv E view D n t"
  using assms by (auto simp: store_mask_def intro: inv_set_mask split: if_splits)

lemma inv_get_channels:
  "rzi_lorawan_get_channel_mask E w c s = (rc, out, t) \<Longrightarrow> service_inv E view D n s \<Longrightarrow> service_inv E view D n t"
  "rzi_lorawan_get_sub_band E b s = (rd, out2, u) \<Longrightarrow> service_inv E view D n s \<Longrightarrow> service_inv E view D n u"
  "rzi_lorawan_get_fixed_channel E f s = (re, out3, v) \<Longrightarrow> service_inv E view D n s \<Longrightarrow> service_inv E view D n v"
  unfolding rzi_lorawan_get_channel_mask_def rzi_lorawan_get_sub_band_def rzi_lorawan_get_fixed_channel_def Let_def
  by (auto split: op_splits intro: inv_channel_plan inv_read_mask simp del: upt_rec_numeral)

lemma inv_set_sub_band:
  assumes "rzi_lorawan_set_sub_band E b s = (rc, t)" and "service_inv E view D n s"
  shows "service_inv E view D n t"
proof -
  have "b \<noteq> 0 \<Longrightarrow> \<not> 8 < b \<Longrightarrow> length (sub_band_channels b) = 6" by (rule sub_band_channels_set(1)) simp_all
  with assms show ?thesis unfolding rzi_lorawan_set_sub_band_def Let_def
    by (auto split: op_splits intro: inv_channel_plan inv_set_mask inv_store_mask)
qed

lemma inv_set_channel_mask:
  assumes "rzi_lorawan_set_channel_mask E cm w s = (rc, t)" and "service_inv E view D n s"
  shows "service_inv E view D n t"
  using assms unfolding rzi_lorawan_set_channel_mask_def Let_def
  by (auto split: op_splits intro: inv_channel_plan inv_store_mask)

lemma inv_set_fixed_channel:
  assumes "rzi_lorawan_set_fixed_channel E f s = (rc, t)" and "service_inv E view D n s"
  shows "service_inv E view D n t"
  using assms unfolding rzi_lorawan_set_fixed_channel_def Let_def
  by (auto split: op_splits intro: inv_channel_plan inv_set_mask)

text \<open>MAC commands and uplinks.\<close>

lemma inv_trig:
  "trig_link_check E s = (rc, t) \<Longrightarrow> service_inv E view D n s \<Longrightarrow> service_inv E view D n t"
  "trig_device_time E s = (rd, u) \<Longrightarrow> service_inv E view D n s \<Longrightarrow> service_inv E view D n u"
  by (auto simp: trig_link_check_def trig_device_time_def split: option.splits intro: inv_pair)

lemma inv_mac:
  "rzi_lorawan_request_link_check E mode s = (rc, t) \<Longrightarrow> service_inv E view D n s \<Longrightarrow> service_inv E view D n t"
  "rzi_lorawan_request_device_time E b s = (rd, u) \<Longrightarrow> service_inv E view D n s \<Longrightarrow> service_inv E view D n u"
  "rzi_lorawan_get_network_time E nt s = (re, out, v) \<Longrightarrow> service_inv E view D n s \<Longrightarrow> service_inv E view D n v"
  by (auto simp: rzi_lorawan_request_link_check_def rzi_lorawan_request_device_time_def rzi_lorawan_get_network_time_def Let_def
      split: op_splits intro!: inv_link_check intro: inv_pair inv_trig)

lemma inv_mac_getters:
  "rzi_lorawan_get_link_check_mode E m s = (rc, out, t) \<Longrightarrow> service_inv E view D n s \<Longrightarrow> service_inv E view D n t"
  "rzi_lorawan_get_device_time_enabled E b s = (rd, out2, u) \<Longrightarrow> service_inv E view D n s \<Longrightarrow> service_inv E view D n u"
  by (auto simp: rzi_lorawan_get_link_check_mode_def rzi_lorawan_get_device_time_enabled_def Let_def split: op_splits)

lemma inv_on_uplink: "service_inv E view D n s \<Longrightarrow> service_inv E view D n (rzi_lorawan_mac_commands_on_uplink E s)"
  by (auto simp: rzi_lorawan_mac_commands_on_uplink_def Let_def intro!: inv_trig [OF surjective_pairing])

lemma inv_check_joined: "check_joined E s = (rc, t) \<Longrightarrow> service_inv E view D n s \<Longrightarrow> service_inv E view D n t"
  by (auto simp: check_joined_def Let_def split: op_splits intro: inv_pair)

lemma inv_send:
  "rzi_lorawan_send E p d k ty s = (rc, t) \<Longrightarrow> service_inv E view D n s \<Longrightarrow> service_inv E view D n t"
  "rzi_lorawan_send_empty E b p ty s = (rd, u) \<Longrightarrow> service_inv E view D n s \<Longrightarrow> service_inv E view D n u"
  by (auto simp: rzi_lorawan_send_def rzi_lorawan_send_empty_def Let_def split: op_splits
      intro: inv_pair inv_on_uplink inv_check_joined)

text \<open>Class, queries, lifecycle and joining.\<close>

lemma inv_class:
  "rzi_lorawan_set_class E c s = (rc, t) \<Longrightarrow> service_inv E view D n s \<Longrightarrow> service_inv E view D n t"
  "rzi_lorawan_get_class E cc s = (rd, out, u) \<Longrightarrow> service_inv E view D n s \<Longrightarrow> service_inv E view D n u"
  by (auto simp: rzi_lorawan_set_class_def rzi_lorawan_get_class_def Let_def split: op_splits
      intro: inv_pair inv_note_class)

lemma inv_queries:
  "rzi_lorawan_is_joined E j s = (rc, out, t) \<Longrightarrow> service_inv E view D n s \<Longrightarrow> service_inv E view D n t"
  "rzi_lorawan_is_busy E j s = (rd, out2, u) \<Longrightarrow> service_inv E view D n s \<Longrightarrow> service_inv E view D n u"
  by (auto simp: rzi_lorawan_is_joined_def rzi_lorawan_is_busy_def Let_def split: op_splits intro: inv_pair)

lemma inv_simple_getters:
  "rzi_lorawan_get_last_rssi c s = (rc, out, t) \<Longrightarrow> t = s" "rzi_lorawan_get_last_snr c s = (rd, out, u) \<Longrightarrow> u = s"
  "rzi_lorawan_get_protocol_version d s = (re, out2, v) \<Longrightarrow> v = s"
  by (auto simp: rzi_lorawan_get_last_rssi_def rzi_lorawan_get_last_snr_def rzi_lorawan_get_protocol_version_def Let_def
      split: if_splits)

lemma inv_region:
  "rzi_lorawan_set_region E r s = (rc, t) \<Longrightarrow> service_inv E view D n s \<Longrightarrow> service_inv E view D n t"
  by (auto simp: rzi_lorawan_set_region_def split: op_splits intro: inv_config_set_region)

lemma inv_stop_join:
  assumes "stop_join E s = (rc, t)" and "service_inv E view D n s"
  shows "service_inv E view D n t"
  using assms inv_clear_join [OF assms(2)] unfolding stop_join_def Let_def
  by (auto split: op_splits intro: inv_pair intro!: inv_publish_state)

lemma inv_build_config:
  "rzi_lorawan_credentials_build_config E c s = (rc, out, t) \<Longrightarrow> service_inv E view D n s \<Longrightarrow> service_inv E view D n t"
  by (auto simp: rzi_lorawan_credentials_build_config_def Let_def split: op_splits intro: inv_pair)

lemma u8_le: "unat (w :: u8) \<le> 255"
proof -
  have "unat w < 2 ^ LENGTH(8)" by (rule unsigned_less)
  then show ?thesis by simp
qed

lemma inv_launch:
  assumes "service_inv E view D n s" and "k \<le> 255"
    and "w = publish_state E STATE_JOINING (rzi_lorawan_credentials_set_join_active True
           (s\<lparr>join_sequence_active := True, join_retries_remaining := k\<rparr>))"
    and "run_bop E f w = (rc, x)" and "t = (if rc \<noteq> 0 then publish_state E STATE_READY (clear_join_sequence x) else x)"
  shows "service_inv E view D n t"
proof -
  have "service_inv E view D n w" unfolding assms(3) by (intro inv_publish_state inv_start_join assms)
  then have "service_inv E view D n x" by (rule inv_bop_pair [OF assms(4)])
  then show ?thesis by (simp add: assms(5) inv_publish_state inv_clear_join)
qed

lemma inv_begin_join:
  assumes b: "begin_join E s = (rc, t)" and inv: "service_inv E view D n s"
  shows "service_inv E view D n t"
proof -
  obtain r1 mode s1 where g1: "rzi_lorawan_get_activation E (Some 0) s = (r1, mode, s1)" by (metis prod_cases3)
  obtain r2 k s2 where g2: "rzi_lorawan_get_join_attempts E (Some 0) s1 = (r2, k, s2)" by (metis prod_cases3)
  obtain r3 c s3 where g3: "rzi_lorawan_credentials_build_config E (Some (config_of E 0 credentials_zero)) s2 = (r3, c, s3)"
    by (metis prod_cases3)
  let ?w = "publish_state E STATE_JOINING (rzi_lorawan_credentials_set_join_active True
           (s3\<lparr>join_sequence_active := True, join_retries_remaining := unat (the k)\<rparr>))"
  obtain r4 x where g4: "run_bop E (bk_join (bk_base (backend E)) (the c)) ?w = (r4, x)" by fastforce
  have i1: "service_inv E view D n s1" using inv_get_field inv g1 by (auto simp: rzi_lorawan_get_activation_def)
  have i2: "service_inv E view D n s2" using inv_get_field i1 g2 by (auto simp: rzi_lorawan_get_join_attempts_def)
  have i3: "service_inv E view D n s3" by (rule inv_build_config [OF g3 i2])
  have "service_inv E view D n (if r4 \<noteq> 0 then publish_state E STATE_READY (clear_join_sequence x) else x)"
    by (rule inv_launch [OF i3 u8_le refl g4 refl])
  with b g1 g2 g3 g4 i1 i2 i3 show ?thesis by (auto simp: begin_join_def Let_def split: if_splits)
qed

lemma inv_join:
  assumes "rzi_lorawan_join E r a i k s = (rc, t)" and "service_inv E view D n s"
  shows "service_inv E view D n t"
proof -
  obtain r1 s1 where g: "rzi_lorawan_credentials_update_policy E a i k s = (r1, s1)" by fastforce
  with assms(2) have "service_inv E view D n s1" by (auto intro: inv_update_policy)
  with assms g inv_stop_join [of E s1] inv_begin_join [of E s1] show ?thesis
    by (auto simp: rzi_lorawan_join_def Let_def split: if_splits)
qed

lemma inv_leave:
  "rzi_lorawan_leave E s = (rc, t) \<Longrightarrow> service_inv E view D n s \<Longrightarrow> service_inv E view D n t"
  by (auto simp: rzi_lorawan_leave_def Let_def split: op_splits intro: inv_pair intro!: inv_publish_state inv_class_power)

lemma inv_registry:
  "rzi_lorawan_register_callbacks c s = (rc, t) \<Longrightarrow> service_inv E view D n s \<Longrightarrow> service_inv E view D n t"
  "rzi_lorawan_unregister_callbacks c s = (rd, u) \<Longrightarrow> service_inv E view D n s \<Longrightarrow> service_inv E view D n u"
proof -
  have c: "cred_inv E view D (s\<lparr>callback_slots := x\<rparr>) = cred_inv E view D s" for x by (rule cred_inv_cong) simp_all
  show "rzi_lorawan_register_callbacks c s = (rc, t) \<Longrightarrow> service_inv E view D n s \<Longrightarrow> service_inv E view D n t"
    using fill_slot [of "callback_slots s"]
    by (auto simp: rzi_lorawan_register_callbacks_def scan_slots_spec service_inv_def c split: op_splits)
  show "rzi_lorawan_unregister_callbacks c s = (rd, u) \<Longrightarrow> service_inv E view D n s \<Longrightarrow> service_inv E view D n u"
    using free_slot [of "callback_slots s"]
    by (auto simp: rzi_lorawan_unregister_callbacks_def find_slot_spec service_inv_def c split: op_splits)
qed

lemma inv_register_service:
  "rzi_lorawan_register_service i s = (rc, t) \<Longrightarrow> service_inv E view D n s \<Longrightarrow> service_inv E view D n t"
proof -
  have c: "cred_inv E view D (s\<lparr>services := x\<rparr>) = cred_inv E view D s" for x by (rule cred_inv_cong) simp_all
  show "rzi_lorawan_register_service i s = (rc, t) \<Longrightarrow> service_inv E view D n s \<Longrightarrow> service_inv E view D n t"
    by (auto simp: rzi_lorawan_register_service_def service_inv_def c Let_def split: op_splits)
qed

lemma inv_bypass:
  "rzi_lorawan_set_join_backoff_bypass b s = (rc, t) \<Longrightarrow> service_inv E view D n s \<Longrightarrow> service_inv E view D n t"
  by (auto simp: rzi_lorawan_set_join_backoff_bypass_def split: if_splits)

lemma inv_published: "published E s t \<Longrightarrow> service_inv E view D n s \<Longrightarrow> service_inv E view D n t"
  by (auto simp: published_def intro: inv_publish_all)

lemma inv_guarded: "guarded_call E m \<Longrightarrow> m s = (rc, t) \<Longrightarrow> service_inv E view D n s \<Longrightarrow> service_inv E view D n t"
  using inv_published unfolding guarded_call_def by (metis snd_conv)

lemma inv_stop_class_b:
  "rzi_lorawan_stop_class_b E s = (rc, t) \<Longrightarrow> service_inv E view D n s \<Longrightarrow> service_inv E view D n t"
  by (auto simp: rzi_lorawan_stop_class_b_def split: op_splits intro: inv_guarded [OF guarded_op_call] inv_note_class)

lemma inv_get_net_id:
  assumes "rzi_lorawan_get_net_id E c s = (rc, out, t)" and "service_inv E view D n s"
  shows "service_inv E view D n t"
proof -
  have c: "config_net_id E v u = (rd, o2, w) \<Longrightarrow> service_inv E view D n u \<Longrightarrow> service_inv E view D n w" for v u rd o2 w
    by (auto simp: config_net_id_def split: prod.splits intro: inv_get_config)
  show ?thesis using assms
    by (auto simp: rzi_lorawan_get_net_id_def Let_def split: op_splits
        intro: c inv_queries c [OF _ inv_queries(1)] c [OF _ inv_bget_pair [OF _ inv_queries(1)]] inv_bget_pair [OF _ inv_queries(1)])
qed

section \<open>Steps\<close>

text \<open>
  The calls of the public API that threads and callbacks make, arguments arbitrary. The start of
  the service and the factory reset are steps of their own below.
\<close>

inductive lorawan_call ::
  "('d, 'x, 's, 'e) lorawan_env_scheme \<Rightarrow> ('d, 'x, 'm) lorawan_state_scheme op \<Rightarrow> bool"
  for E where
  call_forwarding: "forwarding E m \<Longrightarrow> lorawan_call E m"
| call_get_dev_eui: "lorawan_call E (ignore_out (rzi_lorawan_get_dev_eui E) eui)"
| call_set_dev_eui: "lorawan_call E (rzi_lorawan_set_dev_eui E eui)"
| call_get_app_eui: "lorawan_call E (ignore_out (rzi_lorawan_get_app_eui E) eui)"
| call_set_app_eui: "lorawan_call E (rzi_lorawan_set_app_eui E eui)"
| call_get_app_key: "lorawan_call E (ignore_out (rzi_lorawan_get_app_key E) key)"
| call_set_app_key: "lorawan_call E (rzi_lorawan_set_app_key E key)"
| call_get_gen_app_key: "lorawan_call E (ignore_out (rzi_lorawan_get_gen_app_key E) key)"
| call_set_gen_app_key: "lorawan_call E (rzi_lorawan_set_gen_app_key E key)"
| call_get_dev_addr: "lorawan_call E (ignore_out (rzi_lorawan_get_dev_addr E) addr)"
| call_set_dev_addr: "lorawan_call E (rzi_lorawan_set_dev_addr E addr)"
| call_get_nwk_skey: "lorawan_call E (ignore_out (rzi_lorawan_get_nwk_skey E) key)"
| call_set_nwk_skey: "lorawan_call E (rzi_lorawan_set_nwk_skey E key)"
| call_get_app_skey: "lorawan_call E (ignore_out (rzi_lorawan_get_app_skey E) key)"
| call_set_app_skey: "lorawan_call E (rzi_lorawan_set_app_skey E key)"
| call_get_activation: "lorawan_call E (ignore_out (rzi_lorawan_get_activation E) mode)"
| call_set_activation: "lorawan_call E (rzi_lorawan_set_activation E mode)"
| call_get_auto_join: "lorawan_call E (ignore_out (rzi_lorawan_get_auto_join E) enabled)"
| call_get_join_interval: "lorawan_call E (ignore_out (rzi_lorawan_get_join_interval E) interval_s)"
| call_get_join_attempts: "lorawan_call E (ignore_out (rzi_lorawan_get_join_attempts E) attempts)"
| call_get_confirmed: "lorawan_call E (ignore_out (rzi_lorawan_get_confirmed E) enabled)"
| call_set_confirmed: "lorawan_call E (rzi_lorawan_set_confirmed E enabled)"
| call_get_retries: "lorawan_call E (ignore_out (rzi_lorawan_get_retries E) count)"
| call_set_retries: "lorawan_call E (rzi_lorawan_set_retries E count)"
| call_get_net_id: "lorawan_call E (ignore_out (rzi_lorawan_get_net_id E) net_id)"
| call_set_net_id: "lorawan_call E (rzi_lorawan_set_net_id E net_id)"
| call_get_region: "lorawan_call E (ignore_out (rzi_lorawan_get_region E) region)"
| call_set_region: "lorawan_call E (rzi_lorawan_set_region E region)"
| call_get_channel_mask: "lorawan_call E (ignore_out (rzi_lorawan_get_channel_mask E words) cm)"
| call_set_channel_mask: "lorawan_call E (rzi_lorawan_set_channel_mask E cm words)"
| call_get_sub_band: "lorawan_call E (ignore_out (rzi_lorawan_get_sub_band E) sub_band)"
| call_set_sub_band: "lorawan_call E (rzi_lorawan_set_sub_band E sub_band)"
| call_get_fixed_channel: "lorawan_call E (ignore_out (rzi_lorawan_get_fixed_channel E) frequency_hz)"
| call_set_fixed_channel: "lorawan_call E (rzi_lorawan_set_fixed_channel E frequency_hz)"
| call_get_link_check_mode: "lorawan_call E (ignore_out (rzi_lorawan_get_link_check_mode E) mode)"
| call_request_link_check: "lorawan_call E (rzi_lorawan_request_link_check E mode)"
| call_get_device_time_enabled: "lorawan_call E (ignore_out (rzi_lorawan_get_device_time_enabled E) enabled)"
| call_request_device_time: "lorawan_call E (rzi_lorawan_request_device_time E enabled)"
| call_get_network_time: "lorawan_call E (ignore_out (rzi_lorawan_get_network_time E) time)"
| call_register_callbacks: "lorawan_call E (rzi_lorawan_register_callbacks callbacks)"
| call_unregister_callbacks: "lorawan_call E (rzi_lorawan_unregister_callbacks callbacks)"
| call_register_service: "lorawan_call E (rzi_lorawan_register_service service)"
| call_set_join_backoff_bypass: "lorawan_call E (rzi_lorawan_set_join_backoff_bypass enabled)"
| call_join: "lorawan_call E (rzi_lorawan_join E start_req auto interval attempts)"
| call_leave: "lorawan_call E (rzi_lorawan_leave E)"
| call_send: "lorawan_call E (rzi_lorawan_send E port data n type)"
| call_send_empty: "lorawan_call E (rzi_lorawan_send_empty E with_port port type)"
| call_set_class: "lorawan_call E (rzi_lorawan_set_class E device_class)"
| call_get_class: "lorawan_call E (ignore_out (rzi_lorawan_get_class E) device_class)"
| call_stop_class_b: "lorawan_call E (rzi_lorawan_stop_class_b E)"
| call_is_joined: "lorawan_call E (ignore_out (rzi_lorawan_is_joined E) joined)"
| call_is_busy: "lorawan_call E (ignore_out (rzi_lorawan_is_busy E) busy)"
| call_get_last_rssi: "lorawan_call E (ignore_out (rzi_lorawan_get_last_rssi) rssi_dbm)"
| call_get_last_snr: "lorawan_call E (ignore_out (rzi_lorawan_get_last_snr) snr)"
| call_get_protocol_version: "lorawan_call E (ignore_out (rzi_lorawan_get_protocol_version) version)"

lemmas getter_defs = rzi_lorawan_get_dev_eui_def rzi_lorawan_get_app_eui_def rzi_lorawan_get_app_key_def
  rzi_lorawan_get_gen_app_key_def rzi_lorawan_get_nwk_skey_def rzi_lorawan_get_app_skey_def
  rzi_lorawan_get_activation_def rzi_lorawan_get_auto_join_def rzi_lorawan_get_join_interval_def
  rzi_lorawan_get_join_attempts_def

lemma get_region_null: "rzi_lorawan_get_region E None s = (rc, out, t) \<Longrightarrow> t = s"
  by (auto simp: rzi_lorawan_get_region_def Let_def split: if_splits)

lemma inv_any_region:
  "rzi_lorawan_get_region E r s = (rc, out, t) \<Longrightarrow> service_inv E view D n s \<Longrightarrow> service_inv E view D n t"
  using get_region_null inv_get_region by (cases r) blast+

lemma ignore_out_pair:
  assumes "ignore_out g c s = (rc, t)"
  shows "\<exists>out. g c s = (rc, out, t)"
  using assms by (auto simp: ignore_out_def split: prod.splits)

lemma inv_getter:
  assumes "\<And>rc out t. g c s = (rc, out, t) \<Longrightarrow> service_inv E view D n s \<Longrightarrow> service_inv E view D n t"
    and "ignore_out g c s = (rc, t)" and "service_inv E view D n s"
  shows "service_inv E view D n t"
  using ignore_out_pair [OF assms(2)] assms(1,3) by blast

lemma call_inv:
  assumes "lorawan_call E m" and "m s = (rc, t)" and "service_inv E view D n s"
  shows "service_inv E view D n t"
  using assms
proof (induction arbitrary: s rc t rule: lorawan_call.induct)
  case (call_forwarding m)
  then show ?case using inv_guarded [OF forwarding_is_guarded] by blast
qed (auto simp: getter_defs dest!: ignore_out_pair inv_simple_getters
    intro: inv_get_bytes inv_get_field inv_get_session_key inv_get_dev_addr inv_get_config inv_set_config inv_any_region
      inv_get_net_id inv_region inv_get_channels inv_set_channel_mask inv_set_sub_band inv_set_fixed_channel
      inv_mac inv_mac_getters inv_registry inv_register_service inv_bypass inv_join inv_leave inv_send inv_class
      inv_stop_class_b inv_queries inv_cred_op [OF cred_op_setters(1)] inv_cred_op [OF cred_op_setters(2)]
      inv_cred_op [OF cred_op_setters(3)] inv_cred_op [OF cred_op_setters(4)] inv_cred_op [OF cred_op_setters(5)]
      inv_cred_op [OF cred_op_setters(6)] inv_cred_op [OF cred_op_set_dev_addr] inv_cred_op [OF cred_op_set_activation])

text \<open>
  A call, or a factory reset. With \<open>torn\<close> a reset may also fail part way, which leaves settings in the
  cache that are gone from flash, see \<open>settings_failed_clear_loses_write\<close>; without it a reset either
  returns 0 or changes nothing.
\<close>

inductive call_step ::
  "('d, 'x, 's, 'e) lorawan_env_scheme \<Rightarrow> bool \<Rightarrow> ('d, 'x, 'm) lorawan_state_scheme \<Rightarrow> ('d, 'x, 'm) lorawan_state_scheme \<Rightarrow> bool"
  for E torn where
  api_call: "lorawan_call E m \<Longrightarrow> m s = (rc, t) \<Longrightarrow> call_step E torn s t"
| factory_reset: "rzi_lorawan_clear_settings E s = (rc, t) \<Longrightarrow> torn \<or> rc = 0 \<or> t = s \<Longrightarrow> call_step E torn s t"

text \<open>Application callbacks and service hooks act on the service through its API.\<close>

definition uses_api :: "bool \<Rightarrow> ('d, 'x, ('d, 'x, 'm) lorawan_state_scheme, 'e) lorawan_env_scheme \<Rightarrow> bool" where
  "uses_api torn E \<longleftrightarrow> (\<forall>f ev d s. (call_step E torn)\<^sup>*\<^sup>* s (on_event E f ev d s))
     \<and> (\<forall>i h ev s. svc_on_event E i = Some h \<longrightarrow> (call_step E torn)\<^sup>*\<^sup>* s (h ev s))
     \<and> (\<forall>i h s. svc_on_started E i = Some h \<longrightarrow> (call_step E torn)\<^sup>*\<^sup>* s (h s))"

text \<open>
  A call, an iteration of the dispatcher and a published event are each one step: the relation
  covers every order of them, not their overlap. Two threads that call at once can overlap in the
  code, which guards the settings, the credentials, the queue and the registry by locks of their
  own but has no lock around a whole call: \<open>begin_join_overlap\<close> below gives an overlap that breaks
  the agreement of the join sequence and the credential lock.
\<close>

inductive service_step ::
  "('d, 'x, ('d, 'x, 'm) lorawan_state_scheme, 'e) lorawan_env_scheme \<Rightarrow> bool \<Rightarrow> ('d, 'x, 'm) lorawan_state_scheme
   \<Rightarrow> ('d, 'x, 'm) lorawan_state_scheme \<Rightarrow> bool"
  for E torn where
  thread_call: "call_step E torn s t \<Longrightarrow> service_step E torn s t"
| start_service: "rzi_lorawan_init E region s = (rc, t) \<Longrightarrow> service_step E torn s t"
| backend_event: "service_step E torn s (publish E ev s)"
| backend_moves: "service_step E torn s (s\<lparr>radio := x\<rparr>)"
| dispatcher: "dispatcher_step E s = Some t \<Longrightarrow> service_step E torn s t"
| power_call: "power_step cfg (pwr (store (sets s))) q \<Longrightarrow> service_step E torn s (upd_pwr q s)"

inductive_cases call_stepE: "call_step E torn s t"

text \<open>The keys that may be stale: none without torn resets.\<close>

definition torn_keys :: "bool \<Rightarrow> string set" where
  "torn_keys torn = (if torn then UNIV else {})"

lemma call_step_inv: "call_step E torn s t \<Longrightarrow> service_inv E view (torn_keys torn) n s \<Longrightarrow> service_inv E view (torn_keys torn) n t"
proof (induction rule: call_step.induct)
  case (factory_reset s rc t)
  note c = clear_settings_any [OF cred_inv_of [OF factory_reset.prems] factory_reset.hyps(1)]
  have "cred_inv E view (torn_keys torn) t"
  proof (cases "rc = 0 \<or> torn")
    case True
    with c show ?thesis by (auto simp: torn_keys_def elim!: cred_inv_stale)
  next
    case False
    with factory_reset.hyps(2) have "t = s" by simp
    with cred_inv_of [OF factory_reset.prems] show ?thesis by simp
  qed
  with c show ?case by (intro inv_creds [OF factory_reset.prems]) simp_all
qed (rule call_inv)

lemma calls_inv: "(call_step E torn)\<^sup>*\<^sup>* s t \<Longrightarrow> service_inv E view (torn_keys torn) n s \<Longrightarrow> service_inv E view (torn_keys torn) n t"
  by (induction rule: rtranclp_induct) (auto intro: call_step_inv)

lemma hooks_inv:
  assumes "\<And>i h w. f i = Some h \<Longrightarrow> (call_step E torn)\<^sup>*\<^sup>* w (g h w)" and "service_inv E view (torn_keys torn) n s"
  shows "service_inv E view (torn_keys torn) n (fold (\<lambda>i w. case f i of None \<Rightarrow> w | Some h \<Rightarrow> g h w) is s)"
  using assms(2)
proof (induction "is" arbitrary: s)
  case (Cons i "is")
  then show ?case using calls_inv [OF assms(1)] by (simp split: option.splits)
qed simp

lemma swallow_inv: "service_inv E view (torn_keys torn) n s \<Longrightarrow> service_inv E view (torn_keys torn) n (snd (swallow_join_event E event s))"
proof -
  assume inv: "service_inv E view (torn_keys torn) n s"
  have "service_inv E view (torn_keys torn) n (give_up E s)"
    unfolding give_up_def by (intro inv_publish_state inv_run_bop inv_clear_join inv)
  moreover have "service_inv E view (torn_keys torn) n (s\<lparr>join_retries_remaining := join_retries_remaining s - 1\<rparr>)"
    using inv cred_inv_cong [of "s\<lparr>join_retries_remaining := join_retries_remaining s - 1\<rparr>" s E view "torn_keys torn"]
    by (auto simp: service_inv_def)
  ultimately show ?thesis using inv inv_clear_join [OF inv] by (simp add: swallow_cases)
qed

lemma deliver_inv:
  assumes "uses_api torn E" and "service_inv E view (torn_keys torn) n s"
  shows "service_inv E view (torn_keys torn) n (fold (deliver_to E pe) cbs s)"
  using assms(2)
proof (induction cbs arbitrary: s)
  case (Cons cb cbs)
  have "service_inv E view (torn_keys torn) n (on_event E f ev d w)" if "service_inv E view (torn_keys torn) n w" for f ev d w
    using calls_inv that assms(1) unfolding uses_api_def by blast
  then have "service_inv E view (torn_keys torn) n (deliver_to E pe cb s)"
    using Cons.prems by (simp add: deliver_to_def split: option.splits)
  with Cons.IH show ?case by simp
qed simp

lemma dispatch_inv:
  assumes "uses_api torn E" and "service_inv E view (torn_keys torn) n s"
  shows "service_inv E view (torn_keys torn) n (dispatch E event s)"
proof -
  have t: "service_inv E view (torn_keys torn) n (snd (swallow_join_event E event s))" by (rule swallow_inv [OF assms(2)])
  obtain r k v where "snd (event_from_backend event (snd (swallow_join_event E event s)))
      = (snd (swallow_join_event E event s))\<lparr>last_rssi_dbm := r, last_snr_quarter_db := k, last_downlink_valid := v\<rparr>"
    using event_from_backend_frame by blast
  with t have "service_inv E view (torn_keys torn) n (snd (event_from_backend event (snd (swallow_join_event E event s))))" by simp
  then have "service_inv E view (torn_keys torn) n (deliver_event E event (callback_slots s) (snd (swallow_join_event E event s)))"
    unfolding deliver_event_def Let_def
    using assms(1) by (intro hooks_inv [where g = "\<lambda>h. h event"] deliver_inv) (auto simp: uses_api_def)
  with t show ?thesis by (simp add: dispatch_eq)
qed

lemma init_inv:
  assumes "uses_api torn E" and "rzi_lorawan_init E region s = (rc, t)" and inv: "service_inv E view (torn_keys torn) n s"
  shows "service_inv E view (torn_keys torn) n t"
proof -
  have "service_inv E view (torn_keys torn) n (s\<lparr>started := True\<rparr>)" using inv by simp
  moreover obtain r u where c: "rzi_lorawan_config_set_region E region (s\<lparr>started := True\<rparr>) = (r, u)" by fastforce
  ultimately have u: "service_inv E view (torn_keys torn) n u" by (metis inv_config_set_region)
  let ?u = "publish_state E STATE_STARTING (u\<lparr>configured_region := region\<rparr>)"
  obtain r2 v where b: "run_bop E (bk_start (bk_base (backend E)) region (configured_join_backoff_bypass ?u)) ?u = (r2, v)"
    by fastforce
  have v: "service_inv E view (torn_keys torn) n v" using u by (intro inv_bop_pair [OF b] inv_publish_state) simp
  have "service_inv E view (torn_keys torn) n (fold (\<lambda>i w. case svc_on_started E i of None \<Rightarrow> w | Some h \<Rightarrow> h w) (services v) v)"
    using v assms(1) by (intro hooks_inv [where g = "\<lambda>h. h"]) (auto simp: uses_api_def)
  with assms(2) c b u v inv show ?thesis
    by (auto simp: rzi_lorawan_init_def Let_def split: if_splits intro!: inv_publish_state)
qed

lemma service_step_inv:
  assumes api: "uses_api torn E" and "service_step E torn s t" and "service_inv E view (torn_keys torn) n s"
  shows "service_inv E view (torn_keys torn) n t"
  using assms(2,3)
proof (induction rule: service_step.induct)
  case (dispatcher s t)
  then obtain ev q where g: "k_msgq_get E (events s) = Some (ev, q)" by (auto simp: dispatcher_step_def split: option.splits)
  have q: "length q \<le> n"
    using g dispatcher.prems by (auto simp: service_inv_def msgq_fifo_def split: list.splits)
  have "service_inv E view (torn_keys torn) n (s\<lparr>events := q\<rparr>)"
    using dispatcher.prems q cred_inv_cong [of "s\<lparr>events := q\<rparr>" s E view] by (simp add: service_inv_def)
  then have "service_inv E view (torn_keys torn) n (dispatch E ev (s\<lparr>events := q\<rparr>))" by (rule dispatch_inv [OF api])
  with g dispatcher.hyps dispatch_inv [OF api] show ?case by (auto simp: dispatcher_step_def Let_def split: if_splits)
next
  case (power_call cfg s q)
  then show ?case using inv_power_step power_step_ok by blast
qed (auto intro: call_step_inv init_inv [OF api] inv_publish)

section \<open>Class C and the power lock\<close>

text \<open>The references on the service's power lock that are not its own Class C reference.\<close>

definition class_refs :: "('d, 'x, 'm) lorawan_state_scheme \<Rightarrow> int" where
  "class_refs s = int (lock_count RZI_POWER_LOCK_LORAWAN (pwr (store (sets s)))) - of_bool (power_class_c_held s)"

lemma class_refs_cong:
  "sets t = sets s \<Longrightarrow> power_class_c_held t = power_class_c_held s \<Longrightarrow> class_refs t = class_refs s"
  by (simp add: class_refs_def)

lemma lock_put_positive: "fst (rzi_power_lock_put l p) = 0 \<Longrightarrow> 0 < lock_count l p"
  by (auto simp: rzi_power_lock_put_def lock_count_def unat_gt_0 split: if_splits)

lemma class_refs_update:
  assumes ok: "power_ok (pwr (store (sets s)))"
  shows "class_refs (update_class_c_power_locked E b s) = class_refs s"
proof -
  let ?p = "pwr (store (sets s))"
  obtain rc q where g: "rzi_power_lock_get 1 ?p = (rc, q)" by fastforce
  obtain rd r where h: "rzi_power_lock_put 1 ?p = (rd, r)" by fastforce
  have "rc \<noteq> 0 \<Longrightarrow> q = ?p" "rc = 0 \<Longrightarrow> lock_count 1 q = lock_count 1 ?p + 1"
    using power_locks.get_refused [of 1 ?p] power_locks.get_counts [OF ok, of 1 1] g by auto
  moreover have "rd \<noteq> 0 \<Longrightarrow> r = ?p" "rd = 0 \<Longrightarrow> lock_count 1 r = lock_count 1 ?p - 1 \<and> 0 < lock_count 1 ?p"
    using power_locks.put_refused [of 1 ?p] power_locks.put_counts [OF ok, of 1 1] lock_put_positive [of 1 ?p] h by auto
  ultimately show ?thesis using g h
    by (auto simp: update_class_c_power_locked_def class_refs_def upd_pwr_def Let_def split: if_splits)
qed

lemma class_refs_note: "power_ok (pwr (store (sets s))) \<Longrightarrow> class_refs (rzi_lorawan_note_class E c s) = class_refs s"
  using class_refs_update [of "s\<lparr>configured_class := c\<rparr>" E "c = 2"] class_refs_cong [of "s\<lparr>configured_class := c\<rparr>" s]
  by (simp add: rzi_lorawan_note_class_def)

lemma class_refs_queue: "queue_only s t \<Longrightarrow> class_refs t = class_refs s \<and> sets t = sets s"
  by (auto dest: queue_only_fields(1,12) intro!: class_refs_cong)

lemma class_refs_bop: "run_bop E f s = (rc, t) \<Longrightarrow> class_refs t = class_refs s \<and> sets t = sets s"
  using class_refs_queue [OF queue_only_run_bop [of s E f]] by simp

lemma class_refs_bget: "run_bget E f v s = (rc, w, t) \<Longrightarrow> class_refs t = class_refs s \<and> sets t = sets s"
  using class_refs_queue [OF queue_only_run_bget [of s E f v]] by simp

section \<open>Properties\<close>

text \<open>
  C1. The invariant of the running service: from a state that satisfies it, in whatever order API
  calls, factory resets, backend events, dispatcher iterations and power calls follow each other,
  one at a time, the credential cache mirrors valid settings, the credentials are locked exactly while a join
  sequence runs, no retry is left without one, the queue, the services and the retry count stay in
  bounds, and the registry holds no duplicate. As long as no factory reset fails part way (\<open>torn\<close>
  false) the settings moreover agree with flash; the code loses that agreement at such a reset, and
  everything else survives it. Applications act through the API only; calls that overlap in time
  are outside the claim.
\<close>

theorem service_invariant:
  assumes "uses_api torn E" and "service_inv E view (torn_keys torn) n s0" and "(service_step E torn)\<^sup>*\<^sup>* s0 s"
  shows "cred_inv E view (if torn then UNIV else {}) s \<and> (join_active (credentials s) \<longleftrightarrow> join_sequence_active s)
    \<and> (0 < join_retries_remaining s \<longrightarrow> join_sequence_active s) \<and> join_retries_remaining s \<le> 255
    \<and> length (events s) \<le> n \<and> length (services s) \<le> 2 \<and> slots_ok (callback_slots s)
    \<and> link_check_mode s \<le> RZI_LORAWAN_LINK_CHECK_EVERY_UPLINK"
proof -
  have "service_inv E view (torn_keys torn) n s" using assms(3)
    by (induction rule: rtranclp_induct) (use assms(1,2) service_step_inv in blast)+
  then show ?thesis by (auto simp: service_inv_def torn_keys_def)
qed

text \<open>
  Why the steps are whole calls: \<^verbatim>\<open>begin_join\<close> claims the sequence, sets the retries and locks the credentials in
  three separate operations. If the dispatcher handles a join event of the backend between the second and
  the third, the sequence is over and the credentials stay locked.
\<close>

lemma begin_join_overlap:
  assumes "u = s\<lparr>join_sequence_active := True, join_retries_remaining := k\<rparr>"
    and "v = snd (swallow_join_event E BACKEND_JOINED u)"
    and "t = rzi_lorawan_credentials_set_join_active True v"
  shows "join_active (credentials t) \<and> \<not> join_sequence_active t"
  using assms by (simp add: swallow_cases rzi_lorawan_credentials_set_join_active_def clear_join_sequence_def)

lemma ref_uses_api: "uses_api torn ref_env"
  by (simp add: uses_api_def)

lemma two_slots_service_inv: "service_inv ref_env (\<lambda>d. d) D 8 two_slots"
proof -
  have "cred_inv ref_env (\<lambda>d. d) D two_slots"
    using ref_state_inv cred_inv_cong [of two_slots ref_state ref_env "\<lambda>d. d"] by (simp add: two_slots_def)
  moreover have "\<not> join_active (credentials two_slots)" "\<not> join_sequence_active two_slots" "join_retries_remaining two_slots = 0"
    "events two_slots = []" "services two_slots = []" "link_check_mode two_slots = 0" by code_simp+
  ultimately show ?thesis using ref_env_msgq two_slots_inv(2) by (simp add: service_inv_def)
qed

theorem service_invariant_witness:
  "\<exists>s t. rzi_lorawan_init ref_env 0 two_slots = (0, s) \<and> rzi_lorawan_join ref_env 1 (- 1) (- 1) 3 s = (0, t)
     \<and> join_active (credentials t) \<and> join_retries_remaining t = 3 \<and> length (events t) \<le> 8"
proof -
  let ?i = "rzi_lorawan_init ref_env 0 two_slots"
  let ?j = "rzi_lorawan_join ref_env 1 (- 1) (- 1) 3 (snd ?i)"
  have e: "fst ?i = 0" "fst ?j = 0" "join_sequence_active (snd ?j)" "join_retries_remaining (snd ?j) = 3" by code_simp+
  have "service_step ref_env False two_slots (snd ?i)" by (rule start_service [OF surjective_pairing])
  moreover have "service_step ref_env False (snd ?i) (snd ?j)"
    by (intro thread_call api_call [OF call_join]) (rule surjective_pairing)
  ultimately have "(service_step ref_env False)\<^sup>*\<^sup>* two_slots (snd ?j)" by simp
  from service_invariant [OF ref_uses_api two_slots_service_inv this] e show ?thesis
    by (intro exI [of _ "snd ?i"] exI [of _ "snd ?j"]) (simp add: prod_eq_iff)
qed

text \<open>
  C37. Leaving does not end a join: when the device leaves while a join sequence runs, the sequence
  and the lock on the credentials stay, so the next request to join is refused as busy, whatever
  its policy arguments, until the sequence is stopped explicitly or by an event.
\<close>

theorem leave_keeps_join_sequence:
  assumes "rzi_lorawan_leave E s = (0, t)" and "join_sequence_active s"
  shows "join_sequence_active t \<and> join_active (credentials t) = join_active (credentials s)
    \<and> rzi_lorawan_join E 1 auto interval attempts t = (- RZI_ERR_BUSY, t)"
proof -
  obtain u where u: "run_bop E (bk_leave (bk_base (backend E))) s = (0, u)"
    and t: "t = publish_state E STATE_READY (update_class_c_power_locked E False u)" and th: "\<not> k_is_in_isr s"
    using assms(1) by (auto simp: rzi_lorawan_leave_def rzi_lorawan_check_started_def rzi_lorawan_check_thread_def
        Let_def split: if_splits prod.splits)
  let ?v = "update_class_c_power_locked E False u"
  have q: "queue_only s u" using queue_only_run_bop [of s E "bk_leave (bk_base (backend E))"] u by simp
  have p: "queue_only ?v t" unfolding t publish_state_def by (rule queue_only_publish)
  have "in_isr r = in_isr x" if "rzi_power_lock_put (Suc 0) x = (rc, r)" for x rc r
    using isr_lock(2) [of "Suc 0" x] that by simp
  then have v: "credentials ?v = credentials u" "join_sequence_active ?v = join_sequence_active u" "k_is_in_isr ?v = k_is_in_isr u"
    by (auto simp: update_class_c_power_locked_def upd_pwr_def k_is_in_isr_def Let_def split: prod.splits)
  have f: "join_sequence_active t" "credentials t = credentials s" "\<not> k_is_in_isr t"
    using queue_only_fields [OF q] queue_only_fields [OF p] v assms(2) th by simp_all
  then show ?thesis by (simp add: rzi_lorawan_join_def rzi_lorawan_check_thread_def)
qed

theorem leave_keeps_join_sequence_witness:
  "\<exists>t. rzi_lorawan_leave ref_env retry_state = (0, t) \<and> rzi_lorawan_join ref_env 1 0 8 0 t = (- RZI_ERR_BUSY, t)"
proof -
  let ?l = "rzi_lorawan_leave ref_env retry_state"
  have e: "fst ?l = 0" "join_sequence_active retry_state" by code_simp+
  then have l: "?l = (0, snd ?l)" by (simp add: prod_eq_iff)
  from leave_keeps_join_sequence [OF l e(2)] l show ?thesis by blast
qed

text \<open>
  Class C holds exactly one power reference: setting, reading or stopping a class and leaving
  the network change the count of the service's power lock by what they change of the Class C
  reference, so all other references stay balanced; and a successful class change on a build with
  automatic locks, with the lock not exhausted, holds the reference exactly in Class C.
\<close>

theorem class_c_power_balanced:
  assumes ok: "power_ok (pwr (store (sets s)))"
  shows "class_refs (snd (rzi_lorawan_set_class E c s)) = class_refs s
    \<and> class_refs (snd (ignore_out (rzi_lorawan_get_class E) out s)) = class_refs s
    \<and> class_refs (snd (rzi_lorawan_stop_class_b E s)) = class_refs s
    \<and> class_refs (snd (rzi_lorawan_leave E s)) = class_refs s
    \<and> (cfg_auto_lock E \<and> fst (rzi_lorawan_set_class E c s) = 0 \<and> 0 \<le> class_refs s
        \<and> lock_count RZI_POWER_LOCK_LORAWAN (pwr (store (sets s))) < 255
       \<longrightarrow> power_class_c_held (snd (rzi_lorawan_set_class E c s)) = (c = RZI_LORAWAN_CLASS_C))"
proof (intro conjI)
  have nt: "class_refs (rzi_lorawan_note_class E k t) = class_refs s" if "class_refs t = class_refs s \<and> sets t = sets s" for k t
    using class_refs_note [of t E k] that ok by simp
  show "class_refs (snd (rzi_lorawan_set_class E c s)) = class_refs s"
    by (auto simp: rzi_lorawan_set_class_def Let_def split: prod.splits dest!: class_refs_bop intro: nt)
  show "class_refs (snd (ignore_out (rzi_lorawan_get_class E) out s)) = class_refs s"
    by (auto simp: rzi_lorawan_get_class_def ignore_out_def Let_def split: prod.splits option.splits if_splits
        dest!: class_refs_bget intro: nt)
  have "queue_only s (snd (guarded_op E v f s))" for v f
    using guarded_op_call [of E v f] published_queue_only unfolding guarded_call_def by blast
  then have "class_refs t = class_refs s \<and> sets t = sets s" if "guarded_op E v f s = (rc, t)" for v f rc t
    using class_refs_queue that by (metis snd_conv)
  then show "class_refs (snd (rzi_lorawan_stop_class_b E s)) = class_refs s"
    by (auto simp: rzi_lorawan_stop_class_b_def split: prod.splits intro: nt)
  have "class_refs (publish_state E STATE_READY (update_class_c_power_locked E False t)) = class_refs s"
    if "class_refs t = class_refs s \<and> sets t = sets s" for t
    using class_refs_queue [OF queue_only_publish [of "update_class_c_power_locked E False t" E]] class_refs_update [of t E False] that ok
    by (simp add: publish_state_def)
  then show "class_refs (snd (rzi_lorawan_leave E s)) = class_refs s"
    by (auto simp: rzi_lorawan_leave_def Let_def split: prod.splits dest!: class_refs_bop)
  show "cfg_auto_lock E \<and> fst (rzi_lorawan_set_class E c s) = 0 \<and> 0 \<le> class_refs s
      \<and> lock_count RZI_POWER_LOCK_LORAWAN (pwr (store (sets s))) < 255
     \<longrightarrow> power_class_c_held (snd (rzi_lorawan_set_class E c s)) = (c = RZI_LORAWAN_CLASS_C)"
  proof
    assume a: "cfg_auto_lock E \<and> fst (rzi_lorawan_set_class E c s) = 0 \<and> 0 \<le> class_refs s
      \<and> lock_count RZI_POWER_LOCK_LORAWAN (pwr (store (sets s))) < 255"
    then obtain t where t: "run_bop E (bk_set_class (bk_base (backend E)) c) s = (0, t)"
      and w: "snd (rzi_lorawan_set_class E c s) = rzi_lorawan_note_class E c t" and th: "\<not> k_is_in_isr s"
      by (auto simp: rzi_lorawan_set_class_def rzi_lorawan_check_started_def rzi_lorawan_check_thread_def Let_def
          split: if_splits prod.splits)
    have h: "sets t = sets s" "power_class_c_held t = power_class_c_held s"
      using queue_only_fields [OF queue_only_run_bop [of s E "bk_set_class (bk_base (backend E)) c"]] t by simp_all
    let ?p = "pwr (store (sets s))"
    have isr: "\<not> in_isr ?p" using th by (simp add: k_is_in_isr_def)
    have get: "fst (rzi_power_lock_get 1 ?p) = 0" if "lock_count 1 ?p < 255"
      using that isr by (auto simp: rzi_power_lock_get_def lock_count_def)
    have put: "fst (rzi_power_lock_put 1 ?p) = 0" if "0 < lock_count 1 ?p"
      using power_locks.put_granted [OF ok, of 1] isr that by simp
    have pos: "power_class_c_held s \<Longrightarrow> 0 < lock_count 1 ?p" using a by (auto simp: class_refs_def)
    show "power_class_c_held (snd (rzi_lorawan_set_class E c s)) = (c = RZI_LORAWAN_CLASS_C)"
      using a h get put pos unfolding w
      by (auto simp: rzi_lorawan_note_class_def update_class_c_power_locked_def upd_pwr_def Let_def split: prod.splits)
  qed
qed

text \<open>A started service on a build with automatic power locks.\<close>

definition lock_env where
  "lock_env = ref_env\<lparr>cfg_auto_lock := True\<rparr>"

definition joined_state :: "(string \<rightharpoonup> bytes, bool) lorawan_state" where
  "joined_state = two_slots\<lparr>started := True, radio := True\<rparr>"

lemma joined_power: "power_ok (pwr (store (sets joined_state)))"
  using two_slots_service_inv
  by (simp add: service_inv_def cred_inv_def settings_inv_def storage_inv_def joined_state_def)

theorem class_c_power_balanced_witness:
  "rzi_lorawan_set_class lock_env RZI_LORAWAN_CLASS_C joined_state = (0, snd (rzi_lorawan_set_class lock_env RZI_LORAWAN_CLASS_C joined_state))
   \<and> power_class_c_held (snd (rzi_lorawan_set_class lock_env RZI_LORAWAN_CLASS_C joined_state))
   \<and> lock_count RZI_POWER_LOCK_LORAWAN (pwr (store (sets (snd (rzi_lorawan_set_class lock_env RZI_LORAWAN_CLASS_C joined_state))))) = 1"
proof -
  have e: "cfg_auto_lock lock_env" "fst (rzi_lorawan_set_class lock_env 2 joined_state) = 0"
    "class_refs joined_state = 0" "lock_count 1 (pwr (store (sets joined_state))) = 0" by code_simp+
  from class_c_power_balanced [OF joined_power, of lock_env 2] e
  have "power_class_c_held (snd (rzi_lorawan_set_class lock_env 2 joined_state))"
    "class_refs (snd (rzi_lorawan_set_class lock_env 2 joined_state)) = 0" by simp_all
  with e(2) show ?thesis by (simp add: prod_eq_iff class_refs_def)
qed

text \<open>The environment with another transmit operation in the backend table.\<close>

definition with_send ::
  "(u8 \<Rightarrow> bytes option \<Rightarrow> nat \<Rightarrow> nat \<Rightarrow> 'x bop) \<Rightarrow> ('d, 'x, 's, 'e) lorawan_env_scheme \<Rightarrow> ('d, 'x, 's, 'e) lorawan_env_scheme" where
  "with_send g E = E\<lparr>backend := (backend E)\<lparr>bk_base := (bk_base (backend E))\<lparr>bk_send := g\<rparr>\<rparr>\<rparr>"

lemma publish_with_send: "publish (with_send g E) = publish E"
  by (simp add: fun_eq_iff publish_def with_send_def)

lemma run_with_send [simp]: "run_bop (with_send g E) f s = run_bop E f s" "run_bget (with_send g E) h v s = run_bget E h v s"
  by (simp_all add: run_bop_def run_bget_def publish_with_send)

lemma backend_with_send [simp]: "bk_is_joined (bk_base (backend (with_send g E))) = bk_is_joined (bk_base (backend E))"
  by (simp add: with_send_def)

text \<open>
  C8. Nothing is transmitted without a session: if the outcome of a send depends at all on the
  backend's transmit operation, then the service had started, the caller was a thread, the backend
  had just answered that it is joined, the port is an application port, the type is known and the
  payload fits and is present.
\<close>

theorem uplink_guarded:
  assumes "rzi_lorawan_send (with_send g E) port data k type s \<noteq> rzi_lorawan_send E port data k type s"
  shows "started s \<and> \<not> k_is_in_isr s
    \<and> (case bk_is_joined (bk_base (backend E)) False (radio s) of (rc, joined, _) \<Rightarrow> rc = 0 \<and> joined)
    \<and> 1 \<le> port \<and> port \<le> 223 \<and> type \<in> {RZI_LORAWAN_MSG_UNCONFIRMED, RZI_LORAWAN_MSG_CONFIRMED}
    \<and> k \<le> RZI_LORAWAN_MAX_PAYLOAD \<and> (data = None \<longrightarrow> k = 0)"
proof -
  have j: "check_joined (with_send g E) s = check_joined E s"
    unfolding check_joined_def run_with_send backend_with_send by (rule refl)
  obtain rc t where c: "check_joined E s = (rc, t)" by fastforce
  have args: "\<not> ((data = None \<and> k \<noteq> 0) \<or> port = 0 \<or> port > 223 \<or> \<not> message_type_valid type)" "k \<le> 242" "rc = 0"
    using assms j c by (auto simp: rzi_lorawan_send_def split: if_splits)
  have "1 \<le> port" using args(1) by (metis unsigned_1 unsigned_eq_0_iff less_one not_less word_le_nat_alt)
  moreover have "started s \<and> \<not> k_is_in_isr s
      \<and> (case bk_is_joined (bk_base (backend E)) False (radio s) of (rc, joined, _) \<Rightarrow> rc = 0 \<and> joined)"
    using c args(3)
    by (auto simp: check_joined_def rzi_lorawan_check_started_def rzi_lorawan_check_thread_def run_bget_def Let_def
        split: if_splits prod.splits)
  ultimately show ?thesis using args by (auto simp: message_type_valid_def)
qed

theorem uplink_guarded_witness:
  "rzi_lorawan_send (with_send (\<lambda>p d n ty x. (- RZI_ERR_BUSY, [], x)) ref_env) 10 (Some [1, 2]) 2 0 joined_state
     \<noteq> rzi_lorawan_send ref_env 10 (Some [1, 2]) 2 0 joined_state
   \<and> started joined_state \<and> 1 \<le> (10 :: u8)"
proof -
  let ?g = "\<lambda>p d n ty x. (- RZI_ERR_BUSY, [], x)"
  have "fst (rzi_lorawan_send (with_send ?g ref_env) 10 (Some [1, 2]) 2 0 joined_state) = - RZI_ERR_BUSY"
    "fst (rzi_lorawan_send ref_env 10 (Some [1, 2]) 2 0 joined_state) = 0" by code_simp+
  then have "rzi_lorawan_send (with_send ?g ref_env) 10 (Some [1, 2]) 2 0 joined_state
     \<noteq> rzi_lorawan_send ref_env 10 (Some [1, 2]) 2 0 joined_state" by (metis numeral_neq_zero neg_equal_0_iff_equal)
  from uplink_guarded [OF this] this show ?thesis by blast
qed

end
