(* ===== verification/Rzi_Fuota.thy ===== *)
theory Rzi_Fuota
  imports Rzi_Lorawan
begin

text \<open>
  The FUOTA coordination service, \<^verbatim>\<open>src/lorawan/services/fuota/lorawan_fuota.c\<close>, one of the services
  the LoRaWAN core calls after the start and for every dispatched event. Its state extends the state of the core.

  \<open>'f\<close> is the state of Zephyr's image manager, whose functions are parameters. Callbacks are numbers and run
  with the mutex of the file released. Work items are flags: \<open>keepalive_pending\<close> and \<open>apply_pending\<close> say that an item waits for the
  system work queue. \<open>size_max\<close> is \<^verbatim>\<open>SIZE_MAX\<close>. Logging is left out; the read of the image head that it makes is not.
\<close>

section \<open>State\<close>

datatype rzi_fuota_state = FUOTA_IDLE | FUOTA_READY | FUOTA_TRANSFERRING | FUOTA_COMPLETE | FUOTA_FAILED | FUOTA_APPLYING

record rzi_fuota_callbacks =
  fcb_state_changed :: "nat option"
  fcb_session_started :: "nat option"
  fcb_complete :: "nat option"
  fcb_user_data :: nat

record rzi_fuota_status =
  st_state :: rzi_fuota_state
  st_image_ready :: bool
  st_image_size :: nat
  st_last_error :: int

record ('d, 'x, 'f) fuota_state = "('d, 'x) lorawan_state" +
  fuota_started :: bool
  state :: rzi_fuota_state
  image_ready :: bool
  power_flash_held :: bool
  image_size :: nat
  expected_size :: nat
  last_error :: int
  fuota_callbacks :: rzi_fuota_callbacks
  fuota_ops :: "'x rzi_lorawan_fuota_ops option"
  keepalive_pending :: bool
  apply_pending :: bool
  flash_slot :: 'f

record ('d, 'x, 's, 'f) fuota_env = "('d, 'x, 's) lorawan_env" +
  cfg_img_manager :: bool
  cfg_auto_apply :: bool
  cfg_keepalive :: bool
  cfg_keepalive_port :: u8
  size_max :: nat
  fuota_service :: nat
  flash_img_init :: "'f \<Rightarrow> int \<times> 'f"
  flash_img_buffered_write :: "bytes \<Rightarrow> bool \<Rightarrow> 'f \<Rightarrow> int \<times> 'f"
  boot_request_upgrade :: "'f \<Rightarrow> int \<times> 'f"
  run_state_changed :: "nat \<Rightarrow> rzi_fuota_state \<Rightarrow> nat \<Rightarrow> 's \<Rightarrow> 's"
  run_session_started :: "nat \<Rightarrow> nat \<Rightarrow> 's \<Rightarrow> 's"
  run_complete :: "nat \<Rightarrow> int \<Rightarrow> nat \<Rightarrow> 's \<Rightarrow> 's"

abbreviation (input) IMAGE_MAGIC :: u32 where "IMAGE_MAGIC \<equiv> 0x96f3b83d"
abbreviation (input) IMAGE_TLV_MAGIC :: u16 where "IMAGE_TLV_MAGIC \<equiv> 0x6907"
abbreviation (input) IMAGE_HDR_SIZE :: nat where "IMAGE_HDR_SIZE \<equiv> 32"
abbreviation (input) IMAGE_HEAD_LOG :: nat where "IMAGE_HEAD_LOG \<equiv> 16"
abbreviation (input) APPLY_CHUNK :: nat where "APPLY_CHUNK \<equiv> 256"

section \<open>State changes and notifications\<close>

definition fuota_callbacks_empty :: "rzi_fuota_callbacks \<Rightarrow> bool" where
  "fuota_callbacks_empty tab \<longleftrightarrow>
     fcb_state_changed tab = None \<and> fcb_session_started tab = None \<and> fcb_complete tab = None"

definition resolve_ops :: "('d, 'x, 's, 'e) lorawan_env_scheme \<Rightarrow> 'x rzi_lorawan_fuota_ops option" where
  "resolve_ops E = bk_fuota (backend E)"

text \<open>The states in which the service holds the flash power lock.\<close>

definition wants_flash :: "rzi_fuota_state \<Rightarrow> bool" where
  "wants_flash st \<longleftrightarrow> st = FUOTA_TRANSFERRING \<or> st = FUOTA_APPLYING"

definition update_flash_power ::
  "('d, 'x, 's, 'f, 'e) fuota_env_scheme \<Rightarrow> bool \<Rightarrow> ('d, 'x, 'f, 'm) fuota_state_scheme \<Rightarrow> ('d, 'x, 'f, 'm) fuota_state_scheme" where
  "update_flash_power E want s =
     (if cfg_auto_lock E then
        let p = pwr (store (sets s)) in
        if want \<and> \<not> power_flash_held s then
          (case rzi_power_lock_get RZI_POWER_LOCK_FLASH p of (rc, q) \<Rightarrow>
             let t = upd_pwr q s in if rc = 0 then t\<lparr>power_flash_held := True\<rparr> else t)
        else if \<not> want \<and> power_flash_held s then
          (upd_pwr (snd (rzi_power_lock_put RZI_POWER_LOCK_FLASH p)) s)\<lparr>power_flash_held := False\<rparr>
        else s
      else s)"

definition set_state_locked ::
  "('d, 'x, ('d, 'x, 'f, 'm) fuota_state_scheme, 'f, 'e) fuota_env_scheme \<Rightarrow> rzi_fuota_state
   \<Rightarrow> ('d, 'x, 'f, 'm) fuota_state_scheme \<Rightarrow> ('d, 'x, 'f, 'm) fuota_state_scheme" where
  "set_state_locked E next_state s =
     (let tab = fuota_callbacks s in
      if state s = next_state then s
      else let t = update_flash_power E (wants_flash next_state) (s\<lparr>state := next_state\<rparr>) in
        case fcb_state_changed tab of
          None \<Rightarrow> t
        | Some f \<Rightarrow> run_state_changed E f next_state (fcb_user_data tab) t)"

definition notify_complete ::
  "('d, 'x, ('d, 'x, 'f, 'm) fuota_state_scheme, 'f, 'e) fuota_env_scheme \<Rightarrow> int
   \<Rightarrow> ('d, 'x, 'f, 'm) fuota_state_scheme \<Rightarrow> ('d, 'x, 'f, 'm) fuota_state_scheme" where
  "notify_complete E status s =
     (case fcb_complete (fuota_callbacks s) of
        None \<Rightarrow> s | Some f \<Rightarrow> run_complete E f status (fcb_user_data (fuota_callbacks s)) s)"

definition notify_session_started ::
  "('d, 'x, ('d, 'x, 'f, 'm) fuota_state_scheme, 'f, 'e) fuota_env_scheme
   \<Rightarrow> ('d, 'x, 'f, 'm) fuota_state_scheme \<Rightarrow> ('d, 'x, 'f, 'm) fuota_state_scheme" where
  "notify_session_started E s =
     (case fcb_session_started (fuota_callbacks s) of
        None \<Rightarrow> s | Some f \<Rightarrow> run_session_started E f (fcb_user_data (fuota_callbacks s)) s)"

section \<open>Keepalive\<close>

definition schedule_keepalive ::
  "('d, 'x, 's, 'f, 'e) fuota_env_scheme \<Rightarrow> ('d, 'x, 'f, 'm) fuota_state_scheme \<Rightarrow> ('d, 'x, 'f, 'm) fuota_state_scheme" where
  "schedule_keepalive E s = (if cfg_keepalive E then s\<lparr>keepalive_pending := True\<rparr> else s)"

definition cancel_keepalive ::
  "('d, 'x, 's, 'f, 'e) fuota_env_scheme \<Rightarrow> ('d, 'x, 'f, 'm) fuota_state_scheme \<Rightarrow> ('d, 'x, 'f, 'm) fuota_state_scheme" where
  "cancel_keepalive E s = (if cfg_keepalive E then s\<lparr>keepalive_pending := False\<rparr> else s)"

text \<open>The work item runs: it is no longer pending until it schedules itself again.\<close>

definition keepalive_work_handler ::
  "('d, 'x, 's, 'f, 'e) fuota_env_scheme \<Rightarrow> ('d, 'x, 'f, 'm) fuota_state_scheme \<Rightarrow> ('d, 'x, 'f, 'm) fuota_state_scheme" where
  "keepalive_work_handler E s =
     (let s = s\<lparr>keepalive_pending := False\<rparr> in
      if \<not> fuota_started s \<or> state s = FUOTA_TRANSFERRING \<or> state s = FUOTA_APPLYING then s
      else schedule_keepalive E (snd (rzi_lorawan_send E (cfg_keepalive_port E) (Some [0]) 1 RZI_LORAWAN_MSG_UNCONFIRMED s)))"

section \<open>The image\<close>

text \<open>A read of \<open>n\<close> bytes into a buffer.\<close>

definition read_image ::
  "('d, 'x, 's, 'f, 'e) fuota_env_scheme \<Rightarrow> (u32 \<Rightarrow> nat \<Rightarrow> (bytes, 'x) bget) \<Rightarrow> u32 \<Rightarrow> nat
   \<Rightarrow> ('d, 'x, 'f, 'm) fuota_state_scheme \<Rightarrow> int \<times> bytes \<times> ('d, 'x, 'f, 'm) fuota_state_scheme" where
  "read_image E rd off n s = run_bget E (rd off n) (replicate n 0) s"

definition log_image_head ::
  "('d, 'x, 's, 'f, 'e) fuota_env_scheme \<Rightarrow> ('d, 'x, 'f, 'm) fuota_state_scheme \<Rightarrow> ('d, 'x, 'f, 'm) fuota_state_scheme" where
  "log_image_head E s =
     (case Option.bind (fuota_ops s) bk_read_image of
        None \<Rightarrow> s
      | Some rd \<Rightarrow>
          let request = (if image_size s \<noteq> 0 \<and> image_size s < IMAGE_HEAD_LOG then image_size s else IMAGE_HEAD_LOG) in
          snd (snd (read_image E rd 0 request s)))"

text \<open>The size from the header of the image and the trailer behind it.\<close>

definition size_from_header ::
  "('d, 'x, 's, 'f, 'e) fuota_env_scheme \<Rightarrow> ('d, 'x, 'f, 'm) fuota_state_scheme op" where
  "size_from_header E s =
     (case Option.bind (fuota_ops s) bk_read_image of
        None \<Rightarrow> (- RZI_ERR_NOT_SUPPORTED, s)
      | Some rd \<Rightarrow>
          (case read_image E rd 0 IMAGE_HDR_SIZE s of (rc, header, t) \<Rightarrow>
             if rc \<noteq> 0 then (rc, t)
             else if get_le32 header \<noteq> IMAGE_MAGIC then (- RZI_ERR_NO_DATA, t)
             else let hdr_size = get_le16 (drop 8 header); payload_size = get_le32 (drop 12 header) in
               case read_image E rd (ucast hdr_size + payload_size) 4 t of (rc, tlv, u) \<Rightarrow>
                 if rc \<noteq> 0 then (rc, u)
                 else if get_le16 tlv \<noteq> IMAGE_TLV_MAGIC
                   then (0, u\<lparr>image_size := (unat hdr_size + unat payload_size) mod (size_max E + 1)\<rparr>)
                 else (0, u\<lparr>image_size := (unat hdr_size + unat payload_size + unat (get_le16 (drop 2 tlv))) mod (size_max E + 1)\<rparr>)))"

definition detect_image_size ::
  "('d, 'x, 's, 'f, 'e) fuota_env_scheme \<Rightarrow> nat \<Rightarrow> ('d, 'x, 'f, 'm) fuota_state_scheme op" where
  "detect_image_size E reported s =
     (if expected_size s \<noteq> 0 then (0, s\<lparr>image_size := expected_size s\<rparr>)
      else if reported \<noteq> 0 then (0, s\<lparr>image_size := reported\<rparr>)
      else case Option.bind (fuota_ops s) bk_get_image_size of
        None \<Rightarrow> size_from_header E s
      | Some f \<Rightarrow> (case run_bget E f 0 s of (rc, measured, t) \<Rightarrow>
          if rc = 0 \<and> measured \<noteq> 0 then (0, t\<lparr>image_size := measured\<rparr>) else size_from_header E t))"

text \<open>The copy loop.\<close>

function copy_chunks ::
  "('d, 'x, 's, 'f, 'e) fuota_env_scheme \<Rightarrow> (u32 \<Rightarrow> nat \<Rightarrow> (bytes, 'x) bget) \<Rightarrow> nat \<Rightarrow> nat
   \<Rightarrow> ('d, 'x, 'f, 'm) fuota_state_scheme op" where
  "copy_chunks E rd off remaining s =
     (if remaining = 0 then
        (case boot_request_upgrade E (flash_slot s) of (rc, f) \<Rightarrow> (rzi_err_from_errno rc, s\<lparr>flash_slot := f\<rparr>))
      else let request = min remaining APPLY_CHUNK; flush = (remaining \<le> APPLY_CHUNK) in
        case read_image E rd (of_nat off) request s of (rc, chunk, t) \<Rightarrow>
          if rc \<noteq> 0 then (rc, t)
          else case flash_img_buffered_write E chunk flush (flash_slot t) of (rc, f) \<Rightarrow>
            if rc \<noteq> 0 then (rzi_err_from_errno rc, t\<lparr>flash_slot := f\<rparr>)
            else copy_chunks E rd (off + request) (remaining - request) (t\<lparr>flash_slot := f\<rparr>))"
  by pat_completeness auto

termination copy_chunks
  by (relation "measure (\<lambda>(E, rd, off, remaining, s). remaining)") auto

declare copy_chunks.simps [simp del]

definition copy_image_to_slot ::
  "('d, 'x, 's, 'f, 'e) fuota_env_scheme \<Rightarrow> ('d, 'x, 'f, 'm) fuota_state_scheme op" where
  "copy_image_to_slot E s =
     (case Option.bind (fuota_ops s) bk_read_image of
        None \<Rightarrow> (- RZI_ERR_NOT_SUPPORTED, s)
      | Some rd \<Rightarrow> (case flash_img_init E (flash_slot s) of (rc, f) \<Rightarrow>
          let t = s\<lparr>flash_slot := f\<rparr> in
          if rc \<noteq> 0 then (rzi_err_from_errno rc, t) else copy_chunks E rd 0 (image_size s) t))"

section \<open>Public operations\<close>

definition rzi_fuota_register_callbacks :: "rzi_fuota_callbacks option \<Rightarrow> ('d, 'x, 'f, 'm) fuota_state_scheme op" where
  "rzi_fuota_register_callbacks tab s =
     (if k_is_in_isr s then (- RZI_ERR_ISR, s)
      else case tab of
        None \<Rightarrow> (- RZI_ERR_INVALID, s)
      | Some cb \<Rightarrow> if fuota_callbacks_empty cb then (- RZI_ERR_INVALID, s) else (0, s\<lparr>fuota_callbacks := cb\<rparr>))"

definition rzi_fuota_start ::
  "('d, 'x, 's, 'f, 'e) fuota_env_scheme \<Rightarrow> ('d, 'x, 'f, 'm) fuota_state_scheme op" where
  "rzi_fuota_start E s =
     (if k_is_in_isr s then (- RZI_ERR_ISR, s)
      else if fuota_started s then (0, s)
      else let t = s\<lparr>fuota_ops := resolve_ops E\<rparr> in
        if fuota_ops t = None \<and> rzi_lorawan_get_capabilities E AND RZI_LORAWAN_CAP_FUOTA = 0 then (- RZI_ERR_NOT_SUPPORTED, t)
        else (0, t\<lparr>fuota_started := True\<rparr>))"

definition rzi_fuota_get_status :: "(('d, 'x, 'f, 'm) fuota_state_scheme, rzi_fuota_status) getter" where
  "rzi_fuota_get_status status s =
     (if k_is_in_isr s then (- RZI_ERR_ISR, status, s)
      else if status = None then (- RZI_ERR_INVALID, status, s)
      else (0, Some \<lparr>st_state = state s, st_image_ready = image_ready s, st_image_size = image_size s,
                     st_last_error = last_error s\<rparr>, s))"

definition rzi_fuota_set_expected_size :: "nat \<Rightarrow> ('d, 'x, 'f, 'm) fuota_state_scheme op" where
  "rzi_fuota_set_expected_size n s =
     (if k_is_in_isr s then (- RZI_ERR_ISR, s)
      else if n = 0 then (- RZI_ERR_INVALID, s)
      else let t = s\<lparr>expected_size := n\<rparr> in
        (0, if image_ready t \<and> image_size t = 0 then t\<lparr>image_size := n\<rparr> else t))"

definition rzi_fuota_read_image ::
  "('d, 'x, 's, 'f, 'e) fuota_env_scheme \<Rightarrow> nat \<Rightarrow> bytes option \<Rightarrow> nat \<Rightarrow> ('d, 'x, 'f, 'm) fuota_state_scheme
   \<Rightarrow> int \<times> bytes option \<times> ('d, 'x, 'f, 'm) fuota_state_scheme" where
  "rzi_fuota_read_image E off buffer n s =
     (if k_is_in_isr s then (- RZI_ERR_ISR, buffer, s)
      else if buffer = None \<or> n = 0 then (- RZI_ERR_INVALID, buffer, s)
      else if \<not> image_ready s then (- RZI_ERR_NOT_FOUND, buffer, s)
      else case Option.bind (fuota_ops s) bk_read_image of
        None \<Rightarrow> (- RZI_ERR_NOT_SUPPORTED, buffer, s)
      | Some rd \<Rightarrow> (case run_bget E (rd (of_nat off) n) (the buffer) s of (rc, out, t) \<Rightarrow> (rc, Some out, t)))"

definition rzi_fuota_apply ::
  "('d, 'x, ('d, 'x, 'f, 'm) fuota_state_scheme, 'f, 'e) fuota_env_scheme \<Rightarrow> ('d, 'x, 'f, 'm) fuota_state_scheme op" where
  "rzi_fuota_apply E s =
     (if k_is_in_isr s then (- RZI_ERR_ISR, s)
      else if \<not> image_ready s then (- RZI_ERR_NOT_FOUND, s)
      else if image_size s = 0 then (- RZI_ERR_NO_DATA, s)
      else let t = set_state_locked E FUOTA_APPLYING s in
        if \<not> cfg_img_manager E then (- RZI_ERR_NOT_SUPPORTED, t)
        else case copy_image_to_slot E t of (rc, u) \<Rightarrow>
          if rc \<noteq> 0 then (rc, set_state_locked E FUOTA_COMPLETE (u\<lparr>last_error := rc\<rparr>))
          else case Option.bind (fuota_ops u) bk_reboot of
            None \<Rightarrow> (- RZI_ERR_NOT_SUPPORTED, u)
          | Some f \<Rightarrow> run_bop E f u)"

definition apply_work_handler ::
  "('d, 'x, ('d, 'x, 'f, 'm) fuota_state_scheme, 'f, 'e) fuota_env_scheme
   \<Rightarrow> ('d, 'x, 'f, 'm) fuota_state_scheme \<Rightarrow> ('d, 'x, 'f, 'm) fuota_state_scheme" where
  "apply_work_handler E s = snd (rzi_fuota_apply E (s\<lparr>apply_pending := False\<rparr>))"

section \<open>Events\<close>

definition handle_joined ::
  "('d, 'x, ('d, 'x, 'f, 'm) fuota_state_scheme, 'f, 'e) fuota_env_scheme
   \<Rightarrow> ('d, 'x, 'f, 'm) fuota_state_scheme \<Rightarrow> ('d, 'x, 'f, 'm) fuota_state_scheme" where
  "handle_joined E s =
     (let t = s\<lparr>image_ready := False, image_size := expected_size s, last_error := 0\<rparr> in
      case (case Option.bind (fuota_ops t) bk_start_clock_sync of None \<Rightarrow> (0, t) | Some f \<Rightarrow> run_bop E f t) of (rc, u) \<Rightarrow>
        schedule_keepalive E (set_state_locked E FUOTA_READY (if rc \<noteq> 0 then u\<lparr>last_error := rc\<rparr> else u)))"

definition submit_apply ::
  "('d, 'x, 's, 'f, 'e) fuota_env_scheme \<Rightarrow> ('d, 'x, 'f, 'm) fuota_state_scheme \<Rightarrow> ('d, 'x, 'f, 'm) fuota_state_scheme" where
  "submit_apply E s = (if cfg_auto_apply E then s\<lparr>apply_pending := True\<rparr> else s)"

definition transfer_done ::
  "('d, 'x, ('d, 'x, 'f, 'm) fuota_state_scheme, 'f, 'e) fuota_env_scheme \<Rightarrow> bool \<Rightarrow> nat
   \<Rightarrow> ('d, 'x, 'f, 'm) fuota_state_scheme \<Rightarrow> ('d, 'x, 'f, 'm) fuota_state_scheme" where
  "transfer_done E successful reported s =
     (if successful then
        case detect_image_size E reported s of (rc, t) \<Rightarrow>
          let u = log_image_head E (t\<lparr>image_ready := True, last_error := (if rc = - RZI_ERR_NO_DATA then 0 else rc)\<rparr>) in
          submit_apply E (notify_complete E 0 (set_state_locked E FUOTA_COMPLETE u))
      else schedule_keepalive E (notify_complete E (- RZI_ERR_IO)
             (set_state_locked E FUOTA_FAILED (s\<lparr>image_ready := False, last_error := - RZI_ERR_IO\<rparr>))))"

definition handle_fuota_event ::
  "('d, 'x, ('d, 'x, 'f, 'm) fuota_state_scheme, 'f, 'e) fuota_env_scheme \<Rightarrow> fuota_kind \<Rightarrow> bool \<Rightarrow> nat
   \<Rightarrow> ('d, 'x, 'f, 'm) fuota_state_scheme \<Rightarrow> ('d, 'x, 'f, 'm) fuota_state_scheme" where
  "handle_fuota_event E kind successful reported s =
     (case kind of
        FUOTA_CLOCK_SYNCED \<Rightarrow> s
      | FUOTA_SESSION_STARTED \<Rightarrow> notify_session_started E (set_state_locked E FUOTA_TRANSFERRING (cancel_keepalive E s))
      | FUOTA_SESSION_ENDED \<Rightarrow>
          if state s = FUOTA_TRANSFERRING \<and> \<not> image_ready s then set_state_locked E FUOTA_READY (schedule_keepalive E s) else s
      | FUOTA_TRANSFER_DONE \<Rightarrow> transfer_done E successful reported s
      | FUOTA_REBOOT_REQUESTED \<Rightarrow> if image_ready s then submit_apply E s else s)"

definition fuota_on_event ::
  "('d, 'x, ('d, 'x, 'f, 'm) fuota_state_scheme, 'f, 'e) fuota_env_scheme \<Rightarrow> backend_event
   \<Rightarrow> ('d, 'x, 'f, 'm) fuota_state_scheme \<Rightarrow> ('d, 'x, 'f, 'm) fuota_state_scheme" where
  "fuota_on_event E event s =
     (if \<not> fuota_started s then s
      else case event of
        BACKEND_JOINED \<Rightarrow> handle_joined E s
      | BACKEND_JOIN_FAILED _ \<Rightarrow> set_state_locked E FUOTA_IDLE ((cancel_keepalive E s)\<lparr>image_ready := False\<rparr>)
      | BACKEND_STATE_CHANGED st \<Rightarrow>
          if st = STATE_READY \<and> state s \<noteq> FUOTA_IDLE
          then set_state_locked E FUOTA_IDLE ((cancel_keepalive E s)\<lparr>image_ready := False\<rparr>) else s
      | BACKEND_FUOTA kind successful reported \<Rightarrow> handle_fuota_event E kind successful (unat reported) s
      | _ \<Rightarrow> s)"

definition fuota_on_started ::
  "('d, 'x, 's, 'f, 'e) fuota_env_scheme \<Rightarrow> ('d, 'x, 'f, 'm) fuota_state_scheme \<Rightarrow> ('d, 'x, 'f, 'm) fuota_state_scheme" where
  "fuota_on_started E s = snd (rzi_fuota_start E s)"

definition fuota_register ::
  "('d, 'x, 's, 'f, 'e) fuota_env_scheme \<Rightarrow> ('d, 'x, 'f, 'm) fuota_state_scheme op" where
  "fuota_register E s = rzi_lorawan_register_service (Some (fuota_service E)) s"

section \<open>The flash power lock\<close>

text \<open>
  Besides \<open>k\<close> references of others, the service holds one reference on the flash lock exactly
  while it transfers or applies an image on a build with automatic locks. The service runs in threads.
\<close>

definition flash_inv :: "nat \<Rightarrow> ('d, 'x, 's, 'f, 'e) fuota_env_scheme \<Rightarrow> ('d, 'x, 'f, 'm) fuota_state_scheme \<Rightarrow> bool" where
  "flash_inv k E s \<longleftrightarrow> power_ok (pwr (store (sets s))) \<and> \<not> in_isr (pwr (store (sets s))) \<and> k < 255
     \<and> power_flash_held s = (cfg_auto_lock E \<and> wants_flash (state s))
     \<and> lock_count RZI_POWER_LOCK_FLASH (pwr (store (sets s))) = k + of_bool (power_flash_held s)"

text \<open>Callbacks keep the invariant: they act through the API.\<close>

definition fuota_callbacks_keep :: "nat \<Rightarrow> ('d, 'x, ('d, 'x, 'f, 'm) fuota_state_scheme, 'f, 'e) fuota_env_scheme \<Rightarrow> bool" where
  "fuota_callbacks_keep k E \<longleftrightarrow>
     (\<forall>f st u s. flash_inv k E s \<longrightarrow> flash_inv k E (run_state_changed E f st u s))
     \<and> (\<forall>f u s. flash_inv k E s \<longrightarrow> flash_inv k E (run_session_started E f u s))
     \<and> (\<forall>f rc u s. flash_inv k E s \<longrightarrow> flash_inv k E (run_complete E f rc u s))"

lemma flash_inv_cong:
  assumes "sets t = sets s" and "state t = state s" and "power_flash_held t = power_flash_held s"
  shows "flash_inv k E t = flash_inv k E s"
  using assms by (simp add: flash_inv_def)

lemma flash_inv_other [simp]:
  "flash_inv k E (s\<lparr>fuota_started := b\<rparr>) = flash_inv k E s" "flash_inv k E (s\<lparr>image_ready := b\<rparr>) = flash_inv k E s"
  "flash_inv k E (s\<lparr>image_size := n\<rparr>) = flash_inv k E s" "flash_inv k E (s\<lparr>expected_size := n\<rparr>) = flash_inv k E s"
  "flash_inv k E (s\<lparr>last_error := e\<rparr>) = flash_inv k E s" "flash_inv k E (s\<lparr>fuota_callbacks := c\<rparr>) = flash_inv k E s"
  "flash_inv k E (s\<lparr>fuota_ops := opt\<rparr>) = flash_inv k E s" "flash_inv k E (s\<lparr>keepalive_pending := b\<rparr>) = flash_inv k E s"
  "flash_inv k E (s\<lparr>apply_pending := b\<rparr>) = flash_inv k E s" "flash_inv k E (s\<lparr>flash_slot := f\<rparr>) = flash_inv k E s"
  by (simp_all add: flash_inv_def)

text \<open>Calls of the backend change the queue and the radio only.\<close>

lemma queue_only_fuota:
  assumes "queue_only s t"
  shows "state t = state s" "power_flash_held t = power_flash_held s" "image_ready t = image_ready s" "image_size t = image_size s"
    "flash_slot t = flash_slot s" "fuota_ops t = fuota_ops s" "fuota_callbacks t = fuota_callbacks s" "sets t = sets s"
    "expected_size t = expected_size s"
  using assms by (auto simp: queue_only_def)

lemma flash_inv_queue: "queue_only s t \<Longrightarrow> flash_inv k E t = flash_inv k E s"
  by (rule flash_inv_cong) (simp_all add: queue_only_fuota)

lemma bop_queue: "run_bop E f s = (rc, t) \<Longrightarrow> queue_only s t"
  using queue_only_run_bop [of s E f] by simp

lemma bget_queue: "run_bget E f v s = (rc, w, t) \<Longrightarrow> queue_only s t"
  using queue_only_run_bget [of s E f v] by simp

lemma read_image_queue: "read_image E rd off n s = (rc, bs, t) \<Longrightarrow> queue_only s t"
  using queue_only_run_bget [of s E "rd off n" "replicate n 0"] by (simp add: read_image_def)

lemma keepalive_flash [simp]:
  "flash_inv k E (schedule_keepalive F s) = flash_inv k E s" "flash_inv k E (cancel_keepalive F s) = flash_inv k E s"
  "flash_inv k E (submit_apply F s) = flash_inv k E s"
  by (simp_all add: schedule_keepalive_def cancel_keepalive_def submit_apply_def)

lemma update_flash_inv:
  assumes "flash_inv k E s"
  shows "flash_inv k E (update_flash_power E (wants_flash st) (s\<lparr>state := st\<rparr>))"
proof -
  let ?p = "pwr (store (sets s))"
  have p: "power_ok ?p" "\<not> in_isr ?p" "k < 255" "lock_count 2 ?p = k + of_bool (power_flash_held s)"
    "power_flash_held s = (cfg_auto_lock E \<and> wants_flash (state s))"
    using assms by (simp_all add: flash_inv_def)
  obtain rc q where g: "rzi_power_lock_get 2 ?p = (rc, q)" by fastforce
  obtain rd r where u: "rzi_power_lock_put 2 ?p = (rd, r)" by fastforce
  have get: "rc = 0 \<and> power_ok q \<and> \<not> in_isr q \<and> lock_count 2 q = k + 1" if "\<not> power_flash_held s"
  proof -
    have "unat (lock_counts ?p ! 2) < 255" using p(3,4) that by (simp add: lock_count_def)
    then have "rc = 0" using g p(2) by (auto simp: rzi_power_lock_get_def split: if_splits)
    then show ?thesis
      using power_locks.get_counts [OF p(1), of 2 2] power_locks.get_inv [OF p(1), of 2] power_locks.get_thread [of 2 ?p] g p(2,4) that
      by simp
  qed
  have put: "rd = 0 \<and> power_ok r \<and> \<not> in_isr r \<and> lock_count 2 r = k" if "power_flash_held s"
  proof -
    have "rd = 0" using power_locks.put_granted [OF p(1), of 2] u p(2,4) that by simp
    moreover have "in_isr r = in_isr ?p" using u by (auto simp: rzi_power_lock_put_def pm_call_def split: if_splits)
    ultimately show ?thesis using power_locks.put_counts [OF p(1), of 2 2] power_locks.put_inv [OF p(1), of 2] u p(2,4) that by simp
  qed
  show ?thesis using p g u get put
    by (simp add: update_flash_power_def flash_inv_def upd_pwr_def Let_def)
qed

lemma set_state_flash:
  assumes "fuota_callbacks_keep k E" and "flash_inv k E s"
  shows "flash_inv k E (set_state_locked E st s)"
  using assms update_flash_inv [OF assms(2), of st]
  by (simp add: set_state_locked_def Let_def fuota_callbacks_keep_def split: option.splits)

lemma notify_flash:
  assumes "fuota_callbacks_keep k E" and "flash_inv k E s"
  shows "flash_inv k E (notify_complete E rc s)" "flash_inv k E (notify_session_started E s)"
  using assms by (simp_all add: notify_complete_def notify_session_started_def fuota_callbacks_keep_def split: option.splits)

lemma log_head_queue: "queue_only s (log_image_head E s)"
  by (simp add: log_image_head_def read_image_def Let_def queue_only_run_bget split: option.splits)

text \<open>Measuring the image changes its recorded size, the queue and the radio only.\<close>

definition size_only :: "('d, 'x, 'f, 'm) fuota_state_scheme \<Rightarrow> ('d, 'x, 'f, 'm) fuota_state_scheme \<Rightarrow> bool" where
  "size_only s t \<longleftrightarrow> (\<exists>n u. queue_only s u \<and> t = u\<lparr>image_size := n\<rparr>)"

lemma size_only_queue: "queue_only s t \<Longrightarrow> size_only s t"
proof -
  assume "queue_only s t"
  moreover have "t = t\<lparr>image_size := image_size t\<rparr>" by simp
  ultimately show ?thesis unfolding size_only_def by blast
qed

lemma size_only_set: "queue_only s u \<Longrightarrow> size_only s (u\<lparr>image_size := n\<rparr>)"
  unfolding size_only_def by blast

lemma size_only_flash: "size_only s t \<Longrightarrow> flash_inv k E t = flash_inv k E s"
  by (auto simp: size_only_def flash_inv_queue)

lemma size_from_header_only:
  assumes "size_from_header E s = (rc, t)"
  shows "size_only s t"
proof (cases "Option.bind (fuota_ops s) bk_read_image")
  case None
  then show ?thesis using assms by (simp add: size_from_header_def size_only_queue)
next
  case (Some rd)
  obtain r1 header u where u: "read_image E rd 0 IMAGE_HDR_SIZE s = (r1, header, u)" by (metis prod_cases3)
  let ?at = "ucast (get_le16 (drop 8 header)) + get_le32 (drop 12 header)"
  obtain r2 tlv v where v: "read_image E rd ?at 4 u = (r2, tlv, v)" by (metis prod_cases3)
  have q: "queue_only s u" "queue_only s v"
    using read_image_queue [OF u] queue_only_trans [OF read_image_queue [OF u] read_image_queue [OF v]] by auto
  show ?thesis using assms Some u v q
    by (auto simp: size_from_header_def Let_def split: if_splits intro: size_only_queue size_only_set)
qed

lemma size_only_trans: "queue_only s t \<Longrightarrow> size_only t u \<Longrightarrow> size_only s u"
  unfolding size_only_def by (metis queue_only_trans)

lemma detect_size_only:
  assumes "detect_image_size E reported s = (rc, t)"
  shows "size_only s t"
proof (cases "Option.bind (fuota_ops s) bk_get_image_size")
  case None
  then show ?thesis using assms size_from_header_only
    by (auto simp: detect_image_size_def split: if_splits intro: size_only_set)
next
  case (Some f)
  obtain r1 measured u where u: "run_bget E f 0 s = (r1, measured, u)" by (metis prod_cases3)
  have q: "queue_only s u" using queue_only_run_bget [of s E f 0] u by simp
  show ?thesis using assms Some u q
    by (auto simp: detect_image_size_def split: if_splits intro: size_only_set size_only_trans size_from_header_only)
qed

text \<open>Copying changes the queue, the radio and the slot only.\<close>

definition slot_only :: "('d, 'x, 'f, 'm) fuota_state_scheme \<Rightarrow> ('d, 'x, 'f, 'm) fuota_state_scheme \<Rightarrow> bool" where
  "slot_only s t \<longleftrightarrow> (\<exists>f u. queue_only s u \<and> t = u\<lparr>flash_slot := f\<rparr>)"

lemma slot_only_set: "queue_only s u \<Longrightarrow> slot_only s (u\<lparr>flash_slot := f\<rparr>)"
  unfolding slot_only_def by blast

lemma slot_only_queue: "queue_only s t \<Longrightarrow> slot_only s t"
proof -
  assume "queue_only s t"
  moreover have "t = t\<lparr>flash_slot := flash_slot t\<rparr>" by simp
  ultimately show ?thesis unfolding slot_only_def by blast
qed

lemma slot_only_trans: "slot_only s t \<Longrightarrow> slot_only t u \<Longrightarrow> slot_only s u"
  unfolding slot_only_def queue_only_def
  by (elim exE conjE) (simp, (rule exI)+, rule conjI, (rule exI)+, rule refl, rule refl)

lemma slot_only_fields:
  assumes "slot_only s t"
  shows "flash_inv k E t = flash_inv k E s" "fuota_ops t = fuota_ops s" "state t = state s"
proof -
  obtain f u where "queue_only s u" "t = u\<lparr>flash_slot := f\<rparr>" using assms by (auto simp: slot_only_def)
  then show "flash_inv k E t = flash_inv k E s" "fuota_ops t = fuota_ops s" "state t = state s"
    using queue_only_fuota [of s u] flash_inv_queue [of s u k E] by simp_all
qed

lemma copy_chunks_only:
  assumes "copy_chunks E rd off remaining s = (rc, t)"
  shows "slot_only s t"
  using assms
proof (induction E rd off remaining s arbitrary: rc t rule: copy_chunks.induct)
  case (1 E rd off remaining s)
  show ?case
  proof (cases "remaining = 0")
    case True
    then show ?thesis using "1.prems" slot_only_set [OF queue_only_refl] by (auto simp: copy_chunks.simps split: prod.splits)
  next
    case False
    obtain r1 chunk u where u: "read_image E rd (of_nat off) (min remaining APPLY_CHUNK) s = (r1, chunk, u)" by (metis prod_cases3)
    obtain r2 f where f: "flash_img_buffered_write E chunk (remaining \<le> APPLY_CHUNK) (flash_slot u) = (r2, f)" by fastforce
    have q: "queue_only s u" using read_image_queue [OF u] .
    show ?thesis
    proof (cases "r1 = 0 \<and> r2 = 0")
      case True
      then have "copy_chunks E rd (off + min remaining APPLY_CHUNK) (remaining - min remaining APPLY_CHUNK) (u\<lparr>flash_slot := f\<rparr>) = (rc, t)"
        using "1.prems" False u f by (simp add: copy_chunks.simps [of E rd off remaining] Let_def)
      then have "slot_only (u\<lparr>flash_slot := f\<rparr>) t" using "1.IH" [OF False refl refl u [symmetric] refl _ f [symmetric]] True by simp
      then show ?thesis using slot_only_trans slot_only_set [OF q] by blast
    next
      case f2: False
      then show ?thesis using "1.prems" False u f slot_only_queue [OF q] slot_only_set [OF q]
        by (auto simp: copy_chunks.simps [of E rd off remaining] Let_def split: if_splits)
    qed
  qed
qed

lemma copy_image_only:
  assumes "copy_image_to_slot E s = (rc, t)"
  shows "slot_only s t"
proof (cases "Option.bind (fuota_ops s) bk_read_image")
  case None
  then show ?thesis using assms by (simp add: copy_image_to_slot_def slot_only_queue)
next
  case (Some rd)
  obtain r1 f where "flash_img_init E (flash_slot s) = (r1, f)" by fastforce
  with assms Some slot_only_set [OF queue_only_refl, of s f] show ?thesis
    by (auto simp: copy_image_to_slot_def Let_def split: if_splits intro: slot_only_trans dest!: copy_chunks_only)
qed

section \<open>Steps\<close>

lemma apply_flash:
  assumes "fuota_callbacks_keep k E" and "flash_inv k E s"
  shows "flash_inv k E (snd (rzi_fuota_apply E s))"
proof -
  let ?t = "set_state_locked E FUOTA_APPLYING s"
  obtain rc u where u: "copy_image_to_slot E ?t = (rc, u)" by fastforce
  have t: "flash_inv k E ?t" using set_state_flash [OF assms] .
  then have "flash_inv k E u" using slot_only_fields(1) [OF copy_image_only [OF u], of k E] by simp
  moreover from this have "flash_inv k E (set_state_locked E FUOTA_COMPLETE (u\<lparr>last_error := rc\<rparr>))"
    using set_state_flash [OF assms(1), of "u\<lparr>last_error := rc\<rparr>"] by simp
  moreover from calculation have "flash_inv k E (snd (run_bop E f u))" for f
    using flash_inv_queue [OF queue_only_run_bop [of u E f], of k E] by simp
  ultimately show ?thesis using assms(2) t u by (simp add: rzi_fuota_apply_def Let_def split: option.splits)
qed

lemma joined_flash:
  assumes "fuota_callbacks_keep k E" and "flash_inv k E s"
  shows "flash_inv k E (handle_joined E s)"
proof -
  let ?t = "s\<lparr>image_ready := False, image_size := expected_size s, last_error := 0\<rparr>"
  obtain rc u where u: "(case Option.bind (fuota_ops ?t) bk_start_clock_sync of None \<Rightarrow> (0, ?t) | Some f \<Rightarrow> run_bop E f ?t) = (rc, u)"
    by fastforce
  then have "queue_only ?t u" using bop_queue by (auto split: option.splits)
  then have "flash_inv k E u" using flash_inv_queue assms(2) by fastforce
  then show ?thesis using u set_state_flash [OF assms(1), of u] set_state_flash [OF assms(1), of "u\<lparr>last_error := rc\<rparr>"]
    by (simp add: handle_joined_def Let_def)
qed

lemma transfer_flash:
  assumes "fuota_callbacks_keep k E" and "flash_inv k E s"
  shows "flash_inv k E (transfer_done E ok n s)"
proof -
  obtain rc t where t: "detect_image_size E n s = (rc, t)" by fastforce
  let ?u = "t\<lparr>image_ready := True, last_error := (if rc = - RZI_ERR_NO_DATA then 0 else rc)\<rparr>"
  have "flash_inv k E ?u" using size_only_flash [OF detect_size_only [OF t], of k E] assms(2) by simp
  then have "flash_inv k E (log_image_head E ?u)" using flash_inv_queue [OF log_head_queue] by blast
  then have "flash_inv k E (notify_complete E 0 (set_state_locked E FUOTA_COMPLETE (log_image_head E ?u)))"
    using notify_flash(1) set_state_flash assms(1) by blast
  moreover have "flash_inv k E (notify_complete E (- RZI_ERR_IO)
      (set_state_locked E FUOTA_FAILED (s\<lparr>image_ready := False, last_error := - RZI_ERR_IO\<rparr>)))"
    using notify_flash(1) [OF assms(1) set_state_flash [OF assms(1)]] assms(2) by simp
  ultimately show ?thesis using t by (simp add: transfer_done_def Let_def)
qed

lemma event_flash:
  assumes "fuota_callbacks_keep k E" and "flash_inv k E s"
  shows "flash_inv k E (fuota_on_event E ev s)"
proof -
  note st = set_state_flash [OF assms(1)]
  have idle: "flash_inv k E (set_state_locked E FUOTA_IDLE ((cancel_keepalive E s)\<lparr>image_ready := False\<rparr>))"
    using st assms(2) by simp
  have "flash_inv k E (handle_fuota_event E kind ok n s)" for kind ok n
  proof (cases kind)
    case FUOTA_SESSION_STARTED
    then show ?thesis using notify_flash(2) [OF assms(1) st] assms(2) by (simp add: handle_fuota_event_def)
  qed (use transfer_flash [OF assms] st assms(2) in \<open>auto simp: handle_fuota_event_def\<close>)
  then show ?thesis using joined_flash [OF assms] idle assms(2) by (simp add: fuota_on_event_def split: backend_event.splits)
qed

lemma send_queue: "queue_only s (snd (rzi_lorawan_send E p d n ty s))"
proof -
  obtain rc t where t: "check_joined E s = (rc, t)" by fastforce
  have "queue_only s t"
    using t by (auto simp: check_joined_def Let_def split: if_splits prod.splits dest: bget_queue)
  moreover have "queue_only t (snd (run_bop E f (rzi_lorawan_mac_commands_on_uplink E t)))" for f
    by (rule queue_only_trans [OF on_uplink_queue_only queue_only_run_bop])
  ultimately show ?thesis using t queue_only_trans by (auto simp: rzi_lorawan_send_def)
qed

text \<open>What happens to the service: events, public calls and work items, in any order.\<close>

inductive fuota_step ::
  "('d, 'x, ('d, 'x, 'f, 'm) fuota_state_scheme, 'f, 'e) fuota_env_scheme
   \<Rightarrow> ('d, 'x, 'f, 'm) fuota_state_scheme \<Rightarrow> ('d, 'x, 'f, 'm) fuota_state_scheme \<Rightarrow> bool" for E where
  fuota_event: "fuota_step E s (fuota_on_event E ev s)"
| fuota_begin: "fuota_step E s (fuota_on_started E s)"
| fuota_callbacks: "fuota_step E s (snd (rzi_fuota_register_callbacks cb s))"
| fuota_expect: "fuota_step E s (snd (rzi_fuota_set_expected_size n s))"
| fuota_read: "fuota_step E s (snd (snd (rzi_fuota_read_image E off buf n s)))"
| fuota_apply: "fuota_step E s (snd (rzi_fuota_apply E s))"
| fuota_apply_work: "apply_pending s \<Longrightarrow> fuota_step E s (apply_work_handler E s)"
| fuota_keepalive: "keepalive_pending s \<Longrightarrow> fuota_step E s (keepalive_work_handler E s)"

lemma step_flash:
  assumes "fuota_callbacks_keep k E" and "fuota_step E s t" and "flash_inv k E s"
  shows "flash_inv k E t"
  using assms(2,3)
proof cases
  case (fuota_event ev)
  then show ?thesis using event_flash [OF assms(1,3)] by simp
next
  case fuota_apply
  then show ?thesis using apply_flash [OF assms(1,3)] by simp
next
  case fuota_apply_work
  then show ?thesis using apply_flash [OF assms(1), of "s\<lparr>apply_pending := False\<rparr>"] assms(3) by (simp add: apply_work_handler_def)
next
  case fuota_keepalive
  then show ?thesis using assms(3) flash_inv_queue [OF send_queue [of "s\<lparr>keepalive_pending := False\<rparr>" E], of k E]
    by (simp add: keepalive_work_handler_def Let_def)
next
  case (fuota_read off buf n)
  have "queue_only s t" unfolding fuota_read
    by (auto simp: rzi_fuota_read_image_def split: option.splits prod.splits dest: bget_queue)
  then show ?thesis using flash_inv_queue assms(3) by blast
qed (use assms(3) in \<open>auto simp: fuota_on_started_def rzi_fuota_start_def rzi_fuota_register_callbacks_def
    rzi_fuota_set_expected_size_def Let_def split: option.splits\<close>)

section \<open>Copying the image\<close>

text \<open>
  The documented behaviour of the two sides of the copy: a read of the reconstructed image that
  returns 0 gives the requested bytes of it; the image manager
  returns 0 or a negative code and writes to the slot through a buffer. \<open>written\<close> is the content of the
  slot, \<open>held\<close> what is still in the buffer. An initialised image slot is empty and nothing is held; a write that returns 0
  adds its bytes behind those written and held before, and only one that asks for the flush is
  known to leave nothing in the buffer; requesting the upgrade does not change the slot.
\<close>

definition image_lawful :: "bytes \<Rightarrow> (u32 \<Rightarrow> nat \<Rightarrow> (bytes, 'x) bget) \<Rightarrow> bool" where
  "image_lawful img rd \<longleftrightarrow> (\<forall>off n buf x rc out evs y. rd off n buf x = (rc, out, evs, y) \<and> rc = 0 \<longrightarrow>
     unat off + n \<le> length img \<and> out = take n (drop (unat off) img))"

definition slot_lawful :: "('f \<Rightarrow> bytes) \<Rightarrow> ('f \<Rightarrow> bytes) \<Rightarrow> ('d, 'x, 's, 'f, 'e) fuota_env_scheme \<Rightarrow> bool" where
  "slot_lawful written held E \<longleftrightarrow>
     (\<forall>f rc g. flash_img_init E f = (rc, g) \<longrightarrow> rc \<le> 0 \<and> (rc = 0 \<longrightarrow> written g = [] \<and> held g = []))
     \<and> (\<forall>bs flush f rc g. flash_img_buffered_write E bs flush f = (rc, g) \<longrightarrow> rc \<le> 0
          \<and> (rc = 0 \<longrightarrow> written g @ held g = written f @ held f @ bs \<and> (flush \<longrightarrow> held g = [])))
     \<and> (\<forall>f. written (snd (boot_request_upgrade E f)) = written f)"

lemma slot_write:
  assumes "slot_lawful written held E" and "flash_img_buffered_write E bs flush f = (rc, g)"
  shows "rc \<le> 0" "rc = 0 \<Longrightarrow> written g @ held g = written f @ held f @ bs" "rc = 0 \<Longrightarrow> flush \<Longrightarrow> held g = []"
  using assms unfolding slot_lawful_def by blast+

lemma read_image_lawful:
  assumes "image_lawful img rd" and "read_image E rd off n s = (0, bs, t)"
  shows "unat off + n \<le> length img \<and> bs = take n (drop (unat off) img) \<and> flash_slot t = flash_slot s"
proof -
  obtain rc out evs y where r: "rd off n (replicate n 0) (radio s) = (rc, out, evs, y)" by (metis prod_cases4)
  then have "rc = 0" "bs = out" using assms(2) by (auto simp: read_image_def run_bget_def)
  moreover have "flash_slot t = flash_slot s" using queue_only_fuota(5) [OF read_image_queue [OF assms(2)]] .
  ultimately show ?thesis using r assms(1) unfolding image_lawful_def by blast
qed

lemma copy_chunks_exact:
  assumes "image_lawful img rd" and "slot_lawful written held E" and "off + remaining \<le> 2 ^ 32"
    and "written (flash_slot s) @ held (flash_slot s) = take off img" and "copy_chunks E rd off remaining s = (0, t)"
    and "remaining = 0 \<longrightarrow> held (flash_slot s) = []"
  shows "written (flash_slot t) = take (off + remaining) img"
  using assms(1-6)
proof (induction E rd off remaining s arbitrary: t rule: copy_chunks.induct)
  case (1 E rd off remaining s)
  show ?case
  proof (cases "remaining = 0")
    case True
    obtain rc f where b: "boot_request_upgrade E (flash_slot s) = (rc, f)" by fastforce
    have "written (snd (boot_request_upgrade E (flash_slot s))) = written (flash_slot s)"
      using "1.prems"(2) unfolding slot_lawful_def by blast
    moreover have "t = s\<lparr>flash_slot := f\<rparr>" using "1.prems"(5) True b by (simp add: copy_chunks.simps [of E rd off 0])
    ultimately show ?thesis using True b "1.prems"(4,6) by simp
  next
    case False
    let ?n = "min remaining APPLY_CHUNK"
    obtain r1 chunk u where u: "read_image E rd (of_nat off) ?n s = (r1, chunk, u)" by (metis prod_cases3)
    obtain r2 f where f: "flash_img_buffered_write E chunk (remaining \<le> APPLY_CHUNK) (flash_slot u) = (r2, f)" by fastforce
    note sw = slot_write [OF "1.prems"(2) f]
    then have r: "r1 = 0" "r2 = 0"
      using "1.prems"(5) False u f by (auto simp: copy_chunks.simps [of E rd off remaining] Let_def split: if_splits)
    have o: "unat (of_nat off :: u32) = off" using "1.prems"(3) False by (simp add: unat_of_nat take_bit_nat_eq_self)
    have chunk: "off + ?n \<le> length img" "chunk = take ?n (drop off img)" "flash_slot u = flash_slot s"
      using read_image_lawful [OF "1.prems"(1), of E "of_nat off" ?n s chunk u] u r(1) o by auto
    have w: "written f @ held f = take (off + ?n) img"
      using sw(2) r(2) chunk "1.prems"(4) by (simp add: take_add)
    have fl: "remaining - ?n = 0 \<longrightarrow> held f = []" using sw(3) r(2) by simp
    have c: "copy_chunks E rd (off + ?n) (remaining - ?n) (u\<lparr>flash_slot := f\<rparr>) = (0, t)"
      using "1.prems"(5) False u f r by (simp add: copy_chunks.simps [of E rd off remaining] Let_def)
    have "written (flash_slot t) = take (off + ?n + (remaining - ?n)) img"
      by (rule "1.IH" [OF False refl refl u [symmetric] refl _ f [symmetric]])
        (use r "1.prems"(1-3) w c fl in \<open>simp_all add: min_def\<close>)
    then show ?thesis by (simp add: min_def split: if_splits)
  qed
qed

text \<open>Reads within the image, writes and the request never fail.\<close>

definition copy_never_fails ::
  "bytes \<Rightarrow> (u32 \<Rightarrow> nat \<Rightarrow> (bytes, 'x) bget) \<Rightarrow> ('d, 'x, 's, 'f, 'e) fuota_env_scheme \<Rightarrow> bool" where
  "copy_never_fails img rd E \<longleftrightarrow> (\<forall>off n buf x. unat off + n \<le> length img \<longrightarrow> fst (rd off n buf x) = 0)
     \<and> (\<forall>f. fst (flash_img_init E f) = 0) \<and> (\<forall>bs b f. fst (flash_img_buffered_write E bs b f) = 0)
     \<and> (\<forall>f. fst (boot_request_upgrade E f) = 0)"

lemma copy_chunks_succeeds:
  assumes "copy_never_fails img rd E" and "off + remaining \<le> length img" and "length img \<le> 2 ^ 32"
  shows "fst (copy_chunks E rd off remaining s) = 0"
  using assms
proof (induction E rd off remaining s rule: copy_chunks.induct)
  case (1 E rd off remaining s)
  show ?case
  proof (cases "remaining = 0")
    case True
    obtain rc f where b: "boot_request_upgrade E (flash_slot s) = (rc, f)" by fastforce
    have "fst (boot_request_upgrade E (flash_slot s)) = 0" using "1.prems"(1) unfolding copy_never_fails_def by blast
    with True b show ?thesis by (simp add: copy_chunks.simps [of E rd off 0])
  next
    case False
    let ?n = "min remaining APPLY_CHUNK"
    obtain r1 chunk u where u: "read_image E rd (of_nat off) ?n s = (r1, chunk, u)" by (metis prod_cases3)
    obtain r2 f where f: "flash_img_buffered_write E chunk (remaining \<le> APPLY_CHUNK) (flash_slot u) = (r2, f)" by fastforce
    have "unat (of_nat off :: u32) = off" using "1.prems"(2,3) False by (simp add: unat_of_nat take_bit_nat_eq_self)
    then have "fst (rd (of_nat off) ?n (replicate ?n 0) (radio s)) = 0"
      using "1.prems"(1,2) unfolding copy_never_fails_def by simp
    then have r1: "r1 = 0" using u by (auto simp: read_image_def run_bget_def split: prod.splits)
    have "fst (flash_img_buffered_write E chunk (remaining \<le> APPLY_CHUNK) (flash_slot u)) = 0"
      using "1.prems"(1) unfolding copy_never_fails_def by blast
    then have r2: "r2 = 0" using f by simp
    have "fst (copy_chunks E rd (off + ?n) (remaining - ?n) (u\<lparr>flash_slot := f\<rparr>)) = 0"
      by (rule "1.IH" [OF False refl refl u [symmetric] refl _ f [symmetric]]) (use r1 r2 "1.prems" in \<open>simp_all add: min_def\<close>)
    then show ?thesis using False u f r1 r2 by (simp add: copy_chunks.simps [of E rd off remaining] Let_def)
  qed
qed

section \<open>Defects of the state machine\<close>

text \<open>A state change without a registered callback.\<close>

lemma set_state_plain:
  assumes "fcb_state_changed (fuota_callbacks s) = None"
  shows "state (set_state_locked E st s) = st" "image_ready (set_state_locked E st s) = image_ready s"
    "image_size (set_state_locked E st s) = image_size s" "fuota_started (set_state_locked E st s) = fuota_started s"
    "fuota_callbacks (set_state_locked E st s) = fuota_callbacks s"
  using assms by (simp_all add: set_state_locked_def update_flash_power_def upd_pwr_def Let_def split: prod.splits)

text \<open>On a build without an image manager an apply is refused but leaves the service applying.\<close>

theorem fuota_apply_unsupported:
  assumes "\<not> k_is_in_isr s" and "image_ready s" and "image_size s \<noteq> 0" and "\<not> cfg_img_manager E"
    and "fcb_state_changed (fuota_callbacks s) = None"
  shows "fst (rzi_fuota_apply E s) = - RZI_ERR_NOT_SUPPORTED \<and> state (snd (rzi_fuota_apply E s)) = FUOTA_APPLYING"
  using assms set_state_plain(1) [OF assms(5)] by (simp add: rzi_fuota_apply_def Let_def)

text \<open>A transfer whose size cannot be determined keeps the size of the previous image.\<close>

theorem fuota_stale_size:
  assumes "expected_size s = 0" and "fuota_ops s = None" and "fcb_state_changed (fuota_callbacks s) = None"
    and "fcb_complete (fuota_callbacks s) = None"
  shows "image_ready (transfer_done E True 0 s) \<and> image_size (transfer_done E True 0 s) = image_size s"
proof -
  let ?u = "s\<lparr>image_ready := True, last_error := - RZI_ERR_NOT_SUPPORTED\<rparr>"
  have "transfer_done E True 0 s = submit_apply E (notify_complete E 0 (set_state_locked E FUOTA_COMPLETE ?u))"
    using assms(1,2) by (simp add: transfer_done_def detect_image_size_def size_from_header_def log_image_head_def Let_def)
  then show ?thesis using set_state_plain [of ?u E FUOTA_COMPLETE] assms(3,4)
    by (simp add: submit_apply_def notify_complete_def)
qed

section \<open>A reference instance\<close>

definition fuota_ref_ops :: "bool rzi_lorawan_fuota_ops" where
  "fuota_ref_ops = \<lparr>bk_start_clock_sync = None, bk_get_image_size = None,
     bk_read_image = Some (\<lambda>off n buf x. if unat off + n \<le> 300 then (0, take n (drop (unat off) (replicate 300 9)), [], x) else (- RZI_ERR_INVALID, buf, [], x)),
     bk_reboot = None\<rparr>"

definition fuota_ref_env :: "(string \<rightharpoonup> bytes, bool, (string \<rightharpoonup> bytes, bool, bytes \<times> bytes) fuota_state, bytes \<times> bytes) fuota_env" where
  "fuota_ref_env = (mem_senv \<lparr>backend = ref_backend\<lparr>bk_fuota := Some fuota_ref_ops\<rparr>,
     k_msgq_put = (\<lambda>e q. if length q < 8 then (0, q @ [e]) else (- 35, q)),
     k_msgq_get = (\<lambda>q. case q of [] \<Rightarrow> None | e # q' \<Rightarrow> Some (e, q')),
     on_event = (\<lambda>f ev data s. s), svc_on_started = (\<lambda>i. None), svc_on_event = (\<lambda>i. None),
     cfg_img_manager = True, cfg_auto_apply = False, cfg_keepalive = True, cfg_keepalive_port = 2, size_max = 4294967295,
     fuota_service = 0, flash_img_init = (\<lambda>f. (0, [], [])),
     flash_img_buffered_write = (\<lambda>bs flush f. (0, if flush then (fst f @ snd f @ bs, []) else (fst f, snd f @ bs))),
     boot_request_upgrade = (\<lambda>f. (0, f)),
     run_state_changed = (\<lambda>f st u s. s), run_session_started = (\<lambda>f u s. s), run_complete = (\<lambda>f rc u s. s)\<rparr>)\<lparr>cfg_auto_lock := True\<rparr>"

definition fuota_ref_state :: "(string \<rightharpoonup> bytes, bool, bytes \<times> bytes) fuota_state" where
  "fuota_ref_state = lorawan_state.extend ref_state
     \<lparr>fuota_started = True, state = FUOTA_READY, image_ready = False, power_flash_held = False, image_size = 0, expected_size = 0,
      last_error = 0, fuota_callbacks = \<lparr>fcb_state_changed = None, fcb_session_started = None, fcb_complete = None, fcb_user_data = 0\<rparr>,
      fuota_ops = Some fuota_ref_ops, keepalive_pending = False, apply_pending = False, flash_slot = ([], [])\<rparr>"

lemma fuota_ref_flash: "flash_inv 0 fuota_ref_env fuota_ref_state" "fuota_callbacks_keep 0 fuota_ref_env" "cfg_auto_lock fuota_ref_env"
proof -
  have "power_ok power_init" by (rule power_ok_init)
  then show "flash_inv 0 fuota_ref_env fuota_ref_state"
    by (simp add: flash_inv_def fuota_ref_state_def lorawan_state.defs ref_state_def fresh_settings_def mem_state_def wants_flash_def)
      (simp add: power_init_def lock_count_def)
qed (simp_all add: fuota_callbacks_keep_def fuota_ref_env_def mem_senv_def mem_env_def)

lemma fuota_ref_fields:
  "fuota_started fuota_ref_state" "fcb_state_changed (fuota_callbacks fuota_ref_state) = None"
  "fcb_session_started (fuota_callbacks fuota_ref_state) = None" "fuota_ops fuota_ref_state = Some fuota_ref_ops"
  by (simp_all add: fuota_ref_state_def lorawan_state.defs)

lemma session_started_plain:
  assumes "fuota_started s" and "fcb_state_changed (fuota_callbacks s) = None" and "fcb_session_started (fuota_callbacks s) = None"
  shows "fuota_on_event E (BACKEND_FUOTA FUOTA_SESSION_STARTED b n) s = set_state_locked E FUOTA_TRANSFERRING (cancel_keepalive E s)"
    "state (set_state_locked E FUOTA_TRANSFERRING (cancel_keepalive E s)) = FUOTA_TRANSFERRING"
    "image_ready (set_state_locked E FUOTA_TRANSFERRING (cancel_keepalive E s)) = image_ready s"
    "fuota_started (set_state_locked E FUOTA_TRANSFERRING (cancel_keepalive E s))"
proof -
  let ?s = "cancel_keepalive E s"
  have cb: "fuota_callbacks ?s = fuota_callbacks s" "image_ready ?s = image_ready s" "fuota_started ?s = fuota_started s"
    by (simp_all add: cancel_keepalive_def)
  note u = set_state_plain [of ?s E FUOTA_TRANSFERRING]
  show "fuota_on_event E (BACKEND_FUOTA FUOTA_SESSION_STARTED b n) s = set_state_locked E FUOTA_TRANSFERRING ?s"
    using assms u(5) cb by (simp add: fuota_on_event_def handle_fuota_event_def notify_session_started_def)
  show "state (set_state_locked E FUOTA_TRANSFERRING ?s) = FUOTA_TRANSFERRING"
    "image_ready (set_state_locked E FUOTA_TRANSFERRING ?s) = image_ready s"
    "fuota_started (set_state_locked E FUOTA_TRANSFERRING ?s)"
    using assms u cb by simp_all
qed

section \<open>Properties\<close>

text \<open>
  C13. The flash power lock follows the update: whatever events, calls and work items the service
  handles, in whatever order, it holds exactly one reference on the flash lock while an image is
  transferred or applied on a build with automatic locks, and none otherwise, and the references of others are untouched.
\<close>

theorem fuota_flash_balanced:
  assumes "fuota_callbacks_keep k E" and "flash_inv k E s" and "(fuota_step E)\<^sup>*\<^sup>* s t"
  shows "power_flash_held t = (cfg_auto_lock E \<and> (state t = FUOTA_TRANSFERRING \<or> state t = FUOTA_APPLYING))
    \<and> lock_count RZI_POWER_LOCK_FLASH (pwr (store (sets t))) = k + of_bool (power_flash_held t)"
proof -
  have "flash_inv k E t" using assms(3,2) by (induction rule: rtranclp_induct) (use step_flash [OF assms(1)] in blast)+
  then show ?thesis by (simp add: flash_inv_def wants_flash_def)
qed

theorem fuota_flash_balanced_witness:
  "lock_count RZI_POWER_LOCK_FLASH (pwr (store (sets
     (fuota_on_event fuota_ref_env (BACKEND_FUOTA FUOTA_SESSION_STARTED False 0) fuota_ref_state)))) = 1"
proof -
  let ?t = "fuota_on_event fuota_ref_env (BACKEND_FUOTA FUOTA_SESSION_STARTED False 0) fuota_ref_state"
  have r: "(fuota_step fuota_ref_env)\<^sup>*\<^sup>* fuota_ref_state ?t" by (rule r_into_rtranclp) (rule fuota_event)
  have "state ?t = FUOTA_TRANSFERRING" using session_started_plain(1,2) [OF fuota_ref_fields(1-3)] by metis
  then show ?thesis using fuota_flash_balanced [OF fuota_ref_flash(2,1) r] fuota_ref_flash(3) by simp
qed

text \<open>
  C14. The installed image is the received image: when the copy returns 0, the slot itself, not only
  the write buffer in front of it, holds exactly the
  first \<open>image_size\<close> bytes of the reconstructed image, in order; and the copy ends, with 0 whenever
  the reads within the image, the writes and the upgrade request succeed.
\<close>

theorem fuota_image_copied:
  assumes "image_lawful img rd" and "slot_lawful written held E" and "Option.bind (fuota_ops s) bk_read_image = Some rd"
    and "image_size s \<le> 2 ^ 32" and "copy_image_to_slot E s = (rc, t)"
  shows "(rc = 0 \<longrightarrow> written (flash_slot t) = take (image_size s) img)
    \<and> (copy_never_fails img rd E \<and> image_size s \<le> length img \<and> length img \<le> 2 ^ 32 \<longrightarrow> rc = 0)"
proof -
  obtain r1 f where f: "flash_img_init E (flash_slot s) = (r1, f)" by fastforce
  then have f0: "r1 \<le> 0" "r1 = 0 \<Longrightarrow> written f = [] \<and> held f = []" using assms(2) unfolding slot_lawful_def by blast+
  let ?s = "s\<lparr>flash_slot := f\<rparr>"
  have c: "copy_image_to_slot E s = (if r1 \<noteq> 0 then (rzi_err_from_errno r1, ?s) else copy_chunks E rd 0 (image_size s) ?s)"
    using assms(3) f by (simp add: copy_image_to_slot_def Let_def)
  have "written (flash_slot t) = take (image_size s) img" if "rc = 0"
  proof -
    have "r1 = 0" using c assms(5) that f0(1) by (auto split: if_splits)
    then show ?thesis using copy_chunks_exact [OF assms(1,2), of 0 "image_size s" ?s t] c assms(4,5) that f0(2) by simp
  qed
  moreover have "rc = 0" if n: "copy_never_fails img rd E" "image_size s \<le> length img" "length img \<le> 2 ^ 32"
  proof -
    have "fst (flash_img_init E (flash_slot s)) = 0" using n(1) unfolding copy_never_fails_def by blast
    then show ?thesis using copy_chunks_succeeds [OF n(1), of 0 "image_size s" ?s] n(2,3) c f assms(5) by (metis add_0 fst_conv)
  qed
  ultimately show ?thesis by blast
qed

theorem fuota_image_copied_witness:
  "\<exists>t. copy_image_to_slot fuota_ref_env (fuota_ref_state\<lparr>image_size := 290\<rparr>) = (0, t) \<and> fst (flash_slot t) = replicate 290 9"
proof -
  let ?rd = "the (bk_read_image fuota_ref_ops)"
  let ?s = "fuota_ref_state\<lparr>image_size := 290\<rparr>"
  obtain rc t where t: "copy_image_to_slot fuota_ref_env ?s = (rc, t)" by fastforce
  have "image_lawful (replicate 300 9) ?rd" by (auto simp: image_lawful_def fuota_ref_ops_def split: if_splits)
  moreover have "slot_lawful fst snd fuota_ref_env" by (auto simp: slot_lawful_def fuota_ref_env_def mem_senv_def mem_env_def)
  moreover have "Option.bind (fuota_ops ?s) bk_read_image = Some ?rd"
    by (simp add: fuota_ref_state_def lorawan_state.defs fuota_ref_ops_def)
  moreover have "copy_never_fails (replicate 300 9) ?rd fuota_ref_env"
    by (simp add: copy_never_fails_def fuota_ref_ops_def fuota_ref_env_def mem_senv_def mem_env_def)
  ultimately have "rc = 0 \<and> fst (flash_slot t) = take 290 (replicate 300 9)"
    using fuota_image_copied [of "replicate 300 9" ?rd fst snd fuota_ref_env ?s rc t] t by simp
  then show ?thesis using t by simp
qed

text \<open>
  C38. An image survives a new session: when a session starts while an earlier image is ready and ends
  without one, the service still reports a transfer, holds the flash lock and offers
  the earlier image, which the new session has begun to overwrite; the end of the session has no effect.
\<close>

theorem fuota_stale_image:
  assumes "flash_inv k E s" and "fuota_started s" and "image_ready s" and "cfg_auto_lock E"
    and "fcb_state_changed (fuota_callbacks s) = None" and "fcb_session_started (fuota_callbacks s) = None"
    and "t = fuota_on_event E (BACKEND_FUOTA FUOTA_SESSION_ENDED b m) (fuota_on_event E (BACKEND_FUOTA FUOTA_SESSION_STARTED c n) s)"
  shows "state t = FUOTA_TRANSFERRING \<and> image_ready t \<and> power_flash_held t"
proof -
  let ?s = "cancel_keepalive E s"
  let ?u = "set_state_locked E FUOTA_TRANSFERRING ?s"
  note u = session_started_plain [OF assms(2,5,6), of E]
  have none: "fcb_state_changed (fuota_callbacks ?s) = None" using assms(5) by (simp add: cancel_keepalive_def)
  have "t = ?u" using assms(3) u unfolding assms(7) by (simp add: fuota_on_event_def handle_fuota_event_def)
  moreover have "flash_inv k E ?u"
    using update_flash_inv [of k E ?s FUOTA_TRANSFERRING] assms(1) none by (simp add: set_state_locked_def Let_def)
  ultimately show ?thesis using u assms(3,4) by (simp add: flash_inv_def wants_flash_def)
qed

theorem fuota_stale_image_witness:
  "state (fuota_on_event fuota_ref_env (BACKEND_FUOTA FUOTA_SESSION_ENDED False 0)
     (fuota_on_event fuota_ref_env (BACKEND_FUOTA FUOTA_SESSION_STARTED False 0) (fuota_ref_state\<lparr>image_ready := True\<rparr>))) = FUOTA_TRANSFERRING"
proof -
  let ?s = "fuota_ref_state\<lparr>image_ready := True\<rparr>"
  have "flash_inv 0 fuota_ref_env ?s" using fuota_ref_flash(1) by simp
  then show ?thesis
    using fuota_stale_image [OF _ _ _ fuota_ref_flash(3) _ _ refl, of 0 ?s] fuota_ref_fields by simp
qed

end
