(* ===== verification/Rzi_At.thy ===== *)
theory Rzi_At
  imports Rzi_Storage "HOL-Library.Char_ord"
begin

text \<open>
  The AT service: responses, input buffering and the execution thread (\<^verbatim>\<open>src/at/at.c\<close>), the line
  parser (\<^verbatim>\<open>src/at/at_parser.c\<close>) and the command registry (\<^verbatim>\<open>src/at/at_registry.c\<close>).

  Strings are character lists without the terminating zero. Function pointers are numbers; what
  they run is a field of the environment, a function on the whole state \<open>'s\<close>. Zephyr's ring buffer
  is a parameter over the list of buffered bytes. A \<^verbatim>\<open>printf\<close>-style reply is modelled by the text
  that the format and its arguments produce. \<^verbatim>\<open>sys_reboot\<close> does not return: it sets \<open>rebooted\<close>, and
  the execution thread does nothing afterwards. \<open>tx_log\<close> is a history variable: the fragments
  handed to the transport, in order.
\<close>

section \<open>Data\<close>

datatype rzi_at_operation = OP_RUN | OP_HELP | OP_READ | OP_WRITE

datatype rzi_at_status = STATUS_OK | STATUS_ERROR | STATUS_PARAM_ERROR | STATUS_BUSY_ERROR
  | STATUS_NO_NETWORK_JOINED | STATUS_TEST_PARAM_OVERFLOW

record rzi_at_request =
  req_operation :: rzi_at_operation
  req_argument :: "string option"

record rzi_at_command =
  cmd_name :: "string option"
  cmd_help :: "string option"
  allowed_operations :: u8
  cmd_handler :: "nat option"
  cmd_user_data :: nat

record rzi_at_io =
  io_write :: "nat option"
  io_user_data :: nat

record rzi_at_extension =
  ext_start :: "nat option"
  ext_process :: "nat option"
  ext_factory_reset :: "nat option"

text \<open>\<open>line\<close> is the buffered part of the line; \<open>active_io\<close> is all zero before the start.\<close>

record 'd at_state =
  at_store :: "'d storage_state"
  at_started :: bool
  rx_ring :: bytes
  rx_overflow :: bool
  locked :: bool
  echo_enabled :: bool
  password :: string
  active_io :: rzi_at_io
  line :: string
  line_overflow :: bool
  ignore_lf :: bool
  registered :: "rzi_at_command list"
  extensions :: "rzi_at_extension list"
  sealed :: bool
  rebooted :: bool
  tx_log :: "string list"

record ('d, 's) at_env = "'d storage_env" +
  cfg_line_max :: nat
  cfg_tx_size :: nat
  cfg_max_commands :: nat
  cfg_max_extensions :: nat
  cfg_at_echo :: bool
  ring_buf_put :: "bytes \<Rightarrow> bytes \<Rightarrow> nat \<times> bytes"
  ring_buf_get :: "nat \<Rightarrow> bytes \<Rightarrow> bytes \<times> bytes"
  run_write :: "nat \<Rightarrow> string \<Rightarrow> nat \<Rightarrow> string list \<Rightarrow> int"
  run_handler :: "nat \<Rightarrow> rzi_at_request \<Rightarrow> nat \<Rightarrow> 's \<Rightarrow> int \<times> 's"
  run_start :: "nat \<Rightarrow> 's \<Rightarrow> int \<times> 's"
  run_process :: "nat \<Rightarrow> 's \<Rightarrow> 's"
  run_factory_reset :: "nat \<Rightarrow> 's \<Rightarrow> int \<times> 's"

definition crlf :: string where "crlf = [CHR 0x0D, CHR 0x0A]"

section \<open>Responses\<close>

definition write_all ::
  "('d, 's, 'e) at_env_scheme \<Rightarrow> string \<Rightarrow> ('d, 'm) at_state_scheme op" where
  "write_all E text s =
     (run_write E (the (io_write (active_io s))) text (io_user_data (active_io s)) (tx_log s),
      s\<lparr>tx_log := tx_log s @ [text]\<rparr>)"

definition rzi_at_write_raw ::
  "('d, 's, 'e) at_env_scheme \<Rightarrow> string option \<Rightarrow> ('d, 'm) at_state_scheme op" where
  "rzi_at_write_raw E text s =
     (if \<not> at_started s \<or> text = None then (- RZI_ERR_INVALID, s) else write_all E (the text) s)"

fun status_name :: "rzi_at_status \<Rightarrow> string" where
  "status_name STATUS_OK = ''OK''"
| "status_name STATUS_ERROR = ''AT_ERROR''"
| "status_name STATUS_PARAM_ERROR = ''AT_PARAM_ERROR''"
| "status_name STATUS_BUSY_ERROR = ''AT_BUSY_ERROR''"
| "status_name STATUS_NO_NETWORK_JOINED = ''AT_NO_NETWORK_JOINED''"
| "status_name STATUS_TEST_PARAM_OVERFLOW = ''AT_TEST_PARAM_OVERFLOW''"

definition rzi_at_respond_status ::
  "('d, 's, 'e) at_env_scheme \<Rightarrow> rzi_at_status \<Rightarrow> ('d, 'm) at_state_scheme op" where
  "rzi_at_respond_status E status s =
     (if \<not> at_started s then (- RZI_ERR_INVALID, s)
      else write_all E (crlf @ status_name status @ crlf) s)"

definition write_formatted ::
  "('d, 's, 'e) at_env_scheme \<Rightarrow> string \<Rightarrow> string \<Rightarrow> string \<Rightarrow> ('d, 'm) at_state_scheme op" where
  "write_formatted E prefix suffix text s =
     (if length prefix \<ge> cfg_tx_size E then (- RZI_ERR_OVERFLOW, s)
      else if length text \<ge> cfg_tx_size E - length prefix then (- RZI_ERR_OVERFLOW, s)
      else if length prefix + length text + length suffix \<ge> cfg_tx_size E then (- RZI_ERR_OVERFLOW, s)
      else write_all E (prefix @ text @ suffix) s)"

definition rzi_at_respond_value ::
  "('d, 's, 'e) at_env_scheme \<Rightarrow> string \<Rightarrow> ('d, 'm) at_state_scheme op" where
  "rzi_at_respond_value E text s =
     (if \<not> at_started s then (- RZI_ERR_INVALID, s)
      else write_formatted E crlf (crlf @ ''OK'' @ crlf) text s)"

definition rzi_at_publish_event ::
  "('d, 's, 'e) at_env_scheme \<Rightarrow> string \<Rightarrow> ('d, 'm) at_state_scheme op" where
  "rzi_at_publish_event E text s =
     (if \<not> at_started s then (- RZI_ERR_INVALID, s)
      else write_formatted E (crlf @ ''+EVT:'') crlf text s)"

definition rzi_at_is_locked :: "('d, 'm) at_state_scheme \<Rightarrow> bool" where
  "rzi_at_is_locked s = locked s"

definition rzi_at_set_locked :: "bool \<Rightarrow> ('d, 'm) at_state_scheme \<Rightarrow> ('d, 'm) at_state_scheme" where
  "rzi_at_set_locked enable s = s\<lparr>locked := enable\<rparr>"

definition rzi_at_echo_enabled :: "('d, 'm) at_state_scheme \<Rightarrow> bool" where
  "rzi_at_echo_enabled s = echo_enabled s"

definition rzi_at_set_echo :: "bool \<Rightarrow> ('d, 'm) at_state_scheme \<Rightarrow> ('d, 'm) at_state_scheme" where
  "rzi_at_set_echo enable s = s\<lparr>echo_enabled := enable\<rparr>"

definition rzi_at_password_matches :: "string option \<Rightarrow> ('d, 'm) at_state_scheme \<Rightarrow> bool" where
  "rzi_at_password_matches val s \<longleftrightarrow> val \<noteq> None \<and> password s = the val"

definition rzi_at_set_password :: "string option \<Rightarrow> ('d, 'm) at_state_scheme op" where
  "rzi_at_set_password val s =
     (case val of
        None \<Rightarrow> (- RZI_ERR_INVALID, s)
      | Some v \<Rightarrow> if length v = 0 \<or> length v > 8 then (- RZI_ERR_INVALID, s) else (0, s\<lparr>password := v\<rparr>))"

definition rzi_at_password :: "('d, 'm) at_state_scheme \<Rightarrow> string" where
  "rzi_at_password s = password s"

section \<open>Registry\<close>

definition name_char :: "char \<Rightarrow> bool" where
  "name_char c \<longleftrightarrow> (CHR ''A'' \<le> c \<and> c \<le> CHR ''Z'') \<or> (CHR ''0'' \<le> c \<and> c \<le> CHR ''9'') \<or> c = CHR ''_''"

definition valid_name :: "string option \<Rightarrow> bool" where
  "valid_name name \<longleftrightarrow> (case name of None \<Rightarrow> False | Some n \<Rightarrow> n \<noteq> [] \<and> list_all name_char n)"

text \<open>The checking loop; \<open>before\<close> are the entries of the array already passed.\<close>

fun register_check :: "rzi_at_command list \<Rightarrow> rzi_at_command list \<Rightarrow> rzi_at_command list \<Rightarrow> int" where
  "register_check regs before [] = 0"
| "register_check regs before (c # cs) =
     (if \<not> valid_name (cmd_name c) \<or> cmd_handler c = None then - RZI_ERR_INVALID
      else if list_ex (\<lambda>r. cmd_name c = cmd_name r) regs then - RZI_ERR_ALREADY
      else if list_ex (\<lambda>b. cmd_name c = cmd_name b) before then - RZI_ERR_ALREADY
      else register_check regs (before @ [c]) cs)"

text \<open>The array, when not null, has the given number of entries.\<close>

definition rzi_at_register ::
  "('d, 's, 'e) at_env_scheme \<Rightarrow> rzi_at_command list option \<Rightarrow> nat \<Rightarrow> ('d, 'm) at_state_scheme op" where
  "rzi_at_register E commands count s =
     (if sealed s then (- RZI_ERR_INVALID_STATE, s)
      else if (commands = None \<and> count \<noteq> 0) \<or> length (registered s) + count > cfg_max_commands E
        then (- RZI_ERR_INVALID, s)
      else let cs = (case commands of None \<Rightarrow> [] | Some c \<Rightarrow> take count c);
               rc = register_check (registered s) [] cs in
        (rc, if rc = 0 then s\<lparr>registered := registered s @ cs\<rparr> else s))"

definition rzi_at_registry_seal :: "('d, 'm) at_state_scheme \<Rightarrow> ('d, 'm) at_state_scheme" where
  "rzi_at_registry_seal s = s\<lparr>sealed := True\<rparr>"

definition rzi_at_registry_add_extension ::
  "('d, 's, 'e) at_env_scheme \<Rightarrow> rzi_at_extension option \<Rightarrow> ('d, 'm) at_state_scheme op" where
  "rzi_at_registry_add_extension E extension s =
     (if extension = None \<or> length (extensions s) \<ge> cfg_max_extensions E then (- RZI_ERR_NO_RESOURCE, s)
      else (0, s\<lparr>extensions := extensions s @ [the extension]\<rparr>))"

fun start_each :: "(nat \<Rightarrow> 's op) \<Rightarrow> rzi_at_extension list \<Rightarrow> 's op" where
  "start_each run [] s = (0, s)"
| "start_each run (x # xs) s =
     (case ext_start x of
        None \<Rightarrow> start_each run xs s
      | Some f \<Rightarrow> (case run f s of (rc, t) \<Rightarrow> if rc \<noteq> 0 then (rc, t) else start_each run xs t))"

definition rzi_at_registry_start_extensions ::
  "('d, ('d, 'm) at_state_scheme, 'e) at_env_scheme \<Rightarrow> ('d, 'm) at_state_scheme op" where
  "rzi_at_registry_start_extensions E s = start_each (run_start E) (extensions s) s"

definition rzi_at_registry_process_extensions ::
  "('d, ('d, 'm) at_state_scheme, 'e) at_env_scheme \<Rightarrow> ('d, 'm) at_state_scheme \<Rightarrow> ('d, 'm) at_state_scheme" where
  "rzi_at_registry_process_extensions E s =
     fold (\<lambda>x t. case ext_process x of None \<Rightarrow> t | Some f \<Rightarrow> run_process E f t) (extensions s) s"

fun reset_each :: "(nat \<Rightarrow> 's op) \<Rightarrow> rzi_at_extension list \<Rightarrow> int \<Rightarrow> 's op" where
  "reset_each run [] result s = (result, s)"
| "reset_each run (x # xs) result s =
     (case ext_factory_reset x of
        None \<Rightarrow> reset_each run xs result s
      | Some f \<Rightarrow> (case run f s of (rc, t) \<Rightarrow>
          reset_each run xs (if rc \<noteq> 0 \<and> result = 0 then rc else result) t))"

definition rzi_at_registry_factory_reset ::
  "('d, ('d, 'm) at_state_scheme, 'e) at_env_scheme \<Rightarrow> ('d, 'm) at_state_scheme op" where
  "rzi_at_registry_factory_reset E s = reset_each (run_factory_reset E) (extensions s) 0 s"

fun op_code :: "rzi_at_operation \<Rightarrow> nat" where
  "op_code OP_RUN = 0" | "op_code OP_HELP = 1" | "op_code OP_READ = 2" | "op_code OP_WRITE = 3"

definition rzi_at_dispatch ::
  "('d, ('d, 'm) at_state_scheme, 'e) at_env_scheme \<Rightarrow> string \<Rightarrow> rzi_at_operation \<Rightarrow> string option
   \<Rightarrow> ('d, 'm) at_state_scheme op" where
  "rzi_at_dispatch E name operation argument s =
     (case find (\<lambda>command. cmd_name command = Some name) (registered s) of
        None \<Rightarrow> (- RZI_ERR_NOT_FOUND, s)
      | Some command \<Rightarrow>
          if operation = OP_HELP then
            (case cmd_help command of
               None \<Rightarrow> (- RZI_ERR_NOT_SUPPORTED, s)
             | Some help \<Rightarrow> rzi_at_respond_value E (''AT+'' @ name @ '': '' @ help) s)
          else if allowed_operations command AND push_bit (op_code operation) 1 = 0
            then (- RZI_ERR_NOT_SUPPORTED, s)
          else run_handler E (the (cmd_handler command))
                 \<lparr>req_operation = operation, req_argument = argument\<rparr> (cmd_user_data command) s)"

definition help_intro :: string where
  "help_intro = crlf @ ''AT+<CMD>?: help on <CMD>'' @ crlf @ ''AT+<CMD>: run <CMD>'' @ crlf
     @ ''AT+<CMD>=<value>: set the value'' @ crlf @ ''AT+<CMD>=?: get the value'' @ crlf"

fun write_help :: "('d, 's, 'e) at_env_scheme \<Rightarrow> rzi_at_command list \<Rightarrow> ('d, 'm) at_state_scheme op" where
  "write_help E [] s = rzi_at_respond_status E STATUS_OK s"
| "write_help E (command # cs) s =
     (case cmd_help command of
        None \<Rightarrow> write_help E cs s
      | Some help \<Rightarrow>
          let text = ''AT+'' @ the (cmd_name command) @ '': '' @ help @ crlf in
          if length text \<ge> 160 then (- RZI_ERR_OVERFLOW, s)
          else case rzi_at_write_raw E (Some text) s of (rc, t) \<Rightarrow>
            if rc \<noteq> 0 then (rc, t) else write_help E cs t)"

definition rzi_at_registry_write_all_help ::
  "('d, 's, 'e) at_env_scheme \<Rightarrow> ('d, 'm) at_state_scheme op" where
  "rzi_at_registry_write_all_help E s =
     (case rzi_at_write_raw E (Some help_intro) s of (rc, t) \<Rightarrow>
        if rc \<noteq> 0 then (rc, t) else write_help E (registered s) t)"

section \<open>Parser\<close>

definition to_upper :: "char \<Rightarrow> char" where
  "to_upper c = (if CHR ''a'' \<le> c \<and> c \<le> CHR ''z'' then char_of (of_char c - 32 :: nat) else c)"

text \<open>Reading past the end gives the terminating zero.\<close>

definition char_at :: "string \<Rightarrow> char" where
  "char_at s = (case s of [] \<Rightarrow> CHR 0x00 | c # _ \<Rightarrow> c)"

fun ascii_casecmp_n :: "string \<Rightarrow> string \<Rightarrow> nat \<Rightarrow> int" where
  "ascii_casecmp_n left right 0 = 0"
| "ascii_casecmp_n left right (Suc count) =
     (let a = to_upper (char_at left); b = to_upper (char_at right) in
      if a \<noteq> b \<or> a = CHR 0x00 then of_char a - of_char b
      else ascii_casecmp_n (tl left) (tl right) count)"

definition equals_ignore_case :: "string \<Rightarrow> string \<Rightarrow> bool" where
  "equals_ignore_case left right \<longleftrightarrow>
     length left = length right \<and> ascii_casecmp_n left right (length left) = 0"

definition respond_for_error ::
  "('d, 's, 'e) at_env_scheme \<Rightarrow> int \<Rightarrow> ('d, 'm) at_state_scheme \<Rightarrow> ('d, 'm) at_state_scheme" where
  "respond_for_error E rc s =
     (if rc = - RZI_ERR_INVALID then snd (rzi_at_respond_status E STATUS_PARAM_ERROR s)
      else if rc = - RZI_ERR_BUSY then snd (rzi_at_respond_status E STATUS_BUSY_ERROR s)
      else if rc = - RZI_ERR_NOT_JOINED then snd (rzi_at_respond_status E STATUS_NO_NETWORK_JOINED s)
      else if rc = - RZI_ERR_TOO_LARGE \<or> rc = - RZI_ERR_OVERFLOW
        then snd (rzi_at_respond_status E STATUS_TEST_PARAM_OVERFLOW s)
      else if rc \<noteq> 0 then snd (rzi_at_respond_status E STATUS_ERROR s)
      else s)"

definition uppercase_name :: "string \<Rightarrow> string" where
  "uppercase_name name = map to_upper name"

text \<open>
  The text after \<^verbatim>\<open>AT+\<close>, cut at the first of the two separators (\<^verbatim>\<open>strpbrk\<close>): operation, name and
  argument, or \<open>None\<close> where the code answers an error.
\<close>

definition parse_body :: "string \<Rightarrow> (rzi_at_operation \<times> string \<times> string option) option" where
  "parse_body body =
     (let name = takeWhile (\<lambda>c. c \<noteq> CHR ''='' \<and> c \<noteq> CHR ''?'') body;
          separator = dropWhile (\<lambda>c. c \<noteq> CHR ''='' \<and> c \<noteq> CHR ''?'') body;
          parsed = (if separator = [] then Some (OP_RUN, None)
                    else if separator = ''?'' then Some (OP_HELP, None)
                    else if separator = ''=?'' then Some (OP_READ, None)
                    else if hd separator = CHR ''='' \<and> tl separator \<noteq> [] \<and> CHR ''?'' \<notin> set (tl separator)
                      then Some (OP_WRITE, Some (tl separator))
                    else None)
      in case parsed of
           None \<Rightarrow> None
         | Some (operation, argument) \<Rightarrow>
             if name = [] then None else Some (operation, uppercase_name name, argument))"

definition execute ::
  "('d, ('d, 'm) at_state_scheme, 'e) at_env_scheme \<Rightarrow> string \<Rightarrow> ('d, 'm) at_state_scheme \<Rightarrow> ('d, 'm) at_state_scheme" where
  "execute E input s =
     (if equals_ignore_case input ''AT'' then snd (rzi_at_respond_status E STATUS_OK s)
      else if equals_ignore_case input ''AT?'' then snd (rzi_at_registry_write_all_help E s)
      else if equals_ignore_case input ''ATE'' then
        snd (rzi_at_respond_status E STATUS_OK (rzi_at_set_echo (\<not> rzi_at_echo_enabled s) s))
      else if equals_ignore_case input ''ATE?'' then
        snd (rzi_at_respond_value E ''ATE: show or hide the AT command input'' s)
      else if equals_ignore_case input ''ATZ'' then s\<lparr>rebooted := True\<rparr>
      else if equals_ignore_case input ''ATZ?'' then
        snd (rzi_at_respond_value E ''ATZ: triggers a reset on the MCU.'' s)
      else if equals_ignore_case input ''ATR'' then
        (case rzi_at_registry_factory_reset E s of (rc, t) \<Rightarrow>
           let u = snd (rzi_at_respond_status E (if rc = 0 then STATUS_OK else STATUS_ERROR) t) in
           if rc = 0 then u\<lparr>rebooted := True\<rparr> else u)
      else if equals_ignore_case input ''ATR?'' then
        snd (rzi_at_respond_value E ''ATR: restore default parameters'' s)
      else if ascii_casecmp_n input ''AT+'' 3 \<noteq> 0 then snd (rzi_at_respond_status E STATUS_ERROR s)
      else case parse_body (drop 3 input) of
        None \<Rightarrow> snd (rzi_at_respond_status E STATUS_ERROR s)
      | Some (operation, name, argument) \<Rightarrow>
          if rzi_at_is_locked s \<and> name \<noteq> ''PWORD'' \<and> name \<noteq> ''LOCK''
            then snd (rzi_at_respond_status E STATUS_ERROR s)
          else case rzi_at_dispatch E name operation argument s of (rc, t) \<Rightarrow> respond_for_error E rc t)"

definition echo_text ::
  "('d, 's, 'e) at_env_scheme \<Rightarrow> string \<Rightarrow> ('d, 'm) at_state_scheme \<Rightarrow> ('d, 'm) at_state_scheme" where
  "echo_text E text s =
     (if cfg_at_echo E \<and> rzi_at_echo_enabled s then snd (rzi_at_write_raw E (Some text) s) else s)"

definition rzi_at_parser_feed ::
  "('d, ('d, 'm) at_state_scheme, 'e) at_env_scheme \<Rightarrow> u8 \<Rightarrow> ('d, 'm) at_state_scheme op" where
  "rzi_at_parser_feed E byte s =
     (if byte = 10 \<and> ignore_lf s then (0, s\<lparr>ignore_lf := False\<rparr>)
      else let s = s\<lparr>ignore_lf := False\<rparr> in
      if byte = 8 \<or> byte = 0x7f then
        (0, if line s \<noteq> [] then echo_text E [CHR 0x08, CHR '' '', CHR 0x08] (s\<lparr>line := butlast (line s)\<rparr>) else s)
      else if byte = 13 \<or> byte = 10 then
        let s = s\<lparr>ignore_lf := (byte = 13)\<rparr>;
            s = (if byte = 13 then echo_text E crlf s else s) in
        if line_overflow s then
          rzi_at_respond_status E STATUS_TEST_PARAM_OVERFLOW (s\<lparr>line_overflow := False, line := []\<rparr>)
        else (0, if line s \<noteq> [] then execute E (line s) (s\<lparr>line := []\<rparr>) else s)
      else if byte < 32 \<or> byte > 126 then (0, s)
      else if length (line s) \<ge> cfg_line_max E - 1 then (- RZI_ERR_OVERFLOW, s\<lparr>line_overflow := True\<rparr>)
      else let c = char_of (unat byte) in (0, echo_text E [c] (s\<lparr>line := line s @ [c]\<rparr>)))"

definition rzi_at_parser_reset :: "('d, 'm) at_state_scheme \<Rightarrow> ('d, 'm) at_state_scheme" where
  "rzi_at_parser_reset s = s\<lparr>line := [], line_overflow := False, ignore_lf := False\<rparr>"

section \<open>Input\<close>

definition rzi_at_receive ::
  "('d, 's, 'e) at_env_scheme \<Rightarrow> bytes option \<Rightarrow> nat \<Rightarrow> ('d, 'm) at_state_scheme op" where
  "rzi_at_receive E data n s =
     (if \<not> at_started s then (- RZI_ERR_NOT_READY, s)
      else if data = None \<and> n \<noteq> 0 then (- RZI_ERR_INVALID, s)
      else case ring_buf_put E (case data of None \<Rightarrow> [] | Some d \<Rightarrow> take n d) (rx_ring s) of (written, ring) \<Rightarrow>
        let t = s\<lparr>rx_ring := ring\<rparr> in
        if written \<noteq> n then (- RZI_ERR_OVERFLOW, t\<lparr>rx_overflow := True\<rparr>) else (0, t))"

text \<open>The bytes of one buffer; nothing runs after a reboot.\<close>

fun feed_bytes ::
  "('d, ('d, 'm) at_state_scheme, 'e) at_env_scheme \<Rightarrow> bytes \<Rightarrow> ('d, 'm) at_state_scheme \<Rightarrow> ('d, 'm) at_state_scheme" where
  "feed_bytes E [] s = s"
| "feed_bytes E (b # bs) s = (if rebooted s then s else feed_bytes E bs (snd (rzi_at_parser_feed E b s)))"

text \<open>The loop over the ring buffer; not returning is \<open>None\<close>.\<close>

partial_function (option) drain_ring ::
  "('d, ('d, 'm) at_state_scheme, 'e) at_env_scheme \<Rightarrow> ('d, 'm) at_state_scheme \<Rightarrow> ('d, 'm) at_state_scheme option" where
  "drain_ring E s =
     (case ring_buf_get E 64 (rx_ring s) of (buffer, ring) \<Rightarrow>
        if length buffer = 0 then Some (s\<lparr>rx_ring := ring\<rparr>)
        else let t = feed_bytes E buffer (s\<lparr>rx_ring := ring\<rparr>) in
          if rebooted t then Some t else drain_ring E t)"

definition process_input ::
  "('d, ('d, 'm) at_state_scheme, 'e) at_env_scheme \<Rightarrow> ('d, 'm) at_state_scheme \<Rightarrow> ('d, 'm) at_state_scheme option" where
  "process_input E s =
     drain_ring E (if rx_overflow s
       then snd (rzi_at_respond_status E STATUS_TEST_PARAM_OVERFLOW (rzi_at_parser_reset (s\<lparr>rx_overflow := False\<rparr>)))
       else s)"

text \<open>One iteration of the execution thread.\<close>

definition thread_step ::
  "('d, ('d, 'm) at_state_scheme, 'e) at_env_scheme \<Rightarrow> ('d, 'm) at_state_scheme \<Rightarrow> ('d, 'm) at_state_scheme option" where
  "thread_step E s =
     (case process_input E s of
        None \<Rightarrow> None
      | Some t \<Rightarrow> Some (if rebooted t then t else rzi_at_registry_process_extensions E t))"

text \<open>The start; the registration of the built-in commands is \<^verbatim>\<open>rzi_at_builtin_register\<close>.\<close>

definition rzi_at_start ::
  "('d, ('d, 'm) at_state_scheme, 'e) at_env_scheme \<Rightarrow> ('d, 'm) at_state_scheme op \<Rightarrow> rzi_at_io option
   \<Rightarrow> ('d, 'm) at_state_scheme op" where
  "rzi_at_start E builtin_register io s =
     (if in_isr (pwr (at_store s)) then (- RZI_ERR_ISR, s)
      else case io of
        None \<Rightarrow> (- RZI_ERR_INVALID, s)
      | Some i \<Rightarrow> if io_write i = None then (- RZI_ERR_INVALID, s)
          else if at_started s then (- RZI_ERR_ALREADY, s)
          else case builtin_register (s\<lparr>at_started := True, active_io := i\<rparr>) of (rc, t) \<Rightarrow>
            (case (if rc = 0 then rzi_at_registry_start_extensions E (rzi_at_registry_seal t) else (rc, t)) of
               (rc, u) \<Rightarrow> (rc, if rc \<noteq> 0 then u\<lparr>at_started := False\<rparr> else u)))"

section \<open>Parsing and printing commands\<close>

text \<open>The four forms of a command.\<close>

fun print_body :: "rzi_at_operation \<Rightarrow> string \<Rightarrow> string option \<Rightarrow> string" where
  "print_body OP_RUN name argument = name"
| "print_body OP_HELP name argument = name @ ''?''"
| "print_body OP_READ name argument = name @ ''=?''"
| "print_body OP_WRITE name argument = name @ ''='' @ the argument"

definition plain_name :: "string \<Rightarrow> bool" where
  "plain_name name \<longleftrightarrow> name \<noteq> [] \<and> CHR ''='' \<notin> set name \<and> CHR ''?'' \<notin> set name"

definition argument_fits :: "rzi_at_operation \<Rightarrow> string option \<Rightarrow> bool" where
  "argument_fits operation argument =
     (case argument of
        None \<Rightarrow> operation \<noteq> OP_WRITE
      | Some a \<Rightarrow> operation = OP_WRITE \<and> a \<noteq> [] \<and> CHR ''?'' \<notin> set a)"

abbreviation (input) in_name :: "char \<Rightarrow> bool" where
  "in_name c \<equiv> c \<noteq> CHR ''='' \<and> c \<noteq> CHR ''?''"

lemma cut_name:
  assumes "plain_name name" and "rest = [] \<or> \<not> in_name (hd rest)"
  shows "takeWhile in_name (name @ rest) = name" "dropWhile in_name (name @ rest) = rest"
proof -
  have all: "\<forall>c\<in>set name. in_name c" using assms(1) by (auto simp: plain_name_def)
  then show "takeWhile in_name (name @ rest) = name" using assms(2) by (cases rest) (auto simp: takeWhile_append2)
  from all show "dropWhile in_name (name @ rest) = rest" using assms(2) by (cases rest) (auto simp: dropWhile_append2)
qed

lemma parse_print:
  assumes "plain_name name" and "argument_fits operation argument"
  shows "parse_body (print_body operation name argument) = Some (operation, uppercase_name name, argument)"
proof -
  have n: "name \<noteq> []" using assms(1) by (simp add: plain_name_def)
  have r: "parse_body (name @ rest) = (case (if rest = [] then Some (OP_RUN, None)
                    else if rest = ''?'' then Some (OP_HELP, None)
                    else if rest = ''=?'' then Some (OP_READ, None)
                    else if hd rest = CHR ''='' \<and> tl rest \<noteq> [] \<and> CHR ''?'' \<notin> set (tl rest)
                      then Some (OP_WRITE, Some (tl rest)) else None)
      of None \<Rightarrow> None | Some (operation, argument) \<Rightarrow> Some (operation, uppercase_name name, argument))"
    if "rest = [] \<or> \<not> in_name (hd rest)" for rest
    using cut_name [OF assms(1) that] n by (simp add: parse_body_def Let_def)
  show ?thesis
  proof (cases operation)
    case OP_WRITE
    then obtain a where "argument = Some a" "a \<noteq> []" "CHR ''?'' \<notin> set a"
      using assms(2) by (auto simp: argument_fits_def split: option.splits)
    with OP_WRITE r [of "CHR ''='' # a"] show ?thesis by auto
  qed (use assms(2) r [of "[]"] r [of "''?''"] r [of "''=?''"] in \<open>auto simp: argument_fits_def split: option.splits\<close>)
qed

lemma parse_sound:
  assumes "parse_body body = Some (operation, name, argument)"
  shows "\<exists>raw. plain_name raw \<and> name = uppercase_name raw \<and> argument_fits operation argument
    \<and> body = print_body operation raw argument"
proof -
  define n where "n = takeWhile in_name body"
  define r where "r = dropWhile in_name body"
  have b: "body = n @ r" by (simp add: n_def r_def)
  have p: "(case (if r = [] then Some (OP_RUN, None)
        else if r = ''?'' then Some (OP_HELP, None)
        else if r = ''=?'' then Some (OP_READ, None)
        else if hd r = CHR ''='' \<and> tl r \<noteq> [] \<and> CHR ''?'' \<notin> set (tl r) then Some (OP_WRITE, Some (tl r)) else None)
      of None \<Rightarrow> None | Some (operation, argument) \<Rightarrow>
        if n = [] then None else Some (operation, uppercase_name n, argument)) = Some (operation, name, argument)"
    using assms unfolding parse_body_def Let_def n_def [symmetric] r_def [symmetric] .
  have "plain_name n"
    using p by (auto simp: plain_name_def n_def split: option.splits if_splits dest: set_takeWhileD)
  moreover have "name = uppercase_name n" using p by (auto split: option.splits if_splits)
  moreover have "argument_fits operation argument \<and> n @ r = print_body operation n argument"
    using p by (cases r) (auto simp: argument_fits_def split: option.splits if_splits)
  ultimately show ?thesis using b by blast
qed

section \<open>Assembling lines\<close>

definition printable :: "u8 \<Rightarrow> bool" where
  "printable b \<longleftrightarrow> 32 \<le> b \<and> b \<le> 126"

lemma echo_text_frame: "\<exists>log. echo_text E msg s = s\<lparr>tx_log := log\<rparr>"
proof -
  have "s = s\<lparr>tx_log := tx_log s\<rparr>" by simp
  then have "\<exists>log. s = s\<lparr>tx_log := log\<rparr>" by blast
  then show ?thesis by (simp add: echo_text_def rzi_at_write_raw_def write_all_def) blast
qed

lemma echo_text_line [simp]:
  "line (echo_text E msg s) = line s" "line_overflow (echo_text E msg s) = line_overflow s"
  "rebooted (echo_text E msg s) = rebooted s"
  using echo_text_frame [of E msg s] by auto

lemma printable_not_control:
  assumes "printable b"
  shows "b \<noteq> 10" "b \<noteq> 13" "b \<noteq> 8" "b \<noteq> 0x7f" "\<not> b < 32" "\<not> b > 126"
  using assms by (auto simp: printable_def)

lemma feed_append: "feed_bytes E (xs @ ys) s = feed_bytes E ys (feed_bytes E xs s)"
proof (induction xs arbitrary: s)
  case (Cons x xs)
  have "feed_bytes E zs u = u" if "rebooted u" for zs u using that by (cases zs) simp_all
  with Cons.IH show ?case by simp
qed simp

abbreviation (input) to_text :: "bytes \<Rightarrow> string" where
  "to_text bs \<equiv> map (\<lambda>b. char_of (unat b)) bs"

text \<open>Typing touches only the line, its flags and the echo.\<close>

definition typed_only :: "('d, 'm) at_state_scheme \<Rightarrow> ('d, 'm) at_state_scheme \<Rightarrow> bool" where
  "typed_only s t \<longleftrightarrow> (\<exists>lf log l ov. t = s\<lparr>ignore_lf := lf, tx_log := log, line := l, line_overflow := ov\<rparr>)"

lemma typed_only_trans: "typed_only s t \<Longrightarrow> typed_only t u \<Longrightarrow> typed_only s u"
  unfolding typed_only_def by (elim exE) (simp, (rule exI)+, rule refl)

lemma typed_only_rebooted: "typed_only s t \<Longrightarrow> rebooted t = rebooted s"
  by (auto simp: typed_only_def)

lemma typed_only_reset:
  "typed_only s t \<Longrightarrow> t\<lparr>ignore_lf := a, tx_log := b, line := c, line_overflow := d\<rparr>
     = s\<lparr>ignore_lf := a, tx_log := b, line := c, line_overflow := d\<rparr>"
  by (auto simp: typed_only_def)

lemma feed_printable:
  assumes "printable b" and "t = snd (rzi_at_parser_feed E b s)"
  shows "typed_only s t
    \<and> line t = (if length (line s) \<ge> cfg_line_max E - 1 then line s else line s @ to_text [b])
    \<and> line_overflow t = (line_overflow s \<or> length (line s) \<ge> cfg_line_max E - 1)"
proof -
  let ?c = "char_of (unat b) :: char"
  note c = printable_not_control [OF assms(1)]
  show ?thesis
  proof (cases "length (line s) \<ge> cfg_line_max E - 1")
    case True
    then have t: "t = s\<lparr>ignore_lf := False, line_overflow := True\<rparr>"
      using c by (simp add: assms(2) rzi_at_parser_feed_def Let_def)
    have "t = s\<lparr>ignore_lf := False, tx_log := tx_log s, line := line s, line_overflow := True\<rparr>" by (simp add: t)
    then have "typed_only s t" unfolding typed_only_def by blast
    with True t show ?thesis by simp
  next
    case False
    then have t: "t = echo_text E [?c] (s\<lparr>ignore_lf := False, line := line s @ [?c]\<rparr>)"
      using c by (simp add: assms(2) rzi_at_parser_feed_def Let_def)
    then obtain log where "t = s\<lparr>ignore_lf := False, line := line s @ [?c], tx_log := log\<rparr>"
      using echo_text_frame [of E "[?c]" "s\<lparr>ignore_lf := False, line := line s @ [?c]\<rparr>"] by auto
    then have u: "t = s\<lparr>ignore_lf := False, tx_log := log, line := line s @ [?c], line_overflow := line_overflow s\<rparr>" by simp
    then have "typed_only s t" unfolding typed_only_def by blast
    with False u show ?thesis by simp
  qed
qed

lemma feed_text:
  assumes "list_all printable bs" and "\<not> rebooted s" and "length (line s) \<le> cfg_line_max E - 1" and "bs \<noteq> []"
    and "t = feed_bytes E bs s"
  shows "typed_only s t \<and> line t = line s @ take (cfg_line_max E - 1 - length (line s)) (to_text bs)
    \<and> line_overflow t = (line_overflow s \<or> cfg_line_max E - 1 < length (line s) + length bs)"
  using assms
proof (induction bs arbitrary: s t)
  case (Cons b bs)
  let ?m = "cfg_line_max E - 1" and ?u = "snd (rzi_at_parser_feed E b s)"
  have u: "typed_only s ?u" "line ?u = (if length (line s) \<ge> ?m then line s else line s @ to_text [b])"
    "line_overflow ?u = (line_overflow s \<or> length (line s) \<ge> ?m)"
    using feed_printable [of b ?u E s] Cons.prems(1) by auto
  have t: "t = feed_bytes E bs ?u" using Cons.prems by simp
  show ?case
  proof (cases "bs = []")
    case True
    then show ?thesis using t u Cons.prems(3) by (auto simp: take_Cons')
  next
    case False
    have r: "\<not> rebooted ?u" using typed_only_rebooted [OF u(1)] Cons.prems(2) by simp
    have l: "length (line ?u) \<le> ?m" using u(2) Cons.prems(3) by auto
    note ih = Cons.IH [OF _ r l False t]
    have "typed_only s t" using ih Cons.prems(1) typed_only_trans [OF u(1)] by simp
    moreover have "line t = line s @ take (?m - length (line s)) (to_text (b # bs))"
    proof (cases "length (line s) \<ge> ?m")
      case False
      then have "?m - length (line s) = Suc (?m - Suc (length (line s)))" by simp
      with ih u(2) False Cons.prems(1) show ?thesis by simp
    qed (use ih u(2) Cons.prems(1) in simp)
    moreover have "line_overflow t = (line_overflow s \<or> ?m < length (line s) + length (b # bs))"
      using ih u(2,3) Cons.prems(1,3) by auto
    ultimately show ?thesis by blast
  qed
qed simp

lemma feed_cr:
  "\<exists>log. snd (rzi_at_parser_feed E 13 s) =
    (if line_overflow s then snd (rzi_at_respond_status E STATUS_TEST_PARAM_OVERFLOW
       (s\<lparr>ignore_lf := True, tx_log := log, line_overflow := False, line := []\<rparr>))
     else if line s \<noteq> [] then execute E (line s) (s\<lparr>ignore_lf := True, tx_log := log, line := []\<rparr>)
     else s\<lparr>ignore_lf := True, tx_log := log\<rparr>)"
proof -
  obtain log where "echo_text E crlf (s\<lparr>ignore_lf := True\<rparr>) = s\<lparr>ignore_lf := True, tx_log := log\<rparr>"
    using echo_text_frame [of E crlf "s\<lparr>ignore_lf := True\<rparr>"] by auto
  then show ?thesis by (intro exI [of _ log]) (simp add: rzi_at_parser_feed_def Let_def)
qed

section \<open>What commands leave alone\<close>

definition at_unchanged ::
  "(('d, 'm) at_state_scheme \<Rightarrow> 'v) \<Rightarrow> ('d, ('d, 'm) at_state_scheme, 'e) at_env_scheme \<Rightarrow> bool" where
  "at_unchanged fld E \<longleftrightarrow> (\<forall>h q u s. fld (snd (run_handler E h q u s)) = fld s)
     \<and> (\<forall>h s. fld (snd (run_factory_reset E h s)) = fld s)"

definition log_free :: "(('d, 'm) at_state_scheme \<Rightarrow> 'v) \<Rightarrow> bool" where
  "log_free fld \<longleftrightarrow> (\<forall>s l. fld (s\<lparr>tx_log := l\<rparr>) = fld s)"

lemma respond_unchanged:
  assumes "log_free fld"
  shows "fld (snd (rzi_at_respond_status E st s)) = fld s" "fld (snd (rzi_at_respond_value E msg s)) = fld s"
    "fld (snd (rzi_at_write_raw E raw s)) = fld s" "fld (respond_for_error E rc s) = fld s"
  using assms
  by (simp_all add: log_free_def rzi_at_respond_status_def rzi_at_respond_value_def rzi_at_write_raw_def
      write_formatted_def write_all_def respond_for_error_def)

lemma write_help_unchanged:
  assumes "log_free fld"
  shows "fld (snd (write_help E cs s)) = fld s"
proof (induction cs arbitrary: s)
  case (Cons c cs)
  have "fld t = fld s" if "rzi_at_write_raw E raw s = (rc, t)" for raw rc t
    using respond_unchanged(3) [OF assms, of E raw s] that by simp
  with Cons.IH show ?case by (auto simp: Let_def split: option.splits prod.splits)
qed (simp add: respond_unchanged(1) [OF assms])

lemma all_help_unchanged:
  assumes "log_free fld"
  shows "fld (snd (rzi_at_registry_write_all_help E s)) = fld s"
proof -
  obtain rc t where "rzi_at_write_raw E (Some help_intro) s = (rc, t)" by fastforce
  with respond_unchanged(3) [OF assms, of E "Some help_intro" s] show ?thesis
    by (simp add: rzi_at_registry_write_all_help_def write_help_unchanged [OF assms])
qed

lemma reset_unchanged:
  assumes "at_unchanged fld E"
  shows "fld (snd (rzi_at_registry_factory_reset E s)) = fld s"
proof -
  have "fld (snd (reset_each (run_factory_reset E) xs r u)) = fld u" for xs r u
  proof (induction xs arbitrary: r u)
    case (Cons x xs)
    have "fld t = fld u" if "run_factory_reset E f u = (rc, t)" for f rc t
      using assms that unfolding at_unchanged_def by (metis snd_conv)
    with Cons.IH show ?case by (auto split: option.splits prod.splits)
  qed simp
  then show ?thesis by (simp add: rzi_at_registry_factory_reset_def)
qed

lemma dispatch_unchanged_at:
  assumes "at_unchanged fld E" and "log_free fld"
  shows "fld (snd (rzi_at_dispatch E name operation argument s)) = fld s"
  using assms(1) by (simp add: rzi_at_dispatch_def at_unchanged_def respond_unchanged [OF assms(2)] split: option.splits)

lemma execute_unchanged:
  assumes "at_unchanged fld E" and "log_free fld" and "\<And>s b. fld (s\<lparr>rebooted := b\<rparr>) = fld s"
    and "\<And>s b. fld (s\<lparr>echo_enabled := b\<rparr>) = fld s"
  shows "fld (execute E input s) = fld s"
proof -
  obtain rc t where r: "rzi_at_registry_factory_reset E s = (rc, t)" by fastforce
  have t: "fld t = fld s" using reset_unchanged [OF assms(1), of s] r by simp
  have d: "fld u = fld s" if "rzi_at_dispatch E name operation argument s = (rd, u)" for name operation argument rd u
    using dispatch_unchanged_at [OF assms(1,2), of name operation argument s] that by simp
  note same = respond_unchanged [OF assms(2)] all_help_unchanged [OF assms(2)] assms(3,4) t
  show ?thesis
  proof (cases "parse_body (drop 3 input)")
    case None
    then show ?thesis by (simp add: execute_def r Let_def rzi_at_set_echo_def same)
  next
    case (Some p)
    obtain operation name argument where p: "p = (operation, name, argument)" by (metis prod_cases3)
    obtain rd u where u: "rzi_at_dispatch E name operation argument s = (rd, u)" by fastforce
    show ?thesis using Some p u d [OF u] by (simp add: execute_def r Let_def rzi_at_set_echo_def same)
  qed
qed

lemma feed_line_bound:
  assumes "at_unchanged line E" and "length (line s) < cfg_line_max E"
  shows "length (line (snd (rzi_at_parser_feed E b s))) < cfg_line_max E"
proof -
  have lf: "log_free (line :: ('a, 'b) at_state_scheme \<Rightarrow> string)" by (simp add: log_free_def)
  have x: "line (execute E input t) = line t" for input t
    by (rule execute_unchanged [OF assms(1) lf]) simp_all
  show ?thesis using assms(2)
    by (auto simp: rzi_at_parser_feed_def Let_def x respond_unchanged [OF lf] split: if_splits)
qed

section \<open>Draining the ring buffer\<close>

text \<open>
  The documented behaviour of a ring buffer of \<open>n\<close> bytes: a put stores what fits and says how much,
  a get removes up to the requested number of the oldest bytes.
\<close>

definition ring_fifo :: "nat \<Rightarrow> ('d, 's, 'e) at_env_scheme \<Rightarrow> bool" where
  "ring_fifo n E \<longleftrightarrow>
     (\<forall>d r. ring_buf_put E d r = (min (length d) (n - length r), r @ take (n - length r) d))
     \<and> (\<forall>k r. ring_buf_get E k r = (take k r, drop k r))"

text \<open>The ring is private to the service: handlers and reset hooks neither read nor write it.\<close>

definition set_ring :: "bytes \<Rightarrow> ('d, 'm) at_state_scheme \<Rightarrow> ('d, 'm) at_state_scheme" where
  "set_ring r s = s\<lparr>rx_ring := r\<rparr>"

definition ring_private :: "('d, ('d, 'm) at_state_scheme, 'e) at_env_scheme \<Rightarrow> bool" where
  "ring_private E \<longleftrightarrow>
     (\<forall>h q u r s. run_handler E h q u (set_ring r s) = apsnd (set_ring r) (run_handler E h q u s))
     \<and> (\<forall>h r s. run_factory_reset E h (set_ring r s) = apsnd (set_ring r) (run_factory_reset E h s))"

lemma set_ring_fields [simp]:
  "at_started (set_ring r s) = at_started s" "locked (set_ring r s) = locked s" "echo_enabled (set_ring r s) = echo_enabled s"
  "line (set_ring r s) = line s" "line_overflow (set_ring r s) = line_overflow s" "ignore_lf (set_ring r s) = ignore_lf s"
  "registered (set_ring r s) = registered s" "extensions (set_ring r s) = extensions s" "rebooted (set_ring r s) = rebooted s"
  "tx_log (set_ring r s) = tx_log s" "active_io (set_ring r s) = active_io s" "rx_ring (set_ring r s) = r"
  "set_ring r (set_ring q s) = set_ring r s" "set_ring (rx_ring s) s = s"
  by (simp_all add: set_ring_def)

lemma set_ring_updates:
  "(set_ring r s)\<lparr>tx_log := l\<rparr> = set_ring r (s\<lparr>tx_log := l\<rparr>)" "(set_ring r s)\<lparr>rebooted := b\<rparr> = set_ring r (s\<lparr>rebooted := b\<rparr>)"
  "(set_ring r s)\<lparr>echo_enabled := b\<rparr> = set_ring r (s\<lparr>echo_enabled := b\<rparr>)"
  "(set_ring r s)\<lparr>ignore_lf := b\<rparr> = set_ring r (s\<lparr>ignore_lf := b\<rparr>)" "(set_ring r s)\<lparr>line := t\<rparr> = set_ring r (s\<lparr>line := t\<rparr>)"
  "(set_ring r s)\<lparr>line_overflow := b\<rparr> = set_ring r (s\<lparr>line_overflow := b\<rparr>)"
  by (simp_all add: set_ring_def)

lemma ring_respond:
  "rzi_at_respond_status E st (set_ring r s) = apsnd (set_ring r) (rzi_at_respond_status E st s)"
  "rzi_at_respond_value E msg (set_ring r s) = apsnd (set_ring r) (rzi_at_respond_value E msg s)"
  "rzi_at_write_raw E raw (set_ring r s) = apsnd (set_ring r) (rzi_at_write_raw E raw s)"
  by (simp_all add: rzi_at_respond_status_def rzi_at_respond_value_def rzi_at_write_raw_def write_formatted_def write_all_def
      set_ring_updates)

lemma ring_errors: "respond_for_error E rc (set_ring r s) = set_ring r (respond_for_error E rc s)"
  by (simp add: respond_for_error_def ring_respond)

lemma ring_echo: "echo_text E msg (set_ring r s) = set_ring r (echo_text E msg s)"
  by (simp add: echo_text_def rzi_at_echo_enabled_def ring_respond)

lemma ring_help: "write_help E cs (set_ring r s) = apsnd (set_ring r) (write_help E cs s)"
proof (induction cs arbitrary: s)
  case (Cons c cs)
  show ?case
  proof (cases "cmd_help c")
    case (Some h)
    obtain rc t where "rzi_at_write_raw E (Some (''AT+'' @ the (cmd_name c) @ '': '' @ h @ crlf)) s = (rc, t)" by fastforce
    with Some Cons.IH show ?thesis by (simp add: Let_def ring_respond)
  qed (simp add: Cons.IH)
qed (simp add: ring_respond)

lemma ring_all_help:
  "rzi_at_registry_write_all_help E (set_ring r s) = apsnd (set_ring r) (rzi_at_registry_write_all_help E s)"
proof -
  obtain rc t where "rzi_at_write_raw E (Some help_intro) s = (rc, t)" by fastforce
  then show ?thesis by (simp add: rzi_at_registry_write_all_help_def ring_respond ring_help)
qed

lemma ring_reset:
  assumes "ring_private E"
  shows "rzi_at_registry_factory_reset E (set_ring r s) = apsnd (set_ring r) (rzi_at_registry_factory_reset E s)"
proof -
  have "reset_each (run_factory_reset E) xs c (set_ring r u) = apsnd (set_ring r) (reset_each (run_factory_reset E) xs c u)" for xs c u
  proof (induction xs arbitrary: c u)
    case (Cons x xs)
    show ?case
    proof (cases "ext_factory_reset x")
      case (Some f)
      obtain rc t where "run_factory_reset E f u = (rc, t)" by fastforce
      with Some Cons.IH assms show ?thesis by (simp add: ring_private_def)
    qed (simp add: Cons.IH)
  qed simp
  then show ?thesis by (simp add: rzi_at_registry_factory_reset_def)
qed

lemma ring_dispatch:
  assumes "ring_private E"
  shows "rzi_at_dispatch E name operation argument (set_ring r s) = apsnd (set_ring r) (rzi_at_dispatch E name operation argument s)"
  using assms by (simp add: rzi_at_dispatch_def ring_private_def ring_respond split: option.splits)

lemma ring_execute:
  assumes "ring_private E"
  shows "execute E input (set_ring r s) = set_ring r (execute E input s)"
proof -
  obtain rc t where f: "rzi_at_registry_factory_reset E s = (rc, t)" by fastforce
  note same = ring_respond ring_all_help ring_reset [OF assms] ring_errors set_ring_updates f
    rzi_at_set_echo_def rzi_at_echo_enabled_def rzi_at_is_locked_def
  show ?thesis
  proof (cases "parse_body (drop 3 input)")
    case (Some p)
    obtain operation name argument where p: "p = (operation, name, argument)" by (metis prod_cases3)
    obtain rd u where "rzi_at_dispatch E name operation argument s = (rd, u)" by fastforce
    with Some p show ?thesis by (simp add: execute_def Let_def same ring_dispatch [OF assms])
  qed (simp add: execute_def Let_def same)
qed

lemma ring_feed:
  assumes "ring_private E"
  shows "snd (rzi_at_parser_feed E b (set_ring r s)) = set_ring r (snd (rzi_at_parser_feed E b s))"
  by (simp add: rzi_at_parser_feed_def Let_def set_ring_updates ring_echo ring_respond ring_execute [OF assms])

lemma ring_feed_bytes:
  assumes "ring_private E"
  shows "feed_bytes E bs (set_ring r s) = set_ring r (feed_bytes E bs s)"
  by (induction bs arbitrary: s) (simp_all add: ring_feed [OF assms])

lemma drain_ring_feeds:
  assumes "ring_fifo n E" and "ring_private E" and "\<not> rebooted s"
  shows "\<exists>t. drain_ring E s = Some t \<and> set_ring [] t = feed_bytes E (rx_ring s) (set_ring [] s)
    \<and> (\<not> rebooted t \<longrightarrow> rx_ring t = [])"
  using assms(3)
proof (induction "length (rx_ring s)" arbitrary: s rule: less_induct)
  case less
  let ?b = "take 64 (rx_ring s)" and ?r = "drop 64 (rx_ring s)"
  have g: "ring_buf_get E 64 (rx_ring s) = (?b, ?r)" using assms(1) by (simp add: ring_fifo_def)
  show ?case
  proof (cases "rx_ring s = []")
    case True
    then show ?thesis using g by (subst drain_ring.simps) (simp add: set_ring_def)
  next
    case False
    define t where "t = feed_bytes E ?b (set_ring ?r s)"
    have t: "t = set_ring ?r (feed_bytes E ?b s)" by (simp add: t_def ring_feed_bytes [OF assms(2)])
    have d: "drain_ring E s = (if rebooted t then Some t else drain_ring E t)"
      using g False by (subst drain_ring.simps) (simp add: t_def set_ring_def Let_def)
    have split: "feed_bytes E (rx_ring s) (set_ring [] s) = feed_bytes E ?r (set_ring [] t)"
      using feed_append [of E ?b ?r "set_ring [] s"] by (simp add: ring_feed_bytes [OF assms(2)] t)
    show ?thesis
    proof (cases "rebooted t")
      case True
      then have "feed_bytes E ?r (set_ring [] t) = set_ring [] t" by (cases ?r) simp_all
      with True d split show ?thesis by simp
    next
      case False
      have "length (rx_ring t) < length (rx_ring s)" using \<open>rx_ring s \<noteq> []\<close> by (simp add: t)
      from less.hyps [OF this False] d False split show ?thesis by (auto simp: t)
    qed
  qed
qed

section \<open>The registry\<close>

definition registry_ok :: "('d, 's, 'e) at_env_scheme \<Rightarrow> ('d, 'm) at_state_scheme \<Rightarrow> bool" where
  "registry_ok E s \<longleftrightarrow> distinct (map cmd_name (registered s)) \<and> length (registered s) \<le> cfg_max_commands E
     \<and> (\<forall>c\<in>set (registered s). valid_name (cmd_name c) \<and> cmd_handler c \<noteq> None)"

lemma register_check_zero:
  "register_check regs before cs = 0 \<longleftrightarrow>
     (\<forall>c\<in>set cs. valid_name (cmd_name c) \<and> cmd_handler c \<noteq> None \<and> cmd_name c \<notin> cmd_name ` set regs
        \<and> cmd_name c \<notin> cmd_name ` set before) \<and> distinct (map cmd_name cs)"
proof (induction cs arbitrary: before)
  case (Cons a cs)
  have "(\<forall>c\<in>set cs. cmd_name c \<notin> cmd_name ` set (before @ [a]))
      \<longleftrightarrow> (\<forall>c\<in>set cs. cmd_name c \<notin> cmd_name ` set before) \<and> cmd_name a \<notin> cmd_name ` set cs" by (auto simp: image_iff)
  with Cons.IH [of "before @ [a]"] show ?case by (auto simp: list_ex_iff simp del: set_append)
qed simp

lemma find_registered:
  assumes "distinct (map cmd_name cs)" and "c \<in> set cs" and "cmd_name c = Some name"
  shows "find (\<lambda>x. cmd_name x = Some name) cs = Some c"
  using assms by (induction cs) (auto simp: rev_image_eqI)

section \<open>Properties\<close>

text \<open>
  C35. The command grammar: the parser accepts a command text with a given operation, name and
  argument exactly when the text is one of the four printed forms of a non-empty name without
  separators, the name reported in upper case, with an argument exactly for a write, non-empty and
  free of question marks.
\<close>

theorem at_command_grammar:
  "parse_body body = Some (operation, name, argument) \<longleftrightarrow>
     (\<exists>raw. plain_name raw \<and> name = uppercase_name raw \<and> argument_fits operation argument
        \<and> body = print_body operation raw argument)"
  using parse_sound [of body operation name argument] by (auto simp: parse_print)

text \<open>
  C34. A typed line is executed as typed: printable bytes followed by a carriage return execute
  exactly that text when it fits the line buffer, and otherwise execute nothing and answer an
  overflow; in both cases the parser is ready for the next line.
\<close>

theorem at_line_executed:
  assumes "list_all printable bs" and "bs \<noteq> []" and "line s = []" and "\<not> line_overflow s" and "\<not> rebooted s"
    and "1 \<le> cfg_line_max E"
  shows "\<exists>log. feed_bytes E (bs @ [13]) s =
    (if length bs < cfg_line_max E
     then execute E (to_text bs) (s\<lparr>ignore_lf := True, tx_log := log\<rparr>)
     else snd (rzi_at_respond_status E STATUS_TEST_PARAM_OVERFLOW (s\<lparr>ignore_lf := True, tx_log := log\<rparr>)))"
proof -
  define t where "t = feed_bytes E bs s"
  have t: "typed_only s t" "line t = take (cfg_line_max E - 1) (to_text bs)" "line_overflow t = (cfg_line_max E - 1 < length bs)"
    using feed_text [OF assms(1,5) _ assms(2) t_def] assms(3,4) by simp_all
  have nr: "\<not> rebooted t" using typed_only_rebooted [OF t(1)] assms(5) by simp
  obtain log where f: "snd (rzi_at_parser_feed E 13 t) =
    (if line_overflow t then snd (rzi_at_respond_status E STATUS_TEST_PARAM_OVERFLOW
       (t\<lparr>ignore_lf := True, tx_log := log, line_overflow := False, line := []\<rparr>))
     else if line t \<noteq> [] then execute E (line t) (t\<lparr>ignore_lf := True, tx_log := log, line := []\<rparr>)
     else t\<lparr>ignore_lf := True, tx_log := log\<rparr>)" using feed_cr by blast
  have e: "feed_bytes E (bs @ [13]) s = snd (rzi_at_parser_feed E 13 t)" using nr by (simp add: feed_append t_def)
  have s: "s\<lparr>ignore_lf := True, tx_log := log, line := [], line_overflow := False\<rparr> = s\<lparr>ignore_lf := True, tx_log := log\<rparr>"
    using assms(3,4) by simp
  have "t\<lparr>ignore_lf := True, tx_log := log, line := [], line_overflow := False\<rparr> = s\<lparr>ignore_lf := True, tx_log := log\<rparr>"
    using typed_only_reset [OF t(1)] s by simp
  moreover have "t\<lparr>ignore_lf := True, tx_log := log, line := []\<rparr>
      = t\<lparr>ignore_lf := True, tx_log := log, line := [], line_overflow := False\<rparr>" if "\<not> line_overflow t" using that by simp
  moreover have "t\<lparr>ignore_lf := True, tx_log := log, line_overflow := False, line := []\<rparr>
      = t\<lparr>ignore_lf := True, tx_log := log, line := [], line_overflow := False\<rparr>" by simp
  moreover have "length bs < cfg_line_max E \<longleftrightarrow> \<not> line_overflow t" using t(3) assms(6) by auto
  moreover have "line t = to_text bs" if "length bs < cfg_line_max E" using t(2) that by simp
  ultimately show ?thesis using e f assms(2) by (intro exI [of _ log]) auto
qed

text \<open>A reference instance: no commands, a transport that accepts everything.\<close>

definition at_ref_env :: "(string \<rightharpoonup> bytes, (string \<rightharpoonup> bytes) at_state) at_env" where
  "at_ref_env = mem_env False \<lparr>cfg_line_max = 600, cfg_tx_size = 640, cfg_max_commands = 160, cfg_max_extensions = 4,
     cfg_at_echo = True,
     ring_buf_put = (\<lambda>d r. (min (length d) (1024 - length r), r @ take (1024 - length r) d)),
     ring_buf_get = (\<lambda>k r. (take k r, drop k r)),
     run_write = (\<lambda>w t u l. 0), run_handler = (\<lambda>h q u s. (0, s)), run_start = (\<lambda>h s. (0, s)),
     run_process = (\<lambda>h s. s), run_factory_reset = (\<lambda>h s. (0, s))\<rparr>"

definition at_ref_state :: "(string \<rightharpoonup> bytes) at_state" where
  "at_ref_state = \<lparr>at_store = mem_state Map.empty, at_started = True, rx_ring = [], rx_overflow = False, locked = False,
     echo_enabled = True, password = [], active_io = \<lparr>io_write = Some 0, io_user_data = 0\<rparr>, line = [],
     line_overflow = False, ignore_lf = False, registered = [], extensions = [], sealed = True, rebooted = False, tx_log = []\<rparr>"

lemma at_ref_env_facts: "ring_fifo 1024 at_ref_env" "ring_private at_ref_env" "at_unchanged fld at_ref_env" "cfg_line_max at_ref_env = 600"
  by (simp_all add: ring_fifo_def ring_private_def at_unchanged_def at_ref_env_def mem_env_def set_ring_def)

theorem at_line_executed_witness:
  "\<exists>log. feed_bytes at_ref_env [65, 84, 13] at_ref_state = execute at_ref_env ''AT'' (at_ref_state\<lparr>ignore_lf := True, tx_log := log\<rparr>)"
proof -
  have "list_all printable [65, 84]" by (simp add: printable_def)
  moreover have "to_text [65, 84] = ''AT''" by code_simp
  ultimately show ?thesis
    using at_line_executed [of "[65, 84]" at_ref_state at_ref_env] at_ref_env_facts(4) by (simp add: at_ref_state_def)
qed

text \<open>
  C9. The line buffer is never overrun: whatever bytes arrive, in whatever state of the parser, the
  buffered line stays shorter than the buffer, so there is room for its terminating zero.
\<close>

theorem at_line_bounded:
  assumes "at_unchanged line E" and "length (line s) < cfg_line_max E"
  shows "length (line (feed_bytes E bs s)) < cfg_line_max E"
  using assms(2) by (induction bs arbitrary: s) (simp_all add: feed_line_bound [OF assms(1)])

theorem at_line_bounded_witness:
  "length (line (feed_bytes at_ref_env (replicate 1000 65) at_ref_state)) < 600"
  using at_line_bounded [OF at_ref_env_facts(3) [of line], of at_ref_state "replicate 1000 65"] at_ref_env_facts(4)
  by (simp add: at_ref_state_def)

text \<open>
  C33. Input processing returns and is independent of how the bytes were buffered: the loop over the
  ring buffer ends, has fed the parser every buffered byte once and in order (up to a reboot), and
  leaves the ring empty; after an overflow of the ring the parser first drops the pending line and
  answers one overflow status.
\<close>

theorem at_input_processed:
  assumes "ring_fifo n E" and "ring_private E" and "\<not> rebooted s"
  shows "\<exists>t. process_input E s = Some t \<and> (\<not> rebooted t \<longrightarrow> rx_ring t = [])
    \<and> set_ring [] t = feed_bytes E (rx_ring s) (set_ring [] (if rx_overflow s
        then snd (rzi_at_respond_status E STATUS_TEST_PARAM_OVERFLOW (rzi_at_parser_reset (s\<lparr>rx_overflow := False\<rparr>)))
        else s))"
proof -
  define u where "u = (if rx_overflow s
    then snd (rzi_at_respond_status E STATUS_TEST_PARAM_OVERFLOW (rzi_at_parser_reset (s\<lparr>rx_overflow := False\<rparr>))) else s)"
  have "rebooted u = rebooted s" "rx_ring u = rx_ring s"
    by (simp_all add: u_def respond_unchanged log_free_def rzi_at_parser_reset_def)
  with drain_ring_feeds [OF assms(1,2), of u] assms(3) show ?thesis
    unfolding process_input_def u_def [symmetric] by auto
qed

theorem at_input_processed_witness:
  "\<exists>t. process_input at_ref_env (at_ref_state\<lparr>rx_ring := [65, 84, 13]\<rparr>) = Some t
     \<and> set_ring [] t = feed_bytes at_ref_env [65, 84, 13] at_ref_state"
proof -
  have "\<not> rebooted (at_ref_state\<lparr>rx_ring := [65, 84, 13]\<rparr>)" "\<not> rx_overflow (at_ref_state\<lparr>rx_ring := [65, 84, 13]\<rparr>)"
    "set_ring [] (at_ref_state\<lparr>rx_ring := [65, 84, 13]\<rparr>) = at_ref_state"
    by (simp_all add: at_ref_state_def set_ring_def)
  with at_input_processed [OF at_ref_env_facts(1,2), of "at_ref_state\<lparr>rx_ring := [65, 84, 13]\<rparr>"] show ?thesis by auto
qed

text \<open>
  Registration is all or nothing and keeps the registry well-formed: names stay valid, distinct
  and within the capacity, a refused registration changes nothing, and after an accepted one every
  new command answers to its name: an allowed operation runs its handler with the request.
\<close>

theorem at_registration:
  assumes "registry_ok E s" and "rzi_at_register E (Some cs) (length cs) s = (rc, t)"
  shows "registry_ok E t \<and> (rc \<noteq> 0 \<longrightarrow> t = s)
    \<and> (rc = 0 \<longrightarrow> registered t = registered s @ cs \<and> \<not> sealed s
        \<and> (\<forall>c\<in>set cs. \<forall>operation argument. operation \<noteq> OP_HELP
            \<and> allowed_operations c AND push_bit (op_code operation) 1 \<noteq> 0 \<longrightarrow>
            rzi_at_dispatch E (the (cmd_name c)) operation argument t
              = run_handler E (the (cmd_handler c)) \<lparr>req_operation = operation, req_argument = argument\<rparr> (cmd_user_data c) t))"
proof (cases "rc = 0")
  case True
  then have t: "t = s\<lparr>registered := registered s @ cs\<rparr>" and chk: "register_check (registered s) [] cs = 0"
    and b: "\<not> sealed s" "length (registered s) + length cs \<le> cfg_max_commands E"
    using assms(2) by (auto simp: rzi_at_register_def Let_def split: if_splits)
  have ok: "registry_ok E t"
  proof -
    have "cmd_name ` set (registered s) \<inter> cmd_name ` set cs = {}"
    proof -
      have "\<forall>c\<in>set cs. cmd_name c \<notin> cmd_name ` set (registered s)" using chk [unfolded register_check_zero] by simp
      then have "x \<notin> cmd_name ` set (registered s)" if "x \<in> cmd_name ` set cs" for x
        using that by (elim imageE) (simp only:, blast)
      then show ?thesis by blast
    qed
    then show ?thesis using assms(1) b(2) chk [unfolded register_check_zero] by (auto simp: registry_ok_def t)
  qed
  have "find (\<lambda>x. cmd_name x = Some (the (cmd_name c))) (registered t) = Some c" if "c \<in> set cs" for c
  proof (rule find_registered)
    show "distinct (map cmd_name (registered t))" using ok by (simp add: registry_ok_def)
    show "c \<in> set (registered t)" using that by (simp add: t)
    show "cmd_name c = Some (the (cmd_name c))"
      using chk [unfolded register_check_zero] that by (auto simp: valid_name_def split: option.splits)
  qed
  then show ?thesis using ok t b True by (auto simp: rzi_at_dispatch_def)
next
  case False
  then show ?thesis using assms by (auto simp: rzi_at_register_def Let_def split: if_splits)
qed

definition demo_command :: rzi_at_command where
  "demo_command = \<lparr>cmd_name = Some ''DEMO'', cmd_help = None, allowed_operations = 1, cmd_handler = Some 7, cmd_user_data = 0\<rparr>"

theorem at_registration_witness:
  "\<exists>t. rzi_at_register at_ref_env (Some [demo_command]) 1 (at_ref_state\<lparr>sealed := False\<rparr>) = (0, t)
     \<and> registered t = [demo_command]
     \<and> rzi_at_dispatch at_ref_env ''DEMO'' OP_RUN None t = run_handler at_ref_env 7 \<lparr>req_operation = OP_RUN, req_argument = None\<rparr> 0 t"
proof -
  let ?s = "at_ref_state\<lparr>sealed := False\<rparr>"
  let ?r = "rzi_at_register at_ref_env (Some [demo_command]) (length [demo_command]) ?s"
  have "fst ?r = 0" by code_simp
  then have r: "?r = (0, snd ?r)" by (simp add: prod_eq_iff)
  have "registry_ok at_ref_env ?s" by (simp add: registry_ok_def at_ref_state_def)
  from at_registration [OF this r] r show ?thesis
    by (intro exI [of _ "snd ?r"]) (simp add: demo_command_def at_ref_state_def)
qed

end
