(* ===== verification/Rzi_Cstring.thy ===== *)
theory Rzi_Cstring
  imports Rzi_Prelude "HOL-Library.Char_ord"
begin

text \<open>
  What the sources use of the C library on strings: decimal printing (\<^verbatim>\<open>%u\<close>), \<^verbatim>\<open>strtol\<close> and
  \<^verbatim>\<open>strtoul\<close> in base 10, and strings as byte arrays padded with zeros. The range of \<^verbatim>\<open>long\<close> is a
  parameter, \<open>long_max\<close>; results out of range are clamped, as the standard says.
\<close>

definition is_digit :: "char \<Rightarrow> bool" where
  "is_digit c \<longleftrightarrow> CHR ''0'' \<le> c \<and> c \<le> CHR ''9''"

definition digit_val :: "char \<Rightarrow> nat" where
  "digit_val c = of_char c - 48"

definition digit_char :: "nat \<Rightarrow> char" where
  "digit_char d = char_of (48 + d)"

fun show_nat :: "nat \<Rightarrow> string" where
  "show_nat n = (if n < 10 then [digit_char n] else show_nat (n div 10) @ [digit_char (n mod 10)])"

declare show_nat.simps [simp del]

definition digits_value :: "string \<Rightarrow> nat" where
  "digits_value ds = foldl (\<lambda>v c. 10 * v + digit_val c) 0 ds"

definition is_space :: "char \<Rightarrow> bool" where
  "is_space c \<longleftrightarrow> c = CHR '' '' \<or> (CHR 0x09 \<le> c \<and> c \<le> CHR 0x0D)"

text \<open>Sign, digits and the rest of a subject sequence; \<open>None\<close> when no digit follows: \<^verbatim>\<open>end == argument\<close>.\<close>

definition scan_number :: "string \<Rightarrow> (bool \<times> nat \<times> string) option" where
  "scan_number text =
     (let t = dropWhile is_space text;
          negative = (t \<noteq> [] \<and> hd t = CHR ''-'');
          u = (if t \<noteq> [] \<and> (hd t = CHR ''-'' \<or> hd t = CHR ''+'') then tl t else t);
          ds = takeWhile is_digit u
      in if ds = [] then None else Some (negative, digits_value ds, dropWhile is_digit u))"

definition strtol :: "int \<Rightarrow> string \<Rightarrow> (int \<times> string) option" where
  "strtol long_max text =
     (case scan_number text of
        None \<Rightarrow> None
      | Some (negative, n, rest) \<Rightarrow>
          Some (if negative then max (- long_max - 1) (- int n) else min long_max (int n), rest))"

definition strtoul :: "int \<Rightarrow> string \<Rightarrow> (int \<times> string) option" where
  "strtoul long_max text =
     (let ulong_max = 2 * long_max + 1 in
      case scan_number text of
        None \<Rightarrow> None
      | Some (negative, n, rest) \<Rightarrow>
          Some (if int n > ulong_max then ulong_max
                else if negative then (- int n) mod (ulong_max + 1) else int n, rest))"

text \<open>A character array of \<open>n\<close> bytes holding a string, and the string an array holds.\<close>

definition string_bytes :: "string \<Rightarrow> bytes" where
  "string_bytes t = map (\<lambda>c. of_nat (of_char c)) t"

definition char_array :: "nat \<Rightarrow> string \<Rightarrow> bytes" where
  "char_array n t = take n (string_bytes t @ replicate n 0)"

definition array_string :: "bytes \<Rightarrow> string" where
  "array_string bs = map (\<lambda>b. char_of (unat b)) (takeWhile (\<lambda>b. b \<noteq> 0) bs)"

text \<open>Two upper-case hexadecimal digits, \<^verbatim>\<open>%02X\<close>.\<close>

definition hex_digits :: string where
  "hex_digits = ''0123456789ABCDEF''"

definition hex_byte :: "u8 \<Rightarrow> string" where
  "hex_byte b = [hex_digits ! unat (drop_bit 4 b), hex_digits ! unat (b AND 0x0f)]"

section \<open>Round trips\<close>

lemma digit_char_digit [simp]: "d < 10 \<Longrightarrow> is_digit (digit_char d)"
  by (simp add: is_digit_def digit_char_def less_eq_char_def)

lemma digit_val_char [simp]: "d < 10 \<Longrightarrow> digit_val (digit_char d) = d"
  by (simp add: digit_val_def digit_char_def)

lemma show_nat_digits: "show_nat n \<noteq> [] \<and> list_all is_digit (show_nat n) \<and> digits_value (show_nat n) = n"
proof (induction n rule: show_nat.induct)
  case (1 n)
  then show ?case by (subst (1 2 3) show_nat.simps) (auto simp: digits_value_def)
qed

lemma digit_not_special:
  assumes "is_digit c"
  shows "\<not> is_space c" "c \<noteq> CHR ''-''" "c \<noteq> CHR ''+''"
  using assms by (auto simp: is_digit_def is_space_def less_eq_char_def)

lemma scan_show_nat: "scan_number (show_nat n) = Some (False, n, [])"
proof -
  have s: "show_nat n \<noteq> []" "list_all is_digit (show_nat n)" "digits_value (show_nat n) = n" using show_nat_digits by auto
  then have h: "is_digit (hd (show_nat n))" by (cases "show_nat n") auto
  have d: "dropWhile is_space (show_nat n) = show_nat n"
    using s(1) digit_not_special(1) [OF h] by (cases "show_nat n") auto
  have t: "takeWhile is_digit (show_nat n) = show_nat n" "dropWhile is_digit (show_nat n) = []"
    using s(2) by (auto simp: list_all_iff takeWhile_eq_all_conv)
  show ?thesis using s(1,3) digit_not_special(2,3) [OF h] by (simp add: scan_number_def Let_def d t)
qed

lemma strtol_show_nat: "int n \<le> long_max \<Longrightarrow> strtol long_max (show_nat n) = Some (int n, [])"
  by (simp add: strtol_def scan_show_nat)

lemma strtol_range:
  assumes "0 \<le> long_max" and "strtol long_max text = Some (v, rest)"
  shows "- long_max - 1 \<le> v \<and> v \<le> long_max"
  using assms by (auto simp: strtol_def split: option.splits)

lemma of_char_byte:
  assumes "of_char c \<noteq> (0 :: nat)"
  shows "(of_nat (of_char c) :: u8) \<noteq> 0" "char_of (unat (of_nat (of_char c) :: u8)) = c"
proof -
  have lt: "(of_char c :: nat) < 2 ^ LENGTH(8)" by simp
  then have u: "unat (of_nat (of_char c) :: u8) = of_char c" by (simp add: unat_of_nat take_bit_nat_eq_self)
  then show "(of_nat (of_char c) :: u8) \<noteq> 0" using assms by auto
  show "char_of (unat (of_nat (of_char c) :: u8)) = c" using u by simp
qed

text \<open>A string shorter than the array, without zeros, survives the array.\<close>

lemma array_string_char_array:
  assumes "length t < n" and "CHR 0x00 \<notin> set t"
  shows "array_string (char_array n t) = t"
proof -
  have nz: "of_char c \<noteq> (0 :: nat)" if "c \<in> set t" for c
  proof
    assume "of_char c = (0 :: nat)"
    then have "of_char c = (of_char (CHR 0x00) :: nat)" by simp
    then have "c = CHR 0x00" by (simp only: of_char_eq_iff)
    with assms(2) that show False by simp
  qed
  obtain k where "char_array n t = string_bytes t @ 0 # replicate k 0"
  proof
    have "n - length t = Suc (n - length t - 1)" using assms(1) by simp
    then show "char_array n t = string_bytes t @ 0 # replicate (n - length t - 1) 0"
      using assms(1) by (simp add: char_array_def string_bytes_def)
  qed
  moreover have "\<forall>b\<in>set (string_bytes t). b \<noteq> 0" using of_char_byte(1) nz by (auto simp: string_bytes_def)
  ultimately have "takeWhile (\<lambda>b. b \<noteq> 0) (char_array n t) = string_bytes t" by (simp add: takeWhile_append2)
  moreover have "map (\<lambda>b. char_of (unat b)) (string_bytes t) = t"
    using of_char_byte(2) nz by (simp add: string_bytes_def map_idI)
  ultimately show ?thesis by (simp add: array_string_def)
qed

end
