(* ===== verification/Rzi_At_Mode.thy ===== *)
theory Rzi_At_Mode
  imports Rzi_At Rzi_Cstring
begin

text \<open>
  The working mode \<^verbatim>\<open>AT+NWM\<close>, \<^verbatim>\<open>src/at/commands/at_network_mode.c\<close>: the mode, its listeners and its copy
  in the storage service. Listeners are numbers; \<open>run_listener\<close> says what they do.
\<close>

section \<open>State\<close>

abbreviation (input) RZI_AT_NETWORK_MODE_P2P_LORA :: u8 where "RZI_AT_NETWORK_MODE_P2P_LORA \<equiv> 0"
abbreviation (input) RZI_AT_NETWORK_MODE_LORAWAN :: u8 where "RZI_AT_NETWORK_MODE_LORAWAN \<equiv> 1"
abbreviation (input) RZI_AT_NETWORK_MODE_P2P_FSK :: u8 where "RZI_AT_NETWORK_MODE_P2P_FSK \<equiv> 2"
abbreviation (input) LISTENER_MAX :: nat where "LISTENER_MAX \<equiv> 2"

record 'd mode_state = "'d at_state" +
  network_mode :: u8
  listeners :: "nat list"

record ('d, 's) mode_env = "('d, 's) at_env" +
  cfg_at_nvm :: bool
  cfg_command_lorawan :: bool
  cfg_command_lora :: bool
  cfg_ztest :: bool
  long_max :: int
  run_listener :: "nat \<Rightarrow> u8 \<Rightarrow> 's \<Rightarrow> int \<times> 's"
  nwm_handler :: nat
  nwm_reset_hook :: nat

text \<open>A call of the storage service from the AT service.\<close>

definition on_store :: "'d storage_state op \<Rightarrow> ('d, 'm) at_state_scheme op" where
  "on_store m = on_part at_store (\<lambda>t s. s\<lparr>at_store := t\<rparr>) m"

section \<open>Operations\<close>

text \<open>A call that ends in \<^verbatim>\<open>sys_reboot\<close> does not return; its result is written 0 and nobody reads it.\<close>

definition default_mode :: "('d, 's, 'e) mode_env_scheme \<Rightarrow> u8" where
  "default_mode E = (if cfg_command_lorawan E then RZI_AT_NETWORK_MODE_LORAWAN else RZI_AT_NETWORK_MODE_P2P_LORA)"

definition parse_long :: "('d, 's, 'e) mode_env_scheme \<Rightarrow> string option \<Rightarrow> int + int" where
  "parse_long E argument =
     (case argument of
        None \<Rightarrow> Inl (- RZI_ERR_INVALID)
      | Some t \<Rightarrow> (case strtol (long_max E) t of
          None \<Rightarrow> Inl (- RZI_ERR_INVALID)
        | Some (v, rest) \<Rightarrow> if rest \<noteq> [] then Inl (- RZI_ERR_INVALID) else Inr v))"

fun notify_each :: "(nat \<Rightarrow> u8 \<Rightarrow> 's op) \<Rightarrow> nat list \<Rightarrow> u8 \<Rightarrow> int \<Rightarrow> 's op" where
  "notify_each run [] mode rc s = (rc, s)"
| "notify_each run (l # ls) mode rc s =
     (case run l mode s of (one, t) \<Rightarrow> notify_each run ls mode (if one \<noteq> 0 \<and> rc = 0 then one else rc) t)"

definition notify_listeners ::
  "('d, ('d, 'm) mode_state_scheme, 'e) mode_env_scheme \<Rightarrow> u8 \<Rightarrow> ('d, 'm) mode_state_scheme op" where
  "notify_listeners E mode s = notify_each (run_listener E) (listeners s) mode 0 s"

definition load_mode :: "('d, 's, 'e) mode_env_scheme \<Rightarrow> ('d, 'm) mode_state_scheme op" where
  "load_mode E s =
     (if \<not> cfg_at_nvm E then (0, s)
      else case on_store (rzi_storage_init E) s of (rc, t) \<Rightarrow>
        if rc \<noteq> 0 then (rc, t)
        else case rzi_storage_read E (Some ''rzi'') (Some ''nwm'') (Some [0]) 1 (at_store t) of (rc, out, st) \<Rightarrow>
          let u = t\<lparr>at_store := st\<rparr>; stored = hd (the out) in
          if rc = - RZI_ERR_NOT_FOUND then (0, u)
          else if rc \<noteq> 0 then (rc, u)
          else if stored > RZI_AT_NETWORK_MODE_P2P_FSK then (0, u)
          else (0, u\<lparr>network_mode := stored\<rparr>))"

definition save_mode :: "('d, 's, 'e) mode_env_scheme \<Rightarrow> u8 \<Rightarrow> ('d, 'm) mode_state_scheme op" where
  "save_mode E mode s =
     (if \<not> cfg_at_nvm E then (0, s)
      else seq_ok (on_store (rzi_storage_init E))
        (on_store (rzi_storage_write E (Some ''rzi'') (Some ''nwm'') (Some [mode]) 1)) s)"

definition rzi_at_network_mode_get :: "('d, 'm) mode_state_scheme \<Rightarrow> u8" where
  "rzi_at_network_mode_get s = network_mode s"

definition rzi_at_network_mode_add_listener :: "nat option \<Rightarrow> ('d, 'm) mode_state_scheme op" where
  "rzi_at_network_mode_add_listener listener s =
     (case listener of
        None \<Rightarrow> (- RZI_ERR_INVALID, s)
      | Some l \<Rightarrow> if length (listeners s) \<ge> LISTENER_MAX then (- RZI_ERR_NO_RESOURCE, s)
                  else (0, s\<lparr>listeners := listeners s @ [l]\<rparr>))"

definition handle_nwm ::
  "('d, ('d, 'm) mode_state_scheme, 'e) mode_env_scheme \<Rightarrow> rzi_at_request \<Rightarrow> ('d, 'm) mode_state_scheme op" where
  "handle_nwm E request s =
     (if req_operation request = OP_READ then rzi_at_respond_value E (''AT+NWM='' @ show_nat (unat (network_mode s))) s
      else case parse_long E (req_argument request) of
        Inl rc \<Rightarrow> (- RZI_ERR_INVALID, s)
      | Inr parsed \<Rightarrow>
          if parsed < 0 \<or> parsed > 2 then (- RZI_ERR_INVALID, s)
          else if of_int parsed \<noteq> RZI_AT_NETWORK_MODE_LORAWAN \<and> \<not> cfg_command_lora E then (- RZI_ERR_NOT_SUPPORTED, s)
          else if of_int parsed = network_mode s then rzi_at_respond_status E STATUS_OK s
          else
            let previous = network_mode s in
            case notify_listeners E (of_int parsed) (s\<lparr>network_mode := of_int parsed\<rparr>) of (rc, t) \<Rightarrow>
            case (if rc = 0 then save_mode E (network_mode t) t else (rc, t)) of (rc, u) \<Rightarrow>
              if rc \<noteq> 0 then (rc, snd (notify_listeners E previous (u\<lparr>network_mode := previous\<rparr>)))
              else case rzi_at_respond_status E STATUS_OK u of (rc, v) \<Rightarrow>
                if cfg_command_lorawan E \<and> \<not> cfg_ztest E then (0, v\<lparr>rebooted := True\<rparr>) else (rc, v))"

definition nwm_command :: "('d, 's, 'e) mode_env_scheme \<Rightarrow> rzi_at_command" where
  "nwm_command E = \<lparr>cmd_name = Some ''NWM'',
     cmd_help = Some ''get or set the network working mode (0 = P2P_LORA, 1 = LoRaWAN, 2 = P2P_FSK)'',
     allowed_operations = push_bit 2 1 OR push_bit 3 1, cmd_handler = Some (nwm_handler E), cmd_user_data = 0\<rparr>"

definition extension_factory_reset :: "('d, 's, 'e) mode_env_scheme \<Rightarrow> ('d, 'm) mode_state_scheme op" where
  "extension_factory_reset E s =
     (case on_store (rzi_storage_delete E (Some ''rzi'') (Some ''nwm'')) s of (rc, t) \<Rightarrow>
        (if rc = 0 \<or> rc = - RZI_ERR_NOT_FOUND then 0 else rc, t))"

definition rzi_at_network_mode_restore_default :: "('d, 's, 'e) mode_env_scheme \<Rightarrow> ('d, 'm) mode_state_scheme op" where
  "rzi_at_network_mode_restore_default E s =
     (let t = s\<lparr>network_mode := default_mode E\<rparr> in
      if \<not> cfg_at_nvm E then (0, t)
      else case on_store (rzi_storage_init E) t of (rc, u) \<Rightarrow>
        if rc \<noteq> 0 then (rc, u) else extension_factory_reset E u)"

definition rzi_at_network_mode_register :: "('d, 's, 'e) mode_env_scheme \<Rightarrow> ('d, 'm) mode_state_scheme op" where
  "rzi_at_network_mode_register E s =
     (case load_mode E s of (rc, t) \<Rightarrow>
        if rc \<noteq> 0 then (rc, t)
        else case rzi_at_register E (Some [nwm_command E]) 1 t of (rc, u) \<Rightarrow>
          if cfg_at_nvm E \<and> rc = 0
          then rzi_at_registry_add_extension E
                 (Some \<lparr>ext_start = None, ext_process = None, ext_factory_reset = Some (nwm_reset_hook E)\<rparr>) u
          else (rc, u))"

section \<open>The mode and its stored copy\<close>

text \<open>The stored copy, when there is one, is the mode in use; without one the default mode is in use.\<close>

definition mode_saved ::
  "('d \<Rightarrow> string \<rightharpoonup> bytes) \<Rightarrow> ('d, 's, 'e) mode_env_scheme \<Rightarrow> ('d, 'm) mode_state_scheme \<Rightarrow> bool" where
  "mode_saved view E s \<longleftrightarrow> network_mode s \<le> RZI_AT_NETWORK_MODE_P2P_FSK \<and> storage_inv E view (at_store s)
     \<and> (case look view (at_store s) ''rzi'' ''nwm'' of
          None \<Rightarrow> network_mode s = default_mode E | Some v \<Rightarrow> v = [network_mode s])"

text \<open>Mode listeners start and stop the radio; the mode and its stored copy are not theirs.\<close>

definition listener_neutral ::
  "('d \<Rightarrow> string \<rightharpoonup> bytes) \<Rightarrow> ('d, ('d, 'm) mode_state_scheme, 'e) mode_env_scheme \<Rightarrow> bool" where
  "listener_neutral view E \<longleftrightarrow> (\<forall>l m s. network_mode (snd (run_listener E l m s)) = network_mode s
     \<and> look view (at_store (snd (run_listener E l m s))) ''rzi'' ''nwm'' = look view (at_store s) ''rzi'' ''nwm''
     \<and> (storage_inv E view (at_store s) \<longrightarrow> storage_inv E view (at_store (snd (run_listener E l m s)))))"

lemma nwm_name_ok: "name_ok ''rzi'' ''nwm''"
  by (simp add: name_ok_def valid_component_def)

lemma mode_saved_cong:
  assumes "network_mode t = network_mode s" and "look view (at_store t) ''rzi'' ''nwm'' = look view (at_store s) ''rzi'' ''nwm''"
    and "storage_inv E view (at_store s) \<Longrightarrow> storage_inv E view (at_store t)"
  shows "mode_saved view E s \<Longrightarrow> mode_saved view E t"
  using assms by (simp add: mode_saved_def split: option.splits)

text \<open>What listeners leave alone, along the whole notification.\<close>

definition same_mode ::
  "('d \<Rightarrow> string \<rightharpoonup> bytes) \<Rightarrow> ('d, 's, 'e) mode_env_scheme \<Rightarrow> ('d, 'm) mode_state_scheme \<Rightarrow> ('d, 'm) mode_state_scheme \<Rightarrow> bool" where
  "same_mode view E s t \<longleftrightarrow> network_mode t = network_mode s
     \<and> look view (at_store t) ''rzi'' ''nwm'' = look view (at_store s) ''rzi'' ''nwm''
     \<and> (storage_inv E view (at_store s) \<longrightarrow> storage_inv E view (at_store t))"

lemma notify_same_mode:
  assumes "listener_neutral view E" and "notify_listeners E mode s = (rc, t)"
  shows "same_mode view E s t"
proof -
  have "same_mode view E u (snd (notify_each (run_listener E) ls mode r u))" for ls r u
  proof (induction ls arbitrary: r u)
    case (Cons l ls)
    obtain one v where v: "run_listener E l mode u = (one, v)" by fastforce
    have "same_mode view E u v" using assms(1) v unfolding listener_neutral_def same_mode_def by (metis snd_conv)
    with Cons.IH [of v] v show ?case by (simp add: same_mode_def)
  qed (simp add: same_mode_def)
  from this [of s "listeners s" 0] assms(2) show ?thesis by (simp add: notify_listeners_def)
qed

lemma save_mode_effect:
  assumes "storage_inv E view (at_store s)" and "cfg_at_nvm E" and "save_mode E mode s = (rc, t)"
  shows "network_mode t = network_mode s \<and> storage_inv E view (at_store t)
    \<and> look view (at_store t) ''rzi'' ''nwm'' = (if rc = 0 then Some [mode] else look view (at_store s) ''rzi'' ''nwm'')"
proof -
  obtain r1 s1 where i: "rzi_storage_init E (at_store s) = (r1, s1)" by fastforce
  have s1: "storage_inv E view s1" "view (dev s1) = view (dev (at_store s))" using init_effect [OF assms(1)] i by auto
  obtain r2 s2 where w: "rzi_storage_write E (Some ''rzi'') (Some ''nwm'') (Some [mode]) 1 s1 = (r2, s2)" by fastforce
  have s2: "storage_inv E view s2"
    "view (dev s2) = (if r2 = 0 then (view (dev s1))(full_name ''rzi'' ''nwm'' \<mapsto> [mode]) else view (dev s1))"
    using write_effect [OF s1(1) nwm_name_ok, of "[mode]" r2 s2] w by simp_all
  show ?thesis
    using assms(2,3) i w s1 s2 by (cases "r1 = 0") (auto simp: save_mode_def seq_ok_def on_store_def on_part_def look_def)
qed

lemma respond_mode_saved:
  assumes "rzi_at_respond_status F st s = (rc, t)"
  shows "same_mode view E s t"
proof -
  have "network_mode (snd (rzi_at_respond_status F st s)) = network_mode s" "at_store (snd (rzi_at_respond_status F st s)) = at_store s"
    by (rule respond_unchanged(1), simp add: log_free_def)+
  with assms show ?thesis by (simp add: same_mode_def)
qed

lemma load_mode_saved:
  assumes "mode_saved view E t" and "cfg_at_nvm E" and "storage_ready (at_store t)"
    and "at_store r = at_store t" and "network_mode r = default_mode E"
  shows "network_mode (snd (load_mode E r)) = network_mode t"
proof -
  have inv: "storage_inv E view (at_store t)" using assms(1) by (simp add: mode_saved_def)
  note rd = read_ready [OF inv assms(3) nwm_name_ok, of "[0]"]
  show ?thesis using assms rd
    by (auto simp: load_mode_def on_store_def on_part_def init_ready mode_saved_def Let_def split: option.splits)
qed

lemma same_mode_saved: "same_mode view E s t \<Longrightarrow> mode_saved view E s \<Longrightarrow> mode_saved view E t"
  by (auto simp: same_mode_def intro: mode_saved_cong)

text \<open>A change of mode: notification, saving, and the way back when either fails.\<close>

lemma change_mode_saved:
  assumes "mode_saved view E s" and "cfg_at_nvm E" and "listener_neutral view E" and "m \<le> RZI_AT_NETWORK_MODE_P2P_FSK"
    and "notify_listeners E m (s\<lparr>network_mode := m\<rparr>) = (r1, t)"
    and "(if r1 = 0 then save_mode E (network_mode t) t else (r1, t)) = (r2, u)"
  shows "if r2 = 0 then mode_saved view E u else mode_saved view E (u\<lparr>network_mode := network_mode s\<rparr>)"
proof -
  have t: "network_mode t = m" "look view (at_store t) ''rzi'' ''nwm'' = look view (at_store s) ''rzi'' ''nwm''"
    "storage_inv E view (at_store t)"
    using notify_same_mode [OF assms(3,5)] assms(1) by (simp_all add: same_mode_def mode_saved_def)
  show ?thesis
  proof (cases "r1 = 0")
    case True
    with assms(6) have "save_mode E m t = (r2, u)" using t(1) by simp
    from save_mode_effect [OF t(3) assms(2) this] t assms(1,4) show ?thesis
      by (simp add: mode_saved_def split: option.splits)
  next
    case False
    with assms(1,6) t show ?thesis by (auto simp: mode_saved_def split: option.splits)
  qed
qed

lemma handle_nwm_saved:
  assumes "mode_saved view E s" and "cfg_at_nvm E" and "listener_neutral view E"
  shows "mode_saved view E (snd (handle_nwm E request s))"
proof -
  have read: "mode_saved view E (snd (rzi_at_respond_value E msg s))" for msg
    by (rule mode_saved_cong [OF _ _ _ assms(1)]) (simp_all add: respond_unchanged log_free_def)
  have ok: "mode_saved view E (snd (rzi_at_respond_status E st s))" for st
    by (rule mode_saved_cong [OF _ _ _ assms(1)]) (simp_all add: respond_unchanged log_free_def)
  show ?thesis
  proof (cases "req_operation request = OP_READ \<or> (\<exists>rc. parse_long E (req_argument request) = Inl rc)")
    case True
    then show ?thesis using assms(1) read by (auto simp: handle_nwm_def)
  next
    case False
    then obtain parsed where p: "req_operation request \<noteq> OP_READ" "parse_long E (req_argument request) = Inr parsed"
      by (cases "parse_long E (req_argument request)") auto
    define m :: u8 where "m = of_int parsed"
    have m: "m \<le> RZI_AT_NETWORK_MODE_P2P_FSK" if "0 \<le> parsed" "parsed \<le> 2"
    proof -
      from that have "parsed = 0 \<or> parsed = 1 \<or> parsed = 2" by auto
      then show ?thesis by (auto simp: m_def)
    qed
    obtain r1 t where t: "notify_listeners E m (s\<lparr>network_mode := m\<rparr>) = (r1, t)" by fastforce
    obtain r2 u where u: "(if r1 = 0 then save_mode E (network_mode t) t else (r1, t)) = (r2, u)" by fastforce
    obtain r3 w where w: "notify_listeners E (network_mode s) (u\<lparr>network_mode := network_mode s\<rparr>) = (r3, w)" by fastforce
    obtain r4 v where v: "rzi_at_respond_status E STATUS_OK u = (r4, v)" by fastforce
    have h: "snd (handle_nwm E request s) =
        (if parsed < 0 \<or> parsed > 2 \<or> m \<noteq> RZI_AT_NETWORK_MODE_LORAWAN \<and> \<not> cfg_command_lora E then s
         else if m = network_mode s then snd (rzi_at_respond_status E STATUS_OK s)
         else if r2 \<noteq> 0 then w else if cfg_command_lorawan E \<and> \<not> cfg_ztest E then v\<lparr>rebooted := True\<rparr> else v)"
      unfolding handle_nwm_def m_def [symmetric] using p t u v w by (simp add: Let_def flip: m_def)
    show ?thesis
    proof (cases "parsed < 0 \<or> parsed > 2 \<or> m \<noteq> RZI_AT_NETWORK_MODE_LORAWAN \<and> \<not> cfg_command_lora E \<or> m = network_mode s")
      case True
      then show ?thesis using h assms(1) ok by presburger
    next
      case False
      then have c: "if r2 = 0 then mode_saved view E u else mode_saved view E (u\<lparr>network_mode := network_mode s\<rparr>)"
        using change_mode_saved [OF assms m t u] by simp
      show ?thesis
      proof (cases "r2 = 0")
        case True
        then have "mode_saved view E v" using c same_mode_saved [OF respond_mode_saved [OF v]] by simp
        moreover from this have "mode_saved view E (v\<lparr>rebooted := True\<rparr>)"
          by (simp add: mode_saved_def split: option.splits)
        ultimately show ?thesis using h True False by presburger
      next
        case r2: False
        then show ?thesis using h False c same_mode_saved [OF notify_same_mode [OF assms(3) w]] by presburger
      qed
    qed
  qed
qed

text \<open>A reference instance: the AT service of the reference state with one listener that refuses FSK.\<close>

definition mode_ref_env :: "(string \<rightharpoonup> bytes, (string \<rightharpoonup> bytes) mode_state) mode_env" where
  "mode_ref_env = mem_env False \<lparr>cfg_line_max = 600, cfg_tx_size = 640, cfg_max_commands = 160, cfg_max_extensions = 4,
     cfg_at_echo = True, ring_buf_put = (\<lambda>d r. (length d, r @ d)), ring_buf_get = (\<lambda>k r. (take k r, drop k r)),
     run_write = (\<lambda>w t u l. 0), run_handler = (\<lambda>h q u s. (0, s)), run_start = (\<lambda>h s. (0, s)),
     run_process = (\<lambda>h s. s), run_factory_reset = (\<lambda>h s. (0, s)),
     cfg_at_nvm = True, cfg_command_lorawan = True, cfg_command_lora = True, cfg_ztest = False, long_max = 2147483647,
     run_listener = (\<lambda>l m s. (if m = 2 then - RZI_ERR_NOT_SUPPORTED else 0, s)), nwm_handler = 23, nwm_reset_hook = 0\<rparr>"

definition mode_ref_state :: "(string \<rightharpoonup> bytes) mode_state" where
  "mode_ref_state = at_state.extend at_ref_state \<lparr>network_mode = 1, listeners = [0]\<rparr>"

lemma mode_ref_facts:
  "mode_saved (\<lambda>d. d) mode_ref_env mode_ref_state" "cfg_at_nvm mode_ref_env" "listener_neutral (\<lambda>d. d) mode_ref_env"
proof -
  show "mode_saved (\<lambda>d. d) mode_ref_env mode_ref_state"
    by (simp add: mode_saved_def mode_ref_state_def mode_ref_env_def at_ref_state_def at_state.defs look_def mem_state_inv)
      (simp add: mem_state_def mem_env_def default_mode_def)
qed (simp_all add: mode_ref_env_def mem_env_def listener_neutral_def)

section \<open>Properties\<close>

text \<open>
  The working mode survives a restart: if the mode in use and its stored copy agree before an
  \<^verbatim>\<open>AT+NWM\<close> command, whatever the command asks, and whether a listener refuses, the flash fails or
  the change goes through, they agree afterwards, the mode is one of the three modes, and loading the mode after a
  restart gives the mode in use.
\<close>

theorem nwm_mode_persisted:
  assumes "mode_saved view E s" and "cfg_at_nvm E" and "listener_neutral view E"
    and "t = snd (handle_nwm E request s)" and "storage_ready (at_store t)"
    and "at_store r = at_store t" and "network_mode r = default_mode E"
  shows "mode_saved view E t \<and> network_mode (snd (load_mode E r)) = network_mode t"
proof
  show "mode_saved view E t" unfolding assms(4) by (rule handle_nwm_saved [OF assms(1-3)])
  then show "network_mode (snd (load_mode E r)) = network_mode t" by (rule load_mode_saved [OF _ assms(2,5-7)])
qed

theorem nwm_mode_persisted_witness:
  "\<exists>t. t = snd (handle_nwm mode_ref_env \<lparr>req_operation = OP_WRITE, req_argument = Some ''0''\<rparr> mode_ref_state)
    \<and> network_mode t = 0 \<and> mode_saved (\<lambda>d. d) mode_ref_env t
    \<and> network_mode (snd (load_mode mode_ref_env (mode_ref_state\<lparr>at_store := at_store t\<rparr>))) = 0"
proof -
  define t where "t = snd (handle_nwm mode_ref_env \<lparr>req_operation = OP_WRITE, req_argument = Some ''0''\<rparr> mode_ref_state)"
  have m: "network_mode t = 0" unfolding t_def by code_simp
  have "storage_ready (at_store t)" unfolding t_def by code_simp
  then show ?thesis
    using nwm_mode_persisted [OF mode_ref_facts t_def, of "mode_ref_state\<lparr>at_store := at_store t\<rparr>"] m t_def
    by (auto simp: mode_ref_state_def at_state.defs default_mode_def mode_ref_env_def mem_env_def)
qed

end
