(* ===== verification/Rzi_At_Uart.thy ===== *)
theory Rzi_At_Uart
  imports Rzi_At_Mode
begin

text \<open>
  The UART adapter of the AT service, \<^verbatim>\<open>src/at/adapters/at_adapter_uart.c\<close>. Devices are numbers and
  \<open>'u\<close> is the state of Zephyr's UART driver, whose functions are parameters; registering the
  interrupt callback takes \<open>True\<close> for \<^verbatim>\<open>uart_isr\<close> and \<open>False\<close> for a null pointer.
\<close>

section \<open>State\<close>

record uart_config =
  baudrate :: u32
  parity :: u8
  stop_bits :: u8
  data_bits :: u8
  flow_ctrl :: u8

record ('d, 'u) uart_state = "'d mode_state" +
  active_uart :: "nat option"
  current_baud :: u32
  uart_dev :: 'u

record ('d, 's, 'u) uart_env = "('d, 's) mode_env" +
  device_is_ready :: "nat \<Rightarrow> bool"
  uart_irq_callback_user_data_set :: "nat \<Rightarrow> bool \<Rightarrow> 'u \<Rightarrow> int \<times> 'u"
  uart_irq_rx_enable :: "nat \<Rightarrow> 'u \<Rightarrow> 'u"
  uart_irq_update :: "nat \<Rightarrow> 'u \<Rightarrow> 'u"
  uart_irq_rx_ready :: "nat \<Rightarrow> 'u \<Rightarrow> bool"
  uart_fifo_read :: "nat \<Rightarrow> nat \<Rightarrow> 'u \<Rightarrow> int \<times> bytes \<times> 'u"
  uart_poll_out :: "nat \<Rightarrow> u8 \<Rightarrow> 'u \<Rightarrow> 'u"
  uart_config_get :: "nat \<Rightarrow> 'u \<Rightarrow> int \<times> uart_config"
  uart_configure :: "nat \<Rightarrow> uart_config \<Rightarrow> 'u \<Rightarrow> int \<times> 'u"

section \<open>Operations\<close>

definition uart_write :: "('d, 's, 'u, 'e) uart_env_scheme \<Rightarrow> bytes \<Rightarrow> nat \<Rightarrow> 'u op" where
  "uart_write E data uart u = (0, fold (uart_poll_out E uart) data u)"

text \<open>The loop of the interrupt routine; not returning is \<open>None\<close>.\<close>

partial_function (option) uart_isr_loop ::
  "('d, 's, 'u, 'e) uart_env_scheme \<Rightarrow> nat \<Rightarrow> ('d, 'u, 'm) uart_state_scheme \<Rightarrow> ('d, 'u, 'm) uart_state_scheme option" where
  "uart_isr_loop E uart s =
     (if \<not> uart_irq_rx_ready E uart (uart_dev s) then Some s
      else case uart_fifo_read E uart 32 (uart_dev s) of (count, buffer, u) \<Rightarrow>
        let t = s\<lparr>uart_dev := u\<rparr> in
        if count \<le> 0 then Some t
        else uart_isr_loop E uart (snd (rzi_at_receive E (Some buffer) (nat count) t)))"

definition uart_isr ::
  "('d, 's, 'u, 'e) uart_env_scheme \<Rightarrow> nat \<Rightarrow> ('d, 'u, 'm) uart_state_scheme \<Rightarrow> ('d, 'u, 'm) uart_state_scheme option" where
  "uart_isr E uart s = uart_isr_loop E uart (s\<lparr>uart_dev := uart_irq_update E uart (uart_dev s)\<rparr>)"

text \<open>\<open>uart_write_id\<close> is the number of \<^verbatim>\<open>uart_write\<close>; the device is its user data.\<close>

definition rzi_at_uart_start ::
  "('d, ('d, 'u, 'm) uart_state_scheme, 'u, 'e) uart_env_scheme \<Rightarrow> ('d, 'u, 'm) uart_state_scheme op \<Rightarrow> nat
   \<Rightarrow> nat option \<Rightarrow> ('d, 'u, 'm) uart_state_scheme op" where
  "rzi_at_uart_start E builtin_register uart_write_id uart s =
     (if uart = None \<or> \<not> device_is_ready E (the uart) then (- RZI_ERR_NO_DEVICE, s)
      else if active_uart s \<noteq> None then (- RZI_ERR_ALREADY, s)
      else case uart_irq_callback_user_data_set E (the uart) True (uart_dev s) of (rc, u) \<Rightarrow>
        if rc \<noteq> 0 then (rzi_err_from_errno rc, s\<lparr>uart_dev := u\<rparr>)
        else case rzi_at_start E builtin_register (Some \<lparr>io_write = Some uart_write_id, io_user_data = the uart\<rparr>)
                    (s\<lparr>uart_dev := u, active_uart := uart\<rparr>) of (rc, t) \<Rightarrow>
          if rc \<noteq> 0
          then (rc, t\<lparr>active_uart := None,
                      uart_dev := snd (uart_irq_callback_user_data_set E (the uart) False (uart_dev t))\<rparr>)
          else (0, t\<lparr>uart_dev := uart_irq_rx_enable E (the uart) (uart_dev t)\<rparr>))"

definition rzi_at_uart_get_baud :: "(('d, 'u, 'm) uart_state_scheme, u32) getter" where
  "rzi_at_uart_get_baud baud_rate s =
     (if baud_rate = None then (- RZI_ERR_INVALID, baud_rate, s)
      else if active_uart s = None then (- RZI_ERR_NOT_READY, baud_rate, s)
      else (0, Some (current_baud s), s))"

definition rzi_at_uart_set_baud :: "('d, 's, 'u, 'e) uart_env_scheme \<Rightarrow> u32 \<Rightarrow> ('d, 'u, 'm) uart_state_scheme op" where
  "rzi_at_uart_set_baud E baud_rate s =
     (if baud_rate = 0 then (- RZI_ERR_INVALID, s)
      else case active_uart s of
        None \<Rightarrow> (- RZI_ERR_NOT_READY, s)
      | Some uart \<Rightarrow>
          (case uart_config_get E uart (uart_dev s) of (rc, config) \<Rightarrow>
             if rc \<noteq> 0 then (rzi_err_from_errno rc, s)
             else case uart_configure E uart (config\<lparr>baudrate := baud_rate\<rparr>) (uart_dev s) of (rc, u) \<Rightarrow>
               if rc \<noteq> 0 then (rzi_err_from_errno rc, s\<lparr>uart_dev := u\<rparr>)
               else (0, s\<lparr>uart_dev := u, current_baud := baud_rate\<rparr>)))"

end
