(* ===== verification/Rzi_At_System.thy ===== *)
theory Rzi_At_System
  imports Rzi_At_Uart
begin

text \<open>
  The built-in system commands of the AT service, \<^verbatim>\<open>src/at/commands/at_command_system.c\<close>: identity,
  lock and password, baud rate, sleep, factory reset and reboot, and the registration of all
  command packages at the start. Handlers are numbered in the order of the file; \<open>link_system\<close> puts them
  into the environment the dispatcher calls them through. A handler that reads \<^verbatim>\<open>request->argument\<close>
  runs for writes only, whose argument is not null.
\<close>

section \<open>State\<close>

abbreviation (input) RZI_VERSION_STRING :: string where "RZI_VERSION_STRING \<equiv> ''0.2.0''"
abbreviation (input) ALIAS_MAX :: nat where "ALIAS_MAX \<equiv> 16"
abbreviation (input) SN_MAX :: nat where "SN_MAX \<equiv> 18"
abbreviation (input) ALLOW_RUN :: u8 where "ALLOW_RUN \<equiv> push_bit 0 1"
abbreviation (input) ALLOW_READ :: u8 where "ALLOW_READ \<equiv> push_bit 2 1"
abbreviation (input) ALLOW_WRITE :: u8 where "ALLOW_WRITE \<equiv> push_bit 3 1"

record ('d, 'u) sys_state = "('d, 'u) uart_state" +
  alias_name :: string
  serial_number :: string
  lpm_level :: u8

text \<open>
  \<open>hwinfo_get_device_id\<close> is the returned size and the contents of the eight-byte buffer;
  \<open>bt_id_get\<close> the Bluetooth addresses. The two other command packages are registered by their
  own functions.
\<close>

record ('d, 's, 'u) sys_env = "('d, 's, 'u) uart_env" +
  cfg_power :: bool
  cfg_pm :: bool
  cfg_adapter_uart :: bool
  cfg_hwinfo :: bool
  cfg_bt :: bool
  config_board :: string
  config_soc :: string
  build_date :: string
  build_time :: string
  hwinfo_get_device_id :: "int \<times> bytes"
  bt_id_get :: "bytes list"
  rzi_at_lorawan_register :: "'s \<Rightarrow> int \<times> 's"
  rzi_at_lora_register :: "'s \<Rightarrow> int \<times> 's"

definition VERSION_STRING :: "('d, 's, 'u, 'e) sys_env_scheme \<Rightarrow> string" where
  "VERSION_STRING E = ''RZI_'' @ RZI_VERSION_STRING @ ''_'' @ config_board E"

section \<open>Stored strings\<close>

text \<open>The destination is a string; the result carries its new value.\<close>

definition load_string ::
  "('d, 's, 'u, 'e) sys_env_scheme \<Rightarrow> string \<Rightarrow> string \<Rightarrow> nat \<Rightarrow> ('d, 'u, 'm) sys_state_scheme
   \<Rightarrow> int \<times> string \<times> ('d, 'u, 'm) sys_state_scheme" where
  "load_string E key dst max_len s =
     (if \<not> cfg_at_nvm E then (0, dst, s)
      else case rzi_storage_read E (Some ''rzi'') (Some key) (Some (replicate (ALIAS_MAX + 1) 0)) (ALIAS_MAX + 1) (at_store s)
        of (rc, stored, st) \<Rightarrow>
          (if rc = - RZI_ERR_NOT_FOUND then 0 else rc,
           if rc = 0 then take max_len (array_string (take ALIAS_MAX (the stored) @ [0])) else dst,
           s\<lparr>at_store := st\<rparr>))"

definition save_string ::
  "('d, 's, 'u, 'e) sys_env_scheme \<Rightarrow> string \<Rightarrow> string \<Rightarrow> nat \<Rightarrow> ('d, 'u, 'm) sys_state_scheme op" where
  "save_string E key val max_len s =
     (if \<not> cfg_at_nvm E then (0, s)
      else on_store (rzi_storage_write E (Some ''rzi'') (Some key)
             (Some (char_array (ALIAS_MAX + 1) (take max_len val))) (ALIAS_MAX + 1)) s)"

definition fill_serial_from_hwinfo ::
  "('d, 's, 'u, 'e) sys_env_scheme \<Rightarrow> ('d, 'u, 'm) sys_state_scheme \<Rightarrow> ('d, 'u, 'm) sys_state_scheme" where
  "fill_serial_from_hwinfo E s =
     (case (if cfg_hwinfo E then hwinfo_get_device_id E else (- RZI_ERR_NOT_SUPPORTED, replicate 8 0)) of (n, device_id) \<Rightarrow>
        let count = (if n > 0 then min (nat n) 9 else 0) in
        s\<lparr>serial_number := (if count = 0 then take SN_MAX (config_board E)
                           else concat (map (\<lambda>i. hex_byte (device_id ! i)) [0..<count]))\<rparr>)"

section \<open>Handlers\<close>

definition handle_version ::
  "('d, 's, 'u, 'e) sys_env_scheme \<Rightarrow> rzi_at_request \<Rightarrow> ('d, 'u, 'm) sys_state_scheme op" where
  "handle_version E request s = rzi_at_respond_value E (''AT+VER='' @ VERSION_STRING E) s"

definition handle_firmwarever ::
  "('d, 's, 'u, 'e) sys_env_scheme \<Rightarrow> rzi_at_request \<Rightarrow> ('d, 'u, 'm) sys_state_scheme op" where
  "handle_firmwarever E request s = rzi_at_respond_value E (''AT+FIRMWAREVER='' @ VERSION_STRING E) s"

definition handle_cliver ::
  "('d, 's, 'u, 'e) sys_env_scheme \<Rightarrow> rzi_at_request \<Rightarrow> ('d, 'u, 'm) sys_state_scheme op" where
  "handle_cliver E request s = rzi_at_respond_value E (''AT+CLIVER='' @ RZI_VERSION_STRING) s"

definition handle_apiver ::
  "('d, 's, 'u, 'e) sys_env_scheme \<Rightarrow> rzi_at_request \<Rightarrow> ('d, 'u, 'm) sys_state_scheme op" where
  "handle_apiver E request s = rzi_at_respond_value E (''AT+APIVER='' @ RZI_VERSION_STRING) s"

definition handle_hwmodel ::
  "('d, 's, 'u, 'e) sys_env_scheme \<Rightarrow> rzi_at_request \<Rightarrow> ('d, 'u, 'm) sys_state_scheme op" where
  "handle_hwmodel E request s = rzi_at_respond_value E (''AT+HWMODEL='' @ config_board E) s"

definition handle_hwid ::
  "('d, 's, 'u, 'e) sys_env_scheme \<Rightarrow> rzi_at_request \<Rightarrow> ('d, 'u, 'm) sys_state_scheme op" where
  "handle_hwid E request s = rzi_at_respond_value E (''AT+HWID='' @ config_soc E) s"

definition handle_sn ::
  "('d, 's, 'u, 'e) sys_env_scheme \<Rightarrow> rzi_at_request \<Rightarrow> ('d, 'u, 'm) sys_state_scheme op" where
  "handle_sn E request s =
     (let t = (if serial_number s = [] then fill_serial_from_hwinfo E s else s) in
      rzi_at_respond_value E (''AT+SN='' @ serial_number t) t)"

definition handle_alias ::
  "('d, 's, 'u, 'e) sys_env_scheme \<Rightarrow> rzi_at_request \<Rightarrow> ('d, 'u, 'm) sys_state_scheme op" where
  "handle_alias E request s =
     (if req_operation request = OP_READ then rzi_at_respond_value E (''AT+ALIAS='' @ alias_name s) s
      else let argument = the (req_argument request) in
        if length argument = 0 \<or> length argument > ALIAS_MAX then (- RZI_ERR_INVALID, s)
        else case save_string E ''alias'' argument ALIAS_MAX s of (rc, t) \<Rightarrow>
          if rc \<noteq> 0 then (rc, t) else rzi_at_respond_status E STATUS_OK (t\<lparr>alias_name := argument\<rparr>))"

definition handle_buildtime ::
  "('d, 's, 'u, 'e) sys_env_scheme \<Rightarrow> rzi_at_request \<Rightarrow> ('d, 'u, 'm) sys_state_scheme op" where
  "handle_buildtime E request s = rzi_at_respond_value E (''AT+BUILDTIME='' @ build_date E @ ''-'' @ build_time E) s"

definition handle_repoinfo ::
  "('d, 's, 'u, 'e) sys_env_scheme \<Rightarrow> rzi_at_request \<Rightarrow> ('d, 'u, 'm) sys_state_scheme op" where
  "handle_repoinfo E request s = rzi_at_respond_value E (''AT+REPOINFO='' @ RZI_VERSION_STRING @ '':0:0:0:0:0:0:0'') s"

definition handle_boot ::
  "('d, 's, 'u, 'e) sys_env_scheme \<Rightarrow> rzi_at_request \<Rightarrow> ('d, 'u, 'm) sys_state_scheme op" where
  "handle_boot E request s = (0, (snd (rzi_at_respond_status E STATUS_OK s))\<lparr>rebooted := True\<rparr>)"

definition handle_bootver ::
  "('d, 's, 'u, 'e) sys_env_scheme \<Rightarrow> rzi_at_request \<Rightarrow> ('d, 'u, 'm) sys_state_scheme op" where
  "handle_bootver E request s = rzi_at_respond_value E ''AT+BOOTVER=RZI MCUboot'' s"

definition handle_debug ::
  "('d, 's, 'u, 'e) sys_env_scheme \<Rightarrow> rzi_at_request \<Rightarrow> ('d, 'u, 'm) sys_state_scheme op" where
  "handle_debug E request s =
     rzi_at_respond_value E (''AT+DEBUG='' @ VERSION_STRING E @ '' locked='' @ show_nat (if rzi_at_is_locked s then 1 else 0)
       @ '' echo='' @ show_nat (if rzi_at_echo_enabled s then 1 else 0)) s"

definition handle_factory ::
  "('d, ('d, 'u, 'm) sys_state_scheme, 'u, 'e) sys_env_scheme \<Rightarrow> rzi_at_request \<Rightarrow> ('d, 'u, 'm) sys_state_scheme op" where
  "handle_factory E request s =
     (case rzi_at_registry_factory_reset E s of (rc, t) \<Rightarrow>
        if rc \<noteq> 0 then (rc, t) else (0, (snd (rzi_at_respond_status E STATUS_OK t))\<lparr>rebooted := True\<rparr>))"

definition handle_lock ::
  "('d, 's, 'u, 'e) sys_env_scheme \<Rightarrow> rzi_at_request \<Rightarrow> ('d, 'u, 'm) sys_state_scheme op" where
  "handle_lock E request s =
     (if req_operation request = OP_READ
      then rzi_at_respond_value E (''AT+LOCK='' @ (if rzi_at_is_locked s then ''locked'' else ''unlocked'')) s
      else rzi_at_respond_status E STATUS_OK (rzi_at_set_locked True s))"

definition handle_pword ::
  "('d, 's, 'u, 'e) sys_env_scheme \<Rightarrow> rzi_at_request \<Rightarrow> ('d, 'u, 'm) sys_state_scheme op" where
  "handle_pword E request s =
     (if req_operation request = OP_READ then rzi_at_respond_value E (''AT+PWORD='' @ rzi_at_password s) s
      else if rzi_at_is_locked s then
        (if \<not> rzi_at_password_matches (req_argument request) s then (- RZI_ERR_INVALID, s)
         else rzi_at_respond_status E STATUS_OK (rzi_at_set_locked False s))
      else let argument = the (req_argument request) in
        if length argument = 0 \<or> length argument > 8 then (- RZI_ERR_INVALID, s)
        else case save_string E ''pword'' argument 8 s of (rc, t) \<Rightarrow>
          case (if rc = 0 then rzi_at_set_password (Some argument) t else (rc, t)) of (rc, u) \<Rightarrow>
            if rc \<noteq> 0 then (rc, u) else rzi_at_respond_status E STATUS_OK u)"

definition handle_baud ::
  "('d, 's, 'u, 'e) sys_env_scheme \<Rightarrow> rzi_at_request \<Rightarrow> ('d, 'u, 'm) sys_state_scheme op" where
  "handle_baud E request s =
     (if \<not> cfg_adapter_uart E then (- RZI_ERR_NOT_SUPPORTED, s)
      else if req_operation request = OP_READ then
        (case rzi_at_uart_get_baud (Some 0) s of (rc, baud, t) \<Rightarrow>
           if rc \<noteq> 0 then (rc, t) else rzi_at_respond_value E (''AT+BAUD='' @ show_nat (unat (the baud))) t)
      else case strtoul (long_max E) (the (req_argument request)) of
        None \<Rightarrow> (- RZI_ERR_INVALID, s)
      | Some (parsed, rest) \<Rightarrow>
          if rest \<noteq> [] \<or> parsed = 0 then (- RZI_ERR_INVALID, s)
          else case rzi_at_uart_set_baud E (of_int parsed) s of (rc, t) \<Rightarrow>
            if rc \<noteq> 0 then (rc, t) else rzi_at_respond_status E STATUS_OK t)"

definition handle_atm ::
  "('d, 's, 'u, 'e) sys_env_scheme \<Rightarrow> rzi_at_request \<Rightarrow> ('d, 'u, 'm) sys_state_scheme op" where
  "handle_atm E request s = rzi_at_respond_status E STATUS_OK s"

definition handle_sleep ::
  "('d, 's, 'u, 'e) sys_env_scheme \<Rightarrow> rzi_at_request \<Rightarrow> ('d, 'u, 'm) sys_state_scheme op" where
  "handle_sleep E request s =
     (if \<not> cfg_power E then (- RZI_ERR_NOT_SUPPORTED, s)
      else case strtol (long_max E) (the (req_argument request)) of
        None \<Rightarrow> (- RZI_ERR_INVALID, s)
      | Some (parsed, rest) \<Rightarrow>
          if rest \<noteq> [] \<or> parsed \<le> 0 \<or> parsed > 2147483647 then (- RZI_ERR_INVALID, s)
          else let t = snd (rzi_at_respond_status E STATUS_OK s) in
            (fst (rzi_power_sleep parsed (pwr (at_store t))), t))"

definition handle_lpm ::
  "('d, 's, 'u, 'e) sys_env_scheme \<Rightarrow> rzi_at_request \<Rightarrow> ('d, 'u, 'm) sys_state_scheme op" where
  "handle_lpm E request s =
     (if \<not> cfg_power E then (- RZI_ERR_NOT_SUPPORTED, s)
      else if req_operation request = OP_READ then
        (case rzi_power_get_pm_enabled (cfg_pm E) (Some False) (pwr (at_store s)) of (rc, enabled, p) \<Rightarrow>
           if rc \<noteq> 0 then (rc, s)
           else rzi_at_respond_value E (''AT+LPM='' @ show_nat (if the enabled then 1 else 0)) s)
      else let argument = the (req_argument request) in
        if argument \<noteq> ''0'' \<and> argument \<noteq> ''1'' then (- RZI_ERR_INVALID, s)
        else case on_store (on_part pwr (\<lambda>p st. st\<lparr>pwr := p\<rparr>)
                     (rzi_power_set_pm_enabled (cfg_pm E) (argument = ''1''))) s of (rc, t) \<Rightarrow>
          if rc \<noteq> 0 then (rc, t) else rzi_at_respond_status E STATUS_OK t)"

definition handle_lpmlvl ::
  "('d, 's, 'u, 'e) sys_env_scheme \<Rightarrow> rzi_at_request \<Rightarrow> ('d, 'u, 'm) sys_state_scheme op" where
  "handle_lpmlvl E request s =
     (if req_operation request = OP_READ
      then rzi_at_respond_value E (''AT+LPMLVL='' @ show_nat (unat (lpm_level s))) s
      else let argument = the (req_argument request) in
        if argument = ''1'' then rzi_at_respond_status E STATUS_OK (s\<lparr>lpm_level := 1\<rparr>)
        else if argument = ''2'' then rzi_at_respond_status E STATUS_OK (s\<lparr>lpm_level := 2\<rparr>)
        else (- RZI_ERR_INVALID, s))"

definition handle_bat ::
  "('d, 's, 'u, 'e) sys_env_scheme \<Rightarrow> rzi_at_request \<Rightarrow> ('d, 'u, 'm) sys_state_scheme op" where
  "handle_bat E request s = (- RZI_ERR_NOT_SUPPORTED, s)"

definition handle_blemac ::
  "('d, 's, 'u, 'e) sys_env_scheme \<Rightarrow> rzi_at_request \<Rightarrow> ('d, 'u, 'm) sys_state_scheme op" where
  "handle_blemac E request s =
     (if \<not> cfg_bt E then (- RZI_ERR_NOT_SUPPORTED, s)
      else case bt_id_get E of
        [] \<Rightarrow> (- RZI_ERR_NOT_SUPPORTED, s)
      | addr # _ \<Rightarrow>
          rzi_at_respond_value E (''AT+BLEMAC='' @ hex_byte (addr ! 5) @ '':'' @ hex_byte (addr ! 4) @ '':''
            @ hex_byte (addr ! 3) @ '':'' @ hex_byte (addr ! 2) @ '':'' @ hex_byte (addr ! 1) @ '':'' @ hex_byte (addr ! 0)) s)"

section \<open>The command table\<close>

definition system_handlers ::
  "('d, ('d, 'u, 'm) sys_state_scheme, 'u, 'e) sys_env_scheme \<Rightarrow> (rzi_at_request \<Rightarrow> ('d, 'u, 'm) sys_state_scheme op) list" where
  "system_handlers E =
     [handle_version E, handle_firmwarever E, handle_cliver E, handle_apiver E, handle_hwmodel E, handle_hwid E,
      handle_sn E, handle_alias E, handle_buildtime E, handle_repoinfo E, handle_boot E, handle_bootver E,
      handle_debug E, handle_factory E, handle_lock E, handle_pword E, handle_baud E, handle_atm E, handle_sleep E,
      handle_lpm E, handle_lpmlvl E, handle_bat E, handle_blemac E]"

definition system_command :: "string \<Rightarrow> string \<Rightarrow> u8 \<Rightarrow> nat \<Rightarrow> rzi_at_command" where
  "system_command name help allowed handler =
     \<lparr>cmd_name = Some name, cmd_help = Some help, allowed_operations = allowed, cmd_handler = Some handler, cmd_user_data = 0\<rparr>"

definition commands :: "rzi_at_command list" where
  "commands =
  [system_command ''VER'' ''get the version of the firmware'' ALLOW_READ 0,
   system_command ''FIRMWAREVER'' ''get the custom firmware version'' ALLOW_READ 1,
   system_command ''CLIVER'' ''get the version of the AT command'' ALLOW_READ 2,
   system_command ''APIVER'' ''get the version of the RZI API'' ALLOW_READ 3,
   system_command ''HWMODEL'' ''get the string of the hardware model'' ALLOW_READ 4,
   system_command ''HWID'' ''get the string of the hardware ID'' ALLOW_READ 5,
   system_command ''SN'' ''get the serial number of the device (max 18 char)'' ALLOW_READ 6,
   system_command ''FSN'' ''get the factory serial number of the device'' ALLOW_READ 6,
   system_command ''ALIAS'' ''add an alias name to the device'' (ALLOW_READ OR ALLOW_WRITE) 7,
   system_command ''BAT'' ''get the battery level (volt)'' ALLOW_READ 21,
   system_command ''SYSV'' ''get the System Voltage'' ALLOW_READ 21,
   system_command ''BUILDTIME'' ''get the build time of the firmware'' ALLOW_READ 8,
   system_command ''REPOINFO'' ''get the commit ID of the firmware'' ALLOW_READ 9,
   system_command ''BOOT'' ''reboot the device'' ALLOW_RUN 10,
   system_command ''BOOTVER'' ''get the version of RUI Bootloader'' ALLOW_READ 11,
   system_command ''DEBUG'' ''dump AT debug information'' ALLOW_RUN 12,
   system_command ''FACTORY'' ''restore default parameters'' ALLOW_RUN 13,
   system_command ''LOCK'' ''lock the serial port'' (ALLOW_RUN OR ALLOW_READ) 14,
   system_command ''PWORD'' ''set the serial port locking password (max 8 char)'' (ALLOW_READ OR ALLOW_WRITE) 15,
   system_command ''BAUD'' ''get or set the serial port baudrate'' (ALLOW_READ OR ALLOW_WRITE) 16,
   system_command ''ATM'' ''switch to AT command mode'' ALLOW_RUN 17,
   system_command ''SLEEP'' ''enter sleep mode for a period of time (ms)'' ALLOW_WRITE 18,
   system_command ''LPM'' ''get or set the low power mode (0 = off, 1 = on)'' (ALLOW_READ OR ALLOW_WRITE) 19,
   system_command ''LPMLVL'' ''get or set the sleep level for low power mode'' (ALLOW_READ OR ALLOW_WRITE) 20,
   system_command ''BLEMAC'' ''get the BLE MAC address'' ALLOW_READ 22]"

definition rzi_at_builtin_register ::
  "('d, ('d, 'u, 'm) sys_state_scheme, 'u, 'e) sys_env_scheme \<Rightarrow> ('d, 'u, 'm) sys_state_scheme op" where
  "rzi_at_builtin_register E s =
     (case rzi_at_register E (Some commands) (length commands) s of (rc, t) \<Rightarrow>
        let t = (if rc \<noteq> 0 then t else
              case load_string E ''alias'' (alias_name t) ALIAS_MAX t of (_, alias, u) \<Rightarrow>
              case load_string E ''sn'' (serial_number u) SN_MAX (u\<lparr>alias_name := alias\<rparr>) of (_, sn, v) \<Rightarrow>
              case load_string E ''pword'' [] 8 (v\<lparr>serial_number := sn\<rparr>) of (rc, stored, w) \<Rightarrow>
                if rc = 0 \<and> stored \<noteq> [] then snd (rzi_at_set_password (Some stored) w) else w)
        in seq_ok (\<lambda>s. (rc, s))
             (seq_ok (if cfg_command_lorawan E \<or> cfg_command_lora E then rzi_at_network_mode_register E else Pair 0)
               (seq_ok (if cfg_command_lorawan E then rzi_at_lorawan_register E else Pair 0)
                 (if cfg_command_lora E then rzi_at_lora_register E else Pair 0))) t)"

text \<open>
  The environment in which the function pointers of the tables lead to the functions above; hooks
  and handlers of other packages stay parameters. Handlers do not dispatch commands, so they run
  in the environment before their own linking.
\<close>

definition link_hooks ::
  "('d, ('d, 'u, 'm) sys_state_scheme, 'u, 'e) sys_env_scheme \<Rightarrow> ('d, ('d, 'u, 'm) sys_state_scheme, 'u, 'e) sys_env_scheme" where
  "link_hooks E = E\<lparr>run_factory_reset :=
     (\<lambda>h. if h = nwm_reset_hook E then extension_factory_reset E else run_factory_reset E h)\<rparr>"

definition link_system ::
  "('d, ('d, 'u, 'm) sys_state_scheme, 'u, 'e) sys_env_scheme \<Rightarrow> ('d, ('d, 'u, 'm) sys_state_scheme, 'u, 'e) sys_env_scheme" where
  "link_system E = (let F = link_hooks E in F\<lparr>run_handler :=
     (\<lambda>h q u. if h < length (system_handlers F) then (system_handlers F ! h) q
              else if h = nwm_handler F then handle_nwm F q else run_handler F h q u)\<rparr>)"

section \<open>Case-insensitive comparison\<close>

lemma to_upper_zero: "to_upper c = CHR 0x00 \<longleftrightarrow> c = CHR 0x00"
proof
  assume u: "to_upper c = CHR 0x00"
  show "c = CHR 0x00"
  proof (cases "CHR ''a'' \<le> c \<and> c \<le> CHR ''z''")
    case True
    then have n: "97 \<le> (of_char c :: nat)" "(of_char c :: nat) \<le> 122" by (simp_all add: less_eq_char_def)
    have "of_char (to_upper c) = (of_char c - 32 :: nat)" using True n by (simp add: to_upper_def)
    with u n show ?thesis by simp
  next
    case False
    then have "to_upper c = c" unfolding to_upper_def by (rule if_not_P)
    with u show ?thesis by simp
  qed
qed (simp add: to_upper_def less_eq_char_def)

lemma casecmp_prefix:
  assumes "CHR 0x00 \<notin> set right"
  shows "ascii_casecmp_n left right (length right) = 0
    \<longleftrightarrow> length right \<le> length left \<and> uppercase_name (take (length right) left) = uppercase_name right"
  using assms
proof (induction right arbitrary: left)
  case (Cons r rs)
  have r: "to_upper r \<noteq> CHR 0x00" using Cons.prems by (auto simp: to_upper_zero)
  show ?case
  proof (cases left)
    case Nil
    have "to_upper (CHR 0x00) = CHR 0x00" by (simp add: to_upper_zero)
    moreover have "of_char (to_upper r) \<noteq> (of_char (CHR 0x00) :: int)" using r by (simp only: of_char_eq_iff not_False_eq_True)
    ultimately show ?thesis using Nil r by (auto simp: char_at_def uppercase_name_def Let_def)
  next
    case (Cons l ls)
    with Cons.IH [of ls] Cons.prems r show ?thesis by (auto simp: char_at_def uppercase_name_def Let_def)
  qed
qed (simp add: uppercase_name_def)

lemma equals_ignore_case_iff:
  assumes "CHR 0x00 \<notin> set right"
  shows "equals_ignore_case left right \<longleftrightarrow> uppercase_name left = uppercase_name right"
proof (cases "length left = length right")
  case True
  then show ?thesis using casecmp_prefix [OF assms, of left] by (simp add: equals_ignore_case_def)
next
  case False
  then show ?thesis by (auto simp: equals_ignore_case_def uppercase_name_def dest: map_eq_imp_length_eq)
qed

section \<open>The lock\<close>

text \<open>The system commands are registered and names are unique, as after the start of the service.\<close>

definition system_registered :: "('d, 'm) at_state_scheme \<Rightarrow> bool" where
  "system_registered s \<longleftrightarrow> set commands \<subseteq> set (registered s) \<and> distinct (map cmd_name (registered s))"

lemma find_command:
  assumes "system_registered s" and "system_command name help allowed h \<in> set commands"
  shows "find (\<lambda>command. cmd_name command = Some name) (registered s) = Some (system_command name help allowed h)"
  by (rule find_registered) (use assms in \<open>auto simp: system_registered_def system_command_def\<close>)

lemma find_lock: "system_registered s \<Longrightarrow> find (\<lambda>command. cmd_name command = Some ''LOCK'') (registered s)
    = Some (system_command ''LOCK'' ''lock the serial port'' (ALLOW_RUN OR ALLOW_READ) 14)"
  by (rule find_command, assumption) (simp add: commands_def)

lemma find_pword: "system_registered s \<Longrightarrow> find (\<lambda>command. cmd_name command = Some ''PWORD'') (registered s)
    = Some (system_command ''PWORD'' ''set the serial port locking password (max 8 char)'' (ALLOW_READ OR ALLOW_WRITE) 15)"
  by (rule find_command, assumption) (simp add: commands_def)

lemma link_handlers:
  "run_handler (link_system E) 14 q u = handle_lock (link_hooks E) q"
  "run_handler (link_system E) 15 q u = handle_pword (link_hooks E) q"
  by (simp_all add: link_system_def Let_def system_handlers_def)

lemma locked_log_free: "log_free locked"
  by (simp add: log_free_def)

lemmas lock_eval = rzi_at_is_locked_def rzi_at_set_locked_def rzi_at_password_matches_def respond_unchanged [OF locked_log_free]

lemma dispatch_lock:
  assumes "system_registered s" and "locked s"
  shows "locked (snd (rzi_at_dispatch (link_system E) ''LOCK'' operation argument s))"
  using assms(2)
  by (cases operation) (simp_all add: rzi_at_dispatch_def find_lock [OF assms(1)] system_command_def link_handlers
      handle_lock_def lock_eval)

lemma dispatch_pword:
  assumes "system_registered s" and "locked s"
  shows "locked (snd (rzi_at_dispatch (link_system E) ''PWORD'' operation argument s))
    \<longleftrightarrow> \<not> (operation = OP_WRITE \<and> argument = Some (password s))"
  using assms(2)
  by (cases operation) (auto simp: rzi_at_dispatch_def find_pword [OF assms(1)] system_command_def link_handlers
      handle_pword_def lock_eval)

lemma keyword_upper:
  "uppercase_name ''AT'' = ''AT''" "uppercase_name ''AT?'' = ''AT?''" "uppercase_name ''ATE'' = ''ATE''"
  "uppercase_name ''ATE?'' = ''ATE?''" "uppercase_name ''ATZ'' = ''ATZ''" "uppercase_name ''ATZ?'' = ''ATZ?''"
  "uppercase_name ''ATR'' = ''ATR''" "uppercase_name ''ATR?'' = ''ATR?''" "uppercase_name ''AT+'' = ''AT+''"
  by code_simp+

definition keywords_at :: "string list" where
  "keywords_at = [''AT'', ''AT?'', ''ATE'', ''ATE?'', ''ATZ'', ''ATZ?'', ''ATR'', ''ATR?'']"

text \<open>Execution of a text that is not one of the keywords.\<close>

lemma execute_command:
  assumes "uppercase_name input \<notin> set keywords_at"
  shows "execute E input s =
    (if uppercase_name (take 3 input) \<noteq> ''AT+'' then snd (rzi_at_respond_status E STATUS_ERROR s)
     else case parse_body (drop 3 input) of
        None \<Rightarrow> snd (rzi_at_respond_status E STATUS_ERROR s)
      | Some (operation, name, argument) \<Rightarrow>
          if locked s \<and> name \<noteq> ''PWORD'' \<and> name \<noteq> ''LOCK'' then snd (rzi_at_respond_status E STATUS_ERROR s)
          else case rzi_at_dispatch E name operation argument s of (rc, t) \<Rightarrow> respond_for_error E rc t)"
proof -
  have k: "\<not> equals_ignore_case input w" if "w \<in> set keywords_at" for w
  proof -
    have "CHR 0x00 \<notin> set w" "uppercase_name w = w" using that by (auto simp: keywords_at_def keyword_upper)
    then show ?thesis using assms that equals_ignore_case_iff [of w input] by auto
  qed
  have "ascii_casecmp_n input ''AT+'' 3 = 0 \<longleftrightarrow> 3 \<le> length input \<and> uppercase_name (take 3 input) = ''AT+''"
  proof -
    have l: "length ''AT+'' = 3" and z: "CHR 0x00 \<notin> set ''AT+''" by simp_all
    show ?thesis using casecmp_prefix [OF z, of input] unfolding l keyword_upper .
  qed
  also have "\<dots> \<longleftrightarrow> uppercase_name (take 3 input) = ''AT+''"
  proof -
    have "3 \<le> length input" if "uppercase_name (take 3 input) = ''AT+''"
      using arg_cong [OF that, of length] by (simp add: uppercase_name_def)
    then show ?thesis by blast
  qed
  finally show ?thesis unfolding execute_def rzi_at_is_locked_def using k by (simp add: keywords_at_def)
qed

text \<open>The text that unlocks the port: the write form of \<^verbatim>\<open>PWORD\<close> with the password.\<close>

definition unlocks :: "string \<Rightarrow> string \<Rightarrow> bool" where
  "unlocks secret input \<longleftrightarrow> uppercase_name (take 3 input) = ''AT+''
     \<and> parse_body (drop 3 input) = Some (OP_WRITE, ''PWORD'', Some secret)"

lemma unlocks_not_keyword: "unlocks secret input \<Longrightarrow> uppercase_name input \<notin> set keywords_at"
proof
  assume u: "unlocks secret input" and k: "uppercase_name input \<in> set keywords_at"
  have "uppercase_name (take 3 input) = take 3 (uppercase_name input)" by (simp add: uppercase_name_def take_map)
  with u k show False by (auto simp: unlocks_def keywords_at_def)
qed

lemma nwm_reset_locked: "locked (snd (extension_factory_reset E s)) = locked s"
  by (simp add: extension_factory_reset_def on_store_def on_part_def split: prod.splits)

lemma reset_hooks_locked:
  assumes "\<forall>h s. locked (snd (run_factory_reset E h s)) = locked s"
  shows "locked (snd (rzi_at_registry_factory_reset (link_system E) s)) = locked s"
proof -
  have h: "locked (snd (run_factory_reset (link_system E) h u)) = locked u" for h u
    using assms by (simp add: link_system_def link_hooks_def Let_def nwm_reset_locked)
  have "locked (snd (reset_each (run_factory_reset (link_system E)) xs r u)) = locked u" for xs r u
  proof (induction xs arbitrary: r u)
    case (Cons x xs)
    have "locked t = locked u" if "run_factory_reset (link_system E) f u = (rc, t)" for f rc t using h [of f u] that by simp
    with Cons.IH show ?case by (auto split: option.splits prod.splits)
  qed simp
  then show ?thesis by (simp add: rzi_at_registry_factory_reset_def)
qed

lemma execute_keyword_locked:
  assumes "\<forall>h s. locked (snd (run_factory_reset E h s)) = locked s" and "uppercase_name input \<in> set keywords_at"
  shows "locked (execute (link_system E) input s) = locked s"
proof -
  obtain rc t where r: "rzi_at_registry_factory_reset (link_system E) s = (rc, t)" by fastforce
  have t: "locked t = locked s" using reset_hooks_locked [OF assms(1), of s] r by simp
  have k: "equals_ignore_case input w \<longleftrightarrow> uppercase_name input = w" if "w \<in> set keywords_at" for w
  proof -
    have "CHR 0x00 \<notin> set w" "uppercase_name w = w" using that by (auto simp: keywords_at_def keyword_upper)
    then show ?thesis using equals_ignore_case_iff [of w input] by auto
  qed
  note same = respond_unchanged [OF locked_log_free] all_help_unchanged [OF locked_log_free]
  show ?thesis using assms(2) k t
    by (auto simp: execute_def r Let_def rzi_at_set_echo_def same keywords_at_def)
qed

lemma execute_locked:
  assumes "system_registered s" and "\<forall>h s. locked (snd (run_factory_reset E h s)) = locked s" and "locked s"
  shows "locked (execute (link_system E) input s) \<longleftrightarrow> \<not> unlocks (password s) input"
proof (cases "uppercase_name input \<in> set keywords_at")
  case True
  then show ?thesis using execute_keyword_locked [OF assms(2) True, of s] assms(3) unlocks_not_keyword by blast
next
  case False
  have d: "locked u \<longleftrightarrow> \<not> (name = ''PWORD'' \<and> operation = OP_WRITE \<and> argument = Some (password s))"
    if "rzi_at_dispatch (link_system E) name operation argument s = (rd, u)" "name = ''PWORD'' \<or> name = ''LOCK''"
    for name operation argument rd u
    using dispatch_lock [OF assms(1,3), of E operation argument] dispatch_pword [OF assms(1,3), of E operation argument] that by auto
  show ?thesis
    using assms(3) d by (auto simp: execute_command [OF False] unlocks_def respond_unchanged [OF locked_log_free]
        split: option.splits prod.splits)
qed

lemma unlocks_iff:
  "unlocks secret input \<longleftrightarrow> (\<exists>pre raw. input = pre @ raw @ ''='' @ secret \<and> uppercase_name pre = ''AT+''
     \<and> uppercase_name raw = ''PWORD'' \<and> secret \<noteq> [] \<and> CHR ''?'' \<notin> set secret)"
  (is "_ \<longleftrightarrow> ?shape")
proof
  assume u: "unlocks secret input"
  then obtain raw where "uppercase_name raw = ''PWORD''" "argument_fits OP_WRITE (Some secret)"
    "drop 3 input = print_body OP_WRITE raw (Some secret)"
    using parse_sound [of "drop 3 input" OP_WRITE "''PWORD''" "Some secret"] by (auto simp: unlocks_def)
  then have "drop 3 input = raw @ ''='' @ secret" "uppercase_name raw = ''PWORD''" "secret \<noteq> []" "CHR ''?'' \<notin> set secret"
    by (simp_all add: argument_fits_def)
  moreover have "input = take 3 input @ drop 3 input" by simp
  ultimately show ?shape using u unfolding unlocks_def by metis
next
  assume ?shape
  then obtain pre raw where i: "input = pre @ raw @ ''='' @ secret" and pre: "uppercase_name pre = ''AT+''"
    and raw: "uppercase_name raw = ''PWORD''" and a: "secret \<noteq> []" "CHR ''?'' \<notin> set secret" by blast
  have l: "length pre = 3" using pre by (auto simp: uppercase_name_def dest!: arg_cong [where f = length])
  have sep: "c \<notin> set raw" if "c \<in> {CHR ''='', CHR ''?''}" for c
  proof
    assume "c \<in> set raw"
    then have "to_upper c \<in> set (uppercase_name raw)" by (simp add: uppercase_name_def)
    moreover have "to_upper c = c" using that by (auto simp: to_upper_def less_eq_char_def)
    ultimately show False using raw that by auto
  qed
  moreover have "raw \<noteq> []" using raw by (auto simp: uppercase_name_def)
  ultimately have "plain_name raw" using sep by (simp add: plain_name_def)
  then have "parse_body (print_body OP_WRITE raw (Some secret)) = Some (OP_WRITE, uppercase_name raw, Some secret)"
    by (rule parse_print) (simp add: argument_fits_def a)
  with i l pre raw show "unlocks secret input" by (simp add: unlocks_def)
qed

section \<open>Stored strings come back\<close>

lemma char_array_padded:
  assumes "length v \<le> ALIAS_MAX"
  shows "take ALIAS_MAX (char_array (ALIAS_MAX + 1) v) @ [0] = char_array (ALIAS_MAX + 1) v"
proof -
  define k where "k = ALIAS_MAX - length v"
  have k: "length v = 16 - k" "k \<le> 16" "17 - length v = Suc k" using assms by (simp_all add: k_def)
  have "char_array (ALIAS_MAX + 1) v = string_bytes v @ replicate (Suc k) 0" using k by (simp add: char_array_def string_bytes_def)
  moreover have "take 16 (string_bytes v @ replicate (Suc k) 0) = string_bytes v @ replicate k 0"
    using k by (simp add: string_bytes_def take_Cons' replicate_append_same flip: replicate_Suc)
  ultimately show ?thesis by (simp add: replicate_append_same)
qed

lemma length_char_array [simp]: "length (char_array n v) = n"
  by (simp add: char_array_def)

lemma save_string_look:
  assumes "storage_inv E view (at_store s)" and "storage_ready (at_store s)" and "cfg_at_nvm E" and "name_ok ''rzi'' key"
    and "length v \<le> n" and "save_string E key v n s = (0, t)"
  shows "storage_inv E view (at_store t) \<and> storage_ready (at_store t)
    \<and> look view (at_store t) ''rzi'' key = Some (char_array (ALIAS_MAX + 1) v)"
proof -
  let ?a = "char_array (ALIAS_MAX + 1) v"
  have w: "rzi_storage_write E (Some ''rzi'') (Some key) (Some ?a) (length ?a) (at_store s) = (0, at_store t)"
    using assms(3,5,6) by (auto simp: save_string_def on_store_def on_part_def split: prod.splits)
  have "?a \<noteq> []" by (auto dest!: arg_cong [where f = length])
  from write_effect [OF assms(1,4) this w] assms(2) show ?thesis by (simp add: look_def)
qed

lemma load_string_look:
  assumes "storage_inv E view (at_store r)" and "storage_ready (at_store r)" and "cfg_at_nvm E" and "name_ok ''rzi'' key"
    and "length v \<le> n" and "length v \<le> ALIAS_MAX" and "CHR 0x00 \<notin> set v"
    and "look view (at_store r) ''rzi'' key = Some (char_array (ALIAS_MAX + 1) v)"
  shows "load_string E key dst n r = (0, v, r)"
proof -
  let ?a = "char_array (ALIAS_MAX + 1) v"
  have "?a \<noteq> []" by (auto dest!: arg_cong [where f = length])
  then have rd: "rzi_storage_read E (Some ''rzi'') (Some key) (Some (replicate (ALIAS_MAX + 1) 0)) (ALIAS_MAX + 1) (at_store r)
      = (0, Some ?a, at_store r)"
    using read_ready [OF assms(1,2,4), of "replicate (ALIAS_MAX + 1) 0"] assms(8) by simp
  have "array_string ?a = v" using assms(6,7) by (intro array_string_char_array) simp_all
  then show ?thesis using assms(3,5) rd char_array_padded [OF assms(6)] by (simp add: load_string_def)
qed

lemma load_string_store:
  assumes "storage_inv E view (at_store r)" and "storage_ready (at_store r)" and "name_ok ''rzi'' key"
  shows "\<exists>rc d. load_string E key dst n r = (rc, d, r)"
proof (cases "cfg_at_nvm E")
  case True
  obtain rc out where "rzi_storage_read E (Some ''rzi'') (Some key) (Some (replicate (ALIAS_MAX + 1) 0)) (ALIAS_MAX + 1) (at_store r)
      = (rc, out, at_store r)"
    using read_ready [OF assms, of "replicate (ALIAS_MAX + 1) 0"] by (simp split: option.splits if_splits)
  with True show ?thesis by (simp add: load_string_def)
qed (simp add: load_string_def)

lemma commands_check: "register_check [] [] commands = 0"
proof -
  have "list_all (\<lambda>c. valid_name (cmd_name c) \<and> cmd_handler c \<noteq> None) commands" by code_simp
  moreover have "distinct (map cmd_name commands)" by code_simp
  ultimately show ?thesis by (simp add: register_check_zero list_all_iff)
qed

lemma commands_length: "length commands = 25"
  by (simp add: commands_def)

lemma load_mode_password: "password (snd (load_mode E s)) = password s"
proof -
  obtain r1 t where "on_store (rzi_storage_init E) s = (r1, t)" by fastforce
  moreover from this have "password t = password s" by (auto simp: on_store_def on_part_def split: prod.splits)
  moreover obtain r2 out st where "rzi_storage_read E (Some ''rzi'') (Some ''nwm'') (Some [0]) 1 (at_store t) = (r2, out, st)"
    by (metis prod_cases3)
  ultimately show ?thesis by (simp add: load_mode_def Let_def)
qed

lemma register_password: "password (snd (rzi_at_register E cs n s)) = password s"
  by (simp add: rzi_at_register_def Let_def)

lemma mode_register_password: "password (snd (rzi_at_network_mode_register E s)) = password s"
proof -
  obtain r1 t where t: "load_mode E s = (r1, t)" by fastforce
  obtain r2 u where u: "rzi_at_register E (Some [nwm_command E]) 1 t = (r2, u)" by fastforce
  have "password t = password s" "password u = password t"
    using load_mode_password [of E s] register_password [of E "Some [nwm_command E]" 1 t] t u by simp_all
  then show ?thesis using t u by (simp add: rzi_at_network_mode_register_def rzi_at_registry_add_extension_def)
qed

text \<open>The command packages of the radio services do not touch the password.\<close>

definition packages_keep_password :: "('d, ('d, 'u, 'm) sys_state_scheme, 'u, 'e) sys_env_scheme \<Rightarrow> bool" where
  "packages_keep_password E \<longleftrightarrow> (\<forall>s. password (snd (rzi_at_lorawan_register E s)) = password s)
     \<and> (\<forall>s. password (snd (rzi_at_lora_register E s)) = password s)"

lemma seq_ok_keeps:
  assumes "\<And>s. fld (snd (m s)) = fld s" and "\<And>s. fld (snd (k s)) = fld s"
  shows "fld (snd (seq_ok m k s)) = fld s"
proof -
  obtain rc t where "m s = (rc, t)" by fastforce
  with assms(1) [of s] assms(2) show ?thesis by (simp add: seq_ok_def)
qed

lemma restart_password:
  assumes "registered r = []" and "\<not> sealed r" and "25 \<le> cfg_max_commands E" and "packages_keep_password E"
    and "storage_inv E view (at_store r)" and "storage_ready (at_store r)"
    and "look view (at_store r) ''rzi'' ''pword'' = Some (char_array (ALIAS_MAX + 1) v)" and "cfg_at_nvm E"
    and "v \<noteq> []" and "length v \<le> 8" and "CHR 0x00 \<notin> set v"
  shows "password (snd (rzi_at_builtin_register E r)) = v"
proof -
  define t where "t = r\<lparr>registered := commands\<rparr>"
  have t: "rzi_at_register E (Some commands) (length commands) r = (0, t)"
    using assms(1-3) by (simp add: rzi_at_register_def commands_check commands_length Let_def t_def)
  have n: "name_ok ''rzi'' ''alias''" "name_ok ''rzi'' ''sn''" "name_ok ''rzi'' ''pword''" by (simp_all add: name_ok_def valid_component_def)
  have st: "at_store t = at_store r" by (simp add: t_def)
  obtain r1 d1 where l1: "load_string E ''alias'' (alias_name t) ALIAS_MAX t = (r1, d1, t)"
    using load_string_store [of E view t "''alias''" "alias_name t" ALIAS_MAX] n assms(5,6) st by auto
  obtain r2 d2 where l2: "load_string E ''sn'' (serial_number t) SN_MAX (t\<lparr>alias_name := d1\<rparr>) = (r2, d2, t\<lparr>alias_name := d1\<rparr>)"
    using load_string_store [of E view "t\<lparr>alias_name := d1\<rparr>" "''sn''" "serial_number t" SN_MAX] n assms(5,6) st by auto
  define w where "w = t\<lparr>alias_name := d1, serial_number := d2\<rparr>"
  have l3: "load_string E ''pword'' [] 8 w = (0, v, w)"
    by (rule load_string_look [where view = view]) (use assms n(3) in \<open>simp_all add: w_def st\<close>)
  have "password (snd (rzi_at_builtin_register E r)) = password (w\<lparr>password := v\<rparr>)"
    unfolding rzi_at_builtin_register_def
    using assms(4,9,10) t l1 l2 l3 by (simp add: Let_def rzi_at_set_password_def seq_ok_keeps seq_ok_zero
        mode_register_password packages_keep_password_def flip: w_def)
  then show ?thesis by simp
qed

lemma pword_stored:
  assumes "storage_inv E view (at_store s)" and "storage_ready (at_store s)" and "cfg_at_nvm E" and "\<not> locked s"
    and "handle_pword E \<lparr>req_operation = OP_WRITE, req_argument = Some v\<rparr> s = (0, t)"
  shows "v \<noteq> [] \<and> length v \<le> 8 \<and> password t = v \<and> storage_inv E view (at_store t) \<and> storage_ready (at_store t)
    \<and> look view (at_store t) ''rzi'' ''pword'' = Some (char_array (ALIAS_MAX + 1) v)"
proof -
  have n: "name_ok ''rzi'' ''pword''" by (simp add: name_ok_def valid_component_def)
  have v: "v \<noteq> []" "length v \<le> 8" using assms(4,5) by (auto simp: handle_pword_def rzi_at_is_locked_def Let_def split: if_splits)
  obtain rc u where u: "save_string E ''pword'' v 8 s = (rc, u)" by fastforce
  have p: "rc = 0" "t = snd (rzi_at_respond_status E STATUS_OK (u\<lparr>password := v\<rparr>))"
    using assms(4,5) v u by (auto simp: handle_pword_def rzi_at_is_locked_def rzi_at_set_password_def Let_def split: if_splits)
  have "password t = v" "at_store t = at_store u" by (simp_all add: p(2) respond_unchanged log_free_def)
  then show ?thesis using v save_string_look [OF assms(1-3) n v(2), of u] u p(1) by simp
qed

section \<open>A reference instance\<close>

definition sys_mem_env :: "(string \<rightharpoonup> bytes, 's, unit) sys_env" where
  "sys_mem_env = mem_env False \<lparr>cfg_line_max = 600, cfg_tx_size = 640, cfg_max_commands = 160, cfg_max_extensions = 4,
     cfg_at_echo = True, ring_buf_put = (\<lambda>d r. (length d, r @ d)), ring_buf_get = (\<lambda>k r. (take k r, drop k r)),
     run_write = (\<lambda>w t u l. 0), run_handler = (\<lambda>h q u s. (0, s)), run_start = (\<lambda>h s. (0, s)),
     run_process = (\<lambda>h s. s), run_factory_reset = (\<lambda>h s. (0, s)),
     cfg_at_nvm = True, cfg_command_lorawan = True, cfg_command_lora = True, cfg_ztest = False, long_max = 2147483647,
     run_listener = (\<lambda>l m s. (0, s)), nwm_handler = 23, nwm_reset_hook = 0,
     device_is_ready = (\<lambda>u. True), uart_irq_callback_user_data_set = (\<lambda>u c d. (0, d)), uart_irq_rx_enable = (\<lambda>u d. d),
     uart_irq_update = (\<lambda>u d. d), uart_irq_rx_ready = (\<lambda>u d. False), uart_fifo_read = (\<lambda>u n d. (0, [], d)),
     uart_poll_out = (\<lambda>u b d. d), uart_config_get = (\<lambda>u d. (- EIO, \<lparr>baudrate = 0, parity = 0, stop_bits = 0, data_bits = 0, flow_ctrl = 0\<rparr>)),
     uart_configure = (\<lambda>u c d. (- EIO, d)),
     cfg_power = True, cfg_pm = True, cfg_adapter_uart = True, cfg_hwinfo = True, cfg_bt = False,
     config_board = ''rak3172'', config_soc = ''stm32wle5'', build_date = ''Jan  1 2026'', build_time = ''00:00:00'',
     hwinfo_get_device_id = (8, [1, 2, 3, 4, 5, 6, 7, 8]), bt_id_get = [],
     rzi_at_lorawan_register = Pair 0, rzi_at_lora_register = Pair 0\<rparr>"

definition sys_ref_env :: "(string \<rightharpoonup> bytes, (string \<rightharpoonup> bytes, unit) sys_state, unit) sys_env" where
  "sys_ref_env = sys_mem_env"

definition sys_ref_state :: "(string \<rightharpoonup> bytes, unit) sys_state" where
  "sys_ref_state = at_state.extend (at_ref_state\<lparr>registered := commands, password := ''12345678''\<rparr>)
     \<lparr>network_mode = 1, listeners = [], active_uart = Some 0, current_baud = 115200, uart_dev = (),
      alias_name = [], serial_number = [], lpm_level = 1\<rparr>"

lemma sys_ref_facts:
  "system_registered sys_ref_state" "\<forall>h s. locked (snd (run_factory_reset sys_ref_env h s)) = locked s"
  "packages_keep_password sys_ref_env" "storage_inv sys_ref_env (\<lambda>d. d) (at_store sys_ref_state)"
  "storage_ready (at_store sys_ref_state)" "cfg_at_nvm sys_ref_env"
proof -
  have "distinct (map cmd_name commands)" by code_simp
  then show "system_registered sys_ref_state" by (simp add: system_registered_def sys_ref_state_def at_state.defs)
  show "storage_inv sys_ref_env (\<lambda>d. d) (at_store sys_ref_state)"
    by (simp add: sys_ref_env_def sys_mem_env_def sys_ref_state_def at_state.defs at_ref_state_def mem_state_inv)
  show "storage_ready (at_store sys_ref_state)"
    by (simp add: sys_ref_state_def at_state.defs at_ref_state_def mem_state_ready)
qed (simp_all add: sys_ref_env_def sys_mem_env_def mem_env_def packages_keep_password_def)

section \<open>Properties\<close>

text \<open>
  C4. Only the password unlocks the port: in a locked port, executing a line leaves it locked unless
  the line is the write form of \<^verbatim>\<open>AT+PWORD\<close> (in any case of letters) with exactly the password, and
  that line unlocks it. In particular a port locked with the empty password, or with one that contains
  a question mark, stays locked until a reboot.
\<close>

theorem at_unlock_needs_password:
  assumes "system_registered s" and "\<forall>h s. locked (snd (run_factory_reset E h s)) = locked s" and "locked s"
  shows "\<not> locked (execute (link_system E) input s) \<longleftrightarrow>
    (\<exists>pre raw. input = pre @ raw @ ''='' @ password s \<and> uppercase_name pre = ''AT+''
       \<and> uppercase_name raw = ''PWORD'' \<and> password s \<noteq> [] \<and> CHR ''?'' \<notin> set (password s))"
  using execute_locked [OF assms, of input] unlocks_iff [of "password s" input] by blast

theorem at_unlock_needs_password_witness:
  "\<not> locked (execute (link_system sys_ref_env) ''at+pword=12345678'' (sys_ref_state\<lparr>locked := True\<rparr>))"
proof -
  let ?s = "sys_ref_state\<lparr>locked := True\<rparr>"
  have "system_registered ?s" using sys_ref_facts(1) by (simp add: system_registered_def)
  moreover have "''at+pword=12345678'' = ''at+'' @ ''pword'' @ ''='' @ password ?s" "password ?s \<noteq> []" "CHR ''?'' \<notin> set (password ?s)"
    by (simp_all add: sys_ref_state_def at_state.defs)
  moreover have "uppercase_name ''at+'' = ''AT+''" "uppercase_name ''pword'' = ''PWORD''" by code_simp+
  ultimately show ?thesis
    using at_unlock_needs_password [of ?s sys_ref_env "''at+pword=12345678''"] sys_ref_facts(2) by auto
qed

text \<open>
  The lock does not keep its secret: in a locked port the line \<^verbatim>\<open>AT+PWORD=?\<close> is executed and its
  answer, when it fits the transmit buffer, contains the password in clear.
\<close>

theorem at_password_disclosed:
  assumes "system_registered s" and "locked s" and "at_started s" and "length (password s) + 19 < cfg_tx_size E"
    and "\<forall>w msg u log. run_write E w msg u log = 0"
  shows "tx_log (execute (link_system E) ''AT+PWORD=?'' s)
    = tx_log s @ [crlf @ ''AT+PWORD='' @ password s @ crlf @ ''OK'' @ crlf]"
proof -
  have k: "uppercase_name ''AT+PWORD=?'' \<notin> set keywords_at" by code_simp
  have p: "parse_body (drop 3 ''AT+PWORD=?'') = Some (OP_READ, ''PWORD'', None)" "uppercase_name (take 3 ''AT+PWORD=?'') = ''AT+''"
    by code_simp+
  have f: "cfg_tx_size (link_hooks E) = cfg_tx_size E" "run_write (link_hooks E) = run_write E"
    by (simp_all add: link_hooks_def)
  have d: "rzi_at_dispatch (link_system E) ''PWORD'' OP_READ None s = rzi_at_respond_value (link_hooks E) (''AT+PWORD='' @ password s) s"
    by (simp add: rzi_at_dispatch_def find_pword [OF assms(1)] system_command_def link_handlers handle_pword_def rzi_at_password_def)
  have r: "rzi_at_respond_value (link_hooks E) (''AT+PWORD='' @ password s) s
      = (0, s\<lparr>tx_log := tx_log s @ [crlf @ ''AT+PWORD='' @ password s @ crlf @ ''OK'' @ crlf]\<rparr>)"
    using assms(3-5) by (simp add: rzi_at_respond_value_def write_formatted_def write_all_def f crlf_def)
  show ?thesis unfolding execute_command [OF k] p using assms(2) d r by (simp add: respond_for_error_def)
qed

theorem at_password_disclosed_witness:
  "tx_log (execute (link_system sys_ref_env) ''AT+PWORD=?'' (sys_ref_state\<lparr>locked := True\<rparr>))
    = [crlf @ ''AT+PWORD=12345678'' @ crlf @ ''OK'' @ crlf]"
proof -
  let ?s = "sys_ref_state\<lparr>locked := True\<rparr>"
  have "system_registered ?s" using sys_ref_facts(1) by (simp add: system_registered_def)
  then show ?thesis using at_password_disclosed [of ?s sys_ref_env]
    by (simp add: sys_ref_state_def at_state.defs at_ref_state_def sys_ref_env_def sys_mem_env_def mem_env_def)
qed

text \<open>
  The password survives a restart: after an \<^verbatim>\<open>AT+PWORD\<close> write that succeeded on an unlocked port,
  the start of the service on the same storage registers the commands and takes up that password.
\<close>

theorem at_password_survives:
  assumes "storage_inv E view (at_store s)" and "storage_ready (at_store s)" and "cfg_at_nvm E" and "\<not> locked s"
    and "CHR 0x00 \<notin> set v" and "handle_pword E \<lparr>req_operation = OP_WRITE, req_argument = Some v\<rparr> s = (0, t)"
    and "at_store r = at_store t" and "registered r = []" and "\<not> sealed r" and "25 \<le> cfg_max_commands E"
    and "packages_keep_password E"
  shows "password t = v \<and> password (snd (rzi_at_builtin_register E r)) = v"
proof -
  note p = pword_stored [OF assms(1-4,6)]
  have "password (snd (rzi_at_builtin_register E r)) = v"
    by (rule restart_password [where view = view]) (use p assms in auto)
  with p show ?thesis by blast
qed

theorem at_password_survives_witness:
  "\<exists>t. handle_pword sys_ref_env \<lparr>req_operation = OP_WRITE, req_argument = Some ''hello''\<rparr> sys_ref_state = (0, t)
    \<and> password (snd (rzi_at_builtin_register sys_ref_env (sys_ref_state\<lparr>registered := [], sealed := False, at_store := at_store t\<rparr>))) = ''hello''"
proof -
  let ?q = "\<lparr>req_operation = OP_WRITE, req_argument = Some ''hello''\<rparr>"
  define t where "t = snd (handle_pword sys_ref_env ?q sys_ref_state)"
  have "fst (handle_pword sys_ref_env ?q sys_ref_state) = 0" by code_simp
  then have t: "handle_pword sys_ref_env ?q sys_ref_state = (0, t)" by (simp add: t_def prod_eq_iff)
  have "\<not> locked sys_ref_state" "25 \<le> cfg_max_commands sys_ref_env" by code_simp+
  then show ?thesis
    using at_password_survives [OF sys_ref_facts(4,5,6) _ _ t, of "sys_ref_state\<lparr>registered := [], sealed := False, at_store := at_store t\<rparr>"]
      sys_ref_facts(3) t by auto
qed

end
