(* ===== verification/Rzi_At_Lorawan.thy ===== *)
theory Rzi_At_Lorawan
  imports Rzi_At_System Rzi_Delegates Rzi_Mac Rzi_Channel Rzi_Registry
begin

text \<open>
  The LoRaWAN command package of the AT service, its shared part: \<^verbatim>\<open>src/at/commands/lorawan/at_lorawan.c\<close>
  without the registration, and the context of \<^verbatim>\<open>at_lorawan_priv.h\<close>.

  The state extends the AT service by the LoRaWAN service (\<open>lw\<close>) and the context of the package. Both
  services use one storage service: \<open>lw_view\<close> shows the state as the LoRaWAN service sees it, with the whole
  state behind it for the callbacks, and \<open>lw_unview\<close> takes its changes back. An uninitialised local
  variable whose address is passed has the value 0. A handler that reads \<^verbatim>\<open>request->argument\<close> without a test runs for writes
  only, whose argument is not null.
\<close>

section \<open>State\<close>

record rzi_at_lorawan_last_downlink =
  rd_valid :: bool
  rd_port :: u8
  rd_size :: nat
  rd_data :: bytes

record ('d, 'u, 'x) at_lw_state = "('d, 'u) sys_state" +
  lw :: "('d, 'x) lorawan_state"
  service_started :: bool
  join_pending :: bool
  device_class :: nat
  confirmation_status :: bool
  tx_confirmed :: bool
  last_downlink :: rzi_at_lorawan_last_downlink

text \<open>
  \<open>lwe\<close> is the environment of the LoRaWAN service. \<open>dt_defaults\<close> are the device EUI, the join EUI and the key
  of the devicetree, when all three are defined. The last fields are the function pointers of the package.
\<close>

record ('d, 's, 'u, 'x, 'l) at_lw_env = "('d, 's, 'u) sys_env" +
  lwe :: "('d, 'x, 'l) lorawan_env"
  dt_defaults :: "(bytes \<times> bytes \<times> bytes) option"
  lw_handlers :: nat
  lw_start_hook :: nat
  lw_reset_hook :: nat
  lw_callback :: nat

type_synonym ('d, 'u, 'x, 'm) lw_seen = "('d, 'x, ('d, 'u, 'x, 'm) at_lw_state_scheme) lorawan_state_scheme"
type_synonym ('d, 'u, 'x, 'm, 'e) lw_cmd_env =
  "('d, ('d, 'u, 'x, 'm) at_lw_state_scheme, 'u, 'x, ('d, 'u, 'x, 'm) lw_seen, 'e) at_lw_env_scheme"
type_synonym ('d, 'u, 'x, 'm, 'e) lw_handler =
  "('d, 'u, 'x, 'm, 'e) lw_cmd_env \<Rightarrow> rzi_at_request \<Rightarrow> ('d, 'u, 'x, 'm) at_lw_state_scheme op"

definition lw_view :: "('d, 'u, 'x, 'm) at_lw_state_scheme \<Rightarrow> ('d, 'u, 'x, 'm) lw_seen" where
  "lw_view s = lorawan_state.extend ((lw s)\<lparr>sets := (sets (lw s))\<lparr>store := at_store s\<rparr>\<rparr>) s"

definition lw_unview :: "('d, 'u, 'x, 'm) lw_seen \<Rightarrow> ('d, 'u, 'x, 'm) at_lw_state_scheme" where
  "lw_unview l = (lorawan_state.more l)\<lparr>lw := lorawan_state.truncate l, at_store := store (sets l)\<rparr>"

text \<open>Calls of the LoRaWAN service: an operation, and a query into a cell of the caller.\<close>

definition on_lw :: "('d, 'u, 'x, 'm) lw_seen op \<Rightarrow> ('d, 'u, 'x, 'm) at_lw_state_scheme op" where
  "on_lw m s = (case m (lw_view s) of (rc, l) \<Rightarrow> (rc, lw_unview l))"

definition get_lw ::
  "(('d, 'u, 'x, 'm) lw_seen, 'a) getter \<Rightarrow> 'a \<Rightarrow> ('d, 'u, 'x, 'm) at_lw_state_scheme
   \<Rightarrow> int \<times> 'a \<times> ('d, 'u, 'x, 'm) at_lw_state_scheme" where
  "get_lw g cell s = (case g (Some cell) (lw_view s) of (rc, out, l) \<Rightarrow> (rc, the out, lw_unview l))"

section \<open>Text\<close>

definition hex_nibble :: "char \<Rightarrow> int" where
  "hex_nibble v =
     (if CHR ''0'' \<le> v \<and> v \<le> CHR ''9'' then of_char v - 48
      else if CHR ''A'' \<le> v \<and> v \<le> CHR ''F'' then of_char v - 65 + 10
      else if CHR ''a'' \<le> v \<and> v \<le> CHR ''f'' then of_char v - 97 + 10
      else - 1)"

text \<open>The loop, over pairs of characters.\<close>

fun hex_pairs :: "string \<Rightarrow> bytes option" where
  "hex_pairs (a # b # rest) =
     (let high = hex_nibble a; low = hex_nibble b in
      if high < 0 \<or> low < 0 then None
      else case hex_pairs rest of None \<Rightarrow> None | Some out \<Rightarrow> Some (of_int (push_bit 4 high OR low) # out))"
| "hex_pairs _ = Some []"

definition rzi_at_lorawan_hex_to_bin :: "string \<Rightarrow> nat \<Rightarrow> int + bytes" where
  "rzi_at_lorawan_hex_to_bin hex out_len =
     (if length hex \<noteq> out_len * 2 then Inl (- RZI_ERR_INVALID)
      else case hex_pairs hex of None \<Rightarrow> Inl (- RZI_ERR_INVALID) | Some out \<Rightarrow> Inr out)"

definition rzi_at_lorawan_bin_to_hex :: "bytes \<Rightarrow> string" where
  "rzi_at_lorawan_bin_to_hex bs = concat (map hex_byte bs)"

definition rzi_at_lorawan_parse_long :: "('d, 's, 'e) mode_env_scheme \<Rightarrow> string option \<Rightarrow> int + int" where
  "rzi_at_lorawan_parse_long E argument =
     (case argument of
        None \<Rightarrow> Inl (- RZI_ERR_INVALID)
      | Some t \<Rightarrow> (case strtol (long_max E) t of
          None \<Rightarrow> Inl (- RZI_ERR_INVALID)
        | Some (v, rest) \<Rightarrow> if rest \<noteq> [] then Inl (- RZI_ERR_INVALID) else Inr v))"

definition rzi_at_lorawan_parse_bool :: "string \<Rightarrow> int + bool" where
  "rzi_at_lorawan_parse_bool argument =
     (if argument = ''0'' then Inr False else if argument = ''1'' then Inr True else Inl (- RZI_ERR_INVALID))"

definition show_int :: "int \<Rightarrow> string" where
  "show_int i = (if i < 0 then CHR ''-'' # show_nat (nat (- i)) else show_nat (nat i))"

text \<open>Division as C has it, rounding to zero.\<close>

definition c_div :: "int \<Rightarrow> int \<Rightarrow> int" where
  "c_div a b = sgn a * sgn b * (\<bar>a\<bar> div \<bar>b\<bar>)"

section \<open>Bands\<close>

definition rzi_at_lorawan_band_to_region :: "int \<Rightarrow> int + nat" where
  "rzi_at_lorawan_band_to_region band =
     (if band = 1 then Inr RZI_LORAWAN_REGION_CN_470
      else if band = 2 then Inr RZI_LORAWAN_REGION_RU_864
      else if band = 3 then Inr RZI_LORAWAN_REGION_IN_865
      else if band = 4 then Inr RZI_LORAWAN_REGION_EU_868
      else if band = 5 then Inr RZI_LORAWAN_REGION_US_915
      else if band = 6 then Inr RZI_LORAWAN_REGION_AU_915
      else if band = 7 then Inr RZI_LORAWAN_REGION_KR_920
      else if band = 8 then Inr RZI_LORAWAN_REGION_AS_923_GRP1
      else if band = 9 then Inr RZI_LORAWAN_REGION_AS_923_GRP2
      else if band = 10 then Inr RZI_LORAWAN_REGION_AS_923_GRP3
      else if band = 11 then Inr RZI_LORAWAN_REGION_AS_923_GRP4
      else Inl (- RZI_ERR_INVALID))"

definition rzi_at_lorawan_region_to_band :: "nat \<Rightarrow> int" where
  "rzi_at_lorawan_region_to_band region =
     (if region = RZI_LORAWAN_REGION_CN_470 then 1
      else if region = RZI_LORAWAN_REGION_RU_864 then 2
      else if region = RZI_LORAWAN_REGION_IN_865 then 3
      else if region = RZI_LORAWAN_REGION_EU_868 then 4
      else if region = RZI_LORAWAN_REGION_US_915 then 5
      else if region = RZI_LORAWAN_REGION_AU_915 then 6
      else if region = RZI_LORAWAN_REGION_KR_920 then 7
      else if region = RZI_LORAWAN_REGION_AS_923_GRP1 then 8
      else if region = RZI_LORAWAN_REGION_AS_923_GRP2 then 9
      else if region = RZI_LORAWAN_REGION_AS_923_GRP3 then 10
      else if region = RZI_LORAWAN_REGION_AS_923_GRP4 then 11
      else 4)"

section \<open>The service\<close>

definition at_event :: "('d, 'u, 'x, 'm, 'e) lw_cmd_env \<Rightarrow> string \<Rightarrow> ('d, 'u, 'x, 'm) at_lw_state_scheme \<Rightarrow> ('d, 'u, 'x, 'm) at_lw_state_scheme" where
  "at_event E text s = snd (rzi_at_publish_event E text s)"

definition rzi_at_lorawan_apply_class :: "('d, 'u, 'x, 'm, 'e) lw_cmd_env \<Rightarrow> ('d, 'u, 'x, 'm) at_lw_state_scheme op" where
  "rzi_at_lorawan_apply_class E s =
     (if \<not> service_started s \<or> device_class s = RZI_LORAWAN_CLASS_A then (0, s)
      else on_lw (rzi_lorawan_set_class (lwe E) (device_class s)) s)"

definition rzi_at_lorawan_is_joined ::
  "('d, 'u, 'x, 'm, 'e) lw_cmd_env \<Rightarrow> ('d, 'u, 'x, 'm) at_lw_state_scheme \<Rightarrow> bool \<times> ('d, 'u, 'x, 'm) at_lw_state_scheme" where
  "rzi_at_lorawan_is_joined E s =
     (if \<not> service_started s then (False, s)
      else case get_lw (rzi_lorawan_is_joined (lwe E)) False s of (rc, joined, t) \<Rightarrow> (rc = 0 \<and> joined, t))"

definition start_service :: "('d, 'u, 'x, 'm, 'e) lw_cmd_env \<Rightarrow> ('d, 'u, 'x, 'm) at_lw_state_scheme op" where
  "start_service E s =
     (case get_lw (rzi_lorawan_get_region (lwe E)) 0 s of (rc, region, t) \<Rightarrow>
        if rc \<noteq> 0 then (rc, t)
        else case on_lw (rzi_lorawan_init (lwe E) region) (t\<lparr>join_pending := True\<rparr>) of (rc, u) \<Rightarrow>
          if rc \<noteq> 0 then (rc, u\<lparr>join_pending := False\<rparr>) else (0, u\<lparr>service_started := True\<rparr>))"

definition rzi_at_lorawan_join_start :: "('d, 'u, 'x, 'm, 'e) lw_cmd_env \<Rightarrow> ('d, 'u, 'x, 'm) at_lw_state_scheme op" where
  "rzi_at_lorawan_join_start E s =
     (if \<not> service_started s then start_service E s
      else case rzi_at_lorawan_is_joined E s of (joined, t) \<Rightarrow>
        if joined then (0, at_event E ''JOINED'' t)
        else on_lw (rzi_lorawan_join (lwe E) 1 RZI_LORAWAN_JOIN_KEEP RZI_LORAWAN_JOIN_KEEP RZI_LORAWAN_JOIN_KEEP) t)"

definition rzi_at_lorawan_join_stop :: "('d, 'u, 'x, 'm, 'e) lw_cmd_env \<Rightarrow> ('d, 'u, 'x, 'm) at_lw_state_scheme op" where
  "rzi_at_lorawan_join_stop E s =
     (let t = s\<lparr>join_pending := False\<rparr> in if service_started t then on_lw (rzi_lorawan_leave (lwe E)) t else (0, t))"

definition continue_pending_join ::
  "('d, 'u, 'x, 'm, 'e) lw_cmd_env \<Rightarrow> ('d, 'u, 'x, 'm) at_lw_state_scheme \<Rightarrow> ('d, 'u, 'x, 'm) at_lw_state_scheme" where
  "continue_pending_join E s =
     (if \<not> join_pending s then s
      else case rzi_at_lorawan_apply_class E (s\<lparr>join_pending := False\<rparr>) of (rc, t) \<Rightarrow>
        if rc \<noteq> 0 then at_event E ''JOIN_FAILED_RX_TIMEOUT'' t
        else case on_lw (rzi_lorawan_join (lwe E) 1 RZI_LORAWAN_JOIN_KEEP RZI_LORAWAN_JOIN_KEEP RZI_LORAWAN_JOIN_KEEP) t of (rc, u) \<Rightarrow>
          if rc \<noteq> 0 then at_event E ''JOIN_FAILED_RX_TIMEOUT'' u else u)"

abbreviation (input) RZI_LORAWAN_EVENT_TXDONE_NOT_SENT :: nat where "RZI_LORAWAN_EVENT_TXDONE_NOT_SENT \<equiv> 2"
abbreviation (input) RZI_LORAWAN_EVENT_TXDONE_CONFIRMED :: nat where "RZI_LORAWAN_EVENT_TXDONE_CONFIRMED \<equiv> 1"

definition lw_on_event ::
  "('d, 'u, 'x, 'm, 'e) lw_cmd_env \<Rightarrow> rzi_lorawan_event \<Rightarrow> ('d, 'u, 'x, 'm) at_lw_state_scheme \<Rightarrow> ('d, 'u, 'x, 'm) at_lw_state_scheme" where
  "lw_on_event E event s =
     (case event of
        EVENT_READY \<Rightarrow> continue_pending_join E s
      | EVENT_STATE_CHANGED st \<Rightarrow> if st = STATE_READY then continue_pending_join E s else s
      | EVENT_JOINED \<Rightarrow> at_event E ''JOINED'' s
      | EVENT_JOIN_FAILED err \<Rightarrow> at_event E ''JOIN_FAILED_RX_TIMEOUT'' s
      | EVENT_TXDONE tx \<Rightarrow>
          if \<not> tx_confirmed s then at_event E ''TX_DONE'' s
          else if tx_status tx = RZI_LORAWAN_EVENT_TXDONE_CONFIRMED
            then at_event E ''SEND_CONFIRMED_OK'' (s\<lparr>confirmation_status := True\<rparr>)
          else if tx_status tx = RZI_LORAWAN_EVENT_TXDONE_NOT_SENT
            then at_event E ''SEND_CONFIRMED_FAILED'' (s\<lparr>confirmation_status := False\<rparr>)
          else at_event E ''TX_DONE'' s
      | EVENT_DOWNDATA dl \<Rightarrow>
          let payload = take (dl_size dl) (dl_data dl);
              t = s\<lparr>last_downlink := \<lparr>rd_valid = True, rd_port = dl_port dl, rd_size = dl_size dl, rd_data = payload\<rparr>\<rparr>
          in at_event E (''RX_1:'' @ show_int (dl_rssi_dbm dl) @ '':'' @ show_int (c_div (dl_snr_quarter_db dl) 4) @ '':UNICAST:''
               @ show_nat (unat (dl_port dl)) @ '':'' @ rzi_at_lorawan_bin_to_hex payload) t
      | _ \<Rightarrow> s)"

section \<open>The extension\<close>

text \<open>A default is stored when the identity has no value.\<close>

definition store_default ::
  "(('d, 'u, 'x, 'm) lw_seen, bytes) getter \<Rightarrow> (bytes option \<Rightarrow> ('d, 'u, 'x, 'm) lw_seen op) \<Rightarrow> bytes
   \<Rightarrow> ('d, 'u, 'x, 'm) at_lw_state_scheme op" where
  "store_default get put val s =
     (case get_lw get (replicate (length val) 0) s of (rc, stored, t) \<Rightarrow>
        if rc = - RZI_ERR_NO_DATA then on_lw (put (Some val)) t else (0, t))"

definition extension_start :: "('d, 'u, 'x, 'm, 'e) lw_cmd_env \<Rightarrow> ('d, 'u, 'x, 'm) at_lw_state_scheme op" where
  "extension_start E s =
     (let L = lwe E in
      seq_ok (case dt_defaults E of
          None \<Rightarrow> Pair 0
        | Some (eui, join, key) \<Rightarrow>
            seq_ok (store_default (rzi_lorawan_get_dev_eui L) (rzi_lorawan_set_dev_eui L) eui)
              (seq_ok (store_default (rzi_lorawan_get_app_eui L) (rzi_lorawan_set_app_eui L) join)
                (store_default (rzi_lorawan_get_app_key L) (rzi_lorawan_set_app_key L) key)))
        (seq_ok (on_lw (rzi_lorawan_register_callbacks (Some \<lparr>cb_on_event = Some (lw_callback E), cb_user_data = 0\<rparr>)))
          (\<lambda>t. case get_lw (rzi_lorawan_get_auto_join L) False t of (rc, auto, u) \<Rightarrow>
             if rc = 0 \<and> auto \<and> rzi_at_network_mode_get u = RZI_AT_NETWORK_MODE_LORAWAN
             then (case rzi_at_lorawan_join_start E u of (rc, v) \<Rightarrow>
                     (0, if rc \<noteq> 0 then at_event E ''JOIN_FAILED_RX_TIMEOUT'' v else v))
             else (0, u))) s)"

definition delete_stored_key :: "('d, 'u, 'x, 'm, 'e) lw_cmd_env \<Rightarrow> string \<Rightarrow> string \<Rightarrow> ('d, 'u, 'x, 'm) at_lw_state_scheme op" where
  "delete_stored_key E namespace_name key s =
     (case on_store (rzi_storage_delete E (Some namespace_name) (Some key)) s of (rc, t) \<Rightarrow>
        (if rc = 0 \<or> rc = - RZI_ERR_NOT_FOUND then 0 else rc, t))"

fun delete_each :: "('d, 'u, 'x, 'm, 'e) lw_cmd_env \<Rightarrow> string list \<Rightarrow> int \<Rightarrow> ('d, 'u, 'x, 'm) at_lw_state_scheme op" where
  "delete_each E [] result s = (result, s)"
| "delete_each E (key # ks) result s =
     (case delete_stored_key E ''rzi'' key s of (rc, t) \<Rightarrow>
        delete_each E ks (if rc \<noteq> 0 \<and> result = 0 then rc else result) t)"

definition lw_factory_reset :: "('d, 'u, 'x, 'm, 'e) lw_cmd_env \<Rightarrow> ('d, 'u, 'x, 'm) at_lw_state_scheme op" where
  "lw_factory_reset E s =
     (case on_lw (rzi_lorawan_clear_settings (lwe E)) s of (result, t) \<Rightarrow>
        if cfg_at_nvm E then delete_each E [''alias'', ''sn'', ''pword'', ''lpm''] result t else (result, t))"

section \<open>Hexadecimal text\<close>

text \<open>A notation for values: what it shows it reads back, and it rejects with one code.\<close>

locale text_codec =
  fixes shown :: "'a \<Rightarrow> string" and parse :: "string \<Rightarrow> int + 'a" and valid :: "'a \<Rightarrow> bool"
  assumes parse_shown: "valid v \<Longrightarrow> parse (shown v) = Inr v"
    and parse_error: "parse t = Inl rc \<Longrightarrow> rc = - RZI_ERR_INVALID"
begin

lemma shown_inject: "valid v \<Longrightarrow> valid w \<Longrightarrow> shown v = shown w \<Longrightarrow> v = w"
  by (metis parse_shown sum.inject(2))

lemma parse_cases:
  obtains "parse t = Inl (- RZI_ERR_INVALID)" | v where "parse t = Inr v"
  by (metis parse_error sum.exhaust)

end

lemma nibble_digit: "d < 16 \<Longrightarrow> hex_nibble (hex_digits ! d) = int d"
proof -
  have "list_all (\<lambda>d. hex_nibble (hex_digits ! d) = int d) [0..<16]" by code_simp
  then show "d < 16 \<Longrightarrow> ?thesis" by (simp add: list_all_iff)
qed

lemma char_range:
  assumes "a \<le> c" and "c \<le> b" and "list_all P (map char_of [of_char a..<Suc (of_char b)])"
  shows "P (c :: char)"
proof -
  have "(of_char c :: nat) \<in> set [of_char a..<Suc (of_char b)]" using assms(1,2) unfolding less_eq_char_def set_upt atLeastLessThan_iff less_Suc_eq_le by blast
  then have "char_of (of_char c :: nat) \<in> set (map char_of [of_char a..<Suc (of_char b)])" by (metis image_eqI set_map)
  then have "c \<in> set (map char_of [of_char a..<Suc (of_char b)])" by (simp only: char_of_char)
  then show ?thesis using assms(3) unfolding list_all_iff by blast
qed

lemma digit_nibble:
  "hex_nibble c \<ge> 0 \<longrightarrow> hex_nibble c < 16 \<and> hex_digits ! nat (hex_nibble c) = to_upper c" (is "?P c")
proof -
  consider "CHR ''0'' \<le> c \<and> c \<le> CHR ''9''" | "CHR ''A'' \<le> c \<and> c \<le> CHR ''F''" | "CHR ''a'' \<le> c \<and> c \<le> CHR ''f''"
    | "\<not> (CHR ''0'' \<le> c \<and> c \<le> CHR ''9'')" "\<not> (CHR ''A'' \<le> c \<and> c \<le> CHR ''F'')" "\<not> (CHR ''a'' \<le> c \<and> c \<le> CHR ''f'')"
    by blast
  then show ?thesis
  proof cases
    case 1
    then have "CHR ''0'' \<le> c" "c \<le> CHR ''9''" by simp_all
    then show ?thesis by (rule char_range) code_simp
  next
    case 2
    then have "CHR ''A'' \<le> c" "c \<le> CHR ''F''" by simp_all
    then show ?thesis by (rule char_range) code_simp
  next
    case 3
    then have "CHR ''a'' \<le> c" "c \<le> CHR ''f''" by simp_all
    then show ?thesis by (rule char_range) code_simp
  next
    case 4
    then have "hex_nibble c = - 1" by (simp only: hex_nibble_def if_False)
    then show ?thesis by simp
  qed
qed

lemma upper_nibble: "hex_nibble (to_upper c) = hex_nibble c"
proof (cases "CHR ''a'' \<le> c \<and> c \<le> CHR ''z''")
  case True
  then have "CHR ''a'' \<le> c" "c \<le> CHR ''z''" by simp_all
  then show ?thesis by (rule char_range) code_simp
qed (simp only: to_upper_def if_False)

lemma nibbles_or:
  assumes "0 \<le> low" and "low < 16"
  shows "push_bit 4 high OR low = high * 16 + (low :: int)"
proof -
  have "push_bit 4 high OR low = push_bit 4 high + low"
  proof (rule disjunctive_add [symmetric])
    fix n
    have "low = take_bit 4 low" using assms by (simp add: take_bit_int_eq_self)
    then have "\<not> bit low n" if "4 \<le> n" using that by (metis bit_take_bit_iff not_le)
    then show "\<not> bit (push_bit 4 high) n \<or> \<not> bit low n" by (auto simp: bit_push_bit_iff)
  qed
  then show ?thesis by (simp add: push_bit_eq_mult)
qed

lemma unat_high: "unat (drop_bit 4 (b :: u8)) = unat b div 16"
  by (rule trans [OF unat_drop_bit_eq]) (simp add: drop_bit_eq_div)

lemma unat_low: "unat ((b :: u8) AND 0x0f) = unat b mod 16"
proof -
  have "(0x0f :: u8) = mask 4" by (simp add: mask_eq_exp_minus_1)
  then have "b AND 0x0f = take_bit 4 b" by (simp only: take_bit_eq_mask)
  moreover have "unat (take_bit 4 b) = take_bit 4 (unat b)" by (simp only: unsigned_take_bit_eq)
  ultimately show ?thesis by (simp only: take_bit_eq_mod) simp
qed

lemma byte_nibbles:
  "unat (drop_bit 4 (b :: u8)) < 16" "unat (b AND 0x0f) < 16"
  "(of_int (int (unat (drop_bit 4 b)) * 16 + int (unat (b AND 0x0f))) :: u8) = b"
proof -
  note d = unat_high [of b] and m = unat_low [of b]
  have "unat b < 256" using unsigned_less [of b] by simp
  then show "unat (drop_bit 4 b) < 16" "unat (b AND 0x0f) < 16" unfolding d m by simp_all
  have "int (unat b div 16) * 16 + int (unat b mod 16) = int (unat b)" by (metis div_mult_mod_eq of_nat_add of_nat_mult of_nat_numeral)
  then show "(of_int (int (unat (drop_bit 4 b)) * 16 + int (unat (b AND 0x0f))) :: u8) = b" unfolding d m by simp
qed

lemma nibbles_byte:
  assumes "0 \<le> h" and "h < 16" and "0 \<le> l" and "l < 16"
  shows "unat (drop_bit 4 (of_int (h * 16 + l) :: u8)) = nat h" "unat ((of_int (h * 16 + l) :: u8) AND 0x0f) = nat l"
proof -
  define b :: u8 where "b = of_int (h * 16 + l)"
  have "uint b = h * 16 + l" unfolding b_def uint_word_of_int of_int_eq_id id_apply using assms by (simp add: take_bit_int_eq_self)
  then have u: "unat b = nat (h * 16 + l)" by (simp add: unat_eq_nat_uint)
  then show "unat (drop_bit 4 (of_int (h * 16 + l) :: u8)) = nat h" "unat ((of_int (h * 16 + l) :: u8) AND 0x0f) = nat l"
    using assms unfolding b_def [symmetric] unat_high unat_low by (simp_all add: nat_add_distrib nat_mult_distrib)
qed

lemma length_hex_byte [simp]: "length (hex_byte b) = 2"
  by (simp add: hex_byte_def)

lemma length_bin_to_hex [simp]: "length (rzi_at_lorawan_bin_to_hex bs) = length bs * 2"
  by (induction bs) (simp_all add: rzi_at_lorawan_bin_to_hex_def)

lemma bin_to_hex_simps [simp]:
  "rzi_at_lorawan_bin_to_hex [] = []"
  "rzi_at_lorawan_bin_to_hex (b # bs)
    = hex_digits ! unat (drop_bit 4 b) # hex_digits ! unat (b AND 0x0f) # rzi_at_lorawan_bin_to_hex bs"
  by (simp_all add: rzi_at_lorawan_bin_to_hex_def hex_byte_def)

lemma hex_pairs_upper: "hex_pairs (uppercase_name t) = hex_pairs t"
  by (induction t rule: hex_pairs.induct) (simp_all add: uppercase_name_def upper_nibble Let_def)

lemma hex_pairs_shown: "hex_pairs (rzi_at_lorawan_bin_to_hex bs) = Some bs"
proof (induction bs)
  case (Cons b bs)
  have "hex_nibble (hex_digits ! unat (drop_bit 4 b)) = int (unat (drop_bit 4 b))"
    "hex_nibble (hex_digits ! unat (b AND 0x0f)) = int (unat (b AND 0x0f))"
    using byte_nibbles(1,2) nibble_digit by blast+
  moreover have "of_int (push_bit 4 (int (unat (drop_bit 4 b))) OR int (unat (b AND 0x0f))) = b"
    by (subst nibbles_or) (use byte_nibbles [of b] in \<open>simp_all only: of_nat_0_le_iff of_nat_less_numeral_iff\<close>)
  ultimately show ?case using Cons.IH by (simp add: Let_def del: of_int_of_nat_eq)
qed simp

lemma hex_pairs_sound:
  "hex_pairs t = Some bs \<Longrightarrow> even (length t) \<Longrightarrow> uppercase_name t = rzi_at_lorawan_bin_to_hex bs"
proof (induction t arbitrary: bs rule: hex_pairs.induct)
  case (1 a b rest)
  from "1.prems"(1) obtain out where o: "hex_nibble a \<ge> 0" "hex_nibble b \<ge> 0" "hex_pairs rest = Some out"
    "bs = of_int (push_bit 4 (hex_nibble a) OR hex_nibble b) # out"
    by (auto simp: Let_def split: if_splits option.splits)
  have n: "hex_nibble a < 16" "hex_nibble b < 16" "hex_digits ! nat (hex_nibble a) = to_upper a"
    "hex_digits ! nat (hex_nibble b) = to_upper b"
    using digit_nibble o(1,2) by blast+
  have "uppercase_name rest = rzi_at_lorawan_bin_to_hex out" using "1.IH" [OF refl refl _ o(3)] "1.prems"(2) o(1,2) by auto
  then show ?case using o n nibbles_byte [of "hex_nibble a" "hex_nibble b"]
    by (simp add: nibbles_or uppercase_name_def)
qed (auto simp: uppercase_name_def)

lemma hex_to_bin_iff:
  "rzi_at_lorawan_hex_to_bin t n = Inr bs \<longleftrightarrow> length bs = n \<and> uppercase_name t = rzi_at_lorawan_bin_to_hex bs"
proof
  assume "rzi_at_lorawan_hex_to_bin t n = Inr bs"
  then have p: "length t = n * 2" "hex_pairs t = Some bs" by (auto simp: rzi_at_lorawan_hex_to_bin_def split: if_splits option.splits)
  then have u: "uppercase_name t = rzi_at_lorawan_bin_to_hex bs" by (simp add: hex_pairs_sound)
  then have "length t = length bs * 2" by (metis length_bin_to_hex length_map uppercase_name_def)
  with p u show "length bs = n \<and> uppercase_name t = rzi_at_lorawan_bin_to_hex bs" by simp
next
  assume a: "length bs = n \<and> uppercase_name t = rzi_at_lorawan_bin_to_hex bs"
  then have "length t = n * 2" by (metis length_bin_to_hex length_map uppercase_name_def)
  moreover have "hex_pairs t = Some bs" using a hex_pairs_shown [of bs] hex_pairs_upper [of t] by simp
  ultimately show "rzi_at_lorawan_hex_to_bin t n = Inr bs" by (simp add: rzi_at_lorawan_hex_to_bin_def)
qed

interpretation hex: text_codec rzi_at_lorawan_bin_to_hex "\<lambda>t. rzi_at_lorawan_hex_to_bin t n" "\<lambda>bs. length bs = n"
proof
  fix bs :: bytes assume n: "length bs = n"
  have "hex_pairs (rzi_at_lorawan_bin_to_hex bs) = Some bs" by (rule hex_pairs_shown)
  then show "rzi_at_lorawan_hex_to_bin (rzi_at_lorawan_bin_to_hex bs) n = Inr bs" using n
    by (simp add: rzi_at_lorawan_hex_to_bin_def)
qed (auto simp: rzi_at_lorawan_hex_to_bin_def split: if_splits option.splits)

section \<open>The two services on one storage\<close>

lemma lw_view_fields [simp]:
  "credentials (lw_view s) = credentials (lw s)" "store (sets (lw_view s)) = at_store s" "table (sets (lw_view s)) = table (sets (lw s))"
  "started (lw_view s) = started (lw s)" "radio (lw_view s) = radio (lw s)" "events (lw_view s) = events (lw s)"
  "callback_slots (lw_view s) = callback_slots (lw s)" "lorawan_state.more (lw_view s) = s"
  "configured_region (lw_view s) = configured_region (lw s)" "join_sequence_active (lw_view s) = join_sequence_active (lw s)"
  by (simp_all add: lw_view_def lorawan_state.defs)

text \<open>A state that carries a given state of the LoRaWAN service.\<close>

definition carries :: "('d, 'u, 'x, 'm) at_lw_state_scheme \<Rightarrow> ('d, 'u, 'x, 'm) lw_seen \<Rightarrow> bool" where
  "carries t l \<longleftrightarrow> lw t = lorawan_state.truncate l \<and> at_store t = store (sets l)"

lemma carries_unview [simp]: "carries (lw_unview l) l"
  by (simp add: carries_def lw_unview_def)

lemma view_carries: "carries t l \<Longrightarrow> lw_view t = lorawan_state.more_update (\<lambda>_. t) l"
  by (cases l) (simp add: carries_def lw_view_def lorawan_state.defs)

lemma unview_carries: "carries t l \<Longrightarrow> lw_unview (lorawan_state.more_update (\<lambda>_. t) l) = t"
  by (cases l) (simp add: carries_def lw_unview_def lorawan_state.defs)

lemma carries_log_free: "log_free (\<lambda>t. carries t l)"
  by (simp add: log_free_def carries_def)

lemma carries_respond:
  "carries (snd (rzi_at_respond_status E st t)) l = carries t l" "carries (snd (rzi_at_respond_value E msg t)) l = carries t l"
    by (rule respond_unchanged [OF carries_log_free])+

lemma view_unview_fields [simp]:
  "sets (lw_view (lw_unview l)) = sets l" "credentials (lw_view (lw_unview l)) = credentials l"
  by (simp_all add: view_carries [OF carries_unview])

section \<open>A reference instance\<close>

definition mem_lw_env :: "(string \<rightharpoonup> bytes, bool, 'l) lorawan_env" where
  "mem_lw_env = mem_senv \<lparr>backend = ref_backend,
     k_msgq_put = (\<lambda>e q. if length q < 8 then (0, q @ [e]) else (- 35, q)),
     k_msgq_get = (\<lambda>q. case q of [] \<Rightarrow> None | e # q' \<Rightarrow> Some (e, q')),
     on_event = (\<lambda>f ev data s. s), svc_on_started = (\<lambda>i. None), svc_on_event = (\<lambda>i. None)\<rparr>"

definition at_lw_mem_env :: "'e \<Rightarrow> (string \<rightharpoonup> bytes, 's, unit, bool, 'l, 'e) at_lw_env_scheme" where
  "at_lw_mem_env e = sys_env.extend sys_mem_env \<lparr>lwe = mem_lw_env, dt_defaults = None, lw_handlers = 24,
     lw_start_hook = 1, lw_reset_hook = 1, lw_callback = 0, \<dots> = e\<rparr>"

definition at_lw_ref_env :: "(string \<rightharpoonup> bytes, unit, bool, unit, unit) lw_cmd_env" where
  "at_lw_ref_env = at_lw_mem_env ()"

definition at_lw_ref_state :: "(string \<rightharpoonup> bytes, unit, bool) at_lw_state" where
  "at_lw_ref_state = sys_state.extend sys_ref_state \<lparr>lw = ref_state, service_started = False, join_pending = False,
     device_class = RZI_LORAWAN_CLASS_A, confirmation_status = False, tx_confirmed = False,
     last_downlink = \<lparr>rd_valid = False, rd_port = 0, rd_size = 0, rd_data = []\<rparr>\<rparr>"

lemma at_lw_ref_fields [simp]:
  "lwe at_lw_ref_env = mem_lw_env" "at_store at_lw_ref_state = mem_state Map.empty" "lw at_lw_ref_state = ref_state"
  "lw_handlers at_lw_ref_env = 24" "nwm_handler at_lw_ref_env = 23" "long_max at_lw_ref_env = 2147483647" "cfg_at_nvm at_lw_ref_env"
  "cfg_tx_size at_lw_ref_env = 640" "run_write at_lw_ref_env w msg u log = 0" "cfg_max_commands at_lw_ref_env = 160" "cfg_max_extensions at_lw_ref_env = 4"
  "lw_start_hook at_lw_ref_env = 1" "lw_reset_hook at_lw_ref_env = 1" "nwm_reset_hook at_lw_ref_env = 0" "\<not> locked at_lw_ref_state" "at_started at_lw_ref_state"
  by (simp_all add: at_lw_ref_env_def at_lw_mem_env_def at_lw_ref_state_def sys_env.defs sys_state.defs sys_ref_state_def at_state.defs
      at_ref_state_def sys_mem_env_def mem_env_def)

lemma mem_lw_env_settings: "settings_inv mem_lw_env (\<lambda>d. d) D (fresh_settings d)"
  unfolding mem_lw_env_def by (rule fresh_settings_inv)

lemma at_lw_ref_inv: "cred_inv mem_lw_env (\<lambda>d. d) D (lw_view at_lw_ref_state)"
proof -
  have "sets (lw_view at_lw_ref_state) = fresh_settings Map.empty"
    by (simp add: lw_view_def lorawan_state.defs ref_state_def fresh_settings_def)
  then show ?thesis using mem_lw_env_settings [where d = Map.empty]
    by (simp add: cred_inv_def mirrors_def ref_state_def credentials_zero_def)
qed

section \<open>Properties\<close>

text \<open>
  Hexadecimal arguments are read exactly: a text is accepted as \<open>n\<close> bytes if and only if it is, up to the case of
  its letters, the text that the package prints for those bytes, and then it denotes just those bytes. So every printed
  value can be typed back, and no other text is accepted.
\<close>

theorem at_hex_exact:
  "rzi_at_lorawan_hex_to_bin text n = Inr bs
    \<longleftrightarrow> length bs = n \<and> uppercase_name text = rzi_at_lorawan_bin_to_hex bs"
  by (rule hex_to_bin_iff)

end
