(* ===== verification/Rzi_At_Lorawan_Keys.thy ===== *)
theory Rzi_At_Lorawan_Keys
  imports Rzi_At_Lorawan
begin

text \<open>
  The commands for keys and identifiers, \<^verbatim>\<open>src/at/commands/lorawan/at_lorawan_key_id.c\<close>. The user data of
  a command is the number of its \<open>key_command\<close>.
\<close>

section \<open>Handlers\<close>

text \<open>\<^verbatim>\<open>rc != 0 ? rc : rzi_at_respond_status(RZI_AT_STATUS_OK)\<close> after a call.\<close>

definition answer_ok ::
  "('d, 's, 'e) at_env_scheme \<Rightarrow> ('d, 'u, 'x, 'm) at_lw_state_scheme op \<Rightarrow> ('d, 'u, 'x, 'm) at_lw_state_scheme op" where
  "answer_ok E m = seq_ok m (rzi_at_respond_status E STATUS_OK)"

record 'l key_command =
  response_name :: string
  key_size :: nat
  key_get :: "('l, bytes) getter"
  key_put :: "bytes option \<Rightarrow> 'l op"

definition key_commands :: "('d, 'u, 'x, 'm, 'e) lw_cmd_env \<Rightarrow> ('d, 'u, 'x, 'm) lw_seen key_command list" where
  "key_commands E =
     [\<lparr>response_name = ''AT+DEVEUI'', key_size = 8,
       key_get = rzi_lorawan_get_dev_eui (lwe E), key_put = rzi_lorawan_set_dev_eui (lwe E)\<rparr>,
      \<lparr>response_name = ''AT+APPEUI'', key_size = 8,
       key_get = rzi_lorawan_get_app_eui (lwe E), key_put = rzi_lorawan_set_app_eui (lwe E)\<rparr>,
      \<lparr>response_name = ''AT+APPKEY'', key_size = 16,
       key_get = rzi_lorawan_get_app_key (lwe E), key_put = rzi_lorawan_set_app_key (lwe E)\<rparr>,
      \<lparr>response_name = ''AT+NWKSKEY'', key_size = 16,
       key_get = rzi_lorawan_get_nwk_skey (lwe E), key_put = rzi_lorawan_set_nwk_skey (lwe E)\<rparr>,
      \<lparr>response_name = ''AT+APPSKEY'', key_size = 16,
       key_get = rzi_lorawan_get_app_skey (lwe E), key_put = rzi_lorawan_set_app_skey (lwe E)\<rparr>]"

definition handle_key :: "('d, 'u, 'x, 'm, 'e) lw_cmd_env \<Rightarrow> nat \<Rightarrow> rzi_at_request \<Rightarrow> ('d, 'u, 'x, 'm) at_lw_state_scheme op" where
  "handle_key E user_data request s =
     (let command = key_commands E ! user_data in
      if req_operation request = OP_READ then
        (case get_lw (key_get command) (replicate (key_size command) 0) s of (rc, v, t) \<Rightarrow>
           if rc \<noteq> 0 \<and> rc \<noteq> - RZI_ERR_NO_DATA then (rc, t)
           else let v = (if rc = - RZI_ERR_NO_DATA then replicate (key_size command) 0 else v) in
             rzi_at_respond_value E (response_name command @ ''='' @ rzi_at_lorawan_bin_to_hex v) t)
      else case rzi_at_lorawan_hex_to_bin (the (req_argument request)) (key_size command) of
        Inl rc \<Rightarrow> (rc, s)
      | Inr v \<Rightarrow> answer_ok E (on_lw (key_put command (Some v))) s)"

definition put_be32 :: "u32 \<Rightarrow> bytes" where
  "put_be32 w = rev (put_le32 w)"

definition get_be32 :: "bytes \<Rightarrow> u32" where
  "get_be32 bs = get_le32 (rev bs)"

definition handle_devaddr :: "('d, 'u, 'x, 'm, 'e) lw_handler" where
  "handle_devaddr E request s =
     (if req_operation request = OP_READ then
        (case get_lw (rzi_lorawan_get_dev_addr (lwe E)) 0 s of (rc, addr, t) \<Rightarrow>
           if rc \<noteq> 0 \<and> rc \<noteq> - RZI_ERR_NO_DATA then (rc, t)
           else let addr = (if rc = - RZI_ERR_NO_DATA then 0 else addr) in
             rzi_at_respond_value E (''AT+DEVADDR='' @ rzi_at_lorawan_bin_to_hex (put_be32 addr)) t)
      else case rzi_at_lorawan_hex_to_bin (the (req_argument request)) 4 of
        Inl rc \<Rightarrow> (rc, s)
      | Inr v \<Rightarrow> answer_ok E (on_lw (rzi_lorawan_set_dev_addr (lwe E) (get_be32 v))) s)"

definition handle_netid :: "('d, 'u, 'x, 'm, 'e) lw_handler" where
  "handle_netid E request s =
     (if req_operation request = OP_READ then
        (case get_lw (rzi_lorawan_get_net_id (lwe E)) 0 s of (rc, net_id, t) \<Rightarrow>
           if rc \<noteq> 0 then (rc, t)
           else rzi_at_respond_value E (''AT+NETID='' @ rzi_at_lorawan_bin_to_hex
                  [ucast (drop_bit 16 net_id AND 0xff), ucast (drop_bit 8 net_id AND 0xff), ucast (net_id AND 0xff)]) t)
      else case rzi_at_lorawan_hex_to_bin (the (req_argument request)) 3 of
        Inl rc \<Rightarrow> (rc, s)
      | Inr v \<Rightarrow> answer_ok E (on_lw (rzi_lorawan_set_net_id (lwe E)
                   (push_bit 16 (ucast (v ! 0)) OR push_bit 8 (ucast (v ! 1)) OR ucast (v ! 2)))) s)"

definition handle_mcrootkey :: "('d, 'u, 'x, 'm, 'e) lw_handler" where
  "handle_mcrootkey E request s =
     (case get_lw (rzi_lorawan_get_app_key (lwe E)) (replicate 16 0) s of (rc, key, t) \<Rightarrow>
        if rc \<noteq> 0 \<and> rc \<noteq> - RZI_ERR_NO_DATA then (rc, t)
        else rzi_at_respond_value E (''AT+MCROOTKEY='' @ rzi_at_lorawan_bin_to_hex key) t)"

section \<open>The command table\<close>

text \<open>Handlers of the package are numbered from \<open>lw_handlers E\<close> in the order of the groups.\<close>

definition lw_command :: "string \<Rightarrow> string \<Rightarrow> u8 \<Rightarrow> nat \<Rightarrow> nat \<Rightarrow> rzi_at_command" where
  "lw_command name help allowed handler user_data =
     \<lparr>cmd_name = Some name, cmd_help = Some help, allowed_operations = allowed, cmd_handler = Some handler,
      cmd_user_data = user_data\<rparr>"

abbreviation (input) ALLOW_READ_WRITE :: u8 where "ALLOW_READ_WRITE \<equiv> ALLOW_READ OR ALLOW_WRITE"

definition key_id_commands :: "nat \<Rightarrow> rzi_at_command list" where
  "key_id_commands h =
     [lw_command ''DEVEUI'' ''get or set the device EUI (8 bytes in hex)'' ALLOW_READ_WRITE h 0,
      lw_command ''APPEUI'' ''get or set the application EUI (8 bytes in hex)'' ALLOW_READ_WRITE h 1,
      lw_command ''APPKEY'' ''get or set the application key (16 bytes in hex)'' ALLOW_READ_WRITE h 2,
      lw_command ''DEVADDR'' ''get or set the device address (4 bytes in hex)'' ALLOW_READ_WRITE (h + 1) 0,
      lw_command ''NWKSKEY'' ''get or set the network session key (16 bytes in hex)'' ALLOW_READ_WRITE h 3,
      lw_command ''APPSKEY'' ''get or set the application session key (16 bytes in hex)'' ALLOW_READ_WRITE h 4,
      lw_command ''NETID'' ''get or set the network identifier (NetID) (3 bytes in hex)'' ALLOW_READ_WRITE (h + 2) 0,
      lw_command ''MCROOTKEY'' ''get the multicast root key (16 bytes in hex)'' ALLOW_READ (h + 3) 0]"

section \<open>Writing and reading back\<close>

text \<open>
  A setting of the LoRaWAN service: after a write that succeeded in a good state, the query gives the value and changes nothing,
  whatever is behind the view.
\<close>

locale lw_setting =
  fixes good :: "('d, 'u, 'x, 'm) lw_seen \<Rightarrow> bool" and put :: "'a \<Rightarrow> ('d, 'u, 'x, 'm) lw_seen op"
    and get :: "(('d, 'u, 'x, 'm) lw_seen, 'a) getter" and cell :: "'a \<Rightarrow> bool"
  assumes put_get: "good l \<Longrightarrow> put v l = (0, k) \<Longrightarrow> cell c
    \<Longrightarrow> get (Some c) (lorawan_state.more_update (\<lambda>_. m) k) = (0, Some v, lorawan_state.more_update (\<lambda>_. m) k)"
begin

lemma write_read:
  assumes "good (lw_view s)" and "answer_ok E (on_lw (put v)) s = (0, t)" and "cell c"
  shows "get_lw get c t = (0, v, t)"
proof -
  obtain rc l where l: "put v (lw_view s) = (rc, l)" by fastforce
  then have z: "rc = 0" "t = snd (rzi_at_respond_status E STATUS_OK (lw_unview l))"
    using assms(2) by (auto simp: answer_ok_def on_lw_def seq_ok_def split: if_splits)
  then have c: "carries t l" by (simp add: carries_respond)
  then have v: "lw_view t = lorawan_state.more_update (\<lambda>_. t) l" by (rule view_carries)
  have "get (Some c) (lw_view t) = (0, Some v, lw_view t)"
    unfolding v by (rule put_get [OF assms(1) _ assms(3)]) (use l z(1) in simp)
  then show ?thesis by (simp add: get_lw_def v unview_carries [OF c])
qed

end

text \<open>The credentials behind the five key commands.\<close>

lemma key_upd_ok:
  "length v = 16 \<Longrightarrow> upd_ok 5 v (\<lambda>c. c\<lparr>nwk_skey := v, nwk_skey_set := True\<rparr>)"
  "length v = 16 \<Longrightarrow> upd_ok 6 v (\<lambda>c. c\<lparr>app_skey := v, app_skey_set := True\<rparr>)"
  using upd_ok_bytes by simp_all

lemma more_fields [simp]:
  "credentials (lorawan_state.more_update f k) = credentials k" "sets (lorawan_state.more_update f k) = sets k"
  "k_is_in_isr (lorawan_state.more_update f k) = k_is_in_isr k"
  by (cases k, simp add: k_is_in_isr_def)+

lemma cred_inv_more [simp]: "cred_inv E view D (lorawan_state.more_update f k) = cred_inv E view D k"
  by (rule cred_inv_cong) simp_all

lemma session_key_loaded:
  assumes "\<not> k_is_in_isr s" and "loaded (credentials s)" and "length buf = 16" and "njm (credentials s) = RZI_LORAWAN_ACTIVATION_ABP"
    and "valid (credentials s)"
  shows "get_session_key E src valid member (Some buf) s = (0, Some (src (credentials s)), s)"
  using assms by (simp add: get_session_key_def rzi_lorawan_check_thread_def ensure_loaded_locked_def)

text \<open>
  The session keys are answered from the store when the activation is by personalisation; otherwise their query
  answers zeros until the device has joined, then the key of the stack (\<open>get_session_key\<close>).
\<close>

definition key_good :: "('d, 'u, 'x, 'm, 'e) lw_cmd_env \<Rightarrow> ('d \<Rightarrow> string \<rightharpoonup> bytes) \<Rightarrow> string set \<Rightarrow> nat \<Rightarrow> ('d, 'u, 'x, 'm) lw_seen \<Rightarrow> bool" where
  "key_good E view D i l \<longleftrightarrow> i < 5 \<and> cred_inv (lwe E) view D l
     \<and> (3 \<le> i \<longrightarrow> loaded (credentials l) \<and> njm (credentials l) = RZI_LORAWAN_ACTIVATION_ABP)"

lemma key_cases: "i < 5 \<Longrightarrow> (i = 0 \<Longrightarrow> P) \<Longrightarrow> (i = 1 \<Longrightarrow> P) \<Longrightarrow> (i = 2 \<Longrightarrow> P) \<Longrightarrow> (i = 3 \<Longrightarrow> P) \<Longrightarrow> (i = 4 \<Longrightarrow> P) \<Longrightarrow> P" for i :: nat
  by linarith

lemma key_put_get:
  assumes "key_good E view D i l" and "key_put (key_commands E ! i) (Some v) l = (0, k)" and "length c = key_size (key_commands E ! i)"
  shows "key_get (key_commands E ! i) (Some c) (lorawan_state.more_update (\<lambda>_. m) k) = (0, Some v, lorawan_state.more_update (\<lambda>_. m) k)"
proof -
  have inv: "cred_inv (lwe E) view D l" and i: "i < 5" using assms(1) by (simp_all add: key_good_def)
  let ?m = "lorawan_state.more_update (\<lambda>_. m) k"
  have field: "get_cred (lwe E) f (Some c) ?m = (0, Some v, ?m)"
    if "set_cred (lwe E) f (Some v) l = (0, k)" and "length c = field_size f" for f
  proof -
    note o = set_cred_ok [OF inv that(1)]
    have "field_val f (credentials k) = v" "field_set f (credentials k)" using o field_laws(1,2) by auto
    then show ?thesis by (subst get_cred_loaded [where view = view and D = D]) (use o that(2) in simp_all)
  qed
  have session: "get_session_key (lwe E) src valid member (Some c) ?m = (0, Some v, ?m)"
    if w: "set_bytes (lwe E) upd key (Some v) 16 l = (0, k)" and u: "\<And>v. length v = 16 \<Longrightarrow> upd_ok j v (upd v)" and key: "key = fst (credential_keys ! j)"
      and "3 \<le> i" and "length c = 16" and "\<And>c. njm (upd v c) = njm c \<and> src (upd v c) = v \<and> valid (upd v c)" for upd key j src valid member
  proof -
    note o = set_bytes_ok [OF inv u key w]
    have "credentials k = upd v (credentials l)" using o that(4) assms(1) by (auto simp: key_good_def)
    then show ?thesis using o that(4-6) assms(1) by (subst session_key_loaded) (auto simp: key_good_def)
  qed
  have names: "''nwkskey'' = fst (credential_keys ! 5)" "''appskey'' = fst (credential_keys ! 6)" by (simp_all add: credential_keys_def)
  from i show ?thesis
  proof (rule key_cases)
    assume "i = 0" with assms(2,3) field [of Dev_eui] show ?thesis by (simp add: key_commands_def)
  next
    assume "i = 1" with assms(2,3) field [of App_eui] show ?thesis by (simp add: key_commands_def)
  next
    assume "i = 2" with assms(2,3) field [of App_key] show ?thesis by (simp add: key_commands_def)
  next
    assume "i = 3"
    with assms(2,3) session [OF _ key_upd_ok(1) names(1)] show ?thesis
      by (simp add: key_commands_def rzi_lorawan_set_nwk_skey_def rzi_lorawan_get_nwk_skey_def)
  next
    assume "i = 4"
    with assms(2,3) session [OF _ key_upd_ok(2) names(2)] show ?thesis
      by (simp add: key_commands_def rzi_lorawan_set_app_skey_def rzi_lorawan_get_app_skey_def)
  qed
qed

interpretation key: lw_setting "key_good E view D i" "\<lambda>v. key_put (key_commands E ! i) (Some v)" "key_get (key_commands E ! i)"
  "\<lambda>c. length c = key_size (key_commands E ! i)"
  by unfold_locales (rule key_put_get)

lemma key_written:
  assumes "key_good E view D i (lw_view s)" and "handle_key E i \<lparr>req_operation = OP_WRITE, req_argument = Some text\<rparr> s = (0, t)"
  shows "handle_key E i \<lparr>req_operation = OP_READ, req_argument = None\<rparr> t
    = rzi_at_respond_value E (response_name (key_commands E ! i) @ ''='' @ uppercase_name text) t"
proof -
  let ?n = "key_size (key_commands E ! i)"
  obtain v where v: "rzi_at_lorawan_hex_to_bin text ?n = Inr v"
    using assms(2) by (cases "rzi_at_lorawan_hex_to_bin text ?n") (auto simp: handle_key_def Let_def dest: hex.parse_error)
  then have w: "answer_ok E (on_lw (key_put (key_commands E ! i) (Some v))) s = (0, t)"
    using assms(2) by (simp add: handle_key_def Let_def)
  have u: "uppercase_name text = rzi_at_lorawan_bin_to_hex v" using v by (simp add: hex_to_bin_iff)
  have "get_lw (key_get (key_commands E ! i)) (replicate ?n 0) t = (0, v, t)" by (rule key.write_read [OF assms(1) w]) simp
  then show ?thesis by (simp add: handle_key_def Let_def u)
qed

end
