(* ===== verification/Rzi_At_Lorawan_Join.thy ===== *)
theory Rzi_At_Lorawan_Join
  imports Rzi_At_Lorawan_Keys
begin

text \<open>
  The commands for joining, sending and receiving, \<^verbatim>\<open>src/at/commands/lorawan/at_lorawan_join_send.c\<close>. A pointer
  into the argument is the text that remains behind it.
\<close>

section \<open>Handlers\<close>

record join_parameters =
  jp_start :: int
  jp_auto_join :: int
  jp_interval :: int
  jp_attempts :: int

definition answer_value ::
  "('d, 's, 'e) at_env_scheme \<Rightarrow> ('a \<Rightarrow> string) \<Rightarrow> int \<times> 'a \<times> ('d, 'u, 'x, 'm) at_lw_state_scheme
   \<Rightarrow> int \<times> ('d, 'u, 'x, 'm) at_lw_state_scheme" where
  "answer_value E text result = (case result of (rc, v, t) \<Rightarrow> if rc \<noteq> 0 then (rc, t) else rzi_at_respond_value E (text v) t)"

definition bit_text :: "bool \<Rightarrow> string" where
  "bit_text b = show_nat (if b then 1 else 0)"

definition handle_njm :: "('d, 'u, 'x, 'm, 'e) lw_handler" where
  "handle_njm E request s =
     (if req_operation request = OP_READ then
        answer_value E (\<lambda>mode. ''AT+NJM='' @ show_nat (if mode = RZI_LORAWAN_ACTIVATION_ABP then 0 else 1))
          (get_lw (rzi_lorawan_get_activation (lwe E)) 0 s)
      else case rzi_at_lorawan_parse_long E (req_argument request) of
        Inl rc \<Rightarrow> (- RZI_ERR_INVALID, s)
      | Inr parsed \<Rightarrow>
          if parsed < 0 \<or> parsed > 1 then (- RZI_ERR_INVALID, s)
          else answer_ok E (on_lw (rzi_lorawan_set_activation (lwe E)
                 (if parsed = 0 then RZI_LORAWAN_ACTIVATION_ABP else RZI_LORAWAN_ACTIVATION_OTAA))) s)"

definition handle_njs :: "('d, 'u, 'x, 'm, 'e) lw_handler" where
  "handle_njs E request s =
     (case rzi_at_lorawan_is_joined E s of (joined, t) \<Rightarrow> rzi_at_respond_value E (''AT+NJS='' @ bit_text joined) t)"

definition handle_cfm :: "('d, 'u, 'x, 'm, 'e) lw_handler" where
  "handle_cfm E request s =
     (if req_operation request = OP_READ then
        answer_value E (\<lambda>enabled. ''AT+CFM='' @ bit_text enabled) (get_lw (rzi_lorawan_get_confirmed (lwe E)) False s)
      else case rzi_at_lorawan_parse_bool (the (req_argument request)) of
        Inl rc \<Rightarrow> (rc, s)
      | Inr enabled \<Rightarrow> answer_ok E (on_lw (rzi_lorawan_set_confirmed (lwe E) enabled)) s)"

definition handle_cfs :: "('d, 'u, 'x, 'm, 'e) lw_handler" where
  "handle_cfs E request s = rzi_at_respond_value E (''AT+CFS='' @ bit_text (confirmation_status s)) s"

text \<open>The loop: the numbers read so far and the text at \<^verbatim>\<open>cursor\<close>; \<open>None\<close> is the error return.\<close>

function join_values :: "int \<Rightarrow> int list \<Rightarrow> string \<Rightarrow> (int list \<times> string) option" where
  "join_values lmax values cursor =
     (if cursor = [] \<or> length values \<ge> 4 then Some (values, cursor)
      else case strtol lmax cursor of
        None \<Rightarrow> None
      | Some (v, end) \<Rightarrow>
          if v < 0 \<or> v > 255 then None
          else if end = [] then Some (values @ [v], end)
          else if hd end \<noteq> CHR '':'' \<or> tl end = [] then None
          else join_values lmax (values @ [v]) (tl end))"
  by pat_completeness auto
termination by (relation "measure (\<lambda>(lmax, values, cursor). 4 - length values)") auto

declare join_values.simps [simp del]

definition parse_join_parameters :: "int \<Rightarrow> string \<Rightarrow> int + join_parameters" where
  "parse_join_parameters lmax argument =
     (case join_values lmax [] argument of
        None \<Rightarrow> Inl (- RZI_ERR_INVALID)
      | Some (values, cursor) \<Rightarrow>
          let count = length values in
          if cursor \<noteq> [] \<or> count = 0 \<or> values ! 0 > 1 \<or> (count \<ge> 2 \<and> values ! 1 > 1)
             \<or> (count \<ge> 3 \<and> (values ! 2 < RZI_LORAWAN_JOIN_INTERVAL_MIN \<or> values ! 2 > RZI_LORAWAN_JOIN_INTERVAL_MAX))
          then Inl (- RZI_ERR_INVALID)
          else Inr \<lparr>jp_start = values ! 0,
                 jp_auto_join = (if count \<ge> 2 then values ! 1 else RZI_LORAWAN_JOIN_KEEP),
                 jp_interval = (if count \<ge> 3 then values ! 2 else RZI_LORAWAN_JOIN_KEEP),
                 jp_attempts = (if count \<ge> 4 then values ! 3 else RZI_LORAWAN_JOIN_KEEP)\<rparr>)"

definition respond_to_result ::
  "('d, 's, 'e) at_env_scheme \<Rightarrow> int \<times> ('d, 'u, 'x, 'm) at_lw_state_scheme \<Rightarrow> int \<times> ('d, 'u, 'x, 'm) at_lw_state_scheme" where
  "respond_to_result E result = (case result of (rc, t) \<Rightarrow> if rc = 0 then rzi_at_respond_status E STATUS_OK t else (rc, t))"

definition handle_join :: "('d, 'u, 'x, 'm, 'e) lw_handler" where
  "handle_join E request s =
     (let L = lwe E in
      if req_operation request = OP_READ then
        (case get_lw (rzi_lorawan_get_auto_join L) False s of (rc, auto, t) \<Rightarrow>
           if rc \<noteq> 0 then (rc, t)
           else case get_lw (rzi_lorawan_get_join_interval L) 8 t of (rc, interval, u) \<Rightarrow>
             if rc \<noteq> 0 then (rc, u)
             else case get_lw (rzi_lorawan_get_join_attempts L) 0 u of (rc, attempts, v) \<Rightarrow>
               if rc \<noteq> 0 then (rc, v)
               else rzi_at_respond_value E (''AT+JOIN=1:'' @ bit_text auto @ '':'' @ show_nat (unat interval) @ '':''
                      @ show_nat (unat attempts)) v)
      else if req_operation request = OP_RUN then respond_to_result E (rzi_at_lorawan_join_start E s)
      else case parse_join_parameters (long_max E) (the (req_argument request)) of
        Inl rc \<Rightarrow> (rc, s)
      | Inr p \<Rightarrow>
          if jp_start p = 0 then
            (case on_lw (rzi_lorawan_join L 0 (jp_auto_join p) (jp_interval p) (jp_attempts p)) s of (rc, t) \<Rightarrow>
               if rc \<noteq> 0 then (rc, t) else respond_to_result E (rzi_at_lorawan_join_stop E t))
          else case rzi_at_lorawan_is_joined E s of (joined, t) \<Rightarrow>
            if joined then
              (case on_lw (rzi_lorawan_join L RZI_LORAWAN_JOIN_KEEP (jp_auto_join p) (jp_interval p) (jp_attempts p)) t of (rc, u) \<Rightarrow>
                 respond_to_result E (rc, if rc = 0 then snd (rzi_at_publish_event E ''JOINED'' u) else u))
            else case on_lw (rzi_lorawan_join L 1 (jp_auto_join p) (jp_interval p) (jp_attempts p)) t of (rc, u) \<Rightarrow>
              if rc = - RZI_ERR_NOT_READY then respond_to_result E (rzi_at_lorawan_join_start E u)
              else respond_to_result E (rc, u))"

definition handle_send :: "('d, 'u, 'x, 'm, 'e) lw_handler" where
  "handle_send E request s =
     (let argument = the (req_argument request); colon = dropWhile (\<lambda>c. c \<noteq> CHR '':'') argument in
      if colon = [] then (- RZI_ERR_INVALID, s)
      else case strtol (long_max E) argument of
        None \<Rightarrow> (- RZI_ERR_INVALID, s)
      | Some (port, port_end) \<Rightarrow>
          if port_end \<noteq> colon \<or> port < 1 \<or> port > 223 then (- RZI_ERR_INVALID, s)
          else let hex = tl colon; hex_len = length hex in
            if hex_len = 0 then (- RZI_ERR_INVALID, s)
            else if hex_len > RZI_LORAWAN_MAX_PAYLOAD * 2 then (- RZI_ERR_TOO_LARGE, s)
            else case rzi_at_lorawan_hex_to_bin hex (hex_len div 2) of
              Inl rc \<Rightarrow> (rc, s)
            | Inr payload \<Rightarrow>
                case get_lw (rzi_lorawan_get_confirmed (lwe E)) False s of (rc, confirmed, t) \<Rightarrow>
                  if rc \<noteq> 0 then (rc, t)
                  else respond_to_result E (on_lw (rzi_lorawan_send (lwe E) (of_int port) (Some payload) (hex_len div 2)
                         (if confirmed then RZI_LORAWAN_MSG_CONFIRMED else RZI_LORAWAN_MSG_UNCONFIRMED))
                         (t\<lparr>tx_confirmed := confirmed\<rparr>)))"

definition handle_recv :: "('d, 'u, 'x, 'm, 'e) lw_handler" where
  "handle_recv E request s =
     (let d = last_downlink s in
      if \<not> rd_valid d then rzi_at_respond_value E ''AT+RECV='' s
      else rzi_at_respond_value E (''AT+RECV='' @ show_nat (unat (rd_port d)) @ '':''
             @ rzi_at_lorawan_bin_to_hex (take (rd_size d) (rd_data d))) (s\<lparr>last_downlink := d\<lparr>rd_valid := False\<rparr>\<rparr>))"

definition handle_rety :: "('d, 'u, 'x, 'm, 'e) lw_handler" where
  "handle_rety E request s =
     (if req_operation request = OP_READ then
        answer_value E (\<lambda>retries. ''AT+RETY='' @ show_nat (unat retries)) (get_lw (rzi_lorawan_get_retries (lwe E)) 0 s)
      else case rzi_at_lorawan_parse_long E (req_argument request) of
        Inl rc \<Rightarrow> (- RZI_ERR_INVALID, s)
      | Inr parsed \<Rightarrow>
          if parsed < 0 \<or> parsed > 7 then (- RZI_ERR_INVALID, s)
          else answer_ok E (on_lw (rzi_lorawan_set_retries (lwe E) (of_int parsed))) s)"

definition handle_lpsend :: "('d, 'u, 'x, 'm, 'e) lw_handler" where
  "handle_lpsend E request s =
     (case strtol (long_max E) (the (req_argument request)) of
        None \<Rightarrow> (- RZI_ERR_INVALID, s)
      | Some (port, port_end) \<Rightarrow>
          if port_end = [] \<or> hd port_end \<noteq> CHR '':'' \<or> port < 1 \<or> port > 223 then (- RZI_ERR_INVALID, s)
          else case strtol (long_max E) (tl port_end) of
            None \<Rightarrow> (- RZI_ERR_INVALID, s)
          | Some (ack, ack_end) \<Rightarrow>
              if ack_end = [] \<or> hd ack_end \<noteq> CHR '':'' \<or> (ack \<noteq> 0 \<and> ack \<noteq> 1) then (- RZI_ERR_INVALID, s)
              else let hex = tl ack_end; hex_len = length hex in
                if hex_len = 0 \<or> hex_len mod 2 \<noteq> 0 then (- RZI_ERR_INVALID, s)
                else if hex_len > RZI_LORAWAN_MAX_PAYLOAD * 2 then (- RZI_ERR_TOO_LARGE, s)
                else case rzi_at_lorawan_hex_to_bin hex (hex_len div 2) of
                  Inl rc \<Rightarrow> (rc, s)
                | Inr payload \<Rightarrow>
                    respond_to_result E (on_lw (rzi_lorawan_send (lwe E) (of_int port) (Some payload) (hex_len div 2)
                      (if ack \<noteq> 0 then RZI_LORAWAN_MSG_CONFIRMED else RZI_LORAWAN_MSG_UNCONFIRMED))
                      (s\<lparr>tx_confirmed := (ack \<noteq> 0)\<rparr>)))"

section \<open>The command table\<close>

definition join_send_handlers :: "('d, 'u, 'x, 'm, 'e) lw_handler list" where
  "join_send_handlers =
     [handle_njm, handle_njs, handle_cfm, handle_cfs, handle_join, handle_send, handle_recv, handle_rety, handle_lpsend]"

definition join_send_commands :: "nat \<Rightarrow> rzi_at_command list" where
  "join_send_commands h =
     [lw_command ''NJM'' ''get or set the network join mode (0 = ABP, 1 = OTAA)'' ALLOW_READ_WRITE h 0,
      lw_command ''NJS'' ''get the join status (0 = not joined, 1 = joined)'' ALLOW_READ (h + 1) 0,
      lw_command ''CFM'' ''get or set the confirmation mode (0 = OFF, 1 = ON)'' ALLOW_READ_WRITE (h + 2) 0,
      lw_command ''CFS'' ''get the confirmation status of the last AT+SEND (0 = failure, 1 = success)'' ALLOW_READ (h + 3) 0,
      lw_command ''JOIN'' ''join network'' (ALLOW_RUN OR ALLOW_READ OR ALLOW_WRITE) (h + 4) 0,
      lw_command ''SEND'' ''send data along with the application port'' ALLOW_WRITE (h + 5) 0,
      lw_command ''RECV'' ''print the last received data in hex format'' ALLOW_READ (h + 6) 0,
      lw_command ''RETY'' ''get or set the number of retransmission of confirm packet data'' ALLOW_READ_WRITE (h + 7) 0,
      lw_command ''LPSEND'' ''send long packet data (max 242 bytes in this implementation)'' ALLOW_WRITE (h + 8) 0]"

section \<open>Numbers in front of a colon\<close>

lemma scan_show_nat_rest:
  assumes "rest = [] \<or> \<not> is_digit (hd rest)"
  shows "scan_number (show_nat n @ rest) = Some (False, n, rest)"
proof -
  have s: "show_nat n \<noteq> []" "\<forall>c\<in>set (show_nat n). is_digit c" "digits_value (show_nat n) = n"
    using show_nat_digits by (auto simp: list_all_iff)
  then obtain d ds where d: "show_nat n = d # ds" "is_digit d" by (cases "show_nat n") auto
  have t: "takeWhile is_digit (show_nat n @ rest) = show_nat n" "dropWhile is_digit (show_nat n @ rest) = rest"
    using s(2) assms by (cases rest; simp)+
  show ?thesis using s(1,3) t digit_not_special [OF d(2)] d(1) by (simp add: scan_number_def Let_def)
qed

lemma strtol_colon:
  assumes "int n \<le> lmax"
  shows "strtol lmax (show_nat n @ '':'' @ rest) = Some (int n, '':'' @ rest)"
proof -
  have "\<not> is_digit (CHR '':'')" by code_simp
  then show ?thesis using assms scan_show_nat_rest [of "'':'' @ rest" n] by (simp add: strtol_def)
qed

lemma digit_not_colon: "is_digit c \<Longrightarrow> c \<noteq> CHR '':''"
  by (auto simp: is_digit_def less_eq_char_def)

lemma dropWhile_colon: "dropWhile (\<lambda>c. c \<noteq> CHR '':'') (show_nat n @ '':'' @ rest) = '':'' @ rest"
proof -
  have "\<forall>c\<in>set (show_nat n). c \<noteq> CHR '':''" using show_nat_digits [of n] digit_not_colon by (auto simp: list_all_iff)
  then show ?thesis by (simp add: dropWhile_append2)
qed

lemma show_nat_nonempty [simp]: "show_nat n \<noteq> []" "show_nat n @ rest \<noteq> []"
  using show_nat_digits [of n] by auto

section \<open>Join parameters\<close>

lemma join_values_last:
  assumes "length vs < 4" and "n \<le> 255" and "255 \<le> lmax"
  shows "join_values lmax vs (show_nat n) = Some (vs @ [int n], [])"
  using assms strtol_show_nat [of n lmax] by (subst join_values.simps) simp

lemma join_values_more:
  assumes "length vs < 4" and "n \<le> 255" and "255 \<le> lmax" and "rest \<noteq> []"
  shows "join_values lmax vs (show_nat n @ '':'' @ rest) = join_values lmax (vs @ [int n]) rest"
  using assms strtol_colon [of n lmax rest] by (subst join_values.simps) simp

lemma join_values_range:
  assumes "join_values lmax vs msg = Some (ws, rest)" and "\<forall>v\<in>set vs. 0 \<le> v \<and> v \<le> 255"
  shows "\<forall>v\<in>set ws. 0 \<le> v \<and> v \<le> 255"
  using assms
proof (induction lmax vs msg arbitrary: ws rest rule: join_values.induct)
  case (1 lmax vs msg)
  show ?case
  proof (cases "msg = [] \<or> length vs \<ge> 4")
    case True
    with "1.prems" show ?thesis by (subst (asm) join_values.simps) auto
  next
    case False
    with "1.prems"(1) obtain v e where v: "strtol lmax msg = Some (v, e)" "0 \<le> v" "v \<le> 255"
      and r: "(e = [] \<and> ws = vs @ [v]) \<or> (e \<noteq> [] \<and> join_values lmax (vs @ [v]) (tl e) = Some (ws, rest))"
      by (subst (asm) join_values.simps) (auto split: option.splits if_splits)
    have n: "\<not> (msg = [] \<or> length vs \<ge> 4)" "\<not> (v < 0 \<or> v > 255)" using False v by auto
    show ?thesis using r
    proof
      assume "e \<noteq> [] \<and> join_values lmax (vs @ [v]) (tl e) = Some (ws, rest)"
      moreover from this "1.prems"(1) False v have "\<not> (hd e \<noteq> CHR '':'' \<or> tl e = [])"
        by (subst (asm) join_values.simps) (auto split: if_splits)
      ultimately show ?thesis using "1.IH" [OF n(1) v(1) refl n(2)] "1.prems"(2) v by auto
    qed (use "1.prems"(2) v in auto)
  qed
qed

lemma parse_join_bounds:
  assumes "parse_join_parameters lmax text = Inr p"
  shows "jp_start p \<in> {0, 1} \<and> jp_auto_join p \<in> {RZI_LORAWAN_JOIN_KEEP, 0, 1}
    \<and> (jp_interval p = RZI_LORAWAN_JOIN_KEEP \<or> 7 \<le> jp_interval p \<and> jp_interval p \<le> 255)
    \<and> RZI_LORAWAN_JOIN_KEEP \<le> jp_attempts p \<and> jp_attempts p \<le> 255"
proof -
  obtain ws where w: "join_values lmax [] text = Some (ws, [])" "ws \<noteq> []"
    using assms by (auto simp: parse_join_parameters_def Let_def split: option.splits if_splits)
  have "\<forall>v\<in>set ws. 0 \<le> v \<and> v \<le> 255" using join_values_range [OF w(1)] by simp
  then have "0 \<le> ws ! i \<and> ws ! i \<le> 255" if "i < length ws" for i using that by auto
  from this [of 0] this [of 1] this [of 2] this [of 3] show ?thesis
    using assms w by (auto simp: parse_join_parameters_def Let_def split: if_splits)
qed

section \<open>Uplinks\<close>

text \<open>
  What an argument of \<^verbatim>\<open>AT+SEND\<close> means: a port and a payload in hexadecimal digits behind a colon. The number in front of
  the colon is what \<^verbatim>\<open>strtol\<close> accepts.
\<close>

definition sends :: "int \<Rightarrow> string \<Rightarrow> int \<Rightarrow> bytes \<Rightarrow> bool" where
  "sends lmax argument port payload \<longleftrightarrow> (\<exists>hex. strtol lmax argument = Some (port, '':'' @ hex) \<and> 1 \<le> port \<and> port \<le> 223
     \<and> payload \<noteq> [] \<and> length payload \<le> RZI_LORAWAN_MAX_PAYLOAD \<and> uppercase_name hex = rzi_at_lorawan_bin_to_hex payload)"

text \<open>The uplink for an accepted argument.\<close>

definition send_payload ::
  "('d, 'u, 'x, 'm, 'e) lw_cmd_env \<Rightarrow> int \<Rightarrow> bytes \<Rightarrow> bool \<Rightarrow> ('d, 'u, 'x, 'm) at_lw_state_scheme op" where
  "send_payload E port payload confirmed s =
     respond_to_result E (on_lw (rzi_lorawan_send (lwe E) (of_int port) (Some payload) (length payload)
       (if confirmed then RZI_LORAWAN_MSG_CONFIRMED else RZI_LORAWAN_MSG_UNCONFIRMED)) (s\<lparr>tx_confirmed := confirmed\<rparr>))"

lemma dropWhile_suffix:
  assumes "text = pre @ rest" and "CHR '':'' \<notin> set pre"
  shows "rest = dropWhile (\<lambda>c. c \<noteq> CHR '':'') text \<longleftrightarrow> rest = [] \<or> hd rest = CHR '':''"
proof -
  have "dropWhile (\<lambda>c. c \<noteq> CHR '':'') text = dropWhile (\<lambda>c. c \<noteq> CHR '':'') rest"
    using assms by (auto simp: dropWhile_append2 dropWhile_append)
  moreover have "rest = dropWhile (\<lambda>c. c \<noteq> CHR '':'') rest \<longleftrightarrow> rest = [] \<or> hd rest = CHR '':''"
  proof (cases rest)
    case (Cons c cs)
    have "length (dropWhile (\<lambda>c. c \<noteq> CHR '':'') cs) < length (c # cs)" by (simp add: le_imp_less_Suc length_dropWhile_le)
    then have "c # cs \<noteq> dropWhile (\<lambda>c. c \<noteq> CHR '':'') cs" by (metis less_irrefl)
    then show ?thesis by (simp add: Cons)
  qed simp
  ultimately show ?thesis by simp
qed

lemma strtol_suffix:
  assumes "strtol lmax argument = Some (v, rest)"
  shows "\<exists>pre. argument = pre @ rest \<and> CHR '':'' \<notin> set pre"
proof -
  define t where "t = dropWhile is_space argument"
  define u where "u = (if t \<noteq> [] \<and> (hd t = CHR ''-'' \<or> hd t = CHR ''+'') then tl t else t)"
  have r: "rest = dropWhile is_digit u" using assms
    by (auto simp: strtol_def scan_number_def Let_def t_def u_def split: option.splits if_splits)
  obtain sign where sign: "t = sign @ u" "set sign \<subseteq> {CHR ''-'', CHR ''+''}"
  proof (cases "t \<noteq> [] \<and> (hd t = CHR ''-'' \<or> hd t = CHR ''+'')")
    case True
    then show ?thesis using that [of "[hd t]"] by (auto simp: u_def)
  next
    case False
    then have "u = t" by (simp only: u_def if_False)
    then show ?thesis using that [of "[]"] by simp
  qed
  have "argument = takeWhile is_space argument @ sign @ takeWhile is_digit u @ rest"
    using sign(1) by (simp add: r t_def) (metis sign(1) t_def takeWhile_dropWhile_id)
  moreover have "CHR '':'' \<notin> set (takeWhile is_space argument)" by (auto dest!: set_takeWhileD simp: is_space_def less_eq_char_def)
  moreover have "CHR '':'' \<notin> set (takeWhile is_digit u)" by (auto dest!: set_takeWhileD simp: is_digit_def less_eq_char_def)
  ultimately show ?thesis using sign(2)
    by (intro exI [of _ "takeWhile is_space argument @ sign @ takeWhile is_digit u"]) auto
qed

lemma length_uppercase [simp]: "length (uppercase_name t) = length t"
  by (simp add: uppercase_name_def)

lemma hex_shape:
  assumes "uppercase_name hex = rzi_at_lorawan_bin_to_hex payload"
  shows "length hex = length payload * 2" "rzi_at_lorawan_hex_to_bin hex (length hex div 2) = Inr payload"
proof -
  show "length hex = length payload * 2" using arg_cong [OF assms, of length] by simp
  then show "rzi_at_lorawan_hex_to_bin hex (length hex div 2) = Inr payload" using assms by (simp add: hex_to_bin_iff)
qed

lemma handle_send_accepts:
  assumes "sends (long_max E) argument port payload"
  shows "handle_send E \<lparr>req_operation = OP_WRITE, req_argument = Some argument\<rparr> s
    = (case get_lw (rzi_lorawan_get_confirmed (lwe E)) False s of (rc, confirmed, t) \<Rightarrow>
         if rc \<noteq> 0 then (rc, t) else send_payload E port payload confirmed t)"
proof -
  obtain hex where h: "strtol (long_max E) argument = Some (port, '':'' @ hex)" "1 \<le> port" "port \<le> 223" "payload \<noteq> []"
    "length payload \<le> 242" "uppercase_name hex = rzi_at_lorawan_bin_to_hex payload" using assms by (auto simp: sends_def)
  obtain pre where "argument = pre @ '':'' @ hex" "CHR '':'' \<notin> set pre" using strtol_suffix [OF h(1)] by blast
  then have c: "dropWhile (\<lambda>c. c \<noteq> CHR '':'') argument = '':'' @ hex" using dropWhile_suffix [of argument pre "'':'' @ hex"] by simp
  note x = hex_shape [OF h(6)]
  have "hex \<noteq> []" using h(4) x(1) by auto
  moreover obtain rc confirmed t where "get_lw (rzi_lorawan_get_confirmed (lwe E)) False s = (rc, confirmed, t)" by (metis prod_cases3)
  ultimately show ?thesis using h x c by (simp add: handle_send_def send_payload_def Let_def del: dropWhile_eq_Nil_conv)
qed

lemma handle_send_rejects:
  assumes "\<And>port payload. \<not> sends (long_max E) argument port payload"
  shows "\<exists>rc\<in>{- RZI_ERR_INVALID, - RZI_ERR_TOO_LARGE}.
    handle_send E \<lparr>req_operation = OP_WRITE, req_argument = Some argument\<rparr> s = (rc, s)"
proof -
  let ?q = "\<lparr>req_operation = OP_WRITE, req_argument = Some argument\<rparr>" and ?colon = "dropWhile (\<lambda>c. c \<noteq> CHR '':'') argument"
  consider "?colon = []" | "strtol (long_max E) argument = None"
    | port rest where "strtol (long_max E) argument = Some (port, rest)" "rest \<noteq> ?colon \<or> port < 1 \<or> port > 223 \<or> tl rest = []" "?colon \<noteq> []"
    | port rest where "strtol (long_max E) argument = Some (port, rest)" "rest = ?colon" "?colon \<noteq> []" "1 \<le> port" "port \<le> 223" "tl rest \<noteq> []"
    by (metis (no_types, lifting) linorder_not_less not_None_eq surj_pair)
  then show ?thesis
  proof cases
    case 4
    have "rest \<noteq> []" "hd rest = CHR '':''" using 4(2,3) hd_dropWhile [of "\<lambda>c. c \<noteq> CHR '':''" argument] by auto
    then obtain hex where hex: "rest = '':'' @ hex" by (cases rest) auto
    have c: "?colon = '':'' @ hex" "strtol (long_max E) argument = Some (port, '':'' @ hex)" "hex \<noteq> []"
      using 4(1) 4(2) [symmetric] 4(6) unfolding hex by simp_all
    show ?thesis
    proof (cases "rzi_at_lorawan_hex_to_bin hex (length hex div 2)")
      case (Inr payload)
      then have "length payload = length hex div 2" "uppercase_name hex = rzi_at_lorawan_bin_to_hex payload" by (simp_all add: hex_to_bin_iff)
      moreover from this(2) have "length hex = length payload * 2" by (rule hex_shape)
      ultimately have "242 * 2 < length hex"
        using assms [of port payload, unfolded sends_def not_ex, rule_format, of hex] 4(1,4,5,6) hex by auto
      then show ?thesis using c 4(4,5) by (simp add: handle_send_def Let_def del: dropWhile_eq_Nil_conv)
    qed (use c 4(4,5) hex.parse_error in \<open>auto simp: handle_send_def Let_def simp del: dropWhile_eq_Nil_conv\<close>)
  qed (auto simp: handle_send_def Let_def simp del: dropWhile_eq_Nil_conv split: option.splits)
qed

lemma handle_lpsend_accepts:
  assumes "1 \<le> port" and "port \<le> 223" and "223 \<le> long_max E" and "payload \<noteq> []" and "length payload \<le> 242"
    and "uppercase_name hex = rzi_at_lorawan_bin_to_hex payload"
  shows "handle_lpsend E \<lparr>req_operation = OP_WRITE, req_argument = Some (show_nat port @ '':'' @ bit_text confirmed @ '':'' @ hex)\<rparr> s
    = send_payload E (int port) payload confirmed s"
proof -
  note x = hex_shape [OF assms(6)]
  have "hex \<noteq> []" using assms(4) x(1) by auto
  moreover have "strtol (long_max E) (show_nat port @ '':'' @ bit_text confirmed @ '':'' @ hex)
      = Some (int port, '':'' @ bit_text confirmed @ '':'' @ hex)" using assms(2,3) by (intro strtol_colon) simp
  moreover have "strtol (long_max E) (bit_text confirmed @ '':'' @ hex) = Some (if confirmed then 1 else 0, '':'' @ hex)"
    using strtol_colon [of "if confirmed then 1 else 0" "long_max E" hex] assms(3) by (cases confirmed) (simp_all add: bit_text_def)
  ultimately show ?thesis using assms x by (simp add: handle_lpsend_def send_payload_def Let_def)
qed

section \<open>Downlinks\<close>

lemma event_frame: "last_downlink (at_event E msg s) = last_downlink s"
proof -
  have "last_downlink (snd (write_formatted E a b c s)) = last_downlink s" for a b c
    by (simp add: write_formatted_def write_all_def)
  then show ?thesis by (simp add: at_event_def rzi_at_publish_event_def)
qed

section \<open>Properties\<close>

text \<open>
  The parameters of \<^verbatim>\<open>AT+JOIN\<close>: the text that the read form prints for a join policy is accepted by the write
  form and gives back that policy, and whatever text is accepted, the request that reaches the LoRaWAN
  service starts or stops, keeps or sets the automatic join, and has an interval and a number of attempts that are kept or in range.
\<close>

theorem at_join_parameters:
  assumes "255 \<le> lmax" and "7 \<le> interval"
  shows "parse_join_parameters lmax (''1:'' @ bit_text auto @ '':'' @ show_nat (unat (interval :: u8)) @ '':'' @ show_nat (unat (attempts :: u8)))
      = Inr \<lparr>jp_start = 1, jp_auto_join = (if auto then 1 else 0), jp_interval = int (unat interval), jp_attempts = int (unat attempts)\<rparr>
    \<and> (\<forall>text p. parse_join_parameters lmax text = Inr p \<longrightarrow>
        jp_start p \<in> {0, 1} \<and> jp_auto_join p \<in> {RZI_LORAWAN_JOIN_KEEP, 0, 1}
        \<and> (jp_interval p = RZI_LORAWAN_JOIN_KEEP \<or> 7 \<le> jp_interval p \<and> jp_interval p \<le> 255)
        \<and> RZI_LORAWAN_JOIN_KEEP \<le> jp_attempts p \<and> jp_attempts p \<le> 255)"
proof -
  have u: "unat b \<le> 255" for b :: u8 using unsigned_less [of b, where 'a = nat] by simp
  have i: "7 \<le> unat interval" using assms(2) by (simp add: word_le_nat_alt)
  have one: "''1:'' = show_nat 1 @ '':''" by code_simp
  have "join_values lmax [] (show_nat 1 @ '':'' @ show_nat (if auto then 1 else 0) @ '':'' @ show_nat (unat interval) @ '':'' @ show_nat (unat attempts))
      = Some ([1, if auto then 1 else 0, int (unat interval), int (unat attempts)], [])"
    using assms(1) u by (simp add: join_values_more [simplified] join_values_last)
  moreover have "uint interval = int (unat interval)" "uint attempts = int (unat attempts)" by simp_all
  then have "7 \<le> uint interval" "uint interval \<le> 255" "uint attempts \<le> 255" using i u [of interval] u [of attempts] by linarith+
  ultimately have "parse_join_parameters lmax (''1:'' @ bit_text auto @ '':'' @ show_nat (unat interval) @ '':'' @ show_nat (unat attempts))
      = Inr \<lparr>jp_start = 1, jp_auto_join = (if auto then 1 else 0), jp_interval = int (unat interval), jp_attempts = int (unat attempts)\<rparr>"
    by (simp add: parse_join_parameters_def one bit_text_def Let_def)
  with parse_join_bounds [of lmax] show ?thesis by blast
qed

theorem at_join_parameters_witness:
  "parse_join_parameters 2147483647 ''1:1:8:0'' = Inr \<lparr>jp_start = 1, jp_auto_join = 1, jp_interval = 8, jp_attempts = 0\<rparr>
    \<and> jp_interval \<lparr>jp_start = 1, jp_auto_join = 1, jp_interval = 8, jp_attempts = 0\<rparr> \<le> 255"
proof -
  have "bit_text True = ''1''" "show_nat 8 = ''8''" "show_nat 0 = ''0''" by code_simp+
  then show ?thesis using at_join_parameters [of 2147483647 "8 :: u8" True "0 :: u8"] by simp
qed

text \<open>
  C11. \<^verbatim>\<open>AT+SEND\<close> sends what was typed: an argument with a port from 1 to 223, a colon and the hexadecimal digits of
  1 to 242 bytes hands exactly that port and these bytes to the LoRaWAN service, confirmed as the stored mode says; every
  other argument is answered with a parameter or length error and changes nothing.
\<close>

theorem at_send_exact:
  "(sends (long_max E) argument port payload \<longrightarrow>
      handle_send E \<lparr>req_operation = OP_WRITE, req_argument = Some argument\<rparr> s
      = (case get_lw (rzi_lorawan_get_confirmed (lwe E)) False s of (rc, confirmed, t) \<Rightarrow>
           if rc \<noteq> 0 then (rc, t) else send_payload E port payload confirmed t))
    \<and> ((\<forall>port payload. \<not> sends (long_max E) argument port payload) \<longrightarrow>
      (\<exists>rc\<in>{- RZI_ERR_INVALID, - RZI_ERR_TOO_LARGE}.
         handle_send E \<lparr>req_operation = OP_WRITE, req_argument = Some argument\<rparr> s = (rc, s)))"
  using handle_send_accepts handle_send_rejects by blast

lemma sends_example: "sends 2147483647 ''5:aF01'' 5 [0xAF, 1]"
proof -
  have "strtol 2147483647 ''5:aF01'' = Some (5, '':'' @ ''aF01'')" "uppercase_name ''aF01'' = rzi_at_lorawan_bin_to_hex [0xAF, 1]"
    by code_simp+
  then show ?thesis unfolding sends_def by (intro exI [of _ "''aF01''"]) simp
qed

theorem at_send_exact_witness:
  "handle_send at_lw_ref_env \<lparr>req_operation = OP_WRITE, req_argument = Some ''5:aF01''\<rparr> at_lw_ref_state
    = (case get_lw (rzi_lorawan_get_confirmed (lwe at_lw_ref_env)) False at_lw_ref_state of (rc, confirmed, t) \<Rightarrow>
         if rc \<noteq> 0 then (rc, t) else send_payload at_lw_ref_env 5 [0xAF, 1] confirmed t)"
  using at_send_exact [of at_lw_ref_env "''5:aF01''" 5 "[0xAF, 1]" at_lw_ref_state] sends_example by simp

text \<open>
  The two commands for an uplink agree: \<^verbatim>\<open>AT+SEND\<close> with a port and hexadecimal digits does what \<^verbatim>\<open>AT+LPSEND\<close> does with the same
  port and digits and the stored confirmation mode in between.
\<close>

theorem at_lpsend_equivalent:
  assumes "1 \<le> port" and "port \<le> 223" and "223 \<le> long_max E" and "payload \<noteq> []" and "length payload \<le> 242"
    and "uppercase_name hex = rzi_at_lorawan_bin_to_hex payload" and "get_lw (rzi_lorawan_get_confirmed (lwe E)) False s = (0, confirmed, t)"
  shows "handle_send E \<lparr>req_operation = OP_WRITE, req_argument = Some (show_nat port @ '':'' @ hex)\<rparr> s
    = handle_lpsend E \<lparr>req_operation = OP_WRITE, req_argument = Some (show_nat port @ '':'' @ bit_text confirmed @ '':'' @ hex)\<rparr> t"
proof -
  have "sends (long_max E) (show_nat port @ '':'' @ hex) (int port) payload"
    using assms(1-6) strtol_colon [of port "long_max E" hex] by (auto simp: sends_def)
  then show ?thesis using handle_lpsend_accepts [OF assms(1-6)] assms(7) by (simp add: handle_send_accepts)
qed

theorem at_lpsend_equivalent_witness:
  "\<exists>t. handle_send at_lw_ref_env \<lparr>req_operation = OP_WRITE, req_argument = Some ''5:aF01''\<rparr> at_lw_ref_state
    = handle_lpsend at_lw_ref_env \<lparr>req_operation = OP_WRITE, req_argument = Some ''5:0:aF01''\<rparr> t"
proof -
  let ?g = "get_lw (rzi_lorawan_get_confirmed (lwe at_lw_ref_env)) False at_lw_ref_state"
  have "fst ?g = 0" "\<not> fst (snd ?g)" by code_simp+
  then have "?g = (0, False, snd (snd ?g))" by (simp add: prod_eq_iff)
  moreover have "uppercase_name ''aF01'' = rzi_at_lorawan_bin_to_hex [0xAF, 1]" "show_nat 5 = ''5''" "bit_text False = ''0''" by code_simp+
  ultimately show ?thesis
    using at_lpsend_equivalent [of 5 at_lw_ref_env "[0xAF, 1]" "''aF01''" at_lw_ref_state False "snd (snd ?g)"] by auto
qed

text \<open>
  A downlink is kept and given once: after the event of a downlink, \<^verbatim>\<open>AT+RECV=?\<close> answers its port and its bytes in
  hexadecimal digits, and the next \<^verbatim>\<open>AT+RECV=?\<close> without another downlink in between answers nothing.
\<close>

theorem at_downlink_once:
  assumes "u = snd (handle_recv E q (lw_on_event E (EVENT_DOWNDATA dl) s))"
  shows "(\<exists>t. last_downlink t = \<lparr>rd_valid = False, rd_port = dl_port dl, rd_size = dl_size dl, rd_data = take (dl_size dl) (dl_data dl)\<rparr>
      \<and> handle_recv E q (lw_on_event E (EVENT_DOWNDATA dl) s)
        = rzi_at_respond_value E (''AT+RECV='' @ show_nat (unat (dl_port dl)) @ '':''
            @ rzi_at_lorawan_bin_to_hex (take (dl_size dl) (dl_data dl))) t)
    \<and> handle_recv E q u = rzi_at_respond_value E ''AT+RECV='' u"
proof -
  define v where "v = lw_on_event E (EVENT_DOWNDATA dl) s"
  have v: "last_downlink v = \<lparr>rd_valid = True, rd_port = dl_port dl, rd_size = dl_size dl, rd_data = take (dl_size dl) (dl_data dl)\<rparr>"
    by (simp add: v_def lw_on_event_def Let_def event_frame)
  define t where "t = v\<lparr>last_downlink := (last_downlink v)\<lparr>rd_valid := False\<rparr>\<rparr>"
  have r: "handle_recv E q v = rzi_at_respond_value E (''AT+RECV='' @ show_nat (unat (dl_port dl)) @ '':''
            @ rzi_at_lorawan_bin_to_hex (take (dl_size dl) (dl_data dl))) t"
    using v by (simp add: handle_recv_def Let_def t_def)
  have "log_free last_downlink" by (simp add: log_free_def)
  then have "last_downlink u = last_downlink t" using assms r respond_unchanged(2) by (metis v_def)
  then have "\<not> rd_valid (last_downlink u)" by (simp add: t_def)
  then have "handle_recv E q u = rzi_at_respond_value E ''AT+RECV='' u" by (simp add: handle_recv_def Let_def)
  then show ?thesis using r v unfolding v_def [symmetric] by (auto simp: t_def intro!: exI [of _ t])
qed

definition ref_downlink :: rzi_lorawan_downlink where
  "ref_downlink = \<lparr>dl_port = 2, dl_size = 2, dl_rssi_dbm = - 50, dl_snr_quarter_db = 20, dl_flags = 0, dl_window = 0,
     dl_multicast_group = 0, dl_data_rate = 0, dl_frequency_hz = 868100000, dl_data = [1, 0xAB]\<rparr>"

theorem at_downlink_once_witness:
  "\<exists>t. handle_recv at_lw_ref_env \<lparr>req_operation = OP_READ, req_argument = None\<rparr>
      (lw_on_event at_lw_ref_env (EVENT_DOWNDATA ref_downlink) at_lw_ref_state) = rzi_at_respond_value at_lw_ref_env ''AT+RECV=2:01AB'' t"
proof -
  have "show_nat (unat (dl_port ref_downlink)) = ''2''"
    "rzi_at_lorawan_bin_to_hex (take (dl_size ref_downlink) (dl_data ref_downlink)) = ''01AB''" by code_simp+
  then show ?thesis using at_downlink_once [OF refl, where E = at_lw_ref_env and dl = ref_downlink and s = at_lw_ref_state
      and q = "\<lparr>req_operation = OP_READ, req_argument = None\<rparr>"] by auto
qed

end
