(* ===== verification/Rzi_At_Lorawan_Net.thy ===== *)
theory Rzi_At_Lorawan_Net
  imports Rzi_At_Lorawan_Join
begin

text \<open>
  The commands for the region, the class and the MAC parameters,
  \<^verbatim>\<open>src/at/commands/lorawan/at_lorawan_network_management.c\<close>, and for the channel mask,
  \<^verbatim>\<open>at_lorawan_supplementary.c\<close>.
\<close>

section \<open>Network management\<close>

definition class_supported :: "('d, 'u, 'x, 'm, 'e) lw_cmd_env \<Rightarrow> nat \<Rightarrow> int" where
  "class_supported E cls =
     (let capabilities = rzi_lorawan_get_capabilities (lwe E) in
      if cls = RZI_LORAWAN_CLASS_A then (if capabilities AND RZI_LORAWAN_CAP_CLASS_A \<noteq> 0 then 0 else - RZI_ERR_NOT_SUPPORTED)
      else if cls = RZI_LORAWAN_CLASS_B then (if capabilities AND RZI_LORAWAN_CAP_CLASS_B \<noteq> 0 then 0 else - RZI_ERR_NOT_SUPPORTED)
      else if cls = RZI_LORAWAN_CLASS_C then (if capabilities AND RZI_LORAWAN_CAP_CLASS_C \<noteq> 0 then 0 else - RZI_ERR_NOT_SUPPORTED)
      else - RZI_ERR_INVALID)"

definition class_letter :: "nat \<Rightarrow> char" where
  "class_letter cls = (if cls = RZI_LORAWAN_CLASS_B then CHR ''B'' else if cls = RZI_LORAWAN_CLASS_C then CHR ''C'' else CHR ''A'')"

definition handle_bool ::
  "('d, 'u, 'x, 'm, 'e) lw_cmd_env \<Rightarrow> rzi_at_request \<Rightarrow> string \<Rightarrow> (('d, 'u, 'x, 'm) lw_seen, bool) getter
   \<Rightarrow> (bool \<Rightarrow> ('d, 'u, 'x, 'm) lw_seen op) \<Rightarrow> ('d, 'u, 'x, 'm) at_lw_state_scheme op" where
  "handle_bool E request name get put s =
     (if req_operation request = OP_READ then
        answer_value E (\<lambda>enabled. ''AT+'' @ name @ ''='' @ bit_text enabled) (get_lw get False s)
      else case rzi_at_lorawan_parse_bool (the (req_argument request)) of
        Inl rc \<Rightarrow> (rc, s)
      | Inr enabled \<Rightarrow> answer_ok E (on_lw (put enabled)) s)"

definition handle_u32 ::
  "('d, 'u, 'x, 'm, 'e) lw_cmd_env \<Rightarrow> rzi_at_request \<Rightarrow> string \<Rightarrow> (('d, 'u, 'x, 'm) lw_seen, u32) getter
   \<Rightarrow> (u32 \<Rightarrow> ('d, 'u, 'x, 'm) lw_seen op) option \<Rightarrow> u32 \<Rightarrow> ('d, 'u, 'x, 'm) at_lw_state_scheme op" where
  "handle_u32 E request name get put scale s =
     (if req_operation request = OP_READ then
        answer_value E (\<lambda>v. ''AT+'' @ name @ ''='' @ show_nat (unat (v div scale))) (get_lw get 0 s)
      else case put of
        None \<Rightarrow> (- RZI_ERR_NOT_SUPPORTED, s)
      | Some f \<Rightarrow> (case rzi_at_lorawan_parse_long E (req_argument request) of
          Inl rc \<Rightarrow> (- RZI_ERR_INVALID, s)
        | Inr parsed \<Rightarrow>
            if parsed \<le> 0 then (- RZI_ERR_INVALID, s) else answer_ok E (on_lw (f (of_int parsed * scale))) s))"

definition handle_band :: "('d, 'u, 'x, 'm, 'e) lw_handler" where
  "handle_band E request s =
     (if req_operation request = OP_READ then
        answer_value E (\<lambda>region. ''AT+BAND='' @ show_int (rzi_at_lorawan_region_to_band region))
          (get_lw (rzi_lorawan_get_region (lwe E)) 0 s)
      else if service_started s then (- RZI_ERR_BUSY, s)
      else case strtol (long_max E) (the (req_argument request)) of
        None \<Rightarrow> (- RZI_ERR_INVALID, s)
      | Some (band, rest) \<Rightarrow>
          if rest \<noteq> [] then (- RZI_ERR_INVALID, s)
          else case rzi_at_lorawan_band_to_region (sint (of_int band :: 32 word)) of
            Inl rc \<Rightarrow> (rc, s)
          | Inr region \<Rightarrow> answer_ok E (on_lw (rzi_lorawan_set_region (lwe E) region)) s)"

definition handle_class :: "('d, 'u, 'x, 'm, 'e) lw_handler" where
  "handle_class E request s =
     (if req_operation request = OP_READ then
        (if service_started s then
           (case get_lw (rzi_lorawan_get_class (lwe E)) 0 s of (rc, cls, t) \<Rightarrow>
              if rc \<noteq> 0 then (rc, t)
              else rzi_at_respond_value E (''AT+CLASS='' @ [class_letter cls]) (t\<lparr>device_class := cls\<rparr>))
         else rzi_at_respond_value E (''AT+CLASS='' @ [class_letter (device_class s)]) s)
      else
        let argument = the (req_argument request) in
        case (if argument = ''A'' then Some RZI_LORAWAN_CLASS_A else if argument = ''B'' then Some RZI_LORAWAN_CLASS_B
              else if argument = ''C'' then Some RZI_LORAWAN_CLASS_C else None) of
          None \<Rightarrow> (- RZI_ERR_INVALID, s)
        | Some cls \<Rightarrow>
            if class_supported E cls \<noteq> 0 then (class_supported E cls, s)
            else case (if service_started s then on_lw (rzi_lorawan_set_class (lwe E) cls) s else (0, s)) of (rc, t) \<Rightarrow>
              if rc \<noteq> 0 then (rc, t) else rzi_at_respond_status E STATUS_OK (t\<lparr>device_class := cls\<rparr>))"

definition handle_adr :: "('d, 'u, 'x, 'm, 'e) lw_handler" where
  "handle_adr E request = handle_bool E request ''ADR'' (rzi_lorawan_get_adr (lwe E)) (rzi_lorawan_set_adr (lwe E))"

definition handle_dcs :: "('d, 'u, 'x, 'm, 'e) lw_handler" where
  "handle_dcs E request = handle_bool E request ''DCS'' rzi_lorawan_get_duty_cycle rzi_lorawan_set_duty_cycle"

definition handle_pnm :: "('d, 'u, 'x, 'm, 'e) lw_handler" where
  "handle_pnm E request =
     handle_bool E request ''PNM'' (rzi_lorawan_get_public_network (lwe E)) (rzi_lorawan_set_public_network (lwe E))"

definition handle_lbt :: "('d, 'u, 'x, 'm, 'e) lw_handler" where
  "handle_lbt E request = handle_bool E request ''LBT'' (rzi_lorawan_get_lbt (lwe E)) (rzi_lorawan_set_lbt (lwe E))"

text \<open>The commands for a number in a range: \<^verbatim>\<open>AT+DR\<close>, \<^verbatim>\<open>AT+TXP\<close>, \<^verbatim>\<open>AT+RX2DR\<close>, \<^verbatim>\<open>AT+LINKCHECK\<close>, \<^verbatim>\<open>AT+PGSLOT\<close>.\<close>

definition ranged ::
  "('d, 'u, 'x, 'm, 'e) lw_cmd_env \<Rightarrow> rzi_at_request \<Rightarrow> int \<Rightarrow> (int \<Rightarrow> ('d, 'u, 'x, 'm) lw_seen op)
   \<Rightarrow> ('d, 'u, 'x, 'm) at_lw_state_scheme op" where
  "ranged E request highest put s =
     (case rzi_at_lorawan_parse_long E (req_argument request) of
        Inl rc \<Rightarrow> (- RZI_ERR_INVALID, s)
      | Inr parsed \<Rightarrow> if parsed < 0 \<or> parsed > highest then (- RZI_ERR_INVALID, s) else answer_ok E (on_lw (put parsed)) s)"

definition handle_dr :: "('d, 'u, 'x, 'm, 'e) lw_handler" where
  "handle_dr E request s =
     (if req_operation request = OP_READ then
        answer_value E (\<lambda>rate. ''AT+DR='' @ show_nat rate) (get_lw (rzi_lorawan_get_data_rate (lwe E)) 0 s)
      else ranged E request 15 (\<lambda>parsed. rzi_lorawan_set_data_rate (lwe E) (nat parsed)) s)"

definition handle_txp :: "('d, 'u, 'x, 'm, 'e) lw_handler" where
  "handle_txp E request s =
     (if req_operation request = OP_READ then
        answer_value E (\<lambda>p. ''AT+TXP='' @ show_nat (unat p)) (get_lw rzi_lorawan_get_tx_power 0 s)
      else ranged E request 15 (\<lambda>parsed. rzi_lorawan_set_tx_power (of_int parsed)) s)"

definition handle_rx1dl :: "('d, 'u, 'x, 'm, 'e) lw_handler" where
  "handle_rx1dl E request = handle_u32 E request ''RX1DL'' rzi_lorawan_get_rx1_delay (Some rzi_lorawan_set_rx1_delay) 1000"

definition handle_rx2dl :: "('d, 'u, 'x, 'm, 'e) lw_handler" where
  "handle_rx2dl E request = handle_u32 E request ''RX2DL'' rzi_lorawan_get_rx2_delay (Some rzi_lorawan_set_rx2_delay) 1000"

definition handle_jn1dl :: "('d, 'u, 'x, 'm, 'e) lw_handler" where
  "handle_jn1dl E request =
     handle_u32 E request ''JN1DL'' rzi_lorawan_get_join_accept_delay1 (Some rzi_lorawan_set_join_accept_delay1) 1000"

definition handle_jn2dl :: "('d, 'u, 'x, 'm, 'e) lw_handler" where
  "handle_jn2dl E request =
     handle_u32 E request ''JN2DL'' rzi_lorawan_get_join_accept_delay2 (Some rzi_lorawan_set_join_accept_delay2) 1000"

definition handle_rx2dr :: "('d, 'u, 'x, 'm, 'e) lw_handler" where
  "handle_rx2dr E request s =
     (if req_operation request = OP_READ then
        answer_value E (\<lambda>rate. ''AT+RX2DR='' @ show_nat rate) (get_lw rzi_lorawan_get_rx2_data_rate 0 s)
      else ranged E request 15 (\<lambda>parsed. rzi_lorawan_set_rx2_data_rate (nat parsed)) s)"

definition handle_rx2fq :: "('d, 'u, 'x, 'm, 'e) lw_handler" where
  "handle_rx2fq E request =
     handle_u32 E request ''RX2FQ'' rzi_lorawan_get_rx2_frequency (Some rzi_lorawan_set_rx2_frequency) 1"

definition handle_lbt_rssi :: "('d, 'u, 'x, 'm, 'e) lw_handler" where
  "handle_lbt_rssi E request s =
     (if req_operation request = OP_READ then
        answer_value E (\<lambda>rssi. ''AT+LBTRSSI='' @ show_int rssi) (get_lw (rzi_lorawan_get_lbt_rssi (lwe E)) 0 s)
      else case rzi_at_lorawan_parse_long E (req_argument request) of
        Inl rc \<Rightarrow> (rc, s)
      | Inr parsed \<Rightarrow> answer_ok E (on_lw (rzi_lorawan_set_lbt_rssi (lwe E) (sint (of_int parsed :: 16 word)))) s)"

definition handle_lbt_scan :: "('d, 'u, 'x, 'm, 'e) lw_handler" where
  "handle_lbt_scan E request =
     handle_u32 E request ''LBTSCANTIME'' (rzi_lorawan_get_lbt_scan_time (lwe E)) (Some (rzi_lorawan_set_lbt_scan_time (lwe E))) 1"

definition handle_timereq :: "('d, 'u, 'x, 'm, 'e) lw_handler" where
  "handle_timereq E request s =
     (if req_operation request = OP_READ then
        answer_value E (\<lambda>enabled. ''AT+TIMEREQ='' @ bit_text enabled) (get_lw (rzi_lorawan_get_device_time_enabled (lwe E)) False s)
      else case rzi_at_lorawan_parse_bool (the (req_argument request)) of
        Inl rc \<Rightarrow> (rc, s)
      | Inr enabled \<Rightarrow> answer_ok E (on_lw (rzi_lorawan_request_device_time (lwe E) enabled)) s)"

definition handle_linkcheck :: "('d, 'u, 'x, 'm, 'e) lw_handler" where
  "handle_linkcheck E request s =
     (if req_operation request = OP_READ then
        answer_value E (\<lambda>mode. ''AT+LINKCHECK='' @ show_nat mode) (get_lw (rzi_lorawan_get_link_check_mode (lwe E)) 0 s)
      else ranged E request 2 (\<lambda>parsed. rzi_lorawan_request_link_check (lwe E) (nat parsed)) s)"

definition network_management_handlers :: "('d, 'u, 'x, 'm, 'e) lw_handler list" where
  "network_management_handlers =
     [handle_band, handle_class, handle_adr, handle_dcs, handle_dr, handle_txp, handle_pnm, handle_rx1dl, handle_rx2dl,
      handle_rx2dr, handle_rx2fq, handle_jn1dl, handle_jn2dl, handle_lbt, handle_lbt_rssi, handle_lbt_scan,
      handle_linkcheck, handle_timereq]"

definition network_management_commands :: "nat \<Rightarrow> rzi_at_command list" where
  "network_management_commands h =
     [lw_command ''BAND'' (''get or set the active region (0 = EU433, 1 = CN470, 2 = RU864, '' @
        ''3 = IN865, 4 = EU868, 5 = US915, 6 = AU915, 7 = KR920, '' @
        ''8 = AS923-1, 9 = AS923-2, 10 = AS923-3, 11 = AS923-4, 12 = LA915)'') ALLOW_READ_WRITE h 0,
      lw_command ''CLASS'' ''get or set the device class (A = class A, B = class B, C = class C)'' ALLOW_READ_WRITE (h + 1) 0,
      lw_command ''ADR'' ''get or set the adaptive data rate setting (0 = off, 1 = on)'' ALLOW_READ_WRITE (h + 2) 0,
      lw_command ''DCS'' ''get or set the ETSI duty cycle setting (0 = disabled, 1 = enabled)'' ALLOW_READ_WRITE (h + 3) 0,
      lw_command ''DR'' ''get or set the data rate'' ALLOW_READ_WRITE (h + 4) 0,
      lw_command ''TXP'' ''get or set the transmitting power'' ALLOW_READ_WRITE (h + 5) 0,
      lw_command ''PNM'' ''get or set the public network mode (0 = off, 1 = on)'' ALLOW_READ_WRITE (h + 6) 0,
      lw_command ''RX1DL'' ''get or set the delay between the end of TX and RX window 1 in seconds'' ALLOW_READ_WRITE (h + 7) 0,
      lw_command ''RX2DL'' ''get or set the delay between the end of TX and RX window 2 in seconds'' ALLOW_READ_WRITE (h + 8) 0,
      lw_command ''RX2DR'' ''get or set the RX2 window data rate'' ALLOW_READ_WRITE (h + 9) 0,
      lw_command ''RX2FQ'' ''get or set the RX2 window frequency (Hz)'' ALLOW_READ_WRITE (h + 10) 0,
      lw_command ''JN1DL'' ''get or set the join accept delay for Rx window 1 in seconds'' ALLOW_READ_WRITE (h + 11) 0,
      lw_command ''JN2DL'' ''get or set the join accept delay for Rx window 2 in seconds'' ALLOW_READ_WRITE (h + 12) 0,
      lw_command ''LBT'' ''get or set LoRaWAN LBT (0 = disabled, 1 = enabled)'' ALLOW_READ_WRITE (h + 13) 0,
      lw_command ''LBTRSSI'' ''get or set the LoRaWAN LBT RSSI threshold'' ALLOW_READ_WRITE (h + 14) 0,
      lw_command ''LBTSCANTIME'' ''get or set the LoRaWAN LBT scan time in milliseconds'' ALLOW_READ_WRITE (h + 15) 0,
      lw_command ''LINKCHECK'' ''get or set the link check setting (0 = disabled, 1 = once, 2 = everytime)'' ALLOW_READ_WRITE (h + 16) 0,
      lw_command ''TIMEREQ'' ''request the current date and time (0 = disabled, 1 = enabled)'' ALLOW_READ_WRITE (h + 17) 0]"

section \<open>Channel groups\<close>

abbreviation (input) NARROW_BLOCKS :: nat where "NARROW_BLOCKS \<equiv> 8"
abbreviation (input) WIDE_GROUP :: nat where "WIDE_GROUP \<equiv> 8"
abbreviation (input) GROUPS :: nat where "GROUPS \<equiv> 9"
abbreviation (input) WIDE_FIRST :: nat where "WIDE_FIRST \<equiv> 64"
abbreviation (input) MASK_ALL :: int where "MASK_ALL \<equiv> 0x1FF"

definition at_has_channel :: "u16 list \<Rightarrow> nat \<Rightarrow> bool" where
  "at_has_channel words channel \<longleftrightarrow> words ! (channel div 16) AND push_bit (channel mod 16) 1 \<noteq> 0"

definition at_put_channel :: "nat \<Rightarrow> u16 list \<Rightarrow> u16 list" where
  "at_put_channel channel words = words[channel div 16 := words ! (channel div 16) OR push_bit (channel mod 16) 1]"

definition group_first :: "nat \<Rightarrow> nat" where
  "group_first g = (if g = WIDE_GROUP then WIDE_FIRST else g * 8)"

definition put_group :: "nat \<Rightarrow> u16 list \<Rightarrow> u16 list" where
  "put_group g words = fold at_put_channel [group_first g..<group_first g + 8] words"

definition enabled_in_group :: "u16 list \<Rightarrow> nat \<Rightarrow> nat" where
  "enabled_in_group words g =
     fold (\<lambda>channel enabled. enabled + (if at_has_channel words channel then 1 else 0)) [group_first g..<group_first g + 8] 0"

definition groups_of :: "u16 list \<Rightarrow> u16" where
  "groups_of words =
     (let full = fold (\<lambda>g acc. if enabled_in_group words g = 8 then acc OR push_bit g 1 else acc) [0..<GROUPS] 0;
          partial = fold (\<lambda>g acc. if enabled_in_group words g \<noteq> 0 then acc OR push_bit g 1 else acc) [0..<GROUPS] 0
      in if full \<noteq> 0 then full else partial)"

definition read_groups ::
  "('d, 'u, 'x, 'm, 'e) lw_cmd_env \<Rightarrow> ('d, 'u, 'x, 'm) at_lw_state_scheme \<Rightarrow> int \<times> u16 \<times> ('d, 'u, 'x, 'm) at_lw_state_scheme" where
  "read_groups E s =
     (case get_lw (rzi_lorawan_get_channel_mask (lwe E) RZI_LORAWAN_CHANNEL_MASK_WORDS)
             (replicate RZI_LORAWAN_CHANNEL_MASK_WORDS 0) s of (rc, words, t) \<Rightarrow>
        if rc \<noteq> 0 then (rc, 0, t) else (0, groups_of words, t))"

definition write_mask :: "('d, 'u, 'x, 'm, 'e) lw_cmd_env \<Rightarrow> u16 list \<Rightarrow> ('d, 'u, 'x, 'm) at_lw_state_scheme op" where
  "write_mask E words = answer_ok E (on_lw (rzi_lorawan_set_channel_mask (lwe E) (Some words) RZI_LORAWAN_CHANNEL_MASK_WORDS))"

text \<open>\<^verbatim>\<open>strtoul\<close> in base 16: an optional prefix \<^verbatim>\<open>0x\<close> belongs to the number when a digit follows it.\<close>

definition strtoul_hex :: "int \<Rightarrow> string \<Rightarrow> (int \<times> string) option" where
  "strtoul_hex lmax text =
     (let t = dropWhile is_space text;
          negative = (t \<noteq> [] \<and> hd t = CHR ''-'');
          u = (if t \<noteq> [] \<and> (hd t = CHR ''-'' \<or> hd t = CHR ''+'') then tl t else t);
          v = (if length u > 2 \<and> u ! 0 = CHR ''0'' \<and> (u ! 1 = CHR ''x'' \<or> u ! 1 = CHR ''X'') \<and> hex_nibble (u ! 2) \<ge> 0
               then drop 2 u else u);
          ds = takeWhile (\<lambda>c. hex_nibble c \<ge> 0) v;
          n = foldl (\<lambda>acc c. 16 * acc + hex_nibble c) 0 ds;
          ulong_max = 2 * lmax + 1
      in if ds = [] then None
         else Some (if n > ulong_max then ulong_max else if negative then (- n) mod (ulong_max + 1) else n,
                    dropWhile (\<lambda>c. hex_nibble c \<ge> 0) v))"

definition mask_for :: "int \<Rightarrow> u16 list" where
  "mask_for v =
     (let words = fold (\<lambda>block w. if v AND push_bit block 1 \<noteq> 0 then at_put_channel (WIDE_FIRST + block) (put_group block w) else w)
            [0..<NARROW_BLOCKS] (replicate RZI_LORAWAN_CHANNEL_MASK_WORDS 0)
      in if v AND push_bit WIDE_GROUP 1 \<noteq> 0 then put_group WIDE_GROUP words else words)"

definition hex_word :: "u16 \<Rightarrow> string" where
  "hex_word w = hex_byte (ucast (drop_bit 8 w)) @ hex_byte (ucast w)"

definition handle_mask :: "('d, 'u, 'x, 'm, 'e) lw_handler" where
  "handle_mask E request s =
     (if req_operation request = OP_READ then answer_value E (\<lambda>groups. ''AT+MASK='' @ hex_word groups) (read_groups E s)
      else let argument = the (req_argument request) in
        if length argument \<noteq> 4 then (- RZI_ERR_INVALID, s)
        else case strtoul_hex (long_max E) argument of
          None \<Rightarrow> (- RZI_ERR_INVALID, s)
        | Some (v, rest) \<Rightarrow>
            if rest \<noteq> [] \<or> v AND NOT MASK_ALL \<noteq> 0 then (- RZI_ERR_INVALID, s)
            else write_mask E (mask_for (if v = 0 then MASK_ALL else v)) s)"

text \<open>The listing of the groups, and the loop over the listed numbers; \<open>None\<close> is the error return.\<close>

definition che_text :: "u16 \<Rightarrow> string" where
  "che_text groups =
     fold (\<lambda>g text. if groups AND push_bit g 1 \<noteq> 0 then text @ (if text = [] then [] else '':'') @ show_nat (g + 1) else text)
       [0..<GROUPS] []"

function che_groups :: "int \<Rightarrow> nat \<Rightarrow> string \<Rightarrow> u16 list \<Rightarrow> u16 list option" where
  "che_groups lmax count cursor words =
     (if count \<ge> GROUPS then None
      else case strtoul lmax cursor of
        None \<Rightarrow> None
      | Some (v, end) \<Rightarrow>
          if v < 1 \<or> v > int GROUPS \<or> (end \<noteq> [] \<and> hd end \<noteq> CHR '':'') then None
          else if end = [] then Some (put_group (nat (v - 1)) words)
          else che_groups lmax (Suc count) (tl end) (put_group (nat (v - 1)) words))"
  by pat_completeness auto
termination by (relation "measure (\<lambda>(lmax, count, cursor, words). GROUPS - count)") auto

declare che_groups.simps [simp del]

definition handle_che :: "('d, 'u, 'x, 'm, 'e) lw_handler" where
  "handle_che E request s =
     (let zero = replicate RZI_LORAWAN_CHANNEL_MASK_WORDS 0 in
      if req_operation request = OP_READ then
        answer_value E (\<lambda>groups. if groups = of_int MASK_ALL then ''AT+CHE=0'' else ''AT+CHE='' @ che_text groups) (read_groups E s)
      else let argument = the (req_argument request) in
        if argument = ''0'' then write_mask E (fold put_group [0..<NARROW_BLOCKS] (put_group WIDE_GROUP zero)) s
        else case che_groups (long_max E) 0 argument zero of
          None \<Rightarrow> (- RZI_ERR_INVALID, s)
        | Some words \<Rightarrow> write_mask E words s)"

definition handle_chs :: "('d, 'u, 'x, 'm, 'e) lw_handler" where
  "handle_chs E request s =
     (if req_operation request = OP_READ then
        answer_value E (\<lambda>hz. ''AT+CHS='' @ show_nat (unat hz)) (get_lw (rzi_lorawan_get_fixed_channel (lwe E)) 0 s)
      else case rzi_at_lorawan_parse_long E (req_argument request) of
        Inl rc \<Rightarrow> (- RZI_ERR_INVALID, s)
      | Inr parsed \<Rightarrow>
          if parsed < 0 then (- RZI_ERR_INVALID, s)
          else answer_ok E (on_lw (rzi_lorawan_set_fixed_channel (lwe E) (of_int parsed))) s)"

definition supplementary_handlers :: "('d, 'u, 'x, 'm, 'e) lw_handler list" where
  "supplementary_handlers = [handle_mask, handle_che, handle_chs]"

definition supplementary_commands :: "nat \<Rightarrow> rzi_at_command list" where
  "supplementary_commands h =
     [lw_command ''MASK'' ''get or set the channel mask (only for US915, AU915)'' ALLOW_READ_WRITE h 0,
      lw_command ''CHE'' ''get or set eight channels mode (only for US915, AU915)'' ALLOW_READ_WRITE (h + 1) 0,
      lw_command ''CHS'' ''get or set single channel mode (only for US915, AU915)'' ALLOW_READ_WRITE (h + 2) 0]"

section \<open>Channel groups and masks\<close>

lemma at_channel_eq: "at_has_channel = has_channel" "at_put_channel = put_channel"
  by (simp_all add: fun_eq_iff at_has_channel_def has_channel_def at_put_channel_def put_channel_def)

lemma group_channels: "g \<le> 8 \<Longrightarrow> c \<in> set [group_first g..<group_first g + 8] \<Longrightarrow> c < 96"
  by (auto simp: group_first_def split: if_splits)

lemma has_put_group:
  assumes "length w = 6" and "g \<le> 8"
  shows "length (put_group g w) = 6"
    and "d < 96 \<Longrightarrow> has_channel (put_group g w) d \<longleftrightarrow> group_first g \<le> d \<and> d < group_first g + 8 \<or> has_channel w d"
proof -
  have c: "\<forall>c\<in>set [group_first g..<group_first g + 8]. c < 96" using group_channels [OF assms(2)] by blast
  show "length (put_group g w) = 6" using has_fold_put [OF assms(1) c, of 0] by (simp add: put_group_def at_channel_eq)
  show "has_channel (put_group g w) d \<longleftrightarrow> group_first g \<le> d \<and> d < group_first g + 8 \<or> has_channel w d" if "d < 96"
    using has_fold_put [OF assms(1) c that] by (simp add: put_group_def at_channel_eq)
qed

text \<open>The channels that bit \<open>b\<close> of the value of \<^verbatim>\<open>AT+MASK\<close> enables.\<close>

definition bit_channel :: "nat \<Rightarrow> nat \<Rightarrow> bool" where
  "bit_channel b d \<longleftrightarrow> group_first b \<le> d \<and> d < group_first b + 8 \<or> b < 8 \<and> d = 64 + b"

lemma int_bit_test: "v AND push_bit n 1 \<noteq> 0 \<longleftrightarrow> bit (v :: int) n"
  by (simp only: bit_iff_and_push_bit_not_eq_0)

lemma has_fold_blocks:
  assumes "length w = 6" and "\<forall>b\<in>set bs. b < 8"
  shows "length (fold (\<lambda>block w. if (v :: int) AND push_bit block 1 \<noteq> 0 then at_put_channel (64 + block) (put_group block w) else w) bs w) = 6
    \<and> (\<forall>d < 96. has_channel (fold (\<lambda>block w. if v AND push_bit block 1 \<noteq> 0 then at_put_channel (64 + block) (put_group block w) else w) bs w) d
        \<longleftrightarrow> has_channel w d \<or> (\<exists>b\<in>set bs. bit v b \<and> bit_channel b d))"
  using assms
proof (induction bs arbitrary: w)
  case (Cons b bs)
  have b: "b < 8" "b \<le> 8" "64 + b < 96" using Cons.prems(2) by auto
  define u where "u = (if v AND push_bit b 1 \<noteq> 0 then at_put_channel (64 + b) (put_group b w) else w)"
  have ub: "u = (if bit v b then put_channel (64 + b) (put_group b w) else w)" by (simp only: u_def int_bit_test at_channel_eq)
  have g: "length (put_group b w) = 6" using has_put_group(1) [OF Cons.prems(1) b(2)] .
  have l: "length u = 6" using g Cons.prems(1) by (simp add: ub)
  have h: "has_channel u d \<longleftrightarrow> has_channel w d \<or> bit v b \<and> bit_channel b d" if "d < 96" for d
    using has_put_channel [OF g b(3) that] has_put_group(2) [OF Cons.prems(1) b(2) that] b(1)
    by (auto simp: ub bit_channel_def)
  show ?case using Cons.IH [OF l] Cons.prems(2) h unfolding fold.simps comp_apply u_def [symmetric] by auto
qed simp

lemma zero_words: "replicate 6 0 = zero_mask"
  by (simp add: zero_mask_def)

lemma has_mask_for:
  "length (mask_for v) = 6" "d < 96 \<Longrightarrow> has_channel (mask_for v) d \<longleftrightarrow> (\<exists>b\<le>8. bit v b \<and> bit_channel b d)"
proof -
  define w where "w = fold (\<lambda>block w. if v AND push_bit block 1 \<noteq> 0 then at_put_channel (64 + block) (put_group block w) else w) [0..<8] zero_mask"
  have w: "length w = 6" "d < 96 \<Longrightarrow> has_channel w d \<longleftrightarrow> (\<exists>b<8. bit v b \<and> bit_channel b d)" for d
    using has_fold_blocks [of zero_mask "[0..<8]" v] has_zero_mask by (auto simp: w_def simp del: upt_rec_numeral)
  have m: "mask_for v = (if bit v 8 then put_group 8 w else w)"
    unfolding mask_for_def zero_words w_def [symmetric] Let_def by (simp only: int_bit_test)
  show "length (mask_for v) = 6" using w(1) has_put_group(1) [of w 8] by (simp add: m)
  show "has_channel (mask_for v) d \<longleftrightarrow> (\<exists>b\<le>8. bit v b \<and> bit_channel b d)" if "d < 96"
    using w(2) [OF that] has_put_group(2) [OF w(1) order.refl that] by (auto simp: m bit_channel_def le_less)
qed

text \<open>Counting and collecting.\<close>

lemma fold_count: "fold (\<lambda>c n. n + (if P c then 1 else 0)) cs n = n + length (filter P cs)"
  by (induction cs arbitrary: n) simp_all

lemma enabled_full: "enabled_in_group w g = 8 \<longleftrightarrow> (\<forall>c\<in>set [group_first g..<group_first g + 8]. has_channel w c)"
proof -
  have "enabled_in_group w g = length (filter (has_channel w) [group_first g..<group_first g + 8])"
    by (simp add: enabled_in_group_def fold_count at_channel_eq)
  moreover have "length [group_first g..<group_first g + 8] = 8" by simp
  ultimately show ?thesis by (metis filter_True length_filter_less not_less_iff_gr_or_eq)
qed

lemma bit_collect:
  assumes "\<forall>g\<in>set gs. g < 16"
  shows "bit (fold (\<lambda>g acc. if P g then acc OR push_bit g 1 else acc) gs (a :: u16)) n \<longleftrightarrow> bit a n \<or> n \<in> set gs \<and> P n"
  using assms by (induction gs arbitrary: a) (auto simp: bit_simps)

lemma group_of_bit:
  assumes "g \<le> 8"
  shows "(\<forall>c\<in>set [group_first g..<group_first g + 8]. \<exists>b\<le>8. bit v b \<and> bit_channel b c)
    \<longleftrightarrow> bit v g \<or> g = 8 \<and> (\<forall>b<8. bit (v :: int) b)" (is "?all \<longleftrightarrow> ?bits")
proof
  assume a: ?all
  show ?bits
  proof (cases "g = 8")
    case True
    show ?thesis
    proof (rule ccontr)
      assume "\<not> ?bits"
      then obtain b where b: "b < 8" "\<not> bit v b" "\<not> bit v 8" using True by auto
      then have "64 + b \<in> set [group_first g..<group_first g + 8]" using True by (simp add: group_first_def del: upt_rec_numeral)
      with a obtain c where c: "c \<le> 8" "bit v c" "bit_channel c (64 + b)" by blast
      then have "c \<noteq> 8" "c \<noteq> b" using b by auto
      then show False using c b(1) by (auto simp: bit_channel_def group_first_def)
    qed
  next
    case False
    then have "group_first g = g * 8" "g < 8" using assms by (simp_all add: group_first_def)
    then have "g * 8 \<in> set [group_first g..<group_first g + 8]" by simp
    with a obtain c where c: "c \<le> 8" "bit v c" "bit_channel c (g * 8)" by blast
    then have "c = g" using \<open>g < 8\<close> by (auto simp: bit_channel_def group_first_def split: if_splits)
    with c(2) show ?thesis by simp
  qed
next
  assume ?bits
  then show ?all
  proof
    assume "bit v g" then show ?all using assms by (auto simp: bit_channel_def)
  next
    assume g: "g = 8 \<and> (\<forall>b<8. bit v b)"
    show ?all
    proof
      fix c assume "c \<in> set [group_first g..<group_first g + 8]"
      then have "c - 64 < 8" "c = 64 + (c - 64)" using g by (auto simp: group_first_def)
      then show "\<exists>b\<le>8. bit v b \<and> bit_channel b c" using g by (intro exI [of _ "c - 64"]) (auto simp: bit_channel_def)
    qed
  qed
qed

lemma groups_of_mask_for:
  assumes "0 < v" and "v < 512"
  shows "groups_of (mask_for v) = (if v AND 0xFF = 0xFF then 0x1FF else of_int v)"
proof -
  let ?full = "fold (\<lambda>g acc. if enabled_in_group (mask_for v) g = 8 then acc OR push_bit g 1 else acc) [0..<9] 0 :: u16"
  have vb: "\<not> bit v n" if "9 \<le> n" for n
  proof -
    have "v = take_bit 9 v" using assms by (simp add: take_bit_int_eq_self)
    then show ?thesis using that by (metis bit_take_bit_iff not_le)
  qed
  have f: "bit ?full n \<longleftrightarrow> bit v n \<or> n = 8 \<and> (\<forall>b<8. bit v b)" for n
  proof -
    have "bit ?full n \<longleftrightarrow> n < 9 \<and> enabled_in_group (mask_for v) n = 8" by (subst bit_collect) (auto simp del: upt_rec_numeral)
    also have "\<dots> \<longleftrightarrow> n \<le> 8 \<and> (\<forall>c\<in>set [group_first n..<group_first n + 8]. \<exists>b\<le>8. bit v b \<and> bit_channel b c)"
      unfolding enabled_full using group_channels has_mask_for(2) by (metis (no_types, lifting) le_simps(2) Suc_eq_plus1 numeral_eq_Suc eval_nat_numeral(3) less_Suc_eq_le)
    also have "\<dots> \<longleftrightarrow> bit v n \<or> n = 8 \<and> (\<forall>b<8. bit v b)" using group_of_bit [of n v] vb [of n] by (cases "n \<le> 8") auto
    finally show ?thesis .
  qed
  have all: "v AND 0xFF = 0xFF \<longleftrightarrow> (\<forall>b<8. bit v b)"
  proof -
    have m: "(0xFF :: int) = mask 8" by (simp add: mask_eq_exp_minus_1)
    show ?thesis unfolding m bit_eq_iff by (auto simp: bit_simps bit_mask_iff)
  qed
  have "?full = (if v AND 0xFF = 0xFF then 0x1FF else of_int v)"
  proof (rule bit_word_eqI)
    fix n assume n: "n < LENGTH(16)"
    have m: "(0x1FF :: u16) = mask 9" by (simp add: mask_eq_exp_minus_1)
    have "bit (of_int v :: u16) n \<longleftrightarrow> bit v n" using n by (simp add: bit_simps)
    moreover have "bit (0x1FF :: u16) n \<longleftrightarrow> n < 9" unfolding m using n by (simp add: bit_mask_iff)
    ultimately show "bit ?full n \<longleftrightarrow> bit (if v AND 0xFF = 0xFF then 0x1FF else of_int v :: u16) n"
      unfolding f all using vb [of n] by (cases "n < 8"; cases "n = 8") auto
  qed
  moreover have "?full \<noteq> 0"
  proof
    assume z: "?full = 0"
    have "v \<noteq> 0" using assms(1) by simp
    then obtain n where "bit v n" using bit_eq_iff [of v 0] by auto
    with f [of n] z show False by simp
  qed
  ultimately show ?thesis unfolding groups_of_def Let_def by simp
qed

text \<open>The stored mask as a setting of the running service.\<close>

definition mask_good :: "('d, 'u, 'x, 'm, 'e) lw_cmd_env \<Rightarrow> ('d \<Rightarrow> string \<rightharpoonup> bytes) \<Rightarrow> string set \<Rightarrow> ('d, 'u, 'x, 'm) lw_seen \<Rightarrow> bool" where
  "mask_good E view D l \<longleftrightarrow> cred_inv (lwe E) view D l \<and> started l"

lemma get_mask_loaded:
  assumes "started t" and "\<not> k_is_in_isr t" and "loaded (credentials t)" and "plan_at E (configured_region t) \<noteq> None"
  shows "rzi_lorawan_get_channel_mask E 6 (Some old) t
    = (let c = (if channel_mask_set (credentials t) then channel_mask (credentials t) else all_channels)
       in (0, Some (map (\<lambda>i. if i < length c then c ! i else 0) [0..<6]), t))"
  using assms channel_plan_started [OF assms(1,2), of E]
  by (simp add: rzi_lorawan_get_channel_mask_def rzi_lorawan_check_thread_def read_mask_def
      rzi_lorawan_credentials_get_channel_mask_def ensure_loaded_locked_def Let_def del: upt_rec_numeral)

lemma more_started [simp]:
  "started (lorawan_state.more_update f k) = started k" "configured_region (lorawan_state.more_update f k) = configured_region k"
  by (cases k, simp)+

lemma mask_put_get:
  assumes "mask_good E view D l" and "rzi_lorawan_set_channel_mask (lwe E) (Some w) 6 l = (0, k)" and "length w = 6"
  shows "rzi_lorawan_get_channel_mask (lwe E) 6 (Some c) (lorawan_state.more_update (\<lambda>_. m) k)
    = (0, Some w, lorawan_state.more_update (\<lambda>_. m) k)"
proof -
  have inv: "cred_inv (lwe E) view D l" and st: "started l" using assms(1) by (simp_all add: mask_good_def)
  have o: "overlay w zero_mask = w" using assms(3) by (simp add: overlay_def)
  have isr: "\<not> k_is_in_isr l" using assms(2) by (auto simp: rzi_lorawan_set_channel_mask_def rzi_lorawan_check_thread_def Let_def split: if_splits)
  have p: "plan_at (lwe E) (configured_region l) \<noteq> None"
    and s: "rzi_lorawan_credentials_set_channel_mask (lwe E) (if w = all_channels then None else Some w) l = (0, k)"
    using assms(2,3) isr channel_plan_started [OF st isr, of "lwe E"] o
    by (auto simp: rzi_lorawan_set_channel_mask_def rzi_lorawan_check_thread_def store_mask_def Let_def split: if_splits)
  have "\<And>x. (if w = all_channels then None else Some w) = Some x \<Longrightarrow> length x = 6" using assms(3) by (simp split: if_splits)
  then have e: "creds_only l k" "loaded (credentials k)" using set_mask_ok [OF inv _ s] by blast+
  have f: "started k" "configured_region k = configured_region l" "\<not> k_is_in_isr k"
    using creds_only_fields [OF e(1)] creds_only_isr [OF e(1)] st isr by simp_all
  have "rzi_lorawan_get_channel_mask (lwe E) 6 (Some c) k = (0, Some w, k)"
    using channel_mask_roundtrip [OF inv st _ assms(2), of c] assms(3) o by simp
  then show ?thesis using f e(2) p by (simp add: get_mask_loaded Let_def del: upt_rec_numeral cong: if_cong)
qed

interpretation mask: lw_setting "\<lambda>l. mask_good E view D l" "\<lambda>w. if length w = 6 then rzi_lorawan_set_channel_mask (lwe E) (Some w) 6 else Pair (- RZI_ERR_INVALID)"
  "rzi_lorawan_get_channel_mask (lwe E) 6" "\<lambda>c. True"
  by unfold_locales (auto simp: mask_put_get split: if_splits)

section \<open>The text of a mask\<close>

lemma hex_digit_plain:
  assumes "d < 16"
  shows "\<not> is_space (hex_digits ! d)" "hex_digits ! d \<noteq> CHR ''-''" "hex_digits ! d \<noteq> CHR ''+''"
    "hex_digits ! d \<noteq> CHR ''x''" "hex_digits ! d \<noteq> CHR ''X''"
proof -
  have "list_all (\<lambda>d. \<not> is_space (hex_digits ! d) \<and> hex_digits ! d \<notin> {CHR ''-'', CHR ''+'', CHR ''x'', CHR ''X''}) [0..<16]" by code_simp
  then show "\<not> is_space (hex_digits ! d)" "hex_digits ! d \<noteq> CHR ''-''" "hex_digits ! d \<noteq> CHR ''+''"
    "hex_digits ! d \<noteq> CHR ''x''" "hex_digits ! d \<noteq> CHR ''X''" using assms by (auto simp: list_all_iff simp del: upt_rec_numeral)
qed

lemma strtoul_hex_digits:
  assumes "a < 16" and "b < 16" and "c < 16" and "d < 16" and "65535 \<le> lmax"
  shows "strtoul_hex lmax [hex_digits ! a, hex_digits ! b, hex_digits ! c, hex_digits ! d]
    = Some (((int a * 16 + int b) * 16 + int c) * 16 + int d, [])"
proof -
  have "((int a * 16 + int b) * 16 + int c) * 16 + int d \<le> 65535"
  proof -
    have "int a \<le> 15" "int b \<le> 15" "int c \<le> 15" "int d \<le> 15" using assms(1-4) by simp_all
    then show ?thesis by (simp add: distrib_right)
  qed
  then show ?thesis using assms hex_digit_plain [OF assms(1)] hex_digit_plain [OF assms(2)]
    by (simp add: strtoul_hex_def Let_def nibble_digit algebra_simps)
qed

lemma strtoul_hex_word:
  assumes "65535 \<le> lmax"
  shows "strtoul_hex lmax (hex_word w) = Some (uint w, [])" "length (hex_word w) = 4"
proof -
  let ?h = "ucast (drop_bit 8 w) :: u8" and ?l = "ucast w :: u8"
  have h: "hex_word w = [hex_digits ! (unat ?h div 16), hex_digits ! (unat ?h mod 16), hex_digits ! (unat ?l div 16), hex_digits ! (unat ?l mod 16)]"
    by (simp only: hex_word_def hex_byte_def unat_high unat_low append.simps)
  have b: "unat x div 16 < 16" "unat x mod 16 < 16" for x :: u8 using unsigned_less [of x, where 'a = nat] by auto
  have "unat ?l = unat w mod 256" by (simp add: unsigned_ucast_eq take_bit_eq_mod)
  moreover have "unat ?h = unat w div 256"
  proof -
    have "unat (drop_bit 8 w) = unat w div 256" by (rule trans [OF unat_drop_bit_eq]) (simp add: drop_bit_eq_div)
    moreover have "unat w div 256 < 256" using unsigned_less [of w, where 'a = nat] by auto
    ultimately show ?thesis by (simp add: unsigned_ucast_eq take_bit_nat_eq_self)
  qed
  ultimately have "unat ?h * 256 + unat ?l = unat w" by simp
  moreover have "((x div 16 * 16 + x mod 16) * 16 + y div 16) * 16 + y mod 16 = x * 256 + y" for x y :: nat
    using div_mult_mod_eq [of x 16] div_mult_mod_eq [of y 16] by (simp add: algebra_simps)
  ultimately have "((unat ?h div 16 * 16 + unat ?h mod 16) * 16 + unat ?l div 16) * 16 + unat ?l mod 16 = unat w" by simp
  then have "((int (unat ?h div 16) * 16 + int (unat ?h mod 16)) * 16 + int (unat ?l div 16)) * 16 + int (unat ?l mod 16) = uint w"
    by (metis (no_types, lifting) of_nat_add of_nat_mult of_nat_numeral uint_nat)
  then show "strtoul_hex lmax (hex_word w) = Some (uint w, [])" unfolding h using strtoul_hex_digits [OF b b assms] by simp
  show "length (hex_word w) = 4" by (simp add: h)
qed

lemma below_mask:
  assumes "(v :: int) AND NOT 0x1FF = 0"
  shows "v < 512"
proof -
  have m: "(0x1FF :: int) = mask 9" by (simp add: mask_eq_exp_minus_1)
  have "bit v n \<longleftrightarrow> bit (take_bit 9 v) n" for n
    using arg_cong [OF assms, of "\<lambda>i. bit i n"] unfolding m by (auto simp: bit_simps bit_mask_iff)
  then have "v = take_bit 9 v" by (rule bit_eqI)
  then show ?thesis using take_bit_int_less_exp [of 9 v] by simp
qed

section \<open>Properties\<close>

text \<open>
  The channel mask reads back as it was typed, with one exception: on a running service, after \<^verbatim>\<open>AT+MASK\<close> with four hexadecimal digits
  was answered with success, \<^verbatim>\<open>AT+MASK=?\<close> prints the same digits, except that a value that selects all eight blocks of
  125 kHz channels, and the value 0, read back as \<^verbatim>\<open>01FF\<close>: the eight single 500 kHz channels of the blocks are the whole last group.
\<close>

theorem at_mask_readback:
  assumes "cred_inv (lwe E) view D (lw_view s)" and "started (lw s)" and "65535 \<le> long_max E"
    and "handle_mask E \<lparr>req_operation = OP_WRITE, req_argument = Some (hex_word w)\<rparr> s = (0, t)"
  shows "w < 0x200 \<and> handle_mask E \<lparr>req_operation = OP_READ, req_argument = None\<rparr> t
    = rzi_at_respond_value E (''AT+MASK='' @ hex_word (if w = 0 \<or> w AND 0xFF = 0xFF then 0x1FF else w)) t"
proof -
  note x = strtoul_hex_word [OF assms(3), of w]
  define v where "v = (if uint w = 0 then 0x1FF else uint w)"
  have a: "uint w AND NOT 0x1FF = 0" and wr: "write_mask E (mask_for v) s = (0, t)"
    using assms(4) x by (auto simp: handle_mask_def Let_def v_def split: if_splits)
  have lt: "uint w < 512" by (rule below_mask [OF a])
  then have v: "0 < v" "v < 512" using unsigned_greater_eq [of w, where 'a = int] by (auto simp: v_def order.strict_iff_order)
  have "answer_ok E (on_lw (rzi_lorawan_set_channel_mask (lwe E) (Some (mask_for v)) 6)) s = (0, t)" using wr by (simp add: write_mask_def)
  then have "get_lw (rzi_lorawan_get_channel_mask (lwe E) 6) (replicate 6 0) t = (0, mask_for v, t)"
    using mask.write_read [of E view D s E "mask_for v" t "replicate 6 0"] assms(1,2) by (simp add: mask_good_def has_mask_for(1))
  then have r: "read_groups E t = (0, groups_of (mask_for v), t)" by (simp add: read_groups_def)
  have "groups_of (mask_for v) = (if w = 0 \<or> w AND 0xFF = 0xFF then 0x1FF else w)"
  proof (cases "w = 0")
    case True
    then have "v = 0x1FF" by (simp add: v_def)
    then show ?thesis using True by (simp add: groups_of_mask_for)
  next
    case False
    then have u: "v = uint w" by (simp add: v_def uint_0_iff)
    have "uint (w AND 0xFF) = uint w AND 0xFF" by (simp add: unsigned_and_eq)
    then have "v AND 0xFF = 0xFF \<longleftrightarrow> w AND 0xFF = 0xFF" unfolding u word_uint_eq_iff by simp
    then show ?thesis using False v by (simp add: groups_of_mask_for u)
  qed
  then show ?thesis using lt r by (simp add: handle_mask_def answer_value_def word_less_def)
qed

lemma us_ref_inv:
  "cred_inv (lwe at_lw_ref_env) (\<lambda>d. d) D (lw_view (at_lw_ref_state\<lparr>lw := us_state\<rparr>))" "started us_state"
proof -
  have "sets (lw_view (at_lw_ref_state\<lparr>lw := us_state\<rparr>)) = fresh_settings Map.empty"
    by (simp add: lw_view_def lorawan_state.defs us_state_def ref_state_def fresh_settings_def)
  then show "cred_inv (lwe at_lw_ref_env) (\<lambda>d. d) D (lw_view (at_lw_ref_state\<lparr>lw := us_state\<rparr>))" using mem_lw_env_settings [where d = Map.empty]
    by (simp add: cred_inv_def mirrors_def us_state_def ref_state_def credentials_zero_def)
qed (simp add: us_state_def)

theorem at_mask_readback_witness:
  "\<exists>t. handle_mask at_lw_ref_env \<lparr>req_operation = OP_WRITE, req_argument = Some ''0003''\<rparr> (at_lw_ref_state\<lparr>lw := us_state\<rparr>) = (0, t)
    \<and> handle_mask at_lw_ref_env \<lparr>req_operation = OP_READ, req_argument = None\<rparr> t = rzi_at_respond_value at_lw_ref_env ''AT+MASK=0003'' t"
proof -
  let ?h = "handle_mask at_lw_ref_env \<lparr>req_operation = OP_WRITE, req_argument = Some ''0003''\<rparr> (at_lw_ref_state\<lparr>lw := us_state\<rparr>)"
  have x: "hex_word 3 = ''0003''" by code_simp
  have "fst ?h = 0" by code_simp
  then have h: "?h = (0, snd ?h)" by (simp add: prod_eq_iff)
  have "(if (3 :: u16) = 0 \<or> 3 AND 0xFF = (0xFF :: u16) then 0x1FF else 3) = (3 :: u16)" by code_simp
  then show ?thesis using at_mask_readback [OF us_ref_inv(1) [where D = "{}"], where w = 3 and t = "snd ?h", unfolded x] us_ref_inv(2) h x
    by (intro exI [of _ "snd ?h"] conjI) simp_all
qed

end
