(* ===== verification/Rzi_At_Lorawan_Link.thy ===== *)
theory Rzi_At_Lorawan_Link
  imports Rzi_At_Lorawan_Net "HOL-Library.Monad_Syntax"
begin

text \<open>
  The remaining command groups of the LoRaWAN package (\<^verbatim>\<open>at_lorawan_information.c\<close>, \<^verbatim>\<open>at_lorawan_class_b.c\<close>,
  \<^verbatim>\<open>at_lorawan_multicast.c\<close>, \<^verbatim>\<open>at_lorawan_certification.c\<close> under \<^verbatim>\<open>src/at/commands/lorawan\<close>), the registration of the
  package, and \<open>link_lorawan\<close>, the environment in which its function pointers lead to its functions.
\<close>

section \<open>Information\<close>

definition handle_rssi :: "('d, 'u, 'x, 'm, 'e) lw_handler" where
  "handle_rssi E request s = answer_value E (\<lambda>rssi. ''AT+RSSI='' @ show_int rssi) (get_lw rzi_lorawan_get_last_rssi 0 s)"

definition handle_snr :: "('d, 'u, 'x, 'm, 'e) lw_handler" where
  "handle_snr E request s = answer_value E (\<lambda>snr. ''AT+SNR='' @ show_int (c_div snr 4)) (get_lw rzi_lorawan_get_last_snr 0 s)"

definition information_commands :: "nat \<Rightarrow> rzi_at_command list" where
  "information_commands h =
     [lw_command ''RSSI'' ''get the RSSI of the last received packet'' ALLOW_READ h 0,
      lw_command ''SNR'' ''get the SNR of the last received packet'' ALLOW_READ (h + 1) 0]"

section \<open>Class B\<close>

definition handle_pgslot :: "('d, 'u, 'x, 'm, 'e) lw_handler" where
  "handle_pgslot E request s =
     (if req_operation request = OP_READ then
        answer_value E (\<lambda>p. ''AT+PGSLOT='' @ show_nat (unat p)) (get_lw (rzi_lorawan_get_ping_slot_periodicity (lwe E)) 0 s)
      else ranged E request 7 (\<lambda>parsed. rzi_lorawan_set_ping_slot_periodicity (lwe E) (of_int parsed)) s)"

text \<open>\<^verbatim>\<open>%03u\<close> of a number below 1000.\<close>

definition show_padded :: "nat \<Rightarrow> string" where
  "show_padded n = replicate (3 - length (show_nat n)) (CHR ''0'') @ show_nat n"

definition handle_bfreq :: "('d, 'u, 'x, 'm, 'e) lw_handler" where
  "handle_bfreq E request s =
     (case get_lw (rzi_lorawan_get_beacon_data_rate (lwe E)) 0 s of (rc, rate, t) \<Rightarrow>
        if rc \<noteq> 0 then (rc, t)
        else answer_value E (\<lambda>hz. ''BCON: '' @ show_nat rate @ '', '' @ show_nat (unat (hz div 1000000)) @ ''.''
               @ show_padded (unat ((hz div 1000) mod 1000))) (get_lw (rzi_lorawan_get_beacon_frequency (lwe E)) 0 t))"

definition handle_btime :: "('d, 'u, 'x, 'm, 'e) lw_handler" where
  "handle_btime E request s =
     answer_value E (\<lambda>time. ''BTIME: '' @ show_nat (unat time)) (get_lw (rzi_lorawan_get_beacon_time (lwe E)) 0 s)"

definition handle_bgw :: "('d, 'u, 'x, 'm, 'e) lw_handler" where
  "handle_bgw E request s =
     answer_value E (\<lambda>g. ''BGW: '' @ bit_text (has_coordinates g) @ '', '' @ show_nat (unat (bg_net_id g)) @ '', ''
         @ show_nat (unat (gateway_id g)) @ '', '' @ show_nat (unat (longitude g)) @ '', '' @ show_nat (unat (latitude g)))
       (get_lw (rzi_lorawan_get_beacon_gateway (lwe E))
         \<lparr>has_coordinates = False, latitude = 0, longitude = 0, bg_net_id = 0, gateway_id = 0\<rparr> s)"

definition handle_ltime :: "('d, 'u, 'x, 'm, 'e) lw_handler" where
  "handle_ltime E request s =
     answer_value E (\<lambda>time. ''LTIME: GPS '' @ show_nat (unat (gps_seconds time)))
       (get_lw (rzi_lorawan_get_network_time (lwe E)) \<lparr>gps_seconds = 0, gps_subseconds = 0\<rparr> s)"

definition class_b_commands :: "nat \<Rightarrow> rzi_at_command list" where
  "class_b_commands h =
     [lw_command ''PGSLOT'' ''get or set the unicast ping slot periodicity (0-7)'' ALLOW_READ_WRITE h 0,
      lw_command ''BFREQ'' ''get the data rate and beacon frequency'' ALLOW_READ (h + 1) 0,
      lw_command ''BTIME'' ''get the beacon time (seconds since GPS Epoch time)'' ALLOW_READ (h + 2) 0,
      lw_command ''BGW'' ''get the gateway GPS coordinate, NetID and GwID'' ALLOW_READ (h + 3) 0,
      lw_command ''LTIME'' ''get the local time from DeviceTimeAns'' ALLOW_READ (h + 4) 0]"

section \<open>Multicast\<close>

definition parse_dev_addr :: "string \<Rightarrow> int + u32" where
  "parse_dev_addr hex =
     (case rzi_at_lorawan_hex_to_bin hex 4 of
        Inl rc \<Rightarrow> Inl rc
      | Inr b \<Rightarrow> Inr (push_bit 24 (ucast (b ! 0)) OR push_bit 16 (ucast (b ! 1)) OR push_bit 8 (ucast (b ! 2)) OR ucast (b ! 3)))"

text \<open>
  The conversions of \<^verbatim>\<open>sscanf\<close>: a character, a literal colon, a field of at most \<open>n\<close> hexadecimal digits, and \<^verbatim>\<open>%u\<close>. A
  number out of the range of \<^verbatim>\<open>unsigned int\<close>, which C leaves undefined, is reduced to 32 bits.
\<close>

fun scan_char :: "string \<Rightarrow> (char \<times> string) option" where
  "scan_char [] = None" | "scan_char (c # rest) = Some (c, rest)"

fun scan_colon :: "string \<Rightarrow> string option" where
  "scan_colon [] = None" | "scan_colon (c # rest) = (if c = CHR '':'' then Some rest else None)"

definition scan_hex :: "nat \<Rightarrow> string \<Rightarrow> (string \<times> string) option" where
  "scan_hex n text =
     (let ds = takeWhile (\<lambda>c. hex_nibble c \<ge> 0) (take n text) in if ds = [] then None else Some (ds, drop (length ds) text))"

definition scan_unsigned :: "string \<Rightarrow> (u32 \<times> string) option" where
  "scan_unsigned text =
     (case scan_number text of
        None \<Rightarrow> None
      | Some (negative, n, rest) \<Rightarrow> Some (of_int (if negative then - int n else int n), rest))"

definition scan_group :: "string \<Rightarrow> (char \<times> string \<times> string \<times> string \<times> u32 \<times> u32 \<times> u32) option" where
  "scan_group text = do {
     (letter, t) \<leftarrow> scan_char text; t \<leftarrow> scan_colon t;
     (addr, t) \<leftarrow> scan_hex 8 t; t \<leftarrow> scan_colon t;
     (nwk, t) \<leftarrow> scan_hex 32 t; t \<leftarrow> scan_colon t;
     (app, t) \<leftarrow> scan_hex 32 t; t \<leftarrow> scan_colon t;
     (frequency, t) \<leftarrow> scan_unsigned t; t \<leftarrow> scan_colon t;
     (rate, t) \<leftarrow> scan_unsigned t; t \<leftarrow> scan_colon t;
     (periodicity, t) \<leftarrow> scan_unsigned t;
     Some (letter, addr, nwk, app, frequency, rate, periodicity)
   }"

definition handle_addmulc :: "('d, 'u, 'x, 'm, 'e) lw_handler" where
  "handle_addmulc E request s =
     (case scan_group (the (req_argument request)) of
        None \<Rightarrow> (- RZI_ERR_INVALID, s)
      | Some (letter, addr, nwk, app, frequency, rate, periodicity) \<Rightarrow>
          if letter \<noteq> CHR ''B'' \<and> letter \<noteq> CHR ''C'' then (- RZI_ERR_INVALID, s)
          else (case (parse_dev_addr addr, rzi_at_lorawan_hex_to_bin nwk 16, rzi_at_lorawan_hex_to_bin app 16) of
            (Inr daddr, Inr nkey, Inr akey) \<Rightarrow>
              if frequency = 0 \<or> rate > 15 then (- RZI_ERR_INVALID, s)
              else answer_ok E (on_lw (rzi_lorawan_add_multicast_session (lwe E)
                     (Some \<lparr>mc_device_class = (if letter = CHR ''B'' then RZI_LORAWAN_CLASS_B else RZI_LORAWAN_CLASS_C),
                            mc_dev_addr = daddr, mc_application_session_key = akey, mc_network_session_key = nkey,
                            mc_frequency_hz = frequency, mc_data_rate = unat rate, mc_periodicity = ucast periodicity,
                            mc_group_id = - 1\<rparr>))) s
          | _ \<Rightarrow> (- RZI_ERR_INVALID, s)))"

definition handle_rmvmulc :: "('d, 'u, 'x, 'm, 'e) lw_handler" where
  "handle_rmvmulc E request s =
     (case parse_dev_addr (the (req_argument request)) of
        Inl rc \<Rightarrow> (rc, s)
      | Inr daddr \<Rightarrow> answer_ok E (on_lw (rzi_lorawan_remove_multicast_session (lwe E) daddr)) s)"

definition zero_session :: rzi_lorawan_multicast_session where
  "zero_session = \<lparr>mc_device_class = 0, mc_dev_addr = 0, mc_application_session_key = replicate 16 0,
     mc_network_session_key = replicate 16 0, mc_frequency_hz = 0, mc_data_rate = 0, mc_periodicity = 0, mc_group_id = 0\<rparr>"

definition session_text :: "nat \<Rightarrow> rzi_lorawan_multicast_session \<Rightarrow> string" where
  "session_text i session =
     ''MC'' @ show_nat (i + 1) @ '':'' @ (if mc_device_class session = RZI_LORAWAN_CLASS_B then ''B'' else ''C'') @ '':''
     @ rzi_at_lorawan_bin_to_hex (put_be32 (mc_dev_addr session)) @ '':'' @ show_nat (unat (mc_frequency_hz session)) @ '':''
     @ show_nat (mc_data_rate session) @ '':'' @ show_nat (unat (mc_periodicity session))"

text \<open>The loop over the sessions; \<open>text\<close> is the line written so far.\<close>

fun list_sessions ::
  "('d, 'u, 'x, 'm, 'e) lw_cmd_env \<Rightarrow> nat list \<Rightarrow> string \<Rightarrow> ('d, 'u, 'x, 'm) at_lw_state_scheme
   \<Rightarrow> int \<times> string \<times> ('d, 'u, 'x, 'm) at_lw_state_scheme" where
  "list_sessions E [] text s = (0, text, s)"
| "list_sessions E (i # is) text s =
     (case get_lw (rzi_lorawan_get_multicast_session (lwe E) i) zero_session s of (rc, session, t) \<Rightarrow>
        if rc \<noteq> 0 then (rc, text, t)
        else let written = (if text = [] then [] else crlf) @ session_text i session in
          if length written \<ge> cfg_tx_size E - length text then (- RZI_ERR_NO_RESOURCE, text, t)
          else list_sessions E is (text @ written) t)"

definition handle_lstmulc :: "('d, 'u, 'x, 'm, 'e) lw_handler" where
  "handle_lstmulc E request s =
     (case get_lw (rzi_lorawan_get_multicast_count (lwe E)) 0 s of (rc, count, t) \<Rightarrow>
        if rc \<noteq> 0 then (rc, t)
        else case list_sessions E [0..<count] [] t of (rc, text, u) \<Rightarrow>
          if rc \<noteq> 0 then (rc, u) else rzi_at_respond_value E text u)"

definition multicast_commands :: "nat \<Rightarrow> rzi_at_command list" where
  "multicast_commands h =
     [lw_command ''ADDMULC'' ''add a new multicast group'' ALLOW_WRITE h 0,
      lw_command ''RMVMULC'' ''delete a multicast group'' ALLOW_WRITE (h + 1) 0,
      lw_command ''LSTMULC'' ''view multicast group information'' (ALLOW_READ OR ALLOW_RUN) (h + 2) 0]"

section \<open>Certification\<close>

definition handle_certif :: "('d, 'u, 'x, 'm, 'e) lw_handler" where
  "handle_certif E request s =
     (if req_operation request = OP_READ then
        answer_value E (\<lambda>enabled. ''AT+CERTIF='' @ bit_text enabled) (get_lw (rzi_lorawan_get_certification_mode (lwe E)) False s)
      else case rzi_at_lorawan_parse_bool (the (req_argument request)) of
        Inl rc \<Rightarrow> (rc, s)
      | Inr enabled \<Rightarrow> answer_ok E (on_lw (rzi_lorawan_set_certification_mode (lwe E) enabled)) s)"

definition certification_commands :: "nat \<Rightarrow> rzi_at_command list" where
  "certification_commands h =
     [lw_command ''CERTIF'' ''set the module in LoRaWAN certification mode (0 = normal, 1 = certification)'' ALLOW_READ_WRITE h 0]"

section \<open>Registration and linking\<close>

definition lw_groups :: "nat \<Rightarrow> rzi_at_command list list" where
  "lw_groups h =
     [key_id_commands h, join_send_commands (h + 4), network_management_commands (h + 13), supplementary_commands (h + 31),
      information_commands (h + 34), class_b_commands (h + 36), multicast_commands (h + 41), certification_commands (h + 44)]"

fun register_groups :: "('d, 's, 'e) at_env_scheme \<Rightarrow> rzi_at_command list list \<Rightarrow> ('d, 'm) at_state_scheme op" where
  "register_groups E [] s = (0, s)"
| "register_groups E (g # gs) s = seq_ok (rzi_at_register E (Some g) (length g)) (register_groups E gs) s"

definition lorawan_register :: "('d, 'u, 'x, 'm, 'e) lw_cmd_env \<Rightarrow> ('d, 'u, 'x, 'm) at_lw_state_scheme op" where
  "lorawan_register E =
     seq_ok (register_groups E (lw_groups (lw_handlers E)))
       (rzi_at_registry_add_extension E
         (Some \<lparr>ext_start = Some (lw_start_hook E), ext_process = None, ext_factory_reset = Some (lw_reset_hook E)\<rparr>))"

definition lw_handler_list :: "nat \<Rightarrow> ('d, 'u, 'x, 'm, 'e) lw_handler list" where
  "lw_handler_list user_data =
     [\<lambda>E. handle_key E user_data, handle_devaddr, handle_netid, handle_mcrootkey] @ join_send_handlers
     @ network_management_handlers @ supplementary_handlers @ [handle_rssi, handle_snr]
     @ [handle_pgslot, handle_bfreq, handle_btime, handle_bgw, handle_ltime]
     @ [handle_addmulc, handle_rmvmulc, handle_lstmulc] @ [handle_certif]"

definition link_lorawan :: "('d, 'u, 'x, 'm, 'e) lw_cmd_env \<Rightarrow> ('d, 'u, 'x, 'm, 'e) lw_cmd_env" where
  "link_lorawan E = E\<lparr>
     run_handler := (\<lambda>h q u. if lw_handlers E \<le> h \<and> h - lw_handlers E < length (lw_handler_list u :: ('d, 'u, 'x, 'm, 'e) lw_handler list)
                             then (lw_handler_list u ! (h - lw_handlers E)) E q else run_handler E h q u),
     run_start := (\<lambda>h. if h = lw_start_hook E then extension_start E else run_start E h),
     run_factory_reset := (\<lambda>h. if h = lw_reset_hook E then lw_factory_reset E else run_factory_reset E h),
     rzi_at_lorawan_register := lorawan_register E,
     lwe := (lwe E)\<lparr>on_event := (\<lambda>f ev data l. if f = lw_callback E then lw_view (lw_on_event E ev (lw_unview l))
                                              else on_event (lwe E) f ev data l)\<rparr>\<rparr>"

section \<open>The registered commands\<close>

definition lw_names :: "string list" where
  "lw_names = [''DEVEUI'', ''APPEUI'', ''APPKEY'', ''DEVADDR'', ''NWKSKEY'', ''APPSKEY'', ''NETID'', ''MCROOTKEY'',
     ''NJM'', ''NJS'', ''CFM'', ''CFS'', ''JOIN'', ''SEND'', ''RECV'', ''RETY'', ''LPSEND'',
     ''BAND'', ''CLASS'', ''ADR'', ''DCS'', ''DR'', ''TXP'', ''PNM'', ''RX1DL'', ''RX2DL'', ''RX2DR'', ''RX2FQ'', ''JN1DL'', ''JN2DL'',
     ''LBT'', ''LBTRSSI'', ''LBTSCANTIME'', ''LINKCHECK'', ''TIMEREQ'', ''MASK'', ''CHE'', ''CHS'', ''RSSI'', ''SNR'',
     ''PGSLOT'', ''BFREQ'', ''BTIME'', ''BGW'', ''LTIME'', ''ADDMULC'', ''RMVMULC'', ''LSTMULC'', ''CERTIF'']"

lemmas lw_table_defs = lw_groups_def key_id_commands_def join_send_commands_def network_management_commands_def
  supplementary_commands_def information_commands_def class_b_commands_def multicast_commands_def certification_commands_def
  lw_command_def

lemma lw_table_names: "map cmd_name (concat (lw_groups h)) = map Some lw_names"
  by (simp add: lw_table_defs lw_names_def)

lemma lw_table_handlers: "\<forall>c\<in>set (concat (lw_groups h)). cmd_handler c \<noteq> None"
  by (simp add: lw_table_defs)

definition system_names :: "string list" where
  "system_names = [''VER'', ''FIRMWAREVER'', ''CLIVER'', ''APIVER'', ''HWMODEL'', ''HWID'', ''SN'', ''FSN'', ''ALIAS'', ''BAT'',
     ''SYSV'', ''BUILDTIME'', ''REPOINFO'', ''BOOT'', ''BOOTVER'', ''DEBUG'', ''FACTORY'', ''LOCK'', ''PWORD'', ''BAUD'',
     ''ATM'', ''SLEEP'', ''LPM'', ''LPMLVL'', ''BLEMAC'']"

lemma system_table_names: "map cmd_name commands = map Some system_names"
  by (simp add: commands_def system_command_def system_names_def)

lemma all_names_distinct: "distinct (system_names @ ''NWM'' # lw_names)"
  by code_simp

lemma lw_names_valid: "list_all (\<lambda>n. valid_name (Some n)) lw_names"
  by code_simp

lemma table_valid:
  assumes "map cmd_name cs = map Some ns" and "list_all (\<lambda>n. valid_name (Some n)) ns" and "c \<in> set cs"
  shows "valid_name (cmd_name c)"
proof -
  have "cmd_name c \<in> set (map Some ns)" using assms(1,3) by (metis imageI set_map)
  then show ?thesis using assms(2) by (auto simp: list_all_iff)
qed

lemma register_groups_ok:
  assumes "\<not> sealed s" and "length (registered s) + length (concat gs) \<le> cfg_max_commands E"
    and "\<forall>c\<in>set (concat gs). valid_name (cmd_name c) \<and> cmd_handler c \<noteq> None" and "distinct (map cmd_name (registered s @ concat gs))"
  shows "register_groups E gs s = (0, s\<lparr>registered := registered s @ concat gs\<rparr>)"
  using assms
proof (induction gs arbitrary: s)
  case (Cons g gs)
  have "register_check (registered s) [] g = 0"
    using Cons.prems(3,4) by (auto simp: register_check_zero)
  then have r: "rzi_at_register E (Some g) (length g) s = (0, s\<lparr>registered := registered s @ g\<rparr>)"
    using Cons.prems(1,2) by (simp add: rzi_at_register_def Let_def)
  have "register_groups E gs (s\<lparr>registered := registered s @ g\<rparr>) = (0, s\<lparr>registered := registered s @ concat (g # gs)\<rparr>)"
    using Cons.IH [of "s\<lparr>registered := registered s @ g\<rparr>"] Cons.prems by simp
  then show ?case using r by (simp add: seq_ok_def)
qed simp

lemma load_mode_ok:
  assumes "storage_inv E view (at_store r)" and "storage_ready (at_store r)"
    and "case look view (at_store r) ''rzi'' ''nwm'' of None \<Rightarrow> True | Some v \<Rightarrow> length v = 1"
  shows "\<exists>m. load_mode E r = (0, r\<lparr>network_mode := m\<rparr>)"
proof (cases "cfg_at_nvm E")
  case True
  have st: "storage_ready (at_store r)" "r\<lparr>at_store := at_store r\<rparr> = r" "r\<lparr>network_mode := network_mode r\<rparr> = r" using assms(2) by simp_all
  note rd = read_ready [OF assms(1,2) nwm_name_ok, of "[0]"]
  show ?thesis
  proof (cases "look view (at_store r) ''rzi'' ''nwm''")
    case None
    then have "load_mode E r = (0, r)" using True rd st(1) by (simp add: load_mode_def on_store_def on_part_def init_ready Let_def)
    then show ?thesis using st(3) by metis
  next
    case (Some v)
    then obtain m where v: "v = [m]" using assms(3) by (auto simp: length_Suc_conv)
    have "load_mode E r = (0, if m > RZI_AT_NETWORK_MODE_P2P_FSK then r else r\<lparr>network_mode := m\<rparr>)"
      using True rd st(1) Some v by (simp add: load_mode_def on_store_def on_part_def init_ready Let_def)
    then show ?thesis using st(3) by metis
  qed
qed (auto simp: load_mode_def intro: exI [of _ "network_mode r"])

section \<open>Lines for a command of the package\<close>

text \<open>The commands are registered once each and the numbers of the handlers do not overlap.\<close>

definition lw_linked :: "('d, 'u, 'x, 'm, 'e) lw_cmd_env \<Rightarrow> ('d, 'u, 'x, 'm) at_lw_state_scheme \<Rightarrow> bool" where
  "lw_linked E s \<longleftrightarrow> set (concat (lw_groups (lw_handlers E))) \<subseteq> set (registered s) \<and> distinct (map cmd_name (registered s))
     \<and> 23 \<le> lw_handlers E \<and> \<not> (lw_handlers E \<le> nwm_handler E \<and> nwm_handler E < lw_handlers E + 45)"

lemma length_lw_handlers: "length (lw_handler_list u) = 45"
  by (simp add: lw_handler_list_def join_send_handlers_def network_management_handlers_def supplementary_handlers_def)

lemma length_system_handlers: "length (system_handlers F) = 23"
  by (simp add: system_handlers_def)

lemma dispatch_lw:
  assumes "lw_linked E s" and "lw_command name help allowed (lw_handlers E + h) u \<in> set (concat (lw_groups (lw_handlers E)))"
    and "h < 45" and "operation \<noteq> OP_HELP" and "allowed AND push_bit (op_code operation) 1 \<noteq> 0"
  shows "rzi_at_dispatch (link_system (link_lorawan E)) name operation argument s
    = (lw_handler_list u ! h) E \<lparr>req_operation = operation, req_argument = argument\<rparr> s"
proof -
  have f: "find (\<lambda>c. cmd_name c = Some name) (registered s) = Some (lw_command name help allowed (lw_handlers E + h) u)"
    by (rule find_registered) (use assms(1,2) in \<open>auto simp: lw_linked_def lw_command_def\<close>)
  have "run_handler (link_system (link_lorawan E)) (lw_handlers E + h) q u = (lw_handler_list u ! h) E q" for q
    using assms(1,3) by (auto simp: link_system_def link_hooks_def link_lorawan_def Let_def length_lw_handlers length_system_handlers lw_linked_def)
  then show ?thesis using f assms(4,5) by (simp add: rzi_at_dispatch_def lw_command_def)
qed

lemma execute_line:
  assumes "\<not> locked s" and "plain_name name" and "uppercase_name name = name" and "argument_fits operation argument"
  shows "execute E (''AT+'' @ print_body operation name argument) s
    = (case rzi_at_dispatch E name operation argument s of (rc, t) \<Rightarrow> respond_for_error E rc t)"
proof -
  have "uppercase_name (''AT+'' @ x) \<notin> set keywords_at" for x
    by (auto simp: uppercase_name_def keywords_at_def to_upper_def less_eq_char_def)
  moreover have "uppercase_name (take 3 (''AT+'' @ x)) = ''AT+''" for x by (simp add: keyword_upper)
  ultimately show ?thesis using parse_print [OF assms(2,4)] assms(1,3) by (simp add: execute_command)
qed

end
