(* ===== verification/Rzi_At_Lorawan_Lines.thy ===== *)
theory Rzi_At_Lorawan_Lines
  imports Rzi_At_Lorawan_Link
begin

text \<open>
  The LoRaWAN command package at work: its registration at the start of the AT service, command lines from the text to the answer,
  and the factory reset over the storage that both services share.
\<close>

section \<open>Registration\<close>

lemma link_lorawan_fields [simp]:
  "cfg_at_nvm (link_lorawan E) = cfg_at_nvm E" "cfg_max_commands (link_lorawan E) = cfg_max_commands E"
  "cfg_max_extensions (link_lorawan E) = cfg_max_extensions E" "cfg_command_lorawan (link_lorawan E) = cfg_command_lorawan E"
  "cfg_command_lora (link_lorawan E) = cfg_command_lora E" "nwm_handler (link_lorawan E) = nwm_handler E"
  "nwm_reset_hook (link_lorawan E) = nwm_reset_hook E" "rzi_at_lorawan_register (link_lorawan E) = lorawan_register E"
  "cfg_tx_size (link_lorawan E) = cfg_tx_size E"
  by (simp_all add: link_lorawan_def)

text \<open>The invariant of the storage depends on the settings subsystem only.\<close>

lemma storage_inv_env:
  assumes "settings_subsys_init F = settings_subsys_init E" and "settings_load_one F = settings_load_one E"
    and "settings_get_val_len F = settings_get_val_len E" and "settings_save_one F = settings_save_one E" and "settings_delete F = settings_delete E"
  shows "storage_inv F view st = storage_inv E view st"
  by (simp only: storage_inv_def settings_lawful_def assms)

lemma link_lorawan_storage [simp]: "storage_inv (link_lorawan E) view st = storage_inv E view st"
  by (rule storage_inv_env; cases E; simp add: link_lorawan_def)

lemma nwm_name_valid: "valid_name (Some ''NWM'')"
  by code_simp

lemma rzi_names_ok:
  "name_ok ''rzi'' ''alias''" "name_ok ''rzi'' ''sn''" "name_ok ''rzi'' ''pword''" "name_ok ''rzi'' ''lpm''" "name_ok ''rzi'' ''nwm''"
  by (simp_all add: name_ok_def valid_component_def)

text \<open>What a restart reads from the storage, in the order of the code.\<close>

lemma restored_strings:
  assumes "storage_inv E view (at_store t)" and "storage_ready (at_store t)"
  shows "\<exists>a n p. (case load_string E ''alias'' (alias_name t) ALIAS_MAX t of (_, alias, u) \<Rightarrow>
      case load_string E ''sn'' (serial_number u) SN_MAX (u\<lparr>alias_name := alias\<rparr>) of (_, sn, v) \<Rightarrow>
      case load_string E ''pword'' [] 8 (v\<lparr>serial_number := sn\<rparr>) of (rc, stored, w) \<Rightarrow>
        if rc = 0 \<and> stored \<noteq> [] then snd (rzi_at_set_password (Some stored) w) else w)
    = t\<lparr>alias_name := a, serial_number := n, password := p\<rparr>"
proof -
  obtain r1 d1 where l1: "load_string E ''alias'' (alias_name t) ALIAS_MAX t = (r1, d1, t)"
    using load_string_store [OF assms rzi_names_ok(1)] by blast
  obtain r2 d2 where l2: "load_string E ''sn'' (serial_number t) SN_MAX (t\<lparr>alias_name := d1\<rparr>) = (r2, d2, t\<lparr>alias_name := d1\<rparr>)"
    using load_string_store [of E view "t\<lparr>alias_name := d1\<rparr>" "''sn''"] assms rzi_names_ok(2) by simp blast
  define w where "w = t\<lparr>alias_name := d1, serial_number := d2\<rparr>"
  obtain r3 d3 where l3: "load_string E ''pword'' [] 8 w = (r3, d3, w)"
    using load_string_store [of E view w "''pword''"] assms rzi_names_ok(3) by (simp add: w_def) blast
  have "snd (rzi_at_set_password (Some d3) w) = w\<lparr>password := if d3 = [] \<or> length d3 > 8 then password t else d3\<rparr>"
    by (simp add: rzi_at_set_password_def w_def)
  then have f: "(if r3 = 0 \<and> d3 \<noteq> [] then snd (rzi_at_set_password (Some d3) w) else w)
      = t\<lparr>alias_name := d1, serial_number := d2, password := if r3 = 0 \<and> d3 \<noteq> [] \<and> length d3 \<le> 8 then d3 else password t\<rparr>"
    by (simp add: w_def)
  show ?thesis unfolding l1 prod.case l2 w_def [symmetric] l3 by (intro exI) (rule f)
qed

text \<open>The registrations from an empty registry: the command of the working mode, then those of the package.\<close>

lemma package_names:
  "distinct (map cmd_name (commands @ nwm_command E # concat (lw_groups h)))"
  "\<forall>c\<in>set (concat (lw_groups h)). valid_name (cmd_name c) \<and> cmd_handler c \<noteq> None" "length (concat (lw_groups h)) = 49"
proof -
  have "map cmd_name (commands @ nwm_command E # concat (lw_groups h)) = map Some (system_names @ ''NWM'' # lw_names)"
    unfolding map_append list.map system_table_names lw_table_names by (simp add: nwm_command_def)
  then show "distinct (map cmd_name (commands @ nwm_command E # concat (lw_groups h)))"
    using all_names_distinct by (simp only: distinct_map inj_on_subset [OF inj_Some subset_UNIV])
  show "\<forall>c\<in>set (concat (lw_groups h)). valid_name (cmd_name c) \<and> cmd_handler c \<noteq> None"
    using lw_table_handlers table_valid [OF lw_table_names lw_names_valid] by blast
  have "length (map cmd_name (concat (lw_groups h))) = 49" unfolding lw_table_names by (simp add: lw_names_def)
  then show "length (concat (lw_groups h)) = 49" by simp
qed

lemma mode_registered:
  assumes "storage_inv E view (at_store r)" and "storage_ready (at_store r)"
    and "case look view (at_store r) ''rzi'' ''nwm'' of None \<Rightarrow> True | Some v \<Rightarrow> length v = 1"
    and "registered r = commands" and "\<not> sealed r" and "26 \<le> cfg_max_commands E" and "extensions r = []" and "2 \<le> cfg_max_extensions E"
  shows "\<exists>m xs. rzi_at_network_mode_register E r
    = (0, r\<lparr>network_mode := m, registered := commands @ [nwm_command E], extensions := xs\<rparr>) \<and> length xs \<le> 1"
proof -
  obtain m where m: "load_mode E r = (0, r\<lparr>network_mode := m\<rparr>)" using load_mode_ok [OF assms(1-3)] by blast
  have "valid_name (cmd_name (nwm_command E))" "cmd_handler (nwm_command E) \<noteq> None"
    using nwm_name_valid by (simp_all add: nwm_command_def)
  then have "register_check commands [] [nwm_command E] = 0"
    using package_names(1) [of E 0] by (auto simp: register_check_zero list_ex_iff)
  then have "rzi_at_register E (Some [nwm_command E]) 1 (r\<lparr>network_mode := m\<rparr>)
      = (0, r\<lparr>network_mode := m, registered := commands @ [nwm_command E]\<rparr>)"
    using assms(4-6) by (simp add: rzi_at_register_def Let_def commands_length)
  then have "rzi_at_network_mode_register E r = (0, r\<lparr>network_mode := m, registered := commands @ [nwm_command E],
      extensions := (if cfg_at_nvm E then [\<lparr>ext_start = None, ext_process = None, ext_factory_reset = Some (nwm_reset_hook E)\<rparr>] else [])\<rparr>)"
    using m assms(7,8) by (simp add: rzi_at_network_mode_register_def rzi_at_registry_add_extension_def)
  then show ?thesis by (intro exI conjI) auto
qed


text \<open>The start up to the packages, which continue from the system commands and the stored strings.\<close>

lemma builtin_after_system:
  assumes "registered r = []" and "\<not> sealed r" and "25 \<le> cfg_max_commands F" and "storage_inv F view (at_store r)" and "storage_ready (at_store r)"
  shows "\<exists>a n p. rzi_at_builtin_register F r
    = seq_ok (if cfg_command_lorawan F \<or> cfg_command_lora F then rzi_at_network_mode_register F else Pair 0)
        (seq_ok (if cfg_command_lorawan F then rzi_at_lorawan_register F else Pair 0) (if cfg_command_lora F then rzi_at_lora_register F else Pair 0))
        (r\<lparr>registered := commands, alias_name := a, serial_number := n, password := p\<rparr>)"
proof -
  let ?t = "r\<lparr>registered := commands\<rparr>"
  have t: "rzi_at_register F (Some commands) (length commands) r = (0, ?t)"
    using assms(1-3) by (simp add: rzi_at_register_def commands_check commands_length Let_def)
  obtain a n p where l: "(case load_string F ''alias'' (alias_name ?t) ALIAS_MAX ?t of (_, alias, u) \<Rightarrow>
      case load_string F ''sn'' (serial_number u) SN_MAX (u\<lparr>alias_name := alias\<rparr>) of (_, sn, v) \<Rightarrow>
      case load_string F ''pword'' [] 8 (v\<lparr>serial_number := sn\<rparr>) of (rc, stored, w) \<Rightarrow>
        if rc = 0 \<and> stored \<noteq> [] then snd (rzi_at_set_password (Some stored) w) else w)
    = ?t\<lparr>alias_name := a, serial_number := n, password := p\<rparr>"
    using restored_strings [of F view ?t] assms(4,5) by auto
  have "rzi_at_builtin_register F r
    = seq_ok (if cfg_command_lorawan F \<or> cfg_command_lora F then rzi_at_network_mode_register F else Pair 0)
        (seq_ok (if cfg_command_lorawan F then rzi_at_lorawan_register F else Pair 0) (if cfg_command_lora F then rzi_at_lora_register F else Pair 0))
        (?t\<lparr>alias_name := a, serial_number := n, password := p\<rparr>)"
    unfolding rzi_at_builtin_register_def t prod.case Let_def l by (subst seq_ok_zero) (use l in simp_all)
  then show ?thesis by (intro exI)
qed

lemma builtin_registered:
  assumes "registered r = []" and "\<not> sealed r" and "extensions r = []" and "75 \<le> cfg_max_commands E" and "2 \<le> cfg_max_extensions E"
    and "cfg_command_lorawan E" and "\<not> cfg_command_lora E" and "storage_inv E view (at_store r)" and "storage_ready (at_store r)"
    and "case look view (at_store r) ''rzi'' ''nwm'' of None \<Rightarrow> True | Some v \<Rightarrow> length v = 1"
  shows "\<exists>t. rzi_at_builtin_register (link_lorawan E) r = (0, t) \<and> registered t = commands @ nwm_command E # concat (lw_groups (lw_handlers E))
    \<and> last (extensions t) = \<lparr>ext_start = Some (lw_start_hook E), ext_process = None, ext_factory_reset = Some (lw_reset_hook E)\<rparr>"
proof -
  let ?F = "link_lorawan E" and ?gs = "lw_groups (lw_handlers E)"
  obtain a n p where r: "rzi_at_builtin_register ?F r = seq_ok (rzi_at_network_mode_register ?F) (seq_ok (lorawan_register E) (Pair 0))
      (r\<lparr>registered := commands, alias_name := a, serial_number := n, password := p\<rparr>)" (is "_ = seq_ok _ _ ?u")
    using builtin_after_system [of r ?F view] assms by auto
  obtain m xs where m: "rzi_at_network_mode_register ?F ?u
      = (0, ?u\<lparr>network_mode := m, registered := commands @ [nwm_command ?F], extensions := xs\<rparr>)" (is "_ = (0, ?v)") and xs: "length xs \<le> 1"
    using mode_registered [of ?F view ?u] assms by auto
  have n: "nwm_command ?F = nwm_command E" by (simp add: nwm_command_def)
  have g: "register_groups E ?gs ?v = (0, ?v\<lparr>registered := registered ?v @ concat ?gs\<rparr>)"
    by (rule register_groups_ok) (use assms(2,4) package_names [where h = "lw_handlers E"] n in \<open>simp_all add: commands_length\<close>)
  show ?thesis unfolding r seq_ok_def m prod.case lorawan_register_def g
    using xs assms(5) n by (simp add: rzi_at_registry_add_extension_def)
qed

section \<open>Key lines\<close>

lemma key_put_more:
  assumes "key_good E view D i l" and "length v = key_size (key_commands E ! i)" and "key_put (key_commands E ! i) (Some v) l = (rc, k)"
  shows "lorawan_state.more k = lorawan_state.more l"
proof -
  have inv: "cred_inv (lwe E) view D l" and i: "i < 5" using assms(1) by (simp_all add: key_good_def)
  have bytes: "lorawan_state.more k = lorawan_state.more l"
    if w: "set_bytes (lwe E) upd key (Some v) n l = (rc, k)" and u: "\<And>v. length v = n \<Longrightarrow> upd_ok j v (upd v)" and key: "key = fst (credential_keys ! j)"
    for upd key n j
  proof (cases "rzi_lorawan_check_thread l = 0 \<and> length v = n")
    case True
    then have "store_credential (lwe E) (fst (credential_keys ! j)) v (upd v) l = (rc, k)" using w key
      by (auto simp: set_bytes_def Let_def split: if_splits)
    from store_credential_effect [OF inv u this] True show ?thesis by (auto simp: creds_only_def)
  next
    case False
    then show ?thesis using w by (auto simp: set_bytes_def Let_def split: if_splits)
  qed
  have field: "lorawan_state.more k = lorawan_state.more l" if "set_cred (lwe E) f (Some v) l = (rc, k)" for f
    by (rule bytes [OF that [unfolded set_cred_eq] field_upd_ok refl])
  have names: "''nwkskey'' = fst (credential_keys ! 5)" "''appskey'' = fst (credential_keys ! 6)" by (simp_all add: credential_keys_def)
  from i show ?thesis
  proof (rule key_cases)
    assume "i = 0" with assms(3) field [of Dev_eui] show ?thesis by (simp add: key_commands_def)
  next
    assume "i = 1" with assms(3) field [of App_eui] show ?thesis by (simp add: key_commands_def)
  next
    assume "i = 2" with assms(3) field [of App_key] show ?thesis by (simp add: key_commands_def)
  next
    assume "i = 3" with assms(3) bytes [OF _ key_upd_ok(1) names(1)] show ?thesis by (simp add: key_commands_def rzi_lorawan_set_nwk_skey_def)
  next
    assume "i = 4" with assms(3) bytes [OF _ key_upd_ok(2) names(2)] show ?thesis by (simp add: key_commands_def rzi_lorawan_set_app_skey_def)
  qed
qed

lemma error_not_ok:
  assumes "rc \<noteq> 0" and "at_started s"
  shows "last (tx_log (respond_for_error E rc s)) \<noteq> crlf @ ''OK'' @ crlf"
  using assms by (simp add: respond_for_error_def rzi_at_respond_status_def write_all_def crlf_def)

definition key_names :: "string list" where
  "key_names = [''DEVEUI'', ''APPEUI'', ''APPKEY'', ''NWKSKEY'', ''APPSKEY'']"

lemma key_names_plain: "list_all (\<lambda>n. plain_name n \<and> uppercase_name n = n) key_names" "length key_names = 5"
  by code_simp+

lemma key_lines:
  assumes "lw_linked E s" and "i < 5" and "\<not> locked s"
  shows "argument_fits OP_WRITE (Some x) \<Longrightarrow> execute (link_system (link_lorawan E)) (''AT+'' @ key_names ! i @ ''='' @ x) s
      = (case handle_key E i \<lparr>req_operation = OP_WRITE, req_argument = Some x\<rparr> s of (rc, t) \<Rightarrow> respond_for_error (link_system (link_lorawan E)) rc t)"
    and "execute (link_system (link_lorawan E)) (''AT+'' @ key_names ! i @ ''=?'') s
      = (case handle_key E i \<lparr>req_operation = OP_READ, req_argument = None\<rparr> s of (rc, t) \<Rightarrow> respond_for_error (link_system (link_lorawan E)) rc t)"
proof -
  let ?F = "link_system (link_lorawan E)"
  have n: "plain_name (key_names ! i)" "uppercase_name (key_names ! i) = key_names ! i"
    using assms(2) key_names_plain by (auto simp: list_all_length)
  obtain hlp where "lw_command (key_names ! i) hlp (ALLOW_READ OR ALLOW_WRITE) (lw_handlers E + 0) i \<in> set (key_id_commands (lw_handlers E))"
    using assms(2) by (rule key_cases) (auto simp: key_names_def key_id_commands_def)
  then have "lw_command (key_names ! i) hlp (ALLOW_READ OR ALLOW_WRITE) (lw_handlers E + 0) i \<in> set (concat (lw_groups (lw_handlers E)))"
    by (simp add: lw_groups_def)
  note d = dispatch_lw [OF assms(1) this, simplified]
  have h: "lw_handler_list i ! 0 = (\<lambda>E. handle_key E i)" by (simp add: lw_handler_list_def)
  show "execute ?F (''AT+'' @ key_names ! i @ ''='' @ x) s
      = (case handle_key E i \<lparr>req_operation = OP_WRITE, req_argument = Some x\<rparr> s of (rc, t) \<Rightarrow> respond_for_error ?F rc t)"
    if "argument_fits OP_WRITE (Some x)"
    using execute_line [OF assms(3) n that, of ?F] d [of OP_WRITE "Some x"] by (simp add: h)
  show "execute ?F (''AT+'' @ key_names ! i @ ''=?'') s
      = (case handle_key E i \<lparr>req_operation = OP_READ, req_argument = None\<rparr> s of (rc, t) \<Rightarrow> respond_for_error ?F rc t)"
    using execute_line [OF assms(3) n, of OP_READ None ?F] d [of OP_READ None] by (simp add: h argument_fits_def)
qed


lemma frame_linked:
  assumes "lorawan_state.more l = s"
  shows "lw_linked E (lw_unview l) = lw_linked E s" "locked (lw_unview l) = locked s" "at_started (lw_unview l) = at_started s"
  using assms by (simp_all add: lw_linked_def lw_unview_def)

lemma linked_log [simp]: "lw_linked E (s\<lparr>tx_log := l\<rparr>) = lw_linked E s"
  by (simp add: lw_linked_def)

lemma key_answered:
  assumes "lw_linked E s" and "\<not> locked s" and "at_started s" and "key_good E view D i (lw_view s)" and "argument_fits OP_WRITE (Some x)"
    and "\<forall>w x u l. run_write E w x u l = 0"
    and t: "t = execute (link_system (link_lorawan E)) (''AT+'' @ key_names ! i @ ''='' @ x) s"
    and ok: "last (tx_log t) = crlf @ ''OK'' @ crlf"
  shows "handle_key E i \<lparr>req_operation = OP_WRITE, req_argument = Some x\<rparr> s = (0, t) \<and> lw_linked E t \<and> \<not> locked t \<and> at_started t"
proof -
  let ?F = "link_system (link_lorawan E)" and ?h = "handle_key E i \<lparr>req_operation = OP_WRITE, req_argument = Some x\<rparr> s"
  have i: "i < 5" using assms(4) by (simp add: key_good_def)
  have e: "t = (case ?h of (rc, u) \<Rightarrow> respond_for_error ?F rc u)" unfolding t by (rule key_lines(1) [OF assms(1) i assms(2,5)])
  obtain v where v: "rzi_at_lorawan_hex_to_bin x (key_size (key_commands E ! i)) = Inr v"
  proof (rule hex.parse_cases)
    assume "rzi_at_lorawan_hex_to_bin x (key_size (key_commands E ! i)) = Inl (- RZI_ERR_INVALID)"
    then have "t = respond_for_error ?F (- RZI_ERR_INVALID) s" using e by (simp add: handle_key_def Let_def)
    then show thesis using error_not_ok [of "- RZI_ERR_INVALID" s ?F] assms(3) ok by simp
  qed (rule that)
  have n: "length v = key_size (key_commands E ! i)" using v by (simp add: hex_to_bin_iff)
  obtain rc l where l: "key_put (key_commands E ! i) (Some v) (lw_view s) = (rc, l)" by fastforce
  have "lorawan_state.more l = s" using key_put_more [OF assms(4) n l] by simp
  note f = frame_linked(1) [where E = E, OF this] frame_linked(2,3) [OF this]
  have h: "?h = (if rc \<noteq> 0 then (rc, lw_unview l) else rzi_at_respond_status E STATUS_OK (lw_unview l))"
    using v l by (simp add: handle_key_def Let_def answer_ok_def on_lw_def seq_ok_def)
  have "rc = 0"
  proof (rule ccontr)
    assume "rc \<noteq> 0"
    with e h have "t = respond_for_error ?F rc (lw_unview l)" by simp
    then show False using error_not_ok [OF \<open>rc \<noteq> 0\<close>, of "lw_unview l" ?F] f(3) assms(3) ok by simp
  qed
  with h f(3) assms(3,6) have r: "?h = (0, (lw_unview l)\<lparr>tx_log := tx_log (lw_unview l) @ [crlf @ ''OK'' @ crlf]\<rparr>)"
    by (simp add: rzi_at_respond_status_def write_all_def)
  with e have u: "t = (lw_unview l)\<lparr>tx_log := tx_log (lw_unview l) @ [crlf @ ''OK'' @ crlf]\<rparr>" by (simp add: respond_for_error_def)
  then show ?thesis using r f assms(1-3) by simp
qed



section \<open>Factory reset\<close>

text \<open>The deletion of the settings of the AT service is the deletion loop of the settings schema, on other names.\<close>

lemma delete_each_keys:
  "delete_each E ks rc s
    = (case delete_keys E ''rzi'' (map (\<lambda>k. st\<lparr>skey := k\<rparr>) ks) rc (at_store s) of (rc, d) \<Rightarrow> (rc, s\<lparr>at_store := d\<rparr>))"
proof (induction ks arbitrary: rc s)
  case (Cons k ks)
  obtain one d where d: "rzi_storage_delete E (Some ''rzi'') (Some k) (at_store s) = (one, d)" by fastforce
  then show ?case using Cons.IH [of _ "s\<lparr>at_store := d\<rparr>"]
    by (auto simp: delete_stored_key_def on_store_def on_part_def split: prod.splits)
qed simp

lemma delete_keys_error: "delete_keys E ns sts rc0 s = (0, t) \<Longrightarrow> rc0 = 0"
  by (induction sts arbitrary: rc0 s) (force split: prod.splits if_splits)+

lemma schema_names: "st \<in> set settings \<Longrightarrow> name_ok ''lorawan'' (skey st) \<and> name_ok ''rzi'' (skey st)"
  using settings_entry_ok by (auto simp: entry_ok_def)


text \<open>The loops delete their own names only.\<close>

lemma delete_keys_frame:
  assumes "storage_inv E view s" and "\<forall>st\<in>set sts. name_ok ns (skey st)" and "name_ok ns' k'"
    and "ns' = ns \<longrightarrow> k' \<notin> skey ` set sts"
  shows "look view (snd (delete_keys E ns sts rc s)) ns' k' = look view s ns' k'"
  using assms(1,2,4)
proof (induction sts arbitrary: s rc)
  case (Cons st sts)
  obtain one u where d: "rzi_storage_delete E (Some ns) (Some (skey st)) s = (one, u)" by fastforce
  have l: "storage_inv E view u" "look view u ns' k' = look view s ns' k'"
    using storage.delete_law [OF Cons.prems(1) _ d] Cons.prems(2,3) assms(3) by auto
  then show ?case using Cons.IH [OF l(1)] Cons.prems(2,3) d by auto
qed simp

lemma settings_clear_frame:
  assumes inv: "settings_inv E view D s" and c: "rzi_lorawan_settings_clear E s = (rc, t)"
    and k: "name_ok ''rzi'' k" "k \<notin> skey ` set settings"
  shows "look view (store t) ''rzi'' k = look view (store s) ''rzi'' k"
proof -
  have sch: "schema_ok (table s)" and i0: "storage_inv E view (store s)" using inv by (auto simp: settings_inv_def)
  have names: "\<forall>st\<in>set (table s). name_ok ''lorawan'' (skey st)" "\<forall>st\<in>set (table s). name_ok ''rzi'' (skey st)"
    using schema_entry_ok [OF sch] by (auto simp: entry_ok_def)
  have k': "k \<notin> skey ` set (table s)" using k(2) schema_keys [OF sch] by (metis set_map)
  obtain rc1 u where d1: "delete_keys E ''lorawan'' (table s) 0 (store s) = (rc1, u)" by fastforce
  obtain rc2 w where d2: "delete_keys E ''rzi'' (table s) rc1 u = (rc2, w)" by fastforce
  have u: "storage_inv E view u" using delete_keys_inv [OF i0 names(1), of 0] d1 by simp
  have "look view w ''rzi'' k = look view (store s) ''rzi'' k"
    using delete_keys_frame [OF i0 names(1) k(1), of 0] delete_keys_frame [OF u names(2) k(1), of rc1] k' d1 d2 by simp
  moreover have "store t = store s \<or> store t = w"
    using c d1 d2 by (auto simp: rzi_lorawan_settings_clear_def split: if_splits)
  ultimately show ?thesis by auto
qed

lemma sets_view: "sets (lw_view s) = (sets (lw s))\<lparr>store := at_store s\<rparr>"
  by (simp add: lw_view_def lorawan_state.defs)

lemma at_lw_ref_lora: "at_lw_ref_env\<lparr>cfg_command_lora := True\<rparr> = at_lw_ref_env"
  by (simp add: at_lw_ref_env_def at_lw_mem_env_def sys_env.defs sys_mem_env_def mem_env_def)

lemma at_lw_ref_storage:
  "storage_inv (at_lw_ref_env\<lparr>cfg_command_lora := b\<rparr>) (\<lambda>d. d) (mem_state Map.empty)" "storage_ready (mem_state Map.empty)"
  "look (\<lambda>d. d) (mem_state Map.empty) ns k = None" "cfg_command_lorawan at_lw_ref_env"
proof -
  have "storage_inv (at_lw_ref_env\<lparr>cfg_command_lora := b\<rparr>) (\<lambda>d. d) (mem_state Map.empty) = storage_inv (mem_env False ()) (\<lambda>d. d) (mem_state Map.empty)"
    by (rule storage_inv_env; simp add: at_lw_ref_env_def at_lw_mem_env_def sys_env.defs sys_mem_env_def mem_env_def)
  then show "storage_inv (at_lw_ref_env\<lparr>cfg_command_lora := b\<rparr>) (\<lambda>d. d) (mem_state Map.empty)" by (simp only: mem_state_inv)
  show "storage_ready (mem_state Map.empty)" by (rule mem_state_ready)
  show "look (\<lambda>d. d) (mem_state Map.empty) ns k = None" by (simp add: look_def mem_state_def)
qed (simp_all add: at_lw_ref_env_def at_lw_mem_env_def sys_env.defs sys_mem_env_def mem_env_def)

lemma at_lw_ref_lw: "cred_inv (lwe at_lw_ref_env) (\<lambda>d. d) D (lw_view at_lw_ref_state)" "cfg_storage (lwe at_lw_ref_env)"
  unfolding at_lw_ref_fields by (rule at_lw_ref_inv) (simp add: mem_lw_env_def mem_senv_def mem_env_def)

section \<open>Properties\<close>

text \<open>
  The command set of a LoRaWAN image: from an empty registry with room for 75 commands and two extensions, over any storage
  in which the working mode has a record of one byte or none, the start of the AT service registers the 25 system commands,
  \<^verbatim>\<open>AT+NWM\<close> and the 49 commands of the LoRaWAN package, in this order and no others; it reports success, the names are pairwise different,
  and the hooks of the package are the last extension.
\<close>

theorem at_commands_registered:
  assumes "registered r = []" and "\<not> sealed r" and "extensions r = []" and "75 \<le> cfg_max_commands E" and "2 \<le> cfg_max_extensions E"
    and "cfg_command_lorawan E" and "\<not> cfg_command_lora E" and "storage_inv E view (at_store r)" and "storage_ready (at_store r)"
    and "case look view (at_store r) ''rzi'' ''nwm'' of None \<Rightarrow> True | Some v \<Rightarrow> length v = 1"
  shows "\<exists>t. rzi_at_builtin_register (link_lorawan E) r = (0, t)
    \<and> registered t = commands @ nwm_command E # concat (lw_groups (lw_handlers E)) \<and> length (registered t) = 75
    \<and> distinct (map cmd_name (registered t))
    \<and> last (extensions t) = \<lparr>ext_start = Some (lw_start_hook E), ext_process = None, ext_factory_reset = Some (lw_reset_hook E)\<rparr>"
  using builtin_registered [OF assms] package_names(1) [of E "lw_handlers E"] package_names(3) [of "lw_handlers E"] by (auto simp: commands_length)

theorem at_commands_registered_witness:
  "\<exists>t. rzi_at_builtin_register (link_lorawan (at_lw_ref_env\<lparr>cfg_command_lora := False\<rparr>))
         (at_lw_ref_state\<lparr>registered := [], sealed := False, extensions := []\<rparr>) = (0, t) \<and> length (registered t) = 75"
proof -
  let ?E = "at_lw_ref_env\<lparr>cfg_command_lora := False\<rparr>" and ?r = "at_lw_ref_state\<lparr>registered := [], sealed := False, extensions := []\<rparr>"
  have st: "storage_inv ?E (\<lambda>d. d) (at_store ?r)" "storage_ready (at_store ?r)" "look (\<lambda>d. d) (at_store ?r) ''rzi'' ''nwm'' = None"
    "cfg_command_lorawan ?E" using at_lw_ref_storage by simp_all
  show ?thesis using at_commands_registered [of ?r ?E "\<lambda>d. d"] st by auto
qed

text \<open>
  C10. Over lines of text, a key that was accepted is the key that is shown: when the port answers \<^verbatim>\<open>OK\<close> to
  \<^verbatim>\<open>AT+<name>=<text>\<close> for one of the commands for the device EUI, the join EUI, the application key and, when the activation
  is by personalisation and the credentials are loaded, the two session keys, then \<^verbatim>\<open>AT+<name>=?\<close> is answered by one transmission of exactly
  that text in capital letters. This runs through the parser, the lock, the registry, the hexadecimal notation and the
  credential store of the LoRaWAN service. The session keys of a device that joins over the air are outside the claim: their
  queries answer zeros or the key of the stack, not the stored key.
\<close>

theorem at_key_line_roundtrip:
  assumes "lw_linked E s" and "\<not> locked s" and "at_started s" and "key_good E view D i (lw_view s)"
    and "x \<noteq> [] \<and> CHR ''?'' \<notin> set x"
    and "\<forall>w y u l. run_write E w y u l = 0" and "64 \<le> cfg_tx_size E"
    and "t = execute (link_system (link_lorawan E)) (''AT+'' @ key_names ! i @ ''='' @ x) s"
    and "last (tx_log t) = crlf @ ''OK'' @ crlf"
  shows "tx_log (execute (link_system (link_lorawan E)) (''AT+'' @ key_names ! i @ ''=?'') t)
    = tx_log t @ [crlf @ ''AT+'' @ key_names ! i @ ''='' @ uppercase_name x @ crlf @ ''OK'' @ crlf]"
proof -
  have i: "i < 5" using assms(4) by (simp add: key_good_def)
  have a: "argument_fits OP_WRITE (Some x)" using assms(5) by (simp add: argument_fits_def)
  note w = key_answered [OF assms(1-4) a assms(6,8,9)]
  have n: "length x \<le> 32" using w i by (auto simp: handle_key_def Let_def rzi_at_lorawan_hex_to_bin_def split: if_splits elim!: key_cases)
      (auto simp: key_commands_def)
  have c: "response_name (key_commands E ! i) = ''AT+'' @ key_names ! i" "length (key_names ! i) \<le> 7"
    using i by (auto simp: key_commands_def key_names_def elim!: key_cases)
  have "handle_key E i \<lparr>req_operation = OP_READ, req_argument = None\<rparr> t
      = (0, t\<lparr>tx_log := tx_log t @ [crlf @ ''AT+'' @ key_names ! i @ ''='' @ uppercase_name x @ crlf @ ''OK'' @ crlf]\<rparr>)"
    using key_written [OF assms(4), of x t] w n c assms(6,7)
    by (simp only: c(1)) (simp add: rzi_at_respond_value_def write_formatted_def write_all_def crlf_def uppercase_name_def)
  then show ?thesis using key_lines(2) [of E t i] w i by (simp add: respond_for_error_def)
qed


theorem at_key_line_roundtrip_witness:
  "\<exists>t. tx_log (execute (link_system (link_lorawan at_lw_ref_env)) ''AT+DEVEUI=?'' t)
     = tx_log t @ [crlf @ ''AT+DEVEUI=AC1F09FFFE000001'' @ crlf @ ''OK'' @ crlf]"
proof -
  let ?s = "at_lw_ref_state\<lparr>registered := concat (lw_groups 24)\<rparr>" and ?F = "link_system (link_lorawan at_lw_ref_env)"
  have l: "lw_linked at_lw_ref_env ?s" "\<not> locked ?s" "at_started ?s"
    using package_names(1) [of at_lw_ref_env 24] by (simp_all add: lw_linked_def)
  have g: "key_good at_lw_ref_env (\<lambda>d. d) {} 0 (lw_view ?s)"
    using at_lw_ref_lw(1) [of "{}"] unfolding key_good_def by (subst cred_inv_cong [of _ "lw_view at_lw_ref_state"]) (simp_all add: sets_view)
  have ok: "last (tx_log (execute ?F (''AT+'' @ key_names ! 0 @ ''='' @ ''ac1f09fffe000001'') ?s)) = crlf @ ''OK'' @ crlf" by code_simp
  have up: "uppercase_name ''ac1f09fffe000001'' = ''AC1F09FFFE000001''" "key_names ! 0 = ''DEVEUI''" by code_simp+
  from at_key_line_roundtrip [OF l g _ _ _ refl ok] show ?thesis unfolding up append.simps by (intro exI) simp
qed

text \<open>
  C12. A factory reset of the package that reports success forgets all the settings of the LoRaWAN service and the four of the AT
  service that it covers, and nothing else of the AT service: in the storage no setting of the LoRaWAN service and none of the
  alias, the serial number, the password and the low power mode has
  a value, under either of the two namespaces, the credentials in memory are those of a device that was never configured, and
  the working mode (\<^verbatim>\<open>rzi/nwm\<close>) is kept. While a join is in progress the reset does not report success. The claim
  covers the retry of a reset that failed part way: the settings in the cache may be any that a failed reset leaves (\<open>D\<close> is arbitrary).
\<close>

theorem at_factory_reset_forgets:
  assumes "cred_inv (lwe E) view D (lw_view s)" and "storage_inv E view (at_store s)" and "storage_ready (at_store s)"
    and "cfg_storage (lwe E)" and "cfg_at_nvm E" and "lw_factory_reset E s = (0, t)"
  shows "nothing_stored view (at_store t) \<and> credentials (lw t) = credentials_zero \<and> \<not> join_active (credentials (lw s))
    \<and> (\<forall>k\<in>{''alias'', ''sn'', ''pword'', ''lpm''}. look view (at_store t) ''rzi'' k \<in> {None, Some []})
    \<and> look view (at_store t) ''rzi'' ''nwm'' = look view (at_store s) ''rzi'' ''nwm''"
proof -
  let ?ks = "[''alias'', ''sn'', ''pword'', ''lpm'']" and ?st = "settings ! 0"
  obtain rc0 l where c: "rzi_lorawan_clear_settings (lwe E) (lw_view s) = (rc0, l)" by fastforce
  obtain rc d where k: "delete_keys E ''rzi'' (map (\<lambda>k. ?st\<lparr>skey := k\<rparr>) ?ks) rc0 (at_store (lw_unview l)) = (rc, d)" by fastforce
  have t: "rc = 0" "t = (lw_unview l)\<lparr>at_store := d\<rparr>"
    using assms(5,6) c k by (simp_all add: lw_factory_reset_def on_lw_def delete_each_keys [where st = ?st])
  have rdy: "storage_ready (store (sets (lw_view s)))" and inv: "settings_inv (lwe E) view D (sets (lw_view s))"
    using assms(1,3) by (simp_all add: cred_inv_def)
  have names: "\<forall>st\<in>set (map (\<lambda>k. ?st\<lparr>skey := k\<rparr>) ?ks). name_ok ''rzi'' (skey st)" using rzi_names_ok by simp
  obtain rc1 u where r: "rzi_lorawan_settings_clear (lwe E) (sets (lw_view s)) = (rc1, u)" by fastforce
  have z: "rc0 = 0" using delete_keys_error k t(1) by blast
  with c r have l: "rc1 = 0" "sets l = u" "credentials l = credentials_zero" "\<not> join_active (credentials (lw s))"
    by (auto simp: rzi_lorawan_clear_settings_def rzi_lorawan_credentials_clear_settings_def Let_def split: if_splits)
  note e = settings_clear_effect [OF inv rdy assms(4) r [unfolded l(1)]]
  have st: "at_store (lw_unview l) = store u" using l(2) by (simp add: lw_unview_def)
  have i1: "storage_inv E view (store u)" using e assms(2) by (simp add: settings_inv_def storage_inv_def)
  note d = delete_keys_effect [OF i1 _ names k [unfolded st]]
  have keep: "look view d ns k' \<in> {None, Some []}" if "name_ok ns k'" and "look view (store u) ns k' \<in> {None, Some []}" for ns k'
  proof -
    have "look view d ns k' \<in> {None, look view (store u) ns k'}" using d e that(1) by blast
    then show ?thesis using that(2) by auto
  qed
  have "nothing_stored view d" using e schema_names keep unfolding nothing_stored_def by blast
  moreover have "\<forall>k\<in>{''alias'', ''sn'', ''pword'', ''lpm''}. look view d ''rzi'' k \<in> {None, Some []}" using d e t(1) by simp
  moreover have "look view d ''rzi'' ''nwm'' = look view (at_store s) ''rzi'' ''nwm''"
  proof -
    have n: "name_ok ''rzi'' ''nwm''" "''nwm'' \<notin> skey ` set settings" by (rule nwm_name_ok) code_simp
    have "look view d ''rzi'' ''nwm'' = look view (store u) ''rzi'' ''nwm''"
      using delete_keys_frame [OF i1 names n(1), of rc0] k st by simp
    then show ?thesis using settings_clear_frame [OF inv r n] by (simp add: sets_view)
  qed
  ultimately show ?thesis using t(2) l by (simp add: lw_unview_def lorawan_state.defs)
qed

theorem at_factory_reset_forgets_witness:
  "\<exists>t. lw_factory_reset at_lw_ref_env at_lw_ref_state = (0, t) \<and> credentials (lw t) = credentials_zero"
proof -
  have "fst (lw_factory_reset at_lw_ref_env at_lw_ref_state) = 0" by code_simp
  then obtain t where t: "lw_factory_reset at_lw_ref_env at_lw_ref_state = (0, t)" by (metis prod.collapse)
  have st: "storage_inv at_lw_ref_env (\<lambda>d. d) (at_store at_lw_ref_state)" "storage_ready (at_store at_lw_ref_state)"
    using at_lw_ref_storage(1) [of True] at_lw_ref_storage(2) at_lw_ref_lora by simp_all
  from at_factory_reset_forgets [OF at_lw_ref_lw(1) [where D = "{}"] st at_lw_ref_lw(2) at_lw_ref_fields(7) t] t show ?thesis by blast
qed

end
