(* ===== verification/Rzi_Lora.thy ===== *)
theory Rzi_Lora
  imports Rzi_Err "HOL-Library.Word"
begin

text \<open>
  The raw LoRa and FSK service, \<^verbatim>\<open>src/lora/lora.c\<close>. The backend table (\<^verbatim>\<open>src/lora/backend/lora_backend.h\<close>) is a record
  of optional functions on the state \<open>'x\<close> of the radio; a call gives its code and the results it
  publishes while it runs. Callbacks are numbers, and \<open>run_tx_done\<close> and \<open>run_rx_done\<close> say what they do to the state.
\<close>

section \<open>Data\<close>

datatype rzi_lora_modulation = MOD_LORA | MOD_FSK

record rzi_lora_config =
  frequency_hz :: u32
  spreading_factor :: u8
  bandwidth :: u32
  coding_rate :: u8
  preamble_length :: u16
  tx_power_dbm :: int
  sync_word :: u16
  iq_inverted :: bool
  encrypt :: bool
  key :: bytes
  iv :: bytes
  cad :: bool
  fixed_length :: bool
  fsk_bitrate :: u32
  fsk_deviation :: u32
  symbol_timeout :: u8

record rzi_lora_callbacks =
  tx_done :: "nat option"
  rx_done :: "nat option"
  lcb_user_data :: nat

text \<open>What a backend publishes: the end of a transmission, or a received payload (null is \<open>None\<close>).\<close>

datatype lora_event = Lora_tx_done int | Lora_rx "bytes option" nat int int

type_synonym 'x lop = "'x \<Rightarrow> int \<times> lora_event list \<times> 'x"

record 'x rzi_lora_backend_api =
  lb_start :: "(rzi_lora_modulation \<Rightarrow> 'x lop) option"
  lb_stop :: "'x lop option"
  lb_apply_config :: "(rzi_lora_config \<Rightarrow> 'x lop) option"
  lb_send :: "(bytes \<Rightarrow> nat \<Rightarrow> 'x lop) option"
  lb_receive :: "(u32 \<Rightarrow> 'x lop) option"
  lb_test_rssi :: "'x lop option"
  lb_test_get_rssi :: "(int \<Rightarrow> 'x \<Rightarrow> int \<times> int \<times> lora_event list \<times> 'x) option"
  lb_test_tone :: "'x lop option"
  lb_test_tx :: "(u32 \<Rightarrow> 'x lop) option"
  lb_test_rx :: "(u32 \<Rightarrow> 'x lop) option"
  lb_test_cw :: "(u32 \<Rightarrow> int \<Rightarrow> u32 \<Rightarrow> 'x lop) option"
  lb_test_stop :: "'x lop option"
  lb_poll :: "'x lop option"

text \<open>\<open>lora_isr\<close> is \<^verbatim>\<open>k_is_in_isr()\<close>.\<close>

record 'x lora_state =
  lora_isr :: bool
  lora_started :: bool
  modulation :: rzi_lora_modulation
  lora_config :: rzi_lora_config
  lora_callbacks :: rzi_lora_callbacks
  rx_active :: bool
  lora_radio :: 'x

record ('x, 's) lora_env =
  lora_backend :: "'x rzi_lora_backend_api"
  run_tx_done :: "nat \<Rightarrow> int \<Rightarrow> nat \<Rightarrow> 's \<Rightarrow> 's"
  run_rx_done :: "nat \<Rightarrow> bytes \<Rightarrow> nat \<Rightarrow> int \<Rightarrow> int \<Rightarrow> nat \<Rightarrow> 's \<Rightarrow> 's"

abbreviation (input) RZI_LORA_MAX_PAYLOAD :: nat where "RZI_LORA_MAX_PAYLOAD \<equiv> 255"

definition default_config :: rzi_lora_config where
  "default_config = \<lparr>frequency_hz = 868000000, spreading_factor = 7, bandwidth = 0, coding_rate = 0, preamble_length = 8,
     tx_power_dbm = 14, sync_word = 0x3444, iq_inverted = False, encrypt = False, key = replicate 16 0, iv = replicate 16 0,
     cad = False, fixed_length = False, fsk_bitrate = 49152, fsk_deviation = 5000, symbol_timeout = 0\<rparr>"

section \<open>Operations\<close>

definition check_thread :: "('x, 'm) lora_state_scheme \<Rightarrow> int" where
  "check_thread s = (if lora_isr s then - RZI_ERR_ISR else 0)"

text \<open>The first \<open>n\<close> bytes of the buffer, in place.\<close>

definition apply_cipher :: "bytes \<Rightarrow> nat \<Rightarrow> rzi_lora_config \<Rightarrow> bytes" where
  "apply_cipher data n settings =
     (if \<not> encrypt settings then data
      else map (\<lambda>i. if i < n then data ! i XOR (key settings ! (i mod 16) XOR iv settings ! (i mod 16)) else data ! i)
             [0..<length data])"

definition rzi_lora_publish_tx_done ::
  "('x, ('x, 'm) lora_state_scheme, 'e) lora_env_scheme \<Rightarrow> int \<Rightarrow> ('x, 'm) lora_state_scheme \<Rightarrow> ('x, 'm) lora_state_scheme" where
  "rzi_lora_publish_tx_done E error s =
     (case tx_done (lora_callbacks s) of
        None \<Rightarrow> s
      | Some f \<Rightarrow> run_tx_done E f error (lcb_user_data (lora_callbacks s)) s)"

definition rzi_lora_publish_rx ::
  "('x, ('x, 'm) lora_state_scheme, 'e) lora_env_scheme \<Rightarrow> bytes option \<Rightarrow> nat \<Rightarrow> int \<Rightarrow> int
   \<Rightarrow> ('x, 'm) lora_state_scheme \<Rightarrow> ('x, 'm) lora_state_scheme" where
  "rzi_lora_publish_rx E data n rssi_dbm snr_quarter_db s =
     (let copy = (if n > RZI_LORA_MAX_PAYLOAD then RZI_LORA_MAX_PAYLOAD else n) in
      if data = None \<or> copy = 0 then s
      else let payload = apply_cipher (take copy (the data)) copy (lora_config s) in
        case rx_done (lora_callbacks s) of
          None \<Rightarrow> s
        | Some f \<Rightarrow> run_rx_done E f payload copy rssi_dbm snr_quarter_db (lcb_user_data (lora_callbacks s)) s)"

definition lora_publish ::
  "('x, ('x, 'm) lora_state_scheme, 'e) lora_env_scheme \<Rightarrow> lora_event \<Rightarrow> ('x, 'm) lora_state_scheme \<Rightarrow> ('x, 'm) lora_state_scheme" where
  "lora_publish E ev s =
     (case ev of Lora_tx_done error \<Rightarrow> rzi_lora_publish_tx_done E error s
      | Lora_rx data n rssi snr \<Rightarrow> rzi_lora_publish_rx E data n rssi snr s)"

text \<open>A call through the table.\<close>

definition run_lop ::
  "('x, ('x, 'm) lora_state_scheme, 'e) lora_env_scheme \<Rightarrow> 'x lop \<Rightarrow> ('x, 'm) lora_state_scheme op" where
  "run_lop E f s = (case f (lora_radio s) of (rc, evs, x) \<Rightarrow> (rc, fold (lora_publish E) evs (s\<lparr>lora_radio := x\<rparr>)))"

definition rzi_lora_register_callbacks :: "rzi_lora_callbacks option \<Rightarrow> ('x, 'm) lora_state_scheme op" where
  "rzi_lora_register_callbacks table s =
     (let rc = check_thread s in
      if rc \<noteq> 0 then (rc, s)
      else case table of None \<Rightarrow> (- RZI_ERR_INVALID, s) | Some cb \<Rightarrow> (0, s\<lparr>lora_callbacks := cb\<rparr>))"

definition apply_stored_config ::
  "('x, ('x, 'm) lora_state_scheme, 'e) lora_env_scheme \<Rightarrow> ('x, 'm) lora_state_scheme op" where
  "apply_stored_config E s =
     (case lb_apply_config (lora_backend E) of None \<Rightarrow> (0, s) | Some f \<Rightarrow> run_lop E (f (lora_config s)) s)"

text \<open>The argument is a value of the enumeration, or none of them.\<close>

definition rzi_lora_init ::
  "('x, ('x, 'm) lora_state_scheme, 'e) lora_env_scheme \<Rightarrow> rzi_lora_modulation option \<Rightarrow> ('x, 'm) lora_state_scheme op" where
  "rzi_lora_init E val s =
     (let rc = check_thread s in
      if rc \<noteq> 0 then (rc, s)
      else case val of
        None \<Rightarrow> (- RZI_ERR_INVALID, s)
      | Some m \<Rightarrow> (case lb_start (lora_backend E) of
            None \<Rightarrow> (- RZI_ERR_NOT_SUPPORTED, s)
          | Some f \<Rightarrow> (case run_lop E (f m) s of (rc, t) \<Rightarrow>
              if rc \<noteq> 0 then (rc, t) else apply_stored_config E (t\<lparr>modulation := m, lora_started := True\<rparr>))))"

definition rzi_lora_stop ::
  "('x, ('x, 'm) lora_state_scheme, 'e) lora_env_scheme \<Rightarrow> ('x, 'm) lora_state_scheme op" where
  "rzi_lora_stop E s =
     (let rc = check_thread s in
      if rc \<noteq> 0 then (rc, s)
      else case (case lb_stop (lora_backend E) of None \<Rightarrow> (0, s) | Some f \<Rightarrow> run_lop E f s) of (rc, t) \<Rightarrow>
        (rc, if rc = 0 then t\<lparr>lora_started := False, rx_active := False\<rparr> else t))"

definition rzi_lora_is_started :: "('x, 'm) lora_state_scheme \<Rightarrow> bool" where
  "rzi_lora_is_started s = lora_started s"

definition rzi_lora_get_config :: "(('x, 'm) lora_state_scheme, rzi_lora_config) getter" where
  "rzi_lora_get_config out s =
     (let rc = check_thread s in
      if rc \<noteq> 0 then (rc, out, s)
      else if out = None then (- RZI_ERR_INVALID, out, s) else (0, Some (lora_config s), s))"

definition rzi_lora_set_config ::
  "('x, ('x, 'm) lora_state_scheme, 'e) lora_env_scheme \<Rightarrow> rzi_lora_config option \<Rightarrow> ('x, 'm) lora_state_scheme op" where
  "rzi_lora_set_config E input s =
     (let rc = check_thread s in
      if rc \<noteq> 0 then (rc, s)
      else case input of
        None \<Rightarrow> (- RZI_ERR_INVALID, s)
      | Some c \<Rightarrow>
          if spreading_factor c < 5 \<or> spreading_factor c > 12 \<or> tx_power_dbm c < 5 \<or> tx_power_dbm c > 22
             \<or> preamble_length c < 5 \<or> coding_rate c > 3 then (- RZI_ERR_INVALID, s)
          else let t = s\<lparr>lora_config := c\<rparr> in
            if lora_started t then apply_stored_config E t else (0, t))"

definition rzi_lora_send ::
  "('x, ('x, 'm) lora_state_scheme, 'e) lora_env_scheme \<Rightarrow> bytes option \<Rightarrow> nat \<Rightarrow> ('x, 'm) lora_state_scheme op" where
  "rzi_lora_send E data n s =
     (let rc = check_thread s in
      if rc \<noteq> 0 then (rc, s)
      else if data = None \<or> n = 0 then (- RZI_ERR_INVALID, s)
      else if n > RZI_LORA_MAX_PAYLOAD then (- RZI_ERR_TOO_LARGE, s)
      else case (if lora_started s then lb_send (lora_backend E) else None) of
        None \<Rightarrow> (- RZI_ERR_NOT_SUPPORTED, s)
      | Some f \<Rightarrow> let framed = apply_cipher (take n (the data)) n (lora_config s) in
          run_lop E (f framed n) s)"

definition rzi_lora_receive ::
  "('x, ('x, 'm) lora_state_scheme, 'e) lora_env_scheme \<Rightarrow> u32 \<Rightarrow> ('x, 'm) lora_state_scheme op" where
  "rzi_lora_receive E timeout_ms s =
     (let rc = check_thread s in
      if rc \<noteq> 0 then (rc, s)
      else case (if lora_started s then lb_receive (lora_backend E) else None) of
        None \<Rightarrow> (- RZI_ERR_NOT_SUPPORTED, s)
      | Some f \<Rightarrow> (case run_lop E (f timeout_ms) s of (rc, t) \<Rightarrow>
          (rc, if rc = 0 then t\<lparr>rx_active := (timeout_ms \<noteq> 0)\<rparr> else t)))"

definition rzi_lora_receive_active :: "('x, 'm) lora_state_scheme \<Rightarrow> bool" where
  "rzi_lora_receive_active s = rx_active s"

definition rzi_lora_poll ::
  "('x, ('x, 'm) lora_state_scheme, 'e) lora_env_scheme \<Rightarrow> ('x, 'm) lora_state_scheme \<Rightarrow> ('x, 'm) lora_state_scheme" where
  "rzi_lora_poll E s = (case lb_poll (lora_backend E) of None \<Rightarrow> s | Some f \<Rightarrow> snd (run_lop E f s))"

definition call_test ::
  "('x, ('x, 'm) lora_state_scheme, 'e) lora_env_scheme \<Rightarrow> 'x lop option \<Rightarrow> ('x, 'm) lora_state_scheme op" where
  "call_test E fn s =
     (let rc = check_thread s in
      if rc \<noteq> 0 then (rc, s) else case fn of None \<Rightarrow> (- RZI_ERR_NOT_SUPPORTED, s) | Some f \<Rightarrow> run_lop E f s)"

definition rzi_lora_test_rssi ::
  "('x, ('x, 'm) lora_state_scheme, 'e) lora_env_scheme \<Rightarrow> ('x, 'm) lora_state_scheme op" where
  "rzi_lora_test_rssi E = call_test E (lb_test_rssi (lora_backend E))"

definition rzi_lora_test_get_rssi ::
  "('x, ('x, 'm) lora_state_scheme, 'e) lora_env_scheme \<Rightarrow> (('x, 'm) lora_state_scheme, int) getter" where
  "rzi_lora_test_get_rssi E rssi_dbm s =
     (let rc = check_thread s in
      if rc \<noteq> 0 then (rc, rssi_dbm, s)
      else case rssi_dbm of
        None \<Rightarrow> (- RZI_ERR_INVALID, rssi_dbm, s)
      | Some cell \<Rightarrow> (case lb_test_get_rssi (lora_backend E) of
            None \<Rightarrow> (- RZI_ERR_NOT_SUPPORTED, rssi_dbm, s)
          | Some f \<Rightarrow> (case f cell (lora_radio s) of (rc, v, evs, x) \<Rightarrow>
              (rc, Some v, fold (lora_publish E) evs (s\<lparr>lora_radio := x\<rparr>)))))"

definition rzi_lora_test_tone ::
  "('x, ('x, 'm) lora_state_scheme, 'e) lora_env_scheme \<Rightarrow> ('x, 'm) lora_state_scheme op" where
  "rzi_lora_test_tone E = call_test E (lb_test_tone (lora_backend E))"

definition rzi_lora_test_tx ::
  "('x, ('x, 'm) lora_state_scheme, 'e) lora_env_scheme \<Rightarrow> u32 \<Rightarrow> ('x, 'm) lora_state_scheme op" where
  "rzi_lora_test_tx E packet_count = call_test E (map_option (\<lambda>f. f packet_count) (lb_test_tx (lora_backend E)))"

definition rzi_lora_test_rx ::
  "('x, ('x, 'm) lora_state_scheme, 'e) lora_env_scheme \<Rightarrow> u32 \<Rightarrow> ('x, 'm) lora_state_scheme op" where
  "rzi_lora_test_rx E packet_count = call_test E (map_option (\<lambda>f. f packet_count) (lb_test_rx (lora_backend E)))"

definition rzi_lora_test_cw ::
  "('x, ('x, 'm) lora_state_scheme, 'e) lora_env_scheme \<Rightarrow> u32 \<Rightarrow> int \<Rightarrow> u32 \<Rightarrow> ('x, 'm) lora_state_scheme op" where
  "rzi_lora_test_cw E frequency power_dbm duration_ms =
     call_test E (map_option (\<lambda>f. f frequency power_dbm duration_ms) (lb_test_cw (lora_backend E)))"

definition rzi_lora_test_stop ::
  "('x, ('x, 'm) lora_state_scheme, 'e) lora_env_scheme \<Rightarrow> ('x, 'm) lora_state_scheme op" where
  "rzi_lora_test_stop E = call_test E (lb_test_stop (lora_backend E))"

section \<open>The cipher\<close>

lemma length_apply_cipher [simp]: "length (apply_cipher data n c) = length data"
  by (simp add: apply_cipher_def)

lemma xor_twice: "((x :: u8) XOR k) XOR k = x"
  by (rule bit_eqI) (auto simp: bit_simps)

text \<open>Equal key, vector and switch undo the encryption.\<close>

lemma apply_cipher_twice:
  assumes "encrypt c' = encrypt c" and "key c' = key c" and "iv c' = iv c"
  shows "apply_cipher (apply_cipher data n c) n c' = data"
proof (cases "encrypt c")
  case True
  have "apply_cipher (apply_cipher data n c) n c' ! i = data ! i" if "i < length data" for i
    using that True assms xor_twice by (simp add: apply_cipher_def xor_twice del: xor.assoc)
  then show ?thesis by (intro nth_equalityI) simp_all
qed (simp add: assms(1) apply_cipher_def)

section \<open>Steps\<close>

definition config_ok :: "rzi_lora_config \<Rightarrow> bool" where
  "config_ok c \<longleftrightarrow> 5 \<le> spreading_factor c \<and> spreading_factor c \<le> 12 \<and> 5 \<le> tx_power_dbm c \<and> tx_power_dbm c \<le> 22
     \<and> 5 \<le> preamble_length c \<and> coding_rate c \<le> 3"

text \<open>The initial state: the static initialisers.\<close>

definition lora_initial :: "'x \<Rightarrow> 'x lora_state" where
  "lora_initial x = \<lparr>lora_isr = False, lora_started = False, modulation = MOD_LORA, lora_config = default_config,
     lora_callbacks = \<lparr>tx_done = None, rx_done = None, lcb_user_data = 0\<rparr>, rx_active = False, lora_radio = x\<rparr>"

text \<open>The calls of the service in any order, in threads and in interrupts, and results the backend publishes on its own.\<close>

inductive lora_step ::
  "('x, ('x, 'm) lora_state_scheme, 'e) lora_env_scheme \<Rightarrow> ('x, 'm) lora_state_scheme \<Rightarrow> ('x, 'm) lora_state_scheme \<Rightarrow> bool"
  for E where
  step_context: "lora_step E s (s\<lparr>lora_isr := b\<rparr>)"
| step_publish: "lora_step E s (lora_publish E ev s)"
| step_register: "lora_step E s (snd (rzi_lora_register_callbacks cb s))"
| step_init: "lora_step E s (snd (rzi_lora_init E m s))"
| step_stop: "lora_step E s (snd (rzi_lora_stop E s))"
| step_config: "lora_step E s (snd (rzi_lora_set_config E c s))"
| step_send: "lora_step E s (snd (rzi_lora_send E data n s))"
| step_receive: "lora_step E s (snd (rzi_lora_receive E timeout s))"
| step_poll: "lora_step E s (rzi_lora_poll E s)"
| step_rssi: "lora_step E s (snd (rzi_lora_test_rssi E s))"
| step_get_rssi: "lora_step E s (snd (snd (rzi_lora_test_get_rssi E out s)))"
| step_tone: "lora_step E s (snd (rzi_lora_test_tone E s))"
| step_tx: "lora_step E s (snd (rzi_lora_test_tx E k s))"
| step_rx: "lora_step E s (snd (rzi_lora_test_rx E k s))"
| step_cw: "lora_step E s (snd (rzi_lora_test_cw E fr pw d s))"
| step_test_stop: "lora_step E s (snd (rzi_lora_test_stop E s))"

definition lora_ok :: "('x, 'm) lora_state_scheme \<Rightarrow> bool" where
  "lora_ok s \<longleftrightarrow> config_ok (lora_config s) \<and> (rx_active s \<longrightarrow> lora_started s)"

text \<open>Callbacks do not start or stop the service and store no invalid configuration.\<close>

definition lora_same :: "('x, 'm) lora_state_scheme \<Rightarrow> ('x, 'm) lora_state_scheme \<Rightarrow> bool" where
  "lora_same s t \<longleftrightarrow> lora_started t = lora_started s \<and> rx_active t = rx_active s
     \<and> (config_ok (lora_config s) \<longrightarrow> config_ok (lora_config t))"

definition lora_callbacks_neutral :: "('x, ('x, 'm) lora_state_scheme, 'e) lora_env_scheme \<Rightarrow> bool" where
  "lora_callbacks_neutral E \<longleftrightarrow> (\<forall>f e u s. lora_same s (run_tx_done E f e u s))
     \<and> (\<forall>f d n r q u s. lora_same s (run_rx_done E f d n r q u s))"

lemma lora_same_refl [simp]: "lora_same s s"
  by (simp add: lora_same_def)

lemma lora_same_trans: "lora_same s t \<Longrightarrow> lora_same t u \<Longrightarrow> lora_same s u"
  by (simp add: lora_same_def)

lemma lora_same_ok: "lora_same s t \<Longrightarrow> lora_ok s \<Longrightarrow> lora_ok t"
  by (simp add: lora_same_def lora_ok_def)

lemma publish_same:
  assumes "lora_callbacks_neutral E"
  shows "lora_same s (lora_publish E ev s)"
  using assms by (simp add: lora_callbacks_neutral_def lora_publish_def rzi_lora_publish_tx_done_def rzi_lora_publish_rx_def Let_def
      split: lora_event.splits option.splits)

lemma publish_all_same:
  assumes "lora_callbacks_neutral E"
  shows "lora_same s (fold (lora_publish E) evs s)"
  by (induction evs arbitrary: s) (auto intro: lora_same_trans publish_same [OF assms])

lemma run_lop_same:
  assumes "lora_callbacks_neutral E" and "run_lop E f s = (rc, t)"
  shows "lora_same s t"
proof -
  obtain r evs x where f: "f (lora_radio s) = (r, evs, x)" by (metis prod_cases3)
  have "lora_same s (s\<lparr>lora_radio := x\<rparr>)" by (simp add: lora_same_def)
  moreover have "t = fold (lora_publish E) evs (s\<lparr>lora_radio := x\<rparr>)" using assms(2) f by (simp add: run_lop_def)
  ultimately show ?thesis using lora_same_trans publish_all_same [OF assms(1)] by blast
qed

lemma run_lop_same_snd: "lora_callbacks_neutral E \<Longrightarrow> lora_same s (snd (run_lop E f s))"
  using run_lop_same [of E f s "fst (run_lop E f s)" "snd (run_lop E f s)"] by simp

lemma apply_config_same: "lora_callbacks_neutral E \<Longrightarrow> lora_same s (snd (apply_stored_config E s))"
  by (simp add: apply_stored_config_def run_lop_same_snd split: option.splits)

lemma call_test_same: "lora_callbacks_neutral E \<Longrightarrow> lora_same s (snd (call_test E f s))"
  by (simp add: call_test_def run_lop_same_snd Let_def split: option.splits)

lemma lora_step_ok:
  assumes "lora_callbacks_neutral E" and "lora_step E s t" and "lora_ok s"
  shows "lora_ok t"
  using assms(2,3)
proof cases
  case (step_init m)
  show ?thesis
  proof (cases "check_thread s \<noteq> 0 \<or> m = None \<or> lb_start (lora_backend E) = None")
    case False
    then obtain f where f: "lb_start (lora_backend E) = Some f" by auto
    obtain rc u where u: "run_lop E (f (the m)) s = (rc, u)" by fastforce
    have "lora_ok u" using lora_same_ok [OF run_lop_same [OF assms(1) u] assms(3)] .
    then have "lora_ok (u\<lparr>modulation := the m, lora_started := True\<rparr>)" by (simp add: lora_ok_def)
    with False f u step_init \<open>lora_ok u\<close> show ?thesis
      using lora_same_ok [OF apply_config_same [OF assms(1)]] by (auto simp: rzi_lora_init_def)
  qed (use step_init assms(3) in \<open>auto simp: rzi_lora_init_def Let_def split: option.splits\<close>)
next
  case step_stop
  obtain rc u where u: "(case lb_stop (lora_backend E) of None \<Rightarrow> (0, s) | Some f \<Rightarrow> run_lop E f s) = (rc, u)" by fastforce
  have "lora_same s u" using u run_lop_same [OF assms(1)] by (auto split: option.splits)
  then show ?thesis using step_stop u assms(3) lora_same_ok by (auto simp: rzi_lora_stop_def Let_def lora_ok_def lora_same_def)
next
  case (step_config c)
  show ?thesis
  proof (cases c)
    case (Some d)
    have "lora_ok (s\<lparr>lora_config := d\<rparr>)" if "config_ok d" using that assms(3) by (simp add: lora_ok_def)
    then show ?thesis using step_config Some assms(3) lora_same_ok [OF apply_config_same [OF assms(1)], of "s\<lparr>lora_config := d\<rparr>"]
      by (auto simp: rzi_lora_set_config_def Let_def config_ok_def not_less not_le)
  qed (use step_config assms(3) in \<open>auto simp: rzi_lora_set_config_def Let_def\<close>)
next
  case (step_receive timeout)
  show ?thesis
  proof (cases "check_thread s \<noteq> 0 \<or> (if lora_started s then lb_receive (lora_backend E) else None) = None")
    case False
    then obtain f where f: "lora_started s" "lb_receive (lora_backend E) = Some f" by (auto split: if_splits)
    obtain rc u where u: "run_lop E (f timeout) s = (rc, u)" by fastforce
    have "lora_ok u" "lora_started u" using run_lop_same [OF assms(1) u] assms(3) f by (auto simp: lora_ok_def lora_same_def)
    with False f u step_receive show ?thesis by (simp add: rzi_lora_receive_def Let_def lora_ok_def)
  qed (use step_receive assms(3) in \<open>auto simp: rzi_lora_receive_def Let_def\<close>)
next
  case (step_get_rssi out)
  obtain rc v evs x where "lb_test_get_rssi (lora_backend E) \<noteq> None \<Longrightarrow> out \<noteq> None \<Longrightarrow>
    the (lb_test_get_rssi (lora_backend E)) (the out) (lora_radio s) = (rc, v, evs, x)" by (metis prod_cases4)
  moreover have "lora_ok (fold (lora_publish E) evs (s\<lparr>lora_radio := x\<rparr>))"
    using lora_same_ok [OF publish_all_same [OF assms(1)], of "s\<lparr>lora_radio := x\<rparr>"] assms(3) by (simp add: lora_ok_def)
  ultimately show ?thesis using step_get_rssi assms(3) by (auto simp: rzi_lora_test_get_rssi_def Let_def split: option.splits)
next
  case (step_context b)
  then show ?thesis using assms(3) by (simp add: lora_ok_def)
next
  case (step_register cb)
  then show ?thesis using assms(3) by (simp add: lora_ok_def rzi_lora_register_callbacks_def Let_def split: option.splits)
next
  case (step_publish ev)
  then show ?thesis using lora_same_ok [OF publish_same [OF assms(1)] assms(3)] by simp
next
  case (step_send data n)
  have "lora_same s t" unfolding step_send rzi_lora_send_def
    by (simp add: Let_def run_lop_same_snd [OF assms(1)] split: option.splits)
  then show ?thesis using lora_same_ok assms(3) by blast
next
  case step_poll
  have "lora_same s t" unfolding step_poll rzi_lora_poll_def
    by (simp add: run_lop_same_snd [OF assms(1)] split: option.splits)
  then show ?thesis using lora_same_ok assms(3) by blast
qed (use lora_same_ok [OF call_test_same [OF assms(1)] assms(3)] in
  \<open>simp_all add: rzi_lora_test_rssi_def rzi_lora_test_tone_def rzi_lora_test_tx_def rzi_lora_test_rx_def
     rzi_lora_test_cw_def rzi_lora_test_stop_def\<close>)

text \<open>A reference instance: a radio that counts transmissions, and a callback that does nothing.\<close>

definition lora_ref_env :: "(nat, nat lora_state) lora_env" where
  "lora_ref_env = \<lparr>lora_backend = \<lparr>lb_start = Some (\<lambda>m x. (0, [], x)), lb_stop = None, lb_apply_config = Some (\<lambda>c x. (0, [], x)),
       lb_send = Some (\<lambda>d n x. (0, [Lora_tx_done 0], Suc x)), lb_receive = Some (\<lambda>t x. (0, [], x)), lb_test_rssi = None,
       lb_test_get_rssi = None, lb_test_tone = None, lb_test_tx = None, lb_test_rx = None, lb_test_cw = None,
       lb_test_stop = None, lb_poll = None\<rparr>,
     run_tx_done = (\<lambda>f e u s. s), run_rx_done = (\<lambda>f d n r q u s. s)\<rparr>"

lemma lora_ref_neutral: "lora_callbacks_neutral lora_ref_env"
  by (simp add: lora_callbacks_neutral_def lora_ref_env_def)

section \<open>Properties\<close>

text \<open>
  A payload arrives as it was sent: what a started service hands to its radio for a payload
  within the size limit, received by a service with the same key, vector and encryption switch, is
  given to the receive callback as the original bytes, with the same length.
\<close>

theorem lora_payload_roundtrip:
  assumes "\<not> lora_isr s" and "lora_started s" and "lb_send (lora_backend E) = Some f"
    and "d \<noteq> []" and "length d \<le> RZI_LORA_MAX_PAYLOAD" and "rx_done (lora_callbacks r) = Some g"
    and "encrypt (lora_config r) = encrypt (lora_config s)" and "key (lora_config r) = key (lora_config s)"
    and "iv (lora_config r) = iv (lora_config s)"
  shows "\<exists>framed. rzi_lora_send E (Some d) (length d) s = run_lop E (f framed (length d)) s
    \<and> rzi_lora_publish_rx F (Some framed) (length d) rssi snr r
      = run_rx_done F g d (length d) rssi snr (lcb_user_data (lora_callbacks r)) r"
proof -
  let ?framed = "apply_cipher d (length d) (lora_config s)"
  have "rzi_lora_send E (Some d) (length d) s = run_lop E (f ?framed (length d)) s"
    using assms(1-5) by (simp add: rzi_lora_send_def check_thread_def Let_def)
  moreover have "rzi_lora_publish_rx F (Some ?framed) (length d) rssi snr r
      = run_rx_done F g d (length d) rssi snr (lcb_user_data (lora_callbacks r)) r"
    using assms(4-6) apply_cipher_twice [OF assms(7-9)] by (simp add: rzi_lora_publish_rx_def Let_def)
  ultimately show ?thesis by blast
qed

theorem lora_payload_roundtrip_witness:
  "\<exists>framed. rzi_lora_publish_rx (lora_ref_env\<lparr>run_rx_done := \<lambda>f d n r q u s. s\<lparr>lora_radio := if d = [7] then 5 else 0\<rparr>\<rparr>)
      (Some framed) 1 0 0 ((lora_initial 0)\<lparr>lora_config := default_config\<lparr>encrypt := True\<rparr>,
        lora_callbacks := \<lparr>tx_done = None, rx_done = Some 0, lcb_user_data = 0\<rparr>\<rparr>)
    = (lora_initial 5)\<lparr>lora_config := default_config\<lparr>encrypt := True\<rparr>,
        lora_callbacks := \<lparr>tx_done = None, rx_done = Some 0, lcb_user_data = 0\<rparr>\<rparr>"
proof -
  let ?s = "(lora_initial 0)\<lparr>lora_started := True, lora_config := default_config\<lparr>encrypt := True\<rparr>\<rparr>"
  let ?r = "(lora_initial 0)\<lparr>lora_config := default_config\<lparr>encrypt := True\<rparr>,
      lora_callbacks := \<lparr>tx_done = None, rx_done = Some 0, lcb_user_data = 0\<rparr>\<rparr>"
  let ?F = "lora_ref_env\<lparr>run_rx_done := \<lambda>f d n r q u s. s\<lparr>lora_radio := if d = [7] then 5 else 0\<rparr>\<rparr>"
  show ?thesis
    using lora_payload_roundtrip [of ?s lora_ref_env "\<lambda>d n x. (0, [Lora_tx_done 0], Suc x)" "[7]" ?r 0 ?F 0 0]
    by (auto simp: lora_ref_env_def lora_initial_def)
qed

text \<open>
  The radio configuration stays in range: after any sequence of calls, in any context, with
  results published at any time, the stored configuration has a spreading factor, power, preamble and
  coding rate in their ranges, and reception is active only in a started service.
\<close>

theorem lora_service_ok:
  assumes "lora_callbacks_neutral E" and "(lora_step E)\<^sup>*\<^sup>* (lora_initial x) t"
  shows "config_ok (lora_config t) \<and> (rx_active t \<longrightarrow> lora_started t)"
proof -
  have "lora_ok t" using assms(2)
  proof (induction rule: rtranclp_induct)
    case base
    show ?case by (simp add: lora_ok_def lora_initial_def config_ok_def default_config_def)
  qed (use lora_step_ok [OF assms(1)] in blast)
  then show ?thesis by (simp add: lora_ok_def)
qed

theorem lora_service_ok_witness:
  "\<exists>t. (lora_step lora_ref_env)\<^sup>*\<^sup>* (lora_initial 0) t \<and> rx_active t \<and> lora_started t \<and> config_ok (lora_config t)"
proof -
  define a where "a = snd (rzi_lora_init lora_ref_env (Some MOD_LORA) (lora_initial 0))"
  define t where "t = snd (rzi_lora_receive lora_ref_env 1000 a)"
  have "lora_step lora_ref_env (lora_initial 0) a" "lora_step lora_ref_env a t"
    unfolding a_def t_def by (rule step_init step_receive)+
  then have r: "(lora_step lora_ref_env)\<^sup>*\<^sup>* (lora_initial 0) t" by simp
  have "rx_active t" unfolding t_def a_def by code_simp
  with lora_service_ok [OF lora_ref_neutral r] r show ?thesis by blast
qed

end
