(* ===== verification/Rzi_At_Lora.thy ===== *)
theory Rzi_At_Lora
  imports Rzi_At_Lorawan_Join Rzi_Lora
begin

text \<open>
  The command package of the AT service for the raw LoRa service: \<^verbatim>\<open>at_lora.c\<close>, \<^verbatim>\<open>at_lora_p2p.c\<close> and \<^verbatim>\<open>at_lora_test.c\<close> under
  \<^verbatim>\<open>src/at/commands/lora\<close>. The state extends the AT service by the LoRa service (\<open>lra\<close>) and the flag of the package;
  \<open>lora_view\<close> shows it as the LoRa service sees it, with the interrupt flag of the processor and with the whole state behind it for
  the callbacks.

  A configuration that a failed query leaves uninitialised is never read. A handler that reads \<^verbatim>\<open>request->argument\<close> without a test
  runs for writes only, whose argument is not null.
\<close>

section \<open>State\<close>

record ('d, 'u, 'x) at_lora_state = "('d, 'u) sys_state" +
  lra :: "'x lora_state"
  p2p_start_pending :: bool

text \<open>\<open>lore\<close> is the environment of the LoRa service; the last fields are the function pointers of the package.\<close>

record ('d, 's, 'u, 'x, 'l) at_lora_env = "('d, 's, 'u) sys_env" +
  lore :: "('x, 'l) lora_env"
  lora_handlers :: nat
  lora_listener :: nat
  lora_start_hook :: nat
  lora_process_hook :: nat
  lora_tx_callback :: nat
  lora_rx_callback :: nat

type_synonym ('d, 'u, 'x, 'm) lora_seen = "('x, ('d, 'u, 'x, 'm) at_lora_state_scheme) lora_state_scheme"
type_synonym ('d, 'u, 'x, 'm, 'e) lora_cmd_env =
  "('d, ('d, 'u, 'x, 'm) at_lora_state_scheme, 'u, 'x, ('d, 'u, 'x, 'm) lora_seen, 'e) at_lora_env_scheme"
type_synonym ('d, 'u, 'x, 'm, 'e) lora_handler =
  "('d, 'u, 'x, 'm, 'e) lora_cmd_env \<Rightarrow> rzi_at_request \<Rightarrow> ('d, 'u, 'x, 'm) at_lora_state_scheme op"

definition lora_view :: "('d, 'u, 'x, 'm) at_lora_state_scheme \<Rightarrow> ('d, 'u, 'x, 'm) lora_seen" where
  "lora_view s = lora_state.extend ((lra s)\<lparr>lora_isr := in_isr (pwr (at_store s))\<rparr>) s"

definition lora_unview :: "('d, 'u, 'x, 'm) lora_seen \<Rightarrow> ('d, 'u, 'x, 'm) at_lora_state_scheme" where
  "lora_unview l = (lora_state.more l)\<lparr>lra := (lora_state.truncate l)\<lparr>lora_isr := lora_isr (lra (lora_state.more l))\<rparr>\<rparr>"

definition on_lora :: "('d, 'u, 'x, 'm) lora_seen op \<Rightarrow> ('d, 'u, 'x, 'm) at_lora_state_scheme op" where
  "on_lora m s = (case m (lora_view s) of (rc, l) \<Rightarrow> (rc, lora_unview l))"

section \<open>Text\<close>

text \<open>The file has its own copy of the conversions; its digits are those of \<open>hex_nibble\<close>.\<close>

definition rzi_at_lora_hex_to_bin :: "string \<Rightarrow> nat \<Rightarrow> int + bytes" where
  "rzi_at_lora_hex_to_bin hex out_len =
     (if length hex \<noteq> out_len * 2 then Inl (- RZI_ERR_INVALID)
      else case hex_pairs hex of None \<Rightarrow> Inl (- RZI_ERR_INVALID) | Some out \<Rightarrow> Inr out)"

definition rzi_at_lora_bin_to_hex :: "bytes \<Rightarrow> string" where
  "rzi_at_lora_bin_to_hex bs = concat (map hex_byte bs)"

definition rzi_at_lora_parse_long :: "('d, 's, 'e) mode_env_scheme \<Rightarrow> string option \<Rightarrow> int + int" where
  "rzi_at_lora_parse_long E argument =
     (case argument of
        None \<Rightarrow> Inl (- RZI_ERR_INVALID)
      | Some t \<Rightarrow> (case strtol (long_max E) t of
          None \<Rightarrow> Inl (- RZI_ERR_INVALID)
        | Some (v, rest) \<Rightarrow> if rest \<noteq> [] then Inl (- RZI_ERR_INVALID) else Inr v))"

definition rzi_at_lora_parse_bool :: "string \<Rightarrow> int + bool" where
  "rzi_at_lora_parse_bool argument =
     (if argument = ''0'' then Inr False else if argument = ''1'' then Inr True else Inl (- RZI_ERR_INVALID))"

section \<open>The package\<close>

definition mode_modulation :: "u8 \<Rightarrow> rzi_lora_modulation" where
  "mode_modulation mode = (if mode = RZI_AT_NETWORK_MODE_P2P_FSK then MOD_FSK else MOD_LORA)"

definition on_network_mode :: "('d, 'u, 'x, 'm, 'e) lora_cmd_env \<Rightarrow> u8 \<Rightarrow> ('d, 'u, 'x, 'm) at_lora_state_scheme op" where
  "on_network_mode E mode =
     (if mode = RZI_AT_NETWORK_MODE_LORAWAN then on_lora (rzi_lora_stop (lore E))
      else on_lora (rzi_lora_init (lore E) (Some (mode_modulation mode))))"

definition rzi_at_lora_ensure_started :: "('d, 'u, 'x, 'm, 'e) lora_cmd_env \<Rightarrow> ('d, 'u, 'x, 'm) at_lora_state_scheme op" where
  "rzi_at_lora_ensure_started E s =
     (let mode = rzi_at_network_mode_get s in
      if mode = RZI_AT_NETWORK_MODE_LORAWAN then (- RZI_ERR_BUSY, s)
      else if rzi_lora_is_started (lora_view s) then (0, s)
      else on_lora (rzi_lora_init (lore E) (Some (mode_modulation mode))) s)"

definition on_tx_done ::
  "('d, 'u, 'x, 'm, 'e) lora_cmd_env \<Rightarrow> int \<Rightarrow> ('d, 'u, 'x, 'm) at_lora_state_scheme \<Rightarrow> ('d, 'u, 'x, 'm) at_lora_state_scheme" where
  "on_tx_done E error s = snd (rzi_at_publish_event E (if error = 0 then ''TXP2P DONE'' else ''TXP2P ERROR'') s)"

definition on_rx_done ::
  "('d, 'u, 'x, 'm, 'e) lora_cmd_env \<Rightarrow> bytes \<Rightarrow> nat \<Rightarrow> int \<Rightarrow> int \<Rightarrow> ('d, 'u, 'x, 'm) at_lora_state_scheme
   \<Rightarrow> ('d, 'u, 'x, 'm) at_lora_state_scheme" where
  "on_rx_done E data n rssi_dbm snr_quarter_db s =
     snd (rzi_at_publish_event E (''RXP2P:'' @ show_int rssi_dbm @ '':'' @ show_int (c_div snr_quarter_db 4) @ '':''
       @ rzi_at_lora_bin_to_hex (take n data)) s)"

definition lora_extension_start :: "('d, 'u, 'x, 'm, 'e) lora_cmd_env \<Rightarrow> ('d, 'u, 'x, 'm) at_lora_state_scheme op" where
  "lora_extension_start E =
     seq_ok (on_lora (rzi_lora_register_callbacks
         (Some \<lparr>tx_done = Some (lora_tx_callback E), rx_done = Some (lora_rx_callback E), lcb_user_data = 0\<rparr>)))
       (\<lambda>t. (0, t\<lparr>p2p_start_pending := (rzi_at_network_mode_get t \<noteq> RZI_AT_NETWORK_MODE_LORAWAN)\<rparr>))"

definition lora_extension_process ::
  "('d, 'u, 'x, 'm, 'e) lora_cmd_env \<Rightarrow> ('d, 'u, 'x, 'm) at_lora_state_scheme \<Rightarrow> ('d, 'u, 'x, 'm) at_lora_state_scheme" where
  "lora_extension_process E s =
     (let t = (if \<not> p2p_start_pending s then s
               else let t = s\<lparr>p2p_start_pending := False\<rparr> in
                 if rzi_at_network_mode_get t = RZI_AT_NETWORK_MODE_LORAWAN then t
                 else case rzi_at_lora_ensure_started E t of (rc, u) \<Rightarrow>
                   if rc \<noteq> 0 then snd (rzi_at_network_mode_restore_default E u) else u)
      in lora_unview (rzi_lora_poll (lore E) (lora_view t)))"

section \<open>Parameters\<close>

text \<open>\<^verbatim>\<open>respond_ok\<close> of the result of a call.\<close>

definition respond_ok :: "('d, 's, 'e) at_env_scheme \<Rightarrow> ('d, 'm) at_state_scheme op \<Rightarrow> ('d, 'm) at_state_scheme op" where
  "respond_ok E m = seq_ok m (rzi_at_respond_status E STATUS_OK)"

text \<open>
  The loops over numbers between colons: the numbers read so far and the text at \<^verbatim>\<open>cursor\<close>; \<open>None\<close> is the error return. Only \<^verbatim>\<open>parse_colon_u32\<close>
  (\<open>strict\<close>) asks for text behind a colon.
\<close>

function colon_values :: "int \<Rightarrow> bool \<Rightarrow> nat \<Rightarrow> int list \<Rightarrow> string \<Rightarrow> int list option" where
  "colon_values lmax strict expected values cursor =
     (if cursor = [] \<or> length values \<ge> expected then Some values
      else case strtoul lmax cursor of
        None \<Rightarrow> None
      | Some (v, end) \<Rightarrow>
          if end = [] then Some (values @ [v])
          else if hd end \<noteq> CHR '':'' \<or> strict \<and> tl end = [] then None
          else colon_values lmax strict expected (values @ [v]) (tl end))"
  by pat_completeness auto
termination by (relation "measure (\<lambda>(lmax, strict, expected, values, cursor). expected - length values)") auto

declare colon_values.simps [simp del]

definition parse_colon_u32 :: "int \<Rightarrow> string \<Rightarrow> nat \<Rightarrow> int + u32 list" where
  "parse_colon_u32 lmax argument expected =
     (case colon_values lmax True expected [] argument of
        None \<Rightarrow> Inl (- RZI_ERR_INVALID)
      | Some values \<Rightarrow> if length values = expected then Inr (map of_int values) else Inl (- RZI_ERR_INVALID))"

definition get_config :: "('d, 'u, 'x, 'm) at_lora_state_scheme \<Rightarrow> int \<times> rzi_lora_config \<times> ('d, 'u, 'x, 'm) at_lora_state_scheme" where
  "get_config s = (case rzi_lora_get_config (Some default_config) (lora_view s) of (rc, out, l) \<Rightarrow> (rc, the out, lora_unview l))"

definition set_config :: "('d, 'u, 'x, 'm, 'e) lora_cmd_env \<Rightarrow> rzi_lora_config \<Rightarrow> ('d, 'u, 'x, 'm) at_lora_state_scheme op" where
  "set_config E config = on_lora (rzi_lora_set_config (lore E) (Some config))"

definition write_u32 ::
  "('d, 'u, 'x, 'm, 'e) lora_cmd_env \<Rightarrow> rzi_at_request \<Rightarrow> string \<Rightarrow> int \<Rightarrow> int \<Rightarrow> (rzi_lora_config \<Rightarrow> u32 \<Rightarrow> rzi_lora_config)
   \<Rightarrow> (rzi_lora_config \<Rightarrow> u32) \<Rightarrow> ('d, 'u, 'x, 'm) at_lora_state_scheme op" where
  "write_u32 E request name lo hi put_field load s =
     (case get_config s of (rc, config, t) \<Rightarrow>
        if rc \<noteq> 0 then (rc, t)
        else if req_operation request = OP_READ then rzi_at_respond_value E (''AT+'' @ name @ ''='' @ show_nat (unat (load config))) t
        else case rzi_at_lora_parse_long E (req_argument request) of
          Inl rc \<Rightarrow> (- RZI_ERR_INVALID, t)
        | Inr parsed \<Rightarrow>
            if parsed < lo \<or> parsed > hi then (- RZI_ERR_INVALID, t)
            else respond_ok E (set_config E (put_field config (of_int parsed))) t)"

definition write_bool ::
  "('d, 'u, 'x, 'm, 'e) lora_cmd_env \<Rightarrow> rzi_at_request \<Rightarrow> string \<Rightarrow> (rzi_lora_config \<Rightarrow> bool \<Rightarrow> rzi_lora_config)
   \<Rightarrow> (rzi_lora_config \<Rightarrow> bool) \<Rightarrow> ('d, 'u, 'x, 'm) at_lora_state_scheme op" where
  "write_bool E request name put_field load s =
     (case get_config s of (rc, config, t) \<Rightarrow>
        if rc \<noteq> 0 then (rc, t)
        else if req_operation request = OP_READ then rzi_at_respond_value E (''AT+'' @ name @ ''='' @ bit_text (load config)) t
        else case rzi_at_lora_parse_bool (the (req_argument request)) of
          Inl rc \<Rightarrow> (rc, t)
        | Inr enabled \<Rightarrow> respond_ok E (set_config E (put_field config enabled)) t)"

text \<open>\<open>field\<close> and \<open>put_field\<close> are the member of the configuration that the pointer \<^verbatim>\<open>field\<close> names.\<close>

definition write_key ::
  "('d, 'u, 'x, 'm, 'e) lora_cmd_env \<Rightarrow> rzi_at_request \<Rightarrow> string \<Rightarrow> (rzi_lora_config \<Rightarrow> bytes) \<Rightarrow> (bytes \<Rightarrow> rzi_lora_config \<Rightarrow> rzi_lora_config)
   \<Rightarrow> rzi_lora_config \<Rightarrow> ('d, 'u, 'x, 'm) at_lora_state_scheme op" where
  "write_key E request name field put_field config s =
     (if req_operation request = OP_READ then
        rzi_at_respond_value E (''AT+'' @ name @ ''='' @ rzi_at_lora_bin_to_hex (take 16 (field config))) s
      else case rzi_at_lora_hex_to_bin (the (req_argument request)) 16 of
        Inl rc \<Rightarrow> (rc, s)
      | Inr bs \<Rightarrow> respond_ok E (set_config E (put_field bs config)) s)"

definition set_freq :: "rzi_lora_config \<Rightarrow> u32 \<Rightarrow> rzi_lora_config" where "set_freq config v = config\<lparr>frequency_hz := v\<rparr>"
definition get_freq :: "rzi_lora_config \<Rightarrow> u32" where "get_freq config = frequency_hz config"
definition set_sf :: "rzi_lora_config \<Rightarrow> u32 \<Rightarrow> rzi_lora_config" where "set_sf config v = config\<lparr>spreading_factor := ucast v\<rparr>"
definition get_sf :: "rzi_lora_config \<Rightarrow> u32" where "get_sf config = ucast (spreading_factor config)"
definition set_bw :: "rzi_lora_config \<Rightarrow> u32 \<Rightarrow> rzi_lora_config" where "set_bw config v = config\<lparr>bandwidth := v\<rparr>"
definition get_bw :: "rzi_lora_config \<Rightarrow> u32" where "get_bw config = bandwidth config"
definition set_cr :: "rzi_lora_config \<Rightarrow> u32 \<Rightarrow> rzi_lora_config" where "set_cr config v = config\<lparr>coding_rate := ucast v\<rparr>"
definition get_cr :: "rzi_lora_config \<Rightarrow> u32" where "get_cr config = ucast (coding_rate config)"
definition set_pl :: "rzi_lora_config \<Rightarrow> u32 \<Rightarrow> rzi_lora_config" where "set_pl config v = config\<lparr>preamble_length := ucast v\<rparr>"
definition get_pl :: "rzi_lora_config \<Rightarrow> u32" where "get_pl config = ucast (preamble_length config)"
definition set_tp :: "rzi_lora_config \<Rightarrow> u32 \<Rightarrow> rzi_lora_config" where "set_tp config v = config\<lparr>tx_power_dbm := sint (ucast v :: u8)\<rparr>"
definition get_tp :: "rzi_lora_config \<Rightarrow> u32" where "get_tp config = of_int (tx_power_dbm config)"
definition set_sw :: "rzi_lora_config \<Rightarrow> u32 \<Rightarrow> rzi_lora_config" where "set_sw config v = config\<lparr>sync_word := ucast v\<rparr>"
definition get_sw :: "rzi_lora_config \<Rightarrow> u32" where "get_sw config = ucast (sync_word config)"
definition set_br :: "rzi_lora_config \<Rightarrow> u32 \<Rightarrow> rzi_lora_config" where "set_br config v = config\<lparr>fsk_bitrate := v\<rparr>"
definition get_br :: "rzi_lora_config \<Rightarrow> u32" where "get_br config = fsk_bitrate config"
definition set_dev :: "rzi_lora_config \<Rightarrow> u32 \<Rightarrow> rzi_lora_config" where "set_dev config v = config\<lparr>fsk_deviation := v\<rparr>"
definition get_dev :: "rzi_lora_config \<Rightarrow> u32" where "get_dev config = fsk_deviation config"
definition set_enc :: "rzi_lora_config \<Rightarrow> bool \<Rightarrow> rzi_lora_config" where "set_enc config v = config\<lparr>encrypt := v\<rparr>"
definition get_enc :: "rzi_lora_config \<Rightarrow> bool" where "get_enc config = encrypt config"
definition set_iq :: "rzi_lora_config \<Rightarrow> bool \<Rightarrow> rzi_lora_config" where "set_iq config v = config\<lparr>iq_inverted := v\<rparr>"
definition get_iq :: "rzi_lora_config \<Rightarrow> bool" where "get_iq config = iq_inverted config"
definition set_cad :: "rzi_lora_config \<Rightarrow> bool \<Rightarrow> rzi_lora_config" where "set_cad config v = config\<lparr>cad := v\<rparr>"
definition get_cad :: "rzi_lora_config \<Rightarrow> bool" where "get_cad config = cad config"

definition p2p_text :: "rzi_lora_config \<Rightarrow> string" where
  "p2p_text c = show_nat (unat (frequency_hz c)) @ '':'' @ show_nat (unat (spreading_factor c)) @ '':'' @ show_nat (unat (bandwidth c))
     @ '':'' @ show_nat (unat (coding_rate c)) @ '':'' @ show_nat (unat (preamble_length c)) @ '':'' @ show_int (tx_power_dbm c)"

text \<open>The six assignments from an array of numbers.\<close>

definition p2p_values :: "u32 list \<Rightarrow> rzi_lora_config \<Rightarrow> rzi_lora_config" where
  "p2p_values values config = config\<lparr>frequency_hz := values ! 0, spreading_factor := ucast (values ! 1), bandwidth := values ! 2,
     coding_rate := ucast (values ! 3), preamble_length := ucast (values ! 4), tx_power_dbm := sint (ucast (values ! 5) :: u8)\<rparr>"

definition handle_p2p :: "('d, 'u, 'x, 'm, 'e) lora_handler" where
  "handle_p2p E request s =
     (if req_operation request = OP_READ then
        (case get_config s of (rc, config, t) \<Rightarrow>
           if rc \<noteq> 0 then (rc, t) else rzi_at_respond_value E (''AT+P2P='' @ p2p_text config) t)
      else case parse_colon_u32 (long_max E) (the (req_argument request)) 6 of
        Inl rc \<Rightarrow> (rc, s)
      | Inr values \<Rightarrow> (case get_config s of (rc, config, t) \<Rightarrow>
          if rc \<noteq> 0 then (rc, t) else respond_ok E (set_config E (p2p_values values config)) t))"

definition handle_pfreq :: "('d, 'u, 'x, 'm, 'e) lora_handler" where
  "handle_pfreq E request = write_u32 E request ''PFREQ'' 150000000 960000000 set_freq get_freq"

definition handle_psf :: "('d, 'u, 'x, 'm, 'e) lora_handler" where
  "handle_psf E request = write_u32 E request ''PSF'' 5 12 set_sf get_sf"

definition handle_pbw :: "('d, 'u, 'x, 'm, 'e) lora_handler" where
  "handle_pbw E request = write_u32 E request ''PBW'' 0 960000000 set_bw get_bw"

definition handle_pcr :: "('d, 'u, 'x, 'm, 'e) lora_handler" where
  "handle_pcr E request = write_u32 E request ''PCR'' 0 3 set_cr get_cr"

definition handle_ppl :: "('d, 'u, 'x, 'm, 'e) lora_handler" where
  "handle_ppl E request = write_u32 E request ''PPL'' 5 65535 set_pl get_pl"

definition handle_ptp :: "('d, 'u, 'x, 'm, 'e) lora_handler" where
  "handle_ptp E request = write_u32 E request ''PTP'' 5 22 set_tp get_tp"

definition handle_syncword :: "('d, 'u, 'x, 'm, 'e) lora_handler" where
  "handle_syncword E request = write_u32 E request ''SYNCWORD'' 0 65535 set_sw get_sw"

definition handle_pbr :: "('d, 'u, 'x, 'm, 'e) lora_handler" where
  "handle_pbr E request = write_u32 E request ''PBR'' 600 300000 set_br get_br"

definition handle_pfdev :: "('d, 'u, 'x, 'm, 'e) lora_handler" where
  "handle_pfdev E request = write_u32 E request ''PFDEV'' 600 200000 set_dev get_dev"

definition handle_encry :: "('d, 'u, 'x, 'm, 'e) lora_handler" where
  "handle_encry E request = write_bool E request ''ENCRY'' set_enc get_enc"

definition handle_iqinver :: "('d, 'u, 'x, 'm, 'e) lora_handler" where
  "handle_iqinver E request = write_bool E request ''IQINVER'' set_iq get_iq"

definition handle_cad :: "('d, 'u, 'x, 'm, 'e) lora_handler" where
  "handle_cad E request = write_bool E request ''CAD'' set_cad get_cad"

definition handle_enckey :: "('d, 'u, 'x, 'm, 'e) lora_handler" where
  "handle_enckey E request s =
     (case get_config s of (rc, config, t) \<Rightarrow>
        if rc \<noteq> 0 then (rc, t) else write_key E request ''ENCKEY'' key (\<lambda>bs. key_update (\<lambda>_. bs)) config t)"

definition handle_crypiv :: "('d, 'u, 'x, 'm, 'e) lora_handler" where
  "handle_crypiv E request s =
     (case get_config s of (rc, config, t) \<Rightarrow>
        if rc \<noteq> 0 then (rc, t) else write_key E request ''CRYPIV'' iv (\<lambda>bs. iv_update (\<lambda>_. bs)) config t)"

section \<open>Sending and receiving\<close>

definition handle_psend :: "('d, 'u, 'x, 'm, 'e) lora_handler" where
  "handle_psend E request s =
     (let argument = the (req_argument request); hex_len = length argument in
      if hex_len = 0 \<or> hex_len mod 2 \<noteq> 0 then (- RZI_ERR_INVALID, s)
      else if hex_len > RZI_LORA_MAX_PAYLOAD * 2 then (- RZI_ERR_TOO_LARGE, s)
      else case rzi_at_lora_hex_to_bin argument (hex_len div 2) of
        Inl rc \<Rightarrow> (rc, s)
      | Inr payload \<Rightarrow>
          seq_ok (rzi_at_lora_ensure_started E)
            (respond_ok E (on_lora (rzi_lora_send (lore E) (Some payload) (hex_len div 2)))) s)"

definition handle_precv :: "('d, 'u, 'x, 'm, 'e) lora_handler" where
  "handle_precv E request s =
     (if req_operation request = OP_READ then
        rzi_at_respond_value E (''AT+PRECV='' @ (if rzi_lora_receive_active (lora_view s) then ''65535'' else ''0'')) s
      else case rzi_at_lora_parse_long E (req_argument request) of
        Inl rc \<Rightarrow> (- RZI_ERR_INVALID, s)
      | Inr parsed \<Rightarrow>
          if parsed < 0 \<or> parsed > 65535 then (- RZI_ERR_INVALID, s)
          else seq_ok (rzi_at_lora_ensure_started E) (respond_ok E (on_lora (rzi_lora_receive (lore E) (of_int parsed)))) s)"

section \<open>Radio tests\<close>

definition ensure_radio :: "('d, 'u, 'x, 'm, 'e) lora_cmd_env \<Rightarrow> ('d, 'u, 'x, 'm) at_lora_state_scheme op" where
  "ensure_radio E = rzi_at_lora_ensure_started E"

definition handle_trssi :: "('d, 'u, 'x, 'm, 'e) lora_handler" where
  "handle_trssi E request = seq_ok (ensure_radio E) (respond_ok E (on_lora (rzi_lora_test_rssi (lore E))))"

definition handle_ttone :: "('d, 'u, 'x, 'm, 'e) lora_handler" where
  "handle_ttone E request = seq_ok (ensure_radio E) (respond_ok E (on_lora (rzi_lora_test_tone (lore E))))"

definition handle_count ::
  "('d, 'u, 'x, 'm, 'e) lora_cmd_env \<Rightarrow> rzi_at_request \<Rightarrow> (u32 \<Rightarrow> ('d, 'u, 'x, 'm) lora_seen op) \<Rightarrow> ('d, 'u, 'x, 'm) at_lora_state_scheme op" where
  "handle_count E request fn s =
     (case rzi_at_lora_parse_long E (req_argument request) of
        Inl rc \<Rightarrow> (- RZI_ERR_INVALID, s)
      | Inr parsed \<Rightarrow>
          if parsed < 0 then (- RZI_ERR_INVALID, s)
          else seq_ok (ensure_radio E) (respond_ok E (on_lora (fn (of_int parsed)))) s)"

definition handle_ttx :: "('d, 'u, 'x, 'm, 'e) lora_handler" where
  "handle_ttx E request = handle_count E request (rzi_lora_test_tx (lore E))"

definition handle_trx :: "('d, 'u, 'x, 'm, 'e) lora_handler" where
  "handle_trx E request = handle_count E request (rzi_lora_test_rx (lore E))"

definition handle_tconf :: "('d, 'u, 'x, 'm, 'e) lora_handler" where
  "handle_tconf E request s =
     (case get_config s of (rc, config, t) \<Rightarrow>
        if rc \<noteq> 0 then (rc, t)
        else if req_operation request = OP_READ then rzi_at_respond_value E (''AT+TCONF='' @ p2p_text config) t
        else case colon_values (long_max E) False 6 [] (the (req_argument request)) of
          None \<Rightarrow> (- RZI_ERR_INVALID, t)
        | Some values \<Rightarrow>
            if length values < 6 then (- RZI_ERR_INVALID, t)
            else respond_ok E (set_config E (p2p_values (map of_int values) config)) t)"

definition handle_hop ::
  "('d, 'u, 'x, 'm, 'e) lora_cmd_env \<Rightarrow> rzi_at_request \<Rightarrow> (u32 \<Rightarrow> ('d, 'u, 'x, 'm) lora_seen op) \<Rightarrow> ('d, 'u, 'x, 'm) at_lora_state_scheme op" where
  "handle_hop E request fn s =
     (case colon_values (long_max E) False 4 [] (the (req_argument request)) of
        None \<Rightarrow> (- RZI_ERR_INVALID, s)
      | Some values \<Rightarrow>
          if length values \<noteq> 4 then (- RZI_ERR_INVALID, s)
          else seq_ok (ensure_radio E) (respond_ok E (on_lora (fn (of_int (values ! 3))))) s)"

definition handle_tth :: "('d, 'u, 'x, 'm, 'e) lora_handler" where
  "handle_tth E request = handle_hop E request (rzi_lora_test_tx (lore E))"

definition handle_trth :: "('d, 'u, 'x, 'm, 'e) lora_handler" where
  "handle_trth E request = handle_hop E request (rzi_lora_test_rx (lore E))"

definition handle_toff :: "('d, 'u, 'x, 'm, 'e) lora_handler" where
  "handle_toff E request = respond_ok E (on_lora (rzi_lora_test_stop (lore E)))"

definition handle_cw :: "('d, 'u, 'x, 'm, 'e) lora_handler" where
  "handle_cw E request s =
     (case strtoul (long_max E) (the (req_argument request)) of
        None \<Rightarrow> (- RZI_ERR_INVALID, s)
      | Some (frequency, end) \<Rightarrow>
          if end = [] \<or> hd end \<noteq> CHR '':'' then (- RZI_ERR_INVALID, s)
          else case strtol (long_max E) (tl end) of
            None \<Rightarrow> (- RZI_ERR_INVALID, s)
          | Some (pw, end) \<Rightarrow>
              if end = [] \<or> hd end \<noteq> CHR '':'' then (- RZI_ERR_INVALID, s)
              else case strtoul (long_max E) (tl end) of
                None \<Rightarrow> (- RZI_ERR_INVALID, s)
              | Some (duration, end) \<Rightarrow>
                  if end \<noteq> [] then (- RZI_ERR_INVALID, s)
                  else seq_ok (ensure_radio E)
                    (respond_ok E (on_lora (rzi_lora_test_cw (lore E) (of_int frequency) (sint (of_int pw :: u8)) (of_int duration)))) s)"

end
