(* ===== verification/Rzi_At_Lora_Link.thy ===== *)
theory Rzi_At_Lora_Link
  imports Rzi_At_Lora Rzi_At_Lorawan_Link
begin

text \<open>
  The command tables of the LoRa package, its registration, and \<open>link_lora\<close>, the environment in which its function pointers lead to its
  functions. Handlers publish results of the radio through the callbacks while they run, so these are linked first (\<open>link_callbacks\<close>).
\<close>

section \<open>Tables\<close>

definition lora_command :: "string \<Rightarrow> string \<Rightarrow> u8 \<Rightarrow> nat \<Rightarrow> rzi_at_command" where
  "lora_command name help allowed handler =
     \<lparr>cmd_name = Some name, cmd_help = Some help, allowed_operations = allowed, cmd_handler = Some handler, cmd_user_data = 0\<rparr>"

definition p2p_commands :: "nat \<Rightarrow> rzi_at_command list" where
  "p2p_commands h =
     [lora_command ''P2P'' ''get or set the P2P configuration (Freq:SF:BW:CR:PPL:PTP)'' (ALLOW_READ OR ALLOW_WRITE) h,
      lora_command ''PFREQ'' ''get or set the P2P frequency (Hz)'' (ALLOW_READ OR ALLOW_WRITE) (h + 1),
      lora_command ''PSF'' ''get or set the P2P spreading factor (5-12)'' (ALLOW_READ OR ALLOW_WRITE) (h + 2),
      lora_command ''PBW'' ''get or set the P2P bandwidth (0-9 for LoRa, Hz for FSK)'' (ALLOW_READ OR ALLOW_WRITE) (h + 3),
      lora_command ''PCR'' ''get or set the P2P coding rate (0-3)'' (ALLOW_READ OR ALLOW_WRITE) (h + 4),
      lora_command ''PPL'' ''get or set the P2P preamble length'' (ALLOW_READ OR ALLOW_WRITE) (h + 5),
      lora_command ''PTP'' ''get or set the P2P TX power (dBm)'' (ALLOW_READ OR ALLOW_WRITE) (h + 6),
      lora_command ''PSEND'' ''send data in P2P mode'' ALLOW_WRITE (h + 7),
      lora_command ''PRECV'' ''set the P2P receive window (0 = stop, 65535 = continuous)'' (ALLOW_READ OR ALLOW_WRITE) (h + 8),
      lora_command ''CAD'' ''get or set P2P CAD (0 = off, 1 = on)'' (ALLOW_READ OR ALLOW_WRITE) (h + 9),
      lora_command ''ENCRY'' ''get or set P2P encryption (0 = off, 1 = on)'' (ALLOW_READ OR ALLOW_WRITE) (h + 10),
      lora_command ''ENCKEY'' ''get or set the P2P encryption key (16 bytes in hex)'' (ALLOW_READ OR ALLOW_WRITE) (h + 11),
      lora_command ''CRYPIV'' ''get or set the P2P encryption IV (16 bytes in hex)'' (ALLOW_READ OR ALLOW_WRITE) (h + 12),
      lora_command ''IQINVER'' ''get or set P2P IQ inversion (0 = off, 1 = on)'' (ALLOW_READ OR ALLOW_WRITE) (h + 13),
      lora_command ''SYNCWORD'' ''get or set the P2P sync word'' (ALLOW_READ OR ALLOW_WRITE) (h + 14),
      lora_command ''PBR'' ''get or set the P2P FSK bitrate (bps)'' (ALLOW_READ OR ALLOW_WRITE) (h + 15),
      lora_command ''PFDEV'' ''get or set the P2P FSK frequency deviation (Hz)'' (ALLOW_READ OR ALLOW_WRITE) (h + 16)]"

definition test_commands :: "nat \<Rightarrow> rzi_at_command list" where
  "test_commands h =
     [lora_command ''TRSSI'' ''start RF RSSI tone test'' ALLOW_RUN h,
      lora_command ''TTONE'' ''start RF CW tone test'' ALLOW_RUN (h + 1),
      lora_command ''TTX'' ''start RF TX test, set the number of packets'' ALLOW_WRITE (h + 2),
      lora_command ''TRX'' ''start RF RX test, set the number of packets'' ALLOW_WRITE (h + 3),
      lora_command ''TCONF'' ''configure LoRa RF test (Freq:SF:BW:CR:PPL:PTP)'' (ALLOW_READ OR ALLOW_WRITE) (h + 4),
      lora_command ''TTH'' ''start RF TX hopping test (start:stop:hop:count)'' ALLOW_WRITE (h + 5),
      lora_command ''TRTH'' ''start RF RX hopping test (start:stop:hop:count)'' ALLOW_WRITE (h + 6),
      lora_command ''TOFF'' ''stop an ongoing RF test'' ALLOW_RUN (h + 7),
      lora_command ''CW'' ''start continuous wave (Freq:Power:Duration)'' ALLOW_WRITE (h + 8)]"

definition lora_handler_list :: "('d, 'u, 'x, 'm, 'e) lora_handler list" where
  "lora_handler_list =
     [handle_p2p, handle_pfreq, handle_psf, handle_pbw, handle_pcr, handle_ppl, handle_ptp, handle_psend, handle_precv,
      handle_cad, handle_encry, handle_enckey, handle_crypiv, handle_iqinver, handle_syncword, handle_pbr, handle_pfdev,
      handle_trssi, handle_ttone, handle_ttx, handle_trx, handle_tconf, handle_tth, handle_trth, handle_toff, handle_cw]"

definition lora_register :: "('d, 'u, 'x, 'm, 'e) lora_cmd_env \<Rightarrow> ('d, 'u, 'x, 'm) at_lora_state_scheme op" where
  "lora_register E =
     seq_ok (rzi_at_network_mode_add_listener (Some (lora_listener E)))
       (seq_ok (register_groups E [p2p_commands (lora_handlers E), test_commands (lora_handlers E + 17)])
         (rzi_at_registry_add_extension E
           (Some \<lparr>ext_start = Some (lora_start_hook E), ext_process = Some (lora_process_hook E), ext_factory_reset = None\<rparr>)))"

section \<open>Linking\<close>

definition link_callbacks :: "('d, 'u, 'x, 'm, 'e) lora_cmd_env \<Rightarrow> ('d, 'u, 'x, 'm, 'e) lora_cmd_env" where
  "link_callbacks E = E\<lparr>lore := (lore E)\<lparr>
     run_tx_done := (\<lambda>f error u l. if f = lora_tx_callback E then lora_view (on_tx_done E error (lora_unview l))
                                 else run_tx_done (lore E) f error u l),
     run_rx_done := (\<lambda>f data n rssi snr u l. if f = lora_rx_callback E then lora_view (on_rx_done E data n rssi snr (lora_unview l))
                                 else run_rx_done (lore E) f data n rssi snr u l)\<rparr>\<rparr>"

definition link_lora :: "('d, 'u, 'x, 'm, 'e) lora_cmd_env \<Rightarrow> ('d, 'u, 'x, 'm, 'e) lora_cmd_env" where
  "link_lora E = (let F = link_callbacks E in F\<lparr>
     run_handler := (\<lambda>h q u. if lora_handlers E \<le> h \<and> h - lora_handlers E < length (lora_handler_list :: ('d, 'u, 'x, 'm, 'e) lora_handler list)
                             then (lora_handler_list ! (h - lora_handlers E)) F q else run_handler E h q u),
     run_start := (\<lambda>h. if h = lora_start_hook E then lora_extension_start F else run_start E h),
     run_process := (\<lambda>h. if h = lora_process_hook E then lora_extension_process F else run_process E h),
     run_listener := (\<lambda>h. if h = lora_listener E then on_network_mode F else run_listener E h),
     rzi_at_lora_register := lora_register F\<rparr>)"

section \<open>The two services in one state\<close>

lemma lora_view_fields [simp]:
  "lora_config (lora_view s) = lora_config (lra s)" "lora_started (lora_view s) = lora_started (lra s)" "rx_active (lora_view s) = rx_active (lra s)"
  "lora_callbacks (lora_view s) = lora_callbacks (lra s)" "lora_radio (lora_view s) = lora_radio (lra s)"
  "lora_isr (lora_view s) = in_isr (pwr (at_store s))" "lora_state.more (lora_view s) = s"
  by (simp_all add: lora_view_def lora_state.defs)

lemma lora_unview_fields [simp]:
  "lora_config (lra (lora_unview l)) = lora_config l" "lora_started (lra (lora_unview l)) = lora_started l"
  "rx_active (lra (lora_unview l)) = rx_active l" "at_store (lora_unview l) = at_store (lora_state.more l)"
  "network_mode (lora_unview l) = network_mode (lora_state.more l)" "lora_callbacks (lra (lora_unview l)) = lora_callbacks l"
  by (simp_all add: lora_unview_def lora_state.defs)

lemma unview_view [simp]: "lora_unview (lora_view s) = s"
  by (simp add: lora_unview_def lora_view_def lora_state.defs)

lemma lora_ok_unview: "lora_ok (lra (lora_unview l)) = lora_ok l" "lora_ok (lora_view s) = lora_ok (lra s)"
  by (simp_all add: lora_ok_def)

lemma publish_event_lra [simp]:
  "lra (snd (rzi_at_publish_event E msg s)) = lra s" "at_store (snd (rzi_at_publish_event E msg s)) = at_store s"
  by (simp_all add: rzi_at_publish_event_def write_formatted_def write_all_def)

lemma get_config_eq:
  "get_config s = (if in_isr (pwr (at_store s)) then (- RZI_ERR_ISR, default_config, s) else (0, lora_config (lra s), s))"
  by (simp add: get_config_def rzi_lora_get_config_def Rzi_Lora.check_thread_def)

lemma link_callbacks_fields [simp]:
  "cfg_tx_size (link_callbacks E) = cfg_tx_size E" "long_max (link_callbacks E) = long_max E" "run_write (link_callbacks E) = run_write E"
  "lora_backend (lore (link_callbacks E)) = lora_backend (lore E)"
  by (simp_all add: link_callbacks_def)

text \<open>The callbacks of the package only transmit.\<close>

lemma link_callbacks_neutral:
  assumes "lora_callbacks_neutral (lore E)"
  shows "lora_callbacks_neutral (lore (link_callbacks E))"
  using assms by (simp add: lora_callbacks_neutral_def link_callbacks_def lora_same_def on_tx_done_def on_rx_done_def)

section \<open>The configuration stays in range\<close>

abbreviation (input) p2p_ok :: "('d, 'u, 'x, 'm) at_lora_state_scheme \<Rightarrow> bool" where
  "p2p_ok s \<equiv> lora_ok (lra s)"

lemma keeps_on_lora:
  fixes m :: "('d, 'u, 'x, 'm) lora_seen op"
  assumes "lora_callbacks_neutral (lore E)" and "\<And>l. lora_step (lore E) l (snd (m l))"
  shows "keeps p2p_ok (on_lora m)"
proof (rule keepsI)
  fix s :: "('d, 'u, 'x, 'm) at_lora_state_scheme" assume "lora_ok (lra s)"
  then have "lora_ok (snd (m (lora_view s)))" using lora_step_ok [OF assms] by (simp add: lora_ok_unview)
  then show "lora_ok (lra (snd (on_lora m s)))" by (auto simp: on_lora_def lora_ok_unview split: prod.splits)
qed

lemma p2p_ok_log_free: "log_free (\<lambda>s. p2p_ok s)"
  by (simp add: log_free_def)

lemma keeps_respond: "keeps p2p_ok (rzi_at_respond_status E st)" "keeps p2p_ok (rzi_at_respond_value E msg)"
  by (simp_all add: keeps_def respond_unchanged [OF p2p_ok_log_free])

lemma keeps_respond_ok: "keeps p2p_ok m \<Longrightarrow> keeps p2p_ok (respond_ok E m)"
  unfolding respond_ok_def by (intro keeps_seq_ok keeps_respond)

lemma p2p_calls_keep:
  fixes E :: "('d, 'u, 'x, 'm, 'e) lora_cmd_env"
  assumes "lora_callbacks_neutral (lore E)"
  shows "keeps p2p_ok (set_config E c)" "keeps p2p_ok (on_network_mode E mode)" "keeps p2p_ok (on_lora (rzi_lora_send (lore E) d n))"
    "keeps p2p_ok (on_lora (rzi_lora_receive (lore E) w))" "keeps p2p_ok (on_lora (rzi_lora_test_rssi (lore E)))"
    "keeps p2p_ok (on_lora (rzi_lora_test_tone (lore E)))" "keeps p2p_ok (on_lora (rzi_lora_test_tx (lore E) w))"
    "keeps p2p_ok (on_lora (rzi_lora_test_rx (lore E) w))" "keeps p2p_ok (on_lora (rzi_lora_test_cw (lore E) w pw v))"
    "keeps p2p_ok (on_lora (rzi_lora_test_stop (lore E)))" "keeps p2p_ok (on_lora (rzi_lora_register_callbacks cb) :: ('d, 'u, 'x, 'm) at_lora_state_scheme op)"
    "keeps p2p_ok (on_lora (rzi_lora_init (lore E) mo))"
  unfolding set_config_def on_network_mode_def
  by (auto intro!: keeps_on_lora [OF assms] lora_step.intros)

lemma ensure_started_keeps:
  assumes "lora_callbacks_neutral (lore E)"
  shows "keeps p2p_ok (rzi_at_lora_ensure_started E)"
  using p2p_calls_keep(12) [OF assms] by (simp add: keeps_def rzi_at_lora_ensure_started_def Let_def)

lemma radio_keeps:
  assumes "lora_callbacks_neutral (lore E)" and "keeps p2p_ok m"
  shows "keeps p2p_ok (seq_ok (rzi_at_lora_ensure_started E) (respond_ok E m))"
  by (intro keeps_seq_ok keeps_respond_ok ensure_started_keeps assms)

lemma write_keeps:
  assumes "lora_callbacks_neutral (lore E)"
  shows "keeps p2p_ok (write_u32 E q name lo hi put load)" "keeps p2p_ok (write_bool E q name bput bload)"
    "keeps p2p_ok (write_key E q name field kput c)"
proof -
  have r: "keeps p2p_ok (respond_ok E (set_config E c))" for c by (rule keeps_respond_ok [OF p2p_calls_keep(1) [OF assms]])
  show "keeps p2p_ok (write_u32 E q name lo hi put load)" "keeps p2p_ok (write_bool E q name bput bload)"
    "keeps p2p_ok (write_key E q name field kput c)"
    by (rule keepsI; simp add: write_u32_def write_bool_def write_key_def get_config_eq keepsD [OF r] keepsD [OF keeps_respond(2)] split: sum.splits)+
qed

lemma handlers_keep:
  assumes "lora_callbacks_neutral (lore E)" and "h \<in> set lora_handler_list"
  shows "keeps p2p_ok (h E q)"
proof -
  note calls = p2p_calls_keep [OF assms(1)] and radio = radio_keeps [OF assms(1)] and w = write_keeps [OF assms(1)]
  have r: "keeps p2p_ok (respond_ok E (set_config E c))" for c by (rule keeps_respond_ok [OF calls(1)])
  have "keeps p2p_ok (handle_p2p E q)" "keeps p2p_ok (handle_tconf E q)" "keeps p2p_ok (handle_enckey E q)" "keeps p2p_ok (handle_crypiv E q)"
    by (rule keepsI; simp add: handle_p2p_def handle_tconf_def handle_enckey_def handle_crypiv_def get_config_eq keepsD [OF r] keepsD [OF w(3)]
        keepsD [OF keeps_respond(2)] split: sum.splits option.splits)+
  moreover have "keeps p2p_ok (handle_psend E q)" "keeps p2p_ok (handle_precv E q)" "keeps p2p_ok (handle_cw E q)"
    by (rule keepsI; simp add: handle_psend_def handle_precv_def handle_cw_def Let_def ensure_radio_def keepsD [OF radio [OF calls(3)]] keepsD [OF radio [OF calls(4)]]
        keepsD [OF radio [OF calls(9)]] keepsD [OF keeps_respond(2)] split: sum.splits option.splits)+
  moreover have "keeps p2p_ok (handle_count E q (rzi_lora_test_tx (lore E)))" "keeps p2p_ok (handle_count E q (rzi_lora_test_rx (lore E)))"
    "keeps p2p_ok (handle_hop E q (rzi_lora_test_tx (lore E)))" "keeps p2p_ok (handle_hop E q (rzi_lora_test_rx (lore E)))"
    by (rule keepsI; simp add: handle_count_def handle_hop_def ensure_radio_def keepsD [OF radio [OF calls(7)]] keepsD [OF radio [OF calls(8)]]
        split: sum.splits option.splits)+
  moreover have "keeps p2p_ok (handle_trssi E q)" "keeps p2p_ok (handle_ttone E q)" "keeps p2p_ok (handle_toff E q)"
    unfolding handle_trssi_def handle_ttone_def handle_toff_def ensure_radio_def by (intro radio calls keeps_respond_ok)+
  ultimately show ?thesis using assms(2) w
    by (auto simp: lora_handler_list_def handle_pfreq_def handle_psf_def handle_pbw_def handle_pcr_def handle_ppl_def handle_ptp_def
        handle_syncword_def handle_pbr_def handle_pfdev_def handle_encry_def handle_iqinver_def handle_cad_def
        handle_ttx_def handle_trx_def handle_tth_def handle_trth_def)
qed

lemma restore_default_lra: "lra (snd (rzi_at_network_mode_restore_default E s)) = lra s"
proof -
  have d: "lra (snd (extension_factory_reset E t)) = lra t" for t
    by (simp add: extension_factory_reset_def on_store_def on_part_def split: prod.splits)
  obtain rc u where u: "on_store (rzi_storage_init E) (s\<lparr>network_mode := default_mode E\<rparr>) = (rc, u)" by fastforce
  then have "lra u = lra s" by (auto simp: on_store_def on_part_def split: prod.splits)
  with u d [of u] show ?thesis by (simp add: rzi_at_network_mode_restore_default_def Let_def)
qed

lemma hooks_keep:
  assumes "lora_callbacks_neutral (lore E)"
  shows "keeps p2p_ok (lora_extension_start E)" "keeps p2p_ok (\<lambda>s. (0, lora_extension_process E s))"
proof -
  have f: "keeps p2p_ok (\<lambda>t. (0, t\<lparr>p2p_start_pending := g t\<rparr>))" for g by (simp add: keeps_def)
  show "keeps p2p_ok (lora_extension_start E)"
    unfolding lora_extension_start_def by (intro keeps_seq_ok p2p_calls_keep(11) [OF assms] f)
  have poll: "lora_ok (lra (lora_unview (rzi_lora_poll (lore E) (lora_view t))))" if "lora_ok (lra t)" for t
    using lora_step_ok [OF assms step_poll, of "lora_view t"] that by (simp add: lora_ok_unview)
  have st: "lora_ok (lra u)" if "rzi_at_lora_ensure_started E (s\<lparr>p2p_start_pending := False\<rparr>) = (rc, u)" "lora_ok (lra s)" for s rc u
    using keeps_pair [OF ensure_started_keeps [OF assms] _ that(1)] that(2) by simp
  show "keeps p2p_ok (\<lambda>s. (0, lora_extension_process E s))"
    by (rule keepsI) (auto simp: lora_extension_process_def Let_def restore_default_lra intro!: poll split: prod.splits dest: st)
qed

end
