(* ===== verification/Rzi_At_Lora_Lines.thy ===== *)
theory Rzi_At_Lora_Lines
  imports Rzi_At_Lorawan_Lines Rzi_At_Lora_Link
begin

text \<open>
  The LoRa command package at work: the runs of the package as a step relation, parameters that read back (locale \<open>lora_parameter\<close>), the
  text of \<^verbatim>\<open>AT+P2P\<close>, and a message from the command line of one device to the port of another.
\<close>

section \<open>Runs\<close>

text \<open>
  What happens to the package, with its callbacks linked: a command, a change of the working mode, the hooks of the extension, a
  result that the radio publishes on its own, and anything that leaves the LoRa service alone.
\<close>

inductive p2p_step ::
  "('d, 'u, 'x, 'm, 'e) lora_cmd_env \<Rightarrow> ('d, 'u, 'x, 'm) at_lora_state_scheme \<Rightarrow> ('d, 'u, 'x, 'm) at_lora_state_scheme \<Rightarrow> bool"
  for E where
  p2p_command: "h \<in> set lora_handler_list \<Longrightarrow> p2p_step E s (snd (h (link_callbacks E) q s))"
| p2p_mode: "p2p_step E s (snd (on_network_mode (link_callbacks E) mode s))"
| p2p_start: "p2p_step E s (snd (lora_extension_start (link_callbacks E) s))"
| p2p_process: "p2p_step E s (lora_extension_process (link_callbacks E) s)"
| p2p_radio: "p2p_step E s (lora_unview (lora_publish (lore (link_callbacks E)) ev (lora_view s)))"
| p2p_other: "lra t = lra s \<Longrightarrow> p2p_step E s t"

lemma p2p_step_ok:
  assumes "lora_callbacks_neutral (lore E)" and "p2p_step E s t" and "lora_ok (lra s)"
  shows "lora_ok (lra t)"
proof -
  note n = link_callbacks_neutral [OF assms(1)]
  from assms(2) show ?thesis
  proof cases
    case (p2p_command h q)
    then show ?thesis using keepsD [OF handlers_keep [OF n]] assms(3) by blast
  next
    case (p2p_mode mode)
    then show ?thesis using keepsD [OF p2p_calls_keep(2) [OF n] assms(3)] by simp
  next
    case p2p_start
    then show ?thesis using keepsD [OF hooks_keep(1) [OF n] assms(3)] by simp
  next
    case p2p_process
    then show ?thesis using keepsD [OF hooks_keep(2) [OF n] assms(3)] by simp
  next
    case (p2p_radio ev)
    have "lora_ok (lora_view s)" using assms(3) by (simp add: lora_ok_unview)
    from lora_step_ok [OF n step_publish this, of ev] p2p_radio show ?thesis by (simp add: lora_ok_unview)
  next
    case p2p_other
    then show ?thesis using assms(3) by simp
  qed
qed

section \<open>Parameters\<close>

text \<open>
  Callbacks that leave the configuration and the context of execution alone, as those of the package do.
\<close>

definition lora_frame :: "('d, 'u, 'x, 'm) lora_seen \<Rightarrow> rzi_lora_config \<times> bool" where
  "lora_frame l = (lora_config l, in_isr (pwr (at_store (lora_state.more l))))"

definition lora_quiet :: "('d, 'u, 'x, 'm, 'e) lora_cmd_env \<Rightarrow> bool" where
  "lora_quiet E \<longleftrightarrow> (\<forall>f e u l. lora_frame (run_tx_done (lore E) f e u l) = lora_frame l)
     \<and> (\<forall>f d n r q u l. lora_frame (run_rx_done (lore E) f d n r q u l) = lora_frame l)"

lemma link_quiet:
  assumes "lora_quiet E"
  shows "lora_quiet (link_callbacks E)"
  using assms by (simp add: lora_quiet_def lora_frame_def link_callbacks_def on_tx_done_def on_rx_done_def)

lemma publish_frame:
  assumes "lora_quiet E"
  shows "lora_frame (lora_publish (lore E) ev l) = lora_frame l" "lora_frame (fold (lora_publish (lore E)) evs l) = lora_frame l"
proof -
  show p: "lora_frame (lora_publish (lore E) ev l) = lora_frame l" for ev l
    using assms by (simp add: lora_quiet_def lora_publish_def rzi_lora_publish_tx_done_def rzi_lora_publish_rx_def Let_def
        split: lora_event.splits option.splits)
  show "lora_frame (fold (lora_publish (lore E)) evs l) = lora_frame l"
    by (induction evs arbitrary: l) (simp_all add: p)
qed

lemma config_frame:
  assumes "lora_quiet E" and "apply_stored_config (lore E) l = (rc, k)"
  shows "lora_frame k = lora_frame l"
proof (cases "lb_apply_config (lora_backend (lore E))")
  case (Some f)
  obtain r evs x where "f (lora_config l) (lora_radio l) = (r, evs, x)" by (metis prod_cases3)
  then have "k = fold (lora_publish (lore E)) evs (l\<lparr>lora_radio := x\<rparr>)"
    using Some assms(2) by (simp add: apply_stored_config_def run_lop_def)
  then show ?thesis using publish_frame(2) [OF assms(1)] by (simp add: lora_frame_def)
qed (use assms(2) in \<open>simp add: apply_stored_config_def\<close>)

text \<open>An accepted configuration is the stored one.\<close>

lemma set_config_stored:
  assumes "lora_quiet E" and "respond_ok E (set_config E c) s = (0, t)"
  shows "config_ok c \<and> lora_config (lra t) = c \<and> \<not> in_isr (pwr (at_store t))"
proof -
  obtain rc u where u: "set_config E c s = (rc, u)" by fastforce
  then have z: "rc = 0" "lra t = lra u" "at_store t = at_store u"
    using assms(2) by (auto simp: respond_ok_def seq_ok_def rzi_at_respond_status_def write_all_def split: if_splits)
  obtain k where k: "rzi_lora_set_config (lore E) (Some c) (lora_view s) = (0, k)" "u = lora_unview k"
    using u z(1) by (auto simp: set_config_def on_lora_def split: prod.splits)
  have g: "\<not> in_isr (pwr (at_store s))" "config_ok c"
    using k(1) by (auto simp: rzi_lora_set_config_def Rzi_Lora.check_thread_def config_ok_def not_less not_le split: if_splits)
  have "lora_frame k = lora_frame ((lora_view s)\<lparr>lora_config := c\<rparr>)"
    using k(1) g config_frame [OF assms(1), of "(lora_view s)\<lparr>lora_config := c\<rparr>" 0 k]
    by (auto simp: rzi_lora_set_config_def Rzi_Lora.check_thread_def config_ok_def Let_def split: if_splits)
  then show ?thesis using g k(2) z by (simp add: lora_frame_def)
qed

locale lora_parameter =
  fixes lo hi :: int and put :: "rzi_lora_config \<Rightarrow> u32 \<Rightarrow> rzi_lora_config" and load :: "rzi_lora_config \<Rightarrow> u32"
  assumes bounds: "0 \<le> lo" "hi < 2 ^ 32" and load_put: "lo \<le> v \<Longrightarrow> v \<le> hi \<Longrightarrow> load (put c (of_int v)) = of_int v"
begin

lemma write_read:
  assumes "lora_quiet E" and "write_u32 E \<lparr>req_operation = OP_WRITE, req_argument = Some x\<rparr> name lo hi put load s = (0, t)"
  shows "\<exists>v. rzi_at_lora_parse_long E (Some x) = Inr v \<and> lo \<le> v \<and> v \<le> hi
    \<and> write_u32 E \<lparr>req_operation = OP_READ, req_argument = None\<rparr> name lo hi put load t
      = rzi_at_respond_value E (''AT+'' @ name @ ''='' @ show_nat (nat v)) t"
proof -
  obtain v where v: "rzi_at_lora_parse_long E (Some x) = Inr v" "lo \<le> v" "v \<le> hi"
    and w: "respond_ok E (set_config E (put (lora_config (lra s)) (of_int v))) s = (0, t)"
    using assms(2) by (auto simp: write_u32_def get_config_eq split: if_splits sum.splits)
  have u: "unat (of_int v :: u32) = nat v"
    using bounds v by (simp add: unat_eq_nat_uint uint_word_of_int take_bit_int_eq_self)
  show ?thesis using set_config_stored [OF assms(1) w] v u load_put [OF v(2,3)] by (simp add: write_u32_def get_config_eq)
qed

end

text \<open>The nine numeric parameters. Members of 8 and 16 bits hold every value of their range.\<close>

lemma narrow_number:
  "0 \<le> v \<Longrightarrow> v < 256 \<Longrightarrow> (ucast (ucast (of_int v :: u32) :: u8) :: u32) = of_int v"
  "0 \<le> v \<Longrightarrow> v < 65536 \<Longrightarrow> (ucast (ucast (of_int v :: u32) :: u16) :: u32) = of_int v"
  "0 \<le> v \<Longrightarrow> v < 128 \<Longrightarrow> sint (ucast (of_int v :: u32) :: u8) = v"
proof -
  show "(ucast (ucast (of_int v :: u32) :: u8) :: u32) = of_int v" if "0 \<le> v" "v < 256"
    using that by (simp add: word_eq_iff_unsigned unsigned_ucast_eq unsigned_of_int take_bit_int_eq_self)
  show "(ucast (ucast (of_int v :: u32) :: u16) :: u32) = of_int v" if "0 \<le> v" "v < 65536"
    using that by (simp add: word_eq_iff_unsigned unsigned_ucast_eq unsigned_of_int take_bit_int_eq_self)
  show "sint (ucast (of_int v :: u32) :: u8) = v" if "0 \<le> v" "v < 128"
  proof -
    have "(ucast (of_int v :: u32) :: u8) = of_int v" using that by (simp add: unsigned_of_int take_bit_int_eq_self)
    then show ?thesis using that by (simp add: signed_of_int signed_take_bit_int_eq_self)
  qed
qed

interpretation pfreq: lora_parameter 150000000 960000000 set_freq get_freq
  by unfold_locales (simp_all add: set_freq_def get_freq_def)

interpretation psf: lora_parameter 5 12 set_sf get_sf
  by unfold_locales (simp_all add: set_sf_def get_sf_def narrow_number)

interpretation pbw: lora_parameter 0 960000000 set_bw get_bw
  by unfold_locales (simp_all add: set_bw_def get_bw_def)

interpretation pcr: lora_parameter 0 3 set_cr get_cr
  by unfold_locales (simp_all add: set_cr_def get_cr_def narrow_number)

interpretation ppl: lora_parameter 5 65535 set_pl get_pl
  by unfold_locales (simp_all add: set_pl_def get_pl_def narrow_number)

interpretation ptp: lora_parameter 5 22 set_tp get_tp
  by unfold_locales (simp_all add: set_tp_def get_tp_def narrow_number)

interpretation syncword: lora_parameter 0 65535 set_sw get_sw
  by unfold_locales (simp_all add: set_sw_def get_sw_def narrow_number)

interpretation pbr: lora_parameter 600 300000 set_br get_br
  by unfold_locales (simp_all add: set_br_def get_br_def)

interpretation pfdev: lora_parameter 600 200000 set_dev get_dev
  by unfold_locales (simp_all add: set_dev_def get_dev_def)

definition p2p_parameters :: "(string \<times> ('d, 'u, 'x, 'm, 'e) lora_handler) list" where
  "p2p_parameters = [(''PFREQ'', handle_pfreq), (''PSF'', handle_psf), (''PBW'', handle_pbw), (''PCR'', handle_pcr), (''PPL'', handle_ppl),
     (''PTP'', handle_ptp), (''SYNCWORD'', handle_syncword), (''PBR'', handle_pbr), (''PFDEV'', handle_pfdev)]"

lemma parameter_read_back:
  assumes "lora_quiet E" and "(name, h) \<in> set p2p_parameters" and "h E \<lparr>req_operation = OP_WRITE, req_argument = Some x\<rparr> s = (0, t)"
  shows "\<exists>v. rzi_at_lora_parse_long E (Some x) = Inr v
    \<and> h E \<lparr>req_operation = OP_READ, req_argument = None\<rparr> t = rzi_at_respond_value E (''AT+'' @ name @ ''='' @ show_nat (nat v)) t"
proof -
  obtain lo hi put load where h: "h = (\<lambda>E q. write_u32 E q name lo hi put load)" and l: "lora_parameter lo hi put load"
    using assms(2) pfreq.lora_parameter_axioms psf.lora_parameter_axioms pbw.lora_parameter_axioms pcr.lora_parameter_axioms
      ppl.lora_parameter_axioms ptp.lora_parameter_axioms syncword.lora_parameter_axioms pbr.lora_parameter_axioms pfdev.lora_parameter_axioms
    unfolding p2p_parameters_def handle_pfreq_def [abs_def] handle_psf_def [abs_def] handle_pbw_def [abs_def] handle_pcr_def [abs_def] handle_ppl_def [abs_def]
      handle_ptp_def [abs_def] handle_syncword_def [abs_def] handle_pbr_def [abs_def] handle_pfdev_def [abs_def] list.set insert_iff prod.inject empty_iff
    by blast
  show ?thesis using lora_parameter.write_read [OF l assms(1) assms(3) [unfolded h]] unfolding h by blast
qed

section \<open>The text of a configuration\<close>

lemma strtoul_show:
  assumes "int n \<le> 2 * lmax + 1"
  shows "strtoul lmax (show_nat n) = Some (int n, [])" "strtoul lmax (show_nat n @ '':'' @ rest) = Some (int n, '':'' @ rest)"
proof -
  have "\<not> is_digit (CHR '':'')" by code_simp
  then show "strtoul lmax (show_nat n) = Some (int n, [])" "strtoul lmax (show_nat n @ '':'' @ rest) = Some (int n, '':'' @ rest)"
    using assms scan_show_nat scan_show_nat_rest [of "'':'' @ rest" n] by (simp_all add: strtoul_def)
qed

lemma colon_values_show:
  assumes "length vs < k" and "int n \<le> 2 * lmax + 1"
  shows "colon_values lmax strict k vs (show_nat n) = Some (vs @ [int n])"
    "rest \<noteq> [] \<Longrightarrow> colon_values lmax strict k vs (show_nat n @ CHR '':'' # rest) = colon_values lmax strict k (vs @ [int n]) rest"
  using assms strtoul_show [OF assms(2)] by (subst colon_values.simps, simp)+

lemma unat_small: "2147483647 \<le> lmax \<Longrightarrow> int (unat (w :: u32)) \<le> 2 * lmax + 1" "2147483647 \<le> lmax \<Longrightarrow> int (unat (x :: u8)) \<le> 2 * lmax + 1"
  "2147483647 \<le> lmax \<Longrightarrow> int (unat (y :: u16)) \<le> 2 * lmax + 1"
proof -
  have "uint w < 2 ^ 32" "uint x < 2 ^ 8" "uint y < 2 ^ 16"
    using unsigned_less [of w, where ?'a = int] unsigned_less [of x, where ?'a = int] unsigned_less [of y, where ?'a = int] by simp_all
  then show "2147483647 \<le> lmax \<Longrightarrow> int (unat w) \<le> 2 * lmax + 1" "2147483647 \<le> lmax \<Longrightarrow> int (unat x) \<le> 2 * lmax + 1"
    "2147483647 \<le> lmax \<Longrightarrow> int (unat y) \<le> 2 * lmax + 1" by simp_all
qed

lemma parse_p2p_text:
  assumes "config_ok c" and "2147483647 \<le> lmax"
  shows "colon_values lmax strict 6 [] (p2p_text c) = Some [uint (frequency_hz c), uint (spreading_factor c), uint (bandwidth c),
    uint (coding_rate c), uint (preamble_length c), tx_power_dbm c]"
proof -
  have t: "show_int (tx_power_dbm c) = show_nat (nat (tx_power_dbm c))" "int (nat (tx_power_dbm c)) \<le> 2 * lmax + 1" "int (nat (tx_power_dbm c)) = tx_power_dbm c"
    using assms by (simp_all add: show_int_def config_ok_def)
  note v = colon_values_show [OF _ unat_small(1) [OF assms(2)]] colon_values_show [OF _ unat_small(2) [OF assms(2)]]
    colon_values_show [OF _ unat_small(3) [OF assms(2)]] colon_values_show [OF _ t(2)]
  show ?thesis unfolding p2p_text_def t(1) using assms(1) by (simp add: v t(3) config_ok_def)
qed

text \<open>One configuration takes the six members of another that the text shows.\<close>

definition p2p_copy :: "rzi_lora_config \<Rightarrow> rzi_lora_config \<Rightarrow> rzi_lora_config" where
  "p2p_copy c config = config\<lparr>frequency_hz := frequency_hz c, spreading_factor := spreading_factor c, bandwidth := bandwidth c,
     coding_rate := coding_rate c, preamble_length := preamble_length c, tx_power_dbm := tx_power_dbm c\<rparr>"

lemma widened:
  "(ucast (ucast (b :: u8) :: u32) :: u8) = b" "(ucast (ucast (h :: u16) :: u32) :: u16) = h"
  by (rule bit_word_eqI; simp add: bit_simps)+

lemma p2p_values_copy:
  assumes "config_ok c"
  shows "p2p_values (map of_int [uint (frequency_hz c), uint (spreading_factor c), uint (bandwidth c),
    uint (coding_rate c), uint (preamble_length c), tx_power_dbm c]) config = p2p_copy c config"
proof -
  have "0 \<le> tx_power_dbm c" "tx_power_dbm c < 128" using assms by (simp_all add: config_ok_def)
  from narrow_number(3) [OF this] show ?thesis
    by (simp add: p2p_values_def p2p_copy_def widened)
qed

lemma p2p_copy_text: "p2p_text (p2p_copy c config) = p2p_text c"
  by (simp add: p2p_text_def p2p_copy_def)

section \<open>Messages\<close>

lemma lora_hex_eq: "rzi_at_lora_hex_to_bin = rzi_at_lorawan_hex_to_bin" "rzi_at_lora_bin_to_hex = rzi_at_lorawan_bin_to_hex"
  by (simp_all add: fun_eq_iff rzi_at_lora_hex_to_bin_def rzi_at_lorawan_hex_to_bin_def rzi_at_lora_bin_to_hex_def rzi_at_lorawan_bin_to_hex_def)

text \<open>The commands that use the radio.\<close>

definition radio_handlers :: "('d, 'u, 'x, 'm, 'e) lora_handler list" where
  "radio_handlers = [handle_psend, handle_precv, handle_trssi, handle_ttone, handle_ttx, handle_trx, handle_tth, handle_trth, handle_cw]"

lemma ensure_started_busy: "network_mode s = RZI_AT_NETWORK_MODE_LORAWAN \<Longrightarrow> rzi_at_lora_ensure_started E s = (- RZI_ERR_BUSY, s)"
  by (simp add: rzi_at_lora_ensure_started_def rzi_at_network_mode_get_def)

lemma radio_busy: "network_mode s = RZI_AT_NETWORK_MODE_LORAWAN \<Longrightarrow> seq_ok (rzi_at_lora_ensure_started E) m s = (- RZI_ERR_BUSY, s)"
  by (simp add: seq_ok_def ensure_started_busy)

definition refused :: "'s \<Rightarrow> int \<times> 's \<Rightarrow> bool" where
  "refused s r \<longleftrightarrow> (\<exists>rc\<in>{- RZI_ERR_BUSY, - RZI_ERR_INVALID, - RZI_ERR_TOO_LARGE}. r = (rc, s))"

lemma refused_codes [simp]: "refused s (- RZI_ERR_BUSY, s)" "refused s (- RZI_ERR_INVALID, s)" "refused s (- RZI_ERR_TOO_LARGE, s)"
  by (simp_all add: refused_def)

lemma radio_refused:
  assumes "network_mode s = RZI_AT_NETWORK_MODE_LORAWAN" and "h \<in> set radio_handlers" and "req_operation q \<noteq> OP_READ"
  shows "refused s (h E q s)"
proof -
  note b = radio_busy [OF assms(1)]
  have "refused s (handle_count E q fn s)" "refused s (handle_hop E q fn s)" for fn
    by (simp_all add: handle_count_def handle_hop_def ensure_radio_def b split: sum.split option.split)
  moreover have "refused s (handle_psend E q s)"
    by (simp add: handle_psend_def Let_def b rzi_at_lora_hex_to_bin_def split: sum.split option.split)
  moreover have "refused s (handle_precv E q s)" using assms(3)
    by (simp add: handle_precv_def b split: sum.split)
  moreover have "refused s (handle_trssi E q s)" "refused s (handle_ttone E q s)"
    by (simp_all add: handle_trssi_def handle_ttone_def ensure_radio_def b)
  moreover have "refused s (handle_cw E q s)"
    by (simp add: handle_cw_def ensure_radio_def b split: option.split)
  ultimately show ?thesis using assms(2)
    by (auto simp: radio_handlers_def handle_ttx_def handle_trx_def handle_tth_def handle_trth_def)
qed

lemma psend_started:
  assumes "network_mode s \<noteq> RZI_AT_NETWORK_MODE_LORAWAN" and "lora_started (lra s)" and "x \<noteq> []" and "length x \<le> RZI_LORA_MAX_PAYLOAD * 2"
    and "rzi_at_lora_hex_to_bin x (length x div 2) = Inr d"
  shows "handle_psend E \<lparr>req_operation = OP_WRITE, req_argument = Some x\<rparr> s = respond_ok E (on_lora (rzi_lora_send (lore E) (Some d) (length d))) s
    \<and> length x = length d * 2 \<and> d \<noteq> [] \<and> uppercase_name x = rzi_at_lorawan_bin_to_hex d"
proof -
  have d: "length d = length x div 2" "uppercase_name x = rzi_at_lorawan_bin_to_hex d" using assms(5) by (simp_all add: lora_hex_eq hex_to_bin_iff)
  then have n: "length x = length d * 2" by (metis length_bin_to_hex length_uppercase)
  have "rzi_at_lora_ensure_started E s = (0, s)" using assms(1,2)
    by (simp add: rzi_at_lora_ensure_started_def rzi_at_network_mode_get_def rzi_lora_is_started_def Let_def)
  moreover have "d \<noteq> []" using n assms(3) by auto
  ultimately show ?thesis using assms(3-5) d(2) by (auto simp: handle_psend_def Let_def seq_ok_def n)
qed

section \<open>Registration\<close>

definition lora_names :: "string list" where
  "lora_names = [''P2P'', ''PFREQ'', ''PSF'', ''PBW'', ''PCR'', ''PPL'', ''PTP'', ''PSEND'', ''PRECV'', ''CAD'', ''ENCRY'', ''ENCKEY'', ''CRYPIV'',
     ''IQINVER'', ''SYNCWORD'', ''PBR'', ''PFDEV'', ''TRSSI'', ''TTONE'', ''TTX'', ''TRX'', ''TCONF'', ''TTH'', ''TRTH'', ''TOFF'', ''CW'']"

lemma lora_table:
  "map cmd_name (p2p_commands h @ test_commands k) = map Some lora_names" "\<forall>c\<in>set (p2p_commands h @ test_commands k). cmd_handler c \<noteq> None"
  by (simp_all add: p2p_commands_def test_commands_def lora_command_def lora_names_def)

lemma lora_names_facts: "list_all (\<lambda>n. valid_name (Some n)) lora_names" "distinct (system_names @ ''NWM'' # lora_names @ lw_names)" "length lora_names = 26"
  by code_simp+

lemma lora_package_names:
  "distinct (map cmd_name (commands @ nwm_command E # p2p_commands h @ test_commands k))"
  "\<forall>c\<in>set (p2p_commands h @ test_commands k). valid_name (cmd_name c) \<and> cmd_handler c \<noteq> None" "length (p2p_commands h @ test_commands k) = 26"
proof -
  have "map cmd_name (commands @ nwm_command E # p2p_commands h @ test_commands k) = map Some (system_names @ ''NWM'' # lora_names)"
    unfolding map_append [of _ commands] list.map system_table_names lora_table(1) by (simp add: nwm_command_def)
  moreover have "distinct (system_names @ ''NWM'' # lora_names)" using lora_names_facts(2) by auto
  ultimately show "distinct (map cmd_name (commands @ nwm_command E # p2p_commands h @ test_commands k))"
    by (simp only: distinct_map inj_on_subset [OF inj_Some subset_UNIV])
  show "\<forall>c\<in>set (p2p_commands h @ test_commands k). valid_name (cmd_name c) \<and> cmd_handler c \<noteq> None"
    using lora_table(2) table_valid [OF lora_table(1) lora_names_facts(1)] by blast
  show "length (p2p_commands h @ test_commands k) = 26"
    using arg_cong [OF lora_table(1), of length] lora_names_facts(3) by simp
qed

lemma link_lora_fields [simp]:
  "cfg_max_commands (link_lora E) = cfg_max_commands E" "cfg_max_extensions (link_lora E) = cfg_max_extensions E"
  "cfg_command_lorawan (link_lora E) = cfg_command_lorawan E" "cfg_command_lora (link_lora E) = cfg_command_lora E"
  "nwm_handler (link_lora E) = nwm_handler E" "rzi_at_lora_register (link_lora E) = lora_register (link_callbacks E)"
  "lora_handlers (link_callbacks E) = lora_handlers E" "lora_listener (link_callbacks E) = lora_listener E"
  "lora_start_hook (link_callbacks E) = lora_start_hook E" "lora_process_hook (link_callbacks E) = lora_process_hook E"
  "cfg_max_commands (link_callbacks E) = cfg_max_commands E" "cfg_max_extensions (link_callbacks E) = cfg_max_extensions E"
  by (simp_all add: link_lora_def link_callbacks_def Let_def)

lemma link_lora_storage [simp]: "storage_inv (link_lora E) view st = storage_inv E view st"
  by (rule storage_inv_env; cases E; simp add: link_lora_def link_callbacks_def Let_def)

text \<open>The listener, the two groups and the extension, after the command of the working mode.\<close>

lemma lora_register_ok:
  assumes "registered v = commands @ [nwm_command F]" and "\<not> sealed v" and "52 \<le> cfg_max_commands E" and "length (extensions v) < cfg_max_extensions E"
    and "length (listeners v) < LISTENER_MAX"
  shows "lora_register E v = (0, v\<lparr>listeners := listeners v @ [lora_listener E],
      registered := registered v @ p2p_commands (lora_handlers E) @ test_commands (lora_handlers E + 17),
      extensions := extensions v @ [\<lparr>ext_start = Some (lora_start_hook E), ext_process = Some (lora_process_hook E), ext_factory_reset = None\<rparr>]\<rparr>)"
proof -
  let ?gs = "[p2p_commands (lora_handlers E), test_commands (lora_handlers E + 17)]" and ?w = "v\<lparr>listeners := listeners v @ [lora_listener E]\<rparr>"
  note names = lora_package_names [where h = "lora_handlers E" and k = "lora_handlers E + 17"]
  have g: "register_groups E ?gs ?w = (0, ?w\<lparr>registered := registered ?w @ concat ?gs\<rparr>)"
    by (rule register_groups_ok) (use assms(1-3) names(2,3) names(1) [of F] in \<open>simp_all add: commands_length\<close>)
  have l: "rzi_at_network_mode_add_listener (Some (lora_listener E)) v = (0, ?w)" using assms(5) by (simp add: rzi_at_network_mode_add_listener_def)
  show ?thesis unfolding lora_register_def seq_ok_def l prod.case g using assms(4) by (simp add: rzi_at_registry_add_extension_def)
qed

lemma p2p_registered:
  assumes "registered r = []" and "\<not> sealed r" and "extensions r = []" and "listeners r = []" and "52 \<le> cfg_max_commands E" and "2 \<le> cfg_max_extensions E"
    and "\<not> cfg_command_lorawan E" and "cfg_command_lora E" and "storage_inv E view (at_store r)" and "storage_ready (at_store r)"
    and "case look view (at_store r) ''rzi'' ''nwm'' of None \<Rightarrow> True | Some v \<Rightarrow> length v = 1"
  shows "\<exists>t. rzi_at_builtin_register (link_lora E) r = (0, t)
    \<and> registered t = commands @ nwm_command E # p2p_commands (lora_handlers E) @ test_commands (lora_handlers E + 17)
    \<and> listeners t = [lora_listener E]"
proof -
  let ?F = "link_lora E"
  obtain a n p where r: "rzi_at_builtin_register ?F r = seq_ok (rzi_at_network_mode_register ?F) (seq_ok (Pair 0) (lora_register (link_callbacks E)))
      (r\<lparr>registered := commands, alias_name := a, serial_number := n, password := p\<rparr>)" (is "_ = seq_ok _ _ ?u")
    using builtin_after_system [of r ?F view] assms by auto
  obtain m xs where m: "rzi_at_network_mode_register ?F ?u
      = (0, ?u\<lparr>network_mode := m, registered := commands @ [nwm_command ?F], extensions := xs\<rparr>)" (is "_ = (0, ?v)") and xs: "length xs \<le> 1"
    using mode_registered [of ?F view ?u] assms by auto
  have "nwm_command ?F = nwm_command E" by (simp add: nwm_command_def)
  then show ?thesis using lora_register_ok [of ?v E "link_callbacks E"] xs assms unfolding r seq_ok_def m prod.case
    by (simp add: nwm_command_def)
qed

text \<open>A line for a command of the package runs its handler, with the callbacks linked.\<close>

lemma dispatch_lora:
  assumes "distinct (map cmd_name (registered s))" and "lora_command name hlp allowed (lora_handlers E + h) \<in> set (registered s)"
    and "h < 26" and "23 \<le> lora_handlers E" and "nwm_handler E < lora_handlers E"
    and "operation \<noteq> OP_HELP" and "allowed AND push_bit (op_code operation) 1 \<noteq> 0"
  shows "rzi_at_dispatch (link_system (link_lora E)) name operation argument s
    = (lora_handler_list ! h) (link_callbacks E) \<lparr>req_operation = operation, req_argument = argument\<rparr> s"
proof -
  have f: "find (\<lambda>c. cmd_name c = Some name) (registered s) = Some (lora_command name hlp allowed (lora_handlers E + h))"
    by (rule find_registered) (use assms(1,2) in \<open>auto simp: lora_command_def\<close>)
  have n: "length lora_handler_list = 26" by (simp add: lora_handler_list_def)
  have "run_handler (link_system (link_lora E)) (lora_handlers E + h) q u = (lora_handler_list ! h) (link_callbacks E) q" for q u
    using assms(3-5) by (auto simp: link_system_def link_hooks_def link_lora_def Let_def n length_system_handlers link_callbacks_def)
  then show ?thesis using f assms(6,7) by (simp add: rzi_at_dispatch_def lora_command_def)
qed


text \<open>The commands of the package are registered and the numbers of the handlers do not overlap.\<close>

definition lora_linked :: "('d, 'u, 'x, 'm, 'e) lora_cmd_env \<Rightarrow> ('d, 'u, 'x, 'm) at_lora_state_scheme \<Rightarrow> bool" where
  "lora_linked E s \<longleftrightarrow> set (p2p_commands (lora_handlers E) @ test_commands (lora_handlers E + 17)) \<subseteq> set (registered s)
     \<and> distinct (map cmd_name (registered s)) \<and> 23 \<le> lora_handlers E \<and> nwm_handler E < lora_handlers E"

lemma hex_no_query: "hex_pairs x = Some d \<Longrightarrow> even (length x) \<Longrightarrow> CHR ''?'' \<notin> set x"
proof (induction x arbitrary: d rule: hex_pairs.induct)
  case (1 a b rest)
  have q: "hex_nibble (CHR ''?'') < 0" by code_simp
  from "1.prems" obtain e where "hex_pairs rest = Some e" "hex_nibble a \<ge> 0" "hex_nibble b \<ge> 0"
    by (auto simp: Let_def split: if_splits option.splits)
  with "1.IH" [OF refl refl, of e] "1.prems"(2) q show ?case by auto
qed auto

lemma psend_handler: "lora_handler_list ! 7 = handle_psend"
  by (simp add: lora_handler_list_def)

lemma psend_line:
  assumes "lora_linked E s" and "\<not> locked s" and "x \<noteq> []" and "rzi_at_lora_hex_to_bin x (length x div 2) = Inr d"
  shows "execute (link_system (link_lora E)) (''AT+PSEND='' @ x) s
    = (case handle_psend (link_callbacks E) \<lparr>req_operation = OP_WRITE, req_argument = Some x\<rparr> s of
         (rc, t) \<Rightarrow> respond_for_error (link_system (link_lora E)) rc t)"
proof -
  have "length x = length x div 2 * 2" "hex_pairs x = Some d" using assms(4) by (auto simp: rzi_at_lora_hex_to_bin_def split: if_splits option.splits)
  moreover from this(1) have "even (length x)" by presburger
  ultimately have a: "argument_fits OP_WRITE (Some x)" using hex_no_query [of x d] assms(3) by (simp add: argument_fits_def)
  have n: "plain_name ''PSEND''" "uppercase_name ''PSEND'' = ''PSEND''" by code_simp+
  have c: "lora_command ''PSEND'' ''send data in P2P mode'' ALLOW_WRITE (lora_handlers E + 7) \<in> set (registered s)"
    using assms(1) by (auto simp: lora_linked_def p2p_commands_def)
  have "rzi_at_dispatch (link_system (link_lora E)) ''PSEND'' OP_WRITE (Some x) s
      = handle_psend (link_callbacks E) \<lparr>req_operation = OP_WRITE, req_argument = Some x\<rparr> s"
    using dispatch_lora [OF _ c, of OP_WRITE "Some x"] assms(1) by (simp add: lora_linked_def psend_handler)
  then show ?thesis using execute_line [OF assms(2) n a, of "link_system (link_lora E)"] by simp
qed

section \<open>A reference instance\<close>

definition mem_lora_env :: "(nat, 'l) lora_env" where
  "mem_lora_env = \<lparr>lora_backend = lora_backend lora_ref_env, run_tx_done = (\<lambda>f e u l. l), run_rx_done = (\<lambda>f d n r q u l. l)\<rparr>"

definition at_lora_ref_env :: "(string \<rightharpoonup> bytes, unit, nat, unit, unit) lora_cmd_env" where
  "at_lora_ref_env = sys_env.extend sys_mem_env \<lparr>lore = mem_lora_env, lora_handlers = 24, lora_listener = 0, lora_start_hook = 1,
     lora_process_hook = 0, lora_tx_callback = 0, lora_rx_callback = 1\<rparr>"

definition at_lora_ref_state :: "(string \<rightharpoonup> bytes, unit, nat) at_lora_state" where
  "at_lora_ref_state = sys_state.extend (sys_ref_state\<lparr>network_mode := RZI_AT_NETWORK_MODE_P2P_LORA\<rparr>)
     \<lparr>lra = (lora_initial 0)\<lparr>lora_started := True, lora_callbacks := \<lparr>tx_done = Some 0, rx_done = Some 1, lcb_user_data = 0\<rparr>\<rparr>,
      p2p_start_pending = False\<rparr>"

lemma at_lora_ref_facts [simp]:
  "lore at_lora_ref_env = mem_lora_env" "lora_callbacks_neutral mem_lora_env" "lora_quiet at_lora_ref_env" "lora_ok (lra at_lora_ref_state)"
  "long_max at_lora_ref_env = 2147483647" "cfg_tx_size at_lora_ref_env = 640" "lora_rx_callback at_lora_ref_env = 1"
  "network_mode at_lora_ref_state = 0" "at_started at_lora_ref_state"
  "\<not> in_isr (pwr (at_store at_lora_ref_state))"
  "lora_handlers at_lora_ref_env = 24" "nwm_handler at_lora_ref_env = 23" "\<not> locked at_lora_ref_state"
  "lra at_lora_ref_state = (lora_initial 0)\<lparr>lora_started := True, lora_callbacks := \<lparr>tx_done = Some 0, rx_done = Some 1, lcb_user_data = 0\<rparr>\<rparr>"
proof -
  show l: "lore at_lora_ref_env = mem_lora_env" by (simp add: at_lora_ref_env_def sys_env.defs)
  show "lora_callbacks_neutral mem_lora_env" by (simp add: lora_callbacks_neutral_def mem_lora_env_def)
  show "lora_quiet at_lora_ref_env" by (simp add: lora_quiet_def l mem_lora_env_def)
  show "lora_ok (lra at_lora_ref_state)" by code_simp
  show "\<not> in_isr (pwr (at_store at_lora_ref_state))" by code_simp
qed (simp_all add: at_lora_ref_env_def at_lora_ref_state_def sys_env.defs sys_state.defs sys_mem_env_def sys_ref_state_def at_state.defs at_ref_state_def mem_env_def)

section \<open>Properties\<close>

text \<open>
  C15. The radio configuration stays in range over the AT port: whatever commands of the package, changes of the working mode, hooks
  and results of the radio follow each other, also results that arrive while a command runs, the stored configuration has a spreading
  factor, power, preamble and coding rate in their ranges, and reception is active only in a started service.
\<close>

theorem at_p2p_service_ok:
  assumes "lora_callbacks_neutral (lore E)" and "(p2p_step E)\<^sup>*\<^sup>* s t" and "lora_ok (lra s)"
  shows "config_ok (lora_config (lra t)) \<and> (rx_active (lra t) \<longrightarrow> lora_started (lra t))"
proof -
  have "lora_ok (lra t)" using assms(2,3)
    by (induction rule: rtranclp_induct) (auto intro: p2p_step_ok [OF assms(1)])
  then show ?thesis by (simp add: lora_ok_def)
qed

theorem at_p2p_service_ok_witness:
  "\<exists>t. (p2p_step at_lora_ref_env)\<^sup>*\<^sup>* at_lora_ref_state t \<and> rx_active (lra t) \<and> lora_started (lra t) \<and> config_ok (lora_config (lra t))"
proof -
  let ?q = "\<lparr>req_operation = OP_WRITE, req_argument = Some ''9''\<rparr>"
  define t where "t = snd (handle_precv (link_callbacks at_lora_ref_env) ?q at_lora_ref_state)"
  have "p2p_step at_lora_ref_env at_lora_ref_state t" unfolding t_def by (rule p2p_command) (simp add: lora_handler_list_def)
  then have r: "(p2p_step at_lora_ref_env)\<^sup>*\<^sup>* at_lora_ref_state t" by simp
  have n: "lora_callbacks_neutral (lore at_lora_ref_env)" unfolding at_lora_ref_facts(1) by (rule at_lora_ref_facts(2))
  have "rx_active (lra t)" unfolding t_def by code_simp
  with at_p2p_service_ok [OF n r at_lora_ref_facts(4)] r show ?thesis by blast
qed

text \<open>
  The radio belongs to one service at a time: in the LoRaWAN working mode every command that would use the radio for
  the LoRa service, to send, to receive or to test, is refused, and the refusal changes nothing.
\<close>

theorem at_p2p_needs_mode:
  assumes "network_mode s = RZI_AT_NETWORK_MODE_LORAWAN" and "h \<in> set radio_handlers" and "req_operation q \<noteq> OP_READ"
  shows "\<exists>rc\<in>{- RZI_ERR_BUSY, - RZI_ERR_INVALID, - RZI_ERR_TOO_LARGE}. h E q s = (rc, s)"
  using radio_refused [OF assms] by (simp only: refused_def)

theorem at_p2p_needs_mode_witness:
  "handle_psend at_lora_ref_env \<lparr>req_operation = OP_WRITE, req_argument = Some ''00''\<rparr> (at_lora_ref_state\<lparr>network_mode := RZI_AT_NETWORK_MODE_LORAWAN\<rparr>)
    = (- RZI_ERR_BUSY, at_lora_ref_state\<lparr>network_mode := RZI_AT_NETWORK_MODE_LORAWAN\<rparr>)"
proof -
  let ?s = "at_lora_ref_state\<lparr>network_mode := RZI_AT_NETWORK_MODE_LORAWAN\<rparr>" and ?q = "\<lparr>req_operation = OP_WRITE, req_argument = Some ''00''\<rparr>"
  have "fst (handle_psend at_lora_ref_env ?q ?s) = - RZI_ERR_BUSY" by code_simp
  with at_p2p_needs_mode [of ?s handle_psend ?q at_lora_ref_env] show ?thesis by (auto simp: radio_handlers_def)
qed

text \<open>
  Parameters of the radio read back: after a write of one of the nine numeric parameters that was answered with success, the
  query answers the number that was written, and the radio service has it stored, whatever the radio reported in between.
\<close>

theorem at_p2p_parameter_readback:
  assumes "lora_quiet E" and "(name, h) \<in> set p2p_parameters"
    and "h (link_callbacks E) \<lparr>req_operation = OP_WRITE, req_argument = Some x\<rparr> s = (0, t)"
  shows "\<exists>v. rzi_at_lora_parse_long E (Some x) = Inr v
    \<and> h (link_callbacks E) \<lparr>req_operation = OP_READ, req_argument = None\<rparr> t
      = rzi_at_respond_value (link_callbacks E) (''AT+'' @ name @ ''='' @ show_nat (nat v)) t"
  using parameter_read_back [OF link_quiet [OF assms(1)] assms(2,3)] by (simp add: rzi_at_lora_parse_long_def)

theorem at_p2p_parameter_readback_witness:
  "\<exists>t. handle_psf (link_callbacks at_lora_ref_env) \<lparr>req_operation = OP_READ, req_argument = None\<rparr> t
    = rzi_at_respond_value (link_callbacks at_lora_ref_env) ''AT+PSF=12'' t"
proof -
  let ?F = "link_callbacks at_lora_ref_env" and ?q = "\<lparr>req_operation = OP_WRITE, req_argument = Some ''12''\<rparr>"
  have "fst (handle_psf ?F ?q at_lora_ref_state) = 0" by code_simp
  then obtain t where "handle_psf ?F ?q at_lora_ref_state = (0, t)" by (metis prod.collapse)
  from at_p2p_parameter_readback [where h = handle_psf and name = "''PSF''", OF at_lora_ref_facts(3) _ this]
  obtain v where v: "rzi_at_lora_parse_long at_lora_ref_env (Some ''12'') = Inr v"
    and r: "handle_psf ?F \<lparr>req_operation = OP_READ, req_argument = None\<rparr> t = rzi_at_respond_value ?F (''AT+'' @ ''PSF'' @ ''='' @ show_nat (nat v)) t"
    by (auto simp: p2p_parameters_def)
  have "rzi_at_lora_parse_long at_lora_ref_env (Some ''12'') = Inr 12" "show_nat 12 = ''12''" by code_simp+
  with v r show ?thesis by (intro exI) simp
qed

text \<open>
  A configuration can be copied as text: the text that \<^verbatim>\<open>AT+P2P=?\<close> prints for a configuration in range, given to \<^verbatim>\<open>AT+P2P=\<close> on any
  device, sets exactly the six parameters it shows, keeps the others, and when it is answered with success that device prints the same text.
\<close>

theorem at_p2p_text_copied:
  assumes "config_ok c" and "2147483647 \<le> long_max E" and "lora_quiet E" and "\<not> in_isr (pwr (at_store s))"
    and "handle_p2p E \<lparr>req_operation = OP_WRITE, req_argument = Some (p2p_text c)\<rparr> s = (rc, t)"
  shows "(rc, t) = respond_ok E (set_config E (p2p_copy c (lora_config (lra s)))) s
    \<and> (rc = 0 \<longrightarrow> lora_config (lra t) = p2p_copy c (lora_config (lra s))
       \<and> handle_p2p E \<lparr>req_operation = OP_READ, req_argument = None\<rparr> t = rzi_at_respond_value E (''AT+P2P='' @ p2p_text c) t)"
proof -
  have e: "(rc, t) = respond_ok E (set_config E (p2p_copy c (lora_config (lra s)))) s"
    using assms(4,5) parse_p2p_text [OF assms(1,2), of True] p2p_values_copy [OF assms(1)]
    by (simp add: handle_p2p_def parse_colon_u32_def get_config_eq)
  then show ?thesis using set_config_stored [OF assms(3), of "p2p_copy c (lora_config (lra s))" s t]
    by (auto simp: handle_p2p_def get_config_eq p2p_copy_text)
qed

theorem at_p2p_text_copied_witness:
  "\<exists>t. handle_p2p at_lora_ref_env \<lparr>req_operation = OP_WRITE, req_argument = Some (p2p_text default_config)\<rparr> at_lora_ref_state = (0, t)
    \<and> handle_p2p at_lora_ref_env \<lparr>req_operation = OP_READ, req_argument = None\<rparr> t
      = rzi_at_respond_value at_lora_ref_env (''AT+P2P='' @ p2p_text default_config) t"
proof -
  let ?q = "\<lparr>req_operation = OP_WRITE, req_argument = Some (p2p_text default_config)\<rparr>"
  obtain rc t where t: "handle_p2p at_lora_ref_env ?q at_lora_ref_state = (rc, t)" by fastforce
  have c: "config_ok default_config" "2147483647 \<le> long_max at_lora_ref_env" by (simp_all add: config_ok_def default_config_def)
  note r = at_p2p_text_copied [OF c at_lora_ref_facts(3,10) t]
  have "fst (respond_ok at_lora_ref_env (set_config at_lora_ref_env (p2p_copy default_config (lora_config (lra at_lora_ref_state)))) at_lora_ref_state) = 0"
    by code_simp
  then have "rc = 0" using r by (metis fst_conv)
  with r t show ?thesis by blast
qed

text \<open>
  C16. A message crosses the air as typed: for a line \<^verbatim>\<open>AT+PSEND=\<close> with the hexadecimal digits of 1 to 255 bytes on a device in a P2P mode, the
  frame that is handed to the radio, when the radio of a device with the same key, vector and encryption switch receives it, makes that
  device transmit one event line with the signal quality and exactly the digits that were typed, in capitals.
\<close>

theorem at_p2p_message_delivered:
  assumes "lora_linked E s" and "\<not> locked s" and "network_mode s \<noteq> RZI_AT_NETWORK_MODE_LORAWAN" and "lora_started (lra s)" and "\<not> in_isr (pwr (at_store s))"
    and "lb_send (lora_backend (lore E)) = Some f" and "x \<noteq> []" and "length x \<le> RZI_LORA_MAX_PAYLOAD * 2"
    and "rzi_at_lora_hex_to_bin x (length x div 2) = Inr d"
    and "encrypt (lora_config (lra r)) = encrypt (lora_config (lra s))" and "key (lora_config (lra r)) = key (lora_config (lra s))"
    and "iv (lora_config (lra r)) = iv (lora_config (lra s))" and "rx_done (lora_callbacks (lra r)) = Some (lora_rx_callback G)"
    and "at_started r" and "length (''RXP2P:'' @ show_int rssi @ '':'' @ show_int (c_div snr 4) @ '':'' @ x) + 9 < cfg_tx_size G"
  shows "\<exists>framed n. execute (link_system (link_lora E)) (''AT+PSEND='' @ x) s
        = (case respond_ok (link_callbacks E) (on_lora (run_lop (lore (link_callbacks E)) (f framed n))) s of
             (rc, t) \<Rightarrow> respond_for_error (link_system (link_lora E)) rc t)
    \<and> tx_log (lora_unview (lora_publish (lore (link_callbacks G)) (Lora_rx (Some framed) n rssi snr) (lora_view r)))
      = tx_log r @ [crlf @ ''+EVT:RXP2P:'' @ show_int rssi @ '':'' @ show_int (c_div snr 4) @ '':'' @ uppercase_name x @ crlf]"
proof -
  let ?F = "link_callbacks E"
  note p = psend_started [OF assms(3,4,7-9), of ?F]
  let ?framed = "apply_cipher d (length d) (lora_config (lra s))"
  have n: "length d \<le> RZI_LORA_MAX_PAYLOAD" using p assms(8) by simp
  have "rzi_lora_send (lore ?F) (Some d) (length d) (lora_view s) = run_lop (lore ?F) (f ?framed (length d)) (lora_view s)"
    using assms(4-6) p n by (simp add: rzi_lora_send_def Rzi_Lora.check_thread_def Let_def)
  then have "handle_psend ?F \<lparr>req_operation = OP_WRITE, req_argument = Some x\<rparr> s = respond_ok ?F (on_lora (run_lop (lore ?F) (f ?framed (length d)))) s"
    using p by (simp add: respond_ok_def seq_ok_def on_lora_def)
  note h = psend_line [OF assms(1,2,7,9), unfolded this]
  have "lora_publish (lore (link_callbacks G)) (Lora_rx (Some ?framed) (length d) rssi snr) (lora_view r)
      = lora_view (on_rx_done G d (length d) rssi snr r)"
    using p n assms(13) apply_cipher_twice [OF assms(10-12)]
    by (simp add: lora_publish_def rzi_lora_publish_rx_def Let_def link_callbacks_def)
  then have "tx_log (lora_unview (lora_publish (lore (link_callbacks G)) (Lora_rx (Some ?framed) (length d) rssi snr) (lora_view r)))
      = tx_log r @ [crlf @ ''+EVT:RXP2P:'' @ show_int rssi @ '':'' @ show_int (c_div snr 4) @ '':'' @ uppercase_name x @ crlf]"
    using p assms(14,15) by (simp add: on_rx_done_def rzi_at_publish_event_def write_formatted_def write_all_def lora_hex_eq crlf_def)
  with h show ?thesis by blast
qed

theorem at_p2p_message_delivered_witness:
  "\<exists>framed n. tx_log (lora_unview (lora_publish (lore (link_callbacks at_lora_ref_env)) (Lora_rx (Some framed) n (- 90) 28) (lora_view at_lora_ref_state)))
    = tx_log at_lora_ref_state @ [crlf @ ''+EVT:RXP2P:-90:7:48AB'' @ crlf]"
proof -
  have h: "rzi_at_lora_hex_to_bin ''48aB'' (length ''48aB'' div 2) = Inr [0x48, 0xAB]" by code_simp
  have l: "length (''RXP2P:'' @ show_int (- 90) @ '':'' @ show_int (c_div 28 4) @ '':'' @ ''48aB'') + 9 < cfg_tx_size at_lora_ref_env" by code_simp
  have x: "''+EVT:RXP2P:'' @ show_int (- 90) @ '':'' @ show_int (c_div 28 4) @ '':'' @ uppercase_name ''48aB'' @ crlf = ''+EVT:RXP2P:-90:7:48AB'' @ crlf" by code_simp
  let ?s = "at_lora_ref_state\<lparr>registered := p2p_commands 24 @ test_commands 41\<rparr>"
  have k: "lora_linked at_lora_ref_env ?s" "\<not> locked ?s"
    using lora_package_names(1) [of at_lora_ref_env 24 41] by (simp_all add: lora_linked_def)
  have f: "lb_send (lora_backend (lore at_lora_ref_env)) = Some (\<lambda>d n x. (0, [Lora_tx_done 0], Suc x))" by (simp add: mem_lora_env_def lora_ref_env_def)
  have g: "network_mode ?s \<noteq> RZI_AT_NETWORK_MODE_LORAWAN" "lora_started (lra ?s)" "rx_done (lora_callbacks (lra at_lora_ref_state)) = Some (lora_rx_callback at_lora_ref_env)"
    and i: "\<not> in_isr (pwr (at_store ?s))" using at_lora_ref_facts(10) by simp_all
  from at_p2p_message_delivered [OF k g(1,2) i f _ _ h _ _ _ g(3) at_lora_ref_facts(9) l]
  show ?thesis unfolding x by auto
qed

end
