(* ===== verification/Rzi_Usp.thy ===== *)
theory Rzi_Usp
  imports Rzi_Err
begin

text \<open>
  The platform layer of the Semtech stack, \<^verbatim>\<open>src/usp/usp_platform.c\<close>: the translation of modem return codes, the one-time
  initialisation, the event pump and the event handler. The modem is a parameter, a state \<open>'m\<close> with the functions of
  \<open>usp_env\<close>; the enumerations have the members the sources name and one for every other value. A body between
  \<^verbatim>\<open>rzi_usp_lock\<close> and \<^verbatim>\<open>rzi_usp_unlock\<close> is one step, since the engine thread takes the same lock.
\<close>

section \<open>Data\<close>

datatype smtc_modem_return_code = SMTC_MODEM_RC_OK | SMTC_MODEM_RC_NOT_INIT | SMTC_MODEM_RC_INVALID
  | SMTC_MODEM_RC_INVALID_STACK_ID | SMTC_MODEM_RC_BUSY | SMTC_MODEM_RC_NO_TIME | SMTC_MODEM_RC_NO_EVENT
  | SMTC_MODEM_RC_FAIL | SMTC_MODEM_RC_OTHER

text \<open>
  The event types with the union member each selects: the status enumerations have the members the sources name and one for the
  rest, the bit mask of a missed-downlink event is its two bits (end of the ADR backoff, threshold of the user).
\<close>

datatype smtc_txdone_status = SMTC_TXDONE_CONFIRMED | SMTC_TXDONE_SENT | SMTC_TXDONE_OTHER

datatype smtc_mac_request_status = SMTC_MAC_REQUEST_ANSWERED | SMTC_MAC_REQUEST_OTHER

datatype smtc_class_b_status = SMTC_CLASS_B_READY | SMTC_CLASS_B_NOT_READY | SMTC_CLASS_B_OTHER

datatype smtc_fmp_status = SMTC_FMP_REBOOT_IMMEDIATELY | SMTC_FMP_OTHER

datatype smtc_modem_event_type = SMTC_MODEM_EVENT_RESET | SMTC_MODEM_EVENT_JOINED | SMTC_MODEM_EVENT_JOINFAIL
  | SMTC_MODEM_EVENT_TXDONE smtc_txdone_status | SMTC_MODEM_EVENT_DOWNDATA | SMTC_MODEM_EVENT_REGIONAL_DUTY_CYCLE u8
  | SMTC_MODEM_EVENT_NO_DOWNLINK_THRESHOLD bool bool | SMTC_MODEM_EVENT_LINK_CHECK smtc_mac_request_status
  | SMTC_MODEM_EVENT_LORAWAN_MAC_TIME smtc_mac_request_status | SMTC_MODEM_EVENT_CLASS_B_STATUS smtc_class_b_status
  | SMTC_MODEM_EVENT_ALCSYNC_TIME | SMTC_MODEM_EVENT_NEW_MULTICAST_SESSION_CLASS_C | SMTC_MODEM_EVENT_NEW_MULTICAST_SESSION_CLASS_B
  | SMTC_MODEM_EVENT_NO_MORE_MULTICAST_SESSION_CLASS_C | SMTC_MODEM_EVENT_NO_MORE_MULTICAST_SESSION_CLASS_B
  | SMTC_MODEM_EVENT_LORAWAN_FUOTA_DONE bool | SMTC_MODEM_EVENT_FIRMWARE_MANAGEMENT smtc_fmp_status | SMTC_MODEM_EVENT_OTHER

record smtc_modem_event =
  event_type :: smtc_modem_event_type
  missed_events :: u8

text \<open>The statics of the file; the handler is a number that \<open>usp_handler\<close> interprets.\<close>

record 'm usp_platform =
  initialized :: bool
  reset_seen :: bool
  handler :: "nat option"
  modem :: 'm

record ('m, 's) usp_env =
  sw_platform_init :: "'m \<Rightarrow> 'm"
  smtc_rac_init :: "'m \<Rightarrow> 'm"
  smtc_modem_init :: "'m \<Rightarrow> 'm"
  smtc_modem_get_event :: "'m \<Rightarrow> smtc_modem_return_code \<times> smtc_modem_event \<times> u8 \<times> 'm"
  usp_handler :: "nat \<Rightarrow> smtc_modem_event option \<Rightarrow> int \<Rightarrow> 's \<Rightarrow> 's"

section \<open>Operations\<close>

definition rzi_usp_result :: "smtc_modem_return_code \<Rightarrow> int" where
  "rzi_usp_result rc =
     (case rc of
        SMTC_MODEM_RC_OK \<Rightarrow> 0
      | SMTC_MODEM_RC_NOT_INIT \<Rightarrow> - RZI_ERR_NOT_READY
      | SMTC_MODEM_RC_INVALID \<Rightarrow> - RZI_ERR_INVALID
      | SMTC_MODEM_RC_INVALID_STACK_ID \<Rightarrow> - RZI_ERR_INVALID
      | SMTC_MODEM_RC_BUSY \<Rightarrow> - RZI_ERR_BUSY
      | SMTC_MODEM_RC_NO_TIME \<Rightarrow> - RZI_ERR_NO_DATA
      | SMTC_MODEM_RC_NO_EVENT \<Rightarrow> - RZI_ERR_NO_DATA
      | _ \<Rightarrow> - RZI_ERR_IO)"

text \<open>A call of the modem whose code is translated.\<close>

definition modem_call :: "('m \<Rightarrow> smtc_modem_return_code \<times> 'm) \<Rightarrow> ('m, 'z) usp_platform_scheme op" where
  "modem_call f s = (case f (modem s) of (rc, m) \<Rightarrow> (rzi_usp_result rc, s\<lparr>modem := m\<rparr>))"

definition call_handler ::
  "('m, ('m, 'z) usp_platform_scheme, 'e) usp_env_scheme \<Rightarrow> smtc_modem_event option \<Rightarrow> int
   \<Rightarrow> ('m, 'z) usp_platform_scheme \<Rightarrow> ('m, 'z) usp_platform_scheme" where
  "call_handler E ev error s = (case handler s of None \<Rightarrow> s | Some h \<Rightarrow> usp_handler E h ev error s)"

text \<open>The loop ends when the modem has no event, fails, or has none left; otherwise the result is \<open>None\<close>.\<close>

partial_function (option) modem_event_callback ::
  "('m, ('m, 'z) usp_platform_scheme, 'e) usp_env_scheme \<Rightarrow> ('m, 'z) usp_platform_scheme
   \<Rightarrow> ('m, 'z) usp_platform_scheme option" where
  [code]: "modem_event_callback E s =
     (case smtc_modem_get_event E (modem s) of (rc, event, pending, m) \<Rightarrow>
        let s = s\<lparr>modem := m\<rparr> in
        if rc = SMTC_MODEM_RC_NO_EVENT then Some s
        else if rc \<noteq> SMTC_MODEM_RC_OK then Some (call_handler E None (rzi_usp_result rc) s)
        else let s = (if event_type event = SMTC_MODEM_EVENT_RESET then s\<lparr>reset_seen := True\<rparr> else s);
                 s = call_handler E (Some event) 0 s
             in if pending > 0 then modem_event_callback E s else Some s)"

definition rzi_usp_init ::
  "('m, 's, 'e) usp_env_scheme \<Rightarrow> ('m, 'z) usp_platform_scheme \<Rightarrow> ('m, 'z) usp_platform_scheme" where
  "rzi_usp_init E s =
     (if \<not> initialized s
      then s\<lparr>modem := smtc_modem_init E (smtc_rac_init E (sw_platform_init E (modem s))), initialized := True\<rparr>
      else s)"

definition rzi_usp_set_event_handler ::
  "('m, ('m, 'z) usp_platform_scheme, 'e) usp_env_scheme \<Rightarrow> nat option
   \<Rightarrow> ('m, 'z) usp_platform_scheme \<Rightarrow> ('m, 'z) usp_platform_scheme" where
  "rzi_usp_set_event_handler E new s =
     (let s = s\<lparr>handler := new\<rparr> in
      if handler s \<noteq> None \<and> reset_seen s
      then call_handler E (Some \<lparr>event_type = SMTC_MODEM_EVENT_RESET, missed_events = 0\<rparr>) 0 s
      else s)"

section \<open>Facts\<close>

lemma usp_result_ok_iff [simp]: "rzi_usp_result rc = 0 \<longleftrightarrow> rc = SMTC_MODEM_RC_OK"
  by (cases rc) (simp_all add: rzi_usp_result_def)

text \<open>The translation stays in the catalogue, so a layer above may pass it through the translation of platform codes.\<close>

lemma usp_result_catalog: "rzi_err_from_errno (rzi_usp_result rc) = rzi_usp_result rc"
  by (cases rc) (simp_all add: rzi_usp_result_def from_errno_catalog)

lemma usp_init_idem [simp]: "rzi_usp_init E (rzi_usp_init E s) = rzi_usp_init E s"
  by (simp add: rzi_usp_init_def)

section \<open>The event pump\<close>

text \<open>
  The modem as a queue: \<open>pending_of\<close> reads the events it holds, reading one removes the first and tells how many are
  left, and the handler leaves them alone.
\<close>

definition event_queue :: "('m \<Rightarrow> smtc_modem_event list) \<Rightarrow> ('m, ('m, 'z) usp_platform_scheme, 'e) usp_env_scheme \<Rightarrow> bool" where
  "event_queue pending_of E \<longleftrightarrow>
     (\<forall>m. pending_of m = [] \<longrightarrow> (\<exists>ev p m'. smtc_modem_get_event E m = (SMTC_MODEM_RC_NO_EVENT, ev, p, m')
        \<and> pending_of m' = []))
     \<and> (\<forall>m ev evs. pending_of m = ev # evs \<longrightarrow> (\<exists>p m'. smtc_modem_get_event E m = (SMTC_MODEM_RC_OK, ev, p, m')
        \<and> pending_of m' = evs \<and> (p > 0 \<longleftrightarrow> evs \<noteq> [])))
     \<and> (\<forall>h ev err s. pending_of (modem (usp_handler E h ev err s)) = pending_of (modem s)
        \<and> handler (usp_handler E h ev err s) = handler s)"

text \<open>An observer of the handler: it sees each call, and nothing else changes what it has seen.\<close>

definition handler_log ::
  "(('m, 'z) usp_platform_scheme \<Rightarrow> (smtc_modem_event option \<times> int) list) \<Rightarrow> ('m, ('m, 'z) usp_platform_scheme, 'e) usp_env_scheme \<Rightarrow> bool"
  where
  "handler_log seen E \<longleftrightarrow> (\<forall>h ev err s. seen (usp_handler E h ev err s) = seen s @ [(ev, err)])
     \<and> (\<forall>m s. seen (s\<lparr>modem := m\<rparr>) = seen s) \<and> (\<forall>b s. seen (s\<lparr>reset_seen := b\<rparr>) = seen s)"

lemma queue_handler:
  assumes "event_queue pending_of E"
  shows "pending_of (modem (call_handler E ev err s)) = pending_of (modem s)" and "handler (call_handler E ev err s) = handler s"
  using assms by (simp_all add: event_queue_def call_handler_def split: option.splits)

lemma queue_first:
  assumes "event_queue pending_of E" and "pending_of m = ev # evs"
  obtains p m' where "smtc_modem_get_event E m = (SMTC_MODEM_RC_OK, ev, p, m')" "pending_of m' = evs" "p > 0 \<longleftrightarrow> evs \<noteq> []"
  using assms unfolding event_queue_def by blast

lemma log_handler:
  assumes "handler_log seen E" and "handler s \<noteq> None"
  shows "seen (call_handler E ev err s) = seen s @ [(ev, err)]"
  using assms by (auto simp: handler_log_def call_handler_def)

lemma pump_delivers:
  assumes q: "event_queue pending_of E" and l: "handler_log seen E"
  shows "pending_of (modem s) = evs \<Longrightarrow> handler s \<noteq> None \<Longrightarrow>
    \<exists>t. modem_event_callback E s = Some t \<and> seen t = seen s @ map (\<lambda>ev. (Some ev, 0)) evs \<and> pending_of (modem t) = []"
proof (induction evs arbitrary: s)
  case Nil
  then obtain ev p m where g: "smtc_modem_get_event E (modem s) = (SMTC_MODEM_RC_NO_EVENT, ev, p, m)" "pending_of m = []"
    using q unfolding event_queue_def by blast
  then have "modem_event_callback E s = Some (s\<lparr>modem := m\<rparr>)" by (subst modem_event_callback.simps) simp
  with g(2) l show ?case by (simp add: handler_log_def)
next
  case (Cons ev evs)
  obtain p m where g: "smtc_modem_get_event E (modem s) = (SMTC_MODEM_RC_OK, ev, p, m)" "pending_of m = evs"
      "p > 0 \<longleftrightarrow> evs \<noteq> []"
    using queue_first [OF q Cons.prems(1)] .
  define v where "v = (if event_type ev = SMTC_MODEM_EVENT_RESET then s\<lparr>modem := m, reset_seen := True\<rparr> else s\<lparr>modem := m\<rparr>)"
  define u where "u = call_handler E (Some ev) 0 v"
  have v: "pending_of (modem v) = evs" "handler v \<noteq> None" "seen v = seen s"
    using g(2) Cons.prems(2) l by (simp_all add: v_def handler_log_def)
  have run: "modem_event_callback E s = (if p > 0 then modem_event_callback E u else Some u)"
    by (subst modem_event_callback.simps) (simp add: g(1) Let_def u_def v_def)
  have u: "pending_of (modem u) = evs" "handler u \<noteq> None" "seen u = seen s @ [(Some ev, 0)]"
    unfolding u_def using queue_handler [OF q] log_handler [OF l v(2)] v by simp_all
  show ?case
  proof (cases "evs = []")
    case True
    then have "modem_event_callback E s = Some u" using run g(3) by simp
    then show ?thesis using True u by simp
  next
    case False
    then have "modem_event_callback E s = modem_event_callback E u" using run g(3) by simp
    with Cons.IH [OF u(1,2)] u(3) show ?thesis by simp
  qed
qed

text \<open>A reference instance: the modem is its queue, and the handler appends to a log.\<close>

record usp_ref_state = "smtc_modem_event list usp_platform" +
  usp_log :: "(smtc_modem_event option \<times> int) list"

definition usp_ref_env :: "(smtc_modem_event list, usp_ref_state) usp_env" where
  "usp_ref_env = \<lparr>sw_platform_init = (\<lambda>m. m), smtc_rac_init = (\<lambda>m. m), smtc_modem_init = (\<lambda>m. m),
     smtc_modem_get_event = (\<lambda>m. case m of [] \<Rightarrow> (SMTC_MODEM_RC_NO_EVENT, \<lparr>event_type = SMTC_MODEM_EVENT_OTHER, missed_events = 0\<rparr>, 0, [])
        | ev # evs \<Rightarrow> (SMTC_MODEM_RC_OK, ev, if evs = [] then 0 else 1, evs)),
     usp_handler = (\<lambda>h ev err s. s\<lparr>usp_log := usp_log s @ [(ev, err)]\<rparr>)\<rparr>"

lemma usp_ref_queue: "event_queue (\<lambda>m. m) usp_ref_env"
  by (simp add: event_queue_def usp_ref_env_def)

lemma usp_ref_log: "handler_log usp_log usp_ref_env"
  by (simp add: handler_log_def usp_ref_env_def)

section \<open>Properties\<close>

text \<open>
  C40. The event pump ends and loses nothing: with a handler installed and a modem that hands out its events first in
  first out, one run of the callback returns, has called the handler exactly once for every event that was pending, in
  order and without error, and leaves the modem with none.
\<close>

theorem usp_events_pumped:
  assumes "event_queue pending_of E" and "handler_log seen E" and "handler s \<noteq> None"
  shows "\<exists>t. modem_event_callback E s = Some t
    \<and> seen t = seen s @ map (\<lambda>ev. (Some ev, 0)) (pending_of (modem s)) \<and> pending_of (modem t) = []"
  by (rule pump_delivers [OF assms(1,2) refl assms(3)])

theorem usp_events_pumped_witness:
  "\<exists>t. modem_event_callback usp_ref_env
      \<lparr>initialized = True, reset_seen = False, handler = Some 0,
       modem = [\<lparr>event_type = SMTC_MODEM_EVENT_RESET, missed_events = 0\<rparr>, \<lparr>event_type = SMTC_MODEM_EVENT_JOINED, missed_events = 0\<rparr>],
       usp_log = []\<rparr> = Some t
    \<and> usp_log t = [(Some \<lparr>event_type = SMTC_MODEM_EVENT_RESET, missed_events = 0\<rparr>, 0),
                   (Some \<lparr>event_type = SMTC_MODEM_EVENT_JOINED, missed_events = 0\<rparr>, 0)]"
proof -
  let ?s = "\<lparr>initialized = True, reset_seen = False, handler = Some 0,
       modem = [\<lparr>event_type = SMTC_MODEM_EVENT_RESET, missed_events = 0\<rparr>, \<lparr>event_type = SMTC_MODEM_EVENT_JOINED, missed_events = 0\<rparr>],
       usp_log = []\<rparr> :: usp_ref_state"
  show ?thesis using usp_events_pumped [OF usp_ref_queue usp_ref_log, of ?s] by auto
qed

end
