(* ===== verification/Rzi_Lora_Usp.thy ===== *)
theory Rzi_Lora_Usp
  imports Rzi_Usp Rzi_Lora
begin

text \<open>
  The backend of the raw LoRa and FSK service over the Semtech stack, \<^verbatim>\<open>src/lora/backend/lora_backend_usp.c\<close>. The radio access
  controller, the test interface of the modem, the clocks and the message queue of the kernel are fields of the
  environment. A completed radio transaction is a \<open>rac_callback\<close>: the engine thread runs it under the lock as a step of
  its own (\<open>usp_engine\<close>), and an abort may run some before it returns.
\<close>

section \<open>Data\<close>

datatype smtc_rac_return_code = SMTC_RAC_SUCCESS | SMTC_RAC_BUSY | SMTC_RAC_INVALID_PARAMETER | SMTC_RAC_NOT_SUPPORTED
  | SMTC_RAC_NOT_IMPLEMENTED | SMTC_RAC_NOT_INITIALIZED | SMTC_RAC_TIMEOUT | SMTC_RAC_OTHER

datatype rac_id = RAC_LOW_PRIORITY | RAC_VERY_LOW_PRIORITY | RAC_OTHER_ID

datatype rp_status = RP_STATUS_TX_DONE | RP_STATUS_RX_PACKET | RP_STATUS_TASK_ABORTED | RP_STATUS_OTHER

datatype ral_lora_bw = RAL_LORA_BW_125_KHZ | RAL_LORA_BW_250_KHZ | RAL_LORA_BW_500_KHZ | RAL_LORA_BW_007_KHZ
  | RAL_LORA_BW_010_KHZ | RAL_LORA_BW_015_KHZ | RAL_LORA_BW_020_KHZ | RAL_LORA_BW_031_KHZ | RAL_LORA_BW_041_KHZ
  | RAL_LORA_BW_062_KHZ

datatype test_sync_word = SYNC_WORD_0x12 | SYNC_WORD_0x21 | SYNC_WORD_0x34 | SYNC_WORD_0x56

text \<open>The radio parameters of a transaction; fields the code leaves zero or sets to a fixed member of an enumeration are left out.\<close>

record smtc_rac_radio_lora_params =
  lp_is_tx :: bool
  lp_frequency_in_hz :: u32
  lp_sf :: u8
  lp_bw :: ral_lora_bw
  lp_cr :: u32
  lp_preamble_len_in_symb :: u16
  lp_implicit :: bool
  lp_invert_iq_is_on :: bool
  lp_crc_is_on :: bool
  lp_sync_word :: u8
  lp_tx_power_in_dbm :: u8
  lp_tx_size :: u16
  lp_rx_timeout_ms :: u32
  lp_symb_nb_timeout :: u8
  lp_max_rx_size :: nat

record smtc_rac_radio_fsk_params =
  fp_is_tx :: bool
  fp_tx_size :: u16
  fp_max_rx_size :: nat
  fp_frequency_in_hz :: u32
  fp_tx_power_in_dbm :: int
  fp_br_in_bps :: u32
  fp_fdev_in_hz :: u32
  fp_bw_dsb_in_hz :: u32
  fp_fix_len :: bool
  fp_preamble_len_in_bits :: u32
  fp_sync_word_len_in_bits :: nat
  fp_sync_word :: bytes
  fp_whitening_seed :: u16
  fp_crc_seed :: u16
  fp_crc_polynomial :: u16
  fp_rx_timeout_ms :: u32

datatype radio_params = Rac_lora smtc_rac_radio_lora_params | Rac_fsk smtc_rac_radio_fsk_params

text \<open>The context as submitted: an as-soon-as-possible transaction from a start time.\<close>

record smtc_rac_context =
  radio_params :: radio_params
  start_time_ms :: u32

record smtc_rac_data_result =
  rx_size :: u16
  rssi_result :: int
  snr_result :: int

text \<open>The end of a transaction; for a reception with the result and the bytes the radio wrote to the buffer.\<close>

datatype rac_callback = Rac_tx rp_status | Rac_rx rp_status smtc_rac_data_result bytes

record rx_packet =
  rp_size :: nat
  rp_rssi_dbm :: int
  rp_snr_quarter_db :: int
  rp_data :: bytes

record test_lora_tx =
  tl_payload :: bytes
  tl_frequency_hz :: u32
  tl_tx_power_dbm :: int
  tl_sf :: u8
  tl_bw :: ral_lora_bw
  tl_cr :: u32
  tl_sync_word :: test_sync_word
  tl_invert_iq :: bool
  tl_preamble_size :: u16
  tl_nb_of_tx :: u32
  tl_delay_ms :: u32

text \<open>The statics of the file.\<close>

record 'm usp_lora = "'m usp_platform" +
  u_config :: rzi_lora_config
  u_modulation :: rzi_lora_modulation
  opened :: bool
  test_mode :: bool
  tx_busy :: bool
  u_rx_active :: bool
  rx_continuous :: bool
  rx_deadline_ms :: int
  tx_buffer :: bytes
  rx_buffer :: bytes
  u_tx_done :: bool
  u_tx_error :: int
  rx_queue :: "rx_packet list"

record ('m, 's) usp_lora_env = "('m, 's) usp_env" +
  smtc_rac_open_radio :: "rac_id \<Rightarrow> 'm \<Rightarrow> rac_id \<times> 'm"
  smtc_rac_submit_radio_transaction :: "rac_id \<Rightarrow> smtc_rac_context \<Rightarrow> 'm \<Rightarrow> smtc_rac_return_code \<times> 'm"
  smtc_rac_abort_radio_submit :: "rac_id \<Rightarrow> 'm \<Rightarrow> rac_callback list \<times> 'm"
  smtc_modem_hal_get_time_in_ms :: "'m \<Rightarrow> u32"
  k_uptime_get :: "'m \<Rightarrow> int"
  rx_msgq_put :: "rx_packet \<Rightarrow> rx_packet list \<Rightarrow> int \<times> rx_packet list"
  rx_msgq_get :: "rx_packet list \<Rightarrow> (rx_packet \<times> rx_packet list) option"
  smtc_modem_test_start :: "'m \<Rightarrow> smtc_modem_return_code \<times> 'm"
  smtc_modem_test_stop :: "'m \<Rightarrow> smtc_modem_return_code \<times> 'm"
  smtc_modem_test_rssi_lbt :: "u32 \<Rightarrow> u32 \<Rightarrow> u32 \<Rightarrow> 'm \<Rightarrow> smtc_modem_return_code \<times> 'm"
  smtc_modem_test_get_rssi :: "int \<Rightarrow> 'm \<Rightarrow> smtc_modem_return_code \<times> int \<times> 'm"
  smtc_modem_test_tx_cw :: "u32 \<Rightarrow> int \<Rightarrow> 'm \<Rightarrow> smtc_modem_return_code \<times> 'm"
  smtc_modem_test_tx_lora :: "test_lora_tx \<Rightarrow> 'm \<Rightarrow> smtc_modem_return_code \<times> 'm"
  smtc_modem_test_nop :: "bool \<Rightarrow> 'm \<Rightarrow> smtc_modem_return_code \<times> 'm"

abbreviation (input) TX_ID :: rac_id where "TX_ID \<equiv> RAC_LOW_PRIORITY"
abbreviation (input) RX_ID :: rac_id where "RX_ID \<equiv> RAC_VERY_LOW_PRIORITY"
abbreviation (input) RX_CONTINUOUS :: u32 where "RX_CONTINUOUS \<equiv> 65535"
abbreviation (input) RX_WINDOW_MS :: u32 where "RX_WINDOW_MS \<equiv> 60000"
abbreviation (input) USP_TEST_RSSI_OFFSET :: int where "USP_TEST_RSSI_OFFSET \<equiv> 64"

definition fsk_sync_word :: bytes where "fsk_sync_word = [0xC1, 0x94, 0xC1]"

section \<open>Parameters of a transaction\<close>

definition rac_result :: "smtc_rac_return_code \<Rightarrow> int" where
  "rac_result rc =
     (case rc of
        SMTC_RAC_SUCCESS \<Rightarrow> 0
      | SMTC_RAC_BUSY \<Rightarrow> - RZI_ERR_BUSY
      | SMTC_RAC_INVALID_PARAMETER \<Rightarrow> - RZI_ERR_INVALID
      | SMTC_RAC_NOT_SUPPORTED \<Rightarrow> - RZI_ERR_NOT_SUPPORTED
      | SMTC_RAC_NOT_IMPLEMENTED \<Rightarrow> - RZI_ERR_NOT_SUPPORTED
      | SMTC_RAC_NOT_INITIALIZED \<Rightarrow> - RZI_ERR_NOT_READY
      | SMTC_RAC_TIMEOUT \<Rightarrow> - RZI_ERR_TIMEOUT
      | SMTC_RAC_OTHER \<Rightarrow> - RZI_ERR_IO)"

definition usp_bandwidths :: "ral_lora_bw list" where
  "usp_bandwidths = [RAL_LORA_BW_125_KHZ, RAL_LORA_BW_250_KHZ, RAL_LORA_BW_500_KHZ, RAL_LORA_BW_007_KHZ, RAL_LORA_BW_010_KHZ,
     RAL_LORA_BW_015_KHZ, RAL_LORA_BW_020_KHZ, RAL_LORA_BW_031_KHZ, RAL_LORA_BW_041_KHZ, RAL_LORA_BW_062_KHZ]"

definition map_bandwidth :: "u32 \<Rightarrow> ral_lora_bw" where
  "map_bandwidth index = (if index \<ge> of_nat (length usp_bandwidths) then RAL_LORA_BW_125_KHZ else usp_bandwidths ! unat index)"

definition lora_sync_byte :: "u16 \<Rightarrow> u8" where
  "lora_sync_byte sync =
     (if sync > 0xFF then ucast ((drop_bit 8 sync AND 0xF0) OR (drop_bit 4 sync AND 0x0F)) else ucast sync)"

definition test_sync :: "u16 \<Rightarrow> test_sync_word" where
  "test_sync sync =
     (let b = lora_sync_byte sync in
      if b = 0x12 then SYNC_WORD_0x12 else if b = 0x21 then SYNC_WORD_0x21 else if b = 0x56 then SYNC_WORD_0x56
      else SYNC_WORD_0x34)"

definition fill_lora :: "rzi_lora_config \<Rightarrow> bool \<Rightarrow> u16 \<Rightarrow> u32 \<Rightarrow> smtc_rac_radio_lora_params" where
  "fill_lora c is_tx n timeout_ms =
     \<lparr>lp_is_tx = is_tx, lp_frequency_in_hz = frequency_hz c, lp_sf = spreading_factor c, lp_bw = map_bandwidth (bandwidth c),
      lp_cr = ucast (coding_rate c) + 1, lp_preamble_len_in_symb = preamble_length c, lp_implicit = fixed_length c,
      lp_invert_iq_is_on = iq_inverted c, lp_crc_is_on = True, lp_sync_word = lora_sync_byte (sync_word c),
      lp_tx_power_in_dbm = word_of_int (tx_power_dbm c), lp_tx_size = n, lp_rx_timeout_ms = timeout_ms,
      lp_symb_nb_timeout = symbol_timeout c, lp_max_rx_size = RZI_LORA_MAX_PAYLOAD\<rparr>"

definition fill_fsk :: "rzi_lora_config \<Rightarrow> bool \<Rightarrow> u16 \<Rightarrow> u32 \<Rightarrow> smtc_rac_radio_fsk_params" where
  "fill_fsk c is_tx n timeout_ms =
     (let bw = (if bandwidth c \<ge> 4800 then bandwidth c else 2 * fsk_deviation c + fsk_bitrate c) in
      \<lparr>fp_is_tx = is_tx, fp_tx_size = n, fp_max_rx_size = RZI_LORA_MAX_PAYLOAD, fp_frequency_in_hz = frequency_hz c,
       fp_tx_power_in_dbm = tx_power_dbm c, fp_br_in_bps = fsk_bitrate c, fp_fdev_in_hz = fsk_deviation c,
       fp_bw_dsb_in_hz = bw, fp_fix_len = fixed_length c, fp_preamble_len_in_bits = ucast (preamble_length c) * 8,
       fp_sync_word_len_in_bits = length fsk_sync_word * 8, fp_sync_word = fsk_sync_word, fp_whitening_seed = 0x01FF,
       fp_crc_seed = 0x1D0F, fp_crc_polynomial = 0x1021, fp_rx_timeout_ms = timeout_ms\<rparr>)"

section \<open>Transactions\<close>

definition usp_context :: "('m, 's, 'e) usp_lora_env_scheme \<Rightarrow> ('m, 'z) usp_lora_scheme \<Rightarrow> bool \<Rightarrow> u16 \<Rightarrow> u32 \<Rightarrow> smtc_rac_context" where
  "usp_context E s is_tx n timeout_ms =
     \<lparr>radio_params = (if u_modulation s = MOD_FSK then Rac_fsk (fill_fsk (u_config s) is_tx n timeout_ms)
                      else Rac_lora (fill_lora (u_config s) is_tx n timeout_ms)),
      start_time_ms = smtc_modem_hal_get_time_in_ms E (modem s)\<rparr>"

definition usp_submit ::
  "('m, 's, 'e) usp_lora_env_scheme \<Rightarrow> rac_id \<Rightarrow> bool \<Rightarrow> u16 \<Rightarrow> u32 \<Rightarrow> ('m, 'z) usp_lora_scheme op" where
  "usp_submit E i is_tx n timeout_ms s =
     (case smtc_rac_submit_radio_transaction E i (usp_context E s is_tx n timeout_ms) (modem s) of (rc, m) \<Rightarrow>
        (rac_result rc, s\<lparr>modem := m\<rparr>))"

definition usp_on_tx_done :: "rp_status \<Rightarrow> ('m, 'z) usp_lora_scheme \<Rightarrow> ('m, 'z) usp_lora_scheme" where
  "usp_on_tx_done status s =
     (let error = (case status of RP_STATUS_TX_DONE \<Rightarrow> 0 | RP_STATUS_TASK_ABORTED \<Rightarrow> - RZI_ERR_BUSY | _ \<Rightarrow> - RZI_ERR_IO) in
      s\<lparr>tx_busy := False, u_tx_error := error, u_tx_done := True\<rparr>)"

text \<open>A positive remainder of a 32-bit timeout fits its type; \<^verbatim>\<open>(uint32_t)\<close> is \<open>word_of_int\<close>.\<close>

definition submit_rx_window :: "('m, 's, 'e) usp_lora_env_scheme \<Rightarrow> ('m, 'z) usp_lora_scheme op" where
  "submit_rx_window E s =
     (if \<not> rx_continuous s
      then let remaining = rx_deadline_ms s - k_uptime_get E (modem s) in
        if remaining \<le> 0 then (- RZI_ERR_TIMEOUT, s) else usp_submit E RX_ID False 0 (word_of_int remaining) s
      else usp_submit E RX_ID False 0 RX_WINDOW_MS s)"

text \<open>The packet the callback queues, from the result and the buffer.\<close>

definition received_packet :: "smtc_rac_data_result \<Rightarrow> bytes \<Rightarrow> rx_packet" where
  "received_packet r buffer =
     (let n = min (unat (rx_size r)) RZI_LORA_MAX_PAYLOAD in
      \<lparr>rp_size = n, rp_rssi_dbm = rssi_result r, rp_snr_quarter_db = signed_take_bit 7 (snr_result r * 4), rp_data = take n buffer\<rparr>)"

definition usp_on_rx_done ::
  "('m, 's, 'e) usp_lora_env_scheme \<Rightarrow> rp_status \<Rightarrow> smtc_rac_data_result \<Rightarrow> ('m, 'z) usp_lora_scheme \<Rightarrow> ('m, 'z) usp_lora_scheme" where
  "usp_on_rx_done E status r s =
     (let s = (if status = RP_STATUS_RX_PACKET \<and> rx_size r > 0
               then s\<lparr>rx_queue := snd (rx_msgq_put E (received_packet r (rx_buffer s)) (rx_queue s))\<rparr> else s) in
      if \<not> u_rx_active s then s
      else let again = rx_continuous s \<or> status = RP_STATUS_TASK_ABORTED in
        if \<not> again then s\<lparr>u_rx_active := False\<rparr>
        else case submit_rx_window E s of (rc, t) \<Rightarrow> if rc \<noteq> 0 then t\<lparr>u_rx_active := False\<rparr> else t)"

text \<open>A completed transaction: a reception has filled the buffer, then the registered callback runs.\<close>

definition usp_engine ::
  "('m, 's, 'e) usp_lora_env_scheme \<Rightarrow> rac_callback \<Rightarrow> ('m, 'z) usp_lora_scheme \<Rightarrow> ('m, 'z) usp_lora_scheme" where
  "usp_engine E cb s =
     (case cb of Rac_tx status \<Rightarrow> usp_on_tx_done status s
      | Rac_rx status r written \<Rightarrow>
          usp_on_rx_done E status r (s\<lparr>rx_buffer := overlay (take (length (rx_buffer s)) written) (rx_buffer s)\<rparr>))"

definition rac_abort ::
  "('m, 's, 'e) usp_lora_env_scheme \<Rightarrow> rac_id \<Rightarrow> ('m, 'z) usp_lora_scheme \<Rightarrow> ('m, 'z) usp_lora_scheme" where
  "rac_abort E i s = (case smtc_rac_abort_radio_submit E i (modem s) of (cbs, m) \<Rightarrow> fold (usp_engine E) cbs (s\<lparr>modem := m\<rparr>))"

text \<open>Both access ids, in the order and with the short circuit of the code.\<close>

definition open_radio :: "('m, 's, 'e) usp_lora_env_scheme \<Rightarrow> ('m, 'z) usp_lora_scheme op" where
  "open_radio E s =
     (if opened s then (0, s)
      else case smtc_rac_open_radio E TX_ID (modem s) of (i, m) \<Rightarrow>
        if i \<noteq> TX_ID then (- RZI_ERR_NO_RESOURCE, s\<lparr>modem := m\<rparr>)
        else case smtc_rac_open_radio E RX_ID m of (j, m') \<Rightarrow>
          if j \<noteq> RX_ID then (- RZI_ERR_NO_RESOURCE, s\<lparr>modem := m'\<rparr>)
          else (0, s\<lparr>modem := m', opened := True\<rparr>))"

definition abort_p2p :: "('m, 's, 'e) usp_lora_env_scheme \<Rightarrow> ('m, 'z) usp_lora_scheme \<Rightarrow> ('m, 'z) usp_lora_scheme" where
  "abort_p2p E s =
     (let s = s\<lparr>u_rx_active := False\<rparr> in if opened s then rac_abort E TX_ID (rac_abort E RX_ID s) else s)"

definition enter_test_mode :: "('m, 's, 'e) usp_lora_env_scheme \<Rightarrow> ('m, 'z) usp_lora_scheme op" where
  "enter_test_mode E s =
     (if test_mode s then (0, s)
      else case modem_call (smtc_modem_test_start E) (abort_p2p E s) of (rc, t) \<Rightarrow>
        (rc, if rc = 0 then t\<lparr>test_mode := True\<rparr> else t))"

definition leave_test_mode :: "('m, 's, 'e) usp_lora_env_scheme \<Rightarrow> ('m, 'z) usp_lora_scheme op" where
  "leave_test_mode E s =
     (if \<not> test_mode s then (0, s)
      else case modem_call (smtc_modem_test_stop E) s of (rc, t) \<Rightarrow> (rc, if rc = 0 then t\<lparr>test_mode := False\<rparr> else t))"

section \<open>The operations of the table\<close>

definition usp_start :: "('m, 's, 'e) usp_lora_env_scheme \<Rightarrow> rzi_lora_modulation \<Rightarrow> ('m, 'z) usp_lora_scheme op" where
  "usp_start E val s =
     (case open_radio E (rzi_usp_init E s) of (rc, t) \<Rightarrow> (rc, if rc = 0 then t\<lparr>u_modulation := val\<rparr> else t))"

definition usp_stop :: "('m, 's, 'e) usp_lora_env_scheme \<Rightarrow> ('m, 'z) usp_lora_scheme op" where
  "usp_stop E s =
     (case leave_test_mode E ((abort_p2p E s)\<lparr>tx_busy := False\<rparr>) of (rc, t) \<Rightarrow> (rc, t\<lparr>u_tx_done := False, rx_queue := []\<rparr>))"

definition usp_apply :: "rzi_lora_config \<Rightarrow> ('m, 'z) usp_lora_scheme op" where
  "usp_apply new s = (0, s\<lparr>u_config := new\<rparr>)"

definition usp_send :: "('m, 's, 'e) usp_lora_env_scheme \<Rightarrow> bytes \<Rightarrow> nat \<Rightarrow> ('m, 'z) usp_lora_scheme op" where
  "usp_send E data n s =
     (case leave_test_mode E s of (rc, t) \<Rightarrow>
        if rc \<noteq> 0 then (rc, t)
        else if tx_busy t then (- RZI_ERR_BUSY, t)
        else case usp_submit E TX_ID True (of_nat n) 0 (t\<lparr>tx_buffer := overlay (take n data) (tx_buffer t)\<rparr>) of (rc, u) \<Rightarrow>
          (rc, u\<lparr>tx_busy := (rc = 0)\<rparr>))"

definition usp_receive :: "('m, 's, 'e) usp_lora_env_scheme \<Rightarrow> u32 \<Rightarrow> ('m, 'z) usp_lora_scheme op" where
  "usp_receive E timeout_ms s =
     (let s = rac_abort E RX_ID (s\<lparr>u_rx_active := False\<rparr>) in
      if timeout_ms = 0 then (0, s)
      else case leave_test_mode E s of (rc, t) \<Rightarrow>
        if rc \<noteq> 0 then (rc, t)
        else case submit_rx_window E (t\<lparr>rx_continuous := (timeout_ms = RX_CONTINUOUS),
                                      rx_deadline_ms := k_uptime_get E (modem t) + uint timeout_ms\<rparr>) of (rc, u) \<Rightarrow>
          (rc, u\<lparr>u_rx_active := (rc = 0)\<rparr>))"

text \<open>A test operation: enter the test mode, then one call of the modem.\<close>

definition in_test_mode ::
  "('m, 's, 'e) usp_lora_env_scheme \<Rightarrow> (('m, 'z) usp_lora_scheme \<Rightarrow> 'm \<Rightarrow> smtc_modem_return_code \<times> 'm) \<Rightarrow> ('m, 'z) usp_lora_scheme op" where
  "in_test_mode E f s = (case enter_test_mode E s of (rc, t) \<Rightarrow> if rc \<noteq> 0 then (rc, t) else modem_call (f t) t)"

definition usp_test_rssi :: "('m, 's, 'e) usp_lora_env_scheme \<Rightarrow> ('m, 'z) usp_lora_scheme op" where
  "usp_test_rssi E = in_test_mode E (\<lambda>t. smtc_modem_test_rssi_lbt E (frequency_hz (u_config t)) 125000 100)"

definition usp_test_get_rssi ::
  "('m, 's, 'e) usp_lora_env_scheme \<Rightarrow> int \<Rightarrow> ('m, 'z) usp_lora_scheme \<Rightarrow> int \<times> int \<times> ('m, 'z) usp_lora_scheme" where
  "usp_test_get_rssi E cell s =
     (if test_mode s
      then case smtc_modem_test_get_rssi E 0 (modem s) of (rc, raw, m) \<Rightarrow>
        (rzi_usp_result rc, if rc = SMTC_MODEM_RC_OK then raw - USP_TEST_RSSI_OFFSET else cell, s\<lparr>modem := m\<rparr>)
      else (- RZI_ERR_NOT_READY, cell, s))"

definition usp_test_cw :: "('m, 's, 'e) usp_lora_env_scheme \<Rightarrow> u32 \<Rightarrow> int \<Rightarrow> u32 \<Rightarrow> ('m, 'z) usp_lora_scheme op" where
  "usp_test_cw E frequency power_dbm duration_ms = in_test_mode E (\<lambda>t. smtc_modem_test_tx_cw E frequency power_dbm)"

definition usp_test_tone :: "('m, 's, 'e) usp_lora_env_scheme \<Rightarrow> ('m, 'z) usp_lora_scheme op" where
  "usp_test_tone E s = (let current = u_config s in usp_test_cw E (frequency_hz current) (tx_power_dbm current) 0 s)"

definition usp_test_tx :: "('m, 's, 'e) usp_lora_env_scheme \<Rightarrow> u32 \<Rightarrow> ('m, 'z) usp_lora_scheme op" where
  "usp_test_tx E packet_count =
     in_test_mode E (\<lambda>t. let c = u_config t in smtc_modem_test_tx_lora E
       \<lparr>tl_payload = replicate 16 0, tl_frequency_hz = frequency_hz c, tl_tx_power_dbm = tx_power_dbm c, tl_sf = spreading_factor c,
        tl_bw = map_bandwidth (bandwidth c), tl_cr = ucast (coding_rate c) + 1, tl_sync_word = test_sync (sync_word c),
        tl_invert_iq = iq_inverted c, tl_preamble_size = preamble_length c, tl_nb_of_tx = packet_count, tl_delay_ms = 0\<rparr>)"

definition usp_test_rx :: "('m, 's, 'e) usp_lora_env_scheme \<Rightarrow> u32 \<Rightarrow> ('m, 'z) usp_lora_scheme op" where
  "usp_test_rx E packet_count = usp_receive E RX_CONTINUOUS"

definition usp_test_stop :: "('m, 's, 'e) usp_lora_env_scheme \<Rightarrow> ('m, 'z) usp_lora_scheme op" where
  "usp_test_stop E s = (if test_mode s then modem_call (smtc_modem_test_nop E True) s else (0, s))"

text \<open>The queue is emptied message by message; each get takes one away, so its length bounds the loop.\<close>

fun poll_rx :: "('m, 's, 'e) usp_lora_env_scheme \<Rightarrow> nat \<Rightarrow> rx_packet list \<Rightarrow> lora_event list \<times> rx_packet list" where
  "poll_rx E 0 q = ([], q)"
| "poll_rx E (Suc k) q =
     (case rx_msgq_get E q of
        None \<Rightarrow> ([], q)
      | Some (p, q') \<Rightarrow> (case poll_rx E k q' of (evs, r) \<Rightarrow>
          (Lora_rx (Some (rp_data p)) (rp_size p) (rp_rssi_dbm p) (rp_snr_quarter_db p) # evs, r)))"

definition usp_poll :: "('m, 's, 'e) usp_lora_env_scheme \<Rightarrow> ('m, 'z) usp_lora_scheme \<Rightarrow> lora_event list \<times> ('m, 'z) usp_lora_scheme" where
  "usp_poll E s =
     (let tx = (if u_tx_done s then [Lora_tx_done (u_tx_error s)] else []) in
      case poll_rx E (Suc (length (rx_queue s))) (rx_queue s) of (evs, q) \<Rightarrow>
        (tx @ evs, s\<lparr>u_tx_done := False, rx_queue := q\<rparr>))"

text \<open>Only \<open>poll\<close> publishes; the other operations give a code.\<close>

definition quiet :: "'x op \<Rightarrow> 'x lop" where
  "quiet f x = (case f x of (rc, y) \<Rightarrow> (rc, [], y))"

definition usp_lora_backend :: "('m, 's, 'e) usp_lora_env_scheme \<Rightarrow> ('m, 'z) usp_lora_scheme rzi_lora_backend_api" where
  "usp_lora_backend E =
     \<lparr>lb_start = Some (\<lambda>m. quiet (usp_start E m)), lb_stop = Some (quiet (usp_stop E)), lb_apply_config = Some (\<lambda>c. quiet (usp_apply c)),
      lb_send = Some (\<lambda>d n. quiet (usp_send E d n)), lb_receive = Some (\<lambda>t. quiet (usp_receive E t)),
      lb_test_rssi = Some (quiet (usp_test_rssi E)),
      lb_test_get_rssi = Some (\<lambda>cell x. case usp_test_get_rssi E cell x of (rc, v, y) \<Rightarrow> (rc, v, [], y)),
      lb_test_tone = Some (quiet (usp_test_tone E)), lb_test_tx = Some (\<lambda>k. quiet (usp_test_tx E k)),
      lb_test_rx = Some (\<lambda>k. quiet (usp_test_rx E k)), lb_test_cw = Some (\<lambda>f p d. quiet (usp_test_cw E f p d)),
      lb_test_stop = Some (quiet (usp_test_stop E)), lb_poll = Some (\<lambda>x. case usp_poll E x of (evs, y) \<Rightarrow> (0, evs, y))\<rparr>"

section \<open>Frames\<close>

text \<open>
  A predicate of the state that does not look at what the transactions change: every operation that sends nothing and
  changes no configuration keeps it.
\<close>

locale usp_frame =
  fixes E :: "('m, 's, 'e) usp_lora_env_scheme" and I :: "('m, 'z) usp_lora_scheme \<Rightarrow> bool"
  assumes fr_modem: "I s \<Longrightarrow> I (s\<lparr>modem := m\<rparr>)"
    and fr_init: "I s \<Longrightarrow> I (s\<lparr>initialized := b\<rparr>)"
    and fr_opened: "I s \<Longrightarrow> I (s\<lparr>opened := b\<rparr>)"
    and fr_test: "I s \<Longrightarrow> I (s\<lparr>test_mode := b\<rparr>)"
    and fr_busy: "I s \<Longrightarrow> I (s\<lparr>tx_busy := b\<rparr>)"
    and fr_active: "I s \<Longrightarrow> I (s\<lparr>u_rx_active := b\<rparr>)"
    and fr_continuous: "I s \<Longrightarrow> I (s\<lparr>rx_continuous := b\<rparr>)"
    and fr_deadline: "I s \<Longrightarrow> I (s\<lparr>rx_deadline_ms := d\<rparr>)"
    and fr_done: "I s \<Longrightarrow> I (s\<lparr>u_tx_done := b\<rparr>)"
    and fr_error: "I s \<Longrightarrow> I (s\<lparr>u_tx_error := err\<rparr>)"
    and fr_buffer: "I s \<Longrightarrow> I (s\<lparr>rx_buffer := overlay (take (length (rx_buffer s)) w) (rx_buffer s)\<rparr>)"
    and fr_put: "I s \<Longrightarrow> rx_size r > 0 \<Longrightarrow> I (s\<lparr>rx_queue := snd (rx_msgq_put E (received_packet r (rx_buffer s)) (rx_queue s))\<rparr>)"
    and fr_purge: "I s \<Longrightarrow> I (s\<lparr>rx_queue := []\<rparr>)"
    and fr_get: "I s \<Longrightarrow> I (s\<lparr>rx_queue := snd (poll_rx E k (rx_queue s))\<rparr>)"
begin

lemmas fr_updates = fr_modem fr_init fr_opened fr_test fr_busy fr_active fr_continuous fr_deadline fr_done fr_error fr_buffer
  fr_purge

lemma fr_submit: "keeps I (usp_submit E i is_tx n timeout)"
  by (rule keepsI) (simp add: usp_submit_def fr_modem split: prod.splits)

lemma fr_window: "keeps I (submit_rx_window E)"
  by (rule keepsI) (auto simp: submit_rx_window_def Let_def intro: keepsD [OF fr_submit])

lemma fr_tx_done: "I s \<Longrightarrow> I (usp_on_tx_done status s)"
  by (simp add: usp_on_tx_done_def Let_def fr_busy fr_error fr_done)

lemma fr_rx_done:
  assumes "I s"
  shows "I (usp_on_rx_done E status r s)"
proof -
  define t where "t = (if status = RP_STATUS_RX_PACKET \<and> rx_size r > 0
    then s\<lparr>rx_queue := snd (rx_msgq_put E (received_packet r (rx_buffer s)) (rx_queue s))\<rparr> else s)"
  have "I t" using assms fr_put unfolding t_def by simp
  moreover obtain rc u where u: "submit_rx_window E t = (rc, u)" by fastforce
  moreover have "I u" using keeps_pair [OF fr_window \<open>I t\<close> u] .
  moreover have "usp_on_rx_done E status r s = (if \<not> u_rx_active t then t
      else if \<not> (rx_continuous t \<or> status = RP_STATUS_TASK_ABORTED) then t\<lparr>u_rx_active := False\<rparr>
      else if rc \<noteq> 0 then u\<lparr>u_rx_active := False\<rparr> else u)"
    unfolding usp_on_rx_done_def t_def [symmetric] using u by (simp add: Let_def)
  ultimately show ?thesis by (simp add: fr_active)
qed

lemma fr_engine: "I s \<Longrightarrow> I (usp_engine E cb s)"
  by (cases cb) (simp_all add: usp_engine_def fr_tx_done fr_rx_done fr_buffer)

lemma fr_engine_all: "I s \<Longrightarrow> I (fold (usp_engine E) cbs s)"
  by (induction cbs arbitrary: s) (simp_all add: fr_engine)

lemma fr_abort: "I s \<Longrightarrow> I (rac_abort E i s)"
  by (simp add: rac_abort_def fr_modem fr_engine_all split: prod.splits)

lemma fr_abort_p2p: "I s \<Longrightarrow> I (abort_p2p E s)"
  by (simp add: abort_p2p_def Let_def fr_abort fr_active)

lemma fr_open: "keeps I (open_radio E)"
  by (rule keepsI) (simp add: open_radio_def fr_modem fr_opened split: prod.splits)

lemma fr_call: "keeps I (modem_call f)"
  by (rule keepsI) (simp add: modem_call_def fr_modem split: prod.splits)

lemma fr_enter: "keeps I (enter_test_mode E)"
proof (rule keepsI)
  fix s assume "I s"
  obtain rc t where t: "modem_call (smtc_modem_test_start E) (abort_p2p E s) = (rc, t)" by fastforce
  then have "I t" using keeps_pair [OF fr_call fr_abort_p2p [OF \<open>I s\<close>] t] by simp
  with t \<open>I s\<close> show "I (snd (enter_test_mode E s))" by (simp add: enter_test_mode_def fr_test)
qed

lemma fr_leave: "keeps I (leave_test_mode E)"
proof (rule keepsI)
  fix s assume "I s"
  obtain rc t where t: "modem_call (smtc_modem_test_stop E) s = (rc, t)" by fastforce
  then have "I t" using keeps_pair [OF fr_call \<open>I s\<close> t] by simp
  with t \<open>I s\<close> show "I (snd (leave_test_mode E s))" by (simp add: leave_test_mode_def fr_test)
qed

lemma fr_stop: "keeps I (usp_stop E)"
proof (rule keepsI)
  fix s assume "I s"
  obtain rc t where t: "leave_test_mode E ((abort_p2p E s)\<lparr>tx_busy := False\<rparr>) = (rc, t)" by fastforce
  then have "I t" using keeps_pair [OF fr_leave fr_busy [OF fr_abort_p2p [OF \<open>I s\<close>]] t] by simp
  with t show "I (snd (usp_stop E s))" by (simp add: usp_stop_def fr_done fr_purge)
qed

lemma fr_receive: "keeps I (usp_receive E timeout)"
proof (rule keepsI)
  fix s assume "I s"
  define a where "a = rac_abort E RX_ID (s\<lparr>u_rx_active := False\<rparr>)"
  obtain rc t where t: "leave_test_mode E a = (rc, t)" by fastforce
  have a: "I a" unfolding a_def by (intro fr_abort fr_active \<open>I s\<close>)
  then have It: "I t" using keeps_pair [OF fr_leave a t] by simp
  obtain rc' u where u: "submit_rx_window E (t\<lparr>rx_continuous := (timeout = RX_CONTINUOUS),
      rx_deadline_ms := k_uptime_get E (modem t) + uint timeout\<rparr>) = (rc', u)" by fastforce
  then have "I u" using keeps_pair [OF fr_window fr_deadline [OF fr_continuous [OF It]] u] by simp
  with a It t u show "I (snd (usp_receive E timeout s))" by (simp add: usp_receive_def a_def Let_def fr_active)
qed

lemma fr_in_test: "keeps I (in_test_mode E f)"
proof (rule keepsI)
  fix s assume "I s"
  obtain rc t where t: "enter_test_mode E s = (rc, t)" by fastforce
  then have "I t" using keeps_pair [OF fr_enter \<open>I s\<close> t] by simp
  with t show "I (snd (in_test_mode E f s))" using keepsD [OF fr_call, of t] by (simp add: in_test_mode_def)
qed

lemma fr_tests:
  "keeps I (usp_test_rssi E)" "keeps I (usp_test_cw E f p d)" "keeps I (usp_test_tone E)" "keeps I (usp_test_tx E k)"
  "keeps I (usp_test_rx E k)" "keeps I (usp_test_stop E)"
  using fr_in_test fr_receive fr_call
  by (simp_all add: usp_test_rssi_def usp_test_cw_def usp_test_tone_def usp_test_tx_def usp_test_rx_def usp_test_stop_def
      keeps_def Let_def)

lemma fr_get_rssi: "I s \<Longrightarrow> usp_test_get_rssi E cell s = (rc, v, t) \<Longrightarrow> I t"
  by (auto simp: usp_test_get_rssi_def fr_modem split: if_splits prod.splits)

lemma fr_poll: "I s \<Longrightarrow> usp_poll E s = (evs, t) \<Longrightarrow> I t"
  using fr_get [OF fr_done, of s "Suc (length (rx_queue s))" False] by (auto simp: usp_poll_def Let_def split: prod.splits)

end

text \<open>A predicate that does not look at the transmit buffer either is kept by sending.\<close>

locale usp_frame_send = usp_frame +
  assumes fr_data: "I s \<Longrightarrow> length d \<le> RZI_LORA_MAX_PAYLOAD \<Longrightarrow> I (s\<lparr>tx_buffer := overlay d (tx_buffer s)\<rparr>)"
begin

lemma fr_send:
  assumes "n \<le> RZI_LORA_MAX_PAYLOAD"
  shows "keeps I (usp_send E data n)"
proof (rule keepsI)
  fix s assume "I s"
  obtain rc t where t: "leave_test_mode E s = (rc, t)" by fastforce
  then have It: "I t" using keeps_pair [OF fr_leave \<open>I s\<close> t] by simp
  obtain rc' u where u: "usp_submit E TX_ID True (of_nat n) 0 (t\<lparr>tx_buffer := overlay (take n data) (tx_buffer t)\<rparr>) = (rc', u)"
    by fastforce
  have "I (t\<lparr>tx_buffer := overlay (take n data) (tx_buffer t)\<rparr>)" using fr_data [OF It, of "take n data"] assms by simp
  then have "I u" using keeps_pair [OF fr_submit _ u] by simp
  with It t u show "I (snd (usp_send E data n s))" by (simp add: usp_send_def fr_busy)
qed

end

end
