(* ===== verification/Rzi_Lora_Radio.thy ===== *)
theory Rzi_Lora_Radio
  imports Rzi_Lora_Usp
begin

text \<open>
  What the raw LoRa service relies on in its backend, as two locales: \<open>radio_backend\<close>, every operation of the table keeps an
  invariant of the radio, and \<open>configured_radio\<close>, the radio works with the configuration it was given last. Both
  are interpreted on the backend over the Semtech stack, and the service and this backend are composed: a run is
  any sequence of service calls and of transactions the engine completes.
\<close>

section \<open>The contract of a backend\<close>

definition callbacks_keep ::
  "(('x, 'm) lora_state_scheme \<Rightarrow> bool) \<Rightarrow> ('x, ('x, 'm) lora_state_scheme, 'e) lora_env_scheme \<Rightarrow> bool" where
  "callbacks_keep P E \<longleftrightarrow> (\<forall>f err u s. P s \<longrightarrow> P (run_tx_done E f err u s))
     \<and> (\<forall>f d n r q u s. P s \<longrightarrow> P (run_rx_done E f d n r q u s))"

lemma publish_keeps: "callbacks_keep P E \<Longrightarrow> P s \<Longrightarrow> P (lora_publish E ev s)"
  by (simp add: callbacks_keep_def lora_publish_def rzi_lora_publish_tx_done_def rzi_lora_publish_rx_def Let_def
      split: lora_event.splits option.splits)

lemma publish_all_keeps: "callbacks_keep P E \<Longrightarrow> P s \<Longrightarrow> P (fold (lora_publish E) evs s)"
  by (induction evs arbitrary: s) (simp_all add: publish_keeps)

lemma run_lop_keeps:
  assumes "callbacks_keep P E" and "P (s\<lparr>lora_radio := snd (snd (f (lora_radio s)))\<rparr>)"
  shows "P (snd (run_lop E f s))"
  using publish_all_keeps [OF assms] by (simp add: run_lop_def split_beta)

definition lop_keeps :: "('x \<Rightarrow> bool) \<Rightarrow> 'x lop \<Rightarrow> bool" where
  "lop_keeps G f \<longleftrightarrow> (\<forall>x. G x \<longrightarrow> G (snd (snd (f x))))"

lemma lop_keeps_quiet: "keeps G f \<Longrightarrow> lop_keeps G (quiet f)"
  by (auto simp: lop_keeps_def quiet_def keeps_def split: prod.splits)

text \<open>The operations of a table that neither start the radio nor configure it, with the arguments the service may give.\<close>

inductive radio_op :: "'x rzi_lora_backend_api \<Rightarrow> 'x lop \<Rightarrow> bool" for api where
  ro_stop: "lb_stop api = Some g \<Longrightarrow> radio_op api g"
| ro_send: "lb_send api = Some fs \<Longrightarrow> n \<le> RZI_LORA_MAX_PAYLOAD \<Longrightarrow> radio_op api (fs d n)"
| ro_receive: "lb_receive api = Some fr \<Longrightarrow> radio_op api (fr k)"
| ro_rssi: "lb_test_rssi api = Some g \<Longrightarrow> radio_op api g"
| ro_get_rssi: "lb_test_get_rssi api = Some fg \<Longrightarrow> radio_op api (\<lambda>x. case fg v x of (rc, _, evs, y) \<Rightarrow> (rc, evs, y))"
| ro_tone: "lb_test_tone api = Some g \<Longrightarrow> radio_op api g"
| ro_tx: "lb_test_tx api = Some fr \<Longrightarrow> radio_op api (fr k)"
| ro_rx: "lb_test_rx api = Some fr \<Longrightarrow> radio_op api (fr k)"
| ro_cw: "lb_test_cw api = Some fw \<Longrightarrow> radio_op api (fw k p k')"
| ro_test_stop: "lb_test_stop api = Some g \<Longrightarrow> radio_op api g"
| ro_poll: "lb_poll api = Some g \<Longrightarrow> radio_op api g"

text \<open>
  A predicate of the service that these operations, the callbacks and the initialisation and configuration calls keep holds
  along every run.
\<close>

lemma lora_step_keeps:
  fixes E :: "('x, ('x, 'm) lora_state_scheme, 'e) lora_env_scheme" and P :: "('x, 'm) lora_state_scheme \<Rightarrow> bool"
  assumes cb: "callbacks_keep P E"
    and isr: "\<And>s b. P s \<Longrightarrow> P (s\<lparr>lora_isr := b\<rparr>)" and reg: "\<And>s c. P s \<Longrightarrow> P (s\<lparr>lora_callbacks := c\<rparr>)"
    and act: "\<And>s b. P s \<Longrightarrow> P (s\<lparr>rx_active := b\<rparr>)" and stopped: "\<And>s. P s \<Longrightarrow> P (s\<lparr>lora_started := False\<rparr>)"
    and init: "\<And>s m. P s \<Longrightarrow> P (snd (rzi_lora_init E m s))" and config: "\<And>s c. P s \<Longrightarrow> P (snd (rzi_lora_set_config E c s))"
    and ops: "\<And>s g. P s \<Longrightarrow> radio_op (lora_backend E) g \<Longrightarrow> P (s\<lparr>lora_radio := snd (snd (g (lora_radio s)))\<rparr>)"
    and step: "lora_step E s t" and P: "P s"
  shows "P t"
proof -
  have run: "P (snd (run_lop E g s))" if "radio_op (lora_backend E) g" for g
    using run_lop_keeps [OF cb, where s = s and f = g] ops [OF P that] by simp
  then have run': "P u" if "radio_op (lora_backend E) g" "run_lop E g s = (rc, u)" for g rc u
    using that by (metis snd_conv)
  have test: "P (snd (call_test E fn s))" if "\<And>g. fn = Some g \<Longrightarrow> radio_op (lora_backend E) g" for fn
    using run that P by (cases fn) (simp_all add: call_test_def Let_def)
  show ?thesis using step
  proof cases
    case (step_context b)
    then show ?thesis using isr P by simp
  next
    case (step_publish ev)
    then show ?thesis using publish_keeps [OF cb P] by simp
  next
    case (step_register c)
    then show ?thesis using reg P by (simp add: rzi_lora_register_callbacks_def Let_def split: option.splits)
  next
    case (step_init m)
    then show ?thesis using init [OF P] by simp
  next
    case step_stop
    obtain rc u where u: "(case lb_stop (lora_backend E) of None \<Rightarrow> (0, s) | Some f \<Rightarrow> run_lop E f s) = (rc, u)" by fastforce
    then have "P u" using run' [OF ro_stop] P by (auto split: option.splits)
    then show ?thesis using step_stop u P act stopped by (simp add: rzi_lora_stop_def Let_def)
  next
    case (step_config c)
    then show ?thesis using config [OF P] by simp
  next
    case (step_send data n)
    have "n \<le> RZI_LORA_MAX_PAYLOAD \<Longrightarrow> lb_send (lora_backend E) = Some f \<Longrightarrow> P (snd (run_lop E (f d n) s))" for f d
      using run [OF ro_send] by blast
    then show ?thesis using step_send P by (simp add: rzi_lora_send_def Let_def split: option.splits)
  next
    case (step_receive timeout)
    have "lb_receive (lora_backend E) = Some f \<Longrightarrow> run_lop E (f timeout) s = (rc, u) \<Longrightarrow> P u" for f rc u
      using run' [OF ro_receive] by blast
    then show ?thesis using step_receive P act by (simp add: rzi_lora_receive_def Let_def split: option.splits prod.splits)
  next
    case step_poll
    then show ?thesis using run [OF ro_poll] P by (simp add: rzi_lora_poll_def split: option.splits)
  next
    case (step_get_rssi out)
    have "P (fold (lora_publish E) evs (s\<lparr>lora_radio := y\<rparr>))"
      if "lb_test_get_rssi (lora_backend E) = Some fg" "fg v (lora_radio s) = (rc, v', evs, y)" for fg v rc v' evs y
      using publish_all_keeps [OF cb] ops [OF P ro_get_rssi [OF that(1), of v]] that(2) by simp
    then show ?thesis using step_get_rssi P
      by (simp add: rzi_lora_test_get_rssi_def Let_def split: option.splits prod.splits)
  next
    case step_rssi
    show ?thesis unfolding step_rssi rzi_lora_test_rssi_def by (rule test) (rule ro_rssi)
  next
    case step_tone
    show ?thesis unfolding step_tone rzi_lora_test_tone_def by (rule test) (rule ro_tone)
  next
    case (step_tx k)
    show ?thesis unfolding step_tx rzi_lora_test_tx_def by (rule test) (auto intro: ro_tx)
  next
    case (step_rx k)
    show ?thesis unfolding step_rx rzi_lora_test_rx_def by (rule test) (auto intro: ro_rx)
  next
    case (step_cw fr pw d)
    show ?thesis unfolding step_cw rzi_lora_test_cw_def by (rule test) (auto intro: ro_cw)
  next
    case step_test_stop
    show ?thesis unfolding step_test_stop rzi_lora_test_stop_def by (rule test) (rule ro_test_stop)
  qed
qed

locale radio_backend =
  fixes api :: "'x rzi_lora_backend_api" and G :: "'x \<Rightarrow> bool"
  assumes rb_start: "lb_start api = Some f \<Longrightarrow> lop_keeps G (f m)"
    and rb_apply: "lb_apply_config api = Some fc \<Longrightarrow> lop_keeps G (fc c)"
    and rb_op: "radio_op api g \<Longrightarrow> lop_keeps G g"
begin

lemma rb_run:
  fixes E :: "('x, ('x, 'm) lora_state_scheme, 'e) lora_env_scheme"
  assumes "callbacks_keep (\<lambda>s. G (lora_radio s)) E" and "lop_keeps G f" and "G (lora_radio s)"
  shows "G (lora_radio (snd (run_lop E f s)))"
  using run_lop_keeps [OF assms(1), where s = s and f = f] assms(2,3) by (simp add: lop_keeps_def)

lemma rb_apply_stored:
  fixes E :: "('x, ('x, 'm) lora_state_scheme, 'e) lora_env_scheme"
  assumes "lora_backend E = api" and "callbacks_keep (\<lambda>s. G (lora_radio s)) E" and "G (lora_radio s)"
  shows "G (lora_radio (snd (apply_stored_config E s)))"
  using rb_run [OF assms(2) rb_apply assms(3)] assms(1,3) by (simp add: apply_stored_config_def split: option.splits)

lemma rb_init:
  fixes E :: "('x, ('x, 'm) lora_state_scheme, 'e) lora_env_scheme"
  assumes "lora_backend E = api" and "callbacks_keep (\<lambda>s. G (lora_radio s)) E" and "G (lora_radio s)"
  shows "G (lora_radio (snd (rzi_lora_init E m s)))"
proof (cases "check_thread s \<noteq> 0 \<or> m = None \<or> lb_start api = None")
  case False
  then obtain v f where v: "check_thread s = 0" "m = Some v" "lb_start api = Some f" by auto
  obtain rc u where u: "run_lop E (f v) s = (rc, u)" by fastforce
  have Gu: "G (lora_radio u)" using rb_run [OF assms(2) rb_start [OF v(3)] assms(3)] u by (metis snd_conv)
  then show ?thesis using rb_apply_stored [OF assms(1,2)] v u assms(1) by (simp add: rzi_lora_init_def Let_def)
qed (use assms in \<open>auto simp: rzi_lora_init_def Let_def split: option.splits\<close>)

text \<open>The service keeps the invariant of its radio.\<close>

lemma rb_step:
  fixes E :: "('x, ('x, 'm) lora_state_scheme, 'e) lora_env_scheme"
  assumes "lora_backend E = api" and cb: "callbacks_keep (\<lambda>s. G (lora_radio s)) E"
    and "lora_step E s t" and "G (lora_radio s)"
  shows "G (lora_radio t)"
proof (rule lora_step_keeps [where P = "\<lambda>s. G (lora_radio s)", OF cb])
  show "G (lora_radio (snd (rzi_lora_set_config E c u)))" if "G (lora_radio u)" for u c
    using rb_apply_stored [OF assms(1,2), of "u\<lparr>lora_config := the c\<rparr>"] that
    by (auto simp: rzi_lora_set_config_def Let_def split: option.splits)
qed (use assms rb_init rb_op in \<open>auto simp: lop_keeps_def\<close>)

end

definition in_sync :: "('x \<Rightarrow> rzi_lora_config) \<Rightarrow> ('x \<Rightarrow> rzi_lora_modulation) \<Rightarrow> ('x, 'm) lora_state_scheme \<Rightarrow> bool" where
  "in_sync cfg md s \<longleftrightarrow> (lora_started s \<longrightarrow> cfg (lora_radio s) = lora_config s \<and> md (lora_radio s) = modulation s)"

text \<open>
  The radio holds a configuration and a modulation: a successful start sets the modulation, configuring never fails and
  replaces the configuration, and nothing else touches them.
\<close>

locale configured_radio =
  fixes api :: "'x rzi_lora_backend_api" and cfg :: "'x \<Rightarrow> rzi_lora_config" and md :: "'x \<Rightarrow> rzi_lora_modulation"
  assumes cr_start: "lb_start api = Some f \<Longrightarrow> f m x = (rc, evs, y) \<Longrightarrow>
      evs = [] \<and> cfg y = cfg x \<and> md y = (if rc = 0 then m else md x)"
    and cr_apply: "\<exists>f. lb_apply_config api = Some f \<and> (\<forall>c x. \<exists>y. f c x = (0, [], y) \<and> cfg y = c \<and> md y = md x)"
    and cr_op: "radio_op api g \<Longrightarrow> lop_keeps (\<lambda>x. cfg x = c \<and> md x = m) g"
begin

lemma apply_syncs:
  fixes E :: "('x, ('x, 'm) lora_state_scheme, 'e) lora_env_scheme"
  assumes "lora_backend E = api" and "md (lora_radio s) = modulation s"
  shows "in_sync cfg md (snd (apply_stored_config E s))"
proof -
  obtain f y where f: "lb_apply_config api = Some f" "f (lora_config s) (lora_radio s) = (0, [], y)"
      "cfg y = lora_config s" "md y = md (lora_radio s)"
    using cr_apply by metis
  then show ?thesis using assms by (simp add: apply_stored_config_def run_lop_def in_sync_def)
qed

lemma init_syncs:
  fixes E :: "('x, ('x, 'm) lora_state_scheme, 'e) lora_env_scheme"
  assumes "lora_backend E = api" and "in_sync cfg md s"
  shows "in_sync cfg md (snd (rzi_lora_init E m s))"
proof (cases "check_thread s \<noteq> 0 \<or> m = None \<or> lb_start api = None")
  case False
  then obtain v f where v: "check_thread s = 0" "m = Some v" "lb_start api = Some f" by auto
  obtain rc evs y where y: "f v (lora_radio s) = (rc, evs, y)" by (metis prod_cases3)
  note start = cr_start [OF v(3) y]
  then have run: "run_lop E (f v) s = (rc, s\<lparr>lora_radio := y\<rparr>)" by (simp add: run_lop_def y)
  show ?thesis
  proof (cases "rc = 0")
    case True
    with v run start assms(1) apply_syncs [OF assms(1), of "s\<lparr>lora_radio := y, modulation := v, lora_started := True\<rparr>"]
    show ?thesis by (simp add: rzi_lora_init_def Let_def)
  next
    case False
    with v run start assms show ?thesis by (simp add: rzi_lora_init_def Let_def in_sync_def)
  qed
qed (use assms in \<open>auto simp: rzi_lora_init_def Let_def split: option.splits\<close>)

lemma sync_step:
  fixes E :: "('x, ('x, 'm) lora_state_scheme, 'e) lora_env_scheme"
  assumes "lora_backend E = api" and cb: "callbacks_keep (in_sync cfg md) E" and "lora_step E s t" and "in_sync cfg md s"
  shows "in_sync cfg md t"
proof (rule lora_step_keeps [where P = "in_sync cfg md", OF cb])
  show "in_sync cfg md (snd (rzi_lora_set_config E c u))" if "in_sync cfg md u" for u c
    using apply_syncs [OF assms(1), of "u\<lparr>lora_config := the c\<rparr>"] that
    by (auto simp: rzi_lora_set_config_def Let_def in_sync_def split: option.splits)
  show "in_sync cfg md (u\<lparr>lora_radio := snd (snd (g (lora_radio u)))\<rparr>)" if "in_sync cfg md u" "radio_op (lora_backend E) g" for u g
    using cr_op [of g "cfg (lora_radio u)" "md (lora_radio u)"] that assms(1) by (auto simp: lop_keeps_def in_sync_def)
qed (use assms init_syncs in \<open>auto simp: in_sync_def\<close>)

end

section \<open>The backend over the Semtech stack\<close>

context usp_frame
begin

text \<open>Every operation but sending keeps a frame.\<close>

lemma fr_radio_op:
  assumes "radio_op (usp_lora_backend E) g"
  shows "(\<exists>d n. n \<le> RZI_LORA_MAX_PAYLOAD \<and> g = quiet (usp_send E d n)) \<or> lop_keeps I g"
  using assms
proof cases
  case (ro_get_rssi fg v)
  then show ?thesis using fr_get_rssi by (auto simp: usp_lora_backend_def lop_keeps_def split: prod.splits)
next
  case ro_poll
  then show ?thesis using fr_poll [OF _ surjective_pairing] by (auto simp: usp_lora_backend_def lop_keeps_def)
next
  case (ro_send fs n d)
  then show ?thesis by (auto simp: usp_lora_backend_def)
qed (use fr_stop fr_receive fr_tests in \<open>auto simp: usp_lora_backend_def intro!: lop_keeps_quiet disjI2\<close>)

lemma fr_start_keeps:
  assumes "\<And>s m. I s \<Longrightarrow> I (s\<lparr>u_modulation := m\<rparr>)"
  shows "keeps I (usp_start E m)"
proof (rule keepsI)
  fix s assume "I s"
  obtain rc t where t: "open_radio E (rzi_usp_init E s) = (rc, t)" by fastforce
  have "I (rzi_usp_init E s)" using \<open>I s\<close> by (simp add: rzi_usp_init_def fr_init fr_modem)
  then have "I t" using keeps_pair [OF fr_open _ t] by simp
  with t assms show "I (snd (usp_start E m s))" by (simp add: usp_start_def)
qed

end

context usp_frame_send
begin

lemma fr_any_op: "radio_op (usp_lora_backend E) g \<Longrightarrow> lop_keeps I g"
  using fr_radio_op fr_send lop_keeps_quiet by blast

end

text \<open>The kernel's message queue of two packets.\<close>

definition usp_msgq :: "('m, 's, 'e) usp_lora_env_scheme \<Rightarrow> bool" where
  "usp_msgq E \<longleftrightarrow> (\<forall>p q. if length q < 2 then rx_msgq_put E p q = (0, q @ [p]) else fst (rx_msgq_put E p q) \<noteq> 0 \<and> snd (rx_msgq_put E p q) = q)
     \<and> (\<forall>q. rx_msgq_get E q = (case q of [] \<Rightarrow> None | p # q' \<Rightarrow> Some (p, q')))"

definition packet_ok :: "rx_packet \<Rightarrow> bool" where
  "packet_ok p \<longleftrightarrow> 0 < rp_size p \<and> rp_size p \<le> RZI_LORA_MAX_PAYLOAD \<and> length (rp_data p) = rp_size p"

definition usp_radio_ok :: "('m, 's, 'e) usp_lora_env_scheme \<Rightarrow> ('m, 'z) usp_lora_scheme \<Rightarrow> bool" where
  "usp_radio_ok E x \<longleftrightarrow> usp_msgq E \<and> length (rx_queue x) \<le> 2 \<and> list_all packet_ok (rx_queue x)
     \<and> length (rx_buffer x) = RZI_LORA_MAX_PAYLOAD \<and> length (tx_buffer x) = RZI_LORA_MAX_PAYLOAD"

definition packet_event :: "rx_packet \<Rightarrow> lora_event" where
  "packet_event p = Lora_rx (Some (rp_data p)) (rp_size p) (rp_rssi_dbm p) (rp_snr_quarter_db p)"

lemma msgq_put:
  assumes "usp_msgq E"
  shows "snd (rx_msgq_put E p q) = (if length q < 2 then q @ [p] else q)"
  using assms unfolding usp_msgq_def by (metis (mono_tags, lifting) snd_conv)

lemma poll_rx_take:
  assumes "usp_msgq E"
  shows "poll_rx E k q = (map packet_event (take k q), drop k q)"
proof (induction k arbitrary: q)
  case (Suc k)
  with assms show ?case by (cases q) (simp_all add: usp_msgq_def packet_event_def)
qed simp

lemma received_packet_ok:
  assumes "length buffer = RZI_LORA_MAX_PAYLOAD" and "rx_size r > 0"
  shows "packet_ok (received_packet r buffer)"
  using assms by (simp add: packet_ok_def received_packet_def Let_def unat_gt_0 word_gt_0)

interpretation radio_frame: usp_frame_send E "usp_radio_ok E"
proof unfold_locales
  fix s and r :: smtc_rac_data_result
  assume "usp_radio_ok E s" and "rx_size r > 0"
  then show "usp_radio_ok E (s\<lparr>rx_queue := snd (rx_msgq_put E (received_packet r (rx_buffer s)) (rx_queue s))\<rparr>)"
    by (auto simp: usp_radio_ok_def msgq_put received_packet_ok)
next
  fix s k
  assume ok: "usp_radio_ok E s"
  then have "list_all packet_ok (drop k (rx_queue s))" by (auto simp: usp_radio_ok_def list_all_iff dest: in_set_dropD)
  with ok show "usp_radio_ok E (s\<lparr>rx_queue := snd (poll_rx E k (rx_queue s))\<rparr>)" by (auto simp: usp_radio_ok_def poll_rx_take)
qed (simp_all add: usp_radio_ok_def)

interpretation config_frame: usp_frame_send E "\<lambda>x. u_config x = c \<and> u_modulation x = m"
  by unfold_locales simp_all

interpretation buffer_frame: usp_frame E "\<lambda>x. tx_buffer x = b"
  by unfold_locales simp_all

interpretation usp_radio: radio_backend "usp_lora_backend E" "usp_radio_ok E"
proof unfold_locales
  fix f m
  assume "lb_start (usp_lora_backend E) = Some f"
  then show "lop_keeps (usp_radio_ok E) (f m)"
    using radio_frame.fr_start_keeps by (auto simp: usp_lora_backend_def usp_radio_ok_def intro!: lop_keeps_quiet)
next
  fix f c
  assume "lb_apply_config (usp_lora_backend E) = Some f"
  then show "lop_keeps (usp_radio_ok E) (f c)"
    by (auto simp: usp_lora_backend_def usp_radio_ok_def usp_apply_def keeps_def intro!: lop_keeps_quiet)
next
  fix g
  assume "radio_op (usp_lora_backend E) g"
  then show "lop_keeps (usp_radio_ok E) g" by (rule radio_frame.fr_any_op)
qed

lemma usp_start_frame:
  assumes "usp_start E m x = (rc, y)"
  shows "u_config y = u_config x" and "u_modulation y = (if rc = 0 then m else u_modulation x)"
proof -
  obtain r t where t: "open_radio E (rzi_usp_init E x) = (r, t)" by fastforce
  have "u_config t = u_config x \<and> u_modulation t = u_modulation x"
    using keeps_pair [OF config_frame.fr_open [of "u_config x" "u_modulation x"] _ t] by (simp add: rzi_usp_init_def)
  with assms t show "u_config y = u_config x" "u_modulation y = (if rc = 0 then m else u_modulation x)"
    by (auto simp: usp_start_def)
qed

interpretation usp_config: configured_radio "usp_lora_backend E" u_config u_modulation
proof unfold_locales
  fix f m x rc evs y
  assume "lb_start (usp_lora_backend E) = Some f" and "f m x = (rc, evs, y)"
  then have "evs = []" "usp_start E m x = (rc, y)" by (auto simp: usp_lora_backend_def quiet_def split: prod.splits)
  then show "evs = [] \<and> u_config y = u_config x \<and> u_modulation y = (if rc = 0 then m else u_modulation x)"
    using usp_start_frame by blast
next
  show "\<exists>f. lb_apply_config (usp_lora_backend E) = Some f
      \<and> (\<forall>c x. \<exists>y. f c x = (0, [], y) \<and> u_config y = c \<and> u_modulation y = u_modulation x)"
    by (auto simp: usp_lora_backend_def quiet_def usp_apply_def)
next
  fix g c m
  assume "radio_op (usp_lora_backend E) g"
  then show "lop_keeps (\<lambda>x. u_config x = c \<and> u_modulation x = m) g" by (rule config_frame.fr_any_op)
qed

section \<open>Service and radio together\<close>

inductive usp_service_step ::
  "('m, 's, 'e) usp_lora_env_scheme \<Rightarrow> (('m, 'z) usp_lora_scheme, (('m, 'z) usp_lora_scheme, 'l) lora_state_scheme, 'f) lora_env_scheme
   \<Rightarrow> (('m, 'z) usp_lora_scheme, 'l) lora_state_scheme \<Rightarrow> (('m, 'z) usp_lora_scheme, 'l) lora_state_scheme \<Rightarrow> bool"
  for U E where
  service_call: "lora_step E s t \<Longrightarrow> usp_service_step U E s t"
| engine_step: "usp_service_step U E s (s\<lparr>lora_radio := usp_engine U cb (lora_radio s)\<rparr>)"

lemma engine_config: "u_config (usp_engine U c x) = u_config x \<and> u_modulation (usp_engine U c x) = u_modulation x"
  by (rule config_frame.fr_engine) simp

lemma usp_service_ok:
  assumes E: "lora_backend E = usp_lora_backend U"
    and cb: "callbacks_keep (\<lambda>s. usp_radio_ok U (lora_radio s)) E" "callbacks_keep (in_sync u_config u_modulation) E"
    and run: "(usp_service_step U E)\<^sup>*\<^sup>* s t" and s: "usp_radio_ok U (lora_radio s)" "in_sync u_config u_modulation s"
  shows "usp_radio_ok U (lora_radio t) \<and> in_sync u_config u_modulation t"
  using run
proof (induction rule: rtranclp_induct)
  case base
  show ?case using s by blast
next
  case (step t u)
  from step.hyps(2) show ?case
  proof cases
    case service_call
    then show ?thesis using usp_radio.rb_step [OF E cb(1)] usp_config.sync_step [OF E cb(2)] step.IH by blast
  next
    case (engine_step c)
    then show ?thesis using engine_step step.IH radio_frame.fr_engine by (auto simp: in_sync_def engine_config)
  qed
qed

lemma submit_modem: "\<exists>m. snd (usp_submit E i is_tx n timeout s) = s\<lparr>modem := m\<rparr>"
  by (auto simp: usp_submit_def split: prod.splits)

lemma window_modem: "\<exists>m. snd (submit_rx_window E s) = s\<lparr>modem := m\<rparr>"
proof (cases "\<not> rx_continuous s \<and> rx_deadline_ms s - k_uptime_get E (modem s) \<le> 0")
  case True
  then have "snd (submit_rx_window E s) = s\<lparr>modem := modem s\<rparr>" by (simp add: submit_rx_window_def)
  then show ?thesis by blast
next
  case False
  then show ?thesis using submit_modem by (cases "rx_continuous s") (simp_all add: submit_rx_window_def Let_def)
qed

lemma rx_done_fields:
  "rx_queue (usp_on_rx_done E st r s) = (if st = RP_STATUS_RX_PACKET \<and> rx_size r > 0
     then snd (rx_msgq_put E (received_packet r (rx_buffer s)) (rx_queue s)) else rx_queue s)"
  "u_tx_done (usp_on_rx_done E st r s) = u_tx_done s"
  "rx_deadline_ms (usp_on_rx_done E st r s) = rx_deadline_ms s" "rx_continuous (usp_on_rx_done E st r s) = rx_continuous s"
  "tx_busy (usp_on_rx_done E st r s) = tx_busy s"
proof -
  define t where "t = (if st = RP_STATUS_RX_PACKET \<and> rx_size r > 0
    then s\<lparr>rx_queue := snd (rx_msgq_put E (received_packet r (rx_buffer s)) (rx_queue s))\<rparr> else s)"
  obtain m where m: "snd (submit_rx_window E t) = t\<lparr>modem := m\<rparr>" using window_modem [of E t] by blast
  have "rx_queue (usp_on_rx_done E st r s) = rx_queue t \<and> u_tx_done (usp_on_rx_done E st r s) = u_tx_done t
      \<and> rx_deadline_ms (usp_on_rx_done E st r s) = rx_deadline_ms t \<and> rx_continuous (usp_on_rx_done E st r s) = rx_continuous t
      \<and> tx_busy (usp_on_rx_done E st r s) = tx_busy t"
    unfolding usp_on_rx_done_def t_def [symmetric] using m by (cases "submit_rx_window E t") (simp add: Let_def)
  then show "rx_queue (usp_on_rx_done E st r s) = (if st = RP_STATUS_RX_PACKET \<and> rx_size r > 0
     then snd (rx_msgq_put E (received_packet r (rx_buffer s)) (rx_queue s)) else rx_queue s)"
    "u_tx_done (usp_on_rx_done E st r s) = u_tx_done s" "rx_deadline_ms (usp_on_rx_done E st r s) = rx_deadline_ms s"
    "rx_continuous (usp_on_rx_done E st r s) = rx_continuous s" "tx_busy (usp_on_rx_done E st r s) = tx_busy s"
    by (simp_all add: t_def)
qed

text \<open>What the service hands over, and what a poll makes of one packet.\<close>

lemma service_send_usp:
  assumes "lora_backend E = usp_lora_backend U" and "rzi_lora_send E (Some d) (length d) s = (0, t)"
  shows "usp_send U (apply_cipher d (length d) (lora_config s)) (length d) (lora_radio s) = (0, lora_radio t)"
    and "d \<noteq> []" and "length d \<le> RZI_LORA_MAX_PAYLOAD"
proof -
  obtain rc y where y: "usp_send U (apply_cipher d (length d) (lora_config s)) (length d) (lora_radio s) = (rc, y)" by fastforce
  have b: "lb_send (lora_backend E) = Some (\<lambda>d n. quiet (usp_send U d n))" by (simp add: assms(1) usp_lora_backend_def)
  show d: "d \<noteq> []" "length d \<le> RZI_LORA_MAX_PAYLOAD"
    using assms(2) by (auto simp: rzi_lora_send_def Let_def check_thread_def split: if_splits)
  have "check_thread s = 0" "lora_started s" using assms(2) d by (auto simp: rzi_lora_send_def Let_def split: if_splits)
  then have "rzi_lora_send E (Some d) (length d) s = (rc, s\<lparr>lora_radio := y\<rparr>)"
    using b d y by (simp add: rzi_lora_send_def Let_def run_lop_def quiet_def)
  with assms(2) y show "usp_send U (apply_cipher d (length d) (lora_config s)) (length d) (lora_radio s) = (0, lora_radio t)"
    by auto
qed

lemma usp_send_accepted:
  assumes "usp_send E data n x = (0, y)"
  shows "tx_buffer y = overlay (take n data) (tx_buffer x)" and "tx_busy y" and "\<not> tx_busy x" and "\<not> test_mode y"
proof -
  obtain rc t where t: "leave_test_mode E x = (rc, t)" by fastforce
  have "rc = 0" using assms t by (auto simp: usp_send_def split: if_splits)
  then have k: "tx_buffer t = tx_buffer x" "tx_busy t = tx_busy x" "\<not> test_mode t"
    using t by (auto simp: leave_test_mode_def modem_call_def split: if_splits prod.splits)
  obtain m where "snd (usp_submit E TX_ID True (of_nat n) 0 (t\<lparr>tx_buffer := overlay (take n data) (tx_buffer t)\<rparr>))
      = t\<lparr>tx_buffer := overlay (take n data) (tx_buffer t), modem := m\<rparr>"
    using submit_modem [of E TX_ID True "of_nat n" 0 "t\<lparr>tx_buffer := overlay (take n data) (tx_buffer t)\<rparr>"] by auto
  with assms t \<open>rc = 0\<close> k show "tx_buffer y = overlay (take n data) (tx_buffer x)" "tx_busy y" "\<not> tx_busy x" "\<not> test_mode y"
    by (auto simp: usp_send_def split: if_splits prod.splits)
qed

lemma poll_one:
  assumes "lora_backend F = usp_lora_backend V" and "usp_msgq V" and "rx_queue (lora_radio r) = [p]" and "\<not> u_tx_done (lora_radio r)"
  shows "\<exists>y. rx_queue y = [] \<and> rzi_lora_poll F r = lora_publish F (packet_event p) (r\<lparr>lora_radio := y\<rparr>)"
proof -
  let ?y = "(lora_radio r)\<lparr>u_tx_done := False, rx_queue := []\<rparr>"
  have "rzi_lora_poll F r = lora_publish F (packet_event p) (r\<lparr>lora_radio := ?y\<rparr>)"
    using assms by (simp add: rzi_lora_poll_def run_lop_def usp_lora_backend_def usp_poll_def poll_rx_take Let_def del: poll_rx.simps)
  moreover have "rx_queue ?y = []" by simp
  ultimately show ?thesis by blast
qed

section \<open>Transmissions and receptions\<close>

text \<open>
  The steps of the radio while it transmits: any operation of its table, whatever it returns, and any completed
  reception. Left out is what ends a transmission: its completion, a stop, and the radio tests, which abort it.
\<close>

inductive usp_flight_step ::
  "('m, 's, 'e) usp_lora_env_scheme \<Rightarrow> ('m, 'z) usp_lora_scheme \<Rightarrow> ('m, 'z) usp_lora_scheme \<Rightarrow> bool" for E where
  fs_start: "usp_flight_step E x (snd (usp_start E m x))"
| fs_apply: "usp_flight_step E x (snd (usp_apply c x))"
| fs_send: "usp_flight_step E x (snd (usp_send E d n x))"
| fs_receive: "usp_flight_step E x (snd (usp_receive E timeout x))"
| fs_test_rx: "usp_flight_step E x (snd (usp_test_rx E k x))"
| fs_get_rssi: "usp_flight_step E x (snd (snd (usp_test_get_rssi E v x)))"
| fs_test_stop: "usp_flight_step E x (snd (usp_test_stop E x))"
| fs_poll: "usp_flight_step E x (snd (usp_poll E x))"
| fs_received: "usp_flight_step E x (usp_engine E (Rac_rx st r written) x)"

text \<open>Aborting the reception's access id ends receptions, not the transmission of the other id.\<close>

definition rx_abort_lawful :: "('m, 's, 'e) usp_lora_env_scheme \<Rightarrow> bool" where
  "rx_abort_lawful E \<longleftrightarrow> (\<forall>m. list_all (\<lambda>cb. case cb of Rac_rx st r w \<Rightarrow> True | Rac_tx st \<Rightarrow> False) (fst (smtc_rac_abort_radio_submit E RX_ID m)))"

lemma leave_test_frame:
  assumes "leave_test_mode E x = (rc, t)"
  shows "tx_buffer t = tx_buffer x" and "tx_busy t = tx_busy x"
  using assms by (auto simp: leave_test_mode_def modem_call_def split: if_splits prod.splits)

lemma busy_send:
  assumes "tx_busy x"
  shows "fst (usp_send E d n x) \<noteq> 0" and "tx_buffer (snd (usp_send E d n x)) = tx_buffer x" and "tx_busy (snd (usp_send E d n x))"
proof -
  obtain rc t where t: "leave_test_mode E x = (rc, t)" by fastforce
  then show "fst (usp_send E d n x) \<noteq> 0" "tx_buffer (snd (usp_send E d n x)) = tx_buffer x" "tx_busy (snd (usp_send E d n x))"
    using leave_test_frame [OF t] assms by (auto simp: usp_send_def)
qed

lemma start_busy: "tx_busy (snd (usp_start E m x)) = tx_busy x"
  by (simp add: usp_start_def open_radio_def rzi_usp_init_def Let_def split: prod.splits)

lemma received_busy: "tx_busy (usp_engine E (Rac_rx st r w) x) = tx_busy x"
  by (simp add: usp_engine_def rx_done_fields)

lemma received_all_busy:
  "list_all (\<lambda>cb. case cb of Rac_rx st r w \<Rightarrow> True | Rac_tx st \<Rightarrow> False) cbs \<Longrightarrow> tx_busy (fold (usp_engine E) cbs x) = tx_busy x"
  by (induction cbs arbitrary: x) (auto simp: received_busy split: rac_callback.splits)

lemma abort_rx_busy:
  assumes "rx_abort_lawful E"
  shows "tx_busy (rac_abort E RX_ID x) = tx_busy x"
proof -
  obtain cbs m where "smtc_rac_abort_radio_submit E RX_ID (modem x) = (cbs, m)" by fastforce
  moreover from this have "list_all (\<lambda>cb. case cb of Rac_rx st r w \<Rightarrow> True | Rac_tx st \<Rightarrow> False) cbs"
    using assms unfolding rx_abort_lawful_def by (metis fst_conv)
  ultimately show ?thesis by (simp add: rac_abort_def received_all_busy)
qed

lemma receive_busy:
  assumes "rx_abort_lawful E"
  shows "tx_busy (snd (usp_receive E timeout x)) = tx_busy x"
proof -
  define a where "a = rac_abort E RX_ID (x\<lparr>u_rx_active := False\<rparr>)"
  obtain rc t where t: "leave_test_mode E a = (rc, t)" by fastforce
  define v where "v = t\<lparr>rx_continuous := (timeout = RX_CONTINUOUS), rx_deadline_ms := k_uptime_get E (modem t) + uint timeout\<rparr>"
  obtain rc' u where u: "submit_rx_window E v = (rc', u)" by fastforce
  obtain m where "snd (submit_rx_window E v) = v\<lparr>modem := m\<rparr>" using window_modem [of E v] by blast
  with u have "u = v\<lparr>modem := m\<rparr>" by simp
  then have "tx_busy u = tx_busy t" by (simp add: v_def)
  moreover have "tx_busy t = tx_busy a" using leave_test_frame(2) [OF t] .
  moreover have "tx_busy a = tx_busy x" by (simp add: a_def abort_rx_busy [OF assms])
  moreover have "snd (usp_receive E timeout x) = (if timeout = 0 then a else if rc \<noteq> 0 then t else u\<lparr>u_rx_active := (rc' = 0)\<rparr>)"
    unfolding usp_receive_def a_def [symmetric] by (simp add: Let_def t u flip: v_def)
  ultimately show ?thesis by simp
qed

lemma flight_step:
  assumes "usp_flight_step E x y" and "rx_abort_lawful E" and "tx_busy x"
  shows "tx_busy y \<and> tx_buffer y = tx_buffer x"
  using assms(1)
proof cases
  case (fs_start m)
  then show ?thesis using keepsD [OF buffer_frame.fr_start_keeps [of "tx_buffer x" E m], of x] start_busy [of E m x] assms(3) by simp
next
  case (fs_apply c)
  then show ?thesis using assms(3) by (simp add: usp_apply_def)
next
  case (fs_send d n)
  then show ?thesis using busy_send(2,3) [OF assms(3), where E = E and d = d and n = n] by simp
next
  case (fs_receive timeout)
  then show ?thesis using keepsD [OF buffer_frame.fr_receive [of "tx_buffer x" E timeout], of x] receive_busy [OF assms(2), of timeout x] assms(3) by simp
next
  case (fs_test_rx k)
  then show ?thesis
    using keepsD [OF buffer_frame.fr_receive [of "tx_buffer x" E RX_CONTINUOUS], of x] receive_busy [OF assms(2), of RX_CONTINUOUS x] assms(3)
    by (simp add: usp_test_rx_def)
next
  case (fs_get_rssi v)
  then show ?thesis using assms(3) by (simp add: usp_test_get_rssi_def split: prod.splits)
next
  case fs_test_stop
  then show ?thesis using assms(3) by (simp add: usp_test_stop_def modem_call_def split: prod.splits)
next
  case fs_poll
  then show ?thesis using assms(3) by (simp add: usp_poll_def Let_def del: poll_rx.simps split: prod.splits)
next
  case (fs_received st r written)
  then show ?thesis using received_busy [of E st r written x] assms(3) buffer_frame.fr_engine [of x "tx_buffer x" E "Rac_rx st r written"] by simp
qed

lemma flight_run:
  assumes "(usp_flight_step E)\<^sup>*\<^sup>* y z" and "rx_abort_lawful E" and "tx_busy y"
  shows "tx_busy z \<and> tx_buffer z = tx_buffer y"
  using assms(1)
proof (induction rule: rtranclp_induct)
  case (step a b)
  then show ?case using flight_step [OF _ assms(2), of a b] by simp
qed (simp add: assms(3))

text \<open>The deadline of a reception, and what a completed window does to it.\<close>

lemma engine_deadline:
  "rx_deadline_ms (usp_engine E cb x) = rx_deadline_ms x" "rx_continuous (usp_engine E cb x) = rx_continuous x"
  by (simp_all add: usp_engine_def usp_on_tx_done_def rx_done_fields Let_def split: rac_callback.splits)

lemma engine_run_deadline:
  "rx_deadline_ms (fold (usp_engine E) cbs x) = rx_deadline_ms x \<and> rx_continuous (fold (usp_engine E) cbs x) = rx_continuous x"
  by (induction cbs arbitrary: x) (simp_all add: engine_deadline)

lemma receive_deadline:
  assumes "usp_receive E timeout x = (0, y)" and "timeout \<noteq> 0" and "timeout \<noteq> RX_CONTINUOUS"
  shows "\<not> rx_continuous y"
    and "rx_deadline_ms y = k_uptime_get E (modem (snd (leave_test_mode E (rac_abort E RX_ID (x\<lparr>u_rx_active := False\<rparr>))))) + uint timeout"
proof -
  define a where "a = rac_abort E RX_ID (x\<lparr>u_rx_active := False\<rparr>)"
  obtain rc t where t: "leave_test_mode E a = (rc, t)" by fastforce
  define u where "u = t\<lparr>rx_continuous := (timeout = RX_CONTINUOUS), rx_deadline_ms := k_uptime_get E (modem t) + uint timeout\<rparr>"
  obtain m where m: "snd (submit_rx_window E u) = u\<lparr>modem := m\<rparr>" using window_modem [of E u] by blast
  have "rc = 0" using assms(1,2) t unfolding usp_receive_def a_def [symmetric] by (auto simp: Let_def split: if_splits)
  then have "y = (u\<lparr>modem := m\<rparr>)\<lparr>u_rx_active := True\<rparr>"
    using assms(1,2) t m unfolding usp_receive_def a_def [symmetric] u_def
    by (auto simp: Let_def split: if_splits prod.splits)
  then show "\<not> rx_continuous y" "rx_deadline_ms y = k_uptime_get E (modem (snd (leave_test_mode E (rac_abort E RX_ID (x\<lparr>u_rx_active := False\<rparr>))))) + uint timeout"
    using t assms(3) by (simp_all add: u_def flip: a_def)
qed

lemma engine_resubmits:
  assumes "u_rx_active (usp_engine E (Rac_rx st r w) z)" and "\<not> rx_continuous z"
  shows "st = RP_STATUS_TASK_ABORTED \<and> k_uptime_get E (modem z) < rx_deadline_ms z
    \<and> fst (smtc_rac_submit_radio_transaction E RX_ID
        (usp_context E z False 0 (word_of_int (rx_deadline_ms z - k_uptime_get E (modem z)))) (modem z)) = SMTC_RAC_SUCCESS"
proof -
  define v where "v = z\<lparr>rx_buffer := overlay (take (length (rx_buffer z)) w) (rx_buffer z)\<rparr>"
  have on: "usp_engine E (Rac_rx st r w) z = usp_on_rx_done E st r v" by (simp add: usp_engine_def v_def)
  have st: "st = RP_STATUS_TASK_ABORTED"
  proof (rule ccontr)
    assume "st \<noteq> RP_STATUS_TASK_ABORTED"
    then have "\<not> u_rx_active (usp_on_rx_done E st r v)" using assms(2) by (simp add: usp_on_rx_done_def v_def Let_def)
    with assms(1) on show False by simp
  qed
  obtain rc t where t: "submit_rx_window E v = (rc, t)" by fastforce
  have rc: "rc = 0" using assms(1) on st t by (auto simp: usp_on_rx_done_def Let_def split: if_splits)
  have v: "rx_continuous v = rx_continuous z" "modem v = modem z" "rx_deadline_ms v = rx_deadline_ms z"
      "usp_context E v = usp_context E z"
    by (simp_all add: v_def usp_context_def fun_eq_iff)
  have res: "rac_result c = 0 \<longleftrightarrow> c = SMTC_RAC_SUCCESS" for c by (cases c) (simp_all add: rac_result_def)
  show ?thesis using t rc st assms(2) v res
    by (auto simp: submit_rx_window_def usp_submit_def Let_def split: if_splits prod.splits)
qed

end
