(* ===== verification/Rzi_Lora_Usp_Runs.thy ===== *)
theory Rzi_Lora_Usp_Runs
  imports Rzi_Lora_Radio
begin

text \<open>
  Runs of the raw LoRa service over the Semtech stack: the configuration every transaction uses, payloads in flight, the
  deadline of a reception, messages between two devices, and a radio test that cannot be stopped.
\<close>

section \<open>Reference instance\<close>

text \<open>A reference instance: a radio that accepts everything, its clock the modem state.\<close>

definition usp_lora_ref :: "(nat, unit) usp_lora_env" where
  "usp_lora_ref = \<lparr>sw_platform_init = (\<lambda>m. m), smtc_rac_init = (\<lambda>m. m), smtc_modem_init = (\<lambda>m. m),
     smtc_modem_get_event = (\<lambda>m. (SMTC_MODEM_RC_NO_EVENT, \<lparr>event_type = SMTC_MODEM_EVENT_OTHER, missed_events = 0\<rparr>, 0, m)),
     usp_handler = (\<lambda>h ev err s. s), smtc_rac_open_radio = (\<lambda>i m. (i, m)),
     smtc_rac_submit_radio_transaction = (\<lambda>i c m. (SMTC_RAC_SUCCESS, m)), smtc_rac_abort_radio_submit = (\<lambda>i m. ([], m)),
     smtc_modem_hal_get_time_in_ms = (\<lambda>m. of_nat m), k_uptime_get = (\<lambda>m. int m),
     rx_msgq_put = (\<lambda>p q. if length q < 2 then (0, q @ [p]) else (- 35, q)),
     rx_msgq_get = (\<lambda>q. case q of [] \<Rightarrow> None | p # q' \<Rightarrow> Some (p, q')),
     smtc_modem_test_start = (\<lambda>m. (SMTC_MODEM_RC_OK, m)), smtc_modem_test_stop = (\<lambda>m. (SMTC_MODEM_RC_OK, m)),
     smtc_modem_test_rssi_lbt = (\<lambda>f b d m. (SMTC_MODEM_RC_OK, m)), smtc_modem_test_get_rssi = (\<lambda>v m. (SMTC_MODEM_RC_OK, v, m)),
     smtc_modem_test_tx_cw = (\<lambda>f p m. (SMTC_MODEM_RC_OK, m)), smtc_modem_test_tx_lora = (\<lambda>l m. (SMTC_MODEM_RC_OK, m)),
     smtc_modem_test_nop = (\<lambda>b m. (SMTC_MODEM_RC_OK, m))\<rparr>"

text \<open>The static initialisers of the backend.\<close>

definition usp_lora_initial :: "'m \<Rightarrow> 'm usp_lora" where
  "usp_lora_initial m = \<lparr>initialized = False, reset_seen = False, handler = None, modem = m, u_config = \<lparr>frequency_hz = 0,
     spreading_factor = 0, bandwidth = 0, coding_rate = 0, preamble_length = 0, tx_power_dbm = 0, sync_word = 0, iq_inverted = False,
     encrypt = False, key = replicate 16 0, iv = replicate 16 0, cad = False, fixed_length = False, fsk_bitrate = 0,
     fsk_deviation = 0, symbol_timeout = 0\<rparr>,
     u_modulation = MOD_LORA, opened = False, test_mode = False, tx_busy = False, u_rx_active = False, rx_continuous = False,
     rx_deadline_ms = 0, tx_buffer = replicate 255 0, rx_buffer = replicate 255 0, u_tx_done = False, u_tx_error = 0, rx_queue = []\<rparr>"

definition usp_service_ref :: "(nat usp_lora, nat usp_lora lora_state) lora_env" where
  "usp_service_ref = \<lparr>lora_backend = usp_lora_backend usp_lora_ref, run_tx_done = (\<lambda>f e u s. s), run_rx_done = (\<lambda>f d n r q u s. s)\<rparr>"

lemma usp_ref_msgq: "usp_msgq usp_lora_ref"
  by (simp add: usp_msgq_def usp_lora_ref_def)

lemma usp_initial_ok: "usp_msgq E \<Longrightarrow> usp_radio_ok E (usp_lora_initial m)"
  by (simp add: usp_radio_ok_def usp_lora_initial_def)

text \<open>
  C24. Every radio transaction uses the configuration of the service: however calls of the LoRa service and completed
  transactions of the radio controller interleave from the initial state, in a started service the parameters the backend
  over the Semtech stack would submit are those of the configuration and modulation the service holds, and at most two
  well-formed packets of 1 to 255 bytes wait for delivery.
\<close>

theorem usp_service_configured:
  assumes "lora_backend E = usp_lora_backend U" and "usp_msgq U"
    and "callbacks_keep (\<lambda>s. usp_radio_ok U (lora_radio s)) E" and "callbacks_keep (in_sync u_config u_modulation) E"
    and "(usp_service_step U E)\<^sup>*\<^sup>* (lora_initial (usp_lora_initial m)) t"
  shows "(lora_started t \<longrightarrow> radio_params (usp_context U (lora_radio t) is_tx n timeout_ms) =
      (if modulation t = MOD_FSK then Rac_fsk (fill_fsk (lora_config t) is_tx n timeout_ms)
       else Rac_lora (fill_lora (lora_config t) is_tx n timeout_ms)))
    \<and> length (rx_queue (lora_radio t)) \<le> 2 \<and> list_all packet_ok (rx_queue (lora_radio t))"
proof -
  have "in_sync u_config u_modulation (lora_initial (usp_lora_initial m))" "usp_radio_ok U (lora_radio (lora_initial (usp_lora_initial m)))"
    using usp_initial_ok [OF assms(2)] by (simp_all add: in_sync_def lora_initial_def)
  with usp_service_ok [OF assms(1,3,4,5)] have "usp_radio_ok U (lora_radio t) \<and> in_sync u_config u_modulation t" by blast
  then show ?thesis by (simp add: usp_context_def in_sync_def usp_radio_ok_def)
qed

theorem usp_service_configured_witness:
  "\<exists>t. (usp_service_step usp_lora_ref usp_service_ref)\<^sup>*\<^sup>* (lora_initial (usp_lora_initial 0)) t \<and> lora_started t
    \<and> radio_params (usp_context usp_lora_ref (lora_radio t) True 1 0) = Rac_lora (fill_lora (lora_config t) True 1 0)"
proof -
  define t where "t = snd (rzi_lora_init usp_service_ref (Some MOD_LORA) (lora_initial (usp_lora_initial 0)))"
  have r: "(usp_service_step usp_lora_ref usp_service_ref)\<^sup>*\<^sup>* (lora_initial (usp_lora_initial 0)) t"
    unfolding t_def by (rule r_into_rtranclp, rule service_call, rule step_init)
  have E: "lora_backend usp_service_ref = usp_lora_backend usp_lora_ref" "callbacks_keep P usp_service_ref" for P
    by (simp_all add: usp_service_ref_def callbacks_keep_def)
  have s: "lora_started t" "modulation t = MOD_LORA"
    unfolding t_def by (simp_all add: rzi_lora_init_def check_thread_def lora_initial_def usp_service_ref_def usp_lora_backend_def
        run_lop_def quiet_def usp_start_def open_radio_def rzi_usp_init_def usp_lora_initial_def usp_lora_ref_def
        apply_stored_config_def usp_apply_def)
  from usp_service_configured [OF E(1) usp_ref_msgq E(2) E(2) r, of True 1 0] r s show ?thesis by auto
qed

text \<open>
  C25. A payload in flight is not overwritten: once a transmission is accepted the radio is busy with it, and it stays
  so, whatever operations of the backend (other than a stop or the radio tests that abort it) and completed receptions
  follow, in any number and order and with any result, until its completion arrives. All that time the buffer the radio
  transmits from holds exactly the accepted bytes and every further transmission is refused; the completion ends it and
  leaves its report.
\<close>

theorem usp_payload_stable:
  assumes "usp_send E data (length data) x = (0, y)" and "(usp_flight_step E)\<^sup>*\<^sup>* y z" and "rx_abort_lawful E"
  shows "take (length data) (tx_buffer z) = data \<and> tx_busy z \<and> fst (usp_send E data' n z) \<noteq> 0
    \<and> \<not> tx_busy (usp_engine E (Rac_tx status) z) \<and> u_tx_done (usp_engine E (Rac_tx status) z)"
  using flight_run [OF assms(2,3) usp_send_accepted(2) [OF assms(1)]] usp_send_accepted(1) [OF assms(1)]
    busy_send(1) [of z E data' n]
  by (simp add: take_overlay usp_engine_def usp_on_tx_done_def)

text \<open>A reception is requested and completes while the transmission is in flight.\<close>

theorem usp_payload_stable_witness:
  "\<exists>z. (usp_flight_step usp_lora_ref)\<^sup>*\<^sup>* (snd (usp_send usp_lora_ref [7, 9] 2 (usp_lora_initial 0))) z
    \<and> take 2 (tx_buffer z) = [7, 9] \<and> tx_busy z \<and> length (rx_queue z) = 1"
proof -
  define y where "y = snd (usp_send usp_lora_ref [7, 9] 2 (usp_lora_initial 0))"
  define w where "w = snd (usp_receive usp_lora_ref 65535 y)"
  define z where "z = usp_engine usp_lora_ref (Rac_rx RP_STATUS_RX_PACKET \<lparr>rx_size = 1, rssi_result = -90, snr_result = 5\<rparr> [3]) w"
  have y: "usp_send usp_lora_ref [7, 9] (length [7, 9 :: u8]) (usp_lora_initial 0) = (0, y)"
    by (simp add: y_def usp_send_def leave_test_mode_def usp_submit_def usp_lora_initial_def usp_lora_ref_def rac_result_def)
  have "usp_flight_step usp_lora_ref y w" "usp_flight_step usp_lora_ref w z"
    unfolding w_def z_def by (rule fs_receive, rule fs_received)
  then have run: "(usp_flight_step usp_lora_ref)\<^sup>*\<^sup>* y z" by (meson converse_rtranclp_into_rtranclp rtranclp.rtrancl_refl)
  have law: "rx_abort_lawful usp_lora_ref" by (simp add: rx_abort_lawful_def usp_lora_ref_def)
  have "rx_queue w = []"
    by (simp add: w_def y_def usp_send_def leave_test_mode_def usp_submit_def usp_lora_initial_def usp_lora_ref_def rac_result_def
        usp_receive_def rac_abort_def submit_rx_window_def Let_def)
  then have "length (rx_queue z) = 1"
    by (simp add: z_def usp_engine_def rx_done_fields) (simp add: usp_lora_ref_def)
  then show ?thesis using usp_payload_stable [OF y run law, of "[]" 0 RP_STATUS_OTHER] run
    unfolding y_def by (intro exI [of _ z]) (simp add: numeral_2_eq_2)
qed

text \<open>
  C28. A timed reception keeps its deadline: the deadline is the time of the request plus the timeout, however many
  transactions complete afterwards it does not move, and a completed window is followed by another one only if
  higher-priority radio use cut it short before the deadline, with a window that lasts exactly until then.
\<close>

theorem usp_receive_deadline:
  assumes "usp_receive E timeout x = (0, y)" and "timeout \<noteq> 0" and "timeout \<noteq> RX_CONTINUOUS"
    and "z = fold (usp_engine E) cbs y" and "u_rx_active (usp_engine E (Rac_rx st r w) z)"
    and "deadline = k_uptime_get E (modem (snd (leave_test_mode E (rac_abort E RX_ID (x\<lparr>u_rx_active := False\<rparr>))))) + uint timeout"
  shows "st = RP_STATUS_TASK_ABORTED \<and> k_uptime_get E (modem z) < deadline
    \<and> fst (smtc_rac_submit_radio_transaction E RX_ID
        (usp_context E z False 0 (word_of_int (deadline - k_uptime_get E (modem z)))) (modem z)) = SMTC_RAC_SUCCESS"
proof -
  have "rx_deadline_ms z = deadline" "\<not> rx_continuous z"
    using engine_run_deadline [of E cbs y] receive_deadline [OF assms(1-3)] assms(4,6) by simp_all
  with engine_resubmits [OF assms(5)] show ?thesis by simp
qed

theorem usp_receive_deadline_witness:
  "\<exists>y. usp_receive usp_lora_ref 100 (usp_lora_initial 5) = (0, y)
    \<and> k_uptime_get usp_lora_ref (modem y) < k_uptime_get usp_lora_ref 5 + 100"
proof -
  let ?r = "\<lparr>rx_size = 0, rssi_result = 0, snr_result = 0\<rparr>"
  define y where "y = snd (usp_receive usp_lora_ref 100 (usp_lora_initial 5))"
  note defs = usp_receive_def rac_abort_def leave_test_mode_def submit_rx_window_def usp_submit_def usp_lora_initial_def
    usp_lora_ref_def rac_result_def Let_def
  have y: "usp_receive usp_lora_ref 100 (usp_lora_initial 5) = (0, y)" unfolding y_def by (simp add: defs)
  have a: "u_rx_active (usp_engine usp_lora_ref (Rac_rx RP_STATUS_TASK_ABORTED ?r []) y)"
    unfolding y_def by (simp add: defs usp_engine_def usp_on_rx_done_def)
  from usp_receive_deadline [OF y _ _ _ a refl, of "[]"] y show ?thesis by (simp add: defs)
qed

text \<open>
  C26. A message crosses two devices: when a service over the Semtech stack accepts a message, and the radio of
  another device with the same key, vector and encryption switch receives the bytes the first radio transmits, then the
  next poll of that device gives its receive callback the original message, with its length and signal levels, and
  empties its queue.
\<close>

theorem usp_p2p_roundtrip:
  assumes "lora_backend E = usp_lora_backend U" and "rzi_lora_send E (Some d) (length d) s = (0, t)"
    and "lora_backend F = usp_lora_backend V" and "usp_radio_ok V (lora_radio r)" and "rx_queue (lora_radio r) = []"
    and "\<not> u_tx_done (lora_radio r)" and "rx_done (lora_callbacks r) = Some g"
    and "encrypt (lora_config r) = encrypt (lora_config s)" and "key (lora_config r) = key (lora_config s)"
    and "iv (lora_config r) = iv (lora_config s)" and "rx_size res = of_nat (length d)"
  shows "\<exists>y. rx_queue y = [] \<and>
    rzi_lora_poll F (r\<lparr>lora_radio := usp_engine V (Rac_rx RP_STATUS_RX_PACKET res (take (length d) (tx_buffer (lora_radio t)))) (lora_radio r)\<rparr>)
    = run_rx_done F g d (length d) (rssi_result res) (signed_take_bit 7 (snr_result res * 4)) (lcb_user_data (lora_callbacks r))
        (r\<lparr>lora_radio := y\<rparr>)"
proof -
  let ?f = "apply_cipher d (length d) (lora_config s)"
  note send = service_send_usp [OF assms(1,2)]
  have air: "take (length d) (tx_buffer (lora_radio t)) = ?f"
    using usp_send_accepted(1) [OF send(1)] take_overlay [of ?f "tx_buffer (lora_radio s)"] by simp
  define z where "z = usp_engine V (Rac_rx RP_STATUS_RX_PACKET res ?f) (lora_radio r)"
  have len: "unat (rx_size res) = length d"
    using send(3) assms(11) by (simp add: unsigned_of_nat take_bit_nat_eq_self)
  then have pos: "rx_size res > 0" using send(2) by (metis length_greater_0_conv unat_gt_0 word_gt_0)
  have "take (length d) (overlay (take (length (rx_buffer (lora_radio r))) ?f) (rx_buffer (lora_radio r))) = ?f"
    using assms(4) send(3) take_overlay [of ?f "rx_buffer (lora_radio r)"] by (simp add: usp_radio_ok_def)
  then have q: "rx_queue z = [\<lparr>rp_size = length d, rp_rssi_dbm = rssi_result res,
      rp_snr_quarter_db = signed_take_bit 7 (snr_result res * 4), rp_data = ?f\<rparr>]" "\<not> u_tx_done z"
    using assms(4-6) len pos send(3)
    by (simp_all add: z_def usp_engine_def rx_done_fields msgq_put usp_radio_ok_def received_packet_def Let_def)
  obtain y where y: "rx_queue y = []" "rzi_lora_poll F (r\<lparr>lora_radio := z\<rparr>) = lora_publish F (packet_event
      \<lparr>rp_size = length d, rp_rssi_dbm = rssi_result res, rp_snr_quarter_db = signed_take_bit 7 (snr_result res * 4), rp_data = ?f\<rparr>)
      (r\<lparr>lora_radio := z, lora_radio := y\<rparr>)"
    using poll_one [OF assms(3), of "r\<lparr>lora_radio := z\<rparr>"] q assms(4) unfolding usp_radio_ok_def by auto
  have "rzi_lora_poll F (r\<lparr>lora_radio := z\<rparr>) = run_rx_done F g d (length d) (rssi_result res) (signed_take_bit 7 (snr_result res * 4))
      (lcb_user_data (lora_callbacks r)) (r\<lparr>lora_radio := y\<rparr>)"
    using y(2) send(2,3) assms(7) apply_cipher_twice [OF assms(8-10)]
    by (simp add: lora_publish_def packet_event_def rzi_lora_publish_rx_def Let_def)
  then show ?thesis using y(1) unfolding air z_def by blast
qed

text \<open>Two started devices with an encrypting configuration; the callback records in the interrupt flag that it got the message.\<close>

definition usp_device :: "nat usp_lora lora_state" where
  "usp_device = (lora_initial (usp_lora_initial 0))\<lparr>lora_started := True, lora_config := default_config\<lparr>encrypt := True\<rparr>,
     lora_callbacks := \<lparr>tx_done = None, rx_done = Some 0, lcb_user_data = 0\<rparr>\<rparr>"

theorem usp_p2p_roundtrip_witness:
  "\<exists>t. rzi_lora_send usp_service_ref (Some [7]) 1 usp_device = (0, t) \<and>
    lora_isr (rzi_lora_poll (usp_service_ref\<lparr>run_rx_done := \<lambda>f d n r q u s. s\<lparr>lora_isr := (d = [7])\<rparr>\<rparr>)
      (usp_device\<lparr>lora_radio := usp_engine usp_lora_ref (Rac_rx RP_STATUS_RX_PACKET \<lparr>rx_size = 1, rssi_result = -70, snr_result = 5\<rparr>
         (take 1 (tx_buffer (lora_radio t)))) (lora_radio usp_device)\<rparr>))"
proof -
  let ?F = "usp_service_ref\<lparr>run_rx_done := \<lambda>f d n r q u s. s\<lparr>lora_isr := (d = [7])\<rparr>\<rparr>"
  let ?res = "\<lparr>rx_size = 1, rssi_result = -70, snr_result = 5\<rparr>"
  define t where "t = snd (rzi_lora_send usp_service_ref (Some [7]) 1 usp_device)"
  have t: "rzi_lora_send usp_service_ref (Some [7]) (length [7 :: u8]) usp_device = (0, t)"
    unfolding t_def by (simp add: rzi_lora_send_def check_thread_def usp_device_def lora_initial_def usp_service_ref_def
        usp_lora_backend_def run_lop_def quiet_def usp_send_def leave_test_mode_def usp_submit_def usp_lora_initial_def
        usp_lora_ref_def rac_result_def)
  have E: "lora_backend usp_service_ref = usp_lora_backend usp_lora_ref" "lora_backend ?F = usp_lora_backend usp_lora_ref"
    by (simp_all add: usp_service_ref_def)
  have d: "usp_radio_ok usp_lora_ref (lora_radio usp_device)" "rx_queue (lora_radio usp_device) = []"
      "\<not> u_tx_done (lora_radio usp_device)" "rx_done (lora_callbacks usp_device) = Some 0"
    using usp_initial_ok [OF usp_ref_msgq] by (simp_all add: usp_device_def lora_initial_def usp_lora_initial_def)
  from usp_p2p_roundtrip [OF E(1) t E(2) d refl refl refl, of ?res] t show ?thesis by (auto simp: usp_service_ref_def)
qed

lemma test_rx_accepted:
  assumes "usp_receive E RX_CONTINUOUS x = (0, y)"
  shows "u_rx_active y" and "rx_continuous y" and "\<not> test_mode y"
proof -
  define a where "a = rac_abort E RX_ID (x\<lparr>u_rx_active := False\<rparr>)"
  obtain rc t where t: "leave_test_mode E a = (rc, t)" by fastforce
  define u where "u = t\<lparr>rx_continuous := True, rx_deadline_ms := k_uptime_get E (modem t) + uint RX_CONTINUOUS\<rparr>"
  obtain m where m: "snd (submit_rx_window E u) = u\<lparr>modem := m\<rparr>" using window_modem [of E u] by blast
  have "rc = 0" using assms t unfolding usp_receive_def a_def [symmetric] by (auto simp: Let_def split: if_splits)
  then have "\<not> test_mode t" using t by (auto simp: leave_test_mode_def split: if_splits prod.splits)
  moreover have "y = (u\<lparr>modem := m\<rparr>)\<lparr>u_rx_active := True\<rparr>"
    using assms t m \<open>rc = 0\<close> unfolding usp_receive_def a_def [symmetric] u_def
    by (auto simp: Let_def split: if_splits prod.splits)
  ultimately show "u_rx_active y" "rx_continuous y" "\<not> test_mode y" by (simp_all add: u_def)
qed

text \<open>
  C39. A receive test cannot be stopped: the receive test of this backend is a continuous reception outside the test
  mode of the modem, and \<^verbatim>\<open>rzi_lora_test_stop\<close> acts in that mode only. After an accepted test it reports success and
  changes nothing, and the radio keeps receiving.
\<close>

theorem usp_test_rx_unstoppable:
  assumes "lora_backend E = usp_lora_backend U" and "rzi_lora_test_rx E k s = (0, t)"
  shows "rzi_lora_test_stop E t = (0, t) \<and> u_rx_active (lora_radio t) \<and> rx_continuous (lora_radio t)"
proof -
  obtain rc y where y: "usp_receive U RX_CONTINUOUS (lora_radio s) = (rc, y)" by fastforce
  have c: "check_thread s = 0" using assms by (auto simp: rzi_lora_test_rx_def call_test_def Let_def split: if_splits)
  then have "rc = 0" "t = s\<lparr>lora_radio := y\<rparr>"
    using assms y by (auto simp: rzi_lora_test_rx_def call_test_def Let_def usp_lora_backend_def run_lop_def quiet_def usp_test_rx_def)
  with test_rx_accepted [of U "lora_radio s" y] y c assms(1) show ?thesis
    by (simp add: rzi_lora_test_stop_def call_test_def usp_lora_backend_def run_lop_def quiet_def usp_test_stop_def check_thread_def
        split: if_splits)
qed

theorem usp_test_rx_unstoppable_witness:
  "\<exists>t. rzi_lora_test_rx usp_service_ref 10 usp_device = (0, t) \<and> rzi_lora_test_stop usp_service_ref t = (0, t)
    \<and> u_rx_active (lora_radio t)"
proof -
  define t where "t = snd (rzi_lora_test_rx usp_service_ref 10 usp_device)"
  have t: "rzi_lora_test_rx usp_service_ref 10 usp_device = (0, t)"
    unfolding t_def by (simp add: rzi_lora_test_rx_def call_test_def check_thread_def usp_device_def lora_initial_def usp_service_ref_def
        usp_lora_backend_def run_lop_def quiet_def usp_test_rx_def usp_receive_def rac_abort_def leave_test_mode_def
        submit_rx_window_def usp_submit_def usp_lora_initial_def usp_lora_ref_def rac_result_def Let_def)
  have "lora_backend usp_service_ref = usp_lora_backend usp_lora_ref" by (simp add: usp_service_ref_def)
  from usp_test_rx_unstoppable [OF this t] t show ?thesis by blast
qed

end
