(* ===== verification/Rzi_Lora_Backends.thy ===== *)
theory Rzi_Lora_Backends
  imports Rzi_Lora_Radio
begin

text \<open>
  The two other backends of the raw LoRa service: \<^verbatim>\<open>src/lora/backend/lora_backend_zephyr.c\<close> over Zephyr's LoRa driver,
  whose functions are fields of the environment, and \<^verbatim>\<open>src/lora/backend/lora_backend_test.c\<close>, the software loop of the
  host tests.
\<close>

section \<open>Zephyr's LoRa driver\<close>

datatype lora_signal_bandwidth = BW_125_KHZ | BW_250_KHZ | BW_500_KHZ | BW_7_KHZ | BW_10_KHZ | BW_15_KHZ | BW_20_KHZ
  | BW_31_KHZ | BW_41_KHZ | BW_62_KHZ

record lora_modem_config =
  mc_frequency :: u32
  mc_bandwidth :: lora_signal_bandwidth
  mc_datarate :: u8
  mc_coding_rate :: u32
  mc_preamble_len :: u16
  mc_tx_power :: int
  mc_tx :: bool
  mc_iq_inverted :: bool
  mc_public_network :: bool
  mc_sync_word :: u8

datatype k_timeout = K_FOREVER | K_MSEC u32

record 'd zephyr_radio =
  z_modulation :: rzi_lora_modulation
  z_device :: 'd

text \<open>\<open>radio_device\<close> tells whether the board has the device; \<open>lora_recv\<close> gives the code, the bytes it wrote and the signal levels.\<close>

record 'd zephyr_lora_env =
  radio_device :: bool
  device_is_ready :: "'d \<Rightarrow> bool"
  drv_lora_config :: "lora_modem_config \<Rightarrow> 'd \<Rightarrow> int \<times> 'd"
  drv_lora_send :: "bytes \<Rightarrow> nat \<Rightarrow> 'd \<Rightarrow> int \<times> 'd"
  drv_lora_recv :: "nat \<Rightarrow> k_timeout \<Rightarrow> 'd \<Rightarrow> int \<times> bytes \<times> int \<times> int \<times> 'd"

definition zephyr_bandwidths :: "lora_signal_bandwidth list" where
  "zephyr_bandwidths = [BW_125_KHZ, BW_250_KHZ, BW_500_KHZ, BW_7_KHZ, BW_10_KHZ, BW_15_KHZ, BW_20_KHZ, BW_31_KHZ, BW_41_KHZ, BW_62_KHZ]"

definition zephyr_map_bandwidth :: "u32 \<Rightarrow> lora_signal_bandwidth" where
  "zephyr_map_bandwidth index = (if index \<ge> of_nat (length zephyr_bandwidths) then BW_125_KHZ else zephyr_bandwidths ! unat index)"

definition fill_config :: "rzi_lora_modulation \<Rightarrow> rzi_lora_config \<Rightarrow> bool \<Rightarrow> lora_modem_config \<Rightarrow> int \<times> lora_modem_config" where
  "fill_config md c tx out =
     (if md \<noteq> MOD_LORA then (- RZI_ERR_NOT_SUPPORTED, out)
      else (0, \<lparr>mc_frequency = frequency_hz c, mc_bandwidth = zephyr_map_bandwidth (bandwidth c), mc_datarate = spreading_factor c,
        mc_coding_rate = ucast (coding_rate c) + 1, mc_preamble_len = preamble_length c, mc_tx_power = tx_power_dbm c, mc_tx = tx,
        mc_iq_inverted = iq_inverted c, mc_public_network = False,
        mc_sync_word = (if sync_word c AND 0xff \<noteq> 0 then ucast (sync_word c AND 0xff) else 0)\<rparr>))"

definition zlora_start :: "('d, 'e) zephyr_lora_env_scheme \<Rightarrow> rzi_lora_modulation \<Rightarrow> 'd zephyr_radio op" where
  "zlora_start Z val x =
     (if \<not> radio_device Z \<or> \<not> device_is_ready Z (z_device x) then (- RZI_ERR_NO_DEVICE, x) else (0, x\<lparr>z_modulation := val\<rparr>))"

definition zlora_stop :: "'d zephyr_radio op" where
  "zlora_stop x = (0, x)"

definition zlora_apply :: "rzi_lora_config \<Rightarrow> 'd zephyr_radio op" where
  "zlora_apply c x = (0, x)"

text \<open>
  The common start of sending and receiving: the configuration is read back from the service (\<open>got\<close>, the code and the
  configuration \<^verbatim>\<open>rzi_lora_get_config\<close> gives there), translated and programmed. \<open>Some rc\<close> is an early return of \<open>rc\<close>.
  The local structure is uninitialised (\<open>junk\<close>) until \<open>fill_config\<close> fills it.
\<close>

definition zlora_program ::
  "('d, 'e) zephyr_lora_env_scheme \<Rightarrow> lora_modem_config \<Rightarrow> int \<times> rzi_lora_config \<Rightarrow> bool \<Rightarrow> 'd zephyr_radio \<Rightarrow> int option \<times> 'd zephyr_radio" where
  "zlora_program Z junk got tx x =
     (if \<not> radio_device Z then (Some (- RZI_ERR_NO_DEVICE), x)
      else if fst got \<noteq> 0 then (Some (fst got), x)
      else case fill_config (z_modulation x) (snd got) tx junk of (rc, cfg) \<Rightarrow>
        if rc \<noteq> 0 then (Some rc, x)
        else case drv_lora_config Z cfg (z_device x) of (rc, d) \<Rightarrow>
          (if rc \<noteq> 0 then Some (rzi_err_from_errno rc) else None, x\<lparr>z_device := d\<rparr>))"

definition zlora_send ::
  "('d, 'e) zephyr_lora_env_scheme \<Rightarrow> lora_modem_config \<Rightarrow> int \<times> rzi_lora_config \<Rightarrow> bytes \<Rightarrow> nat \<Rightarrow> 'd zephyr_radio lop" where
  "zlora_send Z junk got data n x =
     (case zlora_program Z junk got True x of
        (Some rc, y) \<Rightarrow> (rc, [], y)
      | (None, y) \<Rightarrow> (case drv_lora_send Z data n (z_device y) of (rc, d) \<Rightarrow>
          let rc = rzi_err_from_errno rc in (rc, [Lora_tx_done rc], y\<lparr>z_device := d\<rparr>)))"

definition zlora_receive ::
  "('d, 'e) zephyr_lora_env_scheme \<Rightarrow> lora_modem_config \<Rightarrow> int \<times> rzi_lora_config \<Rightarrow> u32 \<Rightarrow> 'd zephyr_radio lop" where
  "zlora_receive Z junk got timeout_ms x =
     (if timeout_ms = 0 then (0, [], x)
      else case zlora_program Z junk got False x of
        (Some rc, y) \<Rightarrow> (rc, [], y)
      | (None, y) \<Rightarrow>
          (case drv_lora_recv Z RZI_LORA_MAX_PAYLOAD (if timeout_ms = 65535 then K_FOREVER else K_MSEC timeout_ms) (z_device y) of
             (rc, payload, rssi, snr, d) \<Rightarrow>
               if rc > 0 then (0, [Lora_rx (Some payload) (nat rc) rssi (signed_take_bit 7 (snr * 4))], y\<lparr>z_device := d\<rparr>)
               else (rzi_err_from_errno rc, [], y\<lparr>z_device := d\<rparr>)))"

definition zlora_unsupported :: "'x lop" where
  "zlora_unsupported x = (- RZI_ERR_NOT_SUPPORTED, [], x)"

definition zlora_unsupported_count :: "u32 \<Rightarrow> 'x lop" where
  "zlora_unsupported_count packet_count x = (- RZI_ERR_NOT_SUPPORTED, [], x)"

definition zlora_unsupported_cw :: "u32 \<Rightarrow> int \<Rightarrow> u32 \<Rightarrow> 'x lop" where
  "zlora_unsupported_cw frequency power_dbm duration_ms x = (- RZI_ERR_NOT_SUPPORTED, [], x)"

definition zephyr_lora_backend ::
  "('d, 'e) zephyr_lora_env_scheme \<Rightarrow> lora_modem_config \<Rightarrow> int \<times> rzi_lora_config \<Rightarrow> 'd zephyr_radio rzi_lora_backend_api" where
  "zephyr_lora_backend Z junk got =
     \<lparr>lb_start = Some (\<lambda>m. quiet (zlora_start Z m)), lb_stop = Some (quiet zlora_stop), lb_apply_config = Some (\<lambda>c. quiet (zlora_apply c)),
      lb_send = Some (zlora_send Z junk got), lb_receive = Some (zlora_receive Z junk got),
      lb_test_rssi = Some zlora_unsupported, lb_test_get_rssi = None, lb_test_tone = Some zlora_unsupported, lb_test_tx = Some zlora_unsupported_count,
      lb_test_rx = Some zlora_unsupported_count, lb_test_cw = Some zlora_unsupported_cw, lb_test_stop = Some zlora_unsupported, lb_poll = None\<rparr>"

text \<open>The service in a state: what the backend reads back is the configuration of that state.\<close>

definition service_config :: "('x, 'm) lora_state_scheme \<Rightarrow> int \<times> rzi_lora_config" where
  "service_config s = (case rzi_lora_get_config (Some default_config) s of (rc, out, _) \<Rightarrow> (rc, the out))"

definition over_zephyr ::
  "('d, 'z) zephyr_lora_env_scheme \<Rightarrow> lora_modem_config \<Rightarrow> ('d zephyr_radio, ('d zephyr_radio, 'm) lora_state_scheme, 'e) lora_env_scheme
   \<Rightarrow> ('d zephyr_radio, 'm) lora_state_scheme \<Rightarrow> ('d zephyr_radio, ('d zephyr_radio, 'm) lora_state_scheme, 'e) lora_env_scheme" where
  "over_zephyr Z junk E s = E\<lparr>lora_backend := zephyr_lora_backend Z junk (service_config s)\<rparr>"

section \<open>The software backend\<close>

record test_radio =
  last_payload :: bytes
  last_size :: nat

definition test_start :: "rzi_lora_modulation \<Rightarrow> test_radio lop" where
  "test_start md x = (0, [], x\<lparr>last_size := 0\<rparr>)"

definition test_stop :: "test_radio lop" where
  "test_stop x = (0, [], x\<lparr>last_size := 0\<rparr>)"

definition test_apply :: "rzi_lora_config \<Rightarrow> test_radio lop" where
  "test_apply c x = (0, [], x)"

definition test_send :: "bytes \<Rightarrow> nat \<Rightarrow> test_radio lop" where
  "test_send data n x = (0, [Lora_tx_done 0], x\<lparr>last_payload := overlay (take n data) (last_payload x), last_size := n\<rparr>)"

definition test_receive :: "u32 \<Rightarrow> test_radio lop" where
  "test_receive timeout_ms x =
     (if timeout_ms = 0 then (0, [], x)
      else (0, if last_size x > 0 then [Lora_rx (Some (last_payload x)) (last_size x) (- 80) 0] else [], x))"

definition test_ok :: "test_radio lop" where
  "test_ok x = (0, [], x)"

definition test_get_rssi :: "int \<Rightarrow> test_radio \<Rightarrow> int \<times> int \<times> lora_event list \<times> test_radio" where
  "test_get_rssi cell x = (0, - 80, [], x)"

definition test_count :: "u32 \<Rightarrow> test_radio lop" where
  "test_count packet_count x = (0, [], x)"

definition test_cw :: "u32 \<Rightarrow> int \<Rightarrow> u32 \<Rightarrow> test_radio lop" where
  "test_cw frequency power_dbm duration_ms x = (0, [], x)"

definition test_lora_backend :: "test_radio rzi_lora_backend_api" where
  "test_lora_backend =
     \<lparr>lb_start = Some test_start, lb_stop = Some test_stop, lb_apply_config = Some test_apply, lb_send = Some test_send,
      lb_receive = Some test_receive, lb_test_rssi = Some test_ok, lb_test_get_rssi = Some test_get_rssi, lb_test_tone = Some test_ok,
      lb_test_tx = Some test_count, lb_test_rx = Some test_count, lb_test_cw = Some test_cw, lb_test_stop = Some test_ok, lb_poll = None\<rparr>"

lemmas test_backend_defs = test_start_def test_stop_def test_apply_def test_send_def test_receive_def test_ok_def test_get_rssi_def
  test_count_def test_cw_def

text \<open>The loop never reads past its buffer.\<close>

interpretation test_loop: radio_backend test_lora_backend "\<lambda>x. length (last_payload x) = RZI_LORA_MAX_PAYLOAD \<and> last_size x \<le> RZI_LORA_MAX_PAYLOAD"
proof unfold_locales
  fix g
  assume "radio_op test_lora_backend g"
  then show "lop_keeps (\<lambda>x. length (last_payload x) = RZI_LORA_MAX_PAYLOAD \<and> last_size x \<le> RZI_LORA_MAX_PAYLOAD) g"
    by cases (auto simp: test_lora_backend_def lop_keeps_def test_backend_defs)
qed (auto simp: test_lora_backend_def lop_keeps_def test_backend_defs)

section \<open>Facts\<close>

text \<open>
  The loop gives back what was sent: after a message is accepted, a reception calls the receive callback with the
  original bytes.
\<close>

theorem loop_returns_message:
  assumes "lora_backend E = test_lora_backend" and "rzi_lora_send E (Some d) (length d) s = (0, t)" and "tx_done (lora_callbacks s) = None"
    and "timeout \<noteq> 0" and "rx_done (lora_callbacks s) = Some g"
  shows "\<exists>u. rzi_lora_receive E timeout t = (0, u\<lparr>rx_active := True\<rparr>)
    \<and> u = run_rx_done E g d (length d) (- 80) 0 (lcb_user_data (lora_callbacks s)) t"
proof -
  let ?f = "apply_cipher d (length d) (lora_config s)"
  have d: "check_thread s = 0" "lora_started s" "d \<noteq> []" "length d \<le> RZI_LORA_MAX_PAYLOAD"
    using assms(2) by (auto simp: rzi_lora_send_def Let_def check_thread_def split: if_splits)
  have t: "t = s\<lparr>lora_radio := (lora_radio s)\<lparr>last_payload := overlay ?f (last_payload (lora_radio s)), last_size := length d\<rparr>\<rparr>"
    using assms(1-3) d by (simp add: rzi_lora_send_def Let_def run_lop_def test_lora_backend_def test_send_def lora_publish_def
        rzi_lora_publish_tx_done_def)
  have p: "take (length d) (overlay ?f b) = ?f" for b using take_overlay [of ?f b] by simp
  have t': "t\<lparr>lora_radio := lora_radio t\<rparr> = t" by simp
  have "rzi_lora_receive E timeout t = (0, (run_rx_done E g d (length d) (- 80) 0 (lcb_user_data (lora_callbacks s)) t)\<lparr>rx_active := True\<rparr>)"
    using d assms(1,4,5) p apply_cipher_twice [of "lora_config s" "lora_config s" d "length d"]
    by (simp add: rzi_lora_receive_def Let_def run_lop_def test_lora_backend_def test_receive_def lora_publish_def
        rzi_lora_publish_rx_def check_thread_def t)
  then show ?thesis by blast
qed

text \<open>
  Over Zephyr's driver a reception blocks until a packet or the timeout, so it is over when the call returns; the service
  still reports it as active.
\<close>

theorem zephyr_receive_looks_active:
  assumes "rzi_lora_receive (over_zephyr Z junk E s) timeout s = (0, t)" and "timeout \<noteq> 0"
  shows "rzi_lora_receive_active t"
  using assms by (auto simp: rzi_lora_receive_def rzi_lora_receive_active_def Let_def split: if_splits option.splits prod.splits)

text \<open>What the driver is programmed with before a transmission is the configuration of the service.\<close>

theorem zephyr_send_configured:
  assumes "lora_started s" and "\<not> lora_isr s" and "data \<noteq> None" and "0 < n" and "n \<le> RZI_LORA_MAX_PAYLOAD"
    and "radio_device Z" and "z_modulation (lora_radio s) = MOD_LORA"
    and "drv_lora_config Z (snd (fill_config MOD_LORA (lora_config s) True junk)) (z_device (lora_radio s)) = (0, d)"
    and "drv_lora_send Z (apply_cipher (take n (the data)) n (lora_config s)) n d = (rc, d')"
  shows "rzi_lora_send (over_zephyr Z junk E s) data n s =
    (rzi_err_from_errno rc, lora_publish (over_zephyr Z junk E s) (Lora_tx_done (rzi_err_from_errno rc))
       (s\<lparr>lora_radio := (lora_radio s)\<lparr>z_device := d'\<rparr>\<rparr>))"
proof -
  have got: "service_config s = (0, lora_config s)"
    using assms(2) by (simp add: service_config_def rzi_lora_get_config_def check_thread_def)
  obtain mc where mc: "fill_config MOD_LORA (lora_config s) True junk = (0, mc)" by (simp add: fill_config_def)
  then show ?thesis using assms got
    by (auto simp: rzi_lora_send_def check_thread_def over_zephyr_def zephyr_lora_backend_def run_lop_def zlora_send_def
        zlora_program_def Let_def)
qed

end
