(* ===== verification/Rzi_Lw_Backend.thy ===== *)
theory Rzi_Lw_Backend
  imports Rzi_Lorawan Rzi_Channel
begin

text \<open>
  What the LoRaWAN backends share: the codes of a completed uplink, table entries that publish nothing, and the contract
  of a backend on uplinks, the locale \<open>uplink_accounting\<close>, which each backend interprets on its own steps.
\<close>

abbreviation (input) TXDONE_SENT :: nat where "TXDONE_SENT \<equiv> 0"
abbreviation (input) TXDONE_CONFIRMED :: nat where "TXDONE_CONFIRMED \<equiv> 1"
abbreviation (input) TXDONE_NOT_SENT :: nat where "TXDONE_NOT_SENT \<equiv> 2"

definition silent :: "'x op \<Rightarrow> 'x bop" where
  "silent f x = (case f x of (rc, y) \<Rightarrow> (rc, [], y))"

definition is_tx_done :: "backend_event \<Rightarrow> bool" where
  "is_tx_done ev \<longleftrightarrow> (case ev of BACKEND_TX_DONE _ _ \<Rightarrow> True | _ \<Rightarrow> False)"

text \<open>
  The uplink contract of the backend interface: in every step the completions published and the uplinks still pending (accepted and not
  yet reported) balance those that were pending and the one accepted, except for uplinks a step loses and completions nobody asked for.
\<close>

locale uplink_accounting =
  fixes step :: "'x \<Rightarrow> 'l \<Rightarrow> backend_event list \<Rightarrow> 'x \<Rightarrow> bool" and run :: "'x \<Rightarrow> 'l list \<Rightarrow> backend_event list \<Rightarrow> 'x \<Rightarrow> bool"
    and accepted :: "'l \<Rightarrow> bool" and lost :: "'l \<Rightarrow> bool" and stray :: "'l \<Rightarrow> bool" and pending :: "'x \<Rightarrow> nat" and inv :: "'x \<Rightarrow> bool"
  assumes ua_inv: "inv x \<Longrightarrow> step x l evs y \<Longrightarrow> inv y"
    and ua_step: "inv x \<Longrightarrow> step x l evs y \<Longrightarrow>
      length (filter is_tx_done evs) + pending y + of_bool (lost l) = of_bool (accepted l) + of_bool (stray l) + pending x"
    and ua_run: "run x ls evs y \<longleftrightarrow> (ls = [] \<and> evs = [] \<and> y = x)
      \<or> (\<exists>ls' l evs' es z. ls = ls' @ [l] \<and> evs = evs' @ es \<and> run x ls' evs' z \<and> step z l es y)"
begin

lemma ua_total:
  assumes "inv x" and "run x ls evs y"
  shows "inv y \<and> length (filter is_tx_done evs) + pending y + length (filter lost ls)
    = length (filter accepted ls) + length (filter stray ls) + pending x"
  using assms(2)
proof (induction ls arbitrary: evs y rule: rev_induct)
  case Nil
  then show ?case using assms(1) ua_run [of x "[]" evs y] by simp
next
  case (snoc l ls)
  then obtain evs' es z where r: "evs = evs' @ es" "run x ls evs' z" "step z l es y" using ua_run [of x "ls @ [l]" evs y] by auto
  from snoc.IH [OF r(2)] have z: "inv z" "length (filter is_tx_done evs') + pending z + length (filter lost ls)
      = length (filter accepted ls) + length (filter stray ls) + pending x"
    by simp_all
  have "length (filter P (ls @ [l])) = length (filter P ls) + (of_bool (P l) :: nat)" for P by simp
  note this [of accepted] this [of lost] this [of stray]
  moreover have "length (filter is_tx_done evs) = length (filter is_tx_done evs') + length (filter is_tx_done es)" using r(1) by simp
  ultimately show ?case using ua_step [OF z(1) r(3)] ua_inv [OF z(1) r(3)] z(2) by (intro conjI) (assumption, linarith)
qed

end

end
