(* ===== verification/Rzi_Lw_Zephyr.thy ===== *)
theory Rzi_Lw_Zephyr
  imports Rzi_Lw_Backend
begin

text \<open>
  The LoRaWAN backend over Zephyr's stack: \<^verbatim>\<open>src/lorawan/backend/zephyr/lorawan_backend_zephyr.c\<close>, its feature operations
  \<^verbatim>\<open>lorawan_backend_zephyr_features.c\<close> and the MIB access \<^verbatim>\<open>lorawan_zephyr_mib.c\<close>. Zephyr's LoRaWAN, LoRaMac, flash and work-queue
  functions are fields of the environment over the state \<open>'l\<close> of the stack and \<open>k_work\<close> of a work item. A joining or
  sending handler of the worker is cut where it does not hold the lock: after it was taken from the queue, at its blocking call,
  after its second locked section, after its event is published, and at its return; \<open>zw_worker\<close> says where the worker
  is, and other threads may come in at each cut. \<open>zephyr_send\<close> submits its work item after it has given the lock up, so
  it has two parts, and \<open>zw_submitting\<close> says that a caller is between them. Build options are Boolean fields. The event sink is the service's \<^verbatim>\<open>publish\<close>: an operation
  gives the events it publishes.
\<close>

section \<open>Data\<close>

datatype lorawan_region = LORAWAN_REGION_EU868 | LORAWAN_REGION_US915 | LORAWAN_REGION_AU915 | LORAWAN_REGION_CN470
  | LORAWAN_REGION_AS923 | LORAWAN_REGION_IN865 | LORAWAN_REGION_KR920 | LORAWAN_REGION_RU864

datatype lorawan_class = LORAWAN_CLASS_A | LORAWAN_CLASS_C

record lorawan_join_otaa =
  zo_dev_eui :: bytes
  zo_join_eui :: bytes
  zo_nwk_key :: bytes
  zo_app_key :: bytes
  zo_dev_nonce :: u16

record lorawan_join_abp =
  za_dev_addr :: u32
  za_nwk_skey :: bytes
  za_app_skey :: bytes

text \<open>The mode selects the member of the union.\<close>

datatype lorawan_join_config = LORAWAN_ACT_OTAA lorawan_join_otaa | LORAWAN_ACT_ABP lorawan_join_abp

text \<open>
  A work item waits in the queue or for its delay, its handler runs, or it was cancelled while its handler was running,
  which lasts until the handler returns.
\<close>

record k_work =
  work_queued :: bool
  work_running :: bool
  work_canceling :: bool

abbreviation (input) WORK_IDLE :: k_work where
  "WORK_IDLE \<equiv> \<lparr>work_queued = False, work_running = False, work_canceling = False\<rparr>"

text \<open>
  The worker thread: idle; with a handler just taken from the queue, in \<^verbatim>\<open>lorawan_join\<close>, or in \<^verbatim>\<open>lorawan_send\<close> with port, payload, size
  and type; or past the last locked section of the handler, with an event still to publish or none.
\<close>

datatype zephyr_worker = Worker_idle
  | Worker_join_taken | Worker_joining lorawan_join_config | Worker_join_done "backend_event option"
  | Worker_send_taken | Worker_sending u8 bytes u8 nat | Worker_send_done "backend_event option"

record 'l zephyr_lw =
  zw_started :: bool
  zw_joined :: bool
  zw_join_pending :: bool
  zw_join_stop :: bool
  zw_tx_pending :: bool
  next_dev_nonce :: u16
  current_region :: nat
  join_settings :: rzi_lorawan_join_config
  zw_tx_port :: u8
  zw_tx_size :: u8
  zw_tx_type :: nat
  zw_tx_data :: bytes
  zw_submitting :: bool
  join_work :: k_work
  send_work :: k_work
  zw_worker :: zephyr_worker
  clock_poll_work :: k_work
  clock_poll_left :: u8
  fuota_services_started :: bool
  zw_device_class :: nat
  adr_enabled :: bool
  zw_data_rate :: nat
  zw_stack :: 'l

record 'l zephyr_lw_env =
  cfg_emul :: bool
  cfg_fuota :: bool
  cfg_app_clock_sync :: bool
  cfg_frag_transport :: bool
  cfg_soft_se :: bool
  has_slot1 :: bool
  zephyr_device_ready :: "'l \<Rightarrow> bool"
  lorawan_set_region :: "lorawan_region \<Rightarrow> 'l \<Rightarrow> int \<times> 'l"
  lorawan_start :: "'l \<Rightarrow> int \<times> 'l"
  lorawan_register_callbacks :: "'l \<Rightarrow> 'l"
  lorawan_join :: "lorawan_join_config \<Rightarrow> 'l \<Rightarrow> int \<times> 'l"
  lorawan_send :: "u8 \<Rightarrow> bytes \<Rightarrow> u8 \<Rightarrow> bool \<Rightarrow> 'l \<Rightarrow> int \<times> 'l"
  lorawan_set_class :: "lorawan_class \<Rightarrow> 'l \<Rightarrow> int \<times> 'l"
  lorawan_enable_adr :: "bool \<Rightarrow> 'l \<Rightarrow> 'l"
  lorawan_set_datarate :: "nat \<Rightarrow> 'l \<Rightarrow> int \<times> 'l"
  lorawan_get_payload_sizes :: "'l \<Rightarrow> u8 \<times> u8"
  lorawan_request_link_check :: "bool \<Rightarrow> 'l \<Rightarrow> int \<times> 'l"
  lorawan_request_device_time :: "bool \<Rightarrow> 'l \<Rightarrow> int \<times> 'l"
  lorawan_device_time_get :: "'l \<Rightarrow> int \<times> u32"
  lorawan_clock_sync_run :: "'l \<Rightarrow> int \<times> 'l"
  lorawan_clock_sync_get :: "'l \<Rightarrow> int"
  lorawan_frag_transport_run :: "'l \<Rightarrow> int \<times> 'l"
  flash_area_open :: "'l \<Rightarrow> int"
  flash_area_size :: nat
  flash_area_read :: "nat \<Rightarrow> nat \<Rightarrow> 'l \<Rightarrow> int \<times> bytes"
  sys_reboot :: "'l \<Rightarrow> 'l"
  mib_get_dev_addr :: "'l \<Rightarrow> u32 option"
  mib_set_default_mask :: "u16 list \<Rightarrow> 'l \<Rightarrow> bool \<times> 'l"
  mib_set_mask :: "u16 list \<Rightarrow> 'l \<Rightarrow> bool \<times> 'l"
  mib_nvm_keys :: "'l \<Rightarrow> (nat \<times> bytes) list option"
  key_nwk_s_enc :: nat
  key_app_s :: nat
  k_work_schedule :: "nat \<Rightarrow> k_work \<Rightarrow> k_work"
  k_work_submit :: "k_work \<Rightarrow> k_work"
  k_work_cancel :: "k_work \<Rightarrow> int \<times> k_work"

abbreviation (input) CLOCK_POLL_PERIOD :: nat where "CLOCK_POLL_PERIOD \<equiv> 5"
abbreviation (input) CLOCK_POLL_TRIES :: u8 where "CLOCK_POLL_TRIES \<equiv> 24"
abbreviation (input) LORAWAN_DATA_PENDING :: u8 where "LORAWAN_DATA_PENDING \<equiv> 1"
abbreviation (input) LORAWAN_TIME_UPDATED :: u8 where "LORAWAN_TIME_UPDATED \<equiv> 2"

definition ZEPHYR_CAPABILITIES :: "('l, 'e) zephyr_lw_env_scheme \<Rightarrow> u32" where
  "ZEPHYR_CAPABILITIES Z =
     RZI_LORAWAN_CAP_OTAA OR RZI_LORAWAN_CAP_ABP OR RZI_LORAWAN_CAP_CLASS_A OR RZI_LORAWAN_CAP_CLASS_C OR RZI_LORAWAN_CAP_NETWORK
     OR RZI_LORAWAN_CAP_CHANNEL OR RZI_LORAWAN_CAP_SESSION OR RZI_LORAWAN_CAP_MAC OR (if cfg_fuota Z then RZI_LORAWAN_CAP_FUOTA else 0)"

section \<open>Small helpers\<close>

definition rzi_lorawan_zephyr_err :: "int \<Rightarrow> int" where
  "rzi_lorawan_zephyr_err rc = (if rc = - ENETDOWN then - RZI_ERR_NOT_JOINED else rzi_err_from_errno rc)"

definition zephyr_regions :: "lorawan_region list" where
  "zephyr_regions = [LORAWAN_REGION_EU868, LORAWAN_REGION_US915, LORAWAN_REGION_AU915, LORAWAN_REGION_CN470, LORAWAN_REGION_AS923,
     LORAWAN_REGION_AS923, LORAWAN_REGION_AS923, LORAWAN_REGION_AS923, LORAWAN_REGION_IN865, LORAWAN_REGION_KR920, LORAWAN_REGION_RU864]"

definition zephyr_map_region :: "nat \<Rightarrow> lorawan_region option" where
  "zephyr_map_region region = (if region \<ge> length zephyr_regions then None else Some (zephyr_regions ! region))"

definition rzi_lorawan_zephyr_set_dev_nonce :: "u16 \<Rightarrow> ('l, 'z) zephyr_lw_scheme \<Rightarrow> ('l, 'z) zephyr_lw_scheme" where
  "rzi_lorawan_zephyr_set_dev_nonce nonce x = x\<lparr>next_dev_nonce := (if nonce = 0 then 1 else nonce)\<rparr>"

definition rzi_lorawan_zephyr_busy :: "('l, 'z) zephyr_lw_scheme \<Rightarrow> bool" where
  "rzi_lorawan_zephyr_busy x \<longleftrightarrow> zw_join_pending x \<or> zw_tx_pending x"

definition snr_to_quarter_db :: "int \<Rightarrow> int" where
  "snr_to_quarter_db snr_db =
     (let scaled = snr_db * 4 in if scaled > 127 then 127 else if scaled < - 128 then - 128 else scaled)"

section \<open>Callbacks of the stack\<close>

text \<open>A null pointer is \<open>None\<close>; the bytes past the copied ones stay zero.\<close>

definition on_downlink ::
  "('l, 'e) zephyr_lw_env_scheme \<Rightarrow> u8 \<Rightarrow> u8 \<Rightarrow> int \<Rightarrow> int \<Rightarrow> u8 \<Rightarrow> bytes option \<Rightarrow> backend_event list" where
  "on_downlink Z port fl rssi snr len data =
     (let n = (if unat len > RZI_LORAWAN_MAX_PAYLOAD then RZI_LORAWAN_MAX_PAYLOAD else unat len);
          timed = (fl AND LORAWAN_TIME_UPDATED \<noteq> 0)
      in BACKEND_DOWNLINK \<lparr>dl_port = port, dl_size = n, dl_rssi_dbm = rssi, dl_snr_quarter_db = snr_to_quarter_db snr,
            dl_flags = (if fl AND LORAWAN_DATA_PENDING \<noteq> 0 then 1 else 0) OR (if timed then 2 else 0),
            dl_window = 0, dl_multicast_group = 0, dl_data_rate = 0, dl_frequency_hz = 0,
            dl_data = (if data \<noteq> None \<and> n > 0 then overlay (take n (the data)) (replicate RZI_LORAWAN_MAX_PAYLOAD 0)
                       else replicate RZI_LORAWAN_MAX_PAYLOAD 0)\<rparr>
         # (if timed then [BACKEND_DEVICE_TIME 0] else [])
         @ (if timed \<and> cfg_fuota Z then [BACKEND_FUOTA FUOTA_CLOCK_SYNCED True 0] else []))"

definition on_link_check :: "u8 \<Rightarrow> u8 \<Rightarrow> backend_event list" where
  "on_link_check margin nb_gateways =
     [BACKEND_LINK_CHECK \<lparr>demod_margin = margin, gateway_count = nb_gateways, lc_rssi_dbm = 0, lc_snr_quarter_db = 0\<rparr>]"

definition zephyr_apply_region :: "('l, 'e) zephyr_lw_env_scheme \<Rightarrow> lorawan_region \<Rightarrow> 'l \<Rightarrow> int \<times> 'l" where
  "zephyr_apply_region Z selected l = (if cfg_emul Z then (0, l) else lorawan_set_region Z selected l)"

section \<open>The worker\<close>

text \<open>
  The joining configuration; the activation of the settings is the union member in force. A zero nonce asks for the
  next one of the backend.
\<close>

definition fill_zephyr_join :: "('l, 'z) zephyr_lw_scheme \<Rightarrow> lorawan_join_config \<times> ('l, 'z) zephyr_lw_scheme" where
  "fill_zephyr_join x =
     (case jc_keys (join_settings x) of
        Join_otaa k \<Rightarrow>
          if otaa_dev_nonce k \<noteq> 0
          then (LORAWAN_ACT_OTAA \<lparr>zo_dev_eui = otaa_dev_eui k, zo_join_eui = otaa_join_eui k, zo_nwk_key = otaa_network_key k,
                  zo_app_key = otaa_application_key k, zo_dev_nonce = otaa_dev_nonce k\<rparr>, x)
          else (LORAWAN_ACT_OTAA \<lparr>zo_dev_eui = otaa_dev_eui k, zo_join_eui = otaa_join_eui k, zo_nwk_key = otaa_network_key k,
                  zo_app_key = otaa_application_key k, zo_dev_nonce = next_dev_nonce x\<rparr>, x\<lparr>next_dev_nonce := next_dev_nonce x + 1\<rparr>)
      | Join_abp k \<Rightarrow>
          (LORAWAN_ACT_ABP \<lparr>za_dev_addr = abp_dev_addr k, za_nwk_skey = abp_network_session_key k,
             za_app_skey = abp_application_session_key k\<rparr>, x))"

text \<open>The work queue hands the item to its handler.\<close>

definition join_work_take :: "('l, 'z) zephyr_lw_scheme \<Rightarrow> ('l, 'z) zephyr_lw_scheme" where
  "join_work_take x = x\<lparr>join_work := (join_work x)\<lparr>work_queued := False, work_running := True\<rparr>, zw_worker := Worker_join_taken\<rparr>"

text \<open>The first locked section of the handler.\<close>

definition join_work_begin :: "('l, 'z) zephyr_lw_scheme \<Rightarrow> ('l, 'z) zephyr_lw_scheme" where
  "join_work_begin x =
     (if zw_join_stop x then x\<lparr>zw_join_pending := False, zw_worker := Worker_join_done None\<rparr>
      else case fill_zephyr_join x of (config, y) \<Rightarrow> y\<lparr>zw_worker := Worker_joining config\<rparr>)"

text \<open>The blocking call returned: the second locked section. What is left is to publish the event and to return.\<close>

definition join_work_end ::
  "('l, 'e) zephyr_lw_env_scheme \<Rightarrow> lorawan_join_config \<Rightarrow> ('l, 'z) zephyr_lw_scheme \<Rightarrow> ('l, 'z) zephyr_lw_scheme" where
  "join_work_end Z config x =
     (case lorawan_join Z config (zw_stack x) of (rc, l) \<Rightarrow>
        let stopped = zw_join_stop x;
            x = x\<lparr>zw_stack := l, zw_joined := (rc = 0)\<rparr>;
            x = (if rc = 0 \<or> stopped then x\<lparr>zw_join_pending := False\<rparr>
                 else x\<lparr>join_work := k_work_schedule Z (unat (jc_retry_interval_s (join_settings x))) (join_work x)\<rparr>)
        in x\<lparr>zw_worker := Worker_join_done
               (if stopped \<and> rc \<noteq> 0 then None
                else Some (if rc = 0 then BACKEND_JOINED else BACKEND_JOIN_FAILED (rzi_lorawan_zephyr_err rc)))\<rparr>)"

definition join_work_return :: "('l, 'z) zephyr_lw_scheme \<Rightarrow> ('l, 'z) zephyr_lw_scheme" where
  "join_work_return x = x\<lparr>zw_worker := Worker_idle, join_work := (join_work x)\<lparr>work_running := False, work_canceling := False\<rparr>\<rparr>"

definition send_work_take :: "('l, 'z) zephyr_lw_scheme \<Rightarrow> ('l, 'z) zephyr_lw_scheme" where
  "send_work_take x = x\<lparr>send_work := (send_work x)\<lparr>work_queued := False, work_running := True\<rparr>, zw_worker := Worker_send_taken\<rparr>"

definition send_work_begin :: "('l, 'z) zephyr_lw_scheme \<Rightarrow> ('l, 'z) zephyr_lw_scheme" where
  "send_work_begin x =
     x\<lparr>zw_worker := Worker_sending (zw_tx_port x) (take (unat (zw_tx_size x)) (zw_tx_data x)) (zw_tx_size x) (zw_tx_type x)\<rparr>"

text \<open>The event of a completed uplink, by the code of \<^verbatim>\<open>lorawan_send\<close>.\<close>

definition send_completion :: "int \<Rightarrow> nat \<Rightarrow> backend_event" where
  "send_completion rc type =
     (if rc \<noteq> 0 then BACKEND_TX_DONE TXDONE_NOT_SENT (rzi_lorawan_zephyr_err rc)
      else if type = RZI_LORAWAN_MSG_CONFIRMED then BACKEND_TX_DONE TXDONE_CONFIRMED 0 else BACKEND_TX_DONE TXDONE_SENT 0)"

definition send_work_end ::
  "('l, 'e) zephyr_lw_env_scheme \<Rightarrow> u8 \<Rightarrow> bytes \<Rightarrow> u8 \<Rightarrow> nat \<Rightarrow> ('l, 'z) zephyr_lw_scheme \<Rightarrow> ('l, 'z) zephyr_lw_scheme" where
  "send_work_end Z port payload n type x =
     (case lorawan_send Z port payload n (type = RZI_LORAWAN_MSG_CONFIRMED) (zw_stack x) of (rc, l) \<Rightarrow>
        x\<lparr>zw_stack := l, zw_tx_pending := False, zw_worker := Worker_send_done (Some (send_completion rc type))\<rparr>)"

definition send_work_return :: "('l, 'z) zephyr_lw_scheme \<Rightarrow> ('l, 'z) zephyr_lw_scheme" where
  "send_work_return x = x\<lparr>zw_worker := Worker_idle, send_work := (send_work x)\<lparr>work_running := False\<rparr>\<rparr>"

definition clock_poll_handler ::
  "('l, 'e) zephyr_lw_env_scheme \<Rightarrow> ('l, 'z) zephyr_lw_scheme \<Rightarrow> backend_event list \<times> ('l, 'z) zephyr_lw_scheme" where
  "clock_poll_handler Z x =
     (let x = x\<lparr>clock_poll_work := (clock_poll_work x)\<lparr>work_queued := False\<rparr>\<rparr> in
      if lorawan_clock_sync_get Z (zw_stack x) = 0 then ([BACKEND_FUOTA FUOTA_CLOCK_SYNCED True 0], x)
      else if clock_poll_left x > 0
        then ([], x\<lparr>clock_poll_left := clock_poll_left x - 1, clock_poll_work := k_work_schedule Z CLOCK_POLL_PERIOD (clock_poll_work x)\<rparr>)
      else ([], x))"

definition frag_descriptor :: "u32 \<Rightarrow> int \<times> backend_event list" where
  "frag_descriptor descriptor = (0, [BACKEND_FUOTA FUOTA_SESSION_STARTED True 0])"

definition frag_finished :: "backend_event list" where
  "frag_finished = [BACKEND_FUOTA FUOTA_TRANSFER_DONE True 0]"

section \<open>The base operations\<close>

definition zephyr_start :: "('l, 'e) zephyr_lw_env_scheme \<Rightarrow> nat \<Rightarrow> bool \<Rightarrow> ('l, 'z) zephyr_lw_scheme bop" where
  "zephyr_start Z region bypass x =
     (case zephyr_map_region region of
        None \<Rightarrow> (- RZI_ERR_INVALID, [], x)
      | Some selected \<Rightarrow>
          if \<not> cfg_emul Z \<and> \<not> zephyr_device_ready Z (zw_stack x) then (- RZI_ERR_NO_DEVICE, [], x)
          else let x = x\<lparr>current_region := region\<rparr> in
            case zephyr_apply_region Z selected (zw_stack x) of (rc, l) \<Rightarrow>
              if rc \<noteq> 0 then (rzi_lorawan_zephyr_err rc, [], x\<lparr>zw_stack := l\<rparr>)
              else case lorawan_start Z l of (rc, l) \<Rightarrow>
                if rc \<noteq> 0 then (rzi_lorawan_zephyr_err rc, [], x\<lparr>zw_stack := l\<rparr>)
                else (0, [BACKEND_READY], x\<lparr>zw_stack := lorawan_register_callbacks Z l,
                    join_work := WORK_IDLE, send_work := WORK_IDLE, clock_poll_work := WORK_IDLE, zw_started := True, zw_joined := False\<rparr>))"

text \<open>\<^verbatim>\<open>rzi_lorawan_zephyr_mib_set_channels\<close>: the default mask first, then the mask in force.\<close>

definition rzi_lorawan_zephyr_mib_set_channels :: "('l, 'e) zephyr_lw_env_scheme \<Rightarrow> u16 list \<Rightarrow> 'l \<Rightarrow> int \<times> 'l" where
  "rzi_lorawan_zephyr_mib_set_channels Z words l =
     (case mib_set_default_mask Z words l of (ok, l) \<Rightarrow>
        if \<not> ok then (- EINVAL, l) else case mib_set_mask Z words l of (ok, l) \<Rightarrow> (if \<not> ok then - EINVAL else 0, l))"

definition apply_channel_mask :: "('l, 'e) zephyr_lw_env_scheme \<Rightarrow> rzi_lorawan_join_config \<Rightarrow> ('l, 'z) zephyr_lw_scheme op" where
  "apply_channel_mask Z config x =
     (let words = (if jc_channel_mask_set config then Some (jc_channel_mask config)
                   else if rzi_lorawan_region_has_fixed_plan (current_region x) then Some all_channels else None)
      in case words of
        None \<Rightarrow> (0, x)
      | Some w \<Rightarrow> (case rzi_lorawan_zephyr_mib_set_channels Z w (zw_stack x) of (rc, l) \<Rightarrow>
          (rzi_lorawan_zephyr_err rc, x\<lparr>zw_stack := l\<rparr>)))"

definition zephyr_join :: "('l, 'e) zephyr_lw_env_scheme \<Rightarrow> rzi_lorawan_join_config \<Rightarrow> ('l, 'z) zephyr_lw_scheme op" where
  "zephyr_join Z config x =
     (case (if \<not> zw_started x then (- RZI_ERR_NOT_READY, x)
            else if zw_join_pending x \<or> zw_tx_pending x then (- RZI_ERR_BUSY, x)
            else apply_channel_mask Z config x) of (rc, y) \<Rightarrow>
        (rc, if rc = 0 then y\<lparr>join_settings := config, zw_join_pending := True, zw_join_stop := False,
                              join_work := k_work_schedule Z 0 (join_work y)\<rparr> else y))"

definition zephyr_leave :: "('l, 'e) zephyr_lw_env_scheme \<Rightarrow> ('l, 'z) zephyr_lw_scheme op" where
  "zephyr_leave Z x =
     (if zw_join_pending x
      then case k_work_cancel Z (join_work x) of (rc, w) \<Rightarrow>
        (0, x\<lparr>zw_join_stop := True, join_work := w, zw_join_pending := (rc \<noteq> 0)\<rparr>)
      else (- RZI_ERR_NOT_SUPPORTED, x))"

text \<open>The service checks the size, so it fits its byte. A null pointer comes with size 0 only.\<close>

definition zephyr_send_accept ::
  "u8 \<Rightarrow> bytes option \<Rightarrow> nat \<Rightarrow> nat \<Rightarrow> ('l, 'z) zephyr_lw_scheme op" where
  "zephyr_send_accept port data n type x =
     (if \<not> zw_started x then (- RZI_ERR_NOT_READY, x)
      else if \<not> zw_joined x then (- RZI_ERR_NOT_JOINED, x)
      else if zw_join_pending x \<or> zw_tx_pending x then (- RZI_ERR_BUSY, x)
      else (0, x\<lparr>zw_tx_port := port, zw_tx_size := of_nat n, zw_tx_type := type,
                 zw_tx_data := (if n > 0 then overlay (take n (the data)) (zw_tx_data x) else zw_tx_data x),
                 zw_tx_pending := True, zw_submitting := True\<rparr>))"

definition zephyr_send_submit :: "('l, 'e) zephyr_lw_env_scheme \<Rightarrow> ('l, 'z) zephyr_lw_scheme \<Rightarrow> ('l, 'z) zephyr_lw_scheme" where
  "zephyr_send_submit Z x = x\<lparr>send_work := k_work_submit Z (send_work x), zw_submitting := False\<rparr>"

definition zephyr_send ::
  "('l, 'e) zephyr_lw_env_scheme \<Rightarrow> u8 \<Rightarrow> bytes option \<Rightarrow> nat \<Rightarrow> nat \<Rightarrow> ('l, 'z) zephyr_lw_scheme op" where
  "zephyr_send Z port data n type x =
     (case zephyr_send_accept port data n type x of (rc, y) \<Rightarrow> if rc \<noteq> 0 then (rc, y) else (0, zephyr_send_submit Z y))"

definition zephyr_set_class :: "('l, 'e) zephyr_lw_env_scheme \<Rightarrow> nat \<Rightarrow> ('l, 'z) zephyr_lw_scheme op" where
  "zephyr_set_class Z device_class x =
     (if device_class = RZI_LORAWAN_CLASS_B then (- RZI_ERR_NOT_SUPPORTED, x)
      else if device_class \<noteq> RZI_LORAWAN_CLASS_A \<and> device_class \<noteq> RZI_LORAWAN_CLASS_C then (- RZI_ERR_INVALID, x)
      else case lorawan_set_class Z (if device_class = RZI_LORAWAN_CLASS_A then LORAWAN_CLASS_A else LORAWAN_CLASS_C) (zw_stack x) of (rc, l) \<Rightarrow>
        (rzi_lorawan_zephyr_err rc,
         (if rc = 0 then x\<lparr>zw_stack := l, zw_device_class := device_class\<rparr> else x\<lparr>zw_stack := l\<rparr>)))"

text \<open>A query of a started backend: \<^verbatim>\<open>rzi_lorawan_zephyr_lock_started\<close> first.\<close>

definition rzi_lorawan_zephyr_lock_started :: "('l, 'z) zephyr_lw_scheme \<Rightarrow> int" where
  "rzi_lorawan_zephyr_lock_started x = (if \<not> zw_started x then - RZI_ERR_NOT_READY else 0)"

definition zephyr_query :: "(('l, 'z) zephyr_lw_scheme \<Rightarrow> 'a) \<Rightarrow> ('a, ('l, 'z) zephyr_lw_scheme) bget" where
  "zephyr_query f cell x =
     (let rc = rzi_lorawan_zephyr_lock_started x in if rc \<noteq> 0 then (rc, cell, [], x) else (0, f x, [], x))"

definition zephyr_is_joined :: "(bool, ('l, 'z) zephyr_lw_scheme) bget" where
  "zephyr_is_joined = zephyr_query zw_joined"

definition zephyr_get_class :: "(nat, ('l, 'z) zephyr_lw_scheme) bget" where
  "zephyr_get_class = zephyr_query zw_device_class"

definition zephyr_is_busy :: "(bool, ('l, 'z) zephyr_lw_scheme) bget" where
  "zephyr_is_busy = zephyr_query rzi_lorawan_zephyr_busy"

section \<open>Feature operations\<close>

definition zephyr_get_adr :: "(bool, ('l, 'z) zephyr_lw_scheme) bget" where
  "zephyr_get_adr = zephyr_query adr_enabled"

definition zephyr_set_adr :: "('l, 'e) zephyr_lw_env_scheme \<Rightarrow> bool \<Rightarrow> ('l, 'z) zephyr_lw_scheme op" where
  "zephyr_set_adr Z enabled x =
     (let rc = rzi_lorawan_zephyr_lock_started x in
      if rc \<noteq> 0 then (rc, x) else (0, x\<lparr>zw_stack := lorawan_enable_adr Z enabled (zw_stack x), adr_enabled := enabled\<rparr>))"

definition zephyr_get_data_rate :: "(nat, ('l, 'z) zephyr_lw_scheme) bget" where
  "zephyr_get_data_rate = zephyr_query zw_data_rate"

definition zephyr_set_data_rate :: "('l, 'e) zephyr_lw_env_scheme \<Rightarrow> nat \<Rightarrow> ('l, 'z) zephyr_lw_scheme op" where
  "zephyr_set_data_rate Z dr x =
     (let rc = rzi_lorawan_zephyr_lock_started x in
      if rc \<noteq> 0 then (rc, x)
      else case lorawan_set_datarate Z dr (zw_stack x) of (rc, l) \<Rightarrow>
        (rzi_lorawan_zephyr_err rc, (if rc = 0 then x\<lparr>zw_stack := l, zw_data_rate := dr\<rparr> else x\<lparr>zw_stack := l\<rparr>)))"

definition uplink_data_rate_mask :: "nat \<Rightarrow> u16" where
  "uplink_data_rate_mask region =
     (if region = 0 then 0x0fff else if region = RZI_LORAWAN_REGION_US_915 then 0x007f
      else if region = 8 then 0x00bf else if region = 9 then 0x003f else 0x00ff)"

definition zephyr_get_enabled_data_rates :: "(u16, ('l, 'z) zephyr_lw_scheme) bget" where
  "zephyr_get_enabled_data_rates = zephyr_query (\<lambda>x. uplink_data_rate_mask (current_region x))"

definition zephyr_query_tx_possible :: "('l, 'e) zephyr_lw_env_scheme \<Rightarrow> nat \<Rightarrow> ('l, 'z) zephyr_lw_scheme op" where
  "zephyr_query_tx_possible Z n x =
     (let rc = rzi_lorawan_zephyr_lock_started x in
      if rc \<noteq> 0 then (rc, x)
      else (if n > unat (fst (lorawan_get_payload_sizes Z (zw_stack x))) then - RZI_ERR_TOO_LARGE else 0, x))"

definition zephyr_map_mib :: "int \<Rightarrow> int" where
  "zephyr_map_mib rc = (if rc = 0 then 0 else if rc = - ENOTSUP then - RZI_ERR_NOT_SUPPORTED else - RZI_ERR_IO)"

definition rzi_lorawan_zephyr_mib_dev_addr :: "('l, 'e) zephyr_lw_env_scheme \<Rightarrow> u32 \<Rightarrow> 'l \<Rightarrow> int \<times> u32" where
  "rzi_lorawan_zephyr_mib_dev_addr Z cell l = (case mib_get_dev_addr Z l of None \<Rightarrow> (- EIO, cell) | Some a \<Rightarrow> (0, a))"

definition copy_session_key :: "('l, 'e) zephyr_lw_env_scheme \<Rightarrow> nat \<Rightarrow> bytes \<Rightarrow> 'l \<Rightarrow> int \<times> bytes" where
  "copy_session_key Z key_id cell l =
     (if cfg_soft_se Z
      then case mib_nvm_keys Z l of
          None \<Rightarrow> (- EIO, cell)
        | Some items \<Rightarrow> (case find (\<lambda>item. fst item = key_id) items of None \<Rightarrow> (- ENOENT, cell) | Some item \<Rightarrow> (0, snd item))
      else (- ENOTSUP, cell))"

text \<open>A started backend reads the MIB into the caller's cell.\<close>

definition zephyr_read_mib :: "('a \<Rightarrow> 'l \<Rightarrow> int \<times> 'a) \<Rightarrow> ('a, ('l, 'z) zephyr_lw_scheme) bget" where
  "zephyr_read_mib f cell x =
     (let rc = rzi_lorawan_zephyr_lock_started x in
      if rc \<noteq> 0 then (rc, cell, [], x)
      else case f cell (zw_stack x) of (rc, v) \<Rightarrow> (zephyr_map_mib rc, v, [], x))"

definition zephyr_get_dev_addr :: "('l, 'e) zephyr_lw_env_scheme \<Rightarrow> (u32, ('l, 'z) zephyr_lw_scheme) bget" where
  "zephyr_get_dev_addr Z = zephyr_read_mib (rzi_lorawan_zephyr_mib_dev_addr Z)"

definition zephyr_get_nwk_skey :: "('l, 'e) zephyr_lw_env_scheme \<Rightarrow> (bytes, ('l, 'z) zephyr_lw_scheme) bget" where
  "zephyr_get_nwk_skey Z = zephyr_read_mib (copy_session_key Z (key_nwk_s_enc Z))"

definition zephyr_get_app_skey :: "('l, 'e) zephyr_lw_env_scheme \<Rightarrow> (bytes, ('l, 'z) zephyr_lw_scheme) bget" where
  "zephyr_get_app_skey Z = zephyr_read_mib (copy_session_key Z (key_app_s Z))"

definition zephyr_get_dev_nonce :: "(u16, ('l, 'z) zephyr_lw_scheme) bget" where
  "zephyr_get_dev_nonce = zephyr_query next_dev_nonce"

definition zephyr_set_dev_nonce :: "u16 \<Rightarrow> ('l, 'z) zephyr_lw_scheme op" where
  "zephyr_set_dev_nonce nonce x =
     (let rc = rzi_lorawan_zephyr_lock_started x in if rc \<noteq> 0 then (rc, x) else (0, rzi_lorawan_zephyr_set_dev_nonce nonce x))"

text \<open>A MAC request: not in the emulator, only when started, and answered by the stack without the lock.\<close>

definition zephyr_mac_request ::
  "('l, 'e) zephyr_lw_env_scheme \<Rightarrow> (bool \<Rightarrow> 'l \<Rightarrow> int \<times> 'l) \<Rightarrow> ('l, 'z) zephyr_lw_scheme op" where
  "zephyr_mac_request Z f x =
     (if cfg_emul Z then (- RZI_ERR_NOT_SUPPORTED, x)
      else let rc = rzi_lorawan_zephyr_lock_started x in
        if rc \<noteq> 0 then (rc, x)
        else case f True (zw_stack x) of (rc, l) \<Rightarrow> (rzi_lorawan_zephyr_err rc, x\<lparr>zw_stack := l\<rparr>))"

definition zephyr_link_check_request :: "('l, 'e) zephyr_lw_env_scheme \<Rightarrow> ('l, 'z) zephyr_lw_scheme op" where
  "zephyr_link_check_request Z = zephyr_mac_request Z (lorawan_request_link_check Z)"

definition zephyr_device_time_request :: "('l, 'e) zephyr_lw_env_scheme \<Rightarrow> ('l, 'z) zephyr_lw_scheme op" where
  "zephyr_device_time_request Z = zephyr_mac_request Z (lorawan_request_device_time Z)"

definition zephyr_get_network_time :: "('l, 'e) zephyr_lw_env_scheme \<Rightarrow> (rzi_lorawan_network_time, ('l, 'z) zephyr_lw_scheme) bget" where
  "zephyr_get_network_time Z cell x =
     (if cfg_emul Z then (- RZI_ERR_NOT_SUPPORTED, cell, [], x)
      else let rc = rzi_lorawan_zephyr_lock_started x in
        if rc \<noteq> 0 then (rc, cell, [], x)
        else case lorawan_device_time_get Z (zw_stack x) of (rc, gps) \<Rightarrow>
          if rc \<noteq> 0 then (rzi_lorawan_zephyr_err rc, cell, [], x)
          else (0, \<lparr>gps_seconds = gps, gps_subseconds = 0\<rparr>, [], x))"

section \<open>Firmware updates\<close>

definition zephyr_fuota_start_clock_sync :: "('l, 'e) zephyr_lw_env_scheme \<Rightarrow> ('l, 'z) zephyr_lw_scheme op" where
  "zephyr_fuota_start_clock_sync Z x =
     (let x = (if cfg_emul Z then x else x\<lparr>zw_stack := snd (lorawan_request_device_time Z False (zw_stack x))\<rparr>) in
      case (if cfg_app_clock_sync Z
            then case lorawan_clock_sync_run Z (zw_stack x) of (r, l) \<Rightarrow>
              let rc = rzi_lorawan_zephyr_err r; x = x\<lparr>zw_stack := l\<rparr> in
              (rc, if rc = 0 then x\<lparr>clock_poll_left := CLOCK_POLL_TRIES, clock_poll_work := k_work_schedule Z 0 (clock_poll_work x)\<rparr> else x)
            else (- RZI_ERR_NOT_SUPPORTED, x)) of (rc, y) \<Rightarrow>
        if cfg_frag_transport Z \<and> \<not> fuota_services_started y
        then case lorawan_frag_transport_run Z (zw_stack y) of (frag_rc, l) \<Rightarrow>
          (if frag_rc \<noteq> 0 \<and> rc = 0 then rzi_lorawan_zephyr_err frag_rc else rc, y\<lparr>zw_stack := l, fuota_services_started := True\<rparr>)
        else (rc, y))"

definition zephyr_fuota_get_image_size :: "(nat, ('l, 'z) zephyr_lw_scheme) bget" where
  "zephyr_fuota_get_image_size cell x = (- RZI_ERR_NO_DATA, cell, [], x)"

definition zephyr_fuota_read_image ::
  "('l, 'e) zephyr_lw_env_scheme \<Rightarrow> u32 \<Rightarrow> nat \<Rightarrow> (bytes, ('l, 'z) zephyr_lw_scheme) bget" where
  "zephyr_fuota_read_image Z offset n cell x =
     (if \<not> has_slot1 Z then (- RZI_ERR_NOT_SUPPORTED, cell, [], x)
      else let rc = flash_area_open Z (zw_stack x) in
        if rc \<noteq> 0 then (rzi_lorawan_zephyr_err rc, cell, [], x)
        else if unat offset + n > flash_area_size Z then (- RZI_ERR_INVALID, cell, [], x)
        else case flash_area_read Z (unat offset) n (zw_stack x) of (rc, bs) \<Rightarrow>
          (rzi_lorawan_zephyr_err rc, overlay (take n bs) cell, [], x))"

definition zephyr_fuota_reboot :: "('l, 'e) zephyr_lw_env_scheme \<Rightarrow> ('l, 'z) zephyr_lw_scheme op" where
  "zephyr_fuota_reboot Z x = (- RZI_ERR_IO, x\<lparr>zw_stack := sys_reboot Z (zw_stack x)\<rparr>)"

section \<open>The table\<close>

definition zephyr_network_ops :: "('l, 'e) zephyr_lw_env_scheme \<Rightarrow> ('l, 'z) zephyr_lw_scheme rzi_lorawan_network_ops" where
  "zephyr_network_ops Z =
     \<lparr>bk_get_adr = Some zephyr_get_adr, bk_set_adr = Some (\<lambda>b. silent (zephyr_set_adr Z b)), bk_get_data_rate = Some zephyr_get_data_rate,
      bk_set_data_rate = Some (\<lambda>d. silent (zephyr_set_data_rate Z d)), bk_get_enabled_data_rates = Some zephyr_get_enabled_data_rates,
      bk_get_adr_profile = None, bk_set_adr_profile = None, bk_get_nb_trans = None, bk_set_nb_trans = None, bk_get_adr_ack = None,
      bk_set_adr_ack = None, bk_set_join_data_rates = None, bk_get_duty_cycle_status = None, bk_get_join_backoff = None,
      bk_get_public_network = None, bk_set_public_network = None, bk_get_lbt = None, bk_set_lbt = None, bk_get_lbt_rssi = None,
      bk_set_lbt_rssi = None, bk_get_lbt_scan_time = None, bk_set_lbt_scan_time = None, bk_get_csma = None, bk_set_csma = None,
      bk_get_csma_params = None, bk_set_csma_params = None, bk_get_lost_connection_count = None, bk_get_no_downlink_threshold = None,
      bk_set_no_downlink_threshold = None, bk_get_crystal_error = None, bk_set_crystal_error = None, bk_send_empty = None,
      bk_query_tx_possible = Some (\<lambda>n. silent (zephyr_query_tx_possible Z n))\<rparr>"

definition zephyr_session_ops :: "('l, 'e) zephyr_lw_env_scheme \<Rightarrow> ('l, 'z) zephyr_lw_scheme rzi_lorawan_session_ops" where
  "zephyr_session_ops Z =
     \<lparr>bk_get_net_id = None, bk_get_dev_nonce = Some zephyr_get_dev_nonce, bk_set_dev_nonce = Some (\<lambda>n. silent (zephyr_set_dev_nonce n)),
      bk_get_dev_addr = Some (zephyr_get_dev_addr Z), bk_get_nwk_skey = Some (zephyr_get_nwk_skey Z),
      bk_get_app_skey = Some (zephyr_get_app_skey Z)\<rparr>"

definition zephyr_mac_ops :: "('l, 'e) zephyr_lw_env_scheme \<Rightarrow> ('l, 'z) zephyr_lw_scheme rzi_lorawan_mac_ops" where
  "zephyr_mac_ops Z =
     \<lparr>bk_request_link_check = Some (silent (zephyr_link_check_request Z)), bk_request_device_time = Some (silent (zephyr_device_time_request Z)),
      bk_get_network_time = Some (zephyr_get_network_time Z)\<rparr>"

definition zephyr_fuota_ops :: "('l, 'e) zephyr_lw_env_scheme \<Rightarrow> ('l, 'z) zephyr_lw_scheme rzi_lorawan_fuota_ops" where
  "zephyr_fuota_ops Z =
     \<lparr>bk_start_clock_sync = Some (silent (zephyr_fuota_start_clock_sync Z)), bk_get_image_size = Some zephyr_fuota_get_image_size,
      bk_read_image = Some (zephyr_fuota_read_image Z), bk_reboot = Some (silent (zephyr_fuota_reboot Z))\<rparr>"

definition zephyr_lorawan_backend :: "('l, 'e) zephyr_lw_env_scheme \<Rightarrow> ('l, 'z) zephyr_lw_scheme rzi_lorawan_backend_api" where
  "zephyr_lorawan_backend Z =
     \<lparr>bk_capabilities = ZEPHYR_CAPABILITIES Z,
      bk_base = \<lparr>bk_start = zephyr_start Z, bk_join = (\<lambda>c. silent (zephyr_join Z c)), bk_leave = silent (zephyr_leave Z),
        bk_send = (\<lambda>port data n type. silent (zephyr_send Z port data n type)), bk_set_class = (\<lambda>c. silent (zephyr_set_class Z c)),
        bk_get_class = Some zephyr_get_class, bk_is_joined = zephyr_is_joined, bk_is_busy = zephyr_is_busy\<rparr>,
      bk_network = Some (zephyr_network_ops Z), bk_class_b = None, bk_session = Some (zephyr_session_ops Z),
      bk_mac = Some (zephyr_mac_ops Z), bk_multicast = None, bk_certification = None,
      bk_fuota = (if cfg_fuota Z then Some (zephyr_fuota_ops Z) else None)\<rparr>"

end
