(* ===== verification/Rzi_Lw_Zephyr_Runs.thy ===== *)
theory Rzi_Lw_Zephyr_Runs
  imports Rzi_Lw_Zephyr
begin

text \<open>
  Runs of the LoRaWAN backend over Zephyr's stack: calls of its table, its worker and the callbacks of the stack in any order, as a
  labelled step relation. A step is a section of code under the backend's lock, one blocking call, one publication or the return of a
  handler, so that other threads come in wherever the code does not hold the lock. An invariant ties the pending flags to the work items, so every accepted uplink is
  completed once (an interpretation of \<open>uplink_accounting\<close>) and reaches the stack as it was accepted; the last part is about a join that is left.
\<close>

section \<open>Steps\<close>

text \<open>
  The documented behaviour of a work item: submitting or scheduling queues it unless it is being cancelled; cancelling takes it out
  of the queue and returns 0 unless its handler is running, in which case the item counts as being cancelled until the handler returns.
\<close>

definition work_lawful :: "('l, 'e) zephyr_lw_env_scheme \<Rightarrow> bool" where
  "work_lawful Z \<longleftrightarrow> (\<forall>d w. k_work_schedule Z d w = (if work_canceling w then w else w\<lparr>work_queued := True\<rparr>))
     \<and> (\<forall>w. k_work_submit Z w = (if work_canceling w then w else w\<lparr>work_queued := True\<rparr>))
     \<and> (\<forall>w. snd (k_work_cancel Z w) = w\<lparr>work_queued := False, work_canceling := work_running w\<rparr>
          \<and> (fst (k_work_cancel Z w) = 0 \<longleftrightarrow> \<not> work_running w))"

datatype zephyr_label = Z_join | Z_leave | Z_send | Z_other

inductive zephyr_step ::
  "('l, 'e) zephyr_lw_env_scheme \<Rightarrow> ('l, 'z) zephyr_lw_scheme \<Rightarrow> zephyr_label \<Rightarrow> backend_event list \<Rightarrow> ('l, 'z) zephyr_lw_scheme \<Rightarrow> bool"
  for Z where
  zs_start: "\<not> zw_started x \<Longrightarrow> zephyr_start Z region bypass x = (rc, evs, y) \<Longrightarrow> zephyr_step Z x Z_other evs y"
| zs_join: "zephyr_join Z c x = (rc, y) \<Longrightarrow> zephyr_step Z x (if rc = 0 then Z_join else Z_other) [] y"
| zs_leave: "zephyr_leave Z x = (rc, y) \<Longrightarrow> zephyr_step Z x (if rc = 0 then Z_leave else Z_other) [] y"
| zs_send: "zephyr_send_accept port data n type x = (rc, y) \<Longrightarrow> zephyr_step Z x (if rc = 0 then Z_send else Z_other) [] y"
| zs_submit: "zw_submitting x \<Longrightarrow> zephyr_step Z x Z_other [] (zephyr_send_submit Z x)"
| zs_class: "zephyr_set_class Z c x = (rc, y) \<Longrightarrow> zephyr_step Z x Z_other [] y"
| zs_adr: "zephyr_set_adr Z b x = (rc, y) \<Longrightarrow> zephyr_step Z x Z_other [] y"
| zs_data_rate: "zephyr_set_data_rate Z dr x = (rc, y) \<Longrightarrow> zephyr_step Z x Z_other [] y"
| zs_nonce: "zephyr_set_dev_nonce nonce x = (rc, y) \<Longrightarrow> zephyr_step Z x Z_other [] y"
| zs_mac: "zephyr_mac_request Z f x = (rc, y) \<Longrightarrow> zephyr_step Z x Z_other [] y"
| zs_clock: "zephyr_fuota_start_clock_sync Z x = (rc, y) \<Longrightarrow> zephyr_step Z x Z_other [] y"
| zs_join_take: "zw_worker x = Worker_idle \<Longrightarrow> work_queued (join_work x) \<Longrightarrow> zephyr_step Z x Z_other [] (join_work_take x)"
| zs_join_begin: "zw_worker x = Worker_join_taken \<Longrightarrow> zephyr_step Z x Z_other [] (join_work_begin x)"
| zs_join_end: "zw_worker x = Worker_joining c \<Longrightarrow> zephyr_step Z x Z_other [] (join_work_end Z c x)"
| zs_join_publish: "zw_worker x = Worker_join_done (Some ev) \<Longrightarrow> zephyr_step Z x Z_other [ev] (x\<lparr>zw_worker := Worker_join_done None\<rparr>)"
| zs_join_return: "zw_worker x = Worker_join_done None \<Longrightarrow> zephyr_step Z x Z_other [] (join_work_return x)"
| zs_send_take: "zw_worker x = Worker_idle \<Longrightarrow> work_queued (send_work x) \<Longrightarrow> zephyr_step Z x Z_other [] (send_work_take x)"
| zs_send_begin: "zw_worker x = Worker_send_taken \<Longrightarrow> zephyr_step Z x Z_other [] (send_work_begin x)"
| zs_send_end: "zw_worker x = Worker_sending p d n t \<Longrightarrow> zephyr_step Z x Z_other [] (send_work_end Z p d n t x)"
| zs_send_publish: "zw_worker x = Worker_send_done (Some ev) \<Longrightarrow> zephyr_step Z x Z_other [ev] (x\<lparr>zw_worker := Worker_send_done None\<rparr>)"
| zs_send_return: "zw_worker x = Worker_send_done None \<Longrightarrow> zephyr_step Z x Z_other [] (send_work_return x)"
| zs_clock_poll: "zw_worker x = Worker_idle \<Longrightarrow> clock_poll_handler Z x = (evs, y) \<Longrightarrow> zephyr_step Z x Z_other evs y"
| zs_downlink: "zephyr_step Z x Z_other (on_downlink Z port fl rssi snr len data) x"
| zs_link_check: "zephyr_step Z x Z_other (on_link_check margin gateways) x"
| zs_frag: "zephyr_step Z x Z_other (snd (frag_descriptor d)) x"
| zs_frag_finished: "zephyr_step Z x Z_other frag_finished x"
| zs_stack: "zephyr_step Z x Z_other [] (x\<lparr>zw_stack := l\<rparr>)"

text \<open>The labels and the published events of a run.\<close>

inductive zephyr_run ::
  "('l, 'e) zephyr_lw_env_scheme \<Rightarrow> ('l, 'z) zephyr_lw_scheme \<Rightarrow> zephyr_label list \<Rightarrow> backend_event list \<Rightarrow> ('l, 'z) zephyr_lw_scheme \<Rightarrow> bool"
  for Z where
  zr_done: "zephyr_run Z x [] [] x"
| zr_step: "zephyr_run Z x ls evs y \<Longrightarrow> zephyr_step Z y l es z \<Longrightarrow> zephyr_run Z x (ls @ [l]) (evs @ es) z"

text \<open>The static initialisers.\<close>

definition zephyr_initial :: "rzi_lorawan_join_config \<Rightarrow> 'l \<Rightarrow> 'l zephyr_lw" where
  "zephyr_initial c l =
     \<lparr>zw_started = False, zw_joined = False, zw_join_pending = False, zw_join_stop = False, zw_tx_pending = False, next_dev_nonce = 1,
      current_region = 0, join_settings = c, zw_tx_port = 0, zw_tx_size = 0, zw_tx_type = 0, zw_tx_data = replicate RZI_LORAWAN_MAX_PAYLOAD 0,
      zw_submitting = False, join_work = WORK_IDLE, send_work = WORK_IDLE,
      zw_worker = Worker_idle, clock_poll_work = WORK_IDLE, clock_poll_left = 0,
      fuota_services_started = False, zw_device_class = RZI_LORAWAN_CLASS_A, adr_enabled = True, zw_data_rate = 0, zw_stack = l\<rparr>"

section \<open>The invariant\<close>

text \<open>Where the worker is: in a join handler, before the second locked section of one, and before that of a send handler.\<close>

fun join_handler :: "zephyr_worker \<Rightarrow> bool" where
  "join_handler Worker_join_taken = True"
| "join_handler (Worker_joining c) = True"
| "join_handler (Worker_join_done e) = True"
| "join_handler _ = False"

fun join_open :: "zephyr_worker \<Rightarrow> bool" where
  "join_open Worker_join_taken = True"
| "join_open (Worker_joining c) = True"
| "join_open _ = False"

fun send_open :: "zephyr_worker \<Rightarrow> bool" where
  "send_open Worker_send_taken = True"
| "send_open (Worker_sending p d n t) = True"
| "send_open _ = False"

definition is_join_result :: "backend_event \<Rightarrow> bool" where
  "is_join_result ev \<longleftrightarrow> (case ev of BACKEND_JOIN_FAILED _ \<Rightarrow> True | BACKEND_JOINED \<Rightarrow> True | _ \<Rightarrow> False)"

lemma tx_no_result: "is_tx_done ev \<Longrightarrow> \<not> is_join_result ev"
  by (simp add: is_tx_done_def is_join_result_def split: backend_event.splits)

text \<open>
  Exactly one of the caller that submits, the queue and the worker has a pending uplink. A pending join is queued, or
  it is with the worker, or it was lost (\<open>join_lost\<close> below), so only one direction holds for it.
\<close>

definition zephyr_inv :: "('l, 'z) zephyr_lw_scheme \<Rightarrow> bool" where
  "zephyr_inv x \<longleftrightarrow>
     work_running (join_work x) = join_handler (zw_worker x) \<and> (work_canceling (join_work x) \<longrightarrow> work_running (join_work x))
     \<and> \<not> work_canceling (send_work x)
     \<and> (work_queued (join_work x) \<longrightarrow> zw_join_pending x)
     \<and> (join_open (zw_worker x) \<longrightarrow> zw_join_pending x \<and> \<not> work_queued (join_work x))
     \<and> of_bool (zw_submitting x) + of_bool (work_queued (send_work x)) + of_bool (send_open (zw_worker x)) = (of_bool (zw_tx_pending x) :: nat)
     \<and> (\<forall>p d n t. zw_worker x = Worker_sending p d n t \<longrightarrow>
          p = zw_tx_port x \<and> d = take (unat (zw_tx_size x)) (zw_tx_data x) \<and> n = zw_tx_size x \<and> t = zw_tx_type x)
     \<and> \<not> (zw_join_pending x \<and> zw_tx_pending x)
     \<and> (\<not> zw_started x \<longrightarrow> zw_worker x = Worker_idle \<and> \<not> zw_join_pending x \<and> \<not> zw_tx_pending x)
     \<and> (\<forall>ev. zw_worker x = Worker_send_done (Some ev) \<longrightarrow> is_tx_done ev)
     \<and> (\<forall>ev. zw_worker x = Worker_join_done (Some ev) \<longrightarrow> is_join_result ev)"

text \<open>What the invariant looks at, and the message.\<close>

definition zephyr_core where
  "zephyr_core x = (zw_started x, zw_join_pending x, zw_join_stop x, zw_tx_pending x, zw_submitting x, join_work x, send_work x, zw_worker x,
     zw_tx_port x, zw_tx_size x, zw_tx_type x, zw_tx_data x)"

lemma core_inv: "zephyr_core y = zephyr_core x \<Longrightarrow> zephyr_inv y = zephyr_inv x"
  by (simp add: zephyr_core_def zephyr_inv_def)

lemmas zephyr_op_defs = zephyr_set_class_def zephyr_set_adr_def zephyr_set_data_rate_def zephyr_set_dev_nonce_def zephyr_mac_request_def
  zephyr_fuota_start_clock_sync_def rzi_lorawan_zephyr_set_dev_nonce_def Let_def

lemma apply_mask_core: "apply_channel_mask Z c x = (rc, y) \<Longrightarrow> zephyr_core y = zephyr_core x"
  by (auto simp: apply_channel_mask_def zephyr_core_def Let_def split: option.splits prod.splits if_splits)

lemma other_core:
  "zephyr_set_class Z c x = (rc, y) \<Longrightarrow> zephyr_core y = zephyr_core x"
  "zephyr_set_adr Z b x = (rc, y) \<Longrightarrow> zephyr_core y = zephyr_core x"
  "zephyr_set_data_rate Z dr x = (rc, y) \<Longrightarrow> zephyr_core y = zephyr_core x"
  "zephyr_set_dev_nonce nonce x = (rc, y) \<Longrightarrow> zephyr_core y = zephyr_core x"
  "zephyr_mac_request Z f x = (rc, y) \<Longrightarrow> zephyr_core y = zephyr_core x"
  "zephyr_fuota_start_clock_sync Z x = (rc, y) \<Longrightarrow> zephyr_core y = zephyr_core x"
  "clock_poll_handler Z x = (evs, y) \<Longrightarrow> zephyr_core y = zephyr_core x"
  "zephyr_core (x\<lparr>zw_stack := l\<rparr>) = zephyr_core x"
  by (auto simp: zephyr_op_defs clock_poll_handler_def zephyr_core_def split: prod.splits if_splits)

text \<open>The events of the other steps: neither a completed uplink nor a failed join.\<close>

definition quiet_event :: "backend_event \<Rightarrow> bool" where
  "quiet_event ev \<longleftrightarrow> (case ev of BACKEND_TX_DONE _ _ \<Rightarrow> False | BACKEND_JOIN_FAILED _ \<Rightarrow> False | BACKEND_JOINED \<Rightarrow> False | _ \<Rightarrow> True)"

lemma other_events:
  "clock_poll_handler Z x = (evs, y) \<Longrightarrow> list_all quiet_event evs"
  "list_all quiet_event (on_downlink Z port fl rssi snr len data)" "list_all quiet_event (on_link_check margin gateways)"
  "list_all quiet_event (snd (frag_descriptor d))" "list_all quiet_event frag_finished"
  "zephyr_start Z region bypass x = (rc, evs, y) \<Longrightarrow> list_all quiet_event evs"
  by (auto simp: clock_poll_handler_def on_downlink_def on_link_check_def frag_descriptor_def frag_finished_def zephyr_start_def
      quiet_event_def Let_def split: prod.splits if_splits option.splits)

text \<open>What a step is, seen from the core: an accepted join or uplink, a leave, a start, a handler, or nothing.\<close>

lemma zephyr_step_cases:
  assumes "zephyr_step Z x l evs y"
  obtains (other) "zephyr_core y = zephyr_core x" "l = Z_other" "list_all quiet_event evs"
  | (start) rc region bypass where "\<not> zw_started x" "zephyr_start Z region bypass x = (rc, evs, y)" "l = Z_other"
      "list_all quiet_event evs"
  | (joins) c where "zephyr_join Z c x = (0, y)" "l = Z_join" "evs = []"
  | (leaves) "zephyr_leave Z x = (0, y)" "l = Z_leave" "evs = []"
  | (sends) port data n type where "zephyr_send_accept port data n type x = (0, y)" "l = Z_send" "evs = []"
  | (submit) "zw_submitting x" "y = zephyr_send_submit Z x" "l = Z_other" "evs = []"
  | (join_take) "zw_worker x = Worker_idle" "work_queued (join_work x)" "y = join_work_take x" "l = Z_other" "evs = []"
  | (join_begin) "zw_worker x = Worker_join_taken" "y = join_work_begin x" "l = Z_other" "evs = []"
  | (join_end) c where "zw_worker x = Worker_joining c" "y = join_work_end Z c x" "l = Z_other" "evs = []"
  | (join_publish) ev where "zw_worker x = Worker_join_done (Some ev)" "y = x\<lparr>zw_worker := Worker_join_done None\<rparr>" "l = Z_other" "evs = [ev]"
  | (join_return) "zw_worker x = Worker_join_done None" "y = join_work_return x" "l = Z_other" "evs = []"
  | (send_take) "zw_worker x = Worker_idle" "work_queued (send_work x)" "y = send_work_take x" "l = Z_other" "evs = []"
  | (send_begin) "zw_worker x = Worker_send_taken" "y = send_work_begin x" "l = Z_other" "evs = []"
  | (send_end) p d n t where "zw_worker x = Worker_sending p d n t" "y = send_work_end Z p d n t x" "l = Z_other" "evs = []"
  | (send_publish) ev where "zw_worker x = Worker_send_done (Some ev)" "y = x\<lparr>zw_worker := Worker_send_done None\<rparr>" "l = Z_other" "evs = [ev]"
  | (send_return) "zw_worker x = Worker_send_done None" "y = send_work_return x" "l = Z_other" "evs = []"
  using assms
proof cases
  case (zs_join c rc)
  show ?thesis
  proof (cases "rc = 0")
    case True
    with zs_join show ?thesis using joins by simp
  next
    case False
    then have "zephyr_core y = zephyr_core x"
      using zs_join(3) apply_mask_core [of Z c x] by (auto simp: zephyr_join_def split: if_splits prod.splits)
    with False zs_join show ?thesis using other by simp
  qed
next
  case (zs_leave rc)
  show ?thesis
  proof (cases "zw_join_pending x")
    case True
    with zs_leave have "zephyr_leave Z x = (0, y)" by (auto simp: zephyr_leave_def split: prod.splits)
    with zs_leave show ?thesis using leaves by simp
  next
    case False
    with zs_leave show ?thesis using other by (simp add: zephyr_leave_def)
  qed
next
  case (zs_send port data n type rc)
  show ?thesis
  proof (cases "rc = 0")
    case True
    with zs_send show ?thesis using sends by simp
  next
    case False
    with zs_send show ?thesis using other by (auto simp: zephyr_send_accept_def split: if_splits)
  qed
next
  case (zs_start region bypass rc)
  then show ?thesis using start other_events(6) [OF zs_start(3)] by blast
next
  case zs_submit
  then show ?thesis using submit by blast
next
  case zs_join_take
  then show ?thesis using join_take by blast
next
  case zs_join_begin
  then show ?thesis using join_begin by blast
next
  case (zs_join_end c)
  then show ?thesis using join_end by blast
next
  case (zs_join_publish ev)
  then show ?thesis using join_publish by blast
next
  case zs_join_return
  then show ?thesis using join_return by blast
next
  case zs_send_take
  then show ?thesis using send_take by blast
next
  case zs_send_begin
  then show ?thesis using send_begin by blast
next
  case (zs_send_end p d n t)
  then show ?thesis using send_end by blast
next
  case (zs_send_publish ev)
  then show ?thesis using send_publish by blast
next
  case zs_send_return
  then show ?thesis using send_return by blast
next
  case (zs_class c rc)
  show ?thesis by (rule other) (simp_all add: zs_class other_core(1) [OF zs_class(3)])
next
  case (zs_adr b rc)
  show ?thesis by (rule other) (simp_all add: zs_adr other_core(2) [OF zs_adr(3)])
next
  case (zs_data_rate dr rc)
  show ?thesis by (rule other) (simp_all add: zs_data_rate other_core(3) [OF zs_data_rate(3)])
next
  case (zs_nonce nonce rc)
  show ?thesis by (rule other) (simp_all add: zs_nonce other_core(4) [OF zs_nonce(3)])
next
  case (zs_mac f rc)
  show ?thesis by (rule other) (simp_all add: zs_mac other_core(5) [OF zs_mac(3)])
next
  case (zs_clock rc)
  show ?thesis by (rule other) (simp_all add: zs_clock other_core(6) [OF zs_clock(3)])
next
  case zs_clock_poll
  show ?thesis by (rule other) (simp_all add: zs_clock_poll other_core(7) [OF zs_clock_poll(3)] other_events(1) [OF zs_clock_poll(3)])
next
  case (zs_downlink port fl rssi snr len data)
  show ?thesis by (rule other) (simp_all add: zs_downlink other_events(2))
next
  case (zs_link_check margin gateways)
  show ?thesis by (rule other) (simp_all add: zs_link_check other_events(3))
next
  case (zs_frag d)
  show ?thesis by (rule other) (simp_all add: zs_frag other_events(4))
next
  case zs_frag_finished
  show ?thesis by (rule other) (simp_all add: zs_frag_finished other_events(5))
next
  case (zs_stack l)
  show ?thesis by (rule other) (simp_all add: zs_stack other_core(8))
qed

lemma work_laws:
  assumes "work_lawful Z"
  shows "k_work_schedule Z d w = (if work_canceling w then w else w\<lparr>work_queued := True\<rparr>)"
    and "k_work_submit Z w = (if work_canceling w then w else w\<lparr>work_queued := True\<rparr>)"
    and "snd (k_work_cancel Z w) = w\<lparr>work_queued := False, work_canceling := work_running w\<rparr>"
    and "fst (k_work_cancel Z w) = 0 \<longleftrightarrow> \<not> work_running w"
  using assms by (simp_all add: work_lawful_def)

lemma join_accepted:
  assumes "zephyr_join Z c x = (0, y)" and "work_lawful Z"
  shows "zw_started x" and "\<not> zw_join_pending x" and "\<not> zw_tx_pending x"
    and "\<exists>w. zephyr_core w = zephyr_core x \<and> y = w\<lparr>join_settings := c, zw_join_pending := True, zw_join_stop := False,
           join_work := (if work_canceling (join_work x) then join_work x else (join_work x)\<lparr>work_queued := True\<rparr>)\<rparr>"
proof -
  show g: "zw_started x" "\<not> zw_join_pending x" "\<not> zw_tx_pending x" using assms(1) by (auto simp: zephyr_join_def split: if_splits)
  obtain rc w where w: "apply_channel_mask Z c x = (rc, w)" by fastforce
  have "zephyr_core w = zephyr_core x" using apply_mask_core [OF w] .
  moreover from this have "join_work w = join_work x" by (simp add: zephyr_core_def)
  moreover have "y = w\<lparr>join_settings := c, zw_join_pending := True, zw_join_stop := False,
      join_work := (if work_canceling (join_work w) then join_work w else (join_work w)\<lparr>work_queued := True\<rparr>)\<rparr>"
    using assms(1) g w by (simp add: zephyr_join_def work_laws [OF assms(2)] split: if_splits)
  ultimately show "\<exists>w. zephyr_core w = zephyr_core x \<and> y = w\<lparr>join_settings := c, zw_join_pending := True, zw_join_stop := False,
      join_work := (if work_canceling (join_work x) then join_work x else (join_work x)\<lparr>work_queued := True\<rparr>)\<rparr>" by metis
qed

lemma leave_accepted:
  assumes "zephyr_leave Z x = (0, y)" and "work_lawful Z"
  shows "zw_join_pending x" and "y = x\<lparr>zw_join_stop := True,
    join_work := (join_work x)\<lparr>work_queued := False, work_canceling := work_running (join_work x)\<rparr>, zw_join_pending := work_running (join_work x)\<rparr>"
proof -
  show p: "zw_join_pending x" using assms(1) by (auto simp: zephyr_leave_def split: if_splits)
  obtain rc w where w: "k_work_cancel Z (join_work x) = (rc, w)" by fastforce
  then have "w = (join_work x)\<lparr>work_queued := False, work_canceling := work_running (join_work x)\<rparr>" "rc = 0 \<longleftrightarrow> \<not> work_running (join_work x)"
    using work_laws(3,4) [OF assms(2), of "join_work x"] by auto
  then show "y = x\<lparr>zw_join_stop := True, join_work := (join_work x)\<lparr>work_queued := False, work_canceling := work_running (join_work x)\<rparr>,
      zw_join_pending := work_running (join_work x)\<rparr>" using assms(1) p w by (simp add: zephyr_leave_def)
qed

lemma send_accepted:
  assumes "zephyr_send_accept port data n type x = (0, y)"
  shows "zw_started x" and "\<not> zw_join_pending x" and "\<not> zw_tx_pending x"
    and "y = x\<lparr>zw_tx_port := port, zw_tx_size := of_nat n, zw_tx_type := type,
           zw_tx_data := (if n > 0 then overlay (take n (the data)) (zw_tx_data x) else zw_tx_data x),
           zw_tx_pending := True, zw_submitting := True\<rparr>"
  using assms by (auto simp: zephyr_send_accept_def split: if_splits)

lemma fill_join_core: "fill_zephyr_join x = (c, y) \<Longrightarrow> zephyr_core y = zephyr_core x"
  by (auto simp: fill_zephyr_join_def zephyr_core_def split: join_keys.splits if_splits)

lemma of_bool_suc: "(Suc n = of_bool P) = (P \<and> n = 0)" "(of_bool P = Suc n) = (P \<and> n = 0)" by (cases P; auto)+

text \<open>What the first locked section of a join does to the core.\<close>

lemma join_begin_core:
  obtains "zw_join_stop x" "join_work_begin x = x\<lparr>zw_join_pending := False, zw_worker := Worker_join_done None\<rparr>"
  | c w where "\<not> zw_join_stop x" "zephyr_core w = zephyr_core x" "join_work_begin x = w\<lparr>zw_worker := Worker_joining c\<rparr>"
proof (cases "zw_join_stop x")
  case True
  then show thesis using that(1) by (simp add: join_work_begin_def)
next
  case False
  obtain c w where "fill_zephyr_join x = (c, w)" by fastforce
  then show thesis using that(2) [of w c] False fill_join_core [of x c w] by (simp add: join_work_begin_def)
qed

text \<open>What the second one does, by whether the join succeeded and whether it was left.\<close>

lemma join_end_core:
  assumes "work_lawful Z"
  obtains (ends) rc :: int and l where "rc = 0 \<or> zw_join_stop x"
      "join_work_end Z c x = x\<lparr>zw_stack := l, zw_joined := (rc = 0), zw_join_pending := False,
         zw_worker := Worker_join_done (if rc = 0 then Some BACKEND_JOINED else None)\<rparr>"
  | (again) rc :: int and l where "rc \<noteq> 0" "\<not> zw_join_stop x"
      "join_work_end Z c x = x\<lparr>zw_stack := l, zw_joined := False,
         join_work := (if work_canceling (join_work x) then join_work x else (join_work x)\<lparr>work_queued := True\<rparr>),
         zw_worker := Worker_join_done (Some (BACKEND_JOIN_FAILED (rzi_lorawan_zephyr_err rc)))\<rparr>"
proof -
  obtain rc l where r: "lorawan_join Z c (zw_stack x) = (rc, l)" by fastforce
  show thesis
  proof (cases "rc = 0 \<or> zw_join_stop x")
    case True
    then have "join_work_end Z c x = x\<lparr>zw_stack := l, zw_joined := (rc = 0), zw_join_pending := False,
        zw_worker := Worker_join_done (if rc = 0 then Some BACKEND_JOINED else None)\<rparr>"
      using r True by (cases "rc = 0") (simp_all add: join_work_end_def Let_def)
    with True show thesis by (rule ends)
  next
    case False
    then have "rc \<noteq> 0" "\<not> zw_join_stop x" by simp_all
    moreover from this have "join_work_end Z c x = x\<lparr>zw_stack := l, zw_joined := False,
        join_work := (if work_canceling (join_work x) then join_work x else (join_work x)\<lparr>work_queued := True\<rparr>),
        zw_worker := Worker_join_done (Some (BACKEND_JOIN_FAILED (rzi_lorawan_zephyr_err rc)))\<rparr>"
      using r by (simp add: join_work_end_def Let_def work_laws [OF assms])
    ultimately show thesis by (rule again)
  qed
qed

lemma zephyr_step_inv:
  assumes "work_lawful Z" and "zephyr_step Z x l evs y" and inv: "zephyr_inv x"
  shows "zephyr_inv y"
  using assms(2)
proof (cases rule: zephyr_step_cases)
  case other
  then show ?thesis using inv core_inv by blast
next
  case (start rc region bypass)
  then have "zw_worker x = Worker_idle" "\<not> zw_join_pending x" "\<not> zw_tx_pending x" "\<not> zw_submitting x" "\<not> work_running (join_work x)"
      "\<not> work_queued (join_work x)" "\<not> work_queued (send_work x)"
    using inv by (auto simp: zephyr_inv_def)
  then show ?thesis using start(1,2) inv by (auto simp: zephyr_start_def zephyr_inv_def Let_def split: option.splits if_splits prod.splits)
next
  case (joins c)
  obtain w where w: "zephyr_core w = zephyr_core x" "y = w\<lparr>join_settings := c, zw_join_pending := True, zw_join_stop := False,
      join_work := (if work_canceling (join_work x) then join_work x else (join_work x)\<lparr>work_queued := True\<rparr>)\<rparr>"
    using join_accepted(4) [OF joins(1) assms(1)] by blast
  then show ?thesis using inv join_accepted(1-3) [OF joins(1) assms(1)]
    by (auto simp: zephyr_inv_def zephyr_core_def)
next
  case leaves
  then show ?thesis using leave_accepted [OF leaves(1) assms(1)] inv
    by (cases "zw_worker x") (auto simp: zephyr_inv_def)
next
  case (sends port data n type)
  then show ?thesis using send_accepted [OF sends(1)] inv by (auto simp: zephyr_inv_def)
next
  case submit
  then show ?thesis using inv by (auto simp: zephyr_send_submit_def zephyr_inv_def of_bool_suc work_laws [OF assms(1)])
next
  case join_take
  then show ?thesis using inv by (auto simp: join_work_take_def zephyr_inv_def)
next
  case join_begin
  show ?thesis by (cases rule: join_begin_core [of x]) (use inv join_begin in \<open>auto simp: zephyr_inv_def zephyr_core_def\<close>)
next
  case (join_end c)
  show ?thesis by (cases rule: join_end_core [OF assms(1), of x c]) (use inv join_end in \<open>auto simp: zephyr_inv_def is_join_result_def\<close>)
next
  case (join_publish ev)
  then show ?thesis using inv by (auto simp: zephyr_inv_def)
next
  case join_return
  then show ?thesis using inv by (auto simp: join_work_return_def zephyr_inv_def)
next
  case send_take
  then show ?thesis using inv by (auto simp: send_work_take_def zephyr_inv_def)
next
  case send_begin
  then show ?thesis using inv by (auto simp: send_work_begin_def zephyr_inv_def)
next
  case (send_end p d n t)
  then have "zw_tx_pending x" "\<not> zw_submitting x" "\<not> work_queued (send_work x)"
    using inv by (auto simp: zephyr_inv_def of_bool_suc)
  then show ?thesis using inv send_end
    by (auto simp: send_work_end_def send_completion_def is_tx_done_def zephyr_inv_def split: prod.splits)
next
  case (send_publish ev)
  then show ?thesis using inv by (auto simp: zephyr_inv_def)
next
  case send_return
  then show ?thesis using inv by (auto simp: send_work_return_def zephyr_inv_def)
qed

lemma zephyr_run_inv: "zephyr_run Z x ls evs y \<Longrightarrow> work_lawful Z \<Longrightarrow> zephyr_inv x \<Longrightarrow> zephyr_inv y"
  by (induction rule: zephyr_run.induct) (auto intro: zephyr_step_inv)

lemma zephyr_initial_inv: "zephyr_inv (zephyr_initial c l)"
  by (simp add: zephyr_inv_def zephyr_initial_def)

section \<open>Accounting of uplinks\<close>

lemma quiet_no_done: "list_all quiet_event evs \<Longrightarrow> filter is_tx_done evs = []"
  by (induction evs) (auto simp: quiet_event_def is_tx_done_def split: backend_event.splits)

text \<open>The uplink whose code is known and whose event is still to publish.\<close>

fun completing_at :: "zephyr_worker \<Rightarrow> bool" where
  "completing_at (Worker_send_done (Some ev)) = True"
| "completing_at _ = False"

abbreviation (input) completing :: "('l, 'z) zephyr_lw_scheme \<Rightarrow> bool" where
  "completing x \<equiv> completing_at (zw_worker x)"

abbreviation (input) uplink_message where
  "uplink_message x \<equiv> (zw_tx_port x, zw_tx_size x, zw_tx_type x, zw_tx_data x)"

text \<open>
  A step accepts an uplink when none is pending, or ends the pending one, or leaves the pending one and its message alone; it
  publishes the completions that were known.
\<close>

lemma uplink_step:
  assumes "work_lawful Z" and "zephyr_step Z x l evs y" and inv: "zephyr_inv x"
  shows "(l = Z_send \<and> \<not> zw_tx_pending x \<and> zw_tx_pending y \<and> filter is_tx_done evs = [] \<and> completing y = completing x)
    \<or> (l \<noteq> Z_send \<and> zw_tx_pending x \<and> \<not> zw_tx_pending y \<and> filter is_tx_done evs = [] \<and> \<not> completing x \<and> completing y)
    \<or> (l \<noteq> Z_send \<and> zw_tx_pending y = zw_tx_pending x \<and> length (filter is_tx_done evs) + of_bool (completing y) = (of_bool (completing x) :: nat)
        \<and> uplink_message y = uplink_message x)"
  using assms(2)
proof (cases rule: zephyr_step_cases)
  case other
  then show ?thesis using quiet_no_done by (simp add: zephyr_core_def)
next
  case (start rc region bypass)
  then have "zephyr_start Z region bypass x = (rc, evs, y)" by simp
  then have "zw_tx_pending y = zw_tx_pending x \<and> zw_worker y = zw_worker x \<and> uplink_message y = uplink_message x"
    by (auto simp: zephyr_start_def Let_def split: option.splits if_splits prod.splits)
  then show ?thesis using start quiet_no_done by simp
next
  case (joins c)
  obtain w where "zephyr_core w = zephyr_core x" "y = w\<lparr>join_settings := c, zw_join_pending := True, zw_join_stop := False,
      join_work := (if work_canceling (join_work x) then join_work x else (join_work x)\<lparr>work_queued := True\<rparr>)\<rparr>"
    using join_accepted(4) [OF joins(1) assms(1)] by blast
  then show ?thesis using joins by (simp add: zephyr_core_def)
next
  case leaves
  then show ?thesis using leave_accepted [OF leaves(1) assms(1)] by simp
next
  case (sends port data n type)
  then show ?thesis using send_accepted [OF sends(1)] by simp
next
  case join_begin
  show ?thesis by (cases rule: join_begin_core [of x]) (use join_begin in \<open>simp_all add: zephyr_core_def\<close>)
next
  case (join_end c)
  then have y: "join_work_end Z c x = y" "evs = []" "l \<noteq> Z_send" "zw_worker x = Worker_joining c" by simp_all
  show ?thesis by (rule join_end_core [OF assms(1), where x = x and c = c]; unfold y(1)) (use y in simp_all)
next
  case (join_publish ev)
  then show ?thesis using inv tx_no_result [of ev] by (auto simp: zephyr_inv_def)
next
  case (send_end p d n t)
  then have "zw_tx_pending x" using inv by (auto simp: zephyr_inv_def of_bool_suc)
  then show ?thesis using send_end by (auto simp: send_work_end_def split: prod.splits)
next
  case (send_publish ev)
  then show ?thesis using inv by (simp add: zephyr_inv_def)
qed (simp_all add: zephyr_send_submit_def join_work_take_def join_work_return_def send_work_take_def send_work_begin_def send_work_return_def)

lemma zephyr_step_balance:
  assumes "work_lawful Z" and "zephyr_step Z x l evs y" and "zephyr_inv x"
  shows "length (filter is_tx_done evs) + (of_bool (zw_tx_pending y) + of_bool (completing y))
    = of_bool (l = Z_send) + (of_bool (zw_tx_pending x) + of_bool (completing x) :: nat)"
  using uplink_step [OF assms] by (elim disjE conjE) simp_all

interpretation zephyr_uplinks: uplink_accounting "zephyr_step Z" "zephyr_run Z" "\<lambda>l. l = Z_send" "\<lambda>l. False" "\<lambda>l. False"
  "\<lambda>x. of_bool (zw_tx_pending x) + of_bool (completing x)" "\<lambda>x. work_lawful Z \<and> zephyr_inv x"
proof unfold_locales
  fix x ls evs y
  show "zephyr_run Z x ls evs y \<longleftrightarrow> (ls = [] \<and> evs = [] \<and> y = x)
      \<or> (\<exists>ls' l evs' es z. ls = ls' @ [l] \<and> evs = evs' @ es \<and> zephyr_run Z x ls' evs' z \<and> zephyr_step Z z l es y)"
    by (subst zephyr_run.simps) auto
next
  fix x l evs y
  assume "work_lawful Z \<and> zephyr_inv x" and s: "zephyr_step Z x l evs y"
  then show "length (filter is_tx_done evs) + (of_bool (zw_tx_pending y) + of_bool (completing y)) + of_bool False
      = of_bool (l = Z_send) + of_bool False + (of_bool (zw_tx_pending x) + of_bool (completing x))"
    using zephyr_step_balance [OF _ s] by (simp only: of_bool_eq add_0_right)
qed (use zephyr_step_inv in blast)

section \<open>Messages\<close>

text \<open>
  As long as the completions published and the one still to publish are no more than the one that was still to publish at first,
  the uplink pending at first is pending, with its message.
\<close>

lemma message_kept:
  assumes "zephyr_run Z x ls evs y" and "work_lawful Z" and "zephyr_inv x" and "zw_tx_pending x"
  shows "of_bool (completing x) \<le> length (filter is_tx_done evs) + (of_bool (completing y) :: nat)
    \<and> (length (filter is_tx_done evs) + of_bool (completing y) \<le> (of_bool (completing x) :: nat)
        \<longrightarrow> zw_tx_pending y \<and> uplink_message y = uplink_message x)"
  using assms
proof (induction rule: zephyr_run.induct)
  case (zr_step x ls evs y l es z)
  then have i: "zephyr_inv y" using zephyr_run_inv by blast
  have l: "length (filter is_tx_done (evs @ es)) = length (filter is_tx_done evs) + length (filter is_tx_done es)" by simp
  note IH = zr_step.IH [OF zr_step.prems]
  from uplink_step [OF zr_step.prems(1) zr_step.hyps(2) i] show ?case
  proof (elim disjE conjE)
    assume "l = Z_send" "\<not> zw_tx_pending y" "filter is_tx_done es = []" "completing z = completing y"
    then show ?thesis using IH l by simp
  next
    assume "filter is_tx_done es = []" "\<not> completing y" "completing z"
    then show ?thesis using IH l by simp
  next
    assume "zw_tx_pending z = zw_tx_pending y" "length (filter is_tx_done es) + of_bool (completing z) = (of_bool (completing y) :: nat)"
      "uplink_message z = uplink_message y"
    then show ?thesis using IH l by simp
  qed
qed simp

text \<open>The service up to the call of the backend: only the stack may have moved.\<close>

lemma silent_radio: "radio (snd (run_bop E (silent f) s)) = snd (f (radio s))" "fst (run_bop E (silent f) s) = fst (f (radio s))"
  by (simp_all add: run_bop_def silent_def split: prod.splits)

lemma trig_core:
  assumes "backend E = zephyr_lorawan_backend Z"
  shows "zephyr_core (radio (snd (trig_link_check E s))) = zephyr_core (radio s)"
    and "zephyr_core (radio (snd (trig_device_time E s))) = zephyr_core (radio s)"
proof -
  have b: "mac_link_check E = Some (silent (zephyr_mac_request Z (lorawan_request_link_check Z)))"
      "mac_device_time E = Some (silent (zephyr_mac_request Z (lorawan_request_device_time Z)))"
    by (simp_all add: mac_link_check_def mac_device_time_def assms zephyr_lorawan_backend_def zephyr_mac_ops_def zephyr_link_check_request_def
        zephyr_device_time_request_def)
  show "zephyr_core (radio (snd (trig_link_check E s))) = zephyr_core (radio s)"
    "zephyr_core (radio (snd (trig_device_time E s))) = zephyr_core (radio s)"
    using other_core(5) [OF surjective_pairing] by (simp_all add: trig_link_check_def trig_device_time_def b silent_radio)
qed

lemma uplink_mac_core:
  assumes "backend E = zephyr_lorawan_backend Z"
  shows "zephyr_core (radio (rzi_lorawan_mac_commands_on_uplink E s)) = zephyr_core (radio s)"
  by (simp add: rzi_lorawan_mac_commands_on_uplink_def Let_def trig_core [OF assms])

lemma service_send_zephyr:
  assumes "backend E = zephyr_lorawan_backend Z" and "rzi_lorawan_send E port data n type s = (0, t)"
  shows "\<exists>x v. zephyr_core x = zephyr_core (radio s) \<and> zephyr_send_accept port data n type x = (0, v) \<and> radio t = zephyr_send_submit Z v" and "n \<le> RZI_LORAWAN_MAX_PAYLOAD"
proof -
  obtain rc u where u: "check_joined E s = (rc, u)" by fastforce
  have n: "n \<le> RZI_LORAWAN_MAX_PAYLOAD" "rc = 0" using assms(2) u by (auto simp: rzi_lorawan_send_def split: if_splits)
  have "radio u = radio s"
    using u by (auto simp: check_joined_def run_bget_def assms(1) zephyr_lorawan_backend_def zephyr_is_joined_def zephyr_query_def Let_def
        split: if_splits prod.splits)
  then have c: "zephyr_core (radio (rzi_lorawan_mac_commands_on_uplink E u)) = zephyr_core (radio s)"
    using uplink_mac_core [OF assms(1), of u] by simp
  have "run_bop E (silent (zephyr_send Z port data n type)) (rzi_lorawan_mac_commands_on_uplink E u) = (0, t)"
    using assms u n by (auto simp: rzi_lorawan_send_def zephyr_lorawan_backend_def split: if_splits)
  then have "zephyr_send Z port data n type (radio (rzi_lorawan_mac_commands_on_uplink E u)) = (0, radio t)"
    using silent_radio [of E "zephyr_send Z port data n type" "rzi_lorawan_mac_commands_on_uplink E u"] by (metis fst_conv snd_conv prod.collapse)
  then obtain v where "zephyr_send_accept port data n type (radio (rzi_lorawan_mac_commands_on_uplink E u)) = (0, v)" "radio t = zephyr_send_submit Z v"
    by (auto simp: zephyr_send_def split: prod.splits if_splits)
  with c show "\<exists>x v. zephyr_core x = zephyr_core (radio s) \<and> zephyr_send_accept port data n type x = (0, v) \<and> radio t = zephyr_send_submit Z v"
    by blast
  show "n \<le> RZI_LORAWAN_MAX_PAYLOAD" by (rule n(1))
qed

text \<open>The only step that takes the worker out of the blocking call is the return of that call.\<close>

lemma sending_step:
  assumes "work_lawful Z" and "zephyr_step Z x l evs y" and inv: "zephyr_inv x" and w: "zw_worker x = Worker_sending p d n t"
    and "zw_worker y \<noteq> zw_worker x"
  shows "y = send_work_end Z p d n t x \<and> evs = []"
  using assms(2)
proof (cases rule: zephyr_step_cases)
  case (start rc region bypass)
  then show ?thesis using inv w by (simp add: zephyr_inv_def)
next
  case (joins c)
  then show ?thesis using join_accepted(3) [OF joins(1) assms(1)] inv w by (auto simp: zephyr_inv_def)
next
  case leaves
  then show ?thesis using leave_accepted [OF leaves(1) assms(1)] assms(5) by simp
next
  case (sends port data m type)
  then show ?thesis using send_accepted(4) [OF sends(1)] assms(5) by simp
qed (use w assms(5) in \<open>simp_all add: zephyr_core_def zephyr_send_submit_def\<close>)

section \<open>Leaving a join\<close>

lemma quiet_no_join: "list_all quiet_event evs \<Longrightarrow> filter is_join_result evs = []"
  by (induction evs) (auto simp: quiet_event_def is_join_result_def split: backend_event.splits)

text \<open>The results that are still possible without a new join: of the join with the worker, or published last by its handler.\<close>

fun results_left :: "zephyr_worker \<Rightarrow> nat" where
  "results_left Worker_join_taken = 1"
| "results_left (Worker_joining c) = 1"
| "results_left (Worker_join_done (Some ev)) = 1"
| "results_left _ = 0"

text \<open>A join that is left: if the worker has it, its failure is to be dropped, and it is not queued again.\<close>

definition join_left :: "('l, 'z) zephyr_lw_scheme \<Rightarrow> bool" where
  "join_left x \<longleftrightarrow> (join_open (zw_worker x) \<longrightarrow> zw_join_stop x) \<and> \<not> work_queued (join_work x)
     \<and> (\<forall>ev. zw_worker x = Worker_join_done (Some ev) \<longrightarrow> is_join_result ev) \<and> (\<forall>ev. zw_worker x = Worker_send_done (Some ev) \<longrightarrow> is_tx_done ev)"

definition same_failures :: "backend_event list \<Rightarrow> zephyr_worker \<Rightarrow> zephyr_worker \<Rightarrow> bool" where
  "same_failures evs w v \<longleftrightarrow> (\<forall>e. BACKEND_JOIN_FAILED e \<in> set evs \<or> v = Worker_join_done (Some (BACKEND_JOIN_FAILED e))
     \<longrightarrow> w = Worker_join_done (Some (BACKEND_JOIN_FAILED e)))"

lemma quiet_not_failed: "list_all quiet_event evs \<Longrightarrow> BACKEND_JOIN_FAILED e \<notin> set evs"
  by (auto simp: list_all_iff quiet_event_def)

lemma left_step:
  assumes "work_lawful Z" and "zephyr_step Z x l evs y" and inv: "zephyr_inv x" and "l \<noteq> Z_join" and left: "join_left x"
  shows "join_left y \<and> length (filter is_join_result evs) + results_left (zw_worker y) \<le> results_left (zw_worker x)
    \<and> same_failures evs (zw_worker x) (zw_worker y) \<and> (zw_join_pending y \<and> \<not> join_open (zw_worker y) \<longrightarrow> zw_join_pending x \<and> \<not> join_open (zw_worker x))"
  using assms(2)
proof (cases rule: zephyr_step_cases)
  case other
  then show ?thesis using left quiet_no_join quiet_not_failed by (simp add: zephyr_core_def join_left_def same_failures_def)
next
  case (start rc region bypass)
  then have "zw_worker y = zw_worker x" "zw_join_pending y = zw_join_pending x" "zw_join_stop y = zw_join_stop x"
      "work_queued (join_work y) \<longrightarrow> work_queued (join_work x)"
    by (auto simp: zephyr_start_def Let_def split: option.splits if_splits prod.splits)
  then show ?thesis using start left quiet_no_join quiet_not_failed by (simp add: join_left_def same_failures_def)
next
  case (joins c)
  then show ?thesis using assms(4) by simp
next
  case leaves
  then show ?thesis using leave_accepted [OF leaves(1) assms(1)] left by (simp add: join_left_def same_failures_def)
next
  case (sends port data n type)
  then show ?thesis using left send_accepted [OF sends(1)] by (simp add: join_left_def same_failures_def)
next
  case join_take
  then show ?thesis using left by (simp add: join_left_def)
next
  case join_begin
  then have "zw_join_stop x" using left by (simp add: join_left_def)
  then show ?thesis using join_begin left by (simp add: join_work_begin_def join_left_def same_failures_def)
next
  case (join_end c)
  then have y: "join_work_end Z c x = y" "evs = []" "zw_worker x = Worker_joining c" and stop: "zw_join_stop x"
    using left by (simp_all add: join_left_def)
  show ?thesis
    by (rule join_end_core [OF assms(1), where x = x and c = c]; unfold y(1))
      (use y stop left in \<open>auto simp: join_left_def same_failures_def is_join_result_def\<close>)
next
  case (join_publish ev)
  then show ?thesis using left by (auto simp: join_left_def same_failures_def)
next
  case (send_publish ev)
  then have "is_tx_done ev" using left by (simp add: join_left_def)
  then show ?thesis using send_publish left tx_no_result [of ev] by (auto simp: join_left_def same_failures_def is_join_result_def)
next
  case (send_end p d n t)
  then show ?thesis using left
    by (auto simp: send_work_end_def send_completion_def is_tx_done_def join_left_def same_failures_def split: prod.splits)
qed (use left in \<open>simp_all add: join_left_def same_failures_def zephyr_send_submit_def join_work_return_def send_work_take_def send_work_begin_def
    send_work_return_def\<close>)

lemma left_run:
  assumes "zephyr_run Z x ls evs y" and "work_lawful Z" and "zephyr_inv x" and "Z_join \<notin> set ls" and "join_left x"
  shows "join_left y \<and> length (filter is_join_result evs) + results_left (zw_worker y) \<le> results_left (zw_worker x)
    \<and> same_failures evs (zw_worker x) (zw_worker y) \<and> (zw_join_pending y \<and> \<not> join_open (zw_worker y) \<longrightarrow> zw_join_pending x \<and> \<not> join_open (zw_worker x))"
  using assms
proof (induction rule: zephyr_run.induct)
  case (zr_done x)
  then show ?case by (simp add: same_failures_def)
next
  case (zr_step x ls evs y l es z)
  have y: "join_left y" "length (filter is_join_result evs) + results_left (zw_worker y) \<le> results_left (zw_worker x)"
      "same_failures evs (zw_worker x) (zw_worker y)"
      "zw_join_pending y \<and> \<not> join_open (zw_worker y) \<longrightarrow> zw_join_pending x \<and> \<not> join_open (zw_worker x)"
    using zr_step by simp_all
  have "zephyr_inv y" "l \<noteq> Z_join" using zephyr_run_inv zr_step by (blast, auto)
  note st = left_step [OF zr_step.prems(1) zr_step.hyps(2) this y(1)]
  have "length (filter is_join_result (evs @ es)) = length (filter is_join_result evs) + length (filter is_join_result es)" by simp
  then have n: "length (filter is_join_result (evs @ es)) + results_left (zw_worker z) \<le> results_left (zw_worker x)" using st y(2) by linarith
  have f: "same_failures (evs @ es) (zw_worker x) (zw_worker z)" using st y(3) unfolding same_failures_def by (metis Un_iff set_append)
  show ?case using st y(4) n f by blast
qed

text \<open>
  A join left between the last locked section of its handler and the return of the handler: it is pending, and nothing will run or
  end it. Until the next leave no join and no uplink is accepted.
\<close>

definition join_lost :: "('l, 'z) zephyr_lw_scheme \<Rightarrow> bool" where
  "join_lost x \<longleftrightarrow> zw_join_pending x \<and> \<not> work_queued (join_work x) \<and> \<not> join_open (zw_worker x)"

lemma lost_step:
  assumes "work_lawful Z" and "zephyr_step Z x l evs y" and inv: "zephyr_inv x" and "l \<noteq> Z_leave" and lost: "join_lost x"
  shows "join_lost y \<and> l \<noteq> Z_join \<and> l \<noteq> Z_send"
  using assms(2)
proof (cases rule: zephyr_step_cases)
  case other
  then show ?thesis using lost by (simp add: zephyr_core_def join_lost_def)
next
  case (start rc region bypass)
  then show ?thesis using lost inv by (simp add: join_lost_def zephyr_inv_def)
next
  case (joins c)
  then show ?thesis using lost join_accepted(2) [OF joins(1) assms(1)] by (simp add: join_lost_def)
next
  case (sends port data n type)
  then show ?thesis using lost send_accepted [OF sends(1)] by (simp add: join_lost_def)
next
  case (send_end p d n t)
  then show ?thesis using lost by (auto simp: send_work_end_def join_lost_def split: prod.splits)
qed (use lost assms(4) in \<open>simp_all add: join_lost_def zephyr_send_submit_def join_work_take_def join_work_return_def send_work_take_def
    send_work_begin_def send_work_return_def\<close>)

lemma lost_run:
  assumes "zephyr_run Z x ls evs y" and "work_lawful Z" and "zephyr_inv x" and "Z_leave \<notin> set ls" and "join_lost x"
  shows "join_lost y \<and> Z_join \<notin> set ls \<and> Z_send \<notin> set ls"
  using assms
proof (induction rule: zephyr_run.induct)
  case (zr_step x ls evs y l es z)
  have y: "join_lost y" "Z_join \<notin> set ls" "Z_send \<notin> set ls" using zr_step by simp_all
  have "zephyr_inv y" "l \<noteq> Z_leave" using zephyr_run_inv zr_step by (blast, auto)
  from lost_step [OF zr_step.prems(1) zr_step.hyps(2) this y(1)] y show ?case by auto
qed simp

section \<open>Facts about the table\<close>

text \<open>The table fulfils the contract the service asserts: each group of operations is there exactly when its capability is.\<close>

theorem zephyr_contract:
  assumes "backend E = zephyr_lorawan_backend Z"
  shows "check_backend_contract (cfg_fuota Z) E"
  by (cases "cfg_fuota Z") (simp_all add: check_backend_contract_def capability_matches_def assms zephyr_lorawan_backend_def ZEPHYR_CAPABILITIES_def)

text \<open>A downlink is within its buffer, and its signal-to-noise ratio within a signed byte.\<close>

lemma downlink_bounds:
  assumes "BACKEND_DOWNLINK d \<in> set (on_downlink Z port fl rssi snr len data)"
  shows "dl_size d \<le> RZI_LORAWAN_MAX_PAYLOAD" and "length (dl_data d) = RZI_LORAWAN_MAX_PAYLOAD"
    and "- 128 \<le> dl_snr_quarter_db d \<and> dl_snr_quarter_db d \<le> 127"
  using assms by (auto simp: on_downlink_def snr_to_quarter_db_def Let_def split: if_splits)

text \<open>
  The nonce of automatic attempts wraps to 0, which the setter of the nonce takes care to avoid.
\<close>

lemma nonce_wraps:
  assumes "jc_keys (join_settings x) = Join_otaa k" and "otaa_dev_nonce k = 0" and "next_dev_nonce x = 65535"
  shows "next_dev_nonce (snd (fill_zephyr_join x)) = 0"
  using assms by (simp add: fill_zephyr_join_def)

section \<open>Properties\<close>

text \<open>A reference instance: a stack that joins and sends at once.\<close>

definition zephyr_ref :: "nat zephyr_lw_env" where
  "zephyr_ref = \<lparr>cfg_emul = False, cfg_fuota = False, cfg_app_clock_sync = False, cfg_frag_transport = False, cfg_soft_se = False,
     has_slot1 = False, zephyr_device_ready = (\<lambda>l. True), lorawan_set_region = (\<lambda>r l. (0, l)), lorawan_start = (\<lambda>l. (0, l)),
     lorawan_register_callbacks = (\<lambda>l. l), lorawan_join = (\<lambda>c l. (0, l)), lorawan_send = (\<lambda>p d n t l. (0, Suc l)),
     lorawan_set_class = (\<lambda>c l. (0, l)), lorawan_enable_adr = (\<lambda>b l. l), lorawan_set_datarate = (\<lambda>d l. (0, l)),
     lorawan_get_payload_sizes = (\<lambda>l. (51, 51)), lorawan_request_link_check = (\<lambda>b l. (0, l)), lorawan_request_device_time = (\<lambda>b l. (0, l)),
     lorawan_device_time_get = (\<lambda>l. (0, 0)), lorawan_clock_sync_run = (\<lambda>l. (0, l)), lorawan_clock_sync_get = (\<lambda>l. 0),
     lorawan_frag_transport_run = (\<lambda>l. (0, l)), flash_area_open = (\<lambda>l. 0), flash_area_size = 0, flash_area_read = (\<lambda>a n l. (0, [])),
     sys_reboot = (\<lambda>l. l), mib_get_dev_addr = (\<lambda>l. None), mib_set_default_mask = (\<lambda>w l. (True, l)), mib_set_mask = (\<lambda>w l. (True, l)),
     mib_nvm_keys = (\<lambda>l. None), key_nwk_s_enc = 0, key_app_s = 1,
     k_work_schedule = (\<lambda>d w. if work_canceling w then w else w\<lparr>work_queued := True\<rparr>),
     k_work_submit = (\<lambda>w. if work_canceling w then w else w\<lparr>work_queued := True\<rparr>),
     k_work_cancel = (\<lambda>w. (if work_running w then 1 else 0, w\<lparr>work_queued := False, work_canceling := work_running w\<rparr>))\<rparr>"

definition zephyr_ref_config :: rzi_lorawan_join_config where
  "zephyr_ref_config = \<lparr>jc_activation = RZI_LORAWAN_ACTIVATION_ABP, jc_retry_interval_s = 8, jc_channel_mask_set = False, jc_channel_mask = [],
     jc_keys = Join_abp \<lparr>abp_dev_addr = 1, abp_network_session_key = [], abp_application_session_key = []\<rparr>\<rparr>"

definition zephyr_ready :: "nat zephyr_lw" where
  "zephyr_ready = (zephyr_initial zephyr_ref_config 0)\<lparr>zw_started := True, zw_joined := True\<rparr>"

lemma zephyr_ref_lawful: "work_lawful zephyr_ref"
  by (simp add: work_lawful_def zephyr_ref_def)

lemma zephyr_ready_inv: "zephyr_inv zephyr_ready"
  by (simp add: zephyr_inv_def zephyr_ready_def zephyr_initial_def)

lemma zephyr_run_one: "zephyr_step Z x l es y \<Longrightarrow> zephyr_run Z x [l] es y"
  using zr_step [OF zr_done, of Z x l es y] by simp

text \<open>
  C18. Every accepted uplink completes once: in any run from the initial state, of calls, worker and stack callbacks in any
  order, the completions published, the one whose event is still to publish and the uplink still pending are together exactly the
  accepted uplinks; an uplink
  and a join are never pending together; and a pending uplink is being submitted, queued for the worker or being sent by it.
\<close>

theorem zephyr_uplinks_balanced:
  assumes "work_lawful Z" and "zephyr_run Z (zephyr_initial c l) ls evs y"
  shows "length (filter is_tx_done evs) + of_bool (\<exists>ev. zw_worker y = Worker_send_done (Some ev)) + of_bool (zw_tx_pending y)
      = length (filter (\<lambda>l. l = Z_send) ls)
    \<and> \<not> (zw_join_pending y \<and> zw_tx_pending y)
    \<and> (zw_tx_pending y \<longrightarrow> zw_submitting y \<or> work_queued (send_work y) \<or> zw_worker y = Worker_send_taken
        \<or> (\<exists>p d n t. zw_worker y = Worker_sending p d n t))"
proof -
  have i: "zephyr_inv y" using zephyr_run_inv [OF assms(2,1) zephyr_initial_inv] .
  have "\<not> zw_tx_pending (zephyr_initial c l)" "\<not> completing (zephyr_initial c l)" by (simp_all add: zephyr_initial_def)
  moreover have "completing y = (\<exists>ev. zw_worker y = Worker_send_done (Some ev))"
    by (cases "zw_worker y" rule: completing_at.cases) simp_all
  ultimately have "length (filter is_tx_done evs) + of_bool (\<exists>ev. zw_worker y = Worker_send_done (Some ev)) + of_bool (zw_tx_pending y)
      = length (filter (\<lambda>l. l = Z_send) ls)"
    using zephyr_uplinks.ua_total [OF _ assms(2)] assms(1) zephyr_initial_inv [of c l] by simp
  moreover have "zw_tx_pending y \<longrightarrow> zw_submitting y \<or> work_queued (send_work y) \<or> zw_worker y = Worker_send_taken
      \<or> (\<exists>p d n t. zw_worker y = Worker_sending p d n t)"
    using i by (cases "zw_worker y") (auto simp: zephyr_inv_def of_bool_suc)
  ultimately show ?thesis using i by (simp add: zephyr_inv_def)
qed

theorem zephyr_uplinks_balanced_witness:
  "\<exists>y. zephyr_run zephyr_ref (zephyr_initial zephyr_ref_config 0)
      [Z_other, Z_join, Z_other, Z_other, Z_other, Z_send, Z_other] [BACKEND_READY, BACKEND_JOINED] y
    \<and> zw_tx_pending y \<and> zw_submitting y"
proof -
  let ?Z = zephyr_ref and ?x = "zephyr_initial zephyr_ref_config 0"
  let ?c = "LORAWAN_ACT_ABP \<lparr>za_dev_addr = 1, za_nwk_skey = [], za_app_skey = []\<rparr>"
  define a where "a = snd (snd (zephyr_start ?Z 0 False ?x))"
  define b where "b = snd (zephyr_join ?Z zephyr_ref_config a)"
  define c where "c = join_work_take b"
  define d where "d = join_work_begin c"
  define e where "e = join_work_end ?Z ?c d"
  define f where "f = snd (zephyr_send_accept 2 (Some [7]) 1 0 e)"
  define y where "y = f\<lparr>zw_worker := Worker_join_done None\<rparr>"
  note defs = zephyr_initial_def zephyr_ref_def zephyr_ref_config_def zephyr_start_def zephyr_map_region_def zephyr_regions_def
    zephyr_apply_region_def zephyr_join_def apply_channel_mask_def rzi_lorawan_region_has_fixed_plan_def join_work_take_def join_work_begin_def
    fill_zephyr_join_def join_work_end_def zephyr_send_accept_def Let_def
  note all = y_def f_def e_def d_def c_def b_def a_def defs
  have a: "zephyr_step ?Z ?x Z_other [BACKEND_READY] a"
    by (rule zs_start [of _ _ 0 False 0]) (simp_all add: a_def defs)
  have b: "zephyr_step ?Z a Z_join [] b"
    using zs_join [of ?Z zephyr_ref_config a 0 b] by (simp add: b_def a_def defs)
  have c: "zephyr_step ?Z b Z_other [] c" unfolding c_def by (rule zs_join_take) (simp_all add: b_def a_def defs)
  have d: "zephyr_step ?Z c Z_other [] d" unfolding d_def by (rule zs_join_begin) (simp add: all)
  have e: "zephyr_step ?Z d Z_other [] e" unfolding e_def by (rule zs_join_end) (simp add: all)
  have f: "zephyr_step ?Z e Z_send [] f"
    using zs_send [of 2 "Some [7]" 1 0 e 0 f ?Z] by (simp add: all)
  have y: "zephyr_step ?Z f Z_other [BACKEND_JOINED] y" unfolding y_def by (rule zs_join_publish) (simp add: all)
  have "zephyr_run ?Z ?x ([] @ [Z_other] @ [Z_join] @ [Z_other] @ [Z_other] @ [Z_other] @ [Z_send] @ [Z_other])
      ([] @ [BACKEND_READY] @ [] @ [] @ [] @ [] @ [] @ [BACKEND_JOINED]) y"
    using zr_step [OF zr_step [OF zr_step [OF zr_step [OF zr_step [OF zr_step [OF zr_step [OF zr_done a] b] c] d] e] f] y] by simp
  then have r: "zephyr_run ?Z ?x [Z_other, Z_join, Z_other, Z_other, Z_other, Z_send, Z_other] [BACKEND_READY, BACKEND_JOINED] y" by simp
  have "zw_tx_pending y" "\<not> work_queued (send_work y)" "zw_worker y = Worker_join_done None" by (simp_all add: all)
  with zephyr_uplinks_balanced [OF zephyr_ref_lawful r] r show ?thesis by auto
qed

text \<open>
  C23. An uplink reaches the stack as it was sent: when the service accepts a payload over the Zephyr backend, then in
  every run until its completion is published (a completion of an earlier uplink may still come out) the worker is in the stack's send function only with exactly that
  port, payload, size and message type; and the step in which that call returns has made it on the stack with these arguments, and has
  prepared the completion that the code of the call stands for.
\<close>

theorem zephyr_uplink_exact:
  assumes "backend E = zephyr_lorawan_backend Z" and "work_lawful Z" and "zephyr_inv (radio s)"
    and "rzi_lorawan_send E port (Some data) (length data) type s = (0, t)"
    and "zephyr_run Z (radio t) ls evs z"
    and "length (filter is_tx_done evs) \<le> of_bool (\<exists>ev. zw_worker (radio t) = Worker_send_done (Some ev))"
    and "zw_worker z = Worker_sending p d n ty"
  shows "p = port \<and> d = data \<and> unat n = length data \<and> ty = type
    \<and> (\<forall>l es w. zephyr_step Z z l es w \<and> zw_worker w \<noteq> zw_worker z \<longrightarrow>
        (\<exists>rc k. lorawan_send Z port data (of_nat (length data)) (type = RZI_LORAWAN_MSG_CONFIRMED) (zw_stack z) = (rc, k)
          \<and> zw_stack w = k \<and> es = [] \<and> \<not> zw_tx_pending w \<and> zw_worker w = Worker_send_done (Some
              (if rc \<noteq> 0 then BACKEND_TX_DONE TXDONE_NOT_SENT (rzi_lorawan_zephyr_err rc)
               else BACKEND_TX_DONE (if type = RZI_LORAWAN_MSG_CONFIRMED then TXDONE_CONFIRMED else TXDONE_SENT) 0))))"
proof -
  obtain x v where x: "zephyr_core x = zephyr_core (radio s)" "zephyr_send_accept port (Some data) (length data) type x = (0, v)"
      "radio t = zephyr_send_submit Z v"
    using service_send_zephyr(1) [OF assms(1,4)] by blast
  note len = service_send_zephyr(2) [OF assms(1,4)] and acc = send_accepted [OF x(2)]
  have ix: "zephyr_inv x" using core_inv [OF x(1)] assms(3) by simp
  then have iv: "zephyr_inv v" using zephyr_step_inv [OF assms(2) zs_send [OF x(2)]] by simp
  have "zw_submitting v" using acc(4) by simp
  from zephyr_step_inv [OF assms(2) zs_submit [OF this] iv] have it: "zephyr_inv (radio t)" by (simp add: x(3))
  have m: "zw_tx_pending (radio t)" "zw_tx_port (radio t) = port" "zw_tx_size (radio t) = of_nat (length data)" "zw_tx_type (radio t) = type"
      "zw_tx_data (radio t) = (if length data > 0 then overlay (take (length data) data) (zw_tx_data x) else zw_tx_data x)"
    using acc(4) by (simp_all add: x(3) zephyr_send_submit_def)
  have c: "completing (radio t) = (\<exists>ev. zw_worker (radio t) = Worker_send_done (Some ev))"
    by (cases "zw_worker (radio t)" rule: completing_at.cases) simp_all
  have "length (filter is_tx_done evs) + of_bool (completing z) \<le> (of_bool (completing (radio t)) :: nat)"
    using assms(6,7) c by simp
  then have k: "zw_tx_port z = port" "zw_tx_size z = of_nat (length data)" "zw_tx_type z = type"
      "zw_tx_data z = (if length data > 0 then overlay (take (length data) data) (zw_tx_data x) else zw_tx_data x)"
    using message_kept [OF assms(5,2) it m(1)] m by simp_all
  have u: "unat (of_nat (length data) :: u8) = length data" using len by (simp add: unsigned_of_nat take_bit_nat_eq_self)
  have iz: "zephyr_inv z" using zephyr_run_inv [OF assms(5,2) it] .
  then have "p = port" "n = of_nat (length data)" "ty = type" "d = take (length data) (zw_tx_data z)"
    using assms(7) k u by (simp_all add: zephyr_inv_def)
  then have a: "p = port" "n = of_nat (length data)" "ty = type" "d = data"
    using k(4) take_overlay [of data "zw_tx_data x"] by simp_all
  have "\<exists>rc k. lorawan_send Z port data (of_nat (length data)) (type = RZI_LORAWAN_MSG_CONFIRMED) (zw_stack z) = (rc, k)
      \<and> zw_stack w = k \<and> es = [] \<and> \<not> zw_tx_pending w \<and> zw_worker w = Worker_send_done (Some
          (if rc \<noteq> 0 then BACKEND_TX_DONE TXDONE_NOT_SENT (rzi_lorawan_zephyr_err rc)
           else BACKEND_TX_DONE (if type = RZI_LORAWAN_MSG_CONFIRMED then TXDONE_CONFIRMED else TXDONE_SENT) 0))"
    if st: "zephyr_step Z z l es w" and ch: "zw_worker w \<noteq> zw_worker z" for l es w
  proof -
    obtain rc k where r: "lorawan_send Z p d n (ty = RZI_LORAWAN_MSG_CONFIRMED) (zw_stack z) = (rc, k)" by fastforce
    have "w = send_work_end Z p d n ty z \<and> es = []" by (rule sending_step [OF assms(2) st iz assms(7) ch])
    then show ?thesis using r by (intro exI [of _ rc] exI [of _ k]) (simp add: send_work_end_def send_completion_def a)
  qed
  then show ?thesis using a u by blast
qed

text \<open>A started service over the reference stack.\<close>

definition zephyr_service_env ::
  "(string \<rightharpoonup> bytes, nat zephyr_lw, (string \<rightharpoonup> bytes, nat zephyr_lw) lorawan_state) lorawan_env" where
  "zephyr_service_env = mem_senv \<lparr>backend = zephyr_lorawan_backend zephyr_ref,
     k_msgq_put = (\<lambda>e q. if length q < 8 then (0, q @ [e]) else (- 35, q)),
     k_msgq_get = (\<lambda>q. case q of [] \<Rightarrow> None | e # q' \<Rightarrow> Some (e, q')),
     on_event = (\<lambda>f ev data s. s), svc_on_started = (\<lambda>i. None), svc_on_event = (\<lambda>i. None)\<rparr>"

definition zephyr_service :: "(string \<rightharpoonup> bytes, nat zephyr_lw) lorawan_state" where
  "zephyr_service = \<lparr>sets = fresh_settings Map.empty, credentials = credentials_zero, link_check_mode = 0,
     device_time_enabled = False, events = [], callback_slots = replicate 4 None, services = [],
     configured_region = 0, configured_class = 0, configured_join_backoff_bypass = False, started = True,
     overflow = False, join_sequence_active = False, join_retries_remaining = 0, last_downlink_valid = False,
     last_rssi_dbm = 0, last_snr_quarter_db = 0, power_class_c_held = False, radio = zephyr_ready, delivered = []\<rparr>"

lemma zephyr_service_send:
  "rzi_lorawan_send zephyr_service_env 2 (Some [7]) 1 0 zephyr_service = (0, zephyr_service\<lparr>radio := snd (zephyr_send zephyr_ref 2 (Some [7]) 1 0 zephyr_ready)\<rparr>)"
proof -
  have isr: "rzi_lorawan_check_started zephyr_service = 0" by code_simp
  have b: "backend zephyr_service_env = zephyr_lorawan_backend zephyr_ref" by (simp add: zephyr_service_env_def mem_senv_def mem_env_def)
  have r: "radio zephyr_service = zephyr_ready" "link_check_mode zephyr_service = 0" "\<not> device_time_enabled zephyr_service"
      "zw_started zephyr_ready" "zw_joined zephyr_ready" "\<not> zw_join_pending zephyr_ready" "\<not> zw_tx_pending zephyr_ready"
    by (simp_all add: zephyr_service_def zephyr_ready_def zephyr_initial_def)
  have same: "zephyr_service\<lparr>radio := zephyr_ready\<rparr> = zephyr_service" using r(1) by (metis lorawan_state.surjective lorawan_state.update_convs(19))
  have "check_joined zephyr_service_env zephyr_service = (0, zephyr_service)"
    by (simp add: check_joined_def isr b run_bget_def zephyr_lorawan_backend_def zephyr_is_joined_def zephyr_query_def
        rzi_lorawan_zephyr_lock_started_def r same)
  then show ?thesis
    by (simp add: rzi_lorawan_send_def message_type_valid_def rzi_lorawan_mac_commands_on_uplink_def run_bop_def b zephyr_lorawan_backend_def
        silent_def zephyr_send_def zephyr_send_accept_def zephyr_send_submit_def r)
qed

theorem zephyr_uplink_exact_witness:
  "\<exists>z n. zephyr_run zephyr_ref (radio (snd (rzi_lorawan_send zephyr_service_env 2 (Some [7]) 1 0 zephyr_service))) [Z_other, Z_other] [] z
    \<and> zw_worker z = Worker_sending 2 [7] n 0 \<and> unat n = 1"
proof -
  define x where "x = snd (zephyr_send zephyr_ref 2 (Some [7]) 1 0 zephyr_ready)"
  let ?t = "zephyr_service\<lparr>radio := x\<rparr>"
  have t: "rzi_lorawan_send zephyr_service_env 2 (Some [7]) (length [7 :: u8]) 0 zephyr_service = (0, ?t)"
    using zephyr_service_send by (simp add: x_def)
  note defs = x_def zephyr_send_def zephyr_send_accept_def zephyr_send_submit_def zephyr_ready_def zephyr_initial_def zephyr_ref_def send_work_take_def
  have s1: "zephyr_step zephyr_ref x Z_other [] (send_work_take x)" by (rule zs_send_take) (simp_all add: defs)
  have s2: "zephyr_step zephyr_ref (send_work_take x) Z_other [] (send_work_begin (send_work_take x))"
    by (rule zs_send_begin) (simp add: send_work_take_def)
  have r: "zephyr_run zephyr_ref (radio ?t) [Z_other, Z_other] [] (send_work_begin (send_work_take x))"
    using zr_step [OF zephyr_run_one [OF s1] s2] by simp
  obtain p d n ty where w: "zw_worker (send_work_begin (send_work_take x)) = Worker_sending p d n ty" by (simp add: send_work_begin_def)
  have b: "backend zephyr_service_env = zephyr_lorawan_backend zephyr_ref" by (simp add: zephyr_service_env_def mem_senv_def mem_env_def)
  have i: "zephyr_inv (radio zephyr_service)" using zephyr_ready_inv by (simp add: zephyr_service_def)
  have "p = 2 \<and> d = [7] \<and> unat n = length [7 :: u8] \<and> ty = 0"
    using zephyr_uplink_exact [OF b zephyr_ref_lawful i t r _ w] by simp
  then show ?thesis using r t w by auto
qed

text \<open>
  C27. What leaving a join silences, and what it does not: after leaving is accepted, in any run in which no new join is
  accepted, at most one more result of a join is published; a failure is published only when the handler had given up the lock with it before the
  leave. When the leave did not fall between that point and the return of the handler, no join is pending once
  the worker has none; when it did, the join stays pending with nothing queued or running until the next leave, and every request to join is refused
  as busy.
\<close>

theorem zephyr_leave_silences:
  assumes "work_lawful Z" and "zephyr_inv x" and "zephyr_leave Z x = (0, y)" and "zephyr_run Z y ls evs z" and "Z_join \<notin> set ls"
  shows "length (filter is_join_result evs) \<le> 1
    \<and> (\<forall>e. BACKEND_JOIN_FAILED e \<in> set evs \<longrightarrow> zw_worker x = Worker_join_done (Some (BACKEND_JOIN_FAILED e)))
    \<and> ((\<forall>ev. zw_worker x \<noteq> Worker_join_done ev) \<and> \<not> join_open (zw_worker z) \<longrightarrow> \<not> zw_join_pending z)
    \<and> ((\<exists>ev. zw_worker x = Worker_join_done ev) \<and> Z_leave \<notin> set ls \<longrightarrow>
        zw_join_pending z \<and> \<not> work_queued (join_work z) \<and> \<not> join_open (zw_worker z) \<and> (\<forall>c. zephyr_join Z c z = (- RZI_ERR_BUSY, z)))"
proof -
  note l = leave_accepted [OF assms(3,1)]
  have iy: "zephyr_inv y" using zephyr_step_inv [OF assms(1) zs_leave [OF assms(3)] assms(2)] by simp
  have iz: "zephyr_inv z" using zephyr_run_inv [OF assms(4,1) iy] .
  have w: "zw_worker y = zw_worker x" using l by simp
  have "join_left y" using l assms(2) by (auto simp: join_left_def zephyr_inv_def)
  note r = left_run [OF assms(4,1) iy assms(5) this]
  have "results_left (zw_worker y) \<le> 1" by (cases "zw_worker y" rule: results_left.cases) simp_all
  then have n: "length (filter is_join_result evs) \<le> 1" using r by linarith
  have f: "zw_worker x = Worker_join_done (Some (BACKEND_JOIN_FAILED e))" if "BACKEND_JOIN_FAILED e \<in> set evs" for e
    using r that w by (simp add: same_failures_def)
  have h: "join_handler (zw_worker x) \<longleftrightarrow> join_open (zw_worker x) \<or> (\<exists>ev. zw_worker x = Worker_join_done ev)"
    by (cases "zw_worker x") simp_all
  have p: "zw_join_pending y = join_handler (zw_worker x)" using l(2) assms(2) by (simp add: zephyr_inv_def)
  have a: "\<not> zw_join_pending z" if "\<forall>ev. zw_worker x \<noteq> Worker_join_done ev" "\<not> join_open (zw_worker z)"
    using r that p h w by metis
  have b: "zw_join_pending z \<and> \<not> work_queued (join_work z) \<and> \<not> join_open (zw_worker z) \<and> (\<forall>c. zephyr_join Z c z = (- RZI_ERR_BUSY, z))"
    if "\<exists>ev. zw_worker x = Worker_join_done ev" "Z_leave \<notin> set ls"
  proof -
    have "join_lost y" using that(1) p h l(2) by (auto simp: join_lost_def)
    then have z: "join_lost z" using lost_run [OF assms(4,1) iy that(2)] by blast
    then have "zw_started z" using iz by (auto simp: zephyr_inv_def join_lost_def)
    with z show ?thesis by (simp add: join_lost_def zephyr_join_def)
  qed
  show ?thesis using n f a b by blast
qed

text \<open>A failed join about to be reported, in the moment in which it is queued for its next attempt.\<close>

definition zephyr_failed :: "nat zephyr_lw" where
  "zephyr_failed = (zephyr_initial zephyr_ref_config 0)\<lparr>zw_started := True, zw_join_pending := True,
     join_work := \<lparr>work_queued = True, work_running = True, work_canceling = False\<rparr>,
     zw_worker := Worker_join_done (Some (BACKEND_JOIN_FAILED (- RZI_ERR_TIMEOUT)))\<rparr>"

theorem zephyr_leave_silences_witness:
  "\<exists>y z. zephyr_leave zephyr_ref zephyr_failed = (0, y)
    \<and> zephyr_run zephyr_ref y [Z_other, Z_other] [BACKEND_JOIN_FAILED (- RZI_ERR_TIMEOUT)] z
    \<and> zw_worker z = Worker_idle \<and> zephyr_join zephyr_ref zephyr_ref_config z = (- RZI_ERR_BUSY, z)"
proof -
  define y where "y = snd (zephyr_leave zephyr_ref zephyr_failed)"
  let ?u = "y\<lparr>zw_worker := Worker_join_done None\<rparr>"
  note defs = zephyr_failed_def zephyr_initial_def zephyr_ref_def zephyr_leave_def
  have i: "zephyr_inv zephyr_failed" by (simp add: zephyr_inv_def zephyr_failed_def zephyr_initial_def is_join_result_def)
  have y: "zephyr_leave zephyr_ref zephyr_failed = (0, y)" by (simp add: y_def defs)
  have s1: "zephyr_step zephyr_ref y Z_other [BACKEND_JOIN_FAILED (- RZI_ERR_TIMEOUT)] ?u"
    by (rule zs_join_publish) (simp add: y_def defs)
  have s2: "zephyr_step zephyr_ref ?u Z_other [] (join_work_return ?u)" by (rule zs_join_return) simp
  have r: "zephyr_run zephyr_ref y [Z_other, Z_other] [BACKEND_JOIN_FAILED (- RZI_ERR_TIMEOUT)] (join_work_return ?u)"
    using zr_step [OF zephyr_run_one [OF s1] s2] by simp
  have "zw_worker zephyr_failed = Worker_join_done (Some (BACKEND_JOIN_FAILED (- RZI_ERR_TIMEOUT)))" by (simp add: zephyr_failed_def)
  with zephyr_leave_silences [OF zephyr_ref_lawful i y r]
  have "zephyr_join zephyr_ref zephyr_ref_config (join_work_return ?u) = (- RZI_ERR_BUSY, join_work_return ?u)"
    by simp
  then show ?thesis using y r by (intro exI [of _ y] exI [of _ "join_work_return ?u"]) (simp add: join_work_return_def)
qed

end
