(* ===== verification/Rzi_Lw_Usp.thy ===== *)
theory Rzi_Lw_Usp
  imports Rzi_Usp Rzi_Lw_Backend
begin

text \<open>
  The LoRaWAN backend over Semtech's LoRa Basics Modem: \<^verbatim>\<open>src/lorawan/backend/usp/\<close>, all seven C files. The statics of the files
  extend those of the platform layer; the modem is its state \<open>'m\<close>, and every modem function the files call is a field of the
  environment: one that changes the modem gives its return code and the next modem, one that only reads gives its code and
  the new content of the cell it was passed. Build options are Boolean fields.

  \<open>lw_published\<close> is a history variable, the events handed to the sink in order; a table entry reports those of the call. \<open>lw_broken\<close>
  records a step the program cannot recover from: a call through a sink that is not set, or a loop over downlinks that does
  not return.
\<close>

section \<open>Data\<close>

datatype smtc_modem_region = SMTC_MODEM_REGION_EU_868 | SMTC_MODEM_REGION_US_915 | SMTC_MODEM_REGION_AU_915
  | SMTC_MODEM_REGION_CN_470 | SMTC_MODEM_REGION_AS_923_GRP1 | SMTC_MODEM_REGION_AS_923_GRP2 | SMTC_MODEM_REGION_AS_923_GRP3
  | SMTC_MODEM_REGION_AS_923_GRP4 | SMTC_MODEM_REGION_IN_865 | SMTC_MODEM_REGION_KR_920 | SMTC_MODEM_REGION_RU_864
  | SMTC_MODEM_REGION_OTHER

datatype smtc_modem_class = SMTC_MODEM_CLASS_A | SMTC_MODEM_CLASS_B | SMTC_MODEM_CLASS_C | SMTC_MODEM_CLASS_OTHER

text \<open>The four consecutive windows of the multicast groups are one constructor with the number of the group.\<close>

datatype smtc_modem_dl_window = SMTC_MODEM_DL_WINDOW_RX1 | SMTC_MODEM_DL_WINDOW_RX2 | SMTC_MODEM_DL_WINDOW_RXC
  | SMTC_MODEM_DL_WINDOW_RXC_MC_GRP u8 | SMTC_MODEM_DL_WINDOW_RXB | SMTC_MODEM_DL_WINDOW_RXB_MC_GRP u8
  | SMTC_MODEM_DL_WINDOW_OTHER

datatype smtc_mac_request = SMTC_MODEM_LORAWAN_MAC_REQ_LINK_CHECK | SMTC_MODEM_LORAWAN_MAC_REQ_DEVICE_TIME

datatype smtc_se_key = SMTC_SE_NWK_S_ENC_KEY | SMTC_SE_APP_S_KEY

datatype smtc_se_return_code = SMTC_SE_RC_SUCCESS | SMTC_SE_RC_ERROR | SMTC_SE_RC_OTHER

record smtc_modem_dl_metadata =
  meta_fport :: u8
  meta_rssi :: int
  meta_snr :: int
  meta_fpending_bit :: u8
  meta_window :: smtc_modem_dl_window
  meta_datarate :: nat
  meta_frequency_hz :: u32

text \<open>The two bits of the status mask that are read.\<close>

record smtc_modem_status =
  status_joined :: bool
  status_joining :: bool

text \<open>Listen-before-talk: duration in ms, threshold in dBm, bandwidth in Hz.\<close>

type_synonym lbt_parameters = "u32 \<times> int \<times> u32"

record 'm usp_lw = "'m usp_platform" +
  lw_ready :: bool
  lw_tx_pending :: bool
  credentials_valid :: bool
  lw_join_settings :: rzi_lorawan_join_config
  lw_join_backoff_bypass :: bool
  lw_region :: smtc_modem_region
  lw_event_sink :: bool
  lw_class_b_state :: nat
  fuota_image_ready :: bool
  multicast :: "rzi_lorawan_multicast_session list"
  multicast_used :: "bool list"
  cert_port_enabled :: bool
  lw_published :: "backend_event list"
  lw_broken :: bool

text \<open>The functions of the modem, by the files that call them.\<close>

type_synonym 'm mop = "'m \<Rightarrow> smtc_modem_return_code \<times> 'm"
type_synonym ('a, 'm) mget = "'a \<Rightarrow> 'm \<Rightarrow> smtc_modem_return_code \<times> 'a"

record ('m, 's) usp_lw_core_env = "('m, 's) usp_env" +
  lbm_class_b :: bool
  lbm_class_c :: bool
  lbm_multicast :: bool
  lbm_fuota :: bool
  lbm_fuota_v2 :: bool
  lbm_csma :: bool
  rzi_version :: "u32 \<times> u32 \<times> u32"
  fuota_hw_version :: u32
  smtc_modem_set_deveui :: "bytes \<Rightarrow> 'm mop"
  smtc_modem_set_joineui :: "bytes \<Rightarrow> 'm mop"
  smtc_modem_set_appkey :: "bytes \<Rightarrow> 'm mop"
  smtc_modem_set_nwkkey :: "bytes \<Rightarrow> 'm mop"
  smtc_modem_set_channel_mask :: "bytes option \<Rightarrow> 'm mop"
  smtc_modem_get_list_region :: "'m \<Rightarrow> smtc_modem_return_code \<times> smtc_modem_region list \<times> u8"
  smtc_modem_set_region :: "smtc_modem_region \<Rightarrow> 'm mop"
  smtc_modem_set_join_duty_cycle_backoff_bypass :: "bool \<Rightarrow> 'm mop"
  smtc_modem_get_downlink_data :: "'m \<Rightarrow> smtc_modem_return_code \<times> bytes \<times> smtc_modem_dl_metadata \<times> u8 \<times> 'm"
  smtc_modem_get_lorawan_link_check_data :: "(u8 \<times> u8, 'm) mget"
  smtc_modem_get_status :: "(smtc_modem_status, 'm) mget"
  smtc_modem_join_network :: "'m mop"
  smtc_modem_leave_network :: "'m mop"
  smtc_modem_request_uplink :: "u8 \<Rightarrow> bool \<Rightarrow> bytes option \<Rightarrow> u8 \<Rightarrow> 'm mop"
  smtc_modem_set_class :: "smtc_modem_class \<Rightarrow> 'm mop"
  smtc_modem_get_class :: "(smtc_modem_class, 'm) mget"
  smtc_modem_start_alcsync_service :: "'m mop"
  smtc_modem_trig_lorawan_mac_request :: "smtc_mac_request \<Rightarrow> 'm mop"
  lorawan_fragmentation_package_get_file_size :: "'m \<Rightarrow> u32"
  smtc_modem_hal_context_restore :: "u32 \<Rightarrow> u32 \<Rightarrow> 'm \<Rightarrow> bytes"
  smtc_modem_hal_reset_mcu :: "'m \<Rightarrow> 'm"
  lorawan_register_fuota_callbacks :: "'m \<Rightarrow> 'm"

record ('m, 's) usp_lw_network_env = "('m, 's) usp_lw_core_env" +
  smtc_modem_adr_set_profile :: "nat \<Rightarrow> bytes \<Rightarrow> 'm mop"
  smtc_modem_adr_get_profile :: "(nat, 'm) mget"
  lorawan_api_next_dr_get :: "'m \<Rightarrow> u8"
  smtc_modem_get_enabled_datarates :: "(u16, 'm) mget"
  smtc_modem_get_nb_trans :: "(u8, 'm) mget"
  smtc_modem_set_nb_trans :: "u8 \<Rightarrow> 'm mop"
  smtc_modem_get_adr_ack_limit_delay :: "(u8 \<times> u8, 'm) mget"
  smtc_modem_set_adr_ack_limit_delay :: "u8 \<Rightarrow> u8 \<Rightarrow> 'm mop"
  smtc_modem_adr_set_join_distribution :: "bytes \<Rightarrow> 'm mop"
  smtc_modem_get_join_duty_cycle_backoff_bypass :: "(bool, 'm) mget"
  smtc_modem_get_certification_mode :: "(bool, 'm) mget"
  smtc_modem_set_certification_mode :: "bool \<Rightarrow> 'm mop"
  lorawan_api_next_join_time_second_get :: "'m \<Rightarrow> u32"
  smtc_modem_hal_get_time_in_s :: "'m \<Rightarrow> u32"
  smtc_modem_get_duty_cycle_status :: "(int, 'm) mget"
  smtc_modem_get_network_type :: "(bool, 'm) mget"
  smtc_modem_set_network_type :: "bool \<Rightarrow> 'm mop"
  smtc_modem_lbt_get_state :: "(bool, 'm) mget"
  smtc_modem_lbt_set_state :: "bool \<Rightarrow> 'm mop"
  smtc_modem_lbt_get_parameters :: "(lbt_parameters, 'm) mget"
  smtc_modem_lbt_set_parameters :: "u32 \<Rightarrow> int \<Rightarrow> u32 \<Rightarrow> 'm mop"
  smtc_modem_csma_get_state :: "(bool, 'm) mget"
  smtc_modem_csma_set_state :: "bool \<Rightarrow> 'm mop"
  smtc_modem_csma_get_parameters :: "(rzi_lorawan_csma_params, 'm) mget"
  smtc_modem_csma_set_parameters :: "u8 \<Rightarrow> bool \<Rightarrow> u8 \<Rightarrow> 'm mop"
  smtc_modem_lorawan_get_lost_connection_counter :: "(u16, 'm) mget"
  lorawan_api_get_no_rx_packet_threshold :: "'m \<Rightarrow> u16"
  lorawan_api_set_no_rx_packet_threshold :: "u16 \<Rightarrow> 'm \<Rightarrow> 'm"
  smtc_modem_get_crystal_error_ppm :: "(u32, 'm) mget"
  smtc_modem_set_crystal_error_ppm :: "u32 \<Rightarrow> 'm mop"
  smtc_modem_request_empty_uplink :: "bool \<Rightarrow> u8 \<Rightarrow> bool \<Rightarrow> 'm mop"
  smtc_modem_get_next_tx_max_payload :: "(u8, 'm) mget"

record ('m, 's) usp_lw_env = "('m, 's) usp_lw_network_env" +
  smtc_modem_class_b_get_ping_slot_periodicity :: "(u8, 'm) mget"
  smtc_modem_class_b_set_ping_slot_periodicity :: "u8 \<Rightarrow> 'm mop"
  smtc_modem_multicast_set_grp_config :: "nat \<Rightarrow> u32 \<Rightarrow> bytes \<Rightarrow> bytes \<Rightarrow> 'm mop"
  smtc_modem_multicast_class_c_start_session :: "nat \<Rightarrow> u32 \<Rightarrow> u8 \<Rightarrow> 'm mop"
  smtc_modem_multicast_class_b_start_session :: "nat \<Rightarrow> u32 \<Rightarrow> u8 \<Rightarrow> u16 \<Rightarrow> 'm mop"
  smtc_modem_multicast_class_c_stop_session :: "nat \<Rightarrow> 'm mop"
  smtc_modem_multicast_class_b_stop_session :: "nat \<Rightarrow> 'm mop"
  smtc_modem_multicast_class_c_stop_all_sessions :: "'m mop"
  smtc_modem_multicast_class_b_stop_all_sessions :: "'m mop"
  lorawan_api_devaddr_get :: "'m \<Rightarrow> u32"
  smtc_secure_element_get_key :: "smtc_se_key \<Rightarrow> bytes \<Rightarrow> 'm \<Rightarrow> smtc_se_return_code \<times> bytes"
  smtc_modem_get_lorawan_mac_time :: "(rzi_lorawan_network_time, 'm) mget"

abbreviation (input) RZI_LORAWAN_CLASS_B_IDLE :: nat where "RZI_LORAWAN_CLASS_B_IDLE \<equiv> 0"
abbreviation (input) RZI_LORAWAN_CLASS_B_ACQUIRING_BEACON :: nat where "RZI_LORAWAN_CLASS_B_ACQUIRING_BEACON \<equiv> 1"
abbreviation (input) RZI_LORAWAN_CLASS_B_ACTIVE :: nat where "RZI_LORAWAN_CLASS_B_ACTIVE \<equiv> 4"
abbreviation (input) RZI_LORAWAN_RX_WINDOW_UNKNOWN :: nat where "RZI_LORAWAN_RX_WINDOW_UNKNOWN \<equiv> 0"
abbreviation (input) RZI_LORAWAN_RX_WINDOW_RX1 :: nat where "RZI_LORAWAN_RX_WINDOW_RX1 \<equiv> 1"
abbreviation (input) RZI_LORAWAN_RX_WINDOW_RX2 :: nat where "RZI_LORAWAN_RX_WINDOW_RX2 \<equiv> 2"
abbreviation (input) RZI_LORAWAN_RX_WINDOW_RXC :: nat where "RZI_LORAWAN_RX_WINDOW_RXC \<equiv> 3"
abbreviation (input) RZI_LORAWAN_RX_WINDOW_RXB :: nat where "RZI_LORAWAN_RX_WINDOW_RXB \<equiv> 4"
abbreviation (input) RZI_LORAWAN_DOWNLINK_FPENDING :: u32 where "RZI_LORAWAN_DOWNLINK_FPENDING \<equiv> 1"
abbreviation (input) RZI_LORAWAN_DOWNLINK_MULTICAST :: u32 where "RZI_LORAWAN_DOWNLINK_MULTICAST \<equiv> 4"
abbreviation (input) RZI_LORAWAN_ADR_NETWORK :: nat where "RZI_LORAWAN_ADR_NETWORK \<equiv> 0"
abbreviation (input) LBT_DEFAULT_DURATION_MS :: u32 where "LBT_DEFAULT_DURATION_MS \<equiv> 5"
abbreviation (input) LBT_DEFAULT_THRESHOLD :: int where "LBT_DEFAULT_THRESHOLD \<equiv> - 80"
abbreviation (input) LBT_DEFAULT_BW_HZ :: u32 where "LBT_DEFAULT_BW_HZ \<equiv> 200000"
abbreviation (input) MULTICAST_GROUPS :: nat where "MULTICAST_GROUPS \<equiv> 4"

definition USP_CAPABILITIES :: "('m, 's, 'e) usp_lw_env_scheme \<Rightarrow> u32" where
  "USP_CAPABILITIES E =
     RZI_LORAWAN_CAP_OTAA OR RZI_LORAWAN_CAP_CLASS_A OR RZI_LORAWAN_CAP_NETWORK OR RZI_LORAWAN_CAP_CHANNEL OR RZI_LORAWAN_CAP_SESSION
     OR RZI_LORAWAN_CAP_MAC OR RZI_LORAWAN_CAP_CERTIFICATION OR (if lbm_class_b E then RZI_LORAWAN_CAP_CLASS_B else 0)
     OR (if lbm_class_c E then RZI_LORAWAN_CAP_CLASS_C else 0) OR (if lbm_multicast E then RZI_LORAWAN_CAP_MULTICAST else 0)
     OR (if lbm_fuota E then RZI_LORAWAN_CAP_FUOTA else 0)"

section \<open>Configuration\<close>

definition usp_regions :: "smtc_modem_region list" where
  "usp_regions = [SMTC_MODEM_REGION_EU_868, SMTC_MODEM_REGION_US_915, SMTC_MODEM_REGION_AU_915, SMTC_MODEM_REGION_CN_470,
     SMTC_MODEM_REGION_AS_923_GRP1, SMTC_MODEM_REGION_AS_923_GRP2, SMTC_MODEM_REGION_AS_923_GRP3, SMTC_MODEM_REGION_AS_923_GRP4,
     SMTC_MODEM_REGION_IN_865, SMTC_MODEM_REGION_KR_920, SMTC_MODEM_REGION_RU_864]"

definition usp_map_region :: "nat \<Rightarrow> smtc_modem_region option" where
  "usp_map_region r = (if r \<ge> length usp_regions then None else Some (usp_regions ! r))"

definition rzi_lorawan_usp_publish :: "backend_event \<Rightarrow> ('m, 'z) usp_lw_scheme \<Rightarrow> ('m, 'z) usp_lw_scheme" where
  "rzi_lorawan_usp_publish ev s =
     (if lw_event_sink s then s\<lparr>lw_published := lw_published s @ [ev]\<rparr> else s\<lparr>lw_broken := True\<rparr>)"

definition publish_error :: "int \<Rightarrow> ('m, 'z) usp_lw_scheme \<Rightarrow> ('m, 'z) usp_lw_scheme" where
  "publish_error error = rzi_lorawan_usp_publish (BACKEND_ERROR error)"

text \<open>The settings hold over-the-air credentials whenever this is called: joining refuses the other activation.\<close>

definition configure_credentials :: "('m, 's, 'e) usp_lw_env_scheme \<Rightarrow> ('m, 'z) usp_lw_scheme op" where
  "configure_credentials E s =
     (case jc_keys (lw_join_settings s) of
        Join_abp _ \<Rightarrow> (- RZI_ERR_NOT_SUPPORTED, s)
      | Join_otaa otaa \<Rightarrow>
          seq_ok (modem_call (smtc_modem_set_deveui E (otaa_dev_eui otaa)))
            (seq_ok (modem_call (smtc_modem_set_joineui E (otaa_join_eui otaa)))
              (seq_ok (modem_call (smtc_modem_set_appkey E (otaa_application_key otaa)))
                (modem_call (smtc_modem_set_nwkkey E (otaa_network_key otaa))))) s)"

definition configure_channel_mask :: "('m, 's, 'e) usp_lw_env_scheme \<Rightarrow> ('m, 'z) usp_lw_scheme op" where
  "configure_channel_mask E s =
     (if lw_region s \<noteq> SMTC_MODEM_REGION_US_915 \<and> lw_region s \<noteq> SMTC_MODEM_REGION_AU_915 then (0, s)
      else if \<not> jc_channel_mask_set (lw_join_settings s) then modem_call (smtc_modem_set_channel_mask E None) s
      else case smtc_modem_set_channel_mask E (Some (concat (map put_le16 (jc_channel_mask (lw_join_settings s))))) (modem s) of (rc, m) \<Rightarrow>
        (if rc = SMTC_MODEM_RC_FAIL then - RZI_ERR_NOT_SUPPORTED else rzi_usp_result rc, s\<lparr>modem := m\<rparr>))"

definition check_region_built :: "('m, 's, 'e) usp_lw_env_scheme \<Rightarrow> ('m, 'z) usp_lw_scheme op" where
  "check_region_built E s =
     (case smtc_modem_get_list_region E (modem s) of (rc, built, count) \<Rightarrow>
        if rzi_usp_result rc \<noteq> 0 then (rzi_usp_result rc, s)
        else (if lw_region s \<in> set (take (min (unat count) 32) built) then 0 else - RZI_ERR_NOT_SUPPORTED, s))"

definition configure_service :: "('m, 's, 'e) usp_lw_env_scheme \<Rightarrow> ('m, 'z) usp_lw_scheme op" where
  "configure_service E =
     seq_ok (check_region_built E)
       (seq_ok (\<lambda>s. modem_call (smtc_modem_set_region E (lw_region s)) s)
         (\<lambda>s. modem_call (smtc_modem_set_join_duty_cycle_backoff_bypass E (lw_join_backoff_bypass s)) s))"

section \<open>Downlinks\<close>

text \<open>The window, the flags and the group; \<open>f\<close> holds the flags so far.\<close>

definition map_window :: "smtc_modem_dl_window \<Rightarrow> u32 \<Rightarrow> nat \<times> u32 \<times> u8" where
  "map_window window f =
     (case window of
        SMTC_MODEM_DL_WINDOW_RX1 \<Rightarrow> (RZI_LORAWAN_RX_WINDOW_RX1, f, 0)
      | SMTC_MODEM_DL_WINDOW_RX2 \<Rightarrow> (RZI_LORAWAN_RX_WINDOW_RX2, f, 0)
      | SMTC_MODEM_DL_WINDOW_RXC \<Rightarrow> (RZI_LORAWAN_RX_WINDOW_RXC, f, 0)
      | SMTC_MODEM_DL_WINDOW_RXC_MC_GRP g \<Rightarrow> (RZI_LORAWAN_RX_WINDOW_RXC, f OR RZI_LORAWAN_DOWNLINK_MULTICAST, g)
      | SMTC_MODEM_DL_WINDOW_RXB \<Rightarrow> (RZI_LORAWAN_RX_WINDOW_RXB, f, 0)
      | SMTC_MODEM_DL_WINDOW_RXB_MC_GRP g \<Rightarrow> (RZI_LORAWAN_RX_WINDOW_RXB, f OR RZI_LORAWAN_DOWNLINK_MULTICAST, g)
      | SMTC_MODEM_DL_WINDOW_OTHER \<Rightarrow> (RZI_LORAWAN_RX_WINDOW_UNKNOWN, f, 0))"

text \<open>One round of the loop fills the event; \<open>buf\<close> is the buffer of the event, which the rounds share.\<close>

definition usp_downlink :: "bytes \<Rightarrow> bytes \<Rightarrow> smtc_modem_dl_metadata \<Rightarrow> rzi_lorawan_downlink" where
  "usp_downlink buf payload meta =
     (case map_window (meta_window meta) (if meta_fpending_bit meta \<noteq> 0 then RZI_LORAWAN_DOWNLINK_FPENDING else 0) of (window, fl, grp) \<Rightarrow>
        \<lparr>dl_port = meta_fport meta, dl_size = length payload, dl_rssi_dbm = meta_rssi meta - 64, dl_snr_quarter_db = meta_snr meta,
         dl_flags = fl, dl_window = window, dl_multicast_group = grp, dl_data_rate = meta_datarate meta,
         dl_frequency_hz = meta_frequency_hz meta, dl_data = overlay payload buf\<rparr>)"

partial_function (option) downlink_loop ::
  "('m, 's, 'e) usp_lw_env_scheme \<Rightarrow> bytes \<Rightarrow> ('m, 'z) usp_lw_scheme \<Rightarrow> ('m, 'z) usp_lw_scheme option" where
  [code]: "downlink_loop E buf s =
     (case smtc_modem_get_downlink_data E (modem s) of (rc, payload, meta, remaining, m) \<Rightarrow>
        let s = s\<lparr>modem := m\<rparr> in
        if rc \<noteq> SMTC_MODEM_RC_OK then Some (publish_error (rzi_usp_result rc) s)
        else let d = usp_downlink buf payload meta; s = rzi_lorawan_usp_publish (BACKEND_DOWNLINK d) s
             in if remaining > 0 then downlink_loop E (dl_data d) s else Some s)"

definition publish_downlinks :: "('m, 's, 'e) usp_lw_env_scheme \<Rightarrow> ('m, 'z) usp_lw_scheme \<Rightarrow> ('m, 'z) usp_lw_scheme" where
  "publish_downlinks E s =
     (case downlink_loop E (replicate RZI_LORAWAN_MAX_PAYLOAD 0) s of None \<Rightarrow> s\<lparr>lw_broken := True\<rparr> | Some t \<Rightarrow> t)"

section \<open>Class B state\<close>

text \<open>The result tells whether the state changed.\<close>

definition rzi_lorawan_usp_set_class_b_state :: "nat \<Rightarrow> ('m, 'z) usp_lw_scheme \<Rightarrow> bool \<times> ('m, 'z) usp_lw_scheme" where
  "rzi_lorawan_usp_set_class_b_state state s =
     (if lw_class_b_state s = state then (False, s) else (True, s\<lparr>lw_class_b_state := state\<rparr>))"

definition rzi_lorawan_usp_publish_class_b :: "nat \<Rightarrow> ('m, 'z) usp_lw_scheme \<Rightarrow> ('m, 'z) usp_lw_scheme" where
  "rzi_lorawan_usp_publish_class_b state s =
     (if lw_event_sink s then s\<lparr>lw_published := lw_published s @ [BACKEND_CLASS_B state]\<rparr> else s)"

section \<open>Events of the modem\<close>

definition handle_reset :: "('m, 's, 'e) usp_lw_env_scheme \<Rightarrow> ('m, 'z) usp_lw_scheme \<Rightarrow> ('m, 'z) usp_lw_scheme" where
  "handle_reset E s =
     (let s = s\<lparr>lw_ready := False, lw_tx_pending := False, fuota_image_ready := (if lbm_fuota E then False else fuota_image_ready s)\<rparr> in
      case (case configure_service E s of (rc, t) \<Rightarrow>
              if rc = 0 \<and> credentials_valid t then configure_credentials E t else (rc, t)) of (rc, t) \<Rightarrow>
        if rc \<noteq> 0 then publish_error rc t else rzi_lorawan_usp_publish BACKEND_READY (t\<lparr>lw_ready := True\<rparr>))"

definition handle_txdone :: "smtc_txdone_status \<Rightarrow> ('m, 'z) usp_lw_scheme \<Rightarrow> ('m, 'z) usp_lw_scheme" where
  "handle_txdone status s =
     rzi_lorawan_usp_publish
       (case status of SMTC_TXDONE_CONFIRMED \<Rightarrow> BACKEND_TX_DONE TXDONE_CONFIRMED 0 | SMTC_TXDONE_SENT \<Rightarrow> BACKEND_TX_DONE TXDONE_SENT 0
        | SMTC_TXDONE_OTHER \<Rightarrow> BACKEND_TX_DONE TXDONE_NOT_SENT (- RZI_ERR_IO))
       (s\<lparr>lw_tx_pending := False\<rparr>)"

definition handle_mac_time ::
  "('m, 's, 'e) usp_lw_env_scheme \<Rightarrow> smtc_mac_request_status \<Rightarrow> ('m, 'z) usp_lw_scheme \<Rightarrow> ('m, 'z) usp_lw_scheme" where
  "handle_mac_time E status s =
     (let error = (if status = SMTC_MAC_REQUEST_ANSWERED then 0 else - RZI_ERR_TIMEOUT);
          s = rzi_lorawan_usp_publish (BACKEND_DEVICE_TIME error) s
      in if lbm_fuota E \<and> error = 0 then rzi_lorawan_usp_publish (BACKEND_FUOTA FUOTA_CLOCK_SYNCED True 0) s else s)"

definition handle_link_check ::
  "('m, 's, 'e) usp_lw_env_scheme \<Rightarrow> smtc_mac_request_status \<Rightarrow> ('m, 'z) usp_lw_scheme \<Rightarrow> ('m, 'z) usp_lw_scheme" where
  "handle_link_check E status s =
     (if status = SMTC_MAC_REQUEST_ANSWERED
      then case smtc_modem_get_lorawan_link_check_data E (0, 0) (modem s) of (rc, margin, gateways) \<Rightarrow>
        (if rc = SMTC_MODEM_RC_OK
         then rzi_lorawan_usp_publish (BACKEND_LINK_CHECK \<lparr>demod_margin = margin, gateway_count = gateways, lc_rssi_dbm = 0, lc_snr_quarter_db = 0\<rparr>) s
         else s)
      else s)"

definition handle_class_b_status :: "smtc_class_b_status \<Rightarrow> ('m, 'z) usp_lw_scheme \<Rightarrow> ('m, 'z) usp_lw_scheme" where
  "handle_class_b_status status s =
     (case (case status of SMTC_CLASS_B_READY \<Rightarrow> Some RZI_LORAWAN_CLASS_B_ACTIVE | SMTC_CLASS_B_NOT_READY \<Rightarrow> Some RZI_LORAWAN_CLASS_B_IDLE
            | SMTC_CLASS_B_OTHER \<Rightarrow> None) of
        None \<Rightarrow> s
      | Some state \<Rightarrow> (case rzi_lorawan_usp_set_class_b_state state s of (changed, t) \<Rightarrow>
          if changed then rzi_lorawan_usp_publish_class_b state t else t))"

text \<open>The file size of a transfer is asked for only in the second version of the packages.\<close>

definition handle_fuota_done :: "('m, 's, 'e) usp_lw_env_scheme \<Rightarrow> bool \<Rightarrow> ('m, 'z) usp_lw_scheme \<Rightarrow> ('m, 'z) usp_lw_scheme" where
  "handle_fuota_done E successful s =
     rzi_lorawan_usp_publish
       (BACKEND_FUOTA FUOTA_TRANSFER_DONE successful
          (if lbm_fuota_v2 E \<and> successful then lorawan_fragmentation_package_get_file_size E (modem s) else 0))
       (s\<lparr>fuota_image_ready := successful\<rparr>)"

text \<open>The cases that only exist with firmware updates.\<close>

definition handle_package_event :: "('m, 's, 'e) usp_lw_env_scheme \<Rightarrow> smtc_modem_event_type \<Rightarrow> ('m, 'z) usp_lw_scheme \<Rightarrow> ('m, 'z) usp_lw_scheme" where
  "handle_package_event E type s =
     (case type of
        SMTC_MODEM_EVENT_ALCSYNC_TIME \<Rightarrow> rzi_lorawan_usp_publish (BACKEND_FUOTA FUOTA_CLOCK_SYNCED True 0) s
      | SMTC_MODEM_EVENT_NEW_MULTICAST_SESSION_CLASS_C \<Rightarrow> rzi_lorawan_usp_publish (BACKEND_FUOTA FUOTA_SESSION_STARTED True 0) s
      | SMTC_MODEM_EVENT_NEW_MULTICAST_SESSION_CLASS_B \<Rightarrow> rzi_lorawan_usp_publish (BACKEND_FUOTA FUOTA_SESSION_STARTED True 0) s
      | SMTC_MODEM_EVENT_NO_MORE_MULTICAST_SESSION_CLASS_C \<Rightarrow> rzi_lorawan_usp_publish (BACKEND_FUOTA FUOTA_SESSION_ENDED True 0) s
      | SMTC_MODEM_EVENT_NO_MORE_MULTICAST_SESSION_CLASS_B \<Rightarrow> rzi_lorawan_usp_publish (BACKEND_FUOTA FUOTA_SESSION_ENDED True 0) s
      | SMTC_MODEM_EVENT_LORAWAN_FUOTA_DONE successful \<Rightarrow> handle_fuota_done E successful s
      | SMTC_MODEM_EVENT_FIRMWARE_MANAGEMENT status \<Rightarrow>
          (if status = SMTC_FMP_REBOOT_IMMEDIATELY then rzi_lorawan_usp_publish (BACKEND_FUOTA FUOTA_REBOOT_REQUESTED True 0) s else s)
      | _ \<Rightarrow> s)"

definition handle_event ::
  "('m, 's, 'e) usp_lw_env_scheme \<Rightarrow> smtc_modem_event option \<Rightarrow> int \<Rightarrow> ('m, 'z) usp_lw_scheme \<Rightarrow> ('m, 'z) usp_lw_scheme" where
  "handle_event E source error s =
     (case source of
        None \<Rightarrow> publish_error error s
      | Some ev \<Rightarrow>
          let s = (if missed_events ev > 0 then publish_error (- RZI_ERR_OVERFLOW) s else s) in
          case event_type ev of
            SMTC_MODEM_EVENT_RESET \<Rightarrow> handle_reset E s
          | SMTC_MODEM_EVENT_JOINED \<Rightarrow>
              rzi_lorawan_usp_publish BACKEND_JOINED (s\<lparr>fuota_image_ready := (if lbm_fuota E then False else fuota_image_ready s)\<rparr>)
          | SMTC_MODEM_EVENT_JOINFAIL \<Rightarrow> rzi_lorawan_usp_publish (BACKEND_JOIN_FAILED (- RZI_ERR_TIMEOUT)) s
          | SMTC_MODEM_EVENT_TXDONE status \<Rightarrow> handle_txdone status s
          | SMTC_MODEM_EVENT_DOWNDATA \<Rightarrow> publish_downlinks E s
          | SMTC_MODEM_EVENT_REGIONAL_DUTY_CYCLE status \<Rightarrow> rzi_lorawan_usp_publish (BACKEND_DUTY_CYCLE (status \<noteq> 0)) s
          | SMTC_MODEM_EVENT_NO_DOWNLINK_THRESHOLD adr user \<Rightarrow>
              rzi_lorawan_usp_publish (BACKEND_NO_DOWNLINK ((if adr then 1 else 0) OR (if user then 2 else 0))) s
          | SMTC_MODEM_EVENT_LINK_CHECK status \<Rightarrow> handle_link_check E status s
          | SMTC_MODEM_EVENT_LORAWAN_MAC_TIME status \<Rightarrow> handle_mac_time E status s
          | SMTC_MODEM_EVENT_CLASS_B_STATUS status \<Rightarrow> handle_class_b_status status s
          | _ \<Rightarrow> if lbm_fuota E then handle_package_event E (event_type ev) s else s)"

text \<open>The platform layer with this handler.\<close>

definition lw_platform :: "('m, ('m, 'z) usp_lw_scheme, 'e) usp_lw_env_scheme \<Rightarrow> ('m, ('m, 'z) usp_lw_scheme, 'e) usp_lw_env_scheme" where
  "lw_platform E = E\<lparr>usp_handler := (\<lambda>h. handle_event E)\<rparr>"

section \<open>Entry to the modem\<close>

definition rzi_lorawan_usp_enter :: "('m, 'z) usp_lw_scheme \<Rightarrow> int" where
  "rzi_lorawan_usp_enter s = (if \<not> lw_ready s then - RZI_ERR_NOT_READY else 0)"

text \<open>\<^verbatim>\<open>rc = rzi_lorawan_usp_enter(); if (rc != 0) return rc; ... return rzi_lorawan_usp_finish(rc);\<close>\<close>

definition entered :: "('m, 'z) usp_lw_scheme op \<Rightarrow> ('m, 'z) usp_lw_scheme op" where
  "entered f s = (let rc = rzi_lorawan_usp_enter s in if rc \<noteq> 0 then (rc, s) else f s)"

definition entered_get :: "('a \<Rightarrow> ('m, 'z) usp_lw_scheme \<Rightarrow> int \<times> 'a) \<Rightarrow> ('a, ('m, 'z) usp_lw_scheme) bget" where
  "entered_get f cell s =
     (let rc = rzi_lorawan_usp_enter s in
      if rc \<noteq> 0 then (rc, cell, [], s) else case f cell s of (rc, v) \<Rightarrow> (rc, v, [], s))"

text \<open>The modem fills the caller's cell; or a local variable, which is given to the caller on success.\<close>

definition modem_read :: "('a, 'm) mget \<Rightarrow> 'a \<Rightarrow> ('m, 'z) usp_platform_scheme \<Rightarrow> int \<times> 'a" where
  "modem_read f cell s = (case f cell (modem s) of (rc, v) \<Rightarrow> (rzi_usp_result rc, v))"

definition modem_read_as :: "('b, 'm) mget \<Rightarrow> 'b \<Rightarrow> ('b \<Rightarrow> 'a) \<Rightarrow> 'a \<Rightarrow> ('m, 'z) usp_platform_scheme \<Rightarrow> int \<times> 'a" where
  "modem_read_as f local g cell s = (case modem_read f local s of (rc, v) \<Rightarrow> (rc, if rc = 0 then g v else cell))"

definition rzi_lorawan_usp_require_joined :: "('m, 's, 'e) usp_lw_env_scheme \<Rightarrow> ('m, 'z) usp_lw_scheme op" where
  "rzi_lorawan_usp_require_joined E s =
     (case modem_read (smtc_modem_get_status E) \<lparr>status_joined = False, status_joining = False\<rparr> s of (rc, status) \<Rightarrow>
        (if rc \<noteq> 0 then rc else if status_joined status then 0 else - RZI_ERR_NOT_JOINED, s))"

section \<open>The base operations\<close>

definition usp_join :: "('m, 's, 'e) usp_lw_env_scheme \<Rightarrow> rzi_lorawan_join_config \<Rightarrow> ('m, 'z) usp_lw_scheme op" where
  "usp_join E config s =
     (if jc_activation config \<noteq> RZI_LORAWAN_ACTIVATION_OTAA then (- RZI_ERR_NOT_SUPPORTED, s)
      else entered (\<lambda>s. seq_ok (configure_credentials E) (seq_ok (configure_channel_mask E) (modem_call (smtc_modem_join_network E)))
             (s\<lparr>lw_join_settings := config, credentials_valid := True\<rparr>)) s)"

definition usp_leave :: "('m, 's, 'e) usp_lw_env_scheme \<Rightarrow> ('m, 'z) usp_lw_scheme op" where
  "usp_leave E =
     entered (\<lambda>s. if lw_tx_pending s then (- RZI_ERR_BUSY, s)
       else modem_call (smtc_modem_leave_network E) (s\<lparr>fuota_image_ready := (if lbm_fuota E then False else fuota_image_ready s)\<rparr>))"

text \<open>A request of an uplink, which is then pending.\<close>

definition request_uplink :: "'m mop \<Rightarrow> ('m, 'z) usp_lw_scheme op" where
  "request_uplink f s =
     (if lw_tx_pending s then (- RZI_ERR_BUSY, s)
      else case modem_call f s of (rc, t) \<Rightarrow> (rc, if rc = 0 then t\<lparr>lw_tx_pending := True\<rparr> else t))"

definition lw_usp_send :: "('m, 's, 'e) usp_lw_env_scheme \<Rightarrow> u8 \<Rightarrow> bytes option \<Rightarrow> nat \<Rightarrow> nat \<Rightarrow> ('m, 'z) usp_lw_scheme op" where
  "lw_usp_send E port data n type =
     entered (request_uplink (smtc_modem_request_uplink E port (type = RZI_LORAWAN_MSG_CONFIRMED) data (of_nat n)))"

definition usp_is_joined :: "('m, 's, 'e) usp_lw_env_scheme \<Rightarrow> (bool, ('m, 'z) usp_lw_scheme) bget" where
  "usp_is_joined E =
     entered_get (modem_read_as (smtc_modem_get_status E) \<lparr>status_joined = False, status_joining = False\<rparr> status_joined)"

definition usp_is_busy :: "(bool, ('m, 'z) usp_lw_scheme) bget" where
  "usp_is_busy = entered_get (\<lambda>cell s. (0, lw_tx_pending s))"

definition usp_set_class :: "('m, 's, 'e) usp_lw_env_scheme \<Rightarrow> nat \<Rightarrow> ('m, 'z) usp_lw_scheme op" where
  "usp_set_class E device_class =
     entered (\<lambda>s.
       case (if device_class = RZI_LORAWAN_CLASS_A then Some (SMTC_MODEM_CLASS_A, RZI_LORAWAN_CLASS_B_IDLE)
             else if device_class = RZI_LORAWAN_CLASS_B then Some (SMTC_MODEM_CLASS_B, RZI_LORAWAN_CLASS_B_ACQUIRING_BEACON)
             else if device_class = RZI_LORAWAN_CLASS_C then Some (SMTC_MODEM_CLASS_C, RZI_LORAWAN_CLASS_B_IDLE)
             else None) of
         None \<Rightarrow> (- RZI_ERR_INVALID, s)
       | Some (mapped, state) \<Rightarrow>
           let previous = lw_class_b_state s in
           case rzi_lorawan_usp_set_class_b_state state s of (changed, s) \<Rightarrow>
           case modem_call (smtc_modem_set_class E mapped) s of (rc, s) \<Rightarrow>
             if rc \<noteq> 0 \<and> changed then (rc, snd (rzi_lorawan_usp_set_class_b_state previous s))
             else (rc, if changed then rzi_lorawan_usp_publish_class_b state s else s))"

definition lw_usp_start ::
  "('m, ('m, 'z) usp_lw_scheme, 'e) usp_lw_env_scheme \<Rightarrow> nat \<Rightarrow> bool \<Rightarrow> bool \<Rightarrow> ('m, 'z) usp_lw_scheme op" where
  "lw_usp_start E selected_region bypass sink s =
     (case usp_map_region selected_region of
        None \<Rightarrow> (- RZI_ERR_INVALID, s)
      | Some selected \<Rightarrow>
          if \<not> sink then (- RZI_ERR_INVALID, s)
          else let s = s\<lparr>lw_region := selected, lw_join_backoff_bypass := bypass, lw_event_sink := True\<rparr>;
                   s = (if lbm_fuota E then s\<lparr>modem := lorawan_register_fuota_callbacks E (modem s)\<rparr> else s);
                   s = rzi_usp_init E s
               in (0, rzi_usp_set_event_handler (lw_platform E) (Some 0) s))"

section \<open>Network operations\<close>

text \<open>The modem accepts profiles only with a session. A null distribution is all zero.\<close>

definition set_profile :: "('m, 's, 'e) usp_lw_env_scheme \<Rightarrow> nat \<Rightarrow> bytes option \<Rightarrow> ('m, 'z) usp_lw_scheme op" where
  "set_profile E profile distribution =
     seq_ok (rzi_lorawan_usp_require_joined E)
       (modem_call (smtc_modem_adr_set_profile E profile
          (case distribution of None \<Rightarrow> replicate RZI_LORAWAN_DR_DISTRIBUTION_LENGTH 0
           | Some d \<Rightarrow> take RZI_LORAWAN_DR_DISTRIBUTION_LENGTH d)))"

definition pin_data_rate :: "('m, 's, 'e) usp_lw_env_scheme \<Rightarrow> u8 \<Rightarrow> ('m, 'z) usp_lw_scheme op" where
  "pin_data_rate E data_rate = set_profile E RZI_LORAWAN_ADR_CUSTOM (Some (replicate RZI_LORAWAN_DR_DISTRIBUTION_LENGTH data_rate))"

definition usp_get_adr :: "('m, 's, 'e) usp_lw_env_scheme \<Rightarrow> (bool, ('m, 'z) usp_lw_scheme) bget" where
  "usp_get_adr E = entered_get (modem_read_as (smtc_modem_adr_get_profile E) 0 (\<lambda>profile. profile = RZI_LORAWAN_ADR_NETWORK))"

definition usp_set_adr :: "('m, 's, 'e) usp_lw_env_scheme \<Rightarrow> bool \<Rightarrow> ('m, 'z) usp_lw_scheme op" where
  "usp_set_adr E enabled =
     entered (\<lambda>s. if enabled then set_profile E RZI_LORAWAN_ADR_NETWORK None s else pin_data_rate E (lorawan_api_next_dr_get E (modem s)) s)"

definition usp_get_data_rate :: "('m, 's, 'e) usp_lw_env_scheme \<Rightarrow> (nat, ('m, 'z) usp_lw_scheme) bget" where
  "usp_get_data_rate E = entered_get (\<lambda>cell s. (0, unat (lorawan_api_next_dr_get E (modem s))))"

definition usp_set_data_rate :: "('m, 's, 'e) usp_lw_env_scheme \<Rightarrow> nat \<Rightarrow> ('m, 'z) usp_lw_scheme op" where
  "usp_set_data_rate E data_rate = entered (pin_data_rate E (of_nat data_rate))"

definition usp_get_enabled_data_rates :: "('m, 's, 'e) usp_lw_env_scheme \<Rightarrow> (u16, ('m, 'z) usp_lw_scheme) bget" where
  "usp_get_enabled_data_rates E = entered_get (modem_read (smtc_modem_get_enabled_datarates E))"

definition usp_get_adr_profile :: "('m, 's, 'e) usp_lw_env_scheme \<Rightarrow> (nat, ('m, 'z) usp_lw_scheme) bget" where
  "usp_get_adr_profile E = entered_get (modem_read_as (smtc_modem_adr_get_profile E) 0 (\<lambda>profile. profile))"

definition usp_set_adr_profile :: "('m, 's, 'e) usp_lw_env_scheme \<Rightarrow> nat \<Rightarrow> bytes option \<Rightarrow> ('m, 'z) usp_lw_scheme op" where
  "usp_set_adr_profile E profile distribution =
     entered (set_profile E profile (if profile = RZI_LORAWAN_ADR_CUSTOM then distribution else None))"

definition usp_get_nb_trans :: "('m, 's, 'e) usp_lw_env_scheme \<Rightarrow> (u8, ('m, 'z) usp_lw_scheme) bget" where
  "usp_get_nb_trans E = entered_get (modem_read (smtc_modem_get_nb_trans E))"

definition usp_set_nb_trans :: "('m, 's, 'e) usp_lw_env_scheme \<Rightarrow> u8 \<Rightarrow> ('m, 'z) usp_lw_scheme op" where
  "usp_set_nb_trans E nb_trans =
     entered (seq_ok (rzi_lorawan_usp_require_joined E) (modem_call (smtc_modem_set_nb_trans E nb_trans)))"

definition usp_get_adr_ack :: "('m, 's, 'e) usp_lw_env_scheme \<Rightarrow> (u8 \<times> u8, ('m, 'z) usp_lw_scheme) bget" where
  "usp_get_adr_ack E = entered_get (modem_read (smtc_modem_get_adr_ack_limit_delay E))"

definition usp_set_adr_ack :: "('m, 's, 'e) usp_lw_env_scheme \<Rightarrow> u8 \<Rightarrow> u8 \<Rightarrow> ('m, 'z) usp_lw_scheme op" where
  "usp_set_adr_ack E limit delay = entered (modem_call (smtc_modem_set_adr_ack_limit_delay E limit delay))"

definition usp_set_join_data_rates :: "('m, 's, 'e) usp_lw_env_scheme \<Rightarrow> bytes \<Rightarrow> ('m, 'z) usp_lw_scheme op" where
  "usp_set_join_data_rates E distribution =
     entered (\<lambda>s.
       case modem_read (smtc_modem_get_status E) \<lparr>status_joined = False, status_joining = False\<rparr> s of (rc, status) \<Rightarrow>
         if rc \<noteq> 0 then (rc, s)
         else if status_joined status \<or> status_joining status then (- RZI_ERR_BUSY, s)
         else modem_call (smtc_modem_adr_set_join_distribution E distribution) s)"

text \<open>The deadline is on the modem's wrapping clock of seconds: the difference is read as a signed number.\<close>

definition join_backoff_left :: "u32 \<Rightarrow> u32 \<Rightarrow> u32" where
  "join_backoff_left deadline now = (if sint (deadline - now) > 0 then deadline - now else 0)"

definition usp_get_join_backoff :: "('m, 's, 'e) usp_lw_env_scheme \<Rightarrow> (u32, ('m, 'z) usp_lw_scheme) bget" where
  "usp_get_join_backoff E =
     entered_get (\<lambda>cell s.
       case modem_read (smtc_modem_get_status E) \<lparr>status_joined = False, status_joining = False\<rparr> s of (rc, status) \<Rightarrow>
         if rc \<noteq> 0 then (rc, cell)
         else case modem_read (smtc_modem_get_join_duty_cycle_backoff_bypass E) False s of (rc, bypass) \<Rightarrow>
           if rc \<noteq> 0 then (rc, cell)
           else case modem_read (smtc_modem_get_certification_mode E) False s of (rc, certification) \<Rightarrow>
             if rc \<noteq> 0 then (rc, cell)
             else (0, if \<not> status_joined status \<and> \<not> bypass \<and> \<not> certification
                      then join_backoff_left (lorawan_api_next_join_time_second_get E (modem s)) (smtc_modem_hal_get_time_in_s E (modem s))
                      else 0))"

definition usp_get_duty_cycle_status :: "('m, 's, 'e) usp_lw_env_scheme \<Rightarrow> (int, ('m, 'z) usp_lw_scheme) bget" where
  "usp_get_duty_cycle_status E = entered_get (modem_read (smtc_modem_get_duty_cycle_status E))"

definition usp_get_public_network :: "('m, 's, 'e) usp_lw_env_scheme \<Rightarrow> (bool, ('m, 'z) usp_lw_scheme) bget" where
  "usp_get_public_network E = entered_get (modem_read (smtc_modem_get_network_type E))"

definition usp_set_public_network :: "('m, 's, 'e) usp_lw_env_scheme \<Rightarrow> bool \<Rightarrow> ('m, 'z) usp_lw_scheme op" where
  "usp_set_public_network E enabled = entered (modem_call (smtc_modem_set_network_type E enabled))"

definition usp_get_lbt :: "('m, 's, 'e) usp_lw_env_scheme \<Rightarrow> (bool, ('m, 'z) usp_lw_scheme) bget" where
  "usp_get_lbt E = entered_get (modem_read (smtc_modem_lbt_get_state E))"

definition usp_set_lbt :: "('m, 's, 'e) usp_lw_env_scheme \<Rightarrow> bool \<Rightarrow> ('m, 'z) usp_lw_scheme op" where
  "usp_set_lbt E enabled =
     entered (seq_ok
       (\<lambda>s. if enabled then modem_call (smtc_modem_lbt_set_parameters E LBT_DEFAULT_DURATION_MS LBT_DEFAULT_THRESHOLD LBT_DEFAULT_BW_HZ) s else (0, s))
       (modem_call (smtc_modem_lbt_set_state E enabled)))"

definition usp_get_lbt_rssi :: "('m, 's, 'e) usp_lw_env_scheme \<Rightarrow> (int, ('m, 'z) usp_lw_scheme) bget" where
  "usp_get_lbt_rssi E =
     entered_get (\<lambda>cell s. case modem_read (smtc_modem_lbt_get_parameters E) (0, cell, 0) s of (rc, duration, rssi, bw) \<Rightarrow> (rc, rssi))"

definition usp_set_lbt_rssi :: "('m, 's, 'e) usp_lw_env_scheme \<Rightarrow> int \<Rightarrow> ('m, 'z) usp_lw_scheme op" where
  "usp_set_lbt_rssi E rssi_dbm =
     entered (\<lambda>s. case modem_read (smtc_modem_lbt_get_parameters E) (0, 0, 0) s of (rc, duration, current, bw) \<Rightarrow>
       if rc \<noteq> 0 then modem_call (smtc_modem_lbt_set_parameters E LBT_DEFAULT_DURATION_MS rssi_dbm LBT_DEFAULT_BW_HZ) s
       else modem_call (smtc_modem_lbt_set_parameters E duration rssi_dbm bw) s)"

definition usp_get_lbt_scan_time :: "('m, 's, 'e) usp_lw_env_scheme \<Rightarrow> (u32, ('m, 'z) usp_lw_scheme) bget" where
  "usp_get_lbt_scan_time E =
     entered_get (\<lambda>cell s. case modem_read (smtc_modem_lbt_get_parameters E) (cell, 0, 0) s of (rc, duration, threshold, bw) \<Rightarrow> (rc, duration))"

definition usp_set_lbt_scan_time :: "('m, 's, 'e) usp_lw_env_scheme \<Rightarrow> u32 \<Rightarrow> ('m, 'z) usp_lw_scheme op" where
  "usp_set_lbt_scan_time E time_ms =
     entered (\<lambda>s. case modem_read (smtc_modem_lbt_get_parameters E) (0, 0, 0) s of (rc, duration, threshold, bw) \<Rightarrow>
       if rc \<noteq> 0 then modem_call (smtc_modem_lbt_set_parameters E time_ms LBT_DEFAULT_THRESHOLD LBT_DEFAULT_BW_HZ) s
       else modem_call (smtc_modem_lbt_set_parameters E time_ms threshold bw) s)"

definition usp_get_csma :: "('m, 's, 'e) usp_lw_env_scheme \<Rightarrow> (bool, ('m, 'z) usp_lw_scheme) bget" where
  "usp_get_csma E = entered_get (modem_read (smtc_modem_csma_get_state E))"

definition usp_set_csma :: "('m, 's, 'e) usp_lw_env_scheme \<Rightarrow> bool \<Rightarrow> ('m, 'z) usp_lw_scheme op" where
  "usp_set_csma E enabled = entered (modem_call (smtc_modem_csma_set_state E enabled))"

definition usp_get_csma_params :: "('m, 's, 'e) usp_lw_env_scheme \<Rightarrow> (rzi_lorawan_csma_params, ('m, 'z) usp_lw_scheme) bget" where
  "usp_get_csma_params E = entered_get (modem_read (smtc_modem_csma_get_parameters E))"

definition usp_set_csma_params :: "('m, 's, 'e) usp_lw_env_scheme \<Rightarrow> rzi_lorawan_csma_params \<Rightarrow> ('m, 'z) usp_lw_scheme op" where
  "usp_set_csma_params E params =
     entered (modem_call (smtc_modem_csma_set_parameters E (max_channel_changes params) (backoff_enabled params) (max_backoffs params)))"

definition usp_get_lost_connection_count :: "('m, 's, 'e) usp_lw_env_scheme \<Rightarrow> (u16, ('m, 'z) usp_lw_scheme) bget" where
  "usp_get_lost_connection_count E = entered_get (modem_read (smtc_modem_lorawan_get_lost_connection_counter E))"

definition usp_get_no_downlink_threshold :: "('m, 's, 'e) usp_lw_env_scheme \<Rightarrow> (u16, ('m, 'z) usp_lw_scheme) bget" where
  "usp_get_no_downlink_threshold E = entered_get (\<lambda>cell s. (0, lorawan_api_get_no_rx_packet_threshold E (modem s)))"

definition usp_set_no_downlink_threshold :: "('m, 's, 'e) usp_lw_env_scheme \<Rightarrow> u16 \<Rightarrow> ('m, 'z) usp_lw_scheme op" where
  "usp_set_no_downlink_threshold E uplinks =
     entered (\<lambda>s. (0, s\<lparr>modem := lorawan_api_set_no_rx_packet_threshold E uplinks (modem s)\<rparr>))"

definition usp_get_crystal_error :: "('m, 's, 'e) usp_lw_env_scheme \<Rightarrow> (u32, ('m, 'z) usp_lw_scheme) bget" where
  "usp_get_crystal_error E = entered_get (modem_read (smtc_modem_get_crystal_error_ppm E))"

definition usp_set_crystal_error :: "('m, 's, 'e) usp_lw_env_scheme \<Rightarrow> u32 \<Rightarrow> ('m, 'z) usp_lw_scheme op" where
  "usp_set_crystal_error E ppm = entered (modem_call (smtc_modem_set_crystal_error_ppm E ppm))"

definition usp_send_empty :: "('m, 's, 'e) usp_lw_env_scheme \<Rightarrow> bool \<Rightarrow> u8 \<Rightarrow> nat \<Rightarrow> ('m, 'z) usp_lw_scheme op" where
  "usp_send_empty E with_port port type =
     entered (request_uplink (smtc_modem_request_empty_uplink E with_port port (type = RZI_LORAWAN_MSG_CONFIRMED)))"

definition usp_query_tx_possible :: "('m, 's, 'e) usp_lw_env_scheme \<Rightarrow> nat \<Rightarrow> ('m, 'z) usp_lw_scheme op" where
  "usp_query_tx_possible E n =
     entered (\<lambda>s. case modem_read (smtc_modem_get_next_tx_max_payload E) 0 s of (rc, max_payload) \<Rightarrow>
       (if rc = 0 \<and> n > unat max_payload then - RZI_ERR_TOO_LARGE else rc, s))"

section \<open>Class B, certification, session and MAC requests\<close>

definition usp_get_class :: "('m, 's, 'e) usp_lw_env_scheme \<Rightarrow> (nat, ('m, 'z) usp_lw_scheme) bget" where
  "usp_get_class E =
     entered_get (\<lambda>cell s. case modem_read (smtc_modem_get_class E) SMTC_MODEM_CLASS_A s of (rc, mapped) \<Rightarrow>
       if rc \<noteq> 0 then (rc, cell)
       else case mapped of SMTC_MODEM_CLASS_A \<Rightarrow> (0, RZI_LORAWAN_CLASS_A) | SMTC_MODEM_CLASS_B \<Rightarrow> (0, RZI_LORAWAN_CLASS_B)
         | SMTC_MODEM_CLASS_C \<Rightarrow> (0, RZI_LORAWAN_CLASS_C) | SMTC_MODEM_CLASS_OTHER \<Rightarrow> (- RZI_ERR_INVALID, cell))"

definition usp_get_ping_slot :: "('m, 's, 'e) usp_lw_env_scheme \<Rightarrow> (u8, ('m, 'z) usp_lw_scheme) bget" where
  "usp_get_ping_slot E = entered_get (modem_read_as (smtc_modem_class_b_get_ping_slot_periodicity E) 0 (\<lambda>p. p))"

definition usp_set_ping_slot :: "('m, 's, 'e) usp_lw_env_scheme \<Rightarrow> u8 \<Rightarrow> ('m, 'z) usp_lw_scheme op" where
  "usp_set_ping_slot E periodicity = entered (modem_call (smtc_modem_class_b_set_ping_slot_periodicity E periodicity))"

definition usp_get_class_b_state :: "(nat, ('m, 'z) usp_lw_scheme) bget" where
  "usp_get_class_b_state = entered_get (\<lambda>cell s. (0, lw_class_b_state s))"

definition usp_stop_class_b :: "('m, 's, 'e) usp_lw_env_scheme \<Rightarrow> ('m, 'z) usp_lw_scheme op" where
  "usp_stop_class_b E =
     entered (\<lambda>s. case modem_call (smtc_modem_set_class E SMTC_MODEM_CLASS_A) s of (rc, s) \<Rightarrow>
       case (if rc = 0 then rzi_lorawan_usp_set_class_b_state RZI_LORAWAN_CLASS_B_IDLE s else (False, s)) of (notify, s) \<Rightarrow>
         (rc, if notify then rzi_lorawan_usp_publish_class_b RZI_LORAWAN_CLASS_B_IDLE s else s))"

definition usp_get_cert_mode :: "('m, 's, 'e) usp_lw_env_scheme \<Rightarrow> (bool, ('m, 'z) usp_lw_scheme) bget" where
  "usp_get_cert_mode E = entered_get (modem_read (smtc_modem_get_certification_mode E))"

definition usp_set_cert_mode :: "('m, 's, 'e) usp_lw_env_scheme \<Rightarrow> bool \<Rightarrow> ('m, 'z) usp_lw_scheme op" where
  "usp_set_cert_mode E enabled = entered (modem_call (smtc_modem_set_certification_mode E enabled))"

definition usp_get_cert_port :: "(bool, ('m, 'z) usp_lw_scheme) bget" where
  "usp_get_cert_port = entered_get (\<lambda>cell s. (0, cert_port_enabled s))"

definition usp_set_cert_port :: "bool \<Rightarrow> ('m, 'z) usp_lw_scheme op" where
  "usp_set_cert_port enabled = entered (\<lambda>s. (0, s\<lparr>cert_port_enabled := enabled\<rparr>))"

definition usp_get_dev_addr :: "('m, 's, 'e) usp_lw_env_scheme \<Rightarrow> (u32, ('m, 'z) usp_lw_scheme) bget" where
  "usp_get_dev_addr E = entered_get (\<lambda>cell s. (0, lorawan_api_devaddr_get E (modem s)))"

definition usp_copy_session_key :: "('m, 's, 'e) usp_lw_env_scheme \<Rightarrow> smtc_se_key \<Rightarrow> (bytes, ('m, 'z) usp_lw_scheme) bget" where
  "usp_copy_session_key E key_id =
     entered_get (\<lambda>cell s. case smtc_secure_element_get_key E key_id cell (modem s) of (rc, v) \<Rightarrow>
       (case rc of SMTC_SE_RC_SUCCESS \<Rightarrow> 0 | SMTC_SE_RC_ERROR \<Rightarrow> - RZI_ERR_NOT_SUPPORTED | SMTC_SE_RC_OTHER \<Rightarrow> - RZI_ERR_IO, v))"

definition usp_get_nwk_skey :: "('m, 's, 'e) usp_lw_env_scheme \<Rightarrow> (bytes, ('m, 'z) usp_lw_scheme) bget" where
  "usp_get_nwk_skey E = usp_copy_session_key E SMTC_SE_NWK_S_ENC_KEY"

definition usp_get_app_skey :: "('m, 's, 'e) usp_lw_env_scheme \<Rightarrow> (bytes, ('m, 'z) usp_lw_scheme) bget" where
  "usp_get_app_skey E = usp_copy_session_key E SMTC_SE_APP_S_KEY"

definition usp_link_check_request :: "('m, 's, 'e) usp_lw_env_scheme \<Rightarrow> ('m, 'z) usp_lw_scheme op" where
  "usp_link_check_request E = entered (modem_call (smtc_modem_trig_lorawan_mac_request E SMTC_MODEM_LORAWAN_MAC_REQ_LINK_CHECK))"

definition usp_device_time_request :: "('m, 's, 'e) usp_lw_env_scheme \<Rightarrow> ('m, 'z) usp_lw_scheme op" where
  "usp_device_time_request E = entered (modem_call (smtc_modem_trig_lorawan_mac_request E SMTC_MODEM_LORAWAN_MAC_REQ_DEVICE_TIME))"

definition usp_get_network_time :: "('m, 's, 'e) usp_lw_env_scheme \<Rightarrow> (rzi_lorawan_network_time, ('m, 'z) usp_lw_scheme) bget" where
  "usp_get_network_time E = entered_get (modem_read (smtc_modem_get_lorawan_mac_time E))"

section \<open>Multicast\<close>

text \<open>A free group: the requested one, or the first when the request is negative.\<close>

definition allocate_group :: "int \<Rightarrow> ('m, 'z) usp_lw_scheme \<Rightarrow> nat option" where
  "allocate_group requested s =
     (if requested \<ge> 0
      then if requested < int MULTICAST_GROUPS \<and> \<not> multicast_used s ! nat requested then Some (nat requested) else None
      else find (\<lambda>i. \<not> multicast_used s ! i) [0..<MULTICAST_GROUPS])"

text \<open>What is remembered of a session: its group, and neither key.\<close>

definition remembered_session :: "nat \<Rightarrow> rzi_lorawan_multicast_session \<Rightarrow> rzi_lorawan_multicast_session" where
  "remembered_session grp session =
     session\<lparr>mc_group_id := int grp, mc_application_session_key := replicate 16 0, mc_network_session_key := replicate 16 0\<rparr>"

definition usp_multicast_add :: "('m, 's, 'e) usp_lw_env_scheme \<Rightarrow> rzi_lorawan_multicast_session \<Rightarrow> ('m, 'z) usp_lw_scheme op" where
  "usp_multicast_add E session =
     entered (\<lambda>s. case allocate_group (mc_group_id session) s of
         None \<Rightarrow> (- RZI_ERR_NO_RESOURCE, s)
       | Some grp \<Rightarrow>
           case seq_ok
             (modem_call (smtc_modem_multicast_set_grp_config E grp (mc_dev_addr session) (mc_network_session_key session)
                (mc_application_session_key session)))
             (modem_call
                (if mc_device_class session = RZI_LORAWAN_CLASS_C
                 then smtc_modem_multicast_class_c_start_session E grp (mc_frequency_hz session) (of_nat (mc_data_rate session))
                 else smtc_modem_multicast_class_b_start_session E grp (mc_frequency_hz session) (of_nat (mc_data_rate session))
                        (min (mc_periodicity session) 7))) s of (rc, t) \<Rightarrow>
           (rc, if rc = 0
                then t\<lparr>multicast := (multicast t)[grp := remembered_session grp session], multicast_used := (multicast_used t)[grp := True]\<rparr>
                else t))"

definition usp_multicast_remove :: "('m, 's, 'e) usp_lw_env_scheme \<Rightarrow> u32 \<Rightarrow> ('m, 'z) usp_lw_scheme op" where
  "usp_multicast_remove E addr =
     entered (\<lambda>s. case find (\<lambda>i. multicast_used s ! i \<and> mc_dev_addr (multicast s ! i) = addr) [0..<MULTICAST_GROUPS] of
         None \<Rightarrow> (- RZI_ERR_NOT_FOUND, s)
       | Some i \<Rightarrow>
           case modem_call
             (if mc_device_class (multicast s ! i) = RZI_LORAWAN_CLASS_C then smtc_modem_multicast_class_c_stop_session E i
              else smtc_modem_multicast_class_b_stop_session E i) s of (rc, t) \<Rightarrow>
           (rc, if rc = 0 then t\<lparr>multicast_used := (multicast_used t)[i := False]\<rparr> else t))"

definition usp_multicast_count :: "(nat, ('m, 'z) usp_lw_scheme) bget" where
  "usp_multicast_count = entered_get (\<lambda>cell s. (0, length (filter (\<lambda>i. multicast_used s ! i) [0..<MULTICAST_GROUPS])))"

text \<open>The session of the \<open>index\<close>-th used group.\<close>

definition usp_multicast_get :: "nat \<Rightarrow> (rzi_lorawan_multicast_session, ('m, 'z) usp_lw_scheme) bget" where
  "usp_multicast_get index =
     entered_get (\<lambda>cell s. let used = filter (\<lambda>i. multicast_used s ! i) [0..<MULTICAST_GROUPS] in
       if index < length used then (0, multicast s ! (used ! index)) else (- RZI_ERR_INVALID, cell))"

definition usp_multicast_clear :: "('m, 's, 'e) usp_lw_env_scheme \<Rightarrow> ('m, 'z) usp_lw_scheme op" where
  "usp_multicast_clear E =
     entered (\<lambda>s. case seq_ok (modem_call (smtc_modem_multicast_class_c_stop_all_sessions E))
         (modem_call (smtc_modem_multicast_class_b_stop_all_sessions E)) s of (rc, t) \<Rightarrow>
       (rc, if rc = 0 then t\<lparr>multicast_used := replicate MULTICAST_GROUPS False\<rparr> else t))"

section \<open>Firmware updates\<close>

text \<open>The answers to the firmware management package, and the operations of the update service.\<close>

definition usp_fuota_hw_version :: "('m, 's, 'e) usp_lw_env_scheme \<Rightarrow> u32" where
  "usp_fuota_hw_version E = fuota_hw_version E"

definition usp_fuota_fw_version :: "('m, 's, 'e) usp_lw_env_scheme \<Rightarrow> u32" where
  "usp_fuota_fw_version E =
     (case rzi_version E of (major, minor, patch) \<Rightarrow> push_bit 16 major OR push_bit 8 minor OR patch)"

definition usp_fuota_fw_status :: "('m, 'z) usp_lw_scheme \<Rightarrow> u8" where
  "usp_fuota_fw_status s = (if fuota_image_ready s then 3 else 0)"

definition usp_fuota_next_fw_version :: "('m, 's, 'e) usp_lw_env_scheme \<Rightarrow> u32" where
  "usp_fuota_next_fw_version E = usp_fuota_fw_version E + 1"

definition usp_fuota_delete_status :: "u32 \<Rightarrow> u8" where
  "usp_fuota_delete_status version = 0"

definition usp_fuota_start_clock_sync :: "('m, 's, 'e) usp_lw_env_scheme \<Rightarrow> ('m, 'z) usp_lw_scheme op" where
  "usp_fuota_start_clock_sync E =
     entered (seq_ok (modem_call (smtc_modem_start_alcsync_service E))
       (\<lambda>s. (0, snd (modem_call (smtc_modem_trig_lorawan_mac_request E SMTC_MODEM_LORAWAN_MAC_REQ_DEVICE_TIME) s))))"

definition usp_fuota_get_image_size :: "('m, 's, 'e) usp_lw_env_scheme \<Rightarrow> (nat, ('m, 'z) usp_lw_scheme) bget" where
  "usp_fuota_get_image_size E cell s =
     (if lbm_fuota_v2 E
      then let file_size = lorawan_fragmentation_package_get_file_size E (modem s) in
        if file_size = 0 then (- RZI_ERR_NO_DATA, cell, [], s) else (0, unat file_size, [], s)
      else (- RZI_ERR_NO_DATA, cell, [], s))"

definition usp_fuota_read_image :: "('m, 's, 'e) usp_lw_env_scheme \<Rightarrow> u32 \<Rightarrow> nat \<Rightarrow> (bytes, ('m, 'z) usp_lw_scheme) bget" where
  "usp_fuota_read_image E offset n cell s =
     (0, overlay (take n (smtc_modem_hal_context_restore E offset (of_nat n) (modem s))) cell, [], s)"

definition usp_fuota_reboot :: "('m, 's, 'e) usp_lw_env_scheme \<Rightarrow> ('m, 'z) usp_lw_scheme op" where
  "usp_fuota_reboot E s = (0, s\<lparr>modem := smtc_modem_hal_reset_mcu E (modem s)\<rparr>)"

section \<open>The table\<close>

text \<open>A table entry reports the events of the call.\<close>

definition reporting :: "('m, 'z) usp_lw_scheme op \<Rightarrow> ('m, 'z) usp_lw_scheme bop" where
  "reporting f s = (case f s of (rc, t) \<Rightarrow> (rc, drop (length (lw_published s)) (lw_published t), t))"

definition usp_network_ops :: "('m, 's, 'e) usp_lw_env_scheme \<Rightarrow> ('m, 'z) usp_lw_scheme rzi_lorawan_network_ops" where
  "usp_network_ops E =
     \<lparr>bk_get_adr = Some (usp_get_adr E), bk_set_adr = Some (\<lambda>b. reporting (usp_set_adr E b)), bk_get_data_rate = Some (usp_get_data_rate E),
      bk_set_data_rate = Some (\<lambda>d. reporting (usp_set_data_rate E d)), bk_get_enabled_data_rates = Some (usp_get_enabled_data_rates E),
      bk_get_adr_profile = Some (usp_get_adr_profile E), bk_set_adr_profile = Some (\<lambda>p d. reporting (usp_set_adr_profile E p d)),
      bk_get_nb_trans = Some (usp_get_nb_trans E), bk_set_nb_trans = Some (\<lambda>n. reporting (usp_set_nb_trans E n)),
      bk_get_adr_ack = Some (usp_get_adr_ack E), bk_set_adr_ack = Some (\<lambda>l d. reporting (usp_set_adr_ack E l d)),
      bk_set_join_data_rates = Some (\<lambda>d. reporting (usp_set_join_data_rates E d)),
      bk_get_duty_cycle_status = Some (usp_get_duty_cycle_status E), bk_get_join_backoff = Some (usp_get_join_backoff E),
      bk_get_public_network = Some (usp_get_public_network E), bk_set_public_network = Some (\<lambda>b. reporting (usp_set_public_network E b)),
      bk_get_lbt = Some (usp_get_lbt E), bk_set_lbt = Some (\<lambda>b. reporting (usp_set_lbt E b)),
      bk_get_lbt_rssi = Some (usp_get_lbt_rssi E), bk_set_lbt_rssi = Some (\<lambda>r. reporting (usp_set_lbt_rssi E r)),
      bk_get_lbt_scan_time = Some (usp_get_lbt_scan_time E), bk_set_lbt_scan_time = Some (\<lambda>t. reporting (usp_set_lbt_scan_time E t)),
      bk_get_csma = (if lbm_csma E then Some (usp_get_csma E) else None),
      bk_set_csma = (if lbm_csma E then Some (\<lambda>b. reporting (usp_set_csma E b)) else None),
      bk_get_csma_params = (if lbm_csma E then Some (usp_get_csma_params E) else None),
      bk_set_csma_params = (if lbm_csma E then Some (\<lambda>p. reporting (usp_set_csma_params E p)) else None),
      bk_get_lost_connection_count = Some (usp_get_lost_connection_count E),
      bk_get_no_downlink_threshold = Some (usp_get_no_downlink_threshold E),
      bk_set_no_downlink_threshold = Some (\<lambda>n. reporting (usp_set_no_downlink_threshold E n)),
      bk_get_crystal_error = Some (usp_get_crystal_error E), bk_set_crystal_error = Some (\<lambda>p. reporting (usp_set_crystal_error E p)),
      bk_send_empty = Some (\<lambda>w p t. reporting (usp_send_empty E w p t)),
      bk_query_tx_possible = Some (\<lambda>n. reporting (usp_query_tx_possible E n))\<rparr>"

definition usp_session_ops :: "('m, 's, 'e) usp_lw_env_scheme \<Rightarrow> ('m, 'z) usp_lw_scheme rzi_lorawan_session_ops" where
  "usp_session_ops E =
     \<lparr>bk_get_net_id = None, bk_get_dev_nonce = None, bk_set_dev_nonce = None, bk_get_dev_addr = Some (usp_get_dev_addr E),
      bk_get_nwk_skey = Some (usp_get_nwk_skey E), bk_get_app_skey = Some (usp_get_app_skey E)\<rparr>"

definition usp_class_b_ops :: "('m, 's, 'e) usp_lw_env_scheme \<Rightarrow> ('m, 'z) usp_lw_scheme rzi_lorawan_class_b_ops" where
  "usp_class_b_ops E =
     \<lparr>bk_get_ping_slot_periodicity = Some (usp_get_ping_slot E), bk_set_ping_slot_periodicity = Some (\<lambda>p. reporting (usp_set_ping_slot E p)),
      bk_get_beacon_frequency = None, bk_get_beacon_time = None, bk_get_beacon_data_rate = None, bk_get_beacon_gateway = None,
      bk_get_state = Some usp_get_class_b_state, bk_stop = Some (reporting (usp_stop_class_b E))\<rparr>"

definition usp_mac_ops :: "('m, 's, 'e) usp_lw_env_scheme \<Rightarrow> ('m, 'z) usp_lw_scheme rzi_lorawan_mac_ops" where
  "usp_mac_ops E =
     \<lparr>bk_request_link_check = Some (reporting (usp_link_check_request E)), bk_request_device_time = Some (reporting (usp_device_time_request E)),
      bk_get_network_time = Some (usp_get_network_time E)\<rparr>"

definition usp_multicast_ops :: "('m, 's, 'e) usp_lw_env_scheme \<Rightarrow> ('m, 'z) usp_lw_scheme rzi_lorawan_multicast_ops" where
  "usp_multicast_ops E =
     \<lparr>bk_mc_add = Some (\<lambda>session. reporting (usp_multicast_add E session)), bk_mc_remove = Some (\<lambda>addr. reporting (usp_multicast_remove E addr)),
      bk_mc_get_count = Some usp_multicast_count, bk_mc_get = Some usp_multicast_get,
      bk_mc_clear = Some (reporting (usp_multicast_clear E))\<rparr>"

definition usp_cert_ops :: "('m, 's, 'e) usp_lw_env_scheme \<Rightarrow> ('m, 'z) usp_lw_scheme rzi_lorawan_certification_ops" where
  "usp_cert_ops E =
     \<lparr>bk_get_mode = Some (usp_get_cert_mode E), bk_set_mode = Some (\<lambda>b. reporting (usp_set_cert_mode E b)),
      bk_get_port_enabled = Some usp_get_cert_port, bk_set_port_enabled = Some (\<lambda>b. reporting (usp_set_cert_port b))\<rparr>"

definition usp_fuota_ops :: "('m, 's, 'e) usp_lw_env_scheme \<Rightarrow> ('m, 'z) usp_lw_scheme rzi_lorawan_fuota_ops" where
  "usp_fuota_ops E =
     \<lparr>bk_start_clock_sync = Some (reporting (usp_fuota_start_clock_sync E)), bk_get_image_size = Some (usp_fuota_get_image_size E),
      bk_read_image = Some (usp_fuota_read_image E), bk_reboot = Some (reporting (usp_fuota_reboot E))\<rparr>"

definition usp_lorawan_backend ::
  "('m, ('m, 'z) usp_lw_scheme, 'e) usp_lw_env_scheme \<Rightarrow> ('m, 'z) usp_lw_scheme rzi_lorawan_backend_api" where
  "usp_lorawan_backend E =
     \<lparr>bk_capabilities = USP_CAPABILITIES E,
      bk_base = \<lparr>bk_start = (\<lambda>region bypass. reporting (lw_usp_start E region bypass True)), bk_join = (\<lambda>c. reporting (usp_join E c)),
        bk_leave = reporting (usp_leave E), bk_send = (\<lambda>port data n type. reporting (lw_usp_send E port data n type)),
        bk_set_class = (\<lambda>c. reporting (usp_set_class E c)), bk_get_class = Some (usp_get_class E), bk_is_joined = usp_is_joined E,
        bk_is_busy = usp_is_busy\<rparr>,
      bk_network = Some (usp_network_ops E), bk_class_b = (if lbm_class_b E then Some (usp_class_b_ops E) else None),
      bk_session = Some (usp_session_ops E), bk_mac = Some (usp_mac_ops E),
      bk_multicast = (if lbm_multicast E then Some (usp_multicast_ops E) else None), bk_certification = Some (usp_cert_ops E),
      bk_fuota = (if lbm_fuota E then Some (usp_fuota_ops E) else None)\<rparr>"

end
