(* ===== verification/Rzi_Lw_Usp_Runs.thy ===== *)
theory Rzi_Lw_Usp_Runs
  imports Rzi_Lw_Usp
begin

text \<open>
  Runs of the LoRaWAN backend over Semtech's stack: calls of its table, activity of the modem and deliveries of its events in any
  order. What a step publishes and keeps is described once (\<open>lw_effect\<close>) and composed along the handlers; the uplink contract is an
  interpretation of \<open>uplink_accounting\<close>, in which a reset of the modem loses the uplink that was pending.
\<close>

section \<open>Operations that only reach the modem\<close>

definition modem_only :: "('m, 'z) usp_lw_scheme op \<Rightarrow> bool" where
  "modem_only f \<longleftrightarrow> (\<forall>s. \<exists>m. snd (f s) = s\<lparr>modem := m\<rparr>)"

named_theorems modem_only_intros \<open>operations that only reach the modem\<close>

lemma modem_onlyI: "(\<And>s. \<exists>m. snd (f s) = s\<lparr>modem := m\<rparr>) \<Longrightarrow> modem_only f"
  by (simp add: modem_only_def)

lemma modem_onlyD:
  assumes "modem_only f" and "f s = (rc, t)"
  obtains m where "t = s\<lparr>modem := m\<rparr>"
  using assms unfolding modem_only_def by (metis snd_conv)

lemma modem_only_ex: "modem_only f \<Longrightarrow> \<exists>m. snd (f s) = s\<lparr>modem := m\<rparr>"
  by (simp add: modem_only_def)

lemma modem_self: "\<exists>m. s = s\<lparr>modem := m\<rparr>"
  by (rule exI [of _ "modem s"]) simp

lemma modem_call_cases:
  obtains rc m where "modem_call f s = (rc, s\<lparr>modem := m\<rparr>)"
  by (cases "f (modem s)") (simp add: modem_call_def)

lemma modem_only_call [modem_only_intros]: "modem_only (modem_call f)"
  by (rule modem_onlyI) (auto simp: modem_call_def split: prod.splits)

lemma modem_only_call_dep [modem_only_intros]: "modem_only (\<lambda>s. modem_call (f s) s)"
  by (rule modem_onlyI) (auto simp: modem_call_def split: prod.splits)

lemma modem_only_same [modem_only_intros]: "modem_only (\<lambda>s. (rc s, s))"
  by (simp add: modem_only_def modem_self)

lemma modem_only_set [modem_only_intros]: "modem_only (\<lambda>s. (rc s, s\<lparr>modem := g s\<rparr>))"
  by (rule modem_onlyI) auto

lemma modem_only_if [modem_only_intros]: "modem_only f \<Longrightarrow> modem_only g \<Longrightarrow> modem_only (\<lambda>s. if b s then f s else g s)"
  by (simp add: modem_only_def)

lemma modem_only_seq [modem_only_intros]:
  assumes f: "modem_only f" and g: "modem_only g"
  shows "modem_only (seq_ok f g)"
proof (rule modem_onlyI)
  fix s
  obtain rc t where t: "f s = (rc, t)" by fastforce
  then obtain m where m: "t = s\<lparr>modem := m\<rparr>" by (rule modem_onlyD [OF f])
  obtain rc' u where u: "g t = (rc', u)" by fastforce
  then obtain m' where "u = t\<lparr>modem := m'\<rparr>" by (rule modem_onlyD [OF g])
  with t u m show "\<exists>m. snd (seq_ok f g s) = s\<lparr>modem := m\<rparr>" by (auto simp: seq_ok_def)
qed

lemma modem_only_entered [modem_only_intros]:
  assumes "modem_only f"
  shows "modem_only (entered f)"
  using modem_only_if [OF modem_only_same [of rzi_lorawan_usp_enter] assms, of "\<lambda>s. rzi_lorawan_usp_enter s \<noteq> 0"]
  by (simp add: entered_def [abs_def] Let_def)

lemma modem_only_credentials [modem_only_intros]: "modem_only (configure_credentials E)"
proof (rule modem_onlyI)
  fix s
  show "\<exists>m. snd (configure_credentials E s) = s\<lparr>modem := m\<rparr>"
  proof (cases "jc_keys (lw_join_settings s)")
    case (Join_otaa k)
    show ?thesis unfolding configure_credentials_def Join_otaa join_keys.case by (rule modem_only_ex) (intro modem_only_intros)
  next
    case (Join_abp k)
    then show ?thesis by (simp add: configure_credentials_def modem_self)
  qed
qed

lemma modem_only_channel_mask [modem_only_intros]: "modem_only (configure_channel_mask E)"
  unfolding configure_channel_mask_def [abs_def] split_beta by (intro modem_only_intros)

lemma modem_only_joined [modem_only_intros]: "modem_only (rzi_lorawan_usp_require_joined E)"
  unfolding rzi_lorawan_usp_require_joined_def [abs_def] by (simp add: modem_only_def modem_self split: prod.splits)

lemma modem_only_service [modem_only_intros]: "modem_only (configure_service E)"
proof -
  have "modem_only (check_region_built E)"
    unfolding check_region_built_def [abs_def] by (simp add: modem_only_def modem_self split: prod.splits)
  then show ?thesis unfolding configure_service_def by (intro modem_only_intros)
qed

lemma modem_only_profile [modem_only_intros]: "modem_only (set_profile E profile distribution)"
  unfolding set_profile_def by (intro modem_only_intros)

text \<open>The table entries that only set something in the modem, or ask it for something.\<close>

inductive usp_setter :: "('m, 's, 'e) usp_lw_env_scheme \<Rightarrow> ('m, 'z) usp_lw_scheme op \<Rightarrow> bool" for E where
  "usp_setter E (usp_set_adr E b)"
| "usp_setter E (usp_set_data_rate E dr)"
| "usp_setter E (usp_set_adr_profile E p d)"
| "usp_setter E (usp_set_nb_trans E n)"
| "usp_setter E (usp_set_adr_ack E l d)"
| "usp_setter E (usp_set_join_data_rates E dist)"
| "usp_setter E (usp_set_public_network E b)"
| "usp_setter E (usp_set_lbt E b)"
| "usp_setter E (usp_set_lbt_rssi E r)"
| "usp_setter E (usp_set_lbt_scan_time E u)"
| "usp_setter E (usp_set_csma E b)"
| "usp_setter E (usp_set_csma_params E c)"
| "usp_setter E (usp_set_no_downlink_threshold E w)"
| "usp_setter E (usp_set_crystal_error E u)"
| "usp_setter E (usp_query_tx_possible E k)"
| "usp_setter E (usp_set_ping_slot E n)"
| "usp_setter E (usp_set_cert_mode E b)"
| "usp_setter E (usp_link_check_request E)"
| "usp_setter E (usp_device_time_request E)"
| "usp_setter E (usp_fuota_start_clock_sync E)"
| "usp_setter E (usp_fuota_reboot E)"

lemma setter_modem_only: "usp_setter E f \<Longrightarrow> modem_only f"
proof (induction rule: usp_setter.induct)
  case (1 b)
  have "modem_only (\<lambda>s. set_profile E p (d s) s)" for p d
    using modem_only_profile [of E p] unfolding modem_only_def by blast
  then show ?case unfolding usp_set_adr_def pin_data_rate_def by (intro modem_only_intros)
next
  case (20)
  have "modem_only (\<lambda>s. (0, snd (modem_call f s)))" for f by (rule modem_onlyI) (auto simp: modem_call_def split: prod.splits)
  then show ?case unfolding usp_fuota_start_clock_sync_def by (intro modem_only_intros)
qed (unfold usp_set_data_rate_def pin_data_rate_def usp_set_adr_profile_def usp_set_nb_trans_def usp_set_adr_ack_def usp_set_join_data_rates_def
    usp_set_public_network_def usp_set_lbt_def usp_set_lbt_rssi_def usp_set_lbt_scan_time_def usp_set_csma_def usp_set_csma_params_def
    usp_set_no_downlink_threshold_def usp_set_crystal_error_def usp_query_tx_possible_def usp_set_ping_slot_def usp_set_cert_mode_def
    usp_link_check_request_def usp_device_time_request_def usp_fuota_reboot_def [abs_def] split_beta,
    (intro modem_only_intros)+)

section \<open>What a step publishes and keeps\<close>

text \<open>The class B state that a listener derives from the events, and that every such event is a change.\<close>

fun class_b_of :: "nat \<Rightarrow> backend_event list \<Rightarrow> nat" where
  "class_b_of c [] = c"
| "class_b_of c (BACKEND_CLASS_B n # evs) = class_b_of n evs"
| "class_b_of c (_ # evs) = class_b_of c evs"

fun class_b_changes :: "nat \<Rightarrow> backend_event list \<Rightarrow> bool" where
  "class_b_changes c [] \<longleftrightarrow> True"
| "class_b_changes c (BACKEND_CLASS_B n # evs) \<longleftrightarrow> n \<noteq> c \<and> class_b_changes n evs"
| "class_b_changes c (_ # evs) \<longleftrightarrow> class_b_changes c evs"

lemma class_b_append [simp]:
  "class_b_of c (xs @ ys) = class_b_of (class_b_of c xs) ys"
  "class_b_changes c (xs @ ys) \<longleftrightarrow> class_b_changes c xs \<and> class_b_changes (class_b_of c xs) ys"
  by (induction c xs rule: class_b_of.induct) auto

text \<open>An event about neither an uplink nor class B.\<close>

definition plain_event :: "backend_event \<Rightarrow> bool" where
  "plain_event ev \<longleftrightarrow> (case ev of BACKEND_TX_DONE _ _ \<Rightarrow> False | BACKEND_CLASS_B _ \<Rightarrow> False | _ \<Rightarrow> True)"

lemma plain_events:
  assumes "list_all plain_event evs"
  shows "class_b_of c evs = c" and "class_b_changes c evs" and "filter is_tx_done evs = []"
  using assms by (induction evs) (auto simp: plain_event_def is_tx_done_def split: backend_event.splits)

text \<open>\<open>lw_effect s evs t\<close>: the step published \<open>evs\<close>, and kept the listener's view of class B and the static part of the state.\<close>

definition lw_static where
  "lw_static s = (handler s, lw_event_sink s, multicast s, multicast_used s, reset_seen s)"

definition lw_effect :: "('m, 'z) usp_lw_scheme \<Rightarrow> backend_event list \<Rightarrow> ('m, 'z) usp_lw_scheme \<Rightarrow> bool" where
  "lw_effect s evs t \<longleftrightarrow> lw_static t = lw_static s \<and> lw_published t = lw_published s @ evs
     \<and> lw_class_b_state t = class_b_of (lw_class_b_state s) evs \<and> class_b_changes (lw_class_b_state s) evs"

lemma effect_trans: "lw_effect s evs t \<Longrightarrow> lw_effect t evs' u \<Longrightarrow> lw_effect s (evs @ evs') u"
  by (simp add: lw_effect_def)

lemma effect_same:
  assumes "lw_static t = lw_static s" and "lw_published t = lw_published s" and "lw_class_b_state t = lw_class_b_state s"
  shows "lw_effect s [] t"
  using assms by (simp add: lw_effect_def)

lemma effect_plain:
  assumes "lw_static t = lw_static s" and "lw_published t = lw_published s @ evs" and "lw_class_b_state t = lw_class_b_state s"
    and "list_all plain_event evs"
  shows "lw_effect s evs t"
  using assms plain_events [OF assms(4)] by (simp add: lw_effect_def)

lemma publish_sink: "lw_event_sink s \<Longrightarrow> rzi_lorawan_usp_publish ev s = s\<lparr>lw_published := lw_published s @ [ev]\<rparr>"
  by (simp add: rzi_lorawan_usp_publish_def)

lemmas publish_sinks = publish_sink publish_error_def rzi_lorawan_usp_publish_class_b_def

text \<open>The loop over downlinks, when it returns.\<close>

lemma downlink_loop_effect:
  assumes "downlink_loop E buf s = Some t" and "lw_event_sink s"
  shows "\<exists>m evs. list_all plain_event evs \<and> t = s\<lparr>modem := m, lw_published := lw_published s @ evs\<rparr>"
proof -
  have "lw_event_sink s \<longrightarrow> (\<exists>m evs. list_all plain_event evs \<and> t = s\<lparr>modem := m, lw_published := lw_published s @ evs\<rparr>)"
    using assms(1)
  proof (induction rule: downlink_loop.raw_induct [rotated, consumes 1, case_names round])
    case (round loop E buf s t)
    show ?case
    proof
      assume sink: "lw_event_sink s"
      obtain rc payload meta remaining m where g: "smtc_modem_get_downlink_data E (modem s) = (rc, payload, meta, remaining, m)"
        by (metis prod_cases5)
      let ?d = "usp_downlink buf payload meta"
      let ?u = "s\<lparr>modem := m, lw_published := lw_published s @ [BACKEND_DOWNLINK ?d]\<rparr>"
      show "\<exists>m evs. list_all plain_event evs \<and> t = s\<lparr>modem := m, lw_published := lw_published s @ evs\<rparr>"
      proof (cases "rc = SMTC_MODEM_RC_OK \<and> remaining > 0")
        case True
        then have "loop E (dl_data ?d) ?u = Some t" using round(2) g sink by (simp add: Let_def publish_sinks)
        from round(1) [OF this] sink obtain m' evs where "list_all plain_event evs" "t = ?u\<lparr>modem := m', lw_published := lw_published ?u @ evs\<rparr>"
          by auto
        then show ?thesis by (intro exI [of _ m'] exI [of _ "BACKEND_DOWNLINK ?d # evs"]) (simp add: plain_event_def)
      next
        case False
        then have "t = s\<lparr>modem := m, lw_published := lw_published s
            @ [if rc = SMTC_MODEM_RC_OK then BACKEND_DOWNLINK ?d else BACKEND_ERROR (rzi_usp_result rc)]\<rparr>"
          using round(2) g sink by (auto simp: Let_def publish_sinks split: if_splits)
        then show ?thesis
          by (intro exI [of _ m] exI [of _ "[if rc = SMTC_MODEM_RC_OK then BACKEND_DOWNLINK ?d else BACKEND_ERROR (rzi_usp_result rc)]"])
            (simp add: plain_event_def)
      qed
    qed
  qed
  with assms(2) show ?thesis by simp
qed

section \<open>The event handler\<close>

definition completes :: "smtc_modem_event option \<Rightarrow> bool" where
  "completes source \<longleftrightarrow> (case source of Some ev \<Rightarrow> (case event_type ev of SMTC_MODEM_EVENT_TXDONE _ \<Rightarrow> True | _ \<Rightarrow> False) | None \<Rightarrow> False)"

definition resets :: "smtc_modem_event option \<Rightarrow> bool" where
  "resets source \<longleftrightarrow> (case source of Some ev \<Rightarrow> event_type ev = SMTC_MODEM_EVENT_RESET | None \<Rightarrow> False)"

text \<open>The handler published \<open>n\<close> completions, and an uplink is pending after it iff \<open>p\<close>.\<close>

definition lw_handled :: "nat \<Rightarrow> bool \<Rightarrow> ('m, 'z) usp_lw_scheme \<Rightarrow> ('m, 'z) usp_lw_scheme \<Rightarrow> bool" where
  "lw_handled n p s t \<longleftrightarrow> (\<exists>evs. lw_effect s evs t \<and> length (filter is_tx_done evs) = n) \<and> (lw_tx_pending t \<longleftrightarrow> p)"

lemma handled_plain:
  assumes "lw_static t = lw_static s" and "lw_published t = lw_published s @ evs" and "lw_class_b_state t = lw_class_b_state s"
    and "list_all plain_event evs" and "lw_tx_pending t \<longleftrightarrow> p"
  shows "lw_handled 0 p s t"
  using effect_plain [OF assms(1-4)] plain_events(3) [OF assms(4)] assms(5) by (auto simp: lw_handled_def)

lemma handled_trans:
  assumes "lw_handled m q s t" and "lw_handled n p t u"
  shows "lw_handled (m + n) p s u"
proof -
  obtain evs evs' where "lw_effect s evs t" "lw_effect t evs' u" "length (filter is_tx_done evs) = m" "length (filter is_tx_done evs') = n"
    using assms unfolding lw_handled_def by blast
  with effect_trans [of s evs t evs' u] assms(2) show ?thesis
    unfolding lw_handled_def by (intro conjI exI [of _ "evs @ evs'"]) simp_all
qed

lemma handled_publish: "lw_event_sink s \<Longrightarrow> plain_event ev \<Longrightarrow> lw_handled 0 (lw_tx_pending s) s (rzi_lorawan_usp_publish ev s)"
  by (rule handled_plain [where evs = "[ev]"]) (simp_all add: publish_sink lw_static_def)

lemma handled_sink: "lw_handled n p s t \<Longrightarrow> lw_event_sink t = lw_event_sink s"
  by (auto simp: lw_handled_def lw_effect_def lw_static_def)

lemma handled_same: "lw_handled 0 p s s \<longleftrightarrow> (lw_tx_pending s \<longleftrightarrow> p)"
  using handled_plain [of s s "[]" p] by (auto simp: lw_handled_def)

lemma handled_self: "lw_handled 0 (lw_tx_pending s) s s"
  by (simp add: handled_same)

lemma handled_reset:
  fixes s :: "('m, 'z) usp_lw_scheme"
  assumes "lw_event_sink s"
  shows "lw_handled 0 False s (handle_reset E s)"
proof -
  define u where "u = s\<lparr>lw_ready := False, lw_tx_pending := False, fuota_image_ready := (if lbm_fuota E then False else fuota_image_ready s)\<rparr>"
  define c :: "('m, 'z) usp_lw_scheme op" where "c = (\<lambda>t. if credentials_valid t then configure_credentials E t else (0, t))"
  have "modem_only c" unfolding c_def by (intro modem_only_intros)
  then have m: "modem_only (seq_ok (configure_service E) c)" by (intro modem_only_intros)
  obtain rc t where t: "seq_ok (configure_service E) c u = (rc, t)" by fastforce
  obtain m where m: "t = u\<lparr>modem := m\<rparr>" using modem_onlyD [OF m t] .
  have "(case configure_service E u of (rc, t) \<Rightarrow> if rc = 0 \<and> credentials_valid t then configure_credentials E t else (rc, t)) = (rc, t)"
    using t by (auto simp: seq_ok_def c_def split: prod.splits if_splits)
  then have r: "handle_reset E s = (if rc \<noteq> 0 then publish_error rc t else rzi_lorawan_usp_publish BACKEND_READY (t\<lparr>lw_ready := True\<rparr>))"
    unfolding handle_reset_def u_def [symmetric] Let_def by simp
  show ?thesis
    by (rule handled_plain [where evs = "[if rc \<noteq> 0 then BACKEND_ERROR rc else BACKEND_READY]"])
      (use assms in \<open>simp_all add: r m u_def publish_sinks lw_static_def plain_event_def\<close>)
qed

lemma handled_txdone:
  assumes "lw_event_sink s"
  shows "lw_handled 1 False s (handle_txdone status s)"
proof -
  obtain a b where "(case status of SMTC_TXDONE_CONFIRMED \<Rightarrow> BACKEND_TX_DONE TXDONE_CONFIRMED 0 | SMTC_TXDONE_SENT \<Rightarrow> BACKEND_TX_DONE TXDONE_SENT 0
      | SMTC_TXDONE_OTHER \<Rightarrow> BACKEND_TX_DONE TXDONE_NOT_SENT (- RZI_ERR_IO)) = BACKEND_TX_DONE a b" by (cases status) auto
  with assms have "lw_effect s [BACKEND_TX_DONE a b] (handle_txdone status s) \<and> \<not> lw_tx_pending (handle_txdone status s)"
    by (simp add: handle_txdone_def lw_effect_def publish_sink lw_static_def)
  then show ?thesis unfolding lw_handled_def by (intro conjI exI [of _ "[BACKEND_TX_DONE a b]"]) (simp_all add: is_tx_done_def)
qed

lemma handled_downlinks:
  assumes "lw_event_sink s"
  shows "lw_handled 0 (lw_tx_pending s) s (publish_downlinks E s)"
proof (cases "downlink_loop E (replicate RZI_LORAWAN_MAX_PAYLOAD 0) s")
  case None
  then show ?thesis by (intro handled_plain [where evs = "[]"]) (simp_all add: publish_downlinks_def lw_static_def)
next
  case (Some t)
  obtain m evs where "list_all plain_event evs" "t = s\<lparr>modem := m, lw_published := lw_published s @ evs\<rparr>"
    using downlink_loop_effect [OF Some assms] by blast
  with Some show ?thesis by (intro handled_plain [where evs = evs]) (simp_all add: publish_downlinks_def lw_static_def)
qed

lemma set_class_b_effect:
  assumes "lw_event_sink s" and "rzi_lorawan_usp_set_class_b_state state s = (changed, t)"
  shows "\<exists>evs. lw_effect s evs (if changed then rzi_lorawan_usp_publish_class_b state t else t) \<and> filter is_tx_done evs = []"
  using assms
  by (intro exI [of _ "if changed then [BACKEND_CLASS_B state] else []"])
    (auto simp: rzi_lorawan_usp_set_class_b_state_def rzi_lorawan_usp_publish_class_b_def lw_effect_def lw_static_def is_tx_done_def
      split: if_splits)

lemma handled_class_b:
  assumes "lw_event_sink s"
  shows "lw_handled 0 (lw_tx_pending s) s (handle_class_b_status status s)"
proof -
  have "lw_handled 0 (lw_tx_pending s) s
      (case rzi_lorawan_usp_set_class_b_state state s of (changed, t) \<Rightarrow> if changed then rzi_lorawan_usp_publish_class_b state t else t)" for state
  proof -
    obtain changed t where t: "rzi_lorawan_usp_set_class_b_state state s = (changed, t)" by fastforce
    have "lw_tx_pending (if changed then rzi_lorawan_usp_publish_class_b state t else t) = lw_tx_pending s"
      using t by (auto simp: rzi_lorawan_usp_set_class_b_state_def rzi_lorawan_usp_publish_class_b_def split: if_splits)
    moreover obtain evs where "lw_effect s evs (if changed then rzi_lorawan_usp_publish_class_b state t else t)" "filter is_tx_done evs = []"
      using set_class_b_effect [OF assms t] by blast
    ultimately show ?thesis unfolding lw_handled_def t prod.case by (intro conjI exI [of _ evs]) simp_all
  qed
  then show ?thesis by (simp add: handle_class_b_status_def handled_self split: smtc_class_b_status.split)
qed

lemma handled_fuota:
  assumes "lw_event_sink s"
  shows "lw_handled 0 (lw_tx_pending s) s (handle_package_event E type s)"
proof -
  have p: "lw_handled 0 (lw_tx_pending s) s (rzi_lorawan_usp_publish (BACKEND_FUOTA a b c) s)" for a b c
    using handled_publish [OF assms] by (simp add: plain_event_def)
  have d: "lw_handled 0 (lw_tx_pending s) s (handle_fuota_done E b s)" for b
  proof -
    let ?ev = "BACKEND_FUOTA FUOTA_TRANSFER_DONE b (if lbm_fuota_v2 E \<and> b then lorawan_fragmentation_package_get_file_size E (modem s) else 0)"
    show ?thesis by (rule handled_plain [where evs = "[?ev]"]) (use assms in \<open>simp_all add: handle_fuota_done_def publish_sink lw_static_def plain_event_def\<close>)
  qed
  show ?thesis by (cases type) (simp_all add: handle_package_event_def p d handled_self)
qed

lemma handled_mac_time:
  assumes "lw_event_sink s"
  shows "lw_handled 0 (lw_tx_pending s) s (handle_mac_time E status s)"
proof -
  define a where "a = BACKEND_DEVICE_TIME (if status = SMTC_MAC_REQUEST_ANSWERED then 0 else - RZI_ERR_TIMEOUT)"
  define evs where "evs = a # (if lbm_fuota E \<and> status = SMTC_MAC_REQUEST_ANSWERED then [BACKEND_FUOTA FUOTA_CLOCK_SYNCED True 0] else [])"
  have "handle_mac_time E status s = s\<lparr>lw_published := lw_published s @ evs\<rparr>"
    using assms by (simp add: handle_mac_time_def publish_sink evs_def a_def)
  then show ?thesis by (intro handled_plain [where evs = evs]) (simp_all add: lw_static_def evs_def a_def plain_event_def)
qed

lemma handled_link_check:
  assumes "lw_event_sink s"
  shows "lw_handled 0 (lw_tx_pending s) s (handle_link_check E status s)"
proof -
  have "lw_handled 0 (lw_tx_pending s) s (rzi_lorawan_usp_publish (BACKEND_LINK_CHECK r) s)" for r
    using handled_publish [OF assms] by (simp add: plain_event_def)
  then show ?thesis by (simp add: handle_link_check_def handled_self split: prod.splits)
qed

text \<open>Every event, with the report of missed events before it.\<close>

lemma handled_event:
  assumes "lw_event_sink s"
  shows "lw_handled (of_bool (completes source)) (lw_tx_pending s \<and> \<not> completes source \<and> \<not> resets source) s (handle_event E source error s)"
proof (cases source)
  case None
  have "lw_handled 0 (lw_tx_pending s) s (rzi_lorawan_usp_publish (BACKEND_ERROR error) s)"
    using handled_publish [OF assms] by (simp add: plain_event_def)
  with None show ?thesis by (simp add: handle_event_def completes_def resets_def publish_error_def)
next
  case (Some ev)
  define u where "u = (if missed_events ev > 0 then publish_error (- RZI_ERR_OVERFLOW) s else s)"
  have su: "lw_handled 0 (lw_tx_pending s) s u"
    using handled_publish [OF assms, of "BACKEND_ERROR (- RZI_ERR_OVERFLOW)"] handled_self [of s]
    by (simp add: u_def publish_error_def plain_event_def)
  then have sink: "lw_event_sink u" and pend: "lw_tx_pending u = lw_tx_pending s" using assms handled_sink [OF su] by (simp_all add: lw_handled_def)
  have p: "plain_event e \<Longrightarrow> lw_handled 0 (lw_tx_pending s) u (rzi_lorawan_usp_publish e u)" for e using handled_publish [OF sink] pend by simp
  have j: "lw_handled 0 (lw_tx_pending s) u (rzi_lorawan_usp_publish BACKEND_JOINED (u\<lparr>fuota_image_ready := b\<rparr>))" for b
    by (rule handled_plain [where evs = "[BACKEND_JOINED]"]) (use sink pend in \<open>simp_all add: publish_sink lw_static_def plain_event_def\<close>)
  have f: "lw_handled 0 (lw_tx_pending s) u (if lbm_fuota E then handle_package_event E type u else u)" for type
    using handled_fuota [OF sink, of E type] handled_self [of u] pend by simp
  note cases = handled_reset [OF sink, of E] handled_txdone [OF sink] handled_downlinks [OF sink, of E] handled_class_b [OF sink]
    handled_mac_time [OF sink, of E] handled_link_check [OF sink, of E] handled_self [of u]
  have "lw_handled (of_bool (completes source)) (lw_tx_pending s \<and> \<not> completes source \<and> \<not> resets source) u (handle_event E source error s)"
    using cases p j f pend unfolding Some handle_event_def u_def [symmetric] Let_def option.case
    by (cases "event_type ev") (simp_all add: completes_def resets_def plain_event_def)
  from handled_trans [OF su this] show ?thesis by simp
qed

section \<open>Table entries\<close>

lemma entered_cases:
  assumes "entered f s = (rc, t)"
  obtains (refused) "rc \<noteq> 0" "t = s" | (ready) "lw_ready s" "f s = (rc, t)"
  using assms by (auto simp: entered_def rzi_lorawan_usp_enter_def split: if_splits)

lemma handled_keep:
  assumes "lw_static t = lw_static s" and "lw_published t = lw_published s" and "lw_class_b_state t = lw_class_b_state s"
    and "lw_tx_pending t \<longleftrightarrow> p"
  shows "lw_handled 0 p s t"
  by (rule handled_plain [where evs = "[]"]) (use assms in simp_all)

lemma handled_modem: "modem_only f \<Longrightarrow> f s = (rc, t) \<Longrightarrow> lw_handled 0 (lw_tx_pending s) s t"
  by (erule (1) modem_onlyD) (rule handled_keep, simp_all add: lw_static_def)

lemma handled_join:
  assumes "usp_join E c s = (rc, t)"
  shows "lw_handled 0 (lw_tx_pending s) s t"
proof (cases "jc_activation c \<noteq> RZI_LORAWAN_ACTIVATION_OTAA")
  case True
  with assms show ?thesis by (simp add: usp_join_def handled_self)
next
  case False
  define u where "u = s\<lparr>lw_join_settings := c, credentials_valid := True\<rparr>"
  let ?f = "seq_ok (configure_credentials E) (seq_ok (configure_channel_mask E) (modem_call (smtc_modem_join_network E)))"
  from False assms have "entered (\<lambda>s. ?f (s\<lparr>lw_join_settings := c, credentials_valid := True\<rparr>)) s = (rc, t)" by (simp add: usp_join_def)
  then show ?thesis
  proof (cases rule: entered_cases)
    case refused
    then show ?thesis by (simp add: handled_self)
  next
    case ready
    then have f: "?f u = (rc, t)" by (simp add: u_def)
    have "modem_only ?f" by (intro modem_only_intros)
    then obtain m where "t = u\<lparr>modem := m\<rparr>" using f by (rule modem_onlyD)
    then show ?thesis by (intro handled_keep) (simp_all add: u_def lw_static_def)
  qed
qed

lemma handled_leave:
  assumes "usp_leave E s = (rc, t)"
  shows "lw_handled 0 (lw_tx_pending s) s t"
  using assms unfolding usp_leave_def
  by (cases rule: entered_cases)
    (auto simp: handled_same modem_call_def lw_static_def intro!: handled_keep split: if_splits prod.splits)

lemma handled_stop_b:
  assumes "usp_stop_class_b E s = (rc, t)" and "lw_ready s \<longrightarrow> lw_event_sink s"
  shows "lw_handled 0 (lw_tx_pending s) s t"
  using assms(1) unfolding usp_stop_class_b_def
proof (cases rule: entered_cases)
  case refused
  then show ?thesis by (simp add: handled_self)
next
  case ready
  obtain rc' m where c: "modem_call (smtc_modem_set_class E SMTC_MODEM_CLASS_A) s = (rc', s\<lparr>modem := m\<rparr>)"
    by (rule modem_call_cases)
  define v where "v = s\<lparr>modem := m\<rparr>"
  have sv: "lw_handled 0 (lw_tx_pending s) s v" by (rule handled_keep) (simp_all add: v_def lw_static_def)
  obtain changed w where w: "rzi_lorawan_usp_set_class_b_state RZI_LORAWAN_CLASS_B_IDLE v = (changed, w)" by fastforce
  have sink: "lw_event_sink v" using ready(1) assms(2) by (simp add: v_def)
  obtain evs where e: "lw_effect v evs (if changed then rzi_lorawan_usp_publish_class_b RZI_LORAWAN_CLASS_B_IDLE w else w)" "filter is_tx_done evs = []"
    using set_class_b_effect [OF sink w] by blast
  have p: "lw_tx_pending (if changed then rzi_lorawan_usp_publish_class_b RZI_LORAWAN_CLASS_B_IDLE w else w) = lw_tx_pending s"
    using w by (auto simp: v_def rzi_lorawan_usp_set_class_b_state_def rzi_lorawan_usp_publish_class_b_def split: if_splits)
  have "t = (if rc' = 0 then if changed then rzi_lorawan_usp_publish_class_b RZI_LORAWAN_CLASS_B_IDLE w else w else v)"
    using ready(2) c w by (auto simp: v_def split: if_splits)
  moreover have "lw_handled 0 (lw_tx_pending s) v (if changed then rzi_lorawan_usp_publish_class_b RZI_LORAWAN_CLASS_B_IDLE w else w)"
    unfolding lw_handled_def using e p by (intro conjI exI [of _ evs]) simp_all
  ultimately show ?thesis using sv handled_trans [OF sv] by auto
qed

lemma handled_class:
  assumes "usp_set_class E c s = (rc, t)" and "lw_ready s \<longrightarrow> lw_event_sink s"
  shows "lw_handled 0 (lw_tx_pending s) s t"
  using assms(1) unfolding usp_set_class_def
proof (cases rule: entered_cases)
  case refused
  then show ?thesis by (simp add: handled_self)
next
  case ready
  show ?thesis
  proof (cases "c \<le> 2")
    case False
    then show ?thesis using ready(2) by (simp add: handled_self)
  next
    case True
    define k where "k = (if c = 0 then SMTC_MODEM_CLASS_A else if c = 1 then SMTC_MODEM_CLASS_B else SMTC_MODEM_CLASS_C)"
    define st where "st = (if c = 1 then RZI_LORAWAN_CLASS_B_ACQUIRING_BEACON else RZI_LORAWAN_CLASS_B_IDLE)"
    obtain changed w where w: "rzi_lorawan_usp_set_class_b_state st s = (changed, w)" by fastforce
    obtain rc' m where c: "modem_call (smtc_modem_set_class E k) w = (rc', w\<lparr>modem := m\<rparr>)" by (rule modem_call_cases)
    have t: "t = (if rc' \<noteq> 0 \<and> changed then snd (rzi_lorawan_usp_set_class_b_state (lw_class_b_state s) (w\<lparr>modem := m\<rparr>))
        else if changed then rzi_lorawan_usp_publish_class_b st (w\<lparr>modem := m\<rparr>) else w\<lparr>modem := m\<rparr>)"
      using ready(2) w c True by (auto simp: k_def st_def Let_def split: if_splits)
    show ?thesis
    proof (cases "changed \<and> rc' = 0")
      case False
      then show ?thesis using t w
        by (intro handled_keep) (auto simp: rzi_lorawan_usp_set_class_b_state_def lw_static_def split: if_splits)
    next
      case True
      then have "lw_effect s [BACKEND_CLASS_B st] t \<and> lw_tx_pending t = lw_tx_pending s"
        using t w ready(1) assms(2)
        by (auto simp: rzi_lorawan_usp_set_class_b_state_def rzi_lorawan_usp_publish_class_b_def lw_effect_def lw_static_def split: if_splits)
      then show ?thesis unfolding lw_handled_def by (intro conjI exI [of _ "[BACKEND_CLASS_B st]"]) (simp_all add: is_tx_done_def)
    qed
  qed
qed

lemma uplink_requested:
  assumes "entered (request_uplink f) s = (rc, t)"
  shows "(rc = 0 \<longrightarrow> \<not> lw_tx_pending s \<and> lw_handled 0 True s t) \<and> (rc \<noteq> 0 \<longrightarrow> lw_handled 0 (lw_tx_pending s) s t)"
  using assms
proof (cases rule: entered_cases)
  case refused
  then show ?thesis by (simp add: handled_self)
next
  case ready
  show ?thesis
  proof (cases "lw_tx_pending s")
    case True
    then show ?thesis using ready(2) by (simp add: request_uplink_def handled_same)
  next
    case False
    obtain m where m: "t = (if rc = 0 then s\<lparr>modem := m, lw_tx_pending := True\<rparr> else s\<lparr>modem := m\<rparr>)"
      using ready(2) False by (auto simp: request_uplink_def modem_call_def split: prod.splits if_splits)
    have "lw_handled 0 (rc = 0) s t" by (rule handled_plain [where evs = "[]"]) (use False in \<open>simp_all add: m lw_static_def\<close>)
    then show ?thesis using False by auto
  qed
qed

section \<open>Steps\<close>

datatype usp_lw_label = U_uplink | U_lost | U_stray | U_other

text \<open>
  An event is delivered while a handler is installed. An uplink is lost when the modem resets, or the backend is started again
  after a reset, while it is pending; a completion is stray when none is.
\<close>

inductive usp_lw_step ::
  "('m, ('m, 'z) usp_lw_scheme, 'e) usp_lw_env_scheme \<Rightarrow> ('m, 'z) usp_lw_scheme \<Rightarrow> usp_lw_label \<Rightarrow> ('m, 'z) usp_lw_scheme \<Rightarrow> bool" for E where
  us_start: "lw_usp_start E region bypass sink s = (rc, t) \<Longrightarrow>
     usp_lw_step E s (if rc = 0 \<and> reset_seen s \<and> lw_tx_pending s then U_lost else U_other) t"
| us_join: "usp_join E c s = (rc, t) \<Longrightarrow> usp_lw_step E s U_other t"
| us_leave: "usp_leave E s = (rc, t) \<Longrightarrow> usp_lw_step E s U_other t"
| us_send: "lw_usp_send E port data n type s = (rc, t) \<Longrightarrow> usp_lw_step E s (if rc = 0 then U_uplink else U_other) t"
| us_send_empty: "usp_send_empty E with_port port type s = (rc, t) \<Longrightarrow> usp_lw_step E s (if rc = 0 then U_uplink else U_other) t"
| us_class: "usp_set_class E c s = (rc, t) \<Longrightarrow> usp_lw_step E s U_other t"
| us_stop_b: "usp_stop_class_b E s = (rc, t) \<Longrightarrow> usp_lw_step E s U_other t"
| us_setter: "usp_setter E f \<Longrightarrow> f s = (rc, t) \<Longrightarrow> usp_lw_step E s U_other t"
| us_cert_port: "usp_set_cert_port b s = (rc, t) \<Longrightarrow> usp_lw_step E s U_other t"
| us_mc_add: "usp_multicast_add E session s = (rc, t) \<Longrightarrow> usp_lw_step E s U_other t"
| us_mc_remove: "usp_multicast_remove E addr s = (rc, t) \<Longrightarrow> usp_lw_step E s U_other t"
| us_mc_clear: "usp_multicast_clear E s = (rc, t) \<Longrightarrow> usp_lw_step E s U_other t"
| us_modem: "usp_lw_step E s U_other (s\<lparr>modem := m\<rparr>)"
| us_unhandled: "handler s = None \<Longrightarrow> usp_lw_step E s U_other (s\<lparr>modem := m, reset_seen := True\<rparr>)"
| us_event: "handler s \<noteq> None \<Longrightarrow>
     usp_lw_step E s (if completes source \<and> \<not> lw_tx_pending s then U_stray else if resets source \<and> lw_tx_pending s then U_lost else U_other)
       (handle_event E source error (if resets source then s\<lparr>reset_seen := True\<rparr> else s))"

text \<open>The labels and the published events of a run.\<close>

inductive usp_lw_run ::
  "('m, ('m, 'z) usp_lw_scheme, 'e) usp_lw_env_scheme \<Rightarrow> ('m, 'z) usp_lw_scheme \<Rightarrow> usp_lw_label list \<Rightarrow> backend_event list
   \<Rightarrow> ('m, 'z) usp_lw_scheme \<Rightarrow> bool" for E where
  ur_done: "usp_lw_run E s [] [] s"
| ur_step: "usp_lw_run E s ls evs t \<Longrightarrow> usp_lw_step E t l u \<Longrightarrow> lw_published u = lw_published t @ es
   \<Longrightarrow> usp_lw_run E s (ls @ [l]) (evs @ es) u"

text \<open>The static initialisers.\<close>

definition usp_lw_initial :: "rzi_lorawan_join_config \<Rightarrow> smtc_modem_region \<Rightarrow> rzi_lorawan_multicast_session \<Rightarrow> 'm \<Rightarrow> 'm usp_lw" where
  "usp_lw_initial c r g m =
     \<lparr>usp_platform.initialized = False, reset_seen = False, handler = None, modem = m, lw_ready = False, lw_tx_pending = False, credentials_valid = False,
      lw_join_settings = c, lw_join_backoff_bypass = False, lw_region = r, lw_event_sink = False, lw_class_b_state = RZI_LORAWAN_CLASS_B_IDLE,
      fuota_image_ready = False, multicast = replicate MULTICAST_GROUPS g, multicast_used = replicate MULTICAST_GROUPS False,
      cert_port_enabled = True, lw_published = [], lw_broken = False\<rparr>"

section \<open>The invariant\<close>

text \<open>A remembered session knows its group and no key.\<close>

definition groups_ok :: "('m, 'z) usp_lw_scheme \<Rightarrow> bool" where
  "groups_ok s \<longleftrightarrow> length (multicast s) = MULTICAST_GROUPS \<and> length (multicast_used s) = MULTICAST_GROUPS
     \<and> (\<forall>i < MULTICAST_GROUPS. multicast_used s ! i \<longrightarrow> mc_group_id (multicast s ! i) = int i
          \<and> mc_application_session_key (multicast s ! i) = replicate 16 0 \<and> mc_network_session_key (multicast s ! i) = replicate 16 0)"

definition usp_lw_inv :: "('m, 'z) usp_lw_scheme \<Rightarrow> bool" where
  "usp_lw_inv s \<longleftrightarrow> (lw_ready s \<or> handler s \<noteq> None \<longrightarrow> lw_event_sink s) \<and> groups_ok s
     \<and> lw_class_b_state s = class_b_of RZI_LORAWAN_CLASS_B_IDLE (lw_published s) \<and> class_b_changes RZI_LORAWAN_CLASS_B_IDLE (lw_published s)"

lemma usp_lw_initial_inv: "usp_lw_inv (usp_lw_initial c r g m)"
  by (simp add: usp_lw_inv_def usp_lw_initial_def groups_ok_def)

text \<open>What the listener sees of a step, whatever the static part.\<close>

definition lw_seen :: "nat \<Rightarrow> bool \<Rightarrow> ('m, 'z) usp_lw_scheme \<Rightarrow> ('m, 'z) usp_lw_scheme \<Rightarrow> bool" where
  "lw_seen n p s t \<longleftrightarrow> (\<exists>evs. lw_published t = lw_published s @ evs \<and> lw_class_b_state t = class_b_of (lw_class_b_state s) evs
     \<and> class_b_changes (lw_class_b_state s) evs \<and> length (filter is_tx_done evs) = n) \<and> (lw_tx_pending t \<longleftrightarrow> p)"

lemma handled_seen: "lw_handled n p s t \<Longrightarrow> lw_seen n p s t"
  by (auto simp: lw_handled_def lw_effect_def lw_seen_def)

lemma seen_same:
  assumes "lw_published t = lw_published s" and "lw_class_b_state t = lw_class_b_state s" and "lw_tx_pending t \<longleftrightarrow> p"
  shows "lw_seen 0 p s t"
  unfolding lw_seen_def using assms by (intro conjI exI [of _ "[]"]) simp_all

lemma handled_groups: "lw_handled n p s t \<Longrightarrow> groups_ok t = groups_ok s"
  by (auto simp: lw_handled_def lw_effect_def lw_static_def groups_ok_def)

lemma handled_handler: "lw_handled n p s t \<Longrightarrow> handler t = handler s"
  by (auto simp: lw_handled_def lw_effect_def lw_static_def)

lemma inv_seen:
  assumes "usp_lw_inv s" and "lw_seen n p s t" and "groups_ok t" and "lw_ready t \<or> handler t \<noteq> None \<longrightarrow> lw_event_sink t"
  shows "usp_lw_inv t"
  using assms unfolding usp_lw_inv_def lw_seen_def by (elim conjE exE) (intro conjI; simp)

lemma inv_handled:
  assumes "usp_lw_inv s" and "lw_handled n p s t" and "lw_ready s \<or> lw_event_sink s \<or> lw_ready t = lw_ready s"
  shows "usp_lw_inv t"
proof (rule inv_seen [OF assms(1) handled_seen [OF assms(2)]])
  show "groups_ok t" using assms(1) handled_groups [OF assms(2)] by (simp add: usp_lw_inv_def)
  show "lw_ready t \<or> handler t \<noteq> None \<longrightarrow> lw_event_sink t"
    using assms(1,3) handled_handler [OF assms(2)] handled_sink [OF assms(2)] by (auto simp: usp_lw_inv_def)
qed

text \<open>The contract of a step: the invariant, and the balance of uplinks.\<close>

definition step_ok :: "('m, 'z) usp_lw_scheme \<Rightarrow> usp_lw_label \<Rightarrow> ('m, 'z) usp_lw_scheme \<Rightarrow> bool" where
  "step_ok s l t \<longleftrightarrow> usp_lw_inv t \<and> (\<exists>n p. lw_seen n p s t
     \<and> n + of_bool p + of_bool (l = U_lost) = of_bool (l = U_uplink) + of_bool (l = U_stray) + (of_bool (lw_tx_pending s) :: nat))"

lemma step_okI:
  assumes "usp_lw_inv t" and "lw_seen n p s t"
    and "n + of_bool p + of_bool (l = U_lost) = of_bool (l = U_uplink) + of_bool (l = U_stray) + (of_bool (lw_tx_pending s) :: nat)"
  shows "step_ok s l t"
  using assms unfolding step_ok_def by blast

lemma step_ok_seen: "usp_lw_inv t \<Longrightarrow> lw_seen 0 (lw_tx_pending s) s t \<Longrightarrow> step_ok s U_other t"
  by (rule step_okI [of t 0 "lw_tx_pending s"]) simp_all

lemma step_ok_from:
  "lw_published u = lw_published s \<Longrightarrow> lw_class_b_state u = lw_class_b_state s \<Longrightarrow> lw_tx_pending u = lw_tx_pending s
   \<Longrightarrow> step_ok u l t \<longleftrightarrow> step_ok s l t"
  by (simp add: step_ok_def lw_seen_def)

lemma step_ok_other:
  assumes "usp_lw_inv s" and "lw_handled 0 (lw_tx_pending s) s t" and "lw_ready s \<or> lw_ready t = lw_ready s"
  shows "step_ok s U_other t"
  by (rule step_okI [OF inv_handled [OF assms(1,2)] handled_seen [OF assms(2)]]) (use assms(3) in auto)

lemma entered_ready: "entered f s = (rc, t) \<Longrightarrow> lw_ready s \<or> lw_ready t = lw_ready s"
  by (auto elim!: entered_cases)

lemma modem_only_ready: "modem_only f \<Longrightarrow> f s = (rc, t) \<Longrightarrow> lw_ready t = lw_ready s"
  by (erule (1) modem_onlyD) simp

lemma step_ok_uplink:
  assumes "usp_lw_inv s" and e: "entered (request_uplink f) s = (rc, t)"
  shows "step_ok s (if rc = 0 then U_uplink else U_other) t"
proof (cases "rc = 0")
  case True
  with uplink_requested [OF e] have h: "lw_handled 0 True s t" "\<not> lw_tx_pending s" by simp_all
  have "lw_ready s" using e True by (auto elim!: entered_cases)
  then show ?thesis using True h by (intro step_okI [OF inv_handled [OF assms(1) h(1)] handled_seen [OF h(1)]]) simp_all
next
  case False
  with uplink_requested [OF e] have "lw_handled 0 (lw_tx_pending s) s t" by simp
  then show ?thesis using False step_ok_other [OF assms(1)] entered_ready [OF e] by simp
qed

lemma groups_update:
  assumes "groups_ok s" and "multicast t = (multicast s)[grp := remembered_session grp session]"
    and "multicast_used t = (multicast_used s)[grp := True]"
  shows "groups_ok t"
proof -
  have "mc_group_id (multicast t ! i) = int i \<and> mc_application_session_key (multicast t ! i) = replicate 16 0
      \<and> mc_network_session_key (multicast t ! i) = replicate 16 0" if "i < MULTICAST_GROUPS" "multicast_used t ! i" for i
    using that assms by (cases "i = grp") (simp_all add: groups_ok_def remembered_session_def)
  then show ?thesis using assms by (simp add: groups_ok_def)
qed

lemma nth_update_False: "j < length xs \<Longrightarrow> xs[i := False] ! j \<longleftrightarrow> xs ! j \<and> i \<noteq> j"
  by (cases "i = j") simp_all

lemma groups_add:
  assumes "usp_multicast_add E session s = (rc, t)" and "groups_ok s"
  shows "groups_ok t \<and> lw_static t = (handler s, lw_event_sink s, multicast t, multicast_used t, reset_seen s)
    \<and> lw_published t = lw_published s \<and> lw_class_b_state t = lw_class_b_state s \<and> lw_tx_pending t = lw_tx_pending s \<and> lw_ready t = lw_ready s"
  using assms(1) unfolding usp_multicast_add_def
proof (cases rule: entered_cases)
  case refused
  with assms(2) show ?thesis by (simp add: lw_static_def)
next
  case ready
  show ?thesis
  proof (cases "allocate_group (mc_group_id session) s")
    case None
    with ready assms(2) show ?thesis by (simp add: lw_static_def)
  next
    case (Some grp)
    let ?f = "seq_ok (modem_call (smtc_modem_multicast_set_grp_config E grp (mc_dev_addr session) (mc_network_session_key session)
                (mc_application_session_key session)))
             (modem_call
                (if mc_device_class session = RZI_LORAWAN_CLASS_C
                 then smtc_modem_multicast_class_c_start_session E grp (mc_frequency_hz session) (of_nat (mc_data_rate session))
                 else smtc_modem_multicast_class_b_start_session E grp (mc_frequency_hz session) (of_nat (mc_data_rate session))
                        (min (mc_periodicity session) 7)))"
    obtain rc' u where u: "?f s = (rc', u)" by fastforce
    have "modem_only ?f" by (intro modem_only_intros)
    then obtain m where m: "u = s\<lparr>modem := m\<rparr>" using u by (rule modem_onlyD)
    have t: "t = (if rc' = 0 then s\<lparr>modem := m, multicast := (multicast s)[grp := remembered_session grp session],
        multicast_used := (multicast_used s)[grp := True]\<rparr> else s\<lparr>modem := m\<rparr>)"
      using ready(2) Some u m by auto
    then have "groups_ok t" using assms(2) groups_update [OF assms(2), of t grp session] by (cases "rc' = 0") (simp_all add: groups_ok_def)
    then show ?thesis using t by (auto simp: lw_static_def)
  qed
qed

lemma groups_remove:
  assumes "usp_multicast_remove E addr s = (rc, t)" and "groups_ok s"
  shows "groups_ok t \<and> lw_static t = (handler s, lw_event_sink s, multicast t, multicast_used t, reset_seen s)
    \<and> lw_published t = lw_published s \<and> lw_class_b_state t = lw_class_b_state s \<and> lw_tx_pending t = lw_tx_pending s \<and> lw_ready t = lw_ready s"
  using assms(1) unfolding usp_multicast_remove_def
proof (cases rule: entered_cases)
  case refused
  with assms(2) show ?thesis by (simp add: lw_static_def)
next
  case ready
  then obtain i u where "t = s \<or> (\<exists>m. t = s\<lparr>modem := m\<rparr>) \<or> (\<exists>m. t = s\<lparr>modem := m, multicast_used := (multicast_used s)[i := False]\<rparr>)"
    by (auto simp: modem_call_def split: option.splits prod.splits if_splits)
  then show ?thesis using assms(2) by (elim disjE exE) (simp_all add: groups_ok_def lw_static_def nth_update_False)
qed

lemma groups_clear:
  assumes "usp_multicast_clear E s = (rc, t)" and "groups_ok s"
  shows "groups_ok t \<and> lw_static t = (handler s, lw_event_sink s, multicast t, multicast_used t, reset_seen s)
    \<and> lw_published t = lw_published s \<and> lw_class_b_state t = lw_class_b_state s \<and> lw_tx_pending t = lw_tx_pending s \<and> lw_ready t = lw_ready s"
  using assms(1) unfolding usp_multicast_clear_def
proof (cases rule: entered_cases)
  case refused
  with assms(2) show ?thesis by (simp add: lw_static_def)
next
  case ready
  let ?f = "seq_ok (modem_call (smtc_modem_multicast_class_c_stop_all_sessions E)) (modem_call (smtc_modem_multicast_class_b_stop_all_sessions E))"
  obtain rc' u where u: "?f s = (rc', u)" by fastforce
  have "modem_only ?f" by (intro modem_only_intros)
  then obtain m where m: "u = s\<lparr>modem := m\<rparr>" using u by (rule modem_onlyD)
  have "t = (if rc' = 0 then s\<lparr>modem := m, multicast_used := replicate MULTICAST_GROUPS False\<rparr> else s\<lparr>modem := m\<rparr>)"
    using ready(2) u m by auto
  then show ?thesis using assms(2) by (auto simp: groups_ok_def lw_static_def)
qed

lemma step_ok_groups:
  assumes "usp_lw_inv s" and "groups_ok t \<and> lw_static t = (handler s, lw_event_sink s, multicast t, multicast_used t, reset_seen s)
    \<and> lw_published t = lw_published s \<and> lw_class_b_state t = lw_class_b_state s \<and> lw_tx_pending t = lw_tx_pending s \<and> lw_ready t = lw_ready s"
  shows "step_ok s U_other t"
proof -
  have "lw_seen 0 (lw_tx_pending s) s t" by (rule seen_same) (use assms(2) in simp_all)
  moreover from this have "usp_lw_inv t" by (rule inv_seen [OF assms(1)]) (use assms in \<open>auto simp: usp_lw_inv_def lw_static_def\<close>)
  ultimately show ?thesis by (intro step_ok_seen)
qed

lemma step_ok_event:
  assumes "usp_lw_inv s" and "lw_event_sink s"
  shows "step_ok s (if completes source \<and> \<not> lw_tx_pending s then U_stray else if resets source \<and> lw_tx_pending s then U_lost else U_other)
    (handle_event E source error s)"
proof -
  note h = handled_event [OF assms(2), of source E error]
  have x: "\<not> (completes source \<and> resets source)"
    by (auto simp: completes_def resets_def split: option.splits smtc_modem_event_type.splits)
  show ?thesis
    by (rule step_okI [OF inv_handled [OF assms(1) h] handled_seen [OF h]]) (use assms(2) x in auto)
qed

lemma step_ok_start:
  assumes "usp_lw_inv s" and "lw_usp_start E region bypass sink s = (rc, t)"
  shows "step_ok s (if rc = 0 \<and> reset_seen s \<and> lw_tx_pending s then U_lost else U_other) t"
proof (cases "rc = 0")
  case False
  with assms show ?thesis using step_ok_other [OF assms(1) handled_self] by (auto simp: lw_usp_start_def Let_def split: option.splits if_splits)
next
  case True
  then obtain r where r: "usp_map_region region = Some r" "sink"
    using assms(2) by (auto simp: lw_usp_start_def split: option.splits if_splits)
  define v where "v = s\<lparr>lw_region := r, lw_join_backoff_bypass := bypass, lw_event_sink := True\<rparr>"
  define w where "w = rzi_usp_init E (if lbm_fuota E then v\<lparr>modem := lorawan_register_fuota_callbacks E (modem v)\<rparr> else v)"
  define u where "u = w\<lparr>handler := Some 0\<rparr>"
  have t: "t = rzi_usp_set_event_handler (lw_platform E) (Some 0) w"
    using assms(2) r by (cases "lbm_fuota E") (simp_all add: lw_usp_start_def Let_def v_def w_def)
  have u: "lw_event_sink u" "multicast u = multicast s" "multicast_used u = multicast_used s" "lw_published u = lw_published s"
      "lw_class_b_state u = lw_class_b_state s" "lw_tx_pending u = lw_tx_pending s" "reset_seen w = reset_seen s"
    by (simp_all add: u_def w_def v_def rzi_usp_init_def)
  have iu: "usp_lw_inv u" using assms(1) u by (simp add: usp_lw_inv_def groups_ok_def)
  have su: "lw_seen 0 (lw_tx_pending s) s u" by (rule seen_same) (use u in simp_all)
  show ?thesis
  proof (cases "reset_seen s")
    case False
    then have "t = u" using t u by (simp add: rzi_usp_set_event_handler_def u_def)
    then show ?thesis using step_ok_seen [OF iu su] False by simp
  next
    case True
    let ?e = "Some \<lparr>event_type = SMTC_MODEM_EVENT_RESET, missed_events = 0\<rparr>"
    have t: "t = handle_event E ?e 0 u" using t u True by (simp add: rzi_usp_set_event_handler_def call_handler_def lw_platform_def u_def)
    have "step_ok u (if lw_tx_pending s then U_lost else U_other) t"
      using step_ok_event [OF iu u(1), of ?e E 0] u unfolding t by (simp add: completes_def resets_def)
    then show ?thesis using \<open>rc = 0\<close> True step_ok_from [OF u(4,5,6)] by simp
  qed
qed

lemma usp_lw_step_ok:
  assumes "usp_lw_step E s l t" and inv: "usp_lw_inv s"
  shows "step_ok s l t"
  using assms(1)
proof cases
  case (us_start region bypass sink rc)
  show ?thesis unfolding us_start(1) by (rule step_ok_start [OF inv us_start(2)])
next
  case (us_join c rc)
  then show ?thesis using step_ok_other [OF inv handled_join [OF us_join(2)]]
    by (auto simp: usp_join_def split: if_splits dest: entered_ready)
next
  case (us_leave rc)
  then show ?thesis using step_ok_other [OF inv handled_leave [OF us_leave(2)]] by (auto simp: usp_leave_def dest: entered_ready)
next
  case (us_send port data n type rc)
  show ?thesis unfolding us_send(1) by (rule step_ok_uplink [OF inv us_send(2) [unfolded lw_usp_send_def]])
next
  case (us_send_empty with_port port type rc)
  show ?thesis unfolding us_send_empty(1) by (rule step_ok_uplink [OF inv us_send_empty(2) [unfolded usp_send_empty_def]])
next
  case (us_class c rc)
  then show ?thesis using step_ok_other [OF inv handled_class [OF us_class(2)]] inv
    by (auto simp: usp_set_class_def usp_lw_inv_def dest: entered_ready)
next
  case (us_stop_b rc)
  then show ?thesis using step_ok_other [OF inv handled_stop_b [OF us_stop_b(2)]] inv
    by (auto simp: usp_stop_class_b_def usp_lw_inv_def dest: entered_ready)
next
  case (us_setter f rc)
  note f = setter_modem_only [OF us_setter(2)]
  show ?thesis using step_ok_other [OF inv handled_modem [OF f us_setter(3)]] modem_only_ready [OF f us_setter(3)] us_setter(1) by simp
next
  case (us_cert_port b rc)
  have "lw_handled 0 (lw_tx_pending s) s t"
    using us_cert_port(2) unfolding usp_set_cert_port_def
    by (cases rule: entered_cases) (auto simp: handled_same lw_static_def intro!: handled_keep)
  with us_cert_port show ?thesis using step_ok_other [OF inv] by (auto simp: usp_set_cert_port_def dest: entered_ready)
next
  case (us_mc_add session rc)
  then show ?thesis using step_ok_groups [OF inv groups_add [OF us_mc_add(2)]] inv by (simp add: usp_lw_inv_def)
next
  case (us_mc_remove addr rc)
  then show ?thesis using step_ok_groups [OF inv groups_remove [OF us_mc_remove(2)]] inv by (simp add: usp_lw_inv_def)
next
  case (us_mc_clear rc)
  then show ?thesis using step_ok_groups [OF inv groups_clear [OF us_mc_clear(2)]] inv by (simp add: usp_lw_inv_def)
next
  case (us_modem m)
  have "lw_handled 0 (lw_tx_pending s) s t" by (rule handled_keep) (simp_all add: us_modem lw_static_def)
  then show ?thesis using step_ok_other [OF inv] us_modem by simp
next
  case (us_unhandled m)
  have "lw_seen 0 (lw_tx_pending s) s t" by (rule seen_same) (simp_all add: us_unhandled)
  moreover have "usp_lw_inv t" using inv us_unhandled by (simp add: usp_lw_inv_def groups_ok_def)
  ultimately show ?thesis unfolding us_unhandled(1) by (intro step_ok_seen)
next
  case (us_event source error)
  define u where "u = (if resets source then s\<lparr>reset_seen := True\<rparr> else s)"
  have "usp_lw_inv u" "lw_event_sink u" using inv us_event by (simp_all add: u_def usp_lw_inv_def groups_ok_def)
  note ok = step_ok_event [OF this, of source E error]
  have k: "lw_published u = lw_published s" "lw_class_b_state u = lw_class_b_state s" "lw_tx_pending u = lw_tx_pending s"
    by (simp_all add: u_def)
  show ?thesis using ok unfolding us_event(1,2) u_def [symmetric] k(3) step_ok_from [OF k] .
qed

section \<open>Accounting of uplinks\<close>

interpretation usp_uplinks: uplink_accounting "\<lambda>s l evs t. usp_lw_step E s l t \<and> lw_published t = lw_published s @ evs" "usp_lw_run E"
  "\<lambda>l. l = U_uplink" "\<lambda>l. l = U_lost" "\<lambda>l. l = U_stray" "\<lambda>s. of_bool (lw_tx_pending s)" usp_lw_inv
proof unfold_locales
  fix s ls evs t
  let ?last = "\<exists>ls' l evs' es u. ls = ls' @ [l] \<and> evs = evs' @ es \<and> usp_lw_run E s ls' evs' u
           \<and> usp_lw_step E u l t \<and> lw_published t = lw_published u @ es"
  show "usp_lw_run E s ls evs t \<longleftrightarrow> (ls = [] \<and> evs = [] \<and> t = s) \<or> ?last"
  proof
    assume "usp_lw_run E s ls evs t"
    then show "(ls = [] \<and> evs = [] \<and> t = s) \<or> ?last" by cases blast+
  next
    assume "(ls = [] \<and> evs = [] \<and> t = s) \<or> ?last"
    then show "usp_lw_run E s ls evs t" by (elim disjE exE conjE) (simp add: ur_done, blast intro: ur_step)
  qed
next
  fix s l evs t
  assume "usp_lw_inv s" and "usp_lw_step E s l t \<and> lw_published t = lw_published s @ evs"
  with usp_lw_step_ok [of E s l t] show "length (filter is_tx_done evs) + of_bool (lw_tx_pending t) + of_bool (l = U_lost)
      = of_bool (l = U_uplink) + of_bool (l = U_stray) + (of_bool (lw_tx_pending s) :: nat)"
    unfolding step_ok_def lw_seen_def by (metis append_eq_append_conv)
next
  fix s l evs t
  assume "usp_lw_inv s" and "usp_lw_step E s l t \<and> lw_published t = lw_published s @ evs"
  with usp_lw_step_ok [of E s l t] show "usp_lw_inv t" unfolding step_ok_def by blast
qed

lemma run_inv: "usp_lw_run E s ls evs t \<Longrightarrow> usp_lw_inv s \<Longrightarrow> usp_lw_inv t"
  using usp_uplinks.ua_total by blast

lemma run_published: "usp_lw_run E s ls evs t \<Longrightarrow> lw_published t = lw_published s @ evs"
  by (induction rule: usp_lw_run.induct) simp_all

text \<open>Every step can be taken in a run: it only appends to what was published.\<close>

lemma run_step:
  assumes "usp_lw_run E s ls evs t" and "usp_lw_inv s" and "usp_lw_step E t l u"
  shows "\<exists>es. usp_lw_run E s (ls @ [l]) (evs @ es) u"
proof -
  have "step_ok t l u" using usp_lw_step_ok [OF assms(3) run_inv [OF assms(1,2)]] .
  then obtain es where "lw_published u = lw_published t @ es" unfolding step_ok_def lw_seen_def by blast
  then show ?thesis using ur_step [OF assms(1,3)] by blast
qed

section \<open>The event pump as a run\<close>

lemma run_trans:
  assumes "usp_lw_run E t ls' evs' u" and "usp_lw_run E s ls evs t"
  shows "usp_lw_run E s (ls @ ls') (evs @ evs') u"
  using assms
proof (induction rule: usp_lw_run.induct)
  case (ur_step t ls' evs' u l v es)
  from usp_lw_run.ur_step [OF ur_step.IH [OF ur_step.prems] ur_step.hyps(2,3)] show ?case by simp
qed simp

definition reaches :: "('m, ('m, 'z) usp_lw_scheme, 'e) usp_lw_env_scheme \<Rightarrow> ('m, 'z) usp_lw_scheme \<Rightarrow> ('m, 'z) usp_lw_scheme \<Rightarrow> bool" where
  "reaches E s t \<longleftrightarrow> (\<exists>ls evs. usp_lw_run E s ls evs t)"

lemma reaches_trans: "reaches E s t \<Longrightarrow> reaches E t u \<Longrightarrow> reaches E s u"
  unfolding reaches_def using run_trans by blast

lemma reaches_step: "usp_lw_inv s \<Longrightarrow> usp_lw_step E s l t \<Longrightarrow> reaches E s t"
  unfolding reaches_def using run_step [OF ur_done] by blast

lemma reaches_inv: "reaches E s t \<Longrightarrow> usp_lw_inv s \<Longrightarrow> usp_lw_inv t"
  unfolding reaches_def using run_inv by blast

text \<open>One event, or the error of the modem, as the platform layer delivers it.\<close>

lemma reaches_delivery:
  assumes "usp_lw_inv s"
  shows "reaches E s (call_handler (lw_platform E) source error (if resets source then s\<lparr>modem := m, reset_seen := True\<rparr> else s\<lparr>modem := m\<rparr>))"
proof (cases "handler s")
  case None
  then show ?thesis
    using reaches_step [OF assms us_modem [of E s m]] reaches_step [OF assms us_unhandled [OF None, of E m]] by (simp add: call_handler_def)
next
  case (Some h)
  let ?u = "s\<lparr>modem := m\<rparr>"
  have 1: "reaches E s ?u" by (rule reaches_step [OF assms us_modem])
  have "handler ?u \<noteq> None" using Some by simp
  from reaches_trans [OF 1 reaches_step [OF reaches_inv [OF 1 assms] us_event [OF this, of E source error]]]
  show ?thesis using Some by (cases "resets source") (simp_all add: call_handler_def lw_platform_def)
qed

lemma pump_reaches:
  assumes "modem_event_callback (lw_platform E) s = Some t" and "usp_lw_inv s"
  shows "reaches E s t"
proof -
  have "\<forall>E. F = lw_platform E \<longrightarrow> usp_lw_inv s \<longrightarrow> reaches E s t" if "modem_event_callback F s = Some t" for F s t
    using that
  proof (induction rule: modem_event_callback.raw_induct [rotated, consumes 1, case_names round])
    case (round pump F s t)
    show ?case
    proof (intro allI impI)
      fix E assume F: "F = lw_platform E" and inv: "usp_lw_inv s"
      obtain rc event pending m where g: "smtc_modem_get_event F (modem s) = (rc, event, pending, m)" by (metis prod_cases4)
      define u where "u = call_handler F (Some event) 0 (if resets (Some event) then s\<lparr>modem := m, reset_seen := True\<rparr> else s\<lparr>modem := m\<rparr>)"
      have su: "reaches E s u" unfolding u_def F by (rule reaches_delivery [OF inv])
      have t: "t = s\<lparr>modem := m\<rparr>" if "rc = SMTC_MODEM_RC_NO_EVENT" using round(2) g that by simp
      have e: "t = call_handler F None (rzi_usp_result rc) (s\<lparr>modem := m\<rparr>)" if "rc \<noteq> SMTC_MODEM_RC_NO_EVENT" "rc \<noteq> SMTC_MODEM_RC_OK"
        using round(2) g that by simp
      have o: "(if pending > 0 then pump F u else Some u) = Some t" if "rc = SMTC_MODEM_RC_OK"
        using round(2) g that by (cases "event_type event = SMTC_MODEM_EVENT_RESET") (simp_all add: u_def resets_def Let_def cong: if_cong)
      show "reaches E s t"
      proof (cases "rc = SMTC_MODEM_RC_OK")
        case True
        show ?thesis
        proof (cases "pending > 0")
          case True
          then have "reaches E u t" using round(1) [of F u t] o [OF \<open>rc = SMTC_MODEM_RC_OK\<close>] F reaches_inv [OF su inv] by simp
          then show ?thesis by (rule reaches_trans [OF su])
        next
          case False
          then show ?thesis using su o [OF \<open>rc = SMTC_MODEM_RC_OK\<close>] by simp
        qed
      next
        case False
        note failed = this
        show ?thesis
        proof (cases "rc = SMTC_MODEM_RC_NO_EVENT")
          case True
          then show ?thesis using t reaches_step [OF inv us_modem] by simp
        next
          case False
          then show ?thesis using e [OF False failed] reaches_delivery [OF inv, of E None] by (simp add: F resets_def)
        qed
      qed
    qed
  qed
  with assms show ?thesis by blast
qed

end
