(* ===== verification/Rzi_Lw_Usp_Link.thy ===== *)
theory Rzi_Lw_Usp_Link
  imports Rzi_Lw_Usp_Runs "HOL-Library.Multiset"
begin

text \<open>
  What the LoRaWAN backend over Semtech's stack promises its users: the properties of its runs, the delivery of downlinks, the table of
  multicast sessions as a multiset, and the join backoff across a wrap of the modem's clock.
\<close>

section \<open>Downlinks\<close>

text \<open>The modem holds downlinks first in first out and tells whether more are left; on none it fails.\<close>

definition downlink_queue :: "('m \<Rightarrow> (bytes \<times> smtc_modem_dl_metadata) list) \<Rightarrow> ('m, 's, 'e) usp_lw_env_scheme \<Rightarrow> bool" where
  "downlink_queue dl_of E \<longleftrightarrow>
     (\<forall>m. dl_of m = [] \<longrightarrow> fst (smtc_modem_get_downlink_data E m) \<noteq> SMTC_MODEM_RC_OK)
     \<and> (\<forall>m p meta q. dl_of m = (p, meta) # q \<longrightarrow> (\<exists>r m'. smtc_modem_get_downlink_data E m = (SMTC_MODEM_RC_OK, p, meta, r, m')
          \<and> dl_of m' = q \<and> (r > 0 \<longleftrightarrow> q \<noteq> [])))"

text \<open>What a published downlink says of the one received.\<close>

definition downlink_matches :: "rzi_lorawan_downlink \<Rightarrow> bytes \<times> smtc_modem_dl_metadata \<Rightarrow> bool" where
  "downlink_matches d x \<longleftrightarrow> (case x of (payload, meta) \<Rightarrow>
     take (dl_size d) (dl_data d) = payload \<and> dl_size d = length payload \<and> dl_port d = meta_fport meta
     \<and> dl_rssi_dbm d = meta_rssi meta - 64 \<and> dl_snr_quarter_db d = meta_snr meta \<and> dl_frequency_hz d = meta_frequency_hz meta
     \<and> (bit (dl_flags d) 0 \<longleftrightarrow> meta_fpending_bit meta \<noteq> 0)
     \<and> (case meta_window meta of
          SMTC_MODEM_DL_WINDOW_RXC_MC_GRP g \<Rightarrow> bit (dl_flags d) 2 \<and> dl_multicast_group d = g
        | SMTC_MODEM_DL_WINDOW_RXB_MC_GRP g \<Rightarrow> bit (dl_flags d) 2 \<and> dl_multicast_group d = g
        | _ \<Rightarrow> \<not> bit (dl_flags d) 2))"

lemma flag_bits [simp]:
  "bit (1 :: u32) 0" "\<not> bit (1 :: u32) 2" "bit (1 OR 4 :: u32) 0" "bit (1 OR 4 :: u32) 2" "\<not> bit (4 :: u32) 0" "bit (4 :: u32) 2"
  by (simp_all add: bit_iff_odd drop_bit_Suc)

lemma usp_downlink_matches: "downlink_matches (usp_downlink buf payload meta) (payload, meta)"
  by (cases "meta_window meta") (simp_all add: downlink_matches_def usp_downlink_def map_window_def take_overlay)

lemma queue_first_downlink:
  assumes "downlink_queue dl_of E" and "dl_of m = (p, meta) # q"
  obtains r m' where "smtc_modem_get_downlink_data E m = (SMTC_MODEM_RC_OK, p, meta, r, m')" "dl_of m' = q" "r > 0 \<longleftrightarrow> q \<noteq> []"
  using assms unfolding downlink_queue_def by blast

lemma downlink_loop_queue:
  assumes "downlink_queue dl_of E"
  shows "dl_of (modem s) = q \<Longrightarrow> q \<noteq> [] \<Longrightarrow> lw_event_sink s \<Longrightarrow>
    \<exists>ds m. downlink_loop E buf s = Some (s\<lparr>modem := m, lw_published := lw_published s @ map BACKEND_DOWNLINK ds\<rparr>)
      \<and> list_all2 downlink_matches ds q \<and> dl_of m = []"
proof (induction q arbitrary: buf s)
  case (Cons x q)
  obtain p meta where x: "x = (p, meta)" by fastforce
  obtain r m where g: "smtc_modem_get_downlink_data E (modem s) = (SMTC_MODEM_RC_OK, p, meta, r, m)" "dl_of m = q" "r > 0 \<longleftrightarrow> q \<noteq> []"
    using queue_first_downlink [OF assms Cons.prems(1) [unfolded x]] .
  define d where "d = usp_downlink buf p meta"
  define u where "u = s\<lparr>modem := m, lw_published := lw_published s @ [BACKEND_DOWNLINK d]\<rparr>"
  have d: "downlink_matches d x" unfolding d_def x by (rule usp_downlink_matches)
  have run: "downlink_loop E buf s = (if r > 0 then downlink_loop E (dl_data d) u else Some u)"
    by (subst downlink_loop.simps) (use Cons.prems(3) in \<open>simp add: g(1) publish_sink d_def u_def Let_def\<close>)
  show ?case
  proof (cases "q = []")
    case True
    then have "downlink_loop E buf s = Some u" using run g(3) by simp
    then show ?thesis using True d g(2) by (intro exI [of _ "[d]"] exI [of _ m]) (simp add: u_def)
  next
    case False
    then have r: "downlink_loop E buf s = downlink_loop E (dl_data d) u" using run g(3) by simp
    obtain ds m' where "downlink_loop E (dl_data d) u = Some (u\<lparr>modem := m', lw_published := lw_published u @ map BACKEND_DOWNLINK ds\<rparr>)"
        "list_all2 downlink_matches ds q" "dl_of m' = []"
      using Cons.IH [of u "dl_data d"] False g(2) Cons.prems(3) by (auto simp: u_def)
    then show ?thesis using r d by (intro exI [of _ "d # ds"] exI [of _ m']) (simp add: u_def)
  qed
qed simp

lemma downlink_loop_returns:
  assumes "downlink_queue dl_of E" and "lw_event_sink s"
  shows "\<exists>t. downlink_loop E buf s = Some t \<and> lw_broken t = lw_broken s"
proof (cases "dl_of (modem s)")
  case Nil
  then have f: "fst (smtc_modem_get_downlink_data E (modem s)) \<noteq> SMTC_MODEM_RC_OK" using assms(1) by (simp add: downlink_queue_def)
  obtain rc p meta r m where g: "smtc_modem_get_downlink_data E (modem s) = (rc, p, meta, r, m)" by (metis prod_cases5)
  with f have "downlink_loop E buf s = Some (publish_error (rzi_usp_result rc) (s\<lparr>modem := m\<rparr>))"
    by (subst downlink_loop.simps) simp
  then show ?thesis using assms(2) by (simp add: publish_sinks)
next
  case (Cons x q)
  then show ?thesis using downlink_loop_queue [OF assms(1) Cons _ assms(2), of buf] by auto
qed

section \<open>Nothing breaks\<close>

lemma unbroken_publish:
  "lw_event_sink s \<Longrightarrow> lw_broken (rzi_lorawan_usp_publish ev s) = lw_broken s"
  "lw_event_sink s \<Longrightarrow> lw_event_sink (rzi_lorawan_usp_publish ev s)"
  "lw_event_sink s \<Longrightarrow> lw_broken (publish_error e s) = lw_broken s"
  "lw_event_sink s \<Longrightarrow> lw_event_sink (publish_error e s)"
  "lw_broken (rzi_lorawan_usp_publish_class_b st s) = lw_broken s"
  by (simp_all add: publish_sinks)

lemma unbroken_reset:
  fixes s :: "('m, 'z) usp_lw_scheme"
  assumes "lw_event_sink s"
  shows "lw_broken (handle_reset E s) = lw_broken s"
proof -
  define u where "u = s\<lparr>lw_ready := False, lw_tx_pending := False, fuota_image_ready := (if lbm_fuota E then False else fuota_image_ready s)\<rparr>"
  obtain rc t where t: "configure_service E u = (rc, t)" by fastforce
  obtain m where m: "t = u\<lparr>modem := m\<rparr>" using modem_onlyD [OF modem_only_service t] .
  obtain rc' v where v: "configure_credentials E t = (rc', v)" by fastforce
  obtain m' where m': "v = t\<lparr>modem := m'\<rparr>" using modem_onlyD [OF modem_only_credentials v] .
  have "lw_event_sink u" "lw_broken u = lw_broken s" using assms by (simp_all add: u_def)
  then show ?thesis
    unfolding handle_reset_def u_def [symmetric] Let_def t prod.case
    by (simp add: v [unfolded m] m m' publish_sinks)
qed

lemma unbroken_event:
  assumes "downlink_queue dl_of E" and "lw_event_sink s"
  shows "lw_broken (handle_event E source error s) = lw_broken s"
proof (cases source)
  case None
  then show ?thesis using assms(2) by (simp add: handle_event_def unbroken_publish)
next
  case (Some ev)
  define u where "u = (if missed_events ev > 0 then publish_error (- RZI_ERR_OVERFLOW) s else s)"
  have sink: "lw_event_sink u" and same: "lw_broken u = lw_broken s" using assms(2) by (simp_all add: u_def unbroken_publish)
  obtain t where "downlink_loop E (replicate RZI_LORAWAN_MAX_PAYLOAD 0) u = Some t" "lw_broken t = lw_broken u"
    using downlink_loop_returns [OF assms(1) sink] by blast
  then have d: "lw_broken (publish_downlinks E u) = lw_broken s" using same by (simp add: publish_downlinks_def)
  have "lw_broken (handle_class_b_status st u) = lw_broken s" for st
    using same by (auto simp: handle_class_b_status_def rzi_lorawan_usp_set_class_b_state_def unbroken_publish split: smtc_class_b_status.split)
  note facts = this unbroken_publish(1-4) [OF sink] unbroken_reset [OF sink] same d
  have j: "lw_broken (rzi_lorawan_usp_publish e (u\<lparr>fuota_image_ready := b\<rparr>)) = lw_broken s"
    "lw_broken (rzi_lorawan_usp_publish e (u\<lparr>lw_tx_pending := b\<rparr>)) = lw_broken s" for e b
    using unbroken_publish(1) [of "u\<lparr>fuota_image_ready := b\<rparr>" e] unbroken_publish(1) [of "u\<lparr>lw_tx_pending := b\<rparr>" e] sink same by simp_all
  show ?thesis unfolding Some handle_event_def option.case u_def [symmetric] Let_def
    using sink same
    by (cases "event_type ev")
      (simp_all add: facts j handle_txdone_def handle_mac_time_def handle_link_check_def handle_package_event_def handle_fuota_done_def Let_def
        unbroken_publish split: prod.split)
qed

lemma unbroken_start:
  assumes "downlink_queue dl_of E" and "lw_usp_start E region bypass sink s = (rc, t)"
  shows "lw_broken t = lw_broken s"
proof (cases "rc = 0")
  case False
  with assms(2) show ?thesis by (auto simp: lw_usp_start_def Let_def split: option.splits if_splits)
next
  case True
  then obtain r where r: "usp_map_region region = Some r" "sink"
    using assms(2) by (auto simp: lw_usp_start_def split: option.splits if_splits)
  define v where "v = s\<lparr>lw_region := r, lw_join_backoff_bypass := bypass, lw_event_sink := True\<rparr>"
  define w where "w = rzi_usp_init E (if lbm_fuota E then v\<lparr>modem := lorawan_register_fuota_callbacks E (modem v)\<rparr> else v)"
  have t: "t = rzi_usp_set_event_handler (lw_platform E) (Some 0) w"
    using assms(2) r by (cases "lbm_fuota E") (simp_all add: lw_usp_start_def Let_def v_def w_def)
  have w: "lw_event_sink (w\<lparr>handler := Some 0\<rparr>)" "lw_broken (w\<lparr>handler := Some 0\<rparr>) = lw_broken s"
    by (simp_all add: w_def v_def rzi_usp_init_def)
  show ?thesis using unbroken_event [OF assms(1) w(1)] w(2)
    unfolding t by (simp add: rzi_usp_set_event_handler_def call_handler_def lw_platform_def Let_def)
qed

lemma unbroken_call: "entered f s = (rc, t) \<Longrightarrow> (\<And>s. lw_broken (snd (f s)) = lw_broken s) \<Longrightarrow> lw_broken t = lw_broken s"
  by (erule entered_cases) (simp, metis snd_conv)

lemma unbroken_modem: "modem_only f \<Longrightarrow> lw_broken (snd (f s)) = lw_broken s"
  using modem_only_ex [of f s] by auto

lemma modem_only_join:
  "modem_only (seq_ok (configure_credentials E) (seq_ok (configure_channel_mask E) (modem_call (smtc_modem_join_network E))))"
  by (intro modem_only_intros)

lemma unbroken_step:
  assumes "downlink_queue dl_of E" and "usp_lw_step E s l t" and inv: "usp_lw_inv s"
  shows "lw_broken t = lw_broken s"
  using assms(2)
proof cases
  case (us_start region bypass sink rc)
  then show ?thesis using unbroken_start [OF assms(1)] by blast
next
  case (us_join c rc)
  then show ?thesis
    by (auto simp: usp_join_def unbroken_modem [OF modem_only_join] split: if_splits elim!: unbroken_call)
next
  case (us_leave rc)
  then show ?thesis unfolding usp_leave_def
    by (elim unbroken_call) (auto simp: modem_call_def split: prod.split)
next
  case (us_send port data n type rc)
  then show ?thesis unfolding lw_usp_send_def
    by (elim unbroken_call) (auto simp: request_uplink_def modem_call_def split: prod.split)
next
  case (us_send_empty with_port port type rc)
  then show ?thesis unfolding usp_send_empty_def
    by (elim unbroken_call) (auto simp: request_uplink_def modem_call_def split: prod.split)
next
  case (us_class c rc)
  then show ?thesis unfolding usp_set_class_def
    by (elim unbroken_call)
      (auto simp: rzi_lorawan_usp_set_class_b_state_def modem_call_def unbroken_publish Let_def split: prod.split option.split)
next
  case (us_stop_b rc)
  then show ?thesis unfolding usp_stop_class_b_def
    by (elim unbroken_call) (auto simp: rzi_lorawan_usp_set_class_b_state_def modem_call_def unbroken_publish split: prod.split)
next
  case (us_setter f rc)
  then show ?thesis using unbroken_modem [OF setter_modem_only [OF us_setter(2)], of s] by simp
next
  case (us_cert_port b rc)
  then show ?thesis unfolding usp_set_cert_port_def by (elim unbroken_call) simp
next
  case (us_mc_add session rc)
  then show ?thesis unfolding usp_multicast_add_def
    by (elim unbroken_call) (auto simp: seq_ok_def modem_call_def split: prod.split option.split)
next
  case (us_mc_remove addr rc)
  then show ?thesis unfolding usp_multicast_remove_def
    by (elim unbroken_call) (auto simp: modem_call_def split: prod.split option.split)
next
  case (us_mc_clear rc)
  then show ?thesis unfolding usp_multicast_clear_def
    by (elim unbroken_call) (auto simp: seq_ok_def modem_call_def split: prod.split)
next
  case (us_event source error)
  then have "lw_event_sink (if resets source then s\<lparr>reset_seen := True\<rparr> else s)" using inv by (simp add: usp_lw_inv_def)
  from unbroken_event [OF assms(1) this, of source error] show ?thesis using us_event by simp
qed simp_all

lemma unbroken_run:
  assumes "usp_lw_run E s ls evs t" and "downlink_queue dl_of E" and "usp_lw_inv s"
  shows "lw_broken t = lw_broken s"
  using assms(1,3)
proof (induction rule: usp_lw_run.induct)
  case (ur_step s ls evs t l u es)
  then show ?case using unbroken_step [OF assms(2) ur_step.hyps(2) run_inv [OF ur_step.hyps(1) ur_step.prems]] by simp
qed simp

section \<open>Multicast sessions\<close>

text \<open>The sessions as an application lists them.\<close>

definition listed_sessions :: "('m, 'z) usp_lw_scheme \<Rightarrow> rzi_lorawan_multicast_session list" where
  "listed_sessions s = map ((!) (multicast s)) (filter ((!) (multicast_used s)) [0..<MULTICAST_GROUPS])"

lemma sessions_read:
  assumes "lw_ready s"
  shows "usp_multicast_count n s = (0, length (listed_sessions s), [], s)"
    and "usp_multicast_get i cell s
      = (if i < length (listed_sessions s) then (0, listed_sessions s ! i, [], s) else (- RZI_ERR_INVALID, cell, [], s))"
  using assms by (simp_all add: usp_multicast_count_def usp_multicast_get_def entered_get_def rzi_lorawan_usp_enter_def listed_sessions_def Let_def)

lemma four: "[0..<MULTICAST_GROUPS] = [0, 1, 2, 3]" "i < MULTICAST_GROUPS \<longleftrightarrow> i = 0 \<or> i = 1 \<or> i = 2 \<or> i = 3"
  by (auto simp: upt_rec)

lemma length_four: "length xs = MULTICAST_GROUPS \<Longrightarrow> \<exists>a b c d. xs = [a, b, c, d]"
  by (auto simp: length_Suc_conv numeral_eq_Suc)

lemma listed_update:
  assumes "length (multicast s) = MULTICAST_GROUPS" and "length (multicast_used s) = MULTICAST_GROUPS"
    and "grp < MULTICAST_GROUPS" and "\<not> multicast_used s ! grp"
    and "multicast t = (multicast s)[grp := g]" and "multicast_used t = (multicast_used s)[grp := True]"
  shows "mset (listed_sessions t) = add_mset g (mset (listed_sessions s))"
proof -
  obtain a b c d where u: "multicast_used s = [a, b, c, d]" using length_four [OF assms(2)] by blast
  obtain w x y z where m: "multicast s = [w, x, y, z]" using length_four [OF assms(1)] by blast
  from assms(3) consider "grp = 0" | "grp = 1" | "grp = 2" | "grp = 3" unfolding four by blast
  then show ?thesis using assms(4,5,6) by cases (auto simp: listed_sessions_def four u m)
qed

lemma listed_erase:
  assumes "length (multicast s) = MULTICAST_GROUPS" and "length (multicast_used s) = MULTICAST_GROUPS"
    and "grp < MULTICAST_GROUPS" and "multicast_used s ! grp"
    and "multicast t = multicast s" and "multicast_used t = (multicast_used s)[grp := False]"
  shows "mset (listed_sessions s) = add_mset (multicast s ! grp) (mset (listed_sessions t))"
proof -
  obtain a b c d where u: "multicast_used s = [a, b, c, d]" using length_four [OF assms(2)] by blast
  obtain w x y z where m: "multicast s = [w, x, y, z]" using length_four [OF assms(1)] by blast
  from assms(3) consider "grp = 0" | "grp = 1" | "grp = 2" | "grp = 3" unfolding four by blast
  then show ?thesis using assms(4,5,6) by cases (auto simp: listed_sessions_def four u m)
qed

lemma allocated_free:
  assumes "allocate_group requested s = Some grp"
  shows "grp < MULTICAST_GROUPS" and "\<not> multicast_used s ! grp"
  using assms by (auto simp: allocate_group_def find_Some_iff split: if_splits)

lemma add_listed:
  assumes "usp_multicast_add E session s = (0, t)" and "groups_ok s"
  shows "\<exists>grp. mset (listed_sessions t) = add_mset (remembered_session grp session) (mset (listed_sessions s))"
  using assms(1) unfolding usp_multicast_add_def
proof (cases rule: entered_cases)
  case ready
  then obtain grp where g: "allocate_group (mc_group_id session) s = Some grp" by (auto split: option.splits)
  from ready(2) g have "multicast t = (multicast s)[grp := remembered_session grp session]" "multicast_used t = (multicast_used s)[grp := True]"
    by (auto simp: seq_ok_def modem_call_def split: prod.splits if_splits)
  with listed_update [OF _ _ allocated_free [OF g]] assms(2) show ?thesis by (auto simp: groups_ok_def)
qed simp

lemma remove_listed:
  assumes "usp_multicast_remove E addr s = (0, t)" and "groups_ok s"
  shows "\<exists>x. mc_dev_addr x = addr \<and> mset (listed_sessions s) = add_mset x (mset (listed_sessions t))"
  using assms(1) unfolding usp_multicast_remove_def
proof (cases rule: entered_cases)
  case ready
  then obtain i where f: "find (\<lambda>i. multicast_used s ! i \<and> mc_dev_addr (multicast s ! i) = addr) [0..<MULTICAST_GROUPS] = Some i"
    by (auto split: option.splits)
  then have i: "i < MULTICAST_GROUPS" "multicast_used s ! i" "mc_dev_addr (multicast s ! i) = addr" by (auto simp: find_Some_iff)
  from ready(2) f have "multicast t = multicast s" "multicast_used t = (multicast_used s)[i := False]"
    by (auto simp: modem_call_def split: prod.splits if_splits)
  with listed_erase [OF _ _ i(1,2)] assms(2) i(3) show ?thesis by (auto simp: groups_ok_def)
qed simp

lemma clear_listed:
  assumes "usp_multicast_clear E s = (0, t)"
  shows "listed_sessions t = []"
  using assms unfolding usp_multicast_clear_def
proof (cases rule: entered_cases)
  case ready
  then have "multicast_used t = replicate MULTICAST_GROUPS False" by (auto simp: seq_ok_def modem_call_def split: prod.splits if_splits)
  then show ?thesis by (simp add: listed_sessions_def four)
qed simp

lemma listed_keyless:
  assumes "groups_ok s" and "x \<in> set (listed_sessions s)"
  shows "mc_application_session_key x = replicate 16 0 \<and> mc_network_session_key x = replicate 16 0"
  using assms by (auto simp: groups_ok_def listed_sessions_def)

section \<open>The join backoff\<close>

lemma backoff_ahead:
  assumes "k < 2 ^ 31"
  shows "join_backoff_left (now + of_nat k) now = of_nat k"
proof -
  have "sint (of_nat k :: u32) = int k" using assms by (simp add: signed_of_nat signed_take_bit_int_eq_self)
  then show ?thesis by (simp add: join_backoff_left_def)
qed

lemma backoff_past:
  assumes "k < 2 ^ 31"
  shows "join_backoff_left deadline (deadline + of_nat k) = 0"
proof -
  have "sint (word_of_int (- int k) :: u32) = - int k" using assms by (subst signed_of_int) (simp add: signed_take_bit_int_eq_self)
  then have "sint (- of_nat k :: u32) = - int k" by simp
  then show ?thesis by (simp add: join_backoff_left_def)
qed

section \<open>A reference modem\<close>

text \<open>It holds downlinks, agrees to everything, and is three seconds before its clock wraps.\<close>

definition usp_ref_meta :: smtc_modem_dl_metadata where
  "usp_ref_meta = \<lparr>meta_fport = 2, meta_rssi = - 20, meta_snr = 4, meta_fpending_bit = 0, meta_window = SMTC_MODEM_DL_WINDOW_RX1,
     meta_datarate = 0, meta_frequency_hz = 868100000\<rparr>"

type_synonym ref_modem = "(bytes \<times> smtc_modem_dl_metadata) list"

definition usp_lw_ref :: "(ref_modem, ref_modem usp_lw) usp_lw_env" where
  "usp_lw_ref =
     \<lparr>sw_platform_init = (\<lambda>m. m), smtc_rac_init = (\<lambda>m. m), smtc_modem_init = (\<lambda>m. m),
      smtc_modem_get_event = (\<lambda>m. (SMTC_MODEM_RC_NO_EVENT, \<lparr>event_type = SMTC_MODEM_EVENT_OTHER, missed_events = 0\<rparr>, 0, m)),
      usp_handler = (\<lambda>h ev err s. s),
      lbm_class_b = True, lbm_class_c = True, lbm_multicast = True, lbm_fuota = False, lbm_fuota_v2 = False, lbm_csma = False,
      rzi_version = (0, 3, 0), fuota_hw_version = 1, smtc_modem_set_deveui = (\<lambda>a m. (SMTC_MODEM_RC_OK, m)),
      smtc_modem_set_joineui = (\<lambda>a m. (SMTC_MODEM_RC_OK, m)), smtc_modem_set_appkey = (\<lambda>a m. (SMTC_MODEM_RC_OK, m)),
      smtc_modem_set_nwkkey = (\<lambda>a m. (SMTC_MODEM_RC_OK, m)), smtc_modem_set_channel_mask = (\<lambda>a m. (SMTC_MODEM_RC_OK, m)),
      smtc_modem_get_list_region = (\<lambda>m. (SMTC_MODEM_RC_OK, usp_regions, 11)),
      smtc_modem_set_region = (\<lambda>a m. (SMTC_MODEM_RC_OK, m)),
      smtc_modem_set_join_duty_cycle_backoff_bypass = (\<lambda>a m. (SMTC_MODEM_RC_OK, m)),
      smtc_modem_get_downlink_data = (\<lambda>m. case m of [] \<Rightarrow> (SMTC_MODEM_RC_FAIL, [], usp_ref_meta, 0, [])
        | (p, d) # q \<Rightarrow> (SMTC_MODEM_RC_OK, p, d, if q = [] then 0 else 1, q)),
      smtc_modem_get_lorawan_link_check_data = (\<lambda>v m. (SMTC_MODEM_RC_OK, v)),
      smtc_modem_get_status = (\<lambda>v m. (SMTC_MODEM_RC_OK, v)), smtc_modem_join_network = (\<lambda>m. (SMTC_MODEM_RC_OK, m)),
      smtc_modem_leave_network = (\<lambda>m. (SMTC_MODEM_RC_OK, m)), smtc_modem_request_uplink = (\<lambda>a b c d m. (SMTC_MODEM_RC_OK, m)),
      smtc_modem_set_class = (\<lambda>a m. (SMTC_MODEM_RC_OK, m)), smtc_modem_get_class = (\<lambda>v m. (SMTC_MODEM_RC_OK, v)),
      smtc_modem_start_alcsync_service = (\<lambda>m. (SMTC_MODEM_RC_OK, m)),
      smtc_modem_trig_lorawan_mac_request = (\<lambda>a m. (SMTC_MODEM_RC_OK, m)), lorawan_fragmentation_package_get_file_size = (\<lambda>m. 0),
      smtc_modem_hal_context_restore = (\<lambda>off n m. []), smtc_modem_hal_reset_mcu = (\<lambda>m. m),
      lorawan_register_fuota_callbacks = (\<lambda>m. m), smtc_modem_adr_set_profile = (\<lambda>a b m. (SMTC_MODEM_RC_OK, m)),
      smtc_modem_adr_get_profile = (\<lambda>v m. (SMTC_MODEM_RC_OK, v)), lorawan_api_next_dr_get = (\<lambda>m. 0),
      smtc_modem_get_enabled_datarates = (\<lambda>v m. (SMTC_MODEM_RC_OK, v)), smtc_modem_get_nb_trans = (\<lambda>v m. (SMTC_MODEM_RC_OK, v)),
      smtc_modem_set_nb_trans = (\<lambda>a m. (SMTC_MODEM_RC_OK, m)), smtc_modem_get_adr_ack_limit_delay = (\<lambda>v m. (SMTC_MODEM_RC_OK, v)),
      smtc_modem_set_adr_ack_limit_delay = (\<lambda>a b m. (SMTC_MODEM_RC_OK, m)),
      smtc_modem_adr_set_join_distribution = (\<lambda>a m. (SMTC_MODEM_RC_OK, m)),
      smtc_modem_get_join_duty_cycle_backoff_bypass = (\<lambda>v m. (SMTC_MODEM_RC_OK, v)),
      smtc_modem_get_certification_mode = (\<lambda>v m. (SMTC_MODEM_RC_OK, v)),
      smtc_modem_set_certification_mode = (\<lambda>a m. (SMTC_MODEM_RC_OK, m)), lorawan_api_next_join_time_second_get = (\<lambda>m. 5),
      smtc_modem_hal_get_time_in_s = (\<lambda>m. 0xFFFFFFFD), smtc_modem_get_duty_cycle_status = (\<lambda>v m. (SMTC_MODEM_RC_OK, v)),
      smtc_modem_get_network_type = (\<lambda>v m. (SMTC_MODEM_RC_OK, v)), smtc_modem_set_network_type = (\<lambda>a m. (SMTC_MODEM_RC_OK, m)),
      smtc_modem_lbt_get_state = (\<lambda>v m. (SMTC_MODEM_RC_OK, v)), smtc_modem_lbt_set_state = (\<lambda>a m. (SMTC_MODEM_RC_OK, m)),
      smtc_modem_lbt_get_parameters = (\<lambda>v m. (SMTC_MODEM_RC_OK, v)),
      smtc_modem_lbt_set_parameters = (\<lambda>a b c m. (SMTC_MODEM_RC_OK, m)), smtc_modem_csma_get_state = (\<lambda>v m. (SMTC_MODEM_RC_OK, v)),
      smtc_modem_csma_set_state = (\<lambda>a m. (SMTC_MODEM_RC_OK, m)), smtc_modem_csma_get_parameters = (\<lambda>v m. (SMTC_MODEM_RC_OK, v)),
      smtc_modem_csma_set_parameters = (\<lambda>a b c m. (SMTC_MODEM_RC_OK, m)),
      smtc_modem_lorawan_get_lost_connection_counter = (\<lambda>v m. (SMTC_MODEM_RC_OK, v)),
      lorawan_api_get_no_rx_packet_threshold = (\<lambda>m. 0), lorawan_api_set_no_rx_packet_threshold = (\<lambda>a m. m),
      smtc_modem_get_crystal_error_ppm = (\<lambda>v m. (SMTC_MODEM_RC_OK, v)),
      smtc_modem_set_crystal_error_ppm = (\<lambda>a m. (SMTC_MODEM_RC_OK, m)),
      smtc_modem_request_empty_uplink = (\<lambda>a b c m. (SMTC_MODEM_RC_OK, m)),
      smtc_modem_get_next_tx_max_payload = (\<lambda>v m. (SMTC_MODEM_RC_OK, v)),
      smtc_modem_class_b_get_ping_slot_periodicity = (\<lambda>v m. (SMTC_MODEM_RC_OK, v)),
      smtc_modem_class_b_set_ping_slot_periodicity = (\<lambda>a m. (SMTC_MODEM_RC_OK, m)),
      smtc_modem_multicast_set_grp_config = (\<lambda>a b c d m. (SMTC_MODEM_RC_OK, m)),
      smtc_modem_multicast_class_c_start_session = (\<lambda>a b c m. (SMTC_MODEM_RC_OK, m)),
      smtc_modem_multicast_class_b_start_session = (\<lambda>a b c d m. (SMTC_MODEM_RC_OK, m)),
      smtc_modem_multicast_class_c_stop_session = (\<lambda>a m. (SMTC_MODEM_RC_OK, m)),
      smtc_modem_multicast_class_b_stop_session = (\<lambda>a m. (SMTC_MODEM_RC_OK, m)),
      smtc_modem_multicast_class_c_stop_all_sessions = (\<lambda>m. (SMTC_MODEM_RC_OK, m)),
      smtc_modem_multicast_class_b_stop_all_sessions = (\<lambda>m. (SMTC_MODEM_RC_OK, m)), lorawan_api_devaddr_get = (\<lambda>m. 0),
      smtc_secure_element_get_key = (\<lambda>k v m. (SMTC_SE_RC_SUCCESS, v)),
      smtc_modem_get_lorawan_mac_time = (\<lambda>v m. (SMTC_MODEM_RC_OK, v))\<rparr>"

lemma usp_lw_ref_queue: "downlink_queue (\<lambda>m. m) usp_lw_ref"
  by (simp add: downlink_queue_def usp_lw_ref_def)

definition usp_ref_session :: rzi_lorawan_multicast_session where
  "usp_ref_session = \<lparr>mc_device_class = RZI_LORAWAN_CLASS_C, mc_dev_addr = 7, mc_application_session_key = replicate 16 1,
     mc_network_session_key = replicate 16 2, mc_frequency_hz = 869525000, mc_data_rate = 3, mc_periodicity = 0, mc_group_id = - 1\<rparr>"

definition usp_ref_config :: rzi_lorawan_join_config where
  "usp_ref_config = \<lparr>jc_activation = 0, jc_retry_interval_s = 8, jc_channel_mask_set = False, jc_channel_mask = [],
     jc_keys = Join_otaa \<lparr>otaa_dev_eui = [], otaa_join_eui = [], otaa_network_key = [], otaa_application_key = [], otaa_dev_nonce = 0\<rparr>\<rparr>"

definition usp_ref_initial :: "ref_modem usp_lw" where
  "usp_ref_initial = usp_lw_initial usp_ref_config SMTC_MODEM_REGION_EU_868 usp_ref_session []"

text \<open>Started, and ready after the first reset of the modem.\<close>

definition usp_ref_ready :: "ref_modem usp_lw" where
  "usp_ref_ready = usp_ref_initial\<lparr>usp_platform.initialized := True, reset_seen := True, handler := Some 0, lw_ready := True, lw_event_sink := True,
     lw_published := [BACKEND_READY]\<rparr>"

abbreviation (input) lw_event :: "smtc_modem_event_type \<Rightarrow> smtc_modem_event option" where
  "lw_event type \<equiv> Some \<lparr>event_type = type, missed_events = 0\<rparr>"

lemma usp_ref_started: "usp_lw_run usp_lw_ref usp_ref_initial [U_other, U_other] [BACKEND_READY] usp_ref_ready"
proof -
  note defs = usp_ref_initial_def usp_lw_initial_def usp_lw_ref_def
  let ?s = "usp_ref_initial\<lparr>usp_platform.initialized := True, handler := Some 0, lw_event_sink := True\<rparr>"
  have "lw_usp_start usp_lw_ref 0 False True usp_ref_initial = (0, ?s)"
    by (simp add: lw_usp_start_def usp_map_region_def usp_regions_def rzi_usp_init_def rzi_usp_set_event_handler_def Let_def defs)
  then have "usp_lw_step usp_lw_ref usp_ref_initial (if (0 :: int) = 0 \<and> reset_seen usp_ref_initial \<and> lw_tx_pending usp_ref_initial then U_lost else U_other) ?s"
    by (rule us_start)
  then have 1: "usp_lw_step usp_lw_ref usp_ref_initial U_other ?s" by (simp add: defs)
  have "handler ?s \<noteq> None" by simp
  from us_event [OF this, of usp_lw_ref "lw_event SMTC_MODEM_EVENT_RESET" 0]
  have 2: "usp_lw_step usp_lw_ref ?s U_other usp_ref_ready"
    by (simp add: completes_def resets_def handle_event_def handle_reset_def configure_service_def check_region_built_def seq_ok_def modem_call_def
        rzi_usp_result_def rzi_lorawan_usp_publish_def usp_ref_ready_def usp_regions_def Let_def defs)
  have "usp_lw_run usp_lw_ref usp_ref_initial [U_other] [] ?s" using ur_step [OF ur_done 1, of "[]"] by (simp add: defs)
  from ur_step [OF this 2, of "[BACKEND_READY]"] show ?thesis by (simp add: usp_ref_ready_def defs)
qed

lemma usp_ref_inv: "usp_lw_inv usp_ref_ready"
  by (rule run_inv [OF usp_ref_started]) (simp add: usp_ref_initial_def usp_lw_initial_inv)

section \<open>Properties\<close>

text \<open>
  C17. Uplinks are accounted for exactly: in every run of the backend over Semtech's stack, whatever the order of calls and modem
  events, the completions published, the uplink still pending and the uplinks lost to a reset of the modem add up to the uplinks
  accepted and the completions the modem reported while none was pending.
\<close>

theorem usp_lw_uplinks_balanced:
  assumes "usp_lw_run E (usp_lw_initial c r g m) ls evs t"
  shows "length (filter is_tx_done evs) + of_bool (lw_tx_pending t) + length (filter (\<lambda>l. l = U_lost) ls)
    = length (filter (\<lambda>l. l = U_uplink) ls) + length (filter (\<lambda>l. l = U_stray) ls)"
proof -
  have "\<not> lw_tx_pending (usp_lw_initial c r g m)" by (simp add: usp_lw_initial_def)
  with usp_uplinks.ua_total [OF usp_lw_initial_inv assms] show ?thesis by simp
qed

theorem usp_lw_uplinks_balanced_witness:
  "\<exists>t. usp_lw_run usp_lw_ref usp_ref_initial [U_other, U_other, U_uplink, U_lost] [BACKEND_READY, BACKEND_READY] t
    \<and> \<not> lw_tx_pending t \<and> length (filter is_tx_done [BACKEND_READY, BACKEND_READY]) = 0"
proof -
  note defs = usp_ref_ready_def usp_ref_initial_def usp_lw_initial_def usp_lw_ref_def
  let ?s = "usp_ref_ready\<lparr>lw_tx_pending := True\<rparr>"
  have "lw_usp_send usp_lw_ref 2 (Some [7]) 1 0 usp_ref_ready = (0, ?s)"
    by (simp add: lw_usp_send_def entered_def rzi_lorawan_usp_enter_def request_uplink_def modem_call_def rzi_usp_result_def Let_def defs)
  from us_send [OF this] have 1: "usp_lw_step usp_lw_ref usp_ref_ready U_uplink ?s" by simp
  let ?t = "?s\<lparr>lw_tx_pending := False, lw_published := [BACKEND_READY, BACKEND_READY]\<rparr>"
  have "handler ?s \<noteq> None" by (simp add: defs)
  from us_event [OF this, of usp_lw_ref "lw_event SMTC_MODEM_EVENT_RESET" 0]
  have 2: "usp_lw_step usp_lw_ref ?s U_lost ?t"
    by (simp add: completes_def resets_def handle_event_def handle_reset_def configure_service_def check_region_built_def seq_ok_def modem_call_def
        rzi_usp_result_def rzi_lorawan_usp_publish_def usp_regions_def Let_def defs)
  have "usp_lw_run usp_lw_ref usp_ref_initial [U_other, U_other, U_uplink] [BACKEND_READY] ?s"
    using ur_step [OF usp_ref_started 1, of "[]"] by simp
  from ur_step [OF this 2, of "[BACKEND_READY]"]
  have r: "usp_lw_run usp_lw_ref usp_ref_initial [U_other, U_other, U_uplink, U_lost] [BACKEND_READY, BACKEND_READY] ?t"
    by (simp add: usp_ref_ready_def)
  from usp_lw_uplinks_balanced [OF r [unfolded usp_ref_initial_def]] r show ?thesis by (intro exI [of _ ?t]) simp
qed

text \<open>
  C21. The class B state is observable: in every run the state the backend keeps is the one the last class B event announced, idle
  before the first, and every such event announces a change.
\<close>

theorem usp_class_b_tracked:
  assumes "usp_lw_run E (usp_lw_initial c r g m) ls evs t"
  shows "lw_class_b_state t = class_b_of RZI_LORAWAN_CLASS_B_IDLE evs \<and> class_b_changes RZI_LORAWAN_CLASS_B_IDLE evs"
proof -
  have "lw_published t = evs" using run_published [OF assms] by (simp add: usp_lw_initial_def)
  then show ?thesis using run_inv [OF assms usp_lw_initial_inv] by (simp add: usp_lw_inv_def)
qed

theorem usp_class_b_tracked_witness:
  "\<exists>t. usp_lw_run usp_lw_ref usp_ref_initial [U_other, U_other, U_other, U_other]
      [BACKEND_READY, BACKEND_CLASS_B RZI_LORAWAN_CLASS_B_ACQUIRING_BEACON, BACKEND_CLASS_B RZI_LORAWAN_CLASS_B_ACTIVE] t
    \<and> lw_class_b_state t = RZI_LORAWAN_CLASS_B_ACTIVE"
proof -
  note defs = usp_ref_ready_def usp_ref_initial_def usp_lw_initial_def usp_lw_ref_def
  let ?s = "usp_ref_ready\<lparr>lw_class_b_state := 1, lw_published := [BACKEND_READY, BACKEND_CLASS_B 1]\<rparr>"
  let ?t = "?s\<lparr>lw_class_b_state := 4, lw_published := [BACKEND_READY, BACKEND_CLASS_B 1, BACKEND_CLASS_B 4]\<rparr>"
  have "usp_set_class usp_lw_ref 1 usp_ref_ready = (0, ?s)"
    by (simp add: usp_set_class_def entered_def rzi_lorawan_usp_enter_def rzi_lorawan_usp_set_class_b_state_def modem_call_def rzi_usp_result_def
        rzi_lorawan_usp_publish_class_b_def Let_def defs)
  then have 1: "usp_lw_step usp_lw_ref usp_ref_ready U_other ?s" by (rule us_class)
  have "handler ?s \<noteq> None" by (simp add: defs)
  from us_event [OF this, of usp_lw_ref "lw_event (SMTC_MODEM_EVENT_CLASS_B_STATUS SMTC_CLASS_B_READY)" 0]
  have 2: "usp_lw_step usp_lw_ref ?s U_other ?t"
    by (simp add: completes_def resets_def handle_event_def handle_class_b_status_def rzi_lorawan_usp_set_class_b_state_def
        rzi_lorawan_usp_publish_class_b_def defs)
  have "usp_lw_run usp_lw_ref usp_ref_initial [U_other, U_other, U_other] [BACKEND_READY, BACKEND_CLASS_B 1] ?s"
    using ur_step [OF usp_ref_started 1, of "[BACKEND_CLASS_B 1]"] by (simp add: usp_ref_ready_def)
  from ur_step [OF this 2, of "[BACKEND_CLASS_B 4]"]
  have r: "usp_lw_run usp_lw_ref usp_ref_initial [U_other, U_other, U_other, U_other] [BACKEND_READY, BACKEND_CLASS_B 1, BACKEND_CLASS_B 4] ?t"
    by simp
  from usp_class_b_tracked [OF r [unfolded usp_ref_initial_def]] r show ?thesis by (intro exI [of _ ?t]) simp
qed

text \<open>
  C19. Every downlink is delivered: with a modem that holds its downlinks first in first out, the handler of a downlink event returns, has
  published one event for each downlink waiting, in order and with its payload, port, signal, pending bit and multicast group, and
  leaves none behind.
\<close>

theorem usp_downlinks_delivered:
  assumes "downlink_queue dl_of E" and "lw_event_sink s" and "dl_of (modem s) \<noteq> []"
  shows "\<exists>ds m. handle_event E (Some \<lparr>event_type = SMTC_MODEM_EVENT_DOWNDATA, missed_events = 0\<rparr>) 0 s
      = s\<lparr>modem := m, lw_published := lw_published s @ map BACKEND_DOWNLINK ds\<rparr>
    \<and> list_all2 downlink_matches ds (dl_of (modem s)) \<and> dl_of m = []"
proof -
  obtain ds m where "downlink_loop E (replicate RZI_LORAWAN_MAX_PAYLOAD 0) s
      = Some (s\<lparr>modem := m, lw_published := lw_published s @ map BACKEND_DOWNLINK ds\<rparr>)"
      "list_all2 downlink_matches ds (dl_of (modem s))" "dl_of m = []"
    using downlink_loop_queue [OF assms(1) refl assms(3,2)] by blast
  then show ?thesis by (intro exI [of _ ds] exI [of _ m]) (simp add: handle_event_def publish_downlinks_def)
qed

theorem usp_downlinks_delivered_witness:
  "\<exists>ds m. handle_event usp_lw_ref (Some \<lparr>event_type = SMTC_MODEM_EVENT_DOWNDATA, missed_events = 0\<rparr>) 0
        (usp_ref_ready\<lparr>modem := [([1, 2], usp_ref_meta), ([3], usp_ref_meta)]\<rparr>)
      = usp_ref_ready\<lparr>modem := m, lw_published := [BACKEND_READY] @ map BACKEND_DOWNLINK ds\<rparr> \<and> length ds = 2 \<and> m = []"
proof -
  let ?s = "usp_ref_ready\<lparr>modem := [([1, 2], usp_ref_meta), ([3], usp_ref_meta)]\<rparr>"
  have "lw_event_sink ?s" by (simp add: usp_ref_ready_def)
  from usp_downlinks_delivered [OF usp_lw_ref_queue this] obtain ds m where
    "handle_event usp_lw_ref (Some \<lparr>event_type = SMTC_MODEM_EVENT_DOWNDATA, missed_events = 0\<rparr>) 0 ?s
      = ?s\<lparr>modem := m, lw_published := lw_published ?s @ map BACKEND_DOWNLINK ds\<rparr>"
    and l: "list_all2 downlink_matches ds (modem ?s)" and "m = []" by auto
  moreover from l have "length ds = 2" by (auto dest: list_all2_lengthD)
  ultimately show ?thesis by (intro exI [of _ ds] exI [of _ m]) (simp add: usp_ref_ready_def)
qed

text \<open>
  C22. The backend never breaks: with a modem that holds its downlinks first in first out, in no run does it call an event sink that was
  not set or fail to return from the loop over downlinks.
\<close>

theorem usp_lw_never_breaks:
  assumes "downlink_queue dl_of E" and "usp_lw_run E (usp_lw_initial c r g m) ls evs t"
  shows "\<not> lw_broken t \<and> (lw_ready t \<or> handler t \<noteq> None \<longrightarrow> lw_event_sink t)"
  using unbroken_run [OF assms(2,1) usp_lw_initial_inv] run_inv [OF assms(2) usp_lw_initial_inv]
  by (simp add: usp_lw_inv_def usp_lw_initial_def)

theorem usp_lw_never_breaks_witness:
  "usp_lw_run usp_lw_ref usp_ref_initial [U_other, U_other] [BACKEND_READY] usp_ref_ready \<and> \<not> lw_broken usp_ref_ready
    \<and> lw_event_sink usp_ref_ready"
proof -
  have "lw_ready usp_ref_ready" by (simp add: usp_ref_ready_def)
  with usp_lw_never_breaks [OF usp_lw_ref_queue usp_ref_started [unfolded usp_ref_initial_def]] usp_ref_started show ?thesis by simp
qed

text \<open>
  C20. The multicast table is a multiset of at most four sessions: in every state a run reaches, an accepted session is added to the
  listed ones without its keys, an accepted removal takes out one session with the address, an accepted clear all of them,
  and listing gives exactly these sessions and no key.
\<close>

theorem usp_multicast_refines:
  assumes "usp_lw_run E (usp_lw_initial c r g m) ls evs s"
  shows "(usp_multicast_add E session s = (0, t) \<longrightarrow>
        (\<exists>grp. mset (listed_sessions t) = add_mset (remembered_session grp session) (mset (listed_sessions s))))
    \<and> (usp_multicast_remove E addr s = (0, t) \<longrightarrow>
        (\<exists>x. mc_dev_addr x = addr \<and> mset (listed_sessions s) = add_mset x (mset (listed_sessions t))))
    \<and> (usp_multicast_clear E s = (0, t) \<longrightarrow> listed_sessions t = [])
    \<and> (lw_ready s \<longrightarrow> usp_multicast_count n s = (0, length (listed_sessions s), [], s)
        \<and> usp_multicast_get i cell s
          = (if i < length (listed_sessions s) then (0, listed_sessions s ! i, [], s) else (- RZI_ERR_INVALID, cell, [], s)))
    \<and> (\<forall>x \<in> set (listed_sessions s). mc_application_session_key x = replicate 16 0 \<and> mc_network_session_key x = replicate 16 0)"
proof -
  have g: "groups_ok s" using run_inv [OF assms usp_lw_initial_inv] by (simp add: usp_lw_inv_def)
  show ?thesis
    by (intro conjI impI ballI)
      (auto intro: add_listed [OF _ g] remove_listed [OF _ g] clear_listed simp: sessions_read dest: listed_keyless [OF g])
qed

theorem usp_multicast_refines_witness:
  "\<exists>t grp. usp_multicast_add usp_lw_ref usp_ref_session usp_ref_ready = (0, t)
    \<and> mset (listed_sessions t) = {#remembered_session grp usp_ref_session#}"
proof -
  define t where "t = snd (usp_multicast_add usp_lw_ref usp_ref_session usp_ref_ready)"
  note defs = usp_ref_ready_def usp_ref_initial_def usp_lw_initial_def usp_lw_ref_def usp_ref_session_def
  have a: "usp_multicast_add usp_lw_ref usp_ref_session usp_ref_ready = (0, t)"
    by (simp add: t_def usp_multicast_add_def entered_def rzi_lorawan_usp_enter_def allocate_group_def four seq_ok_def modem_call_def
        rzi_usp_result_def Let_def defs)
  have "listed_sessions usp_ref_ready = []" by (simp add: listed_sessions_def four defs)
  with usp_multicast_refines [OF usp_ref_started [unfolded usp_ref_initial_def], where session = usp_ref_session and t = t] a
  show ?thesis by auto
qed

text \<open>
  C29. The join backoff is exact across a wrap of the clock: while the device is not joined and nothing bypasses the backoff, the
  remaining time read is the distance to the deadline when it lies ahead by less than half the range of the modem's clock of
  seconds, also across its overflow, and zero when it has passed.
\<close>

theorem usp_join_backoff_exact:
  assumes "lw_ready s" and "k < 2 ^ 31"
    and "smtc_modem_get_status E \<lparr>status_joined = False, status_joining = False\<rparr> (modem s) = (SMTC_MODEM_RC_OK, status)" and "\<not> status_joined status"
    and "smtc_modem_get_join_duty_cycle_backoff_bypass E False (modem s) = (SMTC_MODEM_RC_OK, False)"
    and "smtc_modem_get_certification_mode E False (modem s) = (SMTC_MODEM_RC_OK, False)"
  shows "(lorawan_api_next_join_time_second_get E (modem s) = smtc_modem_hal_get_time_in_s E (modem s) + of_nat k
      \<longrightarrow> usp_get_join_backoff E cell s = (0, of_nat k, [], s))
    \<and> (smtc_modem_hal_get_time_in_s E (modem s) = lorawan_api_next_join_time_second_get E (modem s) + of_nat k
      \<longrightarrow> usp_get_join_backoff E cell s = (0, 0, [], s))"
proof -
  have "usp_get_join_backoff E cell s
      = (0, join_backoff_left (lorawan_api_next_join_time_second_get E (modem s)) (smtc_modem_hal_get_time_in_s E (modem s)), [], s)"
    using assms by (simp add: usp_get_join_backoff_def entered_get_def rzi_lorawan_usp_enter_def modem_read_def rzi_usp_result_def Let_def)
  then show ?thesis using backoff_ahead [OF assms(2)] backoff_past [OF assms(2)] by simp
qed

theorem usp_join_backoff_exact_witness: "usp_get_join_backoff usp_lw_ref 0 usp_ref_ready = (0, 8, [], usp_ref_ready)"
  using usp_join_backoff_exact [where s = usp_ref_ready and k = 8 and E = usp_lw_ref and cell = 0
    and status = "\<lparr>status_joined = False, status_joining = False\<rparr>"]
  by (simp add: usp_ref_ready_def usp_lw_ref_def)

end
