(* ===== verification/Spec2Isabelle.thy ===== *)
theory Spec2Isabelle
  imports Rzi_Service Rzi_Fuota Rzi_At_Lora_Lines Rzi_Lora_Usp_Runs Rzi_Lora_Backends Rzi_Lw_Zephyr_Runs Rzi_Lw_Usp_Link
begin

text \<open>
  A verification library of RZI, the RAK wireless interface for Zephyr: the power and storage
  services, the LoRaWAN service with its settings, credentials, channel plans and dispatcher, its
  firmware update service, the LoRa peer-to-peer service, the backends that drive the radio stacks, and the AT command service. Paths are below \<^verbatim>\<open>src/\<close> of the repository.

  \<^bold>\<open>Parts of the program and how they interact.\<close> Applications and the AT service call the public API.
  Error codes come from one catalogue (\<^verbatim>\<open>common/common_err.c\<close>). The power service (\<^verbatim>\<open>power/power.c\<close>)
  counts locks on Zephyr's power management; the storage service (\<^verbatim>\<open>storage/storage_settings.c\<close>) holds
  one of them around each flash operation and keeps raw values and checked records under
  namespaced names. The LoRaWAN settings schema (\<^verbatim>\<open>lorawan/lorawan_settings.c\<close>) validates, caches,
  migrates and persists parameters; credentials and configuration (\<^verbatim>\<open>lorawan/api/lorawan_credentials.c\<close>,
  \<^verbatim>\<open>lorawan_config.c\<close>), channel plans (\<^verbatim>\<open>lorawan_channel.c\<close>) and MAC command scheduling
  (\<^verbatim>\<open>lorawan_mac_commands.c\<close>) are built on it. The service core (\<^verbatim>\<open>lorawan/lorawan.c\<close>) owns the
  backend, a bounded event queue filled by the backend from any context, a dispatcher thread that
  delivers events to registered callbacks, the join sequence and the Class C power reference. The FUOTA
  service (\<^verbatim>\<open>lorawan/services/fuota/lorawan_fuota.c\<close>) runs on top of it and holds the flash power lock during a
  transfer; the LoRa service (\<^verbatim>\<open>lora/lora.c\<close>) drives a backend of its own. A backend is
  a table of functions: over Semtech's stack, whose platform glue (\<^verbatim>\<open>usp/usp_platform.c\<close>) hands modem events to one handler
  and runs the engine on request (\<^verbatim>\<open>lora/backend/lora_backend_usp.c\<close>, \<^verbatim>\<open>lorawan/backend/usp/\<close>), over Zephyr's radio and LoRaWAN drivers (\<^verbatim>\<open>lora_backend_zephyr.c\<close>,
  \<^verbatim>\<open>lorawan/backend/zephyr/\<close>), or a loop for tests (\<^verbatim>\<open>lora_backend_test.c\<close>); it works in the background and reports through the publishing functions of its service. The
  AT service (\<^verbatim>\<open>at/\<close>) buffers input, assembles and parses lines, dispatches to registered commands, and
  stores its password, alias and working mode through the storage service. Its LoRaWAN command package
  (\<^verbatim>\<open>at/commands/lorawan/\<close>) turns command lines into calls of the LoRaWAN API and its events into lines, its P2P package
  (\<^verbatim>\<open>at/commands/lora/\<close>) does so for the LoRa service, and the working mode decides which of the two may use the radio.

  \<^bold>\<open>Theories.\<close>
  \<^item> \<open>Rzi_Prelude\<close>: calls returning a code as \<open>'s op\<close>, sequencing (\<open>seq_ok\<close>), calls on a part of the state
    (\<open>on_part\<close>), preserved predicates, little-endian encodings.
  \<^item> \<open>Rzi_Err\<close>: the catalogue and \<^verbatim>\<open>rzi_err_from_errno\<close>.
  \<^item> \<open>Rzi_Power\<close>: lock counters and the runtime switch; every call on Zephyr's policy is logged, and the
    balance of the log is the invariant.
  \<^item> \<open>Rzi_Storage\<close>: names, raw values, records; the locale of a key-value store and its interpretation on
    the operations.
  \<^item> \<open>Rzi_Settings\<close>: the schema table, cache, migrations and factory reset over the storage locale.
  \<^item> \<open>Rzi_Lw_State\<close>: the state of the LoRaWAN service, the backend table as a record of functions (absent
    entries are \<open>None\<close>), the event queue.
  \<^item> \<open>Rzi_Credentials\<close>, \<open>Rzi_Channel\<close>, \<open>Rzi_Mac\<close>: the API files of the same names.
  \<^item> \<open>Rzi_Lorawan\<close>: all of \<^verbatim>\<open>lorawan.c\<close>; \<open>Rzi_Delegates\<close>: network, Class B, multicast, certification and session
    entry points, which forward to the backend behind the same guards.
  \<^item> \<open>Rzi_Registry\<close>: the callback slots refine a bounded set (locale \<open>bounded_registry\<close>).
  \<^item> \<open>Rzi_Dispatch\<close>: the queue, delivery, draining, and the join sequence as a counter.
  \<^item> \<open>Rzi_Service\<close>: API calls, backend events and dispatcher iterations as an inductive step relation, with
    the invariant of the whole service.
  \<^item> \<open>Rzi_Fuota\<close>: all of \<^verbatim>\<open>lorawan_fuota.c\<close>, over an extension of the state of the LoRaWAN service.
  \<^item> \<open>Rzi_Lora\<close>: all of \<^verbatim>\<open>lora.c\<close>.
  \<^item> \<open>Rzi_Usp\<close>: all of \<^verbatim>\<open>usp_platform.c\<close>, with the loop over pending modem events; \<open>Rzi_Lora_Usp\<close>: all of \<^verbatim>\<open>lora_backend_usp.c\<close> (locales
    \<open>usp_frame\<close> and \<open>usp_frame_send\<close>: what every function of the table keeps); \<open>Rzi_Lora_Radio\<close>: the contract of a LoRa backend (locales
    \<open>radio_backend\<close> and \<open>configured_radio\<close>) and its interpretations, the LoRa service composed with it; \<open>Rzi_Lora_Usp_Runs\<close>: runs of
    service calls and radio interrupts; \<open>Rzi_Lora_Backends\<close>: all of \<^verbatim>\<open>lora_backend_zephyr.c\<close> and \<^verbatim>\<open>lora_backend_test.c\<close>.
  \<^item> \<open>Rzi_Lw_Backend\<close>: the contract of a LoRaWAN backend on uplinks (locale \<open>uplink_accounting\<close>), which both backends interpret.
  \<^item> \<open>Rzi_Lw_Usp\<close>: the seven files of \<^verbatim>\<open>lorawan/backend/usp/\<close>; \<open>Rzi_Lw_Usp_Runs\<close>: runs of table calls, modem activity and modem
    events, with what a step publishes and keeps, and the event pump of the platform layer as such a run; \<open>Rzi_Lw_Usp_Link\<close>: downlinks, the multicast table as
    a multiset, the join backoff.
  \<^item> \<open>Rzi_Lw_Zephyr\<close>: the four files of \<^verbatim>\<open>lorawan/backend/zephyr/\<close>, with the two work handlers and the send
    operation cut wherever the lock of the file is not held; \<open>Rzi_Lw_Zephyr_Runs\<close>: runs of backend calls, work items and driver callbacks.
  \<^item> \<open>Rzi_Cstring\<close>: the C library functions on strings that the AT commands use.
  \<^item> \<open>Rzi_At\<close>: \<^verbatim>\<open>at.c\<close>, \<^verbatim>\<open>at_parser.c\<close>, \<^verbatim>\<open>at_registry.c\<close>; \<open>Rzi_At_Mode\<close>: \<^verbatim>\<open>at_network_mode.c\<close>; \<open>Rzi_At_Uart\<close>:
    \<^verbatim>\<open>at_adapter_uart.c\<close>; \<open>Rzi_At_System\<close>: \<^verbatim>\<open>at_command_system.c\<close>.
  \<^item> \<open>Rzi_At_Lorawan\<close>: \<^verbatim>\<open>at_lorawan.c\<close>, the AT and the LoRaWAN service on one storage (\<open>lw_view\<close>, \<open>lw_unview\<close>) and the hexadecimal notation
    (locale \<open>text_codec\<close>); \<open>Rzi_At_Lorawan_Keys\<close>, \<open>Rzi_At_Lorawan_Join\<close>, \<open>Rzi_At_Lorawan_Net\<close>, \<open>Rzi_At_Lorawan_Link\<close>: the eight groups
    of commands (locale \<open>lw_setting\<close>: what is written is read back) and their registration; \<open>Rzi_At_Lorawan_Lines\<close>: command
    lines from the text to the answer.
  \<^item> \<open>Rzi_At_Lora\<close>: the handlers of \<^verbatim>\<open>at_lora.c\<close>, \<^verbatim>\<open>at_lora_p2p.c\<close> and \<^verbatim>\<open>at_lora_test.c\<close>; \<open>Rzi_At_Lora_Link\<close>: their tables, registration and
    callbacks; \<open>Rzi_At_Lora_Lines\<close>: runs of the package as a step relation, its parameters (locale \<open>lora_parameter\<close>), and messages
    between two devices.

  \<^bold>\<open>Correspondence.\<close> A definition has the name of the C function, a record the fields of the structure or of
  the static variables of the file. State is passed explicitly; functions return their code with
  the new state. A null pointer is \<open>None\<close>; an out-parameter is an optional cell whose new value is returned. Integers
  are words of their width where wrap-around can matter, otherwise \<open>nat\<close> or \<open>int\<close>. Code outside
  the repository (Zephyr's settings, NVS, CRC, message queue, ring buffer, UART driver, the radio stacks
  behind the backend table, callbacks of applications) is a field of an environment record; what a
  theorem needs of it is a named hypothesis (\<open>settings_lawful\<close>, \<open>msgq_fifo\<close>, \<open>ring_fifo\<close>,
  \<open>listener_neutral\<close> and others), and every theorem with a hypothesis has a witness on a concrete environment.

  \<^bold>\<open>What the lemmas show.\<close> Power: no sequence of calls over-releases, the policy references equal the
  counters. Storage: values and records come back and names are isolated (up to namespaces and keys with a
  slash that compose to the same name), a record read accepts only an
  exact image, the flash lock is neutral on every path. Settings and credentials: reads give valid
  values, which agree with flash except for keys (\<open>D\<close>) that a factory reset deleted before it failed; writes survive a
  restart, but for one that repeats the cached value of such a key; a running join locks credentials, the
  factory reset forgets them, and the configuration of a join says what the settings say. Service: the invariant over all sequences of steps, torn factory resets included, delivery in
  order and once, a bounded queue with loss reported, a draining dispatcher also during a join, a join sequence that is
  a counter and ends, a balanced Class C reference, guarded uplinks and forwarding. FUOTA: the flash lock is
  held exactly while a transfer or an installation runs, and an image that was copied with success is in the slot itself, flushed out of its buffer. LoRa: a payload
  sent is the payload handed to the backend, and the configuration kept is in range. Backends: over every
  interleaving with the radio's interrupts the engine receives and transmits with the configuration of the service, a payload accepted stays in the
  transmit buffer until it completes, is stopped or a radio test aborts it, a timed reception ends at its deadline, a message crosses from one device to the other, and pumping the
  modem's events returns with every event handled; over Zephyr every accepted uplink is completed once and the stack is called with what was sent, joins and uplinks exclude each
  other, and after a leave at most one more result of the join comes out, a failure only when its handler was past the lock; over Semtech's stack uplinks balance with completions and
  those lost to a reset, class B events track the state, every waiting downlink is published in order, the multicast table is a
  multiset without keys, and no run calls a sink that is not set or hangs. AT: the grammar, lines executed as
  typed and never beyond the buffer, an input loop that returns, a registry without duplicates, a
  lock opened by the password only, a password and a working mode that survive a restart. LoRaWAN commands: the start registers the whole command set, keys typed are
  keys shown, an uplink is what was typed, a downlink is given once, join parameters are in range, the channel mask reads
  back, a factory reset leaves no LoRaWAN setting and none of the AT settings it covers in the storage. P2P commands: the radio configuration stays in range over every run, parameters
  read back, a configuration can be copied as text, the radio is refused in the LoRaWAN mode, and a message typed on one device is printed by
  the other. Some properties record defects: leaving during a join keeps the credential lock, a locked port discloses its password, a
  firmware image that was overwritten can still be applied, a channel mask of all blocks reads back with one bit more, a receive test over
  Semtech's stack cannot be stopped, an uplink that is pending when the modem resets is never completed, and a leave
  over Zephyr in the last moment of a failed attempt leaves the join pending for good.

  \<^bold>\<open>Bounds and fuel.\<close> No definition uses fuel. Loops over data are structural recursions, or (the loops that
  copy a firmware image and that read lists of numbers) a \<open>function\<close> with its termination proof; the
  loops over the ring buffer, the UART, the pending modem events and the pending downlinks are \<open>partial_function (option)\<close>, and all but
  the UART's are proved to return. The
  sizes of queues, buffers and tables are parameters of the environment.

  \<^bold>\<open>Atomicity.\<close> The code has no lock around a whole call of the LoRaWAN service: the settings, the credentials, the
  event queue and the registry have locks of their own, and nothing covers a join sequence, a backend worker or the
  publication of an event. In \<open>Rzi_Service\<close> a call, a published event and one dispatcher iteration are nevertheless single steps. This is an
  assumption of the model: the theorems cover every order of them and not their overlap, and \<open>begin_join_overlap\<close> shows an
  overlap of \<^verbatim>\<open>begin_join\<close> and the dispatcher that the code permits and that breaks the invariant. The same holds for the
  FUOTA service and the AT service, whose steps are whole handlers. In the Zephyr backend the steps are finer: the
  work handlers and the send operation are cut at every point where the lock of the file is not held (taking the item, each locked
  section, the call into the stack, publishing, returning), so calls can fall between any two of them. Of the backends over Semtech's stack
  operations and callbacks run under the recursive lock of the platform layer, except for the completion flag and the kernel queue of received packets,
  which \<^verbatim>\<open>usp_stop\<close> and \<^verbatim>\<open>usp_poll\<close> access without it; the model makes them part of one step. A factory reset that fails part way is a step of the
  service (\<open>torn\<close>); the keys it left stale are the set \<open>D\<close> of the invariants. A reboot sets a flag of the state; what it
  re-initialises is treated where a theorem speaks of a restart, by a state with nothing cached over the same flash contents.

  \<^bold>\<open>Not modelled.\<close> The initialisation, version and BLE adapter glue. Device drivers, sample
  applications, tests and build glue are outside its scope.
\<close>

end
